(* ===== verification/Prelude.thy ===== *)
theory Prelude
  imports Main
begin

text \<open>
  Shared vocabulary of the development: the Python values the program keeps in
  dictionaries and in JSON documents, the operators the code applies to them
  (\<^verbatim>\<open>d.get(k)\<close>, \<^verbatim>\<open>a or b\<close>, \<^verbatim>\<open>bool(a)\<close>, \<^verbatim>\<open>str(a)\<close>, \<^verbatim>\<open>int(a)\<close>), and the
  collections of simplification rules the component theories fill.

  Conventions. A dictionary is a partial map from its string keys. An instant is an
  \<^typ>\<open>int\<close> number of microseconds since the epoch (Python's \<^verbatim>\<open>datetime\<close> resolution).
  A timestamp stored in a document is the \<^verbatim>\<open>isoformat()\<close> text of an aware UTC
  datetime; the value \<open>JTime t\<close> stands for the text of instant \<open>t\<close>, so
  \<^verbatim>\<open>datetime.fromisoformat\<close> on it is the instant, and any other string is one that
  does not parse. A token, a hash digest or a random identifier is opaque.
\<close>

named_theorems key_simps \<open>distinctness of the Redis keys\<close>
named_theorems store_simps \<open>what a read returns after a write\<close>
named_theorems doc_simps \<open>field lookups in the documents the program builds\<close>

section \<open>Python values and dictionaries\<close>

datatype json =
    JNull
  | JBool bool
  | JInt int
  | JStr string
  | JTime int
  | JList "json list"
  | JObj "string \<Rightarrow> json option"

type_synonym dict = "string \<Rightarrow> json option"

text \<open>\<^verbatim>\<open>d.get(k)\<close> and \<^verbatim>\<open>d.get(k, x)\<close>.\<close>

definition dget :: "dict \<Rightarrow> string \<Rightarrow> json" where
  "dget d k = (case d k of None \<Rightarrow> JNull | Some v \<Rightarrow> v)"

definition dget_default :: "dict \<Rightarrow> string \<Rightarrow> json \<Rightarrow> json" where
  "dget_default d k x = (case d k of None \<Rightarrow> x | Some v \<Rightarrow> v)"

text \<open>\<^verbatim>\<open>bool(v)\<close>.\<close>

fun truthy :: "json \<Rightarrow> bool" where
  "truthy JNull = False"
| "truthy (JBool b) = b"
| "truthy (JInt i) = (i \<noteq> 0)"
| "truthy (JStr s) = (s \<noteq> [])"
| "truthy (JTime t) = True"
| "truthy (JList xs) = (xs \<noteq> [])"
| "truthy (JObj d) = (d \<noteq> Map.empty)"

text \<open>\<^verbatim>\<open>a or b\<close>.\<close>

definition py_or :: "json \<Rightarrow> json \<Rightarrow> json" where
  "py_or a b = (if truthy a then a else b)"

text \<open>
  \<^verbatim>\<open>str(v)\<close>. Decimal digits for integers; for a stored timestamp the text is already
  that of the instant, and the only fact used is that it is a function of the instant.
  The program applies \<^verbatim>\<open>str\<close> to identifiers, scopes and counters, never to a container.
\<close>

fun nat_text :: "nat \<Rightarrow> string" where
  "nat_text n =
     (if n < 10 then [char_of (48 + n)] else nat_text (n div 10) @ [char_of (48 + n mod 10)])"

declare nat_text.simps [simp del]

definition int_text :: "int \<Rightarrow> string" where
  "int_text i = (if i < 0 then ''-'' @ nat_text (nat (- i)) else nat_text (nat i))"

fun py_str :: "json \<Rightarrow> string" where
  "py_str JNull = ''None''"
| "py_str (JBool b) = (if b then ''True'' else ''False'')"
| "py_str (JInt i) = int_text i"
| "py_str (JStr s) = s"
| "py_str (JTime t) = int_text t"
| "py_str (JList xs) = ''[]''"
| "py_str (JObj d) = ''{}''"

text \<open>
  \<^verbatim>\<open>int(v)\<close> where the code applies it to a number of seconds kept in a document; a
  value that is not a number makes Python raise, the model says \<open>None\<close>.
\<close>

fun py_int :: "json \<Rightarrow> int option" where
  "py_int (JInt i) = Some i"
| "py_int (JBool b) = Some (if b then 1 else 0)"
| "py_int _ = None"

text \<open>An optional string argument as a value of a document.\<close>

fun json_of :: "string option \<Rightarrow> json" where
  "json_of None = JNull"
| "json_of (Some s) = JStr s"

section \<open>Documents\<close>

text \<open>\<^verbatim>\<open>if not doc\<close>: a missing or an empty document is false.\<close>

definition nonempty_doc :: "dict option \<Rightarrow> dict option" where
  "nonempty_doc x = (case x of None \<Rightarrow> None | Some d \<Rightarrow> if d = Map.empty then None else Some d)"

text \<open>\<^verbatim>\<open>d.update(e)\<close> is the library's map addition; a field lookup in it looks in \<open>e\<close> first.\<close>

lemma dget_add: "dget (d ++ e) k = (if e k = None then dget d k else dget e k)"
  by (auto simp: dget_def map_add_def split: option.split)

lemma dget_upd [simp]: "dget (d(k \<mapsto> v)) k' = (if k' = k then v else dget d k')"
  by (simp add: dget_def)

lemma dget_empty [simp]: "dget Map.empty k = JNull"
  by (simp add: dget_def)

lemma dget_default_upd [simp]:
  "dget_default (d(k \<mapsto> v)) k' x = (if k' = k then v else dget_default d k' x)"
  by (simp add: dget_default_def)

lemma dget_default_empty [simp]: "dget_default Map.empty k x = x"
  by (simp add: dget_default_def)

lemma py_or_true [simp]: "truthy a \<Longrightarrow> py_or a b = a"
  and py_or_false [simp]: "\<not> truthy a \<Longrightarrow> py_or a b = b"
  by (simp_all add: py_or_def)

lemma truthy_py_or: "truthy (py_or a b) \<longleftrightarrow> truthy a \<or> truthy b"
  by (simp add: py_or_def)

lemma truthy_json_of [simp]: "truthy (json_of x) \<longleftrightarrow> x \<noteq> None \<and> x \<noteq> Some []"
  by (cases x) auto

lemma nonempty_doc_Some [simp]:
  "nonempty_doc x = Some d \<longleftrightarrow> x = Some d \<and> d \<noteq> Map.empty"
  by (auto simp: nonempty_doc_def split: option.splits if_splits)

lemma nonempty_doc_None: "nonempty_doc x = None \<longleftrightarrow> x = None \<or> x = Some Map.empty"
  by (auto simp: nonempty_doc_def split: option.splits if_splits)

lemma nonempty_doc_of_Some [simp]: "d \<noteq> Map.empty \<Longrightarrow> nonempty_doc (Some d) = Some d"
  by simp

lemma nonempty_doc_of_None [simp]: "nonempty_doc None = None"
  by (simp add: nonempty_doc_def)

section \<open>Results\<close>

text \<open>
  An exception is a value: \<^verbatim>\<open>HTTPException(status, detail)\<close> is the only one the
  authentication core raises on purpose.
\<close>

record http_error =
  status_code :: int
  detail :: string

type_synonym 'a result = "http_error + 'a"

section \<open>Lists\<close>

lemma foldl_invariant:
  assumes "P a" and "\<And>a x. P a \<Longrightarrow> x \<in> set xs \<Longrightarrow> P (f a x)"
  shows "P (foldl f a xs)"
  using assms by (induction xs arbitrary: a) auto

end
