(* ===== verification/Text.thy ===== *)
theory Text
  imports Prelude
begin

text \<open>
  Python's string methods as the program uses them. A \<^typ>\<open>char\<close> stands for the code point of the
  same number, so a \<^typ>\<open>string\<close> is a Python string whose characters are below 256; on those the
  definitions are what \<^verbatim>\<open>str.lower\<close>, \<^verbatim>\<open>str.strip\<close>, \<^verbatim>\<open>str.replace\<close> (of one character),
  \<^verbatim>\<open>str.startswith\<close> and \<^verbatim>\<open>in\<close> compute.
\<close>

named_theorems text_simps \<open>evaluation of string methods\<close>

abbreviation code_point :: "char \<Rightarrow> nat" where
  "code_point c \<equiv> of_char c"

definition is_space :: "char \<Rightarrow> bool" where
  "is_space c \<longleftrightarrow> (let n = code_point c in 9 \<le> n \<and> n \<le> 13 \<or> 28 \<le> n \<and> n \<le> 32 \<or> n = 133 \<or> n = 160)"

definition lower_char :: "char \<Rightarrow> char" where
  "lower_char c =
     (let n = code_point c
      in if 65 \<le> n \<and> n \<le> 90 \<or> 192 \<le> n \<and> n \<le> 222 \<and> n \<noteq> 215 then char_of (n + 32) else c)"

definition str_lower :: "string \<Rightarrow> string" where
  "str_lower s = map lower_char s"

definition str_lstrip :: "string \<Rightarrow> string" where
  "str_lstrip s = dropWhile is_space s"

definition str_strip :: "string \<Rightarrow> string" where
  "str_strip s = rev (dropWhile is_space (rev (dropWhile is_space s)))"

definition replace_char :: "char \<Rightarrow> char \<Rightarrow> string \<Rightarrow> string" where
  "replace_char a b s = map (\<lambda>c. if c = a then b else c) s"

definition starts_with :: "'a list \<Rightarrow> 'a list \<Rightarrow> bool" where
  "starts_with s p = (take (length p) s = p)"

text \<open>\<^verbatim>\<open>p in s\<close> on strings.\<close>

fun occurs_in :: "string \<Rightarrow> string \<Rightarrow> bool" where
  "occurs_in p [] = (p = [])"
| "occurs_in p (c # s) = (starts_with (c # s) p \<or> occurs_in p s)"

lemmas str_defs = str_lower_def str_strip_def replace_char_def lower_char_def is_space_def Let_def

text \<open>\<^verbatim>\<open>str(value or "").strip().lower()\<close>.\<close>

definition normalize_text :: "json \<Rightarrow> string" where
  "normalize_text v = str_lower (str_strip (py_str (py_or v (JStr []))))"

text \<open>
  \<^verbatim>\<open>str(value).strip() or None\<close> for a value that is not \<^verbatim>\<open>None\<close>, and \<^verbatim>\<open>None\<close> for \<^verbatim>\<open>None\<close>: the
  module-local helpers \<^verbatim>\<open>_clean_optional_text\<close>, \<^verbatim>\<open>_clean_text\<close>, \<^verbatim>\<open>_text_or_none\<close>.
\<close>

definition clean_text :: "json \<Rightarrow> string option" where
  "clean_text v =
     (if v = JNull then None else let t = str_strip (py_str v) in if t = [] then None else Some t)"

lemma clean_text_code [code]:
  "clean_text v = (case v of JNull \<Rightarrow> None | _ \<Rightarrow> let t = str_strip (py_str v) in if t = [] then None else Some t)"
  by (cases v) (simp_all add: clean_text_def)

text \<open>\<^verbatim>\<open>int(value)\<close>: a number, or decimal text with an optional sign and single underscores between digits.\<close>

definition is_digit :: "char \<Rightarrow> bool" where
  "is_digit c \<longleftrightarrow> 48 \<le> code_point c \<and> code_point c \<le> 57"

fun parse_digits :: "int \<Rightarrow> bool \<Rightarrow> string \<Rightarrow> int option" where
  "parse_digits acc after_digit [] = (if after_digit then Some acc else None)"
| "parse_digits acc after_digit (c # s) =
     (if is_digit c then parse_digits (acc * 10 + int (code_point c - 48)) True s
      else if c = CHR ''_'' \<and> after_digit then parse_digits acc False s
      else None)"

definition parse_int :: "string \<Rightarrow> int option" where
  "parse_int t =
     (case str_strip t of
        [] \<Rightarrow> None
      | c # s \<Rightarrow> if c = CHR ''-'' then map_option uminus (parse_digits 0 False s)
                else if c = CHR ''+'' then parse_digits 0 False s
                else parse_digits 0 False (c # s))"

fun int_of :: "json \<Rightarrow> int option" where
  "int_of (JInt i) = Some i"
| "int_of (JBool b) = Some (if b then 1 else 0)"
| "int_of (JStr t) = parse_int t"
| "int_of _ = None"

text \<open>\<^verbatim>\<open>_coerce_int\<close>: a boolean or a value that is not a number gives the default.\<close>

definition coerce_int :: "json \<Rightarrow> int \<Rightarrow> int" where
  "coerce_int v d = (case v of JBool _ \<Rightarrow> d | _ \<Rightarrow> (case int_of v of Some i \<Rightarrow> i | None \<Rightarrow> d))"

text \<open>\<^verbatim>\<open>replace(microsecond=0)\<close> on an instant in microseconds.\<close>

definition whole_second_of :: "int \<Rightarrow> int" where
  "whole_second_of t = t - t mod 1000000"

text \<open>The \<^verbatim>\<open>_parse_datetime\<close> of the billing and Patreon modules.\<close>

definition parse_instant :: "json \<Rightarrow> int option" where
  "parse_instant v = (case v of JTime t \<Rightarrow> Some (whole_second_of t) | _ \<Rightarrow> None)"

fun json_time :: "int option \<Rightarrow> json" where
  "json_time None = JNull"
| "json_time (Some t) = JTime t"

section \<open>Laws\<close>

lemma normalize_text_JStr: "normalize_text (JStr s) = str_lower (str_strip s)"
  by (cases s) (simp_all add: normalize_text_def)

lemma whole_second_of_idem [simp]: "whole_second_of (whole_second_of t) = whole_second_of t"
  by (simp add: whole_second_of_def mod_diff_left_eq [symmetric])

lemma parse_instant_json_time [simp]:
  "parse_instant (json_time (parse_instant v)) = parse_instant v"
  by (cases v) (simp_all add: parse_instant_def)

lemma coerce_int_JInt [simp]: "coerce_int (JInt i) d = i"
  by (simp add: coerce_int_def)

lemma lower_char_idem [simp]: "lower_char (lower_char c) = lower_char c"
  by (simp add: lower_char_def Let_def split: if_splits)

lemma str_lower_idem [simp]: "str_lower (str_lower s) = str_lower s"
  by (simp add: str_lower_def comp_def)

lemma lower_char_space [simp]: "is_space (lower_char c) = is_space c"
  by (simp add: lower_char_def is_space_def Let_def)

lemma dropWhile_map_lower: "dropWhile is_space (map lower_char s) = map lower_char (dropWhile is_space s)"
  by (simp add: dropWhile_map comp_def)

lemma str_lower_strip: "str_strip (str_lower s) = str_lower (str_strip s)"
  by (simp add: str_strip_def str_lower_def dropWhile_map_lower rev_map)

lemma dropWhile_idem [simp]: "dropWhile P (dropWhile P s) = dropWhile P s"
  by (induction s) auto

lemma dropWhile_rev_dropWhile:
  "dropWhile P s = s \<Longrightarrow> dropWhile P (rev (dropWhile P (rev s))) = rev (dropWhile P (rev s))"
proof (cases "rev (dropWhile P (rev s))")
  case (Cons a t)
  assume s: "dropWhile P s = s"
  have "s = rev (dropWhile P (rev s)) @ rev (takeWhile P (rev s))"
    by (metis rev_append rev_rev_ident takeWhile_dropWhile_id)
  then obtain u where "s = a # u" by (simp add: Cons)
  with s have "\<not> P a" by (metis dropWhile.simps(2) dropWhile_eq_self_iff list.sel(1) list.distinct(1))
  with Cons show ?thesis by simp
next
  case Nil
  show ?thesis by (simp only: Nil dropWhile.simps)
qed

lemma str_strip_idem [simp]: "str_strip (str_strip s) = str_strip s"
  by (simp add: str_strip_def dropWhile_rev_dropWhile)

lemma starts_with_append [simp]: "starts_with (p @ s) p"
  by (simp add: starts_with_def)

lemma starts_with_iff: "starts_with s p \<longleftrightarrow> (\<exists>t. s = p @ t)"
  unfolding starts_with_def by (metis append_eq_conv_conj append_take_drop_id)

lemma clean_text_Some: "clean_text v = Some t \<Longrightarrow> str_strip t = t \<and> t \<noteq> []"
  by (auto simp: clean_text_def Let_def split: if_splits)

lemma clean_text_json_of [simp]: "clean_text (json_of (clean_text v)) = clean_text v"
proof (cases "clean_text v")
  case (Some t)
  with clean_text_Some [OF Some] show ?thesis by (simp add: clean_text_def)
qed (simp add: clean_text_def)

text \<open>Printing an integer and reading it back.\<close>

lemma parse_digits_nat_text:
  "parse_digits acc b (nat_text n @ s) = parse_digits (acc * 10 ^ length (nat_text n) + int n) True s"
proof (induction n arbitrary: acc b s rule: nat_text.induct)
  case (1 n)
  show ?case
  proof (cases "n < 10")
    case True
    then show ?thesis by (simp add: nat_text.simps [of n] is_digit_def)
  next
    case False
    have "48 + n mod 10 < 256" by (rule less_trans [of _ 58]) simp_all
    then have d: "code_point (char_of (48 + n mod 10)) = 48 + n mod 10" by simp
    then have "is_digit (char_of (48 + n mod 10))" using pos_mod_bound [of 10 "int n"] by (simp add: is_digit_def del: of_char_of)
    moreover have "int n = int (n div 10) * 10 + int (n mod 10)" by (metis div_mult_mod_eq mult.commute of_nat_add of_nat_mult of_nat_numeral)
    ultimately show ?thesis
      using False 1 d by (simp add: nat_text.simps [of n] algebra_simps del: of_char_of)
  qed
qed

lemma nat_text_digits: "c \<in> set (nat_text n) \<Longrightarrow> is_digit c"
proof (induction n rule: nat_text.induct)
  case (1 n)
  have "n mod 10 < 10" by simp
  with 1 show ?case by (cases "n < 10") (auto simp: nat_text.simps [of n] is_digit_def)
qed

lemma nat_text_nonempty [simp]: "nat_text n \<noteq> []"
  by (simp add: nat_text.simps [of n])

lemma str_strip_id: "(\<And>c. c \<in> set s \<Longrightarrow> \<not> is_space c) \<Longrightarrow> str_strip s = s"
proof -
  assume a: "\<And>c. c \<in> set s \<Longrightarrow> \<not> is_space c"
  then have "dropWhile is_space s = s" "dropWhile is_space (rev s) = rev s"
    by (metis dropWhile_eq_self_iff list.set_sel(1)) (metis a dropWhile_eq_self_iff list.set_sel(1) set_rev)
  then show ?thesis by (simp add: str_strip_def)
qed

lemma digit_not_space: "is_digit c \<Longrightarrow> \<not> is_space c"
  by (auto simp: is_digit_def is_space_def Let_def)

lemma parse_int_nat_text: "parse_int (nat_text n) = Some (int n)"
proof -
  have strip: "str_strip (nat_text n) = nat_text n"
    by (rule str_strip_id) (blast dest: nat_text_digits digit_not_space)
  obtain c s where t: "nat_text n = c # s" by (cases "nat_text n") simp_all
  then have "is_digit c" using nat_text_digits [of c n] by simp
  then have "c \<noteq> CHR ''-''" "c \<noteq> CHR ''+''" by (auto simp: is_digit_def)
  with strip t parse_digits_nat_text [of 0 False n "[]"] show ?thesis by (simp add: parse_int_def)
qed

lemma parse_int_int_text [simp]: "parse_int (int_text i) = Some i"
proof (cases "i < 0")
  case True
  have "str_strip (CHR ''-'' # nat_text (nat (- i))) = CHR ''-'' # nat_text (nat (- i))"
    using digit_not_space nat_text_digits by (intro str_strip_id) (fastforce simp: is_space_def [of "CHR ''-''"])
  with True parse_digits_nat_text [of 0 False "nat (- i)" "[]"] show ?thesis by (simp add: parse_int_def int_text_def)
qed (simp add: int_text_def parse_int_nat_text)

end
