(* ===== verification/Admin_Scope.thy ===== *)
theory Admin_Scope
  imports Text
begin

text \<open>
  The administrative scope of a caller: \<^verbatim>\<open>src/src/Util/admin_scope.py\<close>. The database functions
  the module looks up through the package at call time are the fields of \<open>admin_db\<close>; a row is a
  dictionary, an identifier any value \<^verbatim>\<open>str\<close> is applied to. The \<open>details\<close> of an error (masked
  identifiers) are left out; its message and code are kept.
\<close>

section \<open>Errors\<close>

datatype error_code =
    INSUFFICIENT_PERMISSIONS
  | PROJECT_ACCESS_DENIED
  | ACCESS_DENIED
  | MISSING_REQUIRED_FIELD
  | PROJECT_NOT_FOUND
  | GROUP_NOT_FOUND
  | SESSION_INVALID

datatype app_error =
    AuthorizationError string error_code
  | ValidationError string error_code
  | NotFoundError string error_code
  | AuthenticationError string error_code
  | ServerError string

section \<open>Names as the database compares them\<close>

text \<open>
  \<^verbatim>\<open>unicodedata.normalize("NFKD", .)\<close> without combining marks, then \<^verbatim>\<open>casefold\<close>, of one code point
  below 256: a letter with an accent becomes its base letter, superscripts and ordinals become
  their plain forms, a spacing accent becomes a space, a vulgar fraction becomes digit, fraction
  slash (8260), digit, the micro sign becomes the Greek mu (956), and the sharp s becomes two s.
  A collation key is the list of code points.
\<close>

definition fold_letter :: "nat \<Rightarrow> nat" where
  "fold_letter n =
     (if 65 \<le> n \<and> n \<le> 90 then n + 32
      else if 192 \<le> n \<and> n \<le> 197 \<or> 224 \<le> n \<and> n \<le> 229 then 97
      else if n = 199 \<or> n = 231 then 99
      else if 200 \<le> n \<and> n \<le> 203 \<or> 232 \<le> n \<and> n \<le> 235 then 101
      else if 204 \<le> n \<and> n \<le> 207 \<or> 236 \<le> n \<and> n \<le> 239 then 105
      else if n = 209 \<or> n = 241 then 110
      else if 210 \<le> n \<and> n \<le> 214 \<or> 242 \<le> n \<and> n \<le> 246 then 111
      else if 217 \<le> n \<and> n \<le> 220 \<or> 249 \<le> n \<and> n \<le> 252 then 117
      else if n = 221 \<or> n = 253 \<or> n = 255 then 121
      else if n = 198 \<or> n = 208 \<or> n = 216 \<or> n = 222 then n + 32
      else n)"

definition fold_code_point :: "nat \<Rightarrow> nat list" where
  "fold_code_point n =
     (if n \<in> {160, 168, 175, 180, 184} then [32]
      else if n = 170 then [97] else if n = 186 then [111]
      else if n = 185 then [49] else if n = 178 then [50] else if n = 179 then [51]
      else if n = 181 then [956]
      else if n = 188 then [49, 8260, 52] else if n = 189 then [49, 8260, 50] else if n = 190 then [51, 8260, 52]
      else if n = 223 then [115, 115]
      else [fold_letter n])"

definition is_space_point :: "nat \<Rightarrow> bool" where
  "is_space_point n \<longleftrightarrow> 9 \<le> n \<and> n \<le> 13 \<or> 28 \<le> n \<and> n \<le> 32 \<or> n = 133 \<or> n = 160"

definition strip_points :: "nat list \<Rightarrow> nat list" where
  "strip_points s = rev (dropWhile is_space_point (rev (dropWhile is_space_point s)))"

definition collation_key :: "json \<Rightarrow> nat list" where
  "collation_key value =
     strip_points (concat (map (fold_code_point \<circ> of_char) (py_str (py_or value (JStr [])))))"

definition points :: "string \<Rightarrow> nat list" where
  "points s = map of_char s"

definition RESERVED_PERMISSION_NAMES :: "string list" where
  "RESERVED_PERMISSION_NAMES =
     [''admin'', ''global_admin'', ''project_admin'', ''unrestricted_access'', ''manage_users'', ''manage_roles'',
      ''manage_permissions'', ''manage_groups'', ''manage_billing'']"

definition PROJECT_ADMIN_GROUP_PREFIX :: string where "PROJECT_ADMIN_GROUP_PREFIX = ''admin_''"

definition is_reserved_permission_name :: "json \<Rightarrow> bool" where
  "is_reserved_permission_name name \<longleftrightarrow> collation_key name \<in> set (map points RESERVED_PERMISSION_NAMES)"

definition is_project_admin_group_name :: "json \<Rightarrow> bool" where
  "is_project_admin_group_name name = starts_with (collation_key name) (points PROJECT_ADMIN_GROUP_PREFIX)"

section \<open>The database boundary\<close>

text \<open>\<open>None\<close> stands for the \<^verbatim>\<open>None\<close> of a failed list query; the code reads it as empty.\<close>

record admin_db =
  get_user_type :: "string \<Rightarrow> string option"
  get_admin_assigned_projects :: "string \<Rightarrow> json list option"
  get_user_accessible_projects :: "string \<Rightarrow> dict list option"
  get_permission_group_permissions :: "json \<Rightarrow> dict list option"
  get_role_permission_groups :: "json \<Rightarrow> dict list option"

definition or_empty :: "'a list option \<Rightarrow> 'a list" where
  "or_empty x = (case x of None \<Rightarrow> [] | Some xs \<Rightarrow> xs)"

definition group_grants_reserved_permission :: "admin_db \<Rightarrow> dict option \<Rightarrow> bool" where
  "group_grants_reserved_permission A grp =
     (case nonempty_doc grp of
        None \<Rightarrow> False
      | Some g \<Rightarrow>
          list_ex (\<lambda>p. is_reserved_permission_name (dget p ''permission_name''))
            (or_empty (get_permission_group_permissions A (dget g ''id''))))"

definition role_grants_reserved_permission :: "admin_db \<Rightarrow> dict option \<Rightarrow> bool" where
  "role_grants_reserved_permission A role =
     (case nonempty_doc role of
        None \<Rightarrow> False
      | Some r \<Rightarrow>
          list_ex (\<lambda>g. group_grants_reserved_permission A (Some g))
            (or_empty (get_role_permission_groups A (dget r ''id''))))"

section \<open>Scopes\<close>

record admin_scope =
  scope_user_id :: string
  scope_user_type :: "string option"
  scope_project_ids :: "string set"

definition ROOT_USER_TYPE :: string where "ROOT_USER_TYPE = ''root''"
definition ADMIN_USER_TYPE :: string where "ADMIN_USER_TYPE = ''admin''"

definition is_root :: "admin_scope \<Rightarrow> bool" where
  "is_root scope \<longleftrightarrow> scope_user_type scope = Some ROOT_USER_TYPE"

definition is_admin :: "admin_scope \<Rightarrow> bool" where
  "is_admin scope \<longleftrightarrow> scope_user_type scope \<in> {Some ROOT_USER_TYPE, Some ADMIN_USER_TYPE}"

definition allows_project :: "admin_scope \<Rightarrow> json \<Rightarrow> bool" where
  "allows_project scope project_id =
     (if is_root scope then True
      else scope_user_type scope = Some ADMIN_USER_TYPE \<and> project_id \<noteq> JNull \<and>
           py_str project_id \<in> scope_project_ids scope)"

definition allows_all_projects :: "admin_scope \<Rightarrow> json list \<Rightarrow> bool" where
  "allows_all_projects scope ids = list_all (allows_project scope) ids"

definition resolve_admin_scope :: "admin_db \<Rightarrow> json \<Rightarrow> admin_scope" where
  "resolve_admin_scope A user_id =
     (let uid = py_str (py_or user_id (JStr []));
          ut = (if uid = [] then None else get_user_type A uid);
          ids = (if ut = Some ADMIN_USER_TYPE
                 then set (map py_str (or_empty (get_admin_assigned_projects A uid))) else {})
      in \<lparr>scope_user_id = uid, scope_user_type = ut, scope_project_ids = ids\<rparr>)"

definition require_admin_scope :: "admin_scope \<Rightarrow> app_error + admin_scope" where
  "require_admin_scope scope =
     (if \<not> is_admin scope
      then Inl (AuthorizationError ''Root or admin user access required'' INSUFFICIENT_PERMISSIONS)
      else Inr scope)"

definition require_project_in_scope :: "admin_scope \<Rightarrow> dict \<Rightarrow> app_error + unit" where
  "require_project_in_scope scope project =
     (if \<not> allows_project scope (dget project ''id'')
      then Inl (AuthorizationError ''Access denied: project not in your administrative scope'' PROJECT_ACCESS_DENIED)
      else Inr ())"

definition user_in_scope :: "admin_db \<Rightarrow> admin_scope \<Rightarrow> json \<Rightarrow> json \<Rightarrow> bool" where
  "user_in_scope A scope target_user_id target_user_type =
     (if is_root scope then True
      else if scope_user_type scope \<noteq> Some ADMIN_USER_TYPE \<or> target_user_id = JNull then False
      else if py_str target_user_id = scope_user_id scope then True
      else
        let ut = (if target_user_type = JNull then json_of (get_user_type A (py_str target_user_id))
                  else target_user_type)
        in if ut = JStr ROOT_USER_TYPE then False
           else list_ex (\<lambda>p. py_str (dget p ''id'') \<in> scope_project_ids scope)
                  (or_empty (get_user_accessible_projects A (py_str target_user_id))))"

definition require_user_in_scope :: "admin_db \<Rightarrow> admin_scope \<Rightarrow> dict \<Rightarrow> app_error + unit" where
  "require_user_in_scope A scope target =
     (if \<not> user_in_scope A scope (dget target ''id'') (dget target ''user_type'')
      then Inl (AuthorizationError ''Access denied: user not in your administrative scope'' ACCESS_DENIED)
      else Inr ())"

lemmas user_types = ROOT_USER_TYPE_def ADMIN_USER_TYPE_def

section \<open>Look-alike names\<close>

text \<open>Two names the database cannot tell apart character by character.\<close>

definition lookalike :: "string \<Rightarrow> string \<Rightarrow> bool" where
  "lookalike a b = list_all2 (\<lambda>c d. fold_code_point (of_char c) = fold_code_point (of_char d)) a b"

definition blank :: "string \<Rightarrow> bool" where
  "blank s = list_all (\<lambda>c. is_space_point (of_char c)) s"

lemma fold_space_point: "is_space_point n \<Longrightarrow> fold_code_point n = [if n = 160 then 32 else n]"
  unfolding is_space_point_def by (elim disjE conjE) (simp_all add: fold_code_point_def fold_letter_def)

lemma fold_space: "is_space_point n \<Longrightarrow> m \<in> set (fold_code_point n) \<Longrightarrow> is_space_point m"
  by (simp add: fold_space_point is_space_point_def split: if_splits)

lemma blank_points:
  "blank s \<Longrightarrow> \<forall>n \<in> set (concat (map (fold_code_point \<circ> of_char) s)). is_space_point n"
  by (auto simp: blank_def list_all_iff intro: fold_space)

lemma dropWhile_prefix: "\<forall>n \<in> set p. P n \<Longrightarrow> dropWhile P (p @ x) = dropWhile P x"
  by (induction p) auto

lemma dropWhile_suffix:
  "\<forall>n \<in> set q. P n \<Longrightarrow> dropWhile P (rev (dropWhile P (x @ q))) = dropWhile P (rev (dropWhile P x))"
proof (induction x)
  case Nil
  then have "dropWhile P q = []" by (simp add: dropWhile_eq_Nil_conv)
  then show ?case by (simp only: append_Nil dropWhile.simps rev.simps)
next
  case (Cons a x)
  then show ?case by (auto simp: dropWhile_prefix)
qed

lemma strip_points_pad:
  assumes "\<forall>n \<in> set p. is_space_point n" and "\<forall>n \<in> set q. is_space_point n"
  shows "strip_points (p @ x @ q) = strip_points x"
  by (simp add: strip_points_def dropWhile_prefix [OF assms(1)] dropWhile_suffix [OF assms(2)])

lemma collation_key_Str: "collation_key (JStr s) = strip_points (concat (map (fold_code_point \<circ> of_char) s))"
  by (cases s) (simp_all add: collation_key_def)

lemma lookalike_key:
  "lookalike a b \<Longrightarrow> concat (map (fold_code_point \<circ> of_char) a) = concat (map (fold_code_point \<circ> of_char) b)"
  unfolding lookalike_def by (induction rule: list_all2_induct) auto

lemma collation_key_variant:
  assumes "blank p" and "lookalike a b" and "blank q"
  shows "collation_key (JStr (p @ a @ q)) = collation_key (JStr b)"
  by (simp add: collation_key_Str strip_points_pad [OF blank_points [OF assms(1)] blank_points [OF assms(3)]]
      lookalike_key [OF assms(2)])

lemma reserved_names: "n \<in> set RESERVED_PERMISSION_NAMES \<Longrightarrow> is_reserved_permission_name (JStr n)"
  by (auto simp: RESERVED_PERMISSION_NAMES_def is_reserved_permission_name_def collation_key_Str points_def
      fold_code_point_def fold_letter_def strip_points_def is_space_point_def)

section \<open>Guarantees\<close>

text \<open>A name cannot slip past the checks by case, accents or padding: every variant of a
  reserved permission name that the database would treat as equal is reserved, and the variants
  of a name are project-admin group names exactly when the name is.\<close>

lemma lookalike_names_reserved:
  assumes "blank p" and "lookalike a b" and "blank q"
  shows "is_reserved_permission_name (JStr (p @ a @ q)) = is_reserved_permission_name (JStr b) \<and>
     is_project_admin_group_name (JStr (p @ a @ q)) = is_project_admin_group_name (JStr b) \<and>
     (b \<in> set RESERVED_PERMISSION_NAMES \<longrightarrow> is_reserved_permission_name (JStr (p @ a @ q)))"
  using collation_key_variant [OF assms] reserved_names [of b]
  by (simp add: is_reserved_permission_name_def is_project_admin_group_name_def)

theorem lookalike_names_reserved_witness:
  "is_reserved_permission_name (JStr ('' '' @ [CHR 0xC1, CHR ''D'', CHR ''m'', CHR 0xEE, CHR ''n''] @ ''  ''))"
proof -
  have "blank '' ''" "lookalike [CHR 0xC1, CHR ''D'', CHR ''m'', CHR 0xEE, CHR ''n''] ''admin''" "blank ''  ''"
    by (simp_all add: blank_def lookalike_def is_space_point_def fold_code_point_def fold_letter_def)
  moreover have "''admin'' \<in> set RESERVED_PERMISSION_NAMES" by (simp add: RESERVED_PERMISSION_NAMES_def)
  ultimately show ?thesis using lookalike_names_reserved by blast
qed

end
