(* ===== verification/Group_Scope.thy ===== *)
theory Group_Scope
  imports Admin_Scope "HOL-Library.Multiset"
begin

text \<open>
  Authorization of the group graph: \<^verbatim>\<open>src/src/Util/admin_group_scope.py\<close> and the request-owned
  transaction of \<^verbatim>\<open>src/src/Util/db_transaction.py\<close>. The tables the SQL of the module reads are the
  fields of \<open>group_tables\<close>, each query a comprehension over them. The module-level lookups the
  decorator is given, the decorated handler and the collation of \<^verbatim>\<open>ORDER BY\<close> and \<^verbatim>\<open>LIKE\<close> are
  arguments.
\<close>

section \<open>Tables\<close>

record group_row =
  g_id :: string
  g_hash :: string
  g_name :: string
  g_description :: json
  g_created_at :: int
  g_updated_at :: int
  g_is_active :: bool
  g_scope_project_id :: "string option"

record member_row =
  m_project_group_id :: string
  m_project_id :: string
  m_is_active :: bool

record link_row =
  l_user_group_id :: string
  l_project_group_id :: string
  l_is_active :: bool

record api_key_row =
  k_public_id :: string
  k_project_id :: string

record group_tables =
  user_groups :: "group_row list"
  project_groups :: "group_row list"
  project_group_members :: "member_row list"
  user_group_project_groups :: "link_row list"
  user_project_api_keys :: "api_key_row list"
  group_graph_lock :: bool

datatype group_kind = UserKind | ProjectKind

definition scope_edges :: "group_row list \<Rightarrow> (string \<times> string) list" where
  "scope_edges rows = [(g_id g, the (g_scope_project_id g)). g \<leftarrow> rows, g_scope_project_id g \<noteq> None]"

definition PROJECT_FOOTPRINT :: "group_tables \<Rightarrow> (string \<times> string) list" where
  "PROJECT_FOOTPRINT T =
     scope_edges (project_groups T) @
     [(m_project_group_id m, m_project_id m). m \<leftarrow> project_group_members T, m_is_active m]"

definition USER_FOOTPRINT :: "group_tables \<Rightarrow> (string \<times> string) list" where
  "USER_FOOTPRINT T =
     scope_edges (user_groups T) @
     [(l_user_group_id link, the (g_scope_project_id pg)).
        link \<leftarrow> user_group_project_groups T, pg \<leftarrow> project_groups T,
        g_id pg = l_project_group_id link \<and> l_is_active link \<and> g_scope_project_id pg \<noteq> None] @
     [(l_user_group_id link, m_project_id m).
        link \<leftarrow> user_group_project_groups T, m \<leftarrow> project_group_members T,
        m_project_group_id m = l_project_group_id link \<and> l_is_active link \<and> m_is_active m]"

definition footprints :: "group_tables \<Rightarrow> group_kind \<Rightarrow> (string \<times> string) list" where
  "footprints T kind = (case kind of UserKind \<Rightarrow> USER_FOOTPRINT T | ProjectKind \<Rightarrow> PROJECT_FOOTPRINT T)"

definition group_project_ids :: "group_tables \<Rightarrow> group_kind \<Rightarrow> string \<Rightarrow> string list" where
  "group_project_ids T kind group_id = remdups [p. (g, p) \<leftarrow> footprints T kind, g = group_id]"

definition group_in_scope :: "group_tables \<Rightarrow> admin_scope \<Rightarrow> group_kind \<Rightarrow> string \<Rightarrow> bool" where
  "group_in_scope T scope kind group_id =
     (if is_root scope then True
      else let projects = group_project_ids T kind group_id
           in projects \<noteq> [] \<and> allows_all_projects scope (map JStr projects))"

section \<open>Requirements\<close>

text \<open>Checks run in order; the first error is raised.\<close>

definition and_then :: "'e + 'a \<Rightarrow> ('a \<Rightarrow> 'e + 'b) \<Rightarrow> 'e + 'b" where
  "and_then m f = (case m of Inl e \<Rightarrow> Inl e | Inr x \<Rightarrow> f x)"

fun each_in_order :: "('a \<Rightarrow> 'e + unit) \<Rightarrow> 'a list \<Rightarrow> 'e + unit" where
  "each_in_order f [] = Inr ()"
| "each_in_order f (x # xs) = and_then (f x) (\<lambda>_. each_in_order f xs)"

definition require_group_in_scope :: "group_tables \<Rightarrow> admin_scope \<Rightarrow> group_kind \<Rightarrow> group_row \<Rightarrow> app_error + unit" where
  "require_group_in_scope T scope kind grp =
     (if \<not> group_in_scope T scope kind (g_id grp)
      then Inl (AuthorizationError ''Group is outside your administrative project scope'' PROJECT_ACCESS_DENIED)
      else Inr ())"

definition require_ordinary_group :: "admin_scope \<Rightarrow> json list \<Rightarrow> app_error + unit" where
  "require_ordinary_group scope names =
     (if \<not> is_root scope \<and> list_ex is_project_admin_group_name names
      then Inl (AuthorizationError ''Only root users may change project admin groups'' INSUFFICIENT_PERMISSIONS)
      else Inr ())"

text \<open>\<open>JNull\<close> is the binding \<^verbatim>\<open>None\<close>: a group of root without an administrative project.\<close>

definition project_binding :: "admin_scope \<Rightarrow> string option \<Rightarrow> (string \<Rightarrow> dict option) \<Rightarrow> app_error + json" where
  "project_binding scope project_hash lookup =
     (case project_hash of
        None \<Rightarrow> if is_root scope then Inr JNull
                else Inl (ValidationError ''project_hash is required for admin group creation'' MISSING_REQUIRED_FIELD)
      | Some h \<Rightarrow>
          if h = [] then
            (if is_root scope then Inr JNull
             else Inl (ValidationError ''project_hash is required for admin group creation'' MISSING_REQUIRED_FIELD))
          else (case lookup h of
                  None \<Rightarrow> Inl (NotFoundError ''Project not found'' PROJECT_NOT_FOUND)
                | Some project \<Rightarrow>
                    if \<not> allows_project scope (dget project ''id'')
                    then Inl (AuthorizationError ''Project is outside your administrative scope'' PROJECT_ACCESS_DENIED)
                    else Inr (dget project ''id'')))"

definition linked_user_groups :: "group_tables \<Rightarrow> string \<Rightarrow> group_row list" where
  "linked_user_groups T project_group_id =
     [ug. ug \<leftarrow> user_groups T, link \<leftarrow> user_group_project_groups T,
        l_user_group_id link = g_id ug \<and> l_project_group_id link = project_group_id \<and> l_is_active link]"

definition affected_user_groups :: "group_tables \<Rightarrow> admin_scope \<Rightarrow> group_row \<Rightarrow> app_error + unit" where
  "affected_user_groups T scope project_group =
     (if is_root scope then Inr ()
      else each_in_order
        (\<lambda>ug. and_then (require_ordinary_group scope [JStr (g_name ug)])
           (\<lambda>_. if \<not> group_in_scope T scope UserKind (g_id ug)
                then Inl (AuthorizationError ''An affected user group is outside your administrative scope''
                            PROJECT_ACCESS_DENIED)
                else Inr ()))
        (linked_user_groups T (g_id project_group)))"

section \<open>Lists\<close>

definition visible_users :: "admin_db \<Rightarrow> admin_scope \<Rightarrow> dict list \<Rightarrow> dict list" where
  "visible_users A scope users = filter (\<lambda>u. user_in_scope A scope (dget u ''id'') (dget u ''user_type'')) users"

definition visible_groups :: "group_tables \<Rightarrow> admin_scope \<Rightarrow> group_kind \<Rightarrow> group_row list \<Rightarrow> group_row list" where
  "visible_groups T scope kind groups = filter (\<lambda>g. group_in_scope T scope kind (g_id g)) groups"

definition visible_project_group_links ::
    "group_tables \<Rightarrow> admin_scope \<Rightarrow> dict list \<Rightarrow> dict list" where
  "visible_project_group_links T scope links =
     filter (\<lambda>l. group_in_scope T scope ProjectKind (py_str (dget l ''group_id''))) links"

definition table_of :: "group_tables \<Rightarrow> group_kind \<Rightarrow> group_row list" where
  "table_of T kind = (case kind of UserKind \<Rightarrow> user_groups T | ProjectKind \<Rightarrow> project_groups T)"

text \<open>The SQL predicate of a page, and its two queries.\<close>

definition page_predicate ::
    "(string \<Rightarrow> string \<Rightarrow> bool) \<Rightarrow> group_tables \<Rightarrow> admin_scope \<Rightarrow> group_kind \<Rightarrow> string option \<Rightarrow> group_row \<Rightarrow> bool" where
  "page_predicate like T scope kind search g \<longleftrightarrow>
     g_is_active g \<and>
     (\<not> is_root scope \<longrightarrow>
        list_ex (\<lambda>f. fst f = g_id g) (footprints T kind) \<and>
        \<not> list_ex (\<lambda>f. fst f = g_id g \<and> snd f \<notin> scope_project_ids scope) (footprints T kind)) \<and>
     (case search of None \<Rightarrow> True | Some pat \<Rightarrow> like (''%'' @ pat @ ''%'') (g_name g))"

definition page_sort :: "string \<Rightarrow> string" where
  "page_sort sort_by = (if sort_by \<in> {''group_name'', ''created_at'', ''updated_at''} then sort_by else ''group_name'')"

definition scoped_group_page ::
    "(string \<Rightarrow> string \<Rightarrow> bool) \<Rightarrow> (string \<Rightarrow> bool \<Rightarrow> group_row list \<Rightarrow> group_row list) \<Rightarrow> group_tables \<Rightarrow>
     group_kind \<Rightarrow> admin_scope \<Rightarrow> nat \<Rightarrow> nat \<Rightarrow> string \<Rightarrow> json \<Rightarrow> string option \<Rightarrow> group_row list \<times> nat" where
  "scoped_group_page like order_by T kind scope limit offset sort_by sort_order search =
     (if \<not> is_root scope \<and> scope_project_ids scope = {} then ([], 0)
      else
        let rows = filter (page_predicate like T scope kind search) (table_of T kind);
            descending = (str_lower (py_str sort_order) = ''desc'')
        in (take limit (drop offset (order_by (page_sort sort_by) descending rows)), length rows))"

section \<open>Operations and their preflight\<close>

datatype group_op =
  Create | Update | Delete | Add | Remove | Bulk | Grant | Revoke | BulkAssign |
  ListOp | ReadOp | Links | Members | UserGroups

definition WRITE_OPERATIONS :: "group_op set" where
  "WRITE_OPERATIONS = {Create, Update, Delete, Add, Remove, Bulk, Grant, Revoke, BulkAssign}"

definition OPERATIONS :: "group_kind \<Rightarrow> group_op set" where
  "OPERATIONS kind =
     (case kind of
        UserKind \<Rightarrow> WRITE_OPERATIONS \<union> {ListOp, ReadOp, Links, Members, UserGroups}
      | ProjectKind \<Rightarrow> {ListOp, Create, ReadOp, Update, Delete, Add, Remove})"

record group_lookups =
  lk_user_by_hash :: "string \<Rightarrow> dict option"
  lk_project_by_hash :: "string \<Rightarrow> dict option"
  lk_user_group_by_hash :: "string \<Rightarrow> group_row option"
  lk_project_group_by_hash :: "string \<Rightarrow> group_row option"
  lk_user_group_by_name :: "string \<Rightarrow> group_row option"

text \<open>The bound arguments of the endpoint.\<close>

record group_values =
  v_group_hash :: string
  v_group_name :: "string option"
  v_project_hash :: "string option"
  v_project_group_hash :: string
  v_user_hash :: string
  v_user_hashes :: "string list"
  v_group_names :: "string list"

definition group_by_hash :: "group_lookups \<Rightarrow> group_kind \<Rightarrow> string \<Rightarrow> group_row option" where
  "group_by_hash L kind = (case kind of UserKind \<Rightarrow> lk_user_group_by_hash L | ProjectKind \<Rightarrow> lk_project_group_by_hash L)"

text \<open>\<^verbatim>\<open>dict.fromkeys\<close> keeps the first occurrence of each key.\<close>

definition distinct_keys :: "'a list \<Rightarrow> 'a list" where
  "distinct_keys xs = rev (remdups (rev xs))"

definition require_users :: "admin_db \<Rightarrow> group_lookups \<Rightarrow> admin_scope \<Rightarrow> string list \<Rightarrow> app_error + unit" where
  "require_users A L scope hashes =
     each_in_order
       (\<lambda>h. case lk_user_by_hash L h of None \<Rightarrow> Inr () | Some user \<Rightarrow> require_user_in_scope A scope user)
       (distinct_keys hashes)"

text \<open>The result is the project ids the check adds to \<^verbatim>\<open>affected_projects\<close>.\<close>

definition require_group ::
    "group_tables \<Rightarrow> admin_scope \<Rightarrow> group_op \<Rightarrow> group_kind \<Rightarrow> group_row \<Rightarrow> app_error + string list" where
  "require_group T scope op kind grp =
     and_then (require_group_in_scope T scope kind grp)
       (\<lambda>_. Inr (if op \<in> WRITE_OPERATIONS then group_project_ids T kind (g_id grp) else []))"

definition authorize_project_relationship ::
    "group_tables \<Rightarrow> group_lookups \<Rightarrow> admin_scope \<Rightarrow> group_op \<Rightarrow> group_row \<Rightarrow> group_values \<Rightarrow> app_error + string list" where
  "authorize_project_relationship T L scope op grp v =
     and_then (if op \<in> {Add, Remove, Delete} then affected_user_groups T scope grp else Inr ())
       (\<lambda>_. if op \<in> {Add, Remove}
            then (case (case v_project_hash v of None \<Rightarrow> None | Some h \<Rightarrow> lk_project_by_hash L h) of
                    None \<Rightarrow> Inr []
                  | Some project \<Rightarrow>
                      if \<not> allows_project scope (dget project ''id'')
                      then Inl (AuthorizationError ''Project is outside your administrative scope'' PROJECT_ACCESS_DENIED)
                      else Inr [py_str (dget project ''id'')])
            else Inr [])"

definition set_scope_project :: "group_kind \<Rightarrow> string \<Rightarrow> json \<Rightarrow> group_tables \<Rightarrow> group_tables" where
  "set_scope_project kind group_id project_id T =
     (let upd = map (\<lambda>g. if g_id g = group_id then g\<lparr>g_scope_project_id := Some (py_str project_id)\<rparr> else g)
      in case kind of UserKind \<Rightarrow> T\<lparr>user_groups := upd (user_groups T)\<rparr>
                    | ProjectKind \<Rightarrow> T\<lparr>project_groups := upd (project_groups T)\<rparr>)"

definition rebind ::
    "group_lookups \<Rightarrow> admin_scope \<Rightarrow> group_kind \<Rightarrow> group_row \<Rightarrow> string \<Rightarrow> group_tables \<Rightarrow> app_error + group_tables" where
  "rebind L scope kind grp project_hash T =
     (if \<not> is_root scope
      then Inl (AuthorizationError ''Only root may change a group's administrative project'' INSUFFICIENT_PERMISSIONS)
      else and_then (project_binding scope (Some project_hash) (lk_project_by_hash L))
        (\<lambda>project_id. if project_id = JNull
           then Inl (ValidationError ''project_hash cannot be empty'' MISSING_REQUIRED_FIELD)
           else Inr (set_scope_project kind (g_id grp) project_id T)))"

definition group_targets ::
    "admin_db \<Rightarrow> group_tables \<Rightarrow> group_lookups \<Rightarrow> admin_scope \<Rightarrow> group_kind \<Rightarrow> group_op \<Rightarrow> group_row \<Rightarrow> group_values \<Rightarrow>
     app_error + string list" where
  "group_targets A T L scope kind op grp v =
     (if kind = ProjectKind then authorize_project_relationship T L scope op grp v
      else if op \<in> {Grant, Revoke} then
        (case lk_project_group_by_hash L (v_project_group_hash v) of
           None \<Rightarrow> Inr []
         | Some target \<Rightarrow> require_group T scope op ProjectKind target)
      else if op \<in> {Add, Remove, Bulk} then
        and_then (require_users A L scope (if op = Bulk then v_user_hashes v else [v_user_hash v])) (\<lambda>_. Inr [])
      else Inr [])"

definition authorize_group ::
    "admin_db \<Rightarrow> group_lookups \<Rightarrow> admin_scope \<Rightarrow> group_kind \<Rightarrow> group_op \<Rightarrow> group_values \<Rightarrow> group_tables \<Rightarrow>
     app_error + string list \<times> group_tables" where
  "authorize_group A L scope kind op v T =
     (case group_by_hash L kind (v_group_hash v) of
        None \<Rightarrow> Inl (NotFoundError ''Group not found'' GROUP_NOT_FOUND)
      | Some grp \<Rightarrow>
          and_then (if op \<in> WRITE_OPERATIONS \<and> kind = UserKind
                    then require_ordinary_group scope [JStr (g_name grp), json_of (v_group_name v)] else Inr ())
            (\<lambda>_. and_then (require_group T scope op kind grp)
              (\<lambda>own. and_then (group_targets A T L scope kind op grp v)
                (\<lambda>targets.
                   if op = Update \<and> v_project_hash v \<noteq> None
                   then and_then (rebind L scope kind grp (the (v_project_hash v)) T) (\<lambda>T'. Inr (own @ targets, T'))
                   else Inr (own @ targets, T)))))"

definition authorize_bulk_assign ::
    "admin_db \<Rightarrow> group_tables \<Rightarrow> group_lookups \<Rightarrow> admin_scope \<Rightarrow> group_values \<Rightarrow> app_error + string list" where
  "authorize_bulk_assign A T L scope v =
     (let groups = List.map_filter (lk_user_group_by_name L) (distinct_keys (v_group_names v))
      in and_then
           (each_in_order
              (\<lambda>grp. and_then (require_ordinary_group scope [JStr (g_name grp)])
                 (\<lambda>_. require_group_in_scope T scope UserKind grp)) groups)
           (\<lambda>_. and_then (require_users A L scope (v_user_hashes v))
              (\<lambda>_. Inr (concat (map (\<lambda>grp. group_project_ids T UserKind (g_id grp)) groups)))))"

text \<open>The binding of a new group, the affected projects and the tables.\<close>

definition authorize ::
    "admin_db \<Rightarrow> group_lookups \<Rightarrow> admin_scope \<Rightarrow> group_kind \<Rightarrow> group_op \<Rightarrow> group_values \<Rightarrow> group_tables \<Rightarrow>
     app_error + json \<times> string list \<times> group_tables" where
  "authorize A L scope kind op v T =
     (if op = Create then
        and_then (if kind = UserKind then require_ordinary_group scope [json_of (v_group_name v)] else Inr ())
          (\<lambda>_. and_then (project_binding scope (v_project_hash v) (lk_project_by_hash L))
             (\<lambda>binding. Inr (binding, [], T)))
      else if op = BulkAssign then
        and_then (authorize_bulk_assign A T L scope v) (\<lambda>affected. Inr (JNull, affected, T))
      else if op = UserGroups then
        and_then (require_users A L scope [v_user_hash v]) (\<lambda>_. Inr (JNull, [], T))
      else if op \<noteq> ListOp then
        and_then (authorize_group A L scope kind op v T) (\<lambda>(affected, T'). Inr (JNull, affected, T'))
      else Inr (JNull, [], T))"

section \<open>The transaction and the decorator\<close>

text \<open>
  What the body of a transaction leaves behind: its result, the tables, whether a helper rolled
  the whole transaction back, and the projects whose keys its callbacks invalidate after commit.
\<close>

record 'r tx_out =
  tx_result :: "app_error + 'r"
  tx_tables :: group_tables
  tx_failed :: bool
  tx_callbacks :: "string list list"

definition group_transaction ::
    "bool \<Rightarrow> (group_tables \<Rightarrow> 'r tx_out) \<Rightarrow> group_tables \<Rightarrow> (app_error + 'r) \<times> group_tables \<times> string list list" where
  "group_transaction write body T =
     (if write \<and> \<not> group_graph_lock T
      then (Inl (ServerError ''Group scope migration has not initialized the graph lock''), T, [])
      else let out = body T
           in case tx_result out of
                Inl e \<Rightarrow> (Inl e, T, [])
              | Inr r \<Rightarrow>
                  if tx_failed out
                  then (Inl (ServerError ''A group database operation rolled back the transaction''), T, [])
                  else (Inr r, tx_tables out, tx_callbacks out))"

definition group_savepoint ::
    "(group_tables \<times> string list list \<Rightarrow> (app_error + 'r) \<times> group_tables \<times> string list list) \<Rightarrow>
     group_tables \<times> string list list \<Rightarrow> (app_error + 'r) \<times> group_tables \<times> string list list" where
  "group_savepoint body st =
     (case body st of
        (Inl e, T', cbs') \<Rightarrow> (Inl e, fst st, take (length (snd st)) cbs')
      | (Inr r, T', cbs') \<Rightarrow> (Inr r, T', cbs'))"

definition invalidate_project_api_keys :: "group_tables \<Rightarrow> string list \<Rightarrow> string list" where
  "invalidate_project_api_keys T project_ids =
     [k_public_id k. k \<leftarrow> user_project_api_keys T, k_project_id k \<in> set project_ids]"

definition guarded_body ::
    "admin_db \<Rightarrow> group_lookups \<Rightarrow> group_kind \<Rightarrow> group_op \<Rightarrow> (admin_scope \<Rightarrow> json \<Rightarrow> group_tables \<Rightarrow> 'r tx_out) \<Rightarrow>
     group_values \<Rightarrow> json \<Rightarrow> group_tables \<Rightarrow> 'r tx_out" where
  "guarded_body A L kind op handler v user_id T =
     (case and_then (require_admin_scope (resolve_admin_scope A user_id))
             (\<lambda>scope. and_then (authorize A L scope kind op v T) (\<lambda>r. Inr (scope, r))) of
        Inl e \<Rightarrow> \<lparr>tx_result = Inl e, tx_tables = T, tx_failed = False, tx_callbacks = []\<rparr>
      | Inr (scope, binding, affected, T') \<Rightarrow>
          let out = handler scope binding T'
          in if affected = [] then out else out\<lparr>tx_callbacks := tx_callbacks out @ [affected]\<rparr>)"

definition group_authorization ::
    "admin_db \<Rightarrow> group_lookups \<Rightarrow> group_kind \<Rightarrow> group_op \<Rightarrow> (admin_scope \<Rightarrow> json \<Rightarrow> group_tables \<Rightarrow> 'r tx_out) \<Rightarrow>
     group_values \<Rightarrow> json option \<Rightarrow> group_tables \<Rightarrow> (app_error + 'r) \<times> group_tables \<times> string list list" where
  "group_authorization A L kind op handler v session_user T =
     (if op \<notin> OPERATIONS kind then (Inl (ServerError ''Unknown group authorization operation''), T, [])
      else case session_user of
        None \<Rightarrow> (Inl (AuthenticationError ''Invalid or expired session'' SESSION_INVALID), T, [])
      | Some user_id \<Rightarrow>
          group_transaction (op \<in> WRITE_OPERATIONS) (guarded_body A L kind op handler v user_id) T)"

section \<open>Checks\<close>

lemma and_then_Inr [simp]: "and_then m f = Inr y \<longleftrightarrow> (\<exists>x. m = Inr x \<and> f x = Inr y)"
  by (cases m) (simp_all add: and_then_def)

lemma each_in_order_Inr [simp]: "each_in_order f xs = Inr u \<longleftrightarrow> (\<forall>x \<in> set xs. f x = Inr ())"
  by (induction xs) simp_all

lemma set_distinct_keys [simp]: "set (distinct_keys xs) = set xs"
  by (simp add: distinct_keys_def)

lemma require_ordinary_group_Inr [simp]:
  "require_ordinary_group scope names = Inr u \<longleftrightarrow>
     is_root scope \<or> (\<forall>n \<in> set names. \<not> is_project_admin_group_name n)"
  by (auto simp: require_ordinary_group_def list_ex_iff)

lemma require_group_in_scope_Inr [simp]:
  "require_group_in_scope T scope kind grp = Inr u \<longleftrightarrow> group_in_scope T scope kind (g_id grp)"
  by (simp add: require_group_in_scope_def)

lemma require_group_Inr [simp]:
  "require_group T scope op kind grp = Inr ids \<longleftrightarrow>
     group_in_scope T scope kind (g_id grp) \<and>
     ids = (if op \<in> WRITE_OPERATIONS then group_project_ids T kind (g_id grp) else [])"
  by (auto simp: require_group_def)

lemma require_user_in_scope_Inr [simp]:
  "require_user_in_scope A scope u = Inr x \<longleftrightarrow> user_in_scope A scope (dget u ''id'') (dget u ''user_type'')"
  by (simp add: require_user_in_scope_def)

lemma require_users_Inr:
  "require_users A L scope hs = Inr u \<longleftrightarrow>
     (\<forall>h \<in> set hs. \<forall>user. lk_user_by_hash L h = Some user \<longrightarrow>
        user_in_scope A scope (dget user ''id'') (dget user ''user_type''))"
  by (auto simp: require_users_def split: option.splits)

lemma affected_user_groups_Inr:
  "affected_user_groups T scope grp = Inr u \<longleftrightarrow>
     is_root scope \<or>
     (\<forall>ug \<in> set (linked_user_groups T (g_id grp)).
        \<not> is_project_admin_group_name (JStr (g_name ug)) \<and> group_in_scope T scope UserKind (g_id ug))"
  by (auto simp: affected_user_groups_def)

section \<open>The footprint as a set\<close>

definition footprint :: "group_tables \<Rightarrow> group_kind \<Rightarrow> string \<Rightarrow> string set" where
  "footprint T kind gid = {p. (gid, p) \<in> set (footprints T kind)}"

text \<open>A group is covered by a set of projects when it reaches at least one and no other.\<close>

definition covered :: "string set \<Rightarrow> group_tables \<Rightarrow> group_kind \<Rightarrow> string \<Rightarrow> bool" where
  "covered P T kind gid \<longleftrightarrow> footprint T kind gid \<noteq> {} \<and> footprint T kind gid \<subseteq> P"

lemma set_group_project_ids [simp]: "set (group_project_ids T kind gid) = footprint T kind gid"
  by (auto simp: group_project_ids_def footprint_def)

lemma group_project_ids_Nil [simp]: "group_project_ids T kind gid = [] \<longleftrightarrow> footprint T kind gid = {}"
  using set_group_project_ids [of T kind gid] by (metis set_empty)

lemma group_in_scope_admin:
  assumes "scope_user_type scope = Some ADMIN_USER_TYPE"
  shows "group_in_scope T scope kind gid \<longleftrightarrow> covered (scope_project_ids scope) T kind gid"
  using assms
  by (auto simp: group_in_scope_def covered_def allows_all_projects_def list_all_iff allows_project_def is_root_def
      user_types Let_def)

lemma resolve_admin_scope_sel [simp]:
  "scope_user_type (resolve_admin_scope A (JStr u)) = (if u = [] then None else get_user_type A u)"
  "scope_user_id (resolve_admin_scope A (JStr u)) = u"
  by (cases u; simp add: resolve_admin_scope_def Let_def)+

definition assigned_projects :: "admin_db \<Rightarrow> string \<Rightarrow> string set" where
  "assigned_projects A u = set (map py_str (or_empty (get_admin_assigned_projects A u)))"

lemma resolve_admin_projects:
  "get_user_type A u = Some ADMIN_USER_TYPE \<Longrightarrow> u \<noteq> [] \<Longrightarrow>
     scope_project_ids (resolve_admin_scope A (JStr u)) = assigned_projects A u"
  by (simp add: resolve_admin_scope_def assigned_projects_def Let_def)

lemma require_admin_scope_Inr [simp]:
  "require_admin_scope scope = Inr sc \<longleftrightarrow> is_admin scope \<and> sc = scope"
  by (auto simp: require_admin_scope_def)

lemma group_authorization_Inr:
  assumes "group_authorization A L kind op handler v (Some user_id) T = (Inr r, T', cbs)"
  obtains binding affected T1 where "is_admin (resolve_admin_scope A user_id)"
    and "authorize A L (resolve_admin_scope A user_id) kind op v T = Inr (binding, affected, T1)"
    and "tx_result (handler (resolve_admin_scope A user_id) binding T1) = Inr r"
    and "T' = tx_tables (handler (resolve_admin_scope A user_id) binding T1)"
    and "affected \<noteq> [] \<longrightarrow> affected \<in> set cbs"
proof -
  have "tx_result (guarded_body A L kind op handler v user_id T) = Inr r"
    and T': "T' = tx_tables (guarded_body A L kind op handler v user_id T)"
    and c: "cbs = tx_callbacks (guarded_body A L kind op handler v user_id T)"
    using assms by (auto simp: group_authorization_def group_transaction_def Let_def split: if_splits sum.splits)
  then obtain binding affected T1 where r:
    "and_then (require_admin_scope (resolve_admin_scope A user_id))
       (\<lambda>scope. and_then (authorize A L scope kind op v T) (\<lambda>r. Inr (scope, r))) =
       Inr (resolve_admin_scope A user_id, binding, affected, T1)"
    by (fastforce simp: guarded_body_def split: sum.splits)
  with c T' \<open>tx_result _ = _\<close> show thesis
    by (intro that [of binding affected T1]) (auto simp: guarded_body_def Let_def split: if_splits)
qed

lemma authorize_group_Inr:
  assumes "authorize_group A L scope kind op v T = Inr (affected, T')"
  obtains grp targets where "group_by_hash L kind (v_group_hash v) = Some grp"
    and "op \<in> WRITE_OPERATIONS \<Longrightarrow> kind = UserKind \<Longrightarrow>
           require_ordinary_group scope [JStr (g_name grp), json_of (v_group_name v)] = Inr ()"
    and "group_in_scope T scope kind (g_id grp)"
    and "group_targets A T L scope kind op grp v = Inr targets"
    and "op = Update \<Longrightarrow> v_project_hash v \<noteq> None \<Longrightarrow> is_root scope"
    and "op \<in> WRITE_OPERATIONS \<Longrightarrow> footprint T kind (g_id grp) \<subseteq> set affected"
  using assms
  by (auto simp: authorize_group_def rebind_def split: option.splits if_splits)

section \<open>Guarantees\<close>

text \<open>What an admin may do to a group, stated on the graph.\<close>

definition admin_may ::
    "admin_db \<Rightarrow> group_lookups \<Rightarrow> group_tables \<Rightarrow> admin_scope \<Rightarrow> group_kind \<Rightarrow> group_op \<Rightarrow> group_values \<Rightarrow> group_row \<Rightarrow> bool" where
  "admin_may A L T scope kind op v grp \<longleftrightarrow>
     covered (scope_project_ids scope) T kind (g_id grp) \<and>
     (kind = UserKind \<and> op \<in> WRITE_OPERATIONS \<longrightarrow>
        \<not> is_project_admin_group_name (JStr (g_name grp)) \<and> \<not> is_project_admin_group_name (json_of (v_group_name v))) \<and>
     (kind = UserKind \<and> op \<in> {Grant, Revoke} \<longrightarrow>
        (\<forall>target. lk_project_group_by_hash L (v_project_group_hash v) = Some target \<longrightarrow>
           covered (scope_project_ids scope) T ProjectKind (g_id target))) \<and>
     (kind = UserKind \<and> op \<in> {Add, Remove, Bulk} \<longrightarrow>
        (\<forall>h \<in> set (if op = Bulk then v_user_hashes v else [v_user_hash v]). \<forall>user. lk_user_by_hash L h = Some user \<longrightarrow>
           user_in_scope A scope (dget user ''id'') (dget user ''user_type''))) \<and>
     (kind = ProjectKind \<and> op \<in> {Add, Remove, Delete} \<longrightarrow>
        (\<forall>ug \<in> set (linked_user_groups T (g_id grp)).
           \<not> is_project_admin_group_name (JStr (g_name ug)) \<and> covered (scope_project_ids scope) T UserKind (g_id ug))) \<and>
     (kind = ProjectKind \<and> op \<in> {Add, Remove} \<longrightarrow>
        (\<forall>h project. v_project_hash v = Some h \<and> lk_project_by_hash L h = Some project \<longrightarrow>
           allows_project scope (dget project ''id''))) \<and>
     (op = Update \<longrightarrow> v_project_hash v = None)"

lemma admin_may_targets:
  assumes "scope_user_type scope = Some ADMIN_USER_TYPE"
    and "group_targets A T L scope kind op grp v = Inr targets"
    and "op \<in> WRITE_OPERATIONS \<Longrightarrow> kind = UserKind \<Longrightarrow>
           require_ordinary_group scope [JStr (g_name grp), json_of (v_group_name v)] = Inr ()"
    and "group_in_scope T scope kind (g_id grp)"
    and "op = Update \<Longrightarrow> v_project_hash v \<noteq> None \<Longrightarrow> is_root scope"
  shows "admin_may A L T scope kind op v grp"
proof -
  have nr: "\<not> is_root scope" using assms(1) by (simp add: is_root_def user_types)
  then have up: "op = Update \<Longrightarrow> v_project_hash v = None" using assms(5) by blast
  note G = group_in_scope_admin [OF assms(1)]
  show ?thesis
  proof (cases kind)
    case UserKind
    then show ?thesis
      using assms(2-4) up nr unfolding admin_may_def G
      by (auto simp: group_targets_def require_users_Inr G split: option.splits if_splits)
  next
    case ProjectKind
    then show ?thesis
      using assms(2-4) up nr unfolding admin_may_def G
      by (auto simp: group_targets_def authorize_project_relationship_def affected_user_groups_Inr G
          split: option.splits if_splits)
  qed
qed


text \<open>One admin, one project, one user group bound to it.\<close>

definition demo_admin_db :: admin_db where
  "demo_admin_db =
     \<lparr>get_user_type = (\<lambda>u. if u = ''a1'' then Some ''admin'' else if u = ''c1'' then Some ''consumer'' else None),
      get_admin_assigned_projects = (\<lambda>u. if u = ''a1'' then Some [JStr ''p1''] else Some []),
      get_user_accessible_projects = (\<lambda>u. Some [[''id'' \<mapsto> JStr ''p1'']]),
      get_permission_group_permissions = (\<lambda>g. Some []), get_role_permission_groups = (\<lambda>r. Some [])\<rparr>"

definition demo_group :: group_row where
  "demo_group = \<lparr>g_id = ''g1'', g_hash = ''gh1'', g_name = ''buyers'', g_description = JNull, g_created_at = 0,
     g_updated_at = 0, g_is_active = True, g_scope_project_id = Some ''p1''\<rparr>"

definition demo_tables :: group_tables where
  "demo_tables = \<lparr>user_groups = [demo_group], project_groups = [], project_group_members = [],
     user_group_project_groups = [], user_project_api_keys = [], group_graph_lock = True\<rparr>"

definition demo_lookups :: group_lookups where
  "demo_lookups = \<lparr>lk_user_by_hash = (\<lambda>h. None), lk_project_by_hash = (\<lambda>h. None),
     lk_user_group_by_hash = (\<lambda>h. if h = ''gh1'' then Some demo_group else None),
     lk_project_group_by_hash = (\<lambda>h. None), lk_user_group_by_name = (\<lambda>n. None)\<rparr>"

definition demo_values :: group_values where
  "demo_values = \<lparr>v_group_hash = ''gh1'', v_group_name = Some ''sellers'', v_project_hash = None,
     v_project_group_hash = [], v_user_hash = [], v_user_hashes = [], v_group_names = []\<rparr>"

text \<open>A handler that empties the user groups.\<close>

definition demo_handler :: "admin_scope \<Rightarrow> json \<Rightarrow> group_tables \<Rightarrow> unit tx_out" where
  "demo_handler scope binding T =
     \<lparr>tx_result = Inr (), tx_tables = T\<lparr>user_groups := []\<rparr>, tx_failed = False, tx_callbacks = []\<rparr>"

lemma demo_footprint: "group_project_ids demo_tables UserKind ''g1'' = [''p1'']"
  by (simp add: group_project_ids_def footprints_def USER_FOOTPRINT_def scope_edges_def demo_tables_def demo_group_def)

lemma demo_admin_scope:
  "resolve_admin_scope demo_admin_db (JStr ''a1'') =
     \<lparr>scope_user_id = ''a1'', scope_user_type = Some ''admin'', scope_project_ids = {''p1''}\<rparr>"
  by (simp add: resolve_admin_scope_def demo_admin_db_def or_empty_def ADMIN_USER_TYPE_def)

lemma demo_ordinary:
  "\<not> is_project_admin_group_name (JStr ''buyers'')" "\<not> is_project_admin_group_name (JStr ''sellers'')"
  by (simp_all add: is_project_admin_group_name_def collation_key_Str PROJECT_ADMIN_GROUP_PREFIX_def points_def
      starts_with_def fold_code_point_def fold_letter_def strip_points_def is_space_point_def)

lemma demo_group_sel [simp]:
  "g_id demo_group = ''g1''" "g_name demo_group = ''buyers''" "group_graph_lock demo_tables"
  "v_group_hash demo_values = ''gh1''" "v_group_name demo_values = Some ''sellers''" "v_project_hash demo_values = None"
  "lk_user_group_by_hash demo_lookups ''gh1'' = Some demo_group"
  by (simp_all add: demo_group_def demo_values_def demo_tables_def demo_lookups_def)

lemma demo_update:
  "group_authorization demo_admin_db demo_lookups UserKind Update demo_handler demo_values (Some (JStr ''a1'')) demo_tables =
     (Inr (), demo_tables\<lparr>user_groups := []\<rparr>, [[''p1'']])"
proof -
  let ?sc = "resolve_admin_scope demo_admin_db (JStr ''a1'')"
  have sc: "is_admin ?sc" "\<not> is_root ?sc" "group_in_scope demo_tables ?sc UserKind ''g1''"
    by (simp_all add: demo_admin_scope is_admin_def is_root_def user_types group_in_scope_def demo_footprint
        allows_all_projects_def allows_project_def)
  have "authorize_group demo_admin_db demo_lookups ?sc UserKind Update demo_values demo_tables = Inr ([''p1''], demo_tables)"
    using sc demo_ordinary
    by (simp add: authorize_group_def group_by_hash_def group_targets_def and_then_def require_ordinary_group_def
        require_group_def require_group_in_scope_def WRITE_OPERATIONS_def demo_footprint)
  with sc show ?thesis
    by (simp add: group_authorization_def group_transaction_def guarded_body_def authorize_def and_then_def
        require_admin_scope_def demo_handler_def OPERATIONS_def WRITE_OPERATIONS_def)
qed


text \<open>A refused or failed request changes nothing: whenever the result is an error, an error
  of the handler included, the tables are those from before and no callback runs. And whoever is
  neither root nor admin in the database is always refused.\<close>

lemma group_request_atomic:
  "((\<exists>r. fst (group_authorization A L kind op handler v session_user T) = Inr r) \<or>
      snd (group_authorization A L kind op handler v session_user T) = (T, [])) \<and>
   (get_user_type A u \<in> {Some ROOT_USER_TYPE, Some ADMIN_USER_TYPE} \<or>
      (\<exists>e. group_authorization A L kind op handler v (Some (JStr u)) T = (Inl e, T, [])))"
proof -
  have 1: "(\<exists>r. fst (group_authorization A L kind op handler v su T) = Inr r) \<or>
      snd (group_authorization A L kind op handler v su T) = (T, [])" for su
    by (simp add: group_authorization_def group_transaction_def Let_def split: option.splits sum.splits)
  show ?thesis
  proof (cases "fst (group_authorization A L kind op handler v (Some (JStr u)) T)")
    case (Inl e)
    with 1 [of "Some (JStr u)"] 1 show ?thesis by (metis prod.collapse sum.distinct(1))
  next
    case (Inr r)
    then have "is_admin (resolve_admin_scope A (JStr u))"
      by (metis group_authorization_Inr prod.collapse)
    then have "get_user_type A u \<in> {Some ROOT_USER_TYPE, Some ADMIN_USER_TYPE}"
      by (auto simp: is_admin_def split: if_splits)
    with 1 show ?thesis by blast
  qed
qed

lemma page_predicate_visible:
  assumes "is_root scope \<or> scope_user_type scope = Some ADMIN_USER_TYPE"
  shows "page_predicate like T scope kind search g \<longleftrightarrow>
     group_in_scope T scope kind (g_id g) \<and> g_is_active g \<and>
     (case search of None \<Rightarrow> True | Some pat \<Rightarrow> like (''%'' @ pat @ ''%'') (g_name g))"
proof (cases "is_root scope")
  case True
  then show ?thesis by (simp add: page_predicate_def group_in_scope_def)
next
  case False
  with assms have "scope_user_type scope = Some ADMIN_USER_TYPE" by simp
  from False group_in_scope_admin [OF this, of T kind "g_id g"] show ?thesis
    unfolding page_predicate_def covered_def footprint_def
    by (cases search) (force simp: list_ex_iff)+
qed

text \<open>C12. Filtering in SQL before \<^verbatim>\<open>LIMIT\<close> and \<^verbatim>\<open>OFFSET\<close> is the filter of the Python check: the page
  is the asked-for segment of exactly the active, matching groups that are visible to the
  caller, and the total counts them.\<close>

theorem scoped_group_page_exact:
  assumes "\<And>key desc. order_by key desc [] = []"
  shows "scoped_group_page like order_by T kind (resolve_admin_scope A (JStr u)) limit offset sort_by sort_order search =
     (let rows = filter (\<lambda>g. g_is_active g \<and>
                   (case search of None \<Rightarrow> True | Some pat \<Rightarrow> like (''%'' @ pat @ ''%'') (g_name g)))
                 (visible_groups T (resolve_admin_scope A (JStr u)) kind (table_of T kind))
      in (take limit (drop offset (order_by (page_sort sort_by) (str_lower (py_str sort_order) = ''desc'') rows)),
          length rows))"
proof (cases "is_root (resolve_admin_scope A (JStr u)) \<or>
    scope_user_type (resolve_admin_scope A (JStr u)) = Some ADMIN_USER_TYPE")
  case True
  let ?sc = "resolve_admin_scope A (JStr u)"
  note P = page_predicate_visible [OF True]
  have "\<not> is_root ?sc \<and> scope_project_ids ?sc = {} \<Longrightarrow> \<not> group_in_scope T ?sc kind gid" for gid
    using True group_in_scope_admin [of ?sc T kind gid] by (auto simp: covered_def)
  then have "\<not> is_root ?sc \<and> scope_project_ids ?sc = {} \<Longrightarrow> visible_groups T ?sc kind rows = []" for rows
    by (simp add: visible_groups_def)
  moreover have "filter (page_predicate like T ?sc kind search) xs = filter (\<lambda>g. g_is_active g \<and>
      (case search of None \<Rightarrow> True | Some pat \<Rightarrow> like (''%'' @ pat @ ''%'') (g_name g))) (visible_groups T ?sc kind xs)" for xs
    unfolding visible_groups_def filter_filter by (rule filter_cong) (auto simp: P)
  ultimately show ?thesis
    by (cases "\<not> is_root ?sc \<and> scope_project_ids ?sc = {}") (simp_all only: scoped_group_page_def if_True if_False Let_def, simp_all add: assms)
next
  case False
  let ?sc = "resolve_admin_scope A (JStr u)"
  have "\<not> is_root ?sc" using False by simp
  moreover have "scope_project_ids ?sc = {}"
    using False by (cases u) (auto simp: resolve_admin_scope_def Let_def)
  moreover have "\<not> group_in_scope T ?sc kind gid" for gid
    using False by (auto simp: group_in_scope_def allows_all_projects_def allows_project_def list_all_iff Let_def)
  ultimately show ?thesis by (simp add: scoped_group_page_def visible_groups_def assms)
qed

theorem scoped_group_page_exact_witness:
  "scoped_group_page (\<lambda>p n. True) (\<lambda>k d rows. rows) demo_tables UserKind (resolve_admin_scope demo_admin_db (JStr ''a1''))
     10 0 ''group_name'' (JStr ''asc'') None = ([demo_group], 1)"
proof -
  have v: "group_in_scope demo_tables (resolve_admin_scope demo_admin_db (JStr ''a1'')) UserKind ''g1''"
    by (simp add: demo_admin_scope is_root_def user_types group_in_scope_def demo_footprint
        allows_all_projects_def allows_project_def)
  have t: "table_of demo_tables UserKind = [demo_group]" "g_is_active demo_group"
    by (simp_all add: table_of_def demo_tables_def demo_group_def)
  show ?thesis
    by (subst scoped_group_page_exact) (simp_all add: visible_groups_def t v)
qed

end
