(* ===== verification/Redis.thy ===== *)
theory Redis
  imports Prelude
begin

text \<open>
  The Redis service the program talks to (\<^verbatim>\<open>redis_client\<close> of
  \<^verbatim>\<open>src/src/Util/db_config.py\<close>). It is not part of the repository, so it is a parameter:
  a record of the commands the code issues over an abstract server state, and a locale
  with what their documentation promises. Values are the JSON texts the program writes,
  represented by the value they decode to. Every key prefix of the program is used with
  one Redis type only (strings or sets), so no command meets a key of the other type.

  The in-memory server at the end implements the commands with per-key deadlines; it
  interprets the locale, and the witnesses run on it.
\<close>

section \<open>Commands\<close>

record 's redis =
  redis_get :: "'s \<Rightarrow> string \<Rightarrow> json option"
  redis_set :: "string \<Rightarrow> json \<Rightarrow> int \<Rightarrow> 's \<Rightarrow> 's"
  redis_delete :: "string list \<Rightarrow> 's \<Rightarrow> 's"
  redis_smembers :: "'s \<Rightarrow> string \<Rightarrow> string list"
  redis_sadd :: "string \<Rightarrow> string \<Rightarrow> 's \<Rightarrow> 's"
  redis_srem :: "string \<Rightarrow> string \<Rightarrow> 's \<Rightarrow> 's"
  redis_expire :: "string \<Rightarrow> int \<Rightarrow> 's \<Rightarrow> 's"

text \<open>
  \<open>set k v ex s\<close> is \<^verbatim>\<open>SET k v EX ex\<close>. Redis refuses a lifetime that is not positive, so
  the laws of \<open>set\<close> and \<open>expire\<close> are for positive lifetimes. \<open>tick n\<close> is the passage of
  \<open>n\<close> milliseconds on the server, and \<open>pttl\<close> the remaining lifetime of a string key.
\<close>

locale redis_store =
  fixes R :: "'s redis"
    and tick :: "nat \<Rightarrow> 's \<Rightarrow> 's"
    and pttl :: "'s \<Rightarrow> string \<Rightarrow> int option"
  assumes get_set:
      "0 < ex \<Longrightarrow> redis_get R (redis_set R k v ex s) k' = (if k' = k then Some v else redis_get R s k')"
    and get_delete:
      "redis_get R (redis_delete R ks s) k = (if k \<in> set ks then None else redis_get R s k)"
    and get_sadd: "redis_get R (redis_sadd R k m s) k' = redis_get R s k'"
    and get_srem: "redis_get R (redis_srem R k m s) k' = redis_get R s k'"
    and get_expire: "0 < ex \<Longrightarrow> redis_get R (redis_expire R k ex s) k' = redis_get R s k'"
    and smembers_set:
      "0 < ex \<Longrightarrow> k' \<noteq> k \<Longrightarrow> redis_smembers R (redis_set R k v ex s) k' = redis_smembers R s k'"
    and smembers_delete:
      "redis_smembers R (redis_delete R ks s) k = (if k \<in> set ks then [] else redis_smembers R s k)"
    and smembers_sadd:
      "set (redis_smembers R (redis_sadd R k m s) k) = insert m (set (redis_smembers R s k))"
    and smembers_sadd_other:
      "k' \<noteq> k \<Longrightarrow> redis_smembers R (redis_sadd R k m s) k' = redis_smembers R s k'"
    and smembers_srem:
      "set (redis_smembers R (redis_srem R k m s) k) = set (redis_smembers R s k) - {m}"
    and smembers_srem_other:
      "k' \<noteq> k \<Longrightarrow> redis_smembers R (redis_srem R k m s) k' = redis_smembers R s k'"
    and smembers_expire:
      "0 < ex \<Longrightarrow> redis_smembers R (redis_expire R k ex s) k' = redis_smembers R s k'"
    and pttl_set:
      "0 < ex \<Longrightarrow> pttl (redis_set R k v ex s) k' = (if k' = k then Some (ex * 1000) else pttl s k')"
    and get_tick:
      "redis_get R (tick n s) k =
         (case pttl s k of Some p \<Rightarrow> if int n < p then redis_get R s k else None
                         | None \<Rightarrow> redis_get R s k)"
    and smembers_tick: "set (redis_smembers R (tick n s) k) \<subseteq> set (redis_smembers R s k)"
begin

lemmas get_write [store_simps] = get_set get_delete get_sadd get_srem get_expire

lemma smembers_sadd_if [store_simps]:
  "set (redis_smembers R (redis_sadd R k m s) k') =
     (if k' = k then insert m (set (redis_smembers R s k)) else set (redis_smembers R s k'))"
  by (simp add: smembers_sadd smembers_sadd_other)

lemma smembers_srem_if [store_simps]:
  "set (redis_smembers R (redis_srem R k m s) k') =
     (if k' = k then set (redis_smembers R s k) - {m} else set (redis_smembers R s k'))"
  by (simp add: smembers_srem smembers_srem_other)

text \<open>Time only removes: a value read later was there before.\<close>

lemma get_tick_Some: "redis_get R (tick n s) k = Some v \<Longrightarrow> redis_get R s k = Some v"
  by (auto simp: get_tick split: option.splits if_splits)

end

section \<open>Documents in Redis\<close>

text \<open>
  \<^verbatim>\<open>_get_json\<close> of \<^verbatim>\<open>auth_lifecycle.py\<close>: the document at a key. The program only ever
  stores JSON objects at the keys it reads this way.
\<close>

definition get_json :: "'s redis \<Rightarrow> 's \<Rightarrow> string \<Rightarrow> dict option" where
  "get_json R s k = (case redis_get R s k of Some (JObj d) \<Rightarrow> Some d | _ \<Rightarrow> None)"

text \<open>\<^verbatim>\<open>_set_json\<close> of \<^verbatim>\<open>auth_lifecycle.py\<close>.\<close>

definition set_json :: "'s redis \<Rightarrow> string \<Rightarrow> dict \<Rightarrow> int \<Rightarrow> 's \<Rightarrow> 's" where
  "set_json R k d ttl s = redis_set R k (JObj d) ttl s"

context redis_store
begin

lemma get_json_set_json [store_simps]:
  "0 < ttl \<Longrightarrow> get_json R (set_json R k d ttl s) k' = (if k' = k then Some d else get_json R s k')"
  by (simp add: get_json_def set_json_def store_simps)

lemma redis_get_set_json [store_simps]:
  "0 < ttl \<Longrightarrow>
     redis_get R (set_json R k d ttl s) k' = (if k' = k then Some (JObj d) else redis_get R s k')"
  by (simp add: set_json_def store_simps)

lemma get_json_delete [store_simps]:
  "get_json R (redis_delete R ks s) k = (if k \<in> set ks then None else get_json R s k)"
  by (simp add: get_json_def store_simps)

lemma get_json_index [store_simps]:
  "get_json R (redis_sadd R k m s) k' = get_json R s k'"
  "get_json R (redis_srem R k m s) k' = get_json R s k'"
  "0 < ex \<Longrightarrow> get_json R (redis_expire R k ex s) k' = get_json R s k'"
  by (simp_all add: get_json_def store_simps)

lemma smembers_set_json [store_simps]:
  "0 < ttl \<Longrightarrow> k' \<noteq> k \<Longrightarrow> redis_smembers R (set_json R k d ttl s) k' = redis_smembers R s k'"
  by (simp add: set_json_def smembers_set)

lemma get_json_tick_Some: "get_json R (tick n s) k = Some d \<Longrightarrow> get_json R s k = Some d"
  by (auto simp: get_json_def dest: get_tick_Some split: option.splits json.splits)

end

section \<open>An in-memory server\<close>

record mem =
  clock :: int
  strings :: "string \<Rightarrow> (json \<times> int option) option"
  sets :: "string \<Rightarrow> (string list \<times> int option) option"

definition live :: "mem \<Rightarrow> int option \<Rightarrow> bool" where
  "live s dl = (case dl of None \<Rightarrow> True | Some t \<Rightarrow> clock s < t)"

definition mem_get :: "mem \<Rightarrow> string \<Rightarrow> json option" where
  "mem_get s k = (case strings s k of Some (v, dl) \<Rightarrow> if live s dl then Some v else None | None \<Rightarrow> None)"

definition mem_set :: "string \<Rightarrow> json \<Rightarrow> int \<Rightarrow> mem \<Rightarrow> mem" where
  "mem_set k v ex s = s\<lparr>strings := (strings s)(k \<mapsto> (v, Some (clock s + ex * 1000)))\<rparr>"

definition mem_delete :: "string list \<Rightarrow> mem \<Rightarrow> mem" where
  "mem_delete ks s =
     s\<lparr>strings := (\<lambda>k. if k \<in> set ks then None else strings s k),
       sets := (\<lambda>k. if k \<in> set ks then None else sets s k)\<rparr>"

definition mem_set_at :: "mem \<Rightarrow> string \<Rightarrow> string list \<times> int option" where
  "mem_set_at s k =
     (case sets s k of Some (ms, dl) \<Rightarrow> if live s dl then (ms, dl) else ([], None) | None \<Rightarrow> ([], None))"

definition mem_smembers :: "mem \<Rightarrow> string \<Rightarrow> string list" where
  "mem_smembers s k = fst (mem_set_at s k)"

definition mem_sadd :: "string \<Rightarrow> string \<Rightarrow> mem \<Rightarrow> mem" where
  "mem_sadd k m s =
     (let (ms, dl) = mem_set_at s k in s\<lparr>sets := (sets s)(k \<mapsto> (List.insert m ms, dl))\<rparr>)"

definition mem_srem :: "string \<Rightarrow> string \<Rightarrow> mem \<Rightarrow> mem" where
  "mem_srem k m s =
     (let (ms, dl) = mem_set_at s k in s\<lparr>sets := (sets s)(k \<mapsto> (removeAll m ms, dl))\<rparr>)"

text \<open>\<^verbatim>\<open>EXPIRE\<close> on a key that is not there does nothing.\<close>

definition mem_expire :: "string \<Rightarrow> int \<Rightarrow> mem \<Rightarrow> mem" where
  "mem_expire k ex s =
     s\<lparr>strings := (\<lambda>k'. if k' = k then (case strings s k of
            Some (v, dl) \<Rightarrow> Some (v, if live s dl then Some (clock s + ex * 1000) else dl)
          | None \<Rightarrow> None) else strings s k'),
       sets := (\<lambda>k'. if k' = k then (case sets s k of
            Some (ms, dl) \<Rightarrow> Some (ms, if live s dl then Some (clock s + ex * 1000) else dl)
          | None \<Rightarrow> None) else sets s k')\<rparr>"

definition mem_tick :: "nat \<Rightarrow> mem \<Rightarrow> mem" where
  "mem_tick n s = s\<lparr>clock := clock s + int n\<rparr>"

definition mem_pttl :: "mem \<Rightarrow> string \<Rightarrow> int option" where
  "mem_pttl s k =
     (case strings s k of Some (v, Some t) \<Rightarrow> if clock s < t then Some (t - clock s) else None
                        | _ \<Rightarrow> None)"

definition mem_redis :: "mem redis" where
  "mem_redis = \<lparr>redis_get = mem_get, redis_set = mem_set, redis_delete = mem_delete,
     redis_smembers = mem_smembers, redis_sadd = mem_sadd, redis_srem = mem_srem,
     redis_expire = mem_expire\<rparr>"

definition mem_empty :: mem where
  "mem_empty = \<lparr>clock = 0, strings = Map.empty, sets = Map.empty\<rparr>"

lemmas mem_defs = mem_redis_def mem_get_def mem_set_def mem_delete_def mem_smembers_def
  mem_sadd_def mem_srem_def mem_expire_def mem_tick_def mem_pttl_def mem_set_at_def live_def Let_def

interpretation mem: redis_store mem_redis mem_tick mem_pttl
  by unfold_locales
    (auto simp: mem_defs fun_eq_iff split: option.splits prod.splits if_splits)

end
