(* ===== verification/Jwt.thy ===== *)
theory Jwt
  imports Prelude
begin

text \<open>
  Access and refresh JWTs: \<^verbatim>\<open>src/src/Util/JWT_Security.py\<close> with the constants of
  \<^verbatim>\<open>src/src/Util/auth_constants.py\<close>. Signing and verification are PyJWT's, so they are
  parameters (\<open>jwt_lib\<close>); the locale \<open>jwt_codec\<close> states what its documentation promises
  for the algorithm, secret and options the module always passes. Tokens are opaque
  values of a type \<open>'t\<close>. Random identifiers (\<^verbatim>\<open>uuid4()\<close>) and the clock are arguments.
\<close>

section \<open>Constants\<close>

definition ACCESS_TOKEN_TYPE :: string where "ACCESS_TOKEN_TYPE = ''access_token''"
definition REFRESH_TOKEN_TYPE :: string where "REFRESH_TOKEN_TYPE = ''refresh_token''"
definition TOKEN_TYPE_BEARER :: string where "TOKEN_TYPE_BEARER = ''Bearer''"
definition AUTH_SCOPE_PROJECT :: string where "AUTH_SCOPE_PROJECT = ''project''"
definition AUTH_SCOPE_PLATFORM :: string where "AUTH_SCOPE_PLATFORM = ''platform''"
definition PLATFORM_COLLECTION_SENTINEL :: string where
  "PLATFORM_COLLECTION_SENTINEL = ''__platform__''"
definition REFRESH_FAMILY_TTL_SECONDS :: int where "REFRESH_FAMILY_TTL_SECONDS = 72 * 60 * 60"
definition REMEMBER_ME_REFRESH_TTL_SECONDS :: int where
  "REMEMBER_ME_REFRESH_TTL_SECONDS = 30 * 24 * 60 * 60"

definition BASE_REQUIRED_JWT_CLAIMS :: "string list" where
  "BASE_REQUIRED_JWT_CLAIMS = [''exp'', ''iat'', ''type'']"

definition AUTH_REQUIRED_JWT_CLAIMS :: "string list" where
  "AUTH_REQUIRED_JWT_CLAIMS =
     [''jti'', ''session_id'', ''family_id'', ''user_hash'', ''collection'', ''scope'']"

text \<open>
  Deployment settings read from the environment at import: the access-token lifetime in
  minutes (default 15), the replay grace window in seconds (default 10, never negative) and
  the lifetime in seconds of a cached validation (default 30).
\<close>

record auth_config =
  access_expire_minutes :: int
  replay_grace_seconds :: int
  validate_cache_ttl :: int

definition default_config :: auth_config where
  "default_config =
     \<lparr>access_expire_minutes = 15, replay_grace_seconds = 10, validate_cache_ttl = 30\<rparr>"

definition us_per_second :: int where "us_per_second = 1000000"

section \<open>Signing secret\<close>

text \<open>
  The secret is taken from the environment; without one only an explicit test runtime
  gets the fixed test secret, and every other runtime refuses to start. \<open>runtime\<close> is
  the stripped, lower-cased \<^verbatim>\<open>APP_ENV\<close>, \<open>under_pytest\<close> whether
  \<^verbatim>\<open>PYTEST_CURRENT_TEST\<close> is set or the \<^verbatim>\<open>pytest\<close> module is loaded.
\<close>

definition TEST_ENV_NAMES :: "string set" where
  "TEST_ENV_NAMES = {''test'', ''testing'', ''pytest''}"

definition NON_TEST_ENV_NAMES :: "string set" where
  "NON_TEST_ENV_NAMES =
     {''prod'', ''production'', ''stage'', ''staging'', ''dev'', ''development'', ''local''}"

definition EXPLICIT_TEST_JWT_SECRET :: string where
  "EXPLICIT_TEST_JWT_SECRET = ''test_jwt_secret_key_for_testing_only_32chars!!''"

definition is_explicit_test_runtime :: "string \<Rightarrow> bool \<Rightarrow> bool" where
  "is_explicit_test_runtime runtime under_pytest =
     (if runtime \<in> TEST_ENV_NAMES then True
      else if runtime \<in> NON_TEST_ENV_NAMES then False
      else under_pytest)"

definition resolve_jwt_secret_for_runtime ::
    "string option \<Rightarrow> string \<Rightarrow> bool \<Rightarrow> string option" where
  "resolve_jwt_secret_for_runtime secret runtime under_pytest =
     (case secret of
        Some s \<Rightarrow> if s \<noteq> [] then Some s
                  else if is_explicit_test_runtime runtime under_pytest
                  then Some EXPLICIT_TEST_JWT_SECRET else None
      | None \<Rightarrow> if is_explicit_test_runtime runtime under_pytest
                then Some EXPLICIT_TEST_JWT_SECRET else None)"

section \<open>The JWT library\<close>

datatype jwt_error = ExpiredSignature | MissingRequiredClaim string | InvalidToken

text \<open>
  \<open>jwt_decode J now required verify_exp t\<close> is \<^verbatim>\<open>jwt.decode\<close> with the module's secret and
  algorithm at instant \<open>now\<close>; \<open>jwt_peek\<close> is the decoding without verification, and
  \<open>jwt_text\<close> the characters of a token, for hashing and for embedding in a document.
\<close>

record 't jwt_lib =
  jwt_encode :: "dict \<Rightarrow> 't"
  jwt_decode :: "int \<Rightarrow> string list \<Rightarrow> bool \<Rightarrow> 't \<Rightarrow> jwt_error + dict"
  jwt_peek :: "'t \<Rightarrow> dict option"
  jwt_text :: "'t \<Rightarrow> string"

text \<open>
  The claims this server puts into a token. A payload of these claims with integer
  \<^verbatim>\<open>exp\<close> and \<^verbatim>\<open>iat\<close>, a string \<^verbatim>\<open>jti\<close> and no required claim missing is one PyJWT accepts
  back until it expires.
\<close>

definition server_claims :: "string list" where
  "server_claims = [''session_id'', ''user_hash'', ''collection'', ''exp'', ''iat'', ''type'',
     ''jti'', ''family_id'', ''scope'', ''auth_time'']"

definition issuable :: "string list \<Rightarrow> dict \<Rightarrow> int \<Rightarrow> int \<Rightarrow> bool" where
  "issuable req p e i \<longleftrightarrow>
     dom p \<subseteq> set server_claims \<and> (\<forall>c \<in> set req. dget p c \<noteq> JNull) \<and>
     dget p ''exp'' = JInt e \<and> dget p ''iat'' = JInt i \<and> (\<exists>j. dget p ''jti'' = JStr j)"

locale jwt_codec =
  fixes J :: "'t jwt_lib"
  assumes decode_encode:
      "issuable req p e i \<Longrightarrow> i * us_per_second \<le> now \<Longrightarrow>
       (verify_exp \<Longrightarrow> now < e * us_per_second) \<Longrightarrow>
       jwt_decode J now req verify_exp (jwt_encode J p) = Inr p"
    and decode_expired:
      "issuable req p e i \<Longrightarrow> i * us_per_second \<le> now \<Longrightarrow> e * us_per_second \<le> now \<Longrightarrow>
       jwt_decode J now req True (jwt_encode J p) = Inl ExpiredSignature"
    and decode_required:
      "jwt_decode J now req verify_exp t = Inr p \<Longrightarrow> c \<in> set req \<Longrightarrow> dget p c \<noteq> JNull"
    and decode_not_expired:
      "jwt_decode J now req True t = Inr p \<Longrightarrow> dget p ''exp'' = JInt e \<Longrightarrow> now < e * us_per_second"

section \<open>Creating tokens\<close>

definition or_string :: "string option \<Rightarrow> string \<Rightarrow> string" where
  "or_string x d = (case x of Some s \<Rightarrow> if s \<noteq> [] then s else d | None \<Rightarrow> d)"

definition base_payload ::
    "int \<Rightarrow> string \<Rightarrow> json \<Rightarrow> json \<Rightarrow> json \<Rightarrow> int \<Rightarrow> string option \<Rightarrow> string option \<Rightarrow>
     string option \<Rightarrow> string \<Rightarrow> string \<Rightarrow> dict" where
  "base_payload now token_type session_id user_hash collection expires_delta jti family_id scope
      uuid1 uuid2 =
     [''session_id'' \<mapsto> session_id,
      ''user_hash'' \<mapsto> user_hash,
      ''collection'' \<mapsto> collection,
      ''exp'' \<mapsto> JInt ((now + expires_delta) div us_per_second),
      ''iat'' \<mapsto> JInt (now div us_per_second),
      ''type'' \<mapsto> JStr token_type,
      ''jti'' \<mapsto> JStr (or_string jti uuid1),
      ''family_id'' \<mapsto> JStr (or_string family_id uuid2),
      ''scope'' \<mapsto> JStr (or_string scope AUTH_SCOPE_PROJECT)]"

text \<open>\<^verbatim>\<open>expires_delta or default\<close>: a zero \<^verbatim>\<open>timedelta\<close> is false.\<close>

definition or_delta :: "int option \<Rightarrow> int \<Rightarrow> int" where
  "or_delta x d = (case x of Some t \<Rightarrow> if t \<noteq> 0 then t else d | None \<Rightarrow> d)"

definition access_ttl_us :: "auth_config \<Rightarrow> int option \<Rightarrow> int" where
  "access_ttl_us cfg d = or_delta d (access_expire_minutes cfg * 60 * us_per_second)"

definition access_payload ::
    "auth_config \<Rightarrow> int \<Rightarrow> json \<Rightarrow> json \<Rightarrow> json \<Rightarrow> int option \<Rightarrow> string option \<Rightarrow> string option \<Rightarrow>
     string option \<Rightarrow> int option \<Rightarrow> string \<Rightarrow> string \<Rightarrow> dict" where
  "access_payload cfg now session_id user_hash collection expires_delta scope jti family_id
      auth_time uuid1 uuid2 =
     (let ttl = access_ttl_us cfg expires_delta;
          payload = base_payload now ACCESS_TOKEN_TYPE session_id user_hash collection ttl jti
                      family_id scope uuid1 uuid2
      in case auth_time of None \<Rightarrow> payload | Some t \<Rightarrow> payload(''auth_time'' \<mapsto> JInt t))"

definition create_access_token ::
    "'t jwt_lib \<Rightarrow> auth_config \<Rightarrow> int \<Rightarrow> json \<Rightarrow> json \<Rightarrow> json \<Rightarrow> int option \<Rightarrow> string option \<Rightarrow>
     string option \<Rightarrow> string option \<Rightarrow> int option \<Rightarrow> string \<Rightarrow> string \<Rightarrow> 't" where
  "create_access_token J cfg now session_id user_hash collection expires_delta scope jti family_id
      auth_time uuid1 uuid2 =
     jwt_encode J (access_payload cfg now session_id user_hash collection expires_delta scope jti
       family_id auth_time uuid1 uuid2)"

definition refresh_ttl_us :: "int option \<Rightarrow> int" where
  "refresh_ttl_us d = or_delta d (REFRESH_FAMILY_TTL_SECONDS * us_per_second)"

definition refresh_payload ::
    "int \<Rightarrow> json \<Rightarrow> json \<Rightarrow> json \<Rightarrow> int option \<Rightarrow> string option \<Rightarrow> string option \<Rightarrow>
     string option \<Rightarrow> string \<Rightarrow> string \<Rightarrow> dict" where
  "refresh_payload now session_id user_hash collection expires_delta scope jti family_id uuid1 uuid2 =
     (let ttl = refresh_ttl_us expires_delta
      in base_payload now REFRESH_TOKEN_TYPE session_id user_hash collection ttl jti family_id scope
           uuid1 uuid2)"

definition create_refresh_token ::
    "'t jwt_lib \<Rightarrow> int \<Rightarrow> json \<Rightarrow> json \<Rightarrow> json \<Rightarrow> int option \<Rightarrow> string option \<Rightarrow>
     string option \<Rightarrow> string option \<Rightarrow> string \<Rightarrow> string \<Rightarrow> 't" where
  "create_refresh_token J now session_id user_hash collection expires_delta scope jti family_id
      uuid1 uuid2 =
     jwt_encode J (refresh_payload now session_id user_hash collection expires_delta scope jti
       family_id uuid1 uuid2)"

section \<open>Decoding tokens\<close>

definition unauthorized :: "string \<Rightarrow> http_error" where
  "unauthorized d = \<lparr>status_code = 401, detail = d\<rparr>"

definition decode_typed_token ::
    "'t jwt_lib \<Rightarrow> int \<Rightarrow> string \<Rightarrow> bool \<Rightarrow> 't \<Rightarrow> dict result" where
  "decode_typed_token J now expected_type verify_exp token =
     (case jwt_decode J now BASE_REQUIRED_JWT_CLAIMS verify_exp token of
        Inl ExpiredSignature \<Rightarrow> Inl (unauthorized ''Token expired'')
      | Inl (MissingRequiredClaim c) \<Rightarrow> Inl (unauthorized (''Missing required claim: '' @ c))
      | Inl InvalidToken \<Rightarrow> Inl (unauthorized ''Invalid token'')
      | Inr payload \<Rightarrow>
          if dget payload ''type'' \<noteq> JStr expected_type then Inl (unauthorized ''Invalid token type'')
          else (case List.find (\<lambda>c. payload c = None) AUTH_REQUIRED_JWT_CLAIMS of
                  Some c \<Rightarrow> Inl (unauthorized (''Missing required claim: '' @ c))
                | None \<Rightarrow> Inr payload))"

definition decode_access_token :: "'t jwt_lib \<Rightarrow> int \<Rightarrow> 't \<Rightarrow> dict result" where
  "decode_access_token J now token = decode_typed_token J now ACCESS_TOKEN_TYPE True token"

definition decode_refresh_token :: "'t jwt_lib \<Rightarrow> int \<Rightarrow> 't \<Rightarrow> dict result" where
  "decode_refresh_token J now token = decode_typed_token J now REFRESH_TOKEN_TYPE True token"

definition decode_access_token_allow_expired :: "'t jwt_lib \<Rightarrow> int \<Rightarrow> 't \<Rightarrow> dict result" where
  "decode_access_token_allow_expired J now token =
     decode_typed_token J now ACCESS_TOKEN_TYPE False token"

definition extract_claim :: "'t jwt_lib \<Rightarrow> int \<Rightarrow> string \<Rightarrow> 't \<Rightarrow> json result" where
  "extract_claim J now claim token =
     (case decode_access_token J now token of Inl e \<Rightarrow> Inl e | Inr payload \<Rightarrow> Inr (dget payload claim))"

definition extract_session_id :: "'t jwt_lib \<Rightarrow> int \<Rightarrow> 't \<Rightarrow> json result" where
  "extract_session_id J now token = extract_claim J now ''session_id'' token"

definition extract_user_hash :: "'t jwt_lib \<Rightarrow> int \<Rightarrow> 't \<Rightarrow> json result" where
  "extract_user_hash J now token = extract_claim J now ''user_hash'' token"

definition extract_collection :: "'t jwt_lib \<Rightarrow> int \<Rightarrow> 't \<Rightarrow> json result" where
  "extract_collection J now token = extract_claim J now ''collection'' token"

definition validate_token_structure :: "'t jwt_lib \<Rightarrow> 't \<Rightarrow> bool" where
  "validate_token_structure J token =
     (case jwt_peek J token of
        None \<Rightarrow> False
      | Some p \<Rightarrow>
          list_all (\<lambda>f. p f \<noteq> None) (BASE_REQUIRED_JWT_CLAIMS @ AUTH_REQUIRED_JWT_CLAIMS))"

section \<open>Lemmas\<close>

lemmas jwt_constants = ACCESS_TOKEN_TYPE_def REFRESH_TOKEN_TYPE_def AUTH_SCOPE_PROJECT_def
  AUTH_SCOPE_PLATFORM_def PLATFORM_COLLECTION_SENTINEL_def BASE_REQUIRED_JWT_CLAIMS_def
  AUTH_REQUIRED_JWT_CLAIMS_def

lemma or_string_Some [simp]: "s \<noteq> [] \<Longrightarrow> or_string (Some s) d = s"
  by (simp add: or_string_def)

lemma scope_neq [simp]:
  "AUTH_SCOPE_PROJECT \<noteq> AUTH_SCOPE_PLATFORM" "AUTH_SCOPE_PLATFORM \<noteq> AUTH_SCOPE_PROJECT"
  "AUTH_SCOPE_PROJECT \<noteq> []" "AUTH_SCOPE_PLATFORM \<noteq> []" "PLATFORM_COLLECTION_SENTINEL \<noteq> []"
  by (simp_all add: jwt_constants)

lemma token_type_neq [simp]:
  "ACCESS_TOKEN_TYPE \<noteq> REFRESH_TOKEN_TYPE" "REFRESH_TOKEN_TYPE \<noteq> ACCESS_TOKEN_TYPE"
  by (simp_all add: jwt_constants)

lemma ttl_constants_pos [simp]:
  "0 < REFRESH_FAMILY_TTL_SECONDS" "0 < REMEMBER_ME_REFRESH_TTL_SECONDS"
  "REFRESH_FAMILY_TTL_SECONDS \<noteq> 0" "REMEMBER_ME_REFRESH_TTL_SECONDS \<noteq> 0"
  by (simp_all add: REFRESH_FAMILY_TTL_SECONDS_def REMEMBER_ME_REFRESH_TTL_SECONDS_def)

text \<open>Field by field, what the two payloads hold.\<close>

lemma base_payload_fields [doc_simps]:
  "dget (base_payload now ty sid uh col d j f sc u1 u2) ''session_id'' = sid"
  "dget (base_payload now ty sid uh col d j f sc u1 u2) ''user_hash'' = uh"
  "dget (base_payload now ty sid uh col d j f sc u1 u2) ''collection'' = col"
  "dget (base_payload now ty sid uh col d j f sc u1 u2) ''exp'' = JInt ((now + d) div us_per_second)"
  "dget (base_payload now ty sid uh col d j f sc u1 u2) ''iat'' = JInt (now div us_per_second)"
  "dget (base_payload now ty sid uh col d j f sc u1 u2) ''type'' = JStr ty"
  "dget (base_payload now ty sid uh col d j f sc u1 u2) ''jti'' = JStr (or_string j u1)"
  "dget (base_payload now ty sid uh col d j f sc u1 u2) ''family_id'' = JStr (or_string f u2)"
  "dget (base_payload now ty sid uh col d j f sc u1 u2) ''scope'' = JStr (or_string sc AUTH_SCOPE_PROJECT)"
  "dget (base_payload now ty sid uh col d j f sc u1 u2) ''auth_time'' = JNull"
  by (simp_all add: base_payload_def)

lemma base_payload_dom:
  "dom (base_payload now ty sid uh col d j f sc u1 u2) \<subseteq> set server_claims"
  "c \<in> set AUTH_REQUIRED_JWT_CLAIMS \<Longrightarrow> base_payload now ty sid uh col d j f sc u1 u2 c \<noteq> None"
  by (auto simp: base_payload_def server_claims_def jwt_constants)

lemma access_payload_fields [doc_simps]:
  "dget (access_payload cfg now sid uh col d sc j f at u1 u2) ''session_id'' = sid"
  "dget (access_payload cfg now sid uh col d sc j f at u1 u2) ''user_hash'' = uh"
  "dget (access_payload cfg now sid uh col d sc j f at u1 u2) ''collection'' = col"
  "dget (access_payload cfg now sid uh col d sc j f at u1 u2) ''exp'' =
     JInt ((now + access_ttl_us cfg d) div us_per_second)"
  "dget (access_payload cfg now sid uh col d sc j f at u1 u2) ''iat'' = JInt (now div us_per_second)"
  "dget (access_payload cfg now sid uh col d sc j f at u1 u2) ''type'' = JStr ACCESS_TOKEN_TYPE"
  "dget (access_payload cfg now sid uh col d sc j f at u1 u2) ''jti'' = JStr (or_string j u1)"
  "dget (access_payload cfg now sid uh col d sc j f at u1 u2) ''family_id'' = JStr (or_string f u2)"
  "dget (access_payload cfg now sid uh col d sc j f at u1 u2) ''scope'' =
     JStr (or_string sc AUTH_SCOPE_PROJECT)"
  "dget (access_payload cfg now sid uh col d sc j f at u1 u2) ''auth_time'' =
     (case at of None \<Rightarrow> JNull | Some t \<Rightarrow> JInt t)"
  by (cases at; simp add: access_payload_def Let_def doc_simps)+

lemma refresh_payload_fields [doc_simps]:
  "dget (refresh_payload now sid uh col d sc j f u1 u2) ''session_id'' = sid"
  "dget (refresh_payload now sid uh col d sc j f u1 u2) ''user_hash'' = uh"
  "dget (refresh_payload now sid uh col d sc j f u1 u2) ''collection'' = col"
  "dget (refresh_payload now sid uh col d sc j f u1 u2) ''exp'' =
     JInt ((now + refresh_ttl_us d) div us_per_second)"
  "dget (refresh_payload now sid uh col d sc j f u1 u2) ''iat'' = JInt (now div us_per_second)"
  "dget (refresh_payload now sid uh col d sc j f u1 u2) ''type'' = JStr REFRESH_TOKEN_TYPE"
  "dget (refresh_payload now sid uh col d sc j f u1 u2) ''jti'' = JStr (or_string j u1)"
  "dget (refresh_payload now sid uh col d sc j f u1 u2) ''family_id'' = JStr (or_string f u2)"
  "dget (refresh_payload now sid uh col d sc j f u1 u2) ''scope'' =
     JStr (or_string sc AUTH_SCOPE_PROJECT)"
  by (simp_all add: refresh_payload_def Let_def doc_simps)

lemma base_required_present:
  "(\<forall>c \<in> set BASE_REQUIRED_JWT_CLAIMS. dget p c \<noteq> JNull) \<longleftrightarrow>
     dget p ''exp'' \<noteq> JNull \<and> dget p ''iat'' \<noteq> JNull \<and> dget p ''type'' \<noteq> JNull"
  by (simp add: BASE_REQUIRED_JWT_CLAIMS_def)

lemma access_payload_dom: "dom (access_payload cfg now sid uh col d sc j f at u1 u2) \<subseteq> set server_claims"
  using base_payload_dom(1) [of now ACCESS_TOKEN_TYPE sid uh col "access_ttl_us cfg d" j f sc u1 u2]
  by (cases at) (auto simp: access_payload_def server_claims_def Let_def)

lemma refresh_payload_dom: "dom (refresh_payload now sid uh col d sc j f u1 u2) \<subseteq> set server_claims"
  by (simp add: refresh_payload_def Let_def base_payload_dom(1))

lemma issuable_access:
  "issuable BASE_REQUIRED_JWT_CLAIMS (access_payload cfg now sid uh col d sc j f at u1 u2)
     ((now + access_ttl_us cfg d) div us_per_second) (now div us_per_second)"
  by (simp add: issuable_def base_required_present doc_simps access_payload_dom)

lemma issuable_refresh:
  "issuable BASE_REQUIRED_JWT_CLAIMS (refresh_payload now sid uh col d sc j f u1 u2)
     ((now + refresh_ttl_us d) div us_per_second) (now div us_per_second)"
  by (simp add: issuable_def base_required_present doc_simps refresh_payload_dom)

lemma find_missing_None:
  "List.find (\<lambda>c. p c = None) cs = None \<longleftrightarrow> (\<forall>c \<in> set cs. p c \<noteq> None)"
  by (auto simp: find_None_iff)

lemma access_payload_required:
  "\<forall>c \<in> set AUTH_REQUIRED_JWT_CLAIMS. access_payload cfg now sid uh col d sc j f at u1 u2 c \<noteq> None"
  by (auto simp: access_payload_def Let_def split: option.splits dest: base_payload_dom(2))

lemma refresh_payload_required:
  "\<forall>c \<in> set AUTH_REQUIRED_JWT_CLAIMS. refresh_payload now sid uh col d sc j f u1 u2 c \<noteq> None"
  by (auto simp: refresh_payload_def Let_def dest: base_payload_dom(2))

text \<open>Whole seconds: when an integer number of seconds is still ahead of an instant.\<close>

lemma before_deadline_seconds:
  "n div us_per_second * us_per_second \<le> n" "0 \<le> n mod us_per_second"
  by (simp_all add: us_per_second_def)

lemma typed_token_accepted:
  assumes "decode_typed_token J now ty v t = Inr p"
  shows "jwt_decode J now BASE_REQUIRED_JWT_CLAIMS v t = Inr p"
    and "dget p ''type'' = JStr ty"
    and "\<forall>c \<in> set AUTH_REQUIRED_JWT_CLAIMS. p c \<noteq> None"
  using assms
  by (auto simp: decode_typed_token_def find_missing_None
      split: sum.splits jwt_error.splits if_splits option.splits)

context jwt_codec
begin

text \<open>What the server signs it accepts back, as the right kind only, until it expires.\<close>

lemma decode_typed_access:
  assumes "now \<le> later" and "v \<Longrightarrow> later < (now + access_ttl_us cfg d) div us_per_second * us_per_second"
  shows "decode_typed_token J later ty v
           (create_access_token J cfg now sid uh col d sc j f at u1 u2) =
         (if ty = ACCESS_TOKEN_TYPE then Inr (access_payload cfg now sid uh col d sc j f at u1 u2)
          else Inl (unauthorized ''Invalid token type''))"
proof -
  have "now div us_per_second * us_per_second \<le> later"
    using before_deadline_seconds(1) [of now] assms(1) by linarith
  then have "jwt_decode J later BASE_REQUIRED_JWT_CLAIMS v
      (create_access_token J cfg now sid uh col d sc j f at u1 u2) =
      Inr (access_payload cfg now sid uh col d sc j f at u1 u2)"
    unfolding create_access_token_def
    using decode_encode [OF issuable_access] assms(2) by blast
  then show ?thesis
    using access_payload_required [of cfg now sid uh col d sc j f at u1 u2]
    by (auto simp: decode_typed_token_def doc_simps find_missing_None [THEN iffD2])
qed

lemma decode_typed_refresh:
  assumes "now \<le> later" and "v \<Longrightarrow> later < (now + refresh_ttl_us d) div us_per_second * us_per_second"
  shows "decode_typed_token J later ty v
           (create_refresh_token J now sid uh col d sc j f u1 u2) =
         (if ty = REFRESH_TOKEN_TYPE then Inr (refresh_payload now sid uh col d sc j f u1 u2)
          else Inl (unauthorized ''Invalid token type''))"
proof -
  have "now div us_per_second * us_per_second \<le> later"
    using before_deadline_seconds(1) [of now] assms(1) by linarith
  then have "jwt_decode J later BASE_REQUIRED_JWT_CLAIMS v
      (create_refresh_token J now sid uh col d sc j f u1 u2) =
      Inr (refresh_payload now sid uh col d sc j f u1 u2)"
    unfolding create_refresh_token_def
    using decode_encode [OF issuable_refresh] assms(2) by blast
  then show ?thesis
    using refresh_payload_required [of now sid uh col d sc j f u1 u2]
    by (auto simp: decode_typed_token_def doc_simps find_missing_None [THEN iffD2])
qed

lemma decode_access_expired:
  assumes "now \<le> later" and "(now + access_ttl_us cfg d) div us_per_second * us_per_second \<le> later"
  shows "decode_access_token J later (create_access_token J cfg now sid uh col d sc j f at u1 u2) =
         Inl (unauthorized ''Token expired'')"
proof -
  have "now div us_per_second * us_per_second \<le> later"
    using before_deadline_seconds(1) [of now] assms(1) by linarith
  then have "jwt_decode J later BASE_REQUIRED_JWT_CLAIMS True
      (create_access_token J cfg now sid uh col d sc j f at u1 u2) = Inl ExpiredSignature"
    unfolding create_access_token_def using decode_expired [OF issuable_access] assms(2) by blast
  then show ?thesis by (simp add: decode_access_token_def decode_typed_token_def)
qed

lemma decode_refresh_expired:
  assumes "now \<le> later" and "(now + refresh_ttl_us d) div us_per_second * us_per_second \<le> later"
  shows "decode_refresh_token J later (create_refresh_token J now sid uh col d sc j f u1 u2) =
         Inl (unauthorized ''Token expired'')"
proof -
  have "now div us_per_second * us_per_second \<le> later"
    using before_deadline_seconds(1) [of now] assms(1) by linarith
  then have "jwt_decode J later BASE_REQUIRED_JWT_CLAIMS True
      (create_refresh_token J now sid uh col d sc j f u1 u2) = Inl ExpiredSignature"
    unfolding create_refresh_token_def using decode_expired [OF issuable_refresh] assms(2) by blast
  then show ?thesis by (simp add: decode_refresh_token_def decode_typed_token_def)
qed

text \<open>A token the server decodes right after signing it carries exactly what was signed.\<close>

lemma decode_own_access:
  assumes "decode_access_token J later (create_access_token J cfg now sid uh col d sc j f at u1 u2) = Inr c"
    and "now \<le> later"
  shows "c = access_payload cfg now sid uh col d sc j f at u1 u2"
proof (cases "later < (now + access_ttl_us cfg d) div us_per_second * us_per_second")
  case True
  with assms show ?thesis by (simp add: decode_access_token_def decode_typed_access)
next
  case False
  with assms show ?thesis by (simp add: decode_access_expired)
qed

lemma decode_own_refresh:
  assumes "decode_refresh_token J later (create_refresh_token J now sid uh col d sc j f u1 u2) = Inr c"
    and "now \<le> later"
  shows "c = refresh_payload now sid uh col d sc j f u1 u2"
proof (cases "later < (now + refresh_ttl_us d) div us_per_second * us_per_second")
  case True
  with assms show ?thesis by (simp add: decode_refresh_token_def decode_typed_refresh)
next
  case False
  with assms show ?thesis by (simp add: decode_refresh_expired)
qed

end

section \<open>A symbolic JWT library\<close>

text \<open>
  A token either carries a payload this server signed or is anything else. Verification
  follows PyJWT's order: required claims, then \<^verbatim>\<open>iat\<close> and \<^verbatim>\<open>exp\<close>.
\<close>

datatype sym_token = Signed dict | Foreign string

definition sym_decode :: "int \<Rightarrow> string list \<Rightarrow> bool \<Rightarrow> sym_token \<Rightarrow> jwt_error + dict" where
  "sym_decode now req verify_exp t =
     (case t of
        Foreign _ \<Rightarrow> Inl InvalidToken
      | Signed p \<Rightarrow>
          (case List.find (\<lambda>c. dget p c = JNull) req of
             Some c \<Rightarrow> Inl (MissingRequiredClaim c)
           | None \<Rightarrow>
               (case dget p ''iat'' of
                  JInt i \<Rightarrow>
                    if now < i * us_per_second then Inl InvalidToken
                    else if \<not> verify_exp then Inr p
                    else (case dget p ''exp'' of
                            JInt e \<Rightarrow> if e * us_per_second \<le> now then Inl ExpiredSignature else Inr p
                          | _ \<Rightarrow> Inl InvalidToken)
                | _ \<Rightarrow> Inl InvalidToken)))"

definition sym_peek :: "sym_token \<Rightarrow> dict option" where
  "sym_peek t = (case t of Signed p \<Rightarrow> Some p | Foreign _ \<Rightarrow> None)"

definition sym_text :: "sym_token \<Rightarrow> string" where
  "sym_text t = (case t of Signed p \<Rightarrow> ''signed.'' @ py_str (dget p ''jti'') @ ''.mac'' | Foreign x \<Rightarrow> x)"

definition sym_jwt :: "sym_token jwt_lib" where
  "sym_jwt =
     \<lparr>jwt_encode = Signed, jwt_decode = sym_decode, jwt_peek = sym_peek, jwt_text = sym_text\<rparr>"

interpretation sym: jwt_codec sym_jwt
  by unfold_locales
    (auto simp: sym_jwt_def sym_decode_def issuable_def find_None_iff find_Some_iff
      split: sym_token.splits option.splits json.splits if_splits)

section \<open>Guarantees\<close>

text \<open>Access and refresh tokens are never interchangeable: whatever is accepted as the one is
  rejected as the other, with 401 and the message for a wrong token type.\<close>

lemma token_kinds_never_interchangeable:
  "(decode_access_token J now t = Inr p \<longrightarrow> decode_refresh_token J now t = Inl (unauthorized ''Invalid token type'')) \<and>
   (decode_refresh_token J now t = Inr p \<longrightarrow> decode_access_token J now t = Inl (unauthorized ''Invalid token type''))"
  by (auto simp: decode_access_token_def decode_refresh_token_def decode_typed_token_def jwt_constants
      split: sum.splits jwt_error.splits if_splits option.splits)

lemma token_kinds_never_interchangeable_witness:
  "decode_refresh_token sym_jwt 0 (create_access_token sym_jwt default_config 0 (JStr ''s'') (JStr ''h'') (JStr ''c'')
     None None (Some ''j'') (Some ''f'') None [] []) = Inl (unauthorized ''Invalid token type'')"
proof -
  have "decode_access_token sym_jwt 0 (create_access_token sym_jwt default_config 0 (JStr ''s'') (JStr ''h'') (JStr ''c'')
     None None (Some ''j'') (Some ''f'') None [] []) = Inr (access_payload default_config 0 (JStr ''s'') (JStr ''h'')
     (JStr ''c'') None None (Some ''j'') (Some ''f'') None [] [])"
    unfolding decode_access_token_def
    by (subst sym.decode_typed_access)
      (simp_all add: access_ttl_us_def or_delta_def default_config_def us_per_second_def)
  then show ?thesis by (rule token_kinds_never_interchangeable [THEN conjunct1, rule_format])
qed

text \<open>An access token the server signed decodes to exactly the signed claims until the whole
  second of its expiry, and is refused as expired from then on.\<close>

lemma access_token_lifetime:
  assumes "jwt_codec J" and "now \<le> later"
  shows "decode_access_token J later (create_access_token J cfg now sid uh col d sc j f at u1 u2) =
     (if later < (now + access_ttl_us cfg d) div us_per_second * us_per_second
      then Inr (access_payload cfg now sid uh col d sc j f at u1 u2)
      else Inl (unauthorized ''Token expired''))"
  using jwt_codec.decode_typed_access [OF assms, of True cfg d ACCESS_TOKEN_TYPE]
    jwt_codec.decode_access_expired [OF assms, of cfg d]
  by (auto simp: decode_access_token_def)

lemma access_token_lifetime_witness:
  "decode_access_token sym_jwt (900 * us_per_second) (create_access_token sym_jwt default_config 0 (JStr ''s'')
     (JStr ''h'') (JStr ''c'') None None (Some ''j'') (Some ''f'') None [] []) = Inl (unauthorized ''Token expired'')"
  by (subst access_token_lifetime [OF sym.jwt_codec_axioms])
    (simp_all add: access_ttl_us_def or_delta_def default_config_def us_per_second_def)

end
