(* ===== verification/OAuth_State.thy ===== *)
theory OAuth_State
  imports Redis Jwt
begin

text \<open>
  OAuth state, link and reauthentication records: \<^verbatim>\<open>src/src/Util/oauth_state.py\<close>. The
  Redis commands the module adds to those of \<open>Redis\<close> (\<^verbatim>\<open>SET NX\<close>, \<^verbatim>\<open>GETDEL\<close>,
  \<^verbatim>\<open>EXISTS\<close>, \<^verbatim>\<open>PTTL\<close>, \<^verbatim>\<open>SET PXAT\<close>) are a second record of parameters. The keyed hash
  and the digest are parameters too; random material and the clock are arguments. A command
  that raises is the error \<open>StoreUnavailable\<close> at every call site and is left out.
\<close>

section \<open>Parameters\<close>

record 's oauth_redis =
  o_get :: "'s \<Rightarrow> string \<Rightarrow> json option"
  o_set :: "string \<Rightarrow> json \<Rightarrow> int \<Rightarrow> 's \<Rightarrow> 's"
  o_setnx :: "string \<Rightarrow> json \<Rightarrow> int \<Rightarrow> 's \<Rightarrow> bool \<times> 's"
  o_getdel :: "string \<Rightarrow> 's \<Rightarrow> json option \<times> 's"
  o_delete :: "string \<Rightarrow> 's \<Rightarrow> 's"
  o_pttl :: "'s \<Rightarrow> string \<Rightarrow> int"
  o_set_pxat :: "string \<Rightarrow> json \<Rightarrow> int \<Rightarrow> 's \<Rightarrow> 's"

text \<open>\<open>server_ms\<close> is the clock of the server in milliseconds.\<close>

locale oauth_store =
  fixes Q :: "'s oauth_redis"
    and tick :: "nat \<Rightarrow> 's \<Rightarrow> 's"
    and server_ms :: "'s \<Rightarrow> int"
  assumes o_get_set: "0 < ex \<Longrightarrow> o_get Q (o_set Q k v ex s) k' = (if k' = k then Some v else o_get Q s k')"
    and o_get_setnx:
      "0 < ex \<Longrightarrow> o_setnx Q k v ex s =
         (if o_get Q s k = None then (True, o_set Q k v ex s) else (False, s))"
    and o_getdel_fst: "fst (o_getdel Q k s) = o_get Q s k"
    and o_getdel_snd: "o_get Q (snd (o_getdel Q k s)) k' = (if k' = k then None else o_get Q s k')"
    and o_get_delete: "o_get Q (o_delete Q k s) k' = (if k' = k then None else o_get Q s k')"
    and o_get_set_pxat:
      "o_get Q (o_set_pxat Q k v t s) k' =
         (if k' = k then if server_ms s < t then Some v else None else o_get Q s k')"
    and server_ms_set_pxat: "server_ms (o_set_pxat Q k v t s) = server_ms s"
    and o_pttl_missing: "o_get Q s k = None \<Longrightarrow> o_pttl Q s k \<le> 0"
    and o_get_tick: "o_get Q (tick n s) k = Some v \<Longrightarrow> o_get Q s k = Some v"

record oauth_env =
  hmac_hex :: "string \<Rightarrow> string"
  sha256_text :: "string \<Rightarrow> string"
  max_state_ttl_seconds :: int
  recent_reauth_seconds :: int

section \<open>Constants, errors and data\<close>

definition STATE_RECORD_VERSION :: int where "STATE_RECORD_VERSION = 3"
definition SUPPORTED_STATE_RECORD_VERSIONS :: "int set" where "SUPPORTED_STATE_RECORD_VERSIONS = {2, 3}"
definition MAX_OAUTH_STATE_TTL_SECONDS :: int where "MAX_OAUTH_STATE_TTL_SECONDS = 600"
definition OAUTH_STATE_PREFIX :: string where "OAUTH_STATE_PREFIX = ''oauth_state:''"
definition OAUTH_STATE_CONSUMED_PREFIX :: string where
  "OAUTH_STATE_CONSUMED_PREFIX = ''oauth_state_consumed:''"
definition OAUTH_COMPLETION_PREFIX :: string where "OAUTH_COMPLETION_PREFIX = ''oauth_completion:''"
definition OAUTH_RECENT_REAUTH_PREFIX :: string where "OAUTH_RECENT_REAUTH_PREFIX = ''oauth_reauth:''"

datatype oauth_error = StateInvalid string | StateReplay string

type_synonym 'a oauth_result = "oauth_error + 'a"

record recent_auth_proof =
  proof_source :: string
  authenticated_at_ms :: int
  proof_expires_at_ms :: int
  marker_fingerprint :: json

record session_authorization =
  az_user_id :: json
  az_user_hash :: json
  az_session_id :: json
  az_family_id :: json
  az_scope :: json
  az_project_hash :: json
  az_proof :: "recent_auth_proof option"

section \<open>Shapes\<close>

fun is_text :: "json \<Rightarrow> bool" where
  "is_text (JStr _) = True"
| "is_text (JTime _) = True"
| "is_text _ = False"

definition is_url_char :: "char \<Rightarrow> bool" where
  "is_url_char c \<longleftrightarrow>
     (let n = of_char c :: nat
      in 65 \<le> n \<and> n \<le> 90 \<or> 97 \<le> n \<and> n \<le> 122 \<or> 48 \<le> n \<and> n \<le> 57 \<or> n = 95 \<or> n = 45)"

definition is_hex_char :: "char \<Rightarrow> bool" where
  "is_hex_char c \<longleftrightarrow> (let n = of_char c :: nat in 48 \<le> n \<and> n \<le> 57 \<or> 97 \<le> n \<and> n \<le> 102)"

definition hex_text :: "nat \<Rightarrow> json \<Rightarrow> bool" where
  "hex_text n v = (case v of JStr s \<Rightarrow> length s = n \<and> list_all is_hex_char s | _ \<Rightarrow> False)"

definition ensure_state_shape :: "string \<Rightarrow> string \<Rightarrow> unit oauth_result" where
  "ensure_state_shape label value =
     (if 16 \<le> length value \<and> length value \<le> 512 \<and> list_all is_url_char value then Inr ()
      else Inl (StateInvalid (''OAuth '' @ label @ '' is invalid'')))"

definition clamp_ttl :: "int option \<Rightarrow> int \<Rightarrow> int" where
  "clamp_ttl value fallback =
     max 1 (min (case value of Some v \<Rightarrow> v | None \<Rightarrow> fallback) MAX_OAUTH_STATE_TTL_SECONDS)"

section \<open>Session authorizations\<close>

definition parse_proof :: "json \<Rightarrow> recent_auth_proof oauth_result" where
  "parse_proof v =
     (case v of
        JObj p \<Rightarrow>
          if dget p ''source'' \<notin> {JStr ''token'', JStr ''marker''}
          then Inl (StateInvalid ''OAuth authentication proof is malformed'')
          else (case (dget p ''authenticated_at_ms'', dget p ''expires_at_ms'') of
                  (JInt a, JInt e) \<Rightarrow>
                    if a \<le> 0 \<or> e \<le> 0 \<or> e \<le> a
                    then Inl (StateInvalid ''OAuth authentication proof is malformed'')
                    else if dget p ''source'' = JStr ''marker'' \<and> \<not> hex_text 64 (dget p ''marker_fingerprint'')
                    then Inl (StateInvalid ''OAuth reauthentication proof is malformed'')
                    else Inr \<lparr>proof_source = py_str (dget p ''source''), authenticated_at_ms = a,
                              proof_expires_at_ms = e, marker_fingerprint = dget p ''marker_fingerprint''\<rparr>
                | _ \<Rightarrow> Inl (StateInvalid ''OAuth authentication proof is malformed''))
      | _ \<Rightarrow> Inl (StateInvalid ''OAuth authentication proof is malformed''))"

definition has_required :: "dict \<Rightarrow> bool" where
  "has_required d =
     list_all (\<lambda>n. is_text (dget d n) \<and> truthy (dget d n))
       [''user_id'', ''user_hash'', ''session_id'', ''family_id'', ''scope'']"

definition scope_well_formed :: "dict \<Rightarrow> bool" where
  "scope_well_formed d =
     (dget d ''scope'' \<in> {JStr ''project'', JStr ''platform''} \<and>
      (dget d ''scope'' = JStr ''project'' \<longrightarrow>
         is_text (dget d ''project_hash'') \<and> truthy (dget d ''project_hash'')))"

definition authorization_of :: "dict \<Rightarrow> recent_auth_proof option \<Rightarrow> session_authorization" where
  "authorization_of d p =
     \<lparr>az_user_id = dget d ''user_id'', az_user_hash = dget d ''user_hash'',
      az_session_id = dget d ''session_id'', az_family_id = dget d ''family_id'',
      az_scope = dget d ''scope'', az_project_hash = dget d ''project_hash'', az_proof = p\<rparr>"

definition from_payload :: "json \<Rightarrow> session_authorization oauth_result" where
  "from_payload value =
     (case value of
        JObj d \<Rightarrow>
          if \<not> has_required d then Inl (StateInvalid ''OAuth session authorization is malformed'')
          else if \<not> scope_well_formed d then Inl (StateInvalid ''OAuth authorization scope is malformed'')
          else if dget d ''proof'' = JNull then Inr (authorization_of d None)
          else (case parse_proof (dget d ''proof'') of
                  Inl e \<Rightarrow> Inl e
                | Inr p \<Rightarrow> Inr (authorization_of d (Some p)))
      | _ \<Rightarrow> Inl (StateInvalid ''OAuth session authorization is missing''))"

text \<open>\<^verbatim>\<open>dataclasses.asdict\<close>.\<close>

definition asdict_proof :: "recent_auth_proof \<Rightarrow> json" where
  "asdict_proof p =
     JObj [''source'' \<mapsto> JStr (proof_source p), ''authenticated_at_ms'' \<mapsto> JInt (authenticated_at_ms p),
           ''expires_at_ms'' \<mapsto> JInt (proof_expires_at_ms p), ''marker_fingerprint'' \<mapsto> marker_fingerprint p]"

definition asdict_authorization :: "session_authorization \<Rightarrow> json" where
  "asdict_authorization a =
     JObj [''user_id'' \<mapsto> az_user_id a, ''user_hash'' \<mapsto> az_user_hash a, ''session_id'' \<mapsto> az_session_id a,
           ''family_id'' \<mapsto> az_family_id a, ''scope'' \<mapsto> az_scope a, ''project_hash'' \<mapsto> az_project_hash a,
           ''proof'' \<mapsto> (case az_proof a of None \<Rightarrow> JNull | Some p \<Rightarrow> asdict_proof p)]"

section \<open>Keys and fingerprints\<close>

definition oauth_key :: "oauth_env \<Rightarrow> string \<Rightarrow> string \<Rightarrow> string" where
  "oauth_key E prefix value = prefix @ take 32 (hmac_hex E value)"

definition fingerprint_oauth_value :: "oauth_env \<Rightarrow> nat \<Rightarrow> string \<Rightarrow> string" where
  "fingerprint_oauth_value E n value = take n (sha256_text E value)"

definition completion_key :: "json \<Rightarrow> string oauth_result" where
  "completion_key reference =
     (if hex_text 32 reference then Inr (OAUTH_COMPLETION_PREFIX @ py_str reference)
      else Inl (StateInvalid ''OAuth completion authorization is malformed''))"

definition recent_reauth_key :: "oauth_env \<Rightarrow> string \<Rightarrow> string option \<Rightarrow> string" where
  "recent_reauth_key E user_id session_id =
     oauth_key E OAUTH_RECENT_REAUTH_PREFIX
       (user_id @ ''|'' @ (case session_id of Some s \<Rightarrow> s | None \<Rightarrow> []))"

section \<open>Creating a state\<close>

text \<open>The random material of one call, and the instant of \<^verbatim>\<open>time.time()\<close> in microseconds.\<close>

record oauth_material =
  mat_state :: string
  mat_nonce :: string
  mat_code_verifier :: string

text \<open>\<^verbatim>\<open>build_pkce_s256_challenge\<close> is the base64url text of a SHA-256 digest; the digest is a parameter.\<close>

definition completion_payload :: "dict \<Rightarrow> dict" where
  "completion_payload payload =
     [''purpose'' \<mapsto> dget payload ''purpose'', ''connection_id'' \<mapsto> dget payload ''connection_id'',
      ''binding_id'' \<mapsto> dget payload ''binding_id'', ''authorization'' \<mapsto> dget payload ''authorization'',
      ''expires_at'' \<mapsto> dget payload ''expires_at'']"

record state_created =
  created_state :: string
  created_nonce :: string
  created_code_verifier :: string
  created_code_challenge :: string
  created_code_challenge_method :: string
  created_expires_in :: int
  created_expires_at :: int
  created_state_fingerprint :: string
  created_init_token_fingerprint :: json
  cookie_max_age_seconds :: int

definition state_payload ::
    "oauth_env \<Rightarrow> (string \<Rightarrow> string) \<Rightarrow> int \<Rightarrow> oauth_material \<Rightarrow> dict \<Rightarrow> session_authorization option \<Rightarrow>
     json \<Rightarrow> int \<Rightarrow> dict" where
  "state_payload E challenge now mat binding authorization authorization_ref expires_at_ms =
     [''version'' \<mapsto> JInt STATE_RECORD_VERSION,
      ''provider'' \<mapsto> dget_default binding ''provider'' (JStr ''google''),
      ''purpose'' \<mapsto> dget_default binding ''purpose'' (JStr ''login''),
      ''connection_id'' \<mapsto> dget binding ''connection_id'',
      ''binding_id'' \<mapsto> dget binding ''binding_id'',
      ''expected_issuer'' \<mapsto> dget binding ''expected_issuer'',
      ''delivery_mode'' \<mapsto> dget binding ''delivery_mode'',
      ''project_hash'' \<mapsto> dget binding ''project_hash'',
      ''return_origin'' \<mapsto> dget binding ''return_origin'',
      ''redirect_uri'' \<mapsto> dget binding ''redirect_uri'',
      ''prompt'' \<mapsto> dget binding ''prompt'',
      ''remember_me'' \<mapsto> JBool (truthy (dget_default binding ''remember_me'' (JBool False))),
      ''user_id'' \<mapsto> dget binding ''user_id'',
      ''session_id'' \<mapsto> dget binding ''session_id'',
      ''authorization'' \<mapsto> (case authorization of Some a \<Rightarrow> asdict_authorization a | None \<Rightarrow> JNull),
      ''authorization_ref'' \<mapsto> authorization_ref,
      ''nonce'' \<mapsto> JStr (mat_nonce mat),
      ''code_verifier'' \<mapsto> JStr (mat_code_verifier mat),
      ''code_challenge'' \<mapsto> JStr (challenge (mat_code_verifier mat)),
      ''code_challenge_method'' \<mapsto> JStr ''S256'',
      ''state_fingerprint'' \<mapsto> JStr (fingerprint_oauth_value E 12 (mat_state mat)),
      ''init_token_fingerprint'' \<mapsto> dget binding ''init_token_fingerprint'',
      ''scope_fingerprint'' \<mapsto> dget binding ''scope_fingerprint'',
      ''ip_hash'' \<mapsto> dget binding ''ip_hash'',
      ''ua_hash'' \<mapsto> dget binding ''ua_hash'',
      ''created_at'' \<mapsto> JTime now,
      ''expires_at'' \<mapsto> JTime (expires_at_ms * 1000)]"

text \<open>
  The authorization a link or reauthentication is bound to, its reference and the deadline in
  milliseconds.
\<close>

definition state_authorization ::
    "oauth_env \<Rightarrow> int \<Rightarrow> int \<Rightarrow> string \<Rightarrow> dict \<Rightarrow>
     (session_authorization option \<times> json \<times> int) oauth_result" where
  "state_authorization E now ttl state binding =
     (let purpose = dget_default binding ''purpose'' (JStr ''login'');
          expires0 = (now + ttl * us_per_second) div 1000
      in if purpose \<notin> {JStr ''link'', JStr ''reauth''} then Inr (None, JNull, expires0)
         else case from_payload (dget binding ''authorization'') of
                Inl e \<Rightarrow> Inl e
              | Inr a \<Rightarrow>
                  if az_user_id a \<noteq> dget binding ''user_id'' \<or> az_session_id a \<noteq> dget binding ''session_id'' \<or>
                     az_project_hash a \<noteq> dget binding ''project_hash''
                  then Inl (StateInvalid ''OAuth authorization binding mismatch'')
                  else if purpose = JStr ''link'' \<and> az_proof a = None
                  then Inl (StateInvalid ''OAuth linking proof is missing'')
                  else
                    let expires = (case az_proof a of
                          Some p \<Rightarrow> if purpose = JStr ''link'' then min expires0 (proof_expires_at_ms p) else expires0
                        | None \<Rightarrow> expires0)
                    in if expires \<le> now div 1000
                       then Inl (StateInvalid ''OAuth authorization has expired'')
                       else Inr (Some a, JStr (take 32 (hmac_hex E state)), expires))"

definition create_state ::
    "'s oauth_redis \<Rightarrow> oauth_env \<Rightarrow> (string \<Rightarrow> string) \<Rightarrow> int \<Rightarrow> oauth_material \<Rightarrow> dict \<Rightarrow> int option \<Rightarrow>
     's \<Rightarrow> state_created oauth_result \<times> 's" where
  "create_state Q E challenge now mat binding ttl_seconds s =
     (let ttl0 = clamp_ttl ttl_seconds (max_state_ttl_seconds E)
      in case state_authorization E now ttl0 (mat_state mat) binding of
           Inl e \<Rightarrow> (Inl e, s)
         | Inr (authorization, authorization_ref, expires_at_ms) \<Rightarrow>
             let ttl = max 1 ((expires_at_ms - now div 1000 + 999) div 1000);
                 payload = state_payload E challenge now mat binding authorization authorization_ref expires_at_ms;
                 state_key = oauth_key E OAUTH_STATE_PREFIX (mat_state mat);
                 created = \<lparr>created_state = mat_state mat, created_nonce = mat_nonce mat,
                            created_code_verifier = mat_code_verifier mat,
                            created_code_challenge = challenge (mat_code_verifier mat),
                            created_code_challenge_method = ''S256'', created_expires_in = ttl,
                            created_expires_at = expires_at_ms * 1000,
                            created_state_fingerprint = fingerprint_oauth_value E 12 (mat_state mat),
                            created_init_token_fingerprint = dget binding ''init_token_fingerprint'',
                            cookie_max_age_seconds = ttl\<rparr>
             in case authorization of
                  None \<Rightarrow>
                    (case o_setnx Q state_key (JObj payload) (max 1 ttl) s of
                       (True, s') \<Rightarrow> (Inr created, s')
                     | (False, s') \<Rightarrow> (Inl (StateInvalid ''OAuth state collision''), s'))
                | Some _ \<Rightarrow>
                    (case completion_key authorization_ref of
                       Inl e \<Rightarrow> (Inl e, s)
                     | Inr ckey \<Rightarrow>
                         if o_get Q s state_key \<noteq> None \<or> o_get Q s ckey \<noteq> None
                         then (Inl (StateInvalid ''OAuth state collision''), s)
                         else (Inr created,
                               o_set_pxat Q ckey (JObj (completion_payload payload)) expires_at_ms
                                 (o_set_pxat Q state_key (JObj payload) expires_at_ms s))))"

section \<open>Consuming a state\<close>

definition json_loads :: "json option \<Rightarrow> dict oauth_result" where
  "json_loads v =
     (case v of
        None \<Rightarrow> Inl (StateInvalid ''OAuth state is missing or expired'')
      | Some (JObj d) \<Rightarrow> Inr d
      | Some _ \<Rightarrow> Inl (StateInvalid ''OAuth state payload is malformed''))"

definition consume_record ::
    "'s oauth_redis \<Rightarrow> oauth_env \<Rightarrow> string \<Rightarrow> string \<Rightarrow> string \<Rightarrow> string \<Rightarrow> 's \<Rightarrow> dict oauth_result \<times> 's" where
  "consume_record Q E prefix consumed_prefix secret label s =
     (case ensure_state_shape label secret of
        Inl e \<Rightarrow> (Inl e, s)
      | Inr _ \<Rightarrow>
          let consumed_key = oauth_key E consumed_prefix secret
          in case o_getdel Q (oauth_key E prefix secret) s of
               (None, s1) \<Rightarrow>
                 if o_get Q s1 consumed_key \<noteq> None
                 then (Inl (StateReplay (''OAuth '' @ label @ '' was already consumed'')), s1)
                 else (Inl (StateInvalid (''OAuth '' @ label @ '' is missing or expired'')), s1)
             | (Some v, s1) \<Rightarrow>
                 (json_loads (Some v), o_set Q consumed_key (JStr ''1'') MAX_OAUTH_STATE_TTL_SECONDS s1))"

record state_record =
  rec_provider :: string
  rec_purpose :: string
  rec_redirect_uri :: json
  rec_return_origin :: json
  rec_nonce :: string
  rec_code_verifier :: string
  rec_code_challenge :: string
  rec_code_challenge_method :: string
  rec_state_fingerprint :: string
  rec_init_token_fingerprint :: json
  rec_project_hash :: json
  rec_scope_fingerprint :: json
  rec_ip_hash :: json
  rec_ua_hash :: json
  rec_created_at :: json
  rec_expires_at :: json
  rec_oauth_binding :: dict
  rec_connection_id :: json
  rec_binding_id :: json
  rec_expected_issuer :: json
  rec_delivery_mode :: json
  rec_prompt :: json
  rec_remember_me :: bool
  rec_user_id :: json
  rec_session_id :: json
  rec_authorization :: "session_authorization option"
  rec_authorization_ref :: json
  rec_version :: int

definition build_record ::
    "oauth_env \<Rightarrow> string \<Rightarrow> dict \<Rightarrow> session_authorization option \<Rightarrow> int \<Rightarrow> state_record" where
  "build_record E state p authorization version =
     (let text = (\<lambda>k d. py_str (py_or (dget p k) (JStr d)))
      in \<lparr>rec_provider = text ''provider'' ''google'',
          rec_purpose = text ''purpose'' ''login'',
          rec_redirect_uri = dget p ''redirect_uri'',
          rec_return_origin = dget p ''return_origin'',
          rec_nonce = text ''nonce'' [],
          rec_code_verifier = text ''code_verifier'' [],
          rec_code_challenge = text ''code_challenge'' [],
          rec_code_challenge_method = text ''code_challenge_method'' ''S256'',
          rec_state_fingerprint = text ''state_fingerprint'' (fingerprint_oauth_value E 12 state),
          rec_init_token_fingerprint = dget p ''init_token_fingerprint'',
          rec_project_hash = dget p ''project_hash'',
          rec_scope_fingerprint = dget p ''scope_fingerprint'',
          rec_ip_hash = dget p ''ip_hash'',
          rec_ua_hash = dget p ''ua_hash'',
          rec_created_at = dget p ''created_at'',
          rec_expires_at = dget p ''expires_at'',
          rec_oauth_binding = p,
          rec_connection_id = dget p ''connection_id'',
          rec_binding_id = dget p ''binding_id'',
          rec_expected_issuer = dget p ''expected_issuer'',
          rec_delivery_mode = dget p ''delivery_mode'',
          rec_prompt = dget p ''prompt'',
          rec_remember_me = truthy (dget_default p ''remember_me'' (JBool False)),
          rec_user_id = dget p ''user_id'',
          rec_session_id = dget p ''session_id'',
          rec_authorization = authorization,
          rec_authorization_ref = dget p ''authorization_ref'',
          rec_version = version\<rparr>)"

definition decode_record :: "oauth_env \<Rightarrow> string \<Rightarrow> dict \<Rightarrow> state_record oauth_result" where
  "decode_record E state p =
     (case py_int (py_or (dget p ''version'') (JInt 0)) of
        None \<Rightarrow> Inl (StateInvalid ''OAuth state payload is malformed'')
      | Some version \<Rightarrow>
          if version \<notin> SUPPORTED_STATE_RECORD_VERSIONS
          then Inl (StateInvalid ''OAuth state record version is not supported'')
          else
            let purpose = dget p ''purpose''
            in if purpose \<notin> {JStr ''login'', JStr ''link'', JStr ''reauth''} \<or>
                  version = 2 \<and> purpose \<noteq> JStr ''login''
               then Inl (StateInvalid ''OAuth state purpose/version is not supported'')
               else if purpose \<in> {JStr ''link'', JStr ''reauth''}
               then case from_payload (dget p ''authorization'') of
                      Inl e \<Rightarrow> Inl e
                    | Inr a \<Rightarrow>
                        if az_user_id a \<noteq> dget p ''user_id'' \<or> az_session_id a \<noteq> dget p ''session_id'' \<or>
                           az_project_hash a \<noteq> dget p ''project_hash'' \<or>
                           dget p ''authorization_ref'' \<noteq> JStr (take 32 (hmac_hex E state)) \<or>
                           purpose = JStr ''link'' \<and> az_proof a = None
                        then Inl (StateInvalid ''OAuth authorization binding mismatch'')
                        else Inr (build_record E state p (Some a) version)
               else Inr (build_record E state p None version))"

definition consume_state ::
    "'s oauth_redis \<Rightarrow> oauth_env \<Rightarrow> string \<Rightarrow> 's \<Rightarrow> state_record oauth_result \<times> 's" where
  "consume_state Q E state s =
     (case consume_record Q E OAUTH_STATE_PREFIX OAUTH_STATE_CONSUMED_PREFIX state ''state'' s of
        (Inl e, s') \<Rightarrow> (Inl e, s')
      | (Inr payload, s') \<Rightarrow> (decode_record E state payload, s'))"

section \<open>Completion and recent reauthentication\<close>

text \<open>The completion is still the one the state was created with, and its deadline is ahead.\<close>

definition validate_completion ::
    "'s oauth_redis \<Rightarrow> int \<Rightarrow> state_record \<Rightarrow> 's \<Rightarrow> unit oauth_result" where
  "validate_completion Q now r s =
     (case completion_key (rec_authorization_ref r) of
        Inl e \<Rightarrow> Inl e
      | Inr key \<Rightarrow>
          if o_pttl Q s key \<le> 0
          then Inl (StateInvalid ''OAuth completion authorization has expired or changed'')
          else case json_loads (o_get Q s key) of
                 Inl e \<Rightarrow> Inl e
               | Inr d \<Rightarrow>
                   if d \<noteq> completion_payload (rec_oauth_binding r)
                   then Inl (StateInvalid ''OAuth completion authorization has expired or changed'')
                   else (case rec_expires_at r of
                           JTime e \<Rightarrow>
                             if e \<le> now then Inl (StateInvalid ''OAuth completion authorization has expired'')
                             else Inr ()
                         | _ \<Rightarrow> Inl (StateInvalid ''OAuth completion deadline is malformed'')))"

definition recent_reauth_payload :: "int \<Rightarrow> json \<Rightarrow> json \<Rightarrow> string \<Rightarrow> dict" where
  "recent_reauth_payload now user_id session_id proof_id =
     [''user_id'' \<mapsto> user_id, ''session_id'' \<mapsto> session_id, ''created_at'' \<mapsto> JTime now,
      ''proof_id'' \<mapsto> JStr proof_id]"

text \<open>\<open>marker_digest\<close> is the 64-character fingerprint of the stored marker text.\<close>

definition recent_reauth_proof ::
    "'s oauth_redis \<Rightarrow> oauth_env \<Rightarrow> (json \<Rightarrow> string) \<Rightarrow> string \<Rightarrow> string \<Rightarrow> int \<Rightarrow> 's \<Rightarrow>
     recent_auth_proof option" where
  "recent_reauth_proof Q E marker_digest user_id session_id now_ms s =
     (let key = recent_reauth_key E user_id (Some session_id);
          remaining_ms = o_pttl Q s key
      in case o_get Q s key of
           None \<Rightarrow> None
         | Some raw \<Rightarrow>
             if remaining_ms \<le> 0 then None
             else case json_loads (Some raw) of
                    Inl _ \<Rightarrow> None
                  | Inr p \<Rightarrow>
                      (case dget p ''created_at'' of
                         JTime t \<Rightarrow>
                           let at_ms = t div 1000;
                               expires_ms = min (now_ms + remaining_ms) (at_ms + recent_reauth_seconds E * 1000)
                           in if dget p ''user_id'' \<noteq> JStr user_id \<or> dget p ''session_id'' \<noteq> JStr session_id \<or>
                                 now_ms < at_ms
                              then None
                              else if expires_ms \<le> now_ms then None
                              else Some \<lparr>proof_source = ''marker'', authenticated_at_ms = at_ms,
                                         proof_expires_at_ms = expires_ms,
                                         marker_fingerprint = JStr (marker_digest raw)\<rparr>
                       | _ \<Rightarrow> None))"

definition mark_recent_reauth ::
    "'s oauth_redis \<Rightarrow> oauth_env \<Rightarrow> int \<Rightarrow> string \<Rightarrow> string \<Rightarrow> string option \<Rightarrow> int option \<Rightarrow> 's \<Rightarrow> string \<times> 's" where
  "mark_recent_reauth Q E now proof_id user_id session_id ttl_seconds s =
     (let ttl = max 1 (case ttl_seconds of Some t \<Rightarrow> t | None \<Rightarrow> recent_reauth_seconds E);
          key = recent_reauth_key E user_id session_id
      in (key, o_set Q key (JObj (recent_reauth_payload now (JStr user_id) (json_of session_id) proof_id))
                 (max 1 ttl) s))"

definition has_recent_reauth :: "'s oauth_redis \<Rightarrow> oauth_env \<Rightarrow> string \<Rightarrow> string option \<Rightarrow> 's \<Rightarrow> bool" where
  "has_recent_reauth Q E user_id session_id s =
     (o_get Q s (recent_reauth_key E user_id session_id) \<noteq> None)"

section \<open>The in-memory server\<close>

definition mem_setnx :: "string \<Rightarrow> json \<Rightarrow> int \<Rightarrow> mem \<Rightarrow> bool \<times> mem" where
  "mem_setnx k v ex s = (if mem_get s k = None then (True, mem_set k v ex s) else (False, s))"

definition mem_remaining :: "mem \<Rightarrow> string \<Rightarrow> int" where
  "mem_remaining s k =
     (case strings s k of
        Some (v, dl) \<Rightarrow> if live s dl then (case dl of Some t \<Rightarrow> t - clock s | None \<Rightarrow> -1) else -2
      | None \<Rightarrow> -2)"

definition mem_set_pxat :: "string \<Rightarrow> json \<Rightarrow> int \<Rightarrow> mem \<Rightarrow> mem" where
  "mem_set_pxat k v t s = s\<lparr>strings := (strings s)(k \<mapsto> (v, Some t))\<rparr>"

definition mem_oauth :: "mem oauth_redis" where
  "mem_oauth = \<lparr>o_get = mem_get, o_set = mem_set, o_setnx = mem_setnx,
     o_getdel = (\<lambda>k s. (mem_get s k, mem_delete [k] s)), o_delete = (\<lambda>k. mem_delete [k]),
     o_pttl = mem_remaining, o_set_pxat = mem_set_pxat\<rparr>"

interpretation mem_oauth: oauth_store mem_oauth mem_tick clock
  by unfold_locales
    (auto simp: mem_oauth_def mem_defs mem_setnx_def mem_remaining_def mem_set_pxat_def
      split: option.splits if_splits prod.splits)

section \<open>Keys\<close>

lemma oauth_key_neq [simp]:
  "oauth_key E OAUTH_STATE_PREFIX a \<noteq> oauth_key E OAUTH_STATE_CONSUMED_PREFIX b"
  "oauth_key E OAUTH_STATE_CONSUMED_PREFIX b \<noteq> oauth_key E OAUTH_STATE_PREFIX a"
  "oauth_key E OAUTH_STATE_PREFIX a \<noteq> OAUTH_COMPLETION_PREFIX @ r"
  "OAUTH_COMPLETION_PREFIX @ r \<noteq> oauth_key E OAUTH_STATE_PREFIX a"
  "oauth_key E OAUTH_STATE_PREFIX a \<noteq> recent_reauth_key E u sid"
  "recent_reauth_key E u sid \<noteq> oauth_key E OAUTH_STATE_PREFIX a"
  by (simp_all add: oauth_key_def recent_reauth_key_def OAUTH_STATE_PREFIX_def OAUTH_STATE_CONSUMED_PREFIX_def
      OAUTH_COMPLETION_PREFIX_def OAUTH_RECENT_REAUTH_PREFIX_def)

lemma completion_key_Inr: "completion_key v = Inr k \<Longrightarrow> k = OAUTH_COMPLETION_PREFIX @ py_str v"
  by (auto simp: completion_key_def split: if_splits)

lemma max_ttl_pos [simp]: "0 < MAX_OAUTH_STATE_TTL_SECONDS"
  by (simp add: MAX_OAUTH_STATE_TTL_SECONDS_def)

lemma clamp_ttl_bounds: "1 \<le> clamp_ttl v f \<and> clamp_ttl v f \<le> MAX_OAUTH_STATE_TTL_SECONDS"
  by (auto simp: clamp_ttl_def MAX_OAUTH_STATE_TTL_SECONDS_def)

section \<open>Authorizations survive being stored\<close>

lemma parse_proof_asdict: "parse_proof v = Inr p \<Longrightarrow> parse_proof (asdict_proof p) = Inr p"
  by (auto simp: parse_proof_def asdict_proof_def split: json.splits if_splits)

lemma asdict_proof_not_null [simp]: "asdict_proof p \<noteq> JNull"
  by (simp add: asdict_proof_def)

lemma from_payload_Inr:
  assumes "from_payload v = Inr a"
  obtains d p where "v = JObj d" and "has_required d" and "scope_well_formed d" and "a = authorization_of d p"
    and "case p of None \<Rightarrow> dget d ''proof'' = JNull | Some q \<Rightarrow> parse_proof (dget d ''proof'') = Inr q"
  using assms by (cases v) (auto simp: from_payload_def split: if_splits sum.splits)

lemma asdict_fields [doc_simps]:
  "asdict_authorization (authorization_of d p) = JObj [''user_id'' \<mapsto> dget d ''user_id'', ''user_hash'' \<mapsto> dget d ''user_hash'',
     ''session_id'' \<mapsto> dget d ''session_id'', ''family_id'' \<mapsto> dget d ''family_id'', ''scope'' \<mapsto> dget d ''scope'',
     ''project_hash'' \<mapsto> dget d ''project_hash'', ''proof'' \<mapsto> (case p of None \<Rightarrow> JNull | Some q \<Rightarrow> asdict_proof q)]"
  by (simp add: asdict_authorization_def authorization_of_def)

lemma from_payload_asdict:
  assumes "from_payload v = Inr a"
  shows "from_payload (asdict_authorization a) = Inr a"
proof -
  from assms obtain d p where d: "has_required d" "scope_well_formed d" and a: "a = authorization_of d p"
    and p: "case p of None \<Rightarrow> dget d ''proof'' = JNull | Some q \<Rightarrow> parse_proof (dget d ''proof'') = Inr q"
    by (rule from_payload_Inr)
  let ?d = "[''user_id'' \<mapsto> dget d ''user_id'', ''user_hash'' \<mapsto> dget d ''user_hash'',
     ''session_id'' \<mapsto> dget d ''session_id'', ''family_id'' \<mapsto> dget d ''family_id'', ''scope'' \<mapsto> dget d ''scope'',
     ''project_hash'' \<mapsto> dget d ''project_hash'', ''proof'' \<mapsto> (case p of None \<Rightarrow> JNull | Some q \<Rightarrow> asdict_proof q)]"
  have "has_required ?d" "scope_well_formed ?d"
    using d by (simp_all add: has_required_def scope_well_formed_def)
  moreover have "authorization_of ?d x = authorization_of d x" for x by (simp add: authorization_of_def)
  ultimately show ?thesis
    using p by (cases p) (simp_all add: a asdict_fields from_payload_def parse_proof_asdict)
qed

section \<open>Consuming\<close>

context oauth_store
begin

lemma consume_record_present:
  assumes "o_get Q s (oauth_key E OAUTH_STATE_PREFIX st) = Some v" and "ensure_state_shape ''state'' st = Inr ()"
    and "consume_state Q E st s = (r, s')"
  shows "r = (case json_loads (Some v) of Inl e \<Rightarrow> Inl e | Inr p \<Rightarrow> decode_record E st p)"
    and "o_get Q s' k = (if k = oauth_key E OAUTH_STATE_CONSUMED_PREFIX st then Some (JStr ''1'')
           else if k = oauth_key E OAUTH_STATE_PREFIX st then None else o_get Q s k)"
proof -
  obtain s1 where g: "o_getdel Q (oauth_key E OAUTH_STATE_PREFIX st) s = (Some v, s1)"
    using o_getdel_fst [of "oauth_key E OAUTH_STATE_PREFIX st" s] assms(1) by (metis prod.collapse)
  have k: "o_get Q s1 k = (if k = oauth_key E OAUTH_STATE_PREFIX st then None else o_get Q s k)" for k
    using o_getdel_snd [of "oauth_key E OAUTH_STATE_PREFIX st" s k] g by simp
  show "r = (case json_loads (Some v) of Inl e \<Rightarrow> Inl e | Inr p \<Rightarrow> decode_record E st p)"
    using assms(2,3) g by (auto simp: consume_state_def consume_record_def Let_def split: sum.splits)
  show "o_get Q s' k = (if k = oauth_key E OAUTH_STATE_CONSUMED_PREFIX st then Some (JStr ''1'')
           else if k = oauth_key E OAUTH_STATE_PREFIX st then None else o_get Q s k)"
    using assms(2,3) g k by (auto simp: consume_state_def consume_record_def Let_def o_get_set split: sum.splits)
qed

lemma consume_record_absent:
  assumes "o_get Q s (oauth_key E OAUTH_STATE_PREFIX st) = None" and "consume_state Q E st s = (r, s')"
  shows "\<exists>e. r = Inl e" and "o_get Q s' k = o_get Q s k"
proof -
  obtain s1 where g: "o_getdel Q (oauth_key E OAUTH_STATE_PREFIX st) s = (None, s1)"
    using o_getdel_fst [of "oauth_key E OAUTH_STATE_PREFIX st" s] assms(1) by (metis prod.collapse)
  have k: "o_get Q s1 k = o_get Q s k" for k
    using o_getdel_snd [of "oauth_key E OAUTH_STATE_PREFIX st" s k] g assms(1) by auto
  show "\<exists>e. r = Inl e" using assms(2) g
    by (auto simp: consume_state_def consume_record_def Let_def split: sum.splits if_splits)
  show "o_get Q s' k = o_get Q s k" using assms(2) g k
    by (auto simp: consume_state_def consume_record_def Let_def split: sum.splits if_splits)
qed

lemma consume_bad_shape:
  "ensure_state_shape ''state'' st = Inl e \<Longrightarrow> consume_state Q E st s = (Inl e, s)"
  by (simp add: consume_state_def consume_record_def)

lemma consume_Inr_present:
  assumes "consume_state Q E st s = (Inr r, s')"
  shows "\<exists>p. o_get Q s (oauth_key E OAUTH_STATE_PREFIX st) = Some (JObj p) \<and> decode_record E st p = Inr r"
    and "ensure_state_shape ''state'' st = Inr ()"
proof -
  show sh: "ensure_state_shape ''state'' st = Inr ()"
    using assms consume_bad_shape [of st _ E s] by (cases "ensure_state_shape ''state'' st") auto
  show "\<exists>p. o_get Q s (oauth_key E OAUTH_STATE_PREFIX st) = Some (JObj p) \<and> decode_record E st p = Inr r"
  proof (cases "o_get Q s (oauth_key E OAUTH_STATE_PREFIX st)")
    case None
    with consume_record_absent(1) [OF None assms] show ?thesis by simp
  next
    case (Some v)
    with consume_record_present(1) [OF Some sh assms] show ?thesis
      by (auto simp: json_loads_def split: json.splits)
  qed
qed

end

end
