(* ===== verification/API_Keys.thy ===== *)
theory API_Keys
  imports Group_Scope OAuth_State
begin

text \<open>
  API keys: the split tokens of \<^verbatim>\<open>src/src/Util/api_key_security.py\<close>, the stored procedures of
  \<^verbatim>\<open>src/schemas/stored_procedures/13_api_keys.sql\<close> with their wrappers in
  \<^verbatim>\<open>src/src/Util/db/db_api_keys.py\<close>, the validation cache of \<^verbatim>\<open>src/src/Util/cache_manager.py\<close> and
  \<^verbatim>\<open>validate_api_key_context\<close> with the access checks of \<^verbatim>\<open>src/src/middleware/authentication.py\<close>.

  HMAC-SHA-256 under the pepper (\<open>mac\<close>), BLAKE2s and the collation of MySQL (\<open>coll\<close>) are arguments;
  byte strings are strings of characters below 256. What the database says of users, projects and groups
  is the record \<open>key_facts\<close>. \<^verbatim>\<open>NOW()\<close> and \<^verbatim>\<open>DATETIME\<close> columns count whole seconds.
\<close>

section \<open>Tokens\<close>

definition HASH_VERSION :: string where "HASH_VERSION = ''v1''"
definition PUBLIC_ID_BYTES :: nat where "PUBLIC_ID_BYTES = 9"
definition SECRET_BYTES :: nat where "SECRET_BYTES = 32"

definition key_material :: "string \<Rightarrow> string \<Rightarrow> string" where
  "key_material public_id secret = HASH_VERSION @ '':'' @ public_id @ '':'' @ secret"

text \<open>\<^verbatim>\<open>base64.urlsafe_b64encode(b).rstrip(b"=")\<close>.\<close>

definition b64_digit :: "nat \<Rightarrow> char" where
  "b64_digit n =
     (if n < 26 then char_of (65 + n) else if n < 52 then char_of (71 + n)
      else if n < 62 then char_of (n - 4) else if n = 62 then CHR ''-'' else CHR ''_'')"

fun b64url :: "string \<Rightarrow> string" where
  "b64url [] = []"
| "b64url [a] = (let x = of_char a in [b64_digit (x div 4), b64_digit (x mod 4 * 16)])"
| "b64url [a, b] =
     (let x = of_char a; y = of_char b
      in [b64_digit (x div 4), b64_digit (x mod 4 * 16 + y div 16), b64_digit (y mod 16 * 4)])"
| "b64url (a # b # c # rest) =
     (let x = of_char a; y = of_char b; z = of_char c
      in [b64_digit (x div 4), b64_digit (x mod 4 * 16 + y div 16), b64_digit (y mod 16 * 4 + z div 64), b64_digit (z mod 64)]
         @ b64url rest)"

record api_token =
  at_token :: string
  at_public_id :: string
  at_secret_hash :: string
  at_fingerprint :: string
  at_secret_last4 :: string

definition last_chars :: "nat \<Rightarrow> string \<Rightarrow> string" where
  "last_chars n s = drop (length s - n) s"

text \<open>The two random byte strings of \<^verbatim>\<open>secrets.token_bytes\<close> are arguments.\<close>

definition generate_api_key_token :: "(string \<Rightarrow> string) \<Rightarrow> (string \<Rightarrow> string) \<Rightarrow> string \<Rightarrow> string \<Rightarrow> api_token" where
  "generate_api_key_token mac blake id_bytes secret_bytes =
     (let public_id = b64url id_bytes; secret = b64url secret_bytes; token = ''sk_'' @ public_id @ ''.'' @ secret
      in \<lparr>at_token = token, at_public_id = public_id, at_secret_hash = mac (key_material public_id secret),
          at_fingerprint = blake token, at_secret_last4 = last_chars 4 secret\<rparr>)"

text \<open>\<^verbatim>\<open>s.rsplit(".", 1)\<close>; without a dot the unpacking raises.\<close>

definition rsplit_dot :: "string \<Rightarrow> (string \<times> string) option" where
  "rsplit_dot s =
     (case dropWhile (\<lambda>c. c \<noteq> CHR ''.'') (rev s) of
        [] \<Rightarrow> None
      | _ # p \<Rightarrow> Some (rev p, rev (takeWhile (\<lambda>c. c \<noteq> CHR ''.'') (rev s))))"

definition verify_api_key_token :: "(string \<Rightarrow> string) \<Rightarrow> string \<Rightarrow> string \<Rightarrow> string \<Rightarrow> bool" where
  "verify_api_key_token mac presented_token public_id stored_hash =
     (let dummy = mac ''v1:invalid:invalid''
      in case rsplit_dot presented_token of
           None \<Rightarrow> dummy = stored_hash
         | Some (left, secret) \<Rightarrow>
             if \<not> starts_with left ''sk_'' then dummy = stored_hash
             else if drop 3 left \<noteq> public_id then dummy = stored_hash
             else mac (key_material public_id secret) = stored_hash)"

text \<open>\<^verbatim>\<open>bytes.hex()\<close> and \<^verbatim>\<open>bytes.fromhex\<close>, which skips white space between bytes.\<close>

definition hex_digit :: "nat \<Rightarrow> char" where
  "hex_digit n = (if n < 10 then char_of (48 + n) else char_of (87 + n))"

definition hex_value :: "char \<Rightarrow> nat option" where
  "hex_value c =
     (let n = of_char c :: nat
      in if 48 \<le> n \<and> n \<le> 57 then Some (n - 48) else if 97 \<le> n \<and> n \<le> 102 then Some (n - 87)
         else if 65 \<le> n \<and> n \<le> 70 then Some (n - 55) else None)"

definition ascii_space :: "char \<Rightarrow> bool" where
  "ascii_space c \<longleftrightarrow> (let n = of_char c :: nat in n = 32 \<or> 9 \<le> n \<and> n \<le> 13)"

definition encode_secret_hash_for_cache :: "string \<Rightarrow> string" where
  "encode_secret_hash_for_cache h = concat (map (\<lambda>c. [hex_digit (of_char c div 16), hex_digit (of_char c mod 16)]) h)"

fun from_hex :: "string \<Rightarrow> string option" where
  "from_hex [] = Some []"
| "from_hex [c] = (if ascii_space c then Some [] else None)"
| "from_hex (c # d # rest) =
     (if ascii_space c then from_hex (d # rest)
      else case (hex_value c, hex_value d) of
             (Some x, Some y) \<Rightarrow> (case from_hex rest of Some r \<Rightarrow> Some (char_of (16 * x + y) # r) | None \<Rightarrow> None)
           | _ \<Rightarrow> None)"

definition verify_api_key_token_against_cache :: "(string \<Rightarrow> string) \<Rightarrow> string \<Rightarrow> string \<Rightarrow> dict option \<Rightarrow> bool" where
  "verify_api_key_token_against_cache mac presented_token public_id cached =
     (case cached of
        None \<Rightarrow> False
      | Some d \<Rightarrow>
          if dget d ''validation_status'' \<noteq> JStr ''valid'' then False
          else (case dget d ''secret_hash'' of
                  JStr encoded \<Rightarrow> (case from_hex encoded of
                      None \<Rightarrow> False
                    | Some stored \<Rightarrow> if length stored \<noteq> 32 then False
                                     else verify_api_key_token mac presented_token public_id stored)
                | _ \<Rightarrow> False))"

section \<open>Tables\<close>

record key_row =
  kr_id :: string
  kr_public_id :: string
  kr_project_id :: string
  kr_owner_user_id :: string
  kr_created_by :: string
  kr_name :: string
  kr_description :: "string option"
  kr_secret_hash :: string
  kr_hash_algorithm :: string
  kr_fingerprint :: string
  kr_secret_last4 :: string
  kr_is_active :: bool
  kr_expires_at :: "int option"
  kr_last_used_at :: "int option"
  kr_revoked_at :: "int option"
  kr_revoked_by :: "string option"
  kr_revoke_reason :: "string option"
  kr_created_at :: int
  kr_updated_at :: "int option"

record key_user =
  ku_id :: string
  ku_user_type :: string
  ku_is_active :: bool

record key_project =
  kp_id :: string
  kp_is_active :: bool
  kp_archived :: "bool option"

record group_member =
  ugm_user_id :: string
  ugm_user_group_id :: string
  ugm_is_active :: bool

text \<open>
  The tables the procedures join, and the lookups that the middleware makes afterwards. A lookup that
  raises is \<open>None\<close>.
\<close>

record key_facts =
  kf_users :: "key_user list"
  kf_projects :: "key_project list"
  kf_members :: "group_member list"
  kf_groups :: group_tables
  kf_project_by_id :: "string \<Rightarrow> dict option option"
  kf_user_by_id :: "string \<Rightarrow> dict option option"
  kf_admin_access :: "string \<Rightarrow> string \<Rightarrow> bool option"
  kf_groups_in_project :: "string \<Rightarrow> json \<Rightarrow> dict list option"
  kf_permissions :: "string \<Rightarrow> json list option"

definition same :: "(string \<Rightarrow> string) \<Rightarrow> string \<Rightarrow> string \<Rightarrow> bool" where
  "same coll a b \<longleftrightarrow> coll a = coll b"

definition project_open :: "(string \<Rightarrow> string) \<Rightarrow> key_facts \<Rightarrow> string \<Rightarrow> bool" where
  "project_open coll F pid =
     list_ex (\<lambda>p. same coll (kp_id p) pid \<and> kp_is_active p \<and> kp_archived p \<noteq> Some True) (kf_projects F)"

definition active_users :: "(string \<Rightarrow> string) \<Rightarrow> key_facts \<Rightarrow> string \<Rightarrow> key_user list" where
  "active_users coll F uid = filter (\<lambda>u. same coll (ku_id u) uid \<and> ku_is_active u) (kf_users F)"

text \<open>The five-way join from a member of a user group to a project.\<close>

definition group_chain :: "(string \<Rightarrow> string) \<Rightarrow> key_facts \<Rightarrow> string \<Rightarrow> string \<Rightarrow> bool" where
  "group_chain coll F uid pid =
     list_ex (\<lambda>ugm. same coll (ugm_user_id ugm) uid \<and> ugm_is_active ugm \<and>
       list_ex (\<lambda>ug. same coll (g_id ug) (ugm_user_group_id ugm) \<and> g_is_active ug \<and>
         list_ex (\<lambda>link. same coll (g_id ug) (l_user_group_id link) \<and> l_is_active link \<and>
           list_ex (\<lambda>pg. same coll (g_id pg) (l_project_group_id link) \<and> g_is_active pg \<and>
             list_ex (\<lambda>pgm. same coll (g_id pg) (m_project_group_id pgm) \<and> m_is_active pgm \<and>
               same coll (m_project_id pgm) pid \<and> project_open coll F (m_project_id pgm))
             (project_group_members (kf_groups F)))
           (project_groups (kf_groups F)))
         (user_group_project_groups (kf_groups F)))
       (user_groups (kf_groups F)))
     (kf_members F)"

definition owner_has_access :: "(string \<Rightarrow> string) \<Rightarrow> key_facts \<Rightarrow> string \<Rightarrow> string \<Rightarrow> bool" where
  "owner_has_access coll F uid pid =
     (case active_users coll F uid of
        [] \<Rightarrow> group_chain coll F uid pid
      | u # _ \<Rightarrow> if same coll (ku_user_type u) ''root'' then project_open coll F pid else group_chain coll F uid pid)"

section \<open>Stored procedures\<close>

text \<open>A \<^verbatim>\<open>SIGNAL\<close>, or the violation of a key, is the message.\<close>

type_synonym 'a signalled = "string + 'a"

record new_key =
  nk_id :: string
  nk_public_id :: string
  nk_project_id :: string
  nk_owner_user_id :: string
  nk_created_by :: string
  nk_name :: string
  nk_description :: "string option"
  nk_secret_hash :: string
  nk_hash_algorithm :: string
  nk_fingerprint :: string
  nk_secret_last4 :: string
  nk_expires_at :: "int option"

definition row_of_new :: "int \<Rightarrow> new_key \<Rightarrow> key_row" where
  "row_of_new now k =
     \<lparr>kr_id = nk_id k, kr_public_id = nk_public_id k, kr_project_id = nk_project_id k,
      kr_owner_user_id = nk_owner_user_id k, kr_created_by = nk_created_by k, kr_name = nk_name k,
      kr_description = nk_description k, kr_secret_hash = nk_secret_hash k, kr_hash_algorithm = nk_hash_algorithm k,
      kr_fingerprint = nk_fingerprint k, kr_secret_last4 = nk_secret_last4 k, kr_is_active = True,
      kr_expires_at = nk_expires_at k, kr_last_used_at = None, kr_revoked_at = None, kr_revoked_by = None,
      kr_revoke_reason = None, kr_created_at = now, kr_updated_at = None\<rparr>"

definition creator_is_root :: "(string \<Rightarrow> string) \<Rightarrow> key_facts \<Rightarrow> string \<Rightarrow> bool" where
  "creator_is_root coll F uid =
     (case active_users coll F uid of [] \<Rightarrow> False | u # _ \<Rightarrow> same coll (ku_user_type u) ''root'')"

definition sp_create_api_key ::
    "(string \<Rightarrow> string) \<Rightarrow> key_facts \<Rightarrow> int \<Rightarrow> new_key \<Rightarrow> key_row list \<Rightarrow> key_row signalled \<times> key_row list" where
  "sp_create_api_key coll F now k rows =
     (if \<not> list_ex (\<lambda>u. same coll (ku_id u) (nk_owner_user_id k)) (kf_users F)
        then (Inl ''Owner user does not exist'', rows)
      else if active_users coll F (nk_owner_user_id k) = [] then (Inl ''Owner user is not active'', rows)
      else if \<not> list_ex (\<lambda>p. same coll (kp_id p) (nk_project_id k)) (kf_projects F)
        then (Inl ''Project does not exist'', rows)
      else if \<not> project_open coll F (nk_project_id k) then (Inl ''Project is not active or is archived'', rows)
      else if \<not> creator_is_root coll F (nk_created_by k) \<and> \<not> owner_has_access coll F (nk_owner_user_id k) (nk_project_id k)
        then (Inl ''Owner user does not have access to the specified project'', rows)
      else if list_ex (\<lambda>r. same coll (kr_id r) (nk_id k) \<or> same coll (kr_public_id r) (nk_public_id k)) rows
        then (Inl ''Duplicate entry'', rows)
      else (Inr (row_of_new now k), rows @ [row_of_new now k]))"

definition key_by_public_id :: "(string \<Rightarrow> string) \<Rightarrow> string \<Rightarrow> key_row list \<Rightarrow> key_row option" where
  "key_by_public_id coll public_id rows = find (\<lambda>r. same coll (kr_public_id r) public_id) rows"

definition key_expired :: "int \<Rightarrow> key_row \<Rightarrow> bool" where
  "key_expired now r = (case kr_expires_at r of None \<Rightarrow> False | Some e \<Rightarrow> e < now)"

text \<open>The status and the row; \<open>valid\<close> also stamps the row.\<close>

definition sp_validate_api_key ::
    "(string \<Rightarrow> string) \<Rightarrow> key_facts \<Rightarrow> int \<Rightarrow> string \<Rightarrow> key_row list \<Rightarrow> (string \<times> key_row option) \<times> key_row list" where
  "sp_validate_api_key coll F now public_id rows =
     (case key_by_public_id coll public_id rows of
        None \<Rightarrow> ((''not_found'', None), rows)
      | Some r \<Rightarrow>
          if \<not> kr_is_active r then ((''revoked'', Some r), rows)
          else if key_expired now r then ((''expired'', Some r), rows)
          else if active_users coll F (kr_owner_user_id r) = [] then ((''owner_inactive'', Some r), rows)
          else if \<not> owner_has_access coll F (kr_owner_user_id r) (kr_project_id r)
            then ((''no_project_access'', Some r), rows)
          else ((''valid'', Some r),
                map (\<lambda>x. if same coll (kr_id x) (kr_id r) then x\<lparr>kr_last_used_at := Some now\<rparr> else x) rows))"

definition revoked_row :: "int \<Rightarrow> string \<Rightarrow> string option \<Rightarrow> key_row \<Rightarrow> key_row" where
  "revoked_row now revoked_by reason r =
     r\<lparr>kr_is_active := False, kr_revoked_at := Some now, kr_revoked_by := Some revoked_by, kr_revoke_reason := reason,
       kr_updated_at := Some now\<rparr>"

definition sp_revoke_api_key ::
    "(string \<Rightarrow> string) \<Rightarrow> int \<Rightarrow> string \<Rightarrow> string \<Rightarrow> string option \<Rightarrow> key_row list \<Rightarrow> nat signalled \<times> key_row list" where
  "sp_revoke_api_key coll now key_id revoked_by reason rows =
     (let hit = (\<lambda>r. same coll (kr_id r) key_id \<and> kr_is_active r);
          affected = length (filter hit rows)
      in if affected = 0 then (Inl ''API key is already revoked or does not exist'', rows)
         else (Inr affected, map (\<lambda>r. if hit r then revoked_row now revoked_by reason r else r) rows))"

definition or_keep :: "'a option \<Rightarrow> 'a \<Rightarrow> 'a" where
  "or_keep new old = (case new of Some v \<Rightarrow> v | None \<Rightarrow> old)"

definition reactivates :: "int \<Rightarrow> int option \<Rightarrow> key_row \<Rightarrow> bool" where
  "reactivates now expires_at r \<longleftrightarrow>
     key_expired now r \<and> \<not> kr_is_active r \<and> (case expires_at of None \<Rightarrow> False | Some e \<Rightarrow> now < e)"

definition updated_row :: "int \<Rightarrow> string option \<Rightarrow> string option \<Rightarrow> int option \<Rightarrow> bool \<Rightarrow> key_row \<Rightarrow> key_row" where
  "updated_row now name description expires_at reactivated r =
     r\<lparr>kr_name := or_keep name (kr_name r),
       kr_description := (case description of Some d \<Rightarrow> Some d | None \<Rightarrow> kr_description r),
       kr_expires_at := (case expires_at of Some e \<Rightarrow> Some e | None \<Rightarrow> kr_expires_at r),
       kr_is_active := (if reactivated then True else kr_is_active r),
       kr_updated_at := Some now\<rparr>"

definition sp_update_api_key ::
    "(string \<Rightarrow> string) \<Rightarrow> int \<Rightarrow> string \<Rightarrow> string option \<Rightarrow> string option \<Rightarrow> int option \<Rightarrow> key_row list \<Rightarrow>
      key_row signalled \<times> key_row list" where
  "sp_update_api_key coll now key_id name description expires_at rows =
     (case find (\<lambda>r. same coll (kr_id r) key_id) rows of
        None \<Rightarrow> (Inl ''API key not found'', rows)
      | Some r \<Rightarrow>
          if kr_revoked_at r \<noteq> None then (Inl ''API key revoked'', rows)
          else let upd = updated_row now name description expires_at (reactivates now expires_at r)
               in (Inr (upd r), map (\<lambda>x. if same coll (kr_id x) key_id then upd x else x) rows))"

definition sp_cleanup_expired_api_keys :: "int \<Rightarrow> key_row list \<Rightarrow> nat \<times> key_row list" where
  "sp_cleanup_expired_api_keys now rows =
     (let hit = (\<lambda>r. key_expired now r \<and> kr_is_active r)
      in (length (filter hit rows),
          map (\<lambda>r. if hit r then r\<lparr>kr_is_active := False, kr_updated_at := Some now\<rparr> else r) rows))"

section \<open>The validation cache\<close>

definition APIKEY_PREFIX :: string where "APIKEY_PREFIX = ''apikey:''"
definition APIKEY_TTL :: int where "APIKEY_TTL = 60"

text \<open>
  The flag of a cache call says whether Redis carries the command out; an exception is logged and
  answered like a failure, and no caller looks at the answer of a write.
\<close>

definition set_api_key :: "'s redis \<Rightarrow> bool \<Rightarrow> string \<Rightarrow> dict \<Rightarrow> 's \<Rightarrow> 's" where
  "set_api_key R up public_id entry s = (if up then set_json R (APIKEY_PREFIX @ public_id) entry APIKEY_TTL s else s)"

definition get_api_key :: "'s redis \<Rightarrow> bool \<Rightarrow> string \<Rightarrow> 's \<Rightarrow> dict option" where
  "get_api_key R up public_id s = (if up then get_json R s (APIKEY_PREFIX @ public_id) else None)"

definition invalidate_api_key :: "'s redis \<Rightarrow> bool \<Rightarrow> string \<Rightarrow> 's \<Rightarrow> 's" where
  "invalidate_api_key R up public_id s = (if up then redis_delete R [APIKEY_PREFIX @ public_id] s else s)"

text \<open>\<^verbatim>\<open>revoke_api_key\<close> turns the signal into zero affected rows.\<close>

definition revoke_api_key ::
    "(string \<Rightarrow> string) \<Rightarrow> int \<Rightarrow> string \<Rightarrow> string \<Rightarrow> string option \<Rightarrow> key_row list \<Rightarrow> nat \<times> key_row list" where
  "revoke_api_key coll now key_id revoked_by reason rows =
     (case sp_revoke_api_key coll now key_id revoked_by reason rows of
        (Inl _, rows') \<Rightarrow> (0, rows') | (Inr n, rows') \<Rightarrow> (n, rows'))"

definition revoke_api_key_with_cache_invalidation ::
    "'s redis \<Rightarrow> bool \<Rightarrow> (string \<Rightarrow> string) \<Rightarrow> int \<Rightarrow> string \<Rightarrow> string \<Rightarrow> string \<Rightarrow> string option \<Rightarrow> 's \<times> key_row list \<Rightarrow>
      nat \<times> 's \<times> key_row list" where
  "revoke_api_key_with_cache_invalidation R up coll now key_id public_id revoked_by reason st =
     (case st of (s, rows) \<Rightarrow>
        (case revoke_api_key coll now key_id revoked_by reason rows of
           (n, rows') \<Rightarrow> (n, (if n \<noteq> 0 then invalidate_api_key R up public_id s else s, rows'))))"

definition update_api_key ::
    "'s redis \<Rightarrow> bool \<Rightarrow> (string \<Rightarrow> string) \<Rightarrow> int \<Rightarrow> string \<Rightarrow> string option \<Rightarrow> string option \<Rightarrow> int option \<Rightarrow> string option \<Rightarrow>
      's \<times> key_row list \<Rightarrow> key_row signalled \<times> 's \<times> key_row list" where
  "update_api_key R up coll now key_id name description expires_at public_id st =
     (case st of (s, rows) \<Rightarrow>
        (case sp_update_api_key coll now key_id name description expires_at rows of
           (Inl e, rows') \<Rightarrow> (Inl e, (s, rows'))
         | (Inr r, rows') \<Rightarrow>
             (Inr r, (case (expires_at, public_id) of (Some _, Some p) \<Rightarrow> invalidate_api_key R up p s | _ \<Rightarrow> s, rows'))))"

section \<open>Validation\<close>

definition denied :: "int \<Rightarrow> string \<Rightarrow> 'a result" where
  "denied code text = Inl \<lparr>status_code = code, detail = text\<rparr>"

definition parse_api_key_public_id :: "string option \<Rightarrow> string result" where
  "parse_api_key_public_id api_key =
     (case api_key of
        None \<Rightarrow> denied 401 ''Missing API key''
      | Some t \<Rightarrow>
          if t = [] then denied 401 ''Missing API key''
          else if \<not> starts_with t ''sk_'' then denied 401 ''Malformed API key: AUTH_1010''
          else (case rsplit_dot (drop 3 t) of
                  None \<Rightarrow> denied 401 ''Malformed API key: AUTH_1010''
                | Some (public_id, secret) \<Rightarrow>
                    if public_id = [] \<or> secret = [] then denied 401 ''Malformed API key: AUTH_1010''
                    else Inr public_id))"

definition raise_api_key_error :: "string \<Rightarrow> 'a result" where
  "raise_api_key_error validation_status =
     (if validation_status = ''not_found'' then denied 401 ''API key not found: NF_4010''
      else if validation_status = ''revoked'' then denied 401 ''API key has been revoked: AUTH_1012''
      else if validation_status = ''expired'' then denied 401 ''API key has expired: AUTH_1011''
      else if validation_status = ''owner_inactive'' then denied 401 ''API key owner is inactive: AUTH_1010''
      else if validation_status = ''no_project_access'' then denied 403 ''API key owner lost project access: AUTHZ_2008''
      else denied 401 ''Invalid API key: AUTH_1010'')"

text \<open>A lookup that raises leaves the request with the database error, status 500.\<close>

definition from_db :: "'a option \<Rightarrow> ('a \<Rightarrow> 'b result) \<Rightarrow> 'b result" where
  "from_db answer k = (case answer of None \<Rightarrow> denied 500 ''Database error'' | Some v \<Rightarrow> k v)"

text \<open>Permissions and groups of the owner, by user type.\<close>

definition owner_grants :: "key_facts \<Rightarrow> string \<Rightarrow> string \<Rightarrow> json \<Rightarrow> json \<Rightarrow> (json list \<times> json list) result" where
  "owner_grants F owner_user_id project_id project_hash user_type =
     (if user_type = JStr ''root'' then Inr ([JStr ''admin'', JStr ''global_admin''], [JStr ''root_users''])
      else if user_type = JStr ''admin'' then
        from_db (kf_admin_access F owner_user_id project_id)
          (\<lambda>ok. if \<not> ok then denied 403 ''Admin lost project access''
                else Inr ([JStr ''admin'', JStr ''project_admin''], [JStr ''project_admins'']))
      else
        from_db (kf_groups_in_project F owner_user_id project_hash)
          (\<lambda>groups. if groups = [] then denied 403 ''User lost project access via group chain''
                    else Inr (case kf_permissions F owner_user_id of Some ps \<Rightarrow> ps | None \<Rightarrow> [],
                              map (\<lambda>g. dget g ''group_name'') groups)))"

definition key_context :: "key_row \<Rightarrow> string \<Rightarrow> dict \<Rightarrow> dict \<Rightarrow> json list \<Rightarrow> json list \<Rightarrow> dict" where
  "key_context r public_id project owner permissions groups =
     [''user_id'' \<mapsto> JStr (kr_owner_user_id r), ''user_hash'' \<mapsto> dget owner ''user_hash'', ''user_type'' \<mapsto> dget owner ''user_type'',
      ''username'' \<mapsto> dget owner ''username'', ''email'' \<mapsto> dget owner ''email'', ''project_id'' \<mapsto> JStr (kr_project_id r),
      ''project_hash'' \<mapsto> dget project ''project_hash'', ''permissions'' \<mapsto> JList permissions, ''groups'' \<mapsto> JList groups,
      ''key_id'' \<mapsto> JStr (kr_id r), ''key_public_id'' \<mapsto> JStr public_id, ''auth_method'' \<mapsto> JStr ''api_key'']"

definition cache_entry :: "int \<Rightarrow> key_row \<Rightarrow> string \<Rightarrow> dict \<Rightarrow> dict \<Rightarrow> json list \<Rightarrow> json list \<Rightarrow> dict" where
  "cache_entry now r public_id project owner permissions groups =
     [''validation_status'' \<mapsto> JStr ''valid'', ''user_id'' \<mapsto> JStr (kr_owner_user_id r), ''user_hash'' \<mapsto> dget owner ''user_hash'',
      ''user_type'' \<mapsto> dget owner ''user_type'', ''username'' \<mapsto> dget owner ''username'', ''email'' \<mapsto> dget owner ''email'',
      ''project_id'' \<mapsto> JStr (kr_project_id r), ''project_hash'' \<mapsto> dget project ''project_hash'',
      ''permissions'' \<mapsto> JList permissions, ''groups'' \<mapsto> JList groups, ''key_id'' \<mapsto> JStr (kr_id r),
      ''public_id'' \<mapsto> JStr public_id, ''secret_hash'' \<mapsto> JStr (encode_secret_hash_for_cache (kr_secret_hash r)),
      ''cached_at'' \<mapsto> JTime now]"

text \<open>The answer from a cache hit.\<close>

definition cached_context :: "string \<Rightarrow> dict \<Rightarrow> dict" where
  "cached_context public_id cached =
     [''user_id'' \<mapsto> dget cached ''user_id'', ''user_hash'' \<mapsto> dget cached ''user_hash'', ''user_type'' \<mapsto> dget cached ''user_type'',
      ''username'' \<mapsto> dget cached ''username'', ''email'' \<mapsto> dget cached ''email'', ''project_id'' \<mapsto> dget cached ''project_id'',
      ''project_hash'' \<mapsto> dget cached ''project_hash'', ''permissions'' \<mapsto> dget_default cached ''permissions'' (JList []),
      ''groups'' \<mapsto> dget_default cached ''groups'' (JList []), ''key_id'' \<mapsto> dget cached ''key_id'',
      ''key_public_id'' \<mapsto> py_or (dget cached ''public_id'') (JStr public_id), ''auth_method'' \<mapsto> JStr ''api_key'']"

text \<open>From the row that the procedure returned to the context and the entry for the cache.\<close>

definition resolve_key :: "(string \<Rightarrow> string) \<Rightarrow> key_facts \<Rightarrow> int \<Rightarrow> string \<Rightarrow> string \<Rightarrow> string \<times> key_row option \<Rightarrow> (dict \<times> dict) result" where
  "resolve_key mac F now token public_id answer =
     (case answer of
        (_, None) \<Rightarrow> raise_api_key_error (fst answer)
      | (validation_status, Some r) \<Rightarrow>
          if validation_status \<noteq> ''valid'' then raise_api_key_error validation_status
          else if kr_secret_hash r = [] then denied 401 ''API key verification failed: AUTH_1010''
          else if \<not> verify_api_key_token mac token public_id (kr_secret_hash r)
            then denied 401 ''Invalid API key: AUTH_1010''
          else from_db (kf_project_by_id F (kr_project_id r)) (\<lambda>project.
            case project of None \<Rightarrow> denied 401 ''Project not found for API key scope'' | Some p \<Rightarrow>
          from_db (kf_user_by_id F (kr_owner_user_id r)) (\<lambda>owner.
            case owner of None \<Rightarrow> denied 401 ''Key owner user not found'' | Some u \<Rightarrow>
          (case owner_grants F (kr_owner_user_id r) (kr_project_id r) (dget p ''project_hash'') (dget u ''user_type'') of
             Inl e \<Rightarrow> Inl e
           | Inr (permissions, groups) \<Rightarrow>
               Inr (key_context r public_id p u permissions groups, cache_entry now r public_id p u permissions groups)))))"

definition cache_hit :: "'s redis \<Rightarrow> (string \<Rightarrow> string) \<Rightarrow> bool \<Rightarrow> string \<Rightarrow> string \<Rightarrow> 's \<Rightarrow> dict option" where
  "cache_hit R mac up token public_id s =
     (let cached = get_api_key R up public_id s
      in if verify_api_key_token_against_cache mac token public_id cached
         then map_option (cached_context public_id) cached else None)"

definition validate_api_key_lookup ::
    "(string \<Rightarrow> string) \<Rightarrow> key_facts \<Rightarrow> int \<Rightarrow> string \<Rightarrow> key_row list \<Rightarrow> (string \<times> key_row option) \<times> key_row list" where
  "validate_api_key_lookup coll F now public_id rows = sp_validate_api_key coll F (now div us_per_second) public_id rows"

text \<open>The whole of \<^verbatim>\<open>validate_api_key_context\<close>; the two flags are for the read and the write of the cache.\<close>

definition validate_api_key_context ::
    "'s redis \<Rightarrow> (string \<Rightarrow> string) \<Rightarrow> (string \<Rightarrow> string) \<Rightarrow> bool \<Rightarrow> bool \<Rightarrow> key_facts \<Rightarrow> int \<Rightarrow> string option \<Rightarrow>
      's \<times> key_row list \<Rightarrow> dict result \<times> 's \<times> key_row list" where
  "validate_api_key_context R mac coll up_get up_set F now api_key st =
     (case st of (s, rows) \<Rightarrow>
        (case parse_api_key_public_id api_key of
           Inl e \<Rightarrow> (Inl e, (s, rows))
         | Inr public_id \<Rightarrow>
             (case cache_hit R mac up_get (the api_key) public_id s of
                Some ctx \<Rightarrow> (Inr ctx, (s, rows))
              | None \<Rightarrow>
                  (case validate_api_key_lookup coll F now public_id rows of
                     (answer, rows') \<Rightarrow>
                       (case resolve_key mac F now (the api_key) public_id answer of
                          Inl e \<Rightarrow> (Inl e, (s, rows'))
                        | Inr (ctx, entry) \<Rightarrow> (Inr ctx, (set_api_key R up_set public_id entry s, rows')))))))"

section \<open>The context middleware\<close>

text \<open>
  \<^verbatim>\<open>_extract_api_key_context\<close> of \<^verbatim>\<open>src/src/middleware/auth_context.py\<close> repeats the validation for the audit log, on every
  path but the two validation routes, and writes the same cache. It admits nobody, and an exception leaves the request
  without a context: \<open>None\<close>.
\<close>

definition middleware_public_id :: "string \<Rightarrow> string option" where
  "middleware_public_id api_key =
     (if \<not> starts_with api_key ''sk_'' then None
      else Some (case rsplit_dot (drop 3 api_key) of Some (public_id, _) \<Rightarrow> public_id | None \<Rightarrow> drop 3 api_key))"

definition middleware_grants :: "key_facts \<Rightarrow> string \<Rightarrow> string \<Rightarrow> json \<Rightarrow> json \<Rightarrow> (json list \<times> json list) option" where
  "middleware_grants F owner_user_id project_id project_hash user_type =
     (if user_type = JStr ''root'' then Some ([JStr ''admin'', JStr ''global_admin''], [JStr ''root_users''])
      else if user_type = JStr ''admin'' then
        map_option (\<lambda>ok. if \<not> ok then ([], []) else ([JStr ''admin'', JStr ''project_admin''], [JStr ''project_admins'']))
          (kf_admin_access F owner_user_id project_id)
      else
        map_option (\<lambda>groups. if groups = [] then ([], [])
                             else (case kf_permissions F owner_user_id of Some ps \<Rightarrow> ps | None \<Rightarrow> [],
                                   map (\<lambda>g. dget g ''group_name'') groups))
          (kf_groups_in_project F owner_user_id project_hash))"

definition middleware_entry :: "int \<Rightarrow> key_row \<Rightarrow> string \<Rightarrow> dict \<Rightarrow> dict \<Rightarrow> json list \<Rightarrow> json list \<Rightarrow> dict" where
  "middleware_entry now r public_id project owner permissions groups =
     [''validation_status'' \<mapsto> JStr ''valid'', ''user_id'' \<mapsto> JStr (kr_owner_user_id r), ''user_hash'' \<mapsto> dget owner ''user_hash'',
      ''user_type'' \<mapsto> dget owner ''user_type'', ''username'' \<mapsto> dget owner ''username'',
      ''project_id'' \<mapsto> JStr (kr_project_id r), ''project_hash'' \<mapsto> dget project ''project_hash'',
      ''permissions'' \<mapsto> JList permissions, ''groups'' \<mapsto> JList groups, ''key_id'' \<mapsto> JStr (kr_id r),
      ''public_id'' \<mapsto> JStr public_id, ''secret_hash'' \<mapsto> JStr (encode_secret_hash_for_cache (kr_secret_hash r)),
      ''cached_at'' \<mapsto> JTime now]"

definition middleware_resolve :: "(string \<Rightarrow> string) \<Rightarrow> key_facts \<Rightarrow> int \<Rightarrow> string \<Rightarrow> string \<Rightarrow> string \<times> key_row option \<Rightarrow> dict option" where
  "middleware_resolve mac F now api_key public_id answer =
     (case answer of
        (_, None) \<Rightarrow> None
      | (validation_status, Some r) \<Rightarrow>
          if validation_status \<noteq> ''valid'' \<or> kr_secret_hash r = [] \<or> \<not> verify_api_key_token mac api_key public_id (kr_secret_hash r)
          then None
          else (case kf_project_by_id F (kr_project_id r) of
                  Some (Some project) \<Rightarrow>
                    (case kf_user_by_id F (kr_owner_user_id r) of
                       Some (Some owner) \<Rightarrow>
                         map_option (\<lambda>(permissions, groups). middleware_entry now r public_id project owner permissions groups)
                           (middleware_grants F (kr_owner_user_id r) (kr_project_id r) (dget project ''project_hash'') (dget owner ''user_type''))
                     | _ \<Rightarrow> None)
                | _ \<Rightarrow> None))"

text \<open>\<^verbatim>\<open>_build_api_key_context_from_cache\<close>; the context of a fresh entry has the same fields, the owner read by that id.\<close>

definition middleware_context :: "dict \<Rightarrow> dict option" where
  "middleware_context cached =
     (if {''user_id'', ''user_hash'', ''user_type'', ''project_id'', ''project_hash''} \<subseteq> dom cached
      then Some [''user_id'' \<mapsto> dget cached ''user_id'', ''user_hash'' \<mapsto> dget cached ''user_hash'', ''user_type'' \<mapsto> dget cached ''user_type'',
                 ''username'' \<mapsto> dget cached ''username'', ''permissions'' \<mapsto> dget_default cached ''permissions'' (JList []),
                 ''groups'' \<mapsto> dget_default cached ''groups'' (JList []), ''project_id'' \<mapsto> dget cached ''project_id'',
                 ''project_hash'' \<mapsto> dget cached ''project_hash'', ''session_id'' \<mapsto> dget_default cached ''key_id'' (JStr [])]
      else None)"

definition extract_api_key_context ::
    "'s redis \<Rightarrow> (string \<Rightarrow> string) \<Rightarrow> (string \<Rightarrow> string) \<Rightarrow> bool \<Rightarrow> bool \<Rightarrow> key_facts \<Rightarrow> int \<Rightarrow> string \<Rightarrow>
      's \<times> key_row list \<Rightarrow> dict option \<times> 's \<times> key_row list" where
  "extract_api_key_context R mac coll up_get up_set F now api_key st =
     (case st of (s, rows) \<Rightarrow>
        (case middleware_public_id api_key of
           None \<Rightarrow> (None, (s, rows))
         | Some public_id \<Rightarrow>
             let cached = get_api_key R up_get public_id s
             in if verify_api_key_token_against_cache mac api_key public_id cached
                then (Option.bind cached middleware_context, (s, rows))
                else (case validate_api_key_lookup coll F now public_id rows of
                        (answer, rows') \<Rightarrow>
                          (case middleware_resolve mac F now api_key public_id answer of
                             None \<Rightarrow> (None, (s, rows'))
                           | Some entry \<Rightarrow> (middleware_context entry, (set_api_key R up_set public_id entry s, rows'))))))"

section \<open>Texts of tokens\<close>

lemma rsplit_dot_Some: "rsplit_dot s = Some (a, b) \<longleftrightarrow> s = a @ ''.'' @ b \<and> CHR ''.'' \<notin> set b"
proof
  let ?P = "\<lambda>c. c \<noteq> CHR ''.''"
  assume h: "rsplit_dot s = Some (a, b)"
  then obtain c where c: "dropWhile ?P (rev s) = c # rev a" and b: "b = rev (takeWhile ?P (rev s))"
    by (auto simp: rsplit_dot_def split: list.splits)
  from c have "c = CHR ''.''" by (metis (mono_tags, lifting) dropWhile_eq_Cons_conv)
  then have "rev s = rev b @ CHR ''.'' # rev a"
    using c b by (metis rev_rev_ident takeWhile_dropWhile_id)
  then have "s = a @ ''.'' @ b" by (metis append.assoc append_Cons append_Nil rev.simps(2) rev_append rev_swap)
  moreover have "CHR ''.'' \<notin> set b" using b by (auto dest: set_takeWhileD)
  ultimately show "s = a @ ''.'' @ b \<and> CHR ''.'' \<notin> set b" by blast
next
  assume "s = a @ ''.'' @ b \<and> CHR ''.'' \<notin> set b"
  then show "rsplit_dot s = Some (a, b)"
    by (simp add: rsplit_dot_def takeWhile_append dropWhile_append)
qed

lemma rsplit_dot_append: "CHR ''.'' \<notin> set b \<Longrightarrow> rsplit_dot (a @ CHR ''.'' # b) = Some (a, b)"
  by (simp add: rsplit_dot_Some)

lemma parse_key:
  "parse_api_key_public_id api_key = Inr p \<longleftrightarrow>
     (\<exists>secret. api_key = Some (''sk_'' @ p @ ''.'' @ secret) \<and> CHR ''.'' \<notin> set secret \<and> p \<noteq> [] \<and> secret \<noteq> [])"
  (is "?L \<longleftrightarrow> ?R")
proof
  assume ?L
  then obtain t secret where t: "api_key = Some t" "starts_with t ''sk_''" "rsplit_dot (drop 3 t) = Some (p, secret)"
      "p \<noteq> []" "secret \<noteq> []"
    by (auto simp: parse_api_key_public_id_def denied_def split: option.splits if_splits)
  then show ?R by (auto simp: starts_with_iff rsplit_dot_Some)
next
  assume ?R
  then show ?L
    by (auto simp: parse_api_key_public_id_def starts_with_def rsplit_dot_append)
qed

lemma verify_token:
  assumes "CHR ''.'' \<notin> set secret"
  shows "verify_api_key_token mac (''sk_'' @ p @ ''.'' @ secret) p h \<longleftrightarrow> mac (key_material p secret) = h"
proof -
  have "rsplit_dot (''sk_'' @ p @ ''.'' @ secret) = Some (''sk_'' @ p, secret)"
    using assms by (simp add: rsplit_dot_Some)
  then show ?thesis by (simp add: verify_api_key_token_def Let_def starts_with_def)
qed

lemma hex_value_digit: "n < 16 \<Longrightarrow> hex_value (hex_digit n) = Some n"
  by (auto simp: hex_value_def hex_digit_def Let_def)

lemma hex_digit_not_space: "n < 16 \<Longrightarrow> \<not> ascii_space (hex_digit n)"
  by (auto simp: ascii_space_def hex_digit_def Let_def)

lemma from_hex_encode [simp]: "from_hex (encode_secret_hash_for_cache h) = Some h"
proof (induction h)
  case Nil
  then show ?case by (simp add: encode_secret_hash_for_cache_def)
next
  case (Cons c h)
  have b: "of_char c div 16 < (16 :: nat)" by (rule less_mult_imp_div_less) simp
  have split: "16 * (of_char c div 16) + of_char c mod 16 = (of_char c :: nat)" by simp
  have "hex_value (hex_digit (of_char c div 16)) = Some (of_char c div 16)"
    "hex_value (hex_digit (of_char c mod 16)) = Some (of_char c mod 16)"
    "\<not> ascii_space (hex_digit (of_char c div 16))"
    using b by (simp_all add: hex_value_digit hex_digit_not_space)
  with Cons show ?case by (simp add: encode_secret_hash_for_cache_def)
qed

lemma b64_digit_url: "is_url_char (b64_digit n)"
  by (auto simp: is_url_char_def b64_digit_def Let_def)

lemma b64url_chars: "list_all is_url_char (b64url s)"
  by (induction s rule: b64url.induct) (simp_all add: Let_def b64_digit_url)

lemma b64url_length: "length (b64url s) = (4 * length s + 2) div 3"
  by (induction s rule: b64url.induct) (simp_all add: Let_def)

lemma b64url_nonempty: "b64url s = [] \<longleftrightarrow> s = []"
  by (cases s rule: b64url.cases) (simp_all add: Let_def)

lemma url_text_no_dot: "list_all is_url_char s \<Longrightarrow> CHR ''.'' \<notin> set s"
  by (auto simp: list_all_iff is_url_char_def Let_def)

text \<open>A generated token parses to its own public id and verifies against its own hash.\<close>

lemma generated_token:
  fixes mac blake :: "string \<Rightarrow> string"
  assumes "id_bytes \<noteq> []" "secret_bytes \<noteq> []"
  defines "t \<equiv> generate_api_key_token mac blake id_bytes secret_bytes"
  shows "parse_api_key_public_id (Some (at_token t)) = Inr (at_public_id t)"
    and "verify_api_key_token mac (at_token t) (at_public_id t) h \<longleftrightarrow> h = at_secret_hash t"
proof -
  have dot: "CHR ''.'' \<notin> set (b64url secret_bytes)" by (rule url_text_no_dot [OF b64url_chars])
  from assms(1,2) have "b64url id_bytes \<noteq> []" "b64url secret_bytes \<noteq> []" by (simp_all add: b64url_nonempty)
  with dot show "parse_api_key_public_id (Some (at_token t)) = Inr (at_public_id t)"
    by (simp add: parse_key t_def generate_api_key_token_def Let_def)
  have "verify_api_key_token mac (''sk_'' @ b64url id_bytes @ ''.'' @ b64url secret_bytes) (b64url id_bytes) h
      \<longleftrightarrow> mac (key_material (b64url id_bytes) (b64url secret_bytes)) = h"
    by (rule verify_token [OF dot])
  then show "verify_api_key_token mac (at_token t) (at_public_id t) h \<longleftrightarrow> h = at_secret_hash t"
    by (auto simp: t_def generate_api_key_token_def Let_def)
qed

section \<open>Rows\<close>

text \<open>What no procedure changes in a row.\<close>

definition key_identity :: "key_row \<Rightarrow> string \<times> string \<times> string \<times> string \<times> string" where
  "key_identity r = (kr_id r, kr_public_id r, kr_project_id r, kr_owner_user_id r, kr_secret_hash r)"

text \<open>The two unique keys, and that a revoked key is inactive.\<close>

definition keys_wf :: "(string \<Rightarrow> string) \<Rightarrow> key_row list \<Rightarrow> bool" where
  "keys_wf coll rows \<longleftrightarrow>
     distinct (map (\<lambda>r. coll (kr_id r)) rows) \<and> distinct (map (\<lambda>r. coll (kr_public_id r)) rows) \<and>
     list_all (\<lambda>r. kr_revoked_at r \<noteq> None \<longrightarrow> \<not> kr_is_active r) rows"

text \<open>Rows after a step: old rows keep their identity, and a revocation stands.\<close>

definition keys_kept :: "key_row list \<Rightarrow> key_row list \<Rightarrow> bool" where
  "keys_kept rows rows' \<longleftrightarrow>
     (\<forall>r\<in>set rows. \<exists>r'\<in>set rows'. key_identity r' = key_identity r \<and> (kr_revoked_at r \<noteq> None \<longrightarrow> kr_revoked_at r' \<noteq> None))"

lemma keys_kept_refl [simp]: "keys_kept rows rows"
  by (auto simp: keys_kept_def)

lemma keys_kept_trans: "keys_kept a b \<Longrightarrow> keys_kept b c \<Longrightarrow> keys_kept a c"
  unfolding keys_kept_def by (metis (full_types))

text \<open>An update of rows in place.\<close>

lemma keys_kept_map:
  assumes "\<And>r. key_identity (f r) = key_identity r" "\<And>r. kr_revoked_at r \<noteq> None \<Longrightarrow> kr_revoked_at (f r) \<noteq> None"
  shows "keys_kept rows (map f rows)"
  using assms by (fastforce simp: keys_kept_def)

lemma keys_wf_map:
  assumes "keys_wf coll rows" "\<And>r. key_identity (f r) = key_identity r"
    "\<And>r. r \<in> set rows \<Longrightarrow> kr_revoked_at (f r) \<noteq> None \<Longrightarrow> \<not> kr_is_active (f r)"
  shows "keys_wf coll (map f rows)"
proof -
  have "kr_id (f r) = kr_id r \<and> kr_public_id (f r) = kr_public_id r" for r
    using assms(2) [of r] by (simp add: key_identity_def)
  then have "map (\<lambda>r. coll (kr_id r)) (map f rows) = map (\<lambda>r. coll (kr_id r)) rows"
    "map (\<lambda>r. coll (kr_public_id r)) (map f rows) = map (\<lambda>r. coll (kr_public_id r)) rows" by simp_all
  with assms show ?thesis by (auto simp: keys_wf_def list_all_iff simp del: map_map)
qed

lemma keys_wf_revoked: "keys_wf coll rows \<Longrightarrow> r \<in> set rows \<Longrightarrow> kr_revoked_at r \<noteq> None \<Longrightarrow> \<not> kr_is_active r"
  by (auto simp: keys_wf_def list_all_iff)

lemma distinct_map_eq: "distinct (map f xs) \<Longrightarrow> x \<in> set xs \<Longrightarrow> y \<in> set xs \<Longrightarrow> f x = f y \<Longrightarrow> x = y"
  by (auto simp: distinct_map dest: inj_onD)

lemma key_by_public_id_row:
  assumes "keys_wf coll rows" "r \<in> set rows" "coll (kr_public_id r) = coll p"
  shows "key_by_public_id coll p rows = Some r"
proof -
  obtain x where x: "find (\<lambda>r. same coll (kr_public_id r) p) rows = Some x"
    using assms(2,3) by (cases "find (\<lambda>r. same coll (kr_public_id r) p) rows") (auto simp: find_None_iff same_def)
  then have "x \<in> set rows" "coll (kr_public_id x) = coll p" by (auto simp: find_Some_iff same_def)
  with assms have "x = r" by (intro distinct_map_eq [of "\<lambda>r. coll (kr_public_id r)"]) (auto simp: keys_wf_def)
  with x show ?thesis by (simp add: key_by_public_id_def)
qed

lemma key_by_public_id_Some: "key_by_public_id coll p rows = Some r \<Longrightarrow> r \<in> set rows \<and> coll (kr_public_id r) = coll p"
  by (auto simp: key_by_public_id_def find_Some_iff same_def)

lemma keys_kept_create: "keys_kept rows (snd (sp_create_api_key coll F now k rows))"
  by (auto simp: sp_create_api_key_def keys_kept_def)

lemma keys_wf_create: "keys_wf coll rows \<Longrightarrow> keys_wf coll (snd (sp_create_api_key coll F now k rows))"
  by (auto simp: sp_create_api_key_def keys_wf_def list_all_iff list_ex_iff same_def row_of_new_def)

lemma keys_validate:
  shows keys_kept_validate: "keys_kept rows (snd (sp_validate_api_key coll F now p rows))"
    and keys_wf_validate: "keys_wf coll rows \<Longrightarrow> keys_wf coll (snd (sp_validate_api_key coll F now p rows))"
  by (auto simp: sp_validate_api_key_def key_identity_def dest: keys_wf_revoked intro!: keys_kept_map keys_wf_map
      split: option.split if_splits)

lemma keys_revoke:
  shows keys_kept_revoke: "keys_kept rows (snd (revoke_api_key coll now k by reason rows))"
    and keys_wf_revoke: "keys_wf coll rows \<Longrightarrow> keys_wf coll (snd (revoke_api_key coll now k by reason rows))"
  by (auto simp: revoke_api_key_def sp_revoke_api_key_def Let_def revoked_row_def key_identity_def dest: keys_wf_revoked
      intro!: keys_kept_map keys_wf_map split: if_splits)

lemma keys_cleanup:
  shows keys_kept_cleanup: "keys_kept rows (snd (sp_cleanup_expired_api_keys now rows))"
    and keys_wf_cleanup: "keys_wf coll rows \<Longrightarrow> keys_wf coll (snd (sp_cleanup_expired_api_keys now rows))"
  by (auto simp: sp_cleanup_expired_api_keys_def Let_def key_identity_def dest: keys_wf_revoked
      intro!: keys_kept_map keys_wf_map split: if_splits)

lemma keys_kept_update: "keys_kept rows (snd (sp_update_api_key coll now k name descr e rows))"
  by (auto simp: sp_update_api_key_def Let_def updated_row_def key_identity_def intro!: keys_kept_map split: option.split)

lemma keys_wf_update:
  assumes "keys_wf coll rows"
  shows "keys_wf coll (snd (sp_update_api_key coll now k name descr e rows))"
proof (cases "find (\<lambda>r. same coll (kr_id r) k) rows")
  case None
  then show ?thesis using assms by (simp add: sp_update_api_key_def)
next
  case (Some r)
  then have r: "r \<in> set rows" "coll (kr_id r) = coll k" by (auto simp: find_Some_iff same_def)
  have only: "x = r" if "x \<in> set rows" "same coll (kr_id x) k" for x
    using assms r that by (intro distinct_map_eq [of "\<lambda>r. coll (kr_id r)"]) (auto simp: keys_wf_def same_def)
  show ?thesis
  proof (cases "kr_revoked_at r = None")
    case True
    then show ?thesis using assms Some only
      by (auto simp: sp_update_api_key_def Let_def updated_row_def key_identity_def dest: keys_wf_revoked intro!: keys_wf_map
          split: if_splits)
  next
    case False
    then show ?thesis using assms Some by (simp add: sp_update_api_key_def)
  qed
qed

text \<open>A revoked key is refused by the procedure, whatever else changed.\<close>

lemma revoked_key_not_valid:
  assumes "keys_wf coll rows" "r \<in> set rows" "kr_revoked_at r \<noteq> None" "coll (kr_public_id r) = coll p"
  shows "sp_validate_api_key coll G t p rows = ((''revoked'', Some r), rows)"
    and "\<exists>e. resolve_key mac F now token p (''revoked'', Some r) = Inl e"
    and "middleware_resolve mac F now token p (''revoked'', Some r) = None"
  using keys_wf_revoked [OF assms(1-3)] key_by_public_id_row [OF assms(1,2,4)]
  by (simp_all add: sp_validate_api_key_def resolve_key_def raise_api_key_error_def denied_def middleware_resolve_def)

section \<open>What an accepted answer says\<close>

definition entry_of_row :: "key_row \<Rightarrow> string \<Rightarrow> dict \<Rightarrow> bool" where
  "entry_of_row r p e \<longleftrightarrow>
     dget e ''secret_hash'' = JStr (encode_secret_hash_for_cache (kr_secret_hash r)) \<and> dget e ''user_id'' = JStr (kr_owner_user_id r) \<and>
     dget e ''project_id'' = JStr (kr_project_id r) \<and> dget e ''key_id'' = JStr (kr_id r) \<and> dget e ''public_id'' = JStr p"

definition context_of_row :: "key_row \<Rightarrow> string \<Rightarrow> dict \<Rightarrow> bool" where
  "context_of_row r p c \<longleftrightarrow>
     dget c ''user_id'' = JStr (kr_owner_user_id r) \<and> dget c ''project_id'' = JStr (kr_project_id r) \<and>
     dget c ''key_id'' = JStr (kr_id r) \<and> dget c ''key_public_id'' = JStr p"

lemma resolve_key_Inr:
  assumes "resolve_key mac F now token p (fst (sp_validate_api_key coll G t p rows)) = Inr (ctx, e)"
  shows "\<exists>r\<in>set rows. coll (kr_public_id r) = coll p \<and> kr_is_active r \<and> \<not> key_expired t r \<and>
      verify_api_key_token mac token p (kr_secret_hash r) \<and> context_of_row r p ctx \<and> entry_of_row r p e \<and>
      dget e ''validation_status'' = JStr ''valid'' \<and> (p \<noteq> [] \<longrightarrow> cached_context p e = ctx)"
proof -
  obtain r where r: "fst (sp_validate_api_key coll G t p rows) = (''valid'', Some r)"
    using assms by (auto simp: resolve_key_def raise_api_key_error_def denied_def split: prod.splits option.splits if_splits)
  then have row: "key_by_public_id coll p rows = Some r" "kr_is_active r" "\<not> key_expired t r"
    by (auto simp: sp_validate_api_key_def split: option.splits if_splits)
  from assms r obtain pr u ps gs where v: "verify_api_key_token mac token p (kr_secret_hash r)"
    and ctx: "ctx = key_context r p pr u ps gs" and e: "e = cache_entry now r p pr u ps gs"
    by (auto simp: resolve_key_def from_db_def denied_def split: option.splits if_splits sum.splits)
  have "context_of_row r p ctx" by (simp add: context_of_row_def ctx key_context_def)
  moreover have "entry_of_row r p e" "dget e ''validation_status'' = JStr ''valid''"
    by (simp_all add: entry_of_row_def e cache_entry_def)
  moreover have "cached_context p e = ctx" if "p \<noteq> []"
    using that by (simp add: cached_context_def ctx e cache_entry_def key_context_def dget_default_def)
  ultimately show ?thesis using row v key_by_public_id_Some [OF row(1)] by blast
qed

lemma middleware_resolve_Some:
  assumes "middleware_resolve mac F now token p (fst (sp_validate_api_key coll G t p rows)) = Some e"
  shows "\<exists>r\<in>set rows. coll (kr_public_id r) = coll p \<and> kr_is_active r \<and> \<not> key_expired t r \<and>
      verify_api_key_token mac token p (kr_secret_hash r) \<and> entry_of_row r p e"
proof -
  obtain r where r: "fst (sp_validate_api_key coll G t p rows) = (''valid'', Some r)"
    using assms by (auto simp: middleware_resolve_def split: prod.splits option.splits if_splits)
  then have row: "key_by_public_id coll p rows = Some r" "kr_is_active r" "\<not> key_expired t r"
    by (auto simp: sp_validate_api_key_def split: option.splits if_splits)
  from assms r obtain pr u ps gs where v: "verify_api_key_token mac token p (kr_secret_hash r)"
    and e: "e = middleware_entry now r p pr u ps gs"
    by (auto simp: middleware_resolve_def split: option.splits if_splits)
  have "entry_of_row r p e" by (simp add: entry_of_row_def e middleware_entry_def)
  then show ?thesis using row v key_by_public_id_Some [OF row(1)] by blast
qed

lemma cache_hit_Some:
  assumes "cache_hit R mac up token p s = Some ctx"
  shows "\<exists>e h. get_json R s (APIKEY_PREFIX @ p) = Some e \<and> ctx = cached_context p e \<and>
     dget e ''secret_hash'' = JStr h \<and> (\<exists>stored. from_hex h = Some stored \<and> verify_api_key_token mac token p stored)"
  using assms
  by (auto simp: cache_hit_def get_api_key_def verify_api_key_token_against_cache_def Let_def
      split: if_splits option.splits json.splits)

lemma cached_context_of_row: "entry_of_row r p e \<Longrightarrow> p \<noteq> [] \<Longrightarrow> context_of_row r p (cached_context p e)"
  by (simp add: entry_of_row_def context_of_row_def cached_context_def)

end
