(* ===== verification/API_Key_Machine.thy ===== *)
theory API_Key_Machine
  imports API_Keys
begin

text \<open>
  Validation, revocation and change of API keys interleaved. A validation is three steps, as in
  \<^verbatim>\<open>validate_api_key_context\<close>: it reads the cache, it looks the key up in the database, and it writes the
  cache and answers; other requests run in between, and every cache call may fail. The contract of Redis is
  extended by what \<^verbatim>\<open>DEL\<close> and time do to lifetimes.
\<close>

section \<open>Lifetimes\<close>

locale expiring_store = redis_store +
  assumes pttl_delete: "k \<notin> set ks \<Longrightarrow> pttl (redis_delete R ks s) k = pttl s k"
    and pttl_tick: "pttl s k = Some q \<Longrightarrow> redis_get R (tick n s) k \<noteq> None \<Longrightarrow> pttl (tick n s) k = Some (q - int n)"

interpretation mem_expiring: expiring_store mem_redis mem_tick mem_pttl
  by unfold_locales (auto simp: mem_defs split: option.splits prod.splits if_splits)

section \<open>Steps\<close>

datatype key_phase =
    Checked string string
  | Looked_Up string string dict dict
  | Noted string dict

record 's key_state =
  ks_store :: 's
  ks_rows :: "key_row list"
  ks_now :: int
  ks_requests :: "nat \<Rightarrow> key_phase option"

datatype key_event =
    Present nat "string option" bool
  | Look_Up nat key_facts
  | Note nat string key_facts
  | Finish nat bool
  | Revoke string string "string option"
  | Invalidate string bool
  | Update string "string option" "string option" "int option"
  | Create key_facts new_key
  | Clean_Up
  | Wait nat

text \<open>
  \<open>Note\<close> is the lookup of the context middleware after its cache missed; its hits change nothing. \<open>key_step\<close> gives the next state and, when a validation ends in it, the presented token with the answer.
  \<^verbatim>\<open>revoke_api_key_with_cache_invalidation\<close> is \<open>Revoke\<close> and then \<open>Invalidate\<close>, with whatever happens in between;
  \<^verbatim>\<open>update_api_key\<close> likewise.
\<close>

fun key_step ::
    "'s redis \<Rightarrow> (nat \<Rightarrow> 's \<Rightarrow> 's) \<Rightarrow> (string \<Rightarrow> string) \<Rightarrow> (string \<Rightarrow> string) \<Rightarrow> key_event \<Rightarrow> 's key_state \<Rightarrow>
      's key_state \<times> (string option \<times> dict result) option" where
  "key_step R tick mac coll (Present i api_key up) st =
     (case parse_api_key_public_id api_key of
        Inl e \<Rightarrow> (st, Some (api_key, Inl e))
      | Inr p \<Rightarrow>
          (case cache_hit R mac up (the api_key) p (ks_store st) of
             Some ctx \<Rightarrow> (st, Some (api_key, Inr ctx))
           | None \<Rightarrow> (st\<lparr>ks_requests := (ks_requests st)(i \<mapsto> Checked (the api_key) p)\<rparr>, None)))"
| "key_step R tick mac coll (Look_Up i F) st =
     (case ks_requests st i of
        Some (Checked token p) \<Rightarrow>
          (case validate_api_key_lookup coll F (ks_now st) p (ks_rows st) of
             (answer, rows') \<Rightarrow>
               (case resolve_key mac F (ks_now st) token p answer of
                  Inl e \<Rightarrow> (st\<lparr>ks_rows := rows', ks_requests := (ks_requests st)(i := None)\<rparr>, Some (Some token, Inl e))
                | Inr (ctx, entry) \<Rightarrow>
                    (st\<lparr>ks_rows := rows', ks_requests := (ks_requests st)(i \<mapsto> Looked_Up token p ctx entry)\<rparr>, None)))
      | _ \<Rightarrow> (st, None))"
| "key_step R tick mac coll (Note i api_key F) st =
     (case middleware_public_id api_key of
        None \<Rightarrow> (st, None)
      | Some p \<Rightarrow>
          (case validate_api_key_lookup coll F (ks_now st) p (ks_rows st) of
             (answer, rows') \<Rightarrow>
               (case middleware_resolve mac F (ks_now st) api_key p answer of
                  None \<Rightarrow> (st\<lparr>ks_rows := rows'\<rparr>, None)
                | Some entry \<Rightarrow> (st\<lparr>ks_rows := rows', ks_requests := (ks_requests st)(i \<mapsto> Noted p entry)\<rparr>, None))))"
| "key_step R tick mac coll (Finish i up) st =
     (case ks_requests st i of
        Some (Looked_Up token p ctx entry) \<Rightarrow>
          (st\<lparr>ks_store := set_api_key R up p entry (ks_store st), ks_requests := (ks_requests st)(i := None)\<rparr>,
           Some (Some token, Inr ctx))
      | Some (Noted p entry) \<Rightarrow>
          (st\<lparr>ks_store := set_api_key R up p entry (ks_store st), ks_requests := (ks_requests st)(i := None)\<rparr>, None)
      | _ \<Rightarrow> (st, None))"
| "key_step R tick mac coll (Revoke key_id revoked_by reason) st =
     (st\<lparr>ks_rows := snd (revoke_api_key coll (ks_now st div us_per_second) key_id revoked_by reason (ks_rows st))\<rparr>, None)"
| "key_step R tick mac coll (Invalidate p up) st =
     (st\<lparr>ks_store := invalidate_api_key R up p (ks_store st)\<rparr>, None)"
| "key_step R tick mac coll (Update key_id name description expires_at) st =
     (st\<lparr>ks_rows := snd (sp_update_api_key coll (ks_now st div us_per_second) key_id name description expires_at (ks_rows st))\<rparr>,
      None)"
| "key_step R tick mac coll (Create F k) st =
     (st\<lparr>ks_rows := snd (sp_create_api_key coll F (ks_now st div us_per_second) k (ks_rows st))\<rparr>, None)"
| "key_step R tick mac coll Clean_Up st =
     (st\<lparr>ks_rows := snd (sp_cleanup_expired_api_keys (ks_now st div us_per_second) (ks_rows st))\<rparr>, None)"
| "key_step R tick mac coll (Wait n) st =
     (st\<lparr>ks_store := tick n (ks_store st), ks_now := ks_now st + int n * 1000\<rparr>, None)"

fun key_run ::
    "'s redis \<Rightarrow> (nat \<Rightarrow> 's \<Rightarrow> 's) \<Rightarrow> (string \<Rightarrow> string) \<Rightarrow> (string \<Rightarrow> string) \<Rightarrow> key_event list \<Rightarrow> 's key_state \<Rightarrow> 's key_state" where
  "key_run R tick mac coll [] st = st"
| "key_run R tick mac coll (e # es) st = key_run R tick mac coll es (fst (key_step R tick mac coll e st))"

fun waited :: "key_event list \<Rightarrow> nat" where
  "waited [] = 0"
| "waited (Wait n # es) = n + waited es"
| "waited (_ # es) = waited es"

text \<open>A step whose answer admits the token with public id \<open>p\<close>.\<close>

definition admits :: "(string option \<times> dict result) option \<Rightarrow> string \<Rightarrow> dict \<Rightarrow> bool" where
  "admits out p ctx \<longleftrightarrow> (\<exists>api_key. out = Some (api_key, Inr ctx) \<and> parse_api_key_public_id api_key = Inr p)"

section \<open>Invariants\<close>

text \<open>Entries of the cache come from a row, and live at most \<open>APIKEY_TTL\<close>.\<close>

definition request_ok :: "(string \<Rightarrow> string) \<Rightarrow> key_row list \<Rightarrow> key_phase \<Rightarrow> bool" where
  "request_ok mac rows ph =
     (case ph of
        Checked token p \<Rightarrow> parse_api_key_public_id (Some token) = Inr p
      | Looked_Up token p ctx entry \<Rightarrow>
          parse_api_key_public_id (Some token) = Inr p \<and>
          (\<exists>r\<in>set rows. verify_api_key_token mac token p (kr_secret_hash r) \<and> context_of_row r p ctx \<and> entry_of_row r p entry)
      | Noted p entry \<Rightarrow> (\<exists>r\<in>set rows. entry_of_row r p entry))"

definition cache_ok :: "'s redis \<Rightarrow> ('s \<Rightarrow> string \<Rightarrow> int option) \<Rightarrow> 's \<Rightarrow> key_row list \<Rightarrow> string \<Rightarrow> bool" where
  "cache_ok R pttl s rows p \<longleftrightarrow>
     (\<forall>e. get_json R s (APIKEY_PREFIX @ p) = Some e \<longrightarrow>
        (\<exists>r\<in>set rows. entry_of_row r p e) \<and> (\<exists>q. pttl s (APIKEY_PREFIX @ p) = Some q \<and> q \<le> 1000 * APIKEY_TTL))"

definition keys_inv :: "'s redis \<Rightarrow> ('s \<Rightarrow> string \<Rightarrow> int option) \<Rightarrow> (string \<Rightarrow> string) \<Rightarrow> (string \<Rightarrow> string) \<Rightarrow> 's key_state \<Rightarrow> bool" where
  "keys_inv R pttl mac coll st \<longleftrightarrow>
     keys_wf coll (ks_rows st) \<and>
     (\<forall>i ph. ks_requests st i = Some ph \<longrightarrow> request_ok mac (ks_rows st) ph) \<and>
     (\<forall>p. cache_ok R pttl (ks_store st) (ks_rows st) p)"

lemma request_ok_simps [simp]:
  "request_ok mac rows (Checked token p) \<longleftrightarrow> parse_api_key_public_id (Some token) = Inr p"
  "request_ok mac rows (Looked_Up token p ctx entry) \<longleftrightarrow> parse_api_key_public_id (Some token) = Inr p \<and>
     (\<exists>r\<in>set rows. verify_api_key_token mac token p (kr_secret_hash r) \<and> context_of_row r p ctx \<and> entry_of_row r p entry)"
  "request_ok mac rows (Noted p entry) \<longleftrightarrow> (\<exists>r\<in>set rows. entry_of_row r p entry)"
  by (simp_all add: request_ok_def)

lemma keys_invD:
  assumes "keys_inv R pttl mac coll st"
  shows "keys_wf coll (ks_rows st)" "ks_requests st i = Some ph \<Longrightarrow> request_ok mac (ks_rows st) ph"
    "cache_ok R pttl (ks_store st) (ks_rows st) p"
  using assms by (simp_all add: keys_inv_def)

lemma same_identity:
  assumes "key_identity r = key_identity r'"
  shows "context_of_row r p c = context_of_row r' p c" "entry_of_row r p e = entry_of_row r' p e"
    "kr_secret_hash r = kr_secret_hash r'"
  using assms by (simp_all add: key_identity_def context_of_row_def entry_of_row_def)

lemma request_ok_kept:
  assumes "keys_kept rows rows'" "request_ok mac rows ph"
  shows "request_ok mac rows' ph"
proof (cases ph)
  case (Checked token p)
  then show ?thesis using assms by (simp add: request_ok_def)
next
  case (Looked_Up token p ctx entry)
  then obtain r where "r \<in> set rows" "verify_api_key_token mac token p (kr_secret_hash r)" "context_of_row r p ctx"
      "entry_of_row r p entry" and parse: "parse_api_key_public_id (Some token) = Inr p"
    using assms(2) by (auto simp: request_ok_def)
  with assms(1) obtain r' where "r' \<in> set rows'" "verify_api_key_token mac token p (kr_secret_hash r')"
      "context_of_row r' p ctx" "entry_of_row r' p entry"
    unfolding keys_kept_def using same_identity by metis
  then show ?thesis using parse Looked_Up by (auto simp: request_ok_def)
next
  case (Noted p entry)
  then show ?thesis using assms unfolding keys_kept_def by simp (metis same_identity(2))
qed

lemma cache_ok_kept:
  assumes "keys_kept rows rows'" "cache_ok R pttl s rows p"
  shows "cache_ok R pttl s rows' p"
  using assms unfolding cache_ok_def keys_kept_def by (metis same_identity(2))

lemma keys_inv_rows:
  assumes "keys_inv R pttl mac coll st" "keys_kept (ks_rows st) rows'" "keys_wf coll rows'"
  shows "keys_inv R pttl mac coll (st\<lparr>ks_rows := rows'\<rparr>)"
proof -
  have "\<forall>i ph. ks_requests st i = Some ph \<longrightarrow> request_ok mac rows' ph"
    using assms(1) request_ok_kept [OF assms(2)] by (simp add: keys_inv_def)
  moreover have "\<forall>p. cache_ok R pttl (ks_store st) rows' p"
    using assms(1) by (auto simp: keys_inv_def intro: cache_ok_kept [OF assms(2)])
  ultimately show ?thesis using assms(3) by (simp add: keys_inv_def)
qed

context expiring_store
begin

lemma pttl_set_json: "0 < ex \<Longrightarrow> pttl (set_json R k d ex s) k' = (if k' = k then Some (ex * 1000) else pttl s k')"
  by (simp add: set_json_def pttl_set)

lemma cache_ok_set:
  assumes "cache_ok R pttl s rows p'" "r \<in> set rows" "entry_of_row r p e"
  shows "cache_ok R pttl (set_api_key R up p e s) rows p'"
proof -
  have "0 < APIKEY_TTL" by (simp add: APIKEY_TTL_def)
  then show ?thesis using assms
    by (auto simp: cache_ok_def set_api_key_def get_json_set_json pttl_set_json split: if_splits)
qed

lemma cache_ok_invalidate: "cache_ok R pttl s rows p' \<Longrightarrow> cache_ok R pttl (invalidate_api_key R up p s) rows p'"
  by (auto simp: cache_ok_def invalidate_api_key_def get_json_delete pttl_delete)

lemma get_json_gone: "get_json R s k = Some e \<Longrightarrow> redis_get R s k \<noteq> None"
  by (auto simp: get_json_def split: option.splits)

lemma pttl_tick_json:
  assumes "pttl s k = Some q" "get_json R (tick n s) k = Some e"
  shows "pttl (tick n s) k = Some (q - int n)" "int n < q"
proof -
  have g: "redis_get R (tick n s) k \<noteq> None" using assms(2) by (rule get_json_gone)
  then show "pttl (tick n s) k = Some (q - int n)" by (rule pttl_tick [OF assms(1)])
  show "int n < q" using g assms(1) by (auto simp: get_tick split: if_splits)
qed

lemma cache_ok_tick:
  assumes "cache_ok R pttl s rows p"
  shows "cache_ok R pttl (tick n s) rows p"
  unfolding cache_ok_def
proof (intro allI impI)
  fix e assume e: "get_json R (tick n s) (APIKEY_PREFIX @ p) = Some e"
  then have "get_json R s (APIKEY_PREFIX @ p) = Some e" by (rule get_json_tick_Some)
  with assms obtain r q where "r \<in> set rows" "entry_of_row r p e" "pttl s (APIKEY_PREFIX @ p) = Some q" "q \<le> 1000 * APIKEY_TTL"
    unfolding cache_ok_def by blast
  with pttl_tick_json [OF _ e] show "(\<exists>r\<in>set rows. entry_of_row r p e) \<and>
      (\<exists>q. pttl (tick n s) (APIKEY_PREFIX @ p) = Some q \<and> q \<le> 1000 * APIKEY_TTL)"
    by (intro conjI bexI [of _ r] exI [of _ "q - int n"]) auto
qed

end

section \<open>Every step keeps the invariant\<close>

lemmas rows_kept = keys_kept_create keys_kept_validate keys_kept_revoke keys_kept_cleanup keys_kept_update
lemmas rows_wf = keys_wf_create keys_wf_validate keys_wf_revoke keys_wf_cleanup keys_wf_update

lemma key_step_rows: "keys_kept (ks_rows st) (ks_rows (fst (key_step R tick mac coll e st)))"
proof (cases e)
  case (Look_Up i F)
  have "keys_kept (ks_rows st) rows'" if "validate_api_key_lookup coll F (ks_now st) p (ks_rows st) = (a, rows')" for p a rows'
    using that keys_kept_validate [of "ks_rows st" coll F "ks_now st div us_per_second" p]
    by (simp add: validate_api_key_lookup_def)
  with Look_Up show ?thesis by (auto split: option.split key_phase.split prod.split sum.split)
next
  case (Note i k F)
  then show ?thesis using rows_kept(2) by (auto simp: validate_api_key_lookup_def split: option.split prod.split) (metis snd_conv)+
qed (auto simp: rows_kept split: option.split key_phase.split sum.split)

lemma key_step_wf:
  assumes "keys_wf coll (ks_rows st)"
  shows "keys_wf coll (ks_rows (fst (key_step R tick mac coll e st)))"
proof (cases e)
  case (Look_Up i F)
  have "keys_wf coll rows'" if "validate_api_key_lookup coll F (ks_now st) p (ks_rows st) = (a, rows')" for p a rows'
    using that keys_wf_validate [OF assms, of F "ks_now st div us_per_second" p] by (simp add: validate_api_key_lookup_def)
  with Look_Up assms show ?thesis by (auto split: option.split key_phase.split prod.split sum.split)
next
  case (Note i k F)
  then show ?thesis using assms rows_wf(2) [OF assms]
    by (auto simp: validate_api_key_lookup_def split: option.split prod.split) (metis snd_conv)+
qed (use assms in \<open>auto simp: rows_wf split: option.split key_phase.split sum.split\<close>)

lemma look_up_request_ok:
  assumes parse: "parse_api_key_public_id (Some token) = Inr p"
    and look: "validate_api_key_lookup coll F now p rows = (answer, rows')"
    and res: "resolve_key mac F now token p answer = Inr (ctx, entry)"
  shows "request_ok mac rows' (Looked_Up token p ctx entry)"
proof -
  have fst_: "answer = fst (sp_validate_api_key coll F (now div us_per_second) p rows)"
    and snd_: "rows' = snd (sp_validate_api_key coll F (now div us_per_second) p rows)"
    using look by (simp_all add: validate_api_key_lookup_def)
  obtain r where "r \<in> set rows" "verify_api_key_token mac token p (kr_secret_hash r)" "context_of_row r p ctx" "entry_of_row r p entry"
    using resolve_key_Inr [OF res [unfolded fst_]] by blast
  then have "request_ok mac rows (Looked_Up token p ctx entry)" using parse by (auto simp: request_ok_def)
  then show ?thesis unfolding snd_ by (rule request_ok_kept [OF keys_kept_validate])
qed

lemma note_request_ok:
  assumes "validate_api_key_lookup coll F now p rows = (answer, rows')" "middleware_resolve mac F now token p answer = Some entry"
  shows "request_ok mac rows' (Noted p entry)"
proof -
  have fst_: "answer = fst (sp_validate_api_key coll F (now div us_per_second) p rows)"
    and snd_: "rows' = snd (sp_validate_api_key coll F (now div us_per_second) p rows)"
    using assms(1) by (simp_all add: validate_api_key_lookup_def)
  have "request_ok mac rows (Noted p entry)" using middleware_resolve_Some [OF assms(2) [unfolded fst_]] by auto
  then show ?thesis unfolding snd_ by (rule request_ok_kept [OF keys_kept_validate])
qed

context expiring_store
begin

lemma keys_inv_note:
  assumes inv: "keys_inv R pttl mac coll st"
  shows "keys_inv R pttl mac coll (fst (key_step R tick mac coll (Note i api_key F) st))"
proof (cases "middleware_public_id api_key")
  case None
  with inv show ?thesis by simp
next
  case (Some p)
  obtain answer rows' where look: "validate_api_key_lookup coll F (ks_now st) p (ks_rows st) = (answer, rows')"
    by (cases "validate_api_key_lookup coll F (ks_now st) p (ks_rows st)")
  then have rows': "rows' = snd (sp_validate_api_key coll F (ks_now st div us_per_second) p (ks_rows st))"
    by (simp add: validate_api_key_lookup_def)
  have inv': "keys_inv R pttl mac coll (st\<lparr>ks_rows := rows'\<rparr>)"
    unfolding rows' using inv by (intro keys_inv_rows keys_kept_validate keys_wf_validate) (simp_all add: keys_inv_def)
  show ?thesis
  proof (cases "middleware_resolve mac F (ks_now st) api_key p answer")
    case None
    with Some look inv' show ?thesis by simp
  next
    case entry: (Some e)
    with Some look inv' note_request_ok [OF look entry] show ?thesis by (simp add: keys_inv_def)
  qed
qed

lemma keys_inv_look_up:
  assumes inv: "keys_inv R pttl mac coll st"
  shows "keys_inv R pttl mac coll (fst (key_step R tick mac coll (Look_Up i F) st))"
proof (cases "\<exists>token p. ks_requests st i = Some (Checked token p)")
  case True
  then obtain token p where i: "ks_requests st i = Some (Checked token p)" by blast
  then have parse: "parse_api_key_public_id (Some token) = Inr p" using keys_invD(2) [OF inv i] by simp
  obtain answer rows' where look: "validate_api_key_lookup coll F (ks_now st) p (ks_rows st) = (answer, rows')"
    by (cases "validate_api_key_lookup coll F (ks_now st) p (ks_rows st)")
  then have rows': "rows' = snd (sp_validate_api_key coll F (ks_now st div us_per_second) p (ks_rows st))"
    by (simp add: validate_api_key_lookup_def)
  have "keys_inv R pttl mac coll (st\<lparr>ks_rows := rows'\<rparr>)"
    unfolding rows' using inv by (intro keys_inv_rows keys_kept_validate keys_wf_validate) (simp_all add: keys_inv_def)
  then have inv': "keys_wf coll rows'" "\<And>j ph. ks_requests st j = Some ph \<Longrightarrow> request_ok mac rows' ph"
      "\<And>p. cache_ok R pttl (ks_store st) rows' p"
    by (simp_all add: keys_inv_def)
  show ?thesis
  proof (cases "resolve_key mac F (ks_now st) token p answer")
    case (Inl e)
    with i look inv' show ?thesis by (simp add: keys_inv_def)
  next
    case (Inr ce)
    then obtain ctx entry where res: "resolve_key mac F (ks_now st) token p answer = Inr (ctx, entry)" by (cases ce) auto
    with i look inv' look_up_request_ok [OF parse look res] show ?thesis by (simp add: keys_inv_def)
  qed
next
  case False
  then have "fst (key_step R tick mac coll (Look_Up i F) st) = st" by (auto split: option.split key_phase.split)
  with inv show ?thesis by simp
qed

lemma keys_inv_step:
  assumes inv: "keys_inv R pttl mac coll st"
  shows "keys_inv R pttl mac coll (fst (key_step R tick mac coll e st))"
proof (cases e)
  case (Present i api_key up)
  have "Some (the api_key) = api_key" if "parse_api_key_public_id api_key = Inr p" for p
    using that by (auto simp: parse_key)
  with Present inv show ?thesis by (auto simp: keys_inv_def split: sum.split option.split)
next
  case (Look_Up i F)
  then show ?thesis using keys_inv_look_up [OF inv] by simp
next
  case (Note i k F)
  then show ?thesis using keys_inv_note [OF inv] by simp
next
  case (Finish i up)
  have "cache_ok R pttl (set_api_key R up p en (ks_store st)) (ks_rows st) p'"
    if req: "ks_requests st i = Some (Looked_Up t p c en) \<or> ks_requests st i = Some (Noted p en)" for t p c en p'
  proof -
    obtain r where "r \<in> set (ks_rows st)" "entry_of_row r p en"
      using keys_invD(2) [OF inv] req by fastforce
    with inv show ?thesis by (intro cache_ok_set) (auto simp: keys_inv_def)
  qed
  with Finish inv show ?thesis by (auto simp: keys_inv_def split: option.split key_phase.split)
next
  case (Invalidate p up)
  with inv show ?thesis by (simp add: keys_inv_def cache_ok_invalidate)
next
  case (Wait n)
  with inv show ?thesis by (simp add: keys_inv_def cache_ok_tick)
qed (use inv in \<open>auto intro!: keys_inv_rows rows_kept rows_wf simp: keys_inv_def [of R pttl mac coll st]\<close>)

lemma keys_inv_run: "keys_inv R pttl mac coll st \<Longrightarrow> keys_inv R pttl mac coll (key_run R tick mac coll es st)"
  by (induction es arbitrary: st) (simp_all add: keys_inv_step)

end

section \<open>Revoked keys\<close>

text \<open>The key with public id \<open>p\<close> is revoked, and no request has looked it up and not finished.\<close>

definition in_flight :: "string \<Rightarrow> key_phase \<Rightarrow> bool" where
  "in_flight p ph = (case ph of Checked _ _ \<Rightarrow> False | Looked_Up _ p' _ _ \<Rightarrow> p' = p | Noted p' _ \<Rightarrow> p' = p)"

definition revoked_quietly :: "(string \<Rightarrow> string) \<Rightarrow> string \<Rightarrow> 's key_state \<Rightarrow> bool" where
  "revoked_quietly coll p st \<longleftrightarrow>
     (\<exists>r\<in>set (ks_rows st). kr_public_id r = p \<and> kr_revoked_at r \<noteq> None) \<and>
     (\<forall>i ph. ks_requests st i = Some ph \<longrightarrow> \<not> in_flight p ph)"

lemma in_flight_simps [simp]:
  "\<not> in_flight p (Checked token p')" "in_flight p (Looked_Up token p' ctx entry) \<longleftrightarrow> p' = p" "in_flight p (Noted p' entry) \<longleftrightarrow> p' = p"
  by (simp_all add: in_flight_def)

lemma look_up_revoked:
  assumes "keys_wf coll (ks_rows st)" "r \<in> set (ks_rows st)" "kr_public_id r = p" "kr_revoked_at r \<noteq> None"
    and e: "e = Look_Up i F \<or> e = Note i k F"
    and h: "ks_requests (fst (key_step R tick mac coll e st)) j = Some ph" "in_flight p ph"
  shows "ks_requests st j = Some ph"
proof -
  have c: "coll (kr_public_id r) = coll p" using assms(3) by simp
  note rv = revoked_key_not_valid [OF assms(1,2,4) c]
  have look: "validate_api_key_lookup coll F t p (ks_rows st) = ((''revoked'', Some r), ks_rows st)" for t
    unfolding validate_api_key_lookup_def by (rule rv(1))
  have no: "resolve_key mac F t tok p (''revoked'', Some r) \<noteq> Inr x" for t tok x using rv(2) [of mac F t tok] by force
  show ?thesis using e
  proof
    assume "e = Look_Up i F"
    with h look no show ?thesis by (auto split: option.splits key_phase.splits prod.splits sum.splits if_splits)
  next
    assume "e = Note i k F"
    with h look rv(3) show ?thesis by (auto split: option.splits prod.splits if_splits)
  qed
qed

lemma revoked_quietly_step:
  assumes wf: "keys_wf coll (ks_rows st)" and q: "revoked_quietly coll p st"
  shows "revoked_quietly coll p (fst (key_step R tick mac coll e st))"
proof -
  obtain r where r: "r \<in> set (ks_rows st)" "kr_public_id r = p" "kr_revoked_at r \<noteq> None"
    using q by (auto simp: revoked_quietly_def)
  then obtain r' where "r' \<in> set (ks_rows (fst (key_step R tick mac coll e st)))" "kr_public_id r' = p" "kr_revoked_at r' \<noteq> None"
    using key_step_rows [of st R tick mac coll e] unfolding keys_kept_def key_identity_def by (metis prod.inject)
  moreover have "\<not> in_flight p ph" if ph: "ks_requests (fst (key_step R tick mac coll e st)) j = Some ph" for j ph
  proof (cases "\<exists>i F k. e = Look_Up i F \<or> e = Note i k F")
    case True
    then obtain i F k where "e = Look_Up i F \<or> e = Note i k F" by blast
    from look_up_revoked [OF wf r this ph] q show ?thesis by (auto simp: revoked_quietly_def)
  next
    case False
    then show ?thesis using q ph
      by (cases e) (auto simp: revoked_quietly_def split: option.splits key_phase.splits sum.splits if_splits)
  qed
  ultimately show ?thesis by (auto simp: revoked_quietly_def)
qed

context expiring_store
begin

lemma quiet_cache_step:
  assumes q: "revoked_quietly coll p st" and nw: "\<And>n. e \<noteq> Wait n"
    and e: "get_json R (ks_store (fst (key_step R tick mac coll e st))) (APIKEY_PREFIX @ p) = Some d"
  shows "get_json R (ks_store st) (APIKEY_PREFIX @ p) = Some d \<and>
     pttl (ks_store (fst (key_step R tick mac coll e st))) (APIKEY_PREFIX @ p) = pttl (ks_store st) (APIKEY_PREFIX @ p)"
proof (cases e)
  case (Finish i up)
  have "0 < APIKEY_TTL" by (simp add: APIKEY_TTL_def)
  moreover have "p' \<noteq> p" if "ks_requests st i = Some (Looked_Up t p' c en) \<or> ks_requests st i = Some (Noted p' en)" for t p' c en
    using q that unfolding revoked_quietly_def by fastforce
  ultimately show ?thesis using Finish e
    by (auto simp: set_api_key_def get_json_set_json pttl_set_json
        split: option.splits key_phase.splits if_splits)
next
  case (Invalidate p' up)
  with e show ?thesis by (auto simp: invalidate_api_key_def get_json_delete pttl_delete split: if_splits)
next
  case (Wait n)
  then show ?thesis using nw by simp
qed (use e in \<open>auto split: option.splits key_phase.splits sum.splits prod.splits if_splits\<close>)

lemma quiet_run:
  assumes "keys_wf coll (ks_rows st)" "revoked_quietly coll p st" "0 < L"
    and "\<And>d. get_json R (ks_store st) (APIKEY_PREFIX @ p) = Some d \<Longrightarrow> \<exists>q. pttl (ks_store st) (APIKEY_PREFIX @ p) = Some q \<and> q \<le> L"
  shows "revoked_quietly coll p (key_run R tick mac coll es st) \<and>
    (get_json R (ks_store (key_run R tick mac coll es st)) (APIKEY_PREFIX @ p) \<noteq> None \<longrightarrow>
       get_json R (ks_store st) (APIKEY_PREFIX @ p) \<noteq> None \<and> int (waited es) < L)"
  using assms
proof (induction es arbitrary: st L)
  case Nil
  then show ?case by auto
next
  case (Cons e es)
  let ?k = "APIKEY_PREFIX @ p" and ?st = "fst (key_step R tick mac coll e st)"
  have wf: "keys_wf coll (ks_rows ?st)" using Cons.prems(1) by (rule key_step_wf)
  have q: "revoked_quietly coll p ?st" by (rule revoked_quietly_step [OF Cons.prems(1,2)])
  show ?case
  proof (cases "\<exists>n. e = Wait n")
    case True
    then obtain n where n: "e = Wait n" by blast
    then have tick: "ks_store ?st = tick n (ks_store st)" by simp
    show ?thesis
    proof (cases "get_json R (ks_store ?st) ?k")
      case None
      then have "get_json R (ks_store (key_run R tick mac coll es ?st)) ?k = None"
        and "revoked_quietly coll p (key_run R tick mac coll es ?st)"
        using Cons.IH [OF wf q, of 1] by auto
      then show ?thesis by simp
    next
      case (Some d)
      then have d: "get_json R (ks_store st) ?k = Some d" unfolding tick by (rule get_json_tick_Some)
      then obtain t where t: "pttl (ks_store st) ?k = Some t" "t \<le> L" using Cons.prems(4) by blast
      have t': "pttl (ks_store ?st) ?k = Some (t - int n)" "int n < t"
        using pttl_tick_json [OF t(1)] Some unfolding tick by blast+
      have "revoked_quietly coll p (key_run R tick mac coll es ?st) \<and>
          (get_json R (ks_store (key_run R tick mac coll es ?st)) ?k \<noteq> None \<longrightarrow>
             get_json R (ks_store ?st) ?k \<noteq> None \<and> int (waited es) < L - int n)"
        by (rule Cons.IH [OF wf q]) (use t t' in auto)
      with d n show ?thesis by auto
    qed
  next
    case False
    have "\<exists>t. pttl (ks_store ?st) ?k = Some t \<and> t \<le> L" if "get_json R (ks_store ?st) ?k = Some d" for d
      using quiet_cache_step [OF Cons.prems(2) _ that] Cons.prems(4) False by fastforce
    from Cons.IH [OF wf q Cons.prems(3) this]
    have IH: "revoked_quietly coll p (key_run R tick mac coll es ?st)"
      "get_json R (ks_store (key_run R tick mac coll es ?st)) ?k \<noteq> None \<Longrightarrow>
         get_json R (ks_store ?st) ?k \<noteq> None \<and> int (waited es) < L" by auto
    have "waited (e # es) = waited es" using False by (cases e) auto
    moreover have "get_json R (ks_store ?st) ?k \<noteq> None \<Longrightarrow> get_json R (ks_store st) ?k \<noteq> None"
      using quiet_cache_step [OF Cons.prems(2)] False by fastforce
    ultimately show ?thesis using IH by auto
  qed
qed

end

lemma admitted_cached:
  assumes "\<And>i ph. ks_requests st i = Some ph \<Longrightarrow> \<not> in_flight p ph"
    and "keys_inv R pttl mac coll st" "admits (snd (key_step R tick mac coll e st)) p ctx"
  shows "get_json R (ks_store st) (APIKEY_PREFIX @ p) \<noteq> None"
proof (cases e)
  case (Present i api_key up)
  then show ?thesis using assms(3)
    by (auto simp: admits_def dest!: cache_hit_Some split: sum.splits option.splits)
next
  case (Look_Up i F)
  then show ?thesis using assms(3)
    by (auto simp: admits_def split: option.splits key_phase.splits prod.splits sum.splits)
next
  case (Finish i up)
  then obtain token p' entry where "ks_requests st i = Some (Looked_Up token p' ctx entry)"
      "parse_api_key_public_id (Some token) = Inr p"
    using assms(3) by (auto simp: admits_def split: option.splits key_phase.splits)
  with keys_invD(2) [OF assms(2)] assms(1) show ?thesis by fastforce
qed (use assms(3) in \<open>auto simp: admits_def split: option.splits prod.splits\<close>)

section \<open>Accepted tokens\<close>

text \<open>Whoever is admitted presented a token whose keyed hash is that of the key it acts as.\<close>

lemma admitted_row:
  assumes inv: "keys_inv R pttl mac coll st"
    and out: "snd (key_step R tick mac coll e st) = Some (api_key, Inr ctx)"
  shows "\<exists>r\<in>set (ks_rows st). \<exists>p secret. api_key = Some (''sk_'' @ p @ ''.'' @ secret) \<and>
      mac (key_material p secret) = kr_secret_hash r \<and> context_of_row r p ctx"
proof -
  have key: "\<exists>secret. Some token = Some (''sk_'' @ p @ ''.'' @ secret) \<and> mac (key_material p secret) = h"
    if "parse_api_key_public_id (Some token) = Inr p" "verify_api_key_token mac token p h" for token p h
    using that verify_token by (fastforce simp: parse_key)
  show ?thesis
  proof (cases e)
    case (Present i k up)
    then obtain p where k: "api_key = k" "parse_api_key_public_id k = Inr p" "cache_hit R mac up (the k) p (ks_store st) = Some ctx"
      using out by (auto split: sum.splits option.splits)
    then have p: "p \<noteq> []" "k = Some (the k)" by (auto simp: parse_key)
    obtain en h stored where en: "get_json R (ks_store st) (APIKEY_PREFIX @ p) = Some en" "ctx = cached_context p en"
        "dget en ''secret_hash'' = JStr h" "from_hex h = Some stored" "verify_api_key_token mac (the k) p stored"
      using cache_hit_Some [OF k(3)] by blast
    obtain r where r: "r \<in> set (ks_rows st)" "entry_of_row r p en"
      using keys_invD(3) [OF inv, of p] en(1) by (auto simp: cache_ok_def)
    then have "stored = kr_secret_hash r" using en(3,4) by (simp add: entry_of_row_def)
    with key [of "the k" p] k p en(2,5) r cached_context_of_row [OF r(2) p(1)] show ?thesis by fastforce
  next
    case (Finish i up)
    then obtain token p entry where f: "api_key = Some token" "ks_requests st i = Some (Looked_Up token p ctx entry)"
      using out by (auto split: option.splits key_phase.splits)
    with keys_invD(2) [OF inv f(2)] key [of token p] show ?thesis by fastforce
  qed (use out in \<open>auto split: option.splits key_phase.splits prod.splits sum.splits\<close>)
qed

section \<open>From the start\<close>

definition keys_start :: "'s redis \<Rightarrow> (string \<Rightarrow> string) \<Rightarrow> 's key_state \<Rightarrow> bool" where
  "keys_start R coll st \<longleftrightarrow>
     keys_wf coll (ks_rows st) \<and> ks_requests st = Map.empty \<and> (\<forall>p. get_json R (ks_store st) (APIKEY_PREFIX @ p) = None)"

lemma keys_inv_start: "keys_start R coll st \<Longrightarrow> keys_inv R pttl mac coll st"
  by (simp add: keys_start_def keys_inv_def cache_ok_def)

definition with_keys :: "'s key_state \<Rightarrow> 's \<times> key_row list \<Rightarrow> 's key_state" where
  "with_keys st x = st\<lparr>ks_store := fst x, ks_rows := snd x\<rparr>"

lemma revoke_effect:
  fixes R :: "'s redis"
  assumes r: "r \<in> set rows" "coll (kr_id r) = coll key_id" "kr_is_active r"
    and rev: "revoke_api_key_with_cache_invalidation R up coll now key_id (kr_public_id r) revoked_by reason (s, rows) = (n, s', rows')"
  shows "n \<noteq> 0" "s' = invalidate_api_key R up (kr_public_id r) s" "rows' = snd (revoke_api_key coll now key_id revoked_by reason rows)"
    "\<exists>r'\<in>set rows'. kr_public_id r' = kr_public_id r \<and> kr_revoked_at r' \<noteq> None"
proof -
  let ?hit = "\<lambda>r. same coll (kr_id r) key_id \<and> kr_is_active r"
  have hit: "filter ?hit rows \<noteq> []" using r by (auto simp: filter_empty_conv same_def)
  then have rv: "revoke_api_key coll now key_id revoked_by reason rows =
      (length (filter ?hit rows), map (\<lambda>r. if ?hit r then revoked_row now revoked_by reason r else r) rows)"
    by (simp add: revoke_api_key_def sp_revoke_api_key_def Let_def)
  with rev hit show n: "n \<noteq> 0" "s' = invalidate_api_key R up (kr_public_id r) s"
      "rows' = snd (revoke_api_key coll now key_id revoked_by reason rows)"
    by (auto simp: revoke_api_key_with_cache_invalidation_def)
  have "revoked_row now revoked_by reason r \<in> set rows'"
    unfolding n(3) rv using r by (auto simp: same_def image_iff intro!: bexI [of _ r])
  then show "\<exists>r'\<in>set rows'. kr_public_id r' = kr_public_id r \<and> kr_revoked_at r' \<noteq> None"
    by (intro bexI [of _ "revoked_row now revoked_by reason r"]) (simp_all add: revoked_row_def)
qed

context expiring_store
begin

lemma keys_inv_revoke:
  assumes inv: "keys_inv R pttl mac coll st" and r: "r \<in> set (ks_rows st)" "coll (kr_id r) = coll key_id" "kr_is_active r"
    and rev: "revoke_api_key_with_cache_invalidation R up coll now key_id (kr_public_id r) revoked_by reason (ks_store st, ks_rows st) = (n, x)"
  shows "keys_inv R pttl mac coll (with_keys st x)"
proof -
  obtain s' rows' where x: "x = (s', rows')" by (cases x)
  note eff = revoke_effect [OF r rev [unfolded x]]
  have "keys_inv R pttl mac coll (st\<lparr>ks_rows := rows'\<rparr>)"
    unfolding eff(3) by (rule keys_inv_rows [OF inv keys_kept_revoke keys_wf_revoke [OF keys_invD(1) [OF inv]]])
  then show ?thesis unfolding x with_keys_def eff(2) by (simp add: keys_inv_def cache_ok_invalidate)
qed

lemma revoked_never_admitted:
  assumes inv: "keys_inv R pttl mac coll st" and r: "r \<in> set (ks_rows st)" "coll (kr_id r) = coll key_id" "kr_is_active r"
    and quiet: "\<forall>i ph. ks_requests st i = Some ph \<longrightarrow> \<not> in_flight (kr_public_id r) ph"
    and rev: "revoke_api_key_with_cache_invalidation R up coll now key_id (kr_public_id r) revoked_by reason (ks_store st, ks_rows st) = (n, x)"
    and adm: "admits (snd (key_step R tick mac coll e (key_run R tick mac coll es (with_keys st x)))) (kr_public_id r) ctx"
  shows "\<not> up \<and> int (waited es) < 1000 * APIKEY_TTL"
proof -
  let ?p = "kr_public_id r" and ?st = "with_keys st x"
  obtain s' rows' where x: "x = (s', rows')" by (cases x)
  note eff = revoke_effect [OF r rev [unfolded x]]
  have inv': "keys_inv R pttl mac coll ?st" by (rule keys_inv_revoke [OF inv r rev])
  have q: "revoked_quietly coll ?p ?st" using eff(4) quiet by (simp add: revoked_quietly_def with_keys_def x)
  have lives: "\<exists>t. pttl (ks_store ?st) (APIKEY_PREFIX @ ?p) = Some t \<and> t \<le> 1000 * APIKEY_TTL"
    if "get_json R (ks_store ?st) (APIKEY_PREFIX @ ?p) = Some d" for d
    using keys_invD(3) [OF inv', of ?p] that by (auto simp: cache_ok_def)
  have pos: "0 < 1000 * APIKEY_TTL" by (simp add: APIKEY_TTL_def)
  note run = quiet_run [where mac = mac and es = es, OF keys_invD(1) [OF inv'] q pos lives]
  have "get_json R (ks_store (key_run R tick mac coll es ?st)) (APIKEY_PREFIX @ ?p) \<noteq> None"
    by (rule admitted_cached [OF _ keys_inv_run [OF inv'] adm]) (use run in \<open>auto simp: revoked_quietly_def\<close>)
  with run have "get_json R (ks_store ?st) (APIKEY_PREFIX @ ?p) \<noteq> None" "int (waited es) < 1000 * APIKEY_TTL" by auto
  then show ?thesis unfolding with_keys_def x eff(2) by (auto simp: invalidate_api_key_def get_json_delete split: if_splits)
qed

text \<open>An entry that was just written answers for its token.\<close>

lemma cache_hit_after_set:
  assumes "entry_of_row r p entry" "dget entry ''validation_status'' = JStr ''valid''"
    "verify_api_key_token mac token p (kr_secret_hash r)" "length (kr_secret_hash r) = 32"
  shows "cache_hit R mac True token p (set_api_key R True p entry s) = Some (cached_context p entry)"
proof -
  have "0 < APIKEY_TTL" by (simp add: APIKEY_TTL_def)
  then have "get_api_key R True p (set_api_key R True p entry s) = Some entry"
    by (simp add: get_api_key_def set_api_key_def get_json_set_json)
  then show ?thesis using assms
    by (simp add: cache_hit_def verify_api_key_token_against_cache_def entry_of_row_def Let_def)
qed

end

lemma validate_fresh:
  assumes "parse_api_key_public_id (Some token) = Inr p" "cache_hit R mac up token p s = None"
    and "validate_api_key_lookup coll F now p rows = (answer, rows')" "resolve_key mac F now token p answer = Inr (ctx, entry)"
  shows "validate_api_key_context R mac coll up up' F now (Some token) (s, rows) = (Inr ctx, set_api_key R up' p entry s, rows')"
  using assms by (simp add: validate_api_key_context_def)

lemma created_row:
  assumes "sp_create_api_key coll F t k rows = (Inr r, rows')"
  shows "r = row_of_new t k" "rows' = rows @ [r]" "active_users coll F (nk_owner_user_id k) \<noteq> []"
  using assms by (auto simp: sp_create_api_key_def split: if_splits)

lemma looked_up_row:
  assumes wf: "keys_wf coll rows" and look: "validate_api_key_lookup coll F now p rows = (a, rows')"
    and row: "key_by_public_id coll p rows = Some r"
  shows "\<exists>r'. key_by_public_id coll p rows' = Some r' \<and> key_identity r' = key_identity r"
proof -
  have rows': "rows' = snd (sp_validate_api_key coll F (now div us_per_second) p rows)"
    using look by (simp add: validate_api_key_lookup_def)
  have "keys_wf coll rows'" "keys_kept rows rows'" unfolding rows' by (rule keys_wf_validate [OF wf], rule keys_kept_validate)
  moreover have "r \<in> set rows" "coll (kr_public_id r) = coll p" using key_by_public_id_Some [OF row] by simp_all
  ultimately obtain r' where "r' \<in> set rows'" "key_identity r' = key_identity r" by (auto simp: keys_kept_def)
  moreover from this have "coll (kr_public_id r') = coll p" using \<open>coll (kr_public_id r) = coll p\<close> by (simp add: key_identity_def)
  ultimately show ?thesis using key_by_public_id_row [OF \<open>keys_wf coll rows'\<close>] by blast
qed

text \<open>With a secret of another keyed hash neither the cache nor the database answers.\<close>

lemma wrong_secret_refused:
  assumes row: "key_by_public_id coll p rows = Some r" and p: "p \<noteq> []" "CHR ''.'' \<notin> set secret"
    and wrong: "mac (key_material p secret) \<noteq> kr_secret_hash r"
    and cache: "\<And>e. get_json R s (APIKEY_PREFIX @ p) = Some e \<Longrightarrow> entry_of_row r p e"
  shows "\<exists>err. fst (validate_api_key_context R mac coll up up' F now (Some (''sk_'' @ p @ ''.'' @ secret)) (s, rows)) = Inl err"
proof (cases "parse_api_key_public_id (Some (''sk_'' @ p @ ''.'' @ secret))")
  case (Inl e)
  then show ?thesis by (simp add: validate_api_key_context_def)
next
  case (Inr p')
  let ?token = "''sk_'' @ p @ ''.'' @ secret"
  have "rsplit_dot (p @ ''.'' @ secret) = Some (p, secret)" using p(2) by (simp add: rsplit_dot_Some)
  with Inr have p': "p' = p" by (auto simp: parse_api_key_public_id_def denied_def split: if_splits)
  have no: "\<not> verify_api_key_token mac ?token p (kr_secret_hash r)" using wrong by (simp add: verify_token [OF p(2), simplified])
  have miss: "cache_hit R mac up ?token p s = None"
  proof (rule ccontr)
    assume "cache_hit R mac up ?token p s \<noteq> None"
    then obtain ctx where "cache_hit R mac up ?token p s = Some ctx" by blast
    from cache_hit_Some [OF this] cache no show False by (auto simp: entry_of_row_def)
  qed
  have "\<exists>e. resolve_key mac F now ?token p (fst (sp_validate_api_key coll F (now div us_per_second) p rows)) = Inl e"
    using row no by (simp add: sp_validate_api_key_def resolve_key_def raise_api_key_error_def denied_def)
  with Inr miss p' show ?thesis
    by (auto simp: validate_api_key_context_def validate_api_key_lookup_def split: prod.splits)
qed

section \<open>An example\<close>

definition demo_key_mac :: "string \<Rightarrow> string" where
  "demo_key_mac s = take 32 (s @ replicate 32 CHR ''0'')"

definition demo_api_token :: api_token where
  "demo_api_token = generate_api_key_token demo_key_mac (take 12) (replicate 9 CHR ''a'') (replicate 32 CHR ''b'')"

definition demo_new_key :: new_key where
  "demo_new_key =
     \<lparr>nk_id = at_public_id demo_api_token, nk_public_id = at_public_id demo_api_token, nk_project_id = ''p1'',
      nk_owner_user_id = ''u1'', nk_created_by = ''u1'', nk_name = ''build'', nk_description = None,
      nk_secret_hash = at_secret_hash demo_api_token, nk_hash_algorithm = ''hmac-sha256-v1'',
      nk_fingerprint = at_fingerprint demo_api_token, nk_secret_last4 = at_secret_last4 demo_api_token, nk_expires_at = Some 1000\<rparr>"

definition demo_group :: "string \<Rightarrow> group_row" where
  "demo_group i = \<lparr>g_id = i, g_hash = i, g_name = i, g_description = JNull, g_created_at = 0, g_updated_at = 0, g_is_active = True,
     g_scope_project_id = None\<rparr>"

definition demo_key_facts :: key_facts where
  "demo_key_facts =
     \<lparr>kf_users = [\<lparr>ku_id = ''u1'', ku_user_type = ''consumer'', ku_is_active = True\<rparr>],
      kf_projects = [\<lparr>kp_id = ''p1'', kp_is_active = True, kp_archived = None\<rparr>],
      kf_members = [\<lparr>ugm_user_id = ''u1'', ugm_user_group_id = ''g1'', ugm_is_active = True\<rparr>],
      kf_groups = \<lparr>user_groups = [demo_group ''g1''], project_groups = [demo_group ''pg1''],
        project_group_members = [\<lparr>m_project_group_id = ''pg1'', m_project_id = ''p1'', m_is_active = True\<rparr>],
        user_group_project_groups = [\<lparr>l_user_group_id = ''g1'', l_project_group_id = ''pg1'', l_is_active = True\<rparr>],
        user_project_api_keys = [], group_graph_lock = False\<rparr>,
      kf_project_by_id = (\<lambda>i. Some (Some [''project_hash'' \<mapsto> JStr ''ph1''])),
      kf_user_by_id = (\<lambda>i. Some (Some [''user_type'' \<mapsto> JStr ''consumer'', ''user_hash'' \<mapsto> JStr ''uh1'', ''username'' \<mapsto> JStr ''ann''])),
      kf_admin_access = (\<lambda>_ _. Some False),
      kf_groups_in_project = (\<lambda>_ _. Some [[''group_name'' \<mapsto> JStr ''readers'']]),
      kf_permissions = (\<lambda>_. Some [JStr ''read''])\<rparr>"

definition demo_key_row :: key_row where
  "demo_key_row = row_of_new 100 demo_new_key"

lemma demo_access:
  "active_users (\<lambda>x. x) demo_key_facts ''u1'' = [\<lparr>ku_id = ''u1'', ku_user_type = ''consumer'', ku_is_active = True\<rparr>]"
  "project_open (\<lambda>x. x) demo_key_facts ''p1''" "owner_has_access (\<lambda>x. x) demo_key_facts ''u1'' ''p1''"
  by code_simp+

lemma demo_key_texts:
  "length (at_secret_hash demo_api_token) = 32" "kr_public_id demo_key_row = at_public_id demo_api_token"
  "kr_secret_hash demo_key_row = at_secret_hash demo_api_token" "kr_is_active demo_key_row"
  "kr_id demo_key_row = at_public_id demo_api_token" "kr_revoked_at demo_key_row = None"
  "kr_owner_user_id demo_key_row = ''u1''" "kr_project_id demo_key_row = ''p1''" "kr_expires_at demo_key_row = Some 1000"
  by (simp_all add: demo_key_row_def row_of_new_def demo_new_key_def demo_api_token_def generate_api_key_token_def Let_def demo_key_mac_def)

lemma demo_key_created: "sp_create_api_key (\<lambda>x. x) demo_key_facts 100 demo_new_key [] = (Inr demo_key_row, [demo_key_row])"
proof -
  have "nk_owner_user_id demo_new_key = ''u1''" "nk_project_id demo_new_key = ''p1''" by (simp_all add: demo_new_key_def)
  moreover have "list_ex (\<lambda>u. same (\<lambda>x. x) (ku_id u) ''u1'') (kf_users demo_key_facts)"
    "list_ex (\<lambda>p. same (\<lambda>x. x) (kp_id p) ''p1'') (kf_projects demo_key_facts)" by code_simp+
  ultimately show ?thesis by (simp add: sp_create_api_key_def demo_access demo_key_row_def)
qed

lemma demo_looked_up:
  "validate_api_key_lookup (\<lambda>x. x) demo_key_facts 200000000 (at_public_id demo_api_token) [demo_key_row] =
     ((''valid'', Some demo_key_row), [demo_key_row\<lparr>kr_last_used_at := Some 200\<rparr>])"
  by (simp add: validate_api_key_lookup_def us_per_second_def sp_validate_api_key_def key_by_public_id_def same_def demo_key_texts
      key_expired_def demo_access)

lemma demo_parsed: "parse_api_key_public_id (Some (at_token demo_api_token)) = Inr (at_public_id demo_api_token)"
  unfolding demo_api_token_def by (rule generated_token(1)) simp_all

lemma demo_verified: "verify_api_key_token demo_key_mac (at_token demo_api_token) (at_public_id demo_api_token) (at_secret_hash demo_api_token)"
  unfolding demo_api_token_def by (subst generated_token(2)) simp_all

abbreviation demo_pid :: string where "demo_pid \<equiv> at_public_id demo_api_token"

definition demo_key_ctx :: dict where
  "demo_key_ctx = key_context demo_key_row demo_pid [''project_hash'' \<mapsto> JStr ''ph1'']
     [''user_type'' \<mapsto> JStr ''consumer'', ''user_hash'' \<mapsto> JStr ''uh1'', ''username'' \<mapsto> JStr ''ann''] [JStr ''read''] [JStr ''readers'']"

definition demo_key_entry :: dict where
  "demo_key_entry = cache_entry 200000000 demo_key_row demo_pid [''project_hash'' \<mapsto> JStr ''ph1'']
     [''user_type'' \<mapsto> JStr ''consumer'', ''user_hash'' \<mapsto> JStr ''uh1'', ''username'' \<mapsto> JStr ''ann''] [JStr ''read''] [JStr ''readers'']"

lemma demo_resolved:
  "resolve_key demo_key_mac demo_key_facts 200000000 (at_token demo_api_token) demo_pid (''valid'', Some demo_key_row) =
     Inr (demo_key_ctx, demo_key_entry)"
proof -
  have "at_secret_hash demo_api_token \<noteq> []" using demo_key_texts(1) by auto
  moreover have "owner_grants demo_key_facts ''u1'' ''p1'' (JStr ''ph1'') (JStr ''consumer'') = Inr ([JStr ''read''], [JStr ''readers''])"
    by (simp add: owner_grants_def from_db_def demo_key_facts_def)
  moreover have "kf_project_by_id demo_key_facts ''p1'' = Some (Some [''project_hash'' \<mapsto> JStr ''ph1''])"
    "kf_user_by_id demo_key_facts ''u1'' =
       Some (Some [''user_type'' \<mapsto> JStr ''consumer'', ''user_hash'' \<mapsto> JStr ''uh1'', ''username'' \<mapsto> JStr ''ann''])"
    by (simp_all add: demo_key_facts_def)
  ultimately show ?thesis
    by (simp add: resolve_key_def demo_key_texts demo_verified from_db_def demo_key_ctx_def demo_key_entry_def)
qed

definition demo_key_start :: "mem key_state" where
  "demo_key_start = \<lparr>ks_store = mem_empty, ks_rows = [demo_key_row], ks_now = 200000000, ks_requests = Map.empty\<rparr>"

abbreviation demo_validation :: "key_event list" where
  "demo_validation \<equiv> [Present 0 (Some (at_token demo_api_token)) True, Look_Up 0 demo_key_facts, Finish 0 True]"

abbreviation demo_key_run :: "key_event list \<Rightarrow> mem key_state \<Rightarrow> mem key_state" where
  "demo_key_run \<equiv> key_run mem_redis mem_tick demo_key_mac (\<lambda>x. x)"

abbreviation demo_key_step :: "key_event \<Rightarrow> mem key_state \<Rightarrow> mem key_state \<times> (string option \<times> dict result) option" where
  "demo_key_step \<equiv> key_step mem_redis mem_tick demo_key_mac (\<lambda>x. x)"

lemma mem_empty_json [simp]: "get_json mem_redis mem_empty k = None"
  by (simp add: get_json_def mem_redis_def mem_get_def mem_empty_def)

lemma demo_keys_start: "keys_start mem_redis (\<lambda>x. x) demo_key_start"
  by (simp add: keys_start_def demo_key_start_def keys_wf_def demo_key_texts)

lemma demo_missed: "cache_hit mem_redis mac True token p mem_empty = None"
  by (simp add: cache_hit_def get_api_key_def verify_api_key_token_against_cache_def)

lemma demo_first:
  "demo_key_run [Present 0 (Some (at_token demo_api_token)) True, Look_Up 0 demo_key_facts] demo_key_start =
     demo_key_start\<lparr>ks_rows := [demo_key_row\<lparr>kr_last_used_at := Some 200\<rparr>],
       ks_requests := [0 \<mapsto> Looked_Up (at_token demo_api_token) demo_pid demo_key_ctx demo_key_entry]\<rparr>"
  by (simp add: demo_parsed demo_missed demo_key_start_def demo_looked_up demo_resolved)

lemma demo_key_validated:
  "demo_key_run demo_validation demo_key_start =
     demo_key_start\<lparr>ks_rows := [demo_key_row\<lparr>kr_last_used_at := Some 200\<rparr>],
       ks_store := set_api_key mem_redis True demo_pid demo_key_entry mem_empty, ks_requests := Map.empty\<rparr>"
  using demo_first by (simp add: demo_key_start_def)

lemma demo_hit:
  "cache_hit mem_redis demo_key_mac True (at_token demo_api_token) demo_pid (set_api_key mem_redis True demo_pid demo_key_entry s) =
     Some (cached_context demo_pid demo_key_entry)"
  by (rule mem_expiring.cache_hit_after_set [of demo_key_row])
    (simp_all add: demo_key_entry_def entry_of_row_def cache_entry_def demo_key_texts demo_verified)

text \<open>
  A validation that looked the key up before the revocation writes its entry after the invalidation, so that the
  revoked key is admitted again.
\<close>

lemma revocation_race:
  defines "st \<equiv> demo_key_run (take 2 demo_validation @ [Revoke demo_pid ''u1'' None, Invalidate demo_pid True, Finish 0 True]) demo_key_start"
  shows "\<forall>r\<in>set (ks_rows st). kr_revoked_at r \<noteq> None"
    and "\<exists>ctx. admits (snd (demo_key_step (Present 1 (Some (at_token demo_api_token)) True) st)) demo_pid ctx"
proof -
  have st: "st = demo_key_start\<lparr>ks_rows := [revoked_row 200 ''u1'' None (demo_key_row\<lparr>kr_last_used_at := Some 200\<rparr>)],
      ks_store := set_api_key mem_redis True demo_pid demo_key_entry (invalidate_api_key mem_redis True demo_pid mem_empty),
      ks_requests := Map.empty\<rparr>"
    using demo_first
    by (simp add: st_def demo_key_start_def revoke_api_key_def sp_revoke_api_key_def same_def demo_key_texts us_per_second_def)
  show "\<forall>r\<in>set (ks_rows st). kr_revoked_at r \<noteq> None" by (simp add: st revoked_row_def)
  have "snd (demo_key_step (Present 1 (Some (at_token demo_api_token)) True) st) =
      Some (Some (at_token demo_api_token), Inr (cached_context demo_pid demo_key_entry))"
    by (simp add: st demo_parsed demo_hit)
  then show "\<exists>ctx. admits (snd (demo_key_step (Present 1 (Some (at_token demo_api_token)) True) st)) demo_pid ctx"
    by (auto simp: admits_def demo_parsed)
qed

section \<open>Properties\<close>

text \<open>C26. After \<^verbatim>\<open>revoke_api_key_with_cache_invalidation\<close> of an active key, in a state reached by any
  interleaving of validations, lookups of the context middleware, revocations, updates, creations, clean-ups,
  failing cache calls and waits in which no request is between its database lookup and its cache write, no later schedule admits a token of that key:
  never when Redis carried out the deletion, and otherwise not after sixty seconds.\<close>

theorem revoked_key_refused:
  fixes R :: "'s redis"
  assumes store: "expiring_store R tick pttl"
    and start: "keys_start R coll st0" and st: "st = key_run R tick mac coll es0 st0"
    and r: "r \<in> set (ks_rows st)" "coll (kr_id r) = coll key_id" "kr_is_active r"
    and quiet: "\<forall>i ph. ks_requests st i = Some ph \<longrightarrow> \<not> in_flight (kr_public_id r) ph"
    and rev: "revoke_api_key_with_cache_invalidation R up coll now key_id (kr_public_id r) revoked_by reason (ks_store st, ks_rows st) = (n, x)"
  shows "n \<noteq> 0 \<and>
    (\<forall>es e ctx. admits (snd (key_step R tick mac coll e (key_run R tick mac coll es (with_keys st x)))) (kr_public_id r) ctx \<longrightarrow>
       \<not> up \<and> int (waited es) < 1000 * APIKEY_TTL)"
proof -
  have inv: "keys_inv R pttl mac coll st"
    unfolding st by (rule expiring_store.keys_inv_run [OF store keys_inv_start [OF start]])
  obtain s' rows' where x: "x = (s', rows')" by (cases x)
  have "n \<noteq> 0" by (rule revoke_effect(1) [OF r rev [unfolded x]])
  with expiring_store.revoked_never_admitted [OF store inv r quiet rev] show ?thesis by blast
qed

theorem revoked_key_refused_witness:
  "fst (revoke_api_key_with_cache_invalidation mem_redis True (\<lambda>x. x) 300 demo_pid demo_pid ''u1'' None
      (ks_store (demo_key_run demo_validation demo_key_start), ks_rows (demo_key_run demo_validation demo_key_start))) \<noteq> 0 \<and>
   (\<forall>es e ctx. \<not> admits (snd (demo_key_step e (demo_key_run es (with_keys (demo_key_run demo_validation demo_key_start)
      (snd (revoke_api_key_with_cache_invalidation mem_redis True (\<lambda>x. x) 300 demo_pid demo_pid ''u1'' None
        (ks_store (demo_key_run demo_validation demo_key_start), ks_rows (demo_key_run demo_validation demo_key_start)))))))) demo_pid ctx)"
proof -
  let ?r = "demo_key_row\<lparr>kr_last_used_at := Some 200\<rparr>"
  have r: "?r \<in> set (ks_rows (demo_key_run demo_validation demo_key_start))" "kr_is_active ?r" "kr_id ?r = demo_pid"
    and pid: "kr_public_id ?r = demo_pid"
    unfolding demo_key_validated by (simp_all add: demo_key_texts)
  have quiet: "\<forall>i ph. ks_requests (demo_key_run demo_validation demo_key_start) i = Some ph \<longrightarrow> \<not> in_flight (kr_public_id ?r) ph"
    unfolding demo_key_validated by simp
  show ?thesis
    using revoked_key_refused [OF mem_expiring.expiring_store_axioms demo_keys_start refl r(1) r(3) r(2) quiet
        surjective_pairing, of True 300 "''u1''" None]
    unfolding pid by blast
qed

text \<open>C27. In every interleaving, an admitted token is \<^verbatim>\<open>sk_{public_id}.{secret}\<close> with a secret whose keyed hash under
  that public id is the stored hash of one key, and the answer names that key, its owner and its project and no
  other: neither the cache nor a concurrent change lets a token act as another key.\<close>

theorem api_key_acts_as_itself:
  fixes R :: "'s redis"
  assumes store: "expiring_store R tick pttl" and start: "keys_start R coll st0"
    and out: "snd (key_step R tick mac coll e (key_run R tick mac coll es st0)) = Some (api_key, Inr ctx)"
  shows "\<exists>r\<in>set (ks_rows (key_run R tick mac coll es st0)). \<exists>p secret.
      api_key = Some (''sk_'' @ p @ ''.'' @ secret) \<and> mac (key_material p secret) = kr_secret_hash r \<and>
      dget ctx ''key_id'' = JStr (kr_id r) \<and> dget ctx ''user_id'' = JStr (kr_owner_user_id r) \<and>
      dget ctx ''project_id'' = JStr (kr_project_id r) \<and> dget ctx ''key_public_id'' = JStr p"
  using admitted_row [OF expiring_store.keys_inv_run [OF store keys_inv_start [OF start]] out]
  unfolding context_of_row_def by blast

theorem api_key_acts_as_itself_witness:
  "\<exists>r\<in>set (ks_rows (demo_key_run demo_validation demo_key_start)). \<exists>p secret.
      Some (at_token demo_api_token) = Some (''sk_'' @ p @ ''.'' @ secret) \<and> demo_key_mac (key_material p secret) = kr_secret_hash r \<and>
      dget (cached_context demo_pid demo_key_entry) ''key_id'' = JStr (kr_id r) \<and>
      dget (cached_context demo_pid demo_key_entry) ''user_id'' = JStr (kr_owner_user_id r) \<and>
      dget (cached_context demo_pid demo_key_entry) ''project_id'' = JStr (kr_project_id r) \<and>
      dget (cached_context demo_pid demo_key_entry) ''key_public_id'' = JStr p"
proof -
  have "snd (demo_key_step (Present 1 (Some (at_token demo_api_token)) True) (demo_key_run demo_validation demo_key_start)) =
      Some (Some (at_token demo_api_token), Inr (cached_context demo_pid demo_key_entry))"
    unfolding demo_key_validated by (simp add: demo_parsed demo_hit)
  from api_key_acts_as_itself [OF mem_expiring.expiring_store_axioms demo_keys_start this] show ?thesis .
qed

text \<open>C28. A key created from a generated token authenticates: with the token, an open cache and the lookups of a live
  owner, \<^verbatim>\<open>validate_api_key_context\<close> answers with the owner and project of the new row; until its entry expires the cache
  gives the same answer whatever the database says; and a token with another keyed hash is refused in both states.\<close>

theorem created_key_authenticates:
  fixes R :: "'s redis" and mac blake :: "string \<Rightarrow> string"
  assumes store: "expiring_store R tick pttl" and wf: "keys_wf coll rows"
    and tok: "tok = generate_api_key_token mac blake id_bytes secret_bytes" "id_bytes \<noteq> []" "secret_bytes \<noteq> []"
      "length (at_secret_hash tok) = 32"
    and k: "nk_public_id k = at_public_id tok" "nk_secret_hash k = at_secret_hash tok"
    and new: "sp_create_api_key coll F t k rows = (Inr r, rows')"
    and live: "\<not> key_expired (now div us_per_second) r" "owner_has_access coll F (nk_owner_user_id k) (nk_project_id k)"
      "kf_project_by_id F (nk_project_id k) = Some (Some pr)" "kf_user_by_id F (nk_owner_user_id k) = Some (Some u)"
      "owner_grants F (nk_owner_user_id k) (nk_project_id k) (dget pr ''project_hash'') (dget u ''user_type'') = Inr (ps, gs)"
    and miss: "get_json R s (APIKEY_PREFIX @ at_public_id tok) = None"
  shows "\<exists>ctx s1 rows1.
      validate_api_key_context R mac coll True True F now (Some (at_token tok)) (s, rows') = (Inr ctx, s1, rows1) \<and>
      dget ctx ''user_id'' = JStr (nk_owner_user_id k) \<and> dget ctx ''project_id'' = JStr (nk_project_id k) \<and>
      dget ctx ''permissions'' = JList ps \<and>
      (\<forall>G later. validate_api_key_context R mac coll True True G later (Some (at_token tok)) (s1, rows1) = (Inr ctx, s1, rows1)) \<and>
      (\<forall>secret G later. CHR ''.'' \<notin> set secret \<longrightarrow> mac (key_material (at_public_id tok) secret) \<noteq> at_secret_hash tok \<longrightarrow>
         (\<forall>st\<in>{(s, rows'), (s1, rows1)}. \<exists>err.
            fst (validate_api_key_context R mac coll True True G later (Some (''sk_'' @ at_public_id tok @ ''.'' @ secret)) st) = Inl err))"
proof -
  let ?p = "at_public_id tok" and ?now = "now div us_per_second"
  note cr = created_row [OF new]
  have r: "kr_public_id r = ?p" "kr_secret_hash r = at_secret_hash tok" "kr_owner_user_id r = nk_owner_user_id k"
      "kr_project_id r = nk_project_id k" "kr_is_active r" "r \<in> set rows'"
    using cr k by (simp_all add: row_of_new_def)
  have wf': "keys_wf coll rows'" using keys_wf_create [OF wf, of F t k] new by simp
  have row: "key_by_public_id coll ?p rows' = Some r" by (rule key_by_public_id_row [OF wf' r(6)]) (simp add: r)
  have parse: "parse_api_key_public_id (Some (at_token tok)) = Inr ?p" unfolding tok(1) by (rule generated_token(1) [OF tok(2,3)])
  then have p: "?p \<noteq> []" by (auto simp: parse_key)
  have ver: "verify_api_key_token mac (at_token tok) ?p (at_secret_hash tok)"
    unfolding tok(1) using generated_token(2) [OF tok(2,3)] by simp
  obtain rows1 where look: "validate_api_key_lookup coll F now ?p rows' = ((''valid'', Some r), rows1)"
    using row r live cr(3) by (simp add: validate_api_key_lookup_def sp_validate_api_key_def)
  let ?ctx = "key_context r ?p pr u ps gs" and ?e = "cache_entry now r ?p pr u ps gs"
  have "at_secret_hash tok \<noteq> []" using tok(4) by auto
  then have res: "resolve_key mac F now (at_token tok) ?p (''valid'', Some r) = Inr (?ctx, ?e)"
    using ver live r by (simp add: resolve_key_def from_db_def)
  have "cache_hit R mac True (at_token tok) ?p s = None"
    using miss by (simp add: cache_hit_def get_api_key_def verify_api_key_token_against_cache_def)
  from validate_fresh [OF parse this look res]
  have first: "validate_api_key_context R mac coll True True F now (Some (at_token tok)) (s, rows') =
      (Inr ?ctx, set_api_key R True ?p ?e s, rows1)" .
  have e: "entry_of_row r ?p ?e" "dget ?e ''validation_status'' = JStr ''valid''" "cached_context ?p ?e = ?ctx"
    using p by (simp_all add: entry_of_row_def cache_entry_def cached_context_def key_context_def dget_default_def)
  have hit: "cache_hit R mac True (at_token tok) ?p (set_api_key R True ?p ?e s) = Some ?ctx"
    using expiring_store.cache_hit_after_set [OF store e(1,2), of mac "at_token tok" s] ver tok(4) r e(3) by simp
  have again: "validate_api_key_context R mac coll True True G later (Some (at_token tok)) (set_api_key R True ?p ?e s, rows1) =
      (Inr ?ctx, set_api_key R True ?p ?e s, rows1)" for G later
    using parse hit by (simp add: validate_api_key_context_def)
  have row1: "\<exists>r1. key_by_public_id coll ?p rows1 = Some r1 \<and> key_identity r1 = key_identity r"
    by (rule looked_up_row [OF wf' look row])
  have stored: "get_json R (set_api_key R True ?p ?e s) (APIKEY_PREFIX @ ?p) = Some ?e"
    using hit by (auto dest!: cache_hit_Some simp: APIKEY_TTL_def set_api_key_def
        redis_store.get_json_set_json [OF expiring_store.axioms(1) [OF store]])
  have wrong: "\<exists>err. fst (validate_api_key_context R mac coll True True G later (Some (''sk_'' @ ?p @ ''.'' @ secret)) st) = Inl err"
    if "CHR ''.'' \<notin> set secret" "mac (key_material ?p secret) \<noteq> at_secret_hash tok"
      "st \<in> {(s, rows'), (set_api_key R True ?p ?e s, rows1)}" for secret G later st
  proof -
    obtain r1 where r1: "key_by_public_id coll ?p rows1 = Some r1" "key_identity r1 = key_identity r" using row1 by blast
    have "\<exists>err. fst (validate_api_key_context R mac coll True True G later (Some (''sk_'' @ ?p @ ''.'' @ secret)) (s, rows')) = Inl err"
      by (rule wrong_secret_refused [OF row p that(1)]) (use that(2) r miss in auto)
    moreover have "\<exists>err. fst (validate_api_key_context R mac coll True True G later (Some (''sk_'' @ ?p @ ''.'' @ secret))
        (set_api_key R True ?p ?e s, rows1)) = Inl err"
      by (rule wrong_secret_refused [OF r1(1) p that(1)])
        (use that(2) r e(1) stored same_identity [OF r1(2)] in auto)
    ultimately show ?thesis using that(3) by auto
  qed
  show ?thesis
    by (rule exI [of _ ?ctx], rule exI [of _ "set_api_key R True ?p ?e s"], rule exI [of _ rows1])
      (use first again wrong r in \<open>auto simp: key_context_def\<close>)
qed

theorem created_key_authenticates_witness:
  "\<exists>ctx s1 rows1.
      validate_api_key_context mem_redis demo_key_mac (\<lambda>x. x) True True demo_key_facts 200000000 (Some (at_token demo_api_token))
        (mem_empty, [demo_key_row]) = (Inr ctx, s1, rows1) \<and>
      dget ctx ''user_id'' = JStr ''u1'' \<and> dget ctx ''project_id'' = JStr ''p1'' \<and> dget ctx ''permissions'' = JList [JStr ''read'']"
proof -
  have k: "nk_owner_user_id demo_new_key = ''u1''" "nk_project_id demo_new_key = ''p1''"
      "nk_public_id demo_new_key = demo_pid" "nk_secret_hash demo_new_key = at_secret_hash demo_api_token"
    by (simp_all add: demo_new_key_def)
  have live: "\<not> key_expired (200000000 div us_per_second) demo_key_row" by (simp add: key_expired_def us_per_second_def demo_key_texts)
  have facts: "kf_project_by_id demo_key_facts ''p1'' = Some (Some [''project_hash'' \<mapsto> JStr ''ph1''])"
    "kf_user_by_id demo_key_facts ''u1'' =
       Some (Some [''user_type'' \<mapsto> JStr ''consumer'', ''user_hash'' \<mapsto> JStr ''uh1'', ''username'' \<mapsto> JStr ''ann''])"
    "owner_grants demo_key_facts ''u1'' ''p1'' (dget [''project_hash'' \<mapsto> JStr ''ph1''] ''project_hash'')
       (dget [''user_type'' \<mapsto> JStr ''consumer'', ''user_hash'' \<mapsto> JStr ''uh1'', ''username'' \<mapsto> JStr ''ann''] ''user_type'') =
       Inr ([JStr ''read''], [JStr ''readers''])"
    by (simp_all add: demo_key_facts_def owner_grants_def from_db_def)
  have "keys_wf (\<lambda>x. x) []" by (simp add: keys_wf_def)
  note inst = created_key_authenticates [OF mem_expiring.expiring_store_axioms this demo_api_token_def _ _ demo_key_texts(1) k(3,4)
      demo_key_created live demo_access(3) [folded k(1,2)] facts(1) [folded k(2)] facts(2) [folded k(1)]
      facts(3) [folded k(1,2)] mem_empty_json]
  from inst show ?thesis unfolding k by auto
qed

end
