(* ===== verification/OAuth_Machine.thy ===== *)
theory OAuth_Machine
  imports OAuth_State
begin

text \<open>
  OAuth transactions as a state machine: states are created, presented, completed and expire
  in any order. The invariant makes a state single-use in every interleaving; the other
  guarantees are about one call each.
\<close>

section \<open>States and steps\<close>

record 's osys =
  o_store :: 's
  drawn :: "string set"
  consumed :: "string list"

definition state_key_of :: "oauth_env \<Rightarrow> string \<Rightarrow> string" where
  "state_key_of E st = oauth_key E OAUTH_STATE_PREFIX st"

inductive oauth_step ::
    "'s oauth_redis \<Rightarrow> (nat \<Rightarrow> 's \<Rightarrow> 's) \<Rightarrow> oauth_env \<Rightarrow> (string \<Rightarrow> string) \<Rightarrow> 's osys \<Rightarrow> 's osys \<Rightarrow> bool"
  for Q tick E challenge where
  create:
    "state_key_of E (mat_state mat) \<notin> drawn x \<Longrightarrow>
     create_state Q E challenge now mat binding ttl (o_store x) = (r, s') \<Longrightarrow>
     oauth_step Q tick E challenge x
       (x\<lparr>o_store := s', drawn := insert (state_key_of E (mat_state mat)) (drawn x)\<rparr>)"
| accept:
    "consume_state Q E st (o_store x) = (Inr rec, s') \<Longrightarrow>
     oauth_step Q tick E challenge x (x\<lparr>o_store := s', consumed := state_key_of E st # consumed x\<rparr>)"
| reject:
    "consume_state Q E st (o_store x) = (Inl e, s') \<Longrightarrow>
     oauth_step Q tick E challenge x (x\<lparr>o_store := s'\<rparr>)"
| reauthenticated:
    "oauth_step Q tick E challenge x
       (x\<lparr>o_store := snd (mark_recent_reauth Q E now proof_id u sid ttl (o_store x))\<rparr>)"
| completed:
    "completion_key ref = Inr k \<Longrightarrow> oauth_step Q tick E challenge x (x\<lparr>o_store := o_delete Q k (o_store x)\<rparr>)"
| expire:
    "oauth_step Q tick E challenge x (x\<lparr>o_store := tick n (o_store x)\<rparr>)"

definition oauth_reach where
  "oauth_reach Q tick E challenge = (oauth_step Q tick E challenge)\<^sup>*\<^sup>*"

definition oauth_init :: "'s oauth_redis \<Rightarrow> oauth_env \<Rightarrow> 's osys \<Rightarrow> bool" where
  "oauth_init Q E x \<longleftrightarrow>
     (\<forall>st. o_get Q (o_store x) (state_key_of E st) = None) \<and> drawn x = {} \<and> consumed x = []"

definition oauth_inv :: "'s oauth_redis \<Rightarrow> oauth_env \<Rightarrow> 's osys \<Rightarrow> bool" where
  "oauth_inv Q E x \<longleftrightarrow>
     distinct (consumed x) \<and> set (consumed x) \<subseteq> drawn x \<and>
     (\<forall>k \<in> set (consumed x). o_get Q (o_store x) k = None) \<and>
     (\<forall>st. o_get Q (o_store x) (state_key_of E st) \<noteq> None \<longrightarrow> state_key_of E st \<in> drawn x) \<and>
     (\<forall>k \<in> set (consumed x). \<exists>st. k = state_key_of E st)"

lemma oauth_inv_init: "oauth_init Q E x \<Longrightarrow> oauth_inv Q E x"
  by (simp add: oauth_init_def oauth_inv_def)

text \<open>A step that leaves every state record alone or removes it keeps the invariant.\<close>

lemma oauth_inv_mono:
  assumes inv: "oauth_inv Q E x" and dr: "drawn x \<subseteq> drawn y" and co: "consumed y = consumed x"
    and keys: "\<forall>st v. o_get Q (o_store y) (state_key_of E st) = Some v \<longrightarrow>
           (\<exists>v. o_get Q (o_store x) (state_key_of E st) = Some v) \<or> state_key_of E st \<in> drawn y - drawn x"
  shows "oauth_inv Q E y"
proof -
  have "o_get Q (o_store y) k = None" if "k \<in> set (consumed x)" for k
  proof -
    from inv that obtain st where "k = state_key_of E st" "k \<in> drawn x" "o_get Q (o_store x) k = None"
      unfolding oauth_inv_def by blast
    with keys show ?thesis by (cases "o_get Q (o_store y) k") auto
  qed
  moreover have "state_key_of E st \<in> drawn y" if "o_get Q (o_store y) (state_key_of E st) = Some v" for st v
    using keys that inv dr unfolding oauth_inv_def by blast
  ultimately show ?thesis using inv dr unfolding oauth_inv_def co by auto
qed

context oauth_store
begin

lemma create_state_keys:
  assumes "create_state Q E challenge now mat binding ttl s = (r, s')"
    and "o_get Q s' (state_key_of E st) \<noteq> None"
  shows "o_get Q s (state_key_of E st) \<noteq> None \<or> state_key_of E st = state_key_of E (mat_state mat)"
proof (rule ccontr)
  assume "\<not> ?thesis"
  with assms show False
    by (auto simp: create_state_def state_key_of_def Let_def o_get_setnx o_get_set o_get_set_pxat
        dest!: completion_key_Inr split: sum.splits prod.splits option.splits if_splits)
qed

lemma oauth_inv_step:
  assumes "oauth_step Q tick E challenge x y" and inv: "oauth_inv Q E x"
  shows "oauth_inv Q E y"
  using assms(1)
proof cases
  case (create mat now binding ttl r s')
  show ?thesis
  proof (rule oauth_inv_mono [OF inv])
    show "\<forall>st v. o_get Q (o_store y) (state_key_of E st) = Some v \<longrightarrow>
        (\<exists>v. o_get Q (o_store x) (state_key_of E st) = Some v) \<or> state_key_of E st \<in> drawn y - drawn x"
      using create create_state_keys [OF create(3)] by fastforce
  qed (use create in auto)
next
  case (accept st rec s')
  note present = consume_Inr_present [OF accept(2)]
  then obtain p where p: "o_get Q (o_store x) (state_key_of E st) = Some (JObj p)"
    by (auto simp: state_key_of_def)
  note after = consume_record_present(2) [OF p [unfolded state_key_of_def] present(2) accept(2)]
  have "state_key_of E st \<notin> set (consumed x)" "state_key_of E st \<in> drawn x"
    using inv p by (force simp: oauth_inv_def)+
  moreover have "o_get Q s' (state_key_of E st') =
      (if state_key_of E st' = state_key_of E st then None else o_get Q (o_store x) (state_key_of E st'))" for st'
    using after by (simp add: state_key_of_def)
  ultimately show ?thesis
    using inv accept unfolding oauth_inv_def by (auto split: if_splits)
next
  case (reject st e s')
  have "o_get Q s' (state_key_of E st') \<noteq> None \<Longrightarrow> o_get Q (o_store x) (state_key_of E st') \<noteq> None" for st'
  proof (cases "o_get Q (o_store x) (state_key_of E st)")
    case None
    then show "o_get Q s' (state_key_of E st') \<noteq> None \<Longrightarrow> ?thesis"
      using consume_record_absent(2) [OF _ reject(2)] by (simp add: state_key_of_def)
  next
    case (Some v)
    then show "o_get Q s' (state_key_of E st') \<noteq> None \<Longrightarrow> ?thesis"
      using consume_record_present(2) [OF _ _ reject(2)] consume_bad_shape [of st _ E "o_store x"] reject(2)
      by (cases "ensure_state_shape ''state'' st") (auto simp: state_key_of_def split: if_splits)
  qed
  then show ?thesis using reject by (intro oauth_inv_mono [OF inv]) auto
next
  case (reauthenticated now proof_id u sid ttl)
  then show ?thesis
    by (intro oauth_inv_mono [OF inv])
      (auto simp: mark_recent_reauth_def Let_def o_get_set state_key_of_def)
next
  case (completed ref k)
  then show ?thesis
    by (intro oauth_inv_mono [OF inv]) (auto simp: o_get_delete split: if_splits)
next
  case (expire n)
  then show ?thesis
    by (intro oauth_inv_mono [OF inv]) (auto dest: o_get_tick)
qed

lemma oauth_inv_reach:
  assumes "oauth_reach Q tick E challenge x y" and "oauth_inv Q E x"
  shows "oauth_inv Q E y"
  using assms unfolding oauth_reach_def by (induction rule: rtranclp_induct) (auto intro: oauth_inv_step)

end

section \<open>A concrete environment\<close>

definition demo_env :: oauth_env where
  "demo_env = \<lparr>hmac_hex = (\<lambda>v. replicate 64 CHR ''0''), sha256_text = (\<lambda>v. replicate 64 CHR ''1''),
     max_state_ttl_seconds = 600, recent_reauth_seconds = 300\<rparr>"

definition demo_mat :: oauth_material where
  "demo_mat = \<lparr>mat_state = replicate 43 CHR ''a'', mat_nonce = replicate 43 CHR ''b'',
     mat_code_verifier = replicate 43 CHR ''c''\<rparr>"

definition demo_authorization :: session_authorization where
  "demo_authorization =
     \<lparr>az_user_id = JStr ''u1'', az_user_hash = JStr ''h1'', az_session_id = JStr ''s1'', az_family_id = JStr ''f1'',
      az_scope = JStr ''project'', az_project_hash = JStr ''ph1'',
      az_proof = Some \<lparr>proof_source = ''token'', authenticated_at_ms = 900, proof_expires_at_ms = 61000,
                       marker_fingerprint = JNull\<rparr>\<rparr>"

definition demo_binding :: dict where
  "demo_binding = [''provider'' \<mapsto> JStr ''google'', ''purpose'' \<mapsto> JStr ''link'', ''connection_id'' \<mapsto> JStr ''c1'',
     ''user_id'' \<mapsto> JStr ''u1'', ''session_id'' \<mapsto> JStr ''s1'', ''project_hash'' \<mapsto> JStr ''ph1'',
     ''authorization'' \<mapsto> asdict_authorization demo_authorization]"

lemma demo_from_payload: "from_payload (asdict_authorization demo_authorization) = Inr demo_authorization"
  by (simp add: from_payload_def asdict_authorization_def demo_authorization_def asdict_proof_def has_required_def
      scope_well_formed_def parse_proof_def authorization_of_def)

lemma demo_state_authorization:
  "state_authorization demo_env us_per_second 600 (mat_state demo_mat) demo_binding =
     Inr (Some demo_authorization, JStr (replicate 32 CHR ''0''), 61000)"
  by (simp add: state_authorization_def demo_binding_def demo_from_payload Let_def us_per_second_def)
    (simp add: demo_authorization_def demo_env_def)

lemma demo_shape: "ensure_state_shape ''state'' (mat_state demo_mat) = Inr ()"
  by (simp add: ensure_state_shape_def demo_mat_def is_url_char_def list_all_iff)

definition demo_create :: "state_created oauth_result \<times> mem" where
  "demo_create = create_state mem_oauth demo_env id us_per_second demo_mat demo_binding None mem_empty"

lemma demo_completion_key:
  "completion_key (JStr (replicate 32 CHR ''0'')) = Inr (OAUTH_COMPLETION_PREFIX @ replicate 32 CHR ''0'')"
  by (simp add: completion_key_def hex_text_def is_hex_char_def list_all_iff)

lemma demo_clamp: "clamp_ttl None (max_state_ttl_seconds demo_env) = 600"
  by (simp add: clamp_ttl_def demo_env_def MAX_OAUTH_STATE_TTL_SECONDS_def)

lemma mem_oauth_empty [simp]: "o_get mem_oauth mem_empty k = None"
  by (simp add: mem_oauth_def mem_get_def mem_empty_def)

lemma demo_created:
  obtains c s where "demo_create = (Inr c, s)" and "o_get mem_oauth s (state_key_of demo_env (mat_state demo_mat)) \<noteq> None"
  by (simp add: demo_create_def create_state_def demo_clamp demo_state_authorization Let_def demo_completion_key
      mem_oauth.o_get_set_pxat mem_oauth.server_ms_set_pxat state_key_of_def mem_empty_def [THEN arg_cong [where f = clock]])

lemma demo_deadline: "demo_create = (Inr c, s) \<Longrightarrow> clock mem_empty * 1000 < created_expires_at c"
  by (auto simp: demo_create_def create_state_def demo_clamp demo_state_authorization Let_def
      demo_completion_key mem_empty_def [THEN arg_cong [where f = clock]])

section \<open>Guarantees\<close>

text \<open>C9. In every interleaving of starts, callbacks, completions and expirations, an OAuth state is
  accepted at most once: the states accepted are pairwise different, and a state that was
  accepted is refused from then on.\<close>

theorem oauth_state_single_use:
  assumes "oauth_store Q tick server_ms" and "oauth_init Q E x" and "oauth_reach Q tick E challenge x y"
  shows "distinct (consumed y) \<and>
     (\<forall>st. state_key_of E st \<in> set (consumed y) \<longrightarrow>
        (\<exists>e. fst (consume_state Q E st (o_store y)) = Inl e))"
proof -
  have inv: "oauth_inv Q E y"
    by (rule oauth_store.oauth_inv_reach [OF assms(1,3) oauth_inv_init [OF assms(2)]])
  have "\<exists>e. fst (consume_state Q E st (o_store y)) = Inl e" if "state_key_of E st \<in> set (consumed y)" for st
  proof -
    have "o_get Q (o_store y) (oauth_key E OAUTH_STATE_PREFIX st) = None"
      using inv that by (auto simp: oauth_inv_def state_key_of_def)
    then show ?thesis
      using oauth_store.consume_record_absent(1) [OF assms(1)] by (cases "consume_state Q E st (o_store y)") auto
  qed
  with inv show ?thesis by (simp add: oauth_inv_def)
qed

section \<open>Round trip\<close>

lemma create_state_stored:
  assumes "oauth_store Q tick server_ms"
    and "create_state Q E challenge now mat binding ttl s = (Inr c, s')"
    and "server_ms s * 1000 < created_expires_at c"
  obtains a ref e where "state_authorization E now (clamp_ttl ttl (max_state_ttl_seconds E)) (mat_state mat) binding = Inr (a, ref, e)"
    and "o_get Q s' (oauth_key E OAUTH_STATE_PREFIX (mat_state mat)) =
           Some (JObj (state_payload E challenge now mat binding a ref e))"
    and "created_expires_at c = e * 1000" and "created_expires_in c = max 1 ((e - now div 1000 + 999) div 1000)"
  using assms(2,3)
  by (auto simp: create_state_def Let_def oauth_store.o_get_setnx [OF assms(1)] oauth_store.o_get_set [OF assms(1)]
      oauth_store.o_get_set_pxat [OF assms(1)] oauth_store.server_ms_set_pxat [OF assms(1)]
      dest!: completion_key_Inr split: sum.splits prod.splits option.splits if_splits)

lemma state_authorization_Inr:
  assumes "state_authorization E now ttl st binding = Inr (a, ref, e)"
  shows "if dget_default binding ''purpose'' (JStr ''login'') \<in> {JStr ''link'', JStr ''reauth''}
         then \<exists>a'. a = Some a' \<and> from_payload (dget binding ''authorization'') = Inr a' \<and>
                az_user_id a' = dget binding ''user_id'' \<and> az_session_id a' = dget binding ''session_id'' \<and>
                az_project_hash a' = dget binding ''project_hash'' \<and> ref = JStr (take 32 (hmac_hex E st)) \<and>
                (dget_default binding ''purpose'' (JStr ''login'') = JStr ''link'' \<longrightarrow>
                   (\<exists>p. az_proof a' = Some p \<and> e \<le> proof_expires_at_ms p)) \<and> now div 1000 < e
         else a = None"
    and "e \<le> (now + ttl * us_per_second) div 1000"
  using assms by (auto simp: state_authorization_def Let_def split: sum.splits if_splits option.splits)

lemma state_payload_fields [doc_simps]:
  "dget (state_payload E ch now mat b a ref e) ''version'' = JInt 3"
  "dget (state_payload E ch now mat b a ref e) ''purpose'' = dget_default b ''purpose'' (JStr ''login'')"
  "dget (state_payload E ch now mat b a ref e) ''user_id'' = dget b ''user_id''"
  "dget (state_payload E ch now mat b a ref e) ''session_id'' = dget b ''session_id''"
  "dget (state_payload E ch now mat b a ref e) ''project_hash'' = dget b ''project_hash''"
  "dget (state_payload E ch now mat b a ref e) ''authorization_ref'' = ref"
  "dget (state_payload E ch now mat b a ref e) ''nonce'' = JStr (mat_nonce mat)"
  "dget (state_payload E ch now mat b a ref e) ''code_verifier'' = JStr (mat_code_verifier mat)"
  "dget (state_payload E ch now mat b a ref e) ''connection_id'' = dget b ''connection_id''"
  "dget (state_payload E ch now mat b a ref e) ''binding_id'' = dget b ''binding_id''"
  "dget (state_payload E ch now mat b a ref e) ''redirect_uri'' = dget b ''redirect_uri''"
  "dget (state_payload E ch now mat b a ref e) ''expected_issuer'' = dget b ''expected_issuer''"
  "dget (state_payload E ch now mat b a ref e) ''expires_at'' = JTime (e * 1000)"
  "dget (state_payload E ch now mat b a ref e) ''authorization'' =
     (case a of Some a' \<Rightarrow> asdict_authorization a' | None \<Rightarrow> JNull)"
  by (simp_all add: state_payload_def STATE_RECORD_VERSION_def)

lemma build_record_fields [doc_simps]:
  "rec_nonce (build_record E st p a v) = py_str (py_or (dget p ''nonce'') (JStr []))"
  "rec_code_verifier (build_record E st p a v) = py_str (py_or (dget p ''code_verifier'') (JStr []))"
  "rec_purpose (build_record E st p a v) = py_str (py_or (dget p ''purpose'') (JStr ''login''))"
  "rec_connection_id (build_record E st p a v) = dget p ''connection_id''"
  "rec_binding_id (build_record E st p a v) = dget p ''binding_id''"
  "rec_redirect_uri (build_record E st p a v) = dget p ''redirect_uri''"
  "rec_project_hash (build_record E st p a v) = dget p ''project_hash''"
  "rec_expected_issuer (build_record E st p a v) = dget p ''expected_issuer''"
  "rec_user_id (build_record E st p a v) = dget p ''user_id''"
  "rec_authorization (build_record E st p a v) = a"
  by (simp_all add: build_record_def)

lemma decode_created:
  assumes "state_authorization E now ttl (mat_state mat) binding = Inr (a, ref, e)"
    and "dget_default binding ''purpose'' (JStr ''login'') \<in> {JStr ''login'', JStr ''link'', JStr ''reauth''}"
  shows "decode_record E (mat_state mat) (state_payload E challenge now mat binding a ref e) =
     Inr (build_record E (mat_state mat) (state_payload E challenge now mat binding a ref e) a 3)"
  using state_authorization_Inr(1) [OF assms(1)] assms(2)
  by (auto simp: decode_record_def doc_simps SUPPORTED_STATE_RECORD_VERSIONS_def Let_def
      from_payload_asdict split: if_splits)

lemma consume_created:
  assumes "oauth_store Q tick server_ms"
    and "create_state Q E challenge now mat binding ttl s = (Inr c, s')"
    and "server_ms s * 1000 < created_expires_at c"
    and "ensure_state_shape ''state'' (mat_state mat) = Inr ()"
    and "dget_default binding ''purpose'' (JStr ''login'') \<in> {JStr ''login'', JStr ''link'', JStr ''reauth''}"
  obtains a ref e s'' where
      "state_authorization E now (clamp_ttl ttl (max_state_ttl_seconds E)) (mat_state mat) binding = Inr (a, ref, e)"
    and "consume_state Q E (mat_state mat) s' =
           (Inr (build_record E (mat_state mat) (state_payload E challenge now mat binding a ref e) a 3), s'')"
proof -
  obtain a ref e where sa: "state_authorization E now (clamp_ttl ttl (max_state_ttl_seconds E)) (mat_state mat) binding = Inr (a, ref, e)"
    and st: "o_get Q s' (oauth_key E OAUTH_STATE_PREFIX (mat_state mat)) =
           Some (JObj (state_payload E challenge now mat binding a ref e))"
    by (rule create_state_stored [OF assms(1-3)])
  obtain r s'' where c: "consume_state Q E (mat_state mat) s' = (r, s'')" by fastforce
  have "r = Inr (build_record E (mat_state mat) (state_payload E challenge now mat binding a ref e) a 3)"
    using oauth_store.consume_record_present(1) [OF assms(1) st assms(4) c] decode_created [OF sa assms(5)]
    by (simp add: json_loads_def)
  with sa c show thesis by (intro that) simp_all
qed

text \<open>Creating a state and presenting it returns exactly what it was bound to: the purpose,
  connection and project, the redirect target, the nonce and PKCE verifier, and for a link or a
  reauthentication the session authorization.\<close>

lemma create_then_consume:
  assumes "oauth_store Q tick server_ms"
    and "create_state Q E challenge now mat binding ttl s = (Inr c, s')"
    and "server_ms s * 1000 < created_expires_at c"
    and "ensure_state_shape ''state'' (mat_state mat) = Inr ()"
    and "mat_nonce mat \<noteq> []" and "mat_code_verifier mat \<noteq> []"
    and "dget_default binding ''purpose'' (JStr ''login'') \<in> {JStr ''login'', JStr ''link'', JStr ''reauth''}"
  shows "\<exists>r s''. consume_state Q E (mat_state mat) s' = (Inr r, s'') \<and>
     rec_nonce r = mat_nonce mat \<and> rec_code_verifier r = mat_code_verifier mat \<and>
     JStr (rec_purpose r) = dget_default binding ''purpose'' (JStr ''login'') \<and>
     rec_connection_id r = dget binding ''connection_id'' \<and> rec_binding_id r = dget binding ''binding_id'' \<and>
     rec_redirect_uri r = dget binding ''redirect_uri'' \<and> rec_project_hash r = dget binding ''project_hash'' \<and>
     rec_expected_issuer r = dget binding ''expected_issuer'' \<and> rec_user_id r = dget binding ''user_id'' \<and>
     (if rec_purpose r = ''login'' then rec_authorization r = None
      else \<exists>a. rec_authorization r = Some a \<and> from_payload (dget binding ''authorization'') = Inr a)"
proof -
  obtain a ref e s'' where
      sa: "state_authorization E now (clamp_ttl ttl (max_state_ttl_seconds E)) (mat_state mat) binding = Inr (a, ref, e)"
    and c: "consume_state Q E (mat_state mat) s' =
           (Inr (build_record E (mat_state mat) (state_payload E challenge now mat binding a ref e) a 3), s'')"
    by (rule consume_created [OF assms(1-4,7)])
  with assms(5-7) state_authorization_Inr(1) [OF sa] show ?thesis
    by (auto simp: doc_simps)
qed

lemma create_then_consume_witness:
  "\<exists>c s r s''. demo_create = (Inr c, s) \<and> consume_state mem_oauth demo_env (mat_state demo_mat) s = (Inr r, s'') \<and>
     rec_nonce r = mat_nonce demo_mat \<and> rec_purpose r = ''link'' \<and> rec_authorization r = Some demo_authorization"
proof -
  obtain c s where d: "demo_create = (Inr c, s)" by (rule demo_created)
  have "clock mem_empty * 1000 < created_expires_at c" by (rule demo_deadline [OF d])
  moreover have "mat_nonce demo_mat \<noteq> []" "mat_code_verifier demo_mat \<noteq> []"
      "dget_default demo_binding ''purpose'' (JStr ''login'') \<in> {JStr ''login'', JStr ''link'', JStr ''reauth''}"
    by (simp_all add: demo_mat_def demo_binding_def)
  ultimately obtain r s'' where r: "consume_state mem_oauth demo_env (mat_state demo_mat) s = (Inr r, s'')"
      "rec_nonce r = mat_nonce demo_mat" and p: "JStr (rec_purpose r) = dget_default demo_binding ''purpose'' (JStr ''login'')"
      and a: "if rec_purpose r = ''login'' then rec_authorization r = None
       else \<exists>a. rec_authorization r = Some a \<and> from_payload (dget demo_binding ''authorization'') = Inr a"
    using create_then_consume [OF mem_oauth.oauth_store_axioms d [unfolded demo_create_def] _ demo_shape] by blast
  have "rec_purpose r = ''link''" "rec_authorization r = Some demo_authorization"
    using p a by (auto simp: demo_binding_def demo_from_payload)
  with d r show ?thesis by blast
qed

theorem oauth_state_single_use_witness:
  "\<exists>y. oauth_reach mem_oauth mem_tick demo_env id \<lparr>o_store = mem_empty, drawn = {}, consumed = []\<rparr> y \<and>
     consumed y = [state_key_of demo_env (mat_state demo_mat)] \<and>
     (\<exists>e. fst (consume_state mem_oauth demo_env (mat_state demo_mat) (o_store y)) = Inl e)"
proof -
  let ?x0 = "\<lparr>o_store = mem_empty, drawn = {}, consumed = []\<rparr>"
  let ?k = "state_key_of demo_env (mat_state demo_mat)"
  obtain c s where d: "demo_create = (Inr c, s)" and g: "o_get mem_oauth s ?k \<noteq> None" by (rule demo_created)
  obtain r s'' where r: "consume_state mem_oauth demo_env (mat_state demo_mat) s = (Inr r, s'')"
    by (rule consume_created [OF mem_oauth.oauth_store_axioms d [unfolded demo_create_def] demo_deadline [OF d] demo_shape])
      (simp add: demo_binding_def)
  let ?x1 = "?x0\<lparr>o_store := s, drawn := insert ?k (drawn ?x0)\<rparr>"
  let ?x2 = "?x1\<lparr>o_store := s'', consumed := ?k # consumed ?x1\<rparr>"
  have s1: "oauth_step mem_oauth mem_tick demo_env id ?x0 ?x1"
    by (rule oauth_step.create) (use d in \<open>simp_all add: demo_create_def\<close>)
  have s2: "oauth_step mem_oauth mem_tick demo_env id ?x1 ?x2" by (rule oauth_step.accept) (use r in simp)
  have reach: "oauth_reach mem_oauth mem_tick demo_env id ?x0 ?x2"
    unfolding oauth_reach_def by (rule rtranclp_trans [OF r_into_rtranclp r_into_rtranclp]) (fact s1 s2)+
  have init: "oauth_init mem_oauth demo_env ?x0" by (simp add: oauth_init_def)
  from oauth_state_single_use [OF mem_oauth.oauth_store_axioms init reach] reach show ?thesis
    by (intro exI [of _ ?x2]) auto
qed

text \<open>Deadlines: an OAuth state lives between one second and ten minutes, and a state that
  links an identity never outlives the authentication proof it rests on.\<close>

lemma oauth_state_deadlines:
  assumes "oauth_store Q tick server_ms"
    and "create_state Q E challenge now mat binding ttl s = (Inr c, s')"
    and "server_ms s * 1000 < created_expires_at c"
  shows "1 \<le> created_expires_in c \<and> created_expires_in c \<le> 600 \<and>
     created_expires_at c \<le> now + 600 * us_per_second \<and>
     (dget_default binding ''purpose'' (JStr ''login'') = JStr ''link'' \<longrightarrow>
        (\<exists>a p. from_payload (dget binding ''authorization'') = Inr a \<and> az_proof a = Some p \<and>
           created_expires_at c \<le> proof_expires_at_ms p * 1000))"
proof -
  let ?ttl = "clamp_ttl ttl (max_state_ttl_seconds E)"
  obtain a ref e where sa: "state_authorization E now ?ttl (mat_state mat) binding = Inr (a, ref, e)"
    and c: "created_expires_at c = e * 1000" "created_expires_in c = max 1 ((e - now div 1000 + 999) div 1000)"
    by (rule create_state_stored [OF assms])
  have "?ttl \<le> 600" using clamp_ttl_bounds by (simp add: MAX_OAUTH_STATE_TTL_SECONDS_def)
  then have "(now + ?ttl * us_per_second) div 1000 \<le> (now + 600 * us_per_second) div 1000"
    by (intro zdiv_mono1) (simp_all add: us_per_second_def)
  with state_authorization_Inr(2) [OF sa] have "e \<le> (now + 600 * us_per_second) div 1000" by linarith
  then have e: "e \<le> now div 1000 + 600000" by (simp add: us_per_second_def)
  show ?thesis
    using e c state_authorization_Inr(1) [OF sa] by (auto simp: us_per_second_def)
qed

theorem oauth_state_deadlines_witness:
  "\<exists>c s. demo_create = (Inr c, s) \<and> created_expires_in c \<le> 600 \<and> created_expires_at c \<le> 61000 * 1000"
proof -
  obtain c s where d: "demo_create = (Inr c, s)" by (rule demo_created)
  note T = oauth_state_deadlines [OF mem_oauth.oauth_store_axioms d [unfolded demo_create_def] demo_deadline [OF d]]
  have "dget_default demo_binding ''purpose'' (JStr ''login'') = JStr ''link''"
    "from_payload (dget demo_binding ''authorization'') = Inr demo_authorization"
    by (simp_all add: demo_binding_def demo_from_payload)
  with T have "created_expires_in c \<le> 600 \<and> created_expires_at c \<le> 61000 * 1000"
    by (auto simp: demo_authorization_def)
  with d show ?thesis by blast
qed

text \<open>A replay is recognised: presenting a state a second time, right after it was taken out
  of the store, is reported as a replay and not as an unknown state.\<close>

lemma oauth_state_replay_reported:
  assumes "oauth_store Q tick server_ms" and "ensure_state_shape ''state'' st = Inr ()"
    and "o_get Q s (oauth_key E OAUTH_STATE_PREFIX st) \<noteq> None" and "consume_state Q E st s = (r, s')"
  shows "fst (consume_state Q E st s') = Inl (StateReplay ''OAuth state was already consumed'')"
proof -
  from assms(3) obtain v where v: "o_get Q s (oauth_key E OAUTH_STATE_PREFIX st) = Some v" by auto
  note after = oauth_store.consume_record_present(2) [OF assms(1) v assms(2,4)]
  obtain s1 where g: "o_getdel Q (oauth_key E OAUTH_STATE_PREFIX st) s' = (None, s1)"
    using oauth_store.o_getdel_fst [OF assms(1), of "oauth_key E OAUTH_STATE_PREFIX st" s'] after
    by (cases "o_getdel Q (oauth_key E OAUTH_STATE_PREFIX st) s'") auto
  have "o_get Q s1 (oauth_key E OAUTH_STATE_CONSUMED_PREFIX st) = Some (JStr ''1'')"
    using oauth_store.o_getdel_snd [OF assms(1), of "oauth_key E OAUTH_STATE_PREFIX st" s'] after g by simp
  with g assms(2) show ?thesis by (simp add: consume_state_def consume_record_def Let_def)
qed

theorem oauth_state_replay_reported_witness:
  "\<exists>c s r s'. demo_create = (Inr c, s) \<and> consume_state mem_oauth demo_env (mat_state demo_mat) s = (r, s') \<and>
     fst (consume_state mem_oauth demo_env (mat_state demo_mat) s') =
       Inl (StateReplay ''OAuth state was already consumed'')"
proof -
  obtain c s where d: "demo_create = (Inr c, s)"
    and g: "o_get mem_oauth s (state_key_of demo_env (mat_state demo_mat)) \<noteq> None" by (rule demo_created)
  obtain r s' where r: "consume_state mem_oauth demo_env (mat_state demo_mat) s = (r, s')" by fastforce
  from oauth_state_replay_reported [OF mem_oauth.oauth_store_axioms demo_shape g [unfolded state_key_of_def] r] d r
  show ?thesis by blast
qed

text \<open>A proof of recent reauthentication is only ever derived from a live marker of the same
  user and session, is not from the future, has not expired, and expires at most the
  configured time after the reauthentication.\<close>

lemma recent_reauth_proof_sound:
  assumes "recent_reauth_proof Q E digest user_id session_id now_ms s = Some p"
  shows "\<exists>d t. o_get Q s (recent_reauth_key E user_id (Some session_id)) = Some (JObj d) \<and>
     dget d ''user_id'' = JStr user_id \<and> dget d ''session_id'' = JStr session_id \<and>
     dget d ''created_at'' = JTime t \<and> authenticated_at_ms p = t div 1000 \<and> authenticated_at_ms p \<le> now_ms \<and>
     now_ms < proof_expires_at_ms p \<and>
     proof_expires_at_ms p \<le> authenticated_at_ms p + recent_reauth_seconds E * 1000 \<and>
     proof_expires_at_ms p \<le> now_ms + o_pttl Q s (recent_reauth_key E user_id (Some session_id))"
proof -
  from assms obtain d where d: "o_get Q s (recent_reauth_key E user_id (Some session_id)) = Some (JObj d)"
    by (auto simp: recent_reauth_proof_def json_loads_def Let_def split: option.splits json.splits if_splits)
  with assms obtain t where t: "dget d ''created_at'' = JTime t"
    by (cases "dget d ''created_at''") (auto simp: recent_reauth_proof_def json_loads_def Let_def split: if_splits)
  from assms d t show ?thesis
    by (auto simp: recent_reauth_proof_def json_loads_def Let_def split: if_splits)
qed

theorem recent_reauth_proof_sound_witness:
  "\<exists>p. recent_reauth_proof mem_oauth demo_env (\<lambda>v. replicate 64 CHR ''2'') ''u1'' ''s1'' 1000
     (snd (mark_recent_reauth mem_oauth demo_env us_per_second ''n'' ''u1'' (Some ''s1'') None mem_empty)) = Some p \<and>
     proof_expires_at_ms p \<le> 1000 + recent_reauth_seconds demo_env * 1000"
proof -
  let ?s = "snd (mark_recent_reauth mem_oauth demo_env us_per_second ''n'' ''u1'' (Some ''s1'') None mem_empty)"
  obtain p where p: "recent_reauth_proof mem_oauth demo_env (\<lambda>v. replicate 64 CHR ''2'') ''u1'' ''s1'' 1000 ?s = Some p"
    by (simp add: recent_reauth_proof_def mark_recent_reauth_def mem_oauth_def mem_get_def mem_set_def mem_empty_def
        mem_remaining_def live_def demo_env_def json_loads_def recent_reauth_payload_def us_per_second_def Let_def)
  from recent_reauth_proof_sound [OF p] obtain d t where
      "o_get mem_oauth ?s (recent_reauth_key demo_env ''u1'' (Some ''s1'')) = Some (JObj d)"
    and "dget d ''created_at'' = JTime t" and a: "authenticated_at_ms p = t div 1000"
    and b: "proof_expires_at_ms p \<le> authenticated_at_ms p + recent_reauth_seconds demo_env * 1000" by blast
  then have "t = us_per_second"
    by (simp add: mark_recent_reauth_def mem_oauth_def mem_get_def mem_set_def mem_empty_def live_def demo_env_def
        recent_reauth_payload_def Let_def split: if_splits) force
  with p a b show ?thesis by (auto simp: us_per_second_def)
qed

end
