(* ===== verification/Lifecycle.thy ===== *)
theory Lifecycle
  imports Redis Jwt
begin

text \<open>
  The token-pair lifecycle of \<^verbatim>\<open>src/src/Util/auth_lifecycle.py\<close>, operation by operation
  and in its order: the Redis keys, the documents kept under them, rebuilding an
  authorization context from the database, issuing a pair, validating an access token,
  rotating a refresh family and the revocations. This theory holds the definitions; the
  theories that import it hold what is proved of them.

  A function that reads or writes Redis takes the server state last and returns it
  updated beside its result; an exception is the \<open>Inl\<close> side of the result and keeps the
  writes made before it. The instant \<open>now\<close> is what the clock reads during the call (the
  code reads it several times within one call). Log records are left out.
\<close>

section \<open>Redis keys\<close>

definition SESSION_PREFIX :: string where "SESSION_PREFIX = ''session:''"
definition SESSION_FULL_PREFIX :: string where "SESSION_FULL_PREFIX = ''session_full:''"
definition REFRESH_FAMILY_PREFIX :: string where "REFRESH_FAMILY_PREFIX = ''refresh_family:''"
definition REFRESH_TOKEN_PREFIX :: string where "REFRESH_TOKEN_PREFIX = ''refresh_token:''"
definition REFRESH_ANCHOR_PREFIX :: string where "REFRESH_ANCHOR_PREFIX = ''refresh_anchor:''"
definition REFRESH_USED_PREFIX :: string where "REFRESH_USED_PREFIX = ''refresh_used:''"
definition REVOKED_FAMILY_PREFIX :: string where "REVOKED_FAMILY_PREFIX = ''revoked_family:''"
definition USER_SESSIONS_PREFIX :: string where "USER_SESSIONS_PREFIX = ''user_sessions:''"
definition USER_REFRESH_FAMILIES_PREFIX :: string where
  "USER_REFRESH_FAMILIES_PREFIX = ''user_refresh_families:''"

definition session_key :: "string \<Rightarrow> string" where "session_key j = SESSION_PREFIX @ j"
definition session_full_key :: "string \<Rightarrow> string" where "session_full_key j = SESSION_FULL_PREFIX @ j"
definition family_key :: "string \<Rightarrow> string" where "family_key f = REFRESH_FAMILY_PREFIX @ f"
definition token_key :: "string \<Rightarrow> string" where "token_key j = REFRESH_TOKEN_PREFIX @ j"
definition anchor_key :: "string \<Rightarrow> string" where "anchor_key f = REFRESH_ANCHOR_PREFIX @ f"
definition used_key :: "string \<Rightarrow> string" where "used_key f = REFRESH_USED_PREFIX @ f"
definition revoked_key :: "string \<Rightarrow> string" where "revoked_key f = REVOKED_FAMILY_PREFIX @ f"
definition user_sessions_key :: "string \<Rightarrow> string" where
  "user_sessions_key u = USER_SESSIONS_PREFIX @ u"
definition user_families_key :: "string \<Rightarrow> string" where
  "user_families_key u = USER_REFRESH_FAMILIES_PREFIX @ u"

section \<open>Parameters: the services and the database\<close>

record ('s, 't) world =
  redis :: "'s redis"
  jwt :: "'t jwt_lib"
  cfg :: auth_config
  sha256_hex :: "string \<Rightarrow> string"

text \<open>
  The database hooks every entry point of the module takes as arguments. A user, project
  or group row is the map of its attributes. The three list queries run under
  \<^verbatim>\<open>_safe_call_list\<close>; \<open>None\<close> is a query that raised or returned nothing.
\<close>

record db_hooks =
  get_user_by_hash :: "string \<Rightarrow> dict option"
  get_project_by_hash :: "string \<Rightarrow> dict option"
  check_admin_project_access :: "string \<Rightarrow> string \<Rightarrow> bool"
  get_user_groups_in_project_by_hash :: "string \<Rightarrow> string \<Rightarrow> json list option"
  get_user_permissions :: "string \<Rightarrow> json list option"
  get_user_accessible_projects :: "string \<Rightarrow> json list option"
  resolve_session_plan :: "string \<Rightarrow> string \<Rightarrow> json"

definition safe_call_list :: "json list option \<Rightarrow> json list" where
  "safe_call_list r = (case r of Some xs \<Rightarrow> xs | None \<Rightarrow> [])"

section \<open>Time and expiry\<close>

definition compute_refresh_expires_at :: "int \<Rightarrow> int \<Rightarrow> int" where
  "compute_refresh_expires_at now ttl_seconds = now + ttl_seconds * us_per_second"

fun parse_datetime :: "json \<Rightarrow> int option" where
  "parse_datetime (JTime t) = Some t"
| "parse_datetime _ = None"

definition seconds_until :: "json \<Rightarrow> int \<Rightarrow> int" where
  "seconds_until v now =
     (case parse_datetime v of None \<Rightarrow> 0 | Some e \<Rightarrow> max 0 ((e - now) div us_per_second))"

text \<open>\<^verbatim>\<open>int(v or d)\<close> on a stored number of seconds.\<close>

definition seconds_or :: "json \<Rightarrow> int \<Rightarrow> int" where
  "seconds_or v d = (case py_int (py_or v (JInt d)) of Some i \<Rightarrow> i | None \<Rightarrow> d)"

definition cache_ttl_for_family :: "int \<Rightarrow> dict \<Rightarrow> int" where
  "cache_ttl_for_family now family =
     (if family = Map.empty then REFRESH_FAMILY_TTL_SECONDS
      else if truthy (dget family ''remember_me'')
      then max 1 (seconds_until (py_or (dget family ''absolute_expires_at'') (dget family ''expires_at'')) now)
      else seconds_or (dget family ''refresh_ttl_seconds'') REFRESH_FAMILY_TTL_SECONDS)"

definition hash_refresh_token :: "('s, 't) world \<Rightarrow> 't \<Rightarrow> string" where
  "hash_refresh_token W t = sha256_hex W (jwt_text (jwt W) t)"

section \<open>Refresh anchors\<close>

text \<open>
  The anchor keeps what a rotation needs after the access session has expired: no token,
  hash, permission or group.
\<close>

definition build_refresh_anchor_payload :: "dict \<Rightarrow> dict \<Rightarrow> dict" where
  "build_refresh_anchor_payload session family =
     (let scope = py_str (py_or (dget session ''scope'') (py_or (dget family ''scope'') (JStr AUTH_SCOPE_PROJECT)));
          project_hash = (if scope = AUTH_SCOPE_PROJECT then dget session ''project_hash'' else JNull);
          collection = (if scope = AUTH_SCOPE_PLATFORM then JStr PLATFORM_COLLECTION_SENTINEL
             else py_or (dget session ''collection'') (py_or project_hash (dget family ''project_hash'')));
          created_at = py_or (dget family ''created_at'') (dget session ''issued_at'');
          updated_at = py_or (dget family ''updated_at'') created_at
      in [''anchor_version'' \<mapsto> JInt 1,
          ''family_id'' \<mapsto> py_or (dget family ''family_id'') (dget session ''family_id''),
          ''session_id'' \<mapsto> dget session ''session_id'',
          ''status'' \<mapsto> JStr ''active'',
          ''user_id'' \<mapsto> py_or (dget session ''user_id'') (dget family ''user_id''),
          ''user_hash'' \<mapsto> py_or (dget session ''user_hash'') (dget family ''user_hash''),
          ''username'' \<mapsto> dget session ''username'',
          ''user_type'' \<mapsto> dget session ''user_type'',
          ''scope'' \<mapsto> JStr scope,
          ''collection'' \<mapsto> collection,
          ''project_id'' \<mapsto> (if scope = AUTH_SCOPE_PROJECT then dget session ''project_id'' else JNull),
          ''project_hash'' \<mapsto> project_hash,
          ''project_name'' \<mapsto> (if scope = AUTH_SCOPE_PROJECT then dget session ''project_name'' else JNull),
          ''current_access_jti'' \<mapsto> py_or (dget family ''current_access_jti'') (dget session ''access_jti''),
          ''current_refresh_jti'' \<mapsto> py_or (dget family ''current_refresh_jti'') (dget session ''refresh_jti''),
          ''created_at'' \<mapsto> created_at,
          ''updated_at'' \<mapsto> updated_at,
          ''expires_at'' \<mapsto> dget family ''expires_at'',
          ''remember_me'' \<mapsto> JBool (truthy (dget family ''remember_me'') \<or> truthy (dget session ''remember_me'')),
          ''refresh_ttl_seconds'' \<mapsto> py_or (dget family ''refresh_ttl_seconds'') (dget session ''refresh_ttl_seconds''),
          ''absolute_expires_at'' \<mapsto> py_or (dget family ''absolute_expires_at'') (dget session ''absolute_expires_at'')])"

definition anchor_matches_claims_and_family :: "dict option \<Rightarrow> dict \<Rightarrow> dict \<Rightarrow> bool" where
  "anchor_matches_claims_and_family anchor_opt claims family =
     (case nonempty_doc anchor_opt of
        None \<Rightarrow> False
      | Some anchor \<Rightarrow>
          if dget anchor ''status'' \<noteq> JStr ''active'' then False
          else
            let family_id = py_str (py_or (dget family ''family_id'') (JStr []));
                refresh_jti = py_str (py_or (dget claims ''jti'') (JStr []));
                scope = py_str (py_or (dget family ''scope'') (py_or (dget claims ''scope'') (JStr AUTH_SCOPE_PROJECT)));
                expected_collection =
                  (if scope = AUTH_SCOPE_PLATFORM then JStr PLATFORM_COLLECTION_SENTINEL
                   else py_or (dget family ''project_hash'') (dget anchor ''project_hash''));
                required_comparisons =
                  [(''family_id'', JStr family_id),
                   (''session_id'', dget claims ''session_id''),
                   (''user_hash'', py_or (dget family ''user_hash'') (dget claims ''user_hash'')),
                   (''scope'', JStr scope),
                   (''current_refresh_jti'', JStr refresh_jti)]
            in if \<not> list_all (\<lambda>(f, expected).
                       expected \<noteq> JNull \<and> py_str (dget anchor f) = py_str expected) required_comparisons
               then False
               else if truthy (dget family ''current_access_jti'') \<and>
                       py_str (dget anchor ''current_access_jti'') \<noteq> py_str (dget family ''current_access_jti'')
               then False
               else if expected_collection = JNull \<or>
                       py_str (dget anchor ''collection'') \<noteq> py_str expected_collection
               then False
               else py_str (dget claims ''collection'') = py_str expected_collection)"

definition anchor_to_session_seed :: "dict \<Rightarrow> dict \<Rightarrow> dict \<Rightarrow> dict" where
  "anchor_to_session_seed anchor claims family =
     (let scope = py_str (py_or (dget anchor ''scope'') (py_or (dget family ''scope'')
                    (py_or (dget claims ''scope'') (JStr AUTH_SCOPE_PROJECT))));
          collection0 = (if scope = AUTH_SCOPE_PLATFORM then JStr PLATFORM_COLLECTION_SENTINEL
                         else dget anchor ''collection'');
          project_hash = (if scope = AUTH_SCOPE_PROJECT then dget anchor ''project_hash'' else JNull);
          collection = (if scope = AUTH_SCOPE_PROJECT \<and> \<not> truthy collection0 then project_hash else collection0)
      in [''access_jti'' \<mapsto> py_or (dget anchor ''current_access_jti'') (dget family ''current_access_jti''),
          ''session_id'' \<mapsto> py_or (dget anchor ''session_id'') (dget claims ''session_id''),
          ''family_id'' \<mapsto> py_or (dget anchor ''family_id'') (dget family ''family_id''),
          ''refresh_jti'' \<mapsto> py_or (dget anchor ''current_refresh_jti'') (dget claims ''jti''),
          ''user_id'' \<mapsto> py_or (dget anchor ''user_id'') (dget family ''user_id''),
          ''user_hash'' \<mapsto> py_or (dget anchor ''user_hash'') (py_or (dget family ''user_hash'') (dget claims ''user_hash'')),
          ''username'' \<mapsto> dget anchor ''username'',
          ''user_type'' \<mapsto> dget anchor ''user_type'',
          ''scope'' \<mapsto> JStr scope,
          ''collection'' \<mapsto> collection,
          ''project_id'' \<mapsto> (if scope = AUTH_SCOPE_PROJECT then dget anchor ''project_id'' else JNull),
          ''project_hash'' \<mapsto> project_hash,
          ''project_name'' \<mapsto> (if scope = AUTH_SCOPE_PROJECT then dget anchor ''project_name'' else JNull),
          ''issued_at'' \<mapsto> py_or (dget anchor ''updated_at'') (dget anchor ''created_at''),
          ''expires_at'' \<mapsto> JNull,
          ''remember_me'' \<mapsto> JBool (truthy (dget anchor ''remember_me'')),
          ''refresh_ttl_seconds'' \<mapsto> dget anchor ''refresh_ttl_seconds'',
          ''absolute_expires_at'' \<mapsto> dget anchor ''absolute_expires_at''])"

section \<open>Revocation primitives\<close>

definition revoke_access_session :: "'s redis \<Rightarrow> string \<Rightarrow> 's \<Rightarrow> 's" where
  "revoke_access_session R access_jti s =
     redis_delete R [session_key access_jti, session_full_key access_jti] s"

definition is_refresh_family_revoked :: "'s redis \<Rightarrow> 's \<Rightarrow> string \<Rightarrow> bool" where
  "is_refresh_family_revoked R s family_id =
     (case nonempty_doc (get_json R s (family_key family_id)) of
        Some family \<Rightarrow>
          dget family ''status'' \<in> {JStr ''revoked'', JStr ''reused'', JStr ''expired''} \<or>
          redis_get R s (revoked_key family_id) \<noteq> None
      | None \<Rightarrow> redis_get R s (revoked_key family_id) \<noteq> None)"

definition revoke_family_session :: "'s redis \<Rightarrow> string \<Rightarrow> 's \<Rightarrow> string \<Rightarrow> 's" where
  "revoke_family_session R family_id s access_jti =
     (case get_json R s (session_key access_jti) of
        None \<Rightarrow> revoke_access_session R access_jti s
      | Some session \<Rightarrow>
          if dget session ''family_id'' = JStr family_id then revoke_access_session R access_jti s else s)"

definition revoked_family_doc :: "'s redis \<Rightarrow> int \<Rightarrow> string \<Rightarrow> string \<Rightarrow> 's \<Rightarrow> dict" where
  "revoked_family_doc R now family_id reason s =
     (let family = (case nonempty_doc (get_json R s (family_key family_id)) of
                      Some d \<Rightarrow> d | None \<Rightarrow> [''family_id'' \<mapsto> JStr family_id])
      in family(''status'' \<mapsto> JStr (if reason = ''refresh_reuse'' then ''reused'' else ''revoked''),
                ''revoked_at'' \<mapsto> JTime now,
                ''revocation_reason'' \<mapsto> JStr reason))"

definition family_access_jtis :: "'s redis \<Rightarrow> dict \<Rightarrow> 's \<Rightarrow> string list" where
  "family_access_jtis R family s =
     remdups ((if truthy (dget family ''current_access_jti'')
               then [py_str (dget family ''current_access_jti'')] else []) @
              (if truthy (dget family ''user_id'')
               then redis_smembers R s (user_sessions_key (py_str (dget family ''user_id''))) else []))"

definition revoke_refresh_family :: "'s redis \<Rightarrow> int \<Rightarrow> string \<Rightarrow> string \<Rightarrow> 's \<Rightarrow> 's" where
  "revoke_refresh_family R now family_id reason s =
     (let family = (case nonempty_doc (get_json R s (family_key family_id)) of
                      Some d \<Rightarrow> d | None \<Rightarrow> [''family_id'' \<mapsto> JStr family_id]);
          cache_ttl = cache_ttl_for_family now family;
          family' = revoked_family_doc R now family_id reason s;
          s1 = set_json R (family_key family_id) family' cache_ttl s;
          s2 = set_json R (revoked_key family_id)
                 [''family_id'' \<mapsto> JStr family_id, ''reason'' \<mapsto> JStr reason, ''revoked_at'' \<mapsto> JTime now]
                 cache_ttl s1;
          s3 = redis_delete R [anchor_key family_id] s2
      in foldl (revoke_family_session R family_id) s3 (family_access_jtis R family' s3))"

definition revoke_context_state :: "'s redis \<Rightarrow> int \<Rightarrow> dict \<Rightarrow> string \<Rightarrow> 's \<Rightarrow> 's" where
  "revoke_context_state R now session reason s =
     (let family_id = dget session ''family_id'';
          access_jti = py_or (dget session ''access_jti'')
                         (py_or (dget session ''jti'') (dget session ''current_access_jti''))
      in if truthy family_id then revoke_refresh_family R now (py_str family_id) reason s
         else if truthy access_jti then revoke_access_session R (py_str access_jti) s
         else s)"

section \<open>Rebuilding the authorization context\<close>

record auth_context =
  ctx_scope :: string
  ctx_user :: dict
  ctx_project :: "dict option"
  ctx_permissions :: "json list"
  ctx_groups :: "json list"
  ctx_available_projects :: "json list"
  ctx_group_records :: "json list"

definition project_is_active_for_auth :: "dict \<Rightarrow> bool" where
  "project_is_active_for_auth project =
     (if \<not> truthy (dget_default project ''is_active'' (JBool True)) then False
      else \<not> truthy (dget_default project ''archived'' (JBool False)))"

definition group_name :: "json \<Rightarrow> json" where
  "group_name g = JStr (py_str (case g of JObj d \<Rightarrow> dget_default d ''group_name'' g | _ \<Rightarrow> g))"

definition load_active_user ::
    "'s redis \<Rightarrow> db_hooks \<Rightarrow> int \<Rightarrow> string \<Rightarrow> dict \<Rightarrow> 's \<Rightarrow> dict option \<times> 's" where
  "load_active_user R D now user_hash session s =
     (case get_user_by_hash D user_hash of
        None \<Rightarrow> (None, revoke_context_state R now session ''missing_user'' s)
      | Some user \<Rightarrow>
          if \<not> truthy (dget_default user ''is_active'' (JBool True))
          then (None, revoke_context_state R now session ''inactive_user'' s)
          else (Some user, s))"

text \<open>\<^verbatim>\<open>list(session_payload.get(k) or default)\<close>.\<close>

definition list_or :: "json \<Rightarrow> string list \<Rightarrow> json list" where
  "list_or v d = (case py_or v (JList (map JStr d)) of JList xs \<Rightarrow> xs | _ \<Rightarrow> [])"

definition platform_context :: "dict \<Rightarrow> dict \<Rightarrow> string \<Rightarrow> auth_context" where
  "platform_context session user user_type =
     (let default_permissions =
            (if user_type = ''root''
             then [''admin'', ''global_admin'', ''manage_users'', ''manage_roles'', ''unrestricted_access'']
             else [''admin'', ''project_admin'', ''manage_users'', ''manage_roles'', ''manage_permissions'']);
          default_groups = (if user_type = ''root'' then [''platform_root_users''] else [''platform_admins''])
      in \<lparr>ctx_scope = AUTH_SCOPE_PLATFORM, ctx_user = user, ctx_project = None,
          ctx_permissions = list_or (dget session ''permissions'') default_permissions,
          ctx_groups = list_or (dget session ''groups'') default_groups,
          ctx_available_projects = [], ctx_group_records = []\<rparr>)"

definition reconstruct_project_context ::
    "'s redis \<Rightarrow> db_hooks \<Rightarrow> int \<Rightarrow> dict \<Rightarrow> dict \<Rightarrow> string \<Rightarrow> string \<Rightarrow> 's \<Rightarrow> auth_context option \<times> 's" where
  "reconstruct_project_context R D now session user user_id user_type s =
     (let project_hash = py_or (dget session ''project_hash'') (dget session ''collection'')
      in if \<not> truthy project_hash
         then (None, revoke_context_state R now session ''missing_project_context'' s)
         else
           case get_project_by_hash D (py_str project_hash) of
             None \<Rightarrow> (None, revoke_context_state R now session ''missing_project'' s)
           | Some project \<Rightarrow>
               if \<not> project_is_active_for_auth project
               then (None, revoke_context_state R now session ''project_inactive_or_archived'' s)
               else
                 let available = safe_call_list (get_user_accessible_projects D user_id)
                 in if user_type = ''root''
                    then (Some \<lparr>ctx_scope = AUTH_SCOPE_PROJECT, ctx_user = user, ctx_project = Some project,
                            ctx_permissions = list_or (dget session ''permissions'')
                              [''admin'', ''global_admin'', ''unrestricted_access''],
                            ctx_groups = list_or (dget session ''groups'') [''root_users''],
                            ctx_available_projects = available, ctx_group_records = []\<rparr>, s)
                    else if user_type = ''admin''
                    then if \<not> check_admin_project_access D user_id (py_str (dget project ''id''))
                         then (None, revoke_context_state R now session ''project_access_denied'' s)
                         else (Some \<lparr>ctx_scope = AUTH_SCOPE_PROJECT, ctx_user = user, ctx_project = Some project,
                                 ctx_permissions = list_or (dget session ''permissions'')
                                   [''admin'', ''project_admin'', ''manage_users'', ''manage_groups'',
                                    ''manage_permissions''],
                                 ctx_groups = list_or (dget session ''groups'') [''project_admins''],
                                 ctx_available_projects = available, ctx_group_records = []\<rparr>, s)
                    else
                      let groups = safe_call_list
                            (get_user_groups_in_project_by_hash D user_id (py_str project_hash))
                      in if groups = []
                         then (None, revoke_context_state R now session ''project_access_denied'' s)
                         else (Some \<lparr>ctx_scope = AUTH_SCOPE_PROJECT, ctx_user = user, ctx_project = Some project,
                                 ctx_permissions = map (\<lambda>p. JStr (py_str p))
                                   (safe_call_list (get_user_permissions D user_id)),
                                 ctx_groups = map group_name groups,
                                 ctx_available_projects = available, ctx_group_records = groups\<rparr>, s))"

definition reconstruct_auth_context ::
    "'s redis \<Rightarrow> db_hooks \<Rightarrow> int \<Rightarrow> dict \<Rightarrow> 's \<Rightarrow> auth_context option \<times> 's" where
  "reconstruct_auth_context R D now session s =
     (let user_hash = dget session ''user_hash''
      in if \<not> truthy user_hash then (None, revoke_context_state R now session ''missing_user'' s)
         else
           case load_active_user R D now (py_str user_hash) session s of
             (None, s') \<Rightarrow> (None, s')
           | (Some user, s') \<Rightarrow>
               let scope = py_or (dget session ''scope'') (JStr AUTH_SCOPE_PROJECT);
                   user_id = py_str (dget_default user ''id'' (dget session ''user_id''));
                   user_type = py_str (dget_default user ''user_type''
                                 (dget_default session ''user_type'' (JStr ''consumer'')))
               in if scope = JStr AUTH_SCOPE_PLATFORM
                  then if user_type \<notin> {''root'', ''admin''}
                       then (None, revoke_context_state R now session ''platform_access_denied'' s')
                       else (Some (platform_context session user user_type), s')
                  else reconstruct_project_context R D now session user user_id user_type s')"

section \<open>Issuing a token pair\<close>

record cookie =
  cookie_name :: string
  cookie_path :: string
  cookie_max_age :: int
  cookie_httponly :: bool
  cookie_secure :: bool
  cookie_samesite :: string

definition build_cookie_metadata :: "auth_config \<Rightarrow> int \<Rightarrow> cookie \<times> cookie" where
  "build_cookie_metadata c refresh_max_age =
     (\<lparr>cookie_name = ''access_token'', cookie_path = ''/'',
       cookie_max_age = access_expire_minutes c * 60,
       cookie_httponly = True, cookie_secure = True, cookie_samesite = ''strict''\<rparr>,
      \<lparr>cookie_name = ''refresh_token'', cookie_path = ''/auth'', cookie_max_age = refresh_max_age,
       cookie_httponly = True, cookie_secure = True, cookie_samesite = ''strict''\<rparr>)"

record 't token_pair =
  access_token :: 't
  refresh_token :: 't
  token_type :: string
  expires_in :: int
  refresh_expires_in :: int
  expires_at :: int
  refresh_expires_at :: int
  pair_remember_me :: bool
  access_claims :: dict
  refresh_claims :: dict
  cookie_metadata :: "cookie \<times> cookie"

text \<open>The random identifiers one call draws with \<^verbatim>\<open>uuid4()\<close>.\<close>

record uuids =
  new_family_id :: string
  new_session_id :: string
  new_access_jti :: string
  new_refresh_jti :: string

definition opt_list :: "string list option \<Rightarrow> json" where
  "opt_list x = JList (map JStr (case x of Some xs \<Rightarrow> xs | None \<Rightarrow> []))"

definition effective_refresh_ttl :: "int option \<Rightarrow> bool \<Rightarrow> int" where
  "effective_refresh_ttl ttl remember_me =
     (let d = (if remember_me then REMEMBER_ME_REFRESH_TTL_SECONDS else REFRESH_FAMILY_TTL_SECONDS)
      in case ttl of Some t \<Rightarrow> if t \<noteq> 0 then t else d | None \<Rightarrow> d)"

definition issue_session_payload ::
    "auth_config \<Rightarrow> int \<Rightarrow> uuids \<Rightarrow> dict \<Rightarrow> string \<Rightarrow> json \<Rightarrow> dict \<Rightarrow> string list option \<Rightarrow>
     string list option \<Rightarrow> string list option \<Rightarrow> bool \<Rightarrow> int \<Rightarrow> dict" where
  "issue_session_payload c now ids user scope collection project permissions groups group_ids
      remember_me ttl =
     [''access_jti'' \<mapsto> JStr (new_access_jti ids),
      ''session_id'' \<mapsto> JStr (new_session_id ids),
      ''family_id'' \<mapsto> JStr (new_family_id ids),
      ''refresh_jti'' \<mapsto> JStr (new_refresh_jti ids),
      ''user_id'' \<mapsto> dget user ''id'',
      ''user_hash'' \<mapsto> dget user ''user_hash'',
      ''username'' \<mapsto> dget user ''username'',
      ''user_type'' \<mapsto> dget_default user ''user_type'' (JStr ''consumer''),
      ''scope'' \<mapsto> JStr scope,
      ''project_id'' \<mapsto> dget project ''id'',
      ''project_hash'' \<mapsto> (if scope = AUTH_SCOPE_PROJECT then dget project ''project_hash'' else JNull),
      ''project_name'' \<mapsto> (if scope = AUTH_SCOPE_PROJECT then dget project ''project_name'' else JNull),
      ''collection'' \<mapsto> collection,
      ''permissions'' \<mapsto> opt_list permissions,
      ''groups'' \<mapsto> opt_list groups,
      ''user_group_ids'' \<mapsto> opt_list group_ids,
      ''user_group_names'' \<mapsto> opt_list groups,
      ''issued_at'' \<mapsto> JTime now,
      ''auth_time'' \<mapsto> JInt (now div us_per_second),
      ''expires_at'' \<mapsto> JTime (now + access_expire_minutes c * 60 * us_per_second),
      ''remember_me'' \<mapsto> JBool remember_me,
      ''refresh_ttl_seconds'' \<mapsto> JInt ttl,
      ''absolute_expires_at'' \<mapsto>
        (if remember_me then JTime (compute_refresh_expires_at now ttl) else JNull)]"

definition issue_family_payload ::
    "int \<Rightarrow> uuids \<Rightarrow> dict \<Rightarrow> string \<Rightarrow> dict \<Rightarrow> bool \<Rightarrow> int \<Rightarrow> dict" where
  "issue_family_payload now ids user scope project remember_me ttl =
     [''family_id'' \<mapsto> JStr (new_family_id ids),
      ''status'' \<mapsto> JStr ''active'',
      ''user_id'' \<mapsto> dget user ''id'',
      ''user_hash'' \<mapsto> dget user ''user_hash'',
      ''scope'' \<mapsto> JStr scope,
      ''project_id'' \<mapsto> (if scope = AUTH_SCOPE_PROJECT then dget project ''id'' else JNull),
      ''project_hash'' \<mapsto> (if scope = AUTH_SCOPE_PROJECT then dget project ''project_hash'' else JNull),
      ''current_refresh_jti'' \<mapsto> JStr (new_refresh_jti ids),
      ''current_access_jti'' \<mapsto> JStr (new_access_jti ids),
      ''created_at'' \<mapsto> JTime now,
      ''updated_at'' \<mapsto> JTime now,
      ''auth_time'' \<mapsto> JInt (now div us_per_second),
      ''expires_at'' \<mapsto> JTime (compute_refresh_expires_at now ttl),
      ''remember_me'' \<mapsto> JBool remember_me,
      ''refresh_ttl_seconds'' \<mapsto> JInt ttl,
      ''absolute_expires_at'' \<mapsto>
        (if remember_me then JTime (compute_refresh_expires_at now ttl) else JNull),
      ''revoked_at'' \<mapsto> JNull,
      ''revocation_reason'' \<mapsto> JNull]"

definition issue_refresh_record ::
    "int \<Rightarrow> uuids \<Rightarrow> dict \<Rightarrow> string \<Rightarrow> bool \<Rightarrow> int \<Rightarrow> dict" where
  "issue_refresh_record now ids user token_hash remember_me ttl =
     [''refresh_jti'' \<mapsto> JStr (new_refresh_jti ids),
      ''family_id'' \<mapsto> JStr (new_family_id ids),
      ''user_id'' \<mapsto> dget user ''id'',
      ''token_hash'' \<mapsto> JStr token_hash,
      ''status'' \<mapsto> JStr ''current'',
      ''parent_jti'' \<mapsto> JNull,
      ''child_jti'' \<mapsto> JNull,
      ''issued_at'' \<mapsto> JTime now,
      ''used_at'' \<mapsto> JNull,
      ''expires_at'' \<mapsto> JTime (compute_refresh_expires_at now ttl),
      ''remember_me'' \<mapsto> JBool remember_me,
      ''refresh_ttl_seconds'' \<mapsto> JInt ttl,
      ''absolute_expires_at'' \<mapsto>
        (if remember_me then JTime (compute_refresh_expires_at now ttl) else JNull)]"

text \<open>The writes of \<^verbatim>\<open>_issue_token_pair\<close>, in order.\<close>

definition store_issued ::
    "'s redis \<Rightarrow> auth_config \<Rightarrow> uuids \<Rightarrow> string \<Rightarrow> dict \<Rightarrow> dict \<Rightarrow> dict \<Rightarrow> dict \<Rightarrow> int \<Rightarrow> 's \<Rightarrow> 's" where
  "store_issued R c ids user_id session family token anchor ttl s =
     (let s1 = set_json R (session_key (new_access_jti ids)) session (access_expire_minutes c * 60) s;
          s2 = set_json R (family_key (new_family_id ids)) family ttl s1;
          s3 = set_json R (token_key (new_refresh_jti ids)) token ttl s2;
          s4 = set_json R (anchor_key (new_family_id ids)) anchor ttl s3;
          s5 = redis_sadd R (user_sessions_key user_id) (new_access_jti ids) s4;
          s6 = redis_expire R (user_sessions_key user_id) ttl s5;
          s7 = redis_sadd R (user_families_key user_id) (new_family_id ids) s6;
          s8 = redis_expire R (user_families_key user_id) ttl s7
      in redis_expire R (used_key (new_family_id ids)) ttl s8)"

definition issue_access_token ::
    "('s, 't) world \<Rightarrow> int \<Rightarrow> uuids \<Rightarrow> dict \<Rightarrow> string \<Rightarrow> json \<Rightarrow> 't" where
  "issue_access_token W now ids user scope collection =
     create_access_token (jwt W) (cfg W) now (JStr (new_session_id ids)) (dget user ''user_hash'')
       collection None (Some scope) (Some (new_access_jti ids)) (Some (new_family_id ids))
       (Some (now div us_per_second)) [] []"

definition issue_refresh_token ::
    "('s, 't) world \<Rightarrow> int \<Rightarrow> uuids \<Rightarrow> dict \<Rightarrow> string \<Rightarrow> json \<Rightarrow> int \<Rightarrow> 't" where
  "issue_refresh_token W now ids user scope collection ttl =
     create_refresh_token (jwt W) now (JStr (new_session_id ids)) (dget user ''user_hash'')
       collection (Some (ttl * us_per_second)) (Some scope) (Some (new_refresh_jti ids))
       (Some (new_family_id ids)) [] []"

definition issue_token_pair ::
    "('s, 't) world \<Rightarrow> int \<Rightarrow> uuids \<Rightarrow> dict \<Rightarrow> string \<Rightarrow> json \<Rightarrow> dict option \<Rightarrow> string list option \<Rightarrow>
     string list option \<Rightarrow> string list option \<Rightarrow> bool \<Rightarrow> int option \<Rightarrow> 's \<Rightarrow> 't token_pair result \<times> 's" where
  "issue_token_pair W now ids user scope collection project_opt permissions groups group_ids
      remember_me refresh_ttl_seconds s =
     (let project = (case project_opt of Some p \<Rightarrow> p | None \<Rightarrow> Map.empty);
          ttl = effective_refresh_ttl refresh_ttl_seconds remember_me;
          at = issue_access_token W now ids user scope collection;
          rt = issue_refresh_token W now ids user scope collection ttl
      in case decode_access_token (jwt W) now at of
           Inl e \<Rightarrow> (Inl e, s)
         | Inr ac \<Rightarrow>
             (case decode_refresh_token (jwt W) now rt of
                Inl e \<Rightarrow> (Inl e, s)
              | Inr rc \<Rightarrow>
                  let session = issue_session_payload (cfg W) now ids user scope collection project
                                  permissions groups group_ids remember_me ttl;
                      family = issue_family_payload now ids user scope project remember_me ttl;
                      token = issue_refresh_record now ids user (hash_refresh_token W rt) remember_me ttl;
                      anchor = build_refresh_anchor_payload session family
                  in (Inr \<lparr>access_token = at, refresh_token = rt, token_type = TOKEN_TYPE_BEARER,
                        expires_in = access_expire_minutes (cfg W) * 60,
                        refresh_expires_in = ttl,
                        expires_at = now + access_expire_minutes (cfg W) * 60 * us_per_second,
                        refresh_expires_at = compute_refresh_expires_at now ttl,
                        pair_remember_me = remember_me,
                        access_claims = ac, refresh_claims = rc,
                        cookie_metadata = build_cookie_metadata (cfg W) ttl\<rparr>,
                      store_issued (redis W) (cfg W) ids (py_str (dget user ''id'')) session family
                        token anchor ttl s)))"

definition issue_project_token_pair ::
    "('s, 't) world \<Rightarrow> int \<Rightarrow> uuids \<Rightarrow> dict \<Rightarrow> dict \<Rightarrow> string list option \<Rightarrow> string list option \<Rightarrow>
     string list option \<Rightarrow> bool \<Rightarrow> 's \<Rightarrow> 't token_pair result \<times> 's" where
  "issue_project_token_pair W now ids user project permissions groups group_ids remember_me s =
     issue_token_pair W now ids user AUTH_SCOPE_PROJECT (dget project ''project_hash'') (Some project)
       permissions groups group_ids remember_me None s"

definition issue_platform_token_pair ::
    "('s, 't) world \<Rightarrow> int \<Rightarrow> uuids \<Rightarrow> dict \<Rightarrow> string list option \<Rightarrow> string list option \<Rightarrow> bool \<Rightarrow>
     's \<Rightarrow> 't token_pair result \<times> 's" where
  "issue_platform_token_pair W now ids user permissions groups remember_me s =
     issue_token_pair W now ids user AUTH_SCOPE_PLATFORM (JStr PLATFORM_COLLECTION_SENTINEL) None
       permissions groups None remember_me None s"

section \<open>Validating an access token\<close>

definition require_claim_session_match :: "dict \<Rightarrow> dict \<Rightarrow> unit result" where
  "require_claim_session_match claims session =
     (let comparisons =
            [(''jti'', dget session ''access_jti''),
             (''session_id'', dget session ''session_id''),
             (''family_id'', dget session ''family_id''),
             (''user_hash'', dget session ''user_hash''),
             (''scope'', dget session ''scope'')]
      in case List.find (\<lambda>(c, v). py_str (dget claims c) \<noteq> py_str v) comparisons of
           Some (c, _) \<Rightarrow> Inl (unauthorized (''Access token/session mismatch: '' @ c))
         | None \<Rightarrow>
             let expected_collection =
                   (if dget session ''collection'' = JNull
                    then if dget session ''scope'' = JStr AUTH_SCOPE_PLATFORM
                         then JStr PLATFORM_COLLECTION_SENTINEL else dget session ''project_hash''
                    else dget session ''collection'')
             in if py_str (dget claims ''collection'') \<noteq> py_str expected_collection
                then Inl (unauthorized ''Access token/session mismatch: collection'')
                else Inr ())"

definition require_active_family :: "'s redis \<Rightarrow> 's \<Rightarrow> dict \<Rightarrow> dict \<Rightarrow> dict result" where
  "require_active_family R s claims session =
     (let family_id = py_str (dget claims ''family_id'');
          access_jti = py_str (dget claims ''jti'')
      in case nonempty_doc (get_json R s (family_key family_id)) of
           None \<Rightarrow> Inl (unauthorized ''Refresh family missing'')
         | Some family \<Rightarrow>
             if dget family ''status'' \<noteq> JStr ''active'' \<or> is_refresh_family_revoked R s family_id
             then Inl (unauthorized ''Refresh family revoked'')
             else if truthy (dget family ''current_access_jti'') \<and>
                     py_str (dget family ''current_access_jti'') \<noteq> access_jti
             then Inl (unauthorized ''Access session revoked'')
             else if truthy (dget family ''user_hash'') \<and>
                     py_str (dget family ''user_hash'') \<noteq> py_str (dget session ''user_hash'')
             then Inl (unauthorized ''Refresh family/session mismatch: user'')
             else if truthy (dget family ''scope'') \<and>
                     py_str (dget family ''scope'') \<noteq> py_str (dget session ''scope'')
             then Inl (unauthorized ''Refresh family/session mismatch: scope'')
             else if dget session ''scope'' = JStr AUTH_SCOPE_PROJECT \<and>
                     py_str (dget family ''project_hash'') \<noteq> py_str (dget session ''project_hash'')
             then Inl (unauthorized ''Refresh family/session mismatch: project'')
             else Inr family)"

text \<open>\<^verbatim>\<open>_field(v, name, d)\<close> on a listed project, which may be a row or a plain value.\<close>

definition field_or :: "json \<Rightarrow> string \<Rightarrow> json \<Rightarrow> json" where
  "field_or v name d = (case v of JObj m \<Rightarrow> dget_default m name d | _ \<Rightarrow> d)"

definition project_summary :: "json \<Rightarrow> json option" where
  "project_summary p =
     (let project_hash_value = field_or p ''project_hash'' JNull;
          project_id_value = field_or p ''id'' (field_or p ''project_id'' project_hash_value);
          project_name_value = field_or p ''project_name'' (JStr [])
      in if \<not> truthy project_hash_value \<or> \<not> truthy project_id_value then None
         else Some (JObj
           [''id'' \<mapsto> JStr (py_str project_id_value),
            ''project_hash'' \<mapsto> JStr (py_str project_hash_value),
            ''project_name'' \<mapsto> JStr (py_str (py_or project_name_value (JStr []))),
            ''project_description'' \<mapsto> field_or p ''project_description'' JNull,
            ''project_group_name'' \<mapsto> JStr (py_str (field_or p ''project_group_name'' (JStr []))),
            ''permissions'' \<mapsto> JList (list_or (field_or p ''permissions'' (JList [])) [])]))"

definition login_from_context ::
    "('s, 't) world \<Rightarrow> db_hooks \<Rightarrow> 't \<Rightarrow> dict \<Rightarrow> auth_context \<Rightarrow> dict" where
  "login_from_context W D token session context =
     (let in_project = (ctx_scope context = AUTH_SCOPE_PROJECT);
          hash0 = (if in_project then dget session ''project_hash'' else JNull);
          name0 = (if in_project then dget session ''project_name'' else JNull);
          id0 = (if in_project then dget session ''project_id'' else JNull);
          project_hash = (case ctx_project context of Some p \<Rightarrow> dget_default p ''project_hash'' hash0 | None \<Rightarrow> hash0);
          project_name = (case ctx_project context of Some p \<Rightarrow> dget_default p ''project_name'' name0 | None \<Rightarrow> name0);
          project_id = (case ctx_project context of Some p \<Rightarrow> dget_default p ''id'' id0 | None \<Rightarrow> id0);
          available = List.map_filter project_summary (ctx_available_projects context);
          user_type = py_str (py_or (dget session ''user_type'')
                        (dget_default (ctx_user context) ''user_type'' (JStr ''consumer'')));
          plan = (if in_project \<and> user_type = ''consumer'' \<and> truthy project_id
                  then resolve_session_plan D (py_str (dget session ''user_id'')) (py_str project_id)
                  else JNull)
      in [''user_hash'' \<mapsto> JStr (py_str (dget session ''user_hash'')),
          ''scope'' \<mapsto> JStr (ctx_scope context),
          ''project_hash'' \<mapsto> project_hash,
          ''project_name'' \<mapsto> project_name,
          ''access_token'' \<mapsto> JStr (jwt_text (jwt W) token),
          ''session_length'' \<mapsto> JInt 0,
          ''user_id'' \<mapsto> JStr (py_str (dget session ''user_id'')),
          ''username'' \<mapsto> py_or (dget session ''username'') (dget (ctx_user context) ''username''),
          ''project_id'' \<mapsto> project_id,
          ''groups'' \<mapsto> JList (ctx_groups context),
          ''permissions'' \<mapsto> JList (ctx_permissions context),
          ''available_projects'' \<mapsto> JList available,
          ''user_type'' \<mapsto> JStr user_type,
          ''plan'' \<mapsto> plan])"

text \<open>
  The full-session cache of \<^verbatim>\<open>cache_manager.py\<close>. A lifetime that Redis refuses makes
  the write fail; the cache manager swallows that error and nothing is stored.
\<close>

definition get_session_full :: "'s redis \<Rightarrow> 's \<Rightarrow> string \<Rightarrow> dict option" where
  "get_session_full R s access_jti = get_json R s (session_full_key access_jti)"

definition set_session_full :: "'s redis \<Rightarrow> auth_config \<Rightarrow> string \<Rightarrow> dict \<Rightarrow> 's \<Rightarrow> 's" where
  "set_session_full R c access_jti login s =
     (if validate_cache_ttl c \<le> 0 then s
      else set_json R (session_full_key access_jti) login (validate_cache_ttl c) s)"

definition validate_access_session ::
    "('s, 't) world \<Rightarrow> db_hooks \<Rightarrow> int \<Rightarrow> 't \<Rightarrow> 's \<Rightarrow> dict result \<times> 's" where
  "validate_access_session W D now token s =
     (case decode_access_token (jwt W) now token of
        Inl e \<Rightarrow> (Inl e, s)
      | Inr claims \<Rightarrow>
          let access_jti = py_str (dget claims ''jti'')
          in case nonempty_doc (get_json (redis W) s (session_key access_jti)) of
               None \<Rightarrow> (Inl (unauthorized ''Access session missing or revoked''), s)
             | Some session \<Rightarrow>
                 (case require_claim_session_match claims session of
                    Inl e \<Rightarrow> (Inl e, s)
                  | Inr _ \<Rightarrow>
                      (case require_active_family (redis W) s claims session of
                         Inl e \<Rightarrow> (Inl e, s)
                       | Inr _ \<Rightarrow>
                           (case reconstruct_auth_context (redis W) D now session s of
                              (None, s') \<Rightarrow> (Inl (unauthorized ''User or auth context inactive''), s')
                            | (Some context, s') \<Rightarrow>
                                (case get_session_full (redis W) s' access_jti of
                                   Some cached \<Rightarrow> (Inr cached, s')
                                 | None \<Rightarrow>
                                     let login = login_from_context W D token session context
                                     in (Inr login, set_session_full (redis W) (cfg W) access_jti login s'))))))"

section \<open>Classifying a refresh token\<close>

definition is_benign_refresh_replay :: "auth_config \<Rightarrow> int \<Rightarrow> dict \<Rightarrow> dict \<Rightarrow> bool" where
  "is_benign_refresh_replay c now family token =
     (if replay_grace_seconds c \<le> 0 then False
      else if dget token ''status'' \<noteq> JStr ''used'' then False
      else
        let child_jti = dget token ''child_jti''
        in if \<not> truthy child_jti \<or>
              py_str child_jti \<noteq> py_str (py_or (dget family ''current_refresh_jti'') (JStr []))
           then False
           else case parse_datetime (dget token ''used_at'') of
                  None \<Rightarrow> False
                | Some used_at \<Rightarrow>
                    0 \<le> now - used_at \<and> now - used_at \<le> replay_grace_seconds c * us_per_second)"

datatype refresh_state = Invalid | Revoked | Current | Replayed | Reused

definition classify_refresh_token_state ::
    "('s, 't) world \<Rightarrow> int \<Rightarrow> string \<Rightarrow> string \<Rightarrow> 's \<Rightarrow> refresh_state \<times> 's" where
  "classify_refresh_token_state W now family_id refresh_jti s =
     (case (nonempty_doc (get_json (redis W) s (family_key family_id)),
            nonempty_doc (get_json (redis W) s (token_key refresh_jti))) of
        (Some family, Some token) \<Rightarrow>
          if dget family ''status'' \<noteq> JStr ''active'' \<or> is_refresh_family_revoked (redis W) s family_id
          then (Revoked, s)
          else if dget family ''current_refresh_jti'' = JStr refresh_jti \<and>
                  dget token ''status'' = JStr ''current''
          then (Current, s)
          else if dget token ''status'' \<in> {JStr ''used'', JStr ''revoked''} \<or>
                  refresh_jti \<in> set (redis_smembers (redis W) s (used_key family_id))
          then if is_benign_refresh_replay (cfg W) now family token then (Replayed, s)
               else (Reused, revoke_refresh_family (redis W) now family_id ''refresh_reuse'' s)
          else (Invalid, s)
      | _ \<Rightarrow> (Invalid, s))"

definition refresh_rotation_denial ::
    "('s, 't) world \<Rightarrow> int \<Rightarrow> string \<Rightarrow> string \<Rightarrow> 's \<Rightarrow> http_error \<times> 's" where
  "refresh_rotation_denial W now family_id refresh_jti s =
     (case classify_refresh_token_state W now family_id refresh_jti s of
        (state, s') \<Rightarrow>
          (unauthorized (if state = Replayed
             then ''Refresh token already rotated; retry with the current refresh token''
             else ''Refresh token reused or revoked''), s'))"

section \<open>Rotating a refresh family\<close>

definition require_refresh_claim_session_match :: "dict \<Rightarrow> dict \<Rightarrow> dict \<Rightarrow> unit result" where
  "require_refresh_claim_session_match claims family session =
     (let comparisons =
            [(''session_id'', dget session ''session_id''),
             (''family_id'', dget family ''family_id''),
             (''user_hash'', dget session ''user_hash''),
             (''scope'', dget session ''scope'')]
      in case List.find (\<lambda>(c, v). py_str (dget claims c) \<noteq> py_str v) comparisons of
           Some (c, _) \<Rightarrow> Inl (unauthorized (''Refresh token/session mismatch: '' @ c))
         | None \<Rightarrow>
             if truthy (dget session ''refresh_jti'') \<and>
                py_str (dget claims ''jti'') \<noteq> py_str (dget session ''refresh_jti'')
             then Inl (unauthorized ''Refresh token/session mismatch: refresh_jti'')
             else if truthy (dget family ''current_refresh_jti'') \<and>
                     py_str (dget claims ''jti'') \<noteq> py_str (dget family ''current_refresh_jti'')
             then Inl (unauthorized ''Refresh token/family mismatch: current_refresh_jti'')
             else
               let expected_collection =
                     (if dget session ''scope'' = JStr AUTH_SCOPE_PLATFORM
                      then JStr PLATFORM_COLLECTION_SENTINEL
                      else py_or (dget session ''collection'') (dget session ''project_hash''))
               in if py_str (dget claims ''collection'') \<noteq> py_str expected_collection
                  then Inl (unauthorized ''Refresh token/session mismatch: collection'')
                  else Inr ())"

text \<open>
  The new lifetime: a remembered family keeps its absolute end, any other family slides.
  The result is the lifetime in seconds, the new end and the absolute end to store.
\<close>

definition rotated_expiry :: "int \<Rightarrow> dict \<Rightarrow> bool \<Rightarrow> (int \<times> int \<times> json) result" where
  "rotated_expiry now family remember_me =
     (if remember_me
      then case parse_datetime (py_or (dget family ''absolute_expires_at'') (dget family ''expires_at'')) of
             None \<Rightarrow> Inl (unauthorized ''Refresh family expiry unavailable'')
           | Some refresh_end \<Rightarrow>
               let ttl = seconds_until (JTime refresh_end) now
               in if ttl \<le> 0 then Inl (unauthorized ''Refresh family expired'')
                  else Inr (ttl, refresh_end, JTime refresh_end)
      else
        let ttl = seconds_or (dget family ''refresh_ttl_seconds'') REFRESH_FAMILY_TTL_SECONDS
        in Inr (ttl, compute_refresh_expires_at now ttl, JNull))"

definition rotated_session ::
    "auth_config \<Rightarrow> int \<Rightarrow> uuids \<Rightarrow> dict \<Rightarrow> dict \<Rightarrow> dict \<Rightarrow> auth_context \<Rightarrow> string \<Rightarrow> json \<Rightarrow> bool \<Rightarrow>
     int \<Rightarrow> json \<Rightarrow> dict" where
  "rotated_session c now ids claims old_session family context scope collection remember_me ttl absolute =
     (let session = old_session(
            ''access_jti'' \<mapsto> JStr (new_access_jti ids),
            ''session_id'' \<mapsto> JStr (py_str (dget claims ''session_id'')),
            ''family_id'' \<mapsto> JStr (py_str (dget claims ''family_id'')),
            ''refresh_jti'' \<mapsto> JStr (new_refresh_jti ids),
            ''scope'' \<mapsto> JStr scope,
            ''collection'' \<mapsto> collection,
            ''permissions'' \<mapsto> JList (ctx_permissions context),
            ''groups'' \<mapsto> JList (ctx_groups context),
            ''user_group_names'' \<mapsto> JList (ctx_groups context),
            ''issued_at'' \<mapsto> JTime now,
            ''auth_time'' \<mapsto> py_or (dget family ''auth_time'') (dget old_session ''auth_time''),
            ''expires_at'' \<mapsto> JTime (now + access_expire_minutes c * 60 * us_per_second),
            ''remember_me'' \<mapsto> JBool remember_me,
            ''refresh_ttl_seconds'' \<mapsto> JInt ttl,
            ''absolute_expires_at'' \<mapsto> absolute)
      in if scope = AUTH_SCOPE_PLATFORM
         then session(''project_id'' \<mapsto> JNull, ''project_hash'' \<mapsto> JNull, ''project_name'' \<mapsto> JNull)
         else case ctx_project context of
                None \<Rightarrow> session
              | Some project \<Rightarrow> session(
                  ''project_id'' \<mapsto> dget_default project ''id'' (dget session ''project_id''),
                  ''project_hash'' \<mapsto> dget_default project ''project_hash'' (dget session ''project_hash''),
                  ''project_name'' \<mapsto> dget_default project ''project_name'' (dget session ''project_name'')))"

definition rotated_family ::
    "int \<Rightarrow> uuids \<Rightarrow> dict \<Rightarrow> dict \<Rightarrow> string \<Rightarrow> bool \<Rightarrow> int \<Rightarrow> int \<Rightarrow> json \<Rightarrow> dict" where
  "rotated_family now ids family session scope remember_me ttl refresh_end absolute =
     family(
       ''current_refresh_jti'' \<mapsto> JStr (new_refresh_jti ids),
       ''current_access_jti'' \<mapsto> JStr (new_access_jti ids),
       ''updated_at'' \<mapsto> JTime now,
       ''expires_at'' \<mapsto> JTime refresh_end,
       ''remember_me'' \<mapsto> JBool remember_me,
       ''refresh_ttl_seconds'' \<mapsto> JInt ttl,
       ''absolute_expires_at'' \<mapsto> absolute,
       ''scope'' \<mapsto> JStr scope,
       ''project_id'' \<mapsto> (if scope = AUTH_SCOPE_PROJECT then dget session ''project_id'' else JNull),
       ''project_hash'' \<mapsto> (if scope = AUTH_SCOPE_PROJECT then dget session ''project_hash'' else JNull))"

definition rotated_refresh_record ::
    "int \<Rightarrow> uuids \<Rightarrow> dict \<Rightarrow> dict \<Rightarrow> string \<Rightarrow> bool \<Rightarrow> int \<Rightarrow> int \<Rightarrow> json \<Rightarrow> dict" where
  "rotated_refresh_record now ids claims session token_hash remember_me ttl refresh_end absolute =
     [''refresh_jti'' \<mapsto> JStr (new_refresh_jti ids),
      ''family_id'' \<mapsto> JStr (py_str (dget claims ''family_id'')),
      ''user_id'' \<mapsto> dget session ''user_id'',
      ''token_hash'' \<mapsto> JStr token_hash,
      ''status'' \<mapsto> JStr ''current'',
      ''parent_jti'' \<mapsto> JStr (py_str (dget claims ''jti'')),
      ''child_jti'' \<mapsto> JNull,
      ''issued_at'' \<mapsto> JTime now,
      ''used_at'' \<mapsto> JNull,
      ''expires_at'' \<mapsto> JTime refresh_end,
      ''remember_me'' \<mapsto> JBool remember_me,
      ''refresh_ttl_seconds'' \<mapsto> JInt ttl,
      ''absolute_expires_at'' \<mapsto> absolute]"

text \<open>
  \<^verbatim>\<open>_build_rotated_pair\<close>: the new pair, the new session, the updated family and the
  record of the new refresh token.
\<close>

definition build_rotated_pair ::
    "('s, 't) world \<Rightarrow> int \<Rightarrow> uuids \<Rightarrow> dict \<Rightarrow> dict \<Rightarrow> dict \<Rightarrow> auth_context \<Rightarrow>
     ('t token_pair \<times> dict \<times> dict \<times> dict) result" where
  "build_rotated_pair W now ids claims old_session family context =
     (let remember_me = (truthy (dget family ''remember_me'') \<or> truthy (dget old_session ''remember_me''))
      in case rotated_expiry now family remember_me of
           Inl e \<Rightarrow> Inl e
         | Inr (ttl, refresh_end, absolute) \<Rightarrow>
             let scope = py_str (py_or (dget old_session ''scope'')
                           (py_or (dget claims ''scope'') (JStr AUTH_SCOPE_PROJECT)));
                 collection = (if scope = AUTH_SCOPE_PLATFORM then JStr PLATFORM_COLLECTION_SENTINEL
                               else py_or (dget old_session ''project_hash'') (dget old_session ''collection''));
                 auth_time = py_or (dget family ''auth_time'') (dget old_session ''auth_time'');
                 session_id = JStr (py_str (dget claims ''session_id''));
                 user_hash = JStr (py_str (dget old_session ''user_hash''));
                 family_id = py_str (dget claims ''family_id'');
                 at = create_access_token (jwt W) (cfg W) now session_id user_hash collection None
                        (Some scope) (Some (new_access_jti ids)) (Some family_id) (py_int auth_time) [] [];
                 rt = create_refresh_token (jwt W) now session_id user_hash collection
                        (Some (ttl * us_per_second)) (Some scope) (Some (new_refresh_jti ids))
                        (Some family_id) [] []
             in case decode_access_token (jwt W) now at of
                  Inl e \<Rightarrow> Inl e
                | Inr ac \<Rightarrow>
                    (case decode_refresh_token (jwt W) now rt of
                       Inl e \<Rightarrow> Inl e
                     | Inr rc \<Rightarrow>
                         let session = rotated_session (cfg W) now ids claims old_session family context
                                         scope collection remember_me ttl absolute
                         in Inr (\<lparr>access_token = at, refresh_token = rt, token_type = TOKEN_TYPE_BEARER,
                                  expires_in = access_expire_minutes (cfg W) * 60,
                                  refresh_expires_in = ttl,
                                  expires_at = now + access_expire_minutes (cfg W) * 60 * us_per_second,
                                  refresh_expires_at = refresh_end,
                                  pair_remember_me = remember_me,
                                  access_claims = ac, refresh_claims = rc,
                                  cookie_metadata = build_cookie_metadata (cfg W) ttl\<rparr>,
                                 session,
                                 rotated_family now ids family session scope remember_me ttl refresh_end absolute,
                                 rotated_refresh_record now ids claims session (hash_refresh_token W rt)
                                   remember_me ttl refresh_end absolute)))"

text \<open>
  \<^verbatim>\<open>rotate_refresh_family\<close> in two parts, because other requests may run between them:
  \<open>rotate_prepare\<close> is everything up to the Redis transaction, and \<open>rotate_commit\<close> is the
  transaction: \<^verbatim>\<open>WATCH\<close>, the re-reads under it, and \<^verbatim>\<open>EXEC\<close>, which takes effect only
  if no watched key changed since. When one did, \<^verbatim>\<open>WatchError\<close> leads to
  \<open>rotate_conflict\<close>.
\<close>

record 't rotation_plan =
  plan_pair :: "'t token_pair"
  plan_session :: dict
  plan_family :: dict
  plan_anchor :: dict
  plan_refresh_record :: dict
  plan_old_token_record :: dict
  plan_old_access_jti :: string
  plan_refresh_jti :: string
  plan_family_id :: string
  plan_token_hash :: string
  plan_login :: dict
  plan_context :: auth_context

record 't refresh_rotation =
  rot_token_pair :: "'t token_pair"
  rot_login_data :: dict
  rot_session_payload :: dict
  rot_family_payload :: dict
  rot_old_access_jti :: string
  rot_old_refresh_jti :: string
  rot_auth_context :: auth_context

definition switch_project :: "dict option \<Rightarrow> dict \<Rightarrow> dict" where
  "switch_project target session =
     (case target of
        None \<Rightarrow> session
      | Some p \<Rightarrow> session(
          ''scope'' \<mapsto> JStr AUTH_SCOPE_PROJECT,
          ''project_id'' \<mapsto> dget p ''id'',
          ''project_hash'' \<mapsto> dget p ''project_hash'',
          ''project_name'' \<mapsto> dget p ''project_name'',
          ''collection'' \<mapsto> dget p ''project_hash''))"

text \<open>The session the rotation continues: the live one, or the seed kept in the anchor.\<close>

definition rotation_session ::
    "'s redis \<Rightarrow> int \<Rightarrow> string \<Rightarrow> dict \<Rightarrow> dict \<Rightarrow> string \<Rightarrow> 's \<Rightarrow> dict result \<times> 's" where
  "rotation_session R now family_id claims family old_access_jti s =
     (let old_session = (if old_access_jti \<noteq> [] then get_json R s (session_key old_access_jti) else None);
          anchor = get_json R s (anchor_key family_id)
      in case nonempty_doc old_session of
           Some session \<Rightarrow> (Inr session, s)
         | None \<Rightarrow>
             (case anchor of
                Some a \<Rightarrow>
                  if \<not> anchor_matches_claims_and_family anchor claims family
                  then (Inl (unauthorized ''Refresh token/session mismatch: anchor''), s)
                  else (Inr (anchor_to_session_seed a claims family), s)
              | None \<Rightarrow>
                  (Inl (unauthorized ''Refresh context unavailable; re-login required''),
                   revoke_refresh_family R now family_id ''missing_refresh_context'' s)))"

text \<open>From the presented session to the plan: bind, switch, re-authorize, build.\<close>

definition rotate_plan ::
    "('s, 't) world \<Rightarrow> db_hooks \<Rightarrow> int \<Rightarrow> uuids \<Rightarrow> dict option \<Rightarrow> 't \<Rightarrow> dict \<Rightarrow> dict \<Rightarrow> dict \<Rightarrow>
     string \<Rightarrow> dict \<Rightarrow> 's \<Rightarrow> 't rotation_plan result \<times> 's" where
  "rotate_plan W D now ids target token claims family token_record old_access_jti session0 s =
     (case require_refresh_claim_session_match claims family session0 of
        Inl e \<Rightarrow> (Inl e, s)
      | Inr _ \<Rightarrow>
          let session1 = switch_project target session0
          in (case reconstruct_auth_context (redis W) D now session1 s of
                (None, s') \<Rightarrow> (Inl (unauthorized ''User or auth context inactive''), s')
              | (Some context, s') \<Rightarrow>
                  (case build_rotated_pair W now ids claims session1 family context of
                     Inl e \<Rightarrow> (Inl e, s')
                   | Inr (pair, session', family', record') \<Rightarrow>
                       (Inr \<lparr>plan_pair = pair, plan_session = session', plan_family = family',
                          plan_anchor = build_refresh_anchor_payload session' family',
                          plan_refresh_record = record',
                          plan_old_token_record = token_record(
                            ''status'' \<mapsto> JStr ''used'',
                            ''used_at'' \<mapsto> JTime now,
                            ''child_jti'' \<mapsto> dget (refresh_claims pair) ''jti''),
                          plan_old_access_jti = old_access_jti,
                          plan_refresh_jti = py_str (dget claims ''jti''),
                          plan_family_id = py_str (dget claims ''family_id''),
                          plan_token_hash = hash_refresh_token W token,
                          plan_login = login_from_context W D (access_token pair) session' context,
                          plan_context = context\<rparr>, s'))))"

definition rotate_prepare ::
    "('s, 't) world \<Rightarrow> db_hooks \<Rightarrow> int \<Rightarrow> uuids \<Rightarrow> dict option \<Rightarrow> 't \<Rightarrow> 's \<Rightarrow>
     't rotation_plan result \<times> 's" where
  "rotate_prepare W D now ids target token s =
     (case decode_refresh_token (jwt W) now token of
        Inl e \<Rightarrow> (Inl e, s)
      | Inr claims \<Rightarrow>
          let family_id = py_str (dget claims ''family_id'');
              refresh_jti = py_str (dget claims ''jti'')
          in case (nonempty_doc (get_json (redis W) s (family_key family_id)),
                   nonempty_doc (get_json (redis W) s (token_key refresh_jti))) of
               (Some family, Some token_record) \<Rightarrow>
                 if dget family ''status'' \<noteq> JStr ''active'' \<or>
                    is_refresh_family_revoked (redis W) s family_id
                 then (Inl (unauthorized ''Refresh family revoked''), s)
                 else if dget token_record ''token_hash'' \<noteq> JStr (hash_refresh_token W token)
                 then (Inl (unauthorized ''Invalid refresh token''), s)
                 else if dget family ''current_refresh_jti'' \<noteq> JStr refresh_jti \<or>
                         dget token_record ''status'' \<noteq> JStr ''current''
                 then (case refresh_rotation_denial W now family_id refresh_jti s of
                         (e, s') \<Rightarrow> (Inl e, s'))
                 else
                   let old_access_jti = py_str (py_or (dget family ''current_access_jti'') (JStr []))
                   in (case rotation_session (redis W) now family_id claims family old_access_jti s of
                         (Inl e, s') \<Rightarrow> (Inl e, s')
                       | (Inr session0, s') \<Rightarrow>
                           rotate_plan W D now ids target token claims family token_record
                             old_access_jti session0 s')
             | _ \<Rightarrow> (Inl (unauthorized ''Invalid refresh token''), s))"

text \<open>The writes queued between \<^verbatim>\<open>MULTI\<close> and \<^verbatim>\<open>EXEC\<close>, in order.\<close>

definition rotate_writes :: "'s redis \<Rightarrow> 't rotation_plan \<Rightarrow> 's \<Rightarrow> 's" where
  "rotate_writes R p s =
     (let pair = plan_pair p;
          ttl = refresh_expires_in pair;
          fid = plan_family_id p;
          new_access = py_str (dget (access_claims pair) ''jti'');
          new_refresh = py_str (dget (refresh_claims pair) ''jti'');
          user_id = dget (plan_session p) ''user_id'';
          us = user_sessions_key (py_str user_id);
          uf = user_families_key (py_str user_id);
          s1 = set_json R (token_key (plan_refresh_jti p)) (plan_old_token_record p) ttl s;
          s2 = redis_sadd R (used_key fid) (plan_refresh_jti p) s1;
          s3 = redis_expire R (used_key fid) ttl s2;
          s4 = set_json R (token_key new_refresh) (plan_refresh_record p) ttl s3;
          s5 = set_json R (family_key fid) (plan_family p) ttl s4;
          s6 = set_json R (session_key new_access) (plan_session p) (expires_in pair) s5;
          s7 = set_json R (anchor_key fid) (plan_anchor p) ttl s6;
          s8 = redis_delete R [session_key (plan_old_access_jti p), session_full_key (plan_old_access_jti p)] s7
      in if truthy user_id
         then let s9 = (if plan_old_access_jti p \<noteq> [] then redis_srem R us (plan_old_access_jti p) s8 else s8);
                  s10 = redis_sadd R us new_access s9;
                  s11 = redis_expire R us ttl s10;
                  s12 = redis_sadd R uf fid s11
              in redis_expire R uf ttl s12
         else s8)"

text \<open>The test on the values re-read under \<^verbatim>\<open>WATCH\<close>.\<close>

definition rotate_guard :: "'s redis \<Rightarrow> 't rotation_plan \<Rightarrow> 's \<Rightarrow> bool" where
  "rotate_guard R p s =
     (case (nonempty_doc (get_json R s (family_key (plan_family_id p))),
            nonempty_doc (get_json R s (token_key (plan_refresh_jti p)))) of
        (Some family, Some token) \<Rightarrow>
          redis_get R s (revoked_key (plan_family_id p)) = None \<and>
          dget family ''status'' = JStr ''active'' \<and>
          dget family ''current_refresh_jti'' = JStr (plan_refresh_jti p) \<and>
          dget token ''status'' = JStr ''current'' \<and>
          dget token ''token_hash'' = JStr (plan_token_hash p)
      | _ \<Rightarrow> False)"

definition rotate_conflict ::
    "('s, 't) world \<Rightarrow> int \<Rightarrow> 't rotation_plan \<Rightarrow> 's \<Rightarrow> 't refresh_rotation result \<times> 's" where
  "rotate_conflict W now p s =
     (case refresh_rotation_denial W now (plan_family_id p) (plan_refresh_jti p) s of
        (e, s') \<Rightarrow> (Inl e, s'))"

definition rotate_commit ::
    "('s, 't) world \<Rightarrow> int \<Rightarrow> 't rotation_plan \<Rightarrow> 's \<Rightarrow> 't refresh_rotation result \<times> 's" where
  "rotate_commit W now p s =
     (if \<not> rotate_guard (redis W) p s then rotate_conflict W now p s
      else (Inr \<lparr>rot_token_pair = plan_pair p, rot_login_data = plan_login p,
              rot_session_payload = plan_session p, rot_family_payload = plan_family p,
              rot_old_access_jti = plan_old_access_jti p, rot_old_refresh_jti = plan_refresh_jti p,
              rot_auth_context = plan_context p\<rparr>,
            rotate_writes (redis W) p s))"

text \<open>The whole call when no other request runs in between.\<close>

definition rotate_refresh_family ::
    "('s, 't) world \<Rightarrow> db_hooks \<Rightarrow> int \<Rightarrow> uuids \<Rightarrow> dict option \<Rightarrow> 't \<Rightarrow> 's \<Rightarrow>
     't refresh_rotation result \<times> 's" where
  "rotate_refresh_family W D now ids target token s =
     (case rotate_prepare W D now ids target token s of
        (Inl e, s') \<Rightarrow> (Inl e, s')
      | (Inr p, s') \<Rightarrow> rotate_commit W now p s')"

section \<open>Bulk revocation\<close>

record revocation_summary =
  sessions_seen :: nat
  sessions_revoked :: nat
  families_revoked :: nat
  sessions_preserved :: nat
  sessions_skipped :: nat
  sessions_missing :: nat

definition empty_summary :: revocation_summary where
  "empty_summary = \<lparr>sessions_seen = 0, sessions_revoked = 0, families_revoked = 0,
     sessions_preserved = 0, sessions_skipped = 0, sessions_missing = 0\<rparr>"

text \<open>One session of one user in \<^verbatim>\<open>revoke_project_sessions_losing_access\<close>.\<close>

definition losing_access_session ::
    "'s redis \<Rightarrow> int \<Rightarrow> (string \<Rightarrow> string \<Rightarrow> bool) \<Rightarrow> string list \<Rightarrow> string \<Rightarrow> string \<Rightarrow>
     revocation_summary \<times> 's \<Rightarrow> string \<Rightarrow> revocation_summary \<times> 's" where
  "losing_access_session R now has_access project_ids reason user_id acc access_jti =
     (let index = user_sessions_key user_id;
          summary = (fst acc)\<lparr>sessions_seen := sessions_seen (fst acc) + 1\<rparr>;
          s = snd acc
      in case nonempty_doc (get_json R s (session_key access_jti)) of
           None \<Rightarrow> (summary\<lparr>sessions_missing := sessions_missing summary + 1\<rparr>,
                     redis_srem R index access_jti s)
         | Some session \<Rightarrow>
             if dget session ''project_id'' = JNull \<or> py_str (dget session ''project_id'') \<notin> set project_ids
             then (summary\<lparr>sessions_skipped := sessions_skipped summary + 1\<rparr>, s)
             else if has_access (py_str (py_or (dget session ''user_id'') (JStr user_id)))
                       (py_str (dget session ''project_id''))
             then (summary\<lparr>sessions_preserved := sessions_preserved summary + 1\<rparr>, s)
             else
               let family_id = dget session ''family_id'';
                   s1 = (if truthy family_id then revoke_refresh_family R now (py_str family_id) reason s else s);
                   summary1 = (if truthy family_id
                     then summary\<lparr>families_revoked := families_revoked summary + 1\<rparr> else summary);
                   s2 = revoke_access_session R access_jti s1;
                   s3 = redis_srem R index access_jti s2
               in (summary1\<lparr>sessions_revoked := sessions_revoked summary1 + 1\<rparr>, s3))"

text \<open>\<open>user_ids\<close> and \<open>project_ids\<close> are the candidate sets, already without \<^verbatim>\<open>None\<close>.\<close>

definition revoke_project_sessions_losing_access ::
    "'s redis \<Rightarrow> int \<Rightarrow> (string \<Rightarrow> string \<Rightarrow> bool) \<Rightarrow> string list \<Rightarrow> string list \<Rightarrow> string \<Rightarrow>
     's \<Rightarrow> revocation_summary \<times> 's" where
  "revoke_project_sessions_losing_access R now has_access user_ids project_ids reason s =
     (if user_ids = [] \<or> project_ids = [] then (empty_summary, s)
      else foldl (\<lambda>acc user_id.
             foldl (losing_access_session R now has_access project_ids reason user_id) acc
               (redis_smembers R (snd acc) (user_sessions_key user_id)))
           (empty_summary, s) (remdups user_ids))"

definition revoke_user_auth_state :: "'s redis \<Rightarrow> int \<Rightarrow> string \<Rightarrow> string \<Rightarrow> 's \<Rightarrow> 's" where
  "revoke_user_auth_state R now user_id reason s =
     (let s1 = foldl (\<lambda>s j. revoke_access_session R j s) s
                 (redis_smembers R s (user_sessions_key user_id));
          s2 = foldl (\<lambda>s f. revoke_refresh_family R now f reason s) s1
                 (redis_smembers R s1 (user_families_key user_id))
      in redis_delete R [user_sessions_key user_id, user_families_key user_id] s2)"

text \<open>A given identifier that counts: present and not empty.\<close>

definition given :: "string option \<Rightarrow> bool" where
  "given x = (x \<noteq> None \<and> x \<noteq> Some [])"

definition or_given :: "string option \<Rightarrow> string option \<Rightarrow> string option" where
  "or_given x y = (if given x then x else if given y then y else None)"

text \<open>The identifiers of the current session, completed from its access token.\<close>

definition current_session_ids ::
    "'t jwt_lib \<Rightarrow> int \<Rightarrow> 't option \<Rightarrow> string option \<Rightarrow> string option \<Rightarrow> string option \<times> string option" where
  "current_session_ids J now token jti family =
     (case token of
        None \<Rightarrow> (jti, family)
      | Some t \<Rightarrow>
          if given jti \<and> given family then (jti, family)
          else case decode_access_token J now t of
                 Inl _ \<Rightarrow> (or_given jti None, or_given family None)
               | Inr claims \<Rightarrow>
                   (or_given jti (Some (py_str (py_or (dget claims ''jti'') (JStr [])))),
                    or_given family (Some (py_str (py_or (dget claims ''family_id'') (JStr []))))))"

text \<open>The running state of \<^verbatim>\<open>revoke_user_auth_state_except_current\<close>.\<close>

record 's except_state =
  ex_summary :: revocation_summary
  ex_revoked :: "string list"
  ex_store :: 's

definition except_session ::
    "'s redis \<Rightarrow> int \<Rightarrow> string \<Rightarrow> string \<Rightarrow> string option \<Rightarrow> string option \<Rightarrow>
     's except_state \<Rightarrow> string \<Rightarrow> 's except_state" where
  "except_session R now user_id reason cur_jti cur_family e access_jti =
     (let sessions = user_sessions_key user_id;
          families = user_families_key user_id;
          sm = (ex_summary e)\<lparr>sessions_seen := sessions_seen (ex_summary e) + 1\<rparr>;
          s = ex_store e
      in if given cur_jti \<and> Some access_jti = cur_jti
         then e\<lparr>ex_summary := sm\<lparr>sessions_preserved := sessions_preserved sm + 1\<rparr>\<rparr>
         else case nonempty_doc (get_json R s (session_key access_jti)) of
           None \<Rightarrow> e\<lparr>ex_summary := sm\<lparr>sessions_missing := sessions_missing sm + 1\<rparr>,
                      ex_store := redis_srem R sessions access_jti s\<rparr>
         | Some session \<Rightarrow>
             let family_id = dget session ''family_id''; f = py_str family_id
             in if truthy family_id \<and> given cur_family \<and> Some f = cur_family
                then e\<lparr>ex_summary := sm\<lparr>sessions_revoked := sessions_revoked sm + 1\<rparr>,
                       ex_store := redis_srem R sessions access_jti (revoke_access_session R access_jti s)\<rparr>
                else
                  let fresh = (truthy family_id \<and> f \<notin> set (ex_revoked e));
                      s1 = (if fresh
                            then redis_srem R families f (revoke_refresh_family R now f reason s) else s);
                      sm1 = (if fresh then sm\<lparr>families_revoked := families_revoked sm + 1\<rparr> else sm)
                  in \<lparr>ex_summary = sm1\<lparr>sessions_revoked := sessions_revoked sm1 + 1\<rparr>,
                      ex_revoked = (if fresh then f # ex_revoked e else ex_revoked e),
                      ex_store = redis_srem R sessions access_jti (revoke_access_session R access_jti s1)\<rparr>)"

definition except_family ::
    "'s redis \<Rightarrow> int \<Rightarrow> string \<Rightarrow> string \<Rightarrow> string option \<Rightarrow> 's except_state \<Rightarrow> string \<Rightarrow> 's except_state" where
  "except_family R now user_id reason cur_family e f =
     (let sm = ex_summary e; s = ex_store e
      in if given cur_family \<and> Some f = cur_family
         then e\<lparr>ex_summary := sm\<lparr>sessions_preserved := sessions_preserved sm + 1\<rparr>\<rparr>
         else if f \<in> set (ex_revoked e) then e
         else \<lparr>ex_summary = sm\<lparr>families_revoked := families_revoked sm + 1\<rparr>,
               ex_revoked = f # ex_revoked e,
               ex_store = redis_srem R (user_families_key user_id) f
                            (revoke_refresh_family R now f reason s)\<rparr>)"

definition revoke_user_auth_state_except_current ::
    "('s, 't) world \<Rightarrow> int \<Rightarrow> string \<Rightarrow> 't option \<Rightarrow> string option \<Rightarrow> string option \<Rightarrow> string \<Rightarrow>
     's \<Rightarrow> revocation_summary \<times> 's" where
  "revoke_user_auth_state_except_current W now user_id token jti0 family0 reason s =
     (case current_session_ids (jwt W) now token jti0 family0 of
        (cur_jti, cur_family) \<Rightarrow>
          if \<not> given cur_jti \<and> \<not> given cur_family
          then (empty_summary, revoke_user_auth_state (redis W) now user_id reason s)
          else
            let e0 = \<lparr>ex_summary = empty_summary, ex_revoked = [], ex_store = s\<rparr>;
                e1 = foldl (except_session (redis W) now user_id reason cur_jti cur_family) e0
                       (redis_smembers (redis W) s (user_sessions_key user_id));
                e2 = foldl (except_family (redis W) now user_id reason cur_family) e1
                       (redis_smembers (redis W) (ex_store e1) (user_families_key user_id))
            in (ex_summary e2, ex_store e2))"

end
