(* ===== verification/Lifecycle_Effects.thy ===== *)
theory Lifecycle_Effects
  imports Lifecycle
begin

text \<open>
  What each write of the lifecycle does to each kind of key: the layout of the keys, the
  frame of a session deletion, and the effect of revoking a family. Everything is proved
  for any server that satisfies \<open>redis_store\<close>.
\<close>

section \<open>Layout of the keys\<close>

lemmas key_defs = session_key_def session_full_key_def family_key_def token_key_def anchor_key_def
  used_key_def revoked_key_def user_sessions_key_def user_families_key_def SESSION_PREFIX_def
  SESSION_FULL_PREFIX_def REFRESH_FAMILY_PREFIX_def REFRESH_TOKEN_PREFIX_def
  REFRESH_ANCHOR_PREFIX_def REFRESH_USED_PREFIX_def REVOKED_FAMILY_PREFIX_def
  USER_SESSIONS_PREFIX_def USER_REFRESH_FAMILIES_PREFIX_def

lemma key_inj [simp, key_simps]:
  "session_key a = session_key b \<longleftrightarrow> a = b"
  "session_full_key a = session_full_key b \<longleftrightarrow> a = b"
  "family_key a = family_key b \<longleftrightarrow> a = b"
  "token_key a = token_key b \<longleftrightarrow> a = b"
  "anchor_key a = anchor_key b \<longleftrightarrow> a = b"
  "used_key a = used_key b \<longleftrightarrow> a = b"
  "revoked_key a = revoked_key b \<longleftrightarrow> a = b"
  "user_sessions_key a = user_sessions_key b \<longleftrightarrow> a = b"
  "user_families_key a = user_families_key b \<longleftrightarrow> a = b"
  by (simp_all add: key_defs)

lemma session_key_neq [simp, key_simps]:
  "session_key a \<noteq> session_full_key b" "session_full_key b \<noteq> session_key a"
  "session_key a \<noteq> family_key b" "family_key b \<noteq> session_key a"
  "session_key a \<noteq> token_key b" "token_key b \<noteq> session_key a"
  "session_key a \<noteq> anchor_key b" "anchor_key b \<noteq> session_key a"
  "session_key a \<noteq> used_key b" "used_key b \<noteq> session_key a"
  "session_key a \<noteq> revoked_key b" "revoked_key b \<noteq> session_key a"
  "session_key a \<noteq> user_sessions_key b" "user_sessions_key b \<noteq> session_key a"
  "session_key a \<noteq> user_families_key b" "user_families_key b \<noteq> session_key a"
  by (simp_all add: key_defs)

lemma session_full_key_neq [simp, key_simps]:
  "session_full_key a \<noteq> family_key b" "family_key b \<noteq> session_full_key a"
  "session_full_key a \<noteq> token_key b" "token_key b \<noteq> session_full_key a"
  "session_full_key a \<noteq> anchor_key b" "anchor_key b \<noteq> session_full_key a"
  "session_full_key a \<noteq> used_key b" "used_key b \<noteq> session_full_key a"
  "session_full_key a \<noteq> revoked_key b" "revoked_key b \<noteq> session_full_key a"
  "session_full_key a \<noteq> user_sessions_key b" "user_sessions_key b \<noteq> session_full_key a"
  "session_full_key a \<noteq> user_families_key b" "user_families_key b \<noteq> session_full_key a"
  by (simp_all add: key_defs)

lemma family_key_neq [simp, key_simps]:
  "family_key a \<noteq> token_key b" "token_key b \<noteq> family_key a"
  "family_key a \<noteq> anchor_key b" "anchor_key b \<noteq> family_key a"
  "family_key a \<noteq> used_key b" "used_key b \<noteq> family_key a"
  "family_key a \<noteq> revoked_key b" "revoked_key b \<noteq> family_key a"
  "family_key a \<noteq> user_sessions_key b" "user_sessions_key b \<noteq> family_key a"
  "family_key a \<noteq> user_families_key b" "user_families_key b \<noteq> family_key a"
  by (simp_all add: key_defs)

lemma token_key_neq [simp, key_simps]:
  "token_key a \<noteq> anchor_key b" "anchor_key b \<noteq> token_key a"
  "token_key a \<noteq> used_key b" "used_key b \<noteq> token_key a"
  "token_key a \<noteq> revoked_key b" "revoked_key b \<noteq> token_key a"
  "token_key a \<noteq> user_sessions_key b" "user_sessions_key b \<noteq> token_key a"
  "token_key a \<noteq> user_families_key b" "user_families_key b \<noteq> token_key a"
  by (simp_all add: key_defs)

lemma anchor_key_neq [simp, key_simps]:
  "anchor_key a \<noteq> used_key b" "used_key b \<noteq> anchor_key a"
  "anchor_key a \<noteq> revoked_key b" "revoked_key b \<noteq> anchor_key a"
  "anchor_key a \<noteq> user_sessions_key b" "user_sessions_key b \<noteq> anchor_key a"
  "anchor_key a \<noteq> user_families_key b" "user_families_key b \<noteq> anchor_key a"
  by (simp_all add: key_defs)

lemma index_key_neq [simp, key_simps]:
  "used_key a \<noteq> revoked_key b" "revoked_key b \<noteq> used_key a"
  "used_key a \<noteq> user_sessions_key b" "user_sessions_key b \<noteq> used_key a"
  "used_key a \<noteq> user_families_key b" "user_families_key b \<noteq> used_key a"
  "revoked_key a \<noteq> user_sessions_key b" "user_sessions_key b \<noteq> revoked_key a"
  "revoked_key a \<noteq> user_families_key b" "user_families_key b \<noteq> revoked_key a"
  "user_sessions_key a \<noteq> user_families_key b" "user_families_key b \<noteq> user_sessions_key a"
  by (simp_all add: key_defs)

section \<open>Lifetimes are positive\<close>

text \<open>
  A stored family always yields a lifetime Redis accepts: a remembered one by its floor of
  one second, any other by its own stored lifetime.
\<close>

definition ttl_pos :: "dict \<Rightarrow> bool" where
  "ttl_pos d \<longleftrightarrow> truthy (dget d ''remember_me'') \<or>
     0 < seconds_or (dget d ''refresh_ttl_seconds'') REFRESH_FAMILY_TTL_SECONDS"

definition wf_families :: "'s redis \<Rightarrow> 's \<Rightarrow> bool" where
  "wf_families R s \<longleftrightarrow> (\<forall>f d. get_json R s (family_key f) = Some d \<longrightarrow> ttl_pos d)"

lemma seconds_or_null [simp]: "seconds_or JNull d = d"
  by (simp add: seconds_or_def)

lemma seconds_or_int [simp]: "seconds_or (JInt i) d = (if i = 0 then d else i)"
  by (simp add: seconds_or_def py_or_def)

lemma ttl_pos_empty_ish [simp]: "ttl_pos [''family_id'' \<mapsto> v]"
  by (simp add: ttl_pos_def)

lemma cache_ttl_pos: "ttl_pos d \<Longrightarrow> 0 < cache_ttl_for_family now d"
  by (auto simp: cache_ttl_for_family_def ttl_pos_def)

section \<open>Deleting sessions\<close>

text \<open>
  \<open>drops_sessions R s s'\<close>: between \<open>s\<close> and \<open>s'\<close> only access sessions and their cached
  logins disappeared.
\<close>

definition session_keys :: "string set" where
  "session_keys = range session_key \<union> range session_full_key"

definition drops_sessions :: "'s redis \<Rightarrow> 's \<Rightarrow> 's \<Rightarrow> bool" where
  "drops_sessions R s s' \<longleftrightarrow>
     (\<forall>k. redis_get R s' k = redis_get R s k \<or> redis_get R s' k = None \<and> k \<in> session_keys) \<and>
     (\<forall>k. k \<notin> session_keys \<longrightarrow> redis_smembers R s' k = redis_smembers R s k)"

lemma not_session_key [simp]:
  "family_key f \<notin> session_keys" "token_key f \<notin> session_keys" "anchor_key f \<notin> session_keys"
  "used_key f \<notin> session_keys" "revoked_key f \<notin> session_keys" "user_sessions_key f \<notin> session_keys"
  "user_families_key f \<notin> session_keys"
  by (auto simp: session_keys_def)

lemma drops_sessions_refl [intro, simp]: "drops_sessions R s s"
  by (simp add: drops_sessions_def)

lemma drops_sessions_trans [trans]:
  "drops_sessions R s t \<Longrightarrow> drops_sessions R t u \<Longrightarrow> drops_sessions R s u"
  by (auto simp: drops_sessions_def) metis+

lemma drops_sessions_get:
  "drops_sessions R s s' \<Longrightarrow> k \<notin> session_keys \<Longrightarrow> redis_get R s' k = redis_get R s k"
  by (auto simp: drops_sessions_def)

lemma drops_sessions_json:
  "drops_sessions R s s' \<Longrightarrow> k \<notin> session_keys \<Longrightarrow> get_json R s' k = get_json R s k"
  by (simp add: get_json_def drops_sessions_get)

lemma drops_sessions_session:
  "drops_sessions R s s' \<Longrightarrow>
     get_json R s' (session_key j) = get_json R s (session_key j) \<or> get_json R s' (session_key j) = None"
  unfolding drops_sessions_def get_json_def by (elim conjE allE [of _ "session_key j"]) auto

lemma drops_sessions_members:
  "drops_sessions R s s' \<Longrightarrow> k \<notin> session_keys \<Longrightarrow> redis_smembers R s' k = redis_smembers R s k"
  by (simp add: drops_sessions_def)

context redis_store
begin

lemma revoke_access_session_drops: "drops_sessions R s (revoke_access_session R j s)"
  by (auto simp: drops_sessions_def revoke_access_session_def store_simps smembers_delete session_keys_def)

lemma revoke_access_session_get [store_simps]:
  "redis_get R (revoke_access_session R j s) k =
     (if k = session_key j \<or> k = session_full_key j then None else redis_get R s k)"
  by (simp add: revoke_access_session_def store_simps)

lemma revoke_access_session_json [store_simps]:
  "get_json R (revoke_access_session R j s) k =
     (if k = session_key j \<or> k = session_full_key j then None else get_json R s k)"
  by (simp add: revoke_access_session_def store_simps)

lemma revoke_family_session_drops: "drops_sessions R s (revoke_family_session R f s j)"
  by (simp add: revoke_family_session_def revoke_access_session_drops split: option.split)

lemma revoke_family_sessions_drops: "drops_sessions R s (foldl (revoke_family_session R f) s js)"
proof (induction js arbitrary: s)
  case (Cons j js)
  from revoke_family_session_drops Cons.IH show ?case
    by (simp, rule drops_sessions_trans)
qed simp

text \<open>After the loop no listed session belongs to the family.\<close>

lemma revoke_family_sessions_none:
  "j \<in> set js \<Longrightarrow> get_json R (foldl (revoke_family_session R f) s js) (session_key j) = Some d \<Longrightarrow>
     dget d ''family_id'' \<noteq> JStr f"
proof (induction js arbitrary: s)
  case (Cons i js)
  show ?case
  proof (cases "j \<in> set js")
    case True
    with Cons show ?thesis by simp
  next
    case False
    with Cons.prems(1) have "j = i" by simp
    let ?s = "revoke_family_session R f s i"
    from Cons.prems(2) revoke_family_sessions_drops [of ?s f js]
    have "get_json R ?s (session_key j) = Some d"
      by (auto dest: drops_sessions_session [where j = j])
    with \<open>j = i\<close> show ?thesis
      by (auto simp: revoke_family_session_def store_simps split: option.splits if_splits)
  qed
qed simp

section \<open>Revoking a family\<close>

lemma family_or_new_ttl:
  assumes "wf_families R s"
  shows "0 < cache_ttl_for_family now
           (case nonempty_doc (get_json R s (family_key f)) of Some d \<Rightarrow> d | None \<Rightarrow> [''family_id'' \<mapsto> JStr f])"
  using assms
  by (auto intro!: cache_ttl_pos simp: wf_families_def split: option.split)

lemma revoke_refresh_family_shape:
  assumes "wf_families R s"
  obtains ttl v where "0 < ttl" and "drops_sessions R
           (redis_delete R [anchor_key f]
             (set_json R (revoked_key f) v ttl
               (set_json R (family_key f) (revoked_family_doc R now f reason s) ttl s)))
           (revoke_refresh_family R now f reason s)"
  using family_or_new_ttl [OF assms, of now f] revoke_family_sessions_drops
  unfolding revoke_refresh_family_def Let_def by metis

lemma revoke_refresh_family_get:
  assumes "wf_families R s"
  shows "get_json R (revoke_refresh_family R now f reason s) (family_key g) =
           (if g = f then Some (revoked_family_doc R now f reason s) else get_json R s (family_key g))"
    and "redis_get R (revoke_refresh_family R now f reason s) (revoked_key g) \<noteq> None \<longleftrightarrow>
           g = f \<or> redis_get R s (revoked_key g) \<noteq> None"
    and "get_json R (revoke_refresh_family R now f reason s) (token_key j) = get_json R s (token_key j)"
    and "get_json R (revoke_refresh_family R now f reason s) (anchor_key g) =
           (if g = f then None else get_json R s (anchor_key g))"
    and "k \<notin> session_keys \<Longrightarrow> k \<noteq> family_key f \<Longrightarrow> k \<noteq> revoked_key f \<Longrightarrow> k \<noteq> anchor_key f \<Longrightarrow>
         redis_smembers R (revoke_refresh_family R now f reason s) k = redis_smembers R s k"
proof -
  obtain ttl v where "0 < ttl" and d: "drops_sessions R
      (redis_delete R [anchor_key f]
        (set_json R (revoked_key f) v ttl
          (set_json R (family_key f) (revoked_family_doc R now f reason s) ttl s)))
      (revoke_refresh_family R now f reason s)"
    using revoke_refresh_family_shape [OF assms, where f = f and now = now and reason = reason] .
  note sel = drops_sessions_json [OF d] drops_sessions_get [OF d] drops_sessions_members [OF d]
  from \<open>0 < ttl\<close> show
    "get_json R (revoke_refresh_family R now f reason s) (family_key g) =
       (if g = f then Some (revoked_family_doc R now f reason s) else get_json R s (family_key g))"
    "redis_get R (revoke_refresh_family R now f reason s) (revoked_key g) \<noteq> None \<longleftrightarrow>
       g = f \<or> redis_get R s (revoked_key g) \<noteq> None"
    "get_json R (revoke_refresh_family R now f reason s) (token_key j) = get_json R s (token_key j)"
    "get_json R (revoke_refresh_family R now f reason s) (anchor_key g) =
       (if g = f then None else get_json R s (anchor_key g))"
    "k \<notin> session_keys \<Longrightarrow> k \<noteq> family_key f \<Longrightarrow> k \<noteq> revoked_key f \<Longrightarrow> k \<noteq> anchor_key f \<Longrightarrow>
       redis_smembers R (revoke_refresh_family R now f reason s) k = redis_smembers R s k"
    by (simp_all add: sel store_simps smembers_delete)
qed

lemma revoke_refresh_family_session:
  assumes "wf_families R s"
  shows "get_json R (revoke_refresh_family R now f reason s) (session_key j) = get_json R s (session_key j) \<or>
         get_json R (revoke_refresh_family R now f reason s) (session_key j) = None"
proof -
  obtain ttl v where "0 < ttl" and d: "drops_sessions R
      (redis_delete R [anchor_key f]
        (set_json R (revoked_key f) v ttl
          (set_json R (family_key f) (revoked_family_doc R now f reason s) ttl s)))
      (revoke_refresh_family R now f reason s)"
    using revoke_refresh_family_shape [OF assms, where f = f and now = now and reason = reason] .
  from drops_sessions_session [OF d, of j] \<open>0 < ttl\<close> show ?thesis by (simp add: store_simps)
qed

end

lemma revoked_family_doc_fields [doc_simps]:
  "dget (revoked_family_doc R now f reason s) ''status'' =
     JStr (if reason = ''refresh_reuse'' then ''reused'' else ''revoked'')"
  "dget (revoked_family_doc R now f reason s) ''revocation_reason'' = JStr reason"
  "dget (revoked_family_doc R now f reason s) ''revoked_at'' = JTime now"
  by (simp_all add: revoked_family_doc_def Let_def)

lemma revoked_family_doc_nonempty [simp]: "revoked_family_doc R now f reason s \<noteq> Map.empty"
  by (simp add: revoked_family_doc_def Let_def)

lemma revoked_family_doc_old:
  "get_json R s (family_key f) = Some d \<Longrightarrow> d \<noteq> Map.empty \<Longrightarrow>
     k \<notin> {''status'', ''revocation_reason'', ''revoked_at''} \<Longrightarrow>
     dget (revoked_family_doc R now f reason s) k = dget d k"
  by (simp add: revoked_family_doc_def Let_def nonempty_doc_def)

end
