(* ===== verification/Lifecycle_Weaken.thy ===== *)
theory Lifecycle_Weaken
  imports Lifecycle_Effects
begin

text \<open>
  The contract every operation except issuing and committing a rotation has: it never
  makes a token record or a family usable that was not usable before. Records may vanish,
  families may turn inactive, nothing else about them changes.
\<close>

definition family_dead :: "'s redis \<Rightarrow> 's \<Rightarrow> string \<Rightarrow> bool" where
  "family_dead R s f \<longleftrightarrow>
     (\<forall>d. get_json R s (family_key f) = Some d \<longrightarrow> dget d ''status'' \<noteq> JStr ''active'')"

definition token_consumed :: "'s redis \<Rightarrow> 's \<Rightarrow> string \<Rightarrow> bool" where
  "token_consumed R s j \<longleftrightarrow>
     (\<forall>d. get_json R s (token_key j) = Some d \<longrightarrow> dget d ''status'' \<noteq> JStr ''current'')"

definition weakens :: "'s redis \<Rightarrow> 's \<Rightarrow> 's \<Rightarrow> bool" where
  "weakens R s s' \<longleftrightarrow>
     (\<forall>j. get_json R s' (token_key j) = get_json R s (token_key j) \<or> get_json R s' (token_key j) = None) \<and>
     (\<forall>f. get_json R s' (family_key f) = get_json R s (family_key f) \<or>
          (\<forall>d. get_json R s' (family_key f) = Some d \<longrightarrow> dget d ''status'' \<noteq> JStr ''active'' \<and> ttl_pos d))"

lemma weakens_refl [intro, simp]: "weakens R s s"
  by (simp add: weakens_def)

lemma weakens_trans [trans]:
  assumes "weakens R s t" and "weakens R t u"
  shows "weakens R s u"
  unfolding weakens_def
proof (intro conjI allI)
  fix j
  from assms show "get_json R u (token_key j) = get_json R s (token_key j) \<or> get_json R u (token_key j) = None"
    unfolding weakens_def by metis
next
  fix f
  from assms show "get_json R u (family_key f) = get_json R s (family_key f) \<or>
      (\<forall>d. get_json R u (family_key f) = Some d \<longrightarrow> dget d ''status'' \<noteq> JStr ''active'' \<and> ttl_pos d)"
    unfolding weakens_def by metis
qed

lemma weakens_family_dead: "weakens R s s' \<Longrightarrow> family_dead R s f \<Longrightarrow> family_dead R s' f"
  unfolding weakens_def family_dead_def by metis

lemma weakens_token_consumed: "weakens R s s' \<Longrightarrow> token_consumed R s j \<Longrightarrow> token_consumed R s' j"
  unfolding weakens_def token_consumed_def by (metis option.distinct(1))

lemma weakens_wf: "weakens R s s' \<Longrightarrow> wf_families R s \<Longrightarrow> wf_families R s'"
  unfolding weakens_def wf_families_def by metis

lemma weakens_token_None:
  "weakens R s s' \<Longrightarrow> get_json R s (token_key j) = None \<Longrightarrow> get_json R s' (token_key j) = None"
  unfolding weakens_def by metis

lemma weakens_token_Some:
  "weakens R s s' \<Longrightarrow> get_json R s' (token_key j) = Some d \<Longrightarrow> get_json R s (token_key j) = Some d"
  unfolding weakens_def by (metis option.distinct(1))

lemma weakens_active:
  "weakens R s s' \<Longrightarrow> get_json R s' (family_key f) = Some d \<Longrightarrow> dget d ''status'' = JStr ''active'' \<Longrightarrow>
     get_json R s (family_key f) = Some d"
  unfolding weakens_def by metis

lemma same_docs_weakens:
  "(\<And>j. get_json R s' (token_key j) = get_json R s (token_key j)) \<Longrightarrow>
   (\<And>f. get_json R s' (family_key f) = get_json R s (family_key f)) \<Longrightarrow> weakens R s s'"
  by (simp add: weakens_def)

lemma drops_sessions_weakens: "drops_sessions R s s' \<Longrightarrow> weakens R s s'"
  by (rule same_docs_weakens) (simp_all add: drops_sessions_json)

text \<open>A run of weakening steps weakens; well-formedness carries along.\<close>

lemma foldl_weakens:
  assumes "\<And>s x. wf_families R s \<Longrightarrow> weakens R s (f s x)" and "wf_families R s"
  shows "weakens R s (foldl f s xs)"
  using assms(2)
proof (induction xs arbitrary: s)
  case (Cons x xs)
  have w: "weakens R s (f s x)" by (rule assms(1) [OF Cons.prems])
  have "weakens R (f s x) (foldl f (f s x) xs)" by (rule Cons.IH [OF weakens_wf [OF w Cons.prems]])
  with w show ?case unfolding foldl.simps by (rule weakens_trans)
qed simp

lemma foldl_weakens_on:
  assumes "\<And>a x. wf_families R (g a) \<Longrightarrow> weakens R (g a) (g (f a x))" and "wf_families R (g a)"
  shows "weakens R (g a) (g (foldl f a xs))"
  using assms(2)
proof (induction xs arbitrary: a)
  case (Cons x xs)
  have w: "weakens R (g a) (g (f a x))" by (rule assms(1) [OF Cons.prems])
  have "weakens R (g (f a x)) (g (foldl f (f a x) xs))" by (rule Cons.IH [OF weakens_wf [OF w Cons.prems]])
  with w show ?case unfolding foldl.simps by (rule weakens_trans)
qed simp

lemma revoked_family_doc_ttl_pos:
  assumes "wf_families R s"
  shows "ttl_pos (revoked_family_doc R now f reason s)"
proof (cases "nonempty_doc (get_json R s (family_key f))")
  case None
  then show ?thesis by (simp add: revoked_family_doc_def ttl_pos_def)
next
  case (Some d)
  with assms have "ttl_pos d" by (auto simp: wf_families_def)
  with Some show ?thesis by (simp add: revoked_family_doc_def ttl_pos_def Let_def)
qed

context redis_store
begin

lemma revoke_access_session_weakens [intro, simp]: "weakens R s (revoke_access_session R j s)"
  by (rule drops_sessions_weakens) (rule revoke_access_session_drops)

lemma index_weakens [intro, simp]:
  "weakens R s (redis_srem R k m s)"
  "weakens R s (redis_delete R [user_sessions_key u, user_families_key u] s)"
  by (rule same_docs_weakens; simp add: store_simps)+

lemma weakens_step [intro]:
  "weakens R s t \<Longrightarrow> weakens R s (redis_srem R k m t)"
  "weakens R s t \<Longrightarrow> weakens R s (redis_delete R [user_sessions_key u, user_families_key u] t)"
  "weakens R s t \<Longrightarrow> weakens R s (revoke_access_session R j t)"
  by (erule weakens_trans, simp)+

lemma revoke_refresh_family_weakens:
  assumes "wf_families R s"
  shows "weakens R s (revoke_refresh_family R now f reason s)"
  using revoked_family_doc_ttl_pos [OF assms]
  by (auto simp: weakens_def revoke_refresh_family_get [OF assms] doc_simps)

lemma revoke_context_state_weakens:
  "wf_families R s \<Longrightarrow> weakens R s (revoke_context_state R now session reason s)"
  by (simp add: revoke_context_state_def Let_def revoke_refresh_family_weakens)

lemma load_active_user_weakens:
  "wf_families R s \<Longrightarrow> weakens R s (snd (load_active_user R D now h session s))"
  by (simp add: load_active_user_def revoke_context_state_weakens split: option.split)

lemma reconstruct_auth_context_weakens:
  assumes "wf_families R s"
  shows "weakens R s (snd (reconstruct_auth_context R D now session s))"
  using assms
  by (auto simp: reconstruct_auth_context_def reconstruct_project_context_def load_active_user_def
      Let_def revoke_context_state_weakens split: option.splits)

text \<open>A context that is granted changed nothing.\<close>

lemma reconstruct_auth_context_Some:
  "reconstruct_auth_context R D now session s = (Some c, s') \<Longrightarrow> s' = s"
  by (auto simp: reconstruct_auth_context_def reconstruct_project_context_def load_active_user_def Let_def
      split: option.splits if_splits)

lemma set_session_full_weakens [simp]: "weakens R s (set_session_full R c j login s)"
  by (rule same_docs_weakens) (simp_all add: set_session_full_def store_simps)

lemma tick_weakens: "weakens R s (tick n s)"
proof -
  have "get_json R (tick n s) k = get_json R s k \<or> get_json R (tick n s) k = None" for k
    by (cases "get_json R (tick n s) k") (auto dest: get_json_tick_Some)
  then show ?thesis unfolding weakens_def by (metis option.distinct(1))
qed

lemma revoke_user_auth_state_weakens:
  assumes "wf_families R s"
  shows "weakens R s (revoke_user_auth_state R now u reason s)"
proof -
  let ?s1 = "foldl (\<lambda>s j. revoke_access_session R j s) s (redis_smembers R s (user_sessions_key u))"
  let ?s2 = "foldl (\<lambda>s f. revoke_refresh_family R now f reason s) ?s1
               (redis_smembers R ?s1 (user_families_key u))"
  have 1: "weakens R s ?s1" by (rule foldl_weakens) (simp_all add: assms)
  have 2: "weakens R ?s1 ?s2"
    by (rule foldl_weakens) (simp_all add: revoke_refresh_family_weakens weakens_wf [OF 1 assms])
  from weakens_trans [OF 1 2] show ?thesis
    unfolding revoke_user_auth_state_def Let_def by (rule weakens_step)
qed

lemma losing_access_session_weakens:
  assumes "wf_families R (snd a)"
  shows "weakens R (snd a) (snd (losing_access_session R now ha ps reason u a j))"
proof -
  have "weakens R (snd a) (redis_srem R (user_sessions_key u) j (revoke_access_session R j
          (revoke_refresh_family R now f reason (snd a))))" for f
    by (intro weakens_step revoke_refresh_family_weakens [OF assms])
  moreover have "weakens R (snd a) (redis_srem R (user_sessions_key u) j (revoke_access_session R j (snd a)))"
    by (intro weakens_step weakens_refl)
  ultimately show ?thesis
    by (simp add: losing_access_session_def Let_def split: option.split)
qed

lemma revoke_project_sessions_losing_access_weakens:
  assumes "wf_families R s"
  shows "weakens R s (snd (revoke_project_sessions_losing_access R now ha us ps reason s))"
proof -
  let ?step = "\<lambda>acc u. foldl (losing_access_session R now ha ps reason u) acc
                 (redis_smembers R (snd acc) (user_sessions_key u))"
  have "weakens R (snd (empty_summary, s)) (snd (foldl ?step (empty_summary, s) (remdups us)))"
    by (rule foldl_weakens_on [where g = snd])
      (simp_all add: assms foldl_weakens_on [where g = snd] losing_access_session_weakens)
  then show ?thesis by (simp add: revoke_project_sessions_losing_access_def)
qed

lemma except_session_weakens:
  assumes "wf_families R (ex_store e)"
  shows "weakens R (ex_store e) (ex_store (except_session R now u reason cj cf e j))"
proof -
  have "weakens R (ex_store e) (redis_srem R (user_sessions_key u) j (revoke_access_session R j
          (redis_srem R (user_families_key u) f (revoke_refresh_family R now f reason (ex_store e)))))" for f
    by (intro weakens_step revoke_refresh_family_weakens [OF assms])
  moreover have "weakens R (ex_store e)
      (redis_srem R (user_sessions_key u) j (revoke_access_session R j (ex_store e)))"
    by (intro weakens_step weakens_refl)
  ultimately show ?thesis
    by (simp add: except_session_def Let_def split: option.split)
qed

lemma except_family_weakens:
  assumes "wf_families R (ex_store e)"
  shows "weakens R (ex_store e) (ex_store (except_family R now u reason cf e f))"
  using weakens_trans [OF revoke_refresh_family_weakens [OF assms] index_weakens(1)]
  by (simp add: except_family_def Let_def)

end

section \<open>Operations of the whole world\<close>

text \<open>The laws of the services a \<open>world\<close> bundles.\<close>

locale auth_world = redis_store "redis W" tick pttl + jwt_codec "jwt W"
  for W :: "('s, 't) world" and tick :: "nat \<Rightarrow> 's \<Rightarrow> 's" and pttl :: "'s \<Rightarrow> string \<Rightarrow> int option" +
  assumes access_minutes_pos: "0 < access_expire_minutes (cfg W)"
begin

lemma classify_weakens:
  "wf_families (redis W) s \<Longrightarrow> weakens (redis W) s (snd (classify_refresh_token_state W now f j s))"
  by (simp add: classify_refresh_token_state_def revoke_refresh_family_weakens split: option.split)

lemma denial_weakens:
  "wf_families (redis W) s \<Longrightarrow> weakens (redis W) s (snd (refresh_rotation_denial W now f j s))"
  using classify_weakens [of s now f j] by (auto simp: refresh_rotation_denial_def split: prod.splits)

lemma rotate_conflict_weakens:
  "wf_families (redis W) s \<Longrightarrow> weakens (redis W) s (snd (rotate_conflict W now p s))"
  using denial_weakens [of s now "plan_family_id p" "plan_refresh_jti p"]
  by (auto simp: rotate_conflict_def split: prod.splits)

lemma validate_access_session_weakens:
  assumes "wf_families (redis W) s"
  shows "weakens (redis W) s (snd (validate_access_session W D now t s))"
proof -
  have rec: "weakens (redis W) s (snd (reconstruct_auth_context (redis W) D now session s))" for session
    by (rule reconstruct_auth_context_weakens [OF assms])
  have none: "reconstruct_auth_context (redis W) D now session s = (c, s') \<Longrightarrow> weakens (redis W) s s'"
    for session c s' using rec [of session] by simp
  have some: "reconstruct_auth_context (redis W) D now session s = (c, s') \<Longrightarrow>
      weakens (redis W) s (set_session_full (redis W) (cfg W) j login s')" for session c s' j login
    using none [of session c s'] set_session_full_weakens by (rule weakens_trans)
  show ?thesis
    by (auto simp: validate_access_session_def Let_def none some split: sum.split option.split prod.split)
qed

lemma rotation_session_weakens:
  "wf_families (redis W) s \<Longrightarrow>
     weakens (redis W) s (snd (rotation_session (redis W) now f claims family j s))"
  by (auto simp: rotation_session_def Let_def revoke_refresh_family_weakens split: option.split)

lemma rotation_session_Inr: "rotation_session (redis W) now f claims family j s = (Inr x, s') \<Longrightarrow> s' = s"
  by (auto simp: rotation_session_def Let_def split: option.splits if_splits)

lemma rotate_plan_weakens:
  assumes "wf_families (redis W) s"
  shows "weakens (redis W) s (snd (rotate_plan W D now ids target t claims family tr j session s))"
proof -
  have "reconstruct_auth_context (redis W) D now session' s = (c, s') \<Longrightarrow> weakens (redis W) s s'"
    for session' c s'
    using reconstruct_auth_context_weakens [OF assms, of D now session'] by simp
  then show ?thesis by (auto simp: rotate_plan_def Let_def split: sum.split prod.split option.split)
qed

lemma rotate_prepare_weakens:
  assumes "wf_families (redis W) s"
  shows "weakens (redis W) s (snd (rotate_prepare W D now ids target t s))"
proof -
  have den: "refresh_rotation_denial W now f j s = (e, s') \<Longrightarrow> weakens (redis W) s s'" for f j e s'
    using denial_weakens [OF assms, of now f j] by simp
  have ses: "rotation_session (redis W) now f claims family j s = (x, s') \<Longrightarrow> weakens (redis W) s s'"
    for f claims family j x s'
    using rotation_session_weakens [OF assms, of now f claims family j] by simp
  have plan: "rotation_session (redis W) now f claims family j s = (Inr x, s') \<Longrightarrow>
      weakens (redis W) s (snd (rotate_plan W D now ids target t claims family tr j x s'))"
    for f claims family j x s' tr
    using rotate_plan_weakens [OF assms] by (auto dest: rotation_session_Inr)
  show ?thesis
    by (auto simp: rotate_prepare_def Let_def den ses plan split: sum.split option.split prod.split)
qed

lemma except_current_weakens:
  assumes "wf_families (redis W) s"
  shows "weakens (redis W) s
           (snd (revoke_user_auth_state_except_current W now u tok j0 f0 reason s))"
proof -
  obtain cj cf where ids: "current_session_ids (jwt W) now tok j0 f0 = (cj, cf)" by fastforce
  let ?e0 = "\<lparr>ex_summary = empty_summary, ex_revoked = [], ex_store = s\<rparr>"
  let ?e1 = "foldl (except_session (redis W) now u reason cj cf) ?e0
               (redis_smembers (redis W) s (user_sessions_key u))"
  let ?e2 = "foldl (except_family (redis W) now u reason cf) ?e1
               (redis_smembers (redis W) (ex_store ?e1) (user_families_key u))"
  have 1: "weakens (redis W) (ex_store ?e0) (ex_store ?e1)"
    by (rule foldl_weakens_on [where g = ex_store]) (simp_all add: except_session_weakens assms)
  have "wf_families (redis W) (ex_store ?e1)" using weakens_wf [OF 1] assms by simp
  then have 2: "weakens (redis W) (ex_store ?e1) (ex_store ?e2)"
    by (intro foldl_weakens_on [where g = ex_store]) (simp_all add: except_family_weakens)
  from weakens_trans [OF 1 2] show ?thesis
    by (simp add: revoke_user_auth_state_except_current_def ids Let_def
        revoke_user_auth_state_weakens assms)
qed

end

end
