(* ===== verification/Lifecycle_Steps.thy ===== *)
theory Lifecycle_Steps
  imports Lifecycle_Weaken
begin

text \<open>
  The lifecycle as a state machine. A state is the Redis store, the rotations that have
  been prepared and not yet committed, the random identifiers drawn so far and, as a
  history, the refresh tokens that were exchanged for a new pair. A step is one request
  (or one part of a rotation), in any order, or the passage of time. The invariant makes
  two guarantees of the code provable for every interleaving: a refresh token is exchanged
  at most once, and a dead family never comes back.
\<close>

section \<open>What issuing and committing write\<close>

definition ids_ok :: "uuids \<Rightarrow> bool" where
  "ids_ok ids \<longleftrightarrow> new_family_id ids \<noteq> [] \<and> new_session_id ids \<noteq> [] \<and>
     new_access_jti ids \<noteq> [] \<and> new_refresh_jti ids \<noteq> []"

definition ids_set :: "uuids \<Rightarrow> string set" where
  "ids_set ids = {new_family_id ids, new_session_id ids, new_access_jti ids, new_refresh_jti ids}"

definition fresh_ids :: "uuids \<Rightarrow> string set \<Rightarrow> bool" where
  "fresh_ids ids used \<longleftrightarrow> ids_ok ids \<and> ids_set ids \<inter> used = {}"

definition plan_new_refresh :: "'t rotation_plan \<Rightarrow> string" where
  "plan_new_refresh p = py_str (dget (refresh_claims (plan_pair p)) ''jti'')"

definition plan_new_access :: "'t rotation_plan \<Rightarrow> string" where
  "plan_new_access p = py_str (dget (access_claims (plan_pair p)) ''jti'')"

lemma effective_refresh_ttl_None [simp]:
  "effective_refresh_ttl None r =
     (if r then REMEMBER_ME_REFRESH_TTL_SECONDS else REFRESH_FAMILY_TTL_SECONDS)"
  by (simp add: effective_refresh_ttl_def)

lemma issue_token_pair_cases:
  assumes "issue_token_pair W now ids user scope col proj ps gs gis rm ttl s = (r, s')"
  obtains (refused) e where "r = Inl e" and "s' = s"
    | (issued) ac rc where
        "decode_access_token (jwt W) now (issue_access_token W now ids user scope col) = Inr ac"
        "decode_refresh_token (jwt W) now
           (issue_refresh_token W now ids user scope col (effective_refresh_ttl ttl rm)) = Inr rc"
        "r = Inr \<lparr>access_token = issue_access_token W now ids user scope col,
           refresh_token = issue_refresh_token W now ids user scope col (effective_refresh_ttl ttl rm),
           token_type = TOKEN_TYPE_BEARER, expires_in = access_expire_minutes (cfg W) * 60,
           refresh_expires_in = effective_refresh_ttl ttl rm,
           expires_at = now + access_expire_minutes (cfg W) * 60 * us_per_second,
           refresh_expires_at = compute_refresh_expires_at now (effective_refresh_ttl ttl rm),
           pair_remember_me = rm, access_claims = ac, refresh_claims = rc,
           cookie_metadata = build_cookie_metadata (cfg W) (effective_refresh_ttl ttl rm)\<rparr>"
        "s' = store_issued (redis W) (cfg W) ids (py_str (dget user ''id''))
           (issue_session_payload (cfg W) now ids user scope col
             (case proj of Some p \<Rightarrow> p | None \<Rightarrow> Map.empty) ps gs gis rm (effective_refresh_ttl ttl rm))
           (issue_family_payload now ids user scope (case proj of Some p \<Rightarrow> p | None \<Rightarrow> Map.empty) rm
             (effective_refresh_ttl ttl rm))
           (issue_refresh_record now ids user
             (hash_refresh_token W (issue_refresh_token W now ids user scope col (effective_refresh_ttl ttl rm)))
             rm (effective_refresh_ttl ttl rm))
           (build_refresh_anchor_payload
             (issue_session_payload (cfg W) now ids user scope col
               (case proj of Some p \<Rightarrow> p | None \<Rightarrow> Map.empty) ps gs gis rm (effective_refresh_ttl ttl rm))
             (issue_family_payload now ids user scope (case proj of Some p \<Rightarrow> p | None \<Rightarrow> Map.empty) rm
               (effective_refresh_ttl ttl rm)))
           (effective_refresh_ttl ttl rm) s"
  using assms unfolding issue_token_pair_def Let_def
  by (auto split: sum.splits)

lemma issue_family_ttl_pos:
  "0 < ttl \<Longrightarrow> ttl_pos (issue_family_payload now ids user scope proj rm ttl)"
  by (simp add: ttl_pos_def issue_family_payload_def)

lemma rotated_expiry_pos:
  "rotated_expiry now family rm = Inr (ttl, e, ab) \<Longrightarrow> ttl_pos family \<Longrightarrow>
     (truthy (dget family ''remember_me'') \<Longrightarrow> rm) \<Longrightarrow> 0 < ttl"
  by (auto simp: rotated_expiry_def ttl_pos_def Let_def split: if_splits option.splits)

lemma rotated_family_ttl_pos:
  "0 < ttl \<Longrightarrow> ttl_pos (rotated_family now ids family session scope rm ttl e ab)"
  by (simp add: ttl_pos_def rotated_family_def)

context redis_store
begin

lemma store_issued_docs:
  assumes "0 < access_expire_minutes c" and "0 < ttl"
  shows "get_json R (store_issued R c ids u session family token anchor ttl s) (token_key j) =
           (if j = new_refresh_jti ids then Some token else get_json R s (token_key j))"
    and "get_json R (store_issued R c ids u session family token anchor ttl s) (family_key f) =
           (if f = new_family_id ids then Some family else get_json R s (family_key f))"
    and "get_json R (store_issued R c ids u session family token anchor ttl s) (session_key k) =
           (if k = new_access_jti ids then Some session else get_json R s (session_key k))"
    and "get_json R (store_issued R c ids u session family token anchor ttl s) (anchor_key f) =
           (if f = new_family_id ids then Some anchor else get_json R s (anchor_key f))"
    and "redis_get R (store_issued R c ids u session family token anchor ttl s) (revoked_key f) =
           redis_get R s (revoked_key f)"
    and "get_json R (store_issued R c ids u session family token anchor ttl s) (session_full_key k) =
           get_json R s (session_full_key k)"
  using assms by (simp_all add: store_issued_def Let_def store_simps)

lemma rotate_writes_docs:
  assumes "0 < refresh_expires_in (plan_pair p)" and "0 < expires_in (plan_pair p)"
  shows "get_json R (rotate_writes R p s) (token_key j) =
           (if j = plan_new_refresh p then Some (plan_refresh_record p)
            else if j = plan_refresh_jti p then Some (plan_old_token_record p)
            else get_json R s (token_key j))"
    and "get_json R (rotate_writes R p s) (family_key f) =
           (if f = plan_family_id p then Some (plan_family p) else get_json R s (family_key f))"
    and "get_json R (rotate_writes R p s) (session_key k) =
           (if k = plan_old_access_jti p then None
            else if k = plan_new_access p then Some (plan_session p)
            else get_json R s (session_key k))"
    and "get_json R (rotate_writes R p s) (anchor_key f) =
           (if f = plan_family_id p then Some (plan_anchor p) else get_json R s (anchor_key f))"
    and "redis_get R (rotate_writes R p s) (revoked_key f) = redis_get R s (revoked_key f)"
    and "get_json R (rotate_writes R p s) (session_full_key k) =
           (if k = plan_old_access_jti p then None else get_json R s (session_full_key k))"
  using assms
  by (simp_all add: rotate_writes_def Let_def store_simps plan_new_refresh_def plan_new_access_def)

end

section \<open>What a prepared rotation holds\<close>

lemma rotate_plan_Inr:
  assumes "rotate_plan W D now ids target t claims family tr j session s = (Inr p, s')"
  obtains ctx where "require_refresh_claim_session_match claims family session = Inr ()"
    and "reconstruct_auth_context (redis W) D now (switch_project target session) s = (Some ctx, s')"
    and "build_rotated_pair W now ids claims (switch_project target session) family ctx =
           Inr (plan_pair p, plan_session p, plan_family p, plan_refresh_record p)"
    and "plan_refresh_jti p = py_str (dget claims ''jti'')"
    and "plan_family_id p = py_str (dget claims ''family_id'')"
    and "plan_token_hash p = hash_refresh_token W t"
    and "plan_old_access_jti p = j"
    and "plan_old_token_record p = tr(''status'' \<mapsto> JStr ''used'', ''used_at'' \<mapsto> JTime now,
           ''child_jti'' \<mapsto> dget (refresh_claims (plan_pair p)) ''jti'')"
    and "plan_anchor p = build_refresh_anchor_payload (plan_session p) (plan_family p)"
    and "plan_context p = ctx"
  using assms unfolding rotate_plan_def Let_def
  by (auto split: sum.splits prod.splits option.splits)

lemma rotate_prepare_Inr:
  assumes "rotate_prepare W D now ids target t s = (Inr p, s')"
  obtains claims family tr j session s1 where
      "decode_refresh_token (jwt W) now t = Inr claims"
    and "get_json (redis W) s (family_key (py_str (dget claims ''family_id''))) = Some family"
    and "get_json (redis W) s (token_key (py_str (dget claims ''jti''))) = Some tr"
    and "family \<noteq> Map.empty" and "tr \<noteq> Map.empty"
    and "dget family ''status'' = JStr ''active''"
    and "\<not> is_refresh_family_revoked (redis W) s (py_str (dget claims ''family_id''))"
    and "dget tr ''token_hash'' = JStr (hash_refresh_token W t)"
    and "dget family ''current_refresh_jti'' = JStr (py_str (dget claims ''jti''))"
    and "dget tr ''status'' = JStr ''current''"
    and "j = py_str (py_or (dget family ''current_access_jti'') (JStr []))"
    and "rotation_session (redis W) now (py_str (dget claims ''family_id'')) claims family j s =
           (Inr session, s1)"
    and "rotate_plan W D now ids target t claims family tr j session s1 = (Inr p, s')"
  using assms unfolding rotate_prepare_def Let_def
  by (auto split: sum.splits prod.splits option.splits if_splits)

context auth_world
begin

lemma build_rotated_pair_Inr:
  assumes "build_rotated_pair W now ids claims session family ctx = Inr (pair, session', family', rec')"
  obtains ttl e ab scope rm col where
      "rm = (truthy (dget family ''remember_me'') \<or> truthy (dget session ''remember_me''))"
    and "scope = py_str (py_or (dget session ''scope'') (py_or (dget claims ''scope'') (JStr AUTH_SCOPE_PROJECT)))"
    and "col = (if scope = AUTH_SCOPE_PLATFORM then JStr PLATFORM_COLLECTION_SENTINEL
                else py_or (dget session ''project_hash'') (dget session ''collection''))"
    and "rotated_expiry now family rm = Inr (ttl, e, ab)"
    and "session' = rotated_session (cfg W) now ids claims session family ctx scope col rm ttl ab"
    and "family' = rotated_family now ids family session' scope rm ttl e ab"
    and "rec' = rotated_refresh_record now ids claims session' (hash_refresh_token W (refresh_token pair)) rm ttl e ab"
    and "refresh_expires_in pair = ttl" and "expires_in pair = access_expire_minutes (cfg W) * 60"
    and "refresh_expires_at pair = e" and "pair_remember_me pair = rm"
    and "access_token pair = create_access_token (jwt W) (cfg W) now (JStr (py_str (dget claims ''session_id'')))
           (JStr (py_str (dget session ''user_hash''))) col None (Some scope) (Some (new_access_jti ids))
           (Some (py_str (dget claims ''family_id'')))
           (py_int (py_or (dget family ''auth_time'') (dget session ''auth_time''))) [] []"
    and "refresh_token pair = create_refresh_token (jwt W) now (JStr (py_str (dget claims ''session_id'')))
           (JStr (py_str (dget session ''user_hash''))) col (Some (ttl * us_per_second)) (Some scope)
           (Some (new_refresh_jti ids)) (Some (py_str (dget claims ''family_id''))) [] []"
    and "decode_access_token (jwt W) now (access_token pair) = Inr (access_claims pair)"
    and "decode_refresh_token (jwt W) now (refresh_token pair) = Inr (refresh_claims pair)"
  using assms unfolding build_rotated_pair_def Let_def
  by (auto split: sum.splits prod.splits)

text \<open>The claims of a rotated pair are those of the payloads that were signed.\<close>

lemma build_rotated_pair_claims:
  assumes "build_rotated_pair W now ids claims session family ctx = Inr (pair, session', family', rec')"
    and "ids_ok ids"
  shows "dget (refresh_claims pair) ''jti'' = JStr (new_refresh_jti ids)"
    and "dget (access_claims pair) ''jti'' = JStr (new_access_jti ids)"
    and "dget (access_claims pair) ''auth_time'' =
           (case py_int (py_or (dget family ''auth_time'') (dget session ''auth_time'')) of
              None \<Rightarrow> JNull | Some t \<Rightarrow> JInt t)"
proof -
  from assms(1) obtain ttl e ab scope rm col where
      at: "access_token pair = create_access_token (jwt W) (cfg W) now (JStr (py_str (dget claims ''session_id'')))
           (JStr (py_str (dget session ''user_hash''))) col None (Some scope) (Some (new_access_jti ids))
           (Some (py_str (dget claims ''family_id'')))
           (py_int (py_or (dget family ''auth_time'') (dget session ''auth_time''))) [] []"
    and rt: "refresh_token pair = create_refresh_token (jwt W) now (JStr (py_str (dget claims ''session_id'')))
           (JStr (py_str (dget session ''user_hash''))) col (Some (ttl * us_per_second)) (Some scope)
           (Some (new_refresh_jti ids)) (Some (py_str (dget claims ''family_id''))) [] []"
    and da: "decode_access_token (jwt W) now (access_token pair) = Inr (access_claims pair)"
    and dr: "decode_refresh_token (jwt W) now (refresh_token pair) = Inr (refresh_claims pair)"
    by (rule build_rotated_pair_Inr)
  from decode_own_refresh [OF dr [unfolded rt]] decode_own_access [OF da [unfolded at]] assms(2)
  show "dget (refresh_claims pair) ''jti'' = JStr (new_refresh_jti ids)"
    and "dget (access_claims pair) ''jti'' = JStr (new_access_jti ids)"
    and "dget (access_claims pair) ''auth_time'' =
           (case py_int (py_or (dget family ''auth_time'') (dget session ''auth_time'')) of
              None \<Rightarrow> JNull | Some t \<Rightarrow> JInt t)"
    by (simp_all add: doc_simps ids_ok_def)
qed

text \<open>Everything the state machine needs to know of a prepared rotation.\<close>

lemma rotate_prepare_plan:
  assumes prep: "rotate_prepare W D now ids target t s = (Inr p, s')"
    and wf: "wf_families (redis W) s" and ids: "ids_ok ids"
  shows "s' = s"
    and "plan_new_refresh p = new_refresh_jti ids" and "plan_new_access p = new_access_jti ids"
    and "dget (plan_old_token_record p) ''status'' = JStr ''used''"
    and "0 < refresh_expires_in (plan_pair p)" and "0 < expires_in (plan_pair p)"
    and "ttl_pos (plan_family p)"
    and "\<exists>d. get_json (redis W) s (family_key (plan_family_id p)) = Some d \<and> dget d ''status'' = JStr ''active''"
proof -
  from prep obtain claims family tr j session s1 where
      fam: "get_json (redis W) s (family_key (py_str (dget claims ''family_id''))) = Some family"
    and act: "dget family ''status'' = JStr ''active''"
    and ses: "rotation_session (redis W) now (py_str (dget claims ''family_id'')) claims family j s = (Inr session, s1)"
    and pl: "rotate_plan W D now ids target t claims family tr j session s1 = (Inr p, s')"
    by (rule rotate_prepare_Inr)
  from pl obtain ctx where
      rac: "reconstruct_auth_context (redis W) D now (switch_project target session) s1 = (Some ctx, s')"
    and bld: "build_rotated_pair W now ids claims (switch_project target session) family ctx =
           Inr (plan_pair p, plan_session p, plan_family p, plan_refresh_record p)"
    and fid: "plan_family_id p = py_str (dget claims ''family_id'')"
    and old: "plan_old_token_record p = tr(''status'' \<mapsto> JStr ''used'', ''used_at'' \<mapsto> JTime now,
           ''child_jti'' \<mapsto> dget (refresh_claims (plan_pair p)) ''jti'')"
    by (rule rotate_plan_Inr)
  show "s' = s" using rotation_session_Inr [OF ses] reconstruct_auth_context_Some [OF rac] by simp
  show "plan_new_refresh p = new_refresh_jti ids" "plan_new_access p = new_access_jti ids"
    using build_rotated_pair_claims [OF bld ids] by (simp_all add: plan_new_refresh_def plan_new_access_def)
  show "dget (plan_old_token_record p) ''status'' = JStr ''used''" using old by simp
  from bld obtain ttl e ab scope rm where
      rm: "rm = (truthy (dget family ''remember_me'') \<or>
             truthy (dget (switch_project target session) ''remember_me''))"
    and ex: "rotated_expiry now family rm = Inr (ttl, e, ab)"
    and fam': "plan_family p = rotated_family now ids family (plan_session p) scope rm ttl e ab"
    and ttl: "refresh_expires_in (plan_pair p) = ttl"
    and ein: "expires_in (plan_pair p) = access_expire_minutes (cfg W) * 60"
    by (rule build_rotated_pair_Inr)
  have "ttl_pos family" using wf fam by (auto simp: wf_families_def)
  with ex rm have "0 < ttl" by (auto intro: rotated_expiry_pos)
  then show "0 < refresh_expires_in (plan_pair p)" "ttl_pos (plan_family p)"
    using ttl fam' by (simp_all add: rotated_family_ttl_pos)
  show "0 < expires_in (plan_pair p)" using ein access_minutes_pos by simp
  show "\<exists>d. get_json (redis W) s (family_key (plan_family_id p)) = Some d \<and> dget d ''status'' = JStr ''active''"
    using fam act fid by simp
qed

end

end
