(* ===== verification/Lifecycle_Machine.thy ===== *)
theory Lifecycle_Machine
  imports Lifecycle_Steps
begin

text \<open>
  The token lifecycle as a state machine. A state is the Redis store, the rotations that
  have been prepared and not yet committed, the random identifiers drawn so far and, as a
  history, the refresh tokens that were exchanged for a new pair. A step is one request
  (a rotation is two: everything before its Redis transaction, and the transaction), in any
  order and with any clock reading and any database answers, or the passage of time on the
  Redis server. The invariant yields, for every interleaving, that a refresh token is
  exchanged at most once and that a dead family never comes back.
\<close>

section \<open>States and steps\<close>

record ('s, 't) sys =
  store :: 's
  pending :: "'t rotation_plan set"
  used_ids :: "string set"
  rotated :: "string list"

inductive lifecycle_step ::
    "('s, 't) world \<Rightarrow> (nat \<Rightarrow> 's \<Rightarrow> 's) \<Rightarrow> ('s, 't) sys \<Rightarrow> ('s, 't) sys \<Rightarrow> bool"
  for W tick where
  issue_project:
    "fresh_ids ids (used_ids x) \<Longrightarrow>
     issue_project_token_pair W now ids user project ps gs gis rm (store x) = (r, s') \<Longrightarrow>
     lifecycle_step W tick x (x\<lparr>store := s', used_ids := used_ids x \<union> ids_set ids\<rparr>)"
| issue_platform:
    "fresh_ids ids (used_ids x) \<Longrightarrow>
     issue_platform_token_pair W now ids user ps gs rm (store x) = (r', s') \<Longrightarrow>
     lifecycle_step W tick x (x\<lparr>store := s', used_ids := used_ids x \<union> ids_set ids\<rparr>)"
| validate:
    "validate_access_session W D now t (store x) = (v, s') \<Longrightarrow>
     lifecycle_step W tick x (x\<lparr>store := s'\<rparr>)"
| prepare:
    "fresh_ids ids (used_ids x) \<Longrightarrow>
     rotate_prepare W D now ids target t (store x) = (Inr p, s') \<Longrightarrow>
     lifecycle_step W tick x
       (x\<lparr>store := s', pending := insert p (pending x), used_ids := used_ids x \<union> ids_set ids\<rparr>)"
| prepare_denied:
    "rotate_prepare W D now ids target t (store x) = (Inl e, s') \<Longrightarrow>
     lifecycle_step W tick x (x\<lparr>store := s'\<rparr>)"
| commit:
    "p \<in> pending x \<Longrightarrow> rotate_commit W now p (store x) = (Inr rot, s') \<Longrightarrow>
     lifecycle_step W tick x
       (x\<lparr>store := s', pending := pending x - {p}, rotated := plan_refresh_jti p # rotated x\<rparr>)"
| commit_denied:
    "p \<in> pending x \<Longrightarrow> rotate_commit W now p (store x) = (Inl e, s') \<Longrightarrow>
     lifecycle_step W tick x (x\<lparr>store := s', pending := pending x - {p}\<rparr>)"
| watch_conflict:
    "p \<in> pending x \<Longrightarrow> rotate_conflict W now p (store x) = (c, s') \<Longrightarrow>
     lifecycle_step W tick x (x\<lparr>store := s', pending := pending x - {p}\<rparr>)"
| revoke_family:
    "lifecycle_step W tick x (x\<lparr>store := revoke_refresh_family (redis W) now f reason (store x)\<rparr>)"
| revoke_access:
    "lifecycle_step W tick x (x\<lparr>store := revoke_access_session (redis W) j (store x)\<rparr>)"
| revoke_user:
    "lifecycle_step W tick x (x\<lparr>store := revoke_user_auth_state (redis W) now u reason (store x)\<rparr>)"
| revoke_except:
    "revoke_user_auth_state_except_current W now u tok j0 f0 reason (store x) = (sm, s') \<Longrightarrow>
     lifecycle_step W tick x (x\<lparr>store := s'\<rparr>)"
| losing_access:
    "revoke_project_sessions_losing_access (redis W) now ha us pids reason (store x) = (sm, s') \<Longrightarrow>
     lifecycle_step W tick x (x\<lparr>store := s'\<rparr>)"
| elapse:
    "lifecycle_step W tick x (x\<lparr>store := tick n (store x)\<rparr>)"

definition lifecycle_reach ::
    "('s, 't) world \<Rightarrow> (nat \<Rightarrow> 's \<Rightarrow> 's) \<Rightarrow> ('s, 't) sys \<Rightarrow> ('s, 't) sys \<Rightarrow> bool" where
  "lifecycle_reach W tick = (lifecycle_step W tick)\<^sup>*\<^sup>*"

lemma lifecycle_reach_refl: "lifecycle_reach W tick x x"
  by (simp add: lifecycle_reach_def)

lemma lifecycle_reach_step:
  "lifecycle_reach W tick x y \<Longrightarrow> lifecycle_step W tick y z \<Longrightarrow> lifecycle_reach W tick x z"
  unfolding lifecycle_reach_def by (rule rtranclp.rtrancl_into_rtrancl)

text \<open>A server that holds no refresh family and no refresh token yet.\<close>

definition lifecycle_init :: "('s, 't) world \<Rightarrow> ('s, 't) sys \<Rightarrow> bool" where
  "lifecycle_init W x \<longleftrightarrow>
     (\<forall>f. get_json (redis W) (store x) (family_key f) = None) \<and>
     (\<forall>j. get_json (redis W) (store x) (token_key j) = None) \<and>
     pending x = {} \<and> used_ids x = {} \<and> rotated x = []"

section \<open>Four kinds of step\<close>

text \<open>
  What the invariants need of a step: it weakens the store, it issues a pair, it prepares a
  rotation, or it commits one.
\<close>

inductive step_kind :: "('s, 't) world \<Rightarrow> ('s, 't) sys \<Rightarrow> ('s, 't) sys \<Rightarrow> bool" for W where
  weakening:
    "weakens (redis W) (store x) (store y) \<Longrightarrow> pending y \<subseteq> pending x \<Longrightarrow> used_ids x \<subseteq> used_ids y \<Longrightarrow>
     rotated y = rotated x \<Longrightarrow> step_kind W x y"
| issuing:
    "fresh_ids ids (used_ids x) \<Longrightarrow> 0 < ttl \<Longrightarrow> ttl_pos family \<Longrightarrow>
     store y = store_issued (redis W) (cfg W) ids u session family token anchor ttl (store x) \<Longrightarrow>
     pending y = pending x \<Longrightarrow> used_ids y = used_ids x \<union> ids_set ids \<Longrightarrow> rotated y = rotated x \<Longrightarrow>
     step_kind W x y"
| preparing:
    "fresh_ids ids (used_ids x) \<Longrightarrow>
     rotate_prepare W D now ids target t (store x) = (Inr p, store y) \<Longrightarrow>
     pending y = insert p (pending x) \<Longrightarrow> used_ids y = used_ids x \<union> ids_set ids \<Longrightarrow>
     rotated y = rotated x \<Longrightarrow> step_kind W x y"
| committing:
    "p \<in> pending x \<Longrightarrow> rotate_guard (redis W) p (store x) \<Longrightarrow>
     store y = rotate_writes (redis W) p (store x) \<Longrightarrow> pending y = pending x - {p} \<Longrightarrow>
     used_ids y = used_ids x \<Longrightarrow> rotated y = plan_refresh_jti p # rotated x \<Longrightarrow> step_kind W x y"

inductive_cases step_kindE [consumes 1, case_names weakening issuing preparing committing]:
  "step_kind W x y"

lemma effective_refresh_ttl_pos [simp]: "0 < effective_refresh_ttl None rm"
  by simp

lemma rotate_commit_cases:
  "rotate_commit W now p s = (Inr rot, s') \<Longrightarrow> rotate_guard (redis W) p s \<and> s' = rotate_writes (redis W) p s"
  "rotate_commit W now p s = (Inl e, s') \<Longrightarrow> s' = snd (rotate_conflict W now p s)"
  by (auto simp: rotate_commit_def rotate_conflict_def split: if_splits prod.splits)

lemma issue_step_kind:
  assumes "issue_token_pair W now ids user scope col proj ps gs gis rm None (store x) = (r, s')"
    and fresh: "fresh_ids ids (used_ids x)"
  shows "step_kind W x (x\<lparr>store := s', used_ids := used_ids x \<union> ids_set ids\<rparr>)"
  using assms(1)
proof (cases rule: issue_token_pair_cases)
  case refused
  then show ?thesis by (auto intro!: step_kind.weakening)
next
  case issued
  then show ?thesis
    by (auto intro!: step_kind.issuing [OF fresh] issue_family_ttl_pos effective_refresh_ttl_pos)
qed

context auth_world
begin

lemma step_kind:
  assumes "lifecycle_step W tick x y" and wf: "wf_families (redis W) (store x)"
  shows "step_kind W x y"
  using assms(1)
proof cases
  case issue_project
  then show ?thesis by (simp add: issue_project_token_pair_def issue_step_kind)
next
  case issue_platform
  then show ?thesis by (simp add: issue_platform_token_pair_def issue_step_kind)
next
  case (validate D now t v s')
  then show ?thesis
    using validate_access_session_weakens [OF wf, of D now t] by (auto intro: step_kind.weakening)
next
  case (prepare ids D now target t p s')
  show ?thesis by (rule step_kind.preparing [OF prepare(2)]) (use prepare in simp_all)
next
  case (prepare_denied D now ids target t e s')
  then show ?thesis
    using rotate_prepare_weakens [OF wf, of D now ids target t] by (auto intro: step_kind.weakening)
next
  case (commit p now rot s')
  show ?thesis
    by (rule step_kind.committing [of p]) (use commit rotate_commit_cases(1) [OF commit(3)] in simp_all)
next
  case (commit_denied p now e s')
  then show ?thesis
    using rotate_conflict_weakens [OF wf, of now p] rotate_commit_cases(2) [OF commit_denied(3)]
    by (auto intro: step_kind.weakening)
next
  case (watch_conflict p now c s')
  then show ?thesis
    using rotate_conflict_weakens [OF wf, of now p] by (auto intro: step_kind.weakening)
next
  case (revoke_family now f reason)
  then show ?thesis
    using revoke_refresh_family_weakens [OF wf] by (auto intro: step_kind.weakening)
next
  case (revoke_access j)
  then show ?thesis by (auto intro: step_kind.weakening)
next
  case (revoke_user now u reason)
  then show ?thesis
    using revoke_user_auth_state_weakens [OF wf] by (auto intro: step_kind.weakening)
next
  case (revoke_except now u tok j0 f0 reason sm s')
  then show ?thesis
    using except_current_weakens [OF wf, of now u tok j0 f0 reason] by (auto intro: step_kind.weakening)
next
  case (losing_access now ha us pids reason sm s')
  then show ?thesis
    using revoke_project_sessions_losing_access_weakens [OF wf, of now ha us pids reason]
    by (auto intro: step_kind.weakening)
next
  case (elapse n)
  then show ?thesis using tick_weakens by (auto intro: step_kind.weakening)
qed

end

section \<open>The invariant\<close>

text \<open>A prepared rotation: its new identifiers are drawn and nothing is stored for them yet.\<close>

definition plan_ok :: "('s, 't) world \<Rightarrow> ('s, 't) sys \<Rightarrow> 't rotation_plan \<Rightarrow> bool" where
  "plan_ok W x p \<longleftrightarrow>
     dget (plan_old_token_record p) ''status'' = JStr ''used'' \<and>
     0 < refresh_expires_in (plan_pair p) \<and> 0 < expires_in (plan_pair p) \<and>
     ttl_pos (plan_family p) \<and> plan_new_refresh p \<in> used_ids x \<and>
     plan_new_refresh p \<notin> set (rotated x) \<and>
     get_json (redis W) (store x) (token_key (plan_new_refresh p)) = None"

definition lifecycle_inv :: "('s, 't) world \<Rightarrow> ('s, 't) sys \<Rightarrow> bool" where
  "lifecycle_inv W x \<longleftrightarrow>
     wf_families (redis W) (store x) \<and>
     (\<forall>p \<in> pending x. plan_ok W x p) \<and> inj_on plan_new_refresh (pending x) \<and>
     (\<forall>j d. get_json (redis W) (store x) (token_key j) = Some d \<longrightarrow> j \<in> used_ids x) \<and>
     (\<forall>j \<in> set (rotated x). j \<in> used_ids x \<and> token_consumed (redis W) (store x) j) \<and>
     distinct (rotated x)"

lemma lifecycle_inv_init: "lifecycle_init W x \<Longrightarrow> lifecycle_inv W x"
  by (simp add: lifecycle_init_def lifecycle_inv_def wf_families_def)

lemma rotate_guard_docs:
  assumes "rotate_guard R p s"
  obtains family tr where "get_json R s (family_key (plan_family_id p)) = Some family"
    and "dget family ''status'' = JStr ''active''"
    and "redis_get R s (revoked_key (plan_family_id p)) = None"
    and "dget family ''current_refresh_jti'' = JStr (plan_refresh_jti p)"
    and "get_json R s (token_key (plan_refresh_jti p)) = Some tr"
    and "dget tr ''status'' = JStr ''current''"
  using assms by (auto simp: rotate_guard_def split: option.splits)

lemma inv_weakening:
  assumes inv: "lifecycle_inv W x" and w: "weakens (redis W) (store x) (store y)"
    and eq: "pending y \<subseteq> pending x" "used_ids x \<subseteq> used_ids y" "rotated y = rotated x"
  shows "lifecycle_inv W y"
  using inv eq
  by (auto simp: lifecycle_inv_def plan_ok_def subset_iff inj_on_def
      dest: weakens_wf [OF w] weakens_token_consumed [OF w] weakens_token_None [OF w] weakens_token_Some [OF w])

context auth_world
begin

lemma inv_issuing:
  assumes inv: "lifecycle_inv W x" and fresh: "fresh_ids ids (used_ids x)"
    and pos: "0 < ttl" "ttl_pos family"
    and st: "store y = store_issued (redis W) (cfg W) ids u session family token anchor ttl (store x)"
    and eq: "pending y = pending x" "used_ids y = used_ids x \<union> ids_set ids" "rotated y = rotated x"
  shows "lifecycle_inv W y"
proof -
  note docs = store_issued_docs [OF access_minutes_pos pos(1)]
  have new: "new_refresh_jti ids \<notin> used_ids x" and ins: "new_refresh_jti ids \<in> ids_set ids"
    using fresh by (auto simp: fresh_ids_def ids_set_def)
  have "wf_families (redis W) (store y)"
    using inv pos by (auto simp: lifecycle_inv_def wf_families_def st docs)
  moreover have "\<forall>p \<in> pending y. plan_ok W y p"
    using inv new by (auto simp: lifecycle_inv_def plan_ok_def st docs eq)
  moreover have "\<forall>j \<in> set (rotated y). j \<in> used_ids y \<and> token_consumed (redis W) (store y) j"
    using inv new by (auto simp: lifecycle_inv_def token_consumed_def st docs eq)
  ultimately show ?thesis
    using inv ins by (auto simp: lifecycle_inv_def st docs eq split: if_splits)
qed

lemma inv_preparing:
  assumes inv: "lifecycle_inv W x" and fresh: "fresh_ids ids (used_ids x)"
    and prep: "rotate_prepare W D now ids target t (store x) = (Inr p, store y)"
    and eq: "pending y = insert p (pending x)" "used_ids y = used_ids x \<union> ids_set ids"
      "rotated y = rotated x"
  shows "lifecycle_inv W y"
proof -
  have wf: "wf_families (redis W) (store x)" and ids: "ids_ok ids"
    using inv fresh by (simp_all add: lifecycle_inv_def fresh_ids_def)
  note plan = rotate_prepare_plan [OF prep wf ids]
  have new: "plan_new_refresh p \<in> ids_set ids" "plan_new_refresh p \<notin> used_ids x"
    using fresh plan(2) by (auto simp: fresh_ids_def ids_set_def)
  have "plan_ok W y p"
    using inv new plan by (auto simp: plan_ok_def lifecycle_inv_def eq)
  moreover have "\<forall>q \<in> pending x. plan_ok W y q"
    using inv plan(1) by (auto simp: plan_ok_def lifecycle_inv_def eq)
  moreover have "inj_on plan_new_refresh (pending y)"
    using inv new unfolding lifecycle_inv_def plan_ok_def eq inj_on_insert by force
  ultimately show ?thesis using inv plan(1) by (auto simp: lifecycle_inv_def eq)
qed

lemma inv_committing:
  assumes inv: "lifecycle_inv W x" and p: "p \<in> pending x"
    and guard: "rotate_guard (redis W) p (store x)"
    and st: "store y = rotate_writes (redis W) p (store x)"
    and eq: "pending y = pending x - {p}" "used_ids y = used_ids x"
      "rotated y = plan_refresh_jti p # rotated x"
  shows "lifecycle_inv W y"
proof -
  from guard obtain tr where tr: "get_json (redis W) (store x) (token_key (plan_refresh_jti p)) = Some tr"
    and cur: "dget tr ''status'' = JStr ''current''"
    by (rule rotate_guard_docs)
  have ok: "plan_ok W x p" using inv p by (simp add: lifecycle_inv_def)
  then have pos: "0 < refresh_expires_in (plan_pair p)" "0 < expires_in (plan_pair p)"
    by (simp_all add: plan_ok_def)
  note docs = rotate_writes_docs [OF pos, where s = "store x", folded st]
  have fresh_old: "plan_refresh_jti p \<notin> set (rotated x)"
    using inv tr cur by (auto simp: lifecycle_inv_def token_consumed_def)
  have old_used: "plan_refresh_jti p \<in> used_ids x" using inv tr by (auto simp: lifecycle_inv_def)
  have neq: "plan_refresh_jti p \<noteq> plan_new_refresh q" if "q \<in> pending x" for q
    using inv that tr by (auto simp: lifecycle_inv_def plan_ok_def)
  have other: "plan_new_refresh q \<noteq> plan_new_refresh p" if "q \<in> pending y" for q
    using inv that p by (auto simp: lifecycle_inv_def eq inj_on_def)
  have "wf_families (redis W) (store y)"
    using inv ok by (auto simp: lifecycle_inv_def wf_families_def plan_ok_def docs)
  moreover have "\<forall>q \<in> pending y. plan_ok W y q"
    using inv neq other by (fastforce simp: lifecycle_inv_def plan_ok_def docs eq)
  moreover have "\<forall>j \<in> set (rotated y). j \<in> used_ids y \<and> token_consumed (redis W) (store y) j"
    using inv ok old_used neq [OF p]
    by (auto simp: lifecycle_inv_def token_consumed_def plan_ok_def docs eq)
  moreover have "inj_on plan_new_refresh (pending y)"
    using inv by (auto simp: lifecycle_inv_def eq inj_on_def)
  ultimately show ?thesis
    using inv ok fresh_old old_used
    by (auto simp: lifecycle_inv_def docs eq plan_ok_def split: if_splits)
qed

lemma lifecycle_inv_step:
  assumes "lifecycle_step W tick x y" and inv: "lifecycle_inv W x"
  shows "lifecycle_inv W y"
proof -
  have "wf_families (redis W) (store x)" using inv by (simp add: lifecycle_inv_def)
  with assms(1) have "step_kind W x y" by (rule step_kind)
  then show ?thesis
  proof cases
    case weakening
    then show ?thesis by (rule inv_weakening [OF inv])
  next
    case issuing
    then show ?thesis by (rule inv_issuing [OF inv])
  next
    case preparing
    then show ?thesis by (rule inv_preparing [OF inv])
  next
    case committing
    then show ?thesis by (rule inv_committing [OF inv])
  qed
qed

lemma lifecycle_inv_reach:
  assumes "lifecycle_reach W tick x y" and "lifecycle_inv W x"
  shows "lifecycle_inv W y"
  using assms unfolding lifecycle_reach_def
  by (induction rule: rtranclp_induct) (auto intro: lifecycle_inv_step)

text \<open>A family whose identifier was drawn and that is dead stays dead.\<close>

lemma family_dead_step:
  assumes "lifecycle_step W tick x y" and inv: "lifecycle_inv W x"
    and f: "f \<in> used_ids x" "family_dead (redis W) (store x) f"
  shows "f \<in> used_ids y \<and> family_dead (redis W) (store y) f"
proof -
  have wf: "wf_families (redis W) (store x)" using inv by (simp add: lifecycle_inv_def)
  with assms(1) have "step_kind W x y" by (rule step_kind)
  then show ?thesis
  proof cases
    case weakening
    then show ?thesis using f weakens_family_dead [OF weakening(1) f(2)] by auto
  next
    case (issuing ids ttl family u session token anchor)
    have "f \<noteq> new_family_id ids" using issuing(1) f(1) by (auto simp: fresh_ids_def ids_set_def)
    with f issuing show ?thesis
      by (simp add: family_dead_def store_issued_docs [OF access_minutes_pos issuing(2)])
  next
    case (preparing ids D now target t p)
    have "store y = store x"
      using rotate_prepare_plan(1) [OF preparing(2) wf] preparing(1) by (simp add: fresh_ids_def)
    with f preparing show ?thesis by (simp add: family_dead_def)
  next
    case (committing p)
    from committing(2) obtain family where
        "get_json (redis W) (store x) (family_key (plan_family_id p)) = Some family"
      and "dget family ''status'' = JStr ''active''"
      by (rule rotate_guard_docs)
    with f(2) have "f \<noteq> plan_family_id p" by (auto simp: family_dead_def)
    moreover have "0 < refresh_expires_in (plan_pair p)" "0 < expires_in (plan_pair p)"
      using inv committing(1) by (simp_all add: lifecycle_inv_def plan_ok_def)
    ultimately show ?thesis
      using f committing by (simp add: family_dead_def rotate_writes_docs)
  qed
qed

lemma family_dead_reach:
  assumes "lifecycle_reach W tick x y" and "lifecycle_inv W x"
    and "f \<in> used_ids x" and "family_dead (redis W) (store x) f"
  shows "family_dead (redis W) (store y) f"
proof -
  from assms(1) have "lifecycle_inv W y \<and> f \<in> used_ids y \<and> family_dead (redis W) (store y) f"
    unfolding lifecycle_reach_def
  proof (induction rule: rtranclp_induct)
    case base
    with assms show ?case by simp
  next
    case (step y z)
    then show ?case using lifecycle_inv_step family_dead_step by blast
  qed
  then show ?thesis by simp
qed

lemma revoked_dead_reach:
  assumes "lifecycle_init W x0" and "lifecycle_reach W tick x0 x" and "f \<in> used_ids x"
    and "lifecycle_reach W tick (x\<lparr>store := revoke_refresh_family (redis W) now f reason (store x)\<rparr>) y"
  shows "family_dead (redis W) (store y) f"
proof -
  let ?x = "x\<lparr>store := revoke_refresh_family (redis W) now f reason (store x)\<rparr>"
  have inv: "lifecycle_inv W x" by (rule lifecycle_inv_reach [OF assms(2) lifecycle_inv_init [OF assms(1)]])
  then have wf: "wf_families (redis W) (store x)" by (simp add: lifecycle_inv_def)
  have inv': "lifecycle_inv W ?x" by (rule lifecycle_inv_step [OF lifecycle_step.revoke_family inv])
  have "family_dead (redis W) (store ?x) f"
    by (simp add: family_dead_def revoke_refresh_family_get [OF wf] doc_simps)
  with assms(3) show ?thesis by (intro family_dead_reach [OF assms(4) inv']) simp_all
qed

end

end
