(* ===== verification/Lifecycle_Access.thy ===== *)
theory Lifecycle_Access
  imports Lifecycle_Machine
begin

text \<open>
  Who gets in. The first section specifies the authorization decision as a predicate on
  the database and shows that \<open>reconstruct_auth_context\<close> implements it; the second shows
  that validation accepts exactly the tokens whose session, family and authorization are
  all in order; the third that a pair just issued or rotated is one of them.
\<close>

section \<open>The authorization decision\<close>

text \<open>The project of a session: its \<^verbatim>\<open>project_hash\<close>, or else its \<^verbatim>\<open>collection\<close>.\<close>

definition session_project :: "dict \<Rightarrow> json" where
  "session_project session = py_or (dget session ''project_hash'') (dget session ''collection'')"

definition user_type_of :: "dict \<Rightarrow> dict \<Rightarrow> string" where
  "user_type_of user session =
     py_str (dget_default user ''user_type'' (dget_default session ''user_type'' (JStr ''consumer'')))"

definition user_id_of :: "dict \<Rightarrow> dict \<Rightarrow> string" where
  "user_id_of user session = py_str (dget_default user ''id'' (dget session ''user_id''))"

text \<open>Access to a project: root always, an admin by assignment, anyone else by a group.\<close>

definition project_access :: "db_hooks \<Rightarrow> string \<Rightarrow> string \<Rightarrow> string \<Rightarrow> bool" where
  "project_access D user_id user_type project_hash =
     (case get_project_by_hash D project_hash of
        None \<Rightarrow> False
      | Some project \<Rightarrow>
          project_is_active_for_auth project \<and>
          (if user_type = ''root'' then True
           else if user_type = ''admin''
           then check_admin_project_access D user_id (py_str (dget project ''id''))
           else safe_call_list (get_user_groups_in_project_by_hash D user_id project_hash) \<noteq> []))"

definition auth_allowed :: "db_hooks \<Rightarrow> dict \<Rightarrow> bool" where
  "auth_allowed D session =
     (truthy (dget session ''user_hash'') \<and>
      (case get_user_by_hash D (py_str (dget session ''user_hash'')) of
         None \<Rightarrow> False
       | Some user \<Rightarrow>
           truthy (dget_default user ''is_active'' (JBool True)) \<and>
           (if py_or (dget session ''scope'') (JStr AUTH_SCOPE_PROJECT) = JStr AUTH_SCOPE_PLATFORM
            then user_type_of user session \<in> {''root'', ''admin''}
            else truthy (session_project session) \<and>
                 project_access D (user_id_of user session) (user_type_of user session)
                   (py_str (session_project session)))))"

lemmas auth_allowed_defs = auth_allowed_def project_access_def session_project_def
  user_type_of_def user_id_of_def

lemma reconstruct_granted_iff:
  "(\<exists>c s'. reconstruct_auth_context R D now session s = (Some c, s')) \<longleftrightarrow> auth_allowed D session"
  by (auto simp: reconstruct_auth_context_def reconstruct_project_context_def load_active_user_def
      auth_allowed_defs Let_def split: option.splits if_splits)

lemma reconstruct_granted:
  assumes "auth_allowed D session"
  obtains c where "reconstruct_auth_context R D now session s = (Some c, s)"
proof -
  from assms obtain c s' where "reconstruct_auth_context R D now session s = (Some c, s')"
    using reconstruct_granted_iff [of R D now session s] by auto
  moreover from this have "s' = s"
    by (auto simp: reconstruct_auth_context_def reconstruct_project_context_def load_active_user_def Let_def
        split: option.splits if_splits)
  ultimately show ?thesis using that by blast
qed

text \<open>A refusal revokes the family of the session, or the session itself when it has none.\<close>

lemma reconstruct_project_denied:
  "\<not> (truthy (session_project session) \<and>
      project_access D user_id user_type (py_str (session_project session))) \<Longrightarrow>
   fst (reconstruct_project_context R D now session user user_id user_type s) = None \<and>
   snd (reconstruct_project_context R D now session user user_id user_type s)
     \<in> range (\<lambda>reason. revoke_context_state R now session reason s)"
  by (auto simp: reconstruct_project_context_def project_access_def session_project_def Let_def
      split: option.splits if_splits)

lemma reconstruct_denied:
  assumes "\<not> auth_allowed D session"
  shows "\<exists>reason. reconstruct_auth_context R D now session s =
           (None, revoke_context_state R now session reason s)"
proof -
  have "fst (reconstruct_auth_context R D now session s) = None \<and>
        snd (reconstruct_auth_context R D now session s)
          \<in> range (\<lambda>reason. revoke_context_state R now session reason s)"
    using assms
    by (auto simp: reconstruct_auth_context_def load_active_user_def auth_allowed_def
        user_type_of_def user_id_of_def Let_def
        reconstruct_project_denied [THEN conjunct1] reconstruct_project_denied [THEN conjunct2]
        split: option.splits)
  then show ?thesis by (auto simp: prod_eq_iff)
qed

text \<open>What the granted context says.\<close>

lemma reconstruct_context_fields:
  assumes "reconstruct_auth_context R D now session s = (Some c, s')"
  shows "get_user_by_hash D (py_str (dget session ''user_hash'')) = Some (ctx_user c)"
    and "ctx_scope c = (if py_or (dget session ''scope'') (JStr AUTH_SCOPE_PROJECT) = JStr AUTH_SCOPE_PLATFORM
           then AUTH_SCOPE_PLATFORM else AUTH_SCOPE_PROJECT)"
    and "ctx_project c = (if ctx_scope c = AUTH_SCOPE_PLATFORM then None
           else get_project_by_hash D (py_str (session_project session)))"
  using assms
  by (auto simp: reconstruct_auth_context_def reconstruct_project_context_def load_active_user_def
      platform_context_def session_project_def Let_def split: option.splits if_splits)

section \<open>What validation accepts\<close>

definition claims_match :: "dict \<Rightarrow> dict \<Rightarrow> bool" where
  "claims_match claims session \<longleftrightarrow>
     py_str (dget claims ''jti'') = py_str (dget session ''access_jti'') \<and>
     py_str (dget claims ''session_id'') = py_str (dget session ''session_id'') \<and>
     py_str (dget claims ''family_id'') = py_str (dget session ''family_id'') \<and>
     py_str (dget claims ''user_hash'') = py_str (dget session ''user_hash'') \<and>
     py_str (dget claims ''scope'') = py_str (dget session ''scope'') \<and>
     py_str (dget claims ''collection'') =
       py_str (if dget session ''collection'' = JNull
               then if dget session ''scope'' = JStr AUTH_SCOPE_PLATFORM
                    then JStr PLATFORM_COLLECTION_SENTINEL else dget session ''project_hash''
               else dget session ''collection'')"

lemma require_claim_session_match_iff:
  "require_claim_session_match claims session = Inr u \<longleftrightarrow> claims_match claims session"
  by (auto simp: require_claim_session_match_def claims_match_def Let_def)

text \<open>The family an access token belongs to still stands behind it.\<close>

definition family_backs :: "'s redis \<Rightarrow> 's \<Rightarrow> dict \<Rightarrow> dict \<Rightarrow> dict \<Rightarrow> bool" where
  "family_backs R s claims session family \<longleftrightarrow>
     get_json R s (family_key (py_str (dget claims ''family_id''))) = Some family \<and>
     family \<noteq> Map.empty \<and>
     dget family ''status'' = JStr ''active'' \<and>
     redis_get R s (revoked_key (py_str (dget claims ''family_id''))) = None \<and>
     (truthy (dget family ''current_access_jti'') \<longrightarrow>
        py_str (dget family ''current_access_jti'') = py_str (dget claims ''jti'')) \<and>
     (truthy (dget family ''user_hash'') \<longrightarrow>
        py_str (dget family ''user_hash'') = py_str (dget session ''user_hash'')) \<and>
     (truthy (dget family ''scope'') \<longrightarrow> py_str (dget family ''scope'') = py_str (dget session ''scope'')) \<and>
     (dget session ''scope'' = JStr AUTH_SCOPE_PROJECT \<longrightarrow>
        py_str (dget family ''project_hash'') = py_str (dget session ''project_hash''))"

lemma require_active_family_iff:
  "require_active_family R s claims session = Inr family \<longleftrightarrow> family_backs R s claims session family"
  by (auto simp: require_active_family_def family_backs_def is_refresh_family_revoked_def Let_def
      nonempty_doc_def split: option.splits if_splits)

text \<open>Everything an accepted access token has behind it.\<close>

definition access_valid :: "('s, 't) world \<Rightarrow> db_hooks \<Rightarrow> int \<Rightarrow> 't \<Rightarrow> 's \<Rightarrow> bool" where
  "access_valid W D now t s \<longleftrightarrow>
     (\<exists>claims session family.
        decode_access_token (jwt W) now t = Inr claims \<and>
        get_json (redis W) s (session_key (py_str (dget claims ''jti''))) = Some session \<and>
        session \<noteq> Map.empty \<and> claims_match claims session \<and>
        family_backs (redis W) s claims session family \<and> auth_allowed D session)"

lemma validate_accepts:
  assumes "decode_access_token (jwt W) now t = Inr claims"
    and "get_json (redis W) s (session_key (py_str (dget claims ''jti''))) = Some session"
    and "session \<noteq> Map.empty" and "claims_match claims session"
    and "family_backs (redis W) s claims session family"
    and "reconstruct_auth_context (redis W) D now session s = (Some c, s)"
  shows "validate_access_session W D now t s =
           (case get_session_full (redis W) s (py_str (dget claims ''jti'')) of
              Some cached \<Rightarrow> (Inr cached, s)
            | None \<Rightarrow> (Inr (login_from_context W D t session c),
                set_session_full (redis W) (cfg W) (py_str (dget claims ''jti''))
                  (login_from_context W D t session c) s))"
  using assms require_claim_session_match_iff [of claims session "()"]
    require_active_family_iff [of "redis W" s claims session family]
  by (simp add: validate_access_session_def Let_def split: option.split)

lemma validate_valid_iff:
  "(\<exists>login s'. validate_access_session W D now t s = (Inr login, s')) \<longleftrightarrow> access_valid W D now t s"
proof
  assume "\<exists>login s'. validate_access_session W D now t s = (Inr login, s')"
  then obtain login s' where v: "validate_access_session W D now t s = (Inr login, s')" by blast
  then obtain claims session family where
      c: "decode_access_token (jwt W) now t = Inr claims"
    and ss: "nonempty_doc (get_json (redis W) s (session_key (py_str (dget claims ''jti'')))) = Some session"
    and m: "require_claim_session_match claims session = Inr ()"
    and f: "require_active_family (redis W) s claims session = Inr family"
    and a: "\<exists>c s'. reconstruct_auth_context (redis W) D now session s = (Some c, s')"
    unfolding validate_access_session_def Let_def
    by (auto split: sum.splits option.splits prod.splits)
  from ss have "get_json (redis W) s (session_key (py_str (dget claims ''jti''))) = Some session"
    and "session \<noteq> Map.empty" by simp_all
  with c m f a show "access_valid W D now t s"
    unfolding access_valid_def require_claim_session_match_iff require_active_family_iff
      reconstruct_granted_iff by auto
next
  assume "access_valid W D now t s"
  then obtain claims session family where
      "decode_access_token (jwt W) now t = Inr claims"
      "get_json (redis W) s (session_key (py_str (dget claims ''jti''))) = Some session"
      "session \<noteq> Map.empty" "claims_match claims session"
      "family_backs (redis W) s claims session family" and al: "auth_allowed D session"
    unfolding access_valid_def by blast
  moreover from al obtain c where "reconstruct_auth_context (redis W) D now session s = (Some c, s)"
    by (rule reconstruct_granted)
  ultimately show "\<exists>login s'. validate_access_session W D now t s = (Inr login, s')"
    by (simp add: validate_accepts split: option.split)
qed

lemma validate_Inl:
  "\<not> access_valid W D now t s \<Longrightarrow> \<exists>e. fst (validate_access_session W D now t s) = Inl e"
  using validate_valid_iff [of W D now t s]
  by (cases "validate_access_session W D now t s"; cases "fst (validate_access_session W D now t s)") auto

section \<open>A pair just issued\<close>

lemma whole_seconds:
  "(now + k * us_per_second) div us_per_second * us_per_second =
     now div us_per_second * us_per_second + k * us_per_second"
  by (simp add: us_per_second_def distrib_right)

lemma seconds_ahead:
  assumes "0 < k"
  shows "now < (now + k * us_per_second) div us_per_second * us_per_second"
proof -
  have "now - us_per_second < now div us_per_second * us_per_second"
    using div_mult_mod_eq [of now us_per_second] pos_mod_bound [of us_per_second now]
    by (simp add: us_per_second_def)
  moreover have "us_per_second \<le> k * us_per_second" using assms by (simp add: us_per_second_def)
  ultimately show ?thesis unfolding whole_seconds by linarith
qed

lemma access_ttl_us_None [simp]: "access_ttl_us c None = access_expire_minutes c * 60 * us_per_second"
  by (simp add: access_ttl_us_def or_delta_def)

lemma refresh_ttl_us_Some [simp]: "0 < k \<Longrightarrow> refresh_ttl_us (Some (k * us_per_second)) = k * us_per_second"
  by (simp add: refresh_ttl_us_def or_delta_def us_per_second_def)

lemma issue_session_fields [doc_simps]:
  "dget (issue_session_payload c now ids user scope col P ps gs gis rm ttl) ''access_jti'' = JStr (new_access_jti ids)"
  "dget (issue_session_payload c now ids user scope col P ps gs gis rm ttl) ''session_id'' = JStr (new_session_id ids)"
  "dget (issue_session_payload c now ids user scope col P ps gs gis rm ttl) ''family_id'' = JStr (new_family_id ids)"
  "dget (issue_session_payload c now ids user scope col P ps gs gis rm ttl) ''refresh_jti'' = JStr (new_refresh_jti ids)"
  "dget (issue_session_payload c now ids user scope col P ps gs gis rm ttl) ''user_id'' = dget user ''id''"
  "dget (issue_session_payload c now ids user scope col P ps gs gis rm ttl) ''user_hash'' = dget user ''user_hash''"
  "dget (issue_session_payload c now ids user scope col P ps gs gis rm ttl) ''scope'' = JStr scope"
  "dget (issue_session_payload c now ids user scope col P ps gs gis rm ttl) ''collection'' = col"
  "dget (issue_session_payload c now ids user scope col P ps gs gis rm ttl) ''project_hash'' =
     (if scope = AUTH_SCOPE_PROJECT then dget P ''project_hash'' else JNull)"
  "dget (issue_session_payload c now ids user scope col P ps gs gis rm ttl) ''remember_me'' = JBool rm"
  "dget (issue_session_payload c now ids user scope col P ps gs gis rm ttl) ''auth_time'' = JInt (now div us_per_second)"
  "issue_session_payload c now ids user scope col P ps gs gis rm ttl \<noteq> Map.empty"
  by (simp_all add: issue_session_payload_def)

lemma issue_family_fields [doc_simps]:
  "dget (issue_family_payload now ids user scope P rm ttl) ''family_id'' = JStr (new_family_id ids)"
  "dget (issue_family_payload now ids user scope P rm ttl) ''status'' = JStr ''active''"
  "dget (issue_family_payload now ids user scope P rm ttl) ''user_id'' = dget user ''id''"
  "dget (issue_family_payload now ids user scope P rm ttl) ''user_hash'' = dget user ''user_hash''"
  "dget (issue_family_payload now ids user scope P rm ttl) ''scope'' = JStr scope"
  "dget (issue_family_payload now ids user scope P rm ttl) ''project_hash'' =
     (if scope = AUTH_SCOPE_PROJECT then dget P ''project_hash'' else JNull)"
  "dget (issue_family_payload now ids user scope P rm ttl) ''current_refresh_jti'' = JStr (new_refresh_jti ids)"
  "dget (issue_family_payload now ids user scope P rm ttl) ''current_access_jti'' = JStr (new_access_jti ids)"
  "dget (issue_family_payload now ids user scope P rm ttl) ''remember_me'' = JBool rm"
  "dget (issue_family_payload now ids user scope P rm ttl) ''refresh_ttl_seconds'' = JInt ttl"
  "dget (issue_family_payload now ids user scope P rm ttl) ''auth_time'' = JInt (now div us_per_second)"
  "dget (issue_family_payload now ids user scope P rm ttl) ''expires_at'' = JTime (compute_refresh_expires_at now ttl)"
  "dget (issue_family_payload now ids user scope P rm ttl) ''absolute_expires_at'' =
     (if rm then JTime (compute_refresh_expires_at now ttl) else JNull)"
  "issue_family_payload now ids user scope P rm ttl \<noteq> Map.empty"
  by (simp_all add: issue_family_payload_def)

lemma issue_record_fields [doc_simps]:
  "dget (issue_refresh_record now ids user h rm ttl) ''status'' = JStr ''current''"
  "dget (issue_refresh_record now ids user h rm ttl) ''token_hash'' = JStr h"
  "dget (issue_refresh_record now ids user h rm ttl) ''family_id'' = JStr (new_family_id ids)"
  "issue_refresh_record now ids user h rm ttl \<noteq> Map.empty"
  by (simp_all add: issue_refresh_record_def)

text \<open>The collection a token names: the project, or the platform sentinel.\<close>

definition scope_collection :: "string \<Rightarrow> dict \<Rightarrow> json \<Rightarrow> bool" where
  "scope_collection scope project col \<longleftrightarrow>
     scope = AUTH_SCOPE_PROJECT \<and> col = dget project ''project_hash'' \<or>
     scope = AUTH_SCOPE_PLATFORM \<and> col = JStr PLATFORM_COLLECTION_SENTINEL"

context auth_world
begin

lemma access_token_fresh:
  assumes "now \<le> later" and "later < (now + access_expire_minutes (cfg W) * 60 * us_per_second)
             div us_per_second * us_per_second"
  shows "decode_access_token (jwt W) later
           (create_access_token (jwt W) (cfg W) now sid uh col None sc j f at u1 u2) =
         Inr (access_payload (cfg W) now sid uh col None sc j f at u1 u2)"
  using assms by (simp add: decode_access_token_def decode_typed_access)

lemma access_token_now:
  "decode_access_token (jwt W) now
     (create_access_token (jwt W) (cfg W) now sid uh col None sc j f at u1 u2) =
   Inr (access_payload (cfg W) now sid uh col None sc j f at u1 u2)"
  using access_minutes_pos by (intro access_token_fresh seconds_ahead) simp_all

lemma refresh_token_fresh:
  assumes "0 < ttl" and "now \<le> later"
    and "later < (now + ttl * us_per_second) div us_per_second * us_per_second"
  shows "decode_refresh_token (jwt W) later
           (create_refresh_token (jwt W) now sid uh col (Some (ttl * us_per_second)) sc j f u1 u2) =
         Inr (refresh_payload now sid uh col (Some (ttl * us_per_second)) sc j f u1 u2)"
  using assms by (simp add: decode_refresh_token_def decode_typed_refresh)

lemma refresh_token_now:
  "0 < ttl \<Longrightarrow> decode_refresh_token (jwt W) now
     (create_refresh_token (jwt W) now sid uh col (Some (ttl * us_per_second)) sc j f u1 u2) =
   Inr (refresh_payload now sid uh col (Some (ttl * us_per_second)) sc j f u1 u2)"
  by (intro refresh_token_fresh seconds_ahead) simp_all

text \<open>Issuing never fails.\<close>

lemma issue_token_pair_total:
  assumes "0 < effective_refresh_ttl ttl rm"
  obtains pair s' where
    "issue_token_pair W now ids user scope col proj ps gs gis rm ttl s = (Inr pair, s')"
  using assms
  by (simp add: issue_token_pair_def Let_def issue_access_token_def issue_refresh_token_def
      access_token_now refresh_token_now)

lemma issued_access_valid:
  assumes iss: "issue_token_pair W now ids user scope col proj ps gs gis rm ttl0 s = (Inr pair, s')"
    and ttl: "0 < effective_refresh_ttl ttl0 rm" and ids: "ids_ok ids"
    and col: "scope_collection scope (case proj of Some p \<Rightarrow> p | None \<Rightarrow> Map.empty) col"
    and tomb: "redis_get (redis W) s (revoked_key (new_family_id ids)) = None"
    and time: "now \<le> later" "later < (now + access_expire_minutes (cfg W) * 60 * us_per_second)
             div us_per_second * us_per_second"
    and auth: "auth_allowed D (issue_session_payload (cfg W) now ids user scope col
             (case proj of Some p \<Rightarrow> p | None \<Rightarrow> Map.empty) ps gs gis rm (effective_refresh_ttl ttl0 rm))"
  shows "access_valid W D later (access_token pair) s'"
proof -
  let ?P = "case proj of Some p \<Rightarrow> p | None \<Rightarrow> Map.empty"
  let ?ttl = "effective_refresh_ttl ttl0 rm"
  let ?session = "issue_session_payload (cfg W) now ids user scope col ?P ps gs gis rm ?ttl"
  let ?family = "issue_family_payload now ids user scope ?P rm ?ttl"
  let ?claims = "access_payload (cfg W) now (JStr (new_session_id ids)) (dget user ''user_hash'')
      col None (Some scope) (Some (new_access_jti ids)) (Some (new_family_id ids))
      (Some (now div us_per_second)) [] []"
  note docs = store_issued_docs [OF access_minutes_pos ttl]
  from iss have "decode_access_token (jwt W) later (access_token pair) = Inr ?claims
      \<and> get_json (redis W) s' (session_key (new_access_jti ids)) = Some ?session
      \<and> get_json (redis W) s' (family_key (new_family_id ids)) = Some ?family
      \<and> redis_get (redis W) s' (revoked_key (new_family_id ids)) = None"
    by (cases rule: issue_token_pair_cases)
      (auto simp: docs issue_access_token_def tomb access_token_fresh [OF time])
  moreover from this have "family_backs (redis W) s' ?claims ?session ?family"
    using ids by (simp add: family_backs_def doc_simps ids_ok_def)
  moreover have "claims_match ?claims ?session"
    using col ids by (auto simp: claims_match_def doc_simps scope_collection_def ids_ok_def)
  ultimately show ?thesis
    using ids auth unfolding access_valid_def
    by (intro exI [of _ ?claims] exI [of _ ?session] exI [of _ ?family])
      (simp add: doc_simps ids_ok_def)
qed

end

end
