(* ===== verification/Lifecycle_Rotation.thy ===== *)
theory Lifecycle_Rotation
  imports Lifecycle_Access
begin

text \<open>
  A refresh family as one abstract object: who it belongs to, what it gives access to, and
  the two tokens that are current. Issuing creates such an object in the store, rotation
  replaces its two tokens (and, when a project is switched to, its scope), and as long as
  it is there and the user is still entitled, both tokens work. The Redis documents are
  the representation; \<open>holds_view\<close> is the representation relation.
\<close>

section \<open>The abstract family\<close>

record family_view =
  fv_family :: string
  fv_session :: string
  fv_user :: string
  fv_scope :: string
  fv_collection :: string
  fv_access :: string
  fv_refresh :: string
  fv_auth_time :: int
  fv_end :: "int option"

text \<open>\<open>fv_end\<close> is the absolute end of a remembered family; any other family slides.\<close>

definition view_wf :: "family_view \<Rightarrow> bool" where
  "view_wf v \<longleftrightarrow> fv_family v \<noteq> [] \<and> fv_session v \<noteq> [] \<and> fv_access v \<noteq> [] \<and> fv_refresh v \<noteq> [] \<and> fv_user v \<noteq> [] \<and>
     fv_auth_time v \<noteq> 0 \<and>
     (fv_scope v = AUTH_SCOPE_PROJECT \<and> fv_collection v \<noteq> [] \<or>
      fv_scope v = AUTH_SCOPE_PLATFORM \<and> fv_collection v = PLATFORM_COLLECTION_SENTINEL)"

text \<open>The claims of a token of the family, by its identifier.\<close>

definition view_claims :: "family_view \<Rightarrow> string \<Rightarrow> dict \<Rightarrow> bool" where
  "view_claims v j claims \<longleftrightarrow>
     dget claims ''jti'' = JStr j \<and>
     dget claims ''session_id'' = JStr (fv_session v) \<and>
     dget claims ''family_id'' = JStr (fv_family v) \<and>
     dget claims ''user_hash'' = JStr (fv_user v) \<and>
     dget claims ''scope'' = JStr (fv_scope v) \<and>
     dget claims ''collection'' = JStr (fv_collection v)"

definition view_session :: "family_view \<Rightarrow> dict \<Rightarrow> bool" where
  "view_session v session \<longleftrightarrow>
     dget session ''access_jti'' = JStr (fv_access v) \<and>
     dget session ''refresh_jti'' = JStr (fv_refresh v) \<and>
     dget session ''session_id'' = JStr (fv_session v) \<and>
     dget session ''family_id'' = JStr (fv_family v) \<and>
     dget session ''user_hash'' = JStr (fv_user v) \<and>
     dget session ''scope'' = JStr (fv_scope v) \<and>
     dget session ''collection'' = JStr (fv_collection v) \<and>
     dget session ''project_hash'' =
       (if fv_scope v = AUTH_SCOPE_PROJECT then JStr (fv_collection v) else JNull)"

definition view_family :: "family_view \<Rightarrow> dict \<Rightarrow> bool" where
  "view_family v family \<longleftrightarrow>
     dget family ''status'' = JStr ''active'' \<and>
     dget family ''family_id'' = JStr (fv_family v) \<and>
     dget family ''user_hash'' = JStr (fv_user v) \<and>
     dget family ''scope'' = JStr (fv_scope v) \<and>
     dget family ''current_access_jti'' = JStr (fv_access v) \<and>
     dget family ''current_refresh_jti'' = JStr (fv_refresh v) \<and>
     dget family ''project_hash'' =
       (if fv_scope v = AUTH_SCOPE_PROJECT then JStr (fv_collection v) else JNull) \<and>
     dget family ''auth_time'' = JInt (fv_auth_time v) \<and>
     truthy (dget family ''remember_me'') = (fv_end v \<noteq> None) \<and>
     (\<forall>e. fv_end v = Some e \<longrightarrow>
        py_or (dget family ''absolute_expires_at'') (dget family ''expires_at'') = JTime e) \<and>
     ttl_pos family"

text \<open>
  The store holds the family with these documents. The access session may be missing: its
  lifetime is much shorter than that of the family.
\<close>

definition holds_docs ::
    "('s, 't) world \<Rightarrow> 's \<Rightarrow> family_view \<Rightarrow> 't \<Rightarrow> dict \<Rightarrow> dict \<Rightarrow> dict \<Rightarrow> bool" where
  "holds_docs W s v rt session family tr \<longleftrightarrow>
     view_wf v \<and> view_session v session \<and> view_family v family \<and>
     truthy (dget session ''remember_me'') = (fv_end v \<noteq> None) \<and>
     dget tr ''status'' = JStr ''current'' \<and> dget tr ''token_hash'' = JStr (hash_refresh_token W rt) \<and>
     get_json (redis W) s (session_key (fv_access v)) \<in> {Some session, None} \<and>
     get_json (redis W) s (family_key (fv_family v)) = Some family \<and>
     get_json (redis W) s (token_key (fv_refresh v)) = Some tr \<and>
     get_json (redis W) s (anchor_key (fv_family v)) = Some (build_refresh_anchor_payload session family) \<and>
     redis_get (redis W) s (revoked_key (fv_family v)) = None"

definition holds_view :: "('s, 't) world \<Rightarrow> 's \<Rightarrow> family_view \<Rightarrow> 't \<Rightarrow> bool" where
  "holds_view W s v rt \<longleftrightarrow> (\<exists>session family tr. holds_docs W s v rt session family tr)"

definition has_session :: "('s, 't) world \<Rightarrow> 's \<Rightarrow> family_view \<Rightarrow> bool" where
  "has_session W s v \<longleftrightarrow> get_json (redis W) s (session_key (fv_access v)) \<noteq> None"

text \<open>
  The user is entitled to what the family stands for. Rows have their key columns, and a
  project found by its hash has that hash.
\<close>

definition view_authorized :: "db_hooks \<Rightarrow> family_view \<Rightarrow> bool" where
  "view_authorized D v =
     (case get_user_by_hash D (fv_user v) of
        None \<Rightarrow> False
      | Some user \<Rightarrow>
          user ''id'' \<noteq> None \<and> user ''user_type'' \<noteq> None \<and>
          truthy (dget_default user ''is_active'' (JBool True)) \<and>
          (if fv_scope v = AUTH_SCOPE_PLATFORM
           then py_str (dget user ''user_type'') \<in> {''root'', ''admin''}
           else project_access D (py_str (dget user ''id'')) (py_str (dget user ''user_type''))
                  (fv_collection v)))"

definition hash_lookup :: "db_hooks \<Rightarrow> bool" where
  "hash_lookup D \<longleftrightarrow> (\<forall>h p. get_project_by_hash D h = Some p \<longrightarrow> p ''project_hash'' = Some (JStr h))"

lemma dget_default_Some: "d k \<noteq> None \<Longrightarrow> dget_default d k x = dget d k"
  by (auto simp: dget_default_def dget_def)

lemma dget_nonempty: "dget d k = JStr v \<Longrightarrow> d \<noteq> Map.empty"
  by auto

text \<open>The decision only looks at what the view records, whatever session carries it.\<close>

lemma auth_allowed_view:
  assumes "view_authorized D v" and "view_wf v"
    and "dget session ''user_hash'' = JStr (fv_user v)" and "dget session ''scope'' = JStr (fv_scope v)"
    and "fv_scope v = AUTH_SCOPE_PROJECT \<Longrightarrow> dget session ''project_hash'' = JStr (fv_collection v)"
  shows "auth_allowed D session"
  using assms
  by (auto simp: auth_allowed_def view_authorized_def view_wf_def user_type_of_def user_id_of_def
      session_project_def dget_default_Some split: option.splits if_splits)

lemma view_access_valid:
  assumes h: "holds_docs W s v rt session family tr" and "has_session W s v"
    and "decode_access_token (jwt W) now t = Inr claims" and c: "view_claims v (fv_access v) claims"
    and a: "view_authorized D v"
  shows "access_valid W D now t s"
proof -
  have wf: "view_wf v" and vs: "view_session v session" and vf: "view_family v family"
    using h by (simp_all add: holds_docs_def)
  have sess: "get_json (redis W) s (session_key (py_str (dget claims ''jti''))) = Some session"
    using assms(1,2) c by (auto simp: holds_docs_def has_session_def view_claims_def)
  have ne: "session \<noteq> Map.empty" "family \<noteq> Map.empty"
    using vs vf by (auto simp: view_session_def view_family_def dest!: dget_nonempty)
  have cm: "claims_match claims session"
    using c vs by (simp add: claims_match_def view_claims_def view_session_def)
  have fb: "family_backs (redis W) s claims session family"
    using h c vs vf ne wf by (simp add: family_backs_def view_claims_def view_session_def view_family_def
        holds_docs_def)
  have al: "auth_allowed D session"
    using vs by (intro auth_allowed_view [OF a wf]) (simp_all add: view_session_def)
  from assms(3) sess ne cm fb al show ?thesis unfolding access_valid_def by auto
qed

section \<open>Issuing creates a family\<close>

definition issued_view :: "int \<Rightarrow> uuids \<Rightarrow> string \<Rightarrow> string \<Rightarrow> string \<Rightarrow> bool \<Rightarrow> int \<Rightarrow> family_view" where
  "issued_view now ids h scope c remember_me ttl =
     \<lparr>fv_family = new_family_id ids, fv_session = new_session_id ids, fv_user = h, fv_scope = scope,
      fv_collection = c, fv_access = new_access_jti ids, fv_refresh = new_refresh_jti ids,
      fv_auth_time = now div us_per_second,
      fv_end = (if remember_me then Some (compute_refresh_expires_at now ttl) else None)\<rparr>"

lemma issued_view_sel [simp]:
  "fv_family (issued_view now ids h scope c rm ttl) = new_family_id ids"
  "fv_session (issued_view now ids h scope c rm ttl) = new_session_id ids"
  "fv_user (issued_view now ids h scope c rm ttl) = h"
  "fv_scope (issued_view now ids h scope c rm ttl) = scope"
  "fv_collection (issued_view now ids h scope c rm ttl) = c"
  "fv_access (issued_view now ids h scope c rm ttl) = new_access_jti ids"
  "fv_refresh (issued_view now ids h scope c rm ttl) = new_refresh_jti ids"
  "fv_auth_time (issued_view now ids h scope c rm ttl) = now div us_per_second"
  "fv_end (issued_view now ids h scope c rm ttl) = (if rm then Some (compute_refresh_expires_at now ttl) else None)"
  by (simp_all add: issued_view_def)

context auth_world
begin

lemma issue_holds_view:
  assumes iss: "issue_token_pair W now ids user scope (JStr c) proj ps gs gis rm ttl0 s = (Inr pair, s')"
    and ttl: "0 < effective_refresh_ttl ttl0 rm" and ids: "ids_ok ids"
    and uh: "dget user ''user_hash'' = JStr h"
    and col: "scope_collection scope (case proj of Some p \<Rightarrow> p | None \<Rightarrow> Map.empty) (JStr c)"
    and wf: "h \<noteq> []" "c \<noteq> []"
    and tomb: "redis_get (redis W) s (revoked_key (new_family_id ids)) = None"
    and epoch: "us_per_second \<le> now"
  shows "holds_view W s' (issued_view now ids h scope c rm (effective_refresh_ttl ttl0 rm)) (refresh_token pair)"
    and "has_session W s' (issued_view now ids h scope c rm (effective_refresh_ttl ttl0 rm))"
    and "view_claims (issued_view now ids h scope c rm (effective_refresh_ttl ttl0 rm)) (new_access_jti ids) (access_claims pair)"
    and "view_claims (issued_view now ids h scope c rm (effective_refresh_ttl ttl0 rm)) (new_refresh_jti ids) (refresh_claims pair)"
proof -
  let ?P = "case proj of Some p \<Rightarrow> p | None \<Rightarrow> Map.empty"
  let ?ttl = "effective_refresh_ttl ttl0 rm"
  let ?session = "issue_session_payload (cfg W) now ids user scope (JStr c) ?P ps gs gis rm ?ttl"
  let ?family = "issue_family_payload now ids user scope ?P rm ?ttl"
  let ?tr = "issue_refresh_record now ids user (hash_refresh_token W (refresh_token pair)) rm ?ttl"
  note docs = store_issued_docs [OF access_minutes_pos ttl]
  have at: "decode_access_token (jwt W) now (issue_access_token W now ids user scope (JStr c)) =
        Inr (access_claims pair)"
    and rt: "decode_refresh_token (jwt W) now (issue_refresh_token W now ids user scope (JStr c) ?ttl) =
        Inr (refresh_claims pair)"
    and st: "s' = store_issued (redis W) (cfg W) ids (py_str (dget user ''id'')) ?session ?family ?tr
           (build_refresh_anchor_payload ?session ?family) ?ttl s"
    using iss by (cases rule: issue_token_pair_cases; simp)+
  have vs: "view_session (issued_view now ids h scope c rm (effective_refresh_ttl ttl0 rm)) ?session"
    and vf: "view_family (issued_view now ids h scope c rm (effective_refresh_ttl ttl0 rm)) ?family"
    using col uh issue_family_ttl_pos [OF ttl]
    by (auto simp: view_session_def view_family_def doc_simps scope_collection_def)
  have w: "view_wf (issued_view now ids h scope c rm (effective_refresh_ttl ttl0 rm))"
    using wf ids col epoch by (auto simp: view_wf_def ids_ok_def scope_collection_def us_per_second_def)
  show "has_session W s' (issued_view now ids h scope c rm (effective_refresh_ttl ttl0 rm))" by (simp add: has_session_def st docs)
  have "holds_docs W s' (issued_view now ids h scope c rm (effective_refresh_ttl ttl0 rm)) (refresh_token pair) ?session ?family ?tr"
    using vs vf w tomb by (simp add: holds_docs_def st docs doc_simps)
  then show "holds_view W s' (issued_view now ids h scope c rm (effective_refresh_ttl ttl0 rm)) (refresh_token pair)"
    unfolding holds_view_def by blast
  have "access_claims pair = access_payload (cfg W) now (JStr (new_session_id ids)) (dget user ''user_hash'')
      (JStr c) None (Some scope) (Some (new_access_jti ids)) (Some (new_family_id ids))
      (Some (now div us_per_second)) [] []"
    using at by (auto simp: issue_access_token_def dest: decode_own_access)
  then show "view_claims (issued_view now ids h scope c rm (effective_refresh_ttl ttl0 rm)) (new_access_jti ids) (access_claims pair)"
    using ids col uh by (auto simp: view_claims_def doc_simps ids_ok_def scope_collection_def)
  have "refresh_claims pair = refresh_payload now (JStr (new_session_id ids)) (dget user ''user_hash'')
      (JStr c) (Some (?ttl * us_per_second)) (Some scope) (Some (new_refresh_jti ids))
      (Some (new_family_id ids)) [] []"
    using rt by (auto simp: issue_refresh_token_def dest: decode_own_refresh)
  then show "view_claims (issued_view now ids h scope c rm (effective_refresh_ttl ttl0 rm)) (new_refresh_jti ids) (refresh_claims pair)"
    using ids col uh by (auto simp: view_claims_def doc_simps ids_ok_def scope_collection_def)
qed

end

section \<open>Rotation replaces the tokens of a family\<close>

text \<open>Switching projects moves the family to that project; otherwise it stays where it is.\<close>

definition switched_view :: "dict option \<Rightarrow> family_view \<Rightarrow> family_view" where
  "switched_view target v =
     (case target of None \<Rightarrow> v
      | Some p \<Rightarrow> v\<lparr>fv_scope := AUTH_SCOPE_PROJECT, fv_collection := py_str (dget p ''project_hash'')\<rparr>)"

definition rotated_view :: "uuids \<Rightarrow> dict option \<Rightarrow> family_view \<Rightarrow> family_view" where
  "rotated_view ids target v =
     (switched_view target v)\<lparr>fv_access := new_access_jti ids, fv_refresh := new_refresh_jti ids\<rparr>"

definition target_ok :: "dict option \<Rightarrow> bool" where
  "target_ok target \<longleftrightarrow>
     (\<forall>p. target = Some p \<longrightarrow> (\<exists>h. dget p ''project_hash'' = JStr h \<and> h \<noteq> []))"

lemma switched_view_sel [simp]:
  "fv_family (switched_view target v) = fv_family v"
  "fv_session (switched_view target v) = fv_session v"
  "fv_user (switched_view target v) = fv_user v"
  "fv_access (switched_view target v) = fv_access v"
  "fv_refresh (switched_view target v) = fv_refresh v"
  "fv_auth_time (switched_view target v) = fv_auth_time v"
  "fv_end (switched_view target v) = fv_end v"
  by (simp_all add: switched_view_def split: option.split)

lemma rotated_view_sel [simp]:
  "fv_family (rotated_view ids target v) = fv_family v"
  "fv_session (rotated_view ids target v) = fv_session v"
  "fv_user (rotated_view ids target v) = fv_user v"
  "fv_scope (rotated_view ids target v) = fv_scope (switched_view target v)"
  "fv_collection (rotated_view ids target v) = fv_collection (switched_view target v)"
  "fv_access (rotated_view ids target v) = new_access_jti ids"
  "fv_refresh (rotated_view ids target v) = new_refresh_jti ids"
  "fv_auth_time (rotated_view ids target v) = fv_auth_time v"
  "fv_end (rotated_view ids target v) = fv_end v"
  by (simp_all add: rotated_view_def)

lemma view_wf_switched: "view_wf v \<Longrightarrow> target_ok target \<Longrightarrow> view_wf (switched_view target v)"
  by (auto simp: view_wf_def switched_view_def target_ok_def split: option.split)

lemma view_session_switched:
  "view_session v session \<Longrightarrow> target_ok target \<Longrightarrow>
     view_session (switched_view target v) (switch_project target session)"
  by (auto simp: view_session_def switched_view_def switch_project_def target_ok_def split: option.split)

lemma switch_project_remember [simp]:
  "dget (switch_project target session) ''remember_me'' = dget session ''remember_me''"
  by (simp add: switch_project_def split: option.split)

text \<open>What the anchor keeps is enough to stand in for the session.\<close>

lemma anchor_fields [doc_simps]:
  "dget (build_refresh_anchor_payload session family) ''status'' = JStr ''active''"
  "dget (build_refresh_anchor_payload session family) ''session_id'' = dget session ''session_id''"
  "dget (build_refresh_anchor_payload session family) ''family_id'' =
     py_or (dget family ''family_id'') (dget session ''family_id'')"
  "dget (build_refresh_anchor_payload session family) ''user_hash'' =
     py_or (dget session ''user_hash'') (dget family ''user_hash'')"
  "dget (build_refresh_anchor_payload session family) ''current_access_jti'' =
     py_or (dget family ''current_access_jti'') (dget session ''access_jti'')"
  "dget (build_refresh_anchor_payload session family) ''current_refresh_jti'' =
     py_or (dget family ''current_refresh_jti'') (dget session ''refresh_jti'')"
  "dget (build_refresh_anchor_payload session family) ''remember_me'' =
     JBool (truthy (dget family ''remember_me'') \<or> truthy (dget session ''remember_me''))"
  by (simp_all add: build_refresh_anchor_payload_def Let_def)

lemma anchor_scope_fields:
  assumes "dget session ''scope'' = JStr sc" and "sc \<noteq> []"
  shows "dget (build_refresh_anchor_payload session family) ''scope'' = JStr sc"
    and "dget (build_refresh_anchor_payload session family) ''project_hash'' =
           (if sc = AUTH_SCOPE_PROJECT then dget session ''project_hash'' else JNull)"
    and "dget (build_refresh_anchor_payload session family) ''collection'' =
           (if sc = AUTH_SCOPE_PLATFORM then JStr PLATFORM_COLLECTION_SENTINEL
            else py_or (dget session ''collection'')
                   (py_or (if sc = AUTH_SCOPE_PROJECT then dget session ''project_hash'' else JNull)
                      (dget family ''project_hash'')))"
  using assms by (simp_all add: build_refresh_anchor_payload_def Let_def)

lemma anchor_matches_view:
  assumes "view_wf v" and "view_session v session" and "view_family v family"
    and "view_claims v (fv_refresh v) claims"
  shows "anchor_matches_claims_and_family (Some (build_refresh_anchor_payload session family)) claims family"
proof -
  let ?a = "build_refresh_anchor_payload session family"
  have sc: "dget session ''scope'' = JStr (fv_scope v)" "fv_scope v \<noteq> []"
    using assms by (auto simp: view_session_def view_wf_def)
  have "?a \<noteq> Map.empty" using anchor_fields(1) dget_nonempty by blast
  then show ?thesis
    using assms sc
    by (cases "fv_scope v = AUTH_SCOPE_PROJECT")
      (simp_all add: anchor_matches_claims_and_family_def view_session_def view_family_def view_claims_def
        view_wf_def doc_simps anchor_scope_fields [OF sc] Let_def)
qed

lemma anchor_seed_view:
  assumes "view_wf v" and "view_session v session" and "view_family v family"
  shows "view_session v (anchor_to_session_seed (build_refresh_anchor_payload session family) claims family)"
    and "truthy (dget (anchor_to_session_seed (build_refresh_anchor_payload session family) claims family)
           ''remember_me'') \<longleftrightarrow> truthy (dget family ''remember_me'') \<or> truthy (dget session ''remember_me'')"
proof -
  have sc: "dget session ''scope'' = JStr (fv_scope v)" "fv_scope v \<noteq> []"
    using assms by (auto simp: view_session_def view_wf_def)
  show "view_session v (anchor_to_session_seed (build_refresh_anchor_payload session family) claims family)"
    using assms sc
    by (cases "fv_scope v = AUTH_SCOPE_PROJECT")
      (simp_all add: anchor_to_session_seed_def view_session_def view_family_def view_wf_def doc_simps
        anchor_scope_fields [OF sc] Let_def)
  show "truthy (dget (anchor_to_session_seed (build_refresh_anchor_payload session family) claims family)
           ''remember_me'') \<longleftrightarrow> truthy (dget family ''remember_me'') \<or> truthy (dget session ''remember_me'')"
    by (simp add: anchor_to_session_seed_def Let_def doc_simps)
qed

lemma rotation_session_view:
  assumes h: "holds_docs W s v rt session family tr" and c: "view_claims v (fv_refresh v) claims"
  obtains session0 where
    "rotation_session (redis W) now (fv_family v) claims family (fv_access v) s = (Inr session0, s)"
    and "view_session v session0" and "truthy (dget session0 ''remember_me'') = (fv_end v \<noteq> None)"
proof (cases "get_json (redis W) s (session_key (fv_access v))")
  case None
  have v: "view_wf v" "view_session v session" "view_family v family"
    and a: "get_json (redis W) s (anchor_key (fv_family v)) = Some (build_refresh_anchor_payload session family)"
    and rm: "truthy (dget session ''remember_me'') = (fv_end v \<noteq> None)"
    using h by (simp_all add: holds_docs_def)
  show thesis
    by (rule that [of "anchor_to_session_seed (build_refresh_anchor_payload session family) claims family"])
      (use None a rm v anchor_matches_view [OF v c] anchor_seed_view [OF v, of claims]
        in \<open>auto simp: rotation_session_def Let_def view_family_def\<close>)
next
  case (Some x)
  with h have x: "x = session" "view_session v session" "view_wf v"
      "truthy (dget session ''remember_me'') = (fv_end v \<noteq> None)"
    by (auto simp: holds_docs_def)
  then have "session \<noteq> Map.empty" by (auto simp: view_session_def dest!: dget_nonempty)
  with x Some show thesis
    by (intro that [of session]) (auto simp: rotation_session_def Let_def view_wf_def)
qed

text \<open>A remembered family must have a whole second left; any other one is always open.\<close>

definition view_open :: "int \<Rightarrow> family_view \<Rightarrow> bool" where
  "view_open now v \<longleftrightarrow> (\<forall>e. fv_end v = Some e \<longrightarrow> now + us_per_second \<le> e)"

lemma seconds_until_pos: "now + us_per_second \<le> e \<Longrightarrow> 0 < seconds_until (JTime e) now"
  by (simp add: seconds_until_def us_per_second_def)

lemma rotated_expiry_view:
  assumes "view_family v family" and "view_open now v"
  obtains ttl e ab where "rotated_expiry now family (fv_end v \<noteq> None) = Inr (ttl, e, ab)" and "0 < ttl"
    and "\<forall>x. fv_end v = Some x \<longrightarrow> e = x \<and> ab = JTime x"
proof (cases "fv_end v")
  case None
  with assms(1) show thesis
    by (intro that) (auto simp: rotated_expiry_def view_family_def ttl_pos_def Let_def)
next
  case (Some x)
  with assms have "0 < seconds_until (JTime x) now"
    and "py_or (dget family ''absolute_expires_at'') (dget family ''expires_at'') = JTime x"
    by (simp_all add: view_open_def view_family_def seconds_until_pos)
  with Some show thesis by (intro that) (simp_all add: rotated_expiry_def Let_def)
qed

lemma rotated_session_view:
  assumes w: "view_wf v" and s: "view_session v session" and c: "view_claims u j claims"
    and same: "fv_session u = fv_session v" "fv_family u = fv_family v"
    and ctx: "reconstruct_auth_context R D now' session st = (Some ctx, st')" and D: "hash_lookup D"
  shows "view_session (v\<lparr>fv_access := new_access_jti ids, fv_refresh := new_refresh_jti ids\<rparr>)
           (rotated_session cf now ids claims session family ctx (fv_scope v) (JStr (fv_collection v)) rm ttl ab)"
    and "dget (rotated_session cf now ids claims session family ctx (fv_scope v)
           (JStr (fv_collection v)) rm ttl ab) ''remember_me'' = JBool rm"
proof -
  have "ctx_project ctx = (if fv_scope v = AUTH_SCOPE_PLATFORM then None
          else get_project_by_hash D (fv_collection v))"
    using reconstruct_context_fields [OF ctx] w s
    by (auto simp: view_session_def view_wf_def session_project_def)
  then have proj: "fv_scope v = AUTH_SCOPE_PROJECT \<Longrightarrow> ctx_project ctx = Some p \<Longrightarrow>
      dget_default p ''project_hash'' x = JStr (fv_collection v)" for p x
    using D [unfolded hash_lookup_def, rule_format, of "fv_collection v" p] by (simp add: dget_default_def)
  show "view_session (v\<lparr>fv_access := new_access_jti ids, fv_refresh := new_refresh_jti ids\<rparr>)
      (rotated_session cf now ids claims session family ctx (fv_scope v) (JStr (fv_collection v)) rm ttl ab)"
    using w s c same proj
    by (cases "fv_scope v = AUTH_SCOPE_PROJECT"; cases "ctx_project ctx")
      (simp_all add: rotated_session_def view_session_def view_wf_def view_claims_def Let_def)
  show "dget (rotated_session cf now ids claims session family ctx (fv_scope v)
      (JStr (fv_collection v)) rm ttl ab) ''remember_me'' = JBool rm"
    by (simp add: rotated_session_def Let_def split: option.split)
qed

lemma rotated_family_view:
  assumes "view_family u family" and "view_session (v\<lparr>fv_access := a, fv_refresh := r\<rparr>) session"
    and "fv_family u = fv_family v" "fv_user u = fv_user v" "fv_auth_time u = fv_auth_time v"
      "fv_end u = fv_end v"
    and "a = new_access_jti ids" "r = new_refresh_jti ids"
    and "0 < ttl" and "\<forall>x. fv_end v = Some x \<longrightarrow> e = x \<and> ab = JTime x"
  shows "view_family (v\<lparr>fv_access := a, fv_refresh := r\<rparr>)
           (rotated_family now ids family session (fv_scope v) (fv_end v \<noteq> None) ttl e ab)"
  using assms rotated_family_ttl_pos [OF \<open>0 < ttl\<close>, of now ids family session "fv_scope v" "fv_end v \<noteq> None" e ab]
  unfolding view_family_def by (simp add: rotated_family_def view_session_def)

lemma require_refresh_view:
  assumes "view_claims v (fv_refresh v) claims" and "view_session v session" and "view_family v family"
    and "view_wf v"
  shows "require_refresh_claim_session_match claims family session = Inr ()"
  using assms
  by (auto simp: require_refresh_claim_session_match_def view_claims_def view_session_def view_family_def
      view_wf_def Let_def)

context auth_world
begin

lemma build_rotated_pair_view:
  assumes c: "view_claims u (fv_refresh u) claims" and f: "view_family u family"
    and w: "view_wf v" and s: "view_session v session"
    and v: "v = switched_view target u" and op: "view_open now u"
    and rm: "truthy (dget session ''remember_me'') = (fv_end u \<noteq> None)"
    and ctx: "reconstruct_auth_context R D now session st = (Some ctx, st')" and D: "hash_lookup D"
    and ids: "ids_ok ids"
  obtains pair session' family' tr' where
    "build_rotated_pair W now ids claims session family ctx = Inr (pair, session', family', tr')"
    and "view_session (rotated_view ids target u) session'"
    and "view_family (rotated_view ids target u) family'"
    and "truthy (dget session' ''remember_me'') = (fv_end u \<noteq> None)"
    and "dget tr' ''status'' = JStr ''current''"
    and "dget tr' ''token_hash'' = JStr (hash_refresh_token W (refresh_token pair))"
    and "view_claims (rotated_view ids target u) (new_access_jti ids) (access_claims pair)"
    and "view_claims (rotated_view ids target u) (new_refresh_jti ids) (refresh_claims pair)"
    and "dget (access_claims pair) ''auth_time'' = JInt (fv_auth_time u)"
    and "0 < refresh_expires_in pair" and "0 < expires_in pair"
proof -
  have same: "fv_session u = fv_session v" "fv_family u = fv_family v" "fv_user u = fv_user v"
      "fv_auth_time u = fv_auth_time v" "fv_end u = fv_end v" by (simp_all add: v)
  have frm: "truthy (dget family ''remember_me'') = (fv_end u \<noteq> None)" using f by (simp add: view_family_def)
  from f op obtain ttl e ab where ex: "rotated_expiry now family (fv_end u \<noteq> None) = Inr (ttl, e, ab)"
    and ttl: "0 < ttl" and ab: "\<forall>x. fv_end u = Some x \<longrightarrow> e = x \<and> ab = JTime x"
    by (rule rotated_expiry_view)
  have sc: "py_str (py_or (dget session ''scope'') (py_or (dget claims ''scope'') (JStr AUTH_SCOPE_PROJECT))) =
      fv_scope v" using w s by (auto simp: view_session_def view_wf_def)
  have co: "(if fv_scope v = AUTH_SCOPE_PLATFORM then JStr PLATFORM_COLLECTION_SENTINEL
      else py_or (dget session ''project_hash'') (dget session ''collection'')) = JStr (fv_collection v)"
    using w s by (auto simp: view_session_def view_wf_def)
  let ?session = "rotated_session (cfg W) now ids claims session family ctx (fv_scope v)
      (JStr (fv_collection v)) (fv_end u \<noteq> None) ttl ab"
  have rv: "rotated_view ids target u = v\<lparr>fv_access := new_access_jti ids, fv_refresh := new_refresh_jti ids\<rparr>"
    by (simp add: rotated_view_def v)
  have vs: "view_session (rotated_view ids target u) ?session"
    and srm: "dget ?session ''remember_me'' = JBool (fv_end u \<noteq> None)"
    unfolding rv by (rule rotated_session_view [OF w s c same(1,2) ctx D])+
  let ?family = "rotated_family now ids family ?session (fv_scope v) (fv_end u \<noteq> None) ttl e ab"
  have vf: "view_family (rotated_view ids target u) ?family"
    unfolding rv same(5)
    by (rule rotated_family_view [OF f vs [unfolded rv same(5)] same(2-5) refl refl ttl ab [unfolded same(5)]])
  have at: "py_int (py_or (dget family ''auth_time'') (dget session ''auth_time'')) = Some (fv_auth_time u)"
    using f w same by (simp add: view_family_def view_wf_def)
  let ?uh = "JStr (py_str (dget session ''user_hash''))" and ?sid = "JStr (py_str (dget claims ''session_id''))"
  let ?ac = "access_payload (cfg W) now ?sid ?uh (JStr (fv_collection v)) None (Some (fv_scope v))
      (Some (new_access_jti ids)) (Some (py_str (dget claims ''family_id''))) (Some (fv_auth_time u)) [] []"
  let ?rc = "refresh_payload now ?sid ?uh (JStr (fv_collection v)) (Some (ttl * us_per_second))
      (Some (fv_scope v)) (Some (new_refresh_jti ids)) (Some (py_str (dget claims ''family_id''))) [] []"
  obtain pair where
      b: "build_rotated_pair W now ids claims session family ctx = Inr (pair, ?session, ?family,
            rotated_refresh_record now ids claims ?session (hash_refresh_token W (refresh_token pair))
              (fv_end u \<noteq> None) ttl e ab)"
    and p: "access_claims pair = ?ac" "refresh_claims pair = ?rc" "refresh_expires_in pair = ttl"
      "expires_in pair = access_expire_minutes (cfg W) * 60"
    unfolding build_rotated_pair_def Let_def frm rm disj_absorb ex sc co at
    by (simp add: access_token_now refresh_token_now [OF ttl])
  have vc: "view_claims (rotated_view ids target u) (new_access_jti ids) ?ac"
      "view_claims (rotated_view ids target u) (new_refresh_jti ids) ?rc"
    unfolding rv using ids w s c same
    by (auto simp: view_claims_def doc_simps ids_ok_def view_wf_def view_session_def)
  show thesis
    by (rule that [OF b vs vf])
      (simp_all only: srm p vc truthy.simps, simp_all add: rotated_refresh_record_def doc_simps ttl access_minutes_pos)
qed

text \<open>The whole rotation on a family the store holds.\<close>

lemma rotate_prepare_view:
  assumes h: "holds_docs W s u rt session family tr"
    and dec: "decode_refresh_token (jwt W) now rt = Inr claims" and c: "view_claims u (fv_refresh u) claims"
    and op: "view_open now u" and tgt: "target_ok target"
    and D: "hash_lookup D" "view_authorized D (switched_view target u)" and ids: "ids_ok ids"
  obtains p where "rotate_prepare W D now ids target rt s = (Inr p, s)"
    and "plan_refresh_jti p = fv_refresh u" and "plan_family_id p = fv_family u"
    and "plan_old_access_jti p = fv_access u" and "plan_token_hash p = hash_refresh_token W rt"
    and "view_session (rotated_view ids target u) (plan_session p)"
    and "view_family (rotated_view ids target u) (plan_family p)"
    and "truthy (dget (plan_session p) ''remember_me'') = (fv_end u \<noteq> None)"
    and "plan_anchor p = build_refresh_anchor_payload (plan_session p) (plan_family p)"
    and "plan_old_token_record p = tr(''status'' \<mapsto> JStr ''used'', ''used_at'' \<mapsto> JTime now,
           ''child_jti'' \<mapsto> JStr (new_refresh_jti ids))"
    and "dget (plan_refresh_record p) ''status'' = JStr ''current''"
    and "dget (plan_refresh_record p) ''token_hash'' =
           JStr (hash_refresh_token W (refresh_token (plan_pair p)))"
    and "view_claims (rotated_view ids target u) (new_access_jti ids) (access_claims (plan_pair p))"
    and "view_claims (rotated_view ids target u) (new_refresh_jti ids) (refresh_claims (plan_pair p))"
    and "dget (access_claims (plan_pair p)) ''auth_time'' = JInt (fv_auth_time u)"
    and "0 < refresh_expires_in (plan_pair p)" and "0 < expires_in (plan_pair p)"
proof -
  let ?v = "switched_view target u"
  have wf: "view_wf u" and vf: "view_family u family"
    and docs: "get_json (redis W) s (family_key (fv_family u)) = Some family"
      "get_json (redis W) s (token_key (fv_refresh u)) = Some tr"
      "redis_get (redis W) s (revoked_key (fv_family u)) = None"
    and st: "dget tr ''status'' = JStr ''current''" "dget tr ''token_hash'' = JStr (hash_refresh_token W rt)"
    using h by (simp_all add: holds_docs_def)
  have ne: "family \<noteq> Map.empty" "tr \<noteq> Map.empty"
    using vf st by (auto simp: view_family_def dest!: dget_nonempty)
  from h c obtain session0 where
      rs: "rotation_session (redis W) now (fv_family u) claims family (fv_access u) s = (Inr session0, s)"
    and s0: "view_session u session0" and rm: "truthy (dget session0 ''remember_me'') = (fv_end u \<noteq> None)"
    by (rule rotation_session_view)
  have s1: "view_session ?v (switch_project target session0)" by (rule view_session_switched [OF s0 tgt])
  have w1: "view_wf ?v" by (rule view_wf_switched [OF wf tgt])
  have "auth_allowed D (switch_project target session0)"
    using s1 by (intro auth_allowed_view [OF D(2) w1]) (simp_all add: view_session_def)
  then obtain ctx where
      ctx: "reconstruct_auth_context (redis W) D now (switch_project target session0) s = (Some ctx, s)"
    by (rule reconstruct_granted)
  have rm1: "truthy (dget (switch_project target session0) ''remember_me'') = (fv_end u \<noteq> None)"
    using rm by simp
  obtain pair session' family' tr' where
      b: "build_rotated_pair W now ids claims (switch_project target session0) family ctx =
            Inr (pair, session', family', tr')"
    and facts: "view_session (rotated_view ids target u) session'"
      "view_family (rotated_view ids target u) family'"
      "truthy (dget session' ''remember_me'') = (fv_end u \<noteq> None)"
      "dget tr' ''status'' = JStr ''current''"
      "dget tr' ''token_hash'' = JStr (hash_refresh_token W (refresh_token pair))"
      "view_claims (rotated_view ids target u) (new_access_jti ids) (access_claims pair)"
      "view_claims (rotated_view ids target u) (new_refresh_jti ids) (refresh_claims pair)"
      "dget (access_claims pair) ''auth_time'' = JInt (fv_auth_time u)"
      "0 < refresh_expires_in pair" "0 < expires_in pair"
    by (rule build_rotated_pair_view [OF c vf w1 s1 refl op rm1 ctx D(1) ids])
  have cj: "dget claims ''jti'' = JStr (fv_refresh u)" "dget claims ''family_id'' = JStr (fv_family u)"
    using c by (simp_all add: view_claims_def)
  have fv: "dget family ''status'' = JStr ''active''" "dget family ''current_refresh_jti'' = JStr (fv_refresh u)"
      "dget family ''current_access_jti'' = JStr (fv_access u)" "fv_access u \<noteq> []"
    using vf wf by (simp_all add: view_family_def view_wf_def)
  have rj: "dget (refresh_claims pair) ''jti'' = JStr (new_refresh_jti ids)"
    using facts(7) by (simp add: view_claims_def)
  have "\<not> is_refresh_family_revoked (redis W) s (fv_family u)"
    using docs ne fv by (simp add: is_refresh_family_revoked_def)
  then obtain p where pr: "rotate_prepare W D now ids target rt s = (Inr p, s)"
    and p: "plan_pair p = pair" "plan_session p = session'" "plan_family p = family'"
      "plan_anchor p = build_refresh_anchor_payload session' family'" "plan_refresh_record p = tr'"
      "plan_old_token_record p = tr(''status'' \<mapsto> JStr ''used'', ''used_at'' \<mapsto> JTime now,
           ''child_jti'' \<mapsto> JStr (new_refresh_jti ids))"
      "plan_old_access_jti p = fv_access u" "plan_refresh_jti p = fv_refresh u"
      "plan_family_id p = fv_family u" "plan_token_hash p = hash_refresh_token W rt"
    by (simp add: rotate_prepare_def rotate_plan_def Let_def dec docs ne fv st cj rs
        require_refresh_view [OF c s0 vf wf] ctx b rj)
  show thesis by (rule that [OF pr]) (simp_all only: p facts)
qed

lemma rotate_view:
  assumes h: "holds_docs W s u rt session family tr"
    and dec: "decode_refresh_token (jwt W) now rt = Inr claims" and c: "view_claims u (fv_refresh u) claims"
    and op: "view_open now u" and tgt: "target_ok target"
    and D: "hash_lookup D" "view_authorized D (switched_view target u)" and ids: "ids_ok ids"
    and new: "new_access_jti ids \<noteq> fv_access u" "new_refresh_jti ids \<noteq> fv_refresh u"
  obtains rot s' where "rotate_refresh_family W D now ids target rt s = (Inr rot, s')"
    and "holds_view W s' (rotated_view ids target u) (refresh_token (rot_token_pair rot))"
    and "has_session W s' (rotated_view ids target u)"
    and "view_claims (rotated_view ids target u) (new_access_jti ids) (access_claims (rot_token_pair rot))"
    and "view_claims (rotated_view ids target u) (new_refresh_jti ids) (refresh_claims (rot_token_pair rot))"
    and "dget (access_claims (rot_token_pair rot)) ''auth_time'' = JInt (fv_auth_time u)"
    and "get_json (redis W) s' (session_key (fv_access u)) = None"
    and "get_json (redis W) s' (token_key (fv_refresh u)) =
           Some (tr(''status'' \<mapsto> JStr ''used'', ''used_at'' \<mapsto> JTime now,
             ''child_jti'' \<mapsto> JStr (new_refresh_jti ids)))"
    and "rot_old_refresh_jti rot = fv_refresh u" and "rot_old_access_jti rot = fv_access u"
proof -
  obtain p where pr: "rotate_prepare W D now ids target rt s = (Inr p, s)"
    and p: "plan_refresh_jti p = fv_refresh u" "plan_family_id p = fv_family u"
      "plan_old_access_jti p = fv_access u" "plan_token_hash p = hash_refresh_token W rt"
    and vw: "view_session (rotated_view ids target u) (plan_session p)"
      "view_family (rotated_view ids target u) (plan_family p)"
      "truthy (dget (plan_session p) ''remember_me'') = (fv_end u \<noteq> None)"
    and an: "plan_anchor p = build_refresh_anchor_payload (plan_session p) (plan_family p)"
    and old: "plan_old_token_record p = tr(''status'' \<mapsto> JStr ''used'', ''used_at'' \<mapsto> JTime now,
           ''child_jti'' \<mapsto> JStr (new_refresh_jti ids))"
    and rr: "dget (plan_refresh_record p) ''status'' = JStr ''current''"
      "dget (plan_refresh_record p) ''token_hash'' =
           JStr (hash_refresh_token W (refresh_token (plan_pair p)))"
    and vc: "view_claims (rotated_view ids target u) (new_access_jti ids) (access_claims (plan_pair p))"
      "view_claims (rotated_view ids target u) (new_refresh_jti ids) (refresh_claims (plan_pair p))"
    and at: "dget (access_claims (plan_pair p)) ''auth_time'' = JInt (fv_auth_time u)"
    and pos: "0 < refresh_expires_in (plan_pair p)" "0 < expires_in (plan_pair p)"
    by (rule rotate_prepare_view [OF h dec c op tgt D ids])
  note docs = rotate_writes_docs [OF pos]
  have na: "plan_new_access p = new_access_jti ids" "plan_new_refresh p = new_refresh_jti ids"
    using vc by (simp_all add: plan_new_access_def plan_new_refresh_def view_claims_def)
  have guard: "rotate_guard (redis W) p s"
  proof -
    have "family \<noteq> Map.empty" "tr \<noteq> Map.empty"
      using h by (auto simp: holds_docs_def view_family_def dest!: dget_nonempty)
    with h p show ?thesis by (simp add: rotate_guard_def holds_docs_def view_family_def)
  qed
  let ?s' = "rotate_writes (redis W) p s"
  have "view_wf (rotated_view ids target u)"
    using view_wf_switched [of u target] h tgt ids by (auto simp: holds_docs_def view_wf_def ids_ok_def)
  moreover have "redis_get (redis W) s (revoked_key (fv_family u)) = None" using h by (simp add: holds_docs_def)
  ultimately have "holds_docs W ?s' (rotated_view ids target u) (refresh_token (plan_pair p))
      (plan_session p) (plan_family p) (plan_refresh_record p)"
    using vw an rr p na new by (simp add: holds_docs_def docs)
  then have hv: "holds_view W ?s' (rotated_view ids target u) (refresh_token (plan_pair p))"
    unfolding holds_view_def by blast
  have hs: "has_session W ?s' (rotated_view ids target u)"
    using p na new by (simp add: has_session_def docs)
  from pr guard obtain rot where r: "rotate_refresh_family W D now ids target rt s = (Inr rot, ?s')"
    and rp: "rot_token_pair rot = plan_pair p" "rot_old_refresh_jti rot = plan_refresh_jti p"
      "rot_old_access_jti rot = plan_old_access_jti p"
    by (simp add: rotate_refresh_family_def rotate_commit_def)
  show thesis
    by (rule that [OF r]) (use hv hs vc at p na new old in \<open>simp_all add: rp docs\<close>)
qed

text \<open>The tokens of a new pair decode to the claims the pair records.\<close>

lemma issued_tokens_decode:
  assumes iss: "issue_token_pair W now ids user scope col proj ps gs gis rm ttl0 s = (Inr pair, s')"
    and ttl: "0 < effective_refresh_ttl ttl0 rm" and "now \<le> later"
  shows "later < (now + access_expire_minutes (cfg W) * 60 * us_per_second) div us_per_second * us_per_second \<Longrightarrow>
           decode_access_token (jwt W) later (access_token pair) = Inr (access_claims pair)"
    and "later < (now + effective_refresh_ttl ttl0 rm * us_per_second) div us_per_second * us_per_second \<Longrightarrow>
           decode_refresh_token (jwt W) later (refresh_token pair) = Inr (refresh_claims pair)"
  using iss assms(3)
  by (cases rule: issue_token_pair_cases;
      simp add: issue_access_token_def issue_refresh_token_def access_token_now access_token_fresh
        refresh_token_now [OF ttl] refresh_token_fresh [OF ttl])+

lemma rotate_prepare_decodes:
  assumes "rotate_prepare W D now ids target t s = (Inr p, s')"
  shows "decode_access_token (jwt W) now (access_token (plan_pair p)) = Inr (access_claims (plan_pair p))"
    and "decode_refresh_token (jwt W) now (refresh_token (plan_pair p)) = Inr (refresh_claims (plan_pair p))"
  using assms by (auto elim!: rotate_prepare_Inr rotate_plan_Inr build_rotated_pair_Inr)

lemma rotate_decodes:
  assumes "rotate_refresh_family W D now ids target t s = (Inr rot, s')"
  shows "decode_access_token (jwt W) now (access_token (rot_token_pair rot)) = Inr (access_claims (rot_token_pair rot))"
    and "decode_refresh_token (jwt W) now (refresh_token (rot_token_pair rot)) = Inr (refresh_claims (rot_token_pair rot))"
  using assms rotate_prepare_decodes
  by (auto simp: rotate_refresh_family_def rotate_commit_def rotate_conflict_def
      split: prod.splits sum.splits if_splits)

text \<open>What the expiry of a rotation is computed from.\<close>

lemma rotate_prepare_expiry:
  assumes "rotate_prepare W D now ids target t s = (Inr p, s')"
    and "get_json (redis W) s (family_key (plan_family_id p)) = Some family"
    and rm: "truthy (dget family ''remember_me'')"
  obtains e where "parse_datetime (py_or (dget family ''absolute_expires_at'') (dget family ''expires_at'')) = Some e"
    and "refresh_expires_at (plan_pair p) = e" and "0 < refresh_expires_in (plan_pair p)"
    and "now + refresh_expires_in (plan_pair p) * us_per_second \<le> e"
    and "dget (plan_family p) ''absolute_expires_at'' = JTime e" and "truthy (dget (plan_family p) ''remember_me'')"
proof -
  from assms(1) obtain claims family0 tr j session s1 where
      fam: "get_json (redis W) s (family_key (py_str (dget claims ''family_id''))) = Some family0"
    and pl: "rotate_plan W D now ids target t claims family0 tr j session s1 = (Inr p, s')"
    by (rule rotate_prepare_Inr)
  from pl obtain ctx where
      bld: "build_rotated_pair W now ids claims (switch_project target session) family0 ctx =
           Inr (plan_pair p, plan_session p, plan_family p, plan_refresh_record p)"
    and fid: "plan_family_id p = py_str (dget claims ''family_id'')"
    by (rule rotate_plan_Inr)
  have "family0 = family" using fam fid assms(2) by simp
  from bld obtain ttl e ab scope rm' where
      "rm' = (truthy (dget family0 ''remember_me'') \<or>
             truthy (dget (switch_project target session) ''remember_me''))"
    and "rotated_expiry now family0 rm' = Inr (ttl, e, ab)"
    and pf: "plan_family p = rotated_family now ids family0 (plan_session p) scope rm' ttl e ab"
    and ttl: "refresh_expires_in (plan_pair p) = ttl" and re: "refresh_expires_at (plan_pair p) = e"
    by (rule build_rotated_pair_Inr)
  with rm \<open>family0 = family\<close> have rm': "rm'" and ex: "rotated_expiry now family True = Inr (ttl, e, ab)" by auto
  have "0 < ttl" and t: "ttl = seconds_until (JTime e) now"
    and pe: "parse_datetime (py_or (dget family ''absolute_expires_at'') (dget family ''expires_at'')) = Some e"
    and ab: "ab = JTime e"
    using ex by (auto simp: rotated_expiry_def Let_def split: option.splits if_splits)
  moreover have "ttl * us_per_second \<le> e - now"
    using t \<open>0 < ttl\<close> by (simp add: seconds_until_def us_per_second_def)
  ultimately show thesis
    using that pe re ttl pf rm' by (simp add: rotated_family_def)
qed

end

end
