(* ===== verification/Lifecycle_Revoke.thy ===== *)
theory Lifecycle_Revoke
  imports Lifecycle_Machine
begin

text \<open>
  What the revocations achieve and what they leave alone. \<open>keeps\<close> is the frame: the
  documents of one session and of one family are untouched. The bulk operations are folds,
  so each claim about them is an invariant of the loop body.
\<close>

section \<open>Frames\<close>

definition keeps :: "'s redis \<Rightarrow> string \<Rightarrow> string \<Rightarrow> 's \<Rightarrow> 's \<Rightarrow> bool" where
  "keeps R j f s s' \<longleftrightarrow>
     get_json R s' (session_key j) = get_json R s (session_key j) \<and>
     get_json R s' (family_key f) = get_json R s (family_key f) \<and>
     get_json R s' (anchor_key f) = get_json R s (anchor_key f) \<and>
     redis_get R s' (revoked_key f) = redis_get R s (revoked_key f)"

lemma keeps_refl [simp]: "keeps R j f s s"
  by (simp add: keeps_def)

lemma keeps_trans [trans]: "keeps R j f s t \<Longrightarrow> keeps R j f t u \<Longrightarrow> keeps R j f s u"
  by (simp add: keeps_def)

text \<open>A revoked family: marked, tombstoned and without an anchor.\<close>

definition family_revoked :: "'s redis \<Rightarrow> 's \<Rightarrow> string \<Rightarrow> bool" where
  "family_revoked R s f \<longleftrightarrow>
     (\<exists>d. get_json R s (family_key f) = Some d \<and> dget d ''status'' \<in> {JStr ''revoked'', JStr ''reused''}) \<and>
     redis_get R s (revoked_key f) \<noteq> None \<and> get_json R s (anchor_key f) = None"

context redis_store
begin

lemma srem_keeps [simp]: "keeps R j f s (redis_srem R k m s)"
  by (simp add: keeps_def store_simps)

lemma revoke_access_session_keeps: "i \<noteq> j \<Longrightarrow> keeps R j f s (revoke_access_session R i s)"
  by (simp add: keeps_def store_simps)

text \<open>Dropping sessions of another family never touches a session of this one.\<close>

lemma revoke_family_session_other:
  assumes "get_json R s (session_key j) = Some d" and "dget d ''family_id'' = JStr f" and "g \<noteq> f"
  shows "get_json R (revoke_family_session R g s i) (session_key j) = Some d"
  using assms by (auto simp: revoke_family_session_def store_simps split: option.split)

lemma revoke_family_sessions_other:
  assumes "get_json R s (session_key j) = Some d" and "dget d ''family_id'' = JStr f" and "g \<noteq> f"
  shows "get_json R (foldl (revoke_family_session R g) s js) (session_key j) = Some d"
  using assms(1) by (induction js arbitrary: s) (simp_all add: revoke_family_session_other [OF _ assms(2,3)])

lemma revoke_refresh_family_keeps:
  assumes wf: "wf_families R s" and d: "get_json R s (session_key j) = Some d"
    and f: "dget d ''family_id'' = JStr f" "g \<noteq> f"
  shows "keeps R j f s (revoke_refresh_family R now g reason s)"
proof -
  let ?s = "revoke_refresh_family R now g reason s"
  obtain ttl v where ttl: "0 < ttl" and dr: "drops_sessions R
      (redis_delete R [anchor_key g]
        (set_json R (revoked_key g) v ttl
          (set_json R (family_key g) (revoked_family_doc R now g reason s) ttl s))) ?s"
    using revoke_refresh_family_shape [OF wf, where f = g and now = now and reason = reason] .
  have "get_json R ?s (session_key j) = Some d"
    using revoke_family_sessions_other [OF _ f] d family_or_new_ttl [OF wf, of now g]
    by (simp add: revoke_refresh_family_def Let_def store_simps)
  moreover have "redis_get R ?s (revoked_key f) = redis_get R s (revoked_key f)"
    using drops_sessions_get [OF dr, of "revoked_key f"] f(2) ttl by (simp add: store_simps)
  ultimately show ?thesis
    using d f by (simp add: keeps_def revoke_refresh_family_get [OF wf])
qed

text \<open>No session listed for the owner of a revoked family belongs to it any more.\<close>

lemma revoke_refresh_family_no_session:
  assumes wf: "wf_families R s" and fam: "get_json R s (family_key f) = Some family" "family \<noteq> Map.empty"
    and u: "truthy (dget family ''user_id'')"
      "i \<in> set (redis_smembers R s (user_sessions_key (py_str (dget family ''user_id''))))"
    and d: "get_json R (revoke_refresh_family R now f reason s) (session_key i) = Some d"
  shows "dget d ''family_id'' \<noteq> JStr f"
proof -
  let ?ttl = "cache_ttl_for_family now family"
  let ?s = "redis_delete R [anchor_key f]
      (set_json R (revoked_key f) [''family_id'' \<mapsto> JStr f, ''reason'' \<mapsto> JStr reason, ''revoked_at'' \<mapsto> JTime now] ?ttl
        (set_json R (family_key f) (revoked_family_doc R now f reason s) ?ttl s))"
  have "0 < ?ttl" using family_or_new_ttl [OF wf, of now f] fam by simp
  then have "redis_smembers R ?s (user_sessions_key x) = redis_smembers R s (user_sessions_key x)" for x
    by (simp add: smembers_delete store_simps)
  then have "i \<in> set (family_access_jtis R (revoked_family_doc R now f reason s) ?s)"
    using u fam by (simp add: family_access_jtis_def revoked_family_doc_old)
  moreover have "get_json R (foldl (revoke_family_session R f) ?s
      (family_access_jtis R (revoked_family_doc R now f reason s) ?s)) (session_key i) = Some d"
    using d fam by (simp add: revoke_refresh_family_def Let_def)
  ultimately show ?thesis by (rule revoke_family_sessions_none)
qed

section \<open>Revoking everything a user has\<close>

lemma revoke_access_sessions_gone:
  "j \<in> set js \<Longrightarrow> get_json R (foldl (\<lambda>s j. revoke_access_session R j s) s js) (session_key j) = None"
proof (induction js arbitrary: s)
  case (Cons i js)
  have keep: "get_json R s (session_key j) = None \<Longrightarrow>
      get_json R (foldl (\<lambda>s j. revoke_access_session R j s) s js) (session_key j) = None" for s
    by (rule foldl_invariant [where P = "\<lambda>s. get_json R s (session_key j) = None"])
      (simp_all add: store_simps)
  from Cons keep show ?case by (cases "j = i") (auto simp: store_simps)
qed simp

lemma session_gone_stays:
  assumes "wf_families R s" and "get_json R s (session_key j) = None"
  shows "get_json R (revoke_refresh_family R now f reason s) (session_key j) = None"
  using revoke_refresh_family_session [OF assms(1), of now f reason j] assms(2) by simp

lemma revoke_refresh_family_revoked:
  "wf_families R s \<Longrightarrow> family_revoked R (revoke_refresh_family R now f reason s) f"
  by (simp add: family_revoked_def revoke_refresh_family_get doc_simps del: not_None_eq)

lemma family_revoked_stays:
  assumes "wf_families R s" and "family_revoked R s f"
  shows "family_revoked R (revoke_refresh_family R now g reason s) f"
  using assms by (auto simp: family_revoked_def revoke_refresh_family_get doc_simps simp del: not_None_eq)

lemma family_revoked_frame [simp]:
  "family_revoked R (redis_srem R k m s) f \<longleftrightarrow> family_revoked R s f"
  "family_revoked R (revoke_access_session R j s) f \<longleftrightarrow> family_revoked R s f"
  "family_revoked R (redis_delete R [user_sessions_key u, user_families_key u] s) f \<longleftrightarrow> family_revoked R s f"
  by (simp_all add: family_revoked_def store_simps)

lemma revoke_families_all:
  "wf_families R s \<Longrightarrow> f \<in> set fs \<Longrightarrow>
     family_revoked R (foldl (\<lambda>s f. revoke_refresh_family R now f reason s) s fs) f"
proof (induction fs arbitrary: s)
  case (Cons g fs)
  let ?step = "\<lambda>s f. revoke_refresh_family R now f reason s"
  have wf: "wf_families R (?step s g)" by (rule weakens_wf [OF revoke_refresh_family_weakens]) (rule Cons.prems)+
  have keep: "wf_families R s \<and> family_revoked R s f \<Longrightarrow> wf_families R (foldl ?step s fs) \<and>
      family_revoked R (foldl ?step s fs) f" for s
    by (rule foldl_invariant [where P = "\<lambda>s. wf_families R s \<and> family_revoked R s f"])
      (auto intro: family_revoked_stays weakens_wf [OF revoke_refresh_family_weakens])
  show ?case
  proof (cases "f = g")
    case True
    with keep [of "?step s g"] wf revoke_refresh_family_revoked [OF Cons.prems(1)] show ?thesis by simp
  next
    case False
    with Cons wf show ?thesis by simp
  qed
qed simp

lemma revoke_user_effect:
  fixes now u reason
  defines "s' s \<equiv> revoke_user_auth_state R now u reason s"
  assumes wf: "wf_families R s"
  shows "j \<in> set (redis_smembers R s (user_sessions_key u)) \<Longrightarrow> get_json R (s' s) (session_key j) = None"
    and "f \<in> set (redis_smembers R s (user_families_key u)) \<Longrightarrow> family_revoked R (s' s) f"
    and "redis_smembers R (s' s) (user_sessions_key u) = []"
    and "redis_smembers R (s' s) (user_families_key u) = []"
proof -
  let ?s1 = "foldl (\<lambda>s j. revoke_access_session R j s) s (redis_smembers R s (user_sessions_key u))"
  let ?fs = "redis_smembers R ?s1 (user_families_key u)"
  let ?s2 = "foldl (\<lambda>s f. revoke_refresh_family R now f reason s) ?s1 ?fs"
  have eq: "s' s = redis_delete R [user_sessions_key u, user_families_key u] ?s2"
    by (simp add: s'_def revoke_user_auth_state_def Let_def)
  have dr: "drops_sessions R s ?s1"
    by (rule foldl_invariant [where P = "drops_sessions R s"])
      (auto intro: drops_sessions_trans revoke_access_session_drops)
  have wf1: "wf_families R ?s1" by (rule weakens_wf [OF drops_sessions_weakens [OF dr] wf])
  show "redis_smembers R (s' s) (user_sessions_key u) = []" "redis_smembers R (s' s) (user_families_key u) = []"
    by (simp_all add: eq smembers_delete)
  show "get_json R (s' s) (session_key j) = None" if "j \<in> set (redis_smembers R s (user_sessions_key u))"
  proof -
    have "wf_families R ?s2 \<and> get_json R ?s2 (session_key j) = None"
      by (rule foldl_invariant [where P = "\<lambda>s. wf_families R s \<and> get_json R s (session_key j) = None"])
        (use wf1 revoke_access_sessions_gone [OF that] in
          \<open>auto intro: session_gone_stays weakens_wf [OF revoke_refresh_family_weakens]\<close>)
    then show ?thesis by (simp add: eq store_simps)
  qed
  show "family_revoked R (s' s) f" if "f \<in> set (redis_smembers R s (user_families_key u))"
  proof -
    have "f \<in> set ?fs" using that drops_sessions_members [OF dr] by simp
    from revoke_families_all [OF wf1 this] show ?thesis by (simp add: eq)
  qed
qed

section \<open>Revoking everything but the current session\<close>

lemma members_frame [store_simps]:
  "redis_smembers R (revoke_access_session R j s) (user_sessions_key u) = redis_smembers R s (user_sessions_key u)"
  "redis_smembers R (revoke_access_session R j s) (user_families_key u) = redis_smembers R s (user_families_key u)"
  "redis_smembers R (redis_srem R (user_sessions_key w) m s) (user_families_key u) =
     redis_smembers R s (user_families_key u)"
  by (simp_all add: revoke_access_session_def smembers_delete smembers_srem_other)

end

text \<open>What both loops maintain, for the current session \<open>j\<close> of family \<open>f\<close> and the initial store \<open>s\<close>.\<close>

definition except_inv :: "'s redis \<Rightarrow> string \<Rightarrow> string \<Rightarrow> string \<Rightarrow> 's \<Rightarrow> 's except_state \<Rightarrow> bool" where
  "except_inv R u j f s e \<longleftrightarrow>
     wf_families R (ex_store e) \<and> keeps R j f s (ex_store e) \<and>
     (\<forall>g \<in> set (ex_revoked e). family_revoked R (ex_store e) g) \<and>
     set (redis_smembers R s (user_families_key u)) \<subseteq>
       set (redis_smembers R (ex_store e) (user_families_key u)) \<union> set (ex_revoked e)"

lemma except_inv_wf: "except_inv R u j f s e \<Longrightarrow> wf_families R (ex_store e)"
  by (simp add: except_inv_def)

lemma except_inv_cong:
  "except_inv R u j f s e \<Longrightarrow> ex_store e' = ex_store e \<Longrightarrow> ex_revoked e' = ex_revoked e \<Longrightarrow>
     except_inv R u j f s e'"
  by (simp add: except_inv_def)

context redis_store
begin

lemma except_revoke:
  assumes inv: "except_inv R u j f s e" and d: "get_json R s (session_key j) = Some d"
    and f: "dget d ''family_id'' = JStr f" "g \<noteq> f"
  shows "except_inv R u j f s (e\<lparr>ex_summary := sm, ex_revoked := g # ex_revoked e,
           ex_store := redis_srem R (user_families_key u) g (revoke_refresh_family R now g reason (ex_store e))\<rparr>)"
proof -
  have wf: "wf_families R (ex_store e)" and k: "keeps R j f s (ex_store e)"
    using inv by (simp_all add: except_inv_def)
  have d': "get_json R (ex_store e) (session_key j) = Some d" using k d by (simp add: keeps_def)
  let ?s = "revoke_refresh_family R now g reason (ex_store e)"
  have "keeps R j f s (redis_srem R (user_families_key u) g ?s)"
    using keeps_trans [OF keeps_trans [OF k revoke_refresh_family_keeps [OF wf d' f]] srem_keeps] .
  moreover have "wf_families R (redis_srem R (user_families_key u) g ?s)"
    by (rule weakens_wf [OF index_weakens(1) weakens_wf [OF revoke_refresh_family_weakens [OF wf] wf]])
  moreover have "redis_smembers R ?s (user_families_key u) = redis_smembers R (ex_store e) (user_families_key u)"
    by (simp add: revoke_refresh_family_get(5) [OF wf])
  ultimately show ?thesis
    using inv family_revoked_stays [OF wf] revoke_refresh_family_revoked [OF wf]
    by (auto simp: except_inv_def store_simps)
qed

lemma except_drop:
  assumes inv: "except_inv R u j f s e" and "i \<noteq> j"
  shows "except_inv R u j f s (e\<lparr>ex_summary := sm,
           ex_store := redis_srem R (user_sessions_key u) i (revoke_access_session R i (ex_store e))\<rparr>)"
    and "except_inv R u j f s (e\<lparr>ex_summary := sm, ex_store := redis_srem R (user_sessions_key u) i (ex_store e)\<rparr>)"
    and "except_inv R u j f s (e\<lparr>ex_summary := sm\<rparr>)"
proof -
  have "weakens R (ex_store e) (redis_srem R (user_sessions_key u) i (revoke_access_session R i (ex_store e)))"
    by (intro weakens_step weakens_refl)
  moreover have "keeps R j f (ex_store e) (redis_srem R (user_sessions_key u) i (revoke_access_session R i (ex_store e)))"
    by (rule keeps_trans [OF revoke_access_session_keeps [OF assms(2)] srem_keeps])
  ultimately show
    "except_inv R u j f s (e\<lparr>ex_summary := sm,
       ex_store := redis_srem R (user_sessions_key u) i (revoke_access_session R i (ex_store e))\<rparr>)"
    "except_inv R u j f s (e\<lparr>ex_summary := sm, ex_store := redis_srem R (user_sessions_key u) i (ex_store e)\<rparr>)"
    "except_inv R u j f s (e\<lparr>ex_summary := sm\<rparr>)"
    using inv by (auto simp: except_inv_def store_simps intro: keeps_trans weakens_wf [OF index_weakens(1)]
        dest: weakens_wf)
qed

lemma except_session_inv:
  assumes inv: "except_inv R u j f s e" and d: "get_json R s (session_key j) = Some d"
    and f: "dget d ''family_id'' = JStr f" and ne: "j \<noteq> []" "f \<noteq> []"
  shows "except_inv R u j f s (except_session R now u reason (Some j) (Some f) e i)"
proof (cases "i = j")
  case True
  with inv ne show ?thesis
    by (simp add: except_session_def given_def Let_def except_inv_def)
next
  case False
  show ?thesis
  proof (cases "nonempty_doc (get_json R (ex_store e) (session_key i))")
    case None
    with False except_drop(2) [OF inv False] show ?thesis by (simp add: except_session_def Let_def)
  next
    case (Some d')
    let ?g = "py_str (dget d' ''family_id'')"
    show ?thesis
    proof (cases "truthy (dget d' ''family_id'') \<and> ?g \<noteq> f \<and> ?g \<notin> set (ex_revoked e)")
      case True
      have "?g \<noteq> f" using True by simp
      with True Some False ne show ?thesis
        by (intro except_inv_cong [OF except_drop(1) [OF except_revoke [OF inv d f, where now = now and reason = reason] False]])
          (simp_all add: except_session_def Let_def given_def)
    next
      case fresh: False
      from except_drop(1) [OF inv False] fresh Some False ne
      show ?thesis by (cases e) (auto simp: except_session_def Let_def given_def)
    qed
  qed
qed

lemma except_family_inv:
  assumes inv: "except_inv R u j f s e" and d: "get_json R s (session_key j) = Some d"
    and f: "dget d ''family_id'' = JStr f" and ne: "f \<noteq> []"
  shows "except_inv R u j f s (except_family R now u reason (Some f) e g)"
    and "g \<noteq> f \<Longrightarrow> g \<in> set (ex_revoked (except_family R now u reason (Some f) e g))"
    and "set (ex_revoked e) \<subseteq> set (ex_revoked (except_family R now u reason (Some f) e g))"
proof -
  show "except_inv R u j f s (except_family R now u reason (Some f) e g)"
  proof (cases "g = f \<or> g \<in> set (ex_revoked e)")
    case True
    with inv ne show ?thesis by (auto simp: except_family_def given_def Let_def except_inv_def)
  next
    case False
    with except_revoke [OF inv d f, where g = g and sm = "(ex_summary e)\<lparr>families_revoked :=
        families_revoked (ex_summary e) + 1\<rparr>"] show ?thesis
      by (cases e) (simp add: except_family_def given_def Let_def)
  qed
  show "g \<noteq> f \<Longrightarrow> g \<in> set (ex_revoked (except_family R now u reason (Some f) e g))"
    "set (ex_revoked e) \<subseteq> set (ex_revoked (except_family R now u reason (Some f) e g))"
    by (auto simp: except_family_def Let_def)
qed

text \<open>Sessions only disappear, and every other session of the index does.\<close>

lemma except_session_drops:
  assumes "wf_families R (ex_store e)" and "nonempty_doc (get_json R (ex_store e) (session_key i)) = None"
  shows "nonempty_doc (get_json R (ex_store (except_session R now u reason cj cf e k)) (session_key i)) = None"
proof -
  have "nonempty_doc (get_json R (revoke_refresh_family R now g reason (ex_store e)) (session_key i)) = None" for g
    using revoke_refresh_family_session [OF assms(1), of now g reason i] assms(2) by auto
  with assms(2) show ?thesis by (auto simp: except_session_def Let_def store_simps split: option.split)
qed

lemma except_family_drops:
  assumes "wf_families R (ex_store e)" and "nonempty_doc (get_json R (ex_store e) (session_key i)) = None"
  shows "nonempty_doc (get_json R (ex_store (except_family R now u reason cf e g)) (session_key i)) = None"
  using revoke_refresh_family_session [OF assms(1), of now g reason i] assms(2)
  by (auto simp: except_family_def Let_def store_simps)

lemma except_session_self:
  assumes "cj \<noteq> Some i"
  shows "nonempty_doc (get_json R (ex_store (except_session R now u reason cj cf e i)) (session_key i)) = None"
  using assms by (auto simp: except_session_def Let_def store_simps split: option.split)

lemma except_sessions_gone:
  assumes d: "get_json R s (session_key j) = Some d" "dget d ''family_id'' = JStr f" and ne: "j \<noteq> []" "f \<noteq> []"
  shows "except_inv R u j f s e \<Longrightarrow> i \<in> set is \<Longrightarrow> i \<noteq> j \<Longrightarrow>
     nonempty_doc (get_json R (ex_store (foldl (except_session R now u reason (Some j) (Some f)) e is))
       (session_key i)) = None"
proof (induction "is" arbitrary: e)
  case (Cons k "is")
  let ?step = "except_session R now u reason (Some j) (Some f)"
  have inv: "except_inv R u j f s (?step e k)" by (rule except_session_inv [OF Cons.prems(1) d ne])
  have keep: "except_inv R u j f s e' \<and> nonempty_doc (get_json R (ex_store e') (session_key i)) = None \<Longrightarrow>
      except_inv R u j f s (foldl ?step e' is) \<and>
      nonempty_doc (get_json R (ex_store (foldl ?step e' is)) (session_key i)) = None" for e'
    by (rule foldl_invariant [where P = "\<lambda>e. except_inv R u j f s e \<and>
          nonempty_doc (get_json R (ex_store e) (session_key i)) = None"])
      (auto intro: except_session_inv [OF _ d ne] except_session_drops [OF except_inv_wf])
  show ?case
  proof (cases "i = k")
    case True
    with keep [of "?step e k"] inv except_session_self [of "Some j" i] Cons.prems(3) show ?thesis by simp
  next
    case False
    with Cons.IH [OF inv] Cons.prems show ?thesis by simp
  qed
qed simp

lemma except_families_done:
  assumes d: "get_json R s (session_key j) = Some d" "dget d ''family_id'' = JStr f" and ne: "f \<noteq> []"
  shows "except_inv R u j f s e \<Longrightarrow>
     except_inv R u j f s (foldl (except_family R now u reason (Some f)) e gs) \<and>
     set (ex_revoked e) \<union> (set gs - {f}) \<subseteq>
       set (ex_revoked (foldl (except_family R now u reason (Some f)) e gs))"
proof (induction gs arbitrary: e)
  case (Cons g gs)
  note step = except_family_inv [OF Cons.prems d ne, where g = g and now = now and reason = reason]
  from Cons.IH [OF step(1)] step(2,3) show ?case by auto
qed simp

lemma except_families_drop:
  assumes d: "get_json R s (session_key j) = Some d" "dget d ''family_id'' = JStr f" and ne: "f \<noteq> []"
    and "except_inv R u j f s e" and "nonempty_doc (get_json R (ex_store e) (session_key i)) = None"
  shows "nonempty_doc (get_json R (ex_store (foldl (except_family R now u reason (Some f)) e gs))
       (session_key i)) = None"
proof -
  have "except_inv R u j f s (foldl (except_family R now u reason (Some f)) e gs) \<and>
      nonempty_doc (get_json R (ex_store (foldl (except_family R now u reason (Some f)) e gs)) (session_key i)) = None"
    by (rule foldl_invariant [where P = "\<lambda>e. except_inv R u j f s e \<and>
          nonempty_doc (get_json R (ex_store e) (session_key i)) = None"])
      (use assms in \<open>auto intro: except_family_inv(1) [OF _ d ne] except_family_drops [OF except_inv_wf]\<close>)
  then show ?thesis ..
qed

lemma except_loops_effect:
  assumes wf: "wf_families R s" and d: "get_json R s (session_key j) = Some d" "dget d ''family_id'' = JStr f"
    and ne: "j \<noteq> []" "f \<noteq> []"
    and e1: "e1 = foldl (except_session R now u reason (Some j) (Some f))
               \<lparr>ex_summary = empty_summary, ex_revoked = [], ex_store = s\<rparr> (redis_smembers R s (user_sessions_key u))"
    and e2: "e2 = foldl (except_family R now u reason (Some f)) e1
               (redis_smembers R (ex_store e1) (user_families_key u))"
  shows "keeps R j f s (ex_store e2)"
    and "i \<in> set (redis_smembers R s (user_sessions_key u)) \<Longrightarrow> i \<noteq> j \<Longrightarrow>
           nonempty_doc (get_json R (ex_store e2) (session_key i)) = None"
    and "g \<in> set (redis_smembers R s (user_families_key u)) \<Longrightarrow> g \<noteq> f \<Longrightarrow> family_revoked R (ex_store e2) g"
proof -
  let ?e0 = "\<lparr>ex_summary = empty_summary, ex_revoked = [], ex_store = s\<rparr>"
  have i0: "except_inv R u j f s ?e0" using wf by (simp add: except_inv_def)
  then have i1: "except_inv R u j f s e1"
    unfolding e1 by (rule foldl_invariant) (rule except_session_inv [OF _ d ne])
  note fin = except_families_done [OF d ne(2) i1, of now reason "redis_smembers R (ex_store e1) (user_families_key u)",
      folded e2]
  from fin show "keeps R j f s (ex_store e2)" by (simp add: except_inv_def)
  show "nonempty_doc (get_json R (ex_store e2) (session_key i)) = None"
    if "i \<in> set (redis_smembers R s (user_sessions_key u))" "i \<noteq> j"
    unfolding e2
    by (rule except_families_drop [OF d ne(2) i1]) (unfold e1, rule except_sessions_gone [OF d ne i0 that])
  show "family_revoked R (ex_store e2) g" if "g \<in> set (redis_smembers R s (user_families_key u))" "g \<noteq> f"
    using fin i1 that unfolding except_inv_def by blast
qed

end

section \<open>The counters\<close>

definition accounted :: "revocation_summary \<Rightarrow> bool" where
  "accounted sm \<longleftrightarrow> sessions_seen sm =
     sessions_revoked sm + sessions_preserved sm + sessions_skipped sm + sessions_missing sm"

lemma losing_access_session_accounted:
  "accounted (fst a) \<Longrightarrow> families_revoked (fst a) \<le> sessions_revoked (fst a) \<Longrightarrow>
   accounted (fst (losing_access_session R now ha ps reason u a j)) \<and>
   families_revoked (fst (losing_access_session R now ha ps reason u a j)) \<le>
     sessions_revoked (fst (losing_access_session R now ha ps reason u a j))"
  by (simp add: accounted_def losing_access_session_def Let_def split: option.split)

lemma except_session_accounted:
  "accounted (ex_summary e) \<Longrightarrow> accounted (ex_summary (except_session R now u reason cj cf e j))"
  by (simp add: accounted_def except_session_def Let_def split: option.split)

lemma except_family_summary:
  "ex_summary (except_family R now u reason cf e g) =
     (if given cf \<and> Some g = cf
      then (ex_summary e)\<lparr>sessions_preserved := sessions_preserved (ex_summary e) + 1\<rparr>
      else if g \<in> set (ex_revoked e) then ex_summary e
      else (ex_summary e)\<lparr>families_revoked := families_revoked (ex_summary e) + 1\<rparr>)"
  by (simp add: except_family_def Let_def)

section \<open>Sessions that lost access\<close>

text \<open>A stored session is in order: gone, about no project of interest, or still entitled.\<close>

definition session_in_order ::
    "'s redis \<Rightarrow> (string \<Rightarrow> string \<Rightarrow> bool) \<Rightarrow> string list \<Rightarrow> string \<Rightarrow> 's \<Rightarrow> string \<Rightarrow> bool" where
  "session_in_order R has_access project_ids user_id s j \<longleftrightarrow>
     (\<forall>d. nonempty_doc (get_json R s (session_key j)) = Some d \<longrightarrow>
        dget d ''project_id'' \<noteq> JNull \<longrightarrow> py_str (dget d ''project_id'') \<in> set project_ids \<longrightarrow>
        has_access (py_str (py_or (dget d ''user_id'') (JStr user_id))) (py_str (dget d ''project_id'')))"

context redis_store
begin

lemma losing_access_sessions_drop:
  assumes "wf_families R (snd a)"
  shows "get_json R (snd (losing_access_session R now ha ps reason u a j)) (session_key i) =
           get_json R (snd a) (session_key i) \<or>
         get_json R (snd (losing_access_session R now ha ps reason u a j)) (session_key i) = None"
  using revoke_refresh_family_session [OF assms, of now _ reason i]
  by (auto simp: losing_access_session_def Let_def store_simps split: option.split)

lemma in_order_drops:
  "get_json R s' (session_key j) = get_json R s (session_key j) \<or> get_json R s' (session_key j) = None \<Longrightarrow>
   session_in_order R ha ps u s j \<Longrightarrow> session_in_order R ha ps u s' j"
  by (auto simp: session_in_order_def)

lemma losing_access_in_order:
  "session_in_order R ha ps u (snd (losing_access_session R now ha ps reason u a j)) j"
  by (auto simp: session_in_order_def losing_access_session_def Let_def store_simps split: option.splits)

text \<open>One user's loop, as a fold over the sessions listed when it starts.\<close>

lemma losing_access_fold:
  fixes now ha ps reason u
  defines "step \<equiv> losing_access_session R now ha ps reason u"
  assumes wf: "wf_families R (snd a)"
  shows "wf_families R (snd (foldl step a js))"
    and "get_json R (snd (foldl step a js)) (session_key i) = get_json R (snd a) (session_key i) \<or>
         get_json R (snd (foldl step a js)) (session_key i) = None"
    and "i \<in> set js \<Longrightarrow> session_in_order R ha ps u (snd (foldl step a js)) i"
proof -
  have w: "wf_families R (snd a) \<Longrightarrow> wf_families R (snd (step a j))" for a j
    unfolding step_def by (rule weakens_wf [OF losing_access_session_weakens])
  show "wf_families R (snd (foldl step a js))"
    by (rule foldl_invariant [where P = "\<lambda>a. wf_families R (snd a)"]) (use wf w in auto)
  have drop: "get_json R (snd (foldl step a js)) (session_key i) = get_json R (snd a) (session_key i) \<or>
      get_json R (snd (foldl step a js)) (session_key i) = None" if "wf_families R (snd a)" for a js
    using that
  proof (induction js arbitrary: a)
    case (Cons j js)
    from Cons.IH [OF w [OF Cons.prems], of j] losing_access_sessions_drop [OF Cons.prems, of now ha ps reason u j i]
    show ?case by (auto simp: step_def)
  qed simp
  from drop [OF wf] show "get_json R (snd (foldl step a js)) (session_key i) = get_json R (snd a) (session_key i) \<or>
      get_json R (snd (foldl step a js)) (session_key i) = None" .
  show "session_in_order R ha ps u (snd (foldl step a js)) i" if "i \<in> set js"
    using that wf
  proof (induction js arbitrary: a)
    case (Cons j js)
    show ?case
    proof (cases "i = j")
      case True
      have "session_in_order R ha ps u (snd (step a j)) i" unfolding step_def True by (rule losing_access_in_order)
      with in_order_drops [OF drop [OF w [OF Cons.prems(2)]]] show ?thesis by simp
    next
      case False
      with Cons.IH [of "step a j"] Cons.prems w show ?thesis by simp
    qed
  qed simp
qed

lemma losing_access_index:
  assumes "wf_families R (snd a)" and "v \<noteq> u"
  shows "redis_smembers R (snd (losing_access_session R now ha ps reason u a j)) (user_sessions_key v) =
           redis_smembers R (snd a) (user_sessions_key v)"
  using assms
  by (auto simp: losing_access_session_def Let_def store_simps smembers_srem_other revoke_refresh_family_get(5)
      split: option.split)

text \<open>The whole sweep leaves no session of a listed user out of order.\<close>

lemma losing_access_all:
  fixes now ha ps reason
  defines "user_step \<equiv> \<lambda>acc u. foldl (losing_access_session R now ha ps reason u) acc
             (redis_smembers R (snd acc) (user_sessions_key u))"
  shows "distinct us \<Longrightarrow> wf_families R (snd a) \<Longrightarrow> u \<in> set us \<Longrightarrow>
    i \<in> set (redis_smembers R (snd a) (user_sessions_key u)) \<Longrightarrow>
    session_in_order R ha ps u (snd (foldl user_step a us)) i"
proof (induction us arbitrary: a)
  case (Cons v us)
  have wf: "wf_families R (snd (user_step a v))"
    unfolding user_step_def by (rule losing_access_fold(1) [OF Cons.prems(2)])
  have drop: "wf_families R (snd a) \<Longrightarrow>
      get_json R (snd (foldl user_step a us)) (session_key i) = get_json R (snd a) (session_key i) \<or>
      get_json R (snd (foldl user_step a us)) (session_key i) = None" for a us
  proof (induction us arbitrary: a)
    case (Cons v us)
    have "wf_families R (snd (user_step a v))"
      unfolding user_step_def by (rule losing_access_fold(1) [OF Cons.prems])
    from Cons.IH [OF this] losing_access_fold(2) [OF Cons.prems, of now ha ps reason v
        "redis_smembers R (snd a) (user_sessions_key v)" i]
    show ?case by (auto simp: user_step_def)
  qed simp
  show ?case
  proof (cases "u = v")
    case True
    have "session_in_order R ha ps u (snd (user_step a v)) i"
      unfolding user_step_def True using Cons.prems True by (intro losing_access_fold(3)) simp_all
    with in_order_drops [OF drop [OF wf]] show ?thesis by simp
  next
    case False
    have "wf_families R (snd (user_step a v)) \<and>
        redis_smembers R (snd (user_step a v)) (user_sessions_key u) = redis_smembers R (snd a) (user_sessions_key u)"
      unfolding user_step_def
      by (rule foldl_invariant [where P = "\<lambda>b. wf_families R (snd b) \<and>
            redis_smembers R (snd b) (user_sessions_key u) = redis_smembers R (snd a) (user_sessions_key u)"])
        (use Cons.prems(2) False losing_access_index weakens_wf [OF losing_access_session_weakens] in auto)
    with Cons.IH [of "user_step a v"] Cons.prems False wf show ?thesis by simp
  qed
qed simp

end

end
