(* ===== verification/Lifecycle_Props.thy ===== *)
theory Lifecycle_Props
  imports Lifecycle_Rotation Lifecycle_Revoke
begin

text \<open>
  The guarantees of the token lifecycle, each followed by a run of it on the in-memory
  server with symbolic tokens: one consumer with one project and the default settings.
\<close>

section \<open>A concrete world\<close>

definition demo_world :: "(mem, sym_token) world" where
  "demo_world = \<lparr>redis = mem_redis, jwt = sym_jwt, cfg = default_config, sha256_hex = (\<lambda>x. ''sha256:'' @ x)\<rparr>"

interpretation demo: auth_world demo_world mem_tick mem_pttl
  unfolding auth_world_def auth_world_axioms_def
  using mem.redis_store_axioms sym.jwt_codec_axioms by (simp add: demo_world_def default_config_def)

definition demo_user :: dict where
  "demo_user = [''id'' \<mapsto> JStr ''u1'', ''user_hash'' \<mapsto> JStr ''h1'', ''username'' \<mapsto> JStr ''ann'',
     ''user_type'' \<mapsto> JStr ''consumer'', ''is_active'' \<mapsto> JBool True]"

definition demo_project :: dict where
  "demo_project = [''id'' \<mapsto> JStr ''p1'', ''project_hash'' \<mapsto> JStr ''ph1'', ''project_name'' \<mapsto> JStr ''shop'',
     ''is_active'' \<mapsto> JBool True, ''archived'' \<mapsto> JBool False]"

definition demo_hooks :: db_hooks where
  "demo_hooks =
     \<lparr>get_user_by_hash = (\<lambda>h. if h = ''h1'' then Some demo_user else None),
      get_project_by_hash = (\<lambda>h. if h = ''ph1'' then Some demo_project else None),
      check_admin_project_access = (\<lambda>u p. False),
      get_user_groups_in_project_by_hash = (\<lambda>u h. if u = ''u1'' \<and> h = ''ph1''
         then Some [JObj [''group_name'' \<mapsto> JStr ''buyers'']] else Some []),
      get_user_permissions = (\<lambda>u. Some [JStr ''read'']),
      get_user_accessible_projects = (\<lambda>u. Some []),
      resolve_session_plan = (\<lambda>u p. JNull)\<rparr>"

definition demo_ids :: "string \<Rightarrow> uuids" where
  "demo_ids n = \<lparr>new_family_id = ''f'' @ n, new_session_id = ''s'' @ n, new_access_jti = ''a'' @ n,
     new_refresh_jti = ''r'' @ n\<rparr>"

definition demo_init :: "(mem, sym_token) sys" where
  "demo_init = \<lparr>store = mem_empty, pending = {}, used_ids = {}, rotated = []\<rparr>"

definition demo_now :: int where "demo_now = 1000 * us_per_second"

text \<open>A login, remembered or not, in the empty store.\<close>

definition demo_login :: "bool \<Rightarrow> sym_token token_pair result \<times> mem" where
  "demo_login rm = issue_project_token_pair demo_world demo_now (demo_ids ''1'') demo_user demo_project
     (Some [''read'']) (Some [''buyers'']) None rm mem_empty"

definition demo_login_view :: "bool \<Rightarrow> family_view" where
  "demo_login_view rm = issued_view demo_now (demo_ids ''1'') ''h1'' AUTH_SCOPE_PROJECT ''ph1'' rm
     (effective_refresh_ttl None rm)"

definition demo_issue :: "sym_token token_pair result \<times> mem" where
  "demo_issue = demo_login False"

definition demo_view :: family_view where
  "demo_view = demo_login_view False"

lemma demo_ids_ok [simp]: "ids_ok (demo_ids n)"
  by (simp add: ids_ok_def demo_ids_def)

lemma demo_ids_sel [simp]:
  "new_family_id (demo_ids n) = ''f'' @ n" "new_session_id (demo_ids n) = ''s'' @ n"
  "new_access_jti (demo_ids n) = ''a'' @ n" "new_refresh_jti (demo_ids n) = ''r'' @ n"
  by (simp_all add: demo_ids_def)

lemma demo_world_sel [simp]:
  "redis demo_world = mem_redis" "jwt demo_world = sym_jwt" "cfg demo_world = default_config"
  by (simp_all add: demo_world_def)

lemma default_config_sel [simp]:
  "access_expire_minutes default_config = 15" "replay_grace_seconds default_config = 10"
  "validate_cache_ttl default_config = 30"
  by (simp_all add: default_config_def)

lemma mem_empty_get [simp]:
  "redis_get mem_redis mem_empty k = None" "get_json mem_redis mem_empty k = None"
  by (simp_all add: mem_redis_def mem_get_def mem_empty_def get_json_def)

lemma demo_lookup [simp]: "hash_lookup demo_hooks"
  by (simp add: hash_lookup_def demo_hooks_def demo_project_def)

lemma demo_authorized:
  "fv_user v = ''h1'' \<Longrightarrow> fv_scope v = AUTH_SCOPE_PROJECT \<Longrightarrow> fv_collection v = ''ph1'' \<Longrightarrow>
     view_authorized demo_hooks v"
  by (simp add: view_authorized_def demo_hooks_def demo_user_def demo_project_def project_access_def
      project_is_active_for_auth_def safe_call_list_def)

text \<open>Issuing in the empty store gives a family both of whose tokens are current.\<close>

lemma demo_login_issued:
  obtains pair s where "demo_login rm = (Inr pair, s)"
    and "holds_view demo_world s (demo_login_view rm) (refresh_token pair)" and "has_session demo_world s (demo_login_view rm)"
    and "decode_access_token sym_jwt demo_now (access_token pair) = Inr (access_claims pair)"
    and "decode_refresh_token sym_jwt demo_now (refresh_token pair) = Inr (refresh_claims pair)"
    and "view_claims (demo_login_view rm) ''a1'' (access_claims pair)"
    and "view_claims (demo_login_view rm) ''r1'' (refresh_claims pair)"
proof -
  have u: "dget demo_user ''user_hash'' = JStr ''h1''" and p: "dget demo_project ''project_hash'' = JStr ''ph1''"
    by (simp_all add: demo_user_def demo_project_def)
  have pos: "0 < effective_refresh_ttl None rm" by simp
  obtain pair s where
    i: "issue_token_pair demo_world demo_now (demo_ids ''1'') demo_user AUTH_SCOPE_PROJECT (JStr ''ph1'')
          (Some demo_project) (Some [''read'']) (Some [''buyers'']) None rm None mem_empty = (Inr pair, s)"
    using demo.issue_token_pair_total [OF pos] by blast
  have sc: "scope_collection AUTH_SCOPE_PROJECT
      (case Some demo_project of Some p \<Rightarrow> p | None \<Rightarrow> Map.empty) (JStr ''ph1'')"
    by (simp add: scope_collection_def p)
  have ep: "us_per_second \<le> demo_now" by (simp add: demo_now_def us_per_second_def)
  have tm: "redis_get (redis demo_world) mem_empty (revoked_key (new_family_id (demo_ids ''1''))) = None" by simp
  have ne: "''h1'' \<noteq> []" "''ph1'' \<noteq> []" by simp_all
  note h = demo.issue_holds_view [OF i pos demo_ids_ok u sc ne tm ep]
  from i have d: "decode_access_token sym_jwt demo_now (access_token pair) = Inr (access_claims pair)"
      "decode_refresh_token sym_jwt demo_now (refresh_token pair) = Inr (refresh_claims pair)"
    by (cases rule: issue_token_pair_cases; simp)+
  show thesis
    by (rule that [of pair s])
      (use h d i p in \<open>simp_all add: demo_login_view_def demo_login_def issue_project_token_pair_def\<close>)
qed

lemmas demo_issued = demo_login_issued [of False, folded demo_issue_def demo_view_def]

lemma demo_view_sel [simp]:
  "fv_user demo_view = ''h1''" "fv_scope demo_view = AUTH_SCOPE_PROJECT" "fv_collection demo_view = ''ph1''"
  "fv_access demo_view = ''a1''" "fv_refresh demo_view = ''r1''" "fv_family demo_view = ''f1''"
  "fv_end demo_view = None"
  by (simp_all add: demo_view_def demo_login_view_def)

text \<open>The run: issue, prepare a rotation, commit it.\<close>

lemma rotate_refresh_family_parts:
  "rotate_refresh_family W D now ids target t s = (Inr rot, s') \<Longrightarrow>
     \<exists>p s1. rotate_prepare W D now ids target t s = (Inr p, s1) \<and> rotate_commit W now p s1 = (Inr rot, s')"
  by (auto simp: rotate_refresh_family_def split: prod.splits sum.splits)

lemma demo_rotated:
  obtains pair s rot s' where "demo_issue = (Inr pair, s)"
    and "rotate_refresh_family demo_world demo_hooks demo_now (demo_ids ''2'') None (refresh_token pair) s =
           (Inr rot, s')"
    and "holds_view demo_world s' (rotated_view (demo_ids ''2'') None demo_view)
           (refresh_token (rot_token_pair rot))"
    and "rot_old_refresh_jti rot = ''r1''" and "rot_old_access_jti rot = ''a1''"
    and "\<exists>tr. get_json mem_redis s' (token_key ''r1'') = Some tr \<and> dget tr ''status'' = JStr ''used'' \<and>
           dget tr ''used_at'' = JTime demo_now \<and> dget tr ''child_jti'' = JStr ''r2''"
proof -
  obtain pair s where i: "demo_issue = (Inr pair, s)"
    and h: "holds_view demo_world s demo_view (refresh_token pair)"
    and d: "decode_refresh_token sym_jwt demo_now (refresh_token pair) = Inr (refresh_claims pair)"
    and c: "view_claims demo_view ''r1'' (refresh_claims pair)"
    by (rule demo_issued)
  from h obtain session family tr where
    hd: "holds_docs demo_world s demo_view (refresh_token pair) session family tr"
    by (auto simp: holds_view_def)
  obtain rot s' where
      "rotate_refresh_family demo_world demo_hooks demo_now (demo_ids ''2'') None (refresh_token pair) s = (Inr rot, s')"
    and "holds_view demo_world s' (rotated_view (demo_ids ''2'') None demo_view)
           (refresh_token (rot_token_pair rot))"
    and "rot_old_refresh_jti rot = ''r1''" and "rot_old_access_jti rot = ''a1''"
    and "\<exists>tr. get_json mem_redis s' (token_key ''r1'') = Some tr \<and> dget tr ''status'' = JStr ''used'' \<and>
           dget tr ''used_at'' = JTime demo_now \<and> dget tr ''child_jti'' = JStr ''r2''"
    by (rule demo.rotate_view [OF hd, where now = demo_now and claims = "refresh_claims pair" and target = None
          and D = demo_hooks and ids = "demo_ids ''2''"])
      (use d c in \<open>auto simp: view_open_def target_ok_def switched_view_def demo_authorized\<close>)
  with i show thesis by (rule that)
qed

lemma demo_issue_step:
  assumes "demo_issue = (r, s)"
  shows "lifecycle_step demo_world mem_tick demo_init
           (demo_init\<lparr>store := s, used_ids := used_ids demo_init \<union> ids_set (demo_ids ''1'')\<rparr>)"
  by (rule lifecycle_step.issue_project [where r = r])
    (use assms in \<open>simp_all add: fresh_ids_def demo_init_def demo_issue_def demo_login_def\<close>)

lemma demo_run_of:
  assumes i: "demo_issue = (Inr pair, s)"
    and r: "rotate_refresh_family demo_world demo_hooks demo_now (demo_ids ''2'') None (refresh_token pair) s =
           (Inr rot, s')" and o: "rot_old_refresh_jti rot = ''r1''"
  obtains y where "lifecycle_reach demo_world mem_tick demo_init y" and "rotated y = [''r1'']"
    and "''f1'' \<in> used_ids y" and "store y = s'"
proof -
  from rotate_refresh_family_parts [OF r] obtain p s1 where
      p: "rotate_prepare demo_world demo_hooks demo_now (demo_ids ''2'') None (refresh_token pair) s = (Inr p, s1)"
    and c: "rotate_commit demo_world demo_now p s1 = (Inr rot, s')" by blast
  let ?x1 = "demo_init\<lparr>store := s, used_ids := used_ids demo_init \<union> ids_set (demo_ids ''1'')\<rparr>"
  let ?x2 = "?x1\<lparr>store := s1, pending := insert p (pending ?x1),
               used_ids := used_ids ?x1 \<union> ids_set (demo_ids ''2'')\<rparr>"
  let ?x3 = "?x2\<lparr>store := s', pending := pending ?x2 - {p}, rotated := plan_refresh_jti p # rotated ?x2\<rparr>"
  have st1: "lifecycle_step demo_world mem_tick demo_init ?x1"
    by (rule demo_issue_step [OF i])
  have st2: "lifecycle_step demo_world mem_tick ?x1 ?x2"
    by (rule lifecycle_step.prepare) (use p in \<open>simp_all add: fresh_ids_def demo_init_def ids_set_def\<close>)
  have st3: "lifecycle_step demo_world mem_tick ?x2 ?x3"
    by (rule lifecycle_step.commit) (use c in simp_all)
  have "lifecycle_reach demo_world mem_tick demo_init ?x3"
    by (rule lifecycle_reach_step [OF lifecycle_reach_step [OF lifecycle_reach_step
          [OF lifecycle_reach_refl st1] st2] st3])
  moreover have "plan_refresh_jti p = ''r1''"
    using c o by (auto simp: rotate_commit_def rotate_conflict_def split: if_splits prod.splits)
  ultimately show thesis by (intro that [of ?x3]) (simp_all add: demo_init_def ids_set_def)
qed

lemma demo_run:
  obtains y where "lifecycle_reach demo_world mem_tick demo_init y" and "rotated y = [''r1'']"
    and "''f1'' \<in> used_ids y"
  by (rule demo_rotated, rule demo_run_of)

section \<open>Every interleaving\<close>

lemma consumed_not_prepared:
  assumes "token_consumed (redis W) s (py_str (dget claims ''jti''))"
    and "decode_refresh_token (jwt W) now t = Inr claims"
  shows "\<exists>e. fst (rotate_prepare W D now ids target t s) = Inl e"
proof (cases "fst (rotate_prepare W D now ids target t s)")
  case (Inr p)
  then obtain s' where "rotate_prepare W D now ids target t s = (Inr p, s')" by (cases "rotate_prepare W D now ids target t s") auto
  with assms show ?thesis by (auto elim!: rotate_prepare_Inr simp: token_consumed_def)
qed auto

lemma rotate_needs_prepare:
  assumes "\<exists>e. fst (rotate_prepare W D now ids target t s) = Inl e"
  shows "\<exists>e. fst (rotate_refresh_family W D now ids target t s) = Inl e"
  using assms by (auto simp: rotate_refresh_family_def split: prod.splits sum.splits)

lemma dead_not_valid:
  assumes "family_dead (redis W) s f" and "decode_access_token (jwt W) now t = Inr claims"
    and "py_str (dget claims ''family_id'') = f"
  shows "\<exists>e. fst (validate_access_session W D now t s) = Inl e"
  using assms by (intro validate_Inl) (auto simp: access_valid_def family_backs_def family_dead_def)

lemma dead_not_prepared:
  assumes "family_dead (redis W) s f" and "decode_refresh_token (jwt W) now t = Inr claims"
    and "py_str (dget claims ''family_id'') = f"
  shows "\<exists>e. fst (rotate_prepare W D now ids target t s) = Inl e"
proof (cases "fst (rotate_prepare W D now ids target t s)")
  case (Inr p)
  then obtain s' where "rotate_prepare W D now ids target t s = (Inr p, s')" by (cases "rotate_prepare W D now ids target t s") auto
  with assms show ?thesis by (auto elim!: rotate_prepare_Inr simp: family_dead_def)
qed auto

text \<open>C1. In every interleaving of logins, validations, rotations (two concurrent ones
  included), revocations and expirations, a refresh token is exchanged for a new pair at
  most once, and a token that was exchanged is refused from then on.\<close>

theorem refresh_token_exchanged_once:
  assumes "auth_world W tick pttl" and "lifecycle_init W x" and "lifecycle_reach W tick x y"
  shows "distinct (rotated y) \<and>
     (\<forall>D now ids target t claims.
        decode_refresh_token (jwt W) now t = Inr claims \<longrightarrow>
        py_str (dget claims ''jti'') \<in> set (rotated y) \<longrightarrow>
        (\<exists>e. fst (rotate_refresh_family W D now ids target t (store y)) = Inl e))"
proof -
  have "lifecycle_inv W y"
    by (rule auth_world.lifecycle_inv_reach [OF assms(1,3) lifecycle_inv_init [OF assms(2)]])
  then show ?thesis
    by (auto simp: lifecycle_inv_def intro!: rotate_needs_prepare consumed_not_prepared)
qed

lemma demo_init_ok: "lifecycle_init demo_world demo_init"
  by (simp add: lifecycle_init_def demo_init_def)

theorem refresh_token_exchanged_once_witness:
  "\<exists>y. lifecycle_reach demo_world mem_tick demo_init y \<and> rotated y = [''r1''] \<and> distinct (rotated y)"
proof -
  obtain y where "lifecycle_reach demo_world mem_tick demo_init y" and "rotated y = [''r1'']"
    by (rule demo_run)
  with refresh_token_exchanged_once [OF demo.auth_world_axioms demo_init_ok] show ?thesis by blast
qed

text \<open>C2. Revocation is permanent: once a family that was issued is revoked, no sequence of
  requests brings it back; every access token and every refresh token of it is refused in
  every later state.\<close>

theorem revoked_family_never_returns:
  assumes "auth_world W tick pttl" and "lifecycle_init W x0" and "lifecycle_reach W tick x0 x"
    and "f \<in> used_ids x"
    and "lifecycle_reach W tick (x\<lparr>store := revoke_refresh_family (redis W) now0 f reason (store x)\<rparr>) y"
  shows "(\<forall>D now t claims. decode_access_token (jwt W) now t = Inr claims \<longrightarrow>
            py_str (dget claims ''family_id'') = f \<longrightarrow>
            (\<exists>e. fst (validate_access_session W D now t (store y)) = Inl e)) \<and>
         (\<forall>D now ids target t claims. decode_refresh_token (jwt W) now t = Inr claims \<longrightarrow>
            py_str (dget claims ''family_id'') = f \<longrightarrow>
            (\<exists>e. fst (rotate_refresh_family W D now ids target t (store y)) = Inl e))"
proof -
  have "family_dead (redis W) (store y) f" by (rule auth_world.revoked_dead_reach [OF assms])
  then show ?thesis by (auto intro!: dead_not_valid rotate_needs_prepare dead_not_prepared)
qed

theorem revoked_family_never_returns_witness:
  "\<exists>x y. lifecycle_reach demo_world mem_tick demo_init x \<and> ''f1'' \<in> used_ids x \<and>
     y = x\<lparr>store := revoke_refresh_family mem_redis demo_now ''f1'' ''logout'' (store x)\<rparr> \<and>
     (\<forall>D now t claims. decode_access_token sym_jwt now t = Inr claims \<longrightarrow>
        py_str (dget claims ''family_id'') = ''f1'' \<longrightarrow>
        (\<exists>e. fst (validate_access_session demo_world D now t (store y)) = Inl e))"
proof -
  obtain x where x: "lifecycle_reach demo_world mem_tick demo_init x" "''f1'' \<in> used_ids x"
    by (rule demo_run)
  from revoked_family_never_returns [OF demo.auth_world_axioms demo_init_ok x lifecycle_reach_refl] x
  show ?thesis by (auto intro!: exI [of _ x])
qed

section \<open>Validation and authorization\<close>

text \<open>C3. Validation accepts an access token exactly when its JWT is a valid access token,
  its session is stored and agrees with the claims, its family is active, not tombstoned
  and names this very token as current, and the database still entitles the user.\<close>

theorem validate_access_session_iff:
  "(\<exists>login s'. validate_access_session W D now t s = (Inr login, s')) \<longleftrightarrow>
   (\<exists>claims session family.
      decode_access_token (jwt W) now t = Inr claims \<and>
      get_json (redis W) s (session_key (py_str (dget claims ''jti''))) = Some session \<and>
      session \<noteq> Map.empty \<and> claims_match claims session \<and>
      family_backs (redis W) s claims session family \<and> auth_allowed D session)"
  unfolding validate_valid_iff access_valid_def ..

text \<open>C4. Re-authorization implements the access policy: an active user; for the platform
  scope a root or admin; for a project an active, unarchived project to which a root has
  access always, an admin by assignment and anyone else by a group. Every refusal revokes
  the family of the session (or the session, if it names no family).\<close>

theorem reconstruct_auth_context_policy:
  "(if auth_allowed D session
    then \<exists>c. reconstruct_auth_context R D now session s = (Some c, s)
    else \<exists>reason. reconstruct_auth_context R D now session s =
           (None, revoke_context_state R now session reason s))"
proof (cases "auth_allowed D session")
  case True
  then obtain c where "reconstruct_auth_context R D now session s = (Some c, s)" by (rule reconstruct_granted)
  with True show ?thesis by auto
next
  case False
  with reconstruct_denied [OF False] show ?thesis by simp
qed

section \<open>Issuing and rotating\<close>

lemma whole_second_left:
  "later + us_per_second \<le> e \<Longrightarrow> later < e div us_per_second * us_per_second"
  using div_mult_mod_eq [of e us_per_second] pos_mod_bound [of us_per_second e]
  by (simp add: us_per_second_def)

text \<open>A project login always yields a pair, and the pair works: its access token
  validates until it expires and its refresh token rotates as long as the family lives,
  provided the database still entitles the user at that moment.\<close>

lemma issued_project_pair_works:
  assumes "auth_world W tick pttl" and "ids_ok ids" and "us_per_second \<le> now"
    and "dget user ''user_hash'' = JStr h" and "h \<noteq> []"
    and "dget project ''project_hash'' = JStr c" and "c \<noteq> []"
    and "redis_get (redis W) s (revoked_key (new_family_id ids)) = None"
    and "issue_project_token_pair W now ids user project ps gs gis rm s = (r, s')"
  shows "\<exists>pair. r = Inr pair \<and>
    (\<forall>D later. now \<le> later \<longrightarrow>
       later < (now + access_expire_minutes (cfg W) * 60 * us_per_second) div us_per_second * us_per_second \<longrightarrow>
       view_authorized D (issued_view now ids h AUTH_SCOPE_PROJECT c rm (effective_refresh_ttl None rm)) \<longrightarrow>
       (\<exists>login s''. validate_access_session W D later (access_token pair) s' = (Inr login, s''))) \<and>
    (\<forall>D later ids'. now \<le> later \<longrightarrow>
       later + us_per_second \<le> now + effective_refresh_ttl None rm * us_per_second \<longrightarrow>
       ids_ok ids' \<longrightarrow> new_access_jti ids' \<noteq> new_access_jti ids \<longrightarrow> new_refresh_jti ids' \<noteq> new_refresh_jti ids \<longrightarrow>
       hash_lookup D \<longrightarrow>
       view_authorized D (issued_view now ids h AUTH_SCOPE_PROJECT c rm (effective_refresh_ttl None rm)) \<longrightarrow>
       (\<exists>rot s''. rotate_refresh_family W D later ids' None (refresh_token pair) s' = (Inr rot, s'')))"
proof -
  let ?ttl = "effective_refresh_ttl None rm"
  let ?v = "issued_view now ids h AUTH_SCOPE_PROJECT c rm ?ttl"
  have pos: "0 < ?ttl" by simp
  have sc: "scope_collection AUTH_SCOPE_PROJECT (case Some project of Some p \<Rightarrow> p | None \<Rightarrow> Map.empty) (JStr c)"
    using assms(6) by (simp add: scope_collection_def)
  have iss: "issue_token_pair W now ids user AUTH_SCOPE_PROJECT (JStr c) (Some project) ps gs gis rm None s = (r, s')"
    using assms(6,9) by (simp add: issue_project_token_pair_def)
  then obtain pair where r: "r = Inr pair"
    using auth_world.issue_token_pair_total [OF assms(1) pos] by (metis prod.inject)
  note iss = iss [unfolded r]
  note h = auth_world.issue_holds_view [OF assms(1) iss pos assms(2,4) sc assms(5,7,8,3)]
  note dec = auth_world.issued_tokens_decode [OF assms(1) iss pos]
  from h(1) obtain session family tr where hd: "holds_docs W s' ?v (refresh_token pair) session family tr"
    by (auto simp: holds_view_def)
  have ac: "view_claims ?v (fv_access ?v) (access_claims pair)" "view_claims ?v (fv_refresh ?v) (refresh_claims pair)"
    using h(3,4) by simp_all
  have val: "\<exists>login s''. validate_access_session W D later (access_token pair) s' = (Inr login, s'')"
    if "now \<le> later" "view_authorized D ?v"
      "later < (now + access_expire_minutes (cfg W) * 60 * us_per_second) div us_per_second * us_per_second" for D later
    unfolding validate_valid_iff by (rule view_access_valid [OF hd h(2) dec(1) [OF that(1,3)] ac(1) that(2)])
  have rot: "\<exists>rot s''. rotate_refresh_family W D later ids' None (refresh_token pair) s' = (Inr rot, s'')"
    if t: "now \<le> later" "later + us_per_second \<le> now + ?ttl * us_per_second"
      and i: "ids_ok ids'" "new_access_jti ids' \<noteq> new_access_jti ids" "new_refresh_jti ids' \<noteq> new_refresh_jti ids"
      and D: "hash_lookup D" "view_authorized D ?v" for D later ids'
  proof -
    from dec(2) [OF t(1) whole_second_left [OF t(2)]] show ?thesis
      using t i D ac(2)
      by (auto elim!: auth_world.rotate_view [OF assms(1) hd, where D = D and now = later and target = None
              and ids = ids' and claims = "refresh_claims pair"]
          simp: view_open_def target_ok_def switched_view_def compute_refresh_expires_at_def)
  qed
  from r val rot show ?thesis by blast
qed

lemma demo_fields:
  "dget demo_user ''user_hash'' = JStr ''h1''" "dget demo_project ''project_hash'' = JStr ''ph1''"
  "us_per_second \<le> demo_now"
  by (simp_all add: demo_user_def demo_project_def demo_now_def us_per_second_def)

lemma issued_project_pair_works_witness:
  "\<exists>pair s'. demo_issue = (Inr pair, s') \<and>
     (\<exists>login s''. validate_access_session demo_world demo_hooks demo_now (access_token pair) s' = (Inr login, s''))"
proof -
  obtain r s' where i: "demo_issue = (r, s')" by fastforce
  have a: "view_authorized demo_hooks (issued_view demo_now (demo_ids ''1'') ''h1'' AUTH_SCOPE_PROJECT ''ph1'' False
      (effective_refresh_ttl None False))" by (simp add: demo_authorized)
  have b: "demo_now < (demo_now + access_expire_minutes (cfg demo_world) * 60 * us_per_second)
      div us_per_second * us_per_second" by (simp add: demo_now_def us_per_second_def)
  have ne: "''h1'' \<noteq> []" "''ph1'' \<noteq> []"
    and tm: "redis_get (redis demo_world) mem_empty (revoked_key (new_family_id (demo_ids ''1''))) = None" by simp_all
  obtain pair where p: "r = Inr pair"
    and v: "demo_now \<le> later \<Longrightarrow> later < (demo_now + access_expire_minutes (cfg demo_world) * 60 * us_per_second)
          div us_per_second * us_per_second \<Longrightarrow>
        view_authorized D (issued_view demo_now (demo_ids ''1'') ''h1'' AUTH_SCOPE_PROJECT ''ph1'' False
          (effective_refresh_ttl None False)) \<Longrightarrow>
        \<exists>login s''. validate_access_session demo_world D later (access_token pair) s' = (Inr login, s'')" for D later
    using issued_project_pair_works [OF demo.auth_world_axioms demo_ids_ok demo_fields(3,1) ne(1) demo_fields(2) ne(2) tm
        i [unfolded demo_issue_def demo_login_def]] by blast
  from i p v [OF order_refl b a] show ?thesis by blast
qed

text \<open>C5. Rotation implements the abstract family: from a store that holds a family, its
  current refresh token is exchanged for a pair of a family with the same owner, session,
  authentication time and absolute end, the same scope unless a project is switched to, and
  the two new tokens as the current ones. The new access token validates at once.\<close>

theorem rotation_refines_family:
  assumes "auth_world W tick pttl" and "holds_view W s v rt"
    and "decode_refresh_token (jwt W) now rt = Inr claims" and "view_claims v (fv_refresh v) claims"
    and "view_open now v" and "target_ok target"
    and "hash_lookup D" and "view_authorized D (switched_view target v)" and "ids_ok ids"
    and "new_access_jti ids \<noteq> fv_access v" and "new_refresh_jti ids \<noteq> fv_refresh v"
  shows "\<exists>rot s'. rotate_refresh_family W D now ids target rt s = (Inr rot, s') \<and>
     holds_view W s' (rotated_view ids target v) (refresh_token (rot_token_pair rot)) \<and>
     view_claims (rotated_view ids target v) (new_access_jti ids) (access_claims (rot_token_pair rot)) \<and>
     view_claims (rotated_view ids target v) (new_refresh_jti ids) (refresh_claims (rot_token_pair rot)) \<and>
     dget (access_claims (rot_token_pair rot)) ''auth_time'' = JInt (fv_auth_time v) \<and>
     (\<exists>login s''. validate_access_session W D now (access_token (rot_token_pair rot)) s' = (Inr login, s''))"
proof -
  from assms(2) obtain session family tr where hd: "holds_docs W s v rt session family tr"
    by (auto simp: holds_view_def)
  obtain rot s' where r: "rotate_refresh_family W D now ids target rt s = (Inr rot, s')"
    and hv: "holds_view W s' (rotated_view ids target v) (refresh_token (rot_token_pair rot))"
    and hs: "has_session W s' (rotated_view ids target v)"
    and vc: "view_claims (rotated_view ids target v) (new_access_jti ids) (access_claims (rot_token_pair rot))"
      "view_claims (rotated_view ids target v) (new_refresh_jti ids) (refresh_claims (rot_token_pair rot))"
      "dget (access_claims (rot_token_pair rot)) ''auth_time'' = JInt (fv_auth_time v)"
    by (rule auth_world.rotate_view [OF assms(1) hd assms(3-11)])
  from hv obtain session' family' tr' where
    hd': "holds_docs W s' (rotated_view ids target v) (refresh_token (rot_token_pair rot)) session' family' tr'"
    by (auto simp: holds_view_def)
  have "view_authorized D (rotated_view ids target v)" using assms(8)
    by (cases "get_user_by_hash D (fv_user v)") (auto simp: view_authorized_def split: if_splits)
  moreover have "view_claims (rotated_view ids target v) (fv_access (rotated_view ids target v))
      (access_claims (rot_token_pair rot))" using vc by simp
  ultimately have "access_valid W D now (access_token (rot_token_pair rot)) s'"
    using view_access_valid [OF hd' hs auth_world.rotate_decodes(1) [OF assms(1) r]] by blast
  with r hv vc show ?thesis unfolding validate_valid_iff [symmetric] by blast
qed

theorem rotation_refines_family_witness:
  "\<exists>pair s rot s'. demo_issue = (Inr pair, s) \<and>
     rotate_refresh_family demo_world demo_hooks demo_now (demo_ids ''2'') None (refresh_token pair) s = (Inr rot, s') \<and>
     holds_view demo_world s' (rotated_view (demo_ids ''2'') None demo_view) (refresh_token (rot_token_pair rot))"
proof -
  obtain pair s where i: "demo_issue = (Inr pair, s)"
    and h: "holds_view demo_world s demo_view (refresh_token pair)"
    and d: "decode_refresh_token sym_jwt demo_now (refresh_token pair) = Inr (refresh_claims pair)"
    and c: "view_claims demo_view ''r1'' (refresh_claims pair)"
    by (rule demo_issued)
  have "\<exists>rot s'. rotate_refresh_family demo_world demo_hooks demo_now (demo_ids ''2'') None (refresh_token pair) s =
      (Inr rot, s') \<and> holds_view demo_world s' (rotated_view (demo_ids ''2'') None demo_view)
      (refresh_token (rot_token_pair rot))"
    using rotation_refines_family [OF demo.auth_world_axioms h, where now = demo_now and target = None
        and D = demo_hooks and ids = "demo_ids ''2''" and claims = "refresh_claims pair"] d c
    by (auto simp: view_open_def target_ok_def switched_view_def demo_authorized)
  with i show ?thesis by blast
qed

text \<open>After a rotation the old tokens are dead: no access token with the old identifier
  validates, and the old refresh token is refused.\<close>

lemma rotation_retires_old_tokens:
  assumes "auth_world W tick pttl" and "wf_families (redis W) s" and "ids_ok ids"
    and "rotate_refresh_family W D now ids target rt s = (Inr rot, s')"
    and "rot_old_access_jti rot \<noteq> new_access_jti ids" and "rot_old_refresh_jti rot \<noteq> new_refresh_jti ids"
  shows "(\<forall>D' later t c. decode_access_token (jwt W) later t = Inr c \<longrightarrow>
            py_str (dget c ''jti'') = rot_old_access_jti rot \<longrightarrow>
            (\<exists>e. fst (validate_access_session W D' later t s') = Inl e)) \<and>
         (\<forall>D' later ids' target' t c. decode_refresh_token (jwt W) later t = Inr c \<longrightarrow>
            py_str (dget c ''jti'') = rot_old_refresh_jti rot \<longrightarrow>
            (\<exists>e. fst (rotate_refresh_family W D' later ids' target' t s') = Inl e))"
proof -
  obtain p s1 where pr: "rotate_prepare W D now ids target rt s = (Inr p, s1)"
    and cm: "rotate_commit W now p s1 = (Inr rot, s')"
    using rotate_refresh_family_parts [OF assms(4)] by blast
  note plan = auth_world.rotate_prepare_plan [OF assms(1) pr assms(2,3)]
  have s': "s' = rotate_writes (redis W) p s1" using rotate_commit_cases(1) [OF cm] by simp
  have old: "rot_old_access_jti rot = plan_old_access_jti p" "rot_old_refresh_jti rot = plan_refresh_jti p"
    using cm by (auto simp: rotate_commit_def rotate_conflict_def split: if_splits prod.splits)
  note docs = redis_store.rotate_writes_docs [OF auth_world.axioms(1) [OF assms(1)] plan(5,6)]
  have "get_json (redis W) s' (session_key (rot_old_access_jti rot)) = None"
    by (simp add: s' docs old)
  then have 1: "\<not> access_valid W D' later t s'"
    if "decode_access_token (jwt W) later t = Inr c" "py_str (dget c ''jti'') = rot_old_access_jti rot" for D' later t c
    using that by (auto simp: access_valid_def)
  have 2: "token_consumed (redis W) s' (rot_old_refresh_jti rot)"
    using plan(2,4) assms(6) by (simp add: token_consumed_def s' docs old)
  from 1 2 show ?thesis by (auto intro!: validate_Inl rotate_needs_prepare consumed_not_prepared)
qed

lemma demo_wf:
  assumes "demo_issue = (r, s)"
  shows "wf_families mem_redis s"
  using demo.lifecycle_inv_step [OF demo_issue_step [OF assms] lifecycle_inv_init [OF demo_init_ok]]
  by (simp add: lifecycle_inv_def)

lemma rotation_retires_old_tokens_witness:
  "\<exists>pair s rot s'. demo_issue = (Inr pair, s) \<and>
     rotate_refresh_family demo_world demo_hooks demo_now (demo_ids ''2'') None (refresh_token pair) s = (Inr rot, s') \<and>
     (\<exists>e. fst (validate_access_session demo_world demo_hooks demo_now (access_token pair) s') = Inl e) \<and>
     (\<exists>e. fst (rotate_refresh_family demo_world demo_hooks demo_now (demo_ids ''3'') None (refresh_token pair) s') = Inl e)"
proof -
  obtain pair s rot s' where i: "demo_issue = (Inr pair, s)"
    and r: "rotate_refresh_family demo_world demo_hooks demo_now (demo_ids ''2'') None (refresh_token pair) s = (Inr rot, s')"
    and o: "rot_old_refresh_jti rot = ''r1''" "rot_old_access_jti rot = ''a1''"
    by (rule demo_rotated)
  obtain pair' s'' where i': "demo_issue = (Inr pair', s'')"
    and "decode_access_token sym_jwt demo_now (access_token pair') = Inr (access_claims pair')"
    and "decode_refresh_token sym_jwt demo_now (refresh_token pair') = Inr (refresh_claims pair')"
    and "view_claims demo_view ''a1'' (access_claims pair')"
    and "view_claims demo_view ''r1'' (refresh_claims pair')"
    by (rule demo_issued)
  moreover have "pair' = pair" using trans [OF i [symmetric] i'] by simp
  ultimately have d: "decode_access_token (jwt demo_world) demo_now (access_token pair) = Inr (access_claims pair)"
      "decode_refresh_token (jwt demo_world) demo_now (refresh_token pair) = Inr (refresh_claims pair)"
      "py_str (dget (access_claims pair) ''jti'') = ''a1''" "py_str (dget (refresh_claims pair) ''jti'') = ''r1''"
    by (auto simp: view_claims_def)
  have wf: "wf_families (redis demo_world) s" using demo_wf [OF i] by simp
  have new: "rot_old_access_jti rot \<noteq> new_access_jti (demo_ids ''2'')"
    "rot_old_refresh_jti rot \<noteq> new_refresh_jti (demo_ids ''2'')" by (simp_all add: o)
  note T = rotation_retires_old_tokens [OF demo.auth_world_axioms wf demo_ids_ok r new, unfolded o]
  from i r T [THEN conjunct1, rule_format, OF d(1,3)] T [THEN conjunct2, rule_format, OF d(2,4)]
  show ?thesis by blast
qed

text \<open>C6. A remembered login has a fixed end: whatever the number of rotations, the new pair
  ends at the family's stored absolute end, never later, and the family keeps that end.\<close>

theorem rotation_never_extends_remembered_login:
  assumes "auth_world W tick pttl"
    and "rotate_prepare W D now ids target t s = (Inr p, s')"
    and "get_json (redis W) s (family_key (plan_family_id p)) = Some family"
    and "truthy (dget family ''remember_me'')"
  shows "\<exists>e. parse_datetime (py_or (dget family ''absolute_expires_at'') (dget family ''expires_at'')) = Some e \<and>
     refresh_expires_at (plan_pair p) = e \<and> 0 < refresh_expires_in (plan_pair p) \<and>
     now + refresh_expires_in (plan_pair p) * us_per_second \<le> e \<and>
     dget (plan_family p) ''absolute_expires_at'' = JTime e \<and> truthy (dget (plan_family p) ''remember_me'')"
  by (rule auth_world.rotate_prepare_expiry [OF assms]) blast

theorem rotation_never_extends_remembered_login_witness:
  "\<exists>pair s p s' family. demo_login True = (Inr pair, s) \<and>
     rotate_prepare demo_world demo_hooks (demo_now + 86400 * us_per_second) (demo_ids ''2'') None
       (refresh_token pair) s = (Inr p, s') \<and>
     get_json mem_redis s (family_key (plan_family_id p)) = Some family \<and> truthy (dget family ''remember_me'') \<and>
     refresh_expires_at (plan_pair p) = demo_now + REMEMBER_ME_REFRESH_TTL_SECONDS * us_per_second"
proof -
  let ?later = "demo_now + 86400 * us_per_second"
  obtain pair s where i: "demo_login True = (Inr pair, s)"
    and h: "holds_view demo_world s (demo_login_view True) (refresh_token pair)"
    and c: "view_claims (demo_login_view True) ''r1'' (refresh_claims pair)"
    by (rule demo_login_issued)
  from h obtain session family tr where
    hd: "holds_docs demo_world s (demo_login_view True) (refresh_token pair) session family tr"
    by (auto simp: holds_view_def)
  have pos: "0 < effective_refresh_ttl None True" by simp
  have d: "decode_refresh_token (jwt demo_world) ?later (refresh_token pair) = Inr (refresh_claims pair)"
    by (rule demo.issued_tokens_decode(2) [OF i [unfolded demo_login_def issue_project_token_pair_def] pos])
      (simp_all add: demo_now_def us_per_second_def REMEMBER_ME_REFRESH_TTL_SECONDS_def)
  have v: "view_claims (demo_login_view True) (fv_refresh (demo_login_view True)) (refresh_claims pair)"
    "view_authorized demo_hooks (switched_view None (demo_login_view True))" "target_ok None"
    using c by (simp_all add: demo_authorized demo_login_view_def switched_view_def target_ok_def)
  have op: "view_open ?later (demo_login_view True)"
    by (simp add: view_open_def demo_login_view_def compute_refresh_expires_at_def us_per_second_def
        REMEMBER_ME_REFRESH_TTL_SECONDS_def)
  obtain p where p: "rotate_prepare demo_world demo_hooks ?later (demo_ids ''2'') None (refresh_token pair) s = (Inr p, s)"
    and "plan_family_id p = fv_family (demo_login_view True)"
    by (rule demo.rotate_prepare_view [OF hd d v(1) op v(3) demo_lookup v(2) demo_ids_ok])
  then have f: "plan_family_id p = ''f1''" by (simp add: demo_login_view_def)
  have g: "get_json (redis demo_world) s (family_key (plan_family_id p)) = Some family"
    "truthy (dget family ''remember_me'')"
    "py_or (dget family ''absolute_expires_at'') (dget family ''expires_at'') =
       JTime (demo_now + REMEMBER_ME_REFRESH_TTL_SECONDS * us_per_second)"
    using hd f by (simp_all add: holds_docs_def view_family_def demo_login_view_def compute_refresh_expires_at_def)
  from rotation_never_extends_remembered_login [OF demo.auth_world_axioms p g(1,2)] g i p show ?thesis by auto
qed

section \<open>Replays\<close>

text \<open>A refresh token that was already exchanged is a harmless replay only if it is
  presented within the grace window and its successor is still the current token of the
  family; then nothing changes. Otherwise it is reuse: the whole family is revoked, marked
  reused and tombstoned, and no session listed for its user belongs to it any more.\<close>

lemma replayed_refresh_token:
  assumes "auth_world W tick pttl" and "wf_families (redis W) s"
    and "get_json (redis W) s (family_key f) = Some family" and "dget family ''status'' = JStr ''active''"
    and "redis_get (redis W) s (revoked_key f) = None"
    and "get_json (redis W) s (token_key j) = Some tr" and "dget tr ''status'' = JStr ''used''"
  shows "(if 0 < replay_grace_seconds (cfg W) \<and> truthy (dget tr ''child_jti'') \<and>
             py_str (dget tr ''child_jti'') = py_str (py_or (dget family ''current_refresh_jti'') (JStr [])) \<and>
             (\<exists>used_at. parse_datetime (dget tr ''used_at'') = Some used_at \<and> used_at \<le> now \<and>
                now \<le> used_at + replay_grace_seconds (cfg W) * us_per_second)
          then classify_refresh_token_state W now f j s = (Replayed, s)
          else \<exists>s'. classify_refresh_token_state W now f j s = (Reused, s') \<and>
             s' = revoke_refresh_family (redis W) now f ''refresh_reuse'' s \<and>
             family_revoked (redis W) s' f \<and>
             (\<exists>d. get_json (redis W) s' (family_key f) = Some d \<and> dget d ''status'' = JStr ''reused'') \<and>
             (\<forall>i d. truthy (dget family ''user_id'') \<longrightarrow>
                i \<in> set (redis_smembers (redis W) s (user_sessions_key (py_str (dget family ''user_id'')))) \<longrightarrow>
                get_json (redis W) s' (session_key i) = Some d \<longrightarrow> dget d ''family_id'' \<noteq> JStr f))"
proof -
  have ne: "family \<noteq> Map.empty" "tr \<noteq> Map.empty" using assms(4,7) dget_nonempty by blast+
  have nr: "\<not> is_refresh_family_revoked (redis W) s f"
    using assms(3,4,5) ne by (simp add: is_refresh_family_revoked_def)
  note R = auth_world.axioms(1) [OF assms(1)]
  have rv: "family_revoked (redis W) (revoke_refresh_family (redis W) now f ''refresh_reuse'' s) f"
    by (rule redis_store.revoke_refresh_family_revoked [OF R assms(2)])
  have ru: "\<exists>d. get_json (redis W) (revoke_refresh_family (redis W) now f ''refresh_reuse'' s) (family_key f) = Some d \<and>
      dget d ''status'' = JStr ''reused''"
    by (simp add: redis_store.revoke_refresh_family_get(1) [OF R assms(2)] doc_simps)
  have benign: "is_benign_refresh_replay (cfg W) now family tr \<longleftrightarrow>
      0 < replay_grace_seconds (cfg W) \<and> truthy (dget tr ''child_jti'') \<and>
      py_str (dget tr ''child_jti'') = py_str (py_or (dget family ''current_refresh_jti'') (JStr [])) \<and>
      (\<exists>used_at. parse_datetime (dget tr ''used_at'') = Some used_at \<and> used_at \<le> now \<and>
         now \<le> used_at + replay_grace_seconds (cfg W) * us_per_second)"
    using assms(7) by (auto simp: is_benign_refresh_replay_def Let_def split: option.split)
  show ?thesis
    unfolding benign [symmetric] using assms(3,4,6,7) ne nr rv ru
      redis_store.revoke_refresh_family_no_session [OF R assms(2,3) ne(1), where now = now and reason = "''refresh_reuse''"]
    by (auto simp: classify_refresh_token_state_def)
qed

lemma replayed_refresh_token_witness:
  "\<exists>s. classify_refresh_token_state demo_world (demo_now + 10 * us_per_second) ''f1'' ''r1'' s = (Replayed, s) \<and>
     (\<exists>s'. classify_refresh_token_state demo_world (demo_now + 11 * us_per_second) ''f1'' ''r1'' s = (Reused, s') \<and>
       family_revoked mem_redis s' ''f1'')"
proof -
  obtain pair s rot s' where i: "demo_issue = (Inr pair, s)"
    and r: "rotate_refresh_family demo_world demo_hooks demo_now (demo_ids ''2'') None (refresh_token pair) s = (Inr rot, s')"
    and h: "holds_view demo_world s' (rotated_view (demo_ids ''2'') None demo_view) (refresh_token (rot_token_pair rot))"
    and o: "rot_old_refresh_jti rot = ''r1''"
    and t: "\<exists>tr. get_json mem_redis s' (token_key ''r1'') = Some tr \<and> dget tr ''status'' = JStr ''used'' \<and>
           dget tr ''used_at'' = JTime demo_now \<and> dget tr ''child_jti'' = JStr ''r2''"
    by (rule demo_rotated)
  obtain y where ry: "lifecycle_reach demo_world mem_tick demo_init y" and y: "store y = s'"
    by (rule demo_run_of [OF i r o])
  have "lifecycle_inv demo_world y"
    by (rule demo.lifecycle_inv_reach [OF ry lifecycle_inv_init [OF demo_init_ok]])
  then have wf: "wf_families (redis demo_world) s'" by (simp add: lifecycle_inv_def y)
  from h obtain family where
      f: "get_json (redis demo_world) s' (family_key ''f1'') = Some family" "dget family ''status'' = JStr ''active''"
        "redis_get (redis demo_world) s' (revoked_key ''f1'') = None"
        "dget family ''current_refresh_jti'' = JStr ''r2''"
    by (auto simp: holds_view_def holds_docs_def view_family_def)
  from t obtain tr where tr: "get_json (redis demo_world) s' (token_key ''r1'') = Some tr" "dget tr ''status'' = JStr ''used''"
      "dget tr ''used_at'' = JTime demo_now" "dget tr ''child_jti'' = JStr ''r2''" by auto
  note T = replayed_refresh_token [OF demo.auth_world_axioms wf f(1-3) tr(1,2)]
  from T [of "demo_now + 10 * us_per_second"] T [of "demo_now + 11 * us_per_second"] f tr
  show ?thesis by (auto simp: us_per_second_def)
qed

section \<open>Bulk revocation\<close>

text \<open>What a login leaves in the indexes and documents of the demo store.\<close>

lemma demo_store:
  assumes "demo_issue = (Inr pair, s)"
  shows "''a1'' \<in> set (redis_smembers mem_redis s (user_sessions_key ''u1''))"
    and "''f1'' \<in> set (redis_smembers mem_redis s (user_families_key ''u1''))"
    and "\<exists>d. get_json mem_redis s (session_key ''a1'') = Some d \<and> dget d ''family_id'' = JStr ''f1'' \<and>
           dget d ''user_id'' = JStr ''u1'' \<and> dget d ''project_id'' = JStr ''p1''"
proof -
  have pos: "0 < effective_refresh_ttl None False" by simp
  have m: "0 < access_expire_minutes (cfg demo_world)" by simp
  from assms obtain session family tr anchor where
      s: "s = store_issued mem_redis default_config (demo_ids ''1'') (py_str (dget demo_user ''id'')) session family
            tr anchor (effective_refresh_ttl None False) mem_empty"
    and f: "session = issue_session_payload default_config demo_now (demo_ids ''1'') demo_user AUTH_SCOPE_PROJECT
        (dget demo_project ''project_hash'') demo_project (Some [''read'']) (Some [''buyers'']) None False
        (effective_refresh_ttl None False)"
    unfolding demo_issue_def demo_login_def issue_project_token_pair_def
    by (cases rule: issue_token_pair_cases) auto
  have u: "py_str (dget demo_user ''id'') = ''u1''" by (simp add: demo_user_def)
  show "''a1'' \<in> set (redis_smembers mem_redis s (user_sessions_key ''u1''))"
    "''f1'' \<in> set (redis_smembers mem_redis s (user_families_key ''u1''))"
    by (simp_all add: s u store_issued_def Let_def store_simps demo.smembers_expire demo.smembers_sadd_if
        mem.smembers_expire mem.smembers_sadd_if mem.smembers_set_json REFRESH_FAMILY_TTL_SECONDS_def)
  show "\<exists>d. get_json mem_redis s (session_key ''a1'') = Some d \<and> dget d ''family_id'' = JStr ''f1'' \<and>
      dget d ''user_id'' = JStr ''u1'' \<and> dget d ''project_id'' = JStr ''p1''"
    using demo.store_issued_docs(3) [OF m pos, where k = "''a1''" and ids = "demo_ids ''1''" and s = mem_empty
        and session = session and family = family and token = tr and anchor = anchor and u = "''u1''"]
    by (simp add: s u) (simp add: f issue_session_payload_def demo_user_def demo_project_def)
qed

text \<open>C7. Revoking all of a user's state removes every session and revokes every family in
  the user's indexes, and empties the indexes.\<close>

theorem revoke_user_auth_state_complete:
  assumes "redis_store R tick pttl" and "wf_families R s"
    and "s' = revoke_user_auth_state R now user_id reason s"
  shows "(\<forall>j \<in> set (redis_smembers R s (user_sessions_key user_id)). get_json R s' (session_key j) = None) \<and>
     (\<forall>f \<in> set (redis_smembers R s (user_families_key user_id)). family_revoked R s' f) \<and>
     redis_smembers R s' (user_sessions_key user_id) = [] \<and> redis_smembers R s' (user_families_key user_id) = []"
  unfolding assms(3) using redis_store.revoke_user_effect [OF assms(1,2)] by blast

theorem revoke_user_auth_state_complete_witness:
  "\<exists>pair s. demo_issue = (Inr pair, s) \<and>
     get_json mem_redis (revoke_user_auth_state mem_redis demo_now ''u1'' ''reset'' s) (session_key ''a1'') = None \<and>
     family_revoked mem_redis (revoke_user_auth_state mem_redis demo_now ''u1'' ''reset'' s) ''f1''"
proof -
  obtain pair s where i: "demo_issue = (Inr pair, s)" by (rule demo_issued)
  from revoke_user_auth_state_complete [OF mem.redis_store_axioms demo_wf [OF i] refl] demo_store [OF i] i
  show ?thesis by blast
qed

text \<open>Revoking everything but the current session leaves the current session, its family,
  its anchor and its tombstone exactly as they were; every other session in the index is
  gone and every other family in the index is revoked.\<close>

lemma revoke_except_current_exact:
  assumes "redis_store (redis W) tick pttl" and "wf_families (redis W) s"
    and "get_json (redis W) s (session_key j) = Some d" and "dget d ''family_id'' = JStr f"
    and "j \<noteq> []" and "f \<noteq> []"
    and "revoke_user_auth_state_except_current W now user_id token (Some j) (Some f) reason s = (summary, s')"
  shows "keeps (redis W) j f s s' \<and>
     (\<forall>i \<in> set (redis_smembers (redis W) s (user_sessions_key user_id)).
        i \<noteq> j \<longrightarrow> nonempty_doc (get_json (redis W) s' (session_key i)) = None) \<and>
     (\<forall>g \<in> set (redis_smembers (redis W) s (user_families_key user_id)).
        g \<noteq> f \<longrightarrow> family_revoked (redis W) s' g)"
proof -
  have "current_session_ids (jwt W) now token (Some j) (Some f) = (Some j, Some f)"
    using assms(5,6) by (simp add: current_session_ids_def given_def split: option.split)
  with assms(5-7) obtain e1 e2 where
      e1: "e1 = foldl (except_session (redis W) now user_id reason (Some j) (Some f))
               \<lparr>ex_summary = empty_summary, ex_revoked = [], ex_store = s\<rparr>
               (redis_smembers (redis W) s (user_sessions_key user_id))"
    and e2: "e2 = foldl (except_family (redis W) now user_id reason (Some f)) e1
               (redis_smembers (redis W) (ex_store e1) (user_families_key user_id))"
    and s': "s' = ex_store e2"
    by (simp add: revoke_user_auth_state_except_current_def given_def Let_def)
  show ?thesis
    unfolding s' using redis_store.except_loops_effect [OF assms(1-6) e1 e2] by blast
qed

lemma revoke_except_current_exact_witness:
  "\<exists>pair s summary s'. demo_issue = (Inr pair, s) \<and>
     revoke_user_auth_state_except_current demo_world demo_now ''u1'' None (Some ''a1'') (Some ''f1'') ''email'' s =
       (summary, s') \<and> keeps mem_redis ''a1'' ''f1'' s s'"
proof -
  obtain pair s where i: "demo_issue = (Inr pair, s)" by (rule demo_issued)
  obtain d where d: "get_json (redis demo_world) s (session_key ''a1'') = Some d" "dget d ''family_id'' = JStr ''f1''"
    using demo_store(3) [OF i] by auto
  obtain summary s' where
    r: "revoke_user_auth_state_except_current demo_world demo_now ''u1'' None (Some ''a1'') (Some ''f1'') ''email'' s =
      (summary, s')" by fastforce
  have wf: "wf_families (redis demo_world) s" and R: "redis_store (redis demo_world) mem_tick mem_pttl"
    using demo_wf [OF i] mem.redis_store_axioms by simp_all
  from revoke_except_current_exact [OF R wf d _ _ r] i r show ?thesis by auto
qed

text \<open>C8. After access to projects changed, no listed user keeps a session in one of those
  projects without access to it, and every session looked at is counted exactly once, as
  revoked, preserved, skipped or missing.\<close>

theorem losing_access_sweep:
  assumes "redis_store R tick pttl" and "wf_families R s"
    and "revoke_project_sessions_losing_access R now has_access user_ids project_ids reason s = (summary, s')"
  shows "(\<forall>u \<in> set user_ids. \<forall>j \<in> set (redis_smembers R s (user_sessions_key u)).
            project_ids \<noteq> [] \<longrightarrow> session_in_order R has_access project_ids u s' j) \<and>
         accounted summary \<and> families_revoked summary \<le> sessions_revoked summary"
proof (cases "user_ids = [] \<or> project_ids = []")
  case True
  with assms(3) show ?thesis
    by (auto simp: revoke_project_sessions_losing_access_def accounted_def empty_summary_def)
next
  case False
  let ?step = "\<lambda>acc u. foldl (losing_access_session R now has_access project_ids reason u) acc
      (redis_smembers R (snd acc) (user_sessions_key u))"
  let ?r = "foldl ?step (empty_summary, s) (remdups user_ids)"
  have r: "?r = (summary, s')" using assms(3) False by (simp add: revoke_project_sessions_losing_access_def)
  have in_order: "session_in_order R has_access project_ids u (snd ?r) j"
    if "u \<in> set user_ids" "j \<in> set (redis_smembers R s (user_sessions_key u))" for u j
    by (rule redis_store.losing_access_all [OF assms(1)]) (use that assms(2) in simp_all)
  let ?ok = "\<lambda>a. accounted (fst a) \<and> families_revoked (fst a) \<le> sessions_revoked (fst a)"
  have "?ok ?r"
  proof (rule foldl_invariant [where P = ?ok])
    show "?ok (empty_summary, s)" by (simp add: accounted_def empty_summary_def)
    show "?ok (?step a u)" if "?ok a" for a u
      by (rule foldl_invariant [where P = ?ok], rule that)
        (rule losing_access_session_accounted, simp_all)
  qed
  with in_order r show ?thesis by simp
qed

theorem losing_access_sweep_witness:
  "\<exists>pair s summary s'. demo_issue = (Inr pair, s) \<and>
     revoke_project_sessions_losing_access mem_redis demo_now (\<lambda>u p. False) [''u1''] [''p1''] ''access_lost'' s =
       (summary, s') \<and>
     session_in_order mem_redis (\<lambda>u p. False) [''p1''] ''u1'' s' ''a1'' \<and> accounted summary"
proof -
  obtain pair s where i: "demo_issue = (Inr pair, s)" by (rule demo_issued)
  obtain summary s' where
    r: "revoke_project_sessions_losing_access mem_redis demo_now (\<lambda>u p. False) [''u1''] [''p1''] ''access_lost'' s =
      (summary, s')" by fastforce
  from losing_access_sweep [OF mem.redis_store_axioms demo_wf [OF i] r] demo_store(1) [OF i]
  have "session_in_order mem_redis (\<lambda>u p. False) [''p1''] ''u1'' s' ''a1'' \<and> accounted summary" by auto
  with i r show ?thesis by blast
qed

section \<open>Anchors\<close>

text \<open>A refresh anchor holds no secret and no privilege: none of its fields is a token, a
  token hash, a permission or a group, and its fields are these twenty-one.\<close>

lemma anchor_holds_no_secrets:
  "dom (build_refresh_anchor_payload session family) =
     {''anchor_version'', ''family_id'', ''session_id'', ''status'', ''user_id'', ''user_hash'', ''username'',
      ''user_type'', ''scope'', ''collection'', ''project_id'', ''project_hash'', ''project_name'',
      ''current_access_jti'', ''current_refresh_jti'', ''created_at'', ''updated_at'', ''expires_at'',
      ''remember_me'', ''refresh_ttl_seconds'', ''absolute_expires_at''}"
  by (auto simp: build_refresh_anchor_payload_def Let_def)

text \<open>Rotation survives the access session: as long as the family is held, the anchor alone
  is enough, so the refresh token rotates even after the access session has expired.\<close>

lemma rotation_from_anchor:
  assumes "auth_world W tick pttl" and "holds_view W s v rt"
    and "get_json (redis W) s (session_key (fv_access v)) = None"
    and "decode_refresh_token (jwt W) now rt = Inr claims" and "view_claims v (fv_refresh v) claims"
    and "view_open now v" and "hash_lookup D" and "view_authorized D v" and "ids_ok ids"
    and "new_access_jti ids \<noteq> fv_access v" and "new_refresh_jti ids \<noteq> fv_refresh v"
  shows "\<exists>rot s'. rotate_refresh_family W D now ids None rt s = (Inr rot, s') \<and>
     holds_view W s' (rotated_view ids None v) (refresh_token (rot_token_pair rot))"
proof -
  from assms(2) obtain session family tr where hd: "holds_docs W s v rt session family tr"
    by (auto simp: holds_view_def)
  have "target_ok None" "view_authorized D (switched_view None v)"
    using assms(8) by (simp_all add: target_ok_def switched_view_def)
  then show ?thesis
    by (auto intro: auth_world.rotate_view [OF assms(1) hd assms(4-6) _ assms(7) _ assms(9-11)])
qed

lemma demo_expired_session:
  assumes "holds_view demo_world s v rt"
  shows "holds_view demo_world (mem_delete [session_key (fv_access v)] s) v rt"
    and "get_json mem_redis (mem_delete [session_key (fv_access v)] s) (session_key (fv_access v)) = None"
proof -
  have "mem_delete ks s = redis_delete mem_redis ks s" for ks by (simp add: mem_redis_def)
  then show "holds_view demo_world (mem_delete [session_key (fv_access v)] s) v rt"
    "get_json mem_redis (mem_delete [session_key (fv_access v)] s) (session_key (fv_access v)) = None"
    using assms by (auto simp: holds_view_def holds_docs_def mem.get_json_delete mem.get_delete)
qed

theorem rotation_from_anchor_witness:
  "\<exists>pair s rot s'. demo_issue = (Inr pair, s) \<and>
     rotate_refresh_family demo_world demo_hooks demo_now (demo_ids ''2'') None (refresh_token pair)
       (mem_delete [session_key ''a1''] s) = (Inr rot, s')"
proof -
  obtain pair s where i: "demo_issue = (Inr pair, s)"
    and h: "holds_view demo_world s demo_view (refresh_token pair)"
    and d: "decode_refresh_token sym_jwt demo_now (refresh_token pair) = Inr (refresh_claims pair)"
    and c: "view_claims demo_view ''r1'' (refresh_claims pair)"
    by (rule demo_issued)
  note e = demo_expired_session [OF h]
  have "\<exists>rot s'. rotate_refresh_family demo_world demo_hooks demo_now (demo_ids ''2'') None (refresh_token pair)
      (mem_delete [session_key ''a1''] s) = (Inr rot, s')"
    using rotation_from_anchor [OF demo.auth_world_axioms e(1), where now = demo_now and D = demo_hooks
        and ids = "demo_ids ''2''" and claims = "refresh_claims pair"] d c e(2)
    by (auto simp: view_open_def demo_authorized)
  with i show ?thesis by blast
qed

end
