(* ===== verification/OAuth_Authorize.thy ===== *)
theory OAuth_Authorize
  imports OAuth_Machine Lifecycle_Props
begin

text \<open>
  \<^verbatim>\<open>authorize_oauth_session\<close> of \<^verbatim>\<open>src/src/Util/auth_lifecycle.py\<close>: the session that started a
  link or a reauthentication must still be the current session of a live family when the
  provider answers. One pass is \<open>authorize_attempt\<close>: everything read under \<^verbatim>\<open>WATCH\<close> up to
  and including \<^verbatim>\<open>EXEC\<close>; \<open>authorize_oauth_session\<close> retries a pass whose \<^verbatim>\<open>EXEC\<close> (or re-read)
  met a concurrent change, three times at most. Both views of Redis are of one server, the
  assumption of \<open>oauth_world\<close>.
\<close>

section \<open>Authorizing a completion\<close>

datatype authz_error = Denied string bool | OAuthFailed oauth_error

text \<open>\<^verbatim>\<open>for payload in (family, session)\<close>: not expired and still bound to the same identity.\<close>

definition payload_bound :: "int \<Rightarrow> session_authorization \<Rightarrow> dict \<Rightarrow> string option" where
  "payload_bound now a payload =
     (case parse_datetime (dget payload ''expires_at'') of
        None \<Rightarrow> Some ''session_expired''
      | Some e \<Rightarrow>
          if e \<le> now then Some ''session_expired''
          else if dget payload ''user_id'' \<noteq> az_user_id a \<or> dget payload ''user_hash'' \<noteq> az_user_hash a \<or>
                  dget payload ''family_id'' \<noteq> az_family_id a \<or> dget payload ''scope'' \<noteq> az_scope a \<or>
                  dget payload ''project_hash'' \<noteq> az_project_hash a
          then Some ''session_binding_changed'' else None)"

definition proof_current ::
    "'s oauth_redis \<Rightarrow> (json \<Rightarrow> string) \<Rightarrow> int \<Rightarrow> string \<Rightarrow> state_record \<Rightarrow> session_authorization \<Rightarrow> 's \<Rightarrow>
     string option" where
  "proof_current Q digest now marker_key r a s =
     (if rec_purpose r \<noteq> ''link'' then None
      else case az_proof a of
             None \<Rightarrow> Some ''recent_auth_expired''
           | Some p \<Rightarrow>
               if \<not> (authenticated_at_ms p \<le> now div 1000 \<and> now div 1000 < proof_expires_at_ms p)
               then Some ''recent_auth_expired''
               else if proof_source p = ''marker'' \<and>
                       (case o_get Q s marker_key of
                          None \<Rightarrow> True
                        | Some raw \<Rightarrow> o_pttl Q s marker_key \<le> 0 \<or> JStr (digest raw) \<noteq> marker_fingerprint p)
               then Some ''recent_auth_marker_changed'' else None)"

definition completion_writes ::
    "'s oauth_redis \<Rightarrow> oauth_env \<Rightarrow> int \<Rightarrow> string \<Rightarrow> bool \<Rightarrow> state_record \<Rightarrow> session_authorization \<Rightarrow> string \<Rightarrow>
     's \<Rightarrow> 's" where
  "completion_writes Q E now proof_id complete r a ckey s =
     (if \<not> complete then s
      else let s1 = o_delete Q ckey s
           in if rec_purpose r = ''reauth''
              then o_set_pxat Q (recent_reauth_key E (py_str (az_user_id a)) (Some (py_str (az_session_id a))))
                     (JObj (recent_reauth_payload now (az_user_id a) (az_session_id a) proof_id))
                     (now div 1000 + recent_reauth_seconds E * 1000) s1
              else s1)"

text \<open>The reads under \<^verbatim>\<open>WATCH\<close>: the live family and its pointer, then the session it points to.\<close>

definition authorize_family ::
    "('s, 't) world \<Rightarrow> session_authorization \<Rightarrow> 's \<Rightarrow> authz_error + dict \<times> string" where
  "authorize_family W a s =
     (let fid = py_str (az_family_id a)
      in case nonempty_doc (get_json (redis W) s (family_key fid)) of
           None \<Rightarrow> Inl (Denied ''family_revoked_or_missing'' False)
         | Some family \<Rightarrow>
             if dget family ''status'' \<noteq> JStr ''active'' \<or> redis_get (redis W) s (revoked_key fid) \<noteq> None
             then Inl (Denied ''family_revoked_or_missing'' False)
             else
               let access_jti = py_str (py_or (dget family ''current_access_jti'') (JStr []))
               in if access_jti = [] then Inl (Denied ''session_missing'' False)
                  else Inr (family, access_jti))"

definition authorize_session ::
    "('s, 't) world \<Rightarrow> 's oauth_redis \<Rightarrow> oauth_env \<Rightarrow> (json \<Rightarrow> string) \<Rightarrow> int \<Rightarrow> state_record \<Rightarrow>
     session_authorization \<Rightarrow> dict \<Rightarrow> string \<Rightarrow> 's \<Rightarrow> authz_error + dict" where
  "authorize_session W Q E digest now r a family access_jti s =
     (let marker_key = recent_reauth_key E (py_str (az_user_id a)) (Some (py_str (az_session_id a)))
      in case nonempty_doc (get_json (redis W) s (session_key access_jti)) of
           None \<Rightarrow> Inl (Denied ''session_missing'' False)
         | Some session \<Rightarrow>
             (case payload_bound now a family of
                Some e \<Rightarrow> Inl (Denied e False)
              | None \<Rightarrow>
                  (case payload_bound now a session of
                     Some e \<Rightarrow> Inl (Denied e False)
                   | None \<Rightarrow>
                       if dget session ''session_id'' \<noteq> az_session_id a \<or>
                          dget session ''access_jti'' \<noteq> JStr access_jti \<or>
                          dget session ''refresh_jti'' \<noteq> dget family ''current_refresh_jti''
                       then Inl (Denied ''session_binding_changed'' False)
                       else (case proof_current Q digest now marker_key r a s of
                               Some e \<Rightarrow> Inl (Denied e False)
                             | None \<Rightarrow> Inr session))))"

text \<open>The user and the authorization context, from the database.\<close>

definition authorize_identity ::
    "('s, 't) world \<Rightarrow> db_hooks \<Rightarrow> int \<Rightarrow> session_authorization \<Rightarrow> dict \<Rightarrow> 's \<Rightarrow> (authz_error + unit) \<times> 's" where
  "authorize_identity W D now a session s =
     (case load_active_user (redis W) D now (py_str (az_user_hash a)) session s of
        (None, s') \<Rightarrow> (Inl (Denied ''user_inactive_or_changed'' False), s')
      | (Some user, s') \<Rightarrow>
          if JStr (py_str (dget user ''id'')) \<noteq> az_user_id a
          then (Inl (Denied ''user_inactive_or_changed'' False), s')
          else (case reconstruct_auth_context (redis W) (D\<lparr>get_user_by_hash := (\<lambda>_. Some user)\<rparr>) now session s' of
                  (None, s'') \<Rightarrow> (Inl (Denied ''project_access_lost'' True), s'')
                | (Some context, s'') \<Rightarrow> (Inr (), s'')))"

text \<open>
  What other requests do to one pass: nothing, a rotation that moved the family between the
  two reads (the pass starts again before it classifies the session), or a write to a watched
  key that makes \<^verbatim>\<open>EXEC\<close> fail.
\<close>

datatype interference = Quiet | FamilyMoved | WatchFailed

datatype pass_result = Failed authz_error | Retry | Authorized

definition authorize_attempt ::
    "('s, 't) world \<Rightarrow> 's oauth_redis \<Rightarrow> oauth_env \<Rightarrow> (json \<Rightarrow> string) \<Rightarrow> db_hooks \<Rightarrow> int \<Rightarrow> string \<Rightarrow> bool \<Rightarrow>
     state_record \<Rightarrow> session_authorization \<Rightarrow> string \<Rightarrow> interference \<Rightarrow> 's \<Rightarrow> pass_result \<times> 's" where
  "authorize_attempt W Q E digest D now proof_id complete r a ckey meet s =
     (case validate_completion Q now r s of
        Inl e \<Rightarrow> (Failed (OAuthFailed e), s)
      | Inr _ \<Rightarrow>
          (case authorize_family W a s of
             Inl e \<Rightarrow> (Failed e, s)
           | Inr (family, access_jti) \<Rightarrow>
               if meet = FamilyMoved then (Retry, s)
               else (case authorize_session W Q E digest now r a family access_jti s of
                       Inl e \<Rightarrow> (Failed e, s)
                     | Inr session \<Rightarrow>
                         (case authorize_identity W D now a session s of
                            (Inl e, s') \<Rightarrow> (Failed e, s')
                          | (Inr _, s') \<Rightarrow>
                              (case validate_completion Q now r s' of
                                 Inl e \<Rightarrow> (Failed (OAuthFailed e), s')
                               | Inr _ \<Rightarrow>
                                   if meet = WatchFailed then (Retry, s')
                                   else (Authorized, completion_writes Q E now proof_id complete r a ckey s'))))))"

text \<open>The schedule lists, for each pass, what other requests did before it and during it.\<close>

fun authorize_loop ::
    "(interference \<Rightarrow> 's \<Rightarrow> pass_result \<times> 's) \<Rightarrow> (('s \<Rightarrow> 's) \<times> interference) list \<Rightarrow> 's \<Rightarrow>
     (authz_error + unit) \<times> 's" where
  "authorize_loop attempt [] s = (Inl (Denied ''session_changed_during_authorization'' False), s)"
| "authorize_loop attempt ((others, meet) # rest) s =
     (case attempt meet (others s) of
        (Failed e, s') \<Rightarrow> (Inl e, s')
      | (Retry, s') \<Rightarrow> authorize_loop attempt rest s'
      | (Authorized, s') \<Rightarrow> (Inr (), s'))"

definition authorize_oauth_session ::
    "('s, 't) world \<Rightarrow> 's oauth_redis \<Rightarrow> oauth_env \<Rightarrow> (json \<Rightarrow> string) \<Rightarrow> db_hooks \<Rightarrow> int \<Rightarrow> string \<Rightarrow> bool \<Rightarrow>
     state_record \<Rightarrow> (nat \<Rightarrow> ('s \<Rightarrow> 's) \<times> interference) \<Rightarrow> 's \<Rightarrow> (authz_error + unit) \<times> 's" where
  "authorize_oauth_session W Q E digest D now proof_id complete r schedule s =
     (case rec_authorization r of
        None \<Rightarrow> (Inl (OAuthFailed (StateInvalid ''OAuth session authorization is missing'')), s)
      | Some a \<Rightarrow>
          (case completion_key (rec_authorization_ref r) of
             Inl e \<Rightarrow> (Inl (OAuthFailed e), s)
           | Inr ckey \<Rightarrow>
               authorize_loop (authorize_attempt W Q E digest D now proof_id complete r a ckey)
                 (map schedule [0..<3]) s))"

section \<open>What a successful authorization stands for\<close>

locale oauth_world = redis_store "redis W" tick pttl + oauth_store Q tick server_ms
  for W :: "('s, 't) world" and Q :: "'s oauth_redis" and tick :: "nat \<Rightarrow> 's \<Rightarrow> 's"
    and pttl :: "'s \<Rightarrow> string \<Rightarrow> int option" and server_ms :: "'s \<Rightarrow> int" +
  assumes same_server: "o_get Q s k = redis_get (redis W) s k"

text \<open>
  The specification of a pass: the family is live, the session it points to now is the one the
  state was bound to, both are unexpired, the proof of a link still stands, and the user the
  binding names is still allowed in.
\<close>

definition oauth_session_ok ::
    "('s, 't) world \<Rightarrow> 's oauth_redis \<Rightarrow> oauth_env \<Rightarrow> (json \<Rightarrow> string) \<Rightarrow> db_hooks \<Rightarrow> int \<Rightarrow> state_record \<Rightarrow>
     session_authorization \<Rightarrow> 's \<Rightarrow> bool" where
  "oauth_session_ok W Q E digest D now r a s \<longleftrightarrow>
     (\<exists>family session user.
        get_json (redis W) s (family_key (py_str (az_family_id a))) = Some family \<and>
        dget family ''status'' = JStr ''active'' \<and>
        redis_get (redis W) s (revoked_key (py_str (az_family_id a))) = None \<and>
        truthy (dget family ''current_access_jti'') \<and> py_str (dget family ''current_access_jti'') \<noteq> [] \<and>
        get_json (redis W) s (session_key (py_str (dget family ''current_access_jti''))) = Some session \<and>
        payload_bound now a family = None \<and> payload_bound now a session = None \<and>
        dget session ''session_id'' = az_session_id a \<and>
        dget session ''access_jti'' = JStr (py_str (dget family ''current_access_jti'')) \<and>
        dget session ''refresh_jti'' = dget family ''current_refresh_jti'' \<and>
        proof_current Q digest now
          (recent_reauth_key E (py_str (az_user_id a)) (Some (py_str (az_session_id a)))) r a s = None \<and>
        get_user_by_hash D (py_str (az_user_hash a)) = Some user \<and>
        JStr (py_str (dget user ''id'')) = az_user_id a \<and>
        auth_allowed D session)"

lemma load_active_user_Some:
  "load_active_user R D now h session s = (Some user, s') \<longleftrightarrow>
     get_user_by_hash D h = Some user \<and> truthy (dget_default user ''is_active'' (JBool True)) \<and> s' = s"
  by (auto simp: load_active_user_def split: option.splits if_splits)

lemma auth_allowed_const_user:
  assumes "get_user_by_hash D (py_str (dget session ''user_hash'')) = Some user"
  shows "auth_allowed (D\<lparr>get_user_by_hash := (\<lambda>_. Some user)\<rparr>) session = auth_allowed D session"
  using assms by (auto simp: auth_allowed_def project_access_def split: option.splits)

lemma auth_allowed_active:
  "auth_allowed D session \<Longrightarrow> get_user_by_hash D (py_str (dget session ''user_hash'')) = Some user \<Longrightarrow>
     truthy (dget_default user ''is_active'' (JBool True))"
  by (simp add: auth_allowed_def)

lemma payload_bound_user_hash: "payload_bound now a d = None \<Longrightarrow> dget d ''user_hash'' = az_user_hash a"
  by (auto simp: payload_bound_def split: option.splits if_splits)

lemma current_jti_nonempty:
  "py_str (py_or v (JStr [])) \<noteq> [] \<longleftrightarrow> truthy v \<and> py_str v \<noteq> []"
  by (cases "truthy v") auto

lemma current_jti_truthy: "truthy v \<Longrightarrow> py_str (py_or v (JStr [])) = py_str v"
  by (cases "truthy v") auto

lemma reconstruct_granted_same:
  assumes "reconstruct_auth_context R D now session s = (Some c, s')"
  shows "auth_allowed D session" and "s' = s"
proof -
  show al: "auth_allowed D session"
    by (rule reconstruct_granted_iff [THEN iffD1], rule exI, rule exI, rule assms)
  obtain c' where "reconstruct_auth_context R D now session s = (Some c', s)"
    by (rule reconstruct_granted [OF al])
  with assms show "s' = s" by simp
qed

lemma authorize_identity_Inr:
  assumes h: "dget session ''user_hash'' = az_user_hash a"
  shows "authorize_identity W D now a session s = (Inr u, s') \<longleftrightarrow>
     s' = s \<and> auth_allowed D session \<and>
     (\<exists>user. get_user_by_hash D (py_str (az_user_hash a)) = Some user \<and>
             JStr (py_str (dget user ''id'')) = az_user_id a)" (is "?l \<longleftrightarrow> ?r")
proof
  assume ?l
  then obtain user c s1 where
      u: "load_active_user (redis W) D now (py_str (az_user_hash a)) session s = (Some user, s1)"
    and i: "JStr (py_str (dget user ''id'')) = az_user_id a"
    and c: "reconstruct_auth_context (redis W) (D\<lparr>get_user_by_hash := (\<lambda>_. Some user)\<rparr>) now session s1 = (Some c, s')"
    by (auto simp: authorize_identity_def split: prod.splits option.splits if_splits)
  from u have u': "get_user_by_hash D (py_str (az_user_hash a)) = Some user" "s1 = s"
    by (simp_all add: load_active_user_Some)
  from reconstruct_granted_same [OF c] u' h i show ?r by (simp add: auth_allowed_const_user)
next
  assume r: ?r
  then obtain user where u: "get_user_by_hash D (py_str (az_user_hash a)) = Some user"
    and i: "JStr (py_str (dget user ''id'')) = az_user_id a" by blast
  from r u h have al: "auth_allowed (D\<lparr>get_user_by_hash := (\<lambda>_. Some user)\<rparr>) session"
    by (simp add: auth_allowed_const_user)
  obtain c where c: "reconstruct_auth_context (redis W) (D\<lparr>get_user_by_hash := (\<lambda>_. Some user)\<rparr>) now session s = (Some c, s)"
    by (rule reconstruct_granted [OF al])
  from r u h have "load_active_user (redis W) D now (py_str (az_user_hash a)) session s = (Some user, s)"
    unfolding load_active_user_Some using auth_allowed_active [of D session user] by simp
  with c i r show ?l by (simp add: authorize_identity_def)
qed

lemma dget_text_nonempty: "dget d k = JStr v \<Longrightarrow> d \<noteq> Map.empty"
  by (auto simp: dget_def)

lemma authorize_family_Inr:
  "authorize_family W a s = Inr (family, jti) \<longleftrightarrow>
     get_json (redis W) s (family_key (py_str (az_family_id a))) = Some family \<and>
     dget family ''status'' = JStr ''active'' \<and>
     redis_get (redis W) s (revoked_key (py_str (az_family_id a))) = None \<and>
     truthy (dget family ''current_access_jti'') \<and> py_str (dget family ''current_access_jti'') \<noteq> [] \<and>
     jti = py_str (dget family ''current_access_jti'')" (is "?l \<longleftrightarrow> ?r")
proof
  assume l: ?l
  then obtain "nonempty_doc (get_json (redis W) s (family_key (py_str (az_family_id a)))) = Some family"
    and st: "dget family ''status'' = JStr ''active''"
    and "redis_get (redis W) s (revoked_key (py_str (az_family_id a))) = None"
    and "py_str (py_or (dget family ''current_access_jti'') (JStr [])) \<noteq> []"
    and "jti = py_str (py_or (dget family ''current_access_jti'') (JStr []))"
    unfolding authorize_family_def Let_def by (auto split: option.splits if_splits)
  then show ?r
    unfolding current_jti_nonempty by (simp add: current_jti_truthy)
next
  assume r: ?r
  then have "family \<noteq> Map.empty" by (intro dget_text_nonempty [of family "''status''" "''active''"]) simp
  with r show ?l by (simp add: authorize_family_def current_jti_truthy)
qed

lemma authorize_session_Inr:
  "authorize_session W Q E digest now r a family jti s = Inr session \<longleftrightarrow>
     get_json (redis W) s (session_key jti) = Some session \<and>
     payload_bound now a family = None \<and> payload_bound now a session = None \<and>
     dget session ''session_id'' = az_session_id a \<and> dget session ''access_jti'' = JStr jti \<and>
     dget session ''refresh_jti'' = dget family ''current_refresh_jti'' \<and>
     proof_current Q digest now
       (recent_reauth_key E (py_str (az_user_id a)) (Some (py_str (az_session_id a)))) r a s = None"
proof (cases "dget session ''access_jti'' = JStr jti")
  case True
  then have "session \<noteq> Map.empty" by (rule dget_text_nonempty)
  then show ?thesis
    by (auto simp: authorize_session_def split: option.splits if_splits)
qed (auto simp: authorize_session_def split: option.splits if_splits)

lemma oauth_session_ok_iff:
  "oauth_session_ok W Q E digest D now r a s \<longleftrightarrow>
     (\<exists>family jti session. authorize_family W a s = Inr (family, jti) \<and>
        authorize_session W Q E digest now r a family jti s = Inr session \<and>
        authorize_identity W D now a session s = (Inr (), s))"
proof -
  have i: "payload_bound now a session = None \<Longrightarrow> authorize_identity W D now a session s = (Inr (), s) \<longleftrightarrow>
     auth_allowed D session \<and>
     (\<exists>user. get_user_by_hash D (py_str (az_user_hash a)) = Some user \<and>
             JStr (py_str (dget user ''id'')) = az_user_id a)" for session
    using authorize_identity_Inr [OF payload_bound_user_hash, where W = W and s = s and s' = s] by simp
  show ?thesis
    unfolding oauth_session_ok_def authorize_family_Inr authorize_session_Inr by (auto simp: i)
qed

lemma authorize_identity_same:
  assumes "authorize_session W Q E digest now r a family jti s = Inr session"
    and "authorize_identity W D now a session s = (Inr u, s')"
  shows "s' = s"
proof -
  have "dget session ''user_hash'' = az_user_hash a"
    using assms(1) unfolding authorize_session_Inr by (blast intro: payload_bound_user_hash)
  from authorize_identity_Inr [OF this, THEN iffD1, OF assms(2)] show ?thesis by blast
qed

text \<open>A pass no other request meets authorizes exactly when the specification holds.\<close>

lemma authorize_attempt_Authorized:
  "authorize_attempt W Q E digest D now proof_id complete r a ckey meet s = (Authorized, s') \<longleftrightarrow>
     meet = Quiet \<and> validate_completion Q now r s = Inr () \<and> oauth_session_ok W Q E digest D now r a s \<and>
     s' = completion_writes Q E now proof_id complete r a ckey s" (is "?l \<longleftrightarrow> ?r")
proof
  assume ?l
  then obtain family jti session s1 where m: "meet = Quiet" and v: "validate_completion Q now r s = Inr ()"
    and f: "authorize_family W a s = Inr (family, jti)"
    and ss: "authorize_session W Q E digest now r a family jti s = Inr session"
    and i: "authorize_identity W D now a session s = (Inr (), s1)"
    and w: "s' = completion_writes Q E now proof_id complete r a ckey s1"
    by (cases meet) (auto simp: authorize_attempt_def split: option.splits sum.splits prod.splits if_splits)
  from authorize_identity_same [OF ss i] have "s1 = s" .
  with m v f ss i w show ?r unfolding oauth_session_ok_iff by blast
next
  assume r: ?r
  then obtain family jti session where "authorize_family W a s = Inr (family, jti)"
    and "authorize_session W Q E digest now r a family jti s = Inr session"
    and "authorize_identity W D now a session s = (Inr (), s)"
    unfolding oauth_session_ok_iff by blast
  with r show ?l by (simp add: authorize_attempt_def)
qed

lemma authorize_attempt_Retry_same:
  "authorize_attempt W Q E digest D now proof_id complete r a ckey meet s = (Retry, s') \<Longrightarrow> s' = s"
proof -
  assume l: "authorize_attempt W Q E digest D now proof_id complete r a ckey meet s = (Retry, s')"
  consider "s' = s" | family jti session where "authorize_session W Q E digest now r a family jti s = Inr session"
    and "authorize_identity W D now a session s = (Inr (), s')"
    using l by (cases meet) (auto simp: authorize_attempt_def split: option.splits sum.splits prod.splits if_splits)
  then show "s' = s"
  proof cases
    case 2
    then show ?thesis by (rule authorize_identity_same)
  qed
qed

section \<open>Three passes\<close>

text \<open>The state in which pass \<open>i\<close> runs: what other requests made of \<open>s\<close> by then.\<close>

definition pass_state :: "(nat \<Rightarrow> ('s \<Rightarrow> 's) \<times> interference) \<Rightarrow> nat \<Rightarrow> 's \<Rightarrow> 's" where
  "pass_state schedule i s = fold (\<lambda>j. fst (schedule j)) [0..<Suc i] s"

lemma authorize_loop_Inr:
  assumes "authorize_loop attempt (map schedule [k..<n]) s = (Inr (), s')"
    and "\<And>meet x x'. attempt meet x = (Retry, x') \<Longrightarrow> x' = x"
  obtains i where "k \<le> i" and "i < n"
    and "attempt (snd (schedule i)) (fold (\<lambda>j. fst (schedule j)) [k..<Suc i] s) = (Authorized, s')"
  using assms(1)
proof (induction "n - k" arbitrary: k s thesis)
  case 0
  then show ?case by simp
next
  case (Suc m)
  then have k: "k < n" by simp
  obtain others meet where sk: "schedule k = (others, meet)" by fastforce
  obtain p x where a: "attempt meet (others s) = (p, x)" by fastforce
  from Suc.prems(2) k sk a have l: "(case p of Failed e \<Rightarrow> (Inl e, x)
      | Retry \<Rightarrow> authorize_loop attempt (map schedule [Suc k..<n]) x | Authorized \<Rightarrow> (Inr (), x)) = (Inr (), s')"
    by (simp add: upt_conv_Cons)
  show ?case
  proof (cases p)
    case (Failed e)
    with l show ?thesis by simp
  next
    case Retry
    with a assms(2) have "x = others s" by simp
    with l Retry obtain i where i: "Suc k \<le> i" "i < n"
        "attempt (snd (schedule i)) (fold (\<lambda>j. fst (schedule j)) [Suc k..<Suc i] (others s)) = (Authorized, s')"
      using Suc.hyps(1) [of "Suc k" "others s"] Suc.hyps(2) by force
    have "[k..<Suc i] = k # [Suc k..<Suc i]" using i(1) by (simp add: upt_conv_Cons)
    with i sk show ?thesis by (intro Suc.prems(1) [of i]) simp_all
  next
    case Authorized
    with l a sk k show ?thesis by (intro Suc.prems(1) [of k]) simp_all
  qed
qed

lemma authorize_loop_first:
  "snd (schedule 0) = Quiet \<Longrightarrow> attempt Quiet (fst (schedule 0) s) = (Authorized, s') \<Longrightarrow>
     authorize_loop attempt (map schedule [0..<3]) s = (Inr (), s')"
  by (cases "schedule 0") (simp add: upt_conv_Cons)

lemma authorize_loop_failed:
  assumes "\<And>i x. P x \<Longrightarrow> P (fst (schedule i) x)" and "\<And>meet x. P x \<Longrightarrow> fst (attempt meet x) = Failed e"
    and "P s" and "k < n"
  shows "fst (authorize_loop attempt (map schedule [k..<n]) s) = Inl e"
proof -
  obtain others meet where sk: "schedule k = (others, meet)" by fastforce
  with assms(1) [OF assms(3), of k] have "fst (attempt meet (others s)) = Failed e" by (simp add: assms(2))
  then obtain x where "attempt meet (others s) = (Failed e, x)" by (metis prod.collapse)
  with sk assms(4) show ?thesis by (simp add: upt_conv_Cons)
qed

lemma authorize_oauth_session_Inr:
  assumes "authorize_oauth_session W Q E digest D now proof_id complete r schedule s = (Inr (), s')"
  obtains a ckey i where "rec_authorization r = Some a" and "completion_key (rec_authorization_ref r) = Inr ckey"
    and "i < 3" and "snd (schedule i) = Quiet"
    and "validate_completion Q now r (pass_state schedule i s) = Inr ()"
    and "oauth_session_ok W Q E digest D now r a (pass_state schedule i s)"
    and "s' = completion_writes Q E now proof_id complete r a ckey (pass_state schedule i s)"
proof -
  from assms obtain a ckey where a: "rec_authorization r = Some a"
    and k: "completion_key (rec_authorization_ref r) = Inr ckey"
    and l: "authorize_loop (authorize_attempt W Q E digest D now proof_id complete r a ckey)
              (map schedule [0..<3]) s = (Inr (), s')"
    by (auto simp: authorize_oauth_session_def split: option.splits sum.splits)
  obtain i where i: "i < 3" and "authorize_attempt W Q E digest D now proof_id complete r a ckey (snd (schedule i))
      (pass_state schedule i s) = (Authorized, s')"
    unfolding pass_state_def by (rule authorize_loop_Inr [OF l authorize_attempt_Retry_same]) blast
  with a k show thesis unfolding authorize_attempt_Authorized by (intro that) simp_all
qed

lemma validate_completion_missing:
  assumes "o_pttl Q s ckey \<le> 0" and "completion_key (rec_authorization_ref r) = Inr ckey"
  shows "validate_completion Q now r s =
    Inl (StateInvalid ''OAuth completion authorization has expired or changed'')"
  using assms by (simp add: validate_completion_def)

lemma reauth_key_not_completion [simp]:
  "recent_reauth_key E u sid \<noteq> OAUTH_COMPLETION_PREFIX @ x"
  by (simp add: recent_reauth_key_def oauth_key_def OAUTH_COMPLETION_PREFIX_def OAUTH_RECENT_REAUTH_PREFIX_def)

context oauth_store
begin

lemma completion_gone:
  assumes "completion_key v = Inr ckey"
  shows "o_get Q (completion_writes Q E now proof_id True r a ckey s) ckey = None"
  using completion_key_Inr [OF assms]
  by (simp add: completion_writes_def Let_def o_get_set_pxat o_get_delete reauth_key_not_completion [symmetric])

end

section \<open>One server\<close>

interpretation demo_oauth: oauth_world demo_world mem_oauth mem_tick mem_pttl clock
  by (intro oauth_world.intro oauth_world_axioms.intro)
    (simp_all add: mem.redis_store_axioms mem_oauth.oauth_store_axioms, simp add: mem_oauth_def mem_redis_def)

text \<open>A link that waits for its provider: the family, its current session, and the completion.\<close>

definition demo_link_payload :: dict where
  "demo_link_payload = [''purpose'' \<mapsto> JStr ''link'', ''connection_id'' \<mapsto> JStr ''c1'',
     ''authorization'' \<mapsto> asdict_authorization demo_authorization,
     ''authorization_ref'' \<mapsto> JStr (replicate 32 CHR ''0''), ''expires_at'' \<mapsto> JTime (61 * us_per_second)]"

definition demo_link_record :: state_record where
  "demo_link_record = build_record demo_env [] demo_link_payload (Some demo_authorization) 3"

definition demo_bound_doc :: dict where
  "demo_bound_doc = [''user_id'' \<mapsto> JStr ''u1'', ''user_hash'' \<mapsto> JStr ''h1'', ''family_id'' \<mapsto> JStr ''f1'',
     ''scope'' \<mapsto> JStr ''project'', ''project_hash'' \<mapsto> JStr ''ph1'', ''expires_at'' \<mapsto> JTime (900 * us_per_second)]"

definition demo_link_family :: dict where
  "demo_link_family = demo_bound_doc(''status'' \<mapsto> JStr ''active'', ''current_access_jti'' \<mapsto> JStr ''a1'',
     ''current_refresh_jti'' \<mapsto> JStr ''r1'')"

definition demo_link_session :: dict where
  "demo_link_session = demo_bound_doc(''session_id'' \<mapsto> JStr ''s1'', ''access_jti'' \<mapsto> JStr ''a1'',
     ''refresh_jti'' \<mapsto> JStr ''r1'')"

definition demo_ckey :: string where "demo_ckey = OAUTH_COMPLETION_PREFIX @ replicate 32 CHR ''0''"

definition demo_link_store :: mem where
  "demo_link_store = \<lparr>clock = 1000,
     strings = [family_key ''f1'' \<mapsto> (JObj demo_link_family, None), session_key ''a1'' \<mapsto> (JObj demo_link_session, None),
       demo_ckey \<mapsto> (JObj (completion_payload demo_link_payload), Some 61000)],
     sets = Map.empty\<rparr>"

definition demo_quiet :: "nat \<Rightarrow> (mem \<Rightarrow> mem) \<times> interference" where
  "demo_quiet i = (id, Quiet)"

lemma demo_link_keys [simp]:
  "family_key f \<noteq> session_key j" "session_key j \<noteq> family_key f" "family_key f \<noteq> demo_ckey" "session_key j \<noteq> demo_ckey"
  "demo_ckey \<noteq> family_key f" "demo_ckey \<noteq> session_key j" "revoked_key f \<noteq> family_key g" "revoked_key f \<noteq> session_key j"
  "revoked_key f \<noteq> demo_ckey"
  by (simp_all add: demo_ckey_def family_key_def session_key_def revoked_key_def OAUTH_COMPLETION_PREFIX_def
      REFRESH_FAMILY_PREFIX_def SESSION_PREFIX_def REVOKED_FAMILY_PREFIX_def)

lemma demo_link_reads [simp]:
  "mem_get demo_link_store (family_key ''f1'') = Some (JObj demo_link_family)"
  "mem_get demo_link_store (session_key ''a1'') = Some (JObj demo_link_session)"
  "mem_get demo_link_store demo_ckey = Some (JObj (completion_payload demo_link_payload))"
  "mem_get demo_link_store (revoked_key ''f1'') = None"
  "mem_remaining demo_link_store demo_ckey = 60000"
  by (simp_all add: mem_get_def mem_remaining_def demo_link_store_def live_def)

lemma demo_link_record_sel [simp]:
  "rec_authorization demo_link_record = Some demo_authorization" "rec_purpose demo_link_record = ''link''"
  "rec_authorization_ref demo_link_record = JStr (replicate 32 CHR ''0'')"
  "rec_oauth_binding demo_link_record = demo_link_payload"
  "rec_expires_at demo_link_record = JTime (61 * us_per_second)"
  by (simp_all add: demo_link_record_def build_record_def demo_link_payload_def)

lemma demo_ckey: "completion_key (JStr (replicate 32 CHR ''0'')) = Inr demo_ckey"
  by (simp only: demo_completion_key demo_ckey_def)

lemma demo_link_valid: "validate_completion mem_oauth us_per_second demo_link_record demo_link_store = Inr ()"
  by (simp only: validate_completion_def demo_link_record_sel demo_ckey)
    (simp add: mem_oauth_def json_loads_def us_per_second_def)

lemma demo_bound:
  "payload_bound us_per_second demo_authorization demo_link_family = None"
  "payload_bound us_per_second demo_authorization demo_link_session = None"
  by (simp_all add: payload_bound_def demo_authorization_def demo_link_family_def demo_link_session_def
      demo_bound_doc_def us_per_second_def)

lemma demo_link_allowed: "auth_allowed demo_hooks demo_link_session"
  by (simp add: auth_allowed_defs demo_link_session_def demo_bound_doc_def demo_hooks_def demo_user_def demo_project_def
      AUTH_SCOPE_PROJECT_def AUTH_SCOPE_PLATFORM_def project_is_active_for_auth_def safe_call_list_def)

lemma demo_link_ok:
  "oauth_session_ok demo_world mem_oauth demo_env (\<lambda>v. []) demo_hooks us_per_second demo_link_record demo_authorization
     demo_link_store"
proof -
  have f: "get_json mem_redis demo_link_store (family_key ''f1'') = Some demo_link_family"
    "get_json mem_redis demo_link_store (session_key ''a1'') = Some demo_link_session"
    "redis_get mem_redis demo_link_store (revoked_key ''f1'') = None"
    by (simp_all add: get_json_def mem_redis_def)
  have d: "dget demo_link_family ''status'' = JStr ''active''" "dget demo_link_family ''current_access_jti'' = JStr ''a1''"
    "dget demo_link_session ''session_id'' = JStr ''s1''" "dget demo_link_session ''access_jti'' = JStr ''a1''"
    "dget demo_link_session ''refresh_jti'' = dget demo_link_family ''current_refresh_jti''"
    by (simp_all add: demo_link_family_def demo_link_session_def demo_bound_doc_def)
  have u: "get_user_by_hash demo_hooks ''h1'' = Some demo_user" "dget demo_user ''id'' = JStr ''u1''"
    by (simp_all add: demo_hooks_def demo_user_def)
  have a: "az_user_id demo_authorization = JStr ''u1''" "az_user_hash demo_authorization = JStr ''h1''"
    "az_session_id demo_authorization = JStr ''s1''" "az_family_id demo_authorization = JStr ''f1''"
    by (simp_all add: demo_authorization_def)
  have p: "proof_current mem_oauth (\<lambda>v. []) us_per_second k demo_link_record demo_authorization demo_link_store = None" for k
    by (simp add: proof_current_def demo_authorization_def us_per_second_def)
  show ?thesis
    unfolding oauth_session_ok_def
    by (intro exI [of _ demo_link_family] exI [of _ demo_link_session] exI [of _ demo_user])
      (simp add: f d u a p demo_bound demo_link_allowed)
qed

section \<open>Guarantees\<close>

text \<open>An OAuth completion is authorized only in a pass, one of at most three, that no concurrent
  write met, and in whose state the family was live, its current session was the one the flow
  started from, both unexpired and bound to the same identity, the proof of a link still stood
  and the user was still allowed in; the only change to the store is that of the completion.\<close>

lemma oauth_authorization_sound:
  assumes "authorize_oauth_session W Q E digest D now proof_id complete r schedule s = (Inr (), s')"
  shows "\<exists>a ckey i. i < 3 \<and> snd (schedule i) = Quiet \<and> rec_authorization r = Some a \<and>
     completion_key (rec_authorization_ref r) = Inr ckey \<and>
     validate_completion Q now r (pass_state schedule i s) = Inr () \<and>
     oauth_session_ok W Q E digest D now r a (pass_state schedule i s) \<and>
     s' = completion_writes Q E now proof_id complete r a ckey (pass_state schedule i s)"
  by (rule authorize_oauth_session_Inr [OF assms]) blast

lemma authorize_quiet:
  assumes "schedule 0 = (id, Quiet)" and "rec_authorization r = Some a"
    and "completion_key (rec_authorization_ref r) = Inr ckey" and "validate_completion Q now r s = Inr ()"
    and "oauth_session_ok W Q E digest D now r a s"
  shows "authorize_oauth_session W Q E digest D now proof_id complete r schedule s =
     (Inr (), completion_writes Q E now proof_id complete r a ckey s)"
proof -
  have "authorize_attempt W Q E digest D now proof_id complete r a ckey Quiet (fst (schedule 0) s) =
      (Authorized, completion_writes Q E now proof_id complete r a ckey s)"
    unfolding authorize_attempt_Authorized using assms by simp
  from authorize_loop_first [where attempt = "authorize_attempt W Q E digest D now proof_id complete r a ckey"
      and schedule = schedule and s = s, OF _ this] assms(1-3)
  show ?thesis by (simp add: authorize_oauth_session_def)
qed

lemma demo_link_authorized:
  "authorize_oauth_session demo_world mem_oauth demo_env (\<lambda>v. []) demo_hooks us_per_second ''n'' True demo_link_record
     demo_quiet demo_link_store =
   (Inr (), completion_writes mem_oauth demo_env us_per_second ''n'' True demo_link_record demo_authorization demo_ckey
      demo_link_store)"
  by (rule authorize_quiet [OF _ demo_link_record_sel(1) _ demo_link_valid demo_link_ok])
    (simp_all only: demo_quiet_def demo_link_record_sel demo_ckey)

lemma oauth_authorization_sound_witness:
  "\<exists>s' i. authorize_oauth_session demo_world mem_oauth demo_env (\<lambda>v. []) demo_hooks us_per_second ''n'' True
     demo_link_record demo_quiet demo_link_store = (Inr (), s') \<and> i < (3::nat) \<and>
   oauth_session_ok demo_world mem_oauth demo_env (\<lambda>v. []) demo_hooks us_per_second demo_link_record demo_authorization
     (pass_state demo_quiet i demo_link_store)"
  using oauth_authorization_sound [OF demo_link_authorized] demo_link_authorized by auto

text \<open>A completion is used once: after a completed link or reauthentication, every later attempt
  with the same completion reference is refused as expired or changed, whatever other requests
  do short of creating that completion again.\<close>

lemma oauth_completion_single_use:
  assumes store: "oauth_store Q tick server_ms"
    and first: "authorize_oauth_session W Q E digest D now proof_id True r schedule s = (Inr (), s')"
    and same: "rec_authorization_ref r' = rec_authorization_ref r" and "rec_authorization r' = Some a'"
    and key: "completion_key (rec_authorization_ref r) = Inr ckey"
    and others: "\<And>i x. o_get Q x ckey = None \<Longrightarrow> o_get Q (fst (schedule' i) x) ckey = None"
  shows "fst (authorize_oauth_session W Q E digest' D' now' proof_id' complete r' schedule' s') =
     Inl (OAuthFailed (StateInvalid ''OAuth completion authorization has expired or changed''))"
proof -
  have gone: "o_get Q s' ckey = None"
  proof (rule authorize_oauth_session_Inr [OF first])
    fix a k i
    assume "completion_key (rec_authorization_ref r) = Inr k"
      and s': "s' = completion_writes Q E now proof_id True r a k (pass_state schedule i s)"
    with key have "k = ckey" by simp
    then show ?thesis by (simp add: s' oauth_store.completion_gone [OF store key])
  qed
  have refuse: "fst (authorize_attempt W Q E digest' D' now' proof_id' complete r' a' ckey meet x) =
      Failed (OAuthFailed (StateInvalid ''OAuth completion authorization has expired or changed''))"
    if "o_get Q x ckey = None" for meet x
    using validate_completion_missing [OF oauth_store.o_pttl_missing [OF store that]] same key
    by (simp add: authorize_attempt_def)
  show ?thesis
    using authorize_loop_failed [where P = "\<lambda>x. o_get Q x ckey = None" and k = 0 and n = 3, OF others refuse gone] assms(4) same key
    by (simp add: authorize_oauth_session_def)
qed

lemma oauth_completion_single_use_witness:
  "\<exists>s'. authorize_oauth_session demo_world mem_oauth demo_env (\<lambda>v. []) demo_hooks us_per_second ''n'' True
     demo_link_record demo_quiet demo_link_store = (Inr (), s') \<and>
   fst (authorize_oauth_session demo_world mem_oauth demo_env (\<lambda>v. []) demo_hooks us_per_second ''n2'' True
     demo_link_record demo_quiet s') =
     Inl (OAuthFailed (StateInvalid ''OAuth completion authorization has expired or changed''))"
proof -
  note T = oauth_completion_single_use [OF mem_oauth.oauth_store_axioms demo_link_authorized refl demo_link_record_sel(1),
    of demo_ckey demo_quiet "\<lambda>v. []" demo_hooks us_per_second "''n2''" True]
  have "completion_key (rec_authorization_ref demo_link_record) = Inr demo_ckey"
    by (simp only: demo_link_record_sel demo_ckey)
  from T [OF this] demo_link_authorized show ?thesis by (auto simp: demo_quiet_def)
qed


end
