(* ===== verification/Rate_Window.thy ===== *)
theory Rate_Window
  imports Text
begin

text \<open>
  The fixed-window counters that every rate limiter of the program shares: \<^verbatim>\<open>_consume_bucket\<close>,
  \<^verbatim>\<open>_ttl\<close>, \<^verbatim>\<open>_redis_unavailable\<close>, the decision and the exception of
  \<^verbatim>\<open>src/src/Util/email/rate_limit.py\<close>, which the OAuth, Patreon and Stripe limiters repeat.

  Redis is a record of commands over an abstract server state. A command returns its reply, or
  \<open>None\<close> when the client raises, and the state it leaves: a command that raises may or may not
  have been carried out. The locale \<open>counter_store\<close> holds what the documentation of the commands
  promises; a server with deadlines and scripted outages interprets it.
\<close>

section \<open>Commands\<close>

record 's counters =
  counter_incr :: "string \<Rightarrow> 's \<Rightarrow> int option \<times> 's"
  counter_ttl :: "string \<Rightarrow> 's \<Rightarrow> int option \<times> 's"
  counter_expire :: "string \<Rightarrow> int \<Rightarrow> 's \<Rightarrow> bool option \<times> 's"
  counter_get :: "string \<Rightarrow> 's \<Rightarrow> string option option \<times> 's"
  counter_set :: "string \<Rightarrow> string \<Rightarrow> int \<Rightarrow> 's \<Rightarrow> bool option \<times> 's"

section \<open>Decisions\<close>

record rate_decision =
  rd_allowed :: bool
  rd_bucket :: string
  rd_retry_after :: int
  rd_remaining :: "int option"
  rd_degraded :: bool

record rate_limit_exceeded =
  rx_bucket :: string
  rx_retry_after :: int
  rx_limit :: int
  rx_key :: "string option"

definition RateLimitDecision :: "string \<Rightarrow> int option \<Rightarrow> bool \<Rightarrow> rate_decision" where
  "RateLimitDecision bucket remaining degraded =
     \<lparr>rd_allowed = True, rd_bucket = bucket, rd_retry_after = 0, rd_remaining = remaining, rd_degraded = degraded\<rparr>"

definition RateLimitExceeded :: "string \<Rightarrow> int \<Rightarrow> int \<Rightarrow> string option \<Rightarrow> rate_limit_exceeded" where
  "RateLimitExceeded bucket retry_after limit key =
     \<lparr>rx_bucket = bucket, rx_retry_after = max 1 (if retry_after = 0 then 1 else retry_after), rx_limit = limit, rx_key = key\<rparr>"

type_synonym rate_result = "rate_limit_exceeded + rate_decision"

definition redis_unavailable :: "bool \<Rightarrow> string \<Rightarrow> rate_result" where
  "redis_unavailable fail_closed bucket =
     (if fail_closed then Inl (RateLimitExceeded bucket 1 0 None) else Inr (RateLimitDecision bucket None True))"

definition rate_ttl :: "'s counters \<Rightarrow> string \<Rightarrow> int \<Rightarrow> 's \<Rightarrow> int \<times> 's" where
  "rate_ttl C key fallback_seconds s =
     (case counter_ttl C key s of
        (None, s1) \<Rightarrow> (max 1 fallback_seconds, s1)
      | (Some ttl, s1) \<Rightarrow> (max 1 (if ttl > 0 then ttl else fallback_seconds), s1))"

text \<open>\<^verbatim>\<open>_value_as_int\<close>: the text of a counter; a missing or malformed one counts as zero.\<close>

definition value_as_int :: "string option \<Rightarrow> int" where
  "value_as_int v = (case v of None \<Rightarrow> 0 | Some t \<Rightarrow> (case parse_int t of Some i \<Rightarrow> i | None \<Rightarrow> 0))"

text \<open>
  The guarded part of \<^verbatim>\<open>_consume_bucket\<close>: increment, and give the key its window when it is new or
  has lost its expiry. \<open>None\<close> is the exception of any of the three commands.
\<close>

definition count_request :: "'s counters \<Rightarrow> string \<Rightarrow> int \<Rightarrow> 's \<Rightarrow> int option \<times> 's" where
  "count_request C key window_seconds s =
     (case counter_incr C key s of
        (None, s1) \<Rightarrow> (None, s1)
      | (Some count, s1) \<Rightarrow>
          let set_window = (\<lambda>s2. case counter_expire C key (max 1 window_seconds) s2 of
                (None, s3) \<Rightarrow> (None, s3)
              | (Some _, s3) \<Rightarrow> (Some count, s3))
          in if count = 1 then set_window s1
             else (case counter_ttl C key s1 of
                     (None, s2) \<Rightarrow> (None, s2)
                   | (Some ttl, s2) \<Rightarrow> if ttl < 0 then set_window s2 else (Some count, s2)))"

definition consume_bucket ::
    "'s counters \<Rightarrow> bool \<Rightarrow> string \<Rightarrow> string \<Rightarrow> int \<Rightarrow> int \<Rightarrow> 's \<Rightarrow> rate_result \<times> 's" where
  "consume_bucket C fail_closed bucket key limit window_seconds s =
     (case count_request C key window_seconds s of
        (None, s1) \<Rightarrow> (redis_unavailable fail_closed bucket, s1)
      | (Some count, s1) \<Rightarrow>
          if count > limit then
            let (retry_after, s2) = rate_ttl C key window_seconds s1
            in (Inl (RateLimitExceeded bucket retry_after limit (Some key)), s2)
          else (Inr (RateLimitDecision bucket (Some (max 0 (limit - count))) False), s1))"

section \<open>The contract of the commands\<close>

text \<open>
  \<open>text_at s k\<close> is the value at a key, \<open>left s k\<close> the remaining lifetime in milliseconds of a key
  that has an expiry, \<open>wait n\<close> the passage of \<open>n\<close> milliseconds. \<^verbatim>\<open>TTL\<close> is negative exactly when the
  key has no expiry or does not exist.
\<close>

locale counter_store =
  fixes C :: "'s counters"
    and text_at :: "'s \<Rightarrow> string \<Rightarrow> string option"
    and left :: "'s \<Rightarrow> string \<Rightarrow> int option"
    and wait :: "nat \<Rightarrow> 's \<Rightarrow> 's"
  assumes incr_ok:
      "counter_incr C k s = (Some n, s') \<Longrightarrow>
         n = value_as_int (text_at s k) + 1 \<and> text_at s' = (text_at s)(k \<mapsto> int_text n) \<and> left s' = left s"
    and incr_raised:
      "counter_incr C k s = (None, s') \<Longrightarrow>
         left s' = left s \<and>
         (text_at s' = text_at s \<or> text_at s' = (text_at s)(k \<mapsto> int_text (value_as_int (text_at s k) + 1)))"
    and ttl_keeps: "counter_ttl C k s = (r, s') \<Longrightarrow> text_at s' = text_at s \<and> left s' = left s"
    and ttl_ok: "counter_ttl C k s = (Some t, s') \<Longrightarrow> t < 0 \<longleftrightarrow> left s k = None"
    and expire_text: "counter_expire C k ex s = (rb, s') \<Longrightarrow> 0 < ex \<Longrightarrow> text_at s' = text_at s"
    and expire_ok:
      "counter_expire C k ex s = (Some b, s') \<Longrightarrow> 0 < ex \<Longrightarrow> text_at s k \<noteq> None \<Longrightarrow> left s' = (left s)(k \<mapsto> ex * 1000)"
    and expire_raised:
      "counter_expire C k ex s = (None, s') \<Longrightarrow> 0 < ex \<Longrightarrow> text_at s k \<noteq> None \<Longrightarrow>
         left s' = left s \<or> left s' = (left s)(k \<mapsto> ex * 1000)"
    and get_ok: "counter_get C k s = (Some x, s') \<Longrightarrow> x = text_at s k"
    and get_keeps: "counter_get C k s = (rg, s') \<Longrightarrow> text_at s' = text_at s \<and> left s' = left s"
    and set_ok:
      "counter_set C k v ex s = (Some b, s') \<Longrightarrow> 0 < ex \<Longrightarrow>
         text_at s' = (text_at s)(k \<mapsto> v) \<and> left s' = (left s)(k \<mapsto> ex * 1000)"
    and set_raised:
      "counter_set C k v ex s = (None, s') \<Longrightarrow> 0 < ex \<Longrightarrow>
         text_at s' = text_at s \<and> left s' = left s \<or>
         text_at s' = (text_at s)(k \<mapsto> v) \<and> left s' = (left s)(k \<mapsto> ex * 1000)"
    and left_live: "left s k = Some p \<Longrightarrow> 0 < p \<and> text_at s k \<noteq> None"
    and text_wait:
      "text_at (wait d s) k = (case left s k of Some p \<Rightarrow> if int d < p then text_at s k else None | None \<Rightarrow> text_at s k)"
    and left_wait:
      "left (wait d s) k = (case left s k of Some p \<Rightarrow> if int d < p then Some (p - int d) else None | None \<Rightarrow> None)"


section \<open>A server with deadlines and outages\<close>

text \<open>A fault script says for each command whether it is served, lost before it runs, or its reply is lost.\<close>

datatype fault = Served | Not_Run | Reply_Lost

record counter_mem =
  cm_clock :: int
  cm_keys :: "string \<Rightarrow> (string \<times> int option) option"
  cm_faults :: "fault list"

definition cm_run :: "(counter_mem \<Rightarrow> 'a option \<times> counter_mem) \<Rightarrow> counter_mem \<Rightarrow> 'a option \<times> counter_mem" where
  "cm_run f s =
     (case cm_faults s of
        [] \<Rightarrow> f s
      | Served # fs \<Rightarrow> f (s\<lparr>cm_faults := fs\<rparr>)
      | Not_Run # fs \<Rightarrow> (None, s\<lparr>cm_faults := fs\<rparr>)
      | Reply_Lost # fs \<Rightarrow> (None, snd (f (s\<lparr>cm_faults := fs\<rparr>))))"

definition cm_entry :: "counter_mem \<Rightarrow> string \<Rightarrow> (string \<times> int option) option" where
  "cm_entry s k =
     (case cm_keys s k of
        Some (v, Some t) \<Rightarrow> if cm_clock s < t then Some (v, Some t) else None
      | x \<Rightarrow> x)"

definition cm_text :: "counter_mem \<Rightarrow> string \<Rightarrow> string option" where
  "cm_text s k = map_option fst (cm_entry s k)"

definition cm_left :: "counter_mem \<Rightarrow> string \<Rightarrow> int option" where
  "cm_left s k = (case cm_entry s k of Some (v, Some t) \<Rightarrow> Some (t - cm_clock s) | _ \<Rightarrow> None)"

definition cm_wait :: "nat \<Rightarrow> counter_mem \<Rightarrow> counter_mem" where
  "cm_wait n s = s\<lparr>cm_clock := cm_clock s + int n\<rparr>"

definition cm_incr :: "string \<Rightarrow> counter_mem \<Rightarrow> int option \<times> counter_mem" where
  "cm_incr k s =
     (case cm_entry s k of
        None \<Rightarrow> (Some 1, s\<lparr>cm_keys := (cm_keys s)(k \<mapsto> (int_text 1, None))\<rparr>)
      | Some (v, dl) \<Rightarrow>
          (case parse_int v of
             None \<Rightarrow> (None, s)
           | Some i \<Rightarrow> (Some (i + 1), s\<lparr>cm_keys := (cm_keys s)(k \<mapsto> (int_text (i + 1), dl))\<rparr>)))"

definition cm_ttl :: "string \<Rightarrow> counter_mem \<Rightarrow> int option \<times> counter_mem" where
  "cm_ttl k s =
     (case cm_left s k of
        Some p \<Rightarrow> (Some ((p + 500) div 1000), s)
      | None \<Rightarrow> (Some (if cm_entry s k = None then - 2 else - 1), s))"

definition cm_expire :: "string \<Rightarrow> int \<Rightarrow> counter_mem \<Rightarrow> bool option \<times> counter_mem" where
  "cm_expire k ex s =
     (case cm_entry s k of
        None \<Rightarrow> (Some False, s)
      | Some (v, dl) \<Rightarrow> (Some True, s\<lparr>cm_keys := (cm_keys s)(k \<mapsto> (v, Some (cm_clock s + ex * 1000)))\<rparr>))"

definition cm_get :: "string \<Rightarrow> counter_mem \<Rightarrow> string option option \<times> counter_mem" where
  "cm_get k s = (Some (cm_text s k), s)"

definition cm_set :: "string \<Rightarrow> string \<Rightarrow> int \<Rightarrow> counter_mem \<Rightarrow> bool option \<times> counter_mem" where
  "cm_set k v ex s = (Some True, s\<lparr>cm_keys := (cm_keys s)(k \<mapsto> (v, Some (cm_clock s + ex * 1000)))\<rparr>)"

definition mem_counters :: "counter_mem counters" where
  "mem_counters =
     \<lparr>counter_incr = (\<lambda>k. cm_run (cm_incr k)), counter_ttl = (\<lambda>k. cm_run (cm_ttl k)),
      counter_expire = (\<lambda>k ex. cm_run (cm_expire k ex)), counter_get = (\<lambda>k. cm_run (cm_get k)),
      counter_set = (\<lambda>k v ex. cm_run (cm_set k v ex))\<rparr>"

definition no_counters :: "fault list \<Rightarrow> counter_mem" where
  "no_counters fs = \<lparr>cm_clock = 0, cm_keys = Map.empty, cm_faults = fs\<rparr>"

lemma cm_view:
  assumes "cm_clock s1 = cm_clock s" and "cm_keys s1 = cm_keys s"
  shows "cm_text s1 = cm_text s" and "cm_left s1 = cm_left s"
proof -
  have "cm_entry s1 = cm_entry s" by (rule ext) (simp only: cm_entry_def assms)
  then show "cm_text s1 = cm_text s" and "cm_left s1 = cm_left s"
    by (simp_all only: cm_text_def [abs_def] cm_left_def [abs_def] assms)
qed

lemma cm_run_cases:
  assumes "cm_run f s = (r, s')"
  obtains (served) s1 where "f s1 = (r, s')" and "cm_text s1 = cm_text s" and "cm_left s1 = cm_left s"
  | (not_run) "r = None" and "cm_text s' = cm_text s" and "cm_left s' = cm_left s"
  | (reply_lost) s1 r' where "f s1 = (r', s')" and "r = None" and "cm_text s1 = cm_text s" and "cm_left s1 = cm_left s"
proof (cases "cm_faults s")
  case Nil
  with assms served [of s] show thesis by (simp add: cm_run_def)
next
  case (Cons x fs)
  let ?s1 = "s\<lparr>cm_faults := fs\<rparr>"
  have v: "cm_text ?s1 = cm_text s" "cm_left ?s1 = cm_left s" by (rule cm_view; simp)+
  show thesis
  proof (cases x)
    case Served
    with assms Cons served [of ?s1] v show thesis by (simp add: cm_run_def)
  next
    case Not_Run
    with assms Cons have "r = None" "s' = ?s1" by (auto simp: cm_run_def)
    with not_run v show thesis by simp
  next
    case Reply_Lost
    with assms Cons have "r = None" "s' = snd (f ?s1)" by (auto simp: cm_run_def)
    with reply_lost [of ?s1 "fst (f ?s1)"] v show thesis by simp
  qed
qed

lemma cm_entry_live: "cm_entry s k = Some (v, Some t) \<Longrightarrow> cm_clock s < t"
  by (auto simp: cm_entry_def split: option.splits if_splits)

lemma cm_put:
  assumes "case dl of None \<Rightarrow> True | Some t \<Rightarrow> cm_clock s < t"
  shows "cm_text (s\<lparr>cm_keys := (cm_keys s)(k \<mapsto> (v, dl))\<rparr>) = (cm_text s)(k \<mapsto> v)"
    and "cm_left (s\<lparr>cm_keys := (cm_keys s)(k \<mapsto> (v, dl))\<rparr>) = (cm_left s)(k := map_option (\<lambda>t. t - cm_clock s) dl)"
proof -
  have "cm_entry (s\<lparr>cm_keys := (cm_keys s)(k \<mapsto> (v, dl))\<rparr>) = (cm_entry s)(k \<mapsto> (v, dl))"
    using assms by (intro ext) (simp add: cm_entry_def split: option.splits)
  then show "cm_text (s\<lparr>cm_keys := (cm_keys s)(k \<mapsto> (v, dl))\<rparr>) = (cm_text s)(k \<mapsto> v)"
    and "cm_left (s\<lparr>cm_keys := (cm_keys s)(k \<mapsto> (v, dl))\<rparr>) = (cm_left s)(k := map_option (\<lambda>t. t - cm_clock s) dl)"
    by (intro ext, simp add: cm_text_def cm_left_def split: option.split)+
qed

lemma cm_incr_effect:
  assumes "cm_incr k s = (r, s')"
  shows "cm_left s' = cm_left s"
    and "case r of None \<Rightarrow> cm_text s' = cm_text s
      | Some n \<Rightarrow> n = value_as_int (cm_text s k) + 1 \<and> cm_text s' = (cm_text s)(k \<mapsto> int_text n)"
proof -
  have "cm_left s' = cm_left s \<and> (case r of None \<Rightarrow> cm_text s' = cm_text s
      | Some n \<Rightarrow> n = value_as_int (cm_text s k) + 1 \<and> cm_text s' = (cm_text s)(k \<mapsto> int_text n))"
  proof (cases "cm_entry s k")
    case None
    with assms show ?thesis
      by (auto simp: cm_incr_def cm_put cm_text_def [of s k] cm_left_def [of s k] value_as_int_def)
  next
    case (Some x)
    then obtain v dl where e: "cm_entry s k = Some (v, dl)" by (cases x) auto
    then have "case dl of None \<Rightarrow> True | Some t \<Rightarrow> cm_clock s < t" by (auto split: option.split dest: cm_entry_live)
    moreover from e have "cm_left s k = map_option (\<lambda>t. t - cm_clock s) dl" by (simp add: cm_left_def split: option.split)
    ultimately show ?thesis
      using assms e by (auto simp: cm_incr_def cm_put cm_text_def [of s k] value_as_int_def split: option.splits)
  qed
  then show "cm_left s' = cm_left s"
    and "case r of None \<Rightarrow> cm_text s' = cm_text s
      | Some n \<Rightarrow> n = value_as_int (cm_text s k) + 1 \<and> cm_text s' = (cm_text s)(k \<mapsto> int_text n)" by simp_all
qed

lemma cm_expire_effect:
  assumes "cm_expire k ex s = (r, s')" and "0 < ex"
  shows "cm_text s' = cm_text s" and "cm_text s k \<noteq> None \<Longrightarrow> cm_left s' = (cm_left s)(k \<mapsto> ex * 1000)"
  using assms by (auto simp: cm_expire_def cm_put cm_text_def [of s k] split: option.splits)

lemma cm_set_effect:
  "cm_set k v ex s = (r, s') \<Longrightarrow> 0 < ex \<Longrightarrow> cm_text s' = (cm_text s)(k \<mapsto> v) \<and> cm_left s' = (cm_left s)(k \<mapsto> ex * 1000)"
  by (auto simp: cm_set_def cm_put)

lemma cm_left_pos: "cm_left s k = Some p \<Longrightarrow> 0 < p \<and> cm_text s k \<noteq> None"
  using cm_entry_live [of s k] by (auto simp: cm_left_def cm_text_def split: option.splits)

lemma cm_ttl_effect:
  "cm_ttl k s = (r, s') \<Longrightarrow> s' = s \<and> (\<exists>t. r = Some t \<and> (t < 0 \<longleftrightarrow> cm_left s k = None))"
  by (auto simp: cm_ttl_def split: option.splits if_splits dest: cm_left_pos)

lemma cm_wait_view:
  "cm_text (cm_wait d s) k = (case cm_left s k of Some p \<Rightarrow> if int d < p then cm_text s k else None | None \<Rightarrow> cm_text s k)"
  "cm_left (cm_wait d s) k = (case cm_left s k of Some p \<Rightarrow> if int d < p then Some (p - int d) else None | None \<Rightarrow> None)"
  by (auto simp: cm_text_def cm_left_def cm_entry_def cm_wait_def split: option.splits)


text \<open>A command under the fault script has the effect of the command, or it raises with no effect or an unseen one.\<close>

lemma cm_run_law:
  assumes "\<And>s1 r1 s2. f s1 = (r1, s2) \<Longrightarrow> E (cm_text s1) (cm_left s1) r1 (cm_text s2) (cm_left s2)"
    and "cm_run f s = (r, s')"
  shows "E (cm_text s) (cm_left s) r (cm_text s') (cm_left s') \<or>
     r = None \<and> (cm_text s' = cm_text s \<and> cm_left s' = cm_left s \<or> (\<exists>r1. E (cm_text s) (cm_left s) r1 (cm_text s') (cm_left s')))"
  using assms(2)
proof (cases rule: cm_run_cases)
  case (served s1)
  with assms(1) [OF served(1)] show ?thesis by simp
next
  case (reply_lost s1 r')
  with assms(1) [OF reply_lost(1)] show ?thesis by auto
qed simp

lemma mem_incr_law:
  assumes "counter_incr mem_counters k s = (r, s')"
  shows "cm_left s' = cm_left s \<and>
    (case r of
       None \<Rightarrow> cm_text s' = cm_text s \<or> cm_text s' = (cm_text s)(k \<mapsto> int_text (value_as_int (cm_text s k) + 1))
     | Some n \<Rightarrow> n = value_as_int (cm_text s k) + 1 \<and> cm_text s' = (cm_text s)(k \<mapsto> int_text n))"
proof -
  let ?E = "\<lambda>t l r t' l'. l' = l \<and> (case r of None \<Rightarrow> t' = t | Some n \<Rightarrow> n = value_as_int (t k) + 1 \<and> t' = t(k \<mapsto> int_text n))"
  have run: "cm_run (cm_incr k) s = (r, s')" using assms by (simp add: mem_counters_def)
  have e: "?E (cm_text s1) (cm_left s1) r1 (cm_text s2) (cm_left s2)" if "cm_incr k s1 = (r1, s2)" for s1 r1 s2
    using cm_incr_effect [OF that] by blast
  from cm_run_law [where E = ?E, OF e run] show ?thesis by (auto split: option.splits)
qed

lemma mem_ttl_law:
  assumes "counter_ttl mem_counters k s = (r, s')"
  shows "cm_text s' = cm_text s \<and> cm_left s' = cm_left s \<and> (\<forall>t. r = Some t \<longrightarrow> (t < 0 \<longleftrightarrow> cm_left s k = None))"
proof -
  let ?E = "\<lambda>t l r t' l'. t' = t \<and> l' = l \<and> (\<exists>x. r = Some x \<and> (x < 0 \<longleftrightarrow> l k = None))"
  have run: "cm_run (cm_ttl k) s = (r, s')" using assms by (simp add: mem_counters_def)
  have e: "?E (cm_text s1) (cm_left s1) r1 (cm_text s2) (cm_left s2)" if "cm_ttl k s1 = (r1, s2)" for s1 r1 s2
    using cm_ttl_effect [OF that] by blast
  from cm_run_law [where E = ?E, OF e run] show ?thesis by auto
qed

lemma mem_expire_law:
  assumes "counter_expire mem_counters k ex s = (r, s')" and "0 < ex"
  shows "cm_text s' = cm_text s \<and> (cm_text s k \<noteq> None \<longrightarrow>
    cm_left s' = (cm_left s)(k \<mapsto> ex * 1000) \<or> r = None \<and> cm_left s' = cm_left s)"
proof -
  let ?E = "\<lambda>t l r t' l'. r \<noteq> None \<and> t' = t \<and> (t k \<noteq> None \<longrightarrow> l' = l(k \<mapsto> ex * 1000))"
  have run: "cm_run (cm_expire k ex) s = (r, s')" using assms by (simp add: mem_counters_def)
  have e: "?E (cm_text s1) (cm_left s1) r1 (cm_text s2) (cm_left s2)" if "cm_expire k ex s1 = (r1, s2)" for s1 r1 s2
    using cm_expire_effect [OF that assms(2)] that by (auto simp: cm_expire_def split: option.splits)
  from cm_run_law [where E = ?E, OF e run] show ?thesis by blast
qed

lemma mem_get_law:
  assumes "counter_get mem_counters k s = (r, s')"
  shows "cm_text s' = cm_text s \<and> cm_left s' = cm_left s \<and> (\<forall>x. r = Some x \<longrightarrow> x = cm_text s k)"
proof -
  let ?E = "\<lambda>t l r t' l'. t' = t \<and> l' = l \<and> r = Some (t k)"
  have run: "cm_run (cm_get k) s = (r, s')" using assms by (simp add: mem_counters_def)
  have e: "?E (cm_text s1) (cm_left s1) r1 (cm_text s2) (cm_left s2)" if "cm_get k s1 = (r1, s2)" for s1 r1 s2
    using that by (auto simp: cm_get_def)
  from cm_run_law [where E = ?E, OF e run] show ?thesis by auto
qed

lemma mem_set_law:
  assumes "counter_set mem_counters k v ex s = (r, s')" and "0 < ex"
  shows "cm_text s' = (cm_text s)(k \<mapsto> v) \<and> cm_left s' = (cm_left s)(k \<mapsto> ex * 1000) \<or>
    r = None \<and> cm_text s' = cm_text s \<and> cm_left s' = cm_left s"
proof -
  let ?E = "\<lambda>t l r t' l'. r \<noteq> None \<and> t' = t(k \<mapsto> v) \<and> l' = l(k \<mapsto> ex * 1000)"
  have run: "cm_run (cm_set k v ex) s = (r, s')" using assms by (simp add: mem_counters_def)
  have e: "?E (cm_text s1) (cm_left s1) r1 (cm_text s2) (cm_left s2)" if "cm_set k v ex s1 = (r1, s2)" for s1 r1 s2
    using cm_set_effect [OF that assms(2)] that by (auto simp: cm_set_def)
  from cm_run_law [where E = ?E, OF e run] show ?thesis by blast
qed

interpretation mem_counters: counter_store mem_counters cm_text cm_left cm_wait
proof (unfold_locales, goal_cases)
  case (1 k s n s')
  from mem_incr_law [OF 1] show ?case by simp
next
  case (2 k s s')
  from mem_incr_law [OF 2] show ?case by simp
next
  case (3 k s r s')
  from mem_ttl_law [OF 3] show ?case by simp
next
  case (4 k s t s')
  from mem_ttl_law [OF 4] show ?case by simp
next
  case (5 k ex s rb s')
  from mem_expire_law [OF 5] show ?case by simp
next
  case (6 k ex s b s')
  from mem_expire_law [OF 6(1,2)] 6(3) show ?case by simp
next
  case (7 k ex s s')
  from mem_expire_law [OF 7(1,2)] 7(3) show ?case by blast
next
  case (8 k s x s')
  from mem_get_law [OF 8] show ?case by simp
next
  case (9 k s rg s')
  from mem_get_law [OF 9] show ?case by simp
next
  case (10 k v ex s b s')
  from mem_set_law [OF 10] show ?case by simp
next
  case (11 k v ex s s')
  from mem_set_law [OF 11] show ?case by blast
next
  case (12 s k p)
  then show ?case by (rule cm_left_pos)
qed (simp_all add: cm_wait_view)

section \<open>Counting\<close>

lemma value_as_int_text [simp]: "value_as_int (Some (int_text n)) = n" "value_as_int None = 0"
  by (simp_all add: value_as_int_def)

context counter_store
begin

lemma count_request_ok:
  assumes "count_request C k w s = (Some n, s')"
  shows "n = value_as_int (text_at s k) + 1" and "text_at s' = (text_at s)(k \<mapsto> int_text n)"
    and "left s' = (if n = 1 \<or> left s k = None then (left s)(k \<mapsto> max 1 w * 1000) else left s)"
proof -
  obtain s1 where i: "counter_incr C k s = (Some n, s1)"
    using assms by (auto simp: count_request_def Let_def split: prod.splits option.splits if_splits)
  note i' = incr_ok [OF i]
  have x: "text_at s' = text_at s2 \<and> left s' = (left s2)(k \<mapsto> max 1 w * 1000)"
    if "counter_expire C k (max 1 w) s2 = (Some b, s')" "text_at s2 = text_at s1" for s2 b
    using expire_ok [OF that(1)] expire_text [OF that(1)] that(2) i' by simp
  show "n = value_as_int (text_at s k) + 1" using i' by simp
  have "text_at s' = text_at s1 \<and> left s' = (if n = 1 \<or> left s k = None then (left s)(k \<mapsto> max 1 w * 1000) else left s)"
  proof (cases "n = 1")
    case True
    with assms i obtain b where "counter_expire C k (max 1 w) s1 = (Some b, s')"
      by (auto simp: count_request_def split: prod.splits option.splits)
    with x [of s1 b] True i' show ?thesis by simp
  next
    case False
    then obtain t s2 where t: "counter_ttl C k s1 = (Some t, s2)"
      and r: "if t < 0 then \<exists>b. counter_expire C k (max 1 w) s2 = (Some b, s') else s' = s2"
      using assms i by (auto simp: count_request_def split: prod.splits option.splits if_splits)
    from ttl_keeps [OF t] ttl_ok [OF t] r x [of s2] False i' show ?thesis by (cases "t < 0") auto
  qed
  with i' show "text_at s' = (text_at s)(k \<mapsto> int_text n)"
    and "left s' = (if n = 1 \<or> left s k = None then (left s)(k \<mapsto> max 1 w * 1000) else left s)" by simp_all
qed

lemma count_request_raised:
  assumes "count_request C k w s = (None, s')"
  shows "text_at s' = text_at s \<or> text_at s' = (text_at s)(k \<mapsto> int_text (value_as_int (text_at s k) + 1))"
    and "left s' = left s \<or> (value_as_int (text_at s k) = 0 \<or> left s k = None) \<and> left s' = (left s)(k \<mapsto> max 1 w * 1000)"
proof -
  let ?T = "(text_at s)(k \<mapsto> int_text (value_as_int (text_at s k) + 1))"
  let ?L = "(left s)(k \<mapsto> max 1 w * 1000)"
  have x: "text_at s' = ?T \<and> (left s' = left s \<or> left s' = ?L)"
    if "counter_expire C k (max 1 w) s2 = (None, s')" "text_at s2 = ?T" "left s2 = left s" for s2
    using expire_raised [OF that(1)] expire_text [OF that(1)] that(2,3) by auto
  have c: "(text_at s' = text_at s \<or> text_at s' = ?T) \<and>
      (left s' = left s \<or> (value_as_int (text_at s k) = 0 \<or> left s k = None) \<and> left s' = ?L)"
  proof (cases "counter_incr C k s")
    case (Pair r s1)
    show ?thesis
    proof (cases r)
      case None
      with Pair assms have "s' = s1" by (simp add: count_request_def)
      with incr_raised Pair None show ?thesis by blast
    next
      case (Some n)
      with Pair have i: "text_at s1 = ?T" "left s1 = left s" "n = value_as_int (text_at s k) + 1" using incr_ok by blast+
      show ?thesis
      proof (cases "n = 1")
        case True
        with assms Pair Some have "counter_expire C k (max 1 w) s1 = (None, s')"
          by (auto simp: count_request_def split: prod.splits option.splits)
        with x [of s1] i True show ?thesis by auto
      next
        case False
        obtain rt s2 where t: "counter_ttl C k s1 = (rt, s2)" by (cases "counter_ttl C k s1")
        then have "s' = s2 \<or> (\<exists>v. rt = Some v \<and> v < 0) \<and> counter_expire C k (max 1 w) s2 = (None, s')"
          using assms Pair Some False by (auto simp: count_request_def split: prod.splits option.splits if_splits)
        moreover have "left s k = None" if "rt = Some v" "v < 0" for v using ttl_ok t that i by simp
        ultimately show ?thesis using ttl_keeps [OF t] x [of s2] i by auto
      qed
    qed
  qed
  from c show "text_at s' = text_at s \<or> text_at s' = ?T" by (rule conjunct1)
  from c show "left s' = left s \<or> (value_as_int (text_at s k) = 0 \<or> left s k = None) \<and> left s' = ?L" by (rule conjunct2)
qed

lemma rate_ttl_keeps: "rate_ttl C k w s = (r, s') \<Longrightarrow> text_at s' = text_at s \<and> left s' = left s"
  using ttl_keeps [of k s] by (auto simp: rate_ttl_def split: prod.splits option.splits)

text \<open>
  Counting a request on a key: the counter grows by at most one, a window is only ever started, not
  extended, and no other key changes.
\<close>

lemma count_request_effect:
  assumes "count_request C k w s = (x, s')"
  shows "text_at s' = text_at s \<or> text_at s' = (text_at s)(k \<mapsto> int_text (value_as_int (text_at s k) + 1))"
    and "left s' = left s \<or> (value_as_int (text_at s k) = 0 \<or> left s k = None) \<and> left s' = (left s)(k \<mapsto> max 1 w * 1000)"
proof -
  show "text_at s' = text_at s \<or> text_at s' = (text_at s)(k \<mapsto> int_text (value_as_int (text_at s k) + 1))"
    using count_request_raised(1) [of k w s s'] count_request_ok(1,2) [of k w s _ s'] assms by (cases x) auto
  show "left s' = left s \<or> (value_as_int (text_at s k) = 0 \<or> left s k = None) \<and> left s' = (left s)(k \<mapsto> max 1 w * 1000)"
    using count_request_raised(2) [of k w s s'] count_request_ok(1,3) [of k w s _ s'] assms by (cases x) auto
qed

lemma consume_counts:
  assumes "consume_bucket C fc bucket k limit w s = (r, s')"
  obtains x s1 where "count_request C k w s = (x, s1)" and "text_at s' = text_at s1" and "left s' = left s1"
    and "\<not> isl r \<and> fc \<longrightarrow> (\<exists>n. x = Some n \<and> n \<le> limit)"
proof -
  obtain x s1 where c: "count_request C k w s = (x, s1)" by (cases "count_request C k w s")
  then have "text_at s' = text_at s1 \<and> left s' = left s1" "\<not> isl r \<and> fc \<longrightarrow> (\<exists>n. x = Some n \<and> n \<le> limit)"
    using assms rate_ttl_keeps
    by (auto simp: consume_bucket_def redis_unavailable_def split: option.splits prod.splits if_splits)
  with c that show thesis by blast
qed

end

section \<open>Schedules of operations\<close>

text \<open>
  A schedule is a list of operations and of waits in milliseconds. \<open>admitted\<close> counts the operations
  of interest that are let through, \<open>after\<close> is the state at the end.
\<close>

fun admitted :: "('op \<Rightarrow> 's \<Rightarrow> ('e + 'a) \<times> 's) \<Rightarrow> (nat \<Rightarrow> 's \<Rightarrow> 's) \<Rightarrow> ('op \<Rightarrow> bool) \<Rightarrow> ('op + nat) list \<Rightarrow> 's \<Rightarrow> nat" where
  "admitted step wait P [] s = 0"
| "admitted step wait P (Inr d # es) s = admitted step wait P es (wait d s)"
| "admitted step wait P (Inl a # es) s =
     (case step a s of (r, s') \<Rightarrow> (if P a \<and> \<not> isl r then 1 else 0) + admitted step wait P es s')"

fun after :: "('op \<Rightarrow> 's \<Rightarrow> ('e + 'a) \<times> 's) \<Rightarrow> (nat \<Rightarrow> 's \<Rightarrow> 's) \<Rightarrow> ('op + nat) list \<Rightarrow> 's \<Rightarrow> 's" where
  "after step wait [] s = s"
| "after step wait (Inr d # es) s = after step wait es (wait d s)"
| "after step wait (Inl a # es) s = after step wait es (snd (step a s))"

fun duration :: "('op + nat) list \<Rightarrow> int" where
  "duration [] = 0"
| "duration (Inr d # es) = int d + duration es"
| "duration (Inl a # es) = duration es"

lemma duration_nonneg: "0 \<le> duration es"
  by (induction es rule: duration.induct) simp_all

text \<open>
  An operation keeps the pace of a key: it never lowers the counter, only ever starts the window,
  and a guarded operation that is let through was below the limit and was counted.
\<close>

definition paces ::
    "('s \<Rightarrow> string \<Rightarrow> string option) \<Rightarrow> ('s \<Rightarrow> string \<Rightarrow> int option) \<Rightarrow> string \<Rightarrow> int \<Rightarrow> int \<Rightarrow> bool \<Rightarrow>
     ('s \<Rightarrow> ('e + 'a) \<times> 's) \<Rightarrow> bool" where
  "paces text_at left k limit w guarded f \<longleftrightarrow>
     (\<forall>s r s'. f s = (r, s') \<longrightarrow>
        value_as_int (text_at s k) \<le> value_as_int (text_at s' k) \<and>
        (left s' k = left s k \<or>
         (value_as_int (text_at s k) \<le> 0 \<or> left s k = None) \<and> left s' k = Some (max 1 w * 1000)) \<and>
        (guarded \<and> \<not> isl r \<longrightarrow>
           value_as_int (text_at s k) < limit \<and> value_as_int (text_at s k) + 1 \<le> value_as_int (text_at s' k)))"

lemma pacesD:
  assumes "paces text_at left k limit w guarded f" and "f s = (r, s')"
  shows "value_as_int (text_at s k) \<le> value_as_int (text_at s' k)"
    and "left s' k = left s k \<or> (value_as_int (text_at s k) \<le> 0 \<or> left s k = None) \<and> left s' k = Some (max 1 w * 1000)"
    and "guarded \<Longrightarrow> \<not> isl r \<Longrightarrow> value_as_int (text_at s k) < limit"
    and "guarded \<Longrightarrow> \<not> isl r \<Longrightarrow> value_as_int (text_at s k) + 1 \<le> value_as_int (text_at s' k)"
  using assms(1) [unfolded paces_def, rule_format, OF assms(2)] by simp_all

text \<open>One step of the pace, for operations that are not a plain sequence.\<close>

definition pace_step ::
    "('s \<Rightarrow> string \<Rightarrow> string option) \<Rightarrow> ('s \<Rightarrow> string \<Rightarrow> int option) \<Rightarrow> string \<Rightarrow> int \<Rightarrow> 's \<Rightarrow> 's \<Rightarrow> bool" where
  "pace_step text_at left k w s s' \<longleftrightarrow>
     value_as_int (text_at s k) \<le> value_as_int (text_at s' k) \<and>
     (left s' k = left s k \<or> (value_as_int (text_at s k) \<le> 0 \<or> left s k = None) \<and> left s' k = Some (max 1 w * 1000))"

lemma pace_step_refl [simp]: "pace_step text_at left k w s s"
  by (simp add: pace_step_def)

lemma pace_step_trans:
  "pace_step text_at left k w s s1 \<Longrightarrow> pace_step text_at left k w s1 s' \<Longrightarrow> pace_step text_at left k w s s'"
  by (auto simp: pace_step_def)

lemma pacesI:
  assumes "\<And>s r s'. f s = (r, s') \<Longrightarrow> pace_step text_at left k w s s'"
    and "\<And>s r s'. f s = (r, s') \<Longrightarrow> guarded \<Longrightarrow> \<not> isl r \<Longrightarrow>
       value_as_int (text_at s k) < limit \<and> value_as_int (text_at s k) + 1 \<le> value_as_int (text_at s' k)"
  shows "paces text_at left k limit w guarded f"
  unfolding paces_def
proof (intro allI impI)
  fix s r s'
  assume "f s = (r, s')"
  from assms(1) [OF this] assms(2) [OF this]
  show "value_as_int (text_at s k) \<le> value_as_int (text_at s' k) \<and>
      (left s' k = left s k \<or> (value_as_int (text_at s k) \<le> 0 \<or> left s k = None) \<and> left s' k = Some (max 1 w * 1000)) \<and>
      (guarded \<and> \<not> isl r \<longrightarrow>
         value_as_int (text_at s k) < limit \<and> value_as_int (text_at s k) + 1 \<le> value_as_int (text_at s' k))"
    unfolding pace_step_def by auto
qed

text \<open>Operations that keep the pace compose: after an error the rest is skipped.\<close>

lemma paces_keep:
  assumes "\<And>s r s'. f s = (r, s') \<Longrightarrow> text_at s' k = text_at s k \<and> left s' k = left s k"
  shows "paces text_at left k limit w False f"
  unfolding paces_def using assms by fastforce

lemma paces_seq:
  assumes "paces text_at left k limit w g1 f" and "\<And>d. paces text_at left k limit w g2 (h d)"
  shows "paces text_at left k limit w (g1 \<or> g2)
     (\<lambda>s. case f s of (Inl e, s1) \<Rightarrow> (Inl e, s1) | (Inr d, s1) \<Rightarrow> h d s1)"
  unfolding paces_def
proof (intro allI impI)
  fix s r s'
  assume a: "(case f s of (Inl e, s1) \<Rightarrow> (Inl e, s1) | (Inr d, s1) \<Rightarrow> h d s1) = (r, s')"
  obtain x s1 where f: "f s = (x, s1)" by (cases "f s")
  note p1 = pacesD [OF assms(1) f]
  show "value_as_int (text_at s k) \<le> value_as_int (text_at s' k) \<and>
      (left s' k = left s k \<or> (value_as_int (text_at s k) \<le> 0 \<or> left s k = None) \<and> left s' k = Some (max 1 w * 1000)) \<and>
      ((g1 \<or> g2) \<and> \<not> isl r \<longrightarrow>
         value_as_int (text_at s k) < limit \<and> value_as_int (text_at s k) + 1 \<le> value_as_int (text_at s' k))"
  proof (cases x)
    case (Inl e)
    with a f p1 show ?thesis by auto
  next
    case (Inr d)
    with a f have "h d s1 = (r, s')" by simp
    note p2 = pacesD [OF assms(2) this]
    from p1(2) p2(2) p1(1)
    have l: "left s' k = left s k \<or> (value_as_int (text_at s k) \<le> 0 \<or> left s k = None) \<and> left s' k = Some (max 1 w * 1000)"
      by auto
    have c: "value_as_int (text_at s k) \<le> value_as_int (text_at s' k)" using p1(1) p2(1) by simp
    have "value_as_int (text_at s k) < limit \<and> value_as_int (text_at s k) + 1 \<le> value_as_int (text_at s' k)"
      if "g1 \<or> g2" "\<not> isl r" using that p1(1,3,4) p2(1,3,4) Inr by fastforce
    with l c show ?thesis by blast
  qed
qed

context counter_store
begin

lemma count_request_pace:
  assumes "count_request C key v s = (x, s')" and "key = k \<Longrightarrow> v = w"
  shows "pace_step text_at left k w s s'"
  using count_request_effect [OF assms(1)] assms(2) by (cases "key = k") (auto simp: pace_step_def)

lemma rate_ttl_pace: "rate_ttl C key v s = (x, s') \<Longrightarrow> pace_step text_at left k w s s'"
  using rate_ttl_keeps by (auto simp: pace_step_def)

lemma consume_paces:
  assumes "key = k \<Longrightarrow> l = limit \<and> v = w" and "guarded \<Longrightarrow> key = k \<and> fc"
  shows "paces text_at left k limit w guarded (consume_bucket C fc bucket key l v)"
  unfolding paces_def
proof (intro allI impI conjI)
  fix s r s'
  assume "consume_bucket C fc bucket key l v s = (r, s')"
  then obtain x s1 where c: "count_request C key v s = (x, s1)" and e: "text_at s' = text_at s1" "left s' = left s1"
    and a: "\<not> isl r \<and> fc \<longrightarrow> (\<exists>n. x = Some n \<and> n \<le> l)" by (rule consume_counts)
  note ce = count_request_effect [OF c]
  from ce(1) e show "value_as_int (text_at s k) \<le> value_as_int (text_at s' k)" by auto
  from ce(2) e assms(1) show "left s' k = left s k \<or>
      (value_as_int (text_at s k) \<le> 0 \<or> left s k = None) \<and> left s' k = Some (max 1 w * 1000)" by (cases "key = k") auto
  assume g: "guarded \<and> \<not> isl r"
  with a assms obtain n where "x = Some n" "n \<le> limit" "key = k" by auto
  with count_request_ok [of k v s n s1] c e
  show "value_as_int (text_at s k) < limit" and "value_as_int (text_at s k) + 1 \<le> value_as_int (text_at s' k)" by auto
qed

text \<open>While the key cannot expire, the budget is what the counter leaves of the limit.\<close>

lemma live_wait:
  assumes "\<And>p. left s k = Some p \<Longrightarrow> int d + duration es < p"
  shows "text_at (wait d s) k = text_at s k" and "\<And>p. left (wait d s) k = Some p \<Longrightarrow> duration es < p"
  using assms duration_nonneg [of es] by (fastforce simp: text_wait left_wait split: option.splits if_splits)+

lemma live_step:
  assumes "paces text_at left k limit w g f" and "f s = (r, s')" and "duration es < max 1 w * 1000"
    and "\<And>p. left s k = Some p \<Longrightarrow> duration es < p"
  shows "\<And>p. left s' k = Some p \<Longrightarrow> duration es < p"
  using pacesD(2) [OF assms(1,2)] assms(3,4) by auto

lemma admitted_live:
  assumes "\<And>a. paces text_at left k limit w (P a) (step a)" and "duration es < max 1 w * 1000"
    and "\<And>p. left s k = Some p \<Longrightarrow> duration es < p"
  shows "int (admitted step wait P es s) \<le> max 0 (limit - value_as_int (text_at s k)) \<and>
     value_as_int (text_at s k) + int (admitted step wait P es s) \<le> value_as_int (text_at (after step wait es s) k)"
  using assms(2,3)
proof (induction es arbitrary: s)
  case (Cons e es)
  show ?case
  proof (cases e)
    case (Inr d)
    have "duration es < max 1 w * 1000" using Cons.prems(1) Inr by simp
    moreover note live_wait [of s k d es]
    ultimately show ?thesis using Cons.IH [of "wait d s"] Cons.prems(2) Inr by simp
  next
    case (Inl a)
    obtain r s' where c: "step a s = (r, s')" by (cases "step a s")
    from Cons.prems Inl live_step [OF assms(1) c, of es] Cons.IH [of s']
    have "int (admitted step wait P es s') \<le> max 0 (limit - value_as_int (text_at s' k)) \<and>
      value_as_int (text_at s' k) + int (admitted step wait P es s') \<le> value_as_int (text_at (after step wait es s') k)" by auto
    with pacesD(1,3,4) [OF assms(1) c] c Inl show ?thesis by (cases "P a \<and> \<not> isl r") auto
  qed
qed simp

text \<open>An expiry in the middle refills the bucket at most once in a period shorter than the window.\<close>

lemma admitted_span:
  assumes "\<And>a. paces text_at left k limit w (P a) (step a)" and "duration es < max 1 w * 1000"
  shows "int (admitted step wait P es s) \<le> max 0 (limit - value_as_int (text_at s k)) + max 0 limit"
  using assms(2)
proof (induction es arbitrary: s)
  case (Cons e es)
  show ?case
  proof (cases e)
    case (Inr d)
    with Cons.prems have w: "duration es < max 1 w * 1000" by simp
    show ?thesis
    proof (cases "text_at (wait d s) k = text_at s k")
      case True
      with Cons.IH [OF w, of "wait d s"] Inr show ?thesis by simp
    next
      case False
      then have "text_at (wait d s) k = None" "left (wait d s) k = None"
        by (auto simp: text_wait left_wait split: option.splits if_splits)
      with admitted_live [where step = step and P = P, OF assms(1) w, of "wait d s"] Inr show ?thesis
        by (auto intro: order_trans [of _ "max 0 limit"])
    qed
  next
    case (Inl a)
    obtain r s' where c: "step a s = (r, s')" by (cases "step a s")
    from Cons.IH [of s'] Cons.prems Inl
    have "int (admitted step wait P es s') \<le> max 0 (limit - value_as_int (text_at s' k)) + max 0 limit" by simp
    with pacesD(1,3,4) [OF assms(1) c] c Inl show ?thesis by (cases "P a \<and> \<not> isl r") auto
  qed
qed simp

text \<open>Requests never extend a window that has started.\<close>

lemma after_left:
  assumes "\<And>a. paces text_at left k limit w (P a) (step a)"
    and "left s k = Some p" and "1 \<le> value_as_int (text_at s k)" and "duration es < p"
  shows "left (after step wait es s) k = Some (p - duration es)"
  using assms(2-)
proof (induction es arbitrary: s p)
  case (Cons e es)
  show ?case
  proof (cases e)
    case (Inr d)
    with Cons.prems duration_nonneg [of es] have "left (wait d s) k = Some (p - int d)" "text_at (wait d s) k = text_at s k"
      by (auto simp: text_wait left_wait)
    with Cons.IH [of "wait d s" "p - int d"] Cons.prems Inr show ?thesis by (simp add: algebra_simps)
  next
    case (Inl a)
    obtain r s' where c: "step a s = (r, s')" by (cases "step a s")
    from pacesD(1,2) [OF assms(1) c] Cons.prems have "left s' k = Some p" "1 \<le> value_as_int (text_at s' k)" by auto
    with Cons.IH [of s' p] Cons.prems Inl c show ?thesis by simp
  qed
qed simp

lemma consume_fresh:
  assumes "text_at s k = None" and "1 \<le> limit"
  shows "fst (consume_bucket C fc bucket k limit w s) \<in>
     {redis_unavailable fc bucket, Inr (RateLimitDecision bucket (Some (limit - 1)) False)}"
proof (cases "count_request C k w s")
  case (Pair x s1)
  with count_request_ok(1) [of k w s _ s1] assms show ?thesis
    by (cases x) (auto simp: consume_bucket_def)
qed

end

end
