(* ===== verification/Email_Rate.thy ===== *)
theory Email_Rate
  imports Rate_Window
begin

text \<open>
  The limiter of the email flows, the login identifiers and password changes: the class
  \<^verbatim>\<open>EmailRateLimiter\<close> of \<^verbatim>\<open>src/src/Util/email/rate_limit.py\<close>. The hexadecimal SHA-256 of a text is the
  argument \<open>H\<close>, the policy is the record of its limits. The guarantees hold for every schedule of its
  operations on a store that keeps the contract \<open>counter_store\<close>, outages included.
\<close>

section \<open>Policy and keys\<close>

record rate_limit_policy =
  send_recipient_hourly_limit :: int
  send_recipient_daily_limit :: int
  send_user_hourly_limit :: int
  send_ip_hourly_limit :: int
  consume_lookup_hourly_limit :: int
  consume_ip_hourly_limit :: int
  resend_cooldown_seconds :: int
  login_identifier_failure_limit :: int
  login_identifier_failure_window_seconds :: int
  login_account_failure_limit :: int
  login_account_failure_window_seconds :: int
  change_password_failure_limit :: int
  change_password_failure_window_seconds :: int
  change_password_user_hourly_limit :: int
  change_password_session_hourly_limit :: int
  change_password_ip_hourly_limit :: int
  fail_closed_on_redis_error :: bool

definition ONE_HOUR_SECONDS :: int where "ONE_HOUR_SECONDS = 60 * 60"
definition ONE_DAY_SECONDS :: int where "ONE_DAY_SECONDS = 24 * ONE_HOUR_SECONDS"

definition EMAIL_RATE_PREFIX :: string where "EMAIL_RATE_PREFIX = ''email_rate:''"
definition EMAIL_COOLDOWN_PREFIX :: string where "EMAIL_COOLDOWN_PREFIX = ''email_cooldown:''"
definition AUTH_CHANGE_PASSWORD_RATE_PREFIX :: string where
  "AUTH_CHANGE_PASSWORD_RATE_PREFIX = ''auth_change_password_rate:''"

text \<open>\<^verbatim>\<open>"|".join(parts)\<close>.\<close>

fun join_bar :: "string list \<Rightarrow> string" where
  "join_bar [] = []"
| "join_bar [p] = p"
| "join_bar (p # ps) = p @ ''|'' @ join_bar ps"

definition digest_part :: "(string \<Rightarrow> string) \<Rightarrow> string option \<Rightarrow> string" where
  "digest_part H value = take 24 (H (str_lower (str_strip (case value of Some v \<Rightarrow> v | None \<Rightarrow> []))))"

definition rate_key :: "(string \<Rightarrow> string) \<Rightarrow> string \<Rightarrow> string list \<Rightarrow> string" where
  "rate_key H bucket parts = EMAIL_RATE_PREFIX @ bucket @ '':'' @ take 24 (H (join_bar (bucket # parts)))"

definition change_password_rate_key :: "(string \<Rightarrow> string) \<Rightarrow> string \<Rightarrow> string list \<Rightarrow> string" where
  "change_password_rate_key H bucket parts =
     AUTH_CHANGE_PASSWORD_RATE_PREFIX @ bucket @ '':'' @ take 24 (H (join_bar (bucket # parts)))"

definition cooldown_key :: "(string \<Rightarrow> string) \<Rightarrow> string \<Rightarrow> string \<Rightarrow> string" where
  "cooldown_key H recipient_hash purpose =
     EMAIL_COOLDOWN_PREFIX @ purpose @ '':'' @ take 24 (H (purpose @ ''|'' @ recipient_hash))"

definition login_identifier_key :: "(string \<Rightarrow> string) \<Rightarrow> string \<Rightarrow> string \<Rightarrow> string" where
  "login_identifier_key H ip_address identifier =
     rate_key H ''login_identifier_15m''
       [digest_part H (Some ip_address), digest_part H (Some (str_lower (str_strip identifier)))]"

definition login_account_key :: "(string \<Rightarrow> string) \<Rightarrow> string \<Rightarrow> string" where
  "login_account_key H identifier =
     rate_key H ''login_account_15m'' [digest_part H (Some (str_lower (str_strip identifier)))]"

section \<open>Operations\<close>

text \<open>The loop over the buckets of a request: the first one that refuses ends the request.\<close>

fun consume_buckets ::
    "'s counters \<Rightarrow> bool \<Rightarrow> (string \<times> string \<times> int \<times> int) list \<Rightarrow> 's \<Rightarrow> (rate_limit_exceeded + rate_decision list) \<times> 's" where
  "consume_buckets C fc [] s = (Inr [], s)"
| "consume_buckets C fc ((bucket, key, limit, window) # checks) s =
     (case consume_bucket C fc bucket key limit window s of
        (Inl e, s1) \<Rightarrow> (Inl e, s1)
      | (Inr d, s1) \<Rightarrow>
          (case consume_buckets C fc checks s1 of
             (Inl e, s2) \<Rightarrow> (Inl e, s2)
           | (Inr ds, s2) \<Rightarrow> (Inr (d # ds), s2)))"

definition combine_decisions :: "string \<Rightarrow> rate_decision list \<Rightarrow> rate_decision" where
  "combine_decisions bucket ds =
     RateLimitDecision bucket
       (case List.map_filter rd_remaining ds of [] \<Rightarrow> None | r # rs \<Rightarrow> Some (foldl min r rs))
       (list_ex rd_degraded ds)"

definition run_checks ::
    "'s counters \<Rightarrow> rate_limit_policy \<Rightarrow> string \<Rightarrow> (string \<times> string \<times> int \<times> int) list \<Rightarrow> 's \<Rightarrow> rate_result \<times> 's" where
  "run_checks C pol bucket checks s =
     (case consume_buckets C (fail_closed_on_redis_error pol) checks s of
        (Inl e, s1) \<Rightarrow> (Inl e, s1)
      | (Inr ds, s1) \<Rightarrow> (Inr (combine_decisions bucket ds), s1))"

definition send_checks ::
    "rate_limit_policy \<Rightarrow> (string \<Rightarrow> string) \<Rightarrow> string \<Rightarrow> string \<Rightarrow> string option \<Rightarrow> string \<Rightarrow> (string \<times> string \<times> int \<times> int) list" where
  "send_checks pol H purpose recipient_hash user_id ip_address =
     [(''recipient_hour'', rate_key H ''send:recipient_hour'' [purpose, recipient_hash],
       send_recipient_hourly_limit pol, ONE_HOUR_SECONDS),
      (''recipient_day'', rate_key H ''send:recipient_day'' [purpose, recipient_hash],
       send_recipient_daily_limit pol, ONE_DAY_SECONDS)] @
     (case user_id of
        Some (c # u) \<Rightarrow> [(''user_hour'', rate_key H ''send:user_hour'' [purpose, c # u], send_user_hourly_limit pol, ONE_HOUR_SECONDS)]
      | _ \<Rightarrow> []) @
     [(''ip_hour'', rate_key H ''send:ip_hour'' [purpose, digest_part H (Some ip_address)],
       send_ip_hourly_limit pol, ONE_HOUR_SECONDS)]"

definition check_send_request ::
    "'s counters \<Rightarrow> rate_limit_policy \<Rightarrow> (string \<Rightarrow> string) \<Rightarrow> string \<Rightarrow> string \<Rightarrow> string option \<Rightarrow> string \<Rightarrow> 's \<Rightarrow> rate_result \<times> 's" where
  "check_send_request C pol H purpose recipient_hash user_id ip_address =
     run_checks C pol ''send'' (send_checks pol H purpose recipient_hash user_id ip_address)"

definition consume_checks ::
    "rate_limit_policy \<Rightarrow> (string \<Rightarrow> string) \<Rightarrow> string \<Rightarrow> string \<Rightarrow> string \<Rightarrow> (string \<times> string \<times> int \<times> int) list" where
  "consume_checks pol H purpose lookup_id ip_address =
     [(''lookup_hour'', rate_key H ''consume:lookup_hour'' [purpose, digest_part H (Some lookup_id)],
       consume_lookup_hourly_limit pol, ONE_HOUR_SECONDS),
      (''consume_ip_hour'', rate_key H ''consume:ip_hour'' [purpose, digest_part H (Some ip_address)],
       consume_ip_hourly_limit pol, ONE_HOUR_SECONDS)]"

definition check_consume_request ::
    "'s counters \<Rightarrow> rate_limit_policy \<Rightarrow> (string \<Rightarrow> string) \<Rightarrow> string \<Rightarrow> string \<Rightarrow> string \<Rightarrow> 's \<Rightarrow> rate_result \<times> 's" where
  "check_consume_request C pol H purpose lookup_id ip_address =
     run_checks C pol ''consume'' (consume_checks pol H purpose lookup_id ip_address)"

definition check_resend_cooldown ::
    "'s counters \<Rightarrow> rate_limit_policy \<Rightarrow> (string \<Rightarrow> string) \<Rightarrow> string \<Rightarrow> string \<Rightarrow> 's \<Rightarrow> rate_result \<times> 's" where
  "check_resend_cooldown C pol H recipient_hash purpose s =
     (let key = cooldown_key H recipient_hash purpose;
          unavailable = redis_unavailable (fail_closed_on_redis_error pol) ''resend_cooldown''
      in case counter_ttl C key s of
           (None, s1) \<Rightarrow> (unavailable, s1)
         | (Some ttl, s1) \<Rightarrow>
             (case counter_get C key s1 of
                (None, s2) \<Rightarrow> (unavailable, s2)
              | (Some v, s2) \<Rightarrow>
                  if v \<notin> {None, Some []} \<and> ttl \<noteq> - 2
                  then (Inl (RateLimitExceeded ''resend_cooldown'' (if ttl > 0 then ttl else resend_cooldown_seconds pol) 1 (Some key)), s2)
                  else (Inr (RateLimitDecision ''resend_cooldown'' None False), s2)))"

definition mark_resend_sent ::
    "'s counters \<Rightarrow> rate_limit_policy \<Rightarrow> (string \<Rightarrow> string) \<Rightarrow> string \<Rightarrow> string \<Rightarrow> 's \<Rightarrow> (rate_limit_exceeded + bool) \<times> 's" where
  "mark_resend_sent C pol H recipient_hash purpose s =
     (case counter_set C (cooldown_key H recipient_hash purpose) ''1'' (max 1 (resend_cooldown_seconds pol)) s of
        (Some b, s1) \<Rightarrow> (Inr b, s1)
      | (None, s1) \<Rightarrow>
          ((if fail_closed_on_redis_error pol then Inl (RateLimitExceeded ''resend_cooldown'' 1 1 None) else Inr False), s1))"

definition record_login_identifier_failure ::
    "'s counters \<Rightarrow> rate_limit_policy \<Rightarrow> (string \<Rightarrow> string) \<Rightarrow> string \<Rightarrow> string \<Rightarrow> 's \<Rightarrow> rate_result \<times> 's" where
  "record_login_identifier_failure C pol H ip_address identifier s =
     (case consume_bucket C (fail_closed_on_redis_error pol) ''login_identifier_15m''
             (login_identifier_key H ip_address identifier)
             (max (login_identifier_failure_limit pol) (10 ^ 9)) (login_identifier_failure_window_seconds pol) s of
        (Inl e, s1) \<Rightarrow> (Inl e, s1)
      | (Inr decision, s1) \<Rightarrow>
          (case consume_bucket C (fail_closed_on_redis_error pol) ''login_account_15m'' (login_account_key H identifier)
                  (max (login_account_failure_limit pol) (10 ^ 9)) (login_account_failure_window_seconds pol) s1 of
             (Inl e, s2) \<Rightarrow> (Inl e, s2)
           | (Inr _, s2) \<Rightarrow> (Inr decision, s2)))"

definition check_login_identifier_allowed ::
    "'s counters \<Rightarrow> rate_limit_policy \<Rightarrow> (string \<Rightarrow> string) \<Rightarrow> string \<Rightarrow> string \<Rightarrow> 's \<Rightarrow> rate_result \<times> 's" where
  "check_login_identifier_allowed C pol H ip_address identifier s =
     (let key = login_identifier_key H ip_address identifier;
          account_key = login_account_key H identifier;
          unavailable = redis_unavailable (fail_closed_on_redis_error pol) ''login_identifier_15m''
      in case counter_get C key s of
           (None, s1) \<Rightarrow> (unavailable, s1)
         | (Some v, s1) \<Rightarrow>
             (case counter_get C account_key s1 of
                (None, s2) \<Rightarrow> (unavailable, s2)
              | (Some account_v, s2) \<Rightarrow>
                  let count = value_as_int v; account_count = value_as_int account_v
                  in if count \<ge> login_identifier_failure_limit pol then
                       let (retry_after, s3) = rate_ttl C key (login_identifier_failure_window_seconds pol) s2
                       in (Inl (RateLimitExceeded ''login_identifier_15m'' retry_after (login_identifier_failure_limit pol) (Some key)), s3)
                     else if account_count \<ge> login_account_failure_limit pol then
                       let (retry_after, s3) = rate_ttl C account_key (login_account_failure_window_seconds pol) s2
                       in (Inl (RateLimitExceeded ''login_account_15m'' retry_after (login_account_failure_limit pol) (Some account_key)), s3)
                     else
                       (Inr (RateLimitDecision ''login_identifier_15m''
                          (Some (max 0 (min (login_identifier_failure_limit pol - count)
                                            (login_account_failure_limit pol - account_count)))) False), s2)))"

definition change_password_checks ::
    "rate_limit_policy \<Rightarrow> (string \<Rightarrow> string) \<Rightarrow> string \<Rightarrow> string option \<Rightarrow> string \<Rightarrow> (string \<times> string \<times> int \<times> int) list" where
  "change_password_checks pol H user_id session_id ip_address =
     [(''change_password_user_hour'', change_password_rate_key H ''user_hour'' [digest_part H (Some user_id)],
       change_password_user_hourly_limit pol, ONE_HOUR_SECONDS),
      (''change_password_ip_hour'', change_password_rate_key H ''ip_hour'' [digest_part H (Some ip_address)],
       change_password_ip_hourly_limit pol, ONE_HOUR_SECONDS)] @
     (case session_id of
        Some (c # i) \<Rightarrow>
          [(''change_password_session_hour'', change_password_rate_key H ''session_hour'' [digest_part H (Some (c # i))],
            change_password_session_hourly_limit pol, ONE_HOUR_SECONDS)]
      | _ \<Rightarrow> [])"

definition check_change_password_attempt ::
    "'s counters \<Rightarrow> rate_limit_policy \<Rightarrow> (string \<Rightarrow> string) \<Rightarrow> string \<Rightarrow> string option \<Rightarrow> string \<Rightarrow> 's \<Rightarrow> rate_result \<times> 's" where
  "check_change_password_attempt C pol H user_id session_id ip_address =
     run_checks C pol ''change_password_attempt'' (change_password_checks pol H user_id session_id ip_address)"

definition record_change_password_failure ::
    "'s counters \<Rightarrow> rate_limit_policy \<Rightarrow> (string \<Rightarrow> string) \<Rightarrow> string \<Rightarrow> string \<Rightarrow> 's \<Rightarrow> rate_result \<times> 's" where
  "record_change_password_failure C pol H user_id ip_address =
     consume_bucket C (fail_closed_on_redis_error pol) ''change_password_failure_15m''
       (change_password_rate_key H ''failure_15m'' [digest_part H (Some user_id), digest_part H (Some ip_address)])
       (change_password_failure_limit pol) (change_password_failure_window_seconds pol)"

section \<open>Any operation of the limiter\<close>

datatype email_op =
    Send string string "string option" string
  | Consume string string string
  | Resend_Check string string
  | Resend_Sent string string
  | Login_Failed string string
  | Login_Check string string
  | Password_Attempt string "string option" string
  | Password_Failed string string

fun email_step :: "'s counters \<Rightarrow> rate_limit_policy \<Rightarrow> (string \<Rightarrow> string) \<Rightarrow> email_op \<Rightarrow> 's \<Rightarrow> rate_result \<times> 's" where
  "email_step C pol H (Send purpose recipient user ip) = check_send_request C pol H purpose recipient user ip"
| "email_step C pol H (Consume purpose lookup ip) = check_consume_request C pol H purpose lookup ip"
| "email_step C pol H (Resend_Check recipient purpose) = check_resend_cooldown C pol H recipient purpose"
| "email_step C pol H (Resend_Sent recipient purpose) =
     (\<lambda>s. case mark_resend_sent C pol H recipient purpose s of
        (Inl e, s') \<Rightarrow> (Inl e, s')
      | (Inr b, s') \<Rightarrow> (Inr (RateLimitDecision ''resend_cooldown'' None False), s'))"
| "email_step C pol H (Login_Failed ip identifier) = record_login_identifier_failure C pol H ip identifier"
| "email_step C pol H (Login_Check ip identifier) = check_login_identifier_allowed C pol H ip identifier"
| "email_step C pol H (Password_Attempt user session ip) = check_change_password_attempt C pol H user session ip"
| "email_step C pol H (Password_Failed user ip) = record_change_password_failure C pol H user ip"

section \<open>The limiter keeps the pace of its keys\<close>

lemma rate_key_bucket:
  "rate_key H ''send:recipient_hour'' ps \<noteq> rate_key H ''send:recipient_day'' qs"
  "rate_key H ''send:recipient_hour'' ps \<noteq> rate_key H ''send:user_hour'' qs"
  "rate_key H ''send:recipient_hour'' ps \<noteq> rate_key H ''send:ip_hour'' qs"
  "rate_key H ''send:recipient_hour'' ps \<noteq> rate_key H ''consume:lookup_hour'' qs"
  "rate_key H ''send:recipient_hour'' ps \<noteq> rate_key H ''consume:ip_hour'' qs"
  "rate_key H ''send:recipient_hour'' ps \<noteq> rate_key H ''login_identifier_15m'' qs"
  "rate_key H ''send:recipient_hour'' ps \<noteq> rate_key H ''login_account_15m'' qs"
  "rate_key H ''login_account_15m'' ps \<noteq> rate_key H ''send:recipient_day'' qs"
  "rate_key H ''login_account_15m'' ps \<noteq> rate_key H ''send:user_hour'' qs"
  "rate_key H ''login_account_15m'' ps \<noteq> rate_key H ''send:ip_hour'' qs"
  "rate_key H ''login_account_15m'' ps \<noteq> rate_key H ''consume:lookup_hour'' qs"
  "rate_key H ''login_account_15m'' ps \<noteq> rate_key H ''consume:ip_hour'' qs"
  "rate_key H ''login_account_15m'' ps \<noteq> rate_key H ''login_identifier_15m'' qs"
  "rate_key H b ps \<noteq> change_password_rate_key H b' qs"
  "rate_key H b ps \<noteq> cooldown_key H r p"
  by (simp_all add: rate_key_def change_password_rate_key_def cooldown_key_def EMAIL_RATE_PREFIX_def
      EMAIL_COOLDOWN_PREFIX_def AUTH_CHANGE_PASSWORD_RATE_PREFIX_def)

definition uniform_checks :: "string \<Rightarrow> int \<Rightarrow> int \<Rightarrow> (string \<times> string \<times> int \<times> int) list \<Rightarrow> bool" where
  "uniform_checks k limit w checks = list_all (\<lambda>(_, key, l, v). key = k \<longrightarrow> l = limit \<and> v = w) checks"

context counter_store
begin

lemma consume_buckets_paces:
  assumes "uniform_checks k limit w checks" and "g \<Longrightarrow> fc \<and> k \<in> (\<lambda>(_, key, _). key) ` set checks"
  shows "paces text_at left k limit w g (consume_buckets C fc checks)"
  using assms
proof (induction checks arbitrary: g)
  case Nil
  then have "g = False" by auto
  then show ?case by (simp only:) (rule paces_keep, simp)
next
  case (Cons c checks)
  obtain b key l v where c: "c = (b, key, l, v)" by (cases c)
  let ?g1 = "g \<and> key = k" and ?g2 = "g \<and> key \<noteq> k"
  have "paces text_at left k limit w ?g1 (consume_bucket C fc b key l v)"
    using Cons.prems c by (intro consume_paces) (auto simp: uniform_checks_def)
  moreover have "paces text_at left k limit w ?g2 (consume_buckets C fc checks)"
    using Cons.prems c by (intro Cons.IH) (auto simp: uniform_checks_def)
  moreover have "paces text_at left k limit w False (\<lambda>s2. (Inr (d # ds), s2))" for d :: rate_decision and ds
    by (rule paces_keep) simp
  ultimately have "paces text_at left k limit w (?g1 \<or> ?g2 \<or> False)
     (\<lambda>s. case consume_bucket C fc b key l v s of (Inl e, s1) \<Rightarrow> (Inl e, s1)
        | (Inr d, s1) \<Rightarrow> (case consume_buckets C fc checks s1 of (Inl e, s2) \<Rightarrow> (Inl e, s2) | (Inr ds, s2) \<Rightarrow> (Inr (d # ds), s2)))"
    by (intro paces_seq)
  moreover have "(?g1 \<or> ?g2 \<or> False) = g" by blast
  moreover have "consume_buckets C fc (c # checks) =
     (\<lambda>s. case consume_bucket C fc b key l v s of (Inl e, s1) \<Rightarrow> (Inl e, s1)
        | (Inr d, s1) \<Rightarrow> (case consume_buckets C fc checks s1 of (Inl e, s2) \<Rightarrow> (Inl e, s2) | (Inr ds, s2) \<Rightarrow> (Inr (d # ds), s2)))"
    by (rule ext) (simp add: c)
  ultimately show ?case by simp
qed

lemma run_checks_paces:
  assumes "uniform_checks k limit w checks"
    and "g \<Longrightarrow> fail_closed_on_redis_error pol \<and> k \<in> (\<lambda>(_, key, _). key) ` set checks"
  shows "paces text_at left k limit w g (run_checks C pol bucket checks)"
proof -
  have "paces text_at left k limit w False (\<lambda>s1. (Inr (combine_decisions bucket ds) :: rate_result, s1))" for ds
    by (rule paces_keep) simp
  from paces_seq [OF consume_buckets_paces [OF assms] this] show ?thesis
    by (simp add: run_checks_def [abs_def])
qed

lemma check_resend_keeps:
  "check_resend_cooldown C pol H recipient purpose s = (r, s') \<Longrightarrow> text_at s' = text_at s \<and> left s' = left s"
  using ttl_keeps get_keeps
  by (fastforce simp: check_resend_cooldown_def Let_def split: prod.splits option.splits if_splits)

lemma check_login_keeps:
  "check_login_identifier_allowed C pol H ip identifier s = (r, s') \<Longrightarrow> text_at s' = text_at s \<and> left s' = left s"
  using get_keeps rate_ttl_keeps
  by (fastforce simp: check_login_identifier_allowed_def Let_def split: prod.splits option.splits if_splits)

lemma mark_resend_paces:
  assumes "k \<noteq> cooldown_key H recipient purpose"
  shows "paces text_at left k limit w False (email_step C pol H (Resend_Sent recipient purpose))"
proof (rule paces_keep)
  fix s r s'
  assume "email_step C pol H (Resend_Sent recipient purpose) s = (r, s')"
  then obtain b where "counter_set C (cooldown_key H recipient purpose) ''1'' (max 1 (resend_cooldown_seconds pol)) s = (b, s')"
    by (auto simp: mark_resend_sent_def split: prod.splits option.splits sum.splits)
  with set_ok [of "cooldown_key H recipient purpose" "''1''" "max 1 (resend_cooldown_seconds pol)" s _ s']
    set_raised [of "cooldown_key H recipient purpose" "''1''" "max 1 (resend_cooldown_seconds pol)" s s'] assms
  show "text_at s' k = text_at s k \<and> left s' k = left s k" by (cases b) (auto simp: less_max_iff_disj)
qed

lemma login_failure_paces:
  assumes "k \<noteq> login_identifier_key H ip identifier"
    and "login_account_key H identifier = k \<Longrightarrow> limit = max (login_account_failure_limit pol) (10 ^ 9) \<and>
       w = login_account_failure_window_seconds pol"
    and "g \<Longrightarrow> fail_closed_on_redis_error pol \<and> login_account_key H identifier = k"
  shows "paces text_at left k limit w g (record_login_identifier_failure C pol H ip identifier)"
proof -
  let ?f = "consume_bucket C (fail_closed_on_redis_error pol) ''login_identifier_15m'' (login_identifier_key H ip identifier)
      (max (login_identifier_failure_limit pol) (10 ^ 9)) (login_identifier_failure_window_seconds pol)"
  let ?h = "consume_bucket C (fail_closed_on_redis_error pol) ''login_account_15m'' (login_account_key H identifier)
      (max (login_account_failure_limit pol) (10 ^ 9)) (login_account_failure_window_seconds pol)"
  have f: "paces text_at left k limit w False ?f" using assms(1) by (intro consume_paces) auto
  have "paces text_at left k limit w g ?h" using assms(2,3) by (intro consume_paces) auto
  moreover have "paces text_at left k limit w False (\<lambda>s2. (Inr decision :: rate_result, s2))" for decision
    by (rule paces_keep) simp
  ultimately have "paces text_at left k limit w (g \<or> False)
      (\<lambda>s1. case ?h s1 of (Inl e, s2) \<Rightarrow> (Inl e, s2) | (Inr x, s2) \<Rightarrow> (Inr decision :: rate_result, s2))" for decision
    by (intro paces_seq)
  from paces_seq [OF f this] show ?thesis by (simp add: record_login_identifier_failure_def [abs_def])
qed

end

section \<open>Guarantees\<close>

text \<open>The operations that send to a recipient, and those that record a failed login of an account.\<close>

definition sends_to :: "string \<Rightarrow> string \<Rightarrow> email_op \<Rightarrow> bool" where
  "sends_to purpose recipient a = (case a of Send p r _ _ \<Rightarrow> p = purpose \<and> r = recipient | _ \<Rightarrow> False)"

definition fails_login :: "string \<Rightarrow> email_op \<Rightarrow> bool" where
  "fails_login identifier a =
     (case a of Login_Failed _ i \<Rightarrow> str_lower (str_strip i) = str_lower (str_strip identifier) | _ \<Rightarrow> False)"

abbreviation recipient_key :: "(string \<Rightarrow> string) \<Rightarrow> string \<Rightarrow> string \<Rightarrow> string" where
  "recipient_key H purpose recipient \<equiv> rate_key H ''send:recipient_hour'' [purpose, recipient]"

lemmas check_lists = send_checks_def consume_checks_def change_password_checks_def uniform_checks_def
  rate_key_bucket rate_key_bucket [symmetric] login_identifier_key_def login_account_key_def

context counter_store
begin

text \<open>
  A key that the limiter always uses with one limit and one window, and that is neither a cooldown
  key nor a per-address login key, keeps its pace under every operation.
\<close>

lemma email_paces:
  assumes checks: "\<And>p r u i. uniform_checks k limit w (send_checks pol H p r u i)"
      "\<And>p l i. uniform_checks k limit w (consume_checks pol H p l i)"
      "\<And>u n i. uniform_checks k limit w (change_password_checks pol H u n i)"
    and keys: "\<And>r p. k \<noteq> cooldown_key H r p" "\<And>i n. k \<noteq> login_identifier_key H i n"
      "\<And>ps. k \<noteq> change_password_rate_key H ''failure_15m'' ps"
    and account: "\<And>n. login_account_key H n = k \<Longrightarrow>
      limit = max (login_account_failure_limit pol) (10 ^ 9) \<and> w = login_account_failure_window_seconds pol"
    and guard: "g a \<Longrightarrow> fail_closed_on_redis_error pol"
      "g a \<Longrightarrow> (case a of Send p r u i \<Rightarrow> k \<in> (\<lambda>(_, key, _). key) ` set (send_checks pol H p r u i)
         | Login_Failed i n \<Rightarrow> login_account_key H n = k | _ \<Rightarrow> False)"
  shows "paces text_at left k limit w (g a) (email_step C pol H a)"
proof (cases a)
  case (Send p r u i)
  have "paces text_at left k limit w (g a) (run_checks C pol ''send'' (send_checks pol H p r u i))"
    using guard Send by (intro run_checks_paces checks) auto
  then show ?thesis by (simp add: Send check_send_request_def)
next
  case (Consume p l i)
  have "paces text_at left k limit w (g a) (run_checks C pol ''consume'' (consume_checks pol H p l i))"
    using guard Consume by (intro run_checks_paces checks) auto
  then show ?thesis by (simp add: Consume check_consume_request_def)
next
  case (Resend_Check r p)
  have "paces text_at left k limit w False (check_resend_cooldown C pol H r p)"
    by (rule paces_keep) (auto dest: check_resend_keeps)
  then show ?thesis using guard Resend_Check by (cases "g a") auto
next
  case (Resend_Sent r p)
  then show ?thesis using guard mark_resend_paces [where recipient = r and purpose = p, OF keys(1)] by (cases "g a") auto
next
  case (Login_Failed i n)
  have "paces text_at left k limit w (g a) (record_login_identifier_failure C pol H i n)"
    using guard Login_Failed keys(2) account by (intro login_failure_paces) auto
  then show ?thesis by (simp add: Login_Failed)
next
  case (Login_Check i n)
  have "paces text_at left k limit w False (check_login_identifier_allowed C pol H i n)"
    by (rule paces_keep) (auto dest: check_login_keeps)
  then show ?thesis using guard Login_Check by (cases "g a") auto
next
  case (Password_Attempt u n i)
  have "paces text_at left k limit w (g a) (run_checks C pol ''change_password_attempt'' (change_password_checks pol H u n i))"
    using guard Password_Attempt by (intro run_checks_paces checks) auto
  then show ?thesis by (simp add: Password_Attempt check_change_password_attempt_def)
next
  case (Password_Failed u i)
  have "paces text_at left k limit w (g a) (record_change_password_failure C pol H u i)"
    unfolding record_change_password_failure_def using guard keys(3) Password_Failed by (intro consume_paces) auto
  then show ?thesis by (simp add: Password_Failed)
qed

lemma email_paces_recipient:
  assumes "fail_closed_on_redis_error pol"
  shows "paces text_at left (recipient_key H purpose recipient) (send_recipient_hourly_limit pol) ONE_HOUR_SECONDS
     (sends_to purpose recipient a) (email_step C pol H a)"
  using assms
  by (intro email_paces) (auto simp: check_lists sends_to_def split: option.splits list.splits email_op.splits)

lemma email_paces_account:
  assumes "fail_closed_on_redis_error pol"
  shows "paces text_at left (login_account_key H identifier) (max (login_account_failure_limit pol) (10 ^ 9))
     (login_account_failure_window_seconds pol) (fails_login identifier a) (email_step C pol H a)"
  using assms
  by (intro email_paces) (auto simp: check_lists fails_login_def split: option.splits list.splits email_op.splits)

lemma check_login_account_free:
  assumes "text_at s (login_account_key H identifier) = None" and "1 \<le> login_account_failure_limit pol"
    and "fst (check_login_identifier_allowed C pol H ip identifier s) = Inl e"
  shows "rx_bucket e = ''login_identifier_15m''"
proof -
  obtain x s1 where 1: "counter_get C (login_identifier_key H ip identifier) s = (x, s1)"
    by (cases "counter_get C (login_identifier_key H ip identifier) s")
  obtain y s2 where 2: "counter_get C (login_account_key H identifier) s1 = (y, s2)"
    by (cases "counter_get C (login_account_key H identifier) s1")
  have "y = Some v \<Longrightarrow> v = None" for v
    using get_ok [of "login_account_key H identifier" s1 v s2] 2 get_keeps [OF 1] assms(1) by simp
  with 1 2 assms(2,3) show ?thesis
    by (cases x; cases y) (auto simp: check_login_identifier_allowed_def redis_unavailable_def RateLimitExceeded_def Let_def
        split: prod.splits if_splits)
qed

lemma check_login_refuses:
  assumes "fail_closed_on_redis_error pol"
    and "login_account_failure_limit pol \<le> value_as_int (text_at s (login_account_key H identifier))"
  shows "isl (fst (check_login_identifier_allowed C pol H ip identifier s))"
proof -
  obtain x s1 where 1: "counter_get C (login_identifier_key H ip identifier) s = (x, s1)"
    by (cases "counter_get C (login_identifier_key H ip identifier) s")
  obtain y s2 where 2: "counter_get C (login_account_key H identifier) s1 = (y, s2)"
    by (cases "counter_get C (login_account_key H identifier) s1")
  have "y = Some v \<Longrightarrow> v = text_at s (login_account_key H identifier)" for v
    using get_ok [of "login_account_key H identifier" s1 v s2] 2 get_keeps [OF 1] by simp
  with 1 2 assms show ?thesis
    by (cases x; cases y) (auto simp: check_login_identifier_allowed_def redis_unavailable_def Let_def split: prod.splits)
qed

end

section \<open>A worked example\<close>

definition demo_policy :: rate_limit_policy where
  "demo_policy =
     \<lparr>send_recipient_hourly_limit = 2, send_recipient_daily_limit = 10, send_user_hourly_limit = 5, send_ip_hourly_limit = 20,
      consume_lookup_hourly_limit = 5, consume_ip_hourly_limit = 30, resend_cooldown_seconds = 60,
      login_identifier_failure_limit = 10, login_identifier_failure_window_seconds = 900,
      login_account_failure_limit = 2, login_account_failure_window_seconds = 900, change_password_failure_limit = 5,
      change_password_failure_window_seconds = 900, change_password_user_hourly_limit = 5,
      change_password_session_hourly_limit = 5, change_password_ip_hourly_limit = 20, fail_closed_on_redis_error = True\<rparr>"

text \<open>Three mails within seconds, and two failed logins of one account from two addresses.\<close>

definition demo_mails :: "(email_op + nat) list" where
  "demo_mails = [Inl (Send ''activation'' ''r1'' None ''10.0.0.1''), Inr 5, Inl (Send ''activation'' ''r1'' None ''10.0.0.2''),
     Inl (Send ''activation'' ''r1'' None ''10.0.0.3'')]"

definition demo_guesses :: "(email_op + nat) list" where
  "demo_guesses = [Inl (Login_Failed ''10.0.0.1'' ''ann''), Inr 5, Inl (Login_Failed ''10.0.0.2'' '' Ann'')]"

abbreviation demo_step :: "email_op \<Rightarrow> counter_mem \<Rightarrow> rate_result \<times> counter_mem" where
  "demo_step \<equiv> email_step mem_counters demo_policy id"

lemma demo_mails_admitted: "admitted demo_step cm_wait (sends_to ''activation'' ''r1'') demo_mails (no_counters []) = 2"
  by code_simp

lemma demo_guesses_counted: "admitted demo_step cm_wait (fails_login ''ann'') demo_guesses (no_counters []) = 2"
  by code_simp

lemma demo_policy_fields:
  "fail_closed_on_redis_error demo_policy" "send_recipient_hourly_limit demo_policy = 2"
  "login_account_failure_limit demo_policy = 2" "login_account_failure_window_seconds demo_policy = 900"
  by (simp_all add: demo_policy_def)

lemma empty_counters: "cm_text (no_counters fs) k = None" "cm_left (no_counters fs) k = None"
  by (simp_all add: no_counters_def cm_text_def cm_left_def cm_entry_def)

section \<open>Properties\<close>



text \<open>Guessing the password of one account: once the failures recorded for an account since its
  bucket was empty reach the limit, within the window, every further attempt is refused, from any
  address and however many addresses the failures came from.\<close>

lemma login_account_locked:
  assumes "counter_store C text_at left wait" and "fail_closed_on_redis_error pol"
    and "text_at s (login_account_key H identifier) = None" and "left s (login_account_key H identifier) = None"
    and "duration es < login_account_failure_window_seconds pol * 1000"
    and "login_account_failure_limit pol \<le> int (admitted (email_step C pol H) wait (fails_login identifier) es s)"
  shows "isl (fst (check_login_identifier_allowed C pol H ip identifier (after (email_step C pol H) wait es s)))"
proof -
  have "duration es < max 1 (login_account_failure_window_seconds pol) * 1000" using assms(5) by auto
  from counter_store.admitted_live [where step = "email_step C pol H" and P = "fails_login identifier",
      OF assms(1) counter_store.email_paces_account [OF assms(1,2)] this, of s] assms(3,4,6)
  have "login_account_failure_limit pol \<le> value_as_int (text_at (after (email_step C pol H) wait es s) (login_account_key H identifier))"
    by simp
  with counter_store.check_login_refuses [OF assms(1,2)] show ?thesis .
qed

lemma login_account_locked_witness:
  "isl (fst (check_login_identifier_allowed mem_counters demo_policy id ''10.0.0.3'' ''ann''
     (after demo_step cm_wait demo_guesses (no_counters []))))"
proof -
  have "duration demo_guesses < login_account_failure_window_seconds demo_policy * 1000"
    by (simp add: demo_guesses_def demo_policy_fields)
  then show ?thesis
    using login_account_locked [OF mem_counters.counter_store_axioms, of demo_policy "no_counters []" id "''ann''" demo_guesses]
    by (simp add: demo_policy_fields empty_counters demo_guesses_counted)
qed

text \<open>A lock is temporary and cannot be prolonged: once a bucket has its window, no request on it
  extends the window, and when it is over the account is open again: a login is then refused only by
  the bucket of its own address, or because Redis fails.\<close>

lemma bucket_reopens:
  assumes "counter_store C text_at left wait" and "fail_closed_on_redis_error pol"
    and "left s (login_account_key H identifier) = Some p" and "1 \<le> value_as_int (text_at s (login_account_key H identifier))"
    and "duration es < p" and "p \<le> duration es + int d" and "1 \<le> login_account_failure_limit pol"
  shows "left (after (email_step C pol H) wait es s) (login_account_key H identifier) = Some (p - duration es) \<and>
     (\<forall>ip e. fst (check_login_identifier_allowed C pol H ip identifier (wait d (after (email_step C pol H) wait es s))) = Inl e \<longrightarrow>
        rx_bucket e = ''login_identifier_15m'')"
proof -
  have l: "left (after (email_step C pol H) wait es s) (login_account_key H identifier) = Some (p - duration es)"
    by (rule counter_store.after_left [where step = "email_step C pol H" and P = "fails_login identifier",
          OF assms(1) counter_store.email_paces_account [OF assms(1,2)] assms(3-5)])
  with assms(6) have "text_at (wait d (after (email_step C pol H) wait es s)) (login_account_key H identifier) = None"
    by (simp add: counter_store.text_wait [OF assms(1)])
  with l counter_store.check_login_account_free [OF assms(1) _ assms(7)] show ?thesis by blast
qed

theorem bucket_reopens_witness:
  "cm_left (after demo_step cm_wait [Inr 1000] (after demo_step cm_wait demo_guesses (no_counters [])))
     (login_account_key id ''ann'') = Some 898995"
proof -
  have "cm_left (after demo_step cm_wait demo_guesses (no_counters [])) (login_account_key id ''ann'') = Some 899995"
    and "value_as_int (cm_text (after demo_step cm_wait demo_guesses (no_counters [])) (login_account_key id ''ann'')) = 2"
    by code_simp+
  with bucket_reopens [OF mem_counters.counter_store_axioms, of demo_policy
      "after demo_step cm_wait demo_guesses (no_counters [])" id "''ann''" 899995 "[Inr 1000]" 899995]
  show ?thesis by (simp add: demo_policy_fields)
qed

end
