(* ===== verification/Patreon_Rate.thy ===== *)
theory Patreon_Rate
  imports Email_Rate
begin

text \<open>
  The limiter of the Patreon account-link flows: \<^verbatim>\<open>PatreonRateLimiter\<close> of
  \<^verbatim>\<open>src/src/Util/patreon/rate_limit.py\<close>. User-facing buckets keep one counter per dimension (user, address,
  recipient, lookup id) and every dimension of a request is charged; service buckets keep one counter
  over all parts. A policy is the limit and window of every bucket.
\<close>

section \<open>Policy and keys\<close>

definition PATREON_RATE_BUCKETS :: "string list" where
  "PATREON_RATE_BUCKETS =
     [''link_request'', ''proof_request'', ''proof_consume'', ''unlink'', ''status'', ''s2s'', ''webhook_signature_failure'', ''sync_enqueue'']"

definition PATREON_REDIS_RATE_PREFIXES :: "(string \<times> string) list" where
  "PATREON_REDIS_RATE_PREFIXES =
     [(''link_request'', ''patreon_rate:link_request:''), (''proof_request'', ''patreon_rate:proof_request:''),
      (''proof_consume'', ''patreon_rate:proof_consume:''), (''unlink'', ''patreon_rate:unlink:''),
      (''status'', ''patreon_rate:status:''), (''s2s'', ''patreon_rate:s2s:''),
      (''webhook_signature_failure'', ''patreon_rate:webhook_signature_failure:''),
      (''sync_enqueue'', ''patreon_rate:sync_enqueue:''), (''api_client'', ''patreon_rate:api_client:''),
      (''api_access_token'', ''patreon_rate:api_access_token:''), (''api_edge_4xx'', ''patreon_rate:api_edge_4xx:'')]"

definition IP_DIMENSION_MULTIPLIER :: int where "IP_DIMENSION_MULTIPLIER = 5"

text \<open>The default limit and window of every bucket.\<close>

definition PATREON_RATE_LIMIT_DEFAULTS :: "(string \<times> int \<times> int) list" where
  "PATREON_RATE_LIMIT_DEFAULTS =
     [(''link_request'', 5, 60 * 60), (''proof_request'', 3, 60 * 60), (''proof_consume'', 5, 15 * 60), (''unlink'', 5, 5 * 60),
      (''status'', 60, 60), (''s2s'', 120, 60), (''webhook_signature_failure'', 30, 60), (''sync_enqueue'', 30, 5 * 60)]"

record patreon_policy =
  pp_buckets :: "(string \<times> int \<times> int) list"
  pp_fail_closed :: bool

definition bucket_limit :: "patreon_policy \<Rightarrow> string \<Rightarrow> int" where
  "bucket_limit pol bucket = (case map_of (pp_buckets pol) bucket of Some (l, w) \<Rightarrow> l | None \<Rightarrow> 0)"

definition bucket_window_seconds :: "patreon_policy \<Rightarrow> string \<Rightarrow> int" where
  "bucket_window_seconds pol bucket = (case map_of (pp_buckets pol) bucket of Some (l, w) \<Rightarrow> w | None \<Rightarrow> 0)"

text \<open>
  \<^verbatim>\<open>_env_int\<close> and \<^verbatim>\<open>load_patreon_rate_limit_policy\<close>: a variable that is missing, blank or not a number leaves
  the default; nothing below one is accepted. The names of a bucket's two variables are its upper-case name.
\<close>

definition env_int :: "(string \<Rightarrow> string option) \<Rightarrow> string \<Rightarrow> int \<Rightarrow> int" where
  "env_int env name dflt =
     (case env name of
        None \<Rightarrow> max 1 dflt
      | Some raw \<Rightarrow>
          if str_strip raw = [] then max 1 dflt
          else (case parse_int (str_strip raw) of Some i \<Rightarrow> max 1 i | None \<Rightarrow> max 1 dflt))"

definition PATREON_RATE_LIMIT_ENV_NAMES :: "(string \<times> string \<times> string) list" where
  "PATREON_RATE_LIMIT_ENV_NAMES =
     [(''link_request'', ''PATREON_LINK_REQUEST_RATE_LIMIT'', ''PATREON_LINK_REQUEST_RATE_WINDOW_SECONDS''),
      (''proof_request'', ''PATREON_PROOF_REQUEST_RATE_LIMIT'', ''PATREON_PROOF_REQUEST_RATE_WINDOW_SECONDS''),
      (''proof_consume'', ''PATREON_PROOF_CONSUME_RATE_LIMIT'', ''PATREON_PROOF_CONSUME_RATE_WINDOW_SECONDS''),
      (''unlink'', ''PATREON_UNLINK_RATE_LIMIT'', ''PATREON_UNLINK_RATE_WINDOW_SECONDS''),
      (''status'', ''PATREON_STATUS_RATE_LIMIT'', ''PATREON_STATUS_RATE_WINDOW_SECONDS''),
      (''s2s'', ''PATREON_S2S_RATE_LIMIT'', ''PATREON_S2S_RATE_WINDOW_SECONDS''),
      (''webhook_signature_failure'', ''PATREON_WEBHOOK_SIGNATURE_FAILURE_RATE_LIMIT'',
       ''PATREON_WEBHOOK_SIGNATURE_FAILURE_RATE_WINDOW_SECONDS''),
      (''sync_enqueue'', ''PATREON_SYNC_ENQUEUE_RATE_LIMIT'', ''PATREON_SYNC_ENQUEUE_RATE_WINDOW_SECONDS'')]"

definition configured_bucket :: "(string \<Rightarrow> string option) \<Rightarrow> string \<times> int \<times> int \<Rightarrow> string \<times> int \<times> int" where
  "configured_bucket env b =
     (case b of (bucket, default_limit, default_window) \<Rightarrow>
        (case map_of PATREON_RATE_LIMIT_ENV_NAMES bucket of
           Some (limit_env, window_env) \<Rightarrow> (bucket, env_int env limit_env default_limit, env_int env window_env default_window)
         | None \<Rightarrow> b))"

definition load_patreon_rate_limit_policy :: "(string \<Rightarrow> string option) \<Rightarrow> patreon_policy" where
  "load_patreon_rate_limit_policy env =
     \<lparr>pp_buckets = map (configured_bucket env) PATREON_RATE_LIMIT_DEFAULTS, pp_fail_closed = True\<rparr>"

definition hash_identifier :: "(string \<Rightarrow> string) \<Rightarrow> string option \<Rightarrow> string" where
  "hash_identifier H value = H (str_lower (str_strip (case value of Some v \<Rightarrow> v | None \<Rightarrow> [])))"

definition patreon_bucket_key :: "(string \<Rightarrow> string) \<Rightarrow> string \<Rightarrow> string \<Rightarrow> string option list \<Rightarrow> string" where
  "patreon_bucket_key H prefix bucket parts =
     prefix @ take 32 (H (join_bar (bucket # map (hash_identifier H) parts)))"

definition patreon_prefix :: "string \<Rightarrow> string" where
  "patreon_prefix bucket = (case map_of PATREON_REDIS_RATE_PREFIXES bucket of Some p \<Rightarrow> p | None \<Rightarrow> [])"

section \<open>Checks\<close>

text \<open>\<^verbatim>\<open>_check\<close>. The operations only name buckets of the tuple, so its guard against other names never fires.\<close>

definition patreon_check ::
    "'s counters \<Rightarrow> patreon_policy \<Rightarrow> (string \<Rightarrow> string) \<Rightarrow> string \<Rightarrow> string option list \<Rightarrow> 's \<Rightarrow> rate_result \<times> 's" where
  "patreon_check C pol H bucket parts =
     consume_bucket C (pp_fail_closed pol) bucket (patreon_bucket_key H (patreon_prefix bucket) bucket parts)
       (bucket_limit pol bucket) (bucket_window_seconds pol bucket)"

definition blank :: "string option \<Rightarrow> bool" where
  "blank value = (case value of None \<Rightarrow> True | Some v \<Rightarrow> str_strip v = [])"

definition dimension_limit :: "patreon_policy \<Rightarrow> string \<Rightarrow> int \<Rightarrow> int" where
  "dimension_limit pol bucket multiplier = max 1 (bucket_limit pol bucket * max 1 multiplier)"

definition dimension_key :: "(string \<Rightarrow> string) \<Rightarrow> string \<Rightarrow> string \<Rightarrow> string option \<Rightarrow> string" where
  "dimension_key H bucket name value = patreon_bucket_key H (patreon_prefix bucket) bucket [Some name, value]"

definition later_retry :: "rate_limit_exceeded option \<Rightarrow> rate_limit_exceeded \<Rightarrow> rate_limit_exceeded" where
  "later_retry exceeded e =
     (case exceeded of None \<Rightarrow> e | Some e0 \<Rightarrow> if rx_retry_after e > rx_retry_after e0 then e else e0)"

fun check_dimensions ::
    "'s counters \<Rightarrow> patreon_policy \<Rightarrow> (string \<Rightarrow> string) \<Rightarrow> string \<Rightarrow> (string \<times> string option \<times> int) list \<Rightarrow>
     rate_limit_exceeded option \<Rightarrow> int option \<Rightarrow> 's \<Rightarrow> rate_result \<times> 's" where
  "check_dimensions C pol H bucket [] exceeded remaining s =
     (case exceeded of
        Some e \<Rightarrow> (Inl e, s)
      | None \<Rightarrow> (Inr (RateLimitDecision bucket remaining False), s))"
| "check_dimensions C pol H bucket ((name, value, multiplier) # dims) exceeded remaining s =
     (if blank value then check_dimensions C pol H bucket dims exceeded remaining s
      else
        let key = dimension_key H bucket name value;
            limit = dimension_limit pol bucket multiplier;
            window = bucket_window_seconds pol bucket
        in case count_request C key window s of
             (None, s1) \<Rightarrow> (redis_unavailable (pp_fail_closed pol) bucket, s1)
           | (Some count, s1) \<Rightarrow>
               if count > limit then
                 let (retry_after, s2) = rate_ttl C key window s1
                 in check_dimensions C pol H bucket dims
                      (Some (later_retry exceeded (RateLimitExceeded bucket retry_after limit (Some key)))) remaining s2
               else
                 check_dimensions C pol H bucket dims exceeded
                   (Some (case remaining of None \<Rightarrow> limit - count | Some r \<Rightarrow> min r (limit - count))) s1)"

definition patreon_check_dimensions ::
    "'s counters \<Rightarrow> patreon_policy \<Rightarrow> (string \<Rightarrow> string) \<Rightarrow> string \<Rightarrow> (string \<times> string option \<times> int) list \<Rightarrow> 's \<Rightarrow> rate_result \<times> 's" where
  "patreon_check_dimensions C pol H bucket dims = check_dimensions C pol H bucket dims None None"

section \<open>Operations\<close>

datatype patreon_op =
    Link_Request "string option" "string option" "string option"
  | Proof_Request "string option" "string option" "string option"
  | Proof_Consume "string option" "string option" "string option"
  | Unlink "string option" "string option"
  | Status "string option" "string option"
  | S2S "string option" "string option" "string option"
  | Signature_Failure "string option"
  | Sync_Enqueue string "string option" "string option" "string option" "string option"

text \<open>The e-mail hint of a link request is folded before it becomes a dimension.\<close>

definition email_dimension :: "string option \<Rightarrow> string option" where
  "email_dimension hint = (case hint of None \<Rightarrow> None | Some [] \<Rightarrow> None | Some h \<Rightarrow> Some (str_lower (str_strip h)))"

fun patreon_step :: "'s counters \<Rightarrow> patreon_policy \<Rightarrow> (string \<Rightarrow> string) \<Rightarrow> patreon_op \<Rightarrow> 's \<Rightarrow> rate_result \<times> 's" where
  "patreon_step C pol H (Link_Request user ip hint) =
     patreon_check_dimensions C pol H ''link_request''
       [(''user'', user, 1), (''ip'', ip, IP_DIMENSION_MULTIPLIER), (''email'', email_dimension hint, 1)]"
| "patreon_step C pol H (Proof_Request user ip recipient) =
     patreon_check_dimensions C pol H ''proof_request''
       [(''user'', user, 1), (''ip'', ip, IP_DIMENSION_MULTIPLIER), (''recipient'', recipient, 1)]"
| "patreon_step C pol H (Proof_Consume user ip lookup) =
     patreon_check_dimensions C pol H ''proof_consume''
       [(''user'', user, 1), (''ip'', ip, IP_DIMENSION_MULTIPLIER), (''lookup'', lookup, 1)]"
| "patreon_step C pol H (Unlink user ip) =
     patreon_check_dimensions C pol H ''unlink'' [(''user'', user, 1), (''ip'', ip, IP_DIMENSION_MULTIPLIER)]"
| "patreon_step C pol H (Status user ip) =
     patreon_check_dimensions C pol H ''status'' [(''user'', user, 1), (''ip'', ip, IP_DIMENSION_MULTIPLIER)]"
| "patreon_step C pol H (S2S user client ip) = patreon_check C pol H ''s2s'' [user, client, ip]"
| "patreon_step C pol H (Signature_Failure ip) = patreon_check C pol H ''webhook_signature_failure'' [ip]"
| "patreon_step C pol H (Sync_Enqueue kind campaign member user source) =
     patreon_check C pol H ''sync_enqueue'' [Some kind, campaign, member, user, source]"

section \<open>The limiter keeps the pace of its keys\<close>

context counter_store
begin

lemma check_dimensions_pace:
  assumes "\<And>name value. dimension_key H bucket name value = k \<Longrightarrow> bucket_window_seconds pol bucket = w"
    and "check_dimensions C pol H bucket dims ex rem s = (r, s')"
  shows "pace_step text_at left k w s s'"
  using assms(2)
proof (induction dims arbitrary: ex rem s)
  case Nil
  then show ?case by (auto split: option.splits)
next
  case (Cons d dims)
  obtain name v m where d: "d = (name, v, m)" by (cases d)
  show ?case
  proof (cases "blank v")
    case True
    with Cons d show ?thesis by simp
  next
    case False
    let ?k = "dimension_key H bucket name v" and ?w = "bucket_window_seconds pol bucket"
    obtain x s1 where c: "count_request C ?k ?w s = (x, s1)" by (cases "count_request C ?k ?w s")
    have p: "pace_step text_at left k w s s1" using assms(1) by (intro count_request_pace [OF c]) auto
    obtain ra s2 where t: "rate_ttl C ?k ?w s1 = (ra, s2)" by (cases "rate_ttl C ?k ?w s1")
    note p2 = rate_ttl_pace [OF t, of k w]
    have "s' = s1 \<or> (\<exists>ex rem. check_dimensions C pol H bucket dims ex rem s1 = (r, s')) \<or>
        (\<exists>ex rem. check_dimensions C pol H bucket dims ex rem s2 = (r, s'))"
      using Cons.prems d False c t by (auto simp: Let_def split: option.splits if_splits)
    with Cons.IH p p2 show ?thesis by (blast intro: pace_step_trans)
  qed
qed

text \<open>Once a dimension is exhausted the request fails, whatever the others say.\<close>

lemma check_dimensions_exceeded:
  assumes "pp_fail_closed pol" and "check_dimensions C pol H bucket dims (Some e) rem s = (r, s')"
  shows "isl r"
  using assms(2)
proof (induction dims arbitrary: e rem s)
  case (Cons d dims)
  then show ?case using assms(1)
    by (cases d) (auto simp: Let_def redis_unavailable_def split: option.splits if_splits prod.splits)
qed auto

lemma check_dimensions_admits:
  assumes "pp_fail_closed pol" and "(name, value, m) \<in> set dims" and "\<not> blank value"
    and "check_dimensions C pol H bucket dims ex rem s = (r, s')" and "\<not> isl r"
  shows "value_as_int (text_at s (dimension_key H bucket name value)) < dimension_limit pol bucket m"
    and "value_as_int (text_at s (dimension_key H bucket name value)) + 1 \<le> value_as_int (text_at s' (dimension_key H bucket name value))"
proof -
  let ?k = "dimension_key H bucket name value" and ?w = "bucket_window_seconds pol bucket"
  have "value_as_int (text_at s ?k) < dimension_limit pol bucket m \<and> value_as_int (text_at s ?k) + 1 \<le> value_as_int (text_at s' ?k)"
    using assms(2,4)
  proof (induction dims arbitrary: ex rem s)
    case (Cons d dims)
    obtain n v q where d: "d = (n, v, q)" by (cases d)
    let ?k' = "dimension_key H bucket n v"
    show ?case
    proof (cases "blank v")
      case True
      with Cons d assms(3) show ?thesis by auto
    next
      case False
      obtain x s1 where c: "count_request C ?k' ?w s = (x, s1)" by (cases "count_request C ?k' ?w s")
      obtain count rem' where x: "x = Some count" "count \<le> dimension_limit pol bucket q"
        and rest: "check_dimensions C pol H bucket dims ex rem' s1 = (r, s')"
        using Cons.prems(2) d False c assms(1,5) check_dimensions_exceeded [OF assms(1)]
        by (fastforce simp: Let_def redis_unavailable_def split: option.splits if_splits prod.splits)
      have mono: "value_as_int (text_at s ?k) \<le> value_as_int (text_at s1 ?k)"
        using count_request_pace [OF c, of ?k ?w] by (simp add: pace_step_def)
      show ?thesis
      proof (cases "(name, value, m) = d")
        case True
        have "value_as_int (text_at s1 ?k) \<le> value_as_int (text_at s' ?k)"
          using check_dimensions_pace [OF _ rest, of ?k ?w] by (simp add: pace_step_def)
        with count_request_ok [OF c [unfolded x(1)]] x(2) True d show ?thesis by auto
      next
        case False
        with Cons.prems(1) Cons.IH [OF _ rest] mono show ?thesis by auto
      qed
    qed
  qed simp
  then show "value_as_int (text_at s ?k) < dimension_limit pol bucket m"
    and "value_as_int (text_at s ?k) + 1 \<le> value_as_int (text_at s' ?k)" by simp_all
qed

end

lemma patreon_prefixes:
  "patreon_prefix ''link_request'' = ''patreon_rate:link_request:''" "patreon_prefix ''proof_request'' = ''patreon_rate:proof_request:''"
  "patreon_prefix ''proof_consume'' = ''patreon_rate:proof_consume:''" "patreon_prefix ''unlink'' = ''patreon_rate:unlink:''"
  "patreon_prefix ''status'' = ''patreon_rate:status:''" "patreon_prefix ''s2s'' = ''patreon_rate:s2s:''"
  "patreon_prefix ''webhook_signature_failure'' = ''patreon_rate:webhook_signature_failure:''"
  "patreon_prefix ''sync_enqueue'' = ''patreon_rate:sync_enqueue:''"
  by (simp_all add: patreon_prefix_def PATREON_REDIS_RATE_PREFIXES_def)

lemmas patreon_keys_apart = patreon_bucket_key_def dimension_key_def patreon_prefixes

abbreviation lookup_key :: "(string \<Rightarrow> string) \<Rightarrow> string \<Rightarrow> string" where
  "lookup_key H lookup \<equiv> dimension_key H ''proof_consume'' ''lookup'' (Some lookup)"

text \<open>The submissions of a proof with one lookup id, up to case and surrounding blanks.\<close>

definition guesses_proof :: "string \<Rightarrow> patreon_op \<Rightarrow> bool" where
  "guesses_proof lookup a =
     (case a of Proof_Consume _ _ (Some l) \<Rightarrow> str_lower (str_strip l) = str_lower (str_strip lookup) | _ \<Rightarrow> False)"

lemma str_lower_blank [simp]: "str_lower s = [] \<longleftrightarrow> s = []"
  by (simp add: str_lower_def)

context counter_store
begin

lemma patreon_dimensions_keep:
  assumes "\<And>name v. dimension_key H bucket name v \<noteq> k"
  shows "paces text_at left k limit w False (patreon_check_dimensions C pol H bucket dims)"
  unfolding patreon_check_dimensions_def
proof (rule pacesI)
  fix s r s'
  assume "check_dimensions C pol H bucket dims None None s = (r, s')"
  then show "pace_step text_at left k w s s'" using assms by (intro check_dimensions_pace) auto
qed simp

lemma patreon_check_keep:
  assumes "patreon_bucket_key H (patreon_prefix bucket) bucket parts \<noteq> k"
  shows "paces text_at left k limit w False (patreon_check C pol H bucket parts)"
  unfolding patreon_check_def using assms by (intro consume_paces) auto

lemma patreon_paces_lookup:
  assumes "pp_fail_closed pol" and "str_strip lookup \<noteq> []"
  shows "paces text_at left (lookup_key H lookup) (dimension_limit pol ''proof_consume'' 1)
     (bucket_window_seconds pol ''proof_consume'') (guesses_proof lookup a) (patreon_step C pol H a)"
    (is "paces _ _ ?k ?l ?w _ _")
proof (cases a)
  case (Proof_Consume user ip l)
  let ?dims = "[(''user'', user, 1), (''ip'', ip, IP_DIMENSION_MULTIPLIER), (''lookup'', l, 1)]"
  have "paces text_at left ?k ?l ?w (guesses_proof lookup a) (check_dimensions C pol H ''proof_consume'' ?dims None None)"
  proof (rule pacesI)
    fix s r s'
    assume c: "check_dimensions C pol H ''proof_consume'' ?dims None None s = (r, s')"
    then show "pace_step text_at left ?k ?w s s'" by (rule check_dimensions_pace [rotated]) simp
    assume "guesses_proof lookup a" and ok: "\<not> isl r"
    then obtain l' where l: "l = Some l'" "str_lower (str_strip l') = str_lower (str_strip lookup)"
      using Proof_Consume by (auto simp: guesses_proof_def split: option.splits)
    then have "dimension_key H ''proof_consume'' ''lookup'' l = ?k"
      by (simp add: dimension_key_def patreon_bucket_key_def hash_identifier_def)
    moreover have "str_lower (str_strip l') \<noteq> []" using l(2) assms(2) by simp
    then have "\<not> blank l" unfolding l(1) by (simp add: blank_def)
    ultimately show "value_as_int (text_at s ?k) < ?l \<and> value_as_int (text_at s ?k) + 1 \<le> value_as_int (text_at s' ?k)"
      using check_dimensions_admits [OF assms(1) _ _ c ok, of "''lookup''" l 1] by simp
  qed
  then show ?thesis by (simp add: Proof_Consume patreon_check_dimensions_def)
qed (simp_all add: guesses_proof_def patreon_dimensions_keep patreon_check_keep patreon_keys_apart)

end

section \<open>A worked example\<close>

definition demo_patreon_policy :: patreon_policy where
  "demo_patreon_policy = \<lparr>pp_buckets = [(''proof_consume'', 2, 900)], pp_fail_closed = True\<rparr>"

definition demo_proof_guesses :: "(patreon_op + nat) list" where
  "demo_proof_guesses =
     [Inl (Proof_Consume (Some ''u1'') (Some ''10.0.0.1'') (Some ''L1'')), Inl (Proof_Consume (Some ''u2'') (Some ''10.0.0.2'') (Some ''l1'')),
      Inr 5, Inl (Proof_Consume (Some ''u3'') (Some ''10.0.0.3'') (Some '' L1''))]"

abbreviation demo_patreon_step :: "patreon_op \<Rightarrow> counter_mem \<Rightarrow> rate_result \<times> counter_mem" where
  "demo_patreon_step \<equiv> patreon_step mem_counters demo_patreon_policy id"

lemma demo_proof_guesses_admitted:
  "admitted demo_patreon_step cm_wait (guesses_proof ''L1'') demo_proof_guesses (no_counters []) = 2"
  by code_simp

section \<open>Property\<close>

text \<open>Guessing one proof: varying the user or the address buys no further attempts. In any schedule of
  requests shorter than the window, at most twice the limit of submissions with one lookup id are let
  through, and at most the limit when its bucket was empty at the start.\<close>

lemma proof_guesses_bounded:
  assumes "counter_store C text_at left wait" and "pp_fail_closed pol" and "str_strip lookup \<noteq> []"
    and "0 \<le> value_as_int (text_at s (dimension_key H ''proof_consume'' ''lookup'' (Some lookup)))"
    and "duration es < bucket_window_seconds pol ''proof_consume'' * 1000"
  shows "int (admitted (patreon_step C pol H) wait (guesses_proof lookup) es s) \<le> 2 * dimension_limit pol ''proof_consume'' 1 \<and>
     (text_at s (dimension_key H ''proof_consume'' ''lookup'' (Some lookup)) = None \<and>
      left s (dimension_key H ''proof_consume'' ''lookup'' (Some lookup)) = None \<longrightarrow>
        int (admitted (patreon_step C pol H) wait (guesses_proof lookup) es s) \<le> dimension_limit pol ''proof_consume'' 1)"
proof -
  note p = counter_store.patreon_paces_lookup [OF assms(1-3), of H]
  have d: "duration es < max 1 (bucket_window_seconds pol ''proof_consume'') * 1000" using assms(5) by auto
  have l: "0 \<le> dimension_limit pol ''proof_consume'' 1" by (simp add: dimension_limit_def)
  from counter_store.admitted_span [where step = "patreon_step C pol H" and P = "guesses_proof lookup", OF assms(1) p d, of s] assms(4) l
  have "int (admitted (patreon_step C pol H) wait (guesses_proof lookup) es s) \<le> 2 * dimension_limit pol ''proof_consume'' 1" by simp
  moreover from counter_store.admitted_live [where step = "patreon_step C pol H" and P = "guesses_proof lookup", OF assms(1) p d, of s] l
  have "int (admitted (patreon_step C pol H) wait (guesses_proof lookup) es s) \<le> dimension_limit pol ''proof_consume'' 1"
    if "text_at s (lookup_key H lookup) = None \<and> left s (lookup_key H lookup) = None" using that by auto
  ultimately show ?thesis by blast
qed

lemma proof_guesses_bounded_witness:
  "int (admitted demo_patreon_step cm_wait (guesses_proof ''L1'') demo_proof_guesses (no_counters [])) \<le> 2 \<and>
   admitted demo_patreon_step cm_wait (guesses_proof ''L1'') demo_proof_guesses (no_counters []) = 2"
proof -
  have "str_strip ''L1'' \<noteq> []" by (simp add: str_strip_def is_space_def)
  moreover have "duration demo_proof_guesses < bucket_window_seconds demo_patreon_policy ''proof_consume'' * 1000"
    by (simp add: demo_proof_guesses_def demo_patreon_policy_def bucket_window_seconds_def)
  ultimately have "int (admitted demo_patreon_step cm_wait (guesses_proof ''L1'') demo_proof_guesses (no_counters [])) \<le>
      dimension_limit demo_patreon_policy ''proof_consume'' 1"
    using proof_guesses_bounded [OF mem_counters.counter_store_axioms, of demo_patreon_policy "''L1''" "no_counters []" id demo_proof_guesses]
    by (simp add: empty_counters demo_patreon_policy_def)
  then have "int (admitted demo_patreon_step cm_wait (guesses_proof ''L1'') demo_proof_guesses (no_counters [])) \<le> 2"
    by (simp add: dimension_limit_def bucket_limit_def demo_patreon_policy_def)
  with demo_proof_guesses_admitted show ?thesis by blast
qed

end
