(* ===== verification/OAuth_Rate.thy ===== *)
theory OAuth_Rate
  imports Patreon_Rate
begin

text \<open>
  The limiter of the OAuth round trip: \<^verbatim>\<open>OAuthRateLimiter\<close> of \<^verbatim>\<open>src/src/Util/oauth_rate_limit.py\<close>. Every
  operation charges one fixed window whose key digests the address, a fingerprint and the project
  scope. The locale \<open>keyed_limiter\<close> is the contract of such limiters, operations that charge one
  bucket each, with keys that determine their limit and window; this limiter and the one of the
  billing routes (\<open>Stripe_Rate\<close>) interpret it.
\<close>

section \<open>Limiters with one key per operation\<close>

locale keyed_limiter =
  fixes bucket_of :: "'op \<Rightarrow> string"
    and key_of :: "'op \<Rightarrow> string"
    and limit_of :: "'op \<Rightarrow> int"
    and window_of :: "'op \<Rightarrow> int"
  assumes key_determines: "key_of a = key_of b \<Longrightarrow> limit_of a = limit_of b \<and> window_of a = window_of b"
begin

lemma operation_paces:
  assumes "counter_store C text_at left wait"
    and "\<And>b. step b = consume_bucket C True (bucket_of b) (key_of b) (limit_of b) (window_of b)"
  shows "paces text_at left (key_of a) (limit_of a) (window_of a) (key_of b = key_of a) (step b)"
  unfolding assms(2) using key_determines [of b a] by (intro counter_store.consume_paces [OF assms(1)]) auto

lemma requests_bounded:
  assumes "counter_store C text_at left wait"
    and "\<And>b. step b = consume_bucket C True (bucket_of b) (key_of b) (limit_of b) (window_of b)"
    and "0 \<le> limit_of a" and "0 \<le> value_as_int (text_at s (key_of a))" and "duration es < window_of a * 1000"
  shows "int (admitted step wait (\<lambda>b. key_of b = key_of a) es s) \<le> 2 * limit_of a"
    and "text_at s (key_of a) = None \<Longrightarrow> left s (key_of a) = None \<Longrightarrow>
      int (admitted step wait (\<lambda>b. key_of b = key_of a) es s) \<le> limit_of a"
proof -
  note p = operation_paces [where C = C and step = step, OF assms(1,2)]
  have d: "duration es < max 1 (window_of a) * 1000" using assms(5) by auto
  from counter_store.admitted_span [where step = step and P = "\<lambda>b. key_of b = key_of a", OF assms(1) p d, of s] assms(3,4)
  show "int (admitted step wait (\<lambda>b. key_of b = key_of a) es s) \<le> 2 * limit_of a" by simp
  from counter_store.admitted_live [where step = step and P = "\<lambda>b. key_of b = key_of a", OF assms(1) p d, of s] assms(3)
  show "int (admitted step wait (\<lambda>b. key_of b = key_of a) es s) \<le> limit_of a"
    if "text_at s (key_of a) = None" "left s (key_of a) = None" using that by auto
qed

end

section \<open>Policy\<close>

record oauth_rate_policy =
  start_limit :: int
  start_window_seconds :: int
  callback_limit :: int
  callback_window_seconds :: int
  state_consume_limit :: int
  state_consume_window_seconds :: int
  sub_collision_limit :: int
  sub_collision_window_seconds :: int
  unlink_limit :: int
  unlink_window_seconds :: int
  oauth_fail_closed :: bool

text \<open>
  \<^verbatim>\<open>load_oauth_rate_limit_policy\<close>. \<^verbatim>\<open>_env_int\<close> is the function of the Patreon limiter, on defaults that are
  positive; the posture on Redis errors comes from the deployment settings.
\<close>

definition load_oauth_rate_limit_policy :: "(string \<Rightarrow> string option) \<Rightarrow> bool \<Rightarrow> oauth_rate_policy" where
  "load_oauth_rate_limit_policy env fail_closed =
     \<lparr>start_limit = env_int env ''OAUTH_START_RATE_LIMIT'' 20,
      start_window_seconds = env_int env ''OAUTH_START_RATE_WINDOW_SECONDS'' 60,
      callback_limit = env_int env ''OAUTH_CALLBACK_RATE_LIMIT'' 30,
      callback_window_seconds = env_int env ''OAUTH_CALLBACK_RATE_WINDOW_SECONDS'' 60,
      state_consume_limit = env_int env ''OAUTH_STATE_CONSUME_RATE_LIMIT'' 60,
      state_consume_window_seconds = env_int env ''OAUTH_STATE_CONSUME_RATE_WINDOW_SECONDS'' 60,
      sub_collision_limit = env_int env ''OAUTH_SUB_COLLISION_RATE_LIMIT'' 10,
      sub_collision_window_seconds = env_int env ''OAUTH_SUB_COLLISION_RATE_WINDOW_SECONDS'' 300,
      unlink_limit = env_int env ''OAUTH_UNLINK_RATE_LIMIT'' 10,
      unlink_window_seconds = env_int env ''OAUTH_UNLINK_RATE_WINDOW_SECONDS'' 300,
      oauth_fail_closed = fail_closed\<rparr>"

section \<open>Keys\<close>

definition oauth_bucket_key ::
    "(string \<Rightarrow> string) \<Rightarrow> string \<Rightarrow> string \<Rightarrow> string option list \<Rightarrow> string option \<Rightarrow> string" where
  "oauth_bucket_key H prefix bucket parts scope =
     (let vals = bucket # map (\<lambda>p. case p of Some v \<Rightarrow> v | None \<Rightarrow> []) parts;
          vals' = (case scope of Some (c # t) \<Rightarrow> vals @ [''scope='' @ c # t] | _ \<Rightarrow> vals)
      in prefix @ take 24 (H (join_bar vals')))"

definition rate_limit_scope :: "(string \<Rightarrow> string) \<Rightarrow> string option \<Rightarrow> string option \<Rightarrow> string option" where
  "rate_limit_scope H project connection =
     (let p = (case project of Some v \<Rightarrow> v | None \<Rightarrow> []); c = (case connection of Some v \<Rightarrow> v | None \<Rightarrow> [])
      in if p = [] \<and> c = [] then None else Some (take 16 (H (p @ ''|'' @ c))))"

text \<open>The operations, with the address, the fingerprint or user, and the scope they are called with.\<close>

datatype oauth_rate_op =
    Check_Start "string option" "string option" "string option"
  | Check_Callback "string option" "string option" "string option"
  | Check_State_Consumption "string option" "string option" "string option"
  | Check_Sub_Collision string "string option" "string option"
  | Check_Unlink_Attempt string "string option" "string option"

fun oauth_rate_bucket :: "oauth_rate_op \<Rightarrow> string" where
  "oauth_rate_bucket (Check_Start _ _ _) = ''start''"
| "oauth_rate_bucket (Check_Callback _ _ _) = ''callback''"
| "oauth_rate_bucket (Check_State_Consumption _ _ _) = ''state_consume''"
| "oauth_rate_bucket (Check_Sub_Collision _ _ _) = ''sub_collision''"
| "oauth_rate_bucket (Check_Unlink_Attempt _ _ _) = ''unlink''"

fun oauth_rate_key :: "(string \<Rightarrow> string) \<Rightarrow> oauth_rate_op \<Rightarrow> string" where
  "oauth_rate_key H (Check_Start ip fingerprint scope) =
     oauth_bucket_key H ''oauth_rate:start:'' ''start'' [Some (digest_part H ip), fingerprint] scope"
| "oauth_rate_key H (Check_Callback ip fingerprint scope) =
     oauth_bucket_key H ''oauth_rate:callback:'' ''callback'' [Some (digest_part H ip), fingerprint] scope"
| "oauth_rate_key H (Check_State_Consumption ip fingerprint scope) =
     oauth_bucket_key H ''oauth_rate:state_consume:'' ''state_consume'' [Some (digest_part H ip), fingerprint] scope"
| "oauth_rate_key H (Check_Sub_Collision sub ip scope) =
     oauth_bucket_key H ''oauth_rate:sub_collision:'' ''sub_collision'' [Some sub, Some (digest_part H ip)] scope"
| "oauth_rate_key H (Check_Unlink_Attempt user ip scope) =
     oauth_bucket_key H ''oauth_rate:unlink:'' ''unlink'' [Some (digest_part H (Some user)), Some (digest_part H ip)] scope"

fun oauth_rate_limit :: "oauth_rate_policy \<Rightarrow> oauth_rate_op \<Rightarrow> int" where
  "oauth_rate_limit pol (Check_Start _ _ _) = start_limit pol"
| "oauth_rate_limit pol (Check_Callback _ _ _) = callback_limit pol"
| "oauth_rate_limit pol (Check_State_Consumption _ _ _) = state_consume_limit pol"
| "oauth_rate_limit pol (Check_Sub_Collision _ _ _) = sub_collision_limit pol"
| "oauth_rate_limit pol (Check_Unlink_Attempt _ _ _) = unlink_limit pol"

fun oauth_rate_window :: "oauth_rate_policy \<Rightarrow> oauth_rate_op \<Rightarrow> int" where
  "oauth_rate_window pol (Check_Start _ _ _) = start_window_seconds pol"
| "oauth_rate_window pol (Check_Callback _ _ _) = callback_window_seconds pol"
| "oauth_rate_window pol (Check_State_Consumption _ _ _) = state_consume_window_seconds pol"
| "oauth_rate_window pol (Check_Sub_Collision _ _ _) = sub_collision_window_seconds pol"
| "oauth_rate_window pol (Check_Unlink_Attempt _ _ _) = unlink_window_seconds pol"

definition oauth_rate_step ::
    "'s counters \<Rightarrow> oauth_rate_policy \<Rightarrow> (string \<Rightarrow> string) \<Rightarrow> oauth_rate_op \<Rightarrow> 's \<Rightarrow> rate_result \<times> 's" where
  "oauth_rate_step C pol H a =
     consume_bucket C (oauth_fail_closed pol) (oauth_rate_bucket a) (oauth_rate_key H a)
       (oauth_rate_limit pol a) (oauth_rate_window pol a)"

section \<open>The contract holds\<close>

text \<open>The prefixes of the buckets tell their keys apart.\<close>

lemma oauth_key_bucket:
  "oauth_rate_key H a = oauth_rate_key H b \<Longrightarrow> oauth_rate_bucket a = oauth_rate_bucket b"
  by (cases a; cases b; simp add: oauth_bucket_key_def Let_def)

lemma oauth_bucket_policy:
  "oauth_rate_bucket a = oauth_rate_bucket b \<Longrightarrow>
     oauth_rate_limit pol a = oauth_rate_limit pol b \<and> oauth_rate_window pol a = oauth_rate_window pol b"
  by (cases a; cases b; simp)

interpretation oauth_limiter:
  keyed_limiter oauth_rate_bucket "oauth_rate_key H" "oauth_rate_limit pol" "oauth_rate_window pol" for H pol
  by unfold_locales (rule oauth_bucket_policy [OF oauth_key_bucket])

lemma oauth_rate_step_closed:
  assumes "oauth_fail_closed pol"
  shows "oauth_rate_step C pol H b =
    consume_bucket C True (oauth_rate_bucket b) (oauth_rate_key H b) (oauth_rate_limit pol b) (oauth_rate_window pol b)"
  using assms by (simp add: oauth_rate_step_def)

text \<open>A policy loaded from any environment has positive limits and windows.\<close>

lemma env_int_pos: "1 \<le> env_int env name d"
  by (simp add: env_int_def split: option.split)

lemma loaded_oauth_policy_positive:
  "1 \<le> oauth_rate_limit (load_oauth_rate_limit_policy env fc) a \<and>
   1 \<le> oauth_rate_window (load_oauth_rate_limit_policy env fc) a"
  by (cases a) (simp_all add: load_oauth_rate_limit_policy_def env_int_pos)

text \<open>
  A callback that names another state is counted under another key, so the limit of the callback bounds
  the requests of one address with one state, not all requests of the address: two states whose digests
  differ never share a counter.
\<close>

lemma callback_states_apart:
  assumes "inj (\<lambda>t. take 24 (H t))" and "f \<noteq> g"
  shows "oauth_rate_key H (Check_Callback ip (Some f) None) \<noteq> oauth_rate_key H (Check_Callback ip (Some g) None)"
proof
  let ?t = "\<lambda>x. join_bar [''callback'', digest_part H ip, x]"
  assume "oauth_rate_key H (Check_Callback ip (Some f) None) = oauth_rate_key H (Check_Callback ip (Some g) None)"
  then have "take 24 (H (?t f)) = take 24 (H (?t g))" by (simp add: oauth_bucket_key_def)
  then have "?t f = ?t g" by (rule injD [OF assms(1), of "?t f" "?t g"])
  with assms(2) show False by simp
qed

section \<open>A worked example\<close>

definition demo_oauth_policy :: oauth_rate_policy where
  "demo_oauth_policy = (load_oauth_rate_limit_policy Map.empty True)\<lparr>unlink_limit := 2\<rparr>"

definition demo_unlinks :: "(oauth_rate_op + nat) list" where
  "demo_unlinks =
     [Inl (Check_Unlink_Attempt ''u1'' (Some ''10.0.0.1'') None), Inl (Check_Start (Some ''10.0.0.1'') None None),
      Inl (Check_Unlink_Attempt ''U1'' (Some ''10.0.0.1'') None), Inr 250,
      Inl (Check_Unlink_Attempt ''u1 '' (Some ''10.0.0.1'') None)]"

abbreviation demo_oauth_step :: "oauth_rate_op \<Rightarrow> counter_mem \<Rightarrow> rate_result \<times> counter_mem" where
  "demo_oauth_step \<equiv> oauth_rate_step mem_counters demo_oauth_policy id"

abbreviation demo_unlink_op :: oauth_rate_op where
  "demo_unlink_op \<equiv> Check_Unlink_Attempt ''u1'' (Some ''10.0.0.1'') None"

lemma demo_unlinks_admitted:
  "admitted demo_oauth_step cm_wait (\<lambda>b. oauth_rate_key id b = oauth_rate_key id demo_unlink_op) demo_unlinks (no_counters []) = 2"
  by code_simp

section \<open>Property\<close>

theorem oauth_requests_bounded:
  assumes "counter_store C text_at left wait" and "oauth_fail_closed pol" and "0 \<le> oauth_rate_limit pol a"
    and "0 \<le> value_as_int (text_at s (oauth_rate_key H a))" and "duration es < oauth_rate_window pol a * 1000"
  shows "int (admitted (oauth_rate_step C pol H) wait (\<lambda>b. oauth_rate_key H b = oauth_rate_key H a) es s) \<le> 2 * oauth_rate_limit pol a \<and>
     (text_at s (oauth_rate_key H a) = None \<and> left s (oauth_rate_key H a) = None \<longrightarrow>
        int (admitted (oauth_rate_step C pol H) wait (\<lambda>b. oauth_rate_key H b = oauth_rate_key H a) es s) \<le> oauth_rate_limit pol a)"
  using oauth_limiter.requests_bounded [where step = "oauth_rate_step C pol H", OF assms(1) oauth_rate_step_closed [OF assms(2)] assms(3-5)]
  by simp

theorem oauth_requests_bounded_witness:
  "int (admitted demo_oauth_step cm_wait (\<lambda>b. oauth_rate_key id b = oauth_rate_key id demo_unlink_op) demo_unlinks (no_counters [])) \<le>
     oauth_rate_limit demo_oauth_policy demo_unlink_op \<and> oauth_rate_limit demo_oauth_policy demo_unlink_op = 2"
proof -
  have "duration demo_unlinks < oauth_rate_window demo_oauth_policy demo_unlink_op * 1000"
    by (simp add: demo_unlinks_def demo_oauth_policy_def load_oauth_rate_limit_policy_def env_int_def)
  then show ?thesis
    using oauth_requests_bounded [OF mem_counters.counter_store_axioms, of demo_oauth_policy demo_unlink_op "no_counters []" id demo_unlinks]
    by (simp add: empty_counters demo_oauth_policy_def load_oauth_rate_limit_policy_def)
qed

end
