(* ===== verification/OAuth_Connections.thy ===== *)
theory OAuth_Connections
  imports OAuth_State Text
begin

text \<open>
  OAuth connections and project bindings: \<^verbatim>\<open>src/src/Util/oauth/connections.py\<close>, \<^verbatim>\<open>registry.py\<close> and
  \<^verbatim>\<open>db_source.py\<close>. A binding row comes from the database; it is usable when the provider catalog, the
  adapter registry, the connection, its credentials, the binding and the project all permit it. Rows
  are cached in the process for thirty seconds. Instants are microseconds of the monotonic clock.
\<close>

section \<open>Settings of the deployment\<close>

record oauth_settings =
  set_leeway_seconds :: int
  set_jwks_cache_ttl_seconds :: int

section \<open>The adapter registry\<close>

text \<open>\<^verbatim>\<open>_REGISTRY\<close>, by the provider types it has an adapter for.\<close>

type_synonym adapter_registry = "string set"

definition is_registered :: "adapter_registry \<Rightarrow> string \<Rightarrow> bool" where
  "is_registered reg provider_type \<longleftrightarrow> str_lower (str_strip provider_type) \<in> reg"

definition register_default_adapters :: "adapter_registry \<Rightarrow> adapter_registry" where
  "register_default_adapters reg = reg \<union> {''google'', ''github'', ''discord'', ''microsoft'', ''oidc''}"

section \<open>Rows\<close>

text \<open>\<^verbatim>\<open>str(row.get(k) or d)\<close>.\<close>

definition row_text :: "dict \<Rightarrow> string \<Rightarrow> string \<Rightarrow> string" where
  "row_text row k d = py_str (py_or (dget row k) (JStr d))"

text \<open>\<^verbatim>\<open>str(row.get(k) or "") or None\<close>.\<close>

definition row_text_opt :: "dict \<Rightarrow> string \<Rightarrow> string option" where
  "row_text_opt row k = (case row_text row k [] of [] \<Rightarrow> None | t \<Rightarrow> Some t)"

definition text_list :: "json \<Rightarrow> string list" where
  "text_list v = (case v of JList xs \<Rightarrow> map py_str (filter (\<lambda>x. is_text x \<and> truthy x) xs) | _ \<Rightarrow> [])"

definition mapping_of :: "json \<Rightarrow> dict" where
  "mapping_of v = (case v of JObj d \<Rightarrow> d | _ \<Rightarrow> Map.empty)"

definition USABLE_CATALOG_STATUSES :: "string set" where
  "USABLE_CATALOG_STATUSES = {''enabled'', ''degraded''}"

definition failure_if :: "bool \<Rightarrow> string \<Rightarrow> string list" where
  "failure_if b f = (if b then [f] else [])"

text \<open>The default adapters are registered when the row's type has none yet.\<close>

definition registry_for :: "adapter_registry \<Rightarrow> dict \<Rightarrow> adapter_registry" where
  "registry_for reg row =
     (if is_registered reg (row_text row ''provider_type'' []) then reg else register_default_adapters reg)"

definition evaluate_binding_row :: "adapter_registry \<Rightarrow> dict \<Rightarrow> string list" where
  "evaluate_binding_row reg row =
     failure_if (row_text row ''catalog_status'' [] \<notin> USABLE_CATALOG_STATUSES) ''provider_type_disabled'' @
     failure_if (\<not> is_registered (registry_for reg row) (row_text row ''provider_type'' [])) ''adapter_not_registered'' @
     failure_if (row_text row ''connection_status'' [] \<noteq> ''active'') ''connection_not_active'' @
     failure_if (row_text row ''credential_status'' [] \<noteq> ''active'') ''credentials_not_active'' @
     failure_if (\<not> truthy (dget row ''enabled'')) ''binding_disabled'' @
     failure_if (\<not> truthy (dget_default row ''project_is_active'' (JBool True)) \<or> truthy (dget row ''project_archived''))
       ''project_inactive'' @
     failure_if (text_list (dget row ''redirect_uris'') = []) ''no_redirect_uri'' @
     failure_if (text_list (dget row ''return_origins'') = []) ''no_return_origin'' @
     (if row_text row ''provisioning_mode'' [] \<in> {''auto_create'', ''both''} then
        (if \<not> truthy (dget row ''default_user_group_id'') \<or> \<not> truthy (dget row ''default_user_group_is_active'')
         then [''default_group_missing'']
         else failure_if (\<not> truthy (dget row ''default_user_group_reaches_project'')) ''default_group_does_not_reach_project'')
      else [])"

definition DISABLED_FAILURES :: "string set" where
  "DISABLED_FAILURES = {''provider_type_disabled'', ''binding_disabled'', ''project_inactive''}"

definition NON_BLOCKING_FAILURES :: "string set" where
  "NON_BLOCKING_FAILURES =
     {''no_redirect_uri'', ''no_return_origin'', ''default_group_missing'', ''default_group_does_not_reach_project''}"

section \<open>Connections and bindings\<close>

record connection_config =
  cc_connection_id :: string
  cc_provider_type :: string
  cc_client_id :: string
  cc_scopes :: string
  cc_identity_namespace :: string
  cc_display_name :: string
  cc_issuers :: "string list"
  cc_discovery_url :: json
  cc_authorize_endpoint :: json
  cc_token_endpoint :: json
  cc_jwks_uri :: json
  cc_userinfo_endpoint :: json
  cc_restrictions :: dict
  cc_provider_params :: dict
  cc_leeway_seconds :: int
  cc_jwks_cache_ttl_seconds :: int

record project_binding =
  pb_binding_id :: string
  pb_connection_key :: string
  pb_project_id :: "string option"
  pb_project_hash :: "string option"
  pb_enabled :: bool
  pb_login_enabled :: bool
  pb_link_enabled :: bool
  pb_provisioning_mode :: string
  pb_default_user_group_id :: "string option"
  pb_default_user_group_hash :: "string option"
  pb_existing_user_policy :: string
  pb_delivery_mode :: string
  pb_redirect_uris :: "string list"
  pb_return_origins :: "string list"
  pb_state_ttl_seconds :: "int option"

record resolved_connection =
  rc_config :: connection_config
  rc_binding :: project_binding

definition can_auto_create :: "project_binding \<Rightarrow> bool" where
  "can_auto_create b \<longleftrightarrow> pb_provisioning_mode b \<in> {''auto_create'', ''both''}"

definition can_link :: "project_binding \<Rightarrow> bool" where
  "can_link b \<longleftrightarrow> pb_link_enabled b \<and> pb_provisioning_mode b \<in> {''link_only'', ''both''}"

definition is_redirect_uri_allowed :: "project_binding \<Rightarrow> string \<Rightarrow> bool" where
  "is_redirect_uri_allowed b uri \<longleftrightarrow> uri \<noteq> [] \<and> uri \<in> set (pb_redirect_uris b)"

definition is_return_origin_allowed :: "project_binding \<Rightarrow> string \<Rightarrow> bool" where
  "is_return_origin_allowed b origin \<longleftrightarrow> origin \<noteq> [] \<and> origin \<in> set (pb_return_origins b)"

definition sole :: "string list \<Rightarrow> string option" where
  "sole xs = (case xs of [x] \<Rightarrow> Some x | _ \<Rightarrow> None)"

definition sole_redirect_uri :: "project_binding \<Rightarrow> string option" where
  "sole_redirect_uri b = sole (pb_redirect_uris b)"

definition sole_return_origin :: "project_binding \<Rightarrow> string option" where
  "sole_return_origin b = sole (pb_return_origins b)"

text \<open>\<^verbatim>\<open>OAuthConnectionUnavailable\<close>, and a row that lacks one of its two identifiers.\<close>

datatype connection_error = Unavailable string string | Row_Malformed

definition binding_of_row :: "dict \<Rightarrow> project_binding" where
  "binding_of_row row =
     \<lparr>pb_binding_id = py_str (dget row ''binding_id''),
      pb_connection_key = row_text row ''connection_key'' [],
      pb_project_id = row_text_opt row ''project_id'',
      pb_project_hash = row_text_opt row ''project_hash'',
      pb_enabled = truthy (dget row ''enabled''),
      pb_login_enabled = (truthy (dget row ''login_enabled'') \<and> truthy (dget row ''catalog_login_enabled'')),
      pb_link_enabled = (truthy (dget row ''link_enabled'') \<and> truthy (dget row ''catalog_link_enabled'')),
      pb_provisioning_mode = row_text row ''provisioning_mode'' ''disabled'',
      pb_default_user_group_id =
        (if truthy (dget row ''default_user_group_id'') \<and> truthy (dget row ''default_user_group_is_active'') \<and>
            truthy (dget row ''default_user_group_reaches_project'')
         then Some (py_str (dget row ''default_user_group_id'')) else None),
      pb_default_user_group_hash = row_text_opt row ''default_user_group_hash'',
      pb_existing_user_policy = row_text row ''existing_user_policy'' ''deny'',
      pb_delivery_mode = row_text row ''delivery_mode'' ''bff'',
      pb_redirect_uris = text_list (dget row ''redirect_uris''),
      pb_return_origins = text_list (dget row ''return_origins''),
      pb_state_ttl_seconds =
        (case py_int (dget row ''state_ttl_seconds'') of Some t \<Rightarrow> if 0 < t then Some t else None | None \<Rightarrow> None)\<rparr>"

definition config_of_row :: "oauth_settings \<Rightarrow> dict \<Rightarrow> connection_config" where
  "config_of_row settings row =
     (let issuer = str_strip (row_text row ''issuer'' []); opt = (\<lambda>k. py_or (dget row k) JNull)
      in \<lparr>cc_connection_id = py_str (dget row ''connection_id''),
          cc_provider_type = row_text row ''provider_type'' [],
          cc_client_id = row_text row ''client_id'' [],
          cc_scopes = row_text row ''scopes'' [],
          cc_identity_namespace = row_text row ''identity_namespace'' [],
          cc_display_name = row_text row ''display_name'' [],
          cc_issuers = (if issuer = [] then [] else [issuer]),
          cc_discovery_url = opt ''discovery_url'', cc_authorize_endpoint = opt ''authorize_endpoint'',
          cc_token_endpoint = opt ''token_endpoint'', cc_jwks_uri = opt ''jwks_uri'',
          cc_userinfo_endpoint = opt ''userinfo_endpoint'',
          cc_restrictions = mapping_of (dget row ''restrictions''),
          cc_provider_params = mapping_of (dget row ''provider_params''),
          cc_leeway_seconds = set_leeway_seconds settings,
          cc_jwks_cache_ttl_seconds = set_jwks_cache_ttl_seconds settings\<rparr>)"

text \<open>\<^verbatim>\<open>_build\<close> with \<^verbatim>\<open>enforce=True\<close>, as every lookup calls it. The adapter of the result is the registry's.\<close>

definition build_connection ::
    "adapter_registry \<Rightarrow> oauth_settings \<Rightarrow> dict option \<Rightarrow> connection_error + resolved_connection" where
  "build_connection reg settings row =
     (case nonempty_doc row of
        None \<Rightarrow> Inl (Unavailable ''not_configured'' ''binding_not_found'')
      | Some d \<Rightarrow>
          (case filter (\<lambda>f. f \<notin> NON_BLOCKING_FAILURES) (evaluate_binding_row reg d) of
             f # _ \<Rightarrow> Inl (Unavailable (if f \<in> DISABLED_FAILURES then ''disabled'' else ''not_configured'') f)
           | [] \<Rightarrow>
               if d ''connection_id'' = None \<or> d ''binding_id'' = None then Inl Row_Malformed
               else Inr \<lparr>rc_config = config_of_row settings d, rc_binding = binding_of_row d\<rparr>))"

section \<open>The row cache\<close>

definition CACHE_TTL :: int where "CACHE_TTL = 30 * 1000000"

type_synonym row_cache = "string list \<Rightarrow> (int \<times> dict option) option"

definition invalidate_connection_cache :: "row_cache \<Rightarrow> row_cache" where
  "invalidate_connection_cache cache = Map.empty"

text \<open>\<open>loaded\<close> is what the database answers when it is asked.\<close>

definition cached :: "int \<Rightarrow> string list \<Rightarrow> dict option \<Rightarrow> row_cache \<Rightarrow> dict option \<times> row_cache" where
  "cached now key loaded cache =
     (case cache key of
        Some (deadline, row) \<Rightarrow>
          if now < deadline then (row, cache) else (loaded, cache(key \<mapsto> (now + CACHE_TTL, loaded)))
      | None \<Rightarrow> (loaded, cache(key \<mapsto> (now + CACHE_TTL, loaded))))"

text \<open>The tables the source reads, as one function of the cache key.\<close>

type_synonym binding_rows = "string list \<Rightarrow> dict option"

definition get_binding ::
    "adapter_registry \<Rightarrow> oauth_settings \<Rightarrow> int \<Rightarrow> binding_rows \<Rightarrow> string option \<Rightarrow> string \<Rightarrow> row_cache \<Rightarrow>
     (connection_error + resolved_connection) \<times> row_cache" where
  "get_binding reg settings now rows project_hash connection_key cache =
     (case project_hash of
        Some (c # h) \<Rightarrow>
          (case cached now [''binding'', c # h, connection_key] (rows [''binding'', c # h, connection_key]) cache of
             (row, cache') \<Rightarrow> (build_connection reg settings row, cache'))
      | _ \<Rightarrow> (Inl (Unavailable ''not_configured'' ''project_required''), cache))"

definition get_by_ids ::
    "adapter_registry \<Rightarrow> oauth_settings \<Rightarrow> int \<Rightarrow> binding_rows \<Rightarrow> string \<Rightarrow> string \<Rightarrow> row_cache \<Rightarrow>
     (connection_error + resolved_connection) \<times> row_cache" where
  "get_by_ids reg settings now rows connection_id binding_id cache =
     (case cached now [''ids'', connection_id, binding_id] (rows [''ids'', connection_id, binding_id]) cache of
        (row, cache') \<Rightarrow> (build_connection reg settings row, cache'))"

text \<open>\<^verbatim>\<open>list_project_bindings\<close> skips the rows that are not available.\<close>

fun list_project_bindings ::
    "adapter_registry \<Rightarrow> oauth_settings \<Rightarrow> dict list \<Rightarrow> resolved_connection list option" where
  "list_project_bindings reg settings [] = Some []"
| "list_project_bindings reg settings (row # rows) =
     (case build_connection reg settings (Some row) of
        Inl (Unavailable _ _) \<Rightarrow> list_project_bindings reg settings rows
      | Inl Row_Malformed \<Rightarrow> None
      | Inr rc \<Rightarrow> map_option (Cons rc) (list_project_bindings reg settings rows))"

section \<open>What a resolved connection stands for\<close>

text \<open>Every layer permits the row.\<close>

definition row_permits :: "adapter_registry \<Rightarrow> dict \<Rightarrow> bool" where
  "row_permits reg row \<longleftrightarrow>
     row_text row ''catalog_status'' [] \<in> USABLE_CATALOG_STATUSES \<and>
     is_registered (register_default_adapters reg) (row_text row ''provider_type'' []) \<and>
     row_text row ''connection_status'' [] = ''active'' \<and> row_text row ''credential_status'' [] = ''active'' \<and>
     truthy (dget row ''enabled'') \<and> truthy (dget_default row ''project_is_active'' (JBool True)) \<and>
     \<not> truthy (dget row ''project_archived'')"

lemma failure_if_simps [simp]: "failure_if True f = [f]" "failure_if False f = []"
  by (simp_all add: failure_if_def)

lemma filter_failure_if: "filter P (failure_if b f) = failure_if (b \<and> P f) f"
  by (simp add: failure_if_def)

lemma failure_if_Nil [simp]: "failure_if b f = [] \<longleftrightarrow> \<not> b"
  by (simp add: failure_if_def)

lemma registry_for_registered:
  "is_registered (registry_for reg row) (row_text row ''provider_type'' []) =
   is_registered (register_default_adapters reg) (row_text row ''provider_type'' [])"
  by (auto simp: registry_for_def is_registered_def register_default_adapters_def)

lemma blocking_failures_none:
  "filter (\<lambda>f. f \<notin> NON_BLOCKING_FAILURES) (evaluate_binding_row reg row) = [] \<longleftrightarrow> row_permits reg row"
  unfolding evaluate_binding_row_def row_permits_def registry_for_registered NON_BLOCKING_FAILURES_def
  by (simp add: filter_failure_if)

lemma build_connection_Inr:
  "build_connection reg settings row = Inr rc \<longleftrightarrow>
     (\<exists>d. row = Some d \<and> d \<noteq> Map.empty \<and> row_permits reg d \<and> d ''connection_id'' \<noteq> None \<and> d ''binding_id'' \<noteq> None \<and>
          rc = \<lparr>rc_config = config_of_row settings d, rc_binding = binding_of_row d\<rparr>)"
proof (cases "nonempty_doc row")
  case None
  then have "row = None \<or> row = Some Map.empty" by (simp add: nonempty_doc_None)
  with None show ?thesis by (auto simp: build_connection_def)
next
  case (Some d)
  then show ?thesis
    unfolding blocking_failures_none [symmetric] build_connection_def by (auto split: list.split)
qed

section \<open>Staleness\<close>

text \<open>
  A process over time: lookups of any key, invalidations by administrative writes, and the passage
  of time. \<open>db_at t\<close> is what the database answers at instant \<open>t\<close>.
\<close>

datatype cache_event = Lookup "string list" | Invalidate | Advance nat

fun cache_step :: "(int \<Rightarrow> binding_rows) \<Rightarrow> int \<times> row_cache \<Rightarrow> cache_event \<Rightarrow> int \<times> row_cache" where
  "cache_step db_at (now, cache) (Lookup key) = (now, snd (cached now key (db_at now key) cache))"
| "cache_step db_at (now, cache) Invalidate = (now, invalidate_connection_cache cache)"
| "cache_step db_at (now, cache) (Advance n) = (now + int n, cache)"

definition cache_fresh :: "(int \<Rightarrow> binding_rows) \<Rightarrow> int \<times> row_cache \<Rightarrow> bool" where
  "cache_fresh db_at x \<longleftrightarrow>
     (\<forall>key deadline row. snd x key = Some (deadline, row) \<longrightarrow>
        deadline - CACHE_TTL \<le> fst x \<and> row = db_at (deadline - CACHE_TTL) key)"

lemma cache_fresh_step: "cache_fresh db_at x \<Longrightarrow> cache_fresh db_at (cache_step db_at x e)"
  by (cases x; cases e)
    (fastforce simp: cache_fresh_def cached_def invalidate_connection_cache_def split: option.splits if_splits)+

lemma cache_fresh_run: "cache_fresh db_at (foldl (cache_step db_at) (t0, Map.empty) es)"
proof (rule foldl_invariant)
  show "cache_fresh db_at (t0, Map.empty)" by (simp add: cache_fresh_def)
qed (rule cache_fresh_step)

lemma cached_fresh:
  assumes "cache_fresh db_at (now, cache)"
  shows "\<exists>t. now - CACHE_TTL < t \<and> t \<le> now \<and> fst (cached now key (db_at now key) cache) = db_at t key"
proof (cases "\<exists>deadline row. cache key = Some (deadline, row) \<and> now < deadline")
  case True
  then obtain deadline row where c: "cache key = Some (deadline, row)" "now < deadline" by blast
  with assms have "deadline - CACHE_TTL \<le> now" "row = db_at (deadline - CACHE_TTL) key"
    by (simp_all add: cache_fresh_def)
  with c show ?thesis by (intro exI [of _ "deadline - CACHE_TTL"]) (simp add: cached_def)
next
  case False
  then have "fst (cached now key (db_at now key) cache) = db_at now key"
    by (auto simp: cached_def split: option.splits)
  then show ?thesis by (intro exI [of _ now]) (simp add: CACHE_TTL_def)
qed

lemma cached_empty: "fst (cached now key loaded (invalidate_connection_cache cache)) = loaded"
  by (simp add: cached_def invalidate_connection_cache_def)

section \<open>A worked example\<close>

definition demo_binding_row :: dict where
  "demo_binding_row =
     [''provider_type'' \<mapsto> JStr ''google'', ''catalog_status'' \<mapsto> JStr ''enabled'', ''connection_status'' \<mapsto> JStr ''active'',
      ''credential_status'' \<mapsto> JStr ''active'', ''enabled'' \<mapsto> JBool True, ''connection_id'' \<mapsto> JStr ''c1'',
      ''binding_id'' \<mapsto> JStr ''b1'', ''project_hash'' \<mapsto> JStr ''p1'', ''login_enabled'' \<mapsto> JBool True,
      ''catalog_login_enabled'' \<mapsto> JBool True, ''redirect_uris'' \<mapsto> JList [JStr ''https://app/cb'']]"

text \<open>The binding is disabled at instant 5000000; the cache still answers the old row ten seconds later.\<close>

definition demo_rows_at :: "int \<Rightarrow> binding_rows" where
  "demo_rows_at t key =
     (if key = [''ids'', ''c1'', ''b1'']
      then Some (if t < 5000000 then demo_binding_row else demo_binding_row(''enabled'' \<mapsto> JBool False)) else None)"

definition demo_cache_run :: "cache_event list" where
  "demo_cache_run = [Lookup [''ids'', ''c1'', ''b1''], Advance 10000000]"

definition demo_settings :: oauth_settings where
  "demo_settings = \<lparr>set_leeway_seconds = 30, set_jwks_cache_ttl_seconds = 3600\<rparr>"

lemma demo_row_permits: "row_permits {} demo_binding_row"
  by (simp add: row_permits_def demo_binding_row_def row_text_def USABLE_CATALOG_STATUSES_def is_registered_def
      register_default_adapters_def str_defs)

lemma demo_row_nonempty: "demo_binding_row \<noteq> Map.empty"
  by (simp add: demo_binding_row_def)

lemma demo_build:
  "build_connection {} demo_settings (Some demo_binding_row) =
     Inr \<lparr>rc_config = config_of_row demo_settings demo_binding_row, rc_binding = binding_of_row demo_binding_row\<rparr>"
  unfolding build_connection_Inr using demo_row_permits demo_row_nonempty by (simp add: demo_binding_row_def)

lemma demo_stale_lookup:
  "get_by_ids {} demo_settings 10000000 (demo_rows_at 10000000) ''c1'' ''b1''
     (snd (foldl (cache_step demo_rows_at) (0, Map.empty) demo_cache_run)) =
   (Inr \<lparr>rc_config = config_of_row demo_settings demo_binding_row, rc_binding = binding_of_row demo_binding_row\<rparr>,
    [[''ids'', ''c1'', ''b1''] \<mapsto> (CACHE_TTL, Some demo_binding_row)])"
  by (simp add: get_by_ids_def demo_cache_run_def cached_def demo_rows_at_def CACHE_TTL_def demo_build)

section \<open>Property\<close>



end
