(* ===== verification/OAuth_Identity.thy ===== *)
theory OAuth_Identity
  imports OAuth_State Text
begin

text \<open>
  External identities: the identity key of \<^verbatim>\<open>src/src/Util/oauth/identity.py\<close>, and the table that says which
  user an identity belongs to, with the stored procedures that read and write it
  (\<^verbatim>\<open>schemas/stored_procedures/19_oauth_connections.sql\<close>) behind \<^verbatim>\<open>src/src/Util/db/db_external_accounts.py\<close>. A procedure
  runs in a transaction: it answers and changes the tables, or it signals and changes nothing. The
  collation of MySQL is the argument \<open>K\<close>, two texts are equal in a comparison when their keys are. HMAC and
  SHA-256 are arguments.
\<close>

section \<open>Identity keys\<close>

record external_identity =
  xi_provider_type :: string
  xi_identity_namespace :: string
  xi_subject :: string
  xi_email :: "string option"
  xi_email_verified :: bool
  xi_email_trust :: string

record identity_peppers =
  provider_sub_pepper :: string
  email_hash_pepper :: string

record identity_hashes =
  identity_hmac :: "string \<Rightarrow> string \<Rightarrow> string"
  identity_sha256 :: "string \<Rightarrow> string"

record identity_key =
  ik_provider_type :: string
  ik_identity_namespace :: string
  ik_sub_hash :: string
  ik_sub_fingerprint :: string
  ik_email_hash :: "string option"
  ik_email_masked :: "string option"
  ik_email_verified :: bool
  ik_email_normalized :: "string option"

text \<open>\<^verbatim>\<open>OAuthIdentityKeyError\<close> by its message.\<close>

definition provider_sub_hmac :: "identity_hashes \<Rightarrow> identity_peppers \<Rightarrow> string \<Rightarrow> string + string" where
  "provider_sub_hmac h p subject =
     (if provider_sub_pepper p = [] then Inl ''Provider-sub pepper is not configured''
      else if subject = [] then Inl ''Provider subject is missing''
      else Inr (identity_hmac h (provider_sub_pepper p) subject))"

definition provider_sub_fingerprint :: "identity_hashes \<Rightarrow> string \<Rightarrow> string" where
  "provider_sub_fingerprint h subject = take 12 (identity_sha256 h subject)"

definition provider_email_hmac :: "identity_hashes \<Rightarrow> identity_peppers \<Rightarrow> string option \<Rightarrow> string + string option" where
  "provider_email_hmac h p email =
     (case email of
        Some (c # e) \<Rightarrow>
          if email_hash_pepper p = [] then Inl ''Provider-email pepper is not configured''
          else Inr (Some (identity_hmac h (email_hash_pepper p) (str_lower (str_strip (c # e)))))
      | _ \<Rightarrow> Inr None)"

definition mask_provider_email :: "string option \<Rightarrow> string option" where
  "mask_provider_email email =
     (case email of
        None \<Rightarrow> None
      | Some e \<Rightarrow>
          if CHR ''@'' \<notin> set e then None
          else let local_part = takeWhile (\<lambda>c. c \<noteq> CHR ''@'') e; domain = tl (dropWhile (\<lambda>c. c \<noteq> CHR ''@'') e)
               in Some ((if length local_part \<le> 2 then take 1 local_part @ ''***''
                         else [hd local_part] @ ''***'' @ [last local_part]) @ ''@'' @ domain))"

definition normalized_email :: "external_identity \<Rightarrow> string option" where
  "normalized_email i =
     (case str_lower (str_strip (case xi_email i of Some e \<Rightarrow> e | None \<Rightarrow> [])) of [] \<Rightarrow> None | e \<Rightarrow> Some e)"

definition identity_key_for :: "identity_hashes \<Rightarrow> identity_peppers \<Rightarrow> external_identity \<Rightarrow> string + identity_key" where
  "identity_key_for h p i =
     (let email = normalized_email i
      in case provider_sub_hmac h p (xi_subject i) of
           Inl e \<Rightarrow> Inl e
         | Inr sub_hash \<Rightarrow>
             (case provider_email_hmac h p email of
                Inl e \<Rightarrow> Inl e
              | Inr email_hash \<Rightarrow>
                  Inr \<lparr>ik_provider_type = xi_provider_type i, ik_identity_namespace = xi_identity_namespace i,
                       ik_sub_hash = sub_hash, ik_sub_fingerprint = provider_sub_fingerprint h (xi_subject i),
                       ik_email_hash = email_hash, ik_email_masked = mask_provider_email email,
                       ik_email_verified = xi_email_verified i, ik_email_normalized = email\<rparr>))"

section \<open>Tables\<close>

record ext_account =
  ea_id :: string
  ea_user_id :: string
  ea_provider :: string
  ea_identity_namespace :: string
  ea_connection_id :: "string option"
  ea_provider_sub_hash :: string
  ea_provider_sub_fingerprint :: string
  ea_provider_email_hash :: "string option"
  ea_provider_email_masked :: "string option"
  ea_email_verified_at_link :: bool
  ea_status :: string
  ea_linked_at :: int
  ea_linked_by :: "string option"
  ea_last_seen_at :: "int option"
  ea_unlinked_at :: "int option"
  ea_unlinked_by :: "string option"
  ea_unlink_reason :: "string option"

record user_row =
  u_id :: string
  u_user_hash :: string
  u_username :: string
  u_password_hash :: string
  u_user_type :: string
  u_is_active :: bool

record email_row =
  em_id :: string
  em_user_id :: string
  em_normalized :: string
  em_status :: string
  em_is_primary :: bool
  em_removed :: bool

record member_row =
  gm_id :: string
  gm_user_id :: string
  gm_group_id :: string
  gm_is_active :: bool

record catalog_row =
  cat_provider_type :: string
  cat_status :: string
  cat_login_enabled :: bool
  cat_link_enabled :: bool

record binding_row =
  bi_id :: string
  bi_enabled :: bool
  bi_login_enabled :: bool
  bi_provisioning_mode :: string
  bi_default_user_group_id :: "string option"

record identity_tables =
  it_accounts :: "ext_account list"
  it_users :: "user_row list"
  it_emails :: "email_row list"
  it_members :: "member_row list"
  it_catalog :: "catalog_row list"
  it_bindings :: "binding_row list"
  it_active_groups :: "string list"

type_synonym 'a sql_result = "string + 'a"

definition is_linked :: "ext_account \<Rightarrow> bool" where
  "is_linked a \<longleftrightarrow> ea_status a = ''linked''"

definition has_identity :: "(string \<Rightarrow> string) \<Rightarrow> string \<Rightarrow> string \<Rightarrow> ext_account \<Rightarrow> bool" where
  "has_identity K ns sub_hash a \<longleftrightarrow>
     is_linked a \<and> K (ea_identity_namespace a) = K ns \<and> ea_provider_sub_hash a = sub_hash"

definition in_namespace :: "(string \<Rightarrow> string) \<Rightarrow> string \<Rightarrow> string \<Rightarrow> ext_account \<Rightarrow> bool" where
  "in_namespace K user_id ns a \<longleftrightarrow>
     is_linked a \<and> K (ea_user_id a) = K user_id \<and> K (ea_identity_namespace a) = K ns"

text \<open>The primary key and the two unique keys over the linked rows; a foreign key to the users.\<close>

definition account_conflict :: "(string \<Rightarrow> string) \<Rightarrow> ext_account \<Rightarrow> ext_account \<Rightarrow> bool" where
  "account_conflict K a b \<longleftrightarrow>
     K (ea_id a) = K (ea_id b) \<or>
     is_linked a \<and> is_linked b \<and>
       (K (ea_identity_namespace a) = K (ea_identity_namespace b) \<and> ea_provider_sub_hash a = ea_provider_sub_hash b \<or>
        K (ea_user_id a @ '':'' @ ea_identity_namespace a) = K (ea_user_id b @ '':'' @ ea_identity_namespace b))"

definition insert_account ::
    "(string \<Rightarrow> string) \<Rightarrow> ext_account \<Rightarrow> identity_tables \<Rightarrow> identity_tables sql_result" where
  "insert_account K a T =
     (if list_ex (\<lambda>b. account_conflict K b a) (it_accounts T) then Inl ''Duplicate entry''
      else if \<not> list_ex (\<lambda>u. K (u_id u) = K (ea_user_id a)) (it_users T) then Inl ''Cannot add or update a child row''
      else Inr (T\<lparr>it_accounts := it_accounts T @ [a]\<rparr>))"

text \<open>The view \<^verbatim>\<open>v_users\<close>: the e-mail of a user is the activated primary one.\<close>

definition user_email :: "(string \<Rightarrow> string) \<Rightarrow> identity_tables \<Rightarrow> string \<Rightarrow> json" where
  "user_email K T user_id =
     (case List.find (\<lambda>e. K (em_user_id e) = K user_id \<and> em_status e = ''activated'' \<and> \<not> em_removed e \<and> em_is_primary e)
             (it_emails T) of
        Some e \<Rightarrow> JStr (em_normalized e)
      | None \<Rightarrow> JNull)"

definition user_dict :: "(string \<Rightarrow> string) \<Rightarrow> identity_tables \<Rightarrow> user_row \<Rightarrow> dict" where
  "user_dict K T u =
     [''id'' \<mapsto> JStr (u_id u), ''user_hash'' \<mapsto> JStr (u_user_hash u), ''username'' \<mapsto> JStr (u_username u),
      ''email'' \<mapsto> user_email K T (u_id u), ''user_type'' \<mapsto> JStr (u_user_type u), ''is_active'' \<mapsto> JBool (u_is_active u)]"

definition user_account_dict :: "(string \<Rightarrow> string) \<Rightarrow> identity_tables \<Rightarrow> user_row \<Rightarrow> ext_account \<Rightarrow> dict" where
  "user_account_dict K T u a =
     (user_dict K T u)(''external_account_id'' \<mapsto> JStr (ea_id a), ''provider'' \<mapsto> JStr (ea_provider a),
       ''identity_namespace'' \<mapsto> JStr (ea_identity_namespace a), ''provider_sub_fingerprint'' \<mapsto> JStr (ea_provider_sub_fingerprint a),
       ''provider_email_masked'' \<mapsto> json_of (ea_provider_email_masked a),
       ''provider_email_verified_at_link'' \<mapsto> JBool (ea_email_verified_at_link a),
       ''external_account_status'' \<mapsto> JStr (ea_status a))"

section \<open>Procedures\<close>

definition sub_hash_ok :: "string \<Rightarrow> bool" where
  "sub_hash_ok h \<longleftrightarrow> length h = 32"

fun join_user :: "(string \<Rightarrow> string) \<Rightarrow> identity_tables \<Rightarrow> ext_account list \<Rightarrow> dict option" where
  "join_user K T [] = None"
| "join_user K T (a # as) =
     (case List.find (\<lambda>u. K (u_id u) = K (ea_user_id a)) (it_users T) of
        Some u \<Rightarrow> Some (user_account_dict K T u a)
      | None \<Rightarrow> join_user K T as)"

definition sp_get_user_by_external_identity ::
    "(string \<Rightarrow> string) \<Rightarrow> string \<Rightarrow> string \<Rightarrow> identity_tables \<Rightarrow> dict option sql_result" where
  "sp_get_user_by_external_identity K ns sub_hash T =
     (if \<not> sub_hash_ok sub_hash then Inl ''External account subject hash must be 32 bytes''
      else Inr (join_user K T (filter (has_identity K ns sub_hash) (it_accounts T))))"

text \<open>\<^verbatim>\<open>COALESCE\<close>.\<close>

definition coalesce :: "'a option \<Rightarrow> 'a option \<Rightarrow> 'a option" where
  "coalesce a b = (case a of None \<Rightarrow> b | Some x \<Rightarrow> Some x)"

definition sp_touch_external_identity_last_seen ::
    "(string \<Rightarrow> string) \<Rightarrow> int \<Rightarrow> string \<Rightarrow> string \<Rightarrow> string option \<Rightarrow> string option \<Rightarrow> bool option \<Rightarrow> identity_tables \<Rightarrow> identity_tables" where
  "sp_touch_external_identity_last_seen K now ns sub_hash email_hash email_masked email_verified T =
     T\<lparr>it_accounts := map (\<lambda>a. if has_identity K ns sub_hash a
        then a\<lparr>ea_last_seen_at := Some now, ea_provider_email_hash := coalesce email_hash (ea_provider_email_hash a),
               ea_provider_email_masked := coalesce email_masked (ea_provider_email_masked a),
               ea_email_verified_at_link := (case email_verified of Some b \<Rightarrow> b | None \<Rightarrow> ea_email_verified_at_link a)\<rparr>
        else a) (it_accounts T)\<rparr>"

text \<open>The columns that link and create insert; the status of a new row is \<^verbatim>\<open>linked\<close>.\<close>

definition new_account ::
    "int \<Rightarrow> string \<Rightarrow> string \<Rightarrow> identity_key \<Rightarrow> string \<Rightarrow> string option \<Rightarrow> ext_account" where
  "new_account now account_id user_id key connection_id linked_by =
     \<lparr>ea_id = account_id, ea_user_id = user_id, ea_provider = ik_provider_type key,
      ea_identity_namespace = ik_identity_namespace key, ea_connection_id = Some connection_id,
      ea_provider_sub_hash = ik_sub_hash key, ea_provider_sub_fingerprint = ik_sub_fingerprint key,
      ea_provider_email_hash = ik_email_hash key, ea_provider_email_masked = ik_email_masked key,
      ea_email_verified_at_link = ik_email_verified key, ea_status = ''linked'', ea_linked_at = now,
      ea_linked_by = linked_by, ea_last_seen_at = Some now, ea_unlinked_at = None, ea_unlinked_by = None,
      ea_unlink_reason = None\<rparr>"

definition relink_account :: "int \<Rightarrow> identity_key \<Rightarrow> ext_account \<Rightarrow> ext_account" where
  "relink_account now key a =
     a\<lparr>ea_provider_sub_fingerprint := ik_sub_fingerprint key, ea_provider_email_hash := ik_email_hash key,
       ea_provider_email_masked := ik_email_masked key, ea_email_verified_at_link := ik_email_verified key,
       ea_last_seen_at := Some now\<rparr>"

text \<open>
  The second half of the link procedure: the user keeps one identity per namespace, and linking it again
  refreshes the row. The answer is the user's linked row in the namespace.
\<close>

definition link_in_namespace ::
    "(string \<Rightarrow> string) \<Rightarrow> int \<Rightarrow> string \<Rightarrow> string \<Rightarrow> identity_key \<Rightarrow> string \<Rightarrow> identity_tables \<Rightarrow> identity_tables sql_result" where
  "link_in_namespace K now account_id user_id key connection_id T =
     (case List.find (in_namespace K user_id (ik_identity_namespace key)) (it_accounts T) of
        Some b \<Rightarrow>
          if ea_provider_sub_hash b \<noteq> ik_sub_hash key
          then Inl ''User already has an active external account for this provider''
          else Inr (T\<lparr>it_accounts := map (\<lambda>a. if in_namespace K user_id (ik_identity_namespace key) a
                 then relink_account now key a else a) (it_accounts T)\<rparr>)
      | None \<Rightarrow> insert_account K (new_account now account_id user_id key connection_id (Some user_id)) T)"

definition link_tables ::
    "(string \<Rightarrow> string) \<Rightarrow> int \<Rightarrow> string \<Rightarrow> string \<Rightarrow> identity_key \<Rightarrow> string \<Rightarrow> identity_tables \<Rightarrow> identity_tables sql_result" where
  "link_tables K now account_id user_id key connection_id T =
     (if \<not> list_ex (\<lambda>c. cat_provider_type c = ik_provider_type key \<and> cat_status c \<in> {''enabled'', ''degraded''} \<and> cat_link_enabled c)
            (it_catalog T)
      then Inl ''Unsupported external account provider''
      else if \<not> sub_hash_ok (ik_sub_hash key) then Inl ''External account subject hash must be 32 bytes''
      else if length (ik_sub_fingerprint key) \<noteq> 12 then Inl ''External account fingerprint must be 12 characters''
      else case List.find (has_identity K (ik_identity_namespace key) (ik_sub_hash key)) (it_accounts T) of
             Some a \<Rightarrow>
               if K (ea_user_id a) \<noteq> K user_id then Inl ''External account subject is already linked''
               else link_in_namespace K now account_id user_id key connection_id T
           | None \<Rightarrow> link_in_namespace K now account_id user_id key connection_id T)"

definition sp_link_external_identity ::
    "(string \<Rightarrow> string) \<Rightarrow> int \<Rightarrow> string \<Rightarrow> string \<Rightarrow> identity_key \<Rightarrow> string \<Rightarrow> identity_tables \<Rightarrow>
     ext_account option sql_result \<times> identity_tables" where
  "sp_link_external_identity K now account_id user_id key connection_id T =
     (case link_tables K now account_id user_id key connection_id T of
        Inl e \<Rightarrow> (Inl e, T)
      | Inr T' \<Rightarrow> (Inr (List.find (in_namespace K user_id (ik_identity_namespace key)) (it_accounts T')), T'))"

text \<open>A namespace that ends in \<^verbatim>\<open>:*\<close> unlinks every identity of the provider below its prefix.\<close>

definition namespace_matches :: "(string \<Rightarrow> string) \<Rightarrow> (string \<Rightarrow> string \<Rightarrow> bool) \<Rightarrow> string \<Rightarrow> string \<Rightarrow> bool" where
  "namespace_matches K like ns p \<longleftrightarrow>
     K ns = K p \<or> 2 \<le> length p \<and> drop (length p - 2) p = '':*'' \<and> like ns (take (length p - 1) p)"

definition sp_unlink_external_identity ::
    "(string \<Rightarrow> string) \<Rightarrow> (string \<Rightarrow> string \<Rightarrow> bool) \<Rightarrow> int \<Rightarrow> string \<Rightarrow> string \<Rightarrow> string \<Rightarrow> string \<Rightarrow> string \<Rightarrow>
     identity_tables \<Rightarrow> nat \<times> identity_tables" where
  "sp_unlink_external_identity K like now user_id provider ns unlinked_by reason T =
     (let hit = (\<lambda>a. K (ea_user_id a) = K user_id \<and> ea_provider a = provider \<and> is_linked a \<and>
                     namespace_matches K like (ea_identity_namespace a) ns)
      in (length (filter hit (it_accounts T)),
          T\<lparr>it_accounts := map (\<lambda>a. if hit a
             then a\<lparr>ea_status := ''unlinked'', ea_unlinked_at := Some now, ea_unlinked_by := Some unlinked_by,
                    ea_unlink_reason := Some reason\<rparr>
             else a) (it_accounts T)\<rparr>))"

text \<open>\<^verbatim>\<open>INSERT ... ON DUPLICATE KEY UPDATE\<close> of a membership, as \<^verbatim>\<open>sp_assign_user_to_group\<close> does it too.\<close>

fun upsert_member :: "(string \<Rightarrow> string) \<Rightarrow> member_row \<Rightarrow> member_row list \<Rightarrow> member_row list" where
  "upsert_member K m [] = [m]"
| "upsert_member K m (x # xs) =
     (if K (gm_id x) = K (gm_id m) \<or> K (gm_user_id x) = K (gm_user_id m) \<and> K (gm_group_id x) = K (gm_group_id m)
      then x\<lparr>gm_is_active := True\<rparr> # xs else x # upsert_member K m xs)"

definition sp_assign_user_to_group ::
    "(string \<Rightarrow> string) \<Rightarrow> string \<Rightarrow> string \<Rightarrow> string \<Rightarrow> identity_tables \<Rightarrow> identity_tables" where
  "sp_assign_user_to_group K member_id user_id group_id T =
     T\<lparr>it_members := upsert_member K \<lparr>gm_id = member_id, gm_user_id = user_id, gm_group_id = group_id, gm_is_active = True\<rparr> (it_members T)\<rparr>"

text \<open>The identifiers and the texts that \<^verbatim>\<open>_resolve_user\<close> generates for a new account.\<close>

record new_user =
  nu_user_id :: string
  nu_user_hash :: string
  nu_username :: string
  nu_password_hash :: string
  nu_account_id :: string
  nu_email_id :: string
  nu_member_id :: string

definition provisioning_group :: "(string \<Rightarrow> string) \<Rightarrow> string \<Rightarrow> identity_tables \<Rightarrow> string sql_result" where
  "provisioning_group K binding_id T =
     (case List.find (\<lambda>b. K (bi_id b) = K binding_id \<and> bi_enabled b \<and> bi_login_enabled b) (it_bindings T) of
        Some b \<Rightarrow>
          if bi_provisioning_mode b \<notin> {''auto_create'', ''both''} then Inl ''Binding does not permit auto-provisioning''
          else (case bi_default_user_group_id b of
                  Some g \<Rightarrow> if list_ex (\<lambda>x. K x = K g) (it_active_groups T) then Inr g
                            else Inl ''Provider-bound user group is not active''
                | None \<Rightarrow> Inl ''Provider-bound user group is not active'')
      | None \<Rightarrow> Inl ''Binding does not permit auto-provisioning'')"

definition insert_user :: "(string \<Rightarrow> string) \<Rightarrow> new_user \<Rightarrow> identity_tables \<Rightarrow> identity_tables sql_result" where
  "insert_user K n T =
     (if list_ex (\<lambda>u. K (u_id u) = K (nu_user_id n) \<or> K (u_user_hash u) = K (nu_user_hash n) \<or> K (u_username u) = K (nu_username n))
           (it_users T)
      then Inl ''Duplicate entry''
      else Inr (T\<lparr>it_users := it_users T @
             [\<lparr>u_id = nu_user_id n, u_user_hash = nu_user_hash n, u_username = nu_username n,
               u_password_hash = nu_password_hash n, u_user_type = ''consumer'', u_is_active = True\<rparr>]\<rparr>))"

text \<open>The e-mail row is pending and not primary: the provider's word activates nothing.\<close>

definition insert_email :: "(string \<Rightarrow> string) \<Rightarrow> new_user \<Rightarrow> identity_key \<Rightarrow> identity_tables \<Rightarrow> identity_tables sql_result" where
  "insert_email K n key T =
     (case (ik_email_normalized key, ik_email_hash key, ik_email_masked key) of
        (Some e, Some _, Some _) \<Rightarrow>
          if list_ex (\<lambda>x. K (em_id x) = K (nu_email_id n)) (it_emails T) then Inl ''Duplicate entry''
          else Inr (T\<lparr>it_emails := it_emails T @
                 [\<lparr>em_id = nu_email_id n, em_user_id = nu_user_id n, em_normalized = str_lower e, em_status = ''pending'',
                   em_is_primary = False, em_removed = False\<rparr>]\<rparr>)
      | _ \<Rightarrow> Inr T)"

definition and_sql :: "'a sql_result \<Rightarrow> ('a \<Rightarrow> 'b sql_result) \<Rightarrow> 'b sql_result" where
  "and_sql m f = (case m of Inl e \<Rightarrow> Inl e | Inr x \<Rightarrow> f x)"

definition create_consumer_tables ::
    "(string \<Rightarrow> string) \<Rightarrow> int \<Rightarrow> new_user \<Rightarrow> identity_key \<Rightarrow> string \<Rightarrow> string \<Rightarrow> identity_tables \<Rightarrow> identity_tables sql_result" where
  "create_consumer_tables K now n key connection_id binding_id T =
     (if \<not> list_ex (\<lambda>c. cat_provider_type c = ik_provider_type key \<and> cat_status c = ''enabled'' \<and> cat_login_enabled c) (it_catalog T)
      then Inl ''Unsupported external account provider''
      else if \<not> sub_hash_ok (ik_sub_hash key) then Inl ''External account subject hash must be 32 bytes''
      else if length (ik_sub_fingerprint key) \<noteq> 12 then Inl ''External account fingerprint must be 12 characters''
      else and_sql (provisioning_group K binding_id T) (\<lambda>group_id.
        if list_ex (has_identity K (ik_identity_namespace key) (ik_sub_hash key)) (it_accounts T)
        then Inl ''External account subject is already linked''
        else and_sql (insert_user K n T) (\<lambda>T1. and_sql (insert_email K n key T1) (\<lambda>T2.
          insert_account K (new_account now (nu_account_id n) (nu_user_id n) key connection_id None)
            (sp_assign_user_to_group K (nu_member_id n) (nu_user_id n) group_id T2)))))"

definition sp_create_consumer_user_from_external_identity ::
    "(string \<Rightarrow> string) \<Rightarrow> int \<Rightarrow> new_user \<Rightarrow> identity_key \<Rightarrow> string \<Rightarrow> string \<Rightarrow> identity_tables \<Rightarrow>
     dict option sql_result \<times> identity_tables" where
  "sp_create_consumer_user_from_external_identity K now n key connection_id binding_id T =
     (case create_consumer_tables K now n key connection_id binding_id T of
        Inl e \<Rightarrow> (Inl e, T)
      | Inr T' \<Rightarrow>
          (Inr (case List.find (\<lambda>u. K (u_id u) = K (nu_user_id n)) (it_users T') of
                  None \<Rightarrow> None
                | Some u \<Rightarrow>
                    map_option (user_account_dict K T' u)
                      (List.find (\<lambda>a. K (ea_user_id a) = K (u_id u) \<and> K (ea_id a) = K (nu_account_id n)) (it_accounts T'))), T'))"

section \<open>Invariant of the tables\<close>

definition identity_wf :: "(string \<Rightarrow> string) \<Rightarrow> identity_tables \<Rightarrow> bool" where
  "identity_wf K T \<longleftrightarrow>
     sorted_wrt (\<lambda>a b. \<not> account_conflict K a b) (it_accounts T) \<and>
     (\<forall>a\<in>set (it_accounts T). \<exists>u\<in>set (it_users T). K (u_id u) = K (ea_user_id a)) \<and>
     distinct (map (K \<circ> u_id) (it_users T))"

text \<open>The user an identity belongs to, up to collation.\<close>

definition identity_owner :: "(string \<Rightarrow> string) \<Rightarrow> string \<Rightarrow> string \<Rightarrow> identity_tables \<Rightarrow> string option" where
  "identity_owner K ns sub_hash T =
     map_option (K \<circ> ea_user_id) (List.find (has_identity K ns sub_hash) (it_accounts T))"

lemma find_append:
  "List.find P (xs @ ys) = (case List.find P xs of Some x \<Rightarrow> Some x | None \<Rightarrow> List.find P ys)"
  by (induction xs) auto

lemma find_map: "List.find P (map f xs) = map_option f (List.find (P \<circ> f) xs)"
  by (induction xs) auto

lemma find_SomeD: "List.find P xs = Some x \<Longrightarrow> x \<in> set xs \<and> P x"
  by (induction xs) (auto split: if_splits)

lemma find_NoneD: "List.find P xs = None \<Longrightarrow> x \<in> set xs \<Longrightarrow> \<not> P x"
  by (induction xs) (auto split: if_splits)

lemma account_conflict_sym: "account_conflict K a b \<Longrightarrow> account_conflict K b a"
  by (auto simp: account_conflict_def)

lemma accounts_unique_map:
  assumes "sorted_wrt (\<lambda>a b. \<not> account_conflict K a b) xs"
    and "\<And>a b. account_conflict K (f a) (f b) \<Longrightarrow> account_conflict K a b"
  shows "sorted_wrt (\<lambda>a b. \<not> account_conflict K a b) (map f xs)"
  unfolding sorted_wrt_map using assms(1) by (rule sorted_wrt_mono_rel [rotated]) (blast dest: assms(2))

text \<open>An update that leaves the columns of the keys alone, and one that only unlinks.\<close>

definition same_keys :: "ext_account \<Rightarrow> ext_account \<Rightarrow> bool" where
  "same_keys a b \<longleftrightarrow> ea_id a = ea_id b \<and> ea_user_id a = ea_user_id b \<and> ea_provider a = ea_provider b \<and>
     ea_identity_namespace a = ea_identity_namespace b \<and> ea_provider_sub_hash a = ea_provider_sub_hash b"

lemma same_keys_conflict:
  assumes "same_keys a a'" "same_keys b b'" "is_linked a' \<longrightarrow> is_linked a" "is_linked b' \<longrightarrow> is_linked b"
  shows "account_conflict K a' b' \<Longrightarrow> account_conflict K a b"
  using assms by (auto simp: same_keys_def account_conflict_def)

lemma update_accounts_wf:
  assumes "identity_wf K T" and "\<And>a. same_keys a (f a) \<and> (is_linked (f a) \<longrightarrow> is_linked a)"
  shows "identity_wf K (T\<lparr>it_accounts := map f (it_accounts T)\<rparr>)"
  unfolding identity_wf_def
proof (intro conjI)
  have "account_conflict K a b" if "account_conflict K (f a) (f b)" for a b
    using same_keys_conflict [of a "f a" b "f b"] assms(2) that by simp
  with assms(1) show "sorted_wrt (\<lambda>a b. \<not> account_conflict K a b) (it_accounts (T\<lparr>it_accounts := map f (it_accounts T)\<rparr>))"
    by (simp add: identity_wf_def accounts_unique_map)
  have "ea_user_id (f a) = ea_user_id a" for a using assms(2) [of a] by (simp add: same_keys_def)
  with assms(1) show "\<forall>a\<in>set (it_accounts (T\<lparr>it_accounts := map f (it_accounts T)\<rparr>)).
      \<exists>u\<in>set (it_users (T\<lparr>it_accounts := map f (it_accounts T)\<rparr>)). K (u_id u) = K (ea_user_id a)"
    by (simp add: identity_wf_def)
  from assms(1) show "distinct (map (K \<circ> u_id) (it_users (T\<lparr>it_accounts := map f (it_accounts T)\<rparr>)))"
    by (simp add: identity_wf_def)
qed

lemma insert_account_wf:
  assumes "identity_wf K T" and "insert_account K a T = Inr T'"
  shows "identity_wf K T'"
proof -
  have "T' = T\<lparr>it_accounts := it_accounts T @ [a]\<rparr>" "\<forall>b\<in>set (it_accounts T). \<not> account_conflict K b a"
    "\<exists>u\<in>set (it_users T). K (u_id u) = K (ea_user_id a)"
    using assms(2) by (auto simp: insert_account_def list_ex_iff split: if_splits)
  with assms(1) show ?thesis by (auto simp: identity_wf_def sorted_wrt_append)
qed

lemma insert_account_owner:
  assumes "insert_account K a T = Inr T'" and "identity_owner K ns h T = Some k"
  shows "identity_owner K ns h T' = Some k"
  using assms by (auto simp: insert_account_def identity_owner_def find_append split: if_splits)

lemma update_accounts_owner:
  assumes "\<And>a. has_identity K ns h (f a) = has_identity K ns h a" and "\<And>a. ea_user_id (f a) = ea_user_id a"
  shows "identity_owner K ns h (T\<lparr>it_accounts := map f (it_accounts T)\<rparr>) = identity_owner K ns h T"
  using assms by (simp add: identity_owner_def find_map comp_def option.map_comp)

section \<open>Operations keep the invariant and the owner\<close>

lemma relink_account_keys [simp]:
  "ea_id (relink_account now key a) = ea_id a" "ea_user_id (relink_account now key a) = ea_user_id a"
  "ea_provider (relink_account now key a) = ea_provider a" "ea_status (relink_account now key a) = ea_status a"
  "ea_identity_namespace (relink_account now key a) = ea_identity_namespace a"
  "ea_provider_sub_hash (relink_account now key a) = ea_provider_sub_hash a"
  by (simp_all add: relink_account_def)

lemma new_account_fields [simp]:
  "ea_user_id (new_account now i u key c l) = u" "ea_identity_namespace (new_account now i u key c l) = ik_identity_namespace key"
  "ea_provider_sub_hash (new_account now i u key c l) = ik_sub_hash key" "ea_status (new_account now i u key c l) = ''linked''"
  "ea_provider (new_account now i u key c l) = ik_provider_type key" "ea_id (new_account now i u key c l) = i"
  by (simp_all add: new_account_def)

text \<open>What an operation keeps: the invariant, and the owner of every identity it does not unlink.\<close>

definition keeps_identities :: "(string \<Rightarrow> string) \<Rightarrow> identity_tables \<Rightarrow> identity_tables \<Rightarrow> bool" where
  "keeps_identities K T T' \<longleftrightarrow>
     (identity_wf K T \<longrightarrow> identity_wf K T') \<and>
     (\<forall>ns h k. identity_owner K ns h T = Some k \<longrightarrow> identity_owner K ns h T' = Some k)"

lemma keeps_identities_refl [simp]: "keeps_identities K T T"
  by (simp add: keeps_identities_def)

lemma keeps_identities_trans: "keeps_identities K T T1 \<Longrightarrow> keeps_identities K T1 T' \<Longrightarrow> keeps_identities K T T'"
  by (simp add: keeps_identities_def)

lemma insert_account_keeps: "insert_account K a T = Inr T' \<Longrightarrow> keeps_identities K T T'"
  unfolding keeps_identities_def using insert_account_wf insert_account_owner by blast

lemma update_accounts_keeps:
  assumes "\<And>a. same_keys a (f a) \<and> ea_status (f a) = ea_status a"
  shows "keeps_identities K T (T\<lparr>it_accounts := map f (it_accounts T)\<rparr>)"
proof -
  have "has_identity K ns h (f a) = has_identity K ns h a" "ea_user_id (f a) = ea_user_id a" for ns h a
    using assms [of a] by (auto simp: has_identity_def is_linked_def same_keys_def)
  moreover have "same_keys a (f a) \<and> (is_linked (f a) \<longrightarrow> is_linked a)" for a
    using assms [of a] by (simp add: is_linked_def)
  ultimately show ?thesis
    unfolding keeps_identities_def using update_accounts_wf [of K T f] update_accounts_owner [of K _ _ f T] by simp
qed

lemma link_tables_keeps:
  assumes "link_tables K now i u key c T = Inr T'"
  shows "keeps_identities K T T'"
proof -
  let ?f = "\<lambda>a. if in_namespace K u (ik_identity_namespace key) a then relink_account now key a else a"
  have "link_in_namespace K now i u key c T = Inr T'"
    using assms by (auto simp: link_tables_def split: option.splits if_splits)
  then have "T' = T\<lparr>it_accounts := map ?f (it_accounts T)\<rparr> \<or> insert_account K (new_account now i u key c (Some u)) T = Inr T'"
    by (auto simp: link_in_namespace_def split: option.splits if_splits)
  moreover have "keeps_identities K T (T\<lparr>it_accounts := map ?f (it_accounts T)\<rparr>)"
    by (rule update_accounts_keeps) (simp add: same_keys_def)
  ultimately show ?thesis using insert_account_keeps by blast
qed

lemma keeps_identities_accounts:
  assumes "it_accounts T' = it_accounts T" and "it_users T' = it_users T"
  shows "keeps_identities K T T'"
  using assms by (simp add: keeps_identities_def identity_wf_def identity_owner_def)

lemma insert_user_keeps:
  assumes "insert_user K n T = Inr T'"
  shows "keeps_identities K T T'"
proof -
  have "it_accounts T' = it_accounts T" and
    "\<exists>u. it_users T' = it_users T @ [u] \<and> K (u_id u) \<notin> (K \<circ> u_id) ` set (it_users T)"
    using assms by (fastforce simp: insert_user_def list_ex_iff split: if_splits)+
  then show ?thesis by (fastforce simp: keeps_identities_def identity_wf_def identity_owner_def)
qed

lemma create_consumer_keeps:
  assumes "create_consumer_tables K now n key c b T = Inr T'"
  shows "keeps_identities K T T'"
proof -
  obtain T1 T2 g where u: "insert_user K n T = Inr T1" and e: "insert_email K n key T1 = Inr T2"
    and a: "insert_account K (new_account now (nu_account_id n) (nu_user_id n) key c None)
        (sp_assign_user_to_group K (nu_member_id n) (nu_user_id n) g T2) = Inr T'"
    using assms by (auto simp: create_consumer_tables_def and_sql_def split: if_splits sum.splits)
  have "keeps_identities K T1 T2"
    using e by (intro keeps_identities_accounts) (auto simp: insert_email_def split: option.splits if_splits)
  moreover have "keeps_identities K T2 (sp_assign_user_to_group K (nu_member_id n) (nu_user_id n) g T2)"
    by (rule keeps_identities_accounts) (simp_all add: sp_assign_user_to_group_def)
  ultimately show ?thesis
    using insert_user_keeps [OF u] insert_account_keeps [OF a] by (blast intro: keeps_identities_trans)
qed

section \<open>Sequences of operations\<close>

datatype identity_op =
    Link_Identity int string string identity_key string
  | Unlink_Identity int string string string string string
  | Touch_Identity int string string "string option" "string option" "bool option"
  | Create_Consumer int new_user identity_key string string
  | Assign_Group string string string

fun identity_step :: "(string \<Rightarrow> string) \<Rightarrow> (string \<Rightarrow> string \<Rightarrow> bool) \<Rightarrow> identity_tables \<Rightarrow> identity_op \<Rightarrow> identity_tables" where
  "identity_step K like T (Link_Identity now i u key c) = snd (sp_link_external_identity K now i u key c T)"
| "identity_step K like T (Unlink_Identity now u p ns by_user reason) = snd (sp_unlink_external_identity K like now u p ns by_user reason T)"
| "identity_step K like T (Touch_Identity now ns h eh em ev) = sp_touch_external_identity_last_seen K now ns h eh em ev T"
| "identity_step K like T (Create_Consumer now n key c b) = snd (sp_create_consumer_user_from_external_identity K now n key c b T)"
| "identity_step K like T (Assign_Group m u g) = sp_assign_user_to_group K m u g T"

definition unlinks_user :: "(string \<Rightarrow> string) \<Rightarrow> string \<Rightarrow> identity_op \<Rightarrow> bool" where
  "unlinks_user K k x = (case x of Unlink_Identity _ u _ _ _ _ \<Rightarrow> K u = k | _ \<Rightarrow> False)"

lemma unlink_wf: "identity_wf K T \<Longrightarrow> identity_wf K (snd (sp_unlink_external_identity K like now u p ns by_user reason T))"
  unfolding sp_unlink_external_identity_def Let_def snd_conv
  by (rule update_accounts_wf) (simp_all add: same_keys_def is_linked_def)

lemma unlink_owner:
  assumes "identity_owner K ns' h T = Some k" and "K u \<noteq> k"
  shows "identity_owner K ns' h (snd (sp_unlink_external_identity K like now u p ns by_user reason T)) = Some k"
proof -
  let ?hit = "\<lambda>a. K (ea_user_id a) = K u \<and> ea_provider a = p \<and> is_linked a \<and> namespace_matches K like (ea_identity_namespace a) ns"
  let ?f = "\<lambda>a. if ?hit a then a\<lparr>ea_status := ''unlinked'', ea_unlinked_at := Some now, ea_unlinked_by := Some by_user,
                    ea_unlink_reason := Some reason\<rparr> else a"
  have "map_option (K \<circ> ea_user_id) (List.find (has_identity K ns' h) (map ?f xs)) = Some k"
    if "map_option (K \<circ> ea_user_id) (List.find (has_identity K ns' h) xs) = Some k" for xs
    using that
  proof (induction xs)
    case (Cons a xs)
    show ?case
    proof (cases "has_identity K ns' h a")
      case True
      with Cons.prems assms(2) have "\<not> ?hit a" by auto
      with True Cons.prems show ?thesis by auto
    next
      case False
      then have "\<not> has_identity K ns' h (?f a)" by (auto simp: has_identity_def is_linked_def)
      with False Cons show ?thesis by simp
    qed
  qed simp
  with assms(1) show ?thesis by (simp add: identity_owner_def sp_unlink_external_identity_def Let_def)
qed

lemma identity_step_keeps:
  assumes "\<not> unlinks_user K k x" and "identity_owner K ns h T = Some k"
  shows "identity_owner K ns h (identity_step K like T x) = Some k"
proof (cases x)
  case (Link_Identity now i u key c)
  with assms link_tables_keeps [of K now i u key c T] show ?thesis
    by (auto simp: sp_link_external_identity_def keeps_identities_def split: sum.splits)
next
  case (Unlink_Identity now u p ns' by_user reason)
  with assms unlink_owner [OF assms(2), of u] show ?thesis by (simp add: unlinks_user_def)
next
  case (Touch_Identity now ns' h' eh em ev)
  have "keeps_identities K T (identity_step K like T x)"
    unfolding Touch_Identity identity_step.simps sp_touch_external_identity_last_seen_def
    by (rule update_accounts_keeps) (simp add: same_keys_def)
  with assms(2) show ?thesis by (simp add: keeps_identities_def)
next
  case (Create_Consumer now n key c b)
  with assms create_consumer_keeps [of K now n key c b T] show ?thesis
    by (auto simp: sp_create_consumer_user_from_external_identity_def keeps_identities_def split: sum.splits)
next
  case (Assign_Group m u g)
  with assms show ?thesis by (simp add: identity_owner_def sp_assign_user_to_group_def)
qed

lemma identity_step_wf: "identity_wf K T \<Longrightarrow> identity_wf K (identity_step K like T x)"
proof (cases x)
  case (Link_Identity now i u key c)
  assume "identity_wf K T"
  with Link_Identity link_tables_keeps [of K now i u key c T] show ?thesis
    by (auto simp: sp_link_external_identity_def keeps_identities_def split: sum.splits)
next
  case (Unlink_Identity now u p ns by_user reason)
  assume "identity_wf K T"
  with Unlink_Identity show ?thesis by (simp add: unlink_wf)
next
  case (Touch_Identity now ns h eh em ev)
  assume "identity_wf K T"
  then show ?thesis
    unfolding Touch_Identity identity_step.simps sp_touch_external_identity_last_seen_def
    by (rule update_accounts_wf) (simp add: same_keys_def is_linked_def)
next
  case (Create_Consumer now n key c b)
  assume "identity_wf K T"
  with Create_Consumer create_consumer_keeps [of K now n key c b T] show ?thesis
    by (auto simp: sp_create_consumer_user_from_external_identity_def keeps_identities_def split: sum.splits)
next
  case (Assign_Group m u g)
  assume "identity_wf K T"
  with Assign_Group show ?thesis by (simp add: identity_wf_def sp_assign_user_to_group_def)
qed

section \<open>Reading and writing agree\<close>

lemma filter_headD: "filter P xs = x # ys \<Longrightarrow> x \<in> set xs \<and> P x"
  by (drule arg_cong [of _ _ set]) auto

lemma find_filter: "List.find P xs = (case filter P xs of [] \<Rightarrow> None | x # _ \<Rightarrow> Some x)"
  by (induction xs) auto

text \<open>What the lookup returns is the owner's row.\<close>

lemma get_user_owner:
  assumes "identity_wf K T" and "sp_get_user_by_external_identity K ns h T = Inr (Some d)"
  obtains u a where "u \<in> set (it_users T)" and "a \<in> set (it_accounts T)" and "has_identity K ns h a"
    and "d = user_account_dict K T u a" and "identity_owner K ns h T = Some (K (u_id u))"
proof -
  have j: "join_user K T (filter (has_identity K ns h) (it_accounts T)) = Some d"
    using assms(2) by (simp add: sp_get_user_by_external_identity_def split: if_splits)
  then obtain a as where f: "filter (has_identity K ns h) (it_accounts T) = a # as"
    by (cases "filter (has_identity K ns h) (it_accounts T)") auto
  note a = filter_headD [OF f, THEN conjunct1] filter_headD [OF f, THEN conjunct2]
  with assms(1) obtain u0 where "u0 \<in> set (it_users T)" "K (u_id u0) = K (ea_user_id a)" by (auto simp: identity_wf_def)
  then obtain u where u: "List.find (\<lambda>u. K (u_id u) = K (ea_user_id a)) (it_users T) = Some u"
    using find_NoneD [of "\<lambda>u. K (u_id u) = K (ea_user_id a)" "it_users T" u0] by fastforce
  from j f u have "d = user_account_dict K T u a" by simp
  moreover have "identity_owner K ns h T = Some (K (u_id u))"
    using find_SomeD [OF u] by (simp add: identity_owner_def find_filter f)
  ultimately show thesis using that [of u a] a find_SomeD [OF u] by blast
qed

lemma get_user_none:
  assumes "identity_wf K T" and "sp_get_user_by_external_identity K ns h T = Inr None"
  shows "identity_owner K ns h T = None"
proof (rule ccontr)
  assume "identity_owner K ns h T \<noteq> None"
  then obtain a as where f: "filter (has_identity K ns h) (it_accounts T) = a # as"
    by (auto simp: identity_owner_def find_filter split: list.splits)
  then have "a \<in> set (it_accounts T)" by (rule filter_headD [THEN conjunct1])
  with assms(1) obtain u0 where "u0 \<in> set (it_users T)" "K (u_id u0) = K (ea_user_id a)" by (auto simp: identity_wf_def)
  then have "List.find (\<lambda>u. K (u_id u) = K (ea_user_id a)) (it_users T) \<noteq> None"
    using find_NoneD [of "\<lambda>u. K (u_id u) = K (ea_user_id a)" "it_users T" u0] by auto
  with assms(2) f show False by (auto simp: sp_get_user_by_external_identity_def split: if_splits)
qed

lemma link_owner:
  assumes "link_tables K now i u key c T = Inr T'"
  shows "identity_owner K (ik_identity_namespace key) (ik_sub_hash key) T' = Some (K u)"
proof -
  let ?ns = "ik_identity_namespace key" and ?h = "ik_sub_hash key"
  let ?f = "\<lambda>a. if in_namespace K u ?ns a then relink_account now key a else a"
  have l: "link_in_namespace K now i u key c T = Inr T'"
    and o: "\<And>a. List.find (has_identity K ?ns ?h) (it_accounts T) = Some a \<Longrightarrow> K (ea_user_id a) = K u"
    using assms by (auto simp: link_tables_def split: option.splits if_splits)
  show ?thesis
  proof (cases "List.find (in_namespace K u ?ns) (it_accounts T)")
    case (Some b)
    with l have T': "T' = T\<lparr>it_accounts := map ?f (it_accounts T)\<rparr>" and b: "ea_provider_sub_hash b = ?h"
      by (auto simp: link_in_namespace_def split: if_splits)
    from Some b have "b \<in> set (it_accounts T)" "has_identity K ?ns ?h b"
      by (auto dest!: find_SomeD simp: in_namespace_def has_identity_def)
    then obtain a where a: "List.find (has_identity K ?ns ?h) (it_accounts T) = Some a"
      using find_NoneD [of "has_identity K ?ns ?h" "it_accounts T" b]
      by (cases "List.find (has_identity K ?ns ?h) (it_accounts T)") simp_all
    have "identity_owner K ?ns ?h T' = identity_owner K ?ns ?h T"
      unfolding T' by (rule update_accounts_owner) (auto simp: has_identity_def is_linked_def)
    with a o [OF a] show ?thesis by (simp add: identity_owner_def)
  next
    case None
    with l have ins: "insert_account K (new_account now i u key c (Some u)) T = Inr T'" by (simp add: link_in_namespace_def)
    then have T': "it_accounts T' = it_accounts T @ [new_account now i u key c (Some u)]"
      by (auto simp: insert_account_def split: if_splits)
    show ?thesis
    proof (cases "List.find (has_identity K ?ns ?h) (it_accounts T)")
      case None
      have "has_identity K ?ns ?h (new_account now i u key c (Some u))" by (simp add: has_identity_def is_linked_def)
      with None T' show ?thesis by (simp add: identity_owner_def find_append)
    qed (use T' o in \<open>simp add: identity_owner_def find_append\<close>)
  qed
qed

lemma create_owner:
  assumes "create_consumer_tables K now n key c b T = Inr T'"
  shows "identity_owner K (ik_identity_namespace key) (ik_sub_hash key) T = None"
    and "identity_owner K (ik_identity_namespace key) (ik_sub_hash key) T' = Some (K (nu_user_id n))"
    and "\<forall>u\<in>set (it_users T). K (u_id u) \<noteq> K (nu_user_id n)"
proof -
  let ?P = "has_identity K (ik_identity_namespace key) (ik_sub_hash key)"
  obtain T1 T2 g where u: "insert_user K n T = Inr T1" and e: "insert_email K n key T1 = Inr T2"
    and a: "insert_account K (new_account now (nu_account_id n) (nu_user_id n) key c None)
        (sp_assign_user_to_group K (nu_member_id n) (nu_user_id n) g T2) = Inr T'"
    and p: "\<not> list_ex ?P (it_accounts T)"
    using assms by (auto simp: create_consumer_tables_def and_sql_def split: if_splits sum.splits)
  have n: "List.find ?P (it_accounts T) = None" using p by (simp add: list_ex_iff find_None_iff)
  then show "identity_owner K (ik_identity_namespace key) (ik_sub_hash key) T = None" by (simp add: identity_owner_def)
  have "it_accounts T2 = it_accounts T"
    using u e by (auto simp: insert_user_def insert_email_def split: if_splits option.splits)
  then have T': "it_accounts T' = it_accounts T @ [new_account now (nu_account_id n) (nu_user_id n) key c None]"
    using a by (auto simp: insert_account_def sp_assign_user_to_group_def split: if_splits)
  have "?P (new_account now (nu_account_id n) (nu_user_id n) key c None)" by (simp add: has_identity_def is_linked_def)
  with n T' show "identity_owner K (ik_identity_namespace key) (ik_sub_hash key) T' = Some (K (nu_user_id n))"
    by (simp add: identity_owner_def find_append)
  show "\<forall>u\<in>set (it_users T). K (u_id u) \<noteq> K (nu_user_id n)"
    using u by (auto simp: insert_user_def list_ex_iff split: if_splits)
qed

lemma user_account_dict_id [simp]: "dget (user_account_dict K T u a) ''id'' = JStr (u_id u)"
  by (simp add: user_account_dict_def user_dict_def)

lemma identity_run_keeps:
  assumes "identity_wf K T" and "identity_owner K ns h T = Some k" and "\<forall>x\<in>set ops. \<not> unlinks_user K k x"
  shows "identity_wf K (foldl (identity_step K like) T ops) \<and> identity_owner K ns h (foldl (identity_step K like) T ops) = Some k"
  using assms by (induction ops arbitrary: T) (simp_all add: identity_step_wf identity_step_keeps)

section \<open>A worked example\<close>

definition demo_identity_key :: identity_key where
  "demo_identity_key =
     \<lparr>ik_provider_type = ''google'', ik_identity_namespace = ''google'', ik_sub_hash = replicate 32 CHR ''h'',
      ik_sub_fingerprint = replicate 12 CHR ''f'', ik_email_hash = None, ik_email_masked = None, ik_email_verified = False,
      ik_email_normalized = None\<rparr>"

definition demo_identity_user :: "string \<Rightarrow> user_row" where
  "demo_identity_user i =
     \<lparr>u_id = i, u_user_hash = ''h-'' @ i, u_username = ''n-'' @ i, u_password_hash = ''$argon2id$'', u_user_type = ''consumer'', u_is_active = True\<rparr>"

definition demo_identity_tables :: identity_tables where
  "demo_identity_tables =
     \<lparr>it_accounts = [new_account 1 ''a1'' ''u1'' demo_identity_key ''c1'' (Some ''u1'')],
      it_users = [demo_identity_user ''u1'', demo_identity_user ''u2''], it_emails = [], it_members = [],
      it_catalog = [\<lparr>cat_provider_type = ''google'', cat_status = ''enabled'', cat_login_enabled = True, cat_link_enabled = True\<rparr>],
      it_bindings = [], it_active_groups = []\<rparr>"

text \<open>The second user tries to take the identity, and unlinks what it has.\<close>

definition demo_identity_ops :: "identity_op list" where
  "demo_identity_ops =
     [Link_Identity 2 ''a2'' ''u2'' demo_identity_key ''c1'', Unlink_Identity 3 ''u2'' ''google'' ''google'' ''u2'' ''user_unlink'']"

lemma demo_identity_wf: "identity_wf id demo_identity_tables"
  by (simp add: identity_wf_def demo_identity_tables_def demo_identity_user_def)

lemma demo_identity_owner: "identity_owner id ''google'' (replicate 32 CHR ''h'') demo_identity_tables = Some ''u1''"
  by (simp add: identity_owner_def demo_identity_tables_def has_identity_def is_linked_def demo_identity_key_def)

section \<open>Property\<close>

text \<open>C23. Whatever is linked, created, touched, assigned and unlinked afterwards, an identity stays with the
  user it is linked to until that user unlinks: every lookup answers this user, no other user can link
  it, and no sequence of operations gives an identity two owners or a user two identities of a
  namespace.\<close>

theorem identity_never_moves:
  assumes "identity_wf K T" and "identity_owner K ns h T = Some k" and "\<forall>x\<in>set ops. \<not> unlinks_user K k x"
    and "T' = foldl (identity_step K like) T ops"
  shows "identity_wf K T' \<and>
     (\<forall>d. sp_get_user_by_external_identity K ns h T' = Inr (Some d) \<longrightarrow> (\<exists>u. dget d ''id'' = JStr u \<and> K u = k)) \<and>
     (\<forall>now i u key c. ik_identity_namespace key = ns \<and> ik_sub_hash key = h \<and> K u \<noteq> k \<longrightarrow>
        isl (fst (sp_link_external_identity K now i u key c T')) \<and> snd (sp_link_external_identity K now i u key c T') = T')"
proof -
  from identity_run_keeps [OF assms(1-3)] assms(4) have wf: "identity_wf K T'" and o: "identity_owner K ns h T' = Some k" by simp_all
  have "\<exists>u. dget d ''id'' = JStr u \<and> K u = k" if g: "sp_get_user_by_external_identity K ns h T' = Inr (Some d)" for d
    using get_user_owner [OF wf g] o by (metis option.inject user_account_dict_id)
  moreover have "isl (fst (sp_link_external_identity K now i u key c T')) \<and> snd (sp_link_external_identity K now i u key c T') = T'"
    if k: "ik_identity_namespace key = ns \<and> ik_sub_hash key = h \<and> K u \<noteq> k" for now i u key c
  proof (cases "link_tables K now i u key c T'")
    case (Inl e)
    then show ?thesis by (simp add: sp_link_external_identity_def)
  next
    case (Inr T'')
    with link_owner [OF Inr] link_tables_keeps [OF Inr] o k have False by (simp add: keeps_identities_def)
    then show ?thesis ..
  qed
  ultimately show ?thesis using wf by blast
qed

theorem identity_never_moves_witness:
  "identity_wf id (foldl (identity_step id starts_with) demo_identity_tables demo_identity_ops) \<and>
   isl (fst (sp_link_external_identity id 9 ''a3'' ''u2'' demo_identity_key ''c1''
     (foldl (identity_step id starts_with) demo_identity_tables demo_identity_ops)))"
proof -
  have "\<forall>x\<in>set demo_identity_ops. \<not> unlinks_user id ''u1'' x" by (simp add: demo_identity_ops_def unlinks_user_def)
  note r = identity_never_moves [OF demo_identity_wf demo_identity_owner this refl, of starts_with]
  have "ik_identity_namespace demo_identity_key = ''google'' \<and> ik_sub_hash demo_identity_key = replicate 32 CHR ''h'' \<and> id ''u2'' \<noteq> ''u1''"
    by (simp add: demo_identity_key_def)
  with r [THEN conjunct2, THEN conjunct2, rule_format, OF this] r show ?thesis by blast
qed

end
