(* ===== verification/OAuth_Pipeline.thy ===== *)
theory OAuth_Pipeline
  imports OAuth_Authorize OAuth_Rate OAuth_Connections OAuth_Identity
begin

text \<open>
  The provider-blind callback of \<^verbatim>\<open>src/src/Util/oauth/pipeline.py\<close>: rate limits, the state record, the connection
  it names, the session authorization of a link or a reauthentication, the adapter, the identity key, and
  the completion of a login, a link or a reauthentication. The state of a request is the Redis server and
  the identity tables. The adapter, the secrets and the remaining database queries are arguments; a
  database call of a request that raises is one whose name is in \<open>rq_raises\<close>, and it changes nothing.
  Activity records are left out.
\<close>

section \<open>Errors and responses\<close>

datatype oauth_code =
    OAUTH_PROVIDER_NOT_CONFIGURED | OAUTH_PROVIDER_DISABLED | OAUTH_INIT_INVALID | OAUTH_REDIRECT_URI_NOT_ALLOWED
  | OAUTH_STATE_INVALID | OAUTH_STATE_REUSED | OAUTH_NONCE_MISMATCH | OAUTH_CODE_EXCHANGE_FAILED
  | OAUTH_ID_TOKEN_INVALID | OAUTH_ISSUER_MISMATCH | OAUTH_AUDIENCE_MISMATCH | OAUTH_TOKEN_EXPIRED
  | OAUTH_WORKSPACE_DENIED | OAUTH_PROVISIONING_DENIED | OAUTH_PROJECT_ACCESS_DENIED
  | EXTERNAL_IDENTITY_SUB_CONFLICT | EXTERNAL_IDENTITY_NOT_LINKED | OAUTH_PASSWORD_REQUIRED_FOR_UNLINK
  | OAUTH_RATE_LIMITED | OAUTH_USER_CANCELLED | OAUTH_ACCOUNT_LINK_REQUIRED

fun oauth_http_status :: "oauth_code \<Rightarrow> int" where
  "oauth_http_status OAUTH_PROVIDER_NOT_CONFIGURED = 503"
| "oauth_http_status OAUTH_PROVIDER_DISABLED = 404"
| "oauth_http_status OAUTH_REDIRECT_URI_NOT_ALLOWED = 400"
| "oauth_http_status OAUTH_CODE_EXCHANGE_FAILED = 502"
| "oauth_http_status OAUTH_PROJECT_ACCESS_DENIED = 403"
| "oauth_http_status EXTERNAL_IDENTITY_SUB_CONFLICT = 409"
| "oauth_http_status EXTERNAL_IDENTITY_NOT_LINKED = 404"
| "oauth_http_status OAUTH_PASSWORD_REQUIRED_FOR_UNLINK = 409"
| "oauth_http_status OAUTH_RATE_LIMITED = 429"
| "oauth_http_status OAUTH_USER_CANCELLED = 400"
| "oauth_http_status OAUTH_ACCOUNT_LINK_REQUIRED = 409"
| "oauth_http_status _ = 401"

text \<open>
  \<^verbatim>\<open>Oauth_Failed\<close> is \<^verbatim>\<open>oauth_error_response\<close>: code, status and \<^verbatim>\<open>Retry-After\<close>. \<^verbatim>\<open>Crashed\<close> is an exception that no
  handler of the module catches, with the status of an \<^verbatim>\<open>HTTPException\<close> or 500.
\<close>

datatype 't oauth_response =
    Oauth_Failed oauth_code int "int option"
  | Login_Done "'t token_pair" dict dict "json list" "json list"
  | Link_Done identity_key string
  | Reauth_Done
  | Crashed int

definition oauth_error :: "oauth_code \<Rightarrow> 't oauth_response" where
  "oauth_error c = Oauth_Failed c (oauth_http_status c) None"

definition rate_limited :: "rate_limit_exceeded \<Rightarrow> 't oauth_response" where
  "rate_limited e = Oauth_Failed OAUTH_RATE_LIMITED 429 (Some (max 1 (if rx_retry_after e = 0 then 1 else rx_retry_after e)))"

datatype oauth_failure =
    PROVIDER_MISCONFIGURED | CODE_EXCHANGE_FAILED | ID_TOKEN_INVALID | NONCE_MISMATCH | ISSUER_MISMATCH
  | AUDIENCE_MISMATCH | TOKEN_EXPIRED | RESTRICTION_DENIED | USERINFO_FAILED | SUBJECT_MISSING

fun failure_to_error :: "oauth_failure \<Rightarrow> oauth_code" where
  "failure_to_error NONCE_MISMATCH = OAUTH_NONCE_MISMATCH"
| "failure_to_error ISSUER_MISMATCH = OAUTH_ISSUER_MISMATCH"
| "failure_to_error AUDIENCE_MISMATCH = OAUTH_AUDIENCE_MISMATCH"
| "failure_to_error TOKEN_EXPIRED = OAUTH_TOKEN_EXPIRED"
| "failure_to_error RESTRICTION_DENIED = OAUTH_WORKSPACE_DENIED"
| "failure_to_error CODE_EXCHANGE_FAILED = OAUTH_CODE_EXCHANGE_FAILED"
| "failure_to_error PROVIDER_MISCONFIGURED = OAUTH_PROVIDER_NOT_CONFIGURED"
| "failure_to_error _ = OAUTH_ID_TOKEN_INVALID"

section \<open>The adapter and the environment of a request\<close>

record oauth_tx =
  tx_state :: string
  tx_nonce :: string
  tx_code_verifier :: string
  tx_code_challenge :: string
  tx_redirect_uri :: string
  tx_purpose :: string
  tx_prompt :: json

text \<open>
  \<^verbatim>\<open>OAuthProviderAdapter\<close>. \<open>'k\<close> are provider tokens, \<open>'c\<close> secrets. An exception is a classified failure, or
  \<open>None\<close> for any other.
\<close>

record ('k, 'c) oauth_adapter =
  issuer_response_param :: bool
  build_authorization_url :: "connection_config \<Rightarrow> oauth_tx \<Rightarrow> string option"
  exchange_code :: "connection_config \<Rightarrow> 'c \<Rightarrow> oauth_tx \<Rightarrow> string \<Rightarrow> string option \<Rightarrow> oauth_failure option + 'k"
  resolve_identity :: "connection_config \<Rightarrow> oauth_tx \<Rightarrow> 'k \<Rightarrow> oauth_failure option + external_identity"
  enforce_restrictions :: "connection_config \<Rightarrow> external_identity \<Rightarrow> oauth_failure option + unit"

record ('s, 't, 'k, 'c) pipeline =
  pl_world :: "('s, 't) world"
  pl_store :: "'s oauth_redis"
  pl_env :: oauth_env
  pl_digest :: "json \<Rightarrow> string"
  pl_counters :: "'s counters"
  pl_policy :: oauth_rate_policy
  pl_rate_hash :: "string \<Rightarrow> string"
  pl_hashes :: identity_hashes
  pl_peppers :: identity_peppers
  pl_collation :: "string \<Rightarrow> string"
  pl_adapter :: "resolved_connection \<Rightarrow> ('k, 'c) oauth_adapter"
  pl_secrets :: "resolved_connection \<Rightarrow> 'c option"
  pl_hash_password :: "string \<Rightarrow> string"
  pl_hooks :: "identity_tables \<Rightarrow> db_hooks"
  pl_user_groups :: "identity_tables \<Rightarrow> string \<Rightarrow> json list"
  pl_trusted_proxies :: "string list"
  pl_in_network :: "string \<Rightarrow> string \<Rightarrow> bool option"

text \<open>
  What one request brings: its headers, the instant, what the connection source answers in it, the
  database calls that raise, random material, and what other requests do during the two authorizations.
\<close>

record 's oauth_call =
  rq_peer :: "string option"
  rq_forwarded_for :: "string option"
  rq_state_cookie :: "string option"
  rq_now :: int
  rq_source :: "string \<Rightarrow> string \<Rightarrow> connection_error + resolved_connection"
  rq_raises :: "string set"
  rq_ids :: uuids
  rq_user_id :: string
  rq_user_hash :: string
  rq_token_hex :: string
  rq_password_token :: string
  rq_account_id :: string
  rq_email_id :: string
  rq_member_id :: string
  rq_proof_id :: string
  rq_schedule :: "bool \<Rightarrow> nat \<Rightarrow> ('s \<Rightarrow> 's) \<times> interference"

section \<open>Helpers\<close>

text \<open>\<^verbatim>\<open>text_of\<close> on a row, without a default.\<close>

definition text_of :: "dict \<Rightarrow> string \<Rightarrow> string option" where
  "text_of d k = clean_text (dget d k)"

definition json_text_of :: "json \<Rightarrow> string \<Rightarrow> string option" where
  "json_text_of v k = (case v of JObj d \<Rightarrow> text_of d k | _ \<Rightarrow> None)"

fun trusted_proxy :: "(string \<Rightarrow> string \<Rightarrow> bool option) \<Rightarrow> string \<Rightarrow> string list \<Rightarrow> bool" where
  "trusted_proxy in_network peer [] = False"
| "trusted_proxy in_network peer (cidr # cidrs) =
     (case in_network peer cidr of
        None \<Rightarrow> False
      | Some True \<Rightarrow> True
      | Some False \<Rightarrow> trusted_proxy in_network peer cidrs)"

definition client_ip :: "('s, 't, 'k, 'c) pipeline \<Rightarrow> 's oauth_call \<Rightarrow> string" where
  "client_ip P r =
     (let peer = (case rq_peer r of Some p \<Rightarrow> p | None \<Rightarrow> ''unknown'')
      in case rq_forwarded_for r of
           Some (c # f) \<Rightarrow>
             if trusted_proxy (pl_in_network P) peer (pl_trusted_proxies P)
             then (case str_strip (takeWhile (\<lambda>x. x \<noteq> CHR '','') (c # f)) of [] \<Rightarrow> peer | ip \<Rightarrow> ip)
             else peer
         | _ \<Rightarrow> peer)"

text \<open>\<^verbatim>\<open>hmac.compare_digest\<close> on texts: it raises unless both are ASCII.\<close>

definition ascii_text :: "string \<Rightarrow> bool" where
  "ascii_text t \<longleftrightarrow> list_all (\<lambda>c. code_point c < 128) t"

definition compare_digest :: "string \<Rightarrow> string \<Rightarrow> bool option" where
  "compare_digest a b = (if ascii_text a \<and> ascii_text b then Some (a = b) else None)"

definition limit_call ::
    "('s, 't, 'k, 'c) pipeline \<Rightarrow> oauth_rate_op \<Rightarrow> 's \<Rightarrow> rate_result \<times> 's" where
  "limit_call P a s = oauth_rate_step (pl_counters P) (pl_policy P) (pl_rate_hash P) a s"

definition is_active_consumer :: "dict \<Rightarrow> bool" where
  "is_active_consumer user \<longleftrightarrow>
     truthy (dget_default user ''is_active'' (JBool True)) \<and>
     (case text_of user ''user_type'' of Some t \<Rightarrow> t = ''consumer'' | None \<Rightarrow> True)"

definition user_claims :: "dict \<Rightarrow> dict" where
  "user_claims user =
     [''id'' \<mapsto> json_of (text_of user ''id''), ''user_hash'' \<mapsto> json_of (text_of user ''user_hash''),
      ''username'' \<mapsto> json_of (text_of user ''username''), ''email'' \<mapsto> json_of (text_of user ''email''),
      ''user_type'' \<mapsto> JStr (case text_of user ''user_type'' of Some t \<Rightarrow> t | None \<Rightarrow> ''consumer'')]"

definition project_claims :: "dict \<Rightarrow> dict" where
  "project_claims project =
     [''id'' \<mapsto> json_of (text_of project ''id''), ''project_hash'' \<mapsto> json_of (text_of project ''project_hash''),
      ''project_name'' \<mapsto> json_of (text_of project ''project_name''),
      ''project_description'' \<mapsto> json_of (text_of project ''project_description''),
      ''is_active'' \<mapsto> JBool (truthy (dget_default project ''is_active'' (JBool True))),
      ''archived'' \<mapsto> JBool (truthy (dget_default project ''archived'' (JBool False)))]"

definition get_user_by_external_account ::
    "('s, 't, 'k, 'c) pipeline \<Rightarrow> 's oauth_call \<Rightarrow> identity_key \<Rightarrow> identity_tables \<Rightarrow> dict option sql_result" where
  "get_user_by_external_account P r key T =
     (if ''get_user_by_external_account'' \<in> rq_raises r then Inl ''database unavailable''
      else sp_get_user_by_external_identity (pl_collation P) (ik_identity_namespace key) (ik_sub_hash key) T)"

section \<open>Login\<close>

text \<open>\<^verbatim>\<open>sp_check_username_email_available\<close>, as the Boolean its caller reads.\<close>

definition username_email_available :: "(string \<Rightarrow> string) \<Rightarrow> identity_tables \<Rightarrow> string \<Rightarrow> bool" where
  "username_email_available K T x =
     (\<not> list_ex (\<lambda>u. u_is_active u \<and>
          (K (u_username u) = K x \<or> (case user_email K T (u_id u) of JStr e \<Rightarrow> K e = K x | _ \<Rightarrow> False))) (it_users T))"

definition username_seed :: "identity_key \<Rightarrow> string" where
  "username_seed key =
     take 40 (case ik_email_normalized key of
                Some (c # e) \<Rightarrow> takeWhile (\<lambda>x. x \<noteq> CHR ''@'') (c # e)
              | _ \<Rightarrow> ik_provider_type key @ ''_user'')"

definition fresh_user :: "('s, 't, 'k, 'c) pipeline \<Rightarrow> 's oauth_call \<Rightarrow> identity_key \<Rightarrow> new_user" where
  "fresh_user P r key =
     \<lparr>nu_user_id = rq_user_id r, nu_user_hash = rq_user_hash r, nu_username = username_seed key @ ''_'' @ rq_token_hex r,
      nu_password_hash = pl_hash_password P (''oauth-disabled-'' @ rq_password_token r), nu_account_id = rq_account_id r,
      nu_email_id = rq_email_id r, nu_member_id = rq_member_id r\<rparr>"

text \<open>The e-mail never selects an account; it only refuses to create a second one beside it.\<close>

definition email_collision ::
    "('s, 't, 'k, 'c) pipeline \<Rightarrow> 's oauth_call \<Rightarrow> external_identity \<Rightarrow> identity_key \<Rightarrow> identity_tables \<Rightarrow> string option" where
  "email_collision P r i key T =
     (case ik_email_normalized key of
        Some (c # e) \<Rightarrow>
          if ''check_username_email_available'' \<in> rq_raises r then Some ''email_collision_check_failed''
          else if username_email_available (pl_collation P) T (c # e) then None
          else if xi_email_verified i \<and> xi_email_trust i = ''verified_by_provider''
          then Some ''email_collision_link_required'' else Some ''email_collision''
      | _ \<Rightarrow> None)"

definition create_user ::
    "('s, 't, 'k, 'c) pipeline \<Rightarrow> 's oauth_call \<Rightarrow> resolved_connection \<Rightarrow> identity_key \<Rightarrow> identity_tables \<Rightarrow>
     (string + dict) \<times> identity_tables" where
  "create_user P r rc key T =
     (if ''create_consumer_user_from_external_account'' \<in> rq_raises r then (Inl ''auto_create_error'', T)
      else case sp_create_consumer_user_from_external_identity (pl_collation P) (rq_now r) (fresh_user P r key) key
                  (cc_connection_id (rc_config rc)) (pb_binding_id (rc_binding rc)) T of
             (Inl _, T') \<Rightarrow> (Inl ''auto_create_error'', T')
           | (Inr None, T') \<Rightarrow> (Inl ''auto_create_error'', T')
           | (Inr (Some created), T') \<Rightarrow>
               if \<not> list_all (\<lambda>k. text_of created k \<noteq> None) [''id'', ''user_hash'', ''username'']
               then (Inl ''auto_create_incomplete'', T')
               else if \<not> is_active_consumer created then (Inl ''auto_create_inactive'', T')
               else (Inr created, T'))"

text \<open>\<^verbatim>\<open>_resolve_user\<close>: \<open>Inl None\<close> is the exception of the lookup, \<open>Inl (Some reason)\<close> a denial.\<close>

definition resolve_user ::
    "('s, 't, 'k, 'c) pipeline \<Rightarrow> 's oauth_call \<Rightarrow> resolved_connection \<Rightarrow> external_identity \<Rightarrow> identity_key \<Rightarrow>
     identity_tables \<Rightarrow> (string option + dict) \<times> identity_tables" where
  "resolve_user P r rc i key T =
     (case get_user_by_external_account P r key T of
        Inl _ \<Rightarrow> (Inl None, T)
      | Inr (Some user) \<Rightarrow>
          if \<not> is_active_consumer user then (Inl (Some ''existing_user_not_active_consumer''), T)
          else (Inr user,
                if ''touch_external_account_last_seen'' \<in> rq_raises r then T
                else sp_touch_external_identity_last_seen (pl_collation P) (rq_now r) (ik_identity_namespace key) (ik_sub_hash key)
                       (ik_email_hash key) (ik_email_masked key) (Some (ik_email_verified key)) T)
      | Inr None \<Rightarrow>
          if \<not> can_auto_create (rc_binding rc) then (Inl (Some ''auto_create_disabled''), T)
          else (case email_collision P r i key T of
                  Some reason \<Rightarrow> (Inl (Some reason), T)
                | None \<Rightarrow>
                    (case pb_default_user_group_id (rc_binding rc) of
                       Some (c # g) \<Rightarrow>
                         (case create_user P r rc key T of
                            (Inl e, T') \<Rightarrow> (Inl (Some e), T')
                          | (Inr user, T') \<Rightarrow> (Inr user, T'))
                     | _ \<Rightarrow> (Inl (Some ''no_bound_user_group''), T))))"

definition accessible_projects :: "('s, 't, 'k, 'c) pipeline \<Rightarrow> identity_tables \<Rightarrow> string \<Rightarrow> json list" where
  "accessible_projects P T user_id = safe_call_list (get_user_accessible_projects (pl_hooks P T) user_id)"

definition has_project :: "json list \<Rightarrow> json \<Rightarrow> bool" where
  "has_project projects project_hash \<longleftrightarrow>
     truthy project_hash \<and> list_ex (\<lambda>p. json_of (json_text_of p ''project_hash'') = project_hash) projects"

definition maybe_enrol_existing_user ::
    "('s, 't, 'k, 'c) pipeline \<Rightarrow> 's oauth_call \<Rightarrow> resolved_connection \<Rightarrow> string \<Rightarrow> identity_tables \<Rightarrow> bool \<times> identity_tables" where
  "maybe_enrol_existing_user P r rc user_id T =
     (case pb_default_user_group_id (rc_binding rc) of
        Some (c # g) \<Rightarrow>
          if pb_existing_user_policy (rc_binding rc) \<noteq> ''join_default_group'' then (False, T)
          else if ''assign_user_to_group'' \<in> rq_raises r then (False, T)
          else (True, sp_assign_user_to_group (pl_collation P) (rq_member_id r) user_id (c # g) T)
      | _ \<Rightarrow> (False, T))"

text \<open>
  \<^verbatim>\<open>resolve_oauth_bound_project\<close> of \<^verbatim>\<open>src/src/Util/auth_flow.py\<close>; \<open>None\<close> is its \<^verbatim>\<open>AuthorizationError\<close>. The bound project
  is the one of the state record; nothing falls back to another accessible project.
\<close>

definition oauth_bound_project_hash :: "dict \<Rightarrow> string option" where
  "oauth_bound_project_hash oauth_binding =
     (case str_strip (py_str (py_or (dget oauth_binding ''project_hash'') (JStr []))) of [] \<Rightarrow> None | h \<Rightarrow> Some h)"

definition resolve_target_project :: "db_hooks \<Rightarrow> json list \<Rightarrow> string \<Rightarrow> dict option" where
  "resolve_target_project D accessible requested =
     (if accessible = [] then None
      else if \<not> list_ex (\<lambda>p. case p of JObj d \<Rightarrow> dget d ''project_hash'' = JStr requested | _ \<Rightarrow> False) accessible then None
      else get_project_by_hash D requested)"

definition resolve_oauth_bound_project :: "db_hooks \<Rightarrow> json list \<Rightarrow> dict \<Rightarrow> dict option" where
  "resolve_oauth_bound_project D accessible oauth_binding =
     (case oauth_bound_project_hash oauth_binding of
        None \<Rightarrow> None
      | Some bound \<Rightarrow>
          (case resolve_target_project D accessible bound of
             None \<Rightarrow> None
           | Some project \<Rightarrow>
               let h = dget project ''project_hash''
               in if truthy h \<and> py_str h \<noteq> bound then None else Some project))"

definition present :: "'a option list \<Rightarrow> 'a list" where
  "present xs = List.map_filter (\<lambda>x. x) xs"

definition complete_login ::
    "('s, 't, 'k, 'c) pipeline \<Rightarrow> 's oauth_call \<Rightarrow> resolved_connection \<Rightarrow> state_record \<Rightarrow> external_identity \<Rightarrow> identity_key \<Rightarrow>
     's \<times> identity_tables \<Rightarrow> 't oauth_response \<times> 's \<times> identity_tables" where
  "complete_login P r rc rec i key st =
     (case st of (s, T) \<Rightarrow>
        if \<not> pb_login_enabled (rc_binding rc) then (oauth_error OAUTH_PROVISIONING_DENIED, s, T)
        else (case resolve_user P r rc i key T of
          (Inl None, T1) \<Rightarrow> (Crashed 500, s, T1)
        | (Inl (Some denial), T1) \<Rightarrow>
            (oauth_error (if denial = ''email_collision_link_required'' then OAUTH_ACCOUNT_LINK_REQUIRED else OAUTH_PROVISIONING_DENIED), s, T1)
        | (Inr user, T1) \<Rightarrow>
            let user_id = (case text_of user ''id'' of Some u \<Rightarrow> u | None \<Rightarrow> []);
                (enrolled, T2) = (if has_project (accessible_projects P T1 user_id) (rec_project_hash rec) then (False, T1)
                                  else maybe_enrol_existing_user P r rc user_id T1);
                accessible = accessible_projects P (if enrolled then T2 else T1) user_id
            in case resolve_oauth_bound_project (pl_hooks P T2) accessible (rec_oauth_binding rec) of
                 None \<Rightarrow> (oauth_error OAUTH_PROJECT_ACCESS_DENIED, s, T2)
               | Some project \<Rightarrow>
                   if \<not> project_is_active_for_auth project then (oauth_error OAUTH_PROJECT_ACCESS_DENIED, s, T2)
                   else
                     let groups = (if ''get_user_groups_for_user'' \<in> rq_raises r then [] else pl_user_groups P T2 user_id)
                     in case issue_project_token_pair (pl_world P) (rq_now r) (rq_ids r) (user_claims user) (project_claims project)
                               (Some []) (Some (present (map (\<lambda>g. json_text_of g ''group_name'') groups)))
                               (Some (present (map (\<lambda>g. json_text_of g ''id'') groups))) (rec_remember_me rec) s of
                          (Inl e, s') \<Rightarrow> (Crashed (status_code e), s', T2)
                        | (Inr pair, s') \<Rightarrow> (Login_Done pair user project accessible groups, s', T2)))"

section \<open>Link and reauthentication\<close>

definition pipeline_authorize ::
    "('s, 't, 'k, 'c) pipeline \<Rightarrow> 's oauth_call \<Rightarrow> resolved_connection \<Rightarrow> state_record \<Rightarrow> bool \<Rightarrow> 's \<times> identity_tables \<Rightarrow>
     't oauth_response option \<times> 's" where
  "pipeline_authorize P r rc rec complete st =
     (case st of (s, T) \<Rightarrow>
        if json_of (pb_project_hash (rc_binding rc)) \<noteq> rec_project_hash rec
        then (Some (oauth_error OAUTH_PROJECT_ACCESS_DENIED), s)
        else (case authorize_oauth_session (pl_world P) (pl_store P) (pl_env P) (pl_digest P) (pl_hooks P T) (rq_now r)
                     (rq_proof_id r) complete rec (rq_schedule r complete) s of
                (Inr _, s') \<Rightarrow> (None, s')
              | (Inl (Denied _ True), s') \<Rightarrow> (Some (oauth_error OAUTH_PROJECT_ACCESS_DENIED), s')
              | (Inl (Denied _ False), s') \<Rightarrow>
                  (Some (Oauth_Failed (if rec_purpose rec = ''link'' then OAUTH_PROVISIONING_DENIED else EXTERNAL_IDENTITY_NOT_LINKED) 401 None), s')
              | (Inl (OAuthFailed _), s') \<Rightarrow> (Some (oauth_error OAUTH_STATE_INVALID), s')))"

definition record_user_id :: "state_record \<Rightarrow> string" where
  "record_user_id rec = py_str (py_or (rec_user_id rec) (JStr []))"

definition complete_link ::
    "('s, 't, 'k, 'c) pipeline \<Rightarrow> 's oauth_call \<Rightarrow> resolved_connection \<Rightarrow> state_record \<Rightarrow> identity_key \<Rightarrow>
     's \<times> identity_tables \<Rightarrow> 't oauth_response \<times> 's \<times> identity_tables" where
  "complete_link P r rc rec key st =
     (case st of (s, T) \<Rightarrow>
        let user_id = record_user_id rec
        in if user_id = [] \<or> \<not> can_link (rc_binding rc) then (oauth_error OAUTH_PROVISIONING_DENIED, s, T)
           else (case get_user_by_external_account P r key T of
             Inl _ \<Rightarrow> (Crashed 500, s, T)
           | Inr existing \<Rightarrow>
               if (case existing of Some e \<Rightarrow> text_of e ''id'' \<noteq> Some user_id | None \<Rightarrow> False) then
                 (case limit_call P (Check_Sub_Collision (ik_sub_fingerprint key) (Some (client_ip P r)) None) s of
                    (Inl e, s1) \<Rightarrow> (rate_limited e, s1, T)
                  | (Inr _, s1) \<Rightarrow> (oauth_error EXTERNAL_IDENTITY_SUB_CONFLICT, s1, T))
               else
                 (case pipeline_authorize P r rc rec True (s, T) of
                    (Some denial, s1) \<Rightarrow> (denial, s1, T)
                  | (None, s1) \<Rightarrow>
                      if ''link_external_account'' \<in> rq_raises r then (oauth_error EXTERNAL_IDENTITY_SUB_CONFLICT, s1, T)
                      else (case sp_link_external_identity (pl_collation P) (rq_now r) (rq_account_id r) user_id key
                                   (cc_connection_id (rc_config rc)) T of
                              (Inl _, T1) \<Rightarrow> (oauth_error EXTERNAL_IDENTITY_SUB_CONFLICT, s1, T1)
                            | (Inr linked, T1) \<Rightarrow>
                                (Link_Done key (case linked of Some a \<Rightarrow> ea_status a | None \<Rightarrow> ''linked''), s1, T1)))))"

definition complete_reauth ::
    "('s, 't, 'k, 'c) pipeline \<Rightarrow> 's oauth_call \<Rightarrow> resolved_connection \<Rightarrow> state_record \<Rightarrow> identity_key \<Rightarrow>
     's \<times> identity_tables \<Rightarrow> 't oauth_response \<times> 's \<times> identity_tables" where
  "complete_reauth P r rc rec key st =
     (case st of (s, T) \<Rightarrow>
        let user_id = record_user_id rec
        in case get_user_by_external_account P r key T of
             Inl _ \<Rightarrow> (Crashed 500, s, T)
           | Inr linked_user \<Rightarrow>
               if user_id = [] \<or> (case linked_user of None \<Rightarrow> True | Some u \<Rightarrow> text_of u ''id'' \<noteq> Some user_id)
               then (Oauth_Failed EXTERNAL_IDENTITY_NOT_LINKED 401 None, s, T)
               else (case pipeline_authorize P r rc rec True (s, T) of
                       (Some denial, s1) \<Rightarrow> (denial, s1, T)
                     | (None, s1) \<Rightarrow> (Reauth_Done, s1, T)))"

section \<open>The callback\<close>

definition resolve_for_record :: "'s oauth_call \<Rightarrow> state_record \<Rightarrow> connection_error + resolved_connection" where
  "resolve_for_record r rec =
     (if \<not> truthy (rec_connection_id rec) \<or> \<not> truthy (rec_binding_id rec)
      then Inl (Unavailable ''not_configured'' ''missing_state_connection_binding'')
      else rq_source r (py_str (rec_connection_id rec)) (py_str (rec_binding_id rec)))"

definition transaction_of :: "string \<Rightarrow> state_record \<Rightarrow> oauth_tx" where
  "transaction_of state rec =
     \<lparr>tx_state = state, tx_nonce = rec_nonce rec, tx_code_verifier = rec_code_verifier rec,
      tx_code_challenge = rec_code_challenge rec, tx_redirect_uri = py_str (py_or (rec_redirect_uri rec) (JStr [])),
      tx_purpose = rec_purpose rec, tx_prompt = rec_prompt rec\<rparr>"

text \<open>The provider's part: exchange the code, resolve the identity, enforce the restrictions.\<close>

definition provider_identity ::
    "('s, 't, 'k, 'c) pipeline \<Rightarrow> resolved_connection \<Rightarrow> oauth_tx \<Rightarrow> string \<Rightarrow> string option \<Rightarrow> 't oauth_response + external_identity" where
  "provider_identity P rc tx code iss =
     (let ad = pl_adapter P rc; rejected = (\<lambda>f. oauth_error (failure_to_error (case f of Some x \<Rightarrow> x | None \<Rightarrow> ID_TOKEN_INVALID)))
      in case pl_secrets P rc of
           None \<Rightarrow> Inl (oauth_error OAUTH_CODE_EXCHANGE_FAILED)
         | Some secrets \<Rightarrow>
             (case exchange_code ad (rc_config rc) secrets tx code iss of
                Inl _ \<Rightarrow> Inl (oauth_error OAUTH_CODE_EXCHANGE_FAILED)
              | Inr tokens \<Rightarrow>
                  (case resolve_identity ad (rc_config rc) tx tokens of
                     Inl f \<Rightarrow> Inl (rejected f)
                   | Inr i \<Rightarrow>
                       (case enforce_restrictions ad (rc_config rc) i of
                          Inl f \<Rightarrow> Inl (rejected f)
                        | Inr _ \<Rightarrow> Inr i))))"

definition finish_callback ::
    "('s, 't, 'k, 'c) pipeline \<Rightarrow> 's oauth_call \<Rightarrow> resolved_connection \<Rightarrow> state_record \<Rightarrow> string \<Rightarrow> string option \<Rightarrow> string option \<Rightarrow>
     's \<times> identity_tables \<Rightarrow> 't oauth_response \<times> 's \<times> identity_tables" where
  "finish_callback P r rc rec state code iss st =
     (let tx = transaction_of state rec
      in case provider_identity P rc tx (case code of Some c \<Rightarrow> c | None \<Rightarrow> ''None'') iss of
           Inl e \<Rightarrow> (e, st)
         | Inr i \<Rightarrow>
             (case identity_key_for (pl_hashes P) (pl_peppers P) i of
                Inl _ \<Rightarrow> (oauth_error OAUTH_ID_TOKEN_INVALID, st)
              | Inr key \<Rightarrow>
                  if rec_purpose rec = ''link'' then complete_link P r rc rec key st
                  else if rec_purpose rec = ''reauth'' then complete_reauth P r rc rec key st
                  else complete_login P r rc rec i key st))"

definition issuer_ok :: "('s, 't, 'k, 'c) pipeline \<Rightarrow> resolved_connection \<Rightarrow> state_record \<Rightarrow> string option \<Rightarrow> bool option" where
  "issuer_ok P rc rec iss =
     (if \<not> issuer_response_param (pl_adapter P rc) then Some True
      else case iss of
             Some (c # i) \<Rightarrow> compare_digest (c # i) (py_str (py_or (rec_expected_issuer rec) (JStr [])))
           | _ \<Rightarrow> Some False)"

definition CANCELLED_ERRORS :: "string set" where
  "CANCELLED_ERRORS = {''access_denied'', ''user_cancelled_authorize'', ''user_cancelled_login''}"

text \<open>From the consumed record to the response.\<close>

definition with_record ::
    "('s, 't, 'k, 'c) pipeline \<Rightarrow> 's oauth_call \<Rightarrow> state_record \<Rightarrow> string \<Rightarrow> string option \<Rightarrow> string option \<Rightarrow> string option \<Rightarrow>
     's \<times> identity_tables \<Rightarrow> 't oauth_response \<times> 's \<times> identity_tables" where
  "with_record P r rec state code error iss st =
     (case (case rq_state_cookie r of
              Some (c # v) \<Rightarrow> compare_digest (c # v) (rec_state_fingerprint rec) | _ \<Rightarrow> Some True) of
        None \<Rightarrow> (Crashed 500, st)
      | Some False \<Rightarrow> (oauth_error OAUTH_STATE_INVALID, st)
      | Some True \<Rightarrow>
          (case resolve_for_record r rec of
             Inl Row_Malformed \<Rightarrow> (Crashed 500, st)
           | Inl (Unavailable kind _) \<Rightarrow>
               (oauth_error (if kind = ''disabled'' then OAUTH_PROVIDER_DISABLED else OAUTH_PROVIDER_NOT_CONFIGURED), st)
           | Inr rc \<Rightarrow>
               (case error of
                  Some (c # e) \<Rightarrow>
                    (oauth_error (if str_lower (str_strip (c # e)) \<in> CANCELLED_ERRORS then OAUTH_USER_CANCELLED
                                  else OAUTH_CODE_EXCHANGE_FAILED), st)
                | _ \<Rightarrow>
                    (case (if rec_purpose rec \<in> {''link'', ''reauth''} then pipeline_authorize P r rc rec False st else (None, fst st)) of
                       (Some denial, s1) \<Rightarrow> (denial, s1, snd st)
                     | (None, s1) \<Rightarrow>
                         (case issuer_ok P rc rec iss of
                            None \<Rightarrow> (Crashed 500, s1, snd st)
                          | Some False \<Rightarrow> (oauth_error OAUTH_ISSUER_MISMATCH, s1, snd st)
                          | Some True \<Rightarrow> finish_callback P r rc rec state code iss (s1, snd st))))))"

definition blank_arg :: "string option \<Rightarrow> bool" where
  "blank_arg x \<longleftrightarrow> x = None \<or> x = Some []"

definition handle_callback ::
    "('s, 't, 'k, 'c) pipeline \<Rightarrow> 's oauth_call \<Rightarrow> string option \<Rightarrow> string option \<Rightarrow> string option \<Rightarrow> string option \<Rightarrow>
     's \<times> identity_tables \<Rightarrow> 't oauth_response \<times> 's \<times> identity_tables" where
  "handle_callback P r code state error iss st =
     (case st of (s, T) \<Rightarrow>
        if blank_arg state \<or> blank_arg code \<and> blank_arg error then (Oauth_Failed OAUTH_STATE_INVALID 400 None, s, T)
        else
          let state = the state; ip = Some (client_ip P r); fp = Some (fingerprint_oauth_value (pl_env P) 12 state)
          in case limit_call P (Check_Callback ip fp None) s of
               (Inl e, s1) \<Rightarrow> (rate_limited e, s1, T)
             | (Inr _, s1) \<Rightarrow>
                 (case limit_call P (Check_State_Consumption ip fp None) s1 of
                    (Inl e, s2) \<Rightarrow> (rate_limited e, s2, T)
                  | (Inr _, s2) \<Rightarrow>
                      (case consume_state (pl_store P) (pl_env P) state s2 of
                         (Inl (StateReplay _), s3) \<Rightarrow> (oauth_error OAUTH_STATE_REUSED, s3, T)
                       | (Inl (StateInvalid _), s3) \<Rightarrow> (oauth_error OAUTH_STATE_INVALID, s3, T)
                       | (Inr rec, s3) \<Rightarrow> with_record P r rec state code error iss (s3, T))))"

end
