(* ===== verification/OAuth_Callback.thy ===== *)
theory OAuth_Callback
  imports OAuth_Pipeline
begin

text \<open>
  What a callback can do. Every path keeps the identity tables well formed and every identity with its
  user; a login, a link and a reauthentication are traced back to the state record, the connection, the
  provider's answer and the owner of the identity.
\<close>

section \<open>Finding the user\<close>

lemma touch_keeps: "keeps_identities K T (sp_touch_external_identity_last_seen K now ns h eh em ev T)"
  unfolding sp_touch_external_identity_last_seen_def by (rule update_accounts_keeps) (simp add: same_keys_def)

lemma assign_keeps [simp]: "keeps_identities K T (sp_assign_user_to_group K m u g T)"
  by (rule keeps_identities_accounts) (simp_all add: sp_assign_user_to_group_def)

lemma create_user_keeps:
  assumes "create_user P r rc key T = (x, T')"
  shows "keeps_identities (pl_collation P) T T'"
  using assms create_consumer_keeps [of "pl_collation P"]
  by (auto simp: create_user_def sp_create_consumer_user_from_external_identity_def split: if_splits sum.splits option.splits)

lemma resolve_user_keeps:
  assumes "resolve_user P r rc i key T = (x, T')"
  shows "keeps_identities (pl_collation P) T T'"
proof (cases "get_user_by_external_account P r key T")
  case (Inr found)
  show ?thesis
  proof (cases found)
    case None
    with assms Inr show ?thesis
      by (auto simp: resolve_user_def split: if_splits option.splits list.splits prod.splits sum.splits intro: create_user_keeps)
  qed (use assms Inr touch_keeps in \<open>auto simp: resolve_user_def split: if_splits\<close>)
qed (use assms in \<open>simp add: resolve_user_def\<close>)

lemma create_user_owner:
  assumes "create_user P r rc key T = (Inr user, T')"
  obtains u where "dget user ''id'' = JStr u" and "is_active_consumer user"
    and "identity_owner (pl_collation P) (ik_identity_namespace key) (ik_sub_hash key) T' = Some (pl_collation P u)"
    and "\<forall>v\<in>set (it_users T). pl_collation P (u_id v) \<noteq> pl_collation P u"
proof -
  let ?K = "pl_collation P" and ?n = "fresh_user P r key"
  obtain u a where t: "create_consumer_tables ?K (rq_now r) ?n key (cc_connection_id (rc_config rc)) (pb_binding_id (rc_binding rc)) T = Inr T'"
    and f: "List.find (\<lambda>u. ?K (u_id u) = ?K (nu_user_id ?n)) (it_users T') = Some u"
    and d: "user = user_account_dict ?K T' u a" and c: "is_active_consumer user"
    using assms
    by (auto simp: create_user_def sp_create_consumer_user_from_external_identity_def split: if_splits sum.splits option.splits)
  from find_SomeD [OF f] have k: "?K (u_id u) = ?K (nu_user_id ?n)" by simp
  show thesis using that [of "u_id u"] d c create_owner(2,3) [OF t] k by simp
qed

lemma resolve_user_owner:
  assumes "identity_wf (pl_collation P) T" and "resolve_user P r rc i key T = (Inr user, T')"
  obtains u where "dget user ''id'' = JStr u" and "is_active_consumer user"
    and "identity_owner (pl_collation P) (ik_identity_namespace key) (ik_sub_hash key) T' = Some (pl_collation P u)"
    and "identity_owner (pl_collation P) (ik_identity_namespace key) (ik_sub_hash key) T = Some (pl_collation P u) \<or>
         identity_owner (pl_collation P) (ik_identity_namespace key) (ik_sub_hash key) T = None \<and> can_auto_create (rc_binding rc) \<and>
           (\<forall>v\<in>set (it_users T). pl_collation P (u_id v) \<noteq> pl_collation P u)"
proof -
  let ?K = "pl_collation P"
  obtain found where g: "get_user_by_external_account P r key T = Inr found"
    using assms(2) by (cases "get_user_by_external_account P r key T") (simp_all add: resolve_user_def)
  then have q: "sp_get_user_by_external_identity ?K (ik_identity_namespace key) (ik_sub_hash key) T = Inr found"
    by (simp add: get_user_by_external_account_def split: if_splits)
  show thesis
  proof (cases found)
    case None
    with assms(2) g have c: "create_user P r rc key T = (Inr user, T')" and a: "can_auto_create (rc_binding rc)"
      by (auto simp: resolve_user_def split: if_splits option.splits list.splits prod.splits sum.splits)
    from get_user_none [OF assms(1)] q None a create_user_owner [OF c] show thesis using that by auto
  next
    case (Some d)
    with assms(2) g have d: "user = d" "is_active_consumer user" by (auto simp: resolve_user_def split: if_splits)
    obtain u a where o: "user = user_account_dict ?K T u a"
        "identity_owner ?K (ik_identity_namespace key) (ik_sub_hash key) T = Some (?K (u_id u))"
      using get_user_owner [OF assms(1) q [unfolded Some]] d(1) by metis
    moreover have "identity_owner ?K (ik_identity_namespace key) (ik_sub_hash key) T' = Some (?K (u_id u))"
      using resolve_user_keeps [OF assms(2)] o(2) by (simp add: keeps_identities_def)
    ultimately show thesis using that [of "u_id u"] d by simp
  qed
qed

section \<open>Login\<close>

lemma resolve_oauth_bound_projectD:
  assumes "resolve_oauth_bound_project D accessible binding = Some project"
  obtains bound where "oauth_bound_project_hash binding = Some bound" and "get_project_by_hash D bound = Some project"
    and "\<exists>d. JObj d \<in> set accessible \<and> dget d ''project_hash'' = JStr bound"
    and "truthy (dget project ''project_hash'') \<longrightarrow> py_str (dget project ''project_hash'') = bound"
proof -
  from assms obtain bound where b: "oauth_bound_project_hash binding = Some bound"
    and t: "resolve_target_project D accessible bound = Some project"
    and h: "truthy (dget project ''project_hash'') \<longrightarrow> py_str (dget project ''project_hash'') = bound"
    by (auto simp: resolve_oauth_bound_project_def Let_def split: option.splits if_splits)
  from t have "list_ex (\<lambda>p. case p of JObj d \<Rightarrow> dget d ''project_hash'' = JStr bound | _ \<Rightarrow> False) accessible"
    and g: "get_project_by_hash D bound = Some project"
    by (auto simp: resolve_target_project_def split: if_splits)
  then obtain p where p: "p \<in> set accessible" "case p of JObj d \<Rightarrow> dget d ''project_hash'' = JStr bound | _ \<Rightarrow> False"
    by (auto simp: list_ex_iff)
  then have "\<exists>d. JObj d \<in> set accessible \<and> dget d ''project_hash'' = JStr bound"
    by (cases p rule: json.exhaust) auto
  with b g h that show thesis by blast
qed

lemma maybe_enrol_keeps:
  "maybe_enrol_existing_user P r rc u T = (e, T') \<Longrightarrow> keeps_identities (pl_collation P) T T'"
  by (auto simp: maybe_enrol_existing_user_def split: if_splits option.splits list.splits)

lemma complete_login_keeps:
  assumes "complete_login P r rc rec i key (s, T) = (x, s', T')"
  shows "keeps_identities (pl_collation P) T T'"
proof -
  obtain y T1 where u: "resolve_user P r rc i key T = (y, T1)" by fastforce
  note k = resolve_user_keeps [OF u]
  show ?thesis
  proof (cases y)
    case (Inl d)
    with assms u k show ?thesis by (auto simp: complete_login_def split: if_splits option.splits)
  next
    case (Inr user)
    define uid where "uid = (case text_of user ''id'' of Some u \<Rightarrow> u | None \<Rightarrow> [])"
    obtain e T2 where e: "(if has_project (accessible_projects P T1 uid) (rec_project_hash rec) then (False, T1)
        else maybe_enrol_existing_user P r rc uid T1) = (e, T2)" by fastforce
    then have "keeps_identities (pl_collation P) T1 T2" using maybe_enrol_keeps by (auto split: if_splits)
    with k have "keeps_identities (pl_collation P) T T2" by (rule keeps_identities_trans)
    moreover have "T' = T \<or> T' = T2"
      using assms u Inr e unfolding complete_login_def
      by (simp add: uid_def [symmetric] Let_def split: if_splits option.splits prod.splits sum.splits)
    ultimately show ?thesis by auto
  qed
qed

lemma complete_loginD:
  assumes "identity_wf (pl_collation P) T"
    and "complete_login P r rc rec i key (s, T) = (Login_Done pair user project accessible groups, s', T')"
  obtains u T1 bound roles ids where "dget user ''id'' = JStr u" and "is_active_consumer user" and "pb_login_enabled (rc_binding rc)"
    and "identity_owner (pl_collation P) (ik_identity_namespace key) (ik_sub_hash key) T' = Some (pl_collation P u)"
    and "identity_owner (pl_collation P) (ik_identity_namespace key) (ik_sub_hash key) T = Some (pl_collation P u) \<or>
         identity_owner (pl_collation P) (ik_identity_namespace key) (ik_sub_hash key) T = None \<and> can_auto_create (rc_binding rc) \<and>
           (\<forall>v\<in>set (it_users T). pl_collation P (u_id v) \<noteq> pl_collation P u)"
    and "oauth_bound_project_hash (rec_oauth_binding rec) = Some bound" and "get_project_by_hash (pl_hooks P T') bound = Some project"
    and "\<exists>d. JObj d \<in> set accessible \<and> dget d ''project_hash'' = JStr bound"
    and "truthy (dget project ''project_hash'') \<longrightarrow> py_str (dget project ''project_hash'') = bound"
    and "project_is_active_for_auth project"
    and "issue_project_token_pair (pl_world P) (rq_now r) (rq_ids r) (user_claims user) (project_claims project)
           (Some []) roles ids (rec_remember_me rec) s = (Inr pair, s')"
proof -
  have le: "pb_login_enabled (rc_binding rc)"
    using assms(2) by (auto simp: complete_login_def oauth_error_def split: if_splits)
  obtain y T1 where u: "resolve_user P r rc i key T = (y, T1)" by fastforce
  obtain usr where y: "y = Inr usr"
    using assms(2) u le by (cases y) (auto simp: complete_login_def oauth_error_def split: option.splits)
  define uid where "uid = (case text_of usr ''id'' of Some u \<Rightarrow> u | None \<Rightarrow> [])"
  obtain e T2 where e: "(if has_project (accessible_projects P T1 uid) (rec_project_hash rec) then (False, T1)
      else maybe_enrol_existing_user P r rc uid T1) = (e, T2)" by fastforce
  have k: "keeps_identities (pl_collation P) T1 T2" using e maybe_enrol_keeps by (auto split: if_splits)
  define acc where "acc = accessible_projects P (if e then T2 else T1) uid"
  obtain proj where b: "resolve_oauth_bound_project (pl_hooks P T2) acc (rec_oauth_binding rec) = Some proj"
    using assms(2) u y e le
    by (cases "resolve_oauth_bound_project (pl_hooks P T2) acc (rec_oauth_binding rec)")
       (simp_all add: complete_login_def uid_def [symmetric] acc_def [symmetric] Let_def oauth_error_def)
  have act: "project_is_active_for_auth proj"
    using assms(2) u y e le b
    by (auto simp: complete_login_def uid_def [symmetric] acc_def [symmetric] Let_def oauth_error_def split: if_splits)
  obtain roles ids z s1 where iss: "issue_project_token_pair (pl_world P) (rq_now r) (rq_ids r) (user_claims usr) (project_claims proj)
      (Some []) roles ids (rec_remember_me rec) s = (z, s1)"
    and fin: "(case z of Inl e \<Rightarrow> (Crashed (status_code e), s1, T2)
        | Inr pair \<Rightarrow> (Login_Done pair usr proj acc (if ''get_user_groups_for_user'' \<in> rq_raises r then [] else pl_user_groups P T2 uid), s1, T2))
      = (Login_Done pair user project accessible groups, s', T')"
    using assms(2) u y e le b act
    by (simp add: complete_login_def uid_def [symmetric] acc_def [symmetric] Let_def split: prod.splits sum.splits)
  from fin have eqs: "z = Inr pair" "usr = user" "proj = project" "acc = accessible" "s1 = s'" "T2 = T'"
    by (auto split: sum.splits)
  obtain v where v: "dget user ''id'' = JStr v" "is_active_consumer user"
    "identity_owner (pl_collation P) (ik_identity_namespace key) (ik_sub_hash key) T1 = Some (pl_collation P v)"
    "identity_owner (pl_collation P) (ik_identity_namespace key) (ik_sub_hash key) T = Some (pl_collation P v) \<or>
       identity_owner (pl_collation P) (ik_identity_namespace key) (ik_sub_hash key) T = None \<and> can_auto_create (rc_binding rc) \<and>
       (\<forall>w\<in>set (it_users T). pl_collation P (u_id w) \<noteq> pl_collation P v)"
    using resolve_user_owner [OF assms(1) u [unfolded y eqs(2)]] by metis
  have o: "identity_owner (pl_collation P) (ik_identity_namespace key) (ik_sub_hash key) T' = Some (pl_collation P v)"
    using k v(3) eqs(6) by (simp add: keeps_identities_def)
  show thesis
  proof (rule resolve_oauth_bound_projectD [OF b [unfolded eqs]])
    fix bound
    assume "oauth_bound_project_hash (rec_oauth_binding rec) = Some bound" "get_project_by_hash (pl_hooks P T') bound = Some project"
      "\<exists>d. JObj d \<in> set accessible \<and> dget d ''project_hash'' = JStr bound"
      "truthy (dget project ''project_hash'') \<longrightarrow> py_str (dget project ''project_hash'') = bound"
    then show thesis by (rule that [OF v(1,2) le o v(4) _ _ _ _ act [unfolded eqs] iss [unfolded eqs]])
  qed
qed

section \<open>How far a callback gets\<close>

definition refused :: "'t oauth_response \<Rightarrow> bool" where
  "refused x = (case x of Oauth_Failed _ _ _ \<Rightarrow> True | Crashed _ \<Rightarrow> True | _ \<Rightarrow> False)"

lemma refused_simps [simp]:
  "refused (oauth_error c)" "refused (rate_limited e)" "refused (Oauth_Failed c n a)" "refused (Crashed n)"
  "\<not> refused (Login_Done pair u p acc g)" "\<not> refused (Link_Done key m)" "\<not> refused Reauth_Done"
  by (simp_all add: refused_def oauth_error_def rate_limited_def)

text \<open>
  Both limits let the request pass, the state record was consumed, its cookie and issuer fit, its
  connection is usable, the session was authorized where the purpose asks for it, and the provider
  vouched for the identity of the key. \<open>s'\<close> is the server from which the completion starts.
\<close>

definition callback_reaches ::
    "('s, 't, 'k, 'c) pipeline \<Rightarrow> 's oauth_call \<Rightarrow> string option \<Rightarrow> string \<Rightarrow> string option \<Rightarrow> 's \<times> identity_tables \<Rightarrow>
     state_record \<Rightarrow> resolved_connection \<Rightarrow> external_identity \<Rightarrow> identity_key \<Rightarrow> 's \<Rightarrow> bool" where
  "callback_reaches P r code state iss st rec rc i key s' \<longleftrightarrow>
     (\<exists>d1 s1 d2 s2 s3. limit_call P (Check_Callback (Some (client_ip P r)) (Some (fingerprint_oauth_value (pl_env P) 12 state)) None) (fst st) = (Inr d1, s1) \<and>
        limit_call P (Check_State_Consumption (Some (client_ip P r)) (Some (fingerprint_oauth_value (pl_env P) 12 state)) None) s1 = (Inr d2, s2) \<and>
        consume_state (pl_store P) (pl_env P) state s2 = (Inr rec, s3) \<and>
        (\<forall>c v. rq_state_cookie r = Some (c # v) \<longrightarrow> c # v = rec_state_fingerprint rec) \<and>
        resolve_for_record r rec = Inr rc \<and>
        (if rec_purpose rec \<in> {''link'', ''reauth''} then pipeline_authorize P r rc rec False (s3, snd st) = (None, s') else s' = s3) \<and>
        issuer_ok P rc rec iss = Some True \<and>
        provider_identity P rc (transaction_of state rec) (case code of Some c \<Rightarrow> c | None \<Rightarrow> ''None'') iss = Inr i \<and>
        identity_key_for (pl_hashes P) (pl_peppers P) i = Inr key)"

lemma pipeline_authorize_refuses:
  "pipeline_authorize P r rc rec complete st = (Some x, s') \<Longrightarrow> refused x"
  by (auto simp: pipeline_authorize_def split: prod.splits if_splits sum.splits authz_error.splits bool.splits)

lemma provider_identity_refuses: "provider_identity P rc tx code iss = Inl x \<Longrightarrow> refused x"
  by (auto simp: provider_identity_def Let_def split: option.splits sum.splits)

lemma cookie_ok:
  "(case c of Some (a # v) \<Rightarrow> compare_digest (a # v) fp | _ \<Rightarrow> Some True) = Some True \<Longrightarrow>
   (\<forall>a v. c = Some (a # v) \<longrightarrow> a # v = fp)"
  by (auto simp: compare_digest_def split: option.splits list.splits if_splits)

definition completion ::
    "('s, 't, 'k, 'c) pipeline \<Rightarrow> 's oauth_call \<Rightarrow> resolved_connection \<Rightarrow> state_record \<Rightarrow> external_identity \<Rightarrow> identity_key \<Rightarrow>
     's \<times> identity_tables \<Rightarrow> 't oauth_response \<times> 's \<times> identity_tables" where
  "completion P r rc rec i key st =
     (if rec_purpose rec = ''link'' then complete_link P r rc rec key st
      else if rec_purpose rec = ''reauth'' then complete_reauth P r rc rec key st
      else complete_login P r rc rec i key st)"

lemma finish_callback_cases:
  assumes "finish_callback P r rc rec state code iss st = (x, st')"
  shows "refused x \<and> st' = st \<or>
    (\<exists>i key. provider_identity P rc (transaction_of state rec) (case code of Some c \<Rightarrow> c | None \<Rightarrow> ''None'') iss = Inr i \<and>
       identity_key_for (pl_hashes P) (pl_peppers P) i = Inr key \<and> completion P r rc rec i key st = (x, st'))"
  using assms provider_identity_refuses [of P rc "transaction_of state rec" "case code of Some c \<Rightarrow> c | None \<Rightarrow> ''None''" iss]
  unfolding finish_callback_def Let_def completion_def [symmetric]
  by (auto split: sum.splits)

lemma with_record_cases:
  assumes "with_record P r rec state code error iss (s3, T) = (x, s', T')"
  obtains "refused x" "T' = T"
  | rc s4 i key where "\<forall>c v. rq_state_cookie r = Some (c # v) \<longrightarrow> c # v = rec_state_fingerprint rec" "resolve_for_record r rec = Inr rc"
      "if rec_purpose rec \<in> {''link'', ''reauth''} then pipeline_authorize P r rc rec False (s3, T) = (None, s4) else s4 = s3"
      "issuer_ok P rc rec iss = Some True"
      "provider_identity P rc (transaction_of state rec) (case code of Some c \<Rightarrow> c | None \<Rightarrow> ''None'') iss = Inr i"
      "identity_key_for (pl_hashes P) (pl_peppers P) i = Inr key" "completion P r rc rec i key (s4, T) = (x, s', T')"
proof -
  let ?c = "case rq_state_cookie r of Some (c # v) \<Rightarrow> compare_digest (c # v) (rec_state_fingerprint rec) | _ \<Rightarrow> Some True"
  consider "?c = None" | "?c = Some False" | "?c = Some True" by (cases ?c) auto
  then show thesis
  proof cases
    case 3
    note c = 3
    consider e where "resolve_for_record r rec = Inl e" | rc where "resolve_for_record r rec = Inr rc"
      by (cases "resolve_for_record r rec") auto
    then show thesis
    proof cases
      case (1 e)
      with assms c that(1) show thesis by (cases e) (auto simp: with_record_def)
    next
      case (2 rc)
      let ?w = "if rec_purpose rec \<in> {''link'', ''reauth''} then pipeline_authorize P r rc rec False (s3, T) else (None, s3)"
      obtain d s4 where w: "?w = (d, s4)" by fastforce
      consider c e where "error = Some (c # e)" | "blank_arg error" by (cases error; cases "the error") (auto simp: blank_arg_def)
      then show thesis
      proof cases
        case 1
        with assms c 2 that(1) show thesis by (auto simp: with_record_def)
      next
        case e: 2
        with assms [unfolded with_record_def fst_conv snd_conv] c 2 w have m: "(case (d, s4) of (Some denial, s1) \<Rightarrow> (denial, s1, T) | (None, s1) \<Rightarrow>
            (case issuer_ok P rc rec iss of None \<Rightarrow> (Crashed 500, s1, T) | Some False \<Rightarrow> (oauth_error OAUTH_ISSUER_MISMATCH, s1, T)
             | Some True \<Rightarrow> finish_callback P r rc rec state code iss (s1, T))) = (x, s', T')"
          by (auto simp: blank_arg_def split del: if_split)
        show thesis
        proof (cases d)
          case (Some den)
          with w pipeline_authorize_refuses have "refused den" by (metis option.distinct(1) fst_conv prod.inject)
          with m Some that(1) show thesis by auto
        next
          case None
          with m consider "refused x" "T' = T"
            | "issuer_ok P rc rec iss = Some True" "finish_callback P r rc rec state code iss (s4, T) = (x, s', T')"
            by (auto split: option.splits bool.splits)
          then show thesis
          proof cases
            case 2
            from w None have "if rec_purpose rec \<in> {''link'', ''reauth''} then pipeline_authorize P r rc rec False (s3, T) = (None, s4) else s4 = s3"
              by (auto split: if_splits)
            with finish_callback_cases [OF 2(2)] 2(1) cookie_ok [OF c] \<open>resolve_for_record r rec = Inr rc\<close> that
            show thesis by blast
          qed (rule that(1))
        qed
      qed
    qed
  qed (use assms that(1) in \<open>auto simp: with_record_def\<close>)
qed

lemma handle_callback_cases:
  assumes "handle_callback P r code state error iss (s, T) = (x, s', T')"
  obtains "refused x" "T' = T"
  | st rec rc i key s4 where "state = Some st" "callback_reaches P r code st iss (s, T) rec rc i key s4"
      "completion P r rc rec i key (s4, T) = (x, s', T')"
proof (cases "blank_arg state \<or> blank_arg code \<and> blank_arg error")
  case True
  with assms that(1) show thesis by (auto simp: handle_callback_def)
next
  case False
  then obtain st where st: "state = Some st" by (cases state) (auto simp: blank_arg_def)
  let ?ip = "Some (client_ip P r)" and ?fp = "Some (fingerprint_oauth_value (pl_env P) 12 st)"
  obtain d1 s1 where 1: "limit_call P (Check_Callback ?ip ?fp None) s = (d1, s1)" by fastforce
  obtain d2 s2 where 2: "limit_call P (Check_State_Consumption ?ip ?fp None) s1 = (d2, s2)" by fastforce
  obtain c s3 where 3: "consume_state (pl_store P) (pl_env P) st s2 = (c, s3)" by fastforce
  consider "refused x" "T' = T" | e1 e2 rec where "d1 = Inr e1" "d2 = Inr e2" "c = Inr rec" "with_record P r rec st code error iss (s3, T) = (x, s', T')"
    using assms False 1 2 3 st
    by (auto simp: handle_callback_def Let_def split: sum.splits oauth_error.splits)
  then show thesis
  proof cases
    case (2 e1 e2 rec)
    from 2(4) show thesis
    proof (cases rule: with_record_cases)
      case (2 rc s4 i key)
      have "callback_reaches P r code st iss (s, T) rec rc i key s4"
        unfolding callback_reaches_def fst_conv snd_conv
        using 1 \<open>limit_call P (Check_State_Consumption ?ip ?fp None) s1 = (d2, s2)\<close> 3 \<open>d1 = Inr e1\<close> \<open>d2 = Inr e2\<close> \<open>c = Inr rec\<close> 2(1-6)
        by blast
      with st 2(7) that(2) show thesis by blast
    qed (rule that(1))
  qed (rule that(1))
qed

section \<open>Link and reauthentication\<close>

lemma pipeline_authorize_ok:
  assumes "pipeline_authorize P r rc rec complete (s, T) = (None, s')"
  shows "json_of (pb_project_hash (rc_binding rc)) = rec_project_hash rec \<and>
    authorize_oauth_session (pl_world P) (pl_store P) (pl_env P) (pl_digest P) (pl_hooks P T) (rq_now r)
      (rq_proof_id r) complete rec (rq_schedule r complete) s = (Inr (), s')"
  using assms
  by (auto simp: pipeline_authorize_def split: prod.splits if_splits sum.splits authz_error.splits bool.splits)

lemma complete_link_keeps:
  assumes "complete_link P r rc rec key (s, T) = (x, s', T')"
  shows "keeps_identities (pl_collation P) T T'"
  using assms link_tables_keeps [of "pl_collation P" "rq_now r" "rq_account_id r" "record_user_id rec" key "cc_connection_id (rc_config rc)" T]
  by (auto simp: complete_link_def Let_def sp_link_external_identity_def split: if_splits sum.splits option.splits prod.splits)

lemma complete_reauth_same: "complete_reauth P r rc rec key (s, T) = (x, s', T') \<Longrightarrow> T' = T"
  by (auto simp: complete_reauth_def Let_def split: if_splits sum.splits option.splits prod.splits)

text \<open>A link changes the owner of the identity it links, and of no other.\<close>

lemma link_other_owner:
  assumes "link_tables K now i u key c T = Inr T'" and "K ns \<noteq> K (ik_identity_namespace key) \<or> h \<noteq> ik_sub_hash key"
  shows "identity_owner K ns h T' = identity_owner K ns h T"
proof -
  let ?f = "\<lambda>a. if in_namespace K u (ik_identity_namespace key) a then relink_account now key a else a"
  have "link_in_namespace K now i u key c T = Inr T'"
    using assms(1) by (auto simp: link_tables_def split: option.splits if_splits)
  then consider "T' = T\<lparr>it_accounts := map ?f (it_accounts T)\<rparr>"
    | "T' = T\<lparr>it_accounts := it_accounts T @ [new_account now i u key c (Some u)]\<rparr>"
    by (auto simp: link_in_namespace_def insert_account_def split: option.splits if_splits)
  then show ?thesis
  proof cases
    case 1
    show ?thesis unfolding 1 by (rule update_accounts_owner) (auto simp: has_identity_def is_linked_def)
  next
    case 2
    have "\<not> has_identity K ns h (new_account now i u key c (Some u))" using assms(2) by (auto simp: has_identity_def)
    then show ?thesis by (simp add: 2 identity_owner_def find_append split: option.split)
  qed
qed

lemma complete_linkD:
  assumes "complete_link P r rc rec key (s, T) = (Link_Done key' m, s', T')"
  shows "key' = key \<and> record_user_id rec \<noteq> [] \<and> can_link (rc_binding rc) \<and>
    pipeline_authorize P r rc rec True (s, T) = (None, s') \<and>
    link_tables (pl_collation P) (rq_now r) (rq_account_id r) (record_user_id rec) key (cc_connection_id (rc_config rc)) T = Inr T'"
  using assms
  by (auto simp: complete_link_def Let_def sp_link_external_identity_def oauth_error_def rate_limited_def
      split: if_splits sum.splits option.splits prod.splits dest: pipeline_authorize_refuses)

lemma complete_reauthD:
  assumes "complete_reauth P r rc rec key (s, T) = (Reauth_Done, s', T')"
  shows "\<exists>d. sp_get_user_by_external_identity (pl_collation P) (ik_identity_namespace key) (ik_sub_hash key) T = Inr (Some d) \<and>
    text_of d ''id'' = Some (record_user_id rec) \<and> record_user_id rec \<noteq> [] \<and>
    pipeline_authorize P r rc rec True (s, T) = (None, s')"
  using assms
  by (auto simp: complete_reauth_def Let_def get_user_by_external_account_def
      split: if_splits sum.splits option.splits prod.splits dest: pipeline_authorize_refuses)

section \<open>Every path\<close>

lemma completion_keeps:
  assumes "completion P r rc rec i key (s, T) = (x, s', T')"
  shows "keeps_identities (pl_collation P) T T'"
  using assms complete_link_keeps [of P r rc rec key s T x s' T'] complete_reauth_same [of P r rc rec key s T x s' T']
    complete_login_keeps [of P r rc rec i key s T x s' T']
  by (auto simp: completion_def split: if_splits)

lemma complete_link_kind: "complete_link P r rc rec key (s, T) = (x, s', T') \<Longrightarrow> refused x \<or> (\<exists>m. x = Link_Done key m)"
  by (auto simp: complete_link_def Let_def split: if_splits sum.splits option.splits prod.splits dest: pipeline_authorize_refuses)

lemma complete_reauth_kind: "complete_reauth P r rc rec key (s, T) = (x, s', T') \<Longrightarrow> refused x \<or> x = Reauth_Done"
  by (auto simp: complete_reauth_def Let_def split: if_splits sum.splits option.splits prod.splits dest: pipeline_authorize_refuses)

lemma complete_login_kind:
  assumes "complete_login P r rc rec i key (s, T) = (x, s', T')"
  shows "refused x \<or> (\<exists>p u q a g. x = Login_Done p u q a g)"
  using assms unfolding complete_login_def
  by (auto simp: Let_def split: if_splits sum.splits option.splits prod.splits)

section \<open>A worked example\<close>

text \<open>
  One connection, one provider that always vouches for the same subject, the tables of the identity
  example, and a limiter whose server does not answer and whose policy lets requests pass.
\<close>

definition demo_row :: dict where
  "demo_row = demo_binding_row(''project_hash'' \<mapsto> JStr ''ph1'', ''link_enabled'' \<mapsto> JBool True, ''catalog_link_enabled'' \<mapsto> JBool True,
     ''provisioning_mode'' \<mapsto> JStr ''both'')"

definition demo_rc :: resolved_connection where
  "demo_rc = \<lparr>rc_config = config_of_row demo_settings demo_row, rc_binding = binding_of_row demo_row\<rparr>"

definition demo_external :: external_identity where
  "demo_external = \<lparr>xi_provider_type = ''google'', xi_identity_namespace = ''google'', xi_subject = ''1234'', xi_email = None,
     xi_email_verified = False, xi_email_trust = ''none''\<rparr>"

definition demo_adapter :: "(unit, unit) oauth_adapter" where
  "demo_adapter = \<lparr>issuer_response_param = False, build_authorization_url = (\<lambda>_ _. None), exchange_code = (\<lambda>_ _ _ _ _. Inr ()),
     resolve_identity = (\<lambda>_ _ _. Inr demo_external), enforce_restrictions = (\<lambda>_ _. Inr ())\<rparr>"

definition silent_counters :: "mem counters" where
  "silent_counters = \<lparr>counter_incr = (\<lambda>_ s. (None, s)), counter_ttl = (\<lambda>_ s. (None, s)), counter_expire = (\<lambda>_ _ s. (None, s)),
     counter_get = (\<lambda>_ s. (None, s)), counter_set = (\<lambda>_ _ _ s. (None, s))\<rparr>"

definition demo_pipeline :: "(mem, sym_token, unit, unit) pipeline" where
  "demo_pipeline =
     \<lparr>pl_world = demo_world, pl_store = mem_oauth, pl_env = demo_env, pl_digest = (\<lambda>_. []), pl_counters = silent_counters,
      pl_policy = load_oauth_rate_limit_policy Map.empty False, pl_rate_hash = id,
      pl_hashes = \<lparr>identity_hmac = (\<lambda>_ _. replicate 32 CHR ''h''), identity_sha256 = (\<lambda>_. replicate 64 CHR ''f'')\<rparr>,
      pl_peppers = \<lparr>provider_sub_pepper = ''p'', email_hash_pepper = ''q''\<rparr>, pl_collation = id,
      pl_adapter = (\<lambda>_. demo_adapter), pl_secrets = (\<lambda>_. Some ()), pl_hash_password = (\<lambda>x. ''$argon2id$''),
      pl_hooks = (\<lambda>_. demo_hooks\<lparr>get_user_accessible_projects := (\<lambda>_. Some [JObj demo_project])\<rparr>),
      pl_user_groups = (\<lambda>_ _. []), pl_trusted_proxies = [], pl_in_network = (\<lambda>_ _. None)\<rparr>"

definition demo_call :: "mem oauth_call" where
  "demo_call = \<lparr>rq_peer = None, rq_forwarded_for = None, rq_state_cookie = None, rq_now = us_per_second,
     rq_source = (\<lambda>_ _. Inr demo_rc), rq_raises = {}, rq_ids = demo_ids ''1'', rq_user_id = ''u9'', rq_user_hash = ''h9'',
     rq_token_hex = ''00'', rq_password_token = ''t'', rq_account_id = ''a9'', rq_email_id = ''e9'', rq_member_id = ''m9'',
     rq_proof_id = ''n'', rq_schedule = (\<lambda>_. demo_quiet)\<rparr>"

abbreviation demo_state :: string where "demo_state \<equiv> mat_state demo_mat"

definition demo_state_at :: "dict \<Rightarrow> mem \<Rightarrow> mem" where
  "demo_state_at p s = s\<lparr>strings := (strings s)(oauth_key demo_env OAUTH_STATE_PREFIX demo_state \<mapsto> (JObj p, None))\<rparr>"

definition demo_consumed_at :: "dict \<Rightarrow> mem \<Rightarrow> mem" where
  "demo_consumed_at p s = mem_set (oauth_key demo_env OAUTH_STATE_CONSUMED_PREFIX demo_state) (JStr ''1'') MAX_OAUTH_STATE_TTL_SECONDS
     (mem_delete [oauth_key demo_env OAUTH_STATE_PREFIX demo_state] (demo_state_at p s))"

lemma demo_limits [simp]: "limit_call demo_pipeline a s = (Inr (RateLimitDecision (oauth_rate_bucket a) None True), s)"
  by (simp add: limit_call_def demo_pipeline_def oauth_rate_step_def consume_bucket_def count_request_def silent_counters_def
      redis_unavailable_def load_oauth_rate_limit_policy_def)

lemma demo_consume:
  assumes "decode_record demo_env demo_state p = Inr rec"
  shows "consume_state mem_oauth demo_env demo_state (demo_state_at p s) = (Inr rec, demo_consumed_at p s)"
proof -
  have "mem_get (demo_state_at p s) (oauth_key demo_env OAUTH_STATE_PREFIX demo_state) = Some (JObj p)"
    by (simp add: mem_get_def demo_state_at_def live_def)
  with assms show ?thesis
    by (simp add: consume_state_def consume_record_def demo_shape mem_oauth_def Let_def json_loads_def demo_consumed_at_def)
qed

lemma demo_identity: "identity_key_for (pl_hashes demo_pipeline) (pl_peppers demo_pipeline) demo_external = Inr demo_identity_key"
  by (simp add: identity_key_for_def provider_sub_hmac_def provider_email_hmac_def normalized_email_def demo_external_def demo_pipeline_def
      provider_sub_fingerprint_def mask_provider_email_def demo_identity_key_def str_defs Let_def)

lemma demo_provider: "provider_identity demo_pipeline demo_rc tx code iss = Inr demo_external"
  by (simp add: provider_identity_def demo_pipeline_def demo_adapter_def)

lemma demo_rc_sel [simp]:
  "pb_login_enabled (rc_binding demo_rc)" "can_link (rc_binding demo_rc)" "pb_project_hash (rc_binding demo_rc) = Some ''ph1''"
  by (simp_all add: demo_rc_def binding_of_row_def demo_row_def demo_binding_row_def can_link_def row_text_def row_text_opt_def)

lemma demo_callback:
  assumes "decode_record demo_env demo_state p = Inr rec" and "truthy (rec_connection_id rec)" and "truthy (rec_binding_id rec)"
    and "if rec_purpose rec \<in> {''link'', ''reauth''} then pipeline_authorize demo_pipeline demo_call demo_rc rec False
           (demo_consumed_at p s, T) = (None, s4) else s4 = demo_consumed_at p s"
  shows "handle_callback demo_pipeline demo_call (Some ''code'') (Some demo_state) None None (demo_state_at p s, T) =
    completion demo_pipeline demo_call demo_rc rec demo_external demo_identity_key (s4, T)"
proof -
  have sel: "pl_store demo_pipeline = mem_oauth" "pl_env demo_pipeline = demo_env" "rq_state_cookie demo_call = None"
      "rq_source demo_call = (\<lambda>_ _. Inr demo_rc)" "issuer_ok demo_pipeline demo_rc rec None = Some True"
    by (simp_all add: demo_pipeline_def demo_call_def issuer_ok_def demo_adapter_def)
  have args: "\<not> blank_arg (Some demo_state)" "\<not> blank_arg (Some ''code'')" by (simp_all add: blank_arg_def demo_mat_def)
  have w: "(if rec_purpose rec \<in> {''link'', ''reauth''} then pipeline_authorize demo_pipeline demo_call demo_rc rec False
      (demo_consumed_at p s, T) else (None, demo_consumed_at p s)) = (None, s4)"
    using assms(4) by (auto split: if_splits)
  have "handle_callback demo_pipeline demo_call (Some ''code'') (Some demo_state) None None (demo_state_at p s, T) =
      with_record demo_pipeline demo_call rec demo_state (Some ''code'') None None (demo_consumed_at p s, T)"
    by (simp add: handle_callback_def args sel demo_consume [OF assms(1)])
  also have "\<dots> = finish_callback demo_pipeline demo_call demo_rc rec demo_state (Some ''code'') None (s4, T)"
    unfolding with_record_def fst_conv snd_conv resolve_for_record_def using assms(2,3) w by (simp add: sel split del: if_split)
  also have "\<dots> = completion demo_pipeline demo_call demo_rc rec demo_external demo_identity_key (s4, T)"
    by (simp add: finish_callback_def demo_provider demo_identity completion_def)
  finally show ?thesis .
qed

text \<open>A login that comes back from the provider.\<close>

definition demo_login_payload :: dict where
  "demo_login_payload = [''version'' \<mapsto> JInt 3, ''purpose'' \<mapsto> JStr ''login'', ''connection_id'' \<mapsto> JStr ''c1'',
     ''binding_id'' \<mapsto> JStr ''b1'', ''project_hash'' \<mapsto> JStr ''ph1'']"

definition demo_login_record :: state_record where
  "demo_login_record = build_record demo_env demo_state demo_login_payload None 3"

lemma demo_login_decode: "decode_record demo_env demo_state demo_login_payload = Inr demo_login_record"
  by (simp add: decode_record_def demo_login_payload_def demo_login_record_def SUPPORTED_STATE_RECORD_VERSIONS_def Let_def)

lemma demo_login_sel [simp]:
  "rec_purpose demo_login_record = ''login''" "rec_connection_id demo_login_record = JStr ''c1''"
  "rec_binding_id demo_login_record = JStr ''b1''" "rec_project_hash demo_login_record = JStr ''ph1''"
  "rec_oauth_binding demo_login_record = demo_login_payload"
  by (simp_all add: demo_login_record_def build_record_def demo_login_payload_def Let_def)

definition demo_known_user :: dict where
  "demo_known_user = user_account_dict id demo_identity_tables (demo_identity_user ''u1'') (new_account 1 ''a1'' ''u1'' demo_identity_key ''c1'' (Some ''u1''))"

lemma demo_lookup_user:
  "get_user_by_external_account demo_pipeline demo_call demo_identity_key demo_identity_tables = Inr (Some demo_known_user)"
proof -
  have sel: "rq_raises demo_call = {}" "pl_collation demo_pipeline = id" by (simp_all add: demo_call_def demo_pipeline_def)
  show ?thesis
    unfolding get_user_by_external_account_def sel demo_known_user_def
    by (simp add: sp_get_user_by_external_identity_def demo_identity_tables_def sub_hash_ok_def has_identity_def is_linked_def
        demo_identity_user_def demo_identity_key_def)
qed

lemma demo_known_user_ok: "is_active_consumer demo_known_user" "text_of demo_known_user ''id'' = Some ''u1''"
  by (simp_all add: is_active_consumer_def demo_known_user_def user_account_dict_def user_dict_def demo_identity_user_def
      text_of_def clean_text_def dget_default_def str_defs Let_def)

lemma demo_resolve:
  obtains T1 where "resolve_user demo_pipeline demo_call demo_rc demo_external demo_identity_key demo_identity_tables = (Inr demo_known_user, T1)"
  by (simp add: resolve_user_def demo_lookup_user demo_known_user_ok)

lemma demo_bound_project:
  "resolve_oauth_bound_project (pl_hooks demo_pipeline T) (accessible_projects demo_pipeline T' u) demo_login_payload = Some demo_project"
  by (simp add: resolve_oauth_bound_project_def oauth_bound_project_hash_def demo_login_payload_def resolve_target_project_def
      accessible_projects_def demo_pipeline_def safe_call_list_def demo_project_def demo_hooks_def str_defs Let_def)

lemma demo_has_project: "has_project (accessible_projects demo_pipeline T u) (JStr ''ph1'')"
  by (simp add: has_project_def accessible_projects_def demo_pipeline_def safe_call_list_def demo_project_def json_text_of_def
      text_of_def clean_text_def str_defs Let_def)

lemma demo_logged_in:
  obtains pair s' T' where "handle_callback demo_pipeline demo_call (Some ''code'') (Some demo_state) None None
      (demo_state_at demo_login_payload mem_empty, demo_identity_tables) =
    (Login_Done pair demo_known_user demo_project [JObj demo_project] [], s', T')"
proof -
  let ?s = "demo_consumed_at demo_login_payload mem_empty"
  obtain T1 where r: "resolve_user demo_pipeline demo_call demo_rc demo_external demo_identity_key demo_identity_tables = (Inr demo_known_user, T1)"
    by (rule demo_resolve)
  have sel: "pl_world demo_pipeline = demo_world" "pl_user_groups demo_pipeline = (\<lambda>_ _. [])"
    by (simp_all add: demo_pipeline_def)
  have acc: "accessible_projects demo_pipeline T u = [JObj demo_project]" for T u
    by (simp add: accessible_projects_def demo_pipeline_def safe_call_list_def)
  have act: "project_is_active_for_auth demo_project" by (simp add: project_is_active_for_auth_def demo_project_def)
  have pos: "0 < effective_refresh_ttl None rm" for rm by simp
  obtain pair s' where iss: "issue_project_token_pair demo_world (rq_now demo_call) (rq_ids demo_call) (user_claims demo_known_user)
      (project_claims demo_project) (Some []) (Some []) (Some []) (rec_remember_me demo_login_record) ?s = (Inr pair, s')"
    unfolding issue_project_token_pair_def using demo.issue_token_pair_total [OF pos] by blast
  have "complete_login demo_pipeline demo_call demo_rc demo_login_record demo_external demo_identity_key (?s, demo_identity_tables) =
      (Login_Done pair demo_known_user demo_project [JObj demo_project] [], s', T1)"
    using demo_has_project [of T1] demo_bound_project [of T1 T1] act iss
    by (simp add: complete_login_def r demo_known_user_ok sel acc Let_def present_def List.map_filter_def)
  then show thesis
    using demo_callback [OF demo_login_decode, of mem_empty demo_identity_tables ?s] that by (simp add: completion_def)
qed

text \<open>A link of the same identity by its own user, on the session of the authorization example.\<close>

definition demo_relink_payload :: dict where
  "demo_relink_payload = demo_link_payload(''version'' \<mapsto> JInt 3, ''user_id'' \<mapsto> JStr ''u1'', ''session_id'' \<mapsto> JStr ''s1'',
     ''project_hash'' \<mapsto> JStr ''ph1'', ''binding_id'' \<mapsto> JStr ''b1'')"

definition demo_relink_record :: state_record where
  "demo_relink_record = build_record demo_env demo_state demo_relink_payload (Some demo_authorization) 3"

definition demo_relink_store :: mem where
  "demo_relink_store = demo_link_store\<lparr>strings := (strings demo_link_store)(demo_ckey \<mapsto> (JObj (completion_payload demo_relink_payload), Some 61000))\<rparr>"

abbreviation demo_relink_consumed :: mem where
  "demo_relink_consumed \<equiv> demo_consumed_at demo_relink_payload demo_relink_store"

lemma demo_relink_decode: "decode_record demo_env demo_state demo_relink_payload = Inr demo_relink_record"
proof -
  have p: "dget demo_relink_payload ''authorization'' = asdict_authorization demo_authorization"
    "dget demo_relink_payload ''version'' = JInt 3" "dget demo_relink_payload ''purpose'' = JStr ''link''"
    "dget demo_relink_payload ''user_id'' = JStr ''u1''" "dget demo_relink_payload ''session_id'' = JStr ''s1''"
    "dget demo_relink_payload ''project_hash'' = JStr ''ph1''" "dget demo_relink_payload ''authorization_ref'' = JStr (replicate 32 CHR ''0'')"
    by (simp_all add: demo_relink_payload_def demo_link_payload_def)
  have a: "az_user_id demo_authorization = JStr ''u1''" "az_session_id demo_authorization = JStr ''s1''"
    "az_project_hash demo_authorization = JStr ''ph1''" "az_proof demo_authorization \<noteq> None"
    "take 32 (hmac_hex demo_env demo_state) = replicate 32 CHR ''0''"
    by (simp_all add: demo_authorization_def demo_env_def)
  show ?thesis
    unfolding decode_record_def p by (simp add: demo_from_payload a demo_relink_record_def SUPPORTED_STATE_RECORD_VERSIONS_def Let_def)
qed

lemma demo_relink_sel [simp]:
  "rec_purpose demo_relink_record = ''link''" "rec_connection_id demo_relink_record = JStr ''c1''"
  "rec_binding_id demo_relink_record = JStr ''b1''" "rec_project_hash demo_relink_record = JStr ''ph1''"
  "rec_oauth_binding demo_relink_record = demo_relink_payload" "rec_authorization demo_relink_record = Some demo_authorization"
  "rec_authorization_ref demo_relink_record = JStr (replicate 32 CHR ''0'')" "rec_user_id demo_relink_record = JStr ''u1''"
  "rec_expires_at demo_relink_record = JTime (61 * us_per_second)"
  by (simp_all add: demo_relink_record_def build_record_def demo_relink_payload_def demo_link_payload_def Let_def)

lemma demo_state_keys [simp]:
  "oauth_key E OAUTH_STATE_PREFIX st \<noteq> family_key f" "oauth_key E OAUTH_STATE_PREFIX st \<noteq> session_key j"
  "oauth_key E OAUTH_STATE_PREFIX st \<noteq> revoked_key f" "oauth_key E OAUTH_STATE_PREFIX st \<noteq> demo_ckey"
  "oauth_key E OAUTH_STATE_CONSUMED_PREFIX st \<noteq> family_key f" "oauth_key E OAUTH_STATE_CONSUMED_PREFIX st \<noteq> session_key j"
  "oauth_key E OAUTH_STATE_CONSUMED_PREFIX st \<noteq> revoked_key f" "oauth_key E OAUTH_STATE_CONSUMED_PREFIX st \<noteq> demo_ckey"
  by (simp_all add: oauth_key_def demo_ckey_def family_key_def session_key_def revoked_key_def OAUTH_COMPLETION_PREFIX_def
      REFRESH_FAMILY_PREFIX_def SESSION_PREFIX_def REVOKED_FAMILY_PREFIX_def OAUTH_STATE_PREFIX_def OAUTH_STATE_CONSUMED_PREFIX_def)

lemma demo_relink_reads [simp]:
  "mem_get demo_relink_consumed (family_key ''f1'') = Some (JObj demo_link_family)"
  "mem_get demo_relink_consumed (session_key ''a1'') = Some (JObj demo_link_session)"
  "mem_get demo_relink_consumed demo_ckey = Some (JObj (completion_payload demo_relink_payload))"
  "mem_get demo_relink_consumed (revoked_key ''f1'') = None" "mem_remaining demo_relink_consumed demo_ckey = 60000"
  by (simp_all add: mem_get_def mem_remaining_def demo_consumed_at_def mem_set_def mem_delete_def demo_state_at_def
      demo_state_keys [THEN not_sym] demo_relink_store_def demo_link_store_def live_def)

abbreviation demo_link_hooks :: db_hooks where
  "demo_link_hooks \<equiv> demo_hooks\<lparr>get_user_accessible_projects := (\<lambda>_. Some [JObj demo_project])\<rparr>"

lemma demo_relink_ok:
  "oauth_session_ok demo_world mem_oauth demo_env (\<lambda>v. []) demo_link_hooks us_per_second demo_relink_record demo_authorization demo_relink_consumed"
proof -
  have f: "get_json mem_redis demo_relink_consumed (family_key ''f1'') = Some demo_link_family"
    "get_json mem_redis demo_relink_consumed (session_key ''a1'') = Some demo_link_session"
    "redis_get mem_redis demo_relink_consumed (revoked_key ''f1'') = None"
    by (simp_all add: get_json_def mem_redis_def)
  have d: "dget demo_link_family ''status'' = JStr ''active''" "dget demo_link_family ''current_access_jti'' = JStr ''a1''"
    "dget demo_link_session ''session_id'' = JStr ''s1''" "dget demo_link_session ''access_jti'' = JStr ''a1''"
    "dget demo_link_session ''refresh_jti'' = dget demo_link_family ''current_refresh_jti''"
    by (simp_all add: demo_link_family_def demo_link_session_def demo_bound_doc_def)
  have u: "get_user_by_hash demo_hooks ''h1'' = Some demo_user" "dget demo_user ''id'' = JStr ''u1''"
    by (simp_all add: demo_hooks_def demo_user_def)
  have a: "az_user_id demo_authorization = JStr ''u1''" "az_user_hash demo_authorization = JStr ''h1''"
    "az_session_id demo_authorization = JStr ''s1''" "az_family_id demo_authorization = JStr ''f1''"
    by (simp_all add: demo_authorization_def)
  have p: "proof_current mem_oauth (\<lambda>v. []) us_per_second k demo_relink_record demo_authorization demo_relink_consumed = None" for k
    by (simp add: proof_current_def demo_authorization_def us_per_second_def)
  have al: "auth_allowed demo_link_hooks demo_link_session"
    by (simp add: auth_allowed_defs demo_link_session_def demo_bound_doc_def demo_hooks_def demo_user_def demo_project_def
      AUTH_SCOPE_PROJECT_def AUTH_SCOPE_PLATFORM_def project_is_active_for_auth_def safe_call_list_def)
  show ?thesis
    unfolding oauth_session_ok_def
    by (intro exI [of _ demo_link_family] exI [of _ demo_link_session] exI [of _ demo_user])
      (simp add: f d u a p demo_bound al)
qed

lemma demo_relink_valid: "validate_completion mem_oauth us_per_second demo_relink_record demo_relink_consumed = Inr ()"
  by (simp only: validate_completion_def demo_relink_sel demo_ckey)
    (simp add: mem_oauth_def json_loads_def us_per_second_def)

lemma demo_relink_authorize:
  obtains s' where "pipeline_authorize demo_pipeline demo_call demo_rc demo_relink_record c (demo_relink_consumed, T) = (None, s')"
    and "c = False \<longrightarrow> s' = demo_relink_consumed"
proof -
  have sel: "pl_world demo_pipeline = demo_world" "pl_store demo_pipeline = mem_oauth" "pl_env demo_pipeline = demo_env"
    "pl_digest demo_pipeline = (\<lambda>v. [])" "pl_hooks demo_pipeline T = demo_link_hooks" "rq_now demo_call = us_per_second"
    "rq_schedule demo_call c = demo_quiet"
    by (simp_all add: demo_pipeline_def demo_call_def)
  have "completion_key (rec_authorization_ref demo_relink_record) = Inr demo_ckey" by (simp only: demo_relink_sel demo_ckey)
  note az = authorize_quiet [OF _ demo_relink_sel(6) this demo_relink_valid demo_relink_ok, of demo_quiet "rq_proof_id demo_call" c]
  show thesis
    using that [of "completion_writes mem_oauth demo_env us_per_second (rq_proof_id demo_call) c demo_relink_record demo_authorization demo_ckey
      demo_relink_consumed"] az
    by (simp add: pipeline_authorize_def sel demo_quiet_def completion_writes_def)
qed

lemma demo_linked:
  obtains m s' T' where "handle_callback demo_pipeline demo_call (Some ''code'') (Some demo_state) None None
      (demo_state_at demo_relink_payload demo_relink_store, demo_identity_tables) = (Link_Done demo_identity_key m, s', T')"
proof -
  let ?s = demo_relink_consumed
  obtain s1 where a0: "pipeline_authorize demo_pipeline demo_call demo_rc demo_relink_record False (?s, demo_identity_tables) = (None, s1)"
    "s1 = ?s" by (rule demo_relink_authorize [of False]) simp
  obtain s2 where a1: "pipeline_authorize demo_pipeline demo_call demo_rc demo_relink_record True (?s, demo_identity_tables) = (None, s2)"
    by (rule demo_relink_authorize [of True])
  have uid: "record_user_id demo_relink_record = ''u1''" by (simp add: record_user_id_def)
  have sel: "pl_collation demo_pipeline = id" "rq_raises demo_call = {}" by (simp_all add: demo_pipeline_def demo_call_def)
  obtain T' where t: "link_tables id (rq_now demo_call) (rq_account_id demo_call) ''u1'' demo_identity_key (cc_connection_id (rc_config demo_rc))
      demo_identity_tables = Inr T'"
    by (simp add: link_tables_def link_in_namespace_def demo_identity_tables_def has_identity_def in_namespace_def is_linked_def
        demo_identity_key_def sub_hash_ok_def)
  have "\<exists>m. complete_link demo_pipeline demo_call demo_rc demo_relink_record demo_identity_key (?s, demo_identity_tables) =
      (Link_Done demo_identity_key m, s2, T')"
    by (simp add: complete_link_def uid demo_lookup_user demo_known_user_ok a1 sel sp_link_external_identity_def t)
  then show thesis
    using demo_callback [OF demo_relink_decode, of demo_relink_store demo_identity_tables s1] a0 that by (auto simp: completion_def)
qed

section \<open>Guarantees\<close>

text \<open>No callback, whatever the provider answers and whatever it ends in, takes an identity from its
  user or breaks the tables.\<close>

lemma callback_keeps_identities:
  assumes "identity_wf (pl_collation P) T" and "handle_callback P r code state error iss (s, T) = (x, s', T')"
  shows "identity_wf (pl_collation P) T' \<and>
    (\<forall>ns h k. identity_owner (pl_collation P) ns h T = Some k \<longrightarrow> identity_owner (pl_collation P) ns h T' = Some k)"
  using assms(2)
proof (cases rule: handle_callback_cases)
  case (2 st rec rc i key s4)
  with completion_keeps [OF 2(3)] assms(1) show ?thesis by (simp add: keeps_identities_def)
qed (simp add: assms(1))

lemma callback_keeps_identities_witness:
  "\<exists>x s' T'. handle_callback demo_pipeline demo_call (Some ''code'') (Some demo_state) None None
      (demo_state_at demo_login_payload mem_empty, demo_identity_tables) = (x, s', T') \<and> identity_wf id T' \<and>
    identity_owner id ''google'' (replicate 32 CHR ''h'') T' = Some ''u1''"
proof (rule demo_logged_in)
  fix pair s' T'
  assume h: "handle_callback demo_pipeline demo_call (Some ''code'') (Some demo_state) None None
      (demo_state_at demo_login_payload mem_empty, demo_identity_tables) = (Login_Done pair demo_known_user demo_project [JObj demo_project] [], s', T')"
  have K: "pl_collation demo_pipeline = id" by (simp add: demo_pipeline_def)
  from callback_keeps_identities [OF _ h, unfolded K, OF demo_identity_wf] demo_identity_owner h show ?thesis by blast
qed

text \<open>C21. A callback that logs somebody in consumed a login state whose connection permits logins, and
  the provider vouched for the identity. The user is an active consumer and the owner of exactly this
  identity: the user it already belonged to, or a new account where auto-creation is permitted and the
  identity belonged to nobody; no e-mail address selects an account. The tokens are issued for the
  project the flow was started for, which is active and accessible to the user.\<close>

theorem oauth_login_sound:
  assumes "identity_wf (pl_collation P) T"
    and "handle_callback P r code state error iss (s, T) = (Login_Done pair user project accessible groups, s', T')"
  shows "\<exists>st rec rc i key s4 u bound roles ids.
    state = Some st \<and> callback_reaches P r code st iss (s, T) rec rc i key s4 \<and>
    rec_purpose rec \<notin> {''link'', ''reauth''} \<and> pb_login_enabled (rc_binding rc) \<and>
    dget user ''id'' = JStr u \<and> is_active_consumer user \<and>
    identity_owner (pl_collation P) (ik_identity_namespace key) (ik_sub_hash key) T' = Some (pl_collation P u) \<and>
    (identity_owner (pl_collation P) (ik_identity_namespace key) (ik_sub_hash key) T = Some (pl_collation P u) \<or>
     identity_owner (pl_collation P) (ik_identity_namespace key) (ik_sub_hash key) T = None \<and> can_auto_create (rc_binding rc) \<and>
       (\<forall>v\<in>set (it_users T). pl_collation P (u_id v) \<noteq> pl_collation P u)) \<and>
    oauth_bound_project_hash (rec_oauth_binding rec) = Some bound \<and> get_project_by_hash (pl_hooks P T') bound = Some project \<and>
    (\<exists>d. JObj d \<in> set accessible \<and> dget d ''project_hash'' = JStr bound) \<and> project_is_active_for_auth project \<and>
    issue_project_token_pair (pl_world P) (rq_now r) (rq_ids r) (user_claims user) (project_claims project)
      (Some []) roles ids (rec_remember_me rec) s4 = (Inr pair, s')"
  using assms(2)
proof (cases rule: handle_callback_cases)
  case (2 st rec rc i key s4)
  have "rec_purpose rec \<noteq> ''link''" using 2(3) complete_link_kind [of P r rc rec key s4 T] by (auto simp: completion_def)
  moreover have "rec_purpose rec \<noteq> ''reauth''" using 2(3) complete_reauth_kind [of P r rc rec key s4 T]
    by (auto simp: completion_def split: if_splits)
  ultimately have "complete_login P r rc rec i key (s4, T) = (Login_Done pair user project accessible groups, s', T')"
    and p: "rec_purpose rec \<notin> {''link'', ''reauth''}"
    using 2(3) by (simp_all add: completion_def)
  from complete_loginD [OF assms(1) this(1)] show ?thesis using 2(1,2) p by metis
qed simp

theorem oauth_login_sound_witness:
  "\<exists>pair s' T' (rec :: state_record) (key :: identity_key). handle_callback demo_pipeline demo_call (Some ''code'') (Some demo_state) None None
      (demo_state_at demo_login_payload mem_empty, demo_identity_tables) =
    (Login_Done pair demo_known_user demo_project [JObj demo_project] [], s', T') \<and>
    oauth_bound_project_hash (rec_oauth_binding rec) \<noteq> None \<and>
    identity_owner id (ik_identity_namespace key) (ik_sub_hash key) T' \<noteq> None"
proof (rule demo_logged_in)
  fix pair s' T'
  assume h: "handle_callback demo_pipeline demo_call (Some ''code'') (Some demo_state) None None
      (demo_state_at demo_login_payload mem_empty, demo_identity_tables) = (Login_Done pair demo_known_user demo_project [JObj demo_project] [], s', T')"
  have K: "pl_collation demo_pipeline = id" by (simp add: demo_pipeline_def)
  from oauth_login_sound [OF _ h, unfolded K, OF demo_identity_wf]
  obtain rec :: state_record and key :: identity_key and u bound where
    "identity_owner id (ik_identity_namespace key) (ik_sub_hash key) T' = Some (id u)" "oauth_bound_project_hash (rec_oauth_binding rec) = Some bound"
    by blast
  with h show ?thesis by (metis option.distinct(1))
qed

text \<open>C22. A callback links an identity only for the user of the state record, on a session that is still
  authorized before and after the provider's answer and in the project of the binding; the identity
  belonged to nobody or already to this user, and no other identity changes hands. It confirms a
  reauthentication only when the identity belongs to the user of the record, and changes no table.\<close>

theorem oauth_link_reauth_sound:
  assumes "identity_wf (pl_collation P) T" and "handle_callback P r code state error iss (s, T) = (x, s', T')"
    and "x = Link_Done key0 m \<or> x = Reauth_Done"
  shows "\<exists>st rec rc i key s4.
    state = Some st \<and> callback_reaches P r code st iss (s, T) rec rc i key s4 \<and> record_user_id rec \<noteq> [] \<and>
    json_of (pb_project_hash (rc_binding rc)) = rec_project_hash rec \<and>
    authorize_oauth_session (pl_world P) (pl_store P) (pl_env P) (pl_digest P) (pl_hooks P T) (rq_now r)
      (rq_proof_id r) True rec (rq_schedule r True) s4 = (Inr (), s') \<and>
    (x = Reauth_Done \<longrightarrow> rec_purpose rec = ''reauth'' \<and> T' = T \<and>
      (\<exists>u. identity_owner (pl_collation P) (ik_identity_namespace key) (ik_sub_hash key) T = Some (pl_collation P u) \<and>
           clean_text (JStr u) = Some (record_user_id rec))) \<and>
    (x = Link_Done key0 m \<longrightarrow> rec_purpose rec = ''link'' \<and> can_link (rc_binding rc) \<and> key0 = key \<and>
      identity_owner (pl_collation P) (ik_identity_namespace key) (ik_sub_hash key) T' = Some (pl_collation P (record_user_id rec)) \<and>
      identity_owner (pl_collation P) (ik_identity_namespace key) (ik_sub_hash key) T \<in> {None, Some (pl_collation P (record_user_id rec))} \<and>
      (\<forall>ns h. pl_collation P ns \<noteq> pl_collation P (ik_identity_namespace key) \<or> h \<noteq> ik_sub_hash key \<longrightarrow>
         identity_owner (pl_collation P) ns h T' = identity_owner (pl_collation P) ns h T))"
  using assms(2)
proof (cases rule: handle_callback_cases)
  case 1
  with assms(3) show ?thesis by auto
next
  case (2 st rec rc i key s4)
  let ?K = "pl_collation P"
  from assms(3) show ?thesis
  proof
    assume x: "x = Link_Done key0 m"
    with 2(3) complete_reauth_kind [of P r rc rec key s4 T] complete_login_kind [of P r rc rec i key s4 T]
    have p: "rec_purpose rec = ''link''" and l: "complete_link P r rc rec key (s4, T) = (Link_Done key0 m, s', T')"
      by (auto simp: completion_def split: if_splits)
    note d = complete_linkD [OF l]
    then have t: "link_tables ?K (rq_now r) (rq_account_id r) (record_user_id rec) key (cc_connection_id (rc_config rc)) T = Inr T'"
      by simp
    have "identity_owner ?K (ik_identity_namespace key) (ik_sub_hash key) T \<in> {None, Some (?K (record_user_id rec))}"
      using link_owner [OF t] link_tables_keeps [OF t]
      by (cases "identity_owner ?K (ik_identity_namespace key) (ik_sub_hash key) T") (auto simp: keeps_identities_def)
    with 2(1,2) x p d pipeline_authorize_ok [of P r rc rec True s4 T s'] link_owner [OF t] link_other_owner [OF t]
    show ?thesis by (intro exI [of _ st] exI [of _ rec] exI [of _ rc] exI [of _ i] exI [of _ key] exI [of _ s4]) simp
  next
    assume x: "x = Reauth_Done"
    with 2(3) complete_link_kind [of P r rc rec key s4 T] complete_login_kind [of P r rc rec i key s4 T]
    have p: "rec_purpose rec = ''reauth''" and l: "complete_reauth P r rc rec key (s4, T) = (Reauth_Done, s', T')"
      by (auto simp: completion_def split: if_splits)
    obtain d where d: "sp_get_user_by_external_identity ?K (ik_identity_namespace key) (ik_sub_hash key) T = Inr (Some d)"
      "text_of d ''id'' = Some (record_user_id rec)" "record_user_id rec \<noteq> []" "pipeline_authorize P r rc rec True (s4, T) = (None, s')"
      using complete_reauthD [OF l] by blast
    obtain u a where u: "d = user_account_dict ?K T u a"
      "identity_owner ?K (ik_identity_namespace key) (ik_sub_hash key) T = Some (?K (u_id u))"
      using get_user_owner [OF assms(1) d(1)] by metis
    from u(1) d(2) have "clean_text (JStr (u_id u)) = Some (record_user_id rec)" by (simp add: text_of_def)
    with 2(1,2) x p d u pipeline_authorize_ok [OF d(4)] complete_reauth_same [OF l]
    show ?thesis by (intro exI [of _ st] exI [of _ rec] exI [of _ rc] exI [of _ i] exI [of _ key] exI [of _ s4]) auto
  qed
qed

theorem oauth_link_reauth_sound_witness:
  "\<exists>m s' T' (rec :: state_record). handle_callback demo_pipeline demo_call (Some ''code'') (Some demo_state) None None
      (demo_state_at demo_relink_payload demo_relink_store, demo_identity_tables) = (Link_Done demo_identity_key m, s', T') \<and>
    rec_purpose rec = ''link'' \<and> identity_owner id ''google'' (replicate 32 CHR ''h'') T' = Some (record_user_id rec)"
proof (rule demo_linked)
  fix m s' T'
  assume h: "handle_callback demo_pipeline demo_call (Some ''code'') (Some demo_state) None None
      (demo_state_at demo_relink_payload demo_relink_store, demo_identity_tables) = (Link_Done demo_identity_key m, s', T')"
  have K: "pl_collation demo_pipeline = id" by (simp add: demo_pipeline_def)
  have k: "ik_identity_namespace demo_identity_key = ''google''" "ik_sub_hash demo_identity_key = replicate 32 CHR ''h''"
    by (simp_all add: demo_identity_key_def)
  have "\<exists>rec :: state_record. rec_purpose rec = ''link'' \<and>
      identity_owner id (ik_identity_namespace demo_identity_key) (ik_sub_hash demo_identity_key) T' = Some (record_user_id rec)"
    using oauth_link_reauth_sound [OF _ h, unfolded K, OF demo_identity_wf, of demo_identity_key m] by (metis id_apply)
  with h k show ?thesis by auto
qed

end
