(* ===== verification/OAuth_Start.thy ===== *)
theory OAuth_Start
  imports OAuth_Callback
begin

text \<open>
  How a provider round trip starts, and how an identity is unlinked: the init tokens of
  \<^verbatim>\<open>src/src/Util/oauth/init_tokens.py\<close>, \<^verbatim>\<open>src/src/Util/oauth/start.py\<close>, \<^verbatim>\<open>begin_authorization\<close> and \<^verbatim>\<open>unlink\<close> of
  \<^verbatim>\<open>src/src/Util/oauth/pipeline.py\<close>, the recent-authentication checks of \<^verbatim>\<open>src/src/Util/auth_flow.py\<close> and the handlers
  of \<^verbatim>\<open>src/src/routes/auth_oauth.py\<close>. Redis answers; the digest of addresses and user agents, random material and
  the API-key check are arguments.
\<close>

section \<open>Answers\<close>

text \<open>A result, \<^verbatim>\<open>oauth_error_response\<close> with its status and \<^verbatim>\<open>Retry-After\<close>, or an exception that escapes the handler.\<close>

datatype 'a answer = Answered 'a | Refused oauth_code int "int option" | Escaped

definition refuse :: "oauth_code \<Rightarrow> 'a answer" where
  "refuse c = Refused c (oauth_http_status c) None"

definition too_many :: "rate_limit_exceeded \<Rightarrow> 'a answer" where
  "too_many e = Refused OAUTH_RATE_LIMITED 429 (Some (max 1 (if rx_retry_after e = 0 then 1 else rx_retry_after e)))"

section \<open>Init tokens\<close>

definition OAUTH_INIT_TOKEN_PREFIX :: string where "OAUTH_INIT_TOKEN_PREFIX = ''oauth_init:''"

definition OAUTH_INIT_TOKEN_CONSUMED_PREFIX :: string where "OAUTH_INIT_TOKEN_CONSUMED_PREFIX = ''oauth_init_consumed:''"

definition DEFAULT_INIT_TOKEN_TTL_SECONDS :: int where "DEFAULT_INIT_TOKEN_TTL_SECONDS = 300"

definition INIT_RECORD_VERSION :: int where "INIT_RECORD_VERSION = 1"

definition write_record ::
    "'s oauth_redis \<Rightarrow> oauth_env \<Rightarrow> string \<Rightarrow> string \<Rightarrow> dict \<Rightarrow> int \<Rightarrow> 's \<Rightarrow> unit oauth_result \<times> 's" where
  "write_record Q E prefix secret payload ttl_seconds s =
     (case o_setnx Q (oauth_key E prefix secret) (JObj payload) (max 1 ttl_seconds) s of
        (True, s') \<Rightarrow> (Inr (), s')
      | (False, s') \<Rightarrow> (Inl (StateInvalid ''OAuth state collision''), s'))"

record init_token_record =
  in_connection_id :: string
  in_binding_id :: string
  in_connection_key :: string
  in_purpose :: string
  in_project_hash :: string
  in_return_origin :: string
  in_remember_me :: bool
  in_fingerprint :: string

definition mint_ttl :: "int option \<Rightarrow> int" where
  "mint_ttl ttl_seconds =
     max 1 (min (case ttl_seconds of Some t \<Rightarrow> if t = 0 then DEFAULT_INIT_TOKEN_TTL_SECONDS else t | None \<Rightarrow> DEFAULT_INIT_TOKEN_TTL_SECONDS)
              MAX_OAUTH_STATE_TTL_SECONDS)"

text \<open>The entries of the binding replace the four the store adds.\<close>

definition init_payload :: "oauth_env \<Rightarrow> int \<Rightarrow> int \<Rightarrow> string \<Rightarrow> dict \<Rightarrow> dict" where
  "init_payload E now ttl token binding =
     [''version'' \<mapsto> JInt INIT_RECORD_VERSION, ''fingerprint'' \<mapsto> JStr (fingerprint_oauth_value E 12 token),
      ''created_at'' \<mapsto> JTime now, ''expires_at'' \<mapsto> JTime (now + ttl * us_per_second)] ++ binding"

definition mint ::
    "'s oauth_redis \<Rightarrow> oauth_env \<Rightarrow> int \<Rightarrow> string \<Rightarrow> dict \<Rightarrow> int option \<Rightarrow> 's \<Rightarrow> (string \<times> int) oauth_result \<times> 's" where
  "mint Q E now token binding ttl_seconds s =
     (let ttl = mint_ttl ttl_seconds
      in case write_record Q E OAUTH_INIT_TOKEN_PREFIX token (init_payload E now ttl token binding) ttl s of
           (Inl e, s') \<Rightarrow> (Inl e, s')
         | (Inr _, s') \<Rightarrow> (Inr (token, ttl), s'))"

text \<open>\<open>None\<close> is the \<^verbatim>\<open>ValueError\<close> of a version that is not a number, which nothing catches.\<close>

definition init_record_of :: "oauth_env \<Rightarrow> string \<Rightarrow> dict \<Rightarrow> oauth_error option + init_token_record" where
  "init_record_of E token p =
     (case py_int (py_or (dget p ''version'') (JInt 0)) of
        None \<Rightarrow> Inl None
      | Some version \<Rightarrow>
          if version \<noteq> INIT_RECORD_VERSION \<or>
             list_ex (\<lambda>n. \<not> truthy (dget p n)) [''connection_id'', ''binding_id'', ''connection_key'', ''project_hash'', ''return_origin'']
          then Inl (Some (StateInvalid ''OAuth init token payload is malformed''))
          else Inr \<lparr>in_connection_id = py_str (dget p ''connection_id''), in_binding_id = py_str (dget p ''binding_id''),
                    in_connection_key = py_str (dget p ''connection_key''), in_purpose = py_str (py_or (dget p ''purpose'') (JStr ''login'')),
                    in_project_hash = py_str (dget p ''project_hash''), in_return_origin = py_str (dget p ''return_origin''),
                    in_remember_me = truthy (dget_default p ''remember_me'' (JBool False)),
                    in_fingerprint = py_str (py_or (dget p ''fingerprint'') (JStr (fingerprint_oauth_value E 12 token)))\<rparr>)"

definition consume_init ::
    "'s oauth_redis \<Rightarrow> oauth_env \<Rightarrow> string \<Rightarrow> 's \<Rightarrow> (oauth_error option + init_token_record) \<times> 's" where
  "consume_init Q E token s =
     (case consume_record Q E OAUTH_INIT_TOKEN_PREFIX OAUTH_INIT_TOKEN_CONSUMED_PREFIX token ''init token'' s of
        (Inl e, s') \<Rightarrow> (Inl (Some e), s')
      | (Inr payload, s') \<Rightarrow> (init_record_of E token payload, s'))"

section \<open>Beginning an authorization\<close>

record authorization_start =
  as_resolved :: resolved_connection
  as_purpose :: string
  as_project_hash :: string
  as_redirect_uri :: string
  as_return_origin :: "string option"
  as_remember_me :: bool
  as_init_fingerprint :: "string option"
  as_user_id :: "string option"
  as_session_id :: "string option"
  as_prompt :: "string option"
  as_authorization :: "session_authorization option"

text \<open>What one start brings besides the request: random material, the PKCE digest and the digest of \<^verbatim>\<open>hash_surface\<close>.\<close>

record start_env =
  se_material :: oauth_material
  se_challenge :: "string \<Rightarrow> string"
  se_surface :: "string \<Rightarrow> string"
  se_user_agent :: "string option"

definition start_binding :: "('s, 't, 'k, 'c) pipeline \<Rightarrow> 's oauth_call \<Rightarrow> start_env \<Rightarrow> authorization_start \<Rightarrow> dict" where
  "start_binding P r v a =
     (let rc = as_resolved a
      in [''provider'' \<mapsto> JStr (cc_provider_type (rc_config rc)), ''purpose'' \<mapsto> JStr (as_purpose a),
          ''connection_id'' \<mapsto> JStr (cc_connection_id (rc_config rc)), ''binding_id'' \<mapsto> JStr (pb_binding_id (rc_binding rc)),
          ''expected_issuer'' \<mapsto> json_of (case cc_issuers (rc_config rc) of [] \<Rightarrow> None | i # _ \<Rightarrow> Some i),
          ''delivery_mode'' \<mapsto> JStr (pb_delivery_mode (rc_binding rc)), ''project_hash'' \<mapsto> JStr (as_project_hash a),
          ''return_origin'' \<mapsto> json_of (as_return_origin a), ''redirect_uri'' \<mapsto> JStr (as_redirect_uri a),
          ''prompt'' \<mapsto> json_of (as_prompt a), ''remember_me'' \<mapsto> JBool (as_remember_me a),
          ''user_id'' \<mapsto> json_of (as_user_id a), ''session_id'' \<mapsto> json_of (as_session_id a),
          ''authorization'' \<mapsto> (case as_authorization a of Some z \<Rightarrow> asdict_authorization z | None \<Rightarrow> JNull),
          ''init_token_fingerprint'' \<mapsto> json_of (as_init_fingerprint a), ''scope_fingerprint'' \<mapsto> JNull,
          ''ip_hash'' \<mapsto> JStr (se_surface v (client_ip P r)),
          ''ua_hash'' \<mapsto> JStr (se_surface v (case se_user_agent v of Some u \<Rightarrow> u | None \<Rightarrow> []))])"

definition start_ttl :: "('s, 't, 'k, 'c) pipeline \<Rightarrow> resolved_connection \<Rightarrow> int" where
  "start_ttl P rc =
     (let ceiling = max_state_ttl_seconds (pl_env P)
      in min (case pb_state_ttl_seconds (rc_binding rc) of Some t \<Rightarrow> if t = 0 then ceiling else t | None \<Rightarrow> ceiling) ceiling)"

text \<open>The redirect and the binding cookie; \<open>None\<close> is any exception of the store or of the adapter.\<close>

definition begin_authorization ::
    "('s, 't, 'k, 'c) pipeline \<Rightarrow> 's oauth_call \<Rightarrow> start_env \<Rightarrow> authorization_start \<Rightarrow> 's \<Rightarrow>
     (string \<times> state_created) option \<times> 's" where
  "begin_authorization P r v a s =
     (case create_state (pl_store P) (pl_env P) (se_challenge v) (rq_now r) (se_material v) (start_binding P r v a)
             (Some (start_ttl P (as_resolved a))) s of
        (Inl _, s') \<Rightarrow> (None, s')
      | (Inr created, s') \<Rightarrow>
          let tx = \<lparr>tx_state = created_state created, tx_nonce = created_nonce created,
                    tx_code_verifier = created_code_verifier created, tx_code_challenge = created_code_challenge created,
                    tx_redirect_uri = as_redirect_uri a, tx_purpose = as_purpose a, tx_prompt = json_of (as_prompt a)\<rparr>
          in (case build_authorization_url (pl_adapter P (as_resolved a)) (rc_config (as_resolved a)) tx of
                None \<Rightarrow> None | Some url \<Rightarrow> Some (url, created), s'))"

section \<open>Starting from an init token\<close>

definition FORBIDDEN_BROWSER_STRICT_FIELDS :: "string list" where
  "FORBIDDEN_BROWSER_STRICT_FIELDS = [''project_hash'', ''user_group_hash'']"

text \<open>\<open>None\<close> is a body that is not JSON.\<close>

definition read_json_object :: "json option \<Rightarrow> dict option" where
  "read_json_object body = (case body of None \<Rightarrow> Some Map.empty | Some (JObj d) \<Rightarrow> Some d | Some _ \<Rightarrow> None)"

definition body_text :: "dict \<Rightarrow> string \<Rightarrow> string \<Rightarrow> string" where
  "body_text body k d = str_strip (py_str (py_or (dget body k) (JStr d)))"

definition pick_redirect_uri :: "resolved_connection \<Rightarrow> string option \<Rightarrow> string option" where
  "pick_redirect_uri rc requested =
     (case requested of
        Some (c # u) \<Rightarrow> if is_redirect_uri_allowed (rc_binding rc) (c # u) then Some (c # u) else None
      | _ \<Rightarrow> (case sole_redirect_uri (rc_binding rc) of Some (c # u) \<Rightarrow> Some (c # u) | _ \<Rightarrow> None))"

definition begin_start ::
    "('s, 't, 'k, 'c) pipeline \<Rightarrow> 's oauth_call \<Rightarrow> start_env \<Rightarrow> authorization_start \<Rightarrow> 's \<Rightarrow>
     (string \<times> state_created) answer \<times> 's" where
  "begin_start P r v a s =
     (case begin_authorization P r v a s of
        (Some x, s') \<Rightarrow> (Answered x, s')
      | (None, s') \<Rightarrow> (refuse OAUTH_PROVIDER_NOT_CONFIGURED, s'))"

definition start_of_record :: "init_token_record \<Rightarrow> resolved_connection \<Rightarrow> string \<Rightarrow> dict \<Rightarrow> authorization_start" where
  "start_of_record rec rc redirect_uri body =
     \<lparr>as_resolved = rc, as_purpose = (if in_purpose rec = [] then ''login'' else in_purpose rec),
      as_project_hash = in_project_hash rec, as_redirect_uri = redirect_uri, as_return_origin = Some (in_return_origin rec),
      as_remember_me = (case dget body ''remember_me'' of JBool b \<Rightarrow> b | _ \<Rightarrow> in_remember_me rec),
      as_init_fingerprint = Some (in_fingerprint rec), as_user_id = None, as_session_id = None, as_prompt = None,
      as_authorization = None\<rparr>"

definition start_from_init_token ::
    "('s, 't, 'k, 'c) pipeline \<Rightarrow> 's oauth_call \<Rightarrow> start_env \<Rightarrow> json option \<Rightarrow> 's \<Rightarrow> (string \<times> state_created) answer \<times> 's" where
  "start_from_init_token P r v body s =
     (case read_json_object body of
        None \<Rightarrow> (Refused OAUTH_INIT_INVALID 400 None, s)
      | Some b \<Rightarrow>
          if list_ex (\<lambda>k. k \<in> dom b) FORBIDDEN_BROWSER_STRICT_FIELDS then (Refused OAUTH_INIT_INVALID 400 None, s)
          else
            let token = body_text b ''init_token'' []
            in if token = [] \<or> 512 < length token then (Refused OAUTH_INIT_INVALID 400 None, s)
               else (case limit_call P (Check_Start (Some (client_ip P r)) (Some (fingerprint_oauth_value (pl_env P) 12 token)) None) s of
                 (Inl e, s1) \<Rightarrow> (too_many e, s1)
               | (Inr _, s1) \<Rightarrow>
                   (case consume_init (pl_store P) (pl_env P) token s1 of
                      (Inl None, s2) \<Rightarrow> (Escaped, s2)
                    | (Inl (Some _), s2) \<Rightarrow> (Refused OAUTH_INIT_INVALID 401 None, s2)
                    | (Inr rec, s2) \<Rightarrow>
                        (case rq_source r (in_connection_id rec) (in_binding_id rec) of
                           Inl Row_Malformed \<Rightarrow> (Escaped, s2)
                         | Inl (Unavailable kind _) \<Rightarrow>
                             (if kind = ''disabled'' then Refused OAUTH_PROVIDER_DISABLED 403 None else refuse OAUTH_PROVIDER_NOT_CONFIGURED, s2)
                         | Inr rc \<Rightarrow>
                             (case pick_redirect_uri rc (Some (body_text b ''redirect_uri'' [])) of
                                None \<Rightarrow> (Refused OAUTH_REDIRECT_URI_NOT_ALLOWED 400 None, s2)
                              | Some uri \<Rightarrow>
                                  if \<not> is_return_origin_allowed (rc_binding rc) (in_return_origin rec)
                                  then (Refused OAUTH_REDIRECT_URI_NOT_ALLOWED 400 None, s2)
                                  else begin_start P r v (start_of_record rec rc uri b) s2)))))"

text \<open>\<^verbatim>\<open>oauth_start\<close> of the routes.\<close>

definition oauth_start ::
    "bool \<Rightarrow> ('s, 't, 'k, 'c) pipeline \<Rightarrow> 's oauth_call \<Rightarrow> start_env \<Rightarrow> json option \<Rightarrow> 's \<Rightarrow> (string \<times> state_created) answer \<times> 's" where
  "oauth_start globally_enabled P r v body s =
     (if \<not> globally_enabled then (Refused OAUTH_PROVIDER_DISABLED 403 None, s) else start_from_init_token P r v body s)"

section \<open>Recent authentication\<close>

definition recent_reauth_ttl :: "oauth_env \<Rightarrow> int" where
  "recent_reauth_ttl E = max 1 (recent_reauth_seconds E)"

definition access_token_claims :: "('s, 't) world \<Rightarrow> int \<Rightarrow> 't \<Rightarrow> dict option" where
  "access_token_claims W now token = (case decode_access_token (jwt W) now token of Inl _ \<Rightarrow> None | Inr claims \<Rightarrow> Some claims)"

definition access_token_session_id :: "('s, 't) world \<Rightarrow> int \<Rightarrow> 't \<Rightarrow> string option" where
  "access_token_session_id W now token =
     (case nonempty_doc (access_token_claims W now token) of
        None \<Rightarrow> None
      | Some claims \<Rightarrow> (case dget claims ''session_id'' of JNull \<Rightarrow> None | JStr [] \<Rightarrow> None | v \<Rightarrow> Some (py_str v)))"

definition access_token_has_recent_auth :: "('s, 't) world \<Rightarrow> oauth_env \<Rightarrow> int \<Rightarrow> 't \<Rightarrow> bool" where
  "access_token_has_recent_auth W E now token =
     (case nonempty_doc (access_token_claims W now token) of
        None \<Rightarrow> False
      | Some claims \<Rightarrow>
          (case py_int (py_or (dget claims ''reauth_at'') (dget claims ''auth_time'')) of
             None \<Rightarrow> False
           | Some at \<Rightarrow> 0 \<le> now div us_per_second - at \<and> now div us_per_second - at \<le> recent_reauth_ttl E))"

text \<open>
  As the OAuth routes call it: sensitive, without a password proof. \<open>False\<close> is the \<^verbatim>\<open>AuthenticationError\<close>.
\<close>

definition require_recent_reauthentication ::
    "('s, 't) world \<Rightarrow> 's oauth_redis \<Rightarrow> oauth_env \<Rightarrow> int \<Rightarrow> string \<Rightarrow> 't \<Rightarrow> string option \<Rightarrow> 's \<Rightarrow> bool" where
  "require_recent_reauthentication W Q E now user_id token session_id s =
     (access_token_has_recent_auth W E now token \<or>
      user_id \<noteq> [] \<and>
      has_recent_reauth Q E user_id (if given session_id then session_id else access_token_session_id W now token) s)"

text \<open>The freshest of the token's and the marker's proof; the token's wins a tie.\<close>

definition resolve_recent_authentication_proof ::
    "('s, 't) world \<Rightarrow> 's oauth_redis \<Rightarrow> oauth_env \<Rightarrow> (json \<Rightarrow> string) \<Rightarrow> int \<Rightarrow> string \<Rightarrow> 't \<Rightarrow> string \<Rightarrow> 's \<Rightarrow>
     recent_auth_proof option" where
  "resolve_recent_authentication_proof W Q E digest now user_id token session_id s =
     (let now_ms = now div 1000;
          claims = (case access_token_claims W now token of Some c \<Rightarrow> c | None \<Rightarrow> Map.empty);
          from_token = (case py_int (py_or (dget claims ''reauth_at'') (dget claims ''auth_time'')) of
             None \<Rightarrow> None
           | Some t \<Rightarrow>
               if t * 1000 \<le> now_ms \<and> now_ms < t * 1000 + recent_reauth_ttl E * 1000
               then Some \<lparr>proof_source = ''token'', authenticated_at_ms = t * 1000,
                          proof_expires_at_ms = t * 1000 + recent_reauth_ttl E * 1000, marker_fingerprint = JNull\<rparr>
               else None);
          marker = recent_reauth_proof Q E digest user_id session_id now_ms s
      in case (from_token, marker) of
           (Some p, Some m) \<Rightarrow> Some (if proof_expires_at_ms p < proof_expires_at_ms m then m else p)
         | (Some p, None) \<Rightarrow> Some p
         | (None, m) \<Rightarrow> m)"

section \<open>Server-to-server handlers\<close>

definition init_binding :: "resolved_connection \<Rightarrow> string \<Rightarrow> string \<Rightarrow> string \<Rightarrow> bool \<Rightarrow> dict" where
  "init_binding rc purpose project_hash return_origin remember_me =
     [''connection_id'' \<mapsto> JStr (cc_connection_id (rc_config rc)), ''binding_id'' \<mapsto> JStr (pb_binding_id (rc_binding rc)),
      ''connection_key'' \<mapsto> JStr (pb_connection_key (rc_binding rc)), ''purpose'' \<mapsto> JStr purpose,
      ''project_hash'' \<mapsto> JStr project_hash, ''return_origin'' \<mapsto> JStr return_origin, ''remember_me'' \<mapsto> JBool remember_me]"

text \<open>
  \<open>context\<close> is the answer of \<^verbatim>\<open>validate_api_key_context\<close>, \<open>None\<close> its \<^verbatim>\<open>HTTPException\<close>; \<open>source\<close> is \<^verbatim>\<open>get_binding\<close> of the
  connection source. The result is the token, its lifetime, the connection and the provider type.
\<close>

definition oauth_init ::
    "bool \<Rightarrow> dict option \<Rightarrow> (string option \<Rightarrow> string \<Rightarrow> connection_error + resolved_connection) \<Rightarrow> 's oauth_redis \<Rightarrow> oauth_env \<Rightarrow>
     int \<Rightarrow> string \<Rightarrow> json option \<Rightarrow> 's \<Rightarrow> (string \<times> int \<times> string \<times> string) answer \<times> 's" where
  "oauth_init globally_enabled context source Q E now token body s =
     (if \<not> globally_enabled then (Refused OAUTH_PROVIDER_DISABLED 403 None, s)
      else case context of
        None \<Rightarrow> (Escaped, s)
      | Some ctx \<Rightarrow>
          let project_hash = py_str (py_or (dget ctx ''project_hash'') (JStr []))
          in case read_json_object body of
               None \<Rightarrow> (Refused OAUTH_INIT_INVALID 400 None, s)
             | Some b \<Rightarrow>
                 if project_hash = [] \<or> list_ex (\<lambda>k. k \<in> dom b) [''project_hash'', ''user_group_hash'', ''project'', ''user_group'']
                 then (Refused OAUTH_INIT_INVALID 400 None, s)
                 else
                   let connection_key = str_lower (body_text b ''connection'' []); purpose = str_lower (body_text b ''purpose'' ''login'');
                       return_origin = body_text b ''return_origin'' []
                   in if connection_key = [] \<or> purpose \<noteq> ''login'' \<or> return_origin = [] then (Refused OAUTH_INIT_INVALID 400 None, s)
                      else (case source (Some project_hash) connection_key of
                        Inl Row_Malformed \<Rightarrow> (Escaped, s)
                      | Inl (Unavailable kind _) \<Rightarrow>
                          (refuse (if kind = ''disabled'' then OAUTH_PROVIDER_DISABLED else OAUTH_PROVIDER_NOT_CONFIGURED), s)
                      | Inr rc \<Rightarrow>
                          if given (pb_project_hash (rc_binding rc)) \<and> pb_project_hash (rc_binding rc) \<noteq> Some project_hash
                          then (Refused OAUTH_PROJECT_ACCESS_DENIED 403 None, s)
                          else if \<not> pb_login_enabled (rc_binding rc) then (Refused OAUTH_PROVIDER_DISABLED 403 None, s)
                          else if \<not> is_return_origin_allowed (rc_binding rc) return_origin
                          then (Refused OAUTH_REDIRECT_URI_NOT_ALLOWED 400 None, s)
                          else
                            (case mint Q E now token
                                    (init_binding rc purpose project_hash return_origin (truthy (dget_default b ''remember_me'' (JBool False))))
                                    (Some DEFAULT_INIT_TOKEN_TTL_SECONDS) s of
                               (Inl _, s') \<Rightarrow> (Escaped, s')
                             | (Inr (t, ttl), s') \<Rightarrow>
                                 (Answered (t, ttl, pb_connection_key (rc_binding rc), cc_provider_type (rc_config rc)), s'))))"

text \<open>\<^verbatim>\<open>str.title\<close> on ASCII text, as the provider types are.\<close>

fun title_from :: "bool \<Rightarrow> string \<Rightarrow> string" where
  "title_from inside [] = []"
| "title_from inside (c # t) =
     (let n = code_point c; low = 97 \<le> n \<and> n \<le> 122; up = 65 \<le> n \<and> n \<le> 90
      in (if low \<and> \<not> inside then char_of (n - 32) else if up \<and> inside then char_of (n + 32) else c) # title_from (low \<or> up) t)"

definition oauth_providers ::
    "bool \<Rightarrow> dict option \<Rightarrow> (string \<Rightarrow> resolved_connection list option) \<Rightarrow> (string \<times> string \<times> string) list answer" where
  "oauth_providers globally_enabled context bindings_of =
     (case context of
        None \<Rightarrow> Escaped
      | Some ctx \<Rightarrow>
          let project_hash = py_str (py_or (dget ctx ''project_hash'') (JStr []))
          in if \<not> globally_enabled \<or> project_hash = [] then Answered []
             else (case bindings_of project_hash of
                     None \<Rightarrow> Escaped
                   | Some rcs \<Rightarrow>
                       Answered (map (\<lambda>rc. (pb_connection_key (rc_binding rc), cc_provider_type (rc_config rc),
                           if cc_display_name (rc_config rc) = [] then title_from False (cc_provider_type (rc_config rc)) else cc_display_name (rc_config rc)))
                         (filter (\<lambda>rc. pb_enabled (rc_binding rc) \<and> pb_login_enabled (rc_binding rc)) rcs))))"

section \<open>Authenticated handlers\<close>

definition resolve_for_session ::
    "(string option \<Rightarrow> string \<Rightarrow> connection_error + resolved_connection) \<Rightarrow> dict \<Rightarrow> string \<Rightarrow> connection_error + resolved_connection" where
  "resolve_for_session source login connection_key =
     source (Some (py_str (py_or (dget login ''project_hash'') (JStr [])))) (str_lower (str_strip connection_key))"

text \<open>
  The redirect URI and the return origin of a link or a reauthentication. The refusal is always
  \<^verbatim>\<open>OAUTH_REDIRECT_URI_NOT_ALLOWED\<close>.
\<close>

definition session_targets :: "project_binding \<Rightarrow> json option \<Rightarrow> (string \<times> string option) option" where
  "session_targets b body =
     (let requested = body_text (case read_json_object body of Some d \<Rightarrow> d | None \<Rightarrow> Map.empty) ''return_origin'' []
      in case sole_redirect_uri b of
           Some (c # uri) \<Rightarrow>
             if requested \<noteq> [] \<and> \<not> is_return_origin_allowed b requested then None
             else
               let origin = (if requested \<noteq> [] then Some requested else sole_return_origin b)
               in if \<not> given origin \<and> pb_return_origins b \<noteq> [] then None else Some (c # uri, origin)
         | _ \<Rightarrow> None)"

definition session_start ::
    "resolved_connection \<Rightarrow> string \<Rightarrow> dict \<Rightarrow> dict \<Rightarrow> string \<Rightarrow> recent_auth_proof option \<Rightarrow> string \<times> string option \<Rightarrow> authorization_start" where
  "session_start rc purpose login claims user_id proof targets =
     (let project_hash = py_str (py_or (dget login ''project_hash'') (JStr [])); session_id = py_str (dget claims ''session_id'')
      in \<lparr>as_resolved = rc, as_purpose = purpose, as_project_hash = project_hash, as_redirect_uri = fst targets,
          as_return_origin = snd targets, as_remember_me = False, as_init_fingerprint = None, as_user_id = Some user_id,
          as_session_id = Some session_id, as_prompt = (if purpose = ''reauth'' then Some ''login'' else None),
          as_authorization = Some \<lparr>az_user_id = JStr user_id, az_user_hash = JStr (py_str (dget claims ''user_hash'')),
            az_session_id = JStr session_id, az_family_id = JStr (py_str (dget claims ''family_id'')),
            az_scope = JStr (py_str (dget claims ''scope'')), az_project_hash = (if project_hash = [] then JNull else JStr project_hash),
            az_proof = proof\<rparr>\<rparr>)"

text \<open>
  \<^verbatim>\<open>start_session_round_trip\<close>. The claims hold what the decoder requires: \<^verbatim>\<open>session_id\<close>, \<^verbatim>\<open>user_hash\<close>, \<^verbatim>\<open>family_id\<close>
  and \<^verbatim>\<open>scope\<close>.
\<close>

definition start_session_round_trip ::
    "('s, 't, 'k, 'c) pipeline \<Rightarrow> 's oauth_call \<Rightarrow> start_env \<Rightarrow> (string option \<Rightarrow> string \<Rightarrow> connection_error + resolved_connection) \<Rightarrow>
     db_hooks \<Rightarrow> 't \<Rightarrow> string \<Rightarrow> string \<Rightarrow> json option \<Rightarrow> 's \<Rightarrow> (string \<times> state_created) answer \<times> 's" where
  "start_session_round_trip P r v source D token connection_key purpose body s =
     (case validate_access_session (pl_world P) D (rq_now r) token s of
        (Inl _, s1) \<Rightarrow> (Refused OAUTH_PROVISIONING_DENIED 401 None, s1)
      | (Inr login, s1) \<Rightarrow>
          (case decode_access_token (jwt (pl_world P)) (rq_now r) token of
             Inl _ \<Rightarrow> (Refused OAUTH_PROVISIONING_DENIED 401 None, s1)
           | Inr claims \<Rightarrow>
               let user_id = py_str (py_or (dget login ''user_id'') (JStr []))
               in if user_id = [] then (Refused OAUTH_PROVISIONING_DENIED 401 None, s1)
                  else (case resolve_for_session source login connection_key of
                    Inl Row_Malformed \<Rightarrow> (Escaped, s1)
                  | Inl (Unavailable kind _) \<Rightarrow>
                      (refuse (if kind = ''disabled'' then OAUTH_PROVIDER_DISABLED else OAUTH_PROVIDER_NOT_CONFIGURED), s1)
                  | Inr rc \<Rightarrow>
                      let proof = (if purpose = ''link'' then resolve_recent_authentication_proof (pl_world P) (pl_store P) (pl_env P) (pl_digest P)
                                     (rq_now r) user_id token (py_str (dget claims ''session_id'')) s1 else None)
                      in if purpose = ''link'' \<and> (\<not> can_link (rc_binding rc) \<or> proof = None)
                         then (Refused OAUTH_PROVISIONING_DENIED 401 None, s1)
                         else (case session_targets (rc_binding rc) body of
                           None \<Rightarrow> (Refused OAUTH_REDIRECT_URI_NOT_ALLOWED 400 None, s1)
                         | Some targets \<Rightarrow>
                             (case begin_authorization P r v (session_start rc purpose login claims user_id proof targets) s1 of
                                (Some x, s2) \<Rightarrow> (Answered x, s2)
                              | (None, s2) \<Rightarrow> (Refused OAUTH_STATE_INVALID 401 None, s2))))))"

section \<open>Unlinking\<close>

definition has_usable_fallback_auth :: "dict option \<Rightarrow> bool" where
  "has_usable_fallback_auth user =
     (case user of
        None \<Rightarrow> False
      | Some u \<Rightarrow>
          (case text_of u ''password_hash'' of
             None \<Rightarrow> False
           | Some h \<Rightarrow> \<not> list_ex (\<lambda>m. occurs_in m (str_lower h)) [''oauth-disabled'', ''passwordless'', ''placeholder'']))"

text \<open>The login data carry the presented token.\<close>

definition session_id_of :: "('s, 't) world \<Rightarrow> int \<Rightarrow> dict \<Rightarrow> 't \<Rightarrow> string option" where
  "session_id_of W now login token =
     (case text_of login ''session_id'' of
        Some i \<Rightarrow> Some i
      | None \<Rightarrow> (case access_token_session_id W now token of Some i \<Rightarrow> Some i | None \<Rightarrow> Some (jwt_text (jwt W) token)))"

text \<open>\<open>user_row\<close> is \<^verbatim>\<open>get_user_by_hash\<close> of the database, \<open>like\<close> its \<^verbatim>\<open>LIKE\<close>. The answer is the revoked user.\<close>

definition unlink ::
    "('s, 't, 'k, 'c) pipeline \<Rightarrow> 's oauth_call \<Rightarrow> (string \<Rightarrow> string \<Rightarrow> bool) \<Rightarrow> (string \<Rightarrow> dict option) \<Rightarrow> resolved_connection \<Rightarrow>
     dict \<Rightarrow> 't \<Rightarrow> 's \<times> identity_tables \<Rightarrow> string answer \<times> 's \<times> identity_tables" where
  "unlink P r like user_row rc login token st =
     (case st of (s, T) \<Rightarrow>
        let user_id = py_str (py_or (dget login ''user_id'') (JStr []))
        in if user_id = [] then (Refused EXTERNAL_IDENTITY_NOT_LINKED 404 None, s, T)
           else if \<not> require_recent_reauthentication (pl_world P) (pl_store P) (pl_env P) (rq_now r) user_id token
                     (session_id_of (pl_world P) (rq_now r) login token) s
           then (Refused EXTERNAL_IDENTITY_NOT_LINKED 401 None, s, T)
           else (case limit_call P (Check_Unlink_Attempt user_id (Some (client_ip P r)) None) s of
             (Inl e, s1) \<Rightarrow> (too_many e, s1, T)
           | (Inr _, s1) \<Rightarrow>
               if \<not> has_usable_fallback_auth (case text_of login ''user_hash'' of Some h \<Rightarrow> user_row h | None \<Rightarrow> None)
               then (Refused OAUTH_PASSWORD_REQUIRED_FOR_UNLINK 409 None, s1, T)
               else (case sp_unlink_external_identity (pl_collation P) like (rq_now r) user_id (cc_provider_type (rc_config rc))
                            (cc_identity_namespace (rc_config rc)) user_id ''user_unlink'' T of
                       (0, T1) \<Rightarrow> (Refused EXTERNAL_IDENTITY_NOT_LINKED 404 None, s1, T1)
                     | (Suc _, T1) \<Rightarrow>
                         (Answered user_id,
                          revoke_user_auth_state (redis (pl_world P)) (rq_now r) user_id (cc_provider_type (rc_config rc) @ ''_oauth_account_unlinked'') s1,
                          T1))))"

definition oauth_unlink ::
    "('s, 't, 'k, 'c) pipeline \<Rightarrow> 's oauth_call \<Rightarrow> (string \<Rightarrow> string \<Rightarrow> bool) \<Rightarrow> (string \<Rightarrow> dict option) \<Rightarrow>
     (string option \<Rightarrow> string \<Rightarrow> connection_error + resolved_connection) \<Rightarrow> db_hooks \<Rightarrow> 't \<Rightarrow> string \<Rightarrow> 's \<times> identity_tables \<Rightarrow>
     string answer \<times> 's \<times> identity_tables" where
  "oauth_unlink P r like user_row source D token connection_key st =
     (case st of (s, T) \<Rightarrow>
        (case validate_access_session (pl_world P) D (rq_now r) token s of
           (Inl _, s1) \<Rightarrow> (Refused EXTERNAL_IDENTITY_NOT_LINKED 401 None, s1, T)
         | (Inr login, s1) \<Rightarrow>
             (case resolve_for_session source login connection_key of
                Inl Row_Malformed \<Rightarrow> (Refused EXTERNAL_IDENTITY_NOT_LINKED 401 None, s1, T)
              | Inl (Unavailable _ _) \<Rightarrow> (Refused EXTERNAL_IDENTITY_NOT_LINKED 404 None, s1, T)
              | Inr rc \<Rightarrow> unlink P r like user_row rc login token (s1, T))))"


section \<open>Init tokens are single-use\<close>

context oauth_store
begin

lemma consume_record_Inr:
  assumes "consume_record Q E prefix consumed_prefix secret label s = (Inr p, s')"
  shows "o_get Q s (oauth_key E prefix secret) = Some (JObj p)"
    and "o_get Q s' k = (if k = oauth_key E consumed_prefix secret then Some (JStr ''1'')
           else if k = oauth_key E prefix secret then None else o_get Q s k)"
proof -
  obtain v s1 where g: "o_getdel Q (oauth_key E prefix secret) s = (Some v, s1)"
    using assms by (auto simp: consume_record_def Let_def split: sum.splits prod.splits option.splits if_splits)
  then have v: "json_loads (Some v) = Inr p" "s' = o_set Q (oauth_key E consumed_prefix secret) (JStr ''1'') MAX_OAUTH_STATE_TTL_SECONDS s1"
    using assms by (auto simp: consume_record_def Let_def split: sum.splits)
  from v(1) have "v = JObj p" by (cases v) (auto simp: json_loads_def)
  with g o_getdel_fst [of "oauth_key E prefix secret" s] show "o_get Q s (oauth_key E prefix secret) = Some (JObj p)" by simp
  show "o_get Q s' k = (if k = oauth_key E consumed_prefix secret then Some (JStr ''1'')
           else if k = oauth_key E prefix secret then None else o_get Q s k)"
    using o_getdel_snd [of "oauth_key E prefix secret" s k] g v(2) by (simp add: o_get_set MAX_OAUTH_STATE_TTL_SECONDS_def)
qed

lemma consume_record_missing:
  assumes "o_get Q s (oauth_key E prefix secret) = None"
  shows "\<exists>e. fst (consume_record Q E prefix consumed_prefix secret label s) = Inl e"
proof -
  obtain s1 where "o_getdel Q (oauth_key E prefix secret) s = (None, s1)"
    using o_getdel_fst [of "oauth_key E prefix secret" s] assms by (metis prod.collapse)
  then show ?thesis by (auto simp: consume_record_def Let_def split: sum.splits)
qed

lemma mint_Inr:
  assumes "mint Q E now token binding ttl s = (Inr (t, n), s')"
  shows "t = token" and "n = mint_ttl ttl"
    and "o_get Q s' k = (if k = oauth_key E OAUTH_INIT_TOKEN_PREFIX token then Some (JObj (init_payload E now n token binding)) else o_get Q s k)"
  using assms by (auto simp: mint_def write_record_def Let_def o_get_setnx o_get_set split: sum.splits prod.splits bool.splits if_splits)

lemma create_login_stored:
  assumes "create_state Q E challenge now mat binding ttl s = (Inr c, s')" and "dget_default binding ''purpose'' (JStr ''login'') = JStr ''login''"
  obtains e where "o_get Q s' k = (if k = oauth_key E OAUTH_STATE_PREFIX (mat_state mat)
      then Some (JObj (state_payload E challenge now mat binding None JNull e)) else o_get Q s k)" and "created_state c = mat_state mat"
proof -
  let ?t = "clamp_ttl ttl (max_state_ttl_seconds E)"
  have "state_authorization E now ?t (mat_state mat) binding = Inr (None, JNull, (now + ?t * us_per_second) div 1000)"
    using assms(2) by (simp add: state_authorization_def Let_def)
  with assms(1) that show thesis
    by (auto simp: create_state_def Let_def o_get_setnx o_get_set split: prod.splits bool.splits if_splits)
qed

end

lemma init_keys [simp]:
  "oauth_key E OAUTH_INIT_TOKEN_PREFIX a \<noteq> oauth_key E OAUTH_INIT_TOKEN_CONSUMED_PREFIX b"
  "oauth_key E OAUTH_STATE_PREFIX a \<noteq> oauth_key E OAUTH_INIT_TOKEN_PREFIX b"
  "oauth_key E OAUTH_INIT_TOKEN_PREFIX a \<noteq> oauth_key E OAUTH_STATE_PREFIX b"
  by (simp_all add: oauth_key_def OAUTH_INIT_TOKEN_PREFIX_def OAUTH_INIT_TOKEN_CONSUMED_PREFIX_def OAUTH_STATE_PREFIX_def)

section \<open>Starting\<close>

lemma begin_authorizationD:
  assumes "begin_authorization P r v a s = (Some (url, created), s')"
  shows "create_state (pl_store P) (pl_env P) (se_challenge v) (rq_now r) (se_material v) (start_binding P r v a)
    (Some (start_ttl P (as_resolved a))) s = (Inr created, s')"
  using assms by (auto simp: begin_authorization_def Let_def split: sum.splits prod.splits option.splits)

lemma pick_redirect_uri_allowed: "pick_redirect_uri rc requested = Some uri \<Longrightarrow> is_redirect_uri_allowed (rc_binding rc) uri"
  by (auto simp: pick_redirect_uri_def is_redirect_uri_allowed_def sole_redirect_uri_def sole_def
      split: option.splits list.splits if_splits)

text \<open>A redirect is the answer only after all checks of the handler.\<close>

lemma start_from_init_tokenD:
  assumes "start_from_init_token P r v body s = (Answered (url, created), s')"
  obtains b token d s1 rec s2 rc uri where "read_json_object body = Some b" and "token = body_text b ''init_token'' []"
    and "limit_call P (Check_Start (Some (client_ip P r)) (Some (fingerprint_oauth_value (pl_env P) 12 token)) None) s = (Inr d, s1)"
    and "consume_init (pl_store P) (pl_env P) token s1 = (Inr rec, s2)"
    and "rq_source r (in_connection_id rec) (in_binding_id rec) = Inr rc"
    and "is_redirect_uri_allowed (rc_binding rc) uri" and "is_return_origin_allowed (rc_binding rc) (in_return_origin rec)"
    and "begin_authorization P r v (start_of_record rec rc uri b) s2 = (Some (url, created), s')"
proof -
  obtain b where b: "read_json_object body = Some b" "\<not> list_ex (\<lambda>k. k \<in> dom b) FORBIDDEN_BROWSER_STRICT_FIELDS"
    using assms by (auto simp: start_from_init_token_def split: option.splits if_splits)
  define token where "token = body_text b ''init_token'' []"
  have tk: "\<not> (token = [] \<or> 512 < length token)"
    using assms b by (auto simp: start_from_init_token_def token_def Let_def split: if_splits)
  obtain d s1 where l: "limit_call P (Check_Start (Some (client_ip P r)) (Some (fingerprint_oauth_value (pl_env P) 12 token)) None) s = (Inr d, s1)"
    using assms b tk by (auto simp: start_from_init_token_def token_def [symmetric] Let_def too_many_def split: prod.splits sum.splits)
  obtain rec s2 where c: "consume_init (pl_store P) (pl_env P) token s1 = (Inr rec, s2)"
    using assms b tk l by (auto simp: start_from_init_token_def token_def [symmetric] Let_def split: prod.splits sum.splits option.splits)
  obtain rc where rc: "rq_source r (in_connection_id rec) (in_binding_id rec) = Inr rc"
    using assms b tk l c
    by (auto simp: start_from_init_token_def token_def [symmetric] Let_def refuse_def split: sum.splits connection_error.splits if_splits)
  obtain uri where u: "pick_redirect_uri rc (Some (body_text b ''redirect_uri'' [])) = Some uri"
    "is_return_origin_allowed (rc_binding rc) (in_return_origin rec)"
    and bs: "begin_start P r v (start_of_record rec rc uri b) s2 = (Answered (url, created), s')"
    using assms b tk l c rc
    by (auto simp: start_from_init_token_def token_def [symmetric] Let_def split: option.splits if_splits)
  have "begin_authorization P r v (start_of_record rec rc uri b) s2 = (Some (url, created), s')"
    using bs by (auto simp: begin_start_def refuse_def split: prod.splits option.splits)
  with b token_def l c rc u pick_redirect_uri_allowed show thesis using that by blast
qed

lemma oauth_initD:
  assumes "oauth_init enabled (Some ctx) source Q E now token body s = (Answered (t, n, ck, pt), s')"
    and "h = py_str (py_or (dget ctx ''project_hash'') (JStr []))"
  obtains key rc g m where "source (Some h) key = Inr rc" and "h \<noteq> []" and "pb_login_enabled (rc_binding rc)"
    and "is_return_origin_allowed (rc_binding rc) g"
    and "mint Q E now token (init_binding rc ''login'' h g m) (Some DEFAULT_INIT_TOKEN_TTL_SECONDS) s = (Inr (t, n), s')"
  using assms
  by (auto simp: oauth_init_def Let_def refuse_def split: if_splits option.splits sum.splits connection_error.splits prod.splits)

lemma init_record_minted:
  assumes "init_record_of E token (init_payload E now n token (init_binding rc ''login'' h g m)) = Inr rec"
  shows "in_connection_id rec = cc_connection_id (rc_config rc) \<and> in_binding_id rec = pb_binding_id (rc_binding rc) \<and>
    in_purpose rec = ''login'' \<and> in_project_hash rec = h \<and> in_return_origin rec = g"
  using assms by (auto simp: init_record_of_def init_payload_def init_binding_def INIT_RECORD_VERSION_def py_or_def split: if_splits)

lemma start_of_record_sel [simp]:
  "as_resolved (start_of_record rec rc uri b) = rc" "as_project_hash (start_of_record rec rc uri b) = in_project_hash rec"
  "as_redirect_uri (start_of_record rec rc uri b) = uri" "as_user_id (start_of_record rec rc uri b) = None"
  "in_purpose rec = ''login'' \<Longrightarrow> as_purpose (start_of_record rec rc uri b) = ''login''"
  by (simp_all add: start_of_record_def)

lemma start_binding_fields:
  "dget_default (start_binding P r v a) ''purpose'' d = JStr (as_purpose a)"
  "dget (start_binding P r v a) ''project_hash'' = JStr (as_project_hash a)"
  "dget (start_binding P r v a) ''connection_id'' = JStr (cc_connection_id (rc_config (as_resolved a)))"
  "dget (start_binding P r v a) ''binding_id'' = JStr (pb_binding_id (rc_binding (as_resolved a)))"
  "dget (start_binding P r v a) ''redirect_uri'' = JStr (as_redirect_uri a)"
  "dget (start_binding P r v a) ''user_id'' = json_of (as_user_id a)"
  "dget (start_binding P r v a) ''session_id'' = json_of (as_session_id a)"
  "dget (start_binding P r v a) ''authorization'' = (case as_authorization a of Some z \<Rightarrow> asdict_authorization z | None \<Rightarrow> JNull)"
  by (simp_all add: start_binding_def Let_def dget_default_def)

text \<open>The rate counters live under other keys than a record.\<close>

definition limits_apart :: "('s, 't, 'k, 'c) pipeline \<Rightarrow> string \<Rightarrow> bool" where
  "limits_apart P k \<longleftrightarrow> (\<forall>a s. o_get (pl_store P) (snd (limit_call P a s)) k = o_get (pl_store P) s k)"

section \<open>Proofs of recent authentication\<close>

definition proof_fresh :: "oauth_env \<Rightarrow> int \<Rightarrow> recent_auth_proof \<Rightarrow> bool" where
  "proof_fresh E now p \<longleftrightarrow> authenticated_at_ms p \<le> now div 1000 \<and> now div 1000 < proof_expires_at_ms p \<and>
     proof_expires_at_ms p \<le> authenticated_at_ms p + recent_reauth_ttl E * 1000"

lemma recent_reauth_proof_fresh:
  "recent_reauth_proof Q E digest u sid (now div 1000) s = Some p \<Longrightarrow> proof_fresh E now p"
  by (auto simp: recent_reauth_proof_def proof_fresh_def recent_reauth_ttl_def Let_def
      split: option.splits if_splits sum.splits json.splits)

lemma resolve_recent_proof_fresh:
  "resolve_recent_authentication_proof W Q E digest now u token sid s = Some p \<Longrightarrow> proof_fresh E now p"
  using recent_reauth_proof_fresh [of Q E digest u sid now s]
  by (auto simp: resolve_recent_authentication_proof_def Let_def proof_fresh_def split: option.splits if_splits)

lemma session_targets_allowed: "session_targets b body = Some (uri, origin) \<Longrightarrow> is_redirect_uri_allowed b uri"
  by (auto simp: session_targets_def Let_def is_redirect_uri_allowed_def sole_redirect_uri_def sole_def
      split: option.splits list.splits if_splits)

lemma start_session_round_tripD:
  assumes "start_session_round_trip P r v source D token ck purpose body s = (Answered (url, created), s')"
  obtains login claims rc pf targets s1 where "validate_access_session (pl_world P) D (rq_now r) token s = (Inr login, s1)"
    and "decode_access_token (jwt (pl_world P)) (rq_now r) token = Inr claims"
    and "py_str (py_or (dget login ''user_id'') (JStr [])) \<noteq> []" and "resolve_for_session source login ck = Inr rc"
    and "purpose = ''link'' \<longrightarrow> can_link (rc_binding rc) \<and> (\<exists>p. pf = Some p \<and> proof_fresh (pl_env P) (rq_now r) p)"
    and "is_redirect_uri_allowed (rc_binding rc) (fst targets)"
    and "begin_authorization P r v (session_start rc purpose login claims (py_str (py_or (dget login ''user_id'') (JStr []))) pf targets) s1 =
           (Some (url, created), s')"
proof -
  obtain login s1 where l: "validate_access_session (pl_world P) D (rq_now r) token s = (Inr login, s1)"
    using assms by (auto simp: start_session_round_trip_def split: prod.splits sum.splits)
  obtain claims where c: "decode_access_token (jwt (pl_world P)) (rq_now r) token = Inr claims"
    using assms l by (auto simp: start_session_round_trip_def split: sum.splits)
  define uid where "uid = py_str (py_or (dget login ''user_id'') (JStr []))"
  have u: "uid \<noteq> []" using assms l c by (auto simp: start_session_round_trip_def uid_def [symmetric] Let_def split: if_splits)
  obtain rc where rc: "resolve_for_session source login ck = Inr rc"
    using assms l c u
    by (auto simp: start_session_round_trip_def uid_def [symmetric] Let_def refuse_def split: sum.splits connection_error.splits if_splits)
  define pf where "pf = (if purpose = ''link'' then resolve_recent_authentication_proof (pl_world P) (pl_store P) (pl_env P) (pl_digest P)
     (rq_now r) uid token (py_str (dget claims ''session_id'')) s1 else None)"
  have p: "\<not> (purpose = ''link'' \<and> (\<not> can_link (rc_binding rc) \<or> pf = None))"
    using assms l c u rc
    by (auto simp: start_session_round_trip_def uid_def [symmetric] pf_def [symmetric] Let_def simp del: de_Morgan_conj de_Morgan_disj split: if_splits)
  obtain targets where t: "session_targets (rc_binding rc) body = Some targets"
    and b: "begin_authorization P r v (session_start rc purpose login claims uid pf targets) s1 = (Some (url, created), s')"
    using assms l c u rc p
    by (auto simp: start_session_round_trip_def uid_def [symmetric] pf_def [symmetric] Let_def split: option.splits prod.splits)
  have "purpose = ''link'' \<longrightarrow> can_link (rc_binding rc) \<and> (\<exists>p. pf = Some p \<and> proof_fresh (pl_env P) (rq_now r) p)"
    using p resolve_recent_proof_fresh by (auto simp: pf_def)
  with l c u rc t b session_targets_allowed [of "rc_binding rc" body "fst targets" "snd targets"] show thesis
    using that [of login s1 claims rc pf targets] by (simp add: uid_def)
qed

lemma from_payload_proof:
  assumes "from_payload (asdict_authorization z) = Inr a"
  shows "az_proof a = az_proof z"
  using assms
  by (auto simp: from_payload_def asdict_authorization_def asdict_proof_def authorization_of_def parse_proof_def
      split: if_splits sum.splits option.splits)

section \<open>A worked example\<close>

definition demo_start_row :: dict where
  "demo_start_row = demo_row(''return_origins'' \<mapsto> JList [JStr ''https://app''], ''connection_key'' \<mapsto> JStr ''google'',
     ''identity_namespace'' \<mapsto> JStr ''google'')"

definition demo_start_rc :: resolved_connection where
  "demo_start_rc = \<lparr>rc_config = config_of_row demo_settings demo_start_row, rc_binding = binding_of_row demo_start_row\<rparr>"

definition demo_start_pipeline :: "(mem, sym_token, unit, unit) pipeline" where
  "demo_start_pipeline = demo_pipeline\<lparr>pl_adapter := (\<lambda>_. demo_adapter\<lparr>build_authorization_url := (\<lambda>_ tx. Some (''https://idp/?state='' @ tx_state tx))\<rparr>)\<rparr>"

definition demo_start_call :: "mem oauth_call" where
  "demo_start_call = demo_call\<lparr>rq_source := (\<lambda>_ _. Inr demo_start_rc)\<rparr>"

definition demo_start_env :: start_env where
  "demo_start_env = \<lparr>se_material = demo_mat, se_challenge = id, se_surface = id, se_user_agent = None\<rparr>"

definition demo_init_token :: string where "demo_init_token = replicate 20 CHR ''t''"

definition demo_init_run :: "(string \<times> int \<times> string \<times> string) answer \<times> mem" where
  "demo_init_run = oauth_init True (Some [''project_hash'' \<mapsto> JStr ''ph1'']) (\<lambda>_ _. Inr demo_start_rc) mem_oauth demo_env us_per_second demo_init_token
     (Some (JObj [''connection'' \<mapsto> JStr ''Google'', ''return_origin'' \<mapsto> JStr ''https://app''])) mem_empty"

definition demo_init_doc :: dict where
  "demo_init_doc = init_payload demo_env us_per_second 300 demo_init_token (init_binding demo_start_rc ''login'' ''ph1'' ''https://app'' False)"

definition demo_init_store :: mem where
  "demo_init_store = mem_set (oauth_key demo_env OAUTH_INIT_TOKEN_PREFIX demo_init_token) (JObj demo_init_doc) 300 mem_empty"

lemma demo_start_limits [simp]: "limit_call demo_start_pipeline a s = (Inr (RateLimitDecision (oauth_rate_bucket a) None True), s)"
  using demo_limits [of a s] by (simp add: limit_call_def demo_start_pipeline_def)

lemma demo_start_sel [simp]:
  "pl_store demo_start_pipeline = mem_oauth" "pl_env demo_start_pipeline = demo_env" "pl_world demo_start_pipeline = demo_world"
  "pl_collation demo_start_pipeline = id" "rq_now demo_start_call = us_per_second" "rq_source demo_start_call c b = Inr demo_start_rc"
  by (simp_all add: demo_start_pipeline_def demo_pipeline_def demo_start_call_def demo_call_def)

lemma binding_of_row_sel:
  "pb_project_hash (binding_of_row row) = row_text_opt row ''project_hash''"
  "pb_login_enabled (binding_of_row row) = (truthy (dget row ''login_enabled'') \<and> truthy (dget row ''catalog_login_enabled''))"
  "pb_return_origins (binding_of_row row) = text_list (dget row ''return_origins'')"
  "pb_redirect_uris (binding_of_row row) = text_list (dget row ''redirect_uris'')"
  "pb_connection_key (binding_of_row row) = row_text row ''connection_key'' []" "pb_binding_id (binding_of_row row) = py_str (dget row ''binding_id'')"
  "cc_connection_id (config_of_row settings row) = py_str (dget row ''connection_id'')"
  "cc_provider_type (config_of_row settings row) = row_text row ''provider_type'' []"
  "cc_identity_namespace (config_of_row settings row) = row_text row ''identity_namespace'' []"
  by (simp_all add: binding_of_row_def config_of_row_def Let_def)

lemma demo_start_row_fields:
  "dget demo_start_row ''project_hash'' = JStr ''ph1''" "dget demo_start_row ''login_enabled'' = JBool True"
  "dget demo_start_row ''catalog_login_enabled'' = JBool True" "dget demo_start_row ''return_origins'' = JList [JStr ''https://app'']"
  "dget demo_start_row ''redirect_uris'' = JList [JStr ''https://app/cb'']" "dget demo_start_row ''connection_key'' = JStr ''google''"
  "dget demo_start_row ''binding_id'' = JStr ''b1''" "dget demo_start_row ''connection_id'' = JStr ''c1''"
  "dget demo_start_row ''provider_type'' = JStr ''google''" "dget demo_start_row ''identity_namespace'' = JStr ''google''"
  by (simp_all add: demo_start_row_def demo_row_def demo_binding_row_def)

lemma demo_start_rc_sel [simp]:
  "pb_project_hash (rc_binding demo_start_rc) = Some ''ph1''" "pb_login_enabled (rc_binding demo_start_rc)"
  "pb_return_origins (rc_binding demo_start_rc) = [''https://app'']" "pb_redirect_uris (rc_binding demo_start_rc) = [''https://app/cb'']"
  "pb_connection_key (rc_binding demo_start_rc) = ''google''" "pb_binding_id (rc_binding demo_start_rc) = ''b1''"
  "cc_connection_id (rc_config demo_start_rc) = ''c1''"
  "cc_provider_type (rc_config demo_start_rc) = ''google''" "cc_identity_namespace (rc_config demo_start_rc) = ''google''"
  by (simp_all add: demo_start_rc_def binding_of_row_sel demo_start_row_fields row_text_def row_text_opt_def text_list_def py_or_def)

abbreviation demo_init_body :: dict where
  "demo_init_body \<equiv> [''connection'' \<mapsto> JStr ''Google'', ''return_origin'' \<mapsto> JStr ''https://app'']"

lemma demo_strips:
  "str_strip ''Google'' = ''Google''" "str_lower ''Google'' = ''google''" "str_strip ''https://app'' = ''https://app''"
  "str_strip ''login'' = ''login''" "str_lower ''login'' = ''login''" "str_strip demo_init_token = demo_init_token" "str_strip [] = []"
  "demo_init_token \<noteq> []" "length demo_init_token = 20"
  by code_simp+

lemma demo_body_texts:
  "str_lower (body_text demo_init_body ''connection'' []) = ''google''" "body_text demo_init_body ''return_origin'' [] = ''https://app''"
  "str_lower (body_text demo_init_body ''purpose'' ''login'') = ''login''" "body_text [''init_token'' \<mapsto> JStr demo_init_token] ''init_token'' [] = demo_init_token"
  "body_text [''init_token'' \<mapsto> JStr demo_init_token] ''redirect_uri'' [] = []"
  by (simp_all add: body_text_def py_or_def demo_strips)

lemma demo_init_minted: "demo_init_run = (Answered (demo_init_token, 300, ''google'', ''google''), demo_init_store)"
proof -
  have "mint mem_oauth demo_env us_per_second demo_init_token (init_binding demo_start_rc ''login'' ''ph1'' ''https://app'' False) (Some 300) mem_empty =
      (Inr (demo_init_token, 300), demo_init_store)"
    by (simp add: mint_def write_record_def mint_ttl_def MAX_OAUTH_STATE_TTL_SECONDS_def mem_oauth_def mem_setnx_def mem_get_def mem_empty_def
        demo_init_store_def demo_init_doc_def)
  then show ?thesis
    by (simp add: demo_init_run_def oauth_init_def read_json_object_def demo_body_texts given_def is_return_origin_allowed_def
        DEFAULT_INIT_TOKEN_TTL_SECONDS_def dget_default_def)
qed

lemma demo_init_stored: "mem_get demo_init_store (oauth_key demo_env OAUTH_INIT_TOKEN_PREFIX demo_init_token) = Some (JObj demo_init_doc)"
  by (simp add: demo_init_store_def mem_get_def mem_set_def mem_empty_def live_def)

lemma demo_init_record:
  obtains rec where "init_record_of demo_env demo_init_token demo_init_doc = Inr rec" and "in_return_origin rec = ''https://app''"
    and "in_purpose rec = ''login''"
  by (simp add: init_record_of_def demo_init_doc_def init_payload_def init_binding_def INIT_RECORD_VERSION_def)

text \<open>Whatever is bound to the fresh state, it is stored, so a redirect is answered.\<close>

lemma demo_begin_login:
  assumes "as_purpose a = ''login''" and "mem_get s (oauth_key demo_env OAUTH_STATE_PREFIX demo_state) = None"
  obtains url created s' where "begin_authorization demo_start_pipeline demo_start_call demo_start_env a s = (Some (url, created), s')"
proof -
  have pu: "dget_default (start_binding demo_start_pipeline demo_start_call demo_start_env a) ''purpose'' (JStr ''login'') = JStr ''login''"
    using assms(1) by (simp add: start_binding_fields)
  have ad: "build_authorization_url (pl_adapter demo_start_pipeline rc) c tx = Some (''https://idp/?state='' @ tx_state tx)" for rc c tx
    by (simp add: demo_start_pipeline_def)
  have sel: "se_material demo_start_env = demo_mat" by (simp add: demo_start_env_def)
  have nx: "o_setnx mem_oauth (oauth_key demo_env OAUTH_STATE_PREFIX demo_state) v ex s = (True, mem_set (oauth_key demo_env OAUTH_STATE_PREFIX demo_state) v ex s)" for v ex
    using assms(2) by (simp add: mem_oauth_def mem_setnx_def)
  show thesis
    using that by (simp add: begin_authorization_def create_state_def state_authorization_def pu Let_def nx ad sel)
qed

lemma demo_started:
  obtains url created s' where "start_from_init_token demo_start_pipeline demo_start_call demo_start_env
      (Some (JObj [''init_token'' \<mapsto> JStr demo_init_token])) demo_init_store = (Answered (url, created), s')"
proof -
  let ?k = "oauth_key demo_env OAUTH_INIT_TOKEN_PREFIX demo_init_token" and ?ck = "oauth_key demo_env OAUTH_INIT_TOKEN_CONSUMED_PREFIX demo_init_token"
  let ?s2 = "mem_set ?ck (JStr ''1'') MAX_OAUTH_STATE_TTL_SECONDS (mem_delete [?k] demo_init_store)"
  obtain rec where rec: "init_record_of demo_env demo_init_token demo_init_doc = Inr rec" "in_return_origin rec = ''https://app''" "in_purpose rec = ''login''"
    by (rule demo_init_record)
  have shape: "ensure_state_shape ''init token'' demo_init_token = Inr ()" by code_simp
  have c: "consume_init mem_oauth demo_env demo_init_token demo_init_store = (Inr rec, ?s2)"
    using rec(1) demo_init_stored
    by (simp add: consume_init_def consume_record_def shape mem_oauth_def Let_def json_loads_def)
  have free: "mem_get ?s2 (oauth_key demo_env OAUTH_STATE_PREFIX demo_state) = None"
    by (simp add: mem_get_def mem_set_def mem_delete_def demo_init_store_def mem_empty_def oauth_key_def OAUTH_STATE_PREFIX_def
        OAUTH_INIT_TOKEN_PREFIX_def OAUTH_INIT_TOKEN_CONSUMED_PREFIX_def)
  have p: "pick_redirect_uri demo_start_rc (Some []) = Some ''https://app/cb''"
    by (simp add: pick_redirect_uri_def sole_redirect_uri_def sole_def)
  obtain url created s' where "begin_authorization demo_start_pipeline demo_start_call demo_start_env
      (start_of_record rec demo_start_rc ''https://app/cb'' [''init_token'' \<mapsto> JStr demo_init_token]) ?s2 = (Some (url, created), s')"
    by (rule demo_begin_login [OF _ free, of "start_of_record rec demo_start_rc ''https://app/cb'' [''init_token'' \<mapsto> JStr demo_init_token]"])
       (simp add: rec(3))
  then show thesis
    using that c p rec(2)
    by (simp add: start_from_init_token_def read_json_object_def demo_body_texts demo_strips FORBIDDEN_BROWSER_STRICT_FIELDS_def
        begin_start_def is_return_origin_allowed_def)
qed

text \<open>A session whose context is cached, with a token whose sign-in was this second.\<close>

definition demo_claims :: dict where
  "demo_claims = access_payload default_config us_per_second (JStr ''s1'') (JStr ''h1'') (JStr ''ph1'') None (Some ''project'') (Some ''a1'')
     (Some ''f1'') (Some 1) [] []"

definition demo_session_login :: dict where
  "demo_session_login = [''user_id'' \<mapsto> JStr ''u1'', ''user_hash'' \<mapsto> JStr ''h1'', ''project_hash'' \<mapsto> JStr ''ph1'']"

definition demo_session_store :: mem where
  "demo_session_store = \<lparr>clock = 1000,
     strings = [family_key ''f1'' \<mapsto> (JObj demo_link_family, None), session_key ''a1'' \<mapsto> (JObj demo_link_session, None),
       session_full_key ''a1'' \<mapsto> (JObj demo_session_login, None)],
     sets = Map.empty\<rparr>"

lemma demo_claims_fields:
  "dget demo_claims ''jti'' = JStr ''a1''" "dget demo_claims ''family_id'' = JStr ''f1''" "dget demo_claims ''session_id'' = JStr ''s1''"
  "dget demo_claims ''user_hash'' = JStr ''h1''" "dget demo_claims ''scope'' = JStr ''project''" "dget demo_claims ''collection'' = JStr ''ph1''"
  "dget demo_claims ''auth_time'' = JInt 1" "dget demo_claims ''reauth_at'' = JNull" "demo_claims \<noteq> Map.empty"
  by (simp_all add: demo_claims_def access_payload_def base_payload_def or_string_def Let_def)

lemma demo_claims_decode: "decode_access_token sym_jwt us_per_second (Signed demo_claims) = Inr demo_claims"
  by (simp add: decode_access_token_def decode_typed_token_def sym_jwt_def sym_decode_def demo_claims_def access_payload_def base_payload_def
      BASE_REQUIRED_JWT_CLAIMS_def AUTH_REQUIRED_JWT_CLAIMS_def or_string_def access_ttl_us_def or_delta_def default_config_def us_per_second_def Let_def)

lemma demo_token_claims: "access_token_claims demo_world us_per_second (Signed demo_claims) = Some demo_claims"
  by (simp add: access_token_claims_def demo_world_def demo_claims_decode)

lemma demo_validated:
  "validate_access_session demo_world demo_hooks us_per_second (Signed demo_claims) demo_session_store = (Inr demo_session_login, demo_session_store)"
proof -
  have keys: "session_full_key j \<noteq> family_key f" "session_full_key j \<noteq> session_key i" "session_full_key j \<noteq> revoked_key f" for i j f
    by (simp_all add: session_full_key_def family_key_def session_key_def revoked_key_def SESSION_FULL_PREFIX_def SESSION_PREFIX_def
        REFRESH_FAMILY_PREFIX_def REVOKED_FAMILY_PREFIX_def)
  have reads: "get_json mem_redis demo_session_store (session_key ''a1'') = Some demo_link_session"
    "get_json mem_redis demo_session_store (family_key ''f1'') = Some demo_link_family"
    "redis_get mem_redis demo_session_store (revoked_key ''f1'') = None"
    "get_json mem_redis demo_session_store (session_full_key ''a1'') = Some demo_session_login"
    using keys
    by (simp_all add: get_json_def mem_redis_def mem_get_def demo_session_store_def live_def keys [THEN not_sym])
  obtain c where rc: "reconstruct_auth_context mem_redis demo_hooks us_per_second demo_link_session demo_session_store = (Some c, demo_session_store)"
    by (rule reconstruct_granted [OF demo_link_allowed])
  have m: "claims_match demo_claims demo_link_session"
    by (simp add: claims_match_def demo_claims_fields demo_link_session_def demo_bound_doc_def AUTH_SCOPE_PLATFORM_def)
  have fb: "family_backs mem_redis demo_session_store demo_claims demo_link_session demo_link_family"
    by (simp add: family_backs_def demo_claims_fields reads) (simp add: demo_link_family_def demo_link_session_def demo_bound_doc_def AUTH_SCOPE_PROJECT_def)
  have ne: "demo_link_session \<noteq> Map.empty" by (simp add: demo_link_session_def)
  show ?thesis
    using validate_accepts [where W = demo_world and D = demo_hooks and now = us_per_second and t = "Signed demo_claims" and s = demo_session_store
        and claims = demo_claims and session = demo_link_session and family = demo_link_family and c = c]
      m fb ne rc reads demo_claims_decode
    by (simp add: demo_claims_fields get_session_full_def)
qed

definition demo_proof :: recent_auth_proof where
  "demo_proof = \<lparr>proof_source = ''token'', authenticated_at_ms = 1000, proof_expires_at_ms = 301000, marker_fingerprint = JNull\<rparr>"

definition demo_link_start :: authorization_start where
  "demo_link_start = session_start demo_start_rc ''link'' demo_session_login demo_claims ''u1'' (Some demo_proof) (''https://app/cb'', Some ''https://app'')"

lemma demo_session_free:
  "mem_get demo_session_store (oauth_key demo_env OAUTH_STATE_PREFIX demo_state) = None" "mem_get demo_session_store demo_ckey = None"
  "mem_get demo_session_store (oauth_key demo_env OAUTH_RECENT_REAUTH_PREFIX x) = None"
proof -
  have keys: "session_full_key j \<noteq> demo_ckey" "session_full_key j \<noteq> oauth_key E OAUTH_STATE_PREFIX st" "session_full_key j \<noteq> oauth_key E OAUTH_RECENT_REAUTH_PREFIX st"
    "family_key j \<noteq> oauth_key E OAUTH_RECENT_REAUTH_PREFIX st" "session_key j \<noteq> oauth_key E OAUTH_RECENT_REAUTH_PREFIX st"
    "demo_ckey \<noteq> oauth_key E OAUTH_RECENT_REAUTH_PREFIX st" for j E st
    by (simp_all add: session_full_key_def SESSION_FULL_PREFIX_def demo_ckey_def OAUTH_COMPLETION_PREFIX_def oauth_key_def OAUTH_STATE_PREFIX_def
        OAUTH_RECENT_REAUTH_PREFIX_def family_key_def REFRESH_FAMILY_PREFIX_def session_key_def SESSION_PREFIX_def)
  then show "mem_get demo_session_store (oauth_key demo_env OAUTH_STATE_PREFIX demo_state) = None" "mem_get demo_session_store demo_ckey = None"
    "mem_get demo_session_store (oauth_key demo_env OAUTH_RECENT_REAUTH_PREFIX x) = None"
    by (simp_all add: mem_get_def demo_session_store_def live_def keys [THEN not_sym])
qed

lemma demo_link_begin:
  obtains url created s' where "begin_authorization demo_start_pipeline demo_start_call demo_start_env demo_link_start demo_session_store =
    (Some (url, created), s')"
proof -
  let ?b = "start_binding demo_start_pipeline demo_start_call demo_start_env demo_link_start"
  define z where "z = \<lparr>az_user_id = JStr ''u1'', az_user_hash = JStr ''h1'', az_session_id = JStr ''s1'', az_family_id = JStr ''f1'',
    az_scope = JStr ''project'', az_project_hash = JStr ''ph1'', az_proof = Some demo_proof\<rparr>"
  have a: "as_authorization demo_link_start = Some z" "as_purpose demo_link_start = ''link''" "as_user_id demo_link_start = Some ''u1''"
    "as_session_id demo_link_start = Some ''s1''" "as_project_hash demo_link_start = ''ph1''"
    by (simp_all add: demo_link_start_def session_start_def z_def demo_session_login_def demo_claims_fields py_or_def Let_def)
  have fp: "from_payload (asdict_authorization z) = Inr z"
    by (simp add: from_payload_def asdict_authorization_def asdict_proof_def z_def demo_proof_def has_required_def scope_well_formed_def parse_proof_def authorization_of_def)
  have z: "az_user_id z = JStr ''u1''" "az_session_id z = JStr ''s1''" "az_project_hash z = JStr ''ph1''" "az_proof z = Some demo_proof"
    by (simp_all add: z_def)
  have sa: "state_authorization demo_env us_per_second n demo_state ?b = Inr (Some z, JStr (replicate 32 CHR ''0''), min ((us_per_second + n * us_per_second) div 1000) 301000)"
    if "1 \<le> n" for n
    using that by (simp add: state_authorization_def start_binding_fields a fp z Let_def demo_proof_def us_per_second_def) (simp add: demo_env_def)
  have ttl: "1 \<le> clamp_ttl (Some (start_ttl demo_start_pipeline (as_resolved demo_link_start))) (max_state_ttl_seconds demo_env)"
    by (simp add: clamp_ttl_def)
  have sel: "se_material demo_start_env = demo_mat" by (simp add: demo_start_env_def)
  have ck: "completion_key (JStr (replicate 32 CHR ''0'')) = Inr demo_ckey" by (simp only: demo_completion_key demo_ckey_def)
  have ad: "build_authorization_url (pl_adapter demo_start_pipeline rc) c tx = Some (''https://idp/?state='' @ tx_state tx)" for rc c tx
    by (simp add: demo_start_pipeline_def)
  have get: "o_get mem_oauth demo_session_store (oauth_key demo_env OAUTH_STATE_PREFIX demo_state) = None" "o_get mem_oauth demo_session_store demo_ckey = None"
    using demo_session_free by (simp_all add: mem_oauth_def)
  note sa' = sa [OF ttl]
  show thesis
    using that by (simp add: begin_authorization_def create_state_def sel sa' ck get ad Let_def)
qed

lemma demo_link_started:
  obtains url created s' where "start_session_round_trip demo_start_pipeline demo_start_call demo_start_env (\<lambda>_ _. Inr demo_start_rc) demo_hooks
    (Signed demo_claims) ''google'' ''link'' None demo_session_store = (Answered (url, created), s')"
proof -
  have pf: "resolve_recent_authentication_proof demo_world mem_oauth demo_env d us_per_second ''u1'' (Signed demo_claims) ''s1'' demo_session_store = Some demo_proof" for d
  proof -
    have "recent_reauth_proof mem_oauth demo_env d ''u1'' ''s1'' n demo_session_store = None" for n
      using demo_session_free(3) by (simp add: recent_reauth_proof_def Let_def recent_reauth_key_def mem_oauth_def)
    moreover have "recent_reauth_ttl demo_env = 300" by (simp add: recent_reauth_ttl_def demo_env_def)
    moreover have "us_per_second div 1000 = 1000" by (simp add: us_per_second_def)
    ultimately show ?thesis
      by (simp add: resolve_recent_authentication_proof_def demo_token_claims demo_claims_fields py_or_def demo_proof_def Let_def)
  qed
  have tg: "session_targets (rc_binding demo_start_rc) None = Some (''https://app/cb'', Some ''https://app'')"
    by (simp add: session_targets_def read_json_object_def body_text_def py_or_def demo_strips sole_redirect_uri_def sole_return_origin_def sole_def
        given_def Let_def)
  have cl: "can_link (rc_binding demo_start_rc)"
    by (simp add: can_link_def demo_start_rc_def binding_of_row_def demo_start_row_def demo_row_def demo_binding_row_def row_text_def py_or_def)
  have lg: "py_str (py_or (dget demo_session_login ''user_id'') (JStr [])) = ''u1''" by (simp add: demo_session_login_def py_or_def)
  obtain url created s' where "begin_authorization demo_start_pipeline demo_start_call demo_start_env demo_link_start demo_session_store = (Some (url, created), s')"
    by (rule demo_link_begin)
  then show thesis
    using that
    by (simp add: start_session_round_trip_def demo_validated demo_claims_decode resolve_for_session_def lg pf tg cl demo_claims_fields
        demo_link_start_def Let_def)
qed

definition demo_password_row :: "string \<Rightarrow> dict option" where
  "demo_password_row h = Some [''password_hash'' \<mapsto> JStr ''$argon2id$'']"

lemma demo_fallback: "has_usable_fallback_auth (Some [''password_hash'' \<mapsto> JStr ''$argon2id$''])"
proof -
  have "clean_text (JStr ''$argon2id$'') = Some ''$argon2id$''" by (simp add: clean_text_def str_defs)
  moreover have "\<not> list_ex (\<lambda>m. occurs_in m (str_lower ''$argon2id$'')) [''oauth-disabled'', ''passwordless'', ''placeholder'']" by code_simp
  ultimately show ?thesis by (simp add: has_usable_fallback_auth_def text_of_def)
qed

text \<open>
  The marker is looked for in the stored hash, and an account that a login created stores the hash of a
  random text with the marker in it: the account of the example, whose only credential is the identity,
  passes.
\<close>

lemma auto_created_account_has_fallback:
  "has_usable_fallback_auth (Some [''password_hash'' \<mapsto> JStr (nu_password_hash (fresh_user demo_pipeline demo_call demo_identity_key))])"
  using demo_fallback by (simp add: fresh_user_def demo_pipeline_def)

lemma demo_unlinked:
  obtains s' T' where "oauth_unlink demo_start_pipeline demo_start_call starts_with demo_password_row (\<lambda>_ _. Inr demo_start_rc) demo_hooks
    (Signed demo_claims) ''google'' (demo_session_store, demo_identity_tables) = (Answered ''u1'', s', T')"
proof -
  have lg: "py_str (py_or (dget demo_session_login ''user_id'') (JStr [])) = ''u1''" "text_of demo_session_login ''user_hash'' = Some ''h1''"
    by (simp_all add: demo_session_login_def py_or_def text_of_def clean_text_def str_defs)
  have rr: "require_recent_reauthentication demo_world mem_oauth demo_env us_per_second ''u1'' (Signed demo_claims) sid demo_session_store" for sid
  proof -
    have "us_per_second div us_per_second = 1" by (simp add: us_per_second_def)
    then show ?thesis
      by (simp add: require_recent_reauthentication_def access_token_has_recent_auth_def demo_token_claims demo_claims_fields nonempty_doc_def py_or_def
          recent_reauth_ttl_def demo_env_def)
  qed
  obtain n T' where sp: "sp_unlink_external_identity id starts_with us_per_second ''u1'' ''google'' ''google'' ''u1'' ''user_unlink'' demo_identity_tables = (Suc n, T')"
    by (simp add: sp_unlink_external_identity_def demo_identity_tables_def is_linked_def namespace_matches_def demo_identity_key_def Let_def)
  show thesis
    using that
    by (simp add: oauth_unlink_def demo_validated resolve_for_session_def unlink_def lg rr demo_password_row_def demo_fallback sp Let_def)
qed

section \<open>Guarantees\<close>

text \<open>A browser that starts a login cannot choose what it logs in to. With a token minted for the
  project of an API key, a start creates a state that is consumed as a login for exactly this project,
  with the connection and binding the token was minted for and a redirect URI of the binding's allow-list,
  whatever else the request body says; and the token is spent.\<close>

lemma login_start_bound:
  assumes h: "h = py_str (py_or (dget ctx ''project_hash'') (JStr []))"
    and store: "oauth_store (pl_store P) tick server_ms"
    and init: "oauth_init enabled (Some ctx) source (pl_store P) (pl_env P) now token ibody s0 = (Answered (t, n, ck, pt), s1)"
    and kept: "o_get (pl_store P) s (oauth_key (pl_env P) OAUTH_INIT_TOKEN_PREFIX t) = o_get (pl_store P) s1 (oauth_key (pl_env P) OAUTH_INIT_TOKEN_PREFIX t)"
    and apart: "limits_apart P (oauth_key (pl_env P) OAUTH_INIT_TOKEN_PREFIX t)"
    and start: "start_from_init_token P r v (Some (JObj b)) s = (Answered (url, created), s')" and "body_text b ''init_token'' [] = t"
    and shape: "ensure_state_shape ''state'' (mat_state (se_material v)) = Inr ()"
  shows "\<exists>rec s'' rc0 rc key uri.
    consume_state (pl_store P) (pl_env P) (created_state created) s' = (Inr rec, s'') \<and>
    rec_purpose rec = ''login'' \<and> rec_project_hash rec = JStr h \<and> rec_user_id rec = JNull \<and>
    source (Some h) key = Inr rc0 \<and> rq_source r (cc_connection_id (rc_config rc0)) (pb_binding_id (rc_binding rc0)) = Inr rc \<and>
    rec_connection_id rec = JStr (cc_connection_id (rc_config rc)) \<and> rec_binding_id rec = JStr (pb_binding_id (rc_binding rc)) \<and>
    rec_redirect_uri rec = JStr uri \<and> is_redirect_uri_allowed (rc_binding rc) uri \<and>
    (\<exists>e. fst (consume_init (pl_store P) (pl_env P) t s') = Inl e)"
proof -
  let ?Q = "pl_store P" and ?E = "pl_env P"
  note st = oauth_store.consume_record_Inr [OF store] oauth_store.mint_Inr [OF store]
  obtain key rc0 g m where src: "source (Some h) key = Inr rc0"
    and mint: "mint ?Q ?E now token (init_binding rc0 ''login'' h g m) (Some DEFAULT_INIT_TOKEN_TTL_SECONDS) s0 = (Inr (t, n), s1)"
    by (rule oauth_initD [OF init h])
  obtain tok d s1' rec s2 rc uri where tok: "tok = body_text b ''init_token'' []"
    and l: "limit_call P (Check_Start (Some (client_ip P r)) (Some (fingerprint_oauth_value ?E 12 tok)) None) s = (Inr d, s1')"
    and c: "consume_init ?Q ?E tok s1' = (Inr rec, s2)" and rc: "rq_source r (in_connection_id rec) (in_binding_id rec) = Inr rc"
    and uri: "is_redirect_uri_allowed (rc_binding rc) uri"
    and bg: "begin_authorization P r v (start_of_record rec rc uri b) s2 = (Some (url, created), s')"
    by (rule start_from_init_tokenD [OF start]) (simp add: read_json_object_def)
  from tok assms(7) have tok: "tok = t" by simp
  obtain p where p: "consume_record ?Q ?E OAUTH_INIT_TOKEN_PREFIX OAUTH_INIT_TOKEN_CONSUMED_PREFIX t ''init token'' s1' = (Inr p, s2)"
    and ir: "init_record_of ?E t p = Inr rec"
    using c by (auto simp: consume_init_def tok split: prod.splits sum.splits)
  have "o_get ?Q s1' (oauth_key ?E OAUTH_INIT_TOKEN_PREFIX t) = o_get ?Q s (oauth_key ?E OAUTH_INIT_TOKEN_PREFIX t)"
    using apart l by (simp add: limits_apart_def) (metis snd_conv)
  with st(1) [OF p] kept st(5) [OF mint] st(3) [OF mint] have pp: "p = init_payload ?E now n t (init_binding rc0 ''login'' h g m)"
    by simp
  note rec = init_record_minted [OF ir [unfolded pp]]
  let ?a = "start_of_record rec rc uri b"
  note cs = begin_authorizationD [OF bg]
  have pu: "dget_default (start_binding P r v ?a) ''purpose'' (JStr ''login'') = JStr ''login''" using rec by (simp add: start_binding_fields)
  obtain e where stored: "o_get ?Q s' (oauth_key ?E OAUTH_STATE_PREFIX (mat_state (se_material v))) =
      Some (JObj (state_payload ?E (se_challenge v) (rq_now r) (se_material v) (start_binding P r v ?a) None JNull e))"
    and cst: "created_state created = mat_state (se_material v)"
    by (rule oauth_store.create_login_stored [OF store cs pu, of "oauth_key ?E OAUTH_STATE_PREFIX (mat_state (se_material v))"]) simp
  obtain y s'' where y: "consume_state ?Q ?E (mat_state (se_material v)) s' = (y, s'')" by fastforce
  let ?p = "state_payload ?E (se_challenge v) (rq_now r) (se_material v) (start_binding P r v ?a) None JNull e"
  have "y = decode_record ?E (mat_state (se_material v)) ?p"
    using oauth_store.consume_record_present(1) [OF store stored shape y] by (simp add: json_loads_def)
  also have "\<dots> = Inr (build_record ?E (mat_state (se_material v)) ?p None 3)"
    by (simp add: decode_record_def doc_simps pu SUPPORTED_STATE_RECORD_VERSIONS_def Let_def)
  finally have cr: "consume_state ?Q ?E (created_state created) s' = (Inr (build_record ?E (mat_state (se_material v)) ?p None 3), s'')"
    using y cst by simp
  have "o_get ?Q s' (oauth_key ?E OAUTH_INIT_TOKEN_PREFIX t) = None"
    by (rule oauth_store.create_login_stored [OF store cs pu, of "oauth_key ?E OAUTH_INIT_TOKEN_PREFIX t"])
       (simp add: st(2) [OF p])
  then have spent: "\<exists>e. fst (consume_init ?Q ?E t s') = Inl e"
    using oauth_store.consume_record_missing [OF store, of s' ?E OAUTH_INIT_TOKEN_PREFIX t OAUTH_INIT_TOKEN_CONSUMED_PREFIX "''init token''"]
    by (auto simp: consume_init_def split: prod.splits)
  show ?thesis
    by (rule exI [of _ "build_record ?E (mat_state (se_material v)) ?p None 3"], rule exI [of _ s''], rule exI [of _ rc0],
        rule exI [of _ rc], rule exI [of _ key], rule exI [of _ uri])
      (use cr src rc rec uri spent pu in \<open>simp add: doc_simps start_binding_fields\<close>)
qed

lemma login_start_bound_witness:
  "\<exists>url created s' rec s''. start_from_init_token demo_start_pipeline demo_start_call demo_start_env
      (Some (JObj [''init_token'' \<mapsto> JStr demo_init_token])) demo_init_store = (Answered (url, created), s') \<and>
    consume_state mem_oauth demo_env (created_state created) s' = (Inr rec, s'') \<and> rec_project_hash rec = JStr ''ph1''"
proof (rule demo_started)
  fix url created s'
  assume h: "start_from_init_token demo_start_pipeline demo_start_call demo_start_env
      (Some (JObj [''init_token'' \<mapsto> JStr demo_init_token])) demo_init_store = (Answered (url, created), s')"
  have c: "''ph1'' = py_str (py_or (dget [''project_hash'' \<mapsto> JStr ''ph1''] ''project_hash'') (JStr []))" by (simp add: py_or_def)
  have sh: "ensure_state_shape ''state'' (mat_state (se_material demo_start_env)) = Inr ()" using demo_shape by (simp add: demo_start_env_def)
  have ap: "limits_apart demo_start_pipeline k" for k by (simp add: limits_apart_def)
  note b = login_start_bound [where P = demo_start_pipeline and s = demo_init_store and r = demo_start_call and v = demo_start_env, unfolded demo_start_sel,
      OF c mem_oauth.oauth_store_axioms demo_init_minted [unfolded demo_init_run_def] refl ap h demo_body_texts(4) sh]
  then obtain rec s'' where "consume_state mem_oauth demo_env (created_state created) s' = (Inr rec, s'')" "rec_project_hash rec = JStr ''ph1''"
    by (elim exE conjE) (rule that)
  with h show ?thesis by blast
qed

text \<open>A link or a reauthentication starts only from an access token that validates, for the user and
  the session of this token, with a redirect URI of the binding of the session's project. A link needs
  a binding that permits it and a proof of authentication that is valid now and no older than the
  configured window, and the state does not outlive the proof.\<close>

lemma session_start_sound:
  assumes "start_session_round_trip P r v source D token ck purpose body s = (Answered (url, created), s')"
    and "purpose = ''link'' \<or> purpose = ''reauth''"
  shows "\<exists>login claims rc a s1.
    validate_access_session (pl_world P) D (rq_now r) token s = (Inr login, s1) \<and>
    decode_access_token (jwt (pl_world P)) (rq_now r) token = Inr claims \<and> resolve_for_session source login ck = Inr rc \<and>
    create_state (pl_store P) (pl_env P) (se_challenge v) (rq_now r) (se_material v) (start_binding P r v a)
      (Some (start_ttl P rc)) s1 = (Inr created, s') \<and>
    as_purpose a = purpose \<and> as_user_id a = Some (py_str (py_or (dget login ''user_id'') (JStr []))) \<and>
    as_session_id a = Some (py_str (dget claims ''session_id'')) \<and> as_project_hash a = py_str (py_or (dget login ''project_hash'') (JStr [])) \<and>
    is_redirect_uri_allowed (rc_binding rc) (as_redirect_uri a) \<and>
    (purpose = ''link'' \<longrightarrow> can_link (rc_binding rc) \<and>
       (\<exists>z p. as_authorization a = Some z \<and> az_proof z = Some p \<and> proof_fresh (pl_env P) (rq_now r) p \<and>
          created_expires_at created \<le> proof_expires_at_ms p * 1000))"
proof (rule start_session_round_tripD [OF assms(1)])
  fix login claims rc pf targets s1
  let ?u = "py_str (py_or (dget login ''user_id'') (JStr []))"
  let ?a = "session_start rc purpose login claims ?u pf targets"
  assume v: "validate_access_session (pl_world P) D (rq_now r) token s = (Inr login, s1)"
    and c: "decode_access_token (jwt (pl_world P)) (rq_now r) token = Inr claims" and rc: "resolve_for_session source login ck = Inr rc"
    and pf: "purpose = ''link'' \<longrightarrow> can_link (rc_binding rc) \<and> (\<exists>p. pf = Some p \<and> proof_fresh (pl_env P) (rq_now r) p)"
    and t: "is_redirect_uri_allowed (rc_binding rc) (fst targets)" and b: "begin_authorization P r v ?a s1 = (Some (url, created), s')"
  have sel: "as_resolved ?a = rc" "as_purpose ?a = purpose" "as_user_id ?a = Some ?u" "as_session_id ?a = Some (py_str (dget claims ''session_id''))"
    "as_project_hash ?a = py_str (py_or (dget login ''project_hash'') (JStr []))" "as_redirect_uri ?a = fst targets"
    by (simp_all add: session_start_def Let_def)
  obtain z where z: "as_authorization ?a = Some z" "az_proof z = pf" by (simp add: session_start_def Let_def)
  note cs = begin_authorizationD [OF b, unfolded sel]
  have ex: "created_expires_at created \<le> proof_expires_at_ms p * 1000" if "purpose = ''link''" "pf = Some p" for p
  proof -
    obtain a0 ref e where sa: "state_authorization (pl_env P) (rq_now r) (clamp_ttl (Some (start_ttl P rc)) (max_state_ttl_seconds (pl_env P)))
        (mat_state (se_material v)) (start_binding P r v ?a) = Inr (a0, ref, e)" and e: "created_expires_at created = e * 1000"
      using cs by (auto simp: create_state_def Let_def split: sum.splits prod.splits option.splits bool.splits if_splits)
    have "from_payload (asdict_authorization z) = Inr a' \<Longrightarrow> az_proof a' = Some p" for a'
      using from_payload_proof [of z a'] z(2) that(2) by simp
    with state_authorization_Inr(1) [OF sa, unfolded start_binding_fields sel z(1)] that(1) have "e \<le> proof_expires_at_ms p"
      by auto
    with e show ?thesis by simp
  qed
  show ?thesis
    by (rule exI [of _ login], rule exI [of _ claims], rule exI [of _ rc], rule exI [of _ ?a], rule exI [of _ s1])
      (use v c rc cs t pf z ex in \<open>auto simp: sel\<close>)
qed


lemma session_start_sound_witness:
  "\<exists>url created s' (p :: recent_auth_proof). start_session_round_trip demo_start_pipeline demo_start_call demo_start_env (\<lambda>_ _. Inr demo_start_rc) demo_hooks
    (Signed demo_claims) ''google'' ''link'' None demo_session_store = (Answered (url, created), s') \<and>
   proof_fresh demo_env us_per_second p \<and> created_expires_at created \<le> proof_expires_at_ms p * 1000"
proof (rule demo_link_started)
  fix url created s'
  assume h: "start_session_round_trip demo_start_pipeline demo_start_call demo_start_env (\<lambda>_ _. Inr demo_start_rc) demo_hooks
    (Signed demo_claims) ''google'' ''link'' None demo_session_store = (Answered (url, created), s')"
  from session_start_sound [OF h disjI1 [OF refl], unfolded demo_start_sel]
  obtain p :: recent_auth_proof where "proof_fresh demo_env us_per_second p" "created_expires_at created \<le> proof_expires_at_ms p * 1000"
    by blast
  with h show ?thesis by blast
qed

lemma unlink_none_left:
  assumes "sp_unlink_external_identity K like now u p ns by_user reason T = (n, T')" and "a \<in> set (it_accounts T')"
    and "is_linked a" and "K (ea_user_id a) = K u" and "ea_provider a = p"
  shows "\<not> namespace_matches K like (ea_identity_namespace a) ns"
proof -
  let ?hit = "\<lambda>a. K (ea_user_id a) = K u \<and> ea_provider a = p \<and> is_linked a \<and> namespace_matches K like (ea_identity_namespace a) ns"
  let ?f = "\<lambda>a. if ?hit a then a\<lparr>ea_status := ''unlinked'', ea_unlinked_at := Some now, ea_unlinked_by := Some by_user,
      ea_unlink_reason := Some reason\<rparr> else a"
  have "it_accounts T' = map ?f (it_accounts T)" 
    using assms(1) by (auto simp: sp_unlink_external_identity_def Let_def)
  then have "a \<in> ?f ` set (it_accounts T)" using assms(2) by (simp only: set_map)
  then obtain b where b: "a = ?f b" by (rule imageE)
  have "\<not> ?hit b" using assms(3) b by (cases "?hit b") (simp_all add: is_linked_def)
  with b have "a = b" by simp
  with \<open>\<not> ?hit b\<close> assms(3-5) show ?thesis by simp
qed

lemma unlinkD:
  assumes "unlink P r like user_row rc login token (s, T) = (Answered u, s', T')"
  obtains n s1 where "u = py_str (py_or (dget login ''user_id'') (JStr []))" and "u \<noteq> []"
    and "require_recent_reauthentication (pl_world P) (pl_store P) (pl_env P) (rq_now r) u token (session_id_of (pl_world P) (rq_now r) login token) s"
    and "has_usable_fallback_auth (case text_of login ''user_hash'' of Some h \<Rightarrow> user_row h | None \<Rightarrow> None)"
    and "sp_unlink_external_identity (pl_collation P) like (rq_now r) u (cc_provider_type (rc_config rc)) (cc_identity_namespace (rc_config rc)) u
           ''user_unlink'' T = (Suc n, T')"
    and "s' = revoke_user_auth_state (redis (pl_world P)) (rq_now r) u (cc_provider_type (rc_config rc) @ ''_oauth_account_unlinked'') s1"
  using assms
  by (auto simp: unlink_def Let_def too_many_def split: if_splits prod.splits sum.splits nat.splits)




end
