(* ===== verification/API_Key_Routes.thy ===== *)
theory API_Key_Routes
  imports API_Key_Machine OAuth_Start
begin

text \<open>
  The access checks of \<^verbatim>\<open>src/src/middleware/authentication.py\<close> and the handlers that manage API keys:
  \<^verbatim>\<open>src/src/routes/user_api_keys.py\<close> for the own keys of a user, \<^verbatim>\<open>src/src/routes/api_keys.py\<close> for administrators.
  An error is its HTTP status with the error code; response bodies are the rows they format. A field \<^verbatim>\<open>expires_at\<close>
  is what \<^verbatim>\<open>datetime.fromisoformat\<close> reads in it, a wall clock and an offset in microseconds. What the database
  driver and the \<^verbatim>\<open>DATETIME\<close> column make of an aware datetime is an argument.
\<close>

section \<open>Sessions and access\<close>

definition session_view :: "dict \<Rightarrow> dict" where
  "session_view d =
     [''user_id'' \<mapsto> dget d ''user_id'', ''user_hash'' \<mapsto> dget d ''user_hash'', ''user_type'' \<mapsto> dget d ''user_type'',
      ''project_id'' \<mapsto> dget d ''project_id'', ''project_hash'' \<mapsto> dget d ''project_hash'', ''permissions'' \<mapsto> dget d ''permissions'',
      ''groups'' \<mapsto> dget d ''groups'', ''scope'' \<mapsto> dget d ''scope'', ''username'' \<mapsto> dget d ''username'']"

definition count_dots :: "string \<Rightarrow> nat" where
  "count_dots s = length (filter (\<lambda>c. c = CHR ''.'') s)"

text \<open>The dictionary also holds the token, which the handlers below take as an argument of its own.\<close>

definition verify_session :: "('s, 't) world \<Rightarrow> db_hooks \<Rightarrow> int \<Rightarrow> 't \<Rightarrow> 's \<Rightarrow> dict result \<times> 's" where
  "verify_session W D now token s =
     (if count_dots (jwt_text (jwt W) token) \<noteq> 2 then (denied 401 ''Invalid access token'', s)
      else case validate_access_session W D now token s of
             (Inl e, s1) \<Rightarrow> (Inl e, s1)
           | (Inr login, s1) \<Rightarrow> (Inr (session_view login), s1))"

text \<open>\<^verbatim>\<open>x in permissions\<close>; on a value that is no list the operator raises.\<close>

definition permission_list :: "dict \<Rightarrow> json list option" where
  "permission_list d = (case dget_default d ''permissions'' (JList []) of JList ps \<Rightarrow> Some ps | _ \<Rightarrow> None)"

definition user_id_text :: "dict \<Rightarrow> string" where
  "user_id_text d = py_str (py_or (dget d ''user_id'') (JStr []))"

definition is_root_user :: "admin_db \<Rightarrow> string \<Rightarrow> bool" where
  "is_root_user A uid \<longleftrightarrow> get_user_type A uid = Some ''root''"

definition is_admin_user :: "admin_db \<Rightarrow> string \<Rightarrow> bool" where
  "is_admin_user A uid \<longleftrightarrow> get_user_type A uid = Some ''admin''"

definition verify_admin_access :: "admin_db \<Rightarrow> dict \<Rightarrow> dict result" where
  "verify_admin_access A cur =
     (if dget cur ''user_type'' = JStr ''root'' \<or> dget cur ''user_type'' = JStr ''admin'' then Inr cur
      else case permission_list cur of
             None \<Rightarrow> denied 403 ''Authorization error''
           | Some ps \<Rightarrow>
               if JStr ''admin'' \<in> set ps \<or> JStr ''global_admin'' \<in> set ps then Inr cur
               else if user_id_text cur \<noteq> [] \<and> (is_root_user A (user_id_text cur) \<or> is_admin_user A (user_id_text cur)) then Inr cur
               else denied 403 ''Admin access required'')"

definition verify_root_access :: "admin_db \<Rightarrow> dict \<Rightarrow> dict result" where
  "verify_root_access A cur =
     (if dget cur ''user_type'' = JStr ''root'' then Inr cur
      else case permission_list cur of
             None \<Rightarrow> denied 403 ''Root authorization error''
           | Some ps \<Rightarrow>
               if JStr ''global_admin'' \<in> set ps then Inr cur
               else if user_id_text cur \<noteq> [] \<and> is_root_user A (user_id_text cur) then Inr cur
               else denied 403 ''Root access required'')"

text \<open>\<open>user_access\<close> is \<^verbatim>\<open>get_user_project_access\<close> of the database.\<close>

definition verify_project_access :: "key_facts \<Rightarrow> (string \<Rightarrow> json \<Rightarrow> bool option) \<Rightarrow> json \<Rightarrow> dict \<Rightarrow> dict result" where
  "verify_project_access F user_access project_id cur =
     (if dget cur ''user_type'' = JStr ''root'' then Inr cur
      else if dget cur ''user_type'' = JStr ''admin'' then
        from_db (kf_admin_access F (user_id_text cur) (py_str project_id))
          (\<lambda>ok. if ok then Inr cur else denied 403 ''Access denied to project'')
      else if dget cur ''user_type'' = JStr ''consumer'' then
        (if dget cur ''project_id'' = project_id then Inr cur
         else from_db (user_access (user_id_text cur) project_id)
                (\<lambda>ok. if ok then Inr cur else denied 403 ''Access denied to project''))
      else denied 403 ''Access denied to project'')"

definition require_permission :: "key_facts \<Rightarrow> string \<Rightarrow> dict \<Rightarrow> dict result" where
  "require_permission F permission cur =
     (case permission_list cur of
        None \<Rightarrow> denied 403 ''Permission verification error''
      | Some ps \<Rightarrow>
          if JStr permission \<in> set ps \<or> JStr ''admin'' \<in> set ps \<or> JStr ''global_admin'' \<in> set ps then Inr cur
          else if dget cur ''user_type'' = JStr ''consumer'' \<and> truthy (dget cur ''user_id'') \<and> truthy (dget cur ''project_id'') then
            (case kf_permissions F (user_id_text cur) of
               None \<Rightarrow> denied 403 ''Permission verification error''
             | Some qs \<Rightarrow> if JStr permission \<in> set qs \<or> JStr ''admin'' \<in> set qs then Inr cur
                          else denied 403 ''Permission required'')
          else denied 403 ''Permission required'')"

section \<open>Fields\<close>

datatype expiry_field = No_Expiry | Iso int "int option" | Not_Iso string

definition parse_expires_at :: "int \<Rightarrow> expiry_field \<Rightarrow> (int \<times> int) option result" where
  "parse_expires_at now field =
     (case field of
        No_Expiry \<Rightarrow> Inr None
      | Not_Iso _ \<Rightarrow> denied 400 ''VAL_3001''
      | Iso wall offset \<Rightarrow>
          let off = (case offset of Some x \<Rightarrow> x | None \<Rightarrow> 0)
          in if wall - off < now then denied 400 ''VAL_3001'' else Inr (Some (wall, off)))"

definition blank_field :: "string option \<Rightarrow> bool" where
  "blank_field v \<longleftrightarrow> v = None \<or> v = Some []"

text \<open>A \<^verbatim>\<open>SIGNAL\<close> of a procedure as the wrapper reports it.\<close>

definition procedure_rejection_error :: "string \<Rightarrow> 'a result" where
  "procedure_rejection_error message =
     (if occurs_in ''not found'' (str_lower message) \<or> occurs_in ''does not exist'' (str_lower message)
      then denied 404 message else denied 409 message)"

section \<open>The environment\<close>

record ('s, 't) key_env =
  ke_world :: "('s, 't) world"
  ke_store :: "'s oauth_redis"
  ke_oauth :: oauth_env
  ke_mac :: "string \<Rightarrow> string"
  ke_blake :: "string \<Rightarrow> string"
  ke_coll :: "string \<Rightarrow> string"
  ke_stored :: "int \<times> int \<Rightarrow> int"

text \<open>
  One request: the instant, the session data and the token of the caller, what the database answers, the random
  bytes of a new token, and whether the cache deletion is carried out.
\<close>

record 't key_call =
  kc_now :: int
  kc_user :: dict
  kc_token :: 't
  kc_facts :: key_facts
  kc_admin_db :: admin_db
  kc_project_by_hash :: "string \<Rightarrow> dict option"
  kc_user_by_hash :: "string \<Rightarrow> dict option"
  kc_accessible :: "string \<Rightarrow> dict list"
  kc_today :: string
  kc_id_bytes :: string
  kc_secret_bytes :: string
  kc_cache_up :: bool

definition caller :: "'t key_call \<Rightarrow> string" where
  "caller c = py_str (dget (kc_user c) ''user_id'')"

definition sql_now :: "'t key_call \<Rightarrow> int" where
  "sql_now c = kc_now c div us_per_second"

text \<open>\<^verbatim>\<open>_require_recent_reauth_for_..._api_key_mutation\<close>.\<close>

definition recently_authenticated :: "('s, 't) key_env \<Rightarrow> 't key_call \<Rightarrow> 's \<Rightarrow> bool" where
  "recently_authenticated K c s =
     require_recent_reauthentication (ke_world K) (ke_store K) (ke_oauth K) (kc_now c) (user_id_text (kc_user c)) (kc_token c)
       (access_token_session_id (ke_world K) (kc_now c) (kc_token c)) s"

type_synonym 's key_tables = "'s \<times> key_row list"

definition key_token :: "('s, 't) key_env \<Rightarrow> 't key_call \<Rightarrow> api_token" where
  "key_token K c = generate_api_key_token (ke_mac K) (ke_blake K) (kc_id_bytes c) (kc_secret_bytes c)"

definition new_key_of ::
    "('s, 't) key_env \<Rightarrow> 't key_call \<Rightarrow> string \<Rightarrow> string \<Rightarrow> string \<Rightarrow> string option \<Rightarrow> (int \<times> int) option \<Rightarrow> new_key" where
  "new_key_of K c project_id owner_id name description expiry =
     (let tok = key_token K c
      in \<lparr>nk_id = at_public_id tok, nk_public_id = at_public_id tok, nk_project_id = project_id, nk_owner_user_id = owner_id,
          nk_created_by = caller c, nk_name = name, nk_description = description, nk_secret_hash = at_secret_hash tok,
          nk_hash_algorithm = ''hmac-sha256-v1'', nk_fingerprint = at_fingerprint tok,
          nk_secret_last4 = at_secret_last4 tok, nk_expires_at = map_option (ke_stored K) expiry\<rparr>)"

text \<open>From the checked request to the procedure, as both create handlers end.\<close>

definition store_new_key ::
    "('s, 't) key_env \<Rightarrow> 't key_call \<Rightarrow> string \<Rightarrow> string \<Rightarrow> string \<Rightarrow> string option \<Rightarrow> expiry_field \<Rightarrow> key_row list \<Rightarrow>
      (key_row \<times> string) result \<times> key_row list" where
  "store_new_key K c project_id owner_id name description field rows =
     (case parse_expires_at (kc_now c) field of
        Inl e \<Rightarrow> (Inl e, rows)
      | Inr expiry \<Rightarrow>
          (case sp_create_api_key (ke_coll K) (kc_facts c) (sql_now c)
                  (new_key_of K c project_id owner_id name description expiry) rows of
             (Inl message, rows') \<Rightarrow> (procedure_rejection_error message, rows')
           | (Inr r, rows') \<Rightarrow> (Inr (r, at_token (key_token K c)), rows')))"

section \<open>Own keys\<close>

definition user_create_api_key ::
    "('s, 't) key_env \<Rightarrow> 't key_call \<Rightarrow> string \<Rightarrow> string option \<Rightarrow> string option \<Rightarrow> expiry_field \<Rightarrow> 's key_tables \<Rightarrow>
      (key_row \<times> string) result \<times> 's key_tables" where
  "user_create_api_key K c project_hash name description field st =
     (case st of (s, rows) \<Rightarrow>
        if \<not> recently_authenticated K c s then (denied 401 ''AUTH_1008'', st)
        else (case kc_project_by_hash c project_hash of
                None \<Rightarrow> (denied 404 ''Project not found'', st)
              | Some project \<Rightarrow>
                  if dget project ''id'' \<notin> (\<lambda>p. dget p ''id'') ` set (kc_accessible c (caller c))
                  then (denied 403 ''AUTHZ_2003'', st)
                  else (case store_new_key K c (py_str (dget project ''id'')) (caller c)
                               (if blank_field name then ''API Key - '' @ kc_today c else the name) description field rows of
                          (out, rows') \<Rightarrow> (out, (s, rows')))))"

definition owned_key :: "('s, 't) key_env \<Rightarrow> 't key_call \<Rightarrow> string \<Rightarrow> key_row list \<Rightarrow> key_row result" where
  "owned_key K c key_id rows =
     (case key_by_public_id (ke_coll K) key_id rows of
        None \<Rightarrow> denied 404 ''NF_4010''
      | Some r \<Rightarrow> if kr_owner_user_id r \<noteq> caller c then denied 404 ''NF_4010'' else Inr r)"

text \<open>The rest of both update handlers, after the key was found and may be managed.\<close>

definition change_key ::
    "('s, 't) key_env \<Rightarrow> 't key_call \<Rightarrow> string \<Rightarrow> key_row \<Rightarrow> string option \<Rightarrow> string option \<Rightarrow> expiry_field \<Rightarrow> 's key_tables \<Rightarrow>
      key_row result \<times> 's key_tables" where
  "change_key K c key_id r name description field st =
     (if kr_revoked_at r \<noteq> None then (denied 400 ''AUTH_1012'', st)
      else if blank_field name \<and> blank_field description \<and> field = No_Expiry then (denied 400 ''VAL_3001'', st)
      else (case parse_expires_at (kc_now c) field of
              Inl e \<Rightarrow> (Inl e, st)
            | Inr expiry \<Rightarrow>
                (case update_api_key (redis (ke_world K)) (kc_cache_up c) (ke_coll K) (sql_now c) key_id name description
                        (map_option (ke_stored K) expiry) (Some (kr_public_id r)) st of
                   (Inl message, st') \<Rightarrow> (procedure_rejection_error message, st')
                 | (Inr r', st') \<Rightarrow> (Inr r', st'))))"

definition user_update_api_key ::
    "('s, 't) key_env \<Rightarrow> 't key_call \<Rightarrow> string \<Rightarrow> string option \<Rightarrow> string option \<Rightarrow> expiry_field \<Rightarrow> 's key_tables \<Rightarrow>
      key_row result \<times> 's key_tables" where
  "user_update_api_key K c key_id name description field st =
     (if \<not> recently_authenticated K c (fst st) then (denied 401 ''AUTH_1008'', st)
      else (case owned_key K c key_id (snd st) of
              Inl e \<Rightarrow> (Inl e, st)
            | Inr r \<Rightarrow> change_key K c key_id r name description field st))"

definition drop_key ::
    "('s, 't) key_env \<Rightarrow> 't key_call \<Rightarrow> string \<Rightarrow> key_row \<Rightarrow> string option \<Rightarrow> 's key_tables \<Rightarrow> unit result \<times> 's key_tables" where
  "drop_key K c key_id r reason st =
     (case revoke_api_key_with_cache_invalidation (redis (ke_world K)) (kc_cache_up c) (ke_coll K) (sql_now c) key_id (kr_public_id r)
             (caller c) reason st of
        (n, st') \<Rightarrow> (if n = 0 then denied 400 ''AUTH_1012'' else Inr (), st'))"

definition user_revoke_api_key :: "('s, 't) key_env \<Rightarrow> 't key_call \<Rightarrow> string \<Rightarrow> 's key_tables \<Rightarrow> unit result \<times> 's key_tables" where
  "user_revoke_api_key K c key_id st =
     (if \<not> recently_authenticated K c (fst st) then (denied 401 ''AUTH_1008'', st)
      else (case owned_key K c key_id (snd st) of
              Inl e \<Rightarrow> (Inl e, st)
            | Inr r \<Rightarrow> drop_key K c key_id r None st))"

section \<open>Keys of others\<close>

definition assert_admin_scope_for_project :: "'t key_call \<Rightarrow> string \<Rightarrow> bool \<Rightarrow> unit result" where
  "assert_admin_scope_for_project c project_id root =
     (if root then Inr ()
      else from_db (kf_admin_access (kc_facts c) (caller c) project_id)
             (\<lambda>ok. if \<not> ok then denied 403 ''AUTHZ_2001'' else Inr ()))"

definition assert_manage_users_or_self :: "'t key_call \<Rightarrow> string \<Rightarrow> bool \<Rightarrow> unit result" where
  "assert_manage_users_or_self c target_user_id root =
     (if root then Inr ()
      else if caller c = target_user_id then Inr ()
      else from_db (kf_permissions (kc_facts c) (caller c))
             (\<lambda>ps. if JStr ''manage_users'' \<notin> set ps then denied 403 ''AUTHZ_2002'' else Inr ()))"

text \<open>The administrative handlers depend on \<^verbatim>\<open>verify_admin_access\<close>.\<close>

definition admin_create_api_key ::
    "('s, 't) key_env \<Rightarrow> 't key_call \<Rightarrow> string \<Rightarrow> string \<Rightarrow> string option \<Rightarrow> string option \<Rightarrow> expiry_field \<Rightarrow> 's key_tables \<Rightarrow>
      (key_row \<times> string) result \<times> 's key_tables" where
  "admin_create_api_key K c user_hash project_hash name description field st =
     (case st of (s, rows) \<Rightarrow>
        (case verify_admin_access (kc_admin_db c) (kc_user c) of
           Inl e \<Rightarrow> (Inl e, st)
         | Inr _ \<Rightarrow>
        if \<not> recently_authenticated K c s then (denied 401 ''AUTH_1008'', st)
        else let root = is_root_user (kc_admin_db c) (caller c) in
        (case kc_user_by_hash c user_hash of
           None \<Rightarrow> (denied 404 ''User not found'', st)
         | Some target \<Rightarrow>
        (case kc_project_by_hash c project_hash of
           None \<Rightarrow> (denied 404 ''Project not found'', st)
         | Some project \<Rightarrow>
        (case assert_admin_scope_for_project c (py_str (dget project ''id'')) root of
           Inl e \<Rightarrow> (Inl e, st)
         | Inr _ \<Rightarrow>
        (case assert_manage_users_or_self c (py_str (dget target ''id'')) root of
           Inl e \<Rightarrow> (Inl e, st)
         | Inr _ \<Rightarrow>
             (case store_new_key K c (py_str (dget project ''id'')) (py_str (dget target ''id''))
                     (if blank_field name then ''API Key - '' @ py_str (dget target ''username'') else the name) description field rows of
                (out, rows') \<Rightarrow> (out, (s, rows')))))))))"

definition administered_key :: "('s, 't) key_env \<Rightarrow> 't key_call \<Rightarrow> string \<Rightarrow> key_row list \<Rightarrow> key_row result" where
  "administered_key K c key_id rows =
     (case key_by_public_id (ke_coll K) key_id rows of
        None \<Rightarrow> denied 404 ''NF_4010''
      | Some r \<Rightarrow>
          (case assert_admin_scope_for_project c (kr_project_id r) (is_root_user (kc_admin_db c) (caller c)) of
             Inl e \<Rightarrow> Inl e | Inr _ \<Rightarrow> Inr r))"

definition admin_get_api_key :: "('s, 't) key_env \<Rightarrow> 't key_call \<Rightarrow> string \<Rightarrow> key_row list \<Rightarrow> key_row result" where
  "admin_get_api_key K c key_id rows =
     (case verify_admin_access (kc_admin_db c) (kc_user c) of Inl e \<Rightarrow> Inl e | Inr _ \<Rightarrow> administered_key K c key_id rows)"

definition admin_update_api_key ::
    "('s, 't) key_env \<Rightarrow> 't key_call \<Rightarrow> string \<Rightarrow> string option \<Rightarrow> string option \<Rightarrow> expiry_field \<Rightarrow> 's key_tables \<Rightarrow>
      key_row result \<times> 's key_tables" where
  "admin_update_api_key K c key_id name description field st =
     (case verify_admin_access (kc_admin_db c) (kc_user c) of
        Inl e \<Rightarrow> (Inl e, st)
      | Inr _ \<Rightarrow>
          if \<not> recently_authenticated K c (fst st) then (denied 401 ''AUTH_1008'', st)
          else (case administered_key K c key_id (snd st) of
                  Inl e \<Rightarrow> (Inl e, st)
                | Inr r \<Rightarrow> change_key K c key_id r name description field st))"

definition admin_revoke_api_key ::
    "('s, 't) key_env \<Rightarrow> 't key_call \<Rightarrow> string \<Rightarrow> string option \<Rightarrow> 's key_tables \<Rightarrow> unit result \<times> 's key_tables" where
  "admin_revoke_api_key K c key_id reason st =
     (case verify_admin_access (kc_admin_db c) (kc_user c) of
        Inl e \<Rightarrow> (Inl e, st)
      | Inr _ \<Rightarrow>
          if \<not> recently_authenticated K c (fst st) then (denied 401 ''AUTH_1008'', st)
          else (case administered_key K c key_id (snd st) of
                  Inl e \<Rightarrow> (Inl e, st)
                | Inr r \<Rightarrow> drop_key K c key_id r reason st))"

section \<open>Listing\<close>

text \<open>\<open>newest\<close> is the order of \<^verbatim>\<open>ORDER BY created_at DESC\<close>, ties as the server breaks them.\<close>

definition list_user_api_keys ::
    "(string \<Rightarrow> string) \<Rightarrow> (key_row list \<Rightarrow> key_row list) \<Rightarrow> string \<Rightarrow> nat \<Rightarrow> nat \<Rightarrow> key_row list \<Rightarrow> key_row list \<times> nat" where
  "list_user_api_keys coll newest owner_user_id limit offset rows =
     (let mine = filter (\<lambda>r. same coll (kr_owner_user_id r) owner_user_id) rows
      in (take limit (drop offset (newest mine)), length mine))"

definition list_project_api_keys ::
    "(string \<Rightarrow> string) \<Rightarrow> (key_row list \<Rightarrow> key_row list) \<Rightarrow> string \<Rightarrow> nat \<Rightarrow> nat \<Rightarrow> bool \<Rightarrow> key_row list \<Rightarrow> key_row list \<times> nat" where
  "list_project_api_keys coll newest project_id limit offset active_only rows =
     (let hits = filter (\<lambda>r. same coll (kr_project_id r) project_id \<and> (\<not> active_only \<or> kr_is_active r)) rows
      in (take limit (drop offset (newest hits)), length hits))"

definition page_size :: nat where "page_size = 200"

lemma list_user_total:
  assumes "list_user_api_keys coll newest owner limit offset rows = (page, n)"
  shows "n \<le> length rows"
  using assms length_filter_le by (auto simp: list_user_api_keys_def Let_def)

function all_user_keys_from ::
    "(string \<Rightarrow> string) \<Rightarrow> (key_row list \<Rightarrow> key_row list) \<Rightarrow> string \<Rightarrow> key_row list \<Rightarrow> key_row list \<Rightarrow> nat \<Rightarrow> key_row list" where
  "all_user_keys_from coll newest owner_user_id rows keys offset =
     (case list_user_api_keys coll newest owner_user_id page_size offset rows of
        (page, total_count) \<Rightarrow>
          if length page < page_size \<or> offset + page_size \<ge> total_count then keys @ page
          else all_user_keys_from coll newest owner_user_id rows (keys @ page) (offset + page_size))"
  by pat_completeness auto

termination
proof (relation "measure (\<lambda>(coll, newest, owner, rows, keys, offset). length rows - offset)", goal_cases)
  case 1
  show ?case by simp
next
  case (2 coll newest owner rows keys offset page n)
  then have "n \<le> length rows" using list_user_total by metis
  moreover have "offset + page_size < n" using 2(2) by simp
  ultimately have "offset < length rows" "0 < page_size" by (simp_all add: page_size_def)
  then show ?case by (simp add: diff_less_mono2)
qed

definition all_user_keys :: "(string \<Rightarrow> string) \<Rightarrow> (key_row list \<Rightarrow> key_row list) \<Rightarrow> string \<Rightarrow> key_row list \<Rightarrow> key_row list" where
  "all_user_keys coll newest owner_user_id rows = all_user_keys_from coll newest owner_user_id rows [] 0"

definition scoped_user_keys ::
    "(string \<Rightarrow> string) \<Rightarrow> (key_row list \<Rightarrow> key_row list) \<Rightarrow> string \<Rightarrow> admin_scope \<Rightarrow> string option \<Rightarrow> nat \<Rightarrow> nat \<Rightarrow> key_row list \<Rightarrow>
      key_row list \<times> nat" where
  "scoped_user_keys coll newest owner_user_id scope project_id limit offset rows =
     (let keys = filter (\<lambda>r. allows_project scope (JStr (kr_project_id r)) \<and> (project_id = None \<or> project_id = Some (kr_project_id r)))
                   (all_user_keys coll newest owner_user_id rows)
      in (take limit (drop offset keys), length keys))"

section \<open>The paging loop\<close>

declare all_user_keys_from.simps [simp del]

lemma all_user_keys_from_eq:
  assumes "\<And>xs. length (newest xs) = length xs"
  shows "all_user_keys_from coll newest owner rows keys offset =
     keys @ drop offset (newest (filter (\<lambda>r. same coll (kr_owner_user_id r) owner) rows))"
  using assms
proof (induction coll newest owner rows keys offset rule: all_user_keys_from.induct)
  case (1 coll newest owner rows keys offset)
  let ?mine = "newest (filter (\<lambda>r. same coll (kr_owner_user_id r) owner) rows)"
  let ?page = "take page_size (drop offset ?mine)"
  have page: "list_user_api_keys coll newest owner page_size offset rows = (?page, length ?mine)"
    using 1(2) by (simp add: list_user_api_keys_def Let_def)
  show ?case
  proof (cases "length ?page < page_size \<or> offset + page_size \<ge> length ?mine")
    case True
    then have "?page = drop offset ?mine" by auto
    with True show ?thesis by (subst all_user_keys_from.simps) (simp add: page)
  next
    case False
    have "all_user_keys_from coll newest owner rows (keys @ ?page) (offset + page_size) =
        (keys @ ?page) @ drop (offset + page_size) ?mine"
      by (rule 1(1) [OF page [symmetric] False 1(2)])
    with False show ?thesis
      by (subst all_user_keys_from.simps) (simp add: page drop_drop [symmetric] add.commute del: drop_drop)
  qed
qed

section \<open>Which rows a request may change\<close>

datatype key_request =
    User_Create string "string option" "string option" expiry_field
  | User_Update string "string option" "string option" expiry_field
  | User_Revoke string
  | Admin_Create string string "string option" "string option" expiry_field
  | Admin_Update string "string option" "string option" expiry_field
  | Admin_Revoke string "string option"

fun handle_key_request :: "('s, 't) key_env \<Rightarrow> 't key_call \<Rightarrow> key_request \<Rightarrow> 's key_tables \<Rightarrow> 's key_tables" where
  "handle_key_request K c (User_Create ph n d f) st = snd (user_create_api_key K c ph n d f st)"
| "handle_key_request K c (User_Update k n d f) st = snd (user_update_api_key K c k n d f st)"
| "handle_key_request K c (User_Revoke k) st = snd (user_revoke_api_key K c k st)"
| "handle_key_request K c (Admin_Create uh ph n d f) st = snd (admin_create_api_key K c uh ph n d f st)"
| "handle_key_request K c (Admin_Update k n d f) st = snd (admin_update_api_key K c k n d f st)"
| "handle_key_request K c (Admin_Revoke k reason) st = snd (admin_revoke_api_key K c k reason st)"

text \<open>The policy: users manage what they own, root everything, administrators what belongs to their projects.\<close>

definition administers :: "'t key_call \<Rightarrow> string \<Rightarrow> bool" where
  "administers c project_id \<longleftrightarrow> is_root_user (kc_admin_db c) (caller c) \<or> kf_admin_access (kc_facts c) (caller c) project_id = Some True"

definition may_manage :: "'t key_call \<Rightarrow> key_row \<Rightarrow> bool" where
  "may_manage c r \<longleftrightarrow> kr_owner_user_id r = caller c \<or> administers c (kr_project_id r)"

definition may_create :: "'t key_call \<Rightarrow> key_row \<Rightarrow> bool" where
  "may_create c r \<longleftrightarrow>
     kr_owner_user_id r = caller c \<and> kr_project_id r \<in> (\<lambda>p. py_str (dget p ''id'')) ` set (kc_accessible c (caller c)) \<or>
     administers c (kr_project_id r) \<and>
       (is_root_user (kc_admin_db c) (caller c) \<or> kr_owner_user_id r = caller c \<or>
        (\<exists>ps. kf_permissions (kc_facts c) (caller c) = Some ps \<and> JStr ''manage_users'' \<in> set ps))"

text \<open>Both create handlers use the public id as the primary key.\<close>

definition keys_named :: "key_row list \<Rightarrow> bool" where
  "keys_named rows \<longleftrightarrow> list_all (\<lambda>r. kr_id r = kr_public_id r) rows"

definition confined :: "(key_row \<Rightarrow> bool) \<Rightarrow> (key_row \<Rightarrow> bool) \<Rightarrow> key_row list \<Rightarrow> key_row list \<Rightarrow> bool" where
  "confined may_change may_add rows rows' \<longleftrightarrow>
     (\<forall>r\<in>set rows. r \<in> set rows' \<or> may_change r) \<and>
     (\<forall>r'\<in>set rows'. (\<exists>r\<in>set rows. key_identity r = key_identity r') \<or> may_add r')"

lemma confined_refl [simp]: "confined P Q rows rows"
  by (auto simp: confined_def)

lemma confined_map:
  assumes "\<And>r. key_identity (f r) = key_identity r" "\<And>r. r \<in> set rows \<Longrightarrow> f r \<noteq> r \<Longrightarrow> P r"
  shows "confined P Q rows (map f rows)"
proof -
  have "r \<in> f ` set rows \<or> P r" if "r \<in> set rows" for r
    using assms(2) [OF that] that by (cases "f r = r") force+
  then show ?thesis using assms(1) by (auto simp: confined_def)
qed

lemma keys_named_map:
  assumes "keys_named rows" "\<And>r. key_identity (f r) = key_identity r"
  shows "keys_named (map f rows)"
proof -
  have "kr_id (f r) = kr_id r \<and> kr_public_id (f r) = kr_public_id r" for r
    using assms(2) [of r] by (simp add: key_identity_def)
  with assms(1) show ?thesis by (simp add: keys_named_def list_all_iff)
qed

text \<open>The row found under a public id is the only one that the procedures reach with that key.\<close>

lemma only_row:
  assumes "keys_wf coll rows" "keys_named rows" "key_by_public_id coll k rows = Some r" "x \<in> set rows" "same coll (kr_id x) k"
  shows "x = r"
proof -
  have r: "r \<in> set rows" "coll (kr_public_id r) = coll k" using key_by_public_id_Some [OF assms(3)] by simp_all
  then have "coll (kr_id x) = coll (kr_id r)" using assms(2,5) by (simp add: keys_named_def list_all_iff same_def)
  then show ?thesis using assms(1,4) r(1) by (intro distinct_map_eq [of "\<lambda>r. coll (kr_id r)"]) (auto simp: keys_wf_def)
qed

definition rows_step :: "(string \<Rightarrow> string) \<Rightarrow> (key_row \<Rightarrow> bool) \<Rightarrow> (key_row \<Rightarrow> bool) \<Rightarrow> key_row list \<Rightarrow> key_row list \<Rightarrow> bool" where
  "rows_step coll P Q rows rows' \<longleftrightarrow> keys_wf coll rows' \<and> keys_named rows' \<and> keys_kept rows rows' \<and> confined P Q rows rows'"

lemma rows_step_refl: "keys_wf coll rows \<Longrightarrow> keys_named rows \<Longrightarrow> rows_step coll P Q rows rows"
  by (simp add: rows_step_def)

lemma rows_step_update:
  assumes wf: "keys_wf coll rows" "keys_named rows" and r: "key_by_public_id coll k rows = Some r" "P r"
  shows "rows_step coll P Q rows (snd (sp_update_api_key coll now k n d e rows))"
proof -
  define f where "f = (\<lambda>x b. if same coll (kr_id x) k then updated_row now n d e b x else x)"
  have id: "key_identity (f x b) = key_identity x" for x b by (simp add: f_def key_identity_def updated_row_def)
  have "snd (sp_update_api_key coll now k n d e rows) = rows \<or>
      (\<exists>b. snd (sp_update_api_key coll now k n d e rows) = map (\<lambda>x. f x b) rows)"
    by (auto simp: sp_update_api_key_def Let_def f_def split: option.split)
  then have "keys_named (snd (sp_update_api_key coll now k n d e rows)) \<and>
      confined P Q rows (snd (sp_update_api_key coll now k n d e rows))"
  proof (elim disjE exE)
    fix b assume eq: "snd (sp_update_api_key coll now k n d e rows) = map (\<lambda>x. f x b) rows"
    have "P x" if "x \<in> set rows" "f x b \<noteq> x" for x
      using only_row [OF wf r(1) that(1)] that(2) r(2) by (auto simp: f_def split: if_splits)
    then show ?thesis unfolding eq by (intro conjI keys_named_map confined_map wf id)
  qed (use wf in simp)
  with wf show ?thesis by (simp add: rows_step_def keys_wf_update keys_kept_update)
qed

lemma rows_step_revoke:
  assumes wf: "keys_wf coll rows" "keys_named rows" and r: "key_by_public_id coll k rows = Some r" "P r"
  shows "rows_step coll P Q rows (snd (revoke_api_key coll now k by reason rows))"
proof -
  define f where "f = (\<lambda>x. if same coll (kr_id x) k \<and> kr_is_active x then revoked_row now by reason x else x)"
  have id: "key_identity (f x) = key_identity x" for x by (simp add: f_def key_identity_def revoked_row_def)
  have "snd (revoke_api_key coll now k by reason rows) \<in> {rows, map f rows}"
    by (auto simp: revoke_api_key_def sp_revoke_api_key_def Let_def f_def)
  then have "keys_named (snd (revoke_api_key coll now k by reason rows)) \<and> confined P Q rows (snd (revoke_api_key coll now k by reason rows))"
  proof (elim insertE)
    assume eq: "snd (revoke_api_key coll now k by reason rows) = map f rows"
    have "P x" if "x \<in> set rows" "f x \<noteq> x" for x
      using only_row [OF wf r(1) that(1)] that(2) r(2) by (auto simp: f_def split: if_splits)
    then show ?thesis unfolding eq by (intro conjI keys_named_map confined_map wf id)
  qed (use wf in simp_all)
  with wf show ?thesis by (simp add: rows_step_def keys_wf_revoke keys_kept_revoke)
qed

lemma rows_step_create:
  assumes wf: "keys_wf coll rows" "keys_named rows" and k: "nk_id k = nk_public_id k" "Q (row_of_new now k)"
  shows "rows_step coll P Q rows (snd (sp_create_api_key coll F now k rows))"
proof -
  have "keys_named (snd (sp_create_api_key coll F now k rows)) \<and> confined P Q rows (snd (sp_create_api_key coll F now k rows))"
    using wf(2) k by (auto simp: sp_create_api_key_def keys_named_def confined_def row_of_new_def)
  with wf show ?thesis by (simp add: rows_step_def keys_wf_create keys_kept_create)
qed

lemma rows_step_store_new:
  assumes "keys_wf (ke_coll K) rows" "keys_named rows"
    and "\<And>r. kr_owner_user_id r = owner_id \<Longrightarrow> kr_project_id r = project_id \<Longrightarrow> Q r"
  shows "rows_step (ke_coll K) P Q rows (snd (store_new_key K c project_id owner_id name description field rows))"
proof (cases "parse_expires_at (kc_now c) field")
  case (Inl e)
  then show ?thesis using assms by (simp add: store_new_key_def rows_step_refl)
next
  case (Inr expiry)
  let ?k = "new_key_of K c project_id owner_id name description expiry"
  have "rows_step (ke_coll K) P Q rows (snd (sp_create_api_key (ke_coll K) (kc_facts c) (sql_now c) ?k rows))"
    using assms by (intro rows_step_create) (auto simp: row_of_new_def new_key_of_def Let_def)
  moreover have "snd (store_new_key K c project_id owner_id name description field rows) =
      snd (sp_create_api_key (ke_coll K) (kc_facts c) (sql_now c) ?k rows)"
    by (simp add: store_new_key_def Inr split: prod.split sum.split)
  ultimately show ?thesis by simp
qed

lemma rows_step_change:
  assumes "keys_wf (ke_coll K) rows" "keys_named rows" "key_by_public_id (ke_coll K) k rows = Some r" "P r"
  shows "rows_step (ke_coll K) P Q rows (snd (snd (change_key K c k r n d f (s, rows))))"
proof -
  have "snd (snd (change_key K c k r n d f (s, rows))) = rows \<or>
      (\<exists>e. snd (snd (change_key K c k r n d f (s, rows))) = snd (sp_update_api_key (ke_coll K) (sql_now c) k n d e rows))"
    by (auto simp: change_key_def update_api_key_def split: sum.splits prod.splits) (metis snd_conv)+
  then show ?thesis using rows_step_refl [OF assms(1,2)] rows_step_update [where P = P, OF assms] by auto
qed

lemma rows_step_drop:
  assumes "keys_wf (ke_coll K) rows" "keys_named rows" "key_by_public_id (ke_coll K) k rows = Some r" "P r"
  shows "rows_step (ke_coll K) P Q rows (snd (snd (drop_key K c k r reason (s, rows))))"
proof -
  have "snd (snd (drop_key K c k r reason (s, rows))) = snd (revoke_api_key (ke_coll K) (sql_now c) k (caller c) reason rows)"
    by (simp add: drop_key_def revoke_api_key_with_cache_invalidation_def split: prod.split)
  then show ?thesis using rows_step_revoke [where P = P, OF assms] by simp
qed

lemma owned_key_Inr: "owned_key K c k rows = Inr r \<Longrightarrow> key_by_public_id (ke_coll K) k rows = Some r \<and> may_manage c r"
  by (auto simp: owned_key_def denied_def may_manage_def split: option.splits if_splits)

lemma admin_scope_Inr: "assert_admin_scope_for_project c p (is_root_user (kc_admin_db c) (caller c)) = Inr x \<Longrightarrow> administers c p"
  by (auto simp: assert_admin_scope_for_project_def administers_def from_db_def denied_def split: if_splits option.splits)

lemma manage_users_Inr:
  "assert_manage_users_or_self c u (is_root_user (kc_admin_db c) (caller c)) = Inr x \<Longrightarrow>
     is_root_user (kc_admin_db c) (caller c) \<or> u = caller c \<or>
     (\<exists>ps. kf_permissions (kc_facts c) (caller c) = Some ps \<and> JStr ''manage_users'' \<in> set ps)"
  by (auto simp: assert_manage_users_or_self_def from_db_def denied_def split: if_splits option.splits)

lemma administered_key_Inr:
  "administered_key K c k rows = Inr r \<Longrightarrow> key_by_public_id (ke_coll K) k rows = Some r \<and> may_manage c r"
  by (auto simp: administered_key_def denied_def may_manage_def split: option.splits sum.splits dest: admin_scope_Inr)

lemma rows_step_user_create:
  assumes "keys_wf (ke_coll K) rows" "keys_named rows"
  shows "rows_step (ke_coll K) P (may_create c) rows (snd (snd (user_create_api_key K c ph n d f (s, rows))))"
proof -
  have "rows_step (ke_coll K) P (may_create c) rows (snd (store_new_key K c (py_str (dget p ''id'')) (caller c) nm d f rows))"
    if "dget p ''id'' \<in> (\<lambda>p. dget p ''id'') ` set (kc_accessible c (caller c))" for p nm
    using assms by (rule rows_step_store_new) (use that in \<open>auto simp: may_create_def\<close>)
  then show ?thesis using rows_step_refl [OF assms]
    by (simp add: user_create_api_key_def split: option.split prod.split) (metis snd_conv)
qed

lemma rows_step_admin_create:
  assumes "keys_wf (ke_coll K) rows" "keys_named rows"
  shows "rows_step (ke_coll K) P (may_create c) rows (snd (snd (admin_create_api_key K c uh ph n d f (s, rows))))"
proof -
  have "rows_step (ke_coll K) P (may_create c) rows (snd (store_new_key K c p u nm d f rows))"
    if "assert_admin_scope_for_project c p (is_root_user (kc_admin_db c) (caller c)) = Inr x"
      "assert_manage_users_or_self c u (is_root_user (kc_admin_db c) (caller c)) = Inr y" for p u nm x y
    using assms by (rule rows_step_store_new)
      (use admin_scope_Inr [OF that(1)] manage_users_Inr [OF that(2)] in \<open>auto simp: may_create_def\<close>)
  then show ?thesis using rows_step_refl [OF assms]
    by (simp add: admin_create_api_key_def Let_def split: option.split prod.split sum.split) (metis snd_conv)
qed

lemma handled_rows:
  assumes "keys_wf (ke_coll K) rows" "keys_named rows"
  shows "rows_step (ke_coll K) (may_manage c) (may_create c) rows (snd (handle_key_request K c q (s, rows)))"
proof (cases q)
  case (User_Update k n d f)
  have "rows_step (ke_coll K) (may_manage c) (may_create c) rows (snd (snd (change_key K c k r n d f (s, rows))))" if "owned_key K c k rows = Inr r" for r
    using owned_key_Inr [OF that] by (intro rows_step_change assms) auto
  with User_Update show ?thesis using rows_step_refl [OF assms] by (simp add: user_update_api_key_def split: sum.split)
next
  case (User_Revoke k)
  have "rows_step (ke_coll K) (may_manage c) (may_create c) rows (snd (snd (drop_key K c k r None (s, rows))))" if "owned_key K c k rows = Inr r" for r
    using owned_key_Inr [OF that] by (intro rows_step_drop assms) auto
  with User_Revoke show ?thesis using rows_step_refl [OF assms] by (simp add: user_revoke_api_key_def split: sum.split)
next
  case (Admin_Update k n d f)
  have "rows_step (ke_coll K) (may_manage c) (may_create c) rows (snd (snd (change_key K c k r n d f (s, rows))))" if "administered_key K c k rows = Inr r" for r
    using administered_key_Inr [OF that] by (intro rows_step_change assms) auto
  with Admin_Update show ?thesis using rows_step_refl [OF assms] by (simp add: admin_update_api_key_def split: sum.split)
next
  case (Admin_Revoke k reason)
  have "rows_step (ke_coll K) (may_manage c) (may_create c) rows (snd (snd (drop_key K c k r reason (s, rows))))" if "administered_key K c k rows = Inr r" for r
    using administered_key_Inr [OF that] by (intro rows_step_drop assms) auto
  with Admin_Revoke show ?thesis using rows_step_refl [OF assms] by (simp add: admin_revoke_api_key_def split: sum.split)
qed (simp_all add: rows_step_user_create [OF assms] rows_step_admin_create [OF assms])

lemma handled_recent: "\<not> recently_authenticated K c s \<Longrightarrow> handle_key_request K c q (s, rows) = (s, rows)"
  by (cases q) (simp_all add: user_create_api_key_def user_update_api_key_def user_revoke_api_key_def admin_create_api_key_def
      admin_update_api_key_def admin_revoke_api_key_def split: sum.split)

section \<open>Who is an administrator\<close>

text \<open>A consumer whose permissions avoid the reserved names passes neither gate.\<close>

lemma consumer_is_no_admin:
  assumes "dget cur ''user_type'' = JStr ''consumer''" "permission_list cur = Some ps"
    and "\<And>p. p \<in> set ps \<Longrightarrow> \<not> is_reserved_permission_name p"
    and "get_user_type A (user_id_text cur) = Some ''consumer''"
  shows "verify_admin_access A cur = denied 403 ''Admin access required'' \<and> verify_root_access A cur = denied 403 ''Root access required''"
proof -
  have "JStr ''admin'' \<notin> set ps" "JStr ''global_admin'' \<notin> set ps"
    using assms(3) reserved_names by (auto simp: RESERVED_PERMISSION_NAMES_def)
  then show ?thesis using assms by (simp add: verify_admin_access_def verify_root_access_def is_root_user_def is_admin_user_def)
qed

section \<open>An example\<close>

definition demo_key_env :: "(mem, sym_token) key_env" where
  "demo_key_env = \<lparr>ke_world = demo_world, ke_store = mem_oauth, ke_oauth = demo_env, ke_mac = demo_key_mac, ke_blake = take 12,
     ke_coll = (\<lambda>x. x), ke_stored = (\<lambda>(wall, off). (wall + 500000) div 1000000)\<rparr>"

definition demo_keys_db :: admin_db where
  "demo_keys_db = \<lparr>get_user_type = (\<lambda>u. if u = ''a1'' then Some ''admin'' else if u = ''r1'' then Some ''root'' else Some ''consumer''),
     get_admin_assigned_projects = (\<lambda>_. Some [JStr ''p1'']), get_user_accessible_projects = (\<lambda>_. None),
     get_permission_group_permissions = (\<lambda>_. None), get_role_permission_groups = (\<lambda>_. None)\<rparr>"

definition demo_key_call :: "string \<Rightarrow> sym_token key_call" where
  "demo_key_call uid = \<lparr>kc_now = us_per_second, kc_user = [''user_id'' \<mapsto> JStr uid, ''user_type'' \<mapsto> JStr ''admin''],
     kc_token = Signed demo_claims,
     kc_facts = demo_key_facts\<lparr>kf_admin_access := (\<lambda>u p. Some (u = ''a1'' \<and> p = ''p1'')),
       kf_permissions := (\<lambda>_. Some [JStr ''manage_users''])\<rparr>,
     kc_admin_db = demo_keys_db, kc_project_by_hash = (\<lambda>h. Some [''id'' \<mapsto> JStr ''p1'']),
     kc_user_by_hash = (\<lambda>h. Some [''id'' \<mapsto> JStr ''u1'', ''username'' \<mapsto> JStr ''ann'']), kc_accessible = (\<lambda>_. [[''id'' \<mapsto> JStr ''p1'']]),
     kc_today = ''2026-01-01'', kc_id_bytes = replicate 9 CHR ''a'', kc_secret_bytes = replicate 32 CHR ''b'', kc_cache_up = True\<rparr>"

lemma demo_recent: "recently_authenticated demo_key_env (demo_key_call uid) s"
proof -
  have "us_per_second div us_per_second = 1" by (simp add: us_per_second_def)
  then show ?thesis
    by (simp add: recently_authenticated_def demo_key_env_def demo_key_call_def require_recent_reauthentication_def
        access_token_has_recent_auth_def demo_token_claims demo_claims_fields nonempty_doc_def py_or_def recent_reauth_ttl_def demo_env_def)
qed

lemma demo_key_env_sel [simp]:
  "ke_world demo_key_env = demo_world" "ke_coll demo_key_env = (\<lambda>x. x)" "ke_mac demo_key_env = demo_key_mac"
  by (simp_all add: demo_key_env_def)

lemma demo_key_call_sel [simp]:
  "kc_now (demo_key_call u) = us_per_second" "sql_now (demo_key_call u) = 1" "caller (demo_key_call u) = u"
  "kc_admin_db (demo_key_call u) = demo_keys_db" "kc_cache_up (demo_key_call u)"
  "kf_admin_access (kc_facts (demo_key_call u)) = (\<lambda>u p. Some (u = ''a1'' \<and> p = ''p1''))"
  "kf_permissions (kc_facts (demo_key_call u)) = (\<lambda>_. Some [JStr ''manage_users''])"
  "verify_admin_access demo_keys_db (kc_user (demo_key_call u)) = Inr (kc_user (demo_key_call u))"
  by (simp_all add: demo_key_call_def sql_now_def us_per_second_def caller_def verify_admin_access_def)

lemma demo_admin_revokes:
  "handle_key_request demo_key_env (demo_key_call ''a1'') (Admin_Revoke demo_pid None) (s, [demo_key_row]) =
     (invalidate_api_key mem_redis True demo_pid s, [revoked_row 1 ''a1'' None demo_key_row])"
proof -
  have "redis demo_world = mem_redis" by (simp add: demo_world_def)
  moreover have "administered_key demo_key_env (demo_key_call ''a1'') demo_pid [demo_key_row] = Inr demo_key_row"
    by (simp add: administered_key_def key_by_public_id_def same_def demo_key_texts assert_admin_scope_for_project_def
        is_root_user_def demo_keys_db_def from_db_def)
  ultimately show ?thesis
    by (simp add: admin_revoke_api_key_def demo_recent drop_key_def revoke_api_key_with_cache_invalidation_def revoke_api_key_def
        sp_revoke_api_key_def same_def demo_key_texts Let_def)
qed

text \<open>
  An administrator with \<^verbatim>\<open>manage_users\<close> creates a key owned by a root user, and the key answers with the
  permissions of root; elsewhere administrators may not act on root users (\<open>user_in_scope\<close>).
\<close>

definition demo_root_facts :: key_facts where
  "demo_root_facts = (kc_facts (demo_key_call ''a1''))
     \<lparr>kf_users := [\<lparr>ku_id = ''r1'', ku_user_type = ''root'', ku_is_active = True\<rparr>],
      kf_user_by_id := (\<lambda>_. Some (Some [''user_type'' \<mapsto> JStr ''root'']))\<rparr>"

definition demo_root_call :: "sym_token key_call" where
  "demo_root_call = (demo_key_call ''a1'')\<lparr>kc_facts := demo_root_facts,
     kc_user_by_hash := (\<lambda>h. Some [''id'' \<mapsto> JStr ''r1'', ''username'' \<mapsto> JStr ''root'', ''user_type'' \<mapsto> JStr ''root''])\<rparr>"

lemma demo_root_facts_access:
  "list_ex (\<lambda>u. same (\<lambda>x. x) (ku_id u) ''r1'') (kf_users demo_root_facts)" "active_users (\<lambda>x. x) demo_root_facts ''r1'' \<noteq> []"
  "list_ex (\<lambda>p. same (\<lambda>x. x) (kp_id p) ''p1'') (kf_projects demo_root_facts)"
  "project_open (\<lambda>x. x) demo_root_facts ''p1''" "owner_has_access (\<lambda>x. x) demo_root_facts ''r1'' ''p1''"
  "kf_user_by_id demo_root_facts ''r1'' = Some (Some [''user_type'' \<mapsto> JStr ''root''])"
  by (simp_all add: demo_root_facts_def demo_key_call_def demo_key_facts_def same_def active_users_def project_open_def owner_has_access_def)

lemma demo_root_call_sel [simp]:
  "kc_now demo_root_call = us_per_second" "sql_now demo_root_call = 1" "caller demo_root_call = ''a1''" "kc_admin_db demo_root_call = demo_keys_db"
  "kc_facts demo_root_call = demo_root_facts" "kf_admin_access demo_root_facts = (\<lambda>u p. Some (u = ''a1'' \<and> p = ''p1''))"
  "kf_permissions demo_root_facts = (\<lambda>_. Some [JStr ''manage_users''])" "kc_project_by_hash demo_root_call h = Some [''id'' \<mapsto> JStr ''p1'']"
  "kc_user_by_hash demo_root_call h = Some [''id'' \<mapsto> JStr ''r1'', ''username'' \<mapsto> JStr ''root'', ''user_type'' \<mapsto> JStr ''root'']"
  "verify_admin_access demo_keys_db (kc_user demo_root_call) = Inr (kc_user demo_root_call)"
  "recently_authenticated demo_key_env demo_root_call s"
  using demo_recent [of "''a1''" s]
  by (simp_all add: demo_root_call_def demo_root_facts_def sql_now_def caller_def recently_authenticated_def demo_key_call_def us_per_second_def
      verify_admin_access_def)

lemma admin_mints_root_key:
  "\<exists>r. admin_create_api_key demo_key_env demo_root_call ''rh'' ''ph1'' None None No_Expiry (mem_empty, []) =
     (Inr (r, at_token (key_token demo_key_env demo_root_call)), mem_empty, [r]) \<and> kr_owner_user_id r = ''r1'' \<and>
     owner_grants demo_root_facts ''r1'' ''p1'' project_hash (JStr ''root'') =
       Inr ([JStr ''admin'', JStr ''global_admin''], [JStr ''root_users''])"
  "\<not> user_in_scope demo_keys_db (resolve_admin_scope demo_keys_db (JStr ''a1'')) (JStr ''r1'') (JStr ''root'')"
proof -
  let ?k = "new_key_of demo_key_env demo_root_call ''p1'' ''r1'' ''API Key - root'' None None"
  have k: "nk_owner_user_id ?k = ''r1''" "nk_project_id ?k = ''p1''" by (simp_all add: new_key_of_def Let_def)
  have "sp_create_api_key (\<lambda>x. x) demo_root_facts 1 ?k [] = (Inr (row_of_new 1 ?k), [row_of_new 1 ?k])"
    by (simp add: sp_create_api_key_def k demo_root_facts_access)
  moreover have "kr_owner_user_id (row_of_new 1 ?k) = ''r1''" by (simp add: row_of_new_def k)
  moreover have "\<not> is_root_user demo_keys_db ''a1''" by (simp add: is_root_user_def demo_keys_db_def)
  ultimately show "\<exists>r. admin_create_api_key demo_key_env demo_root_call ''rh'' ''ph1'' None None No_Expiry (mem_empty, []) =
     (Inr (r, at_token (key_token demo_key_env demo_root_call)), mem_empty, [r]) \<and> kr_owner_user_id r = ''r1'' \<and>
     owner_grants demo_root_facts ''r1'' ''p1'' project_hash (JStr ''root'') =
       Inr ([JStr ''admin'', JStr ''global_admin''], [JStr ''root_users''])"
    by (simp add: admin_create_api_key_def Let_def assert_admin_scope_for_project_def assert_manage_users_or_self_def from_db_def
        store_new_key_def parse_expires_at_def blank_field_def owner_grants_def)
  show "\<not> user_in_scope demo_keys_db (resolve_admin_scope demo_keys_db (JStr ''a1'')) (JStr ''r1'') (JStr ''root'')"
    by (simp add: user_in_scope_def resolve_admin_scope_def is_root_def user_types demo_keys_db_def py_or_def Let_def)
qed

text \<open>
  The wall clock of an aware datetime is stored and its offset dropped: with such a driver a key meant to expire at
  noon five hours east of Greenwich is still accepted four hours later.
\<close>

lemma expiry_offset_lost:
  defines "field \<equiv> Iso (12 * 3600 * us_per_second) (Some (5 * 3600 * us_per_second))"
  shows "parse_expires_at (6 * 3600 * us_per_second) field = Inr (Some (12 * 3600 * us_per_second, 5 * 3600 * us_per_second))"
    and "nk_expires_at (new_key_of demo_key_env c p u n d (Some (12 * 3600 * us_per_second, 5 * 3600 * us_per_second))) = Some (12 * 3600)"
    and "kr_expires_at r = Some (12 * 3600) \<Longrightarrow> \<not> key_expired (11 * 3600) r"
  by (simp_all add: field_def parse_expires_at_def us_per_second_def new_key_of_def demo_key_env_def key_expired_def Let_def)

section \<open>Properties\<close>

text \<open>C29. Whatever a request of the API-key routes asks for: without a recent authentication it changes nothing; an
  existing row stays as it is unless the caller owns the key or administers its project; a new row belongs to the caller
  and a project they reach, or was made by an administrator of its project who is root, the owner or holds
  \<^verbatim>\<open>manage_users\<close>; and keys stay unique, keep their identity, and a revocation stands.\<close>

theorem key_management_confined:
  assumes "keys_wf (ke_coll K) rows" "keys_named rows" "handle_key_request K c q (s, rows) = (s', rows')"
  shows "(recently_authenticated K c s \<or> (s', rows') = (s, rows)) \<and>
    keys_wf (ke_coll K) rows' \<and> keys_named rows' \<and> keys_kept rows rows' \<and>
    (\<forall>r\<in>set rows. r \<in> set rows' \<or> may_manage c r) \<and>
    (\<forall>r'\<in>set rows'. (\<exists>r\<in>set rows. key_identity r = key_identity r') \<or> may_create c r')"
  using handled_rows [OF assms(1,2), of c q s] handled_recent [of K c s q rows] assms(3)
  unfolding rows_step_def confined_def by auto

theorem key_management_confined_witness:
  "may_manage (demo_key_call ''a1'') demo_key_row \<and> keys_kept [demo_key_row] [revoked_row 1 ''a1'' None demo_key_row]"
proof -
  have "keys_wf (ke_coll demo_key_env) [demo_key_row]" "keys_named [demo_key_row]"
    by (simp_all add: keys_wf_def keys_named_def demo_key_texts)
  note conf = key_management_confined [OF this demo_admin_revokes [of mem_empty]]
  have "demo_key_row \<notin> set [revoked_row 1 ''a1'' None demo_key_row]"
    using demo_key_texts(4) by (auto simp: revoked_row_def dest: arg_cong [of _ _ kr_is_active])
  with conf show ?thesis by auto
qed



end
