(* ===== verification/Password_Work.thy ===== *)
theory Password_Work
  imports Email_Rate
begin

text \<open>
  Admission of public password work, \<^verbatim>\<open>src/src/Util/password_work.py\<close>: the policy, the Lua script that checks and
  charges the global and the per-address window, the limiter around it, and the pool that bounds the jobs in
  flight. A command of the script that raises ends it and keeps what was done before; the client then sees an
  error, as it does when the reply is lost.
\<close>

section \<open>Policy\<close>

record password_work_policy =
  pw_global_limit :: int
  pw_ip_limit :: int
  pw_window_seconds :: int
  pw_concurrency :: int

definition PasswordWorkPolicy :: "int \<Rightarrow> int \<Rightarrow> int \<Rightarrow> int \<Rightarrow> password_work_policy option" where
  "PasswordWorkPolicy g i w c =
     (if g \<le> 0 \<or> i \<le> 0 \<or> w \<le> 0 \<or> c \<le> 0 then None
      else Some \<lparr>pw_global_limit = g, pw_ip_limit = i, pw_window_seconds = w, pw_concurrency = c\<rparr>)"

text \<open>\<^verbatim>\<open>None\<close> is the \<^verbatim>\<open>ValueError\<close> of a value that is no positive integer.\<close>

definition work_option :: "(string \<Rightarrow> string option) \<Rightarrow> string \<Rightarrow> int \<Rightarrow> int option" where
  "work_option env suffix dflt = (case env (''AUTH_PASSWORD_WORK_'' @ suffix) of None \<Rightarrow> Some dflt | Some t \<Rightarrow> parse_int t)"

definition load_password_work_policy :: "(string \<Rightarrow> string option) \<Rightarrow> password_work_policy option" where
  "load_password_work_policy env =
     (case (work_option env ''GLOBAL_LIMIT'' 60, work_option env ''IP_LIMIT'' 20,
            work_option env ''WINDOW_SECONDS'' 60, work_option env ''CONCURRENCY'' 1) of
        (Some g, Some i, Some w, Some c) \<Rightarrow> PasswordWorkPolicy g i w c
      | _ \<Rightarrow> None)"

section \<open>The script\<close>

text \<open>
  The first loop for one key: \<open>acc\<close> holds \<^verbatim>\<open>retry\<close> and \<^verbatim>\<open>bucket\<close>. A text that is no integer makes the comparison
  raise.
\<close>

definition admit_probe ::
    "'s counters \<Rightarrow> string \<Rightarrow> int \<Rightarrow> int \<Rightarrow> nat \<Rightarrow> int \<times> nat \<Rightarrow> 's \<Rightarrow> (int \<times> nat) option \<times> 's" where
  "admit_probe C key limit window i acc s =
     (case counter_get C key s of
        (None, s1) \<Rightarrow> (None, s1)
      | (Some v, s1) \<Rightarrow>
          (case (case v of None \<Rightarrow> Some 0 | Some t \<Rightarrow> parse_int t) of
             None \<Rightarrow> (None, s1)
           | Some count \<Rightarrow>
               if count \<ge> limit then
                 (case counter_ttl C key s1 of
                    (None, s2) \<Rightarrow> (None, s2)
                  | (Some ttl, s2) \<Rightarrow>
                      if ttl < 0 then
                        (case counter_expire C key window s2 of
                           (None, s3) \<Rightarrow> (None, s3)
                         | (Some _, s3) \<Rightarrow> (Some (if window \<ge> fst acc then (window, i) else acc), s3))
                      else (Some (if ttl \<ge> fst acc then (ttl, i) else acc), s2))
               else (Some acc, s1)))"

text \<open>The second loop for one key.\<close>

definition admit_count :: "'s counters \<Rightarrow> string \<Rightarrow> int \<Rightarrow> 's \<Rightarrow> unit option \<times> 's" where
  "admit_count C key window s =
     (case counter_incr C key s of
        (None, s1) \<Rightarrow> (None, s1)
      | (Some _, s1) \<Rightarrow>
          (case counter_ttl C key s1 of
             (None, s2) \<Rightarrow> (None, s2)
           | (Some ttl, s2) \<Rightarrow>
               if ttl < 0 then
                 (case counter_expire C key window s2 of
                    (None, s3) \<Rightarrow> (None, s3)
                  | (Some _, s3) \<Rightarrow> (Some (), s3))
               else (Some (), s2)))"

definition admit_script ::
    "'s counters \<Rightarrow> string \<Rightarrow> string \<Rightarrow> int \<Rightarrow> int \<Rightarrow> int \<Rightarrow> 's \<Rightarrow> (bool \<times> int \<times> nat) option \<times> 's" where
  "admit_script C key1 key2 limit1 limit2 window s =
     (case admit_probe C key1 limit1 window 1 (0, 0) s of
        (None, s1) \<Rightarrow> (None, s1)
      | (Some acc1, s1) \<Rightarrow>
          (case admit_probe C key2 limit2 window 2 acc1 s1 of
             (None, s2) \<Rightarrow> (None, s2)
           | (Some (retry, bucket), s2) \<Rightarrow>
               if bucket \<noteq> 0 then (Some (False, max 1 retry, bucket), s2)
               else (case admit_count C key1 window s2 of
                       (None, s3) \<Rightarrow> (None, s3)
                     | (Some _, s3) \<Rightarrow>
                         (case admit_count C key2 window s3 of
                            (None, s4) \<Rightarrow> (None, s4)
                          | (Some _, s4) \<Rightarrow> (Some (True, 0, 0), s4)))))"

section \<open>The limiter\<close>

definition work_prefix :: string where "work_prefix = ''auth:{public-password-work}:''"

definition global_work_key :: string where "global_work_key = work_prefix @ ''global''"

definition ip_work_key :: "(string \<Rightarrow> string) \<Rightarrow> string \<Rightarrow> string" where
  "ip_work_key H ip = work_prefix @ ''ip:'' @ H ip"

definition check_password_work ::
    "'s counters \<Rightarrow> password_work_policy \<Rightarrow> (string \<Rightarrow> string) \<Rightarrow> string \<Rightarrow> 's \<Rightarrow> (rate_limit_exceeded + unit) \<times> 's" where
  "check_password_work C pol H ip s =
     (case admit_script C global_work_key (ip_work_key H ip) (pw_global_limit pol) (pw_ip_limit pol) (pw_window_seconds pol) s of
        (None, s1) \<Rightarrow> (Inl (RateLimitExceeded ''password_work_redis'' 1 0 None), s1)
      | (Some (allowed, retry_after, bucket), s1) \<Rightarrow>
          if \<not> allowed then
            (Inl (RateLimitExceeded (''password_work_'' @ (if bucket = 1 then ''global'' else ''ip'')) retry_after
                    (if bucket = 1 then pw_global_limit pol else pw_ip_limit pol) None), s1)
          else (Inr (), s1))"

section \<open>The pool\<close>

text \<open>\<^verbatim>\<open>PasswordWorkPool\<close>: the futures in flight, by name.\<close>

record work_pool =
  pool_concurrency :: nat
  pool_jobs :: "nat list"
  pool_closed :: bool

definition PasswordWorkPool :: "int \<Rightarrow> work_pool option" where
  "PasswordWorkPool c = (if c \<le> 0 then None else Some \<lparr>pool_concurrency = nat c, pool_jobs = [], pool_closed = False\<rparr>)"

definition pool_submit :: "nat \<Rightarrow> work_pool \<Rightarrow> (rate_limit_exceeded + unit) \<times> work_pool" where
  "pool_submit job p =
     (if pool_closed p \<or> length (pool_jobs p) \<ge> pool_concurrency p
      then (Inl (RateLimitExceeded ''password_work_capacity'' 1 (int (pool_concurrency p)) None), p)
      else (Inr (), p\<lparr>pool_jobs := List.insert job (pool_jobs p)\<rparr>))"

definition pool_finished :: "nat \<Rightarrow> work_pool \<Rightarrow> work_pool" where
  "pool_finished job p = p\<lparr>pool_jobs := removeAll job (pool_jobs p)\<rparr>"

definition pool_aclose :: "work_pool \<Rightarrow> work_pool" where
  "pool_aclose p = p\<lparr>pool_closed := True\<rparr>"

text \<open>
  The life of the pool. A request that stops waiting (\<open>Abandoned\<close>) leaves its job where it is, and only the
  end of the job frees its slot.
\<close>

inductive pool_step :: "work_pool \<Rightarrow> work_pool \<Rightarrow> bool" where
  Submitted: "job \<notin> set (pool_jobs p) \<Longrightarrow> pool_submit job p = (r, p') \<Longrightarrow> pool_step p p'"
| Finished: "job \<in> set (pool_jobs p) \<Longrightarrow> pool_step p (pool_finished job p)"
| Abandoned: "pool_step p p"
| Closed: "pool_step p (pool_aclose p)"

inductive_cases pool_stepE: "pool_step p p'"

definition pool_ok :: "work_pool \<Rightarrow> bool" where
  "pool_ok p \<longleftrightarrow> distinct (pool_jobs p) \<and> length (pool_jobs p) \<le> pool_concurrency p"

lemma pool_step_ok: "pool_step p p' \<Longrightarrow> pool_ok p \<Longrightarrow> pool_ok p' \<and> pool_concurrency p' = pool_concurrency p"
  by (erule pool_stepE)
    (auto simp: pool_ok_def pool_submit_def pool_finished_def pool_aclose_def distinct_removeAll
      intro: le_trans [OF length_removeAll_less_eq] split: if_splits)

lemma pool_closed_drains:
  "pool_step p p' \<Longrightarrow> pool_closed p \<Longrightarrow> pool_closed p' \<and> set (pool_jobs p') \<subseteq> set (pool_jobs p)"
  by (erule pool_stepE) (auto simp: pool_submit_def pool_finished_def pool_aclose_def)

lemma pool_bounded:
  assumes "PasswordWorkPool c = Some p0" and "pool_step\<^sup>*\<^sup>* p0 p"
  shows "int (length (pool_jobs p)) \<le> c"
proof -
  have "pool_ok p0" "int (pool_concurrency p0) = c" using assms(1) by (auto simp: PasswordWorkPool_def pool_ok_def split: if_splits)
  moreover have "pool_ok p0 \<longrightarrow> pool_ok p \<and> pool_concurrency p = pool_concurrency p0"
    using assms(2) by (induction rule: rtranclp_induct) (auto dest: pool_step_ok)
  ultimately show ?thesis by (auto simp: pool_ok_def)
qed

section \<open>What the script does\<close>

lemma work_keys_differ: "ip_work_key H ip \<noteq> global_work_key"
  by (simp add: ip_work_key_def global_work_key_def)

text \<open>A probe leaves every counter as it is and only gives a full key without expiry its window.\<close>

definition window_given :: "('s \<Rightarrow> string \<Rightarrow> int option) \<Rightarrow> string \<Rightarrow> int \<Rightarrow> 's \<Rightarrow> 's \<Rightarrow> bool" where
  "window_given left key w s s' \<longleftrightarrow> left s' = left s \<or> left s key = None \<and> left s' = (left s)(key \<mapsto> w * 1000)"

context counter_store
begin

lemma window_given_pace:
  assumes "window_given left key w s s'" and "0 < w"
    and "text_at s' = text_at s \<or> text_at s' = (text_at s)(key \<mapsto> int_text (value_as_int (text_at s key) + 1))"
  shows "pace_step text_at left k w s s'"
proof -
  have "value_as_int (text_at s k) \<le> value_as_int (text_at s' k)" using assms(3) by auto
  moreover have "left s' k = left s k \<or> left s k = None \<and> left s' k = Some (max 1 w * 1000)"
    using assms(1,2) by (cases "k = key") (auto simp: window_given_def max_def)
  ultimately show ?thesis unfolding pace_step_def by auto
qed

lemma admit_probe_effect:
  assumes "admit_probe C key limit w i acc s = (x, s')" and "0 < w" and "0 < limit"
  shows "text_at s' = text_at s" and "window_given left key w s s'"
    and "x = Some a \<Longrightarrow> value_as_int (text_at s key) < limit \<and> a = acc \<and> left s' = left s \<or>
           limit \<le> value_as_int (text_at s key) \<and> (\<exists>t. 0 \<le> t \<and> a = (if t \<ge> fst acc then (t, i) else acc))"
proof -
  obtain v s1 where g: "counter_get C key s = (v, s1)" by (cases "counter_get C key s")
  note gk = get_keeps [OF g]
  have v: "v = Some y \<Longrightarrow> y = text_at s key" for y using get_ok g by blast
  obtain ttl s2 where t: "counter_ttl C key s1 = (ttl, s2)" by (cases "counter_ttl C key s1")
  note tk = ttl_keeps [OF t]
  have tn: "ttl = Some n \<Longrightarrow> n < 0 \<longleftrightarrow> left s key = None" for n using ttl_ok [of key s1 n s2] t gk by simp
  obtain b s3 where e: "counter_expire C key w s2 = (b, s3)" by (cases "counter_expire C key w s2")
  note et = expire_text [OF e assms(2)]
  have el: "left s3 = left s2 \<or> left s3 = (left s2)(key \<mapsto> w * 1000)" if "text_at s2 key \<noteq> None"
    using expire_ok [of key w s2 _ s3] expire_raised [of key w s2 s3] e assms(2) that by (cases b) auto
  consider (err) "x = None" "s' = s1" | (low) "x = Some acc" "s' = s1" "v \<noteq> None" "value_as_int (text_at s key) < limit"
    | (live) n where "limit \<le> value_as_int (text_at s key)" "ttl = Some n" "0 \<le> n" "s' = s2" "x = Some (if n \<ge> fst acc then (n, i) else acc)"
    | (lost) "limit \<le> value_as_int (text_at s key)" "ttl = None" "s' = s2" "x = None"
    | (given) n where "limit \<le> value_as_int (text_at s key)" "ttl = Some n" "n < 0" "s' = s3"
        "x = None \<or> x = Some (if w \<ge> fst acc then (w, i) else acc)"
    using assms(1) g t e v unfolding admit_probe_def
    by (auto simp: value_as_int_def split: option.splits if_splits)
  note cases = this
  have some: "limit \<le> value_as_int (text_at s key) \<Longrightarrow> text_at s key \<noteq> None" using assms(3) by (cases "text_at s key") auto
  show "text_at s' = text_at s" using cases by cases (auto simp: gk tk et)
  show "window_given left key w s s'"
    using cases by cases (use gk tk el some tn in \<open>auto simp: window_given_def\<close>)
  show "value_as_int (text_at s key) < limit \<and> a = acc \<and> left s' = left s \<or>
      limit \<le> value_as_int (text_at s key) \<and> (\<exists>t. 0 \<le> t \<and> a = (if t \<ge> fst acc then (t, i) else acc))" if "x = Some a"
    using cases
  proof cases
    case (live n)
    with that have "a = (if n \<ge> fst acc then (n, i) else acc)" by simp
    with live show ?thesis by blast
  next
    case (given n)
    with that have "a = (if w \<ge> fst acc then (w, i) else acc)" by simp
    with given(1) assms(2) show ?thesis by (intro disjI2 conjI exI [of _ w]) auto
  qed (use that gk in auto)
qed

lemma admit_count_effect:
  assumes "admit_count C key w s = (x, s')" and "0 < w"
  shows "text_at s' = text_at s \<or> text_at s' = (text_at s)(key \<mapsto> int_text (value_as_int (text_at s key) + 1))"
    and "window_given left key w s s'"
    and "x = Some u \<Longrightarrow> text_at s' = (text_at s)(key \<mapsto> int_text (value_as_int (text_at s key) + 1))"
proof -
  obtain n s1 where i: "counter_incr C key s = (n, s1)" by (cases "counter_incr C key s")
  have il: "left s1 = left s" and it: "text_at s1 = text_at s \<or> text_at s1 = (text_at s)(key \<mapsto> int_text (value_as_int (text_at s key) + 1))"
    and isn: "n = Some m \<Longrightarrow> text_at s1 = (text_at s)(key \<mapsto> int_text (value_as_int (text_at s key) + 1))" for m
    using incr_ok [of key s _ s1] incr_raised [of key s s1] i by (cases n; force)+
  obtain ttl s2 where t: "counter_ttl C key s1 = (ttl, s2)" by (cases "counter_ttl C key s1")
  note tk = ttl_keeps [OF t]
  have tn: "ttl = Some k \<Longrightarrow> k < 0 \<longleftrightarrow> left s key = None" for k using ttl_ok [of key s1 k s2] t il by simp
  obtain b s3 where e: "counter_expire C key w s2 = (b, s3)" by (cases "counter_expire C key w s2")
  note et = expire_text [OF e assms(2)]
  have el: "left s3 = left s2 \<or> left s3 = (left s2)(key \<mapsto> w * 1000)" if "text_at s2 key \<noteq> None"
    using expire_ok [of key w s2 _ s3] expire_raised [of key w s2 s3] e assms(2) that by (cases b) auto
  consider (err) "x = None" "s' = s1" "n = None" | (kept) m where "n = Some m" "s' = s2"
    | (given) m k where "n = Some m" "ttl = Some k" "k < 0" "s' = s3"
    using assms(1) i t e unfolding admit_count_def by (auto split: option.splits if_splits)
  note cases = this
  show "text_at s' = text_at s \<or> text_at s' = (text_at s)(key \<mapsto> int_text (value_as_int (text_at s key) + 1))"
    using cases by cases (use it isn tk et in auto)
  show "window_given left key w s s'"
    using cases by cases (use il isn tk el tn in \<open>auto simp: window_given_def\<close>)
  show "text_at s' = (text_at s)(key \<mapsto> int_text (value_as_int (text_at s key) + 1))" if "x = Some u"
    using cases by cases (use that isn tk et in auto)
qed

text \<open>
  The whole script: a refusal charges nothing, an admission charges both keys and met both below their limits, and
  a failure in between charges at most once each.
\<close>

lemma admit_script_effect:
  assumes run: "admit_script C k1 k2 l1 l2 w s = (x, s')" and pos: "0 < w" "0 < l1" "0 < l2" and keys: "k1 \<noteq> k2"
  shows "pace_step text_at left k w s s'"
    and "x = Some (True, r, b) \<Longrightarrow>
      value_as_int (text_at s k1) < l1 \<and> value_as_int (text_at s' k1) = value_as_int (text_at s k1) + 1 \<and>
      value_as_int (text_at s k2) < l2 \<and> value_as_int (text_at s' k2) = value_as_int (text_at s k2) + 1"
    and "x = Some (False, r, b) \<Longrightarrow> text_at s' = text_at s \<and>
      (if b = 1 then l1 \<le> value_as_int (text_at s k1) else l2 \<le> value_as_int (text_at s k2))"
proof -
  obtain x1 s1 where p1: "admit_probe C k1 l1 w 1 (0, 0) s = (x1, s1)" by (cases "admit_probe C k1 l1 w 1 (0, 0) s")
  note e1 = admit_probe_effect [OF p1 pos(1,2)]
  obtain x2 s2 where p2: "admit_probe C k2 l2 w 2 (the x1) s1 = (x2, s2)" by (cases "admit_probe C k2 l2 w 2 (the x1) s1")
  note e2 = admit_probe_effect [OF p2 pos(1,3)]
  obtain x3 s3 where p3: "admit_count C k1 w s2 = (x3, s3)" by (cases "admit_count C k1 w s2")
  note e3 = admit_count_effect [OF p3 pos(1)]
  obtain x4 s4 where p4: "admit_count C k2 w s3 = (x4, s4)" by (cases "admit_count C k2 w s3")
  note e4 = admit_count_effect [OF p4 pos(1)]
  let ?P = "pace_step text_at left k w"
  note wp = window_given_pace [OF _ pos(1)]
  have st: "?P s s1" "?P s1 s2" "?P s2 s3" "?P s3 s4"
    using wp [OF e1(2)] e1(1) wp [OF e2(2)] e2(1) wp [OF e3(2,1)] wp [OF e4(2,1)] by blast+
  have "?P s s2" "?P s s3" "?P s s4" using st by (meson pace_step_trans)+
  moreover have "s' \<in> {s1, s2, s3, s4}"
    using run p1 p2 p3 p4 unfolding admit_script_def by (auto split: option.splits prod.splits if_splits)
  ultimately show "pace_step text_at left k w s s'" using st(1) by auto
  have "\<exists>a1 a2. x1 = Some a1 \<and> x2 = Some a2" if "x = Some y" for y
    using that run p1 p2 p3 p4 unfolding admit_script_def by (auto split: option.splits prod.splits if_splits)
  then obtain a1 retry bucket where a: "x1 = Some a1" "x2 = Some (retry, bucket)" if "x = Some y" for y by (metis surj_pair option.inject)
  show "value_as_int (text_at s k1) < l1 \<and> value_as_int (text_at s' k1) = value_as_int (text_at s k1) + 1 \<and>
      value_as_int (text_at s k2) < l2 \<and> value_as_int (text_at s' k2) = value_as_int (text_at s k2) + 1"
    if x: "x = Some (True, r, b)"
  proof -
    note a = a [OF x]
    have "bucket = 0" "x3 = Some ()" "x4 = Some ()" "s' = s4"
      using x a run p1 p2 p3 p4 unfolding admit_script_def by (auto split: option.splits prod.splits if_splits)
    moreover from this(1) have "value_as_int (text_at s k1) < l1" "value_as_int (text_at s1 k2) < l2"
      using e1(3) [OF a(1)] e2(3) [OF a(2)] a(1) by (auto split: if_splits)
    ultimately show ?thesis using e1(1) e2(1) e3(3) e4(3) keys by auto
  qed
  show "text_at s' = text_at s \<and> (if b = 1 then l1 \<le> value_as_int (text_at s k1) else l2 \<le> value_as_int (text_at s k2))"
    if x: "x = Some (False, r, b)"
  proof -
    note a = a [OF x]
    have "bucket \<noteq> 0" "b = bucket" "s' = s2"
      using x a run p1 p2 p3 p4 unfolding admit_script_def by (auto split: option.splits prod.splits if_splits)
    then show ?thesis using e1(1) e2(1) e1(3) [OF a(1)] e2(3) [OF a(2)] a(1) by (auto split: if_splits)
  qed
qed

end

context counter_store
begin

lemma check_work_script:
  assumes "check_password_work C pol H ip s = (r, s')"
  obtains x where "admit_script C global_work_key (ip_work_key H ip) (pw_global_limit pol) (pw_ip_limit pol) (pw_window_seconds pol) s = (x, s')"
    and "\<not> isl r \<longleftrightarrow> (\<exists>t b. x = Some (True, t, b))"
    and "isl r \<longrightarrow> rx_bucket (projl r) = ''password_work_redis'' \<or> (\<exists>t b. x = Some (False, t, b))"
  using assms unfolding check_password_work_def
  by (auto simp: RateLimitExceeded_def split: option.splits prod.splits if_splits)

lemma check_work_paces:
  assumes "0 < pw_window_seconds pol" "0 < pw_global_limit pol" "0 < pw_ip_limit pol"
  shows "paces text_at left global_work_key (pw_global_limit pol) (pw_window_seconds pol) True (check_password_work C pol H ip)"
    and "paces text_at left (ip_work_key H a) (pw_ip_limit pol) (pw_window_seconds pol) (H ip = H a) (check_password_work C pol H ip)"
proof -
  note eff = admit_script_effect [OF _ assms work_keys_differ [symmetric]]
  show "paces text_at left global_work_key (pw_global_limit pol) (pw_window_seconds pol) True (check_password_work C pol H ip)"
    by (rule pacesI; erule check_work_script; use eff(1,2) in fastforce)
  show "paces text_at left (ip_work_key H a) (pw_ip_limit pol) (pw_window_seconds pol) (H ip = H a) (check_password_work C pol H ip)"
  proof (rule pacesI; erule check_work_script)
    fix s r s' x
    assume x: "admit_script C global_work_key (ip_work_key H ip) (pw_global_limit pol) (pw_ip_limit pol) (pw_window_seconds pol) s = (x, s')"
    show "pace_step text_at left (ip_work_key H a) (pw_window_seconds pol) s s'"
      by (rule eff(1) [OF x])
    assume "\<not> isl r \<longleftrightarrow> (\<exists>t b. x = Some (True, t, b))" "H ip = H a" "\<not> isl r"
    with eff(2) [OF x] show "value_as_int (text_at s (ip_work_key H a)) < pw_ip_limit pol \<and>
        value_as_int (text_at s (ip_work_key H a)) + 1 \<le> value_as_int (text_at s' (ip_work_key H a))"
      by (auto simp: ip_work_key_def)
  qed
qed

end

section \<open>Property\<close>

lemma loaded_policy_positive:
  "load_password_work_policy env = Some pol \<Longrightarrow>
     0 < pw_window_seconds pol \<and> 0 < pw_global_limit pol \<and> 0 < pw_ip_limit pol \<and> 0 < pw_concurrency pol"
  by (auto simp: load_password_work_policy_def PasswordWorkPolicy_def split: option.splits if_splits)

text \<open>C35. Under a policy that loads, in any schedule of requests shorter than the window at most twice the global limit
  of password jobs are admitted, and at most twice the address limit from one address; from empty windows at most
  the limits themselves. A refusal for a full window charges no counter, so that neither window is extended by it.\<close>

theorem password_work_bounded:
  assumes "counter_store C text_at left wait" and "load_password_work_policy env = Some pol"
    and "duration es < pw_window_seconds pol * 1000"
    and "0 \<le> value_as_int (text_at s global_work_key)" and "0 \<le> value_as_int (text_at s (ip_work_key H a))"
  shows "int (admitted (check_password_work C pol H) wait (\<lambda>_. True) es s) \<le> 2 * pw_global_limit pol \<and>
    int (admitted (check_password_work C pol H) wait (\<lambda>ip. H ip = H a) es s) \<le> 2 * pw_ip_limit pol \<and>
    (text_at s global_work_key = None \<and> left s global_work_key = None \<longrightarrow>
       int (admitted (check_password_work C pol H) wait (\<lambda>_. True) es s) \<le> pw_global_limit pol) \<and>
    (text_at s (ip_work_key H a) = None \<and> left s (ip_work_key H a) = None \<longrightarrow>
       int (admitted (check_password_work C pol H) wait (\<lambda>ip. H ip = H a) es s) \<le> pw_ip_limit pol) \<and>
    (\<forall>ip t e t'. check_password_work C pol H ip t = (Inl e, t') \<longrightarrow> rx_bucket e \<noteq> ''password_work_redis'' \<longrightarrow> text_at t' = text_at t)"
proof -
  let ?step = "check_password_work C pol H"
  note pos = loaded_policy_positive [OF assms(2)]
  have d: "duration es < max 1 (pw_window_seconds pol) * 1000" using assms(3) by auto
  have g: "paces text_at left global_work_key (pw_global_limit pol) (pw_window_seconds pol) True (?step ip)"
    and i: "paces text_at left (ip_work_key H a) (pw_ip_limit pol) (pw_window_seconds pol) (H ip = H a) (?step ip)" for ip
    using counter_store.check_work_paces [OF assms(1)] pos by blast+
  note span = counter_store.admitted_span [where step = ?step, OF assms(1) _ d]
    and live = counter_store.admitted_live [where step = ?step, OF assms(1) _ d]
  have 1: "int (admitted ?step wait (\<lambda>_. True) es s) \<le> 2 * pw_global_limit pol"
    using span [where P = "\<lambda>_. True", OF g, of s] assms(4) pos by auto
  have 2: "int (admitted ?step wait (\<lambda>ip. H ip = H a) es s) \<le> 2 * pw_ip_limit pol"
    using span [where P = "\<lambda>ip. H ip = H a", OF i, of s] assms(5) pos by auto
  have 3: "int (admitted ?step wait (\<lambda>_. True) es s) \<le> pw_global_limit pol"
    if "text_at s global_work_key = None \<and> left s global_work_key = None"
    using live [where P = "\<lambda>_. True", OF g, of s] that pos by auto
  have 4: "int (admitted ?step wait (\<lambda>ip. H ip = H a) es s) \<le> pw_ip_limit pol"
    if "text_at s (ip_work_key H a) = None \<and> left s (ip_work_key H a) = None"
    using live [where P = "\<lambda>ip. H ip = H a", OF i, of s] that pos by auto
  have 5: "text_at t' = text_at t" if c: "?step ip t = (Inl e, t')" "rx_bucket e \<noteq> ''password_work_redis''" for ip t e t'
  proof (rule counter_store.check_work_script [OF assms(1) c(1)])
    fix x
    assume "admit_script C global_work_key (ip_work_key H ip) (pw_global_limit pol) (pw_ip_limit pol) (pw_window_seconds pol) t = (x, t')"
      and "isl (Inl e :: rate_limit_exceeded + unit) \<longrightarrow> rx_bucket (projl (Inl e :: rate_limit_exceeded + unit)) = ''password_work_redis'' \<or> (\<exists>r b. x = Some (False, r, b))"
    with c(2) counter_store.admit_script_effect(3) [OF assms(1) _ _ _ _ work_keys_differ [symmetric]] pos
    show ?thesis by (auto; blast)
  qed
  from 1 2 3 4 5 show ?thesis by blast
qed

definition demo_work_policy :: password_work_policy where
  "demo_work_policy = \<lparr>pw_global_limit = 2, pw_ip_limit = 1, pw_window_seconds = 60, pw_concurrency = 1\<rparr>"

definition demo_work_env :: "string \<Rightarrow> string option" where
  "demo_work_env = [''AUTH_PASSWORD_WORK_GLOBAL_LIMIT'' \<mapsto> ''2'', ''AUTH_PASSWORD_WORK_IP_LIMIT'' \<mapsto> ''1'']"

definition demo_work_requests :: "(string + nat) list" where
  "demo_work_requests = [Inl ''a'', Inl ''a'', Inr 1000, Inl ''b'', Inl ''c'']"

lemma demo_work_admitted:
  "admitted (check_password_work mem_counters demo_work_policy id) cm_wait (\<lambda>_. True) demo_work_requests (no_counters []) = 2"
  by code_simp

theorem password_work_bounded_witness:
  "int (admitted (check_password_work mem_counters demo_work_policy id) cm_wait (\<lambda>_. True) demo_work_requests (no_counters [])) \<le> 2 \<and>
   int (admitted (check_password_work mem_counters demo_work_policy id) cm_wait (\<lambda>ip. id ip = id ''a'') demo_work_requests (no_counters [])) \<le> 1"
proof -
  have "load_password_work_policy demo_work_env = Some demo_work_policy" by code_simp
  moreover have "duration demo_work_requests < pw_window_seconds demo_work_policy * 1000"
    by (simp add: demo_work_requests_def demo_work_policy_def)
  ultimately show ?thesis
    using password_work_bounded [OF mem_counters.counter_store_axioms, of demo_work_env demo_work_policy demo_work_requests "no_counters []" id "''a''"]
    by (simp add: empty_counters demo_work_policy_def)
qed

end
