(* ===== verification/Auth_Routes.thy ===== *)
theory Auth_Routes
  imports API_Key_Routes Password_Work
begin

text \<open>
  The login, refresh, project-switch and logout handlers of \<^verbatim>\<open>src/src/routes/auth.py\<close>, with the account lookup of
  \<^verbatim>\<open>src/src/Util/db/db_users.py\<close> and the transports of \<^verbatim>\<open>src/src/Util/security.py\<close>. They compose the password-work
  admission, the login limiter, the lifecycle and the recent-authentication check. Argon2 enters as a function that
  verifies, one that hashes and one that asks for a new hash. A reply is what the handler returns, a rate-limit
  response, or an exception by its status and error code; what a reply only prints (names, groups, plan) and the
  activity log are left out.
\<close>

section \<open>Replies\<close>

datatype 'a reply = Replied 'a | Limited rate_limit_exceeded | Raised http_error

definition raised :: "int \<Rightarrow> string \<Rightarrow> 'a reply" where
  "raised code text = Raised \<lparr>status_code = code, detail = text\<rparr>"

section \<open>The environment\<close>

record ('s, 't) auth_env =
  ae_world :: "('s, 't) world"
  ae_store :: "'s oauth_redis"
  ae_oauth :: oauth_env
  ae_counters :: "'s counters"
  ae_policy :: rate_limit_policy
  ae_work :: password_work_policy
  ae_digest :: "string \<Rightarrow> string"
  ae_coll :: "string \<Rightarrow> string"
  ae_verify :: "string \<Rightarrow> string \<Rightarrow> bool"
  ae_hash :: "string \<Rightarrow> string"
  ae_needs_rehash :: "string \<Rightarrow> bool"

text \<open>
  One request: the instant, the identifiers it draws, the peer address, the pool as it finds it, what the database
  answers, and whether the account lookup and the password migration go through.
\<close>

record auth_call =
  ac_now :: int
  ac_ids :: uuids
  ac_peer :: "string option"
  ac_pool :: "work_pool option"
  ac_job :: nat
  ac_hooks :: db_hooks
  ac_groups_in_project :: "string \<Rightarrow> string \<Rightarrow> json list option"
  ac_groups_for_user :: "string \<Rightarrow> json list option"
  ac_lookup_ok :: bool
  ac_migration_ok :: bool

definition peer_address :: "auth_call \<Rightarrow> string" where
  "peer_address c = (case ac_peer c of Some (x # host) \<Rightarrow> x # host | _ \<Rightarrow> ''unknown'')"

section \<open>Accounts\<close>

text \<open>\<^verbatim>\<open>TRIM\<close> of MySQL removes blanks only.\<close>

definition sql_trim :: "string \<Rightarrow> string" where
  "sql_trim s = rev (dropWhile (\<lambda>c. c = CHR '' '') (rev (dropWhile (\<lambda>c. c = CHR '' '') s)))"

definition account_by_name :: "(string \<Rightarrow> string) \<Rightarrow> identity_tables \<Rightarrow> string \<Rightarrow> user_row option" where
  "account_by_name K T x = List.find (\<lambda>u. u_is_active u \<and> K (u_username u) = K x) (it_users T)"

text \<open>The unique key on activated addresses leaves at most one row, so the order of the query is immaterial.\<close>

definition account_by_email :: "(string \<Rightarrow> string) \<Rightarrow> identity_tables \<Rightarrow> string \<Rightarrow> user_row option" where
  "account_by_email K T x =
     (case List.find (\<lambda>e. em_status e = ''activated'' \<and> \<not> em_removed e \<and> K (em_normalized e) = K (str_lower (sql_trim x)) \<and>
             list_ex (\<lambda>u. u_is_active u \<and> K (u_id u) = K (em_user_id e)) (it_users T)) (it_emails T) of
        None \<Rightarrow> None
      | Some e \<Rightarrow> List.find (\<lambda>u. u_is_active u \<and> K (u_id u) = K (em_user_id e)) (it_users T))"

definition sp_user_login :: "(string \<Rightarrow> string) \<Rightarrow> identity_tables \<Rightarrow> string \<Rightarrow> user_row option" where
  "sp_user_login K T x = (case account_by_name K T x of Some u \<Rightarrow> Some u | None \<Rightarrow> account_by_email K T x)"

definition sp_update_password_hash :: "(string \<Rightarrow> string) \<Rightarrow> string \<Rightarrow> string \<Rightarrow> identity_tables \<Rightarrow> identity_tables" where
  "sp_update_password_hash K user_id new_hash T =
     T\<lparr>it_users := map (\<lambda>u. if K (u_id u) = K user_id then u\<lparr>u_password_hash := new_hash\<rparr> else u) (it_users T)\<rparr>"

text \<open>\<open>None\<close> is the database error; \<open>Some None\<close> are wrong credentials, for an unknown account as for a wrong password.\<close>

definition get_user_by_credentials ::
    "('s, 't) auth_env \<Rightarrow> auth_call \<Rightarrow> string \<Rightarrow> string \<Rightarrow> identity_tables \<Rightarrow> dict option option \<times> identity_tables" where
  "get_user_by_credentials E c username password T =
     (if \<not> ac_lookup_ok c then (None, T)
      else case sp_user_login (ae_coll E) T username of
             None \<Rightarrow> (Some None, T)
           | Some u \<Rightarrow>
               if u_password_hash u = [] then (Some None, T)
               else if \<not> ae_verify E password (u_password_hash u) then (Some None, T)
               else (Some (Some (user_dict (ae_coll E) T u)),
                     if ae_needs_rehash E (u_password_hash u) \<and> ac_migration_ok c
                     then sp_update_password_hash (ae_coll E) (u_id u) (ae_hash E password) T else T))"

section \<open>Password work\<close>

definition run_public_password_work ::
    "('s, 't) auth_env \<Rightarrow> auth_call \<Rightarrow> ('s \<times> identity_tables \<Rightarrow> 'a reply \<times> 's \<times> identity_tables) \<Rightarrow>
     's \<times> identity_tables \<Rightarrow> 'a reply \<times> 's \<times> identity_tables" where
  "run_public_password_work E c operation st =
     (case ac_pool c of
        None \<Rightarrow> (Limited (RateLimitExceeded ''password_work_unavailable'' 1 0 None), st)
      | Some p \<Rightarrow>
          (case pool_submit (ac_job c) p of
             (Inl e, _) \<Rightarrow> (Limited e, st)
           | (Inr _, _) \<Rightarrow>
               (case check_password_work (ae_counters E) (ae_work E) (ae_digest E) (peer_address c) (fst st) of
                  (Inl e, s1) \<Rightarrow> (Limited e, (s1, snd st))
                | (Inr _, s1) \<Rightarrow> operation (s1, snd st))))"

text \<open>A failure of the counter that records a wrong password is swallowed.\<close>

definition login_password_job ::
    "('s, 't) auth_env \<Rightarrow> auth_call \<Rightarrow> string \<Rightarrow> string \<Rightarrow> 's \<times> identity_tables \<Rightarrow> dict reply \<times> 's \<times> identity_tables" where
  "login_password_job E c username password st =
     (case st of (s, T) \<Rightarrow>
        (case check_login_identifier_allowed (ae_counters E) (ae_policy E) (ae_digest E) (peer_address c) username s of
           (Inl e, s1) \<Rightarrow> (Limited e, (s1, T))
         | (Inr _, s1) \<Rightarrow>
             (case get_user_by_credentials E c username password T of
                (None, T1) \<Rightarrow> (raised 500 ''DB_6001'', (s1, T1))
              | (Some None, T1) \<Rightarrow>
                  (raised 401 ''AUTH_1001'',
                   (snd (record_login_identifier_failure (ae_counters E) (ae_policy E) (ae_digest E) (peer_address c) username s1), T1))
              | (Some (Some user), T1) \<Rightarrow> (Replied user, (s1, T1)))))"

section \<open>Login\<close>

definition project_is_auth_accessible :: "dict \<Rightarrow> bool" where
  "project_is_auth_accessible project \<longleftrightarrow>
     truthy (dget_default project ''is_active'' (JBool True)) \<and> \<not> truthy (dget_default project ''archived'' (JBool False))"

definition ROOT_LOGIN_PERMISSIONS :: "string list" where
  "ROOT_LOGIN_PERMISSIONS = [''admin'', ''global_admin'', ''unrestricted_access'']"

definition ADMIN_LOGIN_PERMISSIONS :: "string list" where
  "ADMIN_LOGIN_PERMISSIONS = [''admin'', ''project_admin'', ''manage_users'', ''manage_groups'', ''manage_permissions'']"

text \<open>The project that the account may log in to, and the permissions, groups and group ids its session carries.\<close>

definition group_field :: "string \<Rightarrow> json \<Rightarrow> string" where
  "group_field k g = (case g of JObj d \<Rightarrow> py_str (dget d k) | _ \<Rightarrow> py_str g)"

definition names_project :: "json list \<Rightarrow> string \<Rightarrow> bool" where
  "names_project projects project_hash \<longleftrightarrow>
     list_ex (\<lambda>p. case p of JObj d \<Rightarrow> dget d ''project_hash'' = JStr project_hash | _ \<Rightarrow> False) projects"

definition login_project ::
    "auth_call \<Rightarrow> dict \<Rightarrow> string \<Rightarrow> (dict \<times> string list \<times> string list \<times> string list option) result" where
  "login_project c user project_hash =
     (let D = ac_hooks c; uid = py_str (dget user ''id''); utype = dget user ''user_type''
      in if utype = JStr ''root'' then
           (case get_project_by_hash D project_hash of
              None \<Rightarrow> denied 404 ''NF_4004''
            | Some p \<Rightarrow>
                if \<not> project_is_auth_accessible p then denied 403 ''AUTHZ_2003''
                else Inr (p, ROOT_LOGIN_PERMISSIONS, [''root_users''], None))
         else if utype = JStr ''admin'' then
           (case get_project_by_hash D project_hash of
              None \<Rightarrow> denied 404 ''NF_4004''
            | Some p \<Rightarrow>
                if \<not> project_is_auth_accessible p then denied 403 ''AUTHZ_2003''
                else if \<not> check_admin_project_access D uid (py_str (dget p ''id'')) then denied 403 ''AUTHZ_2003''
                else Inr (p, ADMIN_LOGIN_PERMISSIONS, [''project_admins''], Some []))
         else
           (case get_user_accessible_projects D uid of
              None \<Rightarrow> denied 500 ''DB_6001''
            | Some accessible \<Rightarrow>
                (case resolve_target_project D accessible project_hash of
                   None \<Rightarrow>
                     if accessible = [] then denied 403 ''AUTHZ_2001''
                     else if \<not> names_project accessible project_hash then denied 403 ''AUTHZ_2003''
                     else denied 404 ''NF_4004''
                 | Some p \<Rightarrow>
                     if \<not> project_is_auth_accessible p then denied 403 ''AUTHZ_2003''
                     else (case ac_groups_for_user c uid of
                             None \<Rightarrow> denied 500 ''DB_6001''
                           | Some groups \<Rightarrow> Inr (p, [], map (group_field ''group_name'') groups, Some (map (group_field ''id'') groups))))))"

definition auth_login ::
    "('s, 't) auth_env \<Rightarrow> auth_call \<Rightarrow> string \<Rightarrow> string \<Rightarrow> bool \<Rightarrow> string option \<Rightarrow> 's \<times> identity_tables \<Rightarrow>
     ('t token_pair \<times> dict \<times> dict) reply \<times> 's \<times> identity_tables" where
  "auth_login E c username password remember_me project_hash st =
     (if username = [] \<or> password = [] then (raised 400 ''VAL_3002'', st)
      else case run_public_password_work E c (login_password_job E c username password) st of
             (Limited e, st1) \<Rightarrow> (Limited e, st1)
           | (Raised e, st1) \<Rightarrow> (Raised e, st1)
           | (Replied user, (s1, T1)) \<Rightarrow>
               if blank_field project_hash then (raised 400 ''VAL_3002'', (s1, T1))
               else (case login_project c user (the project_hash) of
                       Inl e \<Rightarrow> (Raised e, (s1, T1))
                     | Inr (project, permissions, groups, group_ids) \<Rightarrow>
                         (case issue_project_token_pair (ae_world E) (ac_now c) (ac_ids c) user project (Some permissions) (Some groups)
                                 group_ids remember_me s1 of
                            (Inl e, s2) \<Rightarrow> (Raised e, (s2, T1))
                          | (Inr pair, s2) \<Rightarrow> (Replied (pair, user, project), (s2, T1)))))"

definition PLATFORM_ROOT_PERMISSIONS :: "string list" where
  "PLATFORM_ROOT_PERMISSIONS = [''admin'', ''global_admin'', ''manage_users'', ''manage_roles'', ''unrestricted_access'']"

definition PLATFORM_ADMIN_PERMISSIONS :: "string list" where
  "PLATFORM_ADMIN_PERMISSIONS = [''admin'', ''project_admin'', ''manage_users'', ''manage_roles'', ''manage_permissions'']"

definition auth_platform_login ::
    "('s, 't) auth_env \<Rightarrow> auth_call \<Rightarrow> string \<Rightarrow> string \<Rightarrow> bool \<Rightarrow> 's \<times> identity_tables \<Rightarrow>
     ('t token_pair \<times> dict) reply \<times> 's \<times> identity_tables" where
  "auth_platform_login E c username password remember_me st =
     (if username = [] \<or> password = [] then (raised 400 ''VAL_3002'', st)
      else case run_public_password_work E c (login_password_job E c username password) st of
             (Limited e, st1) \<Rightarrow> (Limited e, st1)
           | (Raised e, st1) \<Rightarrow> (Raised e, st1)
           | (Replied user, (s1, T1)) \<Rightarrow>
               if dget user ''user_type'' \<noteq> JStr ''root'' \<and> dget user ''user_type'' \<noteq> JStr ''admin''
               then (raised 403 ''AUTHZ_2002'', (s1, T1))
               else
                 let root = (dget user ''user_type'' = JStr ''root'')
                 in (case issue_platform_token_pair (ae_world E) (ac_now c) (ac_ids c) user
                            (Some (if root then PLATFORM_ROOT_PERMISSIONS else PLATFORM_ADMIN_PERMISSIONS))
                            (Some (if root then [''platform_root_users''] else [''platform_admins''])) remember_me s1 of
                       (Inl e, s2) \<Rightarrow> (Raised e, (s2, T1))
                     | (Inr pair, s2) \<Rightarrow> (Replied (pair, user), (s2, T1))))"

section \<open>Refresh tokens in a request\<close>

text \<open>The cookie and the form field; an empty text counts as absent.\<close>

definition present_text :: "('s, 't) world \<Rightarrow> 't option \<Rightarrow> bool" where
  "present_text W t = (case t of None \<Rightarrow> False | Some x \<Rightarrow> jwt_text (jwt W) x \<noteq> [])"

definition extract_refresh_token_from_request :: "('s, 't) world \<Rightarrow> 't option \<Rightarrow> 't option \<Rightarrow> 't result" where
  "extract_refresh_token_from_request W cookie_token body_token =
     (if present_text W cookie_token \<and> present_text W body_token \<and>
         jwt_text (jwt W) (the cookie_token) \<noteq> jwt_text (jwt W) (the body_token)
      then denied 401 ''Mismatched refresh token transports''
      else if present_text W cookie_token then Inr (the cookie_token)
      else if present_text W body_token then Inr (the body_token)
      else denied 401 ''Missing refresh token: provide refresh_token cookie or body field'')"

text \<open>\<^verbatim>\<open>_refresh_error_code_from_http_exception\<close>: the first phrase that occurs in the detail decides.\<close>

definition refresh_phrases :: "(string \<times> string) list" where
  "refresh_phrases =
     [(''missing refresh token'', ''AUTH_1014''), (''mismatched refresh token'', ''AUTH_1016''), (''does not match'', ''AUTH_1016''),
      (''invalid token type'', ''AUTH_1018''), (''token expired'', ''AUTH_1019''), (''already rotated'', ''AUTH_1022''),
      (''reused'', ''AUTH_1015''), (''family revoked'', ''AUTH_1017''), (''refresh family revoked'', ''AUTH_1017''),
      (''mismatch'', ''AUTH_1016''), (''context inactive'', ''AUTH_1020''), (''context unavailable'', ''AUTH_1020''),
      (''session revoked'', ''AUTH_1020''), (''invalid refresh token'', ''AUTH_1013''), (''invalid token'', ''AUTH_1013''),
      (''missing required claim'', ''AUTH_1013'')]"

definition refresh_error_code :: "string \<Rightarrow> string" where
  "refresh_error_code text =
     (case List.find (\<lambda>(phrase, code). occurs_in phrase (str_lower text)) refresh_phrases of
        Some (_, code) \<Rightarrow> code
      | None \<Rightarrow> ''AUTH_1013'')"

definition refresh_denied :: "http_error \<Rightarrow> 'a reply" where
  "refresh_denied e = raised 401 (refresh_error_code (detail e))"

text \<open>\<^verbatim>\<open>_route_refresh_groups\<close>, which replaces the group query: project groups by hash, then by id, then all groups of the user.\<close>

definition route_refresh_groups :: "auth_call \<Rightarrow> string \<Rightarrow> string \<Rightarrow> json list option" where
  "route_refresh_groups c user_id project_hash =
     (case get_user_groups_in_project_by_hash (ac_hooks c) user_id project_hash of
        Some (g # gs) \<Rightarrow> Some (g # gs)
      | _ \<Rightarrow>
          (case get_project_by_hash (ac_hooks c) project_hash of
             Some project \<Rightarrow>
               (case ac_groups_in_project c user_id (py_str (dget project ''id'')) of
                  Some (g # gs) \<Rightarrow> Some (g # gs)
                | _ \<Rightarrow> ac_groups_for_user c user_id)
           | None \<Rightarrow> ac_groups_for_user c user_id))"

definition route_hooks :: "auth_call \<Rightarrow> db_hooks" where
  "route_hooks c = (ac_hooks c)\<lparr>get_user_groups_in_project_by_hash := route_refresh_groups c\<rparr>"

section \<open>Refresh\<close>

definition auth_refresh ::
    "('s, 't) auth_env \<Rightarrow> auth_call \<Rightarrow> 't option \<Rightarrow> 't option \<Rightarrow> 's \<Rightarrow> 't refresh_rotation reply \<times> 's" where
  "auth_refresh E c cookie_token body_token s =
     (case extract_refresh_token_from_request (ae_world E) cookie_token body_token of
        Inl e \<Rightarrow> (refresh_denied e, s)
      | Inr token \<Rightarrow>
          (case rotate_refresh_family (ae_world E) (route_hooks c) (ac_now c) (ac_ids c) None token s of
             (Inl e, s1) \<Rightarrow> (refresh_denied e, s1)
           | (Inr rot, s1) \<Rightarrow> (Replied rot, s1)))"

section \<open>Sessions behind the decorator\<close>

text \<open>
  \<^verbatim>\<open>log_and_handle_errors\<close> validates the access token before the handler runs, or takes the validation that the context
  middleware made for the same request; here it is one validation.
\<close>

definition validate_session :: "('s, 't) world \<Rightarrow> db_hooks \<Rightarrow> int \<Rightarrow> 't \<Rightarrow> 's \<Rightarrow> dict result \<times> 's" where
  "validate_session W D now token s =
     (if count_dots (jwt_text (jwt W) token) \<noteq> 2 then (denied 401 ''Invalid access token'', s)
      else validate_access_session W D now token s)"

definition with_session ::
    "('s, 't) auth_env \<Rightarrow> auth_call \<Rightarrow> 't \<Rightarrow> ('s \<Rightarrow> 'a reply \<times> 's) \<Rightarrow> 's \<Rightarrow> 'a reply \<times> 's" where
  "with_session E c token handler s =
     (case validate_session (ae_world E) (ac_hooks c) (ac_now c) token s of
        (Inl e, s1) \<Rightarrow> (Raised e, s1)
      | (Inr _, s1) \<Rightarrow> handler s1)"

definition auth_logout :: "('s, 't) auth_env \<Rightarrow> auth_call \<Rightarrow> 't \<Rightarrow> 's \<Rightarrow> unit reply \<times> 's" where
  "auth_logout E c token =
     with_session E c token (\<lambda>s.
       case decode_access_token_allow_expired (jwt (ae_world E)) (ac_now c) token of
         Inl e \<Rightarrow> (raised 401 ''AUTH_1002'', s)
       | Inr claims \<Rightarrow>
           (Replied (), revoke_refresh_family (redis (ae_world E)) (ac_now c) (py_str (dget claims ''family_id'')) ''logout'' s))"

section \<open>Switching the project\<close>

definition switch_allowed :: "auth_call \<Rightarrow> dict \<Rightarrow> string \<Rightarrow> dict result" where
  "switch_allowed c current project_hash =
     (case get_project_by_hash (ac_hooks c) project_hash of
        None \<Rightarrow> denied 404 ''NF_4002''
      | Some p \<Rightarrow>
          if \<not> project_is_auth_accessible p then denied 403 ''AUTHZ_2003''
          else
            let utype = py_str (py_or (dget_default current ''user_type'' (JStr ''consumer'')) (JStr ''consumer''));
                uid = py_str (dget current ''user_id'')
            in if utype = ''admin'' then
                 (if \<not> check_admin_project_access (ac_hooks c) uid (py_str (dget p ''id'')) then denied 403 ''AUTHZ_2003'' else Inr p)
               else if utype \<noteq> ''root'' then
                 (case get_user_accessible_projects (ac_hooks c) uid of
                    None \<Rightarrow> denied 500 ''DB_6001''
                  | Some accessible \<Rightarrow> if \<not> names_project accessible project_hash then denied 403 ''AUTHZ_2003'' else Inr p)
               else Inr p)"

text \<open>The rotation asks for the groups in the new project, whatever hash it passes.\<close>

definition switch_hooks :: "auth_call \<Rightarrow> dict \<Rightarrow> db_hooks" where
  "switch_hooks c project =
     (ac_hooks c)\<lparr>get_user_groups_in_project_by_hash := (\<lambda>user_id _. ac_groups_in_project c user_id (py_str (dget project ''id'')))\<rparr>"

definition auth_switch_project ::
    "('s, 't) auth_env \<Rightarrow> auth_call \<Rightarrow> 't \<Rightarrow> string \<Rightarrow> 't option \<Rightarrow> 't option \<Rightarrow> 's \<Rightarrow> 't refresh_rotation reply \<times> 's" where
  "auth_switch_project E c token project_hash cookie_token body_token =
     with_session E c token (\<lambda>s.
       let W = ae_world E; now = ac_now c
       in case decode_access_token (jwt W) now token of
            Inl e \<Rightarrow> (raised 401 ''AUTH_1003'', s)
          | Inr claims \<Rightarrow>
              (case validate_access_session W (route_hooks c) now token s of
                 (Inl e, s1) \<Rightarrow> (raised 401 ''AUTH_1003'', s1)
               | (Inr current, s1) \<Rightarrow>
                   if \<not> require_recent_reauthentication W (ae_store E) (ae_oauth E) now (py_str (dget current ''user_id'')) token
                          (Some (py_str (py_or (py_or (dget claims ''session_id'') (dget claims ''jti'')) (JStr [])))) s1
                   then (raised 401 ''AUTH_1008'', s1)
                   else (case switch_allowed c current project_hash of
                           Inl e \<Rightarrow> (Raised e, s1)
                         | Inr project \<Rightarrow>
                             (case extract_refresh_token_from_request W cookie_token body_token of
                                Inl e \<Rightarrow> (refresh_denied e, s1)
                              | Inr rt \<Rightarrow>
                                  (case decode_refresh_token (jwt W) now rt of
                                     Inl e \<Rightarrow> (refresh_denied e, s1)
                                   | Inr rclaims \<Rightarrow>
                                       if py_str (dget rclaims ''family_id'') \<noteq> py_str (dget claims ''family_id'')
                                       then (refresh_denied (unauthorized ''Refresh token does not match access token family''), s1)
                                       else (case rotate_refresh_family W (switch_hooks c project) now (ac_ids c) (Some project) rt s1 of
                                               (Inl e, s2) \<Rightarrow> (refresh_denied e, s2)
                                             | (Inr rot, s2) \<Rightarrow> (Replied rot, s2)))))))"

section \<open>Who may log in\<close>

text \<open>Access to a project at login, as a predicate on the account and the database.\<close>

definition may_enter :: "auth_call \<Rightarrow> user_row \<Rightarrow> string \<Rightarrow> bool" where
  "may_enter c u h \<longleftrightarrow>
     (\<exists>p. get_project_by_hash (ac_hooks c) h = Some p \<and> project_is_active_for_auth p \<and>
        (if u_user_type u = ''root'' then True
         else if u_user_type u = ''admin'' then check_admin_project_access (ac_hooks c) (u_id u) (py_str (dget p ''id''))
         else (\<exists>ps. get_user_accessible_projects (ac_hooks c) (u_id u) = Some ps \<and> names_project ps h) \<and>
              ac_groups_for_user c (u_id u) \<noteq> None))"

text \<open>The gates before the password is looked at.\<close>

definition work_admitted :: "('s, 't) auth_env \<Rightarrow> auth_call \<Rightarrow> string \<Rightarrow> 's \<Rightarrow> bool" where
  "work_admitted E c username s \<longleftrightarrow>
     (\<exists>p s1. ac_pool c = Some p \<and> \<not> pool_closed p \<and> length (pool_jobs p) < pool_concurrency p \<and>
        check_password_work (ae_counters E) (ae_work E) (ae_digest E) (peer_address c) s = (Inr (), s1) \<and>
        \<not> isl (fst (check_login_identifier_allowed (ae_counters E) (ae_policy E) (ae_digest E) (peer_address c) username s1)))"

text \<open>The account that the credentials open.\<close>

definition opens :: "('s, 't) auth_env \<Rightarrow> identity_tables \<Rightarrow> string \<Rightarrow> string \<Rightarrow> user_row \<Rightarrow> bool" where
  "opens E T username password u \<longleftrightarrow>
     sp_user_login (ae_coll E) T username = Some u \<and> u_password_hash u \<noteq> [] \<and> ae_verify E password (u_password_hash u)"

lemma user_dict_sel [simp]:
  "dget (user_dict K T u) ''id'' = JStr (u_id u)" "dget (user_dict K T u) ''user_hash'' = JStr (u_user_hash u)"
  "dget (user_dict K T u) ''user_type'' = JStr (u_user_type u)"
  by (simp_all add: user_dict_def)

lemma find_hit: "List.find P xs = Some x \<Longrightarrow> x \<in> set xs \<and> P x"
  by (induction xs) (auto split: if_splits)

lemma sp_user_login_sound:
  assumes "sp_user_login K T x = Some u"
  shows "u \<in> set (it_users T)" "u_is_active u"
    "K (u_username u) = K x \<or> (\<exists>e\<in>set (it_emails T). em_status e = ''activated'' \<and> \<not> em_removed e \<and>
       K (em_normalized e) = K (str_lower (sql_trim x)) \<and> K (em_user_id e) = K (u_id u))"
proof -
  have "u \<in> set (it_users T) \<and> u_is_active u \<and>
    (K (u_username u) = K x \<or> (\<exists>e\<in>set (it_emails T). em_status e = ''activated'' \<and> \<not> em_removed e \<and>
       K (em_normalized e) = K (str_lower (sql_trim x)) \<and> K (em_user_id e) = K (u_id u)))"
  proof (cases "account_by_name K T x")
    case None
    with assms obtain e where "List.find (\<lambda>e. em_status e = ''activated'' \<and> \<not> em_removed e \<and> K (em_normalized e) = K (str_lower (sql_trim x)) \<and>
             list_ex (\<lambda>u. u_is_active u \<and> K (u_id u) = K (em_user_id e)) (it_users T)) (it_emails T) = Some e"
        and "List.find (\<lambda>u. u_is_active u \<and> K (u_id u) = K (em_user_id e)) (it_users T) = Some u"
      by (auto simp: sp_user_login_def account_by_email_def split: option.splits)
    from find_hit [OF this(1)] find_hit [OF this(2)] show ?thesis by auto
  next
    case (Some v)
    with assms show ?thesis by (auto simp: sp_user_login_def account_by_name_def dest: find_hit)
  qed
  then show "u \<in> set (it_users T)" "u_is_active u"
    "K (u_username u) = K x \<or> (\<exists>e\<in>set (it_emails T). em_status e = ''activated'' \<and> \<not> em_removed e \<and>
       K (em_normalized e) = K (str_lower (sql_trim x)) \<and> K (em_user_id e) = K (u_id u))" by blast+
qed

lemma accessible_eq: "project_is_auth_accessible p \<longleftrightarrow> project_is_active_for_auth p"
  by (simp add: project_is_auth_accessible_def project_is_active_for_auth_def)

lemma resolve_target_eq: "resolve_target_project D ps h = (if names_project ps h then get_project_by_hash D h else None)"
  by (auto simp: resolve_target_project_def names_project_def)

lemma login_project_Inr:
  "(\<exists>x. login_project c (user_dict K T u) h = Inr (p, x)) \<longleftrightarrow> may_enter c u h \<and> get_project_by_hash (ac_hooks c) h = Some p"
proof (cases "get_project_by_hash (ac_hooks c) h")
  case None
  then show ?thesis
    by (auto simp: login_project_def may_enter_def denied_def resolve_target_eq Let_def split: option.splits if_splits)
next
  case (Some q)
  show ?thesis
  proof (cases "u_user_type u = ''root'' \<or> u_user_type u = ''admin''")
    case True
    with Some show ?thesis
      by (auto simp: login_project_def may_enter_def denied_def Let_def accessible_eq split: if_splits)
  next
    case False
    with Some show ?thesis
      by (auto simp: login_project_def may_enter_def denied_def Let_def accessible_eq resolve_target_eq
          split: option.splits if_splits)
  qed
qed

lemma login_job_Replied:
  "(\<exists>st'. run_public_password_work E c (login_password_job E c name pw) (s, T) = (Replied user, st')) \<longleftrightarrow>
     work_admitted E c name s \<and> ac_lookup_ok c \<and> (\<exists>u. opens E T name pw u \<and> user = user_dict (ae_coll E) T u)"
  by (auto simp: run_public_password_work_def login_password_job_def work_admitted_def opens_def get_user_by_credentials_def
      pool_submit_def raised_def not_le split: option.splits prod.splits sum.splits if_splits)

section \<open>A worked login\<close>

text \<open>The store in which the pair of a login is issued: after the two limiters.\<close>

definition login_store :: "('s, 't) auth_env \<Rightarrow> auth_call \<Rightarrow> string \<Rightarrow> 's \<Rightarrow> 's" where
  "login_store E c username s =
     snd (check_login_identifier_allowed (ae_counters E) (ae_policy E) (ae_digest E) (peer_address c) username
       (snd (check_password_work (ae_counters E) (ae_work E) (ae_digest E) (peer_address c) s)))"

lemma login_job_store:
  assumes "run_public_password_work E c (login_password_job E c name pw) (s, T) = (Replied user, (s', T'))"
  shows "s' = login_store E c name s"
  using assms
  by (auto simp: run_public_password_work_def login_password_job_def login_store_def get_user_by_credentials_def
      pool_submit_def raised_def split: option.splits prod.splits sum.splits if_splits)

lemma auth_login_Replied:
  assumes "auth_login E c name pw rm (Some h) (s, T) = (Replied (pair, user, project), (s', T'))"
  shows "\<exists>u x gs gis. opens E T name pw u \<and> user = user_dict (ae_coll E) T u \<and> work_admitted E c name s \<and> ac_lookup_ok c \<and>
     may_enter c u h \<and> get_project_by_hash (ac_hooks c) h = Some project \<and>
     issue_project_token_pair (ae_world E) (ac_now c) (ac_ids c) user project (Some x) (Some gs) gis rm (login_store E c name s) = (Inr pair, s')"
proof -
  obtain s1 T1 where job: "run_public_password_work E c (login_password_job E c name pw) (s, T) = (Replied user, (s1, T1))"
    and rest: "\<exists>x gs gis. login_project c user h = Inr (project, x, gs, gis) \<and>
      issue_project_token_pair (ae_world E) (ac_now c) (ac_ids c) user project (Some x) (Some gs) gis rm s1 = (Inr pair, s')"
    using assms by (auto simp: auth_login_def raised_def split: if_splits prod.splits reply.splits sum.splits)
  from job login_job_Replied [of E c name pw s T user] obtain u
    where u: "work_admitted E c name s" "ac_lookup_ok c" "opens E T name pw u" "user = user_dict (ae_coll E) T u" by blast
  from rest login_project_Inr [of c "ae_coll E" T u h project] u(4)
  have "may_enter c u h" "get_project_by_hash (ac_hooks c) h = Some project" by blast+
  with u rest show ?thesis unfolding login_job_store [OF job] by blast
qed

lemma auth_login_completes:
  assumes world: "auth_world (ae_world E) tick pttl" and "name \<noteq> []" "pw \<noteq> []" "h \<noteq> []"
    and ok: "work_admitted E c name s" "ac_lookup_ok c" "opens E T name pw u" "may_enter c u h"
  shows "\<exists>pair user project st'. auth_login E c name pw rm (Some h) (s, T) = (Replied (pair, user, project), st')"
proof -
  let ?user = "user_dict (ae_coll E) T u"
  obtain s1 T1 where job: "run_public_password_work E c (login_password_job E c name pw) (s, T) = (Replied ?user, (s1, T1))"
    using login_job_Replied [of E c name pw s T ?user] ok(1-3) by (metis surj_pair)
  obtain p where "get_project_by_hash (ac_hooks c) h = Some p" using ok(4) by (auto simp: may_enter_def)
  then obtain x gs gis where lp: "login_project c ?user h = Inr (p, x, gs, gis)"
    using login_project_Inr [of c "ae_coll E" T u h p] ok(4) by (metis surj_pair)
  obtain pair s2 where "issue_project_token_pair (ae_world E) (ac_now c) (ac_ids c) ?user p (Some x) (Some gs) gis rm s1 = (Inr pair, s2)"
    using auth_world.issue_token_pair_total [OF world effective_refresh_ttl_pos] unfolding issue_project_token_pair_def by blast
  with job lp assms(2-4) show ?thesis by (auto simp: auth_login_def blank_field_def)
qed

lemma hash_lookup_hash:
  assumes "hash_lookup D" and "get_project_by_hash D h = Some p"
  shows "dget p ''project_hash'' = JStr h"
proof -
  have "p ''project_hash'' = Some (JStr h)" using assms unfolding hash_lookup_def by blast
  then show ?thesis by (simp add: dget_def)
qed

lemma auth_login_works:
  assumes world: "auth_world (ae_world E) tick pttl" and ids: "ids_ok (ac_ids c)" "us_per_second \<le> ac_now c"
    and hashes: "hash_lookup (ac_hooks c)" "\<forall>u\<in>set (it_users T). u_user_hash u \<noteq> []" "h \<noteq> []"
    and fresh: "redis_get (redis (ae_world E)) (login_store E c name s) (revoked_key (new_family_id (ac_ids c))) = None"
    and out: "auth_login E c name pw rm (Some h) (s, T) = (Replied (pair, user, project), (s', T'))"
  shows "\<exists>u. opens E T name pw u \<and> u_is_active u \<and> may_enter c u h \<and>
    (\<forall>D later. ac_now c \<le> later \<longrightarrow>
       later < (ac_now c + access_expire_minutes (cfg (ae_world E)) * 60 * us_per_second) div us_per_second * us_per_second \<longrightarrow>
       view_authorized D (issued_view (ac_now c) (ac_ids c) (u_user_hash u) AUTH_SCOPE_PROJECT h rm (effective_refresh_ttl None rm)) \<longrightarrow>
       (\<exists>login s''. validate_access_session (ae_world E) D later (access_token pair) s' = (Inr login, s'')))"
proof -
  obtain u x gs gis where u: "opens E T name pw u" "user = user_dict (ae_coll E) T u" "may_enter c u h"
      "get_project_by_hash (ac_hooks c) h = Some project"
    and iss: "issue_project_token_pair (ae_world E) (ac_now c) (ac_ids c) user project (Some x) (Some gs) gis rm (login_store E c name s) =
      (Inr pair, s')"
    using auth_login_Replied [OF out] by blast
  have row: "u \<in> set (it_users T)" "u_is_active u" using u(1) sp_user_login_sound by (auto simp: opens_def)
  have user: "dget user ''user_hash'' = JStr (u_user_hash u)" "u_user_hash u \<noteq> []" using u(2) hashes(2) row(1) by auto
  have project: "dget project ''project_hash'' = JStr h" by (rule hash_lookup_hash [OF hashes(1) u(4)])
  from issued_project_pair_works [OF world ids user project hashes(3) fresh iss] u row(2) show ?thesis by blast
qed


text \<open>A server whose counters are all at zero, an account and a project.\<close>

definition steady_counters :: "mem counters" where
  "steady_counters = \<lparr>counter_incr = (\<lambda>_ s. (Some 1, s)), counter_ttl = (\<lambda>_ s. (Some 60, s)), counter_expire = (\<lambda>_ _ s. (Some True, s)),
     counter_get = (\<lambda>_ s. (Some None, s)), counter_set = (\<lambda>_ _ _ s. (Some True, s))\<rparr>"

definition demo_auth_env :: "(mem, sym_token) auth_env" where
  "demo_auth_env = \<lparr>ae_world = demo_world, ae_store = mem_oauth, ae_oauth = demo_env, ae_counters = steady_counters, ae_policy = demo_policy,
     ae_work = demo_work_policy, ae_digest = id, ae_coll = str_lower, ae_verify = (\<lambda>p h. h = ''argon:'' @ p), ae_hash = (\<lambda>p. ''argon:'' @ p),
     ae_needs_rehash = (\<lambda>_. False)\<rparr>"

definition demo_account :: user_row where
  "demo_account = \<lparr>u_id = ''u1'', u_user_hash = ''h1'', u_username = ''Ann'', u_password_hash = ''argon:pw'', u_user_type = ''consumer'', u_is_active = True\<rparr>"

definition demo_accounts :: identity_tables where
  "demo_accounts = \<lparr>it_accounts = [], it_users = [demo_account],
     it_emails = [\<lparr>em_id = ''e1'', em_user_id = ''u1'', em_normalized = ''ann@x'', em_status = ''activated'', em_is_primary = True, em_removed = False\<rparr>],
     it_members = [], it_catalog = [], it_bindings = [], it_active_groups = []\<rparr>"

definition demo_auth_call :: auth_call where
  "demo_auth_call = \<lparr>ac_now = demo_now, ac_ids = demo_ids ''1'', ac_peer = Some ''10.0.0.1'',
     ac_pool = Some \<lparr>pool_concurrency = 1, pool_jobs = [], pool_closed = False\<rparr>, ac_job = 0,
     ac_hooks = demo_hooks\<lparr>get_user_accessible_projects := (\<lambda>_. Some [JObj demo_project])\<rparr>,
     ac_groups_in_project = (\<lambda>_ _. Some []), ac_groups_for_user = (\<lambda>_. Some [JObj [''group_name'' \<mapsto> JStr ''buyers'']]),
     ac_lookup_ok = True, ac_migration_ok = True\<rparr>"

lemma demo_work_done: "check_password_work steady_counters demo_work_policy H ip s = (Inr (), s)"
  by (simp add: check_password_work_def admit_script_def admit_probe_def admit_count_def steady_counters_def demo_work_policy_def)

lemma demo_login_free: "\<exists>d. check_login_identifier_allowed steady_counters demo_policy H ip x s = (Inr d, s)"
  by (simp add: check_login_identifier_allowed_def steady_counters_def demo_policy_def value_as_int_def Let_def)

lemma demo_login_admitted: "work_admitted demo_auth_env demo_auth_call x s" "login_store demo_auth_env demo_auth_call x s = s"
  using demo_login_free [of id "peer_address demo_auth_call" x s]
  by (auto simp: work_admitted_def login_store_def demo_auth_env_def demo_work_done) (auto simp: demo_auth_call_def)

lemma demo_lowered: "str_lower ''ann@x'' = str_lower (sql_trim '' ANN@X '')" "str_lower ''Ann'' \<noteq> str_lower '' ANN@X ''"
  by code_simp+

lemma demo_opens: "opens demo_auth_env demo_accounts '' ANN@X '' ''pw'' demo_account"
  by (simp add: opens_def sp_user_login_def account_by_name_def account_by_email_def demo_auth_env_def demo_accounts_def demo_account_def
      demo_lowered)

lemma demo_enters: "may_enter demo_auth_call demo_account ''ph1''"
  by (simp add: may_enter_def demo_auth_call_def demo_account_def demo_hooks_def demo_project_def project_is_active_for_auth_def
      names_project_def dget_default_def dget_def)



section \<open>Logging out\<close>

lemma with_session_Replied:
  assumes "with_session E c token h s = (Replied r, s')"
  obtains login s1 where "validate_access_session (ae_world E) (ac_hooks c) (ac_now c) token s = (Inr login, s1)"
    and "h s1 = (Replied r, s')"
  using assms by (auto simp: with_session_def validate_session_def denied_def split: prod.splits sum.splits if_splits)

lemma logout_Replied:
  assumes "auth_logout E c token s = (Replied (), s')" and "decode_access_token_allow_expired (jwt (ae_world E)) (ac_now c) token = Inr claims"
  obtains login s1 where "validate_access_session (ae_world E) (ac_hooks c) (ac_now c) token s = (Inr login, s1)"
    and "s' = revoke_refresh_family (redis (ae_world E)) (ac_now c) (py_str (dget claims ''family_id'')) ''logout'' s1"
  using assms(1) unfolding auth_logout_def by (rule with_session_Replied) (use assms(2) that in auto)

text \<open>C32. After a logout the session is over for good: in every state that any further requests reach, in any
  order, every access token and every refresh token of its family is refused.\<close>

theorem logout_final:
  assumes world: "auth_world (ae_world E) tick pttl" and run: "lifecycle_init (ae_world E) x0" "lifecycle_reach (ae_world E) tick x0 x"
    and out: "auth_logout E c token (store x) = (Replied (), s')"
    and claims: "decode_access_token_allow_expired (jwt (ae_world E)) (ac_now c) token = Inr claims"
    and known: "py_str (dget claims ''family_id'') \<in> used_ids x"
    and later: "lifecycle_reach (ae_world E) tick (x\<lparr>store := s'\<rparr>) y"
  shows "(\<forall>c' t claims'. decode_access_token (jwt (ae_world E)) (ac_now c') t = Inr claims' \<longrightarrow>
            py_str (dget claims' ''family_id'') = py_str (dget claims ''family_id'') \<longrightarrow>
            (\<exists>e. fst (auth_logout E c' t (store y)) = Raised e) \<and>
            (\<exists>e. fst (validate_session (ae_world E) (ac_hooks c') (ac_now c') t (store y)) = Inl e)) \<and>
         (\<forall>c' cookie body t claims'. extract_refresh_token_from_request (ae_world E) cookie body = Inr t \<longrightarrow>
            decode_refresh_token (jwt (ae_world E)) (ac_now c') t = Inr claims' \<longrightarrow>
            py_str (dget claims' ''family_id'') = py_str (dget claims ''family_id'') \<longrightarrow>
            (\<exists>e. fst (auth_refresh E c' cookie body (store y)) = Raised e))"
proof -
  let ?W = "ae_world E" and ?f = "py_str (dget claims ''family_id'')"
  obtain login s1 where v: "validate_access_session ?W (ac_hooks c) (ac_now c) token (store x) = (Inr login, s1)"
    and s': "s' = revoke_refresh_family (redis ?W) (ac_now c) ?f ''logout'' s1" by (rule logout_Replied [OF out claims])
  let ?x1 = "x\<lparr>store := s1\<rparr>"
  have x1: "lifecycle_reach ?W tick x0 ?x1" by (rule lifecycle_reach_step [OF run(2) lifecycle_step.validate [OF v]])
  have "lifecycle_reach ?W tick (?x1\<lparr>store := revoke_refresh_family (redis ?W) (ac_now c) ?f ''logout'' (store ?x1)\<rparr>) y"
    using later by (simp add: s')
  with auth_world.revoked_dead_reach [OF world run(1) x1] known have dead: "family_dead (redis ?W) (store y) ?f" by simp
  show ?thesis
  proof (intro conjI allI impI)
    fix c' :: auth_call and t claims'
    assume "decode_access_token (jwt ?W) (ac_now c') t = Inr claims'" "py_str (dget claims' ''family_id'') = ?f"
    from dead_not_valid [OF dead this, of "ac_hooks c'"] show "\<exists>e. fst (validate_session ?W (ac_hooks c') (ac_now c') t (store y)) = Inl e"
      by (auto simp: validate_session_def denied_def split: prod.splits sum.splits)
    then show "\<exists>e. fst (auth_logout E c' t (store y)) = Raised e"
      by (auto simp: auth_logout_def with_session_def split: prod.splits sum.splits)
  next
    fix c' :: auth_call and cookie body t claims'
    assume t: "extract_refresh_token_from_request ?W cookie body = Inr t"
      "decode_refresh_token (jwt ?W) (ac_now c') t = Inr claims'" "py_str (dget claims' ''family_id'') = ?f"
    from rotate_needs_prepare [OF dead_not_prepared [OF dead t(2,3)], of "route_hooks c'" "ac_ids c'" None]
    show "\<exists>e. fst (auth_refresh E c' cookie body (store y)) = Raised e"
      by (auto simp: auth_refresh_def refresh_denied_def raised_def t(1) split: prod.splits)
  qed
qed


definition demo_session_call :: auth_call where
  "demo_session_call = demo_auth_call\<lparr>ac_hooks := demo_hooks\<rparr>"

lemma demo_session_call_sel [simp]:
  "ac_hooks demo_session_call = demo_hooks" "ac_now demo_session_call = demo_now" "ae_world demo_auth_env = demo_world"
  by (simp_all add: demo_session_call_def demo_auth_call_def demo_auth_env_def)

text \<open>A fresh pair of the demo world passes the transport checks and names its family, expired or not.\<close>

lemma sym_decode_Signed: "decode_typed_token sym_jwt now k b t = Inr p \<Longrightarrow> t = Signed p"
  by (auto simp: decode_typed_token_def sym_jwt_def sym_decode_def split: sym_token.splits sum.splits if_splits option.splits jwt_error.splits json.splits)

lemma sym_decode_expired_ok:
  assumes "decode_access_token sym_jwt now t = Inr p"
  shows "decode_access_token_allow_expired sym_jwt now t = Inr p"
proof -
  have "sym_decode now r True t = Inr q \<Longrightarrow> sym_decode now r False t = Inr q" for r q
    by (auto simp: sym_decode_def split: sym_token.splits option.splits json.splits if_splits)
  with assms show ?thesis
    by (auto simp: decode_access_token_def decode_access_token_allow_expired_def decode_typed_token_def sym_jwt_def
        split: sum.splits jwt_error.splits if_splits)
qed

lemma demo_pair_text:
  assumes "demo_issue = (Inr pair, s)"
  shows "count_dots (sym_text (access_token pair)) = 2"
    "decode_access_token_allow_expired sym_jwt demo_now (access_token pair) = Inr (access_claims pair)"
    "dget (access_claims pair) ''family_id'' = JStr ''f1''"
proof -
  obtain pair' s' where i: "demo_issue = (Inr pair', s')"
    and d: "decode_access_token sym_jwt demo_now (access_token pair') = Inr (access_claims pair')"
    and v: "view_claims demo_view ''a1'' (access_claims pair')" by (rule demo_issued)
  have [simp]: "pair' = pair" using trans [OF i [symmetric] assms] by simp
  have t: "access_token pair = Signed (access_claims pair)" using d by (simp add: decode_access_token_def sym_decode_Signed)
  show "count_dots (sym_text (access_token pair)) = 2"
    using v by (simp add: t sym_text_def view_claims_def count_dots_def)
  show "dget (access_claims pair) ''family_id'' = JStr ''f1''" using v by (simp add: view_claims_def)
  show "decode_access_token_allow_expired sym_jwt demo_now (access_token pair) = Inr (access_claims pair)"
    using sym_decode_expired_ok d by simp
qed

lemma demo_session_valid:
  assumes "demo_issue = (Inr pair, s)"
  shows "\<exists>login s1. validate_access_session demo_world demo_hooks demo_now (access_token pair) s = (Inr login, s1)"
proof -
  obtain pair' s' login s'' where i: "demo_issue = (Inr pair', s')"
    and v: "validate_access_session demo_world demo_hooks demo_now (access_token pair') s' = (Inr login, s'')"
    using issued_project_pair_works_witness by blast
  have "pair' = pair \<and> s' = s" using trans [OF i [symmetric] assms] by simp
  with v show ?thesis by blast
qed

theorem logout_final_witness:
  "\<exists>pair s s' e. demo_issue = (Inr pair, s) \<and>
     auth_logout demo_auth_env demo_session_call (access_token pair) s = (Replied (), s') \<and>
     fst (auth_logout demo_auth_env demo_session_call (access_token pair) s') = Raised e"
proof -
  obtain pair s where i: "demo_issue = (Inr pair, s)"
    and d: "decode_access_token sym_jwt demo_now (access_token pair) = Inr (access_claims pair)" by (rule demo_issued)
  let ?E = demo_auth_env and ?c = demo_session_call
  let ?x = "demo_init\<lparr>store := s, used_ids := used_ids demo_init \<union> ids_set (demo_ids ''1'')\<rparr>"
  note t = demo_pair_text [OF i]
  obtain login s1 where v: "validate_access_session demo_world demo_hooks demo_now (access_token pair) s = (Inr login, s1)"
    using demo_session_valid [OF i] by blast
  then obtain s' where o: "auth_logout ?E ?c (access_token pair) (store ?x) = (Replied (), s')"
    using t(1,2) by (simp add: auth_logout_def with_session_def validate_session_def sym_jwt_def)
  have x: "lifecycle_reach (ae_world ?E) mem_tick demo_init ?x"
    using lifecycle_reach_step [OF lifecycle_reach_refl demo_issue_step [OF i]] by simp
  have w: "auth_world (ae_world ?E) mem_tick mem_pttl" "lifecycle_init (ae_world ?E) demo_init"
    using demo.auth_world_axioms demo_init_ok by simp_all
  have a: "decode_access_token_allow_expired (jwt (ae_world ?E)) (ac_now ?c) (access_token pair) = Inr (access_claims pair)"
    "py_str (dget (access_claims pair) ''family_id'') \<in> used_ids ?x" using t by (simp_all add: ids_set_def)
  from logout_final [OF w(1,2) x o a lifecycle_reach_refl] d
  have "\<exists>e. fst (auth_logout ?E ?c (access_token pair) s') = Raised e" by simp
  with i o show ?thesis by auto
qed


section \<open>Refusals of a refresh\<close>

lemma refresh_codes:
  "refresh_error_code ''Missing refresh token: provide refresh_token cookie or body field'' = ''AUTH_1014''"
  "refresh_error_code ''Mismatched refresh token transports'' = ''AUTH_1016''"
  "refresh_error_code ''Token expired'' = ''AUTH_1019''" "refresh_error_code ''Invalid token type'' = ''AUTH_1018''"
  "refresh_error_code ''Refresh family revoked'' = ''AUTH_1017''"
  "refresh_error_code ''Refresh token already rotated; retry with the current refresh token'' = ''AUTH_1022''"
  "refresh_error_code ''Refresh token reused or revoked'' = ''AUTH_1015''"
  "refresh_error_code ''User or auth context inactive'' = ''AUTH_1020''"
  by code_simp+

lemma refresh_denied_unauthorized: "refresh_denied (unauthorized text) = raised 401 (refresh_error_code text)"
  by (simp add: refresh_denied_def unauthorized_def)

lemma access_is_no_refresh:
  "decode_access_token J now t = Inr p \<Longrightarrow> decode_refresh_token J now t = Inl (unauthorized ''Invalid token type'')"
proof -
  assume a: "decode_access_token J now t = Inr p"
  have "ACCESS_TOKEN_TYPE \<noteq> REFRESH_TOKEN_TYPE" by (simp add: jwt_constants)
  moreover have "jwt_decode J now BASE_REQUIRED_JWT_CLAIMS True t = Inr p \<and> dget p ''type'' = JStr ACCESS_TOKEN_TYPE"
    using a unfolding decode_access_token_def decode_typed_token_def
    by (simp split: sum.splits jwt_error.splits if_split_asm option.split_asm)
  ultimately show ?thesis by (simp add: decode_refresh_token_def decode_typed_token_def)
qed

lemma auth_refresh_prepare:
  assumes "extract_refresh_token_from_request (ae_world E) cookie body = Inr t"
    and "rotate_prepare (ae_world E) (route_hooks c) (ac_now c) (ac_ids c) None t s = (Inl (unauthorized text), s')"
  shows "auth_refresh E c cookie body s = (raised 401 (refresh_error_code text), s')"
  using assms by (simp add: auth_refresh_def rotate_refresh_family_def refresh_denied_unauthorized)

text \<open>The stored state that a refresh token, decoded to \<open>claims\<close>, refers to.\<close>

definition refresh_records :: "('s, 't) world \<Rightarrow> 's \<Rightarrow> dict \<Rightarrow> dict \<Rightarrow> dict \<Rightarrow> bool" where
  "refresh_records W s claims family tr \<longleftrightarrow>
     get_json (redis W) s (family_key (py_str (dget claims ''family_id''))) = Some family \<and> family \<noteq> Map.empty \<and>
     get_json (redis W) s (token_key (py_str (dget claims ''jti''))) = Some tr \<and> tr \<noteq> Map.empty"

definition live_records :: "('s, 't) world \<Rightarrow> 's \<Rightarrow> 't \<Rightarrow> dict \<Rightarrow> dict \<Rightarrow> dict \<Rightarrow> bool" where
  "live_records W s t claims family tr \<longleftrightarrow>
     refresh_records W s claims family tr \<and> dget family ''status'' = JStr ''active'' \<and>
     \<not> is_refresh_family_revoked (redis W) s (py_str (dget claims ''family_id'')) \<and>
     dget tr ''token_hash'' = JStr (hash_refresh_token W t)"

lemma prepare_revoked:
  assumes "decode_refresh_token (jwt W) now t = Inr claims" and "refresh_records W s claims family tr"
    and "dget family ''status'' \<noteq> JStr ''active'' \<or> is_refresh_family_revoked (redis W) s (py_str (dget claims ''family_id''))"
  shows "rotate_prepare W D now ids target t s = (Inl (unauthorized ''Refresh family revoked''), s)"
  using assms by (auto simp: rotate_prepare_def refresh_records_def Let_def)

lemma prepare_used:
  assumes "decode_refresh_token (jwt W) now t = Inr claims" and "live_records W s t claims family tr"
    and "dget tr ''status'' = JStr ''used''"
  shows "rotate_prepare W D now ids target t s =
    (if is_benign_refresh_replay (cfg W) now family tr
     then (Inl (unauthorized ''Refresh token already rotated; retry with the current refresh token''), s)
     else (Inl (unauthorized ''Refresh token reused or revoked''),
           revoke_refresh_family (redis W) now (py_str (dget claims ''family_id'')) ''refresh_reuse'' s))"
  using assms
  by (auto simp: rotate_prepare_def live_records_def refresh_records_def refresh_rotation_denial_def classify_refresh_token_state_def Let_def)

lemma prepare_disentitled:
  assumes "decode_refresh_token (jwt W) now t = Inr claims" and "live_records W s t claims family tr"
    and "dget family ''current_refresh_jti'' = JStr (py_str (dget claims ''jti''))" "dget tr ''status'' = JStr ''current''"
    and "rotation_session (redis W) now (py_str (dget claims ''family_id'')) claims family
           (py_str (py_or (dget family ''current_access_jti'') (JStr []))) s = (Inr session, s)"
    and "require_refresh_claim_session_match claims family session = Inr ()" and "\<not> auth_allowed D session"
  shows "\<exists>reason. rotate_prepare W D now ids None t s =
    (Inl (unauthorized ''User or auth context inactive''), revoke_context_state (redis W) now session reason s)"
  using assms reconstruct_denied [OF assms(7), of "redis W" now s]
  by (auto simp: rotate_prepare_def live_records_def refresh_records_def rotate_plan_def switch_project_def Let_def)




text \<open>A call in which the database no longer knows any user.\<close>

definition demo_gone_call :: auth_call where
  "demo_gone_call = demo_session_call\<lparr>ac_hooks := demo_hooks\<lparr>get_user_by_hash := (\<lambda>_. None)\<rparr>\<rparr>"

lemma demo_gone_sel [simp]: "ac_now demo_gone_call = demo_now" "ac_ids demo_gone_call = demo_ids ''1''"
  by (simp_all add: demo_gone_call_def demo_session_call_def demo_auth_call_def)

lemma demo_gone_refused: "\<not> auth_allowed (route_hooks demo_gone_call) session"
  by (simp add: auth_allowed_def demo_gone_call_def route_hooks_def)

lemma demo_refresh_transport:
  assumes "decode_refresh_token sym_jwt now t = Inr p"
  shows "extract_refresh_token_from_request demo_world None (Some t) = Inr t"
proof -
  have "t = Signed p" using assms by (simp add: decode_refresh_token_def sym_decode_Signed)
  then show ?thesis by (simp add: extract_refresh_token_from_request_def present_text_def sym_jwt_def sym_text_def)
qed

lemma demo_live:
  assumes "holds_docs demo_world s demo_view rt session family tr" and "view_claims demo_view ''r1'' claims"
  shows "live_records demo_world s rt claims family tr" "dget family ''current_refresh_jti'' = JStr (py_str (dget claims ''jti''))"
    "dget tr ''status'' = JStr ''current''" "py_str (py_or (dget family ''current_access_jti'') (JStr [])) = ''a1''"
    "py_str (dget claims ''family_id'') = ''f1''" "view_family demo_view family" "view_wf demo_view"
  using assms
  by (auto simp: holds_docs_def live_records_def refresh_records_def view_family_def view_claims_def
      is_refresh_family_revoked_def dest: dget_nonempty)


section \<open>Membership and the refresh route\<close>

text \<open>
  The group query of the refresh route falls back to all groups of the user, so a consumer without a group in the
  project, whose access token no longer validates, still exchanges the refresh token for a new pair.
\<close>

definition demo_outside_call :: auth_call where
  "demo_outside_call = demo_session_call\<lparr>ac_ids := demo_ids ''2'', ac_hooks := demo_hooks\<lparr>get_user_groups_in_project_by_hash := (\<lambda>_ _. Some [])\<rparr>\<rparr>"

lemma demo_outside_refused: "\<not> auth_allowed (ac_hooks demo_outside_call) session \<or> dget session ''scope'' = JStr AUTH_SCOPE_PLATFORM \<or> \<not> view_session demo_view session"
  by (auto simp: demo_outside_call_def auth_allowed_defs view_session_def demo_hooks_def demo_user_def safe_call_list_def jwt_constants)

lemma refresh_outlives_membership:
  "\<exists>pair s rot s' e. demo_issue = (Inr pair, s) \<and>
     get_user_groups_in_project_by_hash (ac_hooks demo_outside_call) ''u1'' ''ph1'' = Some [] \<and>
     ac_groups_in_project demo_outside_call ''u1'' ''p1'' = Some [] \<and>
     auth_refresh demo_auth_env demo_outside_call None (Some (refresh_token pair)) s = (Replied rot, s') \<and>
     fst (validate_access_session demo_world (ac_hooks demo_outside_call) demo_now (access_token pair) s) = Inl e"
proof -
  obtain pair s where i: "demo_issue = (Inr pair, s)" and h: "holds_view demo_world s demo_view (refresh_token pair)"
    and d: "decode_refresh_token sym_jwt demo_now (refresh_token pair) = Inr (refresh_claims pair)"
    and a: "decode_access_token sym_jwt demo_now (access_token pair) = Inr (access_claims pair)"
    and c: "view_claims demo_view ''r1'' (refresh_claims pair)" "view_claims demo_view ''a1'' (access_claims pair)" by (rule demo_issued)
  from h obtain session family tr where hd: "holds_docs demo_world s demo_view (refresh_token pair) session family tr"
    by (auto simp: holds_view_def)
  have D: "hash_lookup (route_hooks demo_outside_call)"
    using demo_lookup by (simp add: hash_lookup_def route_hooks_def demo_outside_call_def)
  have A: "view_authorized (route_hooks demo_outside_call) demo_view"
    by (simp add: view_authorized_def route_hooks_def route_refresh_groups_def demo_outside_call_def demo_session_call_def demo_auth_call_def
        demo_hooks_def demo_user_def demo_project_def project_access_def project_is_active_for_auth_def safe_call_list_def)
  obtain rot s' where "rotate_refresh_family demo_world (route_hooks demo_outside_call) demo_now (demo_ids ''2'') None (refresh_token pair) s = (Inr rot, s')"
    by (rule demo.rotate_view [OF hd, where now = demo_now and claims = "refresh_claims pair" and target = None
          and D = "route_hooks demo_outside_call" and ids = "demo_ids ''2''"])
      (use d c D A in \<open>auto simp: view_open_def target_ok_def switched_view_def\<close>)
  then have "auth_refresh demo_auth_env demo_outside_call None (Some (refresh_token pair)) s = (Replied rot, s')"
    using demo_refresh_transport [OF d] by (simp add: auth_refresh_def demo_outside_call_def demo_session_call_def demo_auth_call_def demo_auth_env_def)
  moreover have "\<exists>e. fst (validate_access_session demo_world (ac_hooks demo_outside_call) demo_now (access_token pair) s) = Inl e"
  proof (rule validate_Inl)
    show "\<not> access_valid demo_world (ac_hooks demo_outside_call) demo_now (access_token pair) s"
      using hd c(2) a demo_outside_refused [of session]
      by (auto simp: access_valid_def holds_docs_def view_claims_def view_session_def jwt_constants)
  qed
  ultimately show ?thesis using i by (auto simp: demo_outside_call_def demo_session_call_def demo_auth_call_def)
qed


section \<open>Switching the project\<close>

definition may_switch :: "auth_call \<Rightarrow> dict \<Rightarrow> string \<Rightarrow> dict \<Rightarrow> bool" where
  "may_switch c current h p \<longleftrightarrow>
     get_project_by_hash (ac_hooks c) h = Some p \<and> project_is_active_for_auth p \<and>
     (let utype = py_str (py_or (dget_default current ''user_type'' (JStr ''consumer'')) (JStr ''consumer''));
          uid = py_str (dget current ''user_id'')
      in (utype = ''admin'' \<longrightarrow> check_admin_project_access (ac_hooks c) uid (py_str (dget p ''id''))) \<and>
         (utype \<noteq> ''admin'' \<longrightarrow> utype \<noteq> ''root'' \<longrightarrow>
            (\<exists>ps. get_user_accessible_projects (ac_hooks c) uid = Some ps \<and> names_project ps h)))"

lemma switch_allowed_iff: "switch_allowed c current h = Inr p \<longleftrightarrow> may_switch c current h p"
  by (auto simp: switch_allowed_def may_switch_def accessible_eq denied_def Let_def split: option.splits if_splits)

lemma switch_Replied:
  assumes "auth_switch_project E c token h cookie body s = (Replied rot, s')"
  obtains login s0 claims current s1 p rt rclaims where
      "validate_access_session (ae_world E) (ac_hooks c) (ac_now c) token s = (Inr login, s0)"
    and "decode_access_token (jwt (ae_world E)) (ac_now c) token = Inr claims"
    and "validate_access_session (ae_world E) (route_hooks c) (ac_now c) token s0 = (Inr current, s1)"
    and "require_recent_reauthentication (ae_world E) (ae_store E) (ae_oauth E) (ac_now c) (py_str (dget current ''user_id'')) token
           (Some (py_str (py_or (py_or (dget claims ''session_id'') (dget claims ''jti'')) (JStr [])))) s1"
    and "switch_allowed c current h = Inr p"
    and "extract_refresh_token_from_request (ae_world E) cookie body = Inr rt"
    and "decode_refresh_token (jwt (ae_world E)) (ac_now c) rt = Inr rclaims"
    and "py_str (dget rclaims ''family_id'') = py_str (dget claims ''family_id'')"
    and "rotate_refresh_family (ae_world E) (switch_hooks c p) (ac_now c) (ac_ids c) (Some p) rt s1 = (Inr rot, s')"
  using assms unfolding auth_switch_project_def
  by (elim with_session_Replied)
    (auto simp: Let_def raised_def refresh_denied_def split: sum.splits prod.splits if_splits)

text \<open>A rotation to a project names that project and keeps the family and the time of the sign-in.\<close>

lemma rotate_target_session:
  assumes "rotate_refresh_family W D now ids (Some p) t s = (Inr rot, s')" and "dget p ''project_hash'' = JStr h"
    and "get_project_by_hash D h = Some p" and "decode_refresh_token (jwt W) now t = Inr claims"
    and world: "auth_world W tick pttl"
  shows "dget (rot_session_payload rot) ''family_id'' = JStr (py_str (dget claims ''family_id''))"
    and "dget (rot_session_payload rot) ''scope'' = JStr AUTH_SCOPE_PROJECT"
    and "dget (rot_session_payload rot) ''project_hash'' = JStr h" "dget (rot_session_payload rot) ''collection'' = JStr h"
    and "\<exists>family. get_json (redis W) s (family_key (py_str (dget claims ''family_id''))) = Some family \<and>
      dget family ''status'' = JStr ''active'' \<and>
      (truthy (dget family ''auth_time'') \<longrightarrow> dget (rot_session_payload rot) ''auth_time'' = dget family ''auth_time'')"
proof -
  obtain pl s1 where pl: "rotate_prepare W D now ids (Some p) t s = (Inr pl, s1)" and c: "rotate_commit W now pl s1 = (Inr rot, s')"
    using rotate_refresh_family_parts [OF assms(1)] by blast
  have rot: "rot_session_payload rot = plan_session pl"
    using c by (auto simp: rotate_commit_def rotate_conflict_def split: if_splits prod.splits)
  obtain family tr j session s2 where f: "get_json (redis W) s (family_key (py_str (dget claims ''family_id''))) = Some family"
      "dget family ''status'' = JStr ''active''"
    and plan: "rotate_plan W D now ids (Some p) t claims family tr j session s2 = (Inr pl, s1)"
    using pl by (rule rotate_prepare_Inr) (use assms(4) in auto)
  let ?session = "switch_project (Some p) session"
  obtain ctx where rac: "reconstruct_auth_context (redis W) D now ?session s2 = (Some ctx, s1)"
    and bld: "build_rotated_pair W now ids claims ?session family ctx =
           Inr (plan_pair pl, plan_session pl, plan_family pl, plan_refresh_record pl)"
    using plan by (rule rotate_plan_Inr)
  have "auth_allowed D ?session" using rac reconstruct_granted_iff [of "redis W" D now ?session s2] by blast
  then have h: "h \<noteq> []" using assms(2) by (auto simp: auth_allowed_defs switch_project_def jwt_constants split: option.splits)
  have ctx: "ctx_project ctx = Some p"
    using rac assms(2,3) h
    by (auto simp: reconstruct_auth_context_def reconstruct_project_context_def load_active_user_def switch_project_def Let_def
        jwt_constants split: option.splits if_splits)
  from bld obtain ttl ab rm where ses: "plan_session pl = rotated_session (cfg W) now ids claims ?session family ctx AUTH_SCOPE_PROJECT (JStr h) rm ttl ab"
    by (rule auth_world.build_rotated_pair_Inr [OF world]) (use assms(2) h in \<open>auto simp: switch_project_def jwt_constants\<close>)
  have "dget_default p ''project_hash'' x = JStr h" for x
    using assms(2) by (auto simp: dget_default_def dget_def split: option.splits)
  then show "dget (rot_session_payload rot) ''family_id'' = JStr (py_str (dget claims ''family_id''))"
    "dget (rot_session_payload rot) ''scope'' = JStr AUTH_SCOPE_PROJECT"
    "dget (rot_session_payload rot) ''project_hash'' = JStr h" "dget (rot_session_payload rot) ''collection'' = JStr h"
    by (simp_all add: rot ses rotated_session_def ctx Let_def jwt_constants)
  show "\<exists>family. get_json (redis W) s (family_key (py_str (dget claims ''family_id''))) = Some family \<and>
      dget family ''status'' = JStr ''active'' \<and>
      (truthy (dget family ''auth_time'') \<longrightarrow> dget (rot_session_payload rot) ''auth_time'' = dget family ''auth_time'')"
    using f by (auto simp: rot ses rotated_session_def ctx Let_def jwt_constants)
qed


text \<open>C33. A project switch needs a valid session, a recent authentication of it, an active project the user may
  enter, and a refresh token of the same family. The new session keeps the family and the time of the sign-in, so that
  switching never renews the proof of a recent authentication, and names the new project.\<close>

theorem switch_project_sound:
  assumes world: "auth_world (ae_world E) tick pttl" and hashes: "hash_lookup (ac_hooks c)"
    and out: "auth_switch_project E c token h cookie body s = (Replied rot, s')"
  shows "\<exists>claims current s0 s1 p rt rclaims family.
     access_valid (ae_world E) (ac_hooks c) (ac_now c) token s \<and>
     decode_access_token (jwt (ae_world E)) (ac_now c) token = Inr claims \<and>
     validate_access_session (ae_world E) (route_hooks c) (ac_now c) token s0 = (Inr current, s1) \<and>
     require_recent_reauthentication (ae_world E) (ae_store E) (ae_oauth E) (ac_now c) (py_str (dget current ''user_id'')) token
       (Some (py_str (py_or (py_or (dget claims ''session_id'') (dget claims ''jti'')) (JStr [])))) s1 \<and>
     may_switch c current h p \<and>
     extract_refresh_token_from_request (ae_world E) cookie body = Inr rt \<and>
     decode_refresh_token (jwt (ae_world E)) (ac_now c) rt = Inr rclaims \<and>
     py_str (dget rclaims ''family_id'') = py_str (dget claims ''family_id'') \<and>
     get_json (redis (ae_world E)) s1 (family_key (py_str (dget claims ''family_id''))) = Some family \<and> dget family ''status'' = JStr ''active'' \<and>
     dget (rot_session_payload rot) ''family_id'' = JStr (py_str (dget claims ''family_id'')) \<and>
     dget (rot_session_payload rot) ''scope'' = JStr AUTH_SCOPE_PROJECT \<and>
     dget (rot_session_payload rot) ''project_hash'' = JStr h \<and> dget (rot_session_payload rot) ''collection'' = JStr h \<and>
     (truthy (dget family ''auth_time'') \<longrightarrow> dget (rot_session_payload rot) ''auth_time'' = dget family ''auth_time'')"
proof -
  let ?W = "ae_world E"
  obtain login s0 claims current s1 p rt rclaims where
      v: "validate_access_session ?W (ac_hooks c) (ac_now c) token s = (Inr login, s0)"
    and a: "decode_access_token (jwt ?W) (ac_now c) token = Inr claims"
    and cur: "validate_access_session ?W (route_hooks c) (ac_now c) token s0 = (Inr current, s1)"
    and recent: "require_recent_reauthentication ?W (ae_store E) (ae_oauth E) (ac_now c) (py_str (dget current ''user_id'')) token
           (Some (py_str (py_or (py_or (dget claims ''session_id'') (dget claims ''jti'')) (JStr [])))) s1"
    and allowed: "switch_allowed c current h = Inr p"
    and rt: "extract_refresh_token_from_request ?W cookie body = Inr rt"
      "decode_refresh_token (jwt ?W) (ac_now c) rt = Inr rclaims" "py_str (dget rclaims ''family_id'') = py_str (dget claims ''family_id'')"
    and rot: "rotate_refresh_family ?W (switch_hooks c p) (ac_now c) (ac_ids c) (Some p) rt s1 = (Inr rot, s')"
    using out by (rule switch_Replied)
  have may: "may_switch c current h p" using allowed by (simp add: switch_allowed_iff)
  then have p: "get_project_by_hash (ac_hooks c) h = Some p" by (simp add: may_switch_def)
  then have hash: "dget p ''project_hash'' = JStr h" by (rule hash_lookup_hash [OF hashes])
  have p': "get_project_by_hash (switch_hooks c p) h = Some p" using p by (simp add: switch_hooks_def)
  note new = rotate_target_session [OF rot hash p' rt(2) world, unfolded rt(3)]
  have valid: "access_valid ?W (ac_hooks c) (ac_now c) token s" using v validate_valid_iff [of ?W "ac_hooks c" "ac_now c" token s] by blast
  from new(5) obtain family where "get_json (redis ?W) s1 (family_key (py_str (dget claims ''family_id''))) = Some family"
      "dget family ''status'' = JStr ''active''"
      "truthy (dget family ''auth_time'') \<longrightarrow> dget (rot_session_payload rot) ''auth_time'' = dget family ''auth_time''" by blast
  with valid a cur recent may rt new(1-4) show ?thesis by blast
qed

definition demo_other_project :: dict where
  "demo_other_project = demo_project(''id'' \<mapsto> JStr ''p2'', ''project_hash'' \<mapsto> JStr ''ph2'')"

definition demo_switch_hooks :: db_hooks where
  "demo_switch_hooks = demo_hooks\<lparr>get_project_by_hash := (\<lambda>h. if h = ''ph1'' then Some demo_project else if h = ''ph2'' then Some demo_other_project else None),
     check_admin_project_access := (\<lambda>_ _. True), get_user_accessible_projects := (\<lambda>_. Some [JObj demo_other_project])\<rparr>"

definition demo_switch_call :: auth_call where
  "demo_switch_call = demo_auth_call\<lparr>ac_ids := demo_ids ''2'', ac_hooks := demo_switch_hooks,
     ac_groups_in_project := (\<lambda>_ _. Some [JObj [''group_name'' \<mapsto> JStr ''buyers'']])\<rparr>"

lemma demo_switch_sel [simp]:
  "ac_ids demo_switch_call = demo_ids ''2''" "ac_now demo_switch_call = demo_now" "ac_hooks demo_switch_call = demo_switch_hooks"
  "ac_groups_in_project demo_switch_call = (\<lambda>_ _. Some [JObj [''group_name'' \<mapsto> JStr ''buyers'']])"
  "get_project_by_hash demo_switch_hooks ''ph2'' = Some demo_other_project"
  by (simp_all add: demo_switch_call_def demo_auth_call_def demo_switch_hooks_def)

lemma demo_switch_lookup [simp]: "hash_lookup demo_switch_hooks"
  by (auto simp: hash_lookup_def demo_switch_hooks_def demo_project_def demo_other_project_def split: if_splits)

lemma demo_switch_allowed: "switch_allowed demo_switch_call login ''ph2'' = Inr demo_other_project"
  by (simp add: switch_allowed_iff may_switch_def project_is_active_for_auth_def demo_other_project_def names_project_def
      dget_default_def demo_project_def Let_def) (simp add: demo_switch_hooks_def demo_other_project_def)

lemma demo_switch_authorized:
  "view_authorized demo_switch_hooks demo_view" "view_authorized (route_hooks demo_switch_call) demo_view"
  "view_authorized (switch_hooks demo_switch_call demo_other_project) (switched_view (Some demo_other_project) demo_view)"
  by (simp_all add: view_authorized_def demo_switch_hooks_def route_hooks_def route_refresh_groups_def switch_hooks_def demo_hooks_def demo_user_def
      demo_project_def demo_other_project_def switched_view_def project_access_def project_is_active_for_auth_def safe_call_list_def
      dget_default_def)


text \<open>A successful validation changes at most the cache of validated sessions, so the documents of the family stay.\<close>

lemma validate_caches:
  assumes "validate_access_session W D now t s = (Inr login, s')"
  obtains "s' = s" | j where "s' = set_session_full (redis W) (cfg W) j login s"
proof -
  have rac: "x = s" if "reconstruct_auth_context (redis W) D now session s = (Some ctx, x)" for session ctx x
    using that by (auto simp: reconstruct_auth_context_def reconstruct_project_context_def load_active_user_def Let_def
        split: option.splits if_splits)
  from assms show thesis
    using that unfolding validate_access_session_def Let_def
    by (auto split: sum.splits option.splits prod.splits dest: rac)
qed

lemma demo_validate_keeps_docs:
  assumes "validate_access_session demo_world D now t s = (Inr login, s')"
    and "holds_docs demo_world s v rt session family tr" and "has_session demo_world s v"
  shows "holds_docs demo_world s' v rt session family tr" "has_session demo_world s' v"
  using assms(1) by (rule validate_caches; use assms(2,3) in \<open>simp add: holds_docs_def has_session_def set_session_full_def store_simps\<close>)+

lemma demo_recent_auth:
  assumes "demo_issue = (Inr pair, s)"
  shows "access_token_has_recent_auth demo_world demo_env demo_now (access_token pair)"
proof -
  have t: "access_token pair = issue_access_token demo_world demo_now (demo_ids ''1'') demo_user AUTH_SCOPE_PROJECT (JStr ''ph1'')"
    and d: "decode_access_token sym_jwt demo_now (access_token pair) = Inr (access_claims pair)"
    using assms demo_fields(2) unfolding demo_issue_def demo_login_def issue_project_token_pair_def
    by (cases rule: issue_token_pair_cases; simp)+
  have "access_token pair = Signed (access_claims pair)" using d by (simp add: decode_access_token_def sym_decode_Signed)
  with t have "access_claims pair = access_payload default_config demo_now (JStr ''s1'') (JStr ''h1'') (JStr ''ph1'') None
      (Some AUTH_SCOPE_PROJECT) (Some ''a1'') (Some ''f1'') (Some (demo_now div us_per_second)) [] []"
    by (simp add: issue_access_token_def create_access_token_def sym_jwt_def demo_user_def)
  then have "dget (access_claims pair) ''auth_time'' = JInt (demo_now div us_per_second)" "dget (access_claims pair) ''reauth_at'' = JNull"
    by (simp_all add: access_payload_def base_payload_def)
  with d show ?thesis
    by (auto simp: access_token_has_recent_auth_def access_token_claims_def nonempty_doc_def py_or_def recent_reauth_ttl_def demo_env_def
        dest: dget_nonempty)
qed


lemma demo_pair_docs:
  obtains pair s session family tr where "demo_issue = (Inr pair, s)"
    and "holds_docs demo_world s demo_view (refresh_token pair) session family tr" and "has_session demo_world s demo_view"
    and "decode_access_token sym_jwt demo_now (access_token pair) = Inr (access_claims pair)"
    and "decode_refresh_token sym_jwt demo_now (refresh_token pair) = Inr (refresh_claims pair)"
    and "view_claims demo_view ''a1'' (access_claims pair)" and "view_claims demo_view ''r1'' (refresh_claims pair)"
  by (rule demo_issued) (auto simp: holds_view_def intro: that)

text \<open>The demo session switches to the second project.\<close>

lemma demo_switches:
  obtains pair s rot s' where "demo_issue = (Inr pair, s)"
    and "auth_switch_project demo_auth_env demo_switch_call (access_token pair) ''ph2'' None (Some (refresh_token pair)) s = (Replied rot, s')"
proof -
  let ?D = demo_switch_hooks and ?c = demo_switch_call
  obtain pair s session family tr where i: "demo_issue = (Inr pair, s)"
    and hd: "holds_docs demo_world s demo_view (refresh_token pair) session family tr" and hs: "has_session demo_world s demo_view"
    and a: "decode_access_token sym_jwt demo_now (access_token pair) = Inr (access_claims pair)"
    and r: "decode_refresh_token sym_jwt demo_now (refresh_token pair) = Inr (refresh_claims pair)"
    and c: "view_claims demo_view ''a1'' (access_claims pair)" "view_claims demo_view ''r1'' (refresh_claims pair)" by (rule demo_pair_docs)
  have valid: "\<exists>login s'. validate_access_session demo_world D demo_now (access_token pair) x = (Inr login, s')"
    if "holds_docs demo_world x demo_view (refresh_token pair) session family tr" "has_session demo_world x demo_view" "view_authorized D demo_view" for x D
    unfolding validate_valid_iff using a c(1) by (intro view_access_valid [OF that(1,2) _ _ that(3)]) simp_all
  obtain login s0 where v0: "validate_access_session demo_world ?D demo_now (access_token pair) s = (Inr login, s0)"
    using valid [OF hd hs demo_switch_authorized(1)] by blast
  note d0 = demo_validate_keeps_docs [OF v0 hd hs]
  obtain current s1 where v1: "validate_access_session demo_world (route_hooks ?c) demo_now (access_token pair) s0 = (Inr current, s1)"
    using valid [OF d0 demo_switch_authorized(2)] by blast
  note d1 = demo_validate_keeps_docs [OF v1 d0]
  have lookup: "hash_lookup (switch_hooks ?c demo_other_project)" using demo_switch_lookup by (simp add: hash_lookup_def switch_hooks_def)
  obtain rot s' where rot: "rotate_refresh_family demo_world (switch_hooks ?c demo_other_project) demo_now (demo_ids ''2'') (Some demo_other_project) (refresh_token pair) s1 = (Inr rot, s')"
    by (rule demo.rotate_view [OF d1(1), where now = demo_now and claims = "refresh_claims pair" and target = "Some demo_other_project"
          and D = "switch_hooks ?c demo_other_project" and ids = "demo_ids ''2''"])
      (use r c lookup demo_switch_authorized(3) in \<open>auto simp: view_open_def target_ok_def demo_other_project_def\<close>)
  have f: "dget (refresh_claims pair) ''family_id'' = JStr ''f1''" "dget (access_claims pair) ''family_id'' = JStr ''f1''"
    using c by (simp_all add: view_claims_def)
  have e: "ae_oauth demo_auth_env = demo_env" "count_dots (jwt_text sym_jwt (access_token pair)) = 2"
    using demo_pair_text(1) [OF i] by (simp_all add: demo_auth_env_def sym_jwt_def)
  have "auth_switch_project demo_auth_env ?c (access_token pair) ''ph2'' None (Some (refresh_token pair)) s = (Replied rot, s')"
    by (simp add: auth_switch_project_def with_session_def validate_session_def e v0 a v1 Let_def require_recent_reauthentication_def
        demo_recent_auth [OF i] demo_switch_allowed demo_refresh_transport [OF r] r f rot)
  with i show thesis by (rule that)
qed

theorem switch_project_sound_witness:
  "\<exists>pair s rot s'. demo_issue = (Inr pair, s) \<and>
     auth_switch_project demo_auth_env demo_switch_call (access_token pair) ''ph2'' None (Some (refresh_token pair)) s = (Replied rot, s') \<and>
     dget (rot_session_payload rot) ''project_hash'' = JStr ''ph2''"
proof -
  obtain pair s rot s' where i: "demo_issue = (Inr pair, s)"
    and o: "auth_switch_project demo_auth_env demo_switch_call (access_token pair) ''ph2'' None (Some (refresh_token pair)) s = (Replied rot, s')"
    by (rule demo_switches)
  have w: "auth_world (ae_world demo_auth_env) mem_tick mem_pttl" and l: "hash_lookup (ac_hooks demo_switch_call)"
    using demo.auth_world_axioms by simp_all
  from switch_project_sound [OF w l o] have "dget (rot_session_payload rot) ''project_hash'' = JStr ''ph2''" by blast
  with i o show ?thesis by blast
qed


text \<open>
  The handler of a logout decodes without regard to the expiry, but the session check before it does not: an expired
  access token is refused and the family stays as it is.
\<close>

lemma logout_refuses_expired:
  assumes "jwt_decode (jwt (ae_world E)) (ac_now c) BASE_REQUIRED_JWT_CLAIMS True t = Inl ExpiredSignature"
  shows "\<exists>e. auth_logout E c t s = (Raised e, s)"
  using assms
  by (simp add: auth_logout_def with_session_def validate_session_def validate_access_session_def decode_access_token_def decode_typed_token_def denied_def)

end
