(* ===== verification/Email_Links.thy ===== *)
theory Email_Links
  imports Auth_Routes
begin

text \<open>
  E-mail addresses of accounts, and the links that activate them and reset passwords: the token format of
  \<^verbatim>\<open>src/src/Util/email/security.py\<close> and the procedures of \<^verbatim>\<open>src/schemas/stored_procedures/14_email_activation.sql\<close> that
  \<^verbatim>\<open>src/src/Util/db/db_email.py\<close> calls. A procedure is a transaction on lists of rows; \<open>None\<close> is an SQL exception, which
  rolls it back. The unique indexes on activated addresses and primaries are no guards of the model: that they never
  have to reject a row is shown. Instants are whole seconds, MySQL string comparison is a collation argument, and
  HMAC, SHA-256 and BLAKE2 are arguments.
\<close>

section \<open>Link tokens\<close>

definition normalize_email :: "string \<Rightarrow> string" where
  "normalize_email email = str_lower (str_strip email)"

definition LOOKUP_ID_BYTES :: nat where "LOOKUP_ID_BYTES = 9"
definition LINK_SECRET_BYTES :: nat where "LINK_SECRET_BYTES = 32"

definition link_material :: "string \<Rightarrow> string \<Rightarrow> string \<Rightarrow> string" where
  "link_material purpose lookup_id secret = ''v1:'' @ purpose @ '':'' @ lookup_id @ '':'' @ secret"

definition hash_link_token :: "(string \<Rightarrow> string) \<Rightarrow> string \<Rightarrow> string \<Rightarrow> string \<Rightarrow> string" where
  "hash_link_token mac purpose lookup_id secret = mac (link_material purpose lookup_id secret)"

definition parse_link_token :: "string \<Rightarrow> (string \<times> string) option" where
  "parse_link_token token =
     (case rsplit_dot token of
        None \<Rightarrow> None
      | Some (lookup_id, secret) \<Rightarrow> if lookup_id = [] \<or> secret = [] then None else Some (lookup_id, secret))"

record link_token =
  gl_lookup_id :: string
  gl_secret :: string
  gl_token :: string
  gl_hash :: string
  gl_fingerprint :: string
  gl_expires_at :: int

text \<open>The random bytes of the two parts are arguments.\<close>

definition generate_link_token ::
    "(string \<Rightarrow> string) \<Rightarrow> (string \<Rightarrow> string) \<Rightarrow> string \<Rightarrow> int \<Rightarrow> int \<Rightarrow> string \<Rightarrow> string \<Rightarrow> link_token" where
  "generate_link_token mac blake purpose ttl_seconds now id_bytes secret_bytes =
     (let lookup_id = b64url id_bytes; secret = b64url secret_bytes; token = lookup_id @ ''.'' @ secret
      in \<lparr>gl_lookup_id = lookup_id, gl_secret = secret, gl_token = token, gl_hash = hash_link_token mac purpose lookup_id secret,
          gl_fingerprint = blake token, gl_expires_at = now + ttl_seconds\<rparr>)"

definition verify_link_token :: "(string \<Rightarrow> string) \<Rightarrow> string \<Rightarrow> string \<Rightarrow> string \<Rightarrow> int \<Rightarrow> int \<Rightarrow> bool" where
  "verify_link_token mac token purpose expected_hash until now =
     (case parse_link_token token of
        None \<Rightarrow> mac ''v1:invalid:invalid:invalid'' = expected_hash
      | Some (lookup_id, secret) \<Rightarrow> hash_link_token mac purpose lookup_id secret = expected_hash \<and> now \<le> until)"

section \<open>Rows\<close>

record mail_row =
  ml_id :: string
  ml_user_id :: string
  ml_normalized :: string
  ml_hash :: string
  ml_masked :: string
  ml_status :: string
  ml_is_primary :: bool
  ml_added_at :: int
  ml_activated_at :: "int option"
  ml_removed_at :: "int option"
  ml_last_sent :: "int option"

record mail_link_row =
  lk_id :: string
  lk_user_id :: string
  lk_email_id :: "string option"
  lk_purpose :: string
  lk_lookup_id :: string
  lk_hash :: string
  lk_expires_at :: int
  lk_consumed_at :: "int option"
  lk_revoked_at :: "int option"
  lk_reason :: "string option"

record message_row =
  ms_id :: string
  ms_user_id :: "string option"
  ms_email_id :: "string option"
  ms_token_id :: "string option"
  ms_purpose :: string
  ms_recipient :: "string option"
  ms_provider :: string
  ms_provider_key :: string
  ms_priority :: int
  ms_created_at :: int

record ledger_row =
  ik_id :: string
  ik_scope :: string
  ik_key_hash :: string
  ik_request_hash :: string
  ik_user_id :: "string option"
  ik_message_id :: "string option"
  ik_status :: string
  ik_status_code :: int
  ik_expires_at :: int

record mail_tables =
  mt_users :: "user_row list"
  mt_emails :: "mail_row list"
  mt_links :: "mail_link_row list"
  mt_messages :: "message_row list"
  mt_ledger :: "ledger_row list"

definition live_mail :: "mail_row \<Rightarrow> bool" where
  "live_mail r \<longleftrightarrow> ml_removed_at r = None"

definition activated_mail :: "mail_row \<Rightarrow> bool" where
  "activated_mail r \<longleftrightarrow> ml_status r = ''activated'' \<and> live_mail r"

definition open_link :: "mail_link_row \<Rightarrow> bool" where
  "open_link l \<longleftrightarrow> lk_consumed_at l = None \<and> lk_revoked_at l = None"

definition reset_purposes :: "string list" where
  "reset_purposes = [''password_reset'', ''admin_password_reset'']"

definition reset_link :: "mail_link_row \<Rightarrow> bool" where
  "reset_link l \<longleftrightarrow> lk_purpose l \<in> set reset_purposes"

text \<open>\<^verbatim>\<open>ORDER BY\<close> on a nullable instant: \<^verbatim>\<open>NULL\<close> comes first.\<close>

definition sql_asc :: "('a \<Rightarrow> int option) \<Rightarrow> 'a list \<Rightarrow> 'a list" where
  "sql_asc f xs = sort_key (\<lambda>x. f x \<noteq> None) (sort_key (\<lambda>x. case f x of None \<Rightarrow> 0 | Some t \<Rightarrow> t) xs)"

definition first_row :: "'a list \<Rightarrow> 'a option" where
  "first_row xs = (case xs of [] \<Rightarrow> None | x # _ \<Rightarrow> Some x)"

text \<open>\<^verbatim>\<open>ORDER BY activated_at ASC, added_at ASC\<close>, and with \<^verbatim>\<open>is_primary DESC\<close> before it.\<close>

definition oldest_first :: "mail_row list \<Rightarrow> mail_row list" where
  "oldest_first rs = sql_asc ml_activated_at (sort_key ml_added_at rs)"

definition primary_first :: "mail_row list \<Rightarrow> mail_row list" where
  "primary_first rs = sort_key (\<lambda>r. \<not> ml_is_primary r) (oldest_first rs)"

section \<open>Statements\<close>

definition update_where :: "('a \<Rightarrow> bool) \<Rightarrow> ('a \<Rightarrow> 'a) \<Rightarrow> 'a list \<Rightarrow> 'a list" where
  "update_where P f rs = map (\<lambda>r. if P r then f r else r) rs"

definition revoke_links :: "int \<Rightarrow> string \<Rightarrow> (mail_link_row \<Rightarrow> bool) \<Rightarrow> mail_link_row list \<Rightarrow> mail_link_row list" where
  "revoke_links now reason P = update_where (\<lambda>l. P l \<and> open_link l) (\<lambda>l. l\<lparr>lk_revoked_at := Some now, lk_reason := Some reason\<rparr>)"

text \<open>\<^verbatim>\<open>INSERT\<close>: a duplicate of a unique key is an SQL exception.\<close>

definition insert_mail :: "(string \<Rightarrow> string) \<Rightarrow> mail_row \<Rightarrow> mail_row list \<Rightarrow> mail_row list option" where
  "insert_mail K r rs = (if list_ex (\<lambda>x. K (ml_id x) = K (ml_id r)) rs then None else Some (rs @ [r]))"

definition insert_link :: "(string \<Rightarrow> string) \<Rightarrow> mail_link_row \<Rightarrow> mail_link_row list \<Rightarrow> mail_link_row list option" where
  "insert_link K l ls =
     (if list_ex (\<lambda>x. K (lk_id x) = K (lk_id l) \<or> K (lk_lookup_id x) = K (lk_lookup_id l)) ls then None else Some (ls @ [l]))"

definition insert_message :: "(string \<Rightarrow> string) \<Rightarrow> message_row \<Rightarrow> message_row list \<Rightarrow> message_row list option" where
  "insert_message K m ms =
     (if list_ex (\<lambda>x. K (ms_id x) = K (ms_id m) \<or> K (ms_provider x) = K (ms_provider m) \<and> K (ms_provider_key x) = K (ms_provider_key m)) ms
      then None else Some (ms @ [m]))"

text \<open>The idempotency columns of an enqueueing call, and the message it queues.\<close>

record idem_key =
  id_id :: string
  id_scope :: string
  id_key_hash :: string
  id_request_hash :: string
  id_expires_at :: int

record new_link =
  nl_token_id :: string
  nl_lookup_id :: string
  nl_hash :: string
  nl_expires_at :: int
  nl_message_id :: string
  nl_provider :: "string option"
  nl_provider_key :: string
  nl_idem :: "idem_key option"

text \<open>\<^verbatim>\<open>INSERT ... ON DUPLICATE KEY UPDATE\<close> on the ledger.\<close>

definition same_ledger_key :: "(string \<Rightarrow> string) \<Rightarrow> idem_key \<Rightarrow> ledger_row \<Rightarrow> bool" where
  "same_ledger_key K i r \<longleftrightarrow> K (ik_id r) = K (id_id i) \<or> K (ik_scope r) = K (id_scope i) \<and> ik_key_hash r = id_key_hash i"

definition ledger_complete ::
    "(string \<Rightarrow> string) \<Rightarrow> string option \<Rightarrow> string \<Rightarrow> idem_key option \<Rightarrow> ledger_row list \<Rightarrow> ledger_row list" where
  "ledger_complete K user_id message_id idem rows =
     (case idem of
        None \<Rightarrow> rows
      | Some i \<Rightarrow>
          if list_ex (same_ledger_key K i) rows
          then update_where (same_ledger_key K i) (\<lambda>r. r\<lparr>ik_message_id := Some message_id, ik_status := ''complete'', ik_status_code := 202\<rparr>) rows
          else rows @ [\<lparr>ik_id = id_id i, ik_scope = id_scope i, ik_key_hash = id_key_hash i, ik_request_hash = id_request_hash i,
                 ik_user_id = user_id, ik_message_id = Some message_id, ik_status = ''complete'', ik_status_code = 202,
                 ik_expires_at = id_expires_at i\<rparr>])"

text \<open>A new link and the message that carries it, shared by the four procedures that enqueue one.\<close>

definition link_row_of :: "string \<Rightarrow> string \<Rightarrow> string \<Rightarrow> new_link \<Rightarrow> mail_link_row" where
  "link_row_of user_id email_id purpose n =
     \<lparr>lk_id = nl_token_id n, lk_user_id = user_id, lk_email_id = Some email_id, lk_purpose = purpose, lk_lookup_id = nl_lookup_id n,
      lk_hash = nl_hash n, lk_expires_at = nl_expires_at n, lk_consumed_at = None, lk_revoked_at = None, lk_reason = None\<rparr>"

definition message_row_of :: "int \<Rightarrow> string \<Rightarrow> string \<Rightarrow> string \<Rightarrow> string \<Rightarrow> int \<Rightarrow> new_link \<Rightarrow> message_row" where
  "message_row_of now user_id email_id recipient purpose priority n =
     \<lparr>ms_id = nl_message_id n, ms_user_id = Some user_id, ms_email_id = Some email_id, ms_token_id = Some (nl_token_id n), ms_purpose = purpose,
      ms_recipient = Some recipient, ms_provider = (case nl_provider n of None \<Rightarrow> ''resend'' | Some p \<Rightarrow> p),
      ms_provider_key = nl_provider_key n, ms_priority = priority, ms_created_at = now\<rparr>"

definition enqueue_link ::
    "(string \<Rightarrow> string) \<Rightarrow> int \<Rightarrow> string \<Rightarrow> string \<Rightarrow> string \<Rightarrow> string \<Rightarrow> int \<Rightarrow> new_link \<Rightarrow> mail_tables \<Rightarrow> mail_tables option" where
  "enqueue_link K now user_id email_id recipient purpose priority n T =
     (case insert_link K (link_row_of user_id email_id purpose n) (mt_links T) of
        None \<Rightarrow> None
      | Some links \<Rightarrow>
          (case insert_message K (message_row_of now user_id email_id recipient purpose priority n) (mt_messages T) of
             None \<Rightarrow> None
           | Some messages \<Rightarrow> Some (T\<lparr>mt_links := links, mt_messages := messages\<rparr>)))"

section \<open>Addresses\<close>

record mail_out =
  mo_email_id :: string
  mo_token_id :: "string option"
  mo_message_id :: "string option"
  mo_status :: string

definition user_by_id :: "(string \<Rightarrow> string) \<Rightarrow> string \<Rightarrow> mail_tables \<Rightarrow> user_row option" where
  "user_by_id K user_id T = List.find (\<lambda>u. K (u_id u) = K user_id) (mt_users T)"

definition active_user :: "(string \<Rightarrow> string) \<Rightarrow> string \<Rightarrow> mail_tables \<Rightarrow> bool" where
  "active_user K user_id T \<longleftrightarrow> list_ex (\<lambda>u. K (u_id u) = K user_id \<and> u_is_active u) (mt_users T)"

text \<open>An SQL exception rolls back: the tables are those of the start.\<close>

definition committed :: "('a \<times> mail_tables) option \<Rightarrow> mail_tables \<Rightarrow> 'a option \<times> mail_tables" where
  "committed r T = (case r of None \<Rightarrow> (None, T) | Some (out, T') \<Rightarrow> (Some out, T'))"

definition own_mail :: "(string \<Rightarrow> string) \<Rightarrow> string \<Rightarrow> string \<Rightarrow> mail_row \<Rightarrow> bool" where
  "own_mail K user_id normalized r \<longleftrightarrow>
     K (ml_user_id r) = K user_id \<and> K (ml_normalized r) = K normalized \<and> live_mail r \<and>
     ml_status r \<in> {''pending'', ''activated'', ''suppressed''}"

definition counted_mail :: "(string \<Rightarrow> string) \<Rightarrow> string \<Rightarrow> mail_row \<Rightarrow> bool" where
  "counted_mail K user_id r \<longleftrightarrow> K (ml_user_id r) = K user_id \<and> live_mail r \<and> ml_status r \<in> {''pending'', ''activated''}"

definition pending_mail :: "int \<Rightarrow> string \<Rightarrow> string \<Rightarrow> string \<Rightarrow> string \<Rightarrow> string \<Rightarrow> mail_row" where
  "pending_mail now email_id user_id normalized hash masked =
     \<lparr>ml_id = email_id, ml_user_id = user_id, ml_normalized = normalized, ml_hash = hash, ml_masked = masked, ml_status = ''pending'',
      ml_is_primary = False, ml_added_at = now, ml_activated_at = None, ml_removed_at = None, ml_last_sent = None\<rparr>"

text \<open>The row of the address, found or inserted; \<open>None\<close> when the account has five already or the identifier is taken.\<close>

definition mail_entry ::
    "(string \<Rightarrow> string) \<Rightarrow> int \<Rightarrow> string \<Rightarrow> string \<Rightarrow> string \<Rightarrow> string \<Rightarrow> string \<Rightarrow> mail_row list \<Rightarrow>
     (string \<times> string \<times> mail_row list) option" where
  "mail_entry K now email_id user_id normalized hash masked rs =
     (case first_row (sort_key ml_added_at (filter (own_mail K user_id normalized) rs)) of
        Some r \<Rightarrow> Some (ml_id r, ml_status r, update_where (\<lambda>x. K (ml_id x) = K (ml_id r)) (\<lambda>x. x\<lparr>ml_hash := hash, ml_masked := masked\<rparr>) rs)
      | None \<Rightarrow>
          if 5 \<le> length (filter (counted_mail K user_id) rs) then None
          else (case insert_mail K (pending_mail now email_id user_id normalized hash masked) rs of
                  None \<Rightarrow> None
                | Some rs' \<Rightarrow> Some (email_id, ''pending'', rs')))"

definition activation_of :: "(string \<Rightarrow> string) \<Rightarrow> string \<Rightarrow> mail_link_row \<Rightarrow> bool" where
  "activation_of K email_id l \<longleftrightarrow>
     (case lk_email_id l of None \<Rightarrow> False | Some e \<Rightarrow> K e = K email_id) \<and> lk_purpose l = ''email_activation''"

text \<open>Old links revoked, the new one and its message inserted, the sending noted, the ledger completed.\<close>

definition send_activation ::
    "(string \<Rightarrow> string) \<Rightarrow> int \<Rightarrow> string \<Rightarrow> string \<Rightarrow> string \<Rightarrow> string \<Rightarrow> string \<Rightarrow> new_link \<Rightarrow> mail_tables \<Rightarrow> (mail_out \<times> mail_tables) option" where
  "send_activation K now user_id email_id normalized reason outcome n T =
     (case enqueue_link K now user_id email_id normalized ''email_activation'' 5 n
             (T\<lparr>mt_links := revoke_links now reason (activation_of K email_id) (mt_links T)\<rparr>) of
        None \<Rightarrow> None
      | Some T1 \<Rightarrow>
          Some (\<lparr>mo_email_id = email_id, mo_token_id = Some (nl_token_id n), mo_message_id = Some (nl_message_id n), mo_status = outcome\<rparr>,
                T1\<lparr>mt_emails := update_where (\<lambda>r. K (ml_id r) = K email_id) (\<lambda>r. r\<lparr>ml_last_sent := Some now\<rparr>) (mt_emails T1),
                   mt_ledger := ledger_complete K (Some user_id) (nl_message_id n) (nl_idem n) (mt_ledger T1)\<rparr>))"

definition sp_user_email_add_and_enqueue ::
    "(string \<Rightarrow> string) \<Rightarrow> int \<Rightarrow> string \<Rightarrow> string \<Rightarrow> string \<Rightarrow> string \<Rightarrow> string \<Rightarrow> new_link \<Rightarrow> mail_tables \<Rightarrow> mail_out option \<times> mail_tables" where
  "sp_user_email_add_and_enqueue K now email_id user_id email hash masked n T =
     committed
       (if \<not> active_user K user_id T then None
        else
          let normalized = str_lower (sql_trim email)
          in (case mail_entry K now email_id user_id normalized hash masked (mt_emails T) of
                None \<Rightarrow> None
              | Some (eid, status, rs) \<Rightarrow>
                  let T1 = T\<lparr>mt_emails := rs\<rparr>
                  in if status = ''activated''
                     then Some (\<lparr>mo_email_id = eid, mo_token_id = None, mo_message_id = None, mo_status = ''already_activated''\<rparr>, T1)
                     else if status = ''suppressed''
                     then Some (\<lparr>mo_email_id = eid, mo_token_id = None, mo_message_id = None, mo_status = ''suppressed''\<rparr>, T1)
                     else send_activation K now user_id eid normalized ''replaced_by_new_activation'' ''activation_enqueued'' n T1)) T"

definition owned_live :: "(string \<Rightarrow> string) \<Rightarrow> string \<Rightarrow> string \<Rightarrow> mail_row \<Rightarrow> bool" where
  "owned_live K user_id email_id r \<longleftrightarrow> K (ml_id r) = K email_id \<and> K (ml_user_id r) = K user_id \<and> live_mail r"

definition sp_user_email_resend_and_enqueue ::
    "(string \<Rightarrow> string) \<Rightarrow> int \<Rightarrow> string \<Rightarrow> string \<Rightarrow> int option \<Rightarrow> new_link \<Rightarrow> mail_tables \<Rightarrow> mail_out option \<times> mail_tables" where
  "sp_user_email_resend_and_enqueue K now user_id email_id cooldown n T =
     committed
       (case List.find (owned_live K user_id email_id) (mt_emails T) of
          None \<Rightarrow> None
        | Some r \<Rightarrow>
            if ml_status r \<noteq> ''pending''
            then Some (\<lparr>mo_email_id = email_id, mo_token_id = None, mo_message_id = None, mo_status = ml_status r\<rparr>, T)
            else if (case (cooldown, ml_last_sent r) of (Some c, Some t) \<Rightarrow> 0 < c \<and> now - c < t | _ \<Rightarrow> False)
            then Some (\<lparr>mo_email_id = email_id, mo_token_id = None, mo_message_id = None, mo_status = ''cooldown''\<rparr>, T)
            else send_activation K now user_id email_id (ml_normalized r) ''replaced_by_resend'' ''activation_resent'' n T) T"

section \<open>Activation\<close>

record consume_out =
  co_status :: string
  co_user_id :: "string option"
  co_email_id :: "string option"
  co_changed :: bool

definition link_by_lookup :: "(string \<Rightarrow> string) \<Rightarrow> (mail_link_row \<Rightarrow> bool) \<Rightarrow> string \<Rightarrow> mail_tables \<Rightarrow> mail_link_row option" where
  "link_by_lookup K P lookup_id T = List.find (\<lambda>l. K (lk_lookup_id l) = K lookup_id \<and> P l) (mt_links T)"

definition set_link :: "(string \<Rightarrow> string) \<Rightarrow> string \<Rightarrow> (mail_link_row \<Rightarrow> mail_link_row) \<Rightarrow> mail_tables \<Rightarrow> mail_tables" where
  "set_link K token_id f T = T\<lparr>mt_links := update_where (\<lambda>l. K (lk_id l) = K token_id) f (mt_links T)\<rparr>"

definition expire_link :: "int \<Rightarrow> mail_link_row \<Rightarrow> mail_link_row" where
  "expire_link now l = l\<lparr>lk_revoked_at := Some now, lk_reason := Some ''expired''\<rparr>"

definition consume_link :: "int \<Rightarrow> string option \<Rightarrow> mail_link_row \<Rightarrow> mail_link_row" where
  "consume_link now reason l = l\<lparr>lk_consumed_at := Some now, lk_reason := (case reason of Some r \<Rightarrow> Some r | None \<Rightarrow> lk_reason l)\<rparr>"

definition has_primary :: "(string \<Rightarrow> string) \<Rightarrow> string \<Rightarrow> mail_row list \<Rightarrow> bool" where
  "has_primary K user_id rs \<longleftrightarrow> list_ex (\<lambda>r. K (ml_user_id r) = K user_id \<and> activated_mail r \<and> ml_is_primary r) rs"

definition activate_row :: "int \<Rightarrow> bool \<Rightarrow> mail_row \<Rightarrow> mail_row" where
  "activate_row now first r =
     r\<lparr>ml_status := ''activated'', ml_activated_at := (case ml_activated_at r of Some t \<Rightarrow> Some t | None \<Rightarrow> Some now),
       ml_is_primary := (if first then True else ml_is_primary r)\<rparr>"

text \<open>The row that the link was sent for, still pending.\<close>

definition pending_target :: "(string \<Rightarrow> string) \<Rightarrow> mail_link_row \<Rightarrow> mail_row list \<Rightarrow> mail_row option" where
  "pending_target K l rs =
     (case lk_email_id l of
        None \<Rightarrow> None
      | Some e \<Rightarrow> List.find (\<lambda>r. owned_live K (lk_user_id l) e r \<and> ml_status r = ''pending'') rs)"

definition sp_consume_email_activation_token ::
    "(string \<Rightarrow> string) \<Rightarrow> int \<Rightarrow> string \<Rightarrow> string \<Rightarrow> mail_tables \<Rightarrow> consume_out \<times> mail_tables" where
  "sp_consume_email_activation_token K now lookup_id token_hash T =
     (case link_by_lookup K (\<lambda>l. lk_purpose l = ''email_activation'') lookup_id T of
        None \<Rightarrow> (\<lparr>co_status = ''not_found'', co_user_id = None, co_email_id = None, co_changed = False\<rparr>, T)
      | Some l \<Rightarrow>
          let out = (\<lambda>status changed. \<lparr>co_status = status, co_user_id = Some (lk_user_id l), co_email_id = lk_email_id l, co_changed = changed\<rparr>)
          in if lk_hash l \<noteq> token_hash then (out ''invalid'' False, T)
             else if lk_consumed_at l \<noteq> None then (out ''already_consumed'' False, T)
             else if lk_revoked_at l \<noteq> None then (out ''revoked'' False, T)
             else if lk_expires_at l \<le> now then (out ''expired'' False, set_link K (lk_id l) (expire_link now) T)
             else (case pending_target K l (mt_emails T) of
                     None \<Rightarrow> (out ''email_not_pending'' False, set_link K (lk_id l) (consume_link now (Some ''email_not_pending'')) T)
                   | Some r \<Rightarrow>
                       if list_ex (\<lambda>x. K (ml_normalized x) = K (ml_normalized r) \<and> activated_mail x \<and> K (ml_id x) \<noteq> K (ml_id r)) (mt_emails T)
                       then (out ''activation_conflict'' False, set_link K (lk_id l) (consume_link now (Some ''activation_conflict'')) T)
                       else
                         let T1 = set_link K (lk_id l) (consume_link now None) T
                         in (out ''activated'' True,
                             T1\<lparr>mt_emails := update_where (\<lambda>x. K (ml_id x) = K (ml_id r))
                                 (activate_row now (\<not> has_primary K (lk_user_id l) (mt_emails T))) (mt_emails T)\<rparr>)))"

section \<open>Removal and the primary address\<close>

definition link_of_mail :: "(string \<Rightarrow> string) \<Rightarrow> string \<Rightarrow> mail_link_row \<Rightarrow> bool" where
  "link_of_mail K email_id l \<longleftrightarrow> (case lk_email_id l of None \<Rightarrow> False | Some e \<Rightarrow> K e = K email_id)"

definition set_mail_primary :: "(string \<Rightarrow> string) \<Rightarrow> string \<Rightarrow> mail_row list \<Rightarrow> mail_row list" where
  "set_mail_primary K email_id = update_where (\<lambda>r. K (ml_id r) = K email_id) (\<lambda>r. r\<lparr>ml_is_primary := True\<rparr>)"

definition sp_user_email_remove ::
    "(string \<Rightarrow> string) \<Rightarrow> int \<Rightarrow> string \<Rightarrow> string \<Rightarrow> mail_tables \<Rightarrow> (string \<times> string option) option \<times> mail_tables" where
  "sp_user_email_remove K now user_id email_id T =
     committed
       (case List.find (owned_live K user_id email_id) (mt_emails T) of
          None \<Rightarrow> None
        | Some r \<Rightarrow>
            let rs = update_where (\<lambda>x. K (ml_id x) = K email_id)
                       (\<lambda>x. x\<lparr>ml_status := ''removed'', ml_is_primary := False, ml_removed_at := Some now\<rparr>) (mt_emails T);
                T1 = T\<lparr>mt_links := revoke_links now ''email_removed'' (link_of_mail K email_id) (mt_links T)\<rparr>;
                successor = first_row (oldest_first (filter (\<lambda>x. K (ml_user_id x) = K user_id \<and> activated_mail x) rs))
            in if \<not> ml_is_primary r then Some ((email_id, None), T1\<lparr>mt_emails := rs\<rparr>)
               else (case successor of
                       None \<Rightarrow> Some ((email_id, None), T1\<lparr>mt_emails := rs\<rparr>)
                     | Some x \<Rightarrow> Some ((email_id, Some (ml_id x)), T1\<lparr>mt_emails := set_mail_primary K (ml_id x) rs\<rparr>))) T"

definition sp_user_email_set_primary ::
    "(string \<Rightarrow> string) \<Rightarrow> string \<Rightarrow> string \<Rightarrow> mail_tables \<Rightarrow> string option \<times> mail_tables" where
  "sp_user_email_set_primary K user_id email_id T =
     committed
       (case List.find (\<lambda>r. owned_live K user_id email_id r \<and> ml_status r = ''activated'') (mt_emails T) of
          None \<Rightarrow> None
        | Some r \<Rightarrow>
            Some (ml_normalized r,
              T\<lparr>mt_emails := set_mail_primary K email_id
                  (update_where (\<lambda>x. K (ml_user_id x) = K user_id \<and> live_mail x \<and> ml_is_primary x) (\<lambda>x. x\<lparr>ml_is_primary := False\<rparr>) (mt_emails T))\<rparr>)) T"


section \<open>Password resets\<close>

definition sql_hex_digit :: "nat \<Rightarrow> char" where
  "sql_hex_digit n = (if n < 10 then char_of (48 + n) else char_of (55 + n))"

definition sql_hex :: "string \<Rightarrow> string" where
  "sql_hex s = concat (map (\<lambda>c. let n = of_char c :: nat in [sql_hex_digit (n div 16), sql_hex_digit (n mod 16)]) s)"

text \<open>The verifier at rest: the token's HMAC bound to the account and its password hash, under \<^verbatim>\<open>SHA2(_, 256)\<close>.\<close>

definition bound_hash :: "(string \<Rightarrow> string) \<Rightarrow> string \<Rightarrow> string \<Rightarrow> string \<Rightarrow> string" where
  "bound_hash sha2 token_hash user_id password_hash =
     sha2 (''password-reset:v2:'' @ sql_hex token_hash @ '':'' @ sha2 (sql_hex user_id @ '':'' @ sql_hex password_hash))"

definition reset_of_user :: "(string \<Rightarrow> string) \<Rightarrow> string \<Rightarrow> mail_link_row \<Rightarrow> bool" where
  "reset_of_user K user_id l \<longleftrightarrow> K (lk_user_id l) = K user_id \<and> reset_link l"

text \<open>Earlier reset links superseded, the bound one and its message inserted.\<close>

definition send_reset ::
    "(string \<Rightarrow> string) \<Rightarrow> (string \<Rightarrow> string) \<Rightarrow> int \<Rightarrow> string \<Rightarrow> int \<Rightarrow> user_row \<Rightarrow> string \<Rightarrow> mail_row \<Rightarrow> new_link \<Rightarrow> mail_tables \<Rightarrow> mail_tables option" where
  "send_reset K sha2 now purpose priority u user_id r n T =
     enqueue_link K now user_id (ml_id r) (ml_normalized r) purpose priority
       (n\<lparr>nl_hash := bound_hash sha2 (nl_hash n) user_id (u_password_hash u)\<rparr>)
       (T\<lparr>mt_links := revoke_links now ''superseded'' (reset_of_user K user_id) (mt_links T)\<rparr>)"

definition names_account :: "(string \<Rightarrow> string) \<Rightarrow> string \<Rightarrow> user_row \<Rightarrow> mail_row \<Rightarrow> bool" where
  "names_account K identifier u r \<longleftrightarrow>
     K (ml_normalized r) = K (str_lower (sql_trim identifier)) \<or> K (u_username u) = K identifier"

text \<open>The owner: the first activated address that the identifier is, or whose account it names.\<close>

definition reset_owner :: "(string \<Rightarrow> string) \<Rightarrow> string \<Rightarrow> mail_tables \<Rightarrow> (string \<times> user_row) option" where
  "reset_owner K identifier T =
     (case first_row (primary_first (filter (\<lambda>r. activated_mail r \<and>
             list_ex (\<lambda>u. K (u_id u) = K (ml_user_id r) \<and> u_is_active u \<and> names_account K identifier u r) (mt_users T)) (mt_emails T))) of
        None \<Rightarrow> None
      | Some r \<Rightarrow> map_option (Pair (ml_user_id r)) (List.find (\<lambda>u. K (u_id u) = K (ml_user_id r) \<and> u_is_active u) (mt_users T)))"

definition reset_recipient :: "(string \<Rightarrow> string) \<Rightarrow> string \<Rightarrow> string \<Rightarrow> user_row \<Rightarrow> mail_tables \<Rightarrow> mail_row option" where
  "reset_recipient K identifier user_id u T =
     first_row (primary_first (filter (\<lambda>r. K (ml_user_id r) = K user_id \<and> activated_mail r \<and> names_account K identifier u r) (mt_emails T)))"

record reset_out =
  ro_user_id :: "string option"
  ro_email_id :: "string option"
  ro_message_id :: "string option"

definition sp_password_reset_link_enqueue ::
    "(string \<Rightarrow> string) \<Rightarrow> (string \<Rightarrow> string) \<Rightarrow> int \<Rightarrow> string \<Rightarrow> new_link \<Rightarrow> mail_tables \<Rightarrow> reset_out option \<times> mail_tables" where
  "sp_password_reset_link_enqueue K sha2 now identifier n T =
     committed
       (case (case reset_owner K identifier T of None \<Rightarrow> None
              | Some (uid, u) \<Rightarrow> (case reset_recipient K identifier uid u T of None \<Rightarrow> None | Some r \<Rightarrow> Some (uid, u, r))) of
          None \<Rightarrow> Some (\<lparr>ro_user_id = None, ro_email_id = None, ro_message_id = None\<rparr>,
                   T\<lparr>mt_ledger := ledger_complete K None (nl_message_id n) (nl_idem n) (mt_ledger T)\<rparr>)
        | Some (uid, u, r) \<Rightarrow>
            (case send_reset K sha2 now ''password_reset'' 5 u uid r n T of
               None \<Rightarrow> None
             | Some T1 \<Rightarrow> Some (\<lparr>ro_user_id = Some uid, ro_email_id = Some (ml_id r), ro_message_id = Some (nl_message_id n)\<rparr>,
                          T1\<lparr>mt_ledger := ledger_complete K (Some uid) (nl_message_id n) (nl_idem n) (mt_ledger T1)\<rparr>))) T"

definition sp_admin_password_reset_link_enqueue ::
    "(string \<Rightarrow> string) \<Rightarrow> (string \<Rightarrow> string) \<Rightarrow> int \<Rightarrow> string \<Rightarrow> new_link \<Rightarrow> mail_tables \<Rightarrow> reset_out option \<times> mail_tables" where
  "sp_admin_password_reset_link_enqueue K sha2 now user_id n T =
     committed
       (case List.find (\<lambda>u. K (u_id u) = K user_id \<and> u_is_active u) (mt_users T) of
          None \<Rightarrow> None
        | Some u \<Rightarrow>
            (case first_row (primary_first (filter (\<lambda>r. K (ml_user_id r) = K user_id \<and> activated_mail r) (mt_emails T))) of
               None \<Rightarrow> Some (\<lparr>ro_user_id = Some user_id, ro_email_id = None, ro_message_id = None\<rparr>, T)
             | Some r \<Rightarrow>
                 (case send_reset K sha2 now ''admin_password_reset'' 4 u user_id r n T of
                    None \<Rightarrow> None
                  | Some T1 \<Rightarrow> Some (\<lparr>ro_user_id = Some user_id, ro_email_id = Some (ml_id r), ro_message_id = Some (nl_message_id n)\<rparr>, T1)))) T"

text \<open>The proof asked for before the password is hashed; it changes nothing. The result is the purpose.\<close>

definition sp_validate_password_reset_token ::
    "(string \<Rightarrow> string) \<Rightarrow> (string \<Rightarrow> string) \<Rightarrow> int \<Rightarrow> string \<Rightarrow> string \<Rightarrow> string \<Rightarrow> mail_tables \<Rightarrow> string option" where
  "sp_validate_password_reset_token K sha2 now lookup_id token_hash admin_token_hash T =
     map_option lk_purpose
       (List.find (\<lambda>l. K (lk_lookup_id l) = K lookup_id \<and> reset_link l \<and> open_link l \<and> now < lk_expires_at l \<and>
          list_ex (\<lambda>u. K (u_id u) = K (lk_user_id l) \<and> u_is_active u \<and>
            lk_hash l = bound_hash sha2 (if lk_purpose l = ''password_reset'' then token_hash else admin_token_hash) (u_id u) (u_password_hash u))
            (mt_users T)) (mt_links T))"

definition set_password :: "(string \<Rightarrow> string) \<Rightarrow> string \<Rightarrow> string \<Rightarrow> user_row list \<Rightarrow> user_row list" where
  "set_password K user_id new_hash = update_where (\<lambda>u. K (u_id u) = K user_id \<and> u_is_active u) (\<lambda>u. u\<lparr>u_password_hash := new_hash\<rparr>)"

text \<open>The foreign key to \<^verbatim>\<open>users\<close> cascades on delete, so that a link always has its account.\<close>

definition sp_consume_password_reset_token ::
    "(string \<Rightarrow> string) \<Rightarrow> (string \<Rightarrow> string) \<Rightarrow> int \<Rightarrow> string \<Rightarrow> string \<Rightarrow> string \<Rightarrow> mail_tables \<Rightarrow> consume_out \<times> mail_tables" where
  "sp_consume_password_reset_token K sha2 now lookup_id token_hash new_hash T =
     (case link_by_lookup K reset_link lookup_id T of
        None \<Rightarrow> (\<lparr>co_status = ''not_found'', co_user_id = None, co_email_id = None, co_changed = False\<rparr>, T)
      | Some l \<Rightarrow>
          let out = (\<lambda>status changed. \<lparr>co_status = status, co_user_id = Some (lk_user_id l), co_email_id = None, co_changed = changed\<rparr>)
          in (case user_by_id K (lk_user_id l) T of
                None \<Rightarrow> (out ''invalid'' False, T)
              | Some u \<Rightarrow>
                  if lk_hash l \<noteq> bound_hash sha2 token_hash (lk_user_id l) (u_password_hash u) then (out ''invalid'' False, T)
                  else if lk_consumed_at l \<noteq> None then (out ''already_consumed'' False, T)
                  else if lk_revoked_at l \<noteq> None then (out ''revoked'' False, T)
                  else if lk_expires_at l \<le> now then (out ''expired'' False, set_link K (lk_id l) (expire_link now) T)
                  else if \<not> u_is_active u then (out ''user_inactive'' False, T)
                  else
                    let T1 = set_link K (lk_id l) (consume_link now None) T
                    in (out ''password_changed'' True,
                        T1\<lparr>mt_users := set_password K (lk_user_id l) new_hash (mt_users T1),
                           mt_links := revoke_links now ''password_reset'' (\<lambda>x. reset_of_user K (lk_user_id l) x \<and> K (lk_id x) \<noteq> K (lk_id l)) (mt_links T1)\<rparr>)))"

text \<open>A password change with the current one, conditional on the hash it was verified against.\<close>

definition sp_change_user_password_if_hash_matches ::
    "(string \<Rightarrow> string) \<Rightarrow> string \<Rightarrow> string \<Rightarrow> string \<Rightarrow> user_row list \<Rightarrow> nat \<times> user_row list" where
  "sp_change_user_password_if_hash_matches K user_id expected new_hash us =
     (let hit = (\<lambda>u. K (u_id u) = K user_id \<and> u_is_active u \<and> K (u_password_hash u) = K expected)
      in (length (filter hit us), update_where hit (\<lambda>u. u\<lparr>u_password_hash := new_hash\<rparr>) us))"

text \<open>A key that a deleted row leaves behind, \<^verbatim>\<open>ON DELETE SET NULL\<close>.\<close>

definition set_null :: "(string \<Rightarrow> bool) \<Rightarrow> string option \<Rightarrow> string option" where
  "set_null gone x = (case x of None \<Rightarrow> None | Some i \<Rightarrow> if gone i then None else Some i)"

definition lost_key :: "(string \<Rightarrow> string) \<Rightarrow> ('a \<Rightarrow> string) \<Rightarrow> 'a list \<Rightarrow> string \<Rightarrow> bool" where
  "lost_key K key rows i \<longleftrightarrow> list_ex (\<lambda>r. K (key r) = K i) rows"

text \<open>
  The retention purge: old links are deleted, recipients forgotten (a message ends no earlier than it was created, so that
  its creation decides) and old ledger entries marked. It deletes no open link before its expiry.
\<close>

definition old_link :: "int \<Rightarrow> mail_link_row \<Rightarrow> bool" where
  "old_link now l \<longleftrightarrow>
     (let old = (\<lambda>t. case t of None \<Rightarrow> False | Some x \<Rightarrow> x \<le> now - 30 * 86400)
      in old (lk_consumed_at l) \<or> old (lk_revoked_at l) \<or> lk_expires_at l \<le> now - 30 * 86400)"

definition sp_email_retention_purge :: "(string \<Rightarrow> string) \<Rightarrow> int \<Rightarrow> mail_tables \<Rightarrow> mail_tables" where
  "sp_email_retention_purge K now T =
     (let gone = lost_key K lk_id (filter (old_link now) (mt_links T))
      in T\<lparr>mt_links := filter (\<lambda>l. \<not> old_link now l) (mt_links T),
           mt_messages := map (\<lambda>m. m\<lparr>ms_token_id := set_null gone (ms_token_id m),
               ms_recipient := (if ms_created_at m \<le> now - 30 * 86400 then None else ms_recipient m)\<rparr>) (mt_messages T),
           mt_ledger := update_where (\<lambda>r. ik_expires_at r \<le> now) (\<lambda>r. r\<lparr>ik_status := ''expired''\<rparr>) (mt_ledger T)\<rparr>)"

section \<open>Accounts\<close>

text \<open>A new account, with the address a provider reported when there is one: it is pending, like any other.\<close>

record first_mail =
  fm_id :: string
  fm_email :: string
  fm_hash :: string
  fm_masked :: string

definition create_account :: "(string \<Rightarrow> string) \<Rightarrow> int \<Rightarrow> user_row \<Rightarrow> first_mail option \<Rightarrow> mail_tables \<Rightarrow> mail_tables" where
  "create_account K now u mail T =
     (if list_ex (\<lambda>x. K (u_id x) = K (u_id u) \<or> K (u_user_hash x) = K (u_user_hash u) \<or> K (u_username x) = K (u_username u)) (mt_users T) then T
      else
        let T1 = T\<lparr>mt_users := mt_users T @ [u\<lparr>u_is_active := True\<rparr>]\<rparr>
        in (case mail of
              None \<Rightarrow> T1
            | Some f \<Rightarrow>
                (case insert_mail K (pending_mail now (fm_id f) (u_id u) (str_lower (sql_trim (fm_email f))) (fm_hash f) (fm_masked f)) (mt_emails T) of
                   None \<Rightarrow> T
                 | Some rs \<Rightarrow> T1\<lparr>mt_emails := rs\<rparr>)))"

definition sp_update_user :: "(string \<Rightarrow> string) \<Rightarrow> string \<Rightarrow> string option \<Rightarrow> string option \<Rightarrow> user_row list \<Rightarrow> user_row list" where
  "sp_update_user K user_id username user_type us =
     (let hit = (\<lambda>u. K (u_id u) = K user_id \<and> u_is_active u);
          taken = (case username of None \<Rightarrow> False | Some n \<Rightarrow> list_ex hit us \<and> list_ex (\<lambda>u. K (u_username u) = K n \<and> K (u_id u) \<noteq> K user_id) us)
      in if taken then us
         else update_where hit (\<lambda>u. u\<lparr>u_username := (case username of None \<Rightarrow> u_username u | Some n \<Rightarrow> n),
                u_user_type := (case user_type of None \<Rightarrow> u_user_type u | Some t \<Rightarrow> t)\<rparr>) us)"

definition sp_set_user_status :: "(string \<Rightarrow> string) \<Rightarrow> string \<Rightarrow> bool \<Rightarrow> user_row list \<Rightarrow> user_row list" where
  "sp_set_user_status K user_id active = update_where (\<lambda>u. K (u_id u) = K user_id) (\<lambda>u. u\<lparr>u_is_active := active\<rparr>)"

text \<open>A hard deletion takes the addresses and links of the account along; messages and the ledger lose their references.\<close>

definition sp_hard_delete_user :: "(string \<Rightarrow> string) \<Rightarrow> string \<Rightarrow> mail_tables \<Rightarrow> mail_tables" where
  "sp_hard_delete_user K user_id T =
     (let mine = (\<lambda>i. K i = K user_id);
          no_mail = lost_key K ml_id (filter (\<lambda>r. mine (ml_user_id r)) (mt_emails T));
          no_link = lost_key K lk_id (filter (\<lambda>l. mine (lk_user_id l)) (mt_links T))
      in T\<lparr>mt_users := filter (\<lambda>u. \<not> mine (u_id u)) (mt_users T),
           mt_emails := filter (\<lambda>r. \<not> mine (ml_user_id r)) (mt_emails T),
           mt_links := map (\<lambda>l. l\<lparr>lk_email_id := set_null no_mail (lk_email_id l)\<rparr>) (filter (\<lambda>l. \<not> mine (lk_user_id l)) (mt_links T)),
           mt_messages := map (\<lambda>m. m\<lparr>ms_user_id := set_null mine (ms_user_id m), ms_email_id := set_null no_mail (ms_email_id m),
               ms_token_id := set_null no_link (ms_token_id m)\<rparr>) (mt_messages T),
           mt_ledger := map (\<lambda>r. r\<lparr>ik_user_id := set_null mine (ik_user_id r)\<rparr>) (mt_ledger T)\<rparr>)"

text \<open>A bounce or a complaint suppresses the activated addresses with the hash of the recipient.\<close>

definition suppress_mail :: "string \<Rightarrow> mail_row list \<Rightarrow> mail_row list" where
  "suppress_mail hash = update_where (\<lambda>r. ml_hash r = hash \<and> activated_mail r) (\<lambda>r. r\<lparr>ml_status := ''suppressed'', ml_is_primary := False\<rparr>)"

definition erased_mail :: "(string \<Rightarrow> string) \<Rightarrow> int \<Rightarrow> mail_row \<Rightarrow> mail_row" where
  "erased_mail sha2 now r =
     r\<lparr>ml_normalized := ''erased+'' @ ml_id r @ ''@redacted.local'', ml_hash := sha2 (''erased:user_email:'' @ ml_id r), ml_masked := ''[erased]'',
       ml_status := ''removed'', ml_is_primary := False, ml_removed_at := (case ml_removed_at r of None \<Rightarrow> Some now | Some t \<Rightarrow> Some t)\<rparr>"

definition message_of_user :: "(string \<Rightarrow> string) \<Rightarrow> string \<Rightarrow> mail_row list \<Rightarrow> message_row \<Rightarrow> bool" where
  "message_of_user K user_id rs m \<longleftrightarrow>
     (case ms_user_id m of None \<Rightarrow> False | Some i \<Rightarrow> K i = K user_id) \<or>
     (case ms_email_id m of None \<Rightarrow> False | Some e \<Rightarrow> list_ex (\<lambda>r. K (ml_id r) = K e \<and> K (ml_user_id r) = K user_id) rs)"

definition sp_anonymize_user_email_data :: "(string \<Rightarrow> string) \<Rightarrow> (string \<Rightarrow> string) \<Rightarrow> int \<Rightarrow> string \<Rightarrow> mail_tables \<Rightarrow> mail_tables" where
  "sp_anonymize_user_email_data K sha2 now user_id T =
     (let mine = (\<lambda>i. K i = K user_id)
      in T\<lparr>mt_emails := update_where (\<lambda>r. mine (ml_user_id r)) (erased_mail sha2 now) (mt_emails T),
           mt_links := filter (\<lambda>l. \<not> mine (lk_user_id l)) (mt_links T),
           mt_messages := update_where (message_of_user K user_id (mt_emails T))
             (\<lambda>m. m\<lparr>ms_user_id := None, ms_email_id := None, ms_token_id := None, ms_recipient := None\<rparr>)
             (map (\<lambda>m. m\<lparr>ms_token_id := set_null (lost_key K lk_id (filter (\<lambda>l. mine (lk_user_id l)) (mt_links T))) (ms_token_id m)\<rparr>) (mt_messages T)),
           mt_ledger := update_where (\<lambda>r. case ik_user_id r of None \<Rightarrow> False | Some i \<Rightarrow> mine i)
             (\<lambda>r. r\<lparr>ik_user_id := None, ik_status := (if ik_status r = ''in_progress'' then ''expired'' else ik_status r)\<rparr>) (mt_ledger T)\<rparr>)"


section \<open>The idempotency ledger\<close>

text \<open>
  \<^verbatim>\<open>sp_email_idempotency_begin\<close>: a live entry answers, with a conflict when it belongs to another request. Without one a new
  entry is inserted, which the unique key on scope and hash refuses while an expired entry is still there. The body
  to replay is always the generic one.
\<close>

definition ledger_hit :: "(string \<Rightarrow> string) \<Rightarrow> string \<Rightarrow> string \<Rightarrow> ledger_row \<Rightarrow> bool" where
  "ledger_hit K scope key_hash r \<longleftrightarrow> K (ik_scope r) = K scope \<and> ik_key_hash r = key_hash"

definition sp_email_idempotency_begin ::
    "(string \<Rightarrow> string) \<Rightarrow> int \<Rightarrow> idem_key \<Rightarrow> string option \<Rightarrow> ledger_row list \<Rightarrow> (string \<times> string \<times> int) option \<times> ledger_row list" where
  "sp_email_idempotency_begin K now i user_id rows =
     (case List.find (\<lambda>r. ledger_hit K (id_scope i) (id_key_hash i) r \<and> now < ik_expires_at r) rows of
        None \<Rightarrow>
          if list_ex (same_ledger_key K i) rows then (None, rows)
          else (Some (''created'', id_id i, 202),
                rows @ [\<lparr>ik_id = id_id i, ik_scope = id_scope i, ik_key_hash = id_key_hash i, ik_request_hash = id_request_hash i,
                  ik_user_id = user_id, ik_message_id = None, ik_status = ''in_progress'', ik_status_code = 202, ik_expires_at = id_expires_at i\<rparr>])
      | Some r \<Rightarrow>
          if ik_request_hash r \<noteq> id_request_hash i
          then (Some (''conflict'', ik_id r, 409), update_where (\<lambda>x. K (ik_id x) = K (ik_id r)) (\<lambda>x. x\<lparr>ik_status := ''conflict''\<rparr>) rows)
          else (Some (ik_status r, ik_id r, ik_status_code r), rows))"

definition sp_email_idempotency_complete ::
    "(string \<Rightarrow> string) \<Rightarrow> string \<Rightarrow> string \<Rightarrow> string option \<Rightarrow> ledger_row list \<Rightarrow> ledger_row list" where
  "sp_email_idempotency_complete K scope key_hash message_id =
     update_where (\<lambda>r. ledger_hit K scope key_hash r \<and> ik_status r \<in> {''in_progress'', ''complete''})
       (\<lambda>r. r\<lparr>ik_message_id := message_id, ik_status := ''complete'', ik_status_code := 202\<rparr>)"

end
