(* ===== verification/Email_Machine.thy ===== *)
theory Email_Machine
  imports Email_Links
begin

text \<open>
  Interleavings of the requests on addresses, links and passwords. An address is activated in one account only and an
  account has one primary address; links are mailed to the address they are for; and a password-reset link works at
  most once, only while it is the newest of its account, and only for the password it was issued under.
\<close>

section \<open>Requests on the tables\<close>

datatype mail_op =
    Add_mail string string string string string new_link
  | Resend_mail string string "int option" new_link
  | Activate_mail string string
  | Remove_mail string string
  | Primary_mail string string
  | Forgot_password string new_link
  | Admin_reset string new_link
  | Reset_password string string string
  | Change_password string string string
  | Store_password string string
  | Create_user user_row "first_mail option"
  | Update_user string "string option" "string option"
  | Set_active string bool
  | Delete_user string
  | Suppress_mail string
  | Erase_user string
  | Purge_links

text \<open>The tables after a request, and whether it set a password by a link.\<close>

fun run_mail_op :: "(string \<Rightarrow> string) \<Rightarrow> (string \<Rightarrow> string) \<Rightarrow> int \<Rightarrow> mail_op \<Rightarrow> mail_tables \<Rightarrow> bool \<times> mail_tables" where
  "run_mail_op K sha2 now (Add_mail email_id user_id email hash masked n) T =
     (False, snd (sp_user_email_add_and_enqueue K now email_id user_id email hash masked n T))"
| "run_mail_op K sha2 now (Resend_mail user_id email_id cooldown n) T = (False, snd (sp_user_email_resend_and_enqueue K now user_id email_id cooldown n T))"
| "run_mail_op K sha2 now (Activate_mail lookup_id hash) T = (False, snd (sp_consume_email_activation_token K now lookup_id hash T))"
| "run_mail_op K sha2 now (Remove_mail user_id email_id) T = (False, snd (sp_user_email_remove K now user_id email_id T))"
| "run_mail_op K sha2 now (Primary_mail user_id email_id) T = (False, snd (sp_user_email_set_primary K user_id email_id T))"
| "run_mail_op K sha2 now (Forgot_password identifier n) T = (False, snd (sp_password_reset_link_enqueue K sha2 now identifier n T))"
| "run_mail_op K sha2 now (Admin_reset user_id n) T = (False, snd (sp_admin_password_reset_link_enqueue K sha2 now user_id n T))"
| "run_mail_op K sha2 now (Reset_password lookup_id hash new_hash) T =
     (let (out, T') = sp_consume_password_reset_token K sha2 now lookup_id hash new_hash T in (co_changed out, T'))"
| "run_mail_op K sha2 now (Change_password user_id expected new_hash) T =
     (False, T\<lparr>mt_users := snd (sp_change_user_password_if_hash_matches K user_id expected new_hash (mt_users T))\<rparr>)"
| "run_mail_op K sha2 now (Store_password user_id new_hash) T = (False, T\<lparr>mt_users := update_where (\<lambda>u. K (u_id u) = K user_id) (\<lambda>u. u\<lparr>u_password_hash := new_hash\<rparr>) (mt_users T)\<rparr>)"
| "run_mail_op K sha2 now (Create_user u mail) T = (False, create_account K now u mail T)"
| "run_mail_op K sha2 now (Update_user user_id name kind) T = (False, T\<lparr>mt_users := sp_update_user K user_id name kind (mt_users T)\<rparr>)"
| "run_mail_op K sha2 now (Set_active user_id b) T = (False, T\<lparr>mt_users := sp_set_user_status K user_id b (mt_users T)\<rparr>)"
| "run_mail_op K sha2 now (Delete_user user_id) T = (False, sp_hard_delete_user K user_id T)"
| "run_mail_op K sha2 now (Suppress_mail hash) T = (False, T\<lparr>mt_emails := suppress_mail hash (mt_emails T)\<rparr>)"
| "run_mail_op K sha2 now (Erase_user user_id) T = (False, sp_anonymize_user_email_data K sha2 now user_id T)"
| "run_mail_op K sha2 now Purge_links T = (False, sp_email_retention_purge K now T)"

fun op_link :: "mail_op \<Rightarrow> new_link option" where
  "op_link (Add_mail _ _ _ _ _ n) = Some n"
| "op_link (Resend_mail _ _ _ n) = Some n"
| "op_link (Forgot_password _ n) = Some n"
| "op_link (Admin_reset _ n) = Some n"
| "op_link _ = None"

fun op_lookup :: "mail_op \<Rightarrow> string" where
  "op_lookup (Reset_password lookup_id _ _) = lookup_id"
| "op_lookup _ = []"

text \<open>
  The requests in any order. The history keeps the lookup identifiers drawn so far, which a new link never repeats,
  and those by which a password was set.
\<close>

record mail_sys =
  sys_tables :: mail_tables
  sys_drawn :: "string set"
  sys_resets :: "string list"

inductive mail_step :: "(string \<Rightarrow> string) \<Rightarrow> (string \<Rightarrow> string) \<Rightarrow> mail_sys \<Rightarrow> mail_sys \<Rightarrow> bool" for K sha2 where
  "(\<And>n. op_link op = Some n \<Longrightarrow> K (nl_lookup_id n) \<notin> sys_drawn x) \<Longrightarrow> run_mail_op K sha2 now op (sys_tables x) = (b, T) \<Longrightarrow>
   mail_step K sha2 x
     \<lparr>sys_tables = T,
      sys_drawn = (case op_link op of None \<Rightarrow> sys_drawn x | Some n \<Rightarrow> insert (K (nl_lookup_id n)) (sys_drawn x)),
      sys_resets = (if b then K (op_lookup op) # sys_resets x else sys_resets x)\<rparr>"

inductive_cases mail_stepE: "mail_step K sha2 x y"

definition mail_reach :: "(string \<Rightarrow> string) \<Rightarrow> (string \<Rightarrow> string) \<Rightarrow> mail_sys \<Rightarrow> mail_sys \<Rightarrow> bool" where
  "mail_reach K sha2 = (mail_step K sha2)\<^sup>*\<^sup>*"

definition mail_start :: "mail_sys \<Rightarrow> bool" where
  "mail_start x \<longleftrightarrow> mt_emails (sys_tables x) = [] \<and> mt_links (sys_tables x) = [] \<and> mt_messages (sys_tables x) = [] \<and> sys_resets x = []"

section \<open>Updates\<close>

lemma update_where_map: "update_where P f = map (\<lambda>r. if P r then f r else r)"
  by (simp add: update_where_def fun_eq_iff)

text \<open>A change of links that only closes them.\<close>

definition closes :: "(mail_link_row \<Rightarrow> mail_link_row) \<Rightarrow> bool" where
  "closes h \<longleftrightarrow>
     (\<forall>l. lk_id (h l) = lk_id l \<and> lk_user_id (h l) = lk_user_id l \<and> lk_purpose (h l) = lk_purpose l \<and>
        lk_lookup_id (h l) = lk_lookup_id l \<and> lk_hash (h l) = lk_hash l \<and> lk_expires_at (h l) = lk_expires_at l \<and>
        (open_link (h l) \<longrightarrow> open_link l))"

lemma closesD:
  assumes "closes h"
  shows "lk_id (h l) = lk_id l" "lk_user_id (h l) = lk_user_id l" "lk_purpose (h l) = lk_purpose l"
    "lk_lookup_id (h l) = lk_lookup_id l" "lk_hash (h l) = lk_hash l" "open_link (h l) \<Longrightarrow> open_link l" "reset_link (h l) = reset_link l"
    "lk_expires_at (h l) = lk_expires_at l"
  using assms by (simp_all add: closes_def reset_link_def)

lemma closes_id [simp]: "closes (\<lambda>l. l)"
  by (simp add: closes_def)

lemma closes_if:
  "(\<And>l. P l \<Longrightarrow> lk_id (f l) = lk_id l \<and> lk_user_id (f l) = lk_user_id l \<and> lk_purpose (f l) = lk_purpose l \<and>
        lk_lookup_id (f l) = lk_lookup_id l \<and> lk_hash (f l) = lk_hash l \<and> lk_expires_at (f l) = lk_expires_at l \<and> \<not> open_link (f l)) \<Longrightarrow>
   closes (\<lambda>l. if P l then f l else l)"
  by (simp add: closes_def)

lemma closes_comp: "closes g \<Longrightarrow> closes h \<Longrightarrow> closes (g \<circ> h)"
  unfolding closes_def comp_apply by (intro allI conjI impI; blast intro: trans)

lemma closes_expire [simp]: "closes (\<lambda>l. if P l then expire_link now l else l)"
  by (rule closes_if) (simp add: expire_link_def open_link_def)

lemma closes_consume [simp]: "closes (\<lambda>l. if P l then consume_link now reason l else l)"
  by (rule closes_if) (simp add: consume_link_def open_link_def)

lemma closes_revoke [simp]: "closes (\<lambda>l. if P l then l\<lparr>lk_revoked_at := Some now, lk_reason := Some reason\<rparr> else l)"
  by (rule closes_if) (simp add: open_link_def)

section \<open>What a request does to the links\<close>

inductive links_after :: "(string \<Rightarrow> string) \<Rightarrow> mail_op \<Rightarrow> mail_link_row list \<Rightarrow> mail_link_row list \<Rightarrow> bool" for K op ls where
  closing: "closes h \<Longrightarrow> links_after K op ls (map h ls)"
| adding: "closes h \<Longrightarrow> op_link op = Some n \<Longrightarrow> lk_lookup_id l = nl_lookup_id n \<Longrightarrow>
    (reset_link l \<Longrightarrow> \<forall>x\<in>set ls. reset_of_user K (lk_user_id l) x \<longrightarrow> \<not> open_link (h x)) \<Longrightarrow> links_after K op ls (map h ls @ [l])"
| dropping: "closes h \<Longrightarrow> links_after K op ls (map h (filter P ls))"

lemma links_same: "links_after K op ls ls"
  using closing [OF closes_id, of K op ls] by simp

lemma enqueue_link_Some:
  assumes "enqueue_link K now user_id r_id recipient purpose priority n T = Some T'"
  shows "T' = T\<lparr>mt_links := mt_links T @ [link_row_of user_id r_id purpose n],
      mt_messages := mt_messages T @ [message_row_of now user_id r_id recipient purpose priority n]\<rparr>"
    and "\<forall>x\<in>set (mt_links T). K (lk_id x) \<noteq> K (nl_token_id n) \<and> K (lk_lookup_id x) \<noteq> K (nl_lookup_id n)"
proof -
  show "T' = T\<lparr>mt_links := mt_links T @ [link_row_of user_id r_id purpose n],
      mt_messages := mt_messages T @ [message_row_of now user_id r_id recipient purpose priority n]\<rparr>"
    using assms by (simp add: enqueue_link_def insert_link_def insert_message_def split: if_splits)
  show "\<forall>x\<in>set (mt_links T). K (lk_id x) \<noteq> K (nl_token_id n) \<and> K (lk_lookup_id x) \<noteq> K (nl_lookup_id n)"
    using assms by (auto simp: enqueue_link_def insert_link_def list_ex_iff link_row_of_def split: if_splits)
qed

lemma enqueue_closing:
  assumes c: "closes h" and e: "enqueue_link K now user_id r_id recipient purpose priority n (T\<lparr>mt_links := map h (mt_links T)\<rparr>) = Some T'"
  shows "T' = T\<lparr>mt_links := map h (mt_links T) @ [link_row_of user_id r_id purpose n],
      mt_messages := mt_messages T @ [message_row_of now user_id r_id recipient purpose priority n]\<rparr>"
    and "\<forall>x\<in>set (mt_links T). K (lk_id x) \<noteq> K (nl_token_id n) \<and> K (lk_lookup_id x) \<noteq> K (nl_lookup_id n)"
  using enqueue_link_Some [OF e] by (simp_all add: closesD [OF c])

lemma link_row_of_sel [simp]:
  "lk_id (link_row_of u e p n) = nl_token_id n" "lk_user_id (link_row_of u e p n) = u" "lk_email_id (link_row_of u e p n) = Some e"
  "lk_purpose (link_row_of u e p n) = p" "lk_lookup_id (link_row_of u e p n) = nl_lookup_id n" "lk_hash (link_row_of u e p n) = nl_hash n"
  "open_link (link_row_of u e p n)" "lk_expires_at (link_row_of u e p n) = nl_expires_at n"
  by (simp_all add: link_row_of_def open_link_def)

lemma message_row_of_sel [simp]:
  "ms_id (message_row_of t u e r p i n) = nl_message_id n" "ms_purpose (message_row_of t u e r p i n) = p"
  "ms_token_id (message_row_of t u e r p i n) = Some (nl_token_id n)" "ms_email_id (message_row_of t u e r p i n) = Some e"
  "ms_user_id (message_row_of t u e r p i n) = Some u" "ms_recipient (message_row_of t u e r p i n) = Some r"
  by (simp_all add: message_row_of_def)

lemma send_activation_Some:
  assumes "send_activation K now user_id email_id normalized reason outcome n T = Some (out, T')"
  obtains h where "closes h" "mt_links T' = map h (mt_links T) @ [link_row_of user_id email_id ''email_activation'' n]"
    and "mt_messages T' = mt_messages T @ [message_row_of now user_id email_id normalized ''email_activation'' 5 n]"
    and "mt_emails T' = update_where (\<lambda>r. K (ml_id r) = K email_id) (\<lambda>r. r\<lparr>ml_last_sent := Some now\<rparr>) (mt_emails T)"
    and "mt_users T' = mt_users T"
    and "\<forall>x\<in>set (mt_links T). K (lk_id x) \<noteq> K (nl_token_id n) \<and> K (lk_lookup_id x) \<noteq> K (nl_lookup_id n)"
proof -
  let ?h = "\<lambda>l. if activation_of K email_id l \<and> open_link l then l\<lparr>lk_revoked_at := Some now, lk_reason := Some reason\<rparr> else l"
  have "\<exists>T1. enqueue_link K now user_id email_id normalized ''email_activation'' 5 n (T\<lparr>mt_links := map ?h (mt_links T)\<rparr>) = Some T1 \<and>
      T' = T1\<lparr>mt_emails := update_where (\<lambda>r. K (ml_id r) = K email_id) (\<lambda>r. r\<lparr>ml_last_sent := Some now\<rparr>) (mt_emails T1),
              mt_ledger := ledger_complete K (Some user_id) (nl_message_id n) (nl_idem n) (mt_ledger T1)\<rparr>"
    using assms by (auto simp: send_activation_def revoke_links_def update_where_map split: option.splits)
  then obtain T1 where e: "enqueue_link K now user_id email_id normalized ''email_activation'' 5 n (T\<lparr>mt_links := map ?h (mt_links T)\<rparr>) = Some T1"
    and T': "T' = T1\<lparr>mt_emails := update_where (\<lambda>r. K (ml_id r) = K email_id) (\<lambda>r. r\<lparr>ml_last_sent := Some now\<rparr>) (mt_emails T1),
              mt_ledger := ledger_complete K (Some user_id) (nl_message_id n) (nl_idem n) (mt_ledger T1)\<rparr>" by blast
  have c: "closes ?h" by (rule closes_revoke)
  note E = enqueue_closing [OF c e]
  show thesis by (rule that [OF c]) (use E in \<open>simp_all add: T' del: set_map\<close>)
qed

lemma send_reset_Some:
  assumes "send_reset K sha2 now purpose priority u user_id r n T = Some T'"
  obtains h where "closes h" "\<forall>l. reset_of_user K user_id l \<longrightarrow> \<not> open_link (h l)"
    and "mt_links T' = map h (mt_links T) @ [link_row_of user_id (ml_id r) purpose (n\<lparr>nl_hash := bound_hash sha2 (nl_hash n) user_id (u_password_hash u)\<rparr>)]"
    and "mt_messages T' = mt_messages T @ [message_row_of now user_id (ml_id r) (ml_normalized r) purpose priority (n\<lparr>nl_hash := bound_hash sha2 (nl_hash n) user_id (u_password_hash u)\<rparr>)]"
    and "mt_emails T' = mt_emails T" "mt_users T' = mt_users T" "mt_ledger T' = mt_ledger T"
    and "\<forall>x\<in>set (mt_links T). K (lk_id x) \<noteq> K (nl_token_id n) \<and> K (lk_lookup_id x) \<noteq> K (nl_lookup_id n)"
proof -
  let ?h = "\<lambda>l. if reset_of_user K user_id l \<and> open_link l then l\<lparr>lk_revoked_at := Some now, lk_reason := Some ''superseded''\<rparr> else l"
  have e: "enqueue_link K now user_id (ml_id r) (ml_normalized r) purpose priority (n\<lparr>nl_hash := bound_hash sha2 (nl_hash n) user_id (u_password_hash u)\<rparr>)
      (T\<lparr>mt_links := map ?h (mt_links T)\<rparr>) = Some T'"
    using assms by (simp add: send_reset_def revoke_links_def update_where_map)
  have c: "closes ?h" by (rule closes_revoke)
  note E = enqueue_closing [OF c e]
  have o: "\<forall>l. reset_of_user K user_id l \<longrightarrow> \<not> open_link (?h l)" by (auto simp: open_link_def)
  show thesis by (rule that [OF c o]) (use E in simp_all)
qed


lemma set_link_links: "mt_links (set_link K i f T) = map (\<lambda>l. if K (lk_id l) = K i then f l else l) (mt_links T)"
  by (simp add: set_link_def update_where_map)

lemma set_link_sel [simp]:
  "mt_emails (set_link K i f T) = mt_emails T" "mt_users (set_link K i f T) = mt_users T" "mt_messages (set_link K i f T) = mt_messages T"
  by (simp_all add: set_link_def)

lemma committed_sel: "snd (committed r T) = (case r of None \<Rightarrow> T | Some (_, T') \<Rightarrow> T')"
  by (simp add: committed_def split: option.split prod.split)

text \<open>The five ways to add or resend, as one: nothing, the emails alone, or an activation sent.\<close>

lemma add_mail_cases:
  assumes "sp_user_email_add_and_enqueue K now email_id user_id email hash masked n T = (r, T')"
  obtains (refused) "T' = T"
    | (known) eid status rs where "mail_entry K now email_id user_id (str_lower (sql_trim email)) hash masked (mt_emails T) = Some (eid, status, rs)"
        "T' = T\<lparr>mt_emails := rs\<rparr>"
    | (sent) eid status rs out where "mail_entry K now email_id user_id (str_lower (sql_trim email)) hash masked (mt_emails T) = Some (eid, status, rs)"
        "send_activation K now user_id eid (str_lower (sql_trim email)) ''replaced_by_new_activation'' ''activation_enqueued'' n (T\<lparr>mt_emails := rs\<rparr>) = Some (out, T')"
proof (cases "active_user K user_id T")
  case False
  with assms refused show thesis by (simp add: sp_user_email_add_and_enqueue_def committed_def)
next
  case active: True
  show thesis
  proof (cases "mail_entry K now email_id user_id (str_lower (sql_trim email)) hash masked (mt_emails T)")
    case None
    with assms active refused show thesis by (simp add: sp_user_email_add_and_enqueue_def committed_def)
  next
    case (Some e)
    obtain eid status rs where e: "e = (eid, status, rs)" by (cases e)
    note entry = Some [unfolded e]
    show thesis
    proof (cases "status \<in> {''activated'', ''suppressed''}")
      case True
      then have "T' = T\<lparr>mt_emails := rs\<rparr>" using assms active entry by (auto simp: sp_user_email_add_and_enqueue_def committed_def)
      with entry show thesis by (rule known)
    next
      case False
      then have "(r, T') = committed (send_activation K now user_id eid (str_lower (sql_trim email)) ''replaced_by_new_activation'' ''activation_enqueued'' n
          (T\<lparr>mt_emails := rs\<rparr>)) T"
        using assms active entry by (simp add: sp_user_email_add_and_enqueue_def)
      then show thesis using refused sent [OF entry] by (auto simp: committed_def split: option.splits)
    qed
  qed
qed

lemma resend_mail_cases:
  assumes "sp_user_email_resend_and_enqueue K now user_id email_id cooldown n T = (r, T')"
  obtains (refused) "T' = T"
    | (sent) x out where "List.find (owned_live K user_id email_id) (mt_emails T) = Some x"
        "send_activation K now user_id email_id (ml_normalized x) ''replaced_by_resend'' ''activation_resent'' n T = Some (out, T')"
  using assms unfolding sp_user_email_resend_and_enqueue_def committed_def
  by (auto split: if_splits option.splits prod.splits)

lemma forgot_cases:
  assumes "sp_password_reset_link_enqueue K sha2 now identifier n T = (r, T')"
  obtains (unknown) "mt_links T' = mt_links T" "mt_emails T' = mt_emails T" "mt_users T' = mt_users T" "mt_messages T' = mt_messages T"
    | (sent) uid u x T1 where "reset_owner K identifier T = Some (uid, u)" "reset_recipient K identifier uid u T = Some x"
        "send_reset K sha2 now ''password_reset'' 5 u uid x n T = Some T1"
        "mt_links T' = mt_links T1" "mt_emails T' = mt_emails T1" "mt_users T' = mt_users T1" "mt_messages T' = mt_messages T1"
        "r = Some \<lparr>ro_user_id = Some uid, ro_email_id = Some (ml_id x), ro_message_id = Some (nl_message_id n)\<rparr>"
  using assms unfolding sp_password_reset_link_enqueue_def committed_def
  by (auto split: option.splits prod.splits)

lemma admin_reset_cases:
  assumes "sp_admin_password_reset_link_enqueue K sha2 now user_id n T = (r, T')"
  obtains (unknown) "T' = T"
    | (sent) u x where "List.find (\<lambda>u. K (u_id u) = K user_id \<and> u_is_active u) (mt_users T) = Some u"
        "first_row (primary_first (filter (\<lambda>r. K (ml_user_id r) = K user_id \<and> activated_mail r) (mt_emails T))) = Some x"
        "send_reset K sha2 now ''admin_password_reset'' 4 u user_id x n T = Some T'"
        "r = Some \<lparr>ro_user_id = Some user_id, ro_email_id = Some (ml_id x), ro_message_id = Some (nl_message_id n)\<rparr>"
  using assms unfolding sp_admin_password_reset_link_enqueue_def committed_def
  by (auto split: option.splits)

lemma activate_cases:
  assumes "sp_consume_email_activation_token K now lookup_id hash T = (out, T')"
  obtains (refused) h where "closes h" "T' = T\<lparr>mt_links := map h (mt_links T)\<rparr>" "\<not> co_changed out"
    | (activated) h l r where "closes h" "link_by_lookup K (\<lambda>l. lk_purpose l = ''email_activation'') lookup_id T = Some l" "lk_hash l = hash" "open_link l"
        "now < lk_expires_at l" "pending_target K l (mt_emails T) = Some r"
        "\<not> list_ex (\<lambda>x. K (ml_normalized x) = K (ml_normalized r) \<and> activated_mail x \<and> K (ml_id x) \<noteq> K (ml_id r)) (mt_emails T)"
        "T' = T\<lparr>mt_links := map h (mt_links T), mt_emails := update_where (\<lambda>x. K (ml_id x) = K (ml_id r))
           (activate_row now (\<not> has_primary K (lk_user_id l) (mt_emails T))) (mt_emails T)\<rparr>" "co_changed out"
proof (cases "link_by_lookup K (\<lambda>l. lk_purpose l = ''email_activation'') lookup_id T")
  case None
  with assms refused [OF closes_id] show thesis by (auto simp: sp_consume_email_activation_token_def)
next
  case (Some l)
  have e: "closes (\<lambda>x. if K (lk_id x) = K (lk_id l) then expire_link now x else x)" by simp
  have c: "closes (\<lambda>x. if K (lk_id x) = K (lk_id l) then consume_link now reason x else x)" for reason by simp
  show thesis
    using assms Some refused [OF closes_id] refused [OF e] refused [OF c] activated [OF c Some]
    unfolding sp_consume_email_activation_token_def Let_def set_link_def update_where_map
    by (auto simp: open_link_def not_le split: if_splits option.splits)
qed

lemma reset_cases:
  assumes "sp_consume_password_reset_token K sha2 now lookup_id hash new_hash T = (out, T')"
  obtains (refused) h where "closes h" "T' = T\<lparr>mt_links := map h (mt_links T)\<rparr>" "\<not> co_changed out"
    | (changed) h l u where "closes h" "\<forall>x. reset_of_user K (lk_user_id l) x \<longrightarrow> \<not> open_link (h x)"
        "link_by_lookup K reset_link lookup_id T = Some l" "user_by_id K (lk_user_id l) T = Some u" "u_is_active u" "open_link l"
        "now < lk_expires_at l" "lk_hash l = bound_hash sha2 hash (lk_user_id l) (u_password_hash u)"
        "T' = T\<lparr>mt_links := map h (mt_links T), mt_users := set_password K (lk_user_id l) new_hash (mt_users T)\<rparr>" "co_changed out"
        "co_user_id out = Some (lk_user_id l)"
proof (cases "link_by_lookup K reset_link lookup_id T")
  case None
  with assms refused [OF closes_id] show thesis by (auto simp: sp_consume_password_reset_token_def)
next
  case (Some l)
  let ?c = "\<lambda>x. if K (lk_id x) = K (lk_id l) then consume_link now None x else x"
  let ?v = "\<lambda>x. if (reset_of_user K (lk_user_id l) x \<and> K (lk_id x) \<noteq> K (lk_id l)) \<and> open_link x then x\<lparr>lk_revoked_at := Some now, lk_reason := Some ''password_reset''\<rparr> else x"
  have e: "closes (\<lambda>x. if K (lk_id x) = K (lk_id l) then expire_link now x else x)" by simp
  have c: "closes (?v \<circ> ?c)" by (intro closes_comp closes_consume closes_revoke)
  have o: "\<forall>x. reset_of_user K (lk_user_id l) x \<longrightarrow> \<not> open_link ((?v \<circ> ?c) x)" by (simp add: consume_link_def open_link_def)
  show thesis
    using assms Some refused [OF closes_id] refused [OF e] changed [OF c o Some]
    unfolding sp_consume_password_reset_token_def Let_def set_link_def update_where_map revoke_links_def
    by (auto simp: open_link_def not_le split: if_splits option.splits)
qed


section \<open>The links in every interleaving\<close>

lemma user_op_links:
  "mt_links (create_account K now u mail T) = mt_links T" "mt_messages (create_account K now u mail T) = mt_messages T"
  by (simp_all add: create_account_def Let_def split: option.split)

lemma links_dropped: "links_after K op ls (filter P ls)"
  using dropping [OF closes_id, of K op ls P] by simp

lemma links_nulled: "links_after K op ls (map (\<lambda>l. l\<lparr>lk_email_id := g l\<rparr>) (filter P ls))"
  by (rule dropping) (simp add: closes_def open_link_def)

text \<open>Whatever the request, stored links are closed or deleted, or one with the new identifier joins them.\<close>

lemma run_links_after:
  assumes "run_mail_op K sha2 now op T = (b, T')"
  shows "links_after K op (mt_links T) (mt_links T')"
proof (cases op)
  case (Add_mail email_id user_id email hash masked n)
  then have e: "sp_user_email_add_and_enqueue K now email_id user_id email hash masked n T = (fst (sp_user_email_add_and_enqueue K now email_id user_id email hash masked n T), T')"
    using assms by (auto simp: prod_eq_iff)
  show ?thesis using e
  proof (cases rule: add_mail_cases)
    case (sent eid status rs out)
    from sent(2) show ?thesis by (rule send_activation_Some) (auto intro!: adding simp: Add_mail reset_link_def reset_purposes_def)
  qed (simp_all add: links_same)
next
  case (Resend_mail user_id email_id cooldown n)
  then have e: "sp_user_email_resend_and_enqueue K now user_id email_id cooldown n T = (fst (sp_user_email_resend_and_enqueue K now user_id email_id cooldown n T), T')"
    using assms by (auto simp: prod_eq_iff)
  show ?thesis using e
  proof (cases rule: resend_mail_cases)
    case (sent x out)
    from sent(2) show ?thesis by (rule send_activation_Some) (auto intro!: adding simp: Resend_mail reset_link_def reset_purposes_def)
  qed (simp_all add: links_same)
next
  case (Activate_mail lookup_id hash)
  then have e: "sp_consume_email_activation_token K now lookup_id hash T = (fst (sp_consume_email_activation_token K now lookup_id hash T), T')"
    using assms by (auto simp: prod_eq_iff)
  show ?thesis using e by (cases rule: activate_cases) (simp_all add: closing)
next
  case (Forgot_password who n)
  then have e: "sp_password_reset_link_enqueue K sha2 now who n T = (fst (sp_password_reset_link_enqueue K sha2 now who n T), T')"
    using assms by (auto simp: prod_eq_iff)
  show ?thesis using e
  proof (cases rule: forgot_cases)
    case (sent uid u x T1)
    from sent(3) show ?thesis by (rule send_reset_Some) (auto intro!: adding simp: Forgot_password sent(4))
  qed (simp_all add: links_same)
next
  case (Admin_reset user_id n)
  then have e: "sp_admin_password_reset_link_enqueue K sha2 now user_id n T = (fst (sp_admin_password_reset_link_enqueue K sha2 now user_id n T), T')"
    using assms by (auto simp: prod_eq_iff)
  show ?thesis using e
  proof (cases rule: admin_reset_cases)
    case (sent u x)
    from sent(3) show ?thesis by (rule send_reset_Some) (auto intro!: adding simp: Admin_reset)
  qed (simp_all add: links_same)
next
  case (Reset_password lookup_id hash new_hash)
  then have e: "sp_consume_password_reset_token K sha2 now lookup_id hash new_hash T = (fst (sp_consume_password_reset_token K sha2 now lookup_id hash new_hash T), T')"
    using assms by (auto simp: prod_eq_iff split: prod.splits)
  show ?thesis using e by (cases rule: reset_cases) (simp_all add: closing)
next
  case (Remove_mail user_id email_id)
  have "mt_links T' = mt_links T \<or> mt_links T' = revoke_links now ''email_removed'' (link_of_mail K email_id) (mt_links T)"
    using assms unfolding Remove_mail by (auto simp: sp_user_email_remove_def committed_def Let_def split: option.splits if_splits)
  then show ?thesis using closing [OF closes_revoke] by (auto simp: revoke_links_def update_where_map links_same)
next
  case (Primary_mail user_id email_id)
  then have "mt_links T' = mt_links T"
    using assms by (auto simp: sp_user_email_set_primary_def committed_def split: option.splits)
  then show ?thesis by (simp add: links_same)
qed (use assms in \<open>auto simp: user_op_links links_same links_dropped links_nulled sp_hard_delete_user_def sp_anonymize_user_email_data_def
    sp_email_retention_purge_def Let_def\<close>)


text \<open>What closing keeps of a link holds of it for good, since its identifier is drawn once.\<close>

lemma links_after_stable:
  assumes "links_after K op ls ls'" and R: "\<And>h l. closes h \<Longrightarrow> R l \<Longrightarrow> R (h l)"
    and "\<forall>l\<in>set ls. K (lk_lookup_id l) = q \<longrightarrow> R l" and "\<And>n. op_link op = Some n \<Longrightarrow> K (nl_lookup_id n) \<noteq> q"
  shows "\<forall>l\<in>set ls'. K (lk_lookup_id l) = q \<longrightarrow> R l"
  using assms(1)
proof cases
  case (closing h)
  with assms(3) R [of h] show ?thesis by (auto simp: closesD(4))
next
  case (adding h n l)
  with assms(3) assms(4) [of n] R [of h] show ?thesis by (auto simp: closesD(4))
next
  case (dropping h P)
  with assms(3) R [of h] show ?thesis by (auto simp: closesD(4))
qed

lemma reach_stable:
  assumes "mail_reach K sha2 y z" and R: "\<And>h l. closes h \<Longrightarrow> R l \<Longrightarrow> R (h l)"
    and "q \<in> sys_drawn y" "\<forall>l\<in>set (mt_links (sys_tables y)). K (lk_lookup_id l) = q \<longrightarrow> R l"
  shows "q \<in> sys_drawn z \<and> (\<forall>l\<in>set (mt_links (sys_tables z)). K (lk_lookup_id l) = q \<longrightarrow> R l)"
  using assms(1) unfolding mail_reach_def
proof induction
  case base
  with assms(3,4) show ?case by simp
next
  case (step z w)
  from step.hyps(2) show ?case
  proof (cases rule: mail_step.cases)
    case (1 op now b T)
    have "\<forall>l\<in>set (mt_links T). K (lk_lookup_id l) = q \<longrightarrow> R l"
    proof (rule links_after_stable [OF run_links_after [OF 1(3)]])
      show "R (h l)" if "closes h" "R l" for h l using that by (rule R)
      show "\<forall>l\<in>set (mt_links (sys_tables z)). K (lk_lookup_id l) = q \<longrightarrow> R l" using step.IH by blast
      show "K (nl_lookup_id n) \<noteq> q" if "op_link op = Some n" for n using 1(2) [OF that] step.IH by blast
    qed
    with 1(1) step.IH show ?thesis by (simp split: option.split)
  qed
qed

section \<open>Password resets\<close>

definition one_open_reset :: "(string \<Rightarrow> string) \<Rightarrow> mail_link_row list \<Rightarrow> bool" where
  "one_open_reset K ls \<longleftrightarrow>
     (\<forall>l\<in>set ls. \<forall>l'\<in>set ls. open_link l \<and> open_link l' \<and> reset_link l \<and> reset_of_user K (lk_user_id l) l' \<longrightarrow> l = l')"

definition links_ok :: "(string \<Rightarrow> string) \<Rightarrow> mail_sys \<Rightarrow> bool" where
  "links_ok K x \<longleftrightarrow>
     distinct (map (\<lambda>l. K (lk_lookup_id l)) (mt_links (sys_tables x))) \<and>
     (\<forall>l\<in>set (mt_links (sys_tables x)). K (lk_lookup_id l) \<in> sys_drawn x) \<and>
     distinct (sys_resets x) \<and> set (sys_resets x) \<subseteq> sys_drawn x \<and>
     (\<forall>l\<in>set (mt_links (sys_tables x)). K (lk_lookup_id l) \<in> set (sys_resets x) \<longrightarrow> \<not> open_link l) \<and>
     one_open_reset K (mt_links (sys_tables x))"

lemma one_open_reset_map:
  assumes "closes h" "one_open_reset K ls" shows "one_open_reset K (map h ls)"
  unfolding one_open_reset_def set_map ball_simps
proof (intro ballI impI)
  fix l l' assume l: "l \<in> set ls" "l' \<in> set ls"
    and "open_link (h l) \<and> open_link (h l') \<and> reset_link (h l) \<and> reset_of_user K (lk_user_id (h l)) (h l')"
  then have "open_link l \<and> open_link l' \<and> reset_link l \<and> reset_of_user K (lk_user_id l) l'"
    using closesD [OF assms(1)] by (simp add: reset_of_user_def)
  with l assms(2) show "h l = h l'" by (auto simp: one_open_reset_def)
qed

lemma one_open_reset_after:
  assumes "links_after K op ls ls'" "one_open_reset K ls" shows "one_open_reset K ls'"
  using assms(1)
proof cases
  case (adding h n l)
  have "one_open_reset K (map h ls)" using adding(2) assms(2) by (rule one_open_reset_map)
  then show ?thesis unfolding adding(1) one_open_reset_def
    using adding(5) by (auto simp: reset_of_user_def closesD(1-5,7) [OF adding(2)])
next
  case (dropping h P)
  have "one_open_reset K (filter P ls)" using assms(2) by (auto simp: one_open_reset_def)
  then show ?thesis unfolding dropping(1) by (rule one_open_reset_map [OF dropping(2)])
qed (simp add: one_open_reset_map assms(2))


lemma lookups_after:
  assumes "links_after K op ls ls'" "distinct (map (\<lambda>l. K (lk_lookup_id l)) ls)" "\<forall>l\<in>set ls. K (lk_lookup_id l) \<in> D"
    and "\<And>n. op_link op = Some n \<Longrightarrow> K (nl_lookup_id n) \<notin> D"
  shows "distinct (map (\<lambda>l. K (lk_lookup_id l)) ls') \<and>
    (\<forall>l\<in>set ls'. K (lk_lookup_id l) \<in> (case op_link op of None \<Rightarrow> D | Some n \<Rightarrow> insert (K (nl_lookup_id n)) D))"
  using assms(1)
proof cases
  case (closing h)
  with assms(2,3) show ?thesis by (auto simp: closesD(4) comp_def split: option.split)
next
  case (adding h n l)
  with assms(2,3) assms(4) [of n] show ?thesis by (auto simp: closesD(4) comp_def)
next
  case (dropping h P)
  with assms(2,3) show ?thesis by (auto simp: closesD(4) comp_def distinct_map inj_on_def split: option.split)
qed

text \<open>A request that reports a reset used the open link with its identifier, and closed every reset link of the account.\<close>

lemma reset_by_link:
  assumes "run_mail_op K sha2 now op T = (True, T')"
  obtains lookup_id hash new_hash h l u where "op = Reset_password lookup_id hash new_hash"
    and "closes h" "\<forall>x. reset_of_user K (lk_user_id l) x \<longrightarrow> \<not> open_link (h x)"
    and "l \<in> set (mt_links T)" "K (lk_lookup_id l) = K lookup_id" "reset_link l" "open_link l" "now < lk_expires_at l"
    and "user_by_id K (lk_user_id l) T = Some u" "u_is_active u" "lk_hash l = bound_hash sha2 hash (lk_user_id l) (u_password_hash u)"
    and "T' = T\<lparr>mt_links := map h (mt_links T), mt_users := set_password K (lk_user_id l) new_hash (mt_users T)\<rparr>"
proof -
  from assms obtain lookup_id hash new_hash out where op: "op = Reset_password lookup_id hash new_hash"
    and e: "sp_consume_password_reset_token K sha2 now lookup_id hash new_hash T = (out, T')" and c: "co_changed out"
    by (cases op) (auto split: prod.splits)
  show thesis using e
  proof (cases rule: reset_cases)
    case (changed h l u)
    from changed(3) have "l \<in> set (mt_links T)" "K (lk_lookup_id l) = K lookup_id" "reset_link l"
      by (auto simp: link_by_lookup_def find_Some_iff)
    with op changed show thesis by (intro that)
  qed (use c in simp)
qed

lemma links_ok_step:
  assumes ok: "links_ok K x" and st: "mail_step K sha2 x y"
  shows "links_ok K y"
  using st
proof (cases rule: mail_step.cases)
  case (1 op now b T)
  let ?L = "mt_links (sys_tables x)" and ?D = "sys_drawn x"
  let ?D' = "case op_link op of None \<Rightarrow> ?D | Some n \<Rightarrow> insert (K (nl_lookup_id n)) ?D"
  note after = run_links_after [OF 1(3)]
  have look: "distinct (map (\<lambda>l. K (lk_lookup_id l)) (mt_links T)) \<and> (\<forall>l\<in>set (mt_links T). K (lk_lookup_id l) \<in> ?D')"
    using lookups_after [OF after, of ?D] ok 1(2) by (simp add: links_ok_def)
  have one: "one_open_reset K (mt_links T)" using one_open_reset_after [OF after] ok by (simp add: links_ok_def)
  have D: "?D \<subseteq> ?D'" by (auto split: option.split)
  have used: "\<forall>l\<in>set (mt_links T). K (lk_lookup_id l) = q \<longrightarrow> \<not> open_link l" if "q \<in> set (sys_resets x)" for q
  proof (rule links_after_stable [OF after])
    show "\<not> open_link (h l)" if "closes h" "\<not> open_link l" for h l using that closesD(6) by blast
    show "\<forall>l\<in>set ?L. K (lk_lookup_id l) = q \<longrightarrow> \<not> open_link l" using ok that by (auto simp: links_ok_def)
    show "K (nl_lookup_id n) \<noteq> q" if "op_link op = Some n" for n using 1(2) [OF that] ok \<open>q \<in> set (sys_resets x)\<close> by (auto simp: links_ok_def)
  qed
  show ?thesis
  proof (cases b)
    case False
    with 1(1) look one D used ok show ?thesis by (auto simp: links_ok_def)
  next
    case True
    with 1(3) obtain lookup_id hash new_hash h l where op: "op = Reset_password lookup_id hash new_hash"
      and h: "closes h" "\<forall>x. reset_of_user K (lk_user_id l) x \<longrightarrow> \<not> open_link (h x)" and l: "l \<in> set ?L" "K (lk_lookup_id l) = K lookup_id"
      and r: "reset_link l" "open_link l" and T: "mt_links T = map h ?L"
      by (auto elim!: reset_by_link)
    have "K lookup_id \<notin> set (sys_resets x)" "K lookup_id \<in> ?D" using ok l r(2) by (auto simp: links_ok_def)
    moreover have "\<not> open_link l'" if "l' \<in> set (mt_links T)" "K (lk_lookup_id l') = K lookup_id" for l'
    proof -
      from that T obtain m where m: "m \<in> set ?L" "l' = h m" by auto
      with that(2) l ok have "m = l" by (auto simp: links_ok_def closesD(4) [OF h(1)] distinct_map inj_on_def)
      with m h(2) r(1) show ?thesis by (simp add: reset_of_user_def)
    qed
    ultimately show ?thesis using 1(1) True look one used ok op by (auto simp: links_ok_def)
  qed
qed

lemma links_ok_reach:
  assumes "mail_start x" "mail_reach K sha2 x y" shows "links_ok K y"
  using assms(2) unfolding mail_reach_def
proof induction
  case base
  with assms(1) show ?case by (simp add: mail_start_def links_ok_def one_open_reset_def)
qed (rule links_ok_step)


lemma reset_dead:
  assumes "mail_reach K sha2 y z" "K q \<in> sys_drawn y" "\<forall>l\<in>set (mt_links (sys_tables y)). K (lk_lookup_id l) = K q \<longrightarrow> \<not> open_link l"
  shows "\<not> fst (run_mail_op K sha2 now (Reset_password q hash new_hash) (sys_tables z))"
proof
  have dead: "\<forall>l\<in>set (mt_links (sys_tables z)). K (lk_lookup_id l) = K q \<longrightarrow> \<not> open_link l"
    using reach_stable [OF assms(1) _ assms(2), of "\<lambda>l. \<not> open_link l"] assms(3) closesD(6) by blast
  assume "fst (run_mail_op K sha2 now (Reset_password q hash new_hash) (sys_tables z))"
  then obtain T where "run_mail_op K sha2 now (Reset_password q hash new_hash) (sys_tables z) = (True, T)" by (metis eq_fst_iff)
  then show False by (rule reset_by_link) (use dead in auto)
qed

text \<open>C36. A password is set by a link only when that link is stored, unused, not superseded, not expired and the only open
  reset link of an active account, whose current password it is bound to; it was never used before; and afterwards
  neither it nor any other reset link issued to the account so far sets a password again, whatever requests follow.\<close>

theorem reset_link_single_use:
  assumes "mail_start x" "mail_reach K sha2 x y"
    and "run_mail_op K sha2 now (Reset_password lookup_id hash new_hash) (sys_tables y) = (True, T)"
  shows "\<exists>l u. K lookup_id \<notin> set (sys_resets y) \<and> l \<in> set (mt_links (sys_tables y)) \<and> K (lk_lookup_id l) = K lookup_id \<and> reset_link l \<and> open_link l \<and> now < lk_expires_at l \<and>
      user_by_id K (lk_user_id l) (sys_tables y) = Some u \<and> u_is_active u \<and> lk_hash l = bound_hash sha2 hash (lk_user_id l) (u_password_hash u) \<and>
      mt_users T = set_password K (lk_user_id l) new_hash (mt_users (sys_tables y)) \<and>
      (\<forall>m\<in>set (mt_links (sys_tables y)). reset_of_user K (lk_user_id l) m \<longrightarrow>
         (open_link m \<longrightarrow> m = l) \<and>
         (\<forall>z now' hash' new'. mail_reach K sha2 \<lparr>sys_tables = T, sys_drawn = sys_drawn y, sys_resets = K lookup_id # sys_resets y\<rparr> z \<longrightarrow>
            \<not> fst (run_mail_op K sha2 now' (Reset_password (lk_lookup_id m) hash' new') (sys_tables z))))"
proof -
  have ok: "links_ok K y" using assms(1,2) by (rule links_ok_reach)
  from assms(3) obtain h l u where h: "closes h" "\<forall>x. reset_of_user K (lk_user_id l) x \<longrightarrow> \<not> open_link (h x)"
    and l: "l \<in> set (mt_links (sys_tables y))" "K (lk_lookup_id l) = K lookup_id" "reset_link l" "open_link l" "now < lk_expires_at l"
      "user_by_id K (lk_user_id l) (sys_tables y) = Some u" "u_is_active u" "lk_hash l = bound_hash sha2 hash (lk_user_id l) (u_password_hash u)"
    and T: "T = (sys_tables y)\<lparr>mt_links := map h (mt_links (sys_tables y)), mt_users := set_password K (lk_user_id l) new_hash (mt_users (sys_tables y))\<rparr>"
    by (rule reset_by_link) simp
  from ok l(1,2,4) have fresh: "K lookup_id \<notin> set (sys_resets y)" by (auto simp: links_ok_def)
  let ?y = "\<lparr>sys_tables = T, sys_drawn = sys_drawn y, sys_resets = K lookup_id # sys_resets y\<rparr>"
  have "(open_link m \<longrightarrow> m = l) \<and> (mail_reach K sha2 ?y z \<longrightarrow> \<not> fst (run_mail_op K sha2 now' (Reset_password (lk_lookup_id m) hash' new') (sys_tables z)))"
    if m: "m \<in> set (mt_links (sys_tables y))" "reset_of_user K (lk_user_id l) m" for m z now' hash' new'
  proof (intro conjI impI)
    show "m = l" if "open_link m" using that m l ok by (auto simp: links_ok_def one_open_reset_def)
    assume reach: "mail_reach K sha2 ?y z"
    have "\<forall>k\<in>set (mt_links (sys_tables ?y)). K (lk_lookup_id k) = K (lk_lookup_id m) \<longrightarrow> \<not> open_link k"
      using m ok h by (auto simp: T links_ok_def closesD(4) [OF h(1)] distinct_map inj_on_def)
    then show "\<not> fst (run_mail_op K sha2 now' (Reset_password (lk_lookup_id m) hash' new') (sys_tables z))"
      by (rule reset_dead [OF reach, rotated]) (use m ok in \<open>simp add: links_ok_def\<close>)
  qed
  with l fresh show ?thesis
    by (intro exI [of _ l] exI [of _ u]) (simp add: T)
qed


section \<open>The password a link is bound to\<close>

lemma sql_hex_digit_inj: "m < 16 \<Longrightarrow> n < 16 \<Longrightarrow> sql_hex_digit m = sql_hex_digit n \<Longrightarrow> m = n"
  by (auto simp: sql_hex_digit_def split: if_splits)

lemma sql_hex_digit_colon: "n < 16 \<Longrightarrow> sql_hex_digit n \<noteq> CHR '':''"
  by (auto simp: sql_hex_digit_def char_of_eq_iff take_bit_eq_mod)

lemma sql_hex_Cons: "sql_hex (c # s) = sql_hex_digit ((of_char c :: nat) div 16) # sql_hex_digit ((of_char c :: nat) mod 16) # sql_hex s"
  by (simp add: sql_hex_def Let_def)

lemma sql_hex_inj: "sql_hex s = sql_hex t \<Longrightarrow> s = t"
proof (induction s arbitrary: t)
  case Nil
  then show ?case by (cases t) (simp_all add: sql_hex_Cons, simp add: sql_hex_def)
next
  case (Cons c s)
  then obtain d t' where t: "t = d # t'" by (cases t) (simp_all add: sql_hex_Cons, simp add: sql_hex_def)
  have lt: "(of_char c :: nat) div 16 < 16" "(of_char d :: nat) div 16 < 16" by (simp_all add: less_mult_imp_div_less)
  have e: "sql_hex_digit ((of_char c :: nat) div 16) = sql_hex_digit ((of_char d :: nat) div 16)"
    "sql_hex_digit ((of_char c :: nat) mod 16) = sql_hex_digit ((of_char d :: nat) mod 16)" "sql_hex s = sql_hex t'"
    using Cons.prems by (simp_all add: t sql_hex_Cons)
  have "(of_char c :: nat) div 16 = of_char d div 16" "(of_char c :: nat) mod 16 = of_char d mod 16"
    using sql_hex_digit_inj [OF lt e(1)] sql_hex_digit_inj [OF _ _ e(2)] by simp_all
  then have "(of_char c :: nat) = of_char d" by (metis div_mult_mod_eq)
  then have "c = d" by simp
  with Cons.IH [OF e(3)] t show ?case by simp
qed

lemma sql_hex_colon: "CHR '':'' \<notin> set (sql_hex s)"
proof (induction s)
  case (Cons c s)
  then show ?case
    using sql_hex_digit_colon [of "(of_char c :: nat) div 16"] sql_hex_digit_colon [of "(of_char c :: nat) mod 16"]
    by (simp add: sql_hex_Cons less_mult_imp_div_less eq_commute)
qed (simp add: sql_hex_def)

lemma append_at_colon:
  assumes "a @ CHR '':'' # b = c @ CHR '':'' # d" "CHR '':'' \<notin> set a" "CHR '':'' \<notin> set c" shows "a = c \<and> b = d"
  using assms by (induction a arbitrary: c) (force simp: Cons_eq_append_conv)+

lemma bound_hash_inj:
  assumes "inj sha2" "bound_hash sha2 t uid p = bound_hash sha2 t' uid p'" shows "t = t' \<and> p = p'"
proof -
  from assms have "sql_hex t @ CHR '':'' # sha2 (sql_hex uid @ '':'' @ sql_hex p) = sql_hex t' @ CHR '':'' # sha2 (sql_hex uid @ '':'' @ sql_hex p')"
    by (auto simp: bound_hash_def dest: injD)
  from append_at_colon [OF this sql_hex_colon sql_hex_colon]
  have "t = t'" "sha2 (sql_hex uid @ '':'' @ sql_hex p) = sha2 (sql_hex uid @ '':'' @ sql_hex p')" by (auto dest: sql_hex_inj)
  with injD [OF assms(1) this(2)] show ?thesis by (simp add: sql_hex_inj)
qed


text \<open>A reset link that a request stores under its new identifier is bound to the password of its active account.\<close>

lemma issued_reset_link:
  assumes "run_mail_op K sha2 now op T = (b, T')" "op_link op = Some n" "l \<in> set (mt_links T')" "K (lk_lookup_id l) = K (nl_lookup_id n)" "reset_link l"
    and fresh: "\<forall>x\<in>set (mt_links T). K (lk_lookup_id x) \<noteq> K (nl_lookup_id n)"
  obtains u where "u \<in> set (mt_users T)" "u_is_active u" "K (u_id u) = K (lk_user_id l)"
    and "lk_hash l = bound_hash sha2 (nl_hash n) (lk_user_id l) (u_password_hash u)" "lk_expires_at l = nl_expires_at n"
proof (cases op)
  case (Add_mail email_id user_id email hash masked m)
  then have e: "sp_user_email_add_and_enqueue K now email_id user_id email hash masked m T = (fst (sp_user_email_add_and_enqueue K now email_id user_id email hash masked m T), T')"
    using assms(1) by (auto simp: prod_eq_iff)
  from e have False
  proof (cases rule: add_mail_cases)
    case (sent eid status rs out)
    from sent(2) show ?thesis
      by (rule send_activation_Some) (use assms(3-5) fresh in \<open>auto simp: closesD(4) reset_link_def reset_purposes_def\<close>)
  qed (use assms(3,4) fresh in auto)
  then show thesis ..
next
  case (Resend_mail user_id email_id cooldown m)
  then have e: "sp_user_email_resend_and_enqueue K now user_id email_id cooldown m T = (fst (sp_user_email_resend_and_enqueue K now user_id email_id cooldown m T), T')"
    using assms(1) by (auto simp: prod_eq_iff)
  from e have False
  proof (cases rule: resend_mail_cases)
    case (sent x out)
    from sent(2) show ?thesis
      by (rule send_activation_Some) (use assms(3-5) fresh in \<open>auto simp: closesD(4) reset_link_def reset_purposes_def\<close>)
  qed (use assms(3,4) fresh in auto)
  then show thesis ..
next
  case (Forgot_password who m)
  then have e: "sp_password_reset_link_enqueue K sha2 now who m T = (fst (sp_password_reset_link_enqueue K sha2 now who m T), T')"
    using assms(1) by (auto simp: prod_eq_iff)
  show thesis using e
  proof (cases rule: forgot_cases)
    case (sent uid u x T1)
    from sent(1) have "u \<in> set (mt_users T)" "u_is_active u" "K (u_id u) = K uid"
      by (auto simp: reset_owner_def find_Some_iff split: option.splits)
    with sent(3) show thesis
      by (elim send_reset_Some) (rule that [of u], use assms(2-5) fresh Forgot_password sent(4) in \<open>auto simp: closesD(4)\<close>)
  qed (use assms(3,4) fresh in auto)
next
  case (Admin_reset user_id m)
  then have e: "sp_admin_password_reset_link_enqueue K sha2 now user_id m T = (fst (sp_admin_password_reset_link_enqueue K sha2 now user_id m T), T')"
    using assms(1) by (auto simp: prod_eq_iff)
  show thesis using e
  proof (cases rule: admin_reset_cases)
    case (sent u x)
    from sent(1) have "u \<in> set (mt_users T)" "u_is_active u" "K (u_id u) = K user_id" by (auto simp: find_Some_iff)
    with sent(3) show thesis
      by (elim send_reset_Some) (rule that [of u], use assms(2-5) fresh Admin_reset in \<open>auto simp: closesD(4)\<close>)
  qed (use assms(3,4) fresh in auto)
qed (use assms(2) in simp_all)

lemma reset_changes_iff:
  assumes "distinct (map (\<lambda>l. K (lk_lookup_id l)) (mt_links T))"
  shows "fst (run_mail_op K sha2 now (Reset_password q hash new_hash) T) \<longleftrightarrow>
    (\<exists>l\<in>set (mt_links T). K (lk_lookup_id l) = K q \<and> reset_link l \<and> open_link l \<and> now < lk_expires_at l \<and>
       (\<exists>u. user_by_id K (lk_user_id l) T = Some u \<and> u_is_active u \<and> lk_hash l = bound_hash sha2 hash (lk_user_id l) (u_password_hash u)))"
    (is "?L \<longleftrightarrow> ?R")
proof
  assume ?L
  then obtain T' where "run_mail_op K sha2 now (Reset_password q hash new_hash) T = (True, T')" by (metis eq_fst_iff)
  then show ?R by (rule reset_by_link) auto
next
  assume ?R
  then obtain l u where l: "l \<in> set (mt_links T)" "K (lk_lookup_id l) = K q" "reset_link l" and o: "open_link l" "now < lk_expires_at l"
    and u: "user_by_id K (lk_user_id l) T = Some u" "u_is_active u" "lk_hash l = bound_hash sha2 hash (lk_user_id l) (u_password_hash u)" by blast
  from l obtain l' where f: "link_by_lookup K reset_link q T = Some l'"
    unfolding link_by_lookup_def by (cases "List.find (\<lambda>l. K (lk_lookup_id l) = K q \<and> reset_link l) (mt_links T)") (auto simp: find_None_iff)
  then have "l' \<in> set (mt_links T)" "K (lk_lookup_id l') = K q" by (auto simp: link_by_lookup_def find_Some_iff)
  with l assms have "l' = l" by (auto simp: distinct_map inj_on_def)
  with f o u show ?L by (simp add: sp_consume_password_reset_token_def open_link_def Let_def split: prod.split)
qed



section \<open>Concrete runs\<close>

fun mail_run :: "(string \<Rightarrow> string) \<Rightarrow> (string \<Rightarrow> string) \<Rightarrow> (int \<times> mail_op) list \<Rightarrow> mail_sys \<Rightarrow> mail_sys option" where
  "mail_run K sha2 [] x = Some x"
| "mail_run K sha2 ((now, op) # ops) x =
     (if (case op_link op of None \<Rightarrow> False | Some n \<Rightarrow> K (nl_lookup_id n) \<in> sys_drawn x) then None
      else
        let (b, T) = run_mail_op K sha2 now op (sys_tables x)
        in mail_run K sha2 ops
             \<lparr>sys_tables = T, sys_drawn = (case op_link op of None \<Rightarrow> sys_drawn x | Some n \<Rightarrow> insert (K (nl_lookup_id n)) (sys_drawn x)),
              sys_resets = (if b then K (op_lookup op) # sys_resets x else sys_resets x)\<rparr>)"

lemma mail_run_reach: "mail_run K sha2 ops x = Some y \<Longrightarrow> mail_reach K sha2 x y"
proof (induction K sha2 ops x rule: mail_run.induct)
  case (1 K sha2 x)
  then show ?case by (simp add: mail_reach_def)
next
  case (2 K sha2 now op ops x)
  obtain b T where e: "run_mail_op K sha2 now op (sys_tables x) = (b, T)" by fastforce
  let ?x = "\<lparr>sys_tables = T, sys_drawn = (case op_link op of None \<Rightarrow> sys_drawn x | Some n \<Rightarrow> insert (K (nl_lookup_id n)) (sys_drawn x)),
              sys_resets = (if b then K (op_lookup op) # sys_resets x else sys_resets x)\<rparr>"
  have f: "\<not> (case op_link op of None \<Rightarrow> False | Some n \<Rightarrow> K (nl_lookup_id n) \<in> sys_drawn x)" using 2(2) by (auto split: if_splits)
  have "mail_step K sha2 x ?x" using f e by (intro mail_step.intros) auto
  moreover have "mail_reach K sha2 ?x y" using 2 f e by simp
  ultimately show ?case unfolding mail_reach_def by (rule converse_rtranclp_into_rtranclp)
qed

definition demo_mail_user :: user_row where
  "demo_mail_user = \<lparr>u_id = ''u1'', u_user_hash = ''uh'', u_username = ''ann'', u_password_hash = ''p0'', u_user_type = ''consumer'', u_is_active = True\<rparr>"

definition demo_new_link :: "string \<Rightarrow> string \<Rightarrow> new_link" where
  "demo_new_link i h = \<lparr>nl_token_id = ''t'' @ i, nl_lookup_id = ''l'' @ i, nl_hash = h, nl_expires_at = 900, nl_message_id = ''m'' @ i, nl_provider = None,
     nl_provider_key = ''k'' @ i, nl_idem = None\<rparr>"

definition demo_mail_start :: mail_sys where
  "demo_mail_start = \<lparr>sys_tables = \<lparr>mt_users = [demo_mail_user], mt_emails = [], mt_links = [], mt_messages = [], mt_ledger = []\<rparr>, sys_drawn = {}, sys_resets = []\<rparr>"

definition demo_activated :: mail_sys where
  "demo_activated = \<lparr>sys_tables = \<lparr>mt_users = [demo_mail_user],
     mt_emails = [(pending_mail 10 ''e1'' ''u1'' ''a@x.org'' ''eh'' ''a***'')
       \<lparr>ml_status := ''activated'', ml_is_primary := True, ml_activated_at := Some 20, ml_last_sent := Some 10\<rparr>],
     mt_links = [(link_row_of ''u1'' ''e1'' ''email_activation'' (demo_new_link ''1'' ''h1''))\<lparr>lk_consumed_at := Some 20\<rparr>],
     mt_messages = [message_row_of 10 ''u1'' ''e1'' ''a@x.org'' ''email_activation'' 5 (demo_new_link ''1'' ''h1'')], mt_ledger = []\<rparr>,
     sys_drawn = {''l1''}, sys_resets = []\<rparr>"

definition demo_forgot :: mail_sys where
  "demo_forgot = demo_activated
     \<lparr>sys_tables := (sys_tables demo_activated)
        \<lparr>mt_links := mt_links (sys_tables demo_activated) @
           [link_row_of ''u1'' ''e1'' ''password_reset'' (demo_new_link ''2'' (bound_hash (\<lambda>s. s) ''h2'' ''u1'' ''p0''))],
         mt_messages := mt_messages (sys_tables demo_activated) @
           [message_row_of 30 ''u1'' ''e1'' ''a@x.org'' ''password_reset'' 5 (demo_new_link ''2'' ''h2'')]\<rparr>,
      sys_drawn := {''l2'', ''l1''}\<rparr>"

lemma demo_activated: "mail_run (\<lambda>s. s) (\<lambda>s. s)
     [(10, Add_mail ''e1'' ''u1'' ''A@x.org'' ''eh'' ''a***'' (demo_new_link ''1'' ''h1'')), (20, Activate_mail ''l1'' ''h1'')] demo_mail_start =
   Some demo_activated"
  by code_simp

lemma demo_forgot: "mail_run (\<lambda>s. s) (\<lambda>s. s) [(30, Forgot_password ''ann'' (demo_new_link ''2'' ''h2''))] demo_activated = Some demo_forgot"
  by code_simp


lemma demo_reach: "mail_start demo_mail_start" "mail_reach (\<lambda>s. s) (\<lambda>s. s) demo_mail_start demo_activated" "mail_reach (\<lambda>s. s) (\<lambda>s. s) demo_mail_start demo_forgot"
proof -
  show "mail_start demo_mail_start" by (simp add: mail_start_def demo_mail_start_def)
  show a: "mail_reach (\<lambda>s. s) (\<lambda>s. s) demo_mail_start demo_activated" by (rule mail_run_reach [OF demo_activated])
  then show "mail_reach (\<lambda>s. s) (\<lambda>s. s) demo_mail_start demo_forgot"
    using mail_run_reach [OF demo_forgot] unfolding mail_reach_def by (rule rtranclp_trans)
qed

lemma demo_reset: "run_mail_op (\<lambda>s. s) (\<lambda>s. s) 40 (Reset_password ''l2'' ''h2'' ''p1'') (sys_tables demo_forgot) =
    (True, snd (run_mail_op (\<lambda>s. s) (\<lambda>s. s) 40 (Reset_password ''l2'' ''h2'' ''p1'') (sys_tables demo_forgot)))"
  by code_simp

theorem reset_link_single_use_witness:
  "\<not> fst (run_mail_op (\<lambda>s. s) (\<lambda>s. s) 50 (Reset_password ''l2'' ''h2'' ''p2'')
     (snd (run_mail_op (\<lambda>s. s) (\<lambda>s. s) 40 (Reset_password ''l2'' ''h2'' ''p1'') (sys_tables demo_forgot))))"
  using reset_link_single_use [OF demo_reach(1,3) demo_reset] by (fastforce simp: mail_reach_def reset_of_user_def)

lemma demo_forgot_links:
  "sys_drawn demo_activated = {''l1''}" "sys_drawn demo_forgot = {''l2'', ''l1''}" "sys_resets demo_forgot = sys_resets demo_activated"
  "\<exists>l\<in>set (mt_links (sys_tables demo_forgot)). lk_lookup_id l = ''l2'' \<and> lk_user_id l = ''u1'' \<and> reset_link l \<and> open_link l"
  "user_by_id (\<lambda>s. s) ''u1'' (sys_tables demo_forgot) = Some demo_mail_user" "mt_users (sys_tables demo_activated) = [demo_mail_user]"
  "run_mail_op (\<lambda>s. s) (\<lambda>s. s) 30 (Forgot_password ''ann'' (demo_new_link ''2'' ''h2'')) (sys_tables demo_activated) = (False, sys_tables demo_forgot)"
  by code_simp+


end
