(* ===== verification/Email_Addresses.thy ===== *)
theory Email_Addresses
  imports Email_Machine
begin

text \<open>
  The addresses in every interleaving of the requests: an address is activated in one account only, an account has one
  primary address and at most five that count, and only a link mailed for a pending address activates it. Where links
  are mailed to, and two limits of the procedures: addresses equal in the collation share a row, and an expired
  ledger entry keeps its key.
\<close>

section \<open>The table of addresses\<close>

definition mails_ok :: "(string \<Rightarrow> string) \<Rightarrow> mail_row list \<Rightarrow> bool" where
  "mails_ok K rs \<longleftrightarrow>
     distinct (map (\<lambda>r. K (ml_id r)) rs) \<and>
     (\<forall>r\<in>set rs. \<forall>r'\<in>set rs. activated_mail r \<and> activated_mail r' \<and> K (ml_normalized r) = K (ml_normalized r') \<longrightarrow> r = r') \<and>
     (\<forall>r\<in>set rs. ml_is_primary r \<longrightarrow> activated_mail r) \<and>
     (\<forall>r\<in>set rs. \<forall>r'\<in>set rs. ml_is_primary r \<and> ml_is_primary r' \<and> K (ml_user_id r) = K (ml_user_id r') \<longrightarrow> r = r') \<and>
     (\<forall>u. length (filter (counted_mail K u) rs) \<le> 5)"

lemma mails_okD:
  assumes "mails_ok K rs" "r \<in> set rs" "r' \<in> set rs"
  shows "K (ml_id r) = K (ml_id r') \<Longrightarrow> r = r'"
    "activated_mail r \<Longrightarrow> activated_mail r' \<Longrightarrow> K (ml_normalized r) = K (ml_normalized r') \<Longrightarrow> r = r'"
    "ml_is_primary r \<Longrightarrow> activated_mail r"
    "ml_is_primary r \<Longrightarrow> ml_is_primary r' \<Longrightarrow> K (ml_user_id r) = K (ml_user_id r') \<Longrightarrow> r = r'"
proof -
  show "K (ml_id r) = K (ml_id r') \<Longrightarrow> r = r'" using assms by (simp add: mails_ok_def distinct_map inj_on_def)
  show "activated_mail r \<Longrightarrow> activated_mail r' \<Longrightarrow> K (ml_normalized r) = K (ml_normalized r') \<Longrightarrow> r = r'" using assms unfolding mails_ok_def by blast
  show "ml_is_primary r \<Longrightarrow> activated_mail r" using assms unfolding mails_ok_def by blast
  show "ml_is_primary r \<Longrightarrow> ml_is_primary r' \<Longrightarrow> K (ml_user_id r) = K (ml_user_id r') \<Longrightarrow> r = r'" using assms unfolding mails_ok_def by blast
qed

text \<open>A change of rows that activates none, makes none primary and counts none anew.\<close>

definition tames :: "(string \<Rightarrow> string) \<Rightarrow> (mail_row \<Rightarrow> mail_row) \<Rightarrow> bool" where
  "tames K f \<longleftrightarrow> (\<forall>r. ml_id (f r) = ml_id r \<and> ml_user_id (f r) = ml_user_id r \<and>
     (activated_mail (f r) \<longrightarrow> activated_mail r \<and> ml_normalized (f r) = ml_normalized r) \<and>
     (ml_is_primary (f r) \<longrightarrow> ml_is_primary r \<and> (activated_mail r \<longrightarrow> activated_mail (f r))) \<and>
     (\<forall>u. counted_mail K u (f r) \<longrightarrow> counted_mail K u r))"

lemma filter_map_length_le: "(\<And>x. P (f x) \<Longrightarrow> P x) \<Longrightarrow> length (filter P (map f xs)) \<le> length (filter P xs)"
  by (induction xs) (auto simp: le_Suc_eq)

lemma mails_ok_tamed:
  assumes f: "tames K f" and ok: "mails_ok K rs"
  shows "mails_ok K (map f rs)"
proof -
  have F: "ml_id (f r) = ml_id r" "ml_user_id (f r) = ml_user_id r" "activated_mail (f r) \<Longrightarrow> activated_mail r \<and> ml_normalized (f r) = ml_normalized r"
    "ml_is_primary (f r) \<Longrightarrow> ml_is_primary r \<and> (activated_mail r \<longrightarrow> activated_mail (f r))" "counted_mail K u (f r) \<Longrightarrow> counted_mail K u r" for r u
    using f unfolding tames_def by blast+
  note D = mails_okD [OF ok]
  show ?thesis unfolding mails_ok_def set_map ball_simps
  proof (intro conjI ballI impI allI)
    show "distinct (map (\<lambda>r. K (ml_id r)) (map f rs))" using ok by (simp add: mails_ok_def comp_def F)
    show "length (filter (counted_mail K u) (map f rs)) \<le> 5" for u
      using filter_map_length_le [of "counted_mail K u" f rs, OF F(5)] ok by (auto simp: mails_ok_def intro: order_trans)
    fix r r' assume r: "r \<in> set rs" "r' \<in> set rs"
    show "f r = f r'" if "activated_mail (f r) \<and> activated_mail (f r') \<and> K (ml_normalized (f r)) = K (ml_normalized (f r'))"
      using D(2) [OF r] F(3) that by metis
    show "f r = f r'" if "ml_is_primary (f r) \<and> ml_is_primary (f r') \<and> K (ml_user_id (f r)) = K (ml_user_id (f r'))"
      using D(4) [OF r] F(2,4) that by metis
  next
    fix r assume r: "r \<in> set rs" "ml_is_primary (f r)"
    then show "activated_mail (f r)" using D(3) [OF r(1) r(1)] F(4) by blast
  qed
qed

lemma mails_ok_filter: "mails_ok K rs \<Longrightarrow> mails_ok K (filter P rs)"
proof -
  assume ok: "mails_ok K rs"
  have "length (filter (counted_mail K u) (filter P rs)) \<le> 5" for u
  proof (rule order_trans)
    show "length (filter (counted_mail K u) (filter P rs)) \<le> length (filter (counted_mail K u) rs)" by (induction rs) auto
    show "length (filter (counted_mail K u) rs) \<le> 5" using ok by (simp add: mails_ok_def)
  qed
  with ok show ?thesis unfolding mails_ok_def by (auto simp: distinct_map inj_on_def)
qed

lemma tames_if:
  "(\<And>r. P r \<Longrightarrow> ml_id (f r) = ml_id r \<and> ml_user_id (f r) = ml_user_id r \<and> (activated_mail (f r) \<longrightarrow> activated_mail r \<and> ml_normalized (f r) = ml_normalized r) \<and>
     (ml_is_primary (f r) \<longrightarrow> ml_is_primary r \<and> (activated_mail r \<longrightarrow> activated_mail (f r))) \<and> (\<forall>u. counted_mail K u (f r) \<longrightarrow> counted_mail K u r)) \<Longrightarrow>
   tames K (\<lambda>r. if P r then f r else r)"
  by (simp add: tames_def)

lemma mails_ok_pending:
  assumes ok: "mails_ok K rs" and new: "insert_mail K (pending_mail now e u normalized hash masked) rs = Some rs'"
    and few: "length (filter (counted_mail K u) rs) < 5"
  shows "mails_ok K rs'"
proof -
  let ?p = "pending_mail now e u normalized hash masked"
  have rs': "rs' = rs @ [?p]" and fresh: "\<forall>x\<in>set rs. K (ml_id x) \<noteq> K e"
    using new by (auto simp: insert_mail_def pending_mail_def list_ex_iff split: if_splits)
  have p: "\<not> activated_mail ?p" "\<not> ml_is_primary ?p" "ml_id ?p = e" "counted_mail K v ?p \<longleftrightarrow> K u = K v" for v
    by (auto simp: pending_mail_def activated_mail_def counted_mail_def live_mail_def)
  have "length (filter (counted_mail K v) rs) < 5" if "K u = K v" for v
  proof -
    have "counted_mail K v = counted_mail K u" using that by (auto simp: counted_mail_def fun_eq_iff)
    with few show ?thesis by simp
  qed
  then have "length (filter (counted_mail K v) rs') \<le> 5" for v
    using ok p(4) [of v] by (auto simp: rs' mails_ok_def Suc_le_eq)
  then show ?thesis using ok p(1-3) fresh unfolding mails_ok_def rs' by (auto simp: mails_ok_def)
qed

lemma mails_ok_promote:
  assumes ok: "mails_ok K rs" and r: "r \<in> set rs" "activated_mail r" and none: "\<forall>x\<in>set rs. K (ml_user_id x) = K (ml_user_id r) \<longrightarrow> \<not> ml_is_primary x"
  shows "mails_ok K (set_mail_primary K (ml_id r) rs)"
proof -
  let ?f = "\<lambda>x. if K (ml_id x) = K (ml_id r) then x\<lparr>ml_is_primary := True\<rparr> else x"
  note D = mails_okD [OF ok]
  have core: "activated_mail (?f x) = activated_mail x" "ml_normalized (?f x) = ml_normalized x" "ml_id (?f x) = ml_id x" "ml_user_id (?f x) = ml_user_id x"
    "counted_mail K u (?f x) = counted_mail K u x" for x u by (simp_all add: activated_mail_def live_mail_def counted_mail_def)
  have prim: "ml_is_primary (?f x) \<longleftrightarrow> x = r \<or> ml_is_primary x" if "x \<in> set rs" for x using D(1) [OF that r(1)] by auto
  show ?thesis unfolding mails_ok_def set_mail_primary_def update_where_map set_map ball_simps
  proof (intro conjI ballI impI allI)
    show "distinct (map (\<lambda>r. K (ml_id r)) (map ?f rs))" using ok by (simp add: mails_ok_def comp_def core)
    have "length (filter (counted_mail K u) (map ?f rs)) = length (filter (counted_mail K u) rs)" for u by (induction rs) (simp_all add: core)
    then show "length (filter (counted_mail K u) (map ?f rs)) \<le> 5" for u using ok by (simp add: mails_ok_def)
    fix x y assume x: "x \<in> set rs" "y \<in> set rs"
    show "?f x = ?f y" if "activated_mail (?f x) \<and> activated_mail (?f y) \<and> K (ml_normalized (?f x)) = K (ml_normalized (?f y))"
      using that D(2) [OF x] unfolding core by auto
    show "?f x = ?f y" if "ml_is_primary (?f x) \<and> ml_is_primary (?f y) \<and> K (ml_user_id (?f x)) = K (ml_user_id (?f y))"
      using that D(4) [OF x] none x unfolding core prim [OF x(1)] prim [OF x(2)] by metis
  next
    fix x assume "x \<in> set rs" "ml_is_primary (?f x)"
    then show "activated_mail (?f x)" using prim D(3) r(2) unfolding core by blast
  qed
qed


lemma mails_ok_activate:
  assumes ok: "mails_ok K rs" and r: "r \<in> set rs" "ml_status r = ''pending''" "live_mail r"
    and alone: "\<forall>x\<in>set rs. K (ml_normalized x) = K (ml_normalized r) \<and> activated_mail x \<longrightarrow> K (ml_id x) = K (ml_id r)"
  shows "mails_ok K (update_where (\<lambda>x. K (ml_id x) = K (ml_id r)) (activate_row now False) rs)"
proof -
  let ?f = "\<lambda>x. if K (ml_id x) = K (ml_id r) then activate_row now False x else x"
  note D = mails_okD [OF ok]
  have core: "ml_normalized (?f x) = ml_normalized x" "ml_id (?f x) = ml_id x" "ml_user_id (?f x) = ml_user_id x" "ml_is_primary (?f x) = ml_is_primary x" for x
    by (simp_all add: activate_row_def)
  have act: "activated_mail (?f x) \<longleftrightarrow> x = r \<or> activated_mail x" if "x \<in> set rs" for x
    using D(1) [OF that r(1)] r(3) by (auto simp: activate_row_def activated_mail_def live_mail_def)
  have cnt: "counted_mail K u (?f x) = counted_mail K u x" if "x \<in> set rs" for x u
    using D(1) [OF that r(1)] r(2,3) by (auto simp: activate_row_def counted_mail_def live_mail_def)
  have same: "length (filter (counted_mail K u) (map ?f ys)) = length (filter (counted_mail K u) ys)" if "set ys \<subseteq> set rs" for u ys
    using that by (induction ys) (simp_all add: cnt)
  show ?thesis unfolding mails_ok_def update_where_map set_map ball_simps
  proof (intro conjI ballI impI allI)
    show "distinct (map (\<lambda>r. K (ml_id r)) (map ?f rs))" using ok by (simp add: mails_ok_def comp_def core)
    show "length (filter (counted_mail K u) (map ?f rs)) \<le> 5" for u using same [of rs] ok by (simp add: mails_ok_def)
    fix x y assume x: "x \<in> set rs" "y \<in> set rs"
    show "?f x = ?f y" if "activated_mail (?f x) \<and> activated_mail (?f y) \<and> K (ml_normalized (?f x)) = K (ml_normalized (?f y))"
      using that D(2) [OF x] D(1) [OF x] alone x unfolding core act [OF x(1)] act [OF x(2)] by metis
    show "?f x = ?f y" if "ml_is_primary (?f x) \<and> ml_is_primary (?f y) \<and> K (ml_user_id (?f x)) = K (ml_user_id (?f y))"
      using that D(4) [OF x] unfolding core by auto
  next
    fix x assume x: "x \<in> set rs" "ml_is_primary (?f x)"
    then show "activated_mail (?f x)" using act [OF x(1)] D(3) [OF x(1) x(1)] unfolding core by blast
  qed
qed

lemma activate_first:
  "update_where (\<lambda>x. K (ml_id x) = K i) (activate_row now True) rs =
   set_mail_primary K i (update_where (\<lambda>x. K (ml_id x) = K i) (activate_row now False) rs)"
  by (simp add: update_where_map set_mail_primary_def activate_row_def)

lemma mails_ok_activated:
  assumes ok: "mails_ok K rs" and r: "r \<in> set rs" "ml_status r = ''pending''" "live_mail r" "K (ml_user_id r) = K u"
    and alone: "\<forall>x\<in>set rs. K (ml_normalized x) = K (ml_normalized r) \<and> activated_mail x \<longrightarrow> K (ml_id x) = K (ml_id r)"
  shows "mails_ok K (update_where (\<lambda>x. K (ml_id x) = K (ml_id r)) (activate_row now (\<not> has_primary K u rs)) rs)"
proof (cases "has_primary K u rs")
  case True
  with mails_ok_activate [OF ok r(1-3) alone] show ?thesis by simp
next
  case False
  let ?rs = "update_where (\<lambda>x. K (ml_id x) = K (ml_id r)) (activate_row now False) rs" and ?r = "activate_row now False r"
  have "\<forall>x\<in>set rs. K (ml_user_id x) = K u \<longrightarrow> \<not> ml_is_primary x"
    using False mails_okD(3) [OF ok] by (auto simp: has_primary_def list_ex_iff)
  then have "\<forall>x\<in>set ?rs. K (ml_user_id x) = K (ml_user_id ?r) \<longrightarrow> \<not> ml_is_primary x"
    using r(4) by (auto simp: update_where_map activate_row_def)
  moreover have "?r \<in> set ?rs" "activated_mail ?r" using r by (auto simp: update_where_map activate_row_def activated_mail_def live_mail_def)
  ultimately have "mails_ok K (set_mail_primary K (ml_id ?r) ?rs)"
    by (intro mails_ok_promote [OF mails_ok_activate [OF ok r(1-3) alone]])
  with False show ?thesis by (simp add: activate_first activate_row_def)
qed

section \<open>Every request keeps it\<close>

lemma mails_ok_entry:
  assumes ok: "mails_ok K rs" and e: "mail_entry K now email_id user_id normalized hash masked rs = Some (eid, status, rs')"
  shows "mails_ok K rs'"
proof (cases "first_row (sort_key ml_added_at (filter (own_mail K user_id normalized) rs))")
  case None
  with e have "insert_mail K (pending_mail now email_id user_id normalized hash masked) rs = Some rs'" "length (filter (counted_mail K user_id) rs) < 5"
    by (auto simp: mail_entry_def split: if_splits option.splits)
  then show ?thesis by (rule mails_ok_pending [OF ok])
next
  case (Some r)
  have "tames K (\<lambda>x. if K (ml_id x) = K (ml_id r) then x\<lparr>ml_hash := hash, ml_masked := masked\<rparr> else x)"
    by (rule tames_if) (simp add: activated_mail_def live_mail_def counted_mail_def)
  from mails_ok_tamed [OF this ok] e Some show ?thesis by (auto simp: mail_entry_def update_where_map)
qed

lemma mails_ok_sent:
  assumes "mails_ok K rs" shows "mails_ok K (update_where P (\<lambda>r. r\<lparr>ml_last_sent := t\<rparr>) rs)"
  unfolding update_where_map
  by (rule mails_ok_tamed [OF _ assms], rule tames_if) (simp add: activated_mail_def live_mail_def counted_mail_def)

lemma no_primary_map:
  assumes "\<And>y. y \<in> set rs \<Longrightarrow> K (ml_user_id y) = K u \<Longrightarrow> \<not> ml_is_primary (f y)" "\<And>y. ml_user_id (f y) = ml_user_id y" "K v = K u"
  shows "\<forall>y\<in>set (map f rs). K (ml_user_id y) = K v \<longrightarrow> \<not> ml_is_primary y"
  using assms by auto

lemma mails_ok_remove:
  assumes ok: "mails_ok K (mt_emails T)"
  shows "mails_ok K (mt_emails (snd (sp_user_email_remove K now user_id email_id T)))"
proof (cases "List.find (owned_live K user_id email_id) (mt_emails T)")
  case None
  with ok show ?thesis by (simp add: sp_user_email_remove_def committed_def)
next
  case (Some r)
  let ?f = "\<lambda>x. if K (ml_id x) = K email_id then x\<lparr>ml_status := ''removed'', ml_is_primary := False, ml_removed_at := Some now\<rparr> else x"
  have r: "r \<in> set (mt_emails T)" "K (ml_id r) = K email_id" "K (ml_user_id r) = K user_id"
    using Some by (auto simp: find_Some_iff owned_live_def)
  have uid: "ml_user_id (?f x) = ml_user_id x" for x by simp
  have "tames K ?f" by (rule tames_if) (simp add: activated_mail_def live_mail_def counted_mail_def)
  then have removed: "mails_ok K (map ?f (mt_emails T))" by (rule mails_ok_tamed [OF _ ok])
  have promoted: "mails_ok K (set_mail_primary K (ml_id x) (map ?f (mt_emails T)))"
    if p: "ml_is_primary r" and x: "first_row (oldest_first (filter (\<lambda>x. K (ml_user_id x) = K user_id \<and> activated_mail x) (map ?f (mt_emails T)))) = Some x" for x
  proof (rule mails_ok_promote [OF removed])
    have "x \<in> set (oldest_first (filter (\<lambda>x. K (ml_user_id x) = K user_id \<and> activated_mail x) (map ?f (mt_emails T))))"
      using x by (auto simp: first_row_def split: list.splits)
    then have X: "x \<in> set (map ?f (mt_emails T))" "K (ml_user_id x) = K user_id" "activated_mail x" by (auto simp: oldest_first_def sql_asc_def)
    then show "x \<in> set (map ?f (mt_emails T))" "activated_mail x" by blast+
    have "\<not> ml_is_primary (?f y)" if "y \<in> set (mt_emails T)" "K (ml_user_id y) = K user_id" for y
    proof (cases "ml_is_primary y")
      case True
      with mails_okD(4) [OF ok that(1) r(1)] that(2) p r(3) have "y = r" by simp
      with r show ?thesis by simp
    qed simp
    then show "\<forall>y\<in>set (map ?f (mt_emails T)). K (ml_user_id y) = K (ml_user_id x) \<longrightarrow> \<not> ml_is_primary y" 
      using X(2) by (intro no_primary_map [where u = user_id and f = ?f] uid)
  qed
  show ?thesis using Some removed promoted
    by (auto simp: sp_user_email_remove_def committed_def Let_def update_where_map split: option.splits)
qed

lemma mails_ok_primary:
  assumes ok: "mails_ok K (mt_emails T)"
  shows "mails_ok K (mt_emails (snd (sp_user_email_set_primary K user_id email_id T)))"
proof (cases "List.find (\<lambda>r. owned_live K user_id email_id r \<and> ml_status r = ''activated'') (mt_emails T)")
  case None
  with ok show ?thesis by (simp add: sp_user_email_set_primary_def committed_def)
next
  case (Some r)
  let ?f = "\<lambda>x. if K (ml_user_id x) = K user_id \<and> live_mail x \<and> ml_is_primary x then x\<lparr>ml_is_primary := False\<rparr> else x"
  have r: "r \<in> set (mt_emails T)" "K (ml_id r) = K email_id" "K (ml_user_id r) = K user_id" "activated_mail r"
    using Some by (auto simp: find_Some_iff owned_live_def activated_mail_def)
  have uid: "ml_user_id (?f x) = ml_user_id x" for x by simp
  have "tames K ?f" by (rule tames_if) (simp add: activated_mail_def live_mail_def counted_mail_def)
  then have plain: "mails_ok K (map ?f (mt_emails T))" by (rule mails_ok_tamed [OF _ ok])
  have "mails_ok K (set_mail_primary K (ml_id (?f r)) (map ?f (mt_emails T)))"
  proof (rule mails_ok_promote [OF plain])
    show "?f r \<in> set (map ?f (mt_emails T))" using r(1) by simp
    show "activated_mail (?f r)" using r(4) by (simp add: activated_mail_def live_mail_def)
    have "\<not> ml_is_primary (?f y)" if "y \<in> set (mt_emails T)" "K (ml_user_id y) = K user_id" for y
      using mails_okD(3) [OF ok that(1) that(1)] that(2) by (auto simp: activated_mail_def)
    then show "\<forall>y\<in>set (map ?f (mt_emails T)). K (ml_user_id y) = K (ml_user_id (?f r)) \<longrightarrow> \<not> ml_is_primary y" 
      using r(3) uid [of r] by (intro no_primary_map [where u = user_id and f = ?f] uid) simp_all
  qed
  moreover have "K (ml_id (?f r)) = K email_id" using r(2) by auto
  then have "set_mail_primary K (ml_id (?f r)) = set_mail_primary K email_id" unfolding set_mail_primary_def by (rule arg_cong)
  ultimately show ?thesis using Some by (simp add: sp_user_email_set_primary_def committed_def update_where_map)
qed


lemma mails_ok_create:
  assumes ok: "mails_ok K (mt_emails T)" and owned: "\<forall>r\<in>set (mt_emails T). K (ml_user_id r) \<in> (\<lambda>u. K (u_id u)) ` set (mt_users T)"
  shows "mails_ok K (mt_emails (create_account K now u mail T))"
proof (cases "list_ex (\<lambda>x. K (u_id x) = K (u_id u) \<or> K (u_user_hash x) = K (u_user_hash u) \<or> K (u_username x) = K (u_username u)) (mt_users T)")
  case True
  with ok show ?thesis by (simp add: create_account_def)
next
  case False
  then have "filter (counted_mail K (u_id u)) (mt_emails T) = []"
    using owned by (force simp: filter_empty_conv counted_mail_def list_ex_iff)
  with mails_ok_pending [OF ok, of now _ "u_id u"] ok False show ?thesis
    by (auto simp: create_account_def Let_def split: option.split)
qed

text \<open>The foreign key of an address to its account.\<close>

definition mails_owned :: "(string \<Rightarrow> string) \<Rightarrow> mail_tables \<Rightarrow> bool" where
  "mails_owned K T \<longleftrightarrow> (\<forall>r\<in>set (mt_emails T). K (ml_user_id r) \<in> (\<lambda>u. K (u_id u)) ` set (mt_users T))"

lemma mails_ok_run:
  assumes "run_mail_op K sha2 now op T = (b, T')" and ok: "mails_ok K (mt_emails T)" and owned: "mails_owned K T"
  shows "mails_ok K (mt_emails T')"
proof (cases op)
  case (Add_mail email_id user_id email hash masked n)
  then have e: "sp_user_email_add_and_enqueue K now email_id user_id email hash masked n T = (fst (sp_user_email_add_and_enqueue K now email_id user_id email hash masked n T), T')"
    using assms(1) by (auto simp: prod_eq_iff)
  show ?thesis using e
  proof (cases rule: add_mail_cases)
    case (sent eid status rs out)
    have "mails_ok K rs" using ok sent(1) by (rule mails_ok_entry)
    with sent(2) show ?thesis by (elim send_activation_Some) (simp add: mails_ok_sent)
  qed (simp_all add: ok mails_ok_entry [OF ok])
next
  case (Resend_mail user_id email_id cooldown n)
  then have e: "sp_user_email_resend_and_enqueue K now user_id email_id cooldown n T = (fst (sp_user_email_resend_and_enqueue K now user_id email_id cooldown n T), T')"
    using assms(1) by (auto simp: prod_eq_iff)
  show ?thesis using e
  proof (cases rule: resend_mail_cases)
    case (sent x out)
    from sent(2) ok show ?thesis by (elim send_activation_Some) (simp add: mails_ok_sent)
  qed (simp add: ok)
next
  case (Activate_mail lookup_id hash)
  then have e: "sp_consume_email_activation_token K now lookup_id hash T = (fst (sp_consume_email_activation_token K now lookup_id hash T), T')"
    using assms(1) by (auto simp: prod_eq_iff)
  show ?thesis using e
  proof (cases rule: activate_cases)
    case (activated h l r)
    have "r \<in> set (mt_emails T)" "ml_status r = ''pending''" "live_mail r" "K (ml_user_id r) = K (lk_user_id l)"
      using activated(6) by (auto simp: pending_target_def find_Some_iff owned_live_def split: option.splits)
    then show ?thesis using mails_ok_activated [OF ok] activated(7,8) by (auto simp: list_ex_iff)
  qed (simp add: ok)
next
  case (Forgot_password who n)
  then have e: "sp_password_reset_link_enqueue K sha2 now who n T = (fst (sp_password_reset_link_enqueue K sha2 now who n T), T')"
    using assms(1) by (auto simp: prod_eq_iff)
  show ?thesis using e
  proof (cases rule: forgot_cases)
    case (sent uid u x T1)
    from sent(3) ok sent(5) show ?thesis by (elim send_reset_Some) simp
  qed (simp add: ok)
next
  case (Admin_reset user_id n)
  then have e: "sp_admin_password_reset_link_enqueue K sha2 now user_id n T = (fst (sp_admin_password_reset_link_enqueue K sha2 now user_id n T), T')"
    using assms(1) by (auto simp: prod_eq_iff)
  show ?thesis using e
  proof (cases rule: admin_reset_cases)
    case (sent u x)
    from sent(3) ok show ?thesis by (elim send_reset_Some) simp
  qed (simp add: ok)
next
  case (Reset_password lookup_id hash new_hash)
  then have e: "sp_consume_password_reset_token K sha2 now lookup_id hash new_hash T = (fst (sp_consume_password_reset_token K sha2 now lookup_id hash new_hash T), T')"
    using assms(1) by (auto simp: prod_eq_iff split: prod.splits)
  show ?thesis using e by (cases rule: reset_cases) (simp_all add: ok)
next
  case (Suppress_mail hash)
  have "tames K (\<lambda>r. if ml_hash r = hash \<and> activated_mail r then r\<lparr>ml_status := ''suppressed'', ml_is_primary := False\<rparr> else r)"
    by (rule tames_if) (simp add: activated_mail_def live_mail_def counted_mail_def)
  with mails_ok_tamed [OF _ ok] assms(1) Suppress_mail show ?thesis by (auto simp: suppress_mail_def update_where_map)
next
  case (Erase_user user_id)
  have "tames K (\<lambda>r. if K (ml_user_id r) = K user_id then erased_mail sha2 now r else r)"
    by (rule tames_if) (simp add: erased_mail_def activated_mail_def live_mail_def counted_mail_def split: option.split)
  with mails_ok_tamed [OF _ ok] assms(1) Erase_user show ?thesis by (auto simp: sp_anonymize_user_email_data_def Let_def update_where_map)
qed (use assms(1) ok owned in \<open>auto simp: mails_ok_remove mails_ok_primary mails_ok_filter mails_ok_create mails_owned_def sp_hard_delete_user_def
    sp_email_retention_purge_def Let_def\<close>)


section \<open>Who owns and who activates an address\<close>

definition mail_users :: "(string \<Rightarrow> string) \<Rightarrow> mail_row list \<Rightarrow> string set" where
  "mail_users K rs = (\<lambda>r. K (ml_user_id r)) ` set rs"

definition user_keys :: "(string \<Rightarrow> string) \<Rightarrow> user_row list \<Rightarrow> string set" where
  "user_keys K us = (\<lambda>u. K (u_id u)) ` set us"

definition activated_ids :: "(string \<Rightarrow> string) \<Rightarrow> mail_row list \<Rightarrow> string set" where
  "activated_ids K rs = {K (ml_id r) | r. r \<in> set rs \<and> activated_mail r}"

lemma mails_owned_iff: "mails_owned K T \<longleftrightarrow> mail_users K (mt_emails T) \<subseteq> user_keys K (mt_users T)"
  by (auto simp: mails_owned_def mail_users_def user_keys_def)

lemma user_keys_update [simp]: "(\<And>u. u_id (f u) = u_id u) \<Longrightarrow> user_keys K (update_where P f us) = user_keys K us"
  unfolding user_keys_def update_where_map set_map image_image by (rule image_cong) auto

lemma mail_users_update [simp]: "(\<And>r. ml_user_id (f r) = ml_user_id r) \<Longrightarrow> mail_users K (update_where P f rs) = mail_users K rs"
  unfolding mail_users_def update_where_map set_map image_image by (rule image_cong) auto

lemma activated_ids_update:
  "(\<And>r. P r \<Longrightarrow> ml_id (f r) = ml_id r \<and> (activated_mail (f r) \<longrightarrow> activated_mail r)) \<Longrightarrow> activated_ids K (update_where P f rs) \<subseteq> activated_ids K rs"
  by (auto simp: activated_ids_def update_where_map split: if_splits)

lemma account_keys [simp]:
  "user_keys K (set_password K i h us) = user_keys K us" "user_keys K (sp_set_user_status K i c us) = user_keys K us"
  "user_keys K (snd (sp_change_user_password_if_hash_matches K i e h us)) = user_keys K us" "user_keys K (sp_update_user K i n t us) = user_keys K us"
  by (simp_all add: set_password_def sp_set_user_status_def sp_change_user_password_if_hash_matches_def sp_update_user_def Let_def)

lemma address_users [simp]:
  "mail_users K (set_mail_primary K e rs) = mail_users K rs" "mail_users K (suppress_mail h rs) = mail_users K rs"
  by (simp_all add: set_mail_primary_def suppress_mail_def)

lemma address_activations [simp]:
  "activated_ids K (set_mail_primary K e rs) \<subseteq> activated_ids K rs" "activated_ids K (suppress_mail h rs) \<subseteq> activated_ids K rs"
  "activated_ids K (update_where P (\<lambda>r. r\<lparr>ml_last_sent := t\<rparr>) rs) \<subseteq> activated_ids K rs" "activated_ids K (filter Q rs) \<subseteq> activated_ids K rs"
proof -
  show "activated_ids K (set_mail_primary K e rs) \<subseteq> activated_ids K rs" "activated_ids K (suppress_mail h rs) \<subseteq> activated_ids K rs"
    "activated_ids K (update_where P (\<lambda>r. r\<lparr>ml_last_sent := t\<rparr>) rs) \<subseteq> activated_ids K rs"
    unfolding set_mail_primary_def suppress_mail_def by (rule activated_ids_update, simp add: activated_mail_def live_mail_def)+
  show "activated_ids K (filter Q rs) \<subseteq> activated_ids K rs" by (auto simp: activated_ids_def)
qed

lemma entry_users:
  assumes "mail_entry K now email_id user_id normalized hash masked rs = Some (eid, status, rs')"
  shows "mail_users K rs' \<subseteq> insert (K user_id) (mail_users K rs)" "activated_ids K rs' \<subseteq> activated_ids K rs"
proof -
  have p: "\<not> activated_mail (pending_mail now email_id user_id normalized hash masked)" "ml_user_id (pending_mail now email_id user_id normalized hash masked) = user_id"
    by (simp_all add: pending_mail_def activated_mail_def)
  have upd: "activated_ids K (update_where P (\<lambda>x. x\<lparr>ml_hash := hash, ml_masked := masked\<rparr>) rs) \<subseteq> activated_ids K rs" for P
    by (rule activated_ids_update) (simp add: activated_mail_def live_mail_def)
  show "mail_users K rs' \<subseteq> insert (K user_id) (mail_users K rs)"
    using assms p(2) by (auto simp: mail_entry_def insert_mail_def mail_users_def update_where_map split: option.splits if_splits)
  show "activated_ids K rs' \<subseteq> activated_ids K rs"
    using assms p(1) upd by (auto simp: mail_entry_def insert_mail_def activated_ids_def split: option.splits if_splits)
qed

lemma created_users:
  "mail_users K (mt_emails (create_account K now u mail T)) \<subseteq> user_keys K (mt_users (create_account K now u mail T))"
  "activated_ids K (mt_emails (create_account K now u mail T)) \<subseteq> activated_ids K (mt_emails T)"
  if "mail_users K (mt_emails T) \<subseteq> user_keys K (mt_users T)"
  using that by (auto simp: create_account_def Let_def insert_mail_def mail_users_def user_keys_def activated_ids_def pending_mail_def activated_mail_def
      split: option.splits if_splits)


lemma removed_rows:
  "mail_users K (mt_emails (snd (sp_user_email_remove K now i e T))) = mail_users K (mt_emails T)"
  "activated_ids K (mt_emails (snd (sp_user_email_remove K now i e T))) \<subseteq> activated_ids K (mt_emails T)"
  "mt_users (snd (sp_user_email_remove K now i e T)) = mt_users T"
proof -
  let ?rs = "update_where (\<lambda>x. K (ml_id x) = K e) (\<lambda>x. x\<lparr>ml_status := ''removed'', ml_is_primary := False, ml_removed_at := Some now\<rparr>) (mt_emails T)"
  have cases: "mt_emails (snd (sp_user_email_remove K now i e T)) \<in> {mt_emails T, ?rs} \<union> range (\<lambda>x. set_mail_primary K x ?rs)"
    by (auto simp: sp_user_email_remove_def committed_def Let_def split: option.splits)
  have sub: "activated_ids K ?rs \<subseteq> activated_ids K (mt_emails T)" by (rule activated_ids_update) (simp add: activated_mail_def)
  show "mail_users K (mt_emails (snd (sp_user_email_remove K now i e T))) = mail_users K (mt_emails T)" using cases by auto
  show "activated_ids K (mt_emails (snd (sp_user_email_remove K now i e T))) \<subseteq> activated_ids K (mt_emails T)"
    using cases sub by (auto dest: subsetD [OF order_trans [OF address_activations(1) sub]])
  show "mt_users (snd (sp_user_email_remove K now i e T)) = mt_users T"
    by (auto simp: sp_user_email_remove_def committed_def Let_def split: option.splits)
qed

lemma primary_rows:
  "mail_users K (mt_emails (snd (sp_user_email_set_primary K i e T))) = mail_users K (mt_emails T)"
  "activated_ids K (mt_emails (snd (sp_user_email_set_primary K i e T))) \<subseteq> activated_ids K (mt_emails T)"
  "mt_users (snd (sp_user_email_set_primary K i e T)) = mt_users T"
proof -
  let ?rs = "update_where (\<lambda>x. K (ml_user_id x) = K i \<and> live_mail x \<and> ml_is_primary x) (\<lambda>x. x\<lparr>ml_is_primary := False\<rparr>) (mt_emails T)"
  have cases: "mt_emails (snd (sp_user_email_set_primary K i e T)) \<in> {mt_emails T, set_mail_primary K e ?rs}"
    by (auto simp: sp_user_email_set_primary_def committed_def split: option.splits)
  have sub: "activated_ids K ?rs \<subseteq> activated_ids K (mt_emails T)" by (rule activated_ids_update) (simp add: activated_mail_def live_mail_def)
  show "mail_users K (mt_emails (snd (sp_user_email_set_primary K i e T))) = mail_users K (mt_emails T)" using cases by auto
  show "activated_ids K (mt_emails (snd (sp_user_email_set_primary K i e T))) \<subseteq> activated_ids K (mt_emails T)"
    using cases by (auto dest: subsetD [OF order_trans [OF address_activations(1) sub]])
  show "mt_users (snd (sp_user_email_set_primary K i e T)) = mt_users T"
    by (auto simp: sp_user_email_set_primary_def committed_def split: option.splits)
qed

lemma erased_rows:
  "mail_users K (update_where P (erased_mail sha2 now) rs) = mail_users K rs" "activated_ids K (update_where P (erased_mail sha2 now) rs) \<subseteq> activated_ids K rs"
proof -
  show "mail_users K (update_where P (erased_mail sha2 now) rs) = mail_users K rs" by (rule mail_users_update) (simp add: erased_mail_def)
  show "activated_ids K (update_where P (erased_mail sha2 now) rs) \<subseteq> activated_ids K rs" by (rule activated_ids_update) (simp add: erased_mail_def activated_mail_def)
qed

lemma deleted_users:
  "mail_users K (mt_emails T) \<subseteq> user_keys K (mt_users T) \<Longrightarrow>
   mail_users K (mt_emails (sp_hard_delete_user K i T)) \<subseteq> user_keys K (mt_users (sp_hard_delete_user K i T))"
  by (force simp: sp_hard_delete_user_def Let_def mail_users_def user_keys_def)

text \<open>Every request keeps the owner of an address, and only an activation adds to the activated ones.\<close>

lemma run_rows:
  assumes run: "run_mail_op K sha2 now op T = (b, T')" and owned: "mails_owned K T"
  shows "mails_owned K T'" and "(\<forall>q hash. op \<noteq> Activate_mail q hash) \<Longrightarrow> activated_ids K (mt_emails T') \<subseteq> activated_ids K (mt_emails T)"
proof -
  note own = owned [unfolded mails_owned_iff]
  have "mails_owned K T' \<and> ((\<forall>q hash. op \<noteq> Activate_mail q hash) \<longrightarrow> activated_ids K (mt_emails T') \<subseteq> activated_ids K (mt_emails T))"
  proof (cases op)
    case (Add_mail email_id user_id email hash masked n)
    then have e: "sp_user_email_add_and_enqueue K now email_id user_id email hash masked n T = (fst (sp_user_email_add_and_enqueue K now email_id user_id email hash masked n T), T')"
      using run by (auto simp: prod_eq_iff)
    have act: "K user_id \<in> user_keys K (mt_users T) \<or> T' = T"
      using e by (cases "active_user K user_id T") (force simp: active_user_def list_ex_iff user_keys_def, simp add: sp_user_email_add_and_enqueue_def committed_def)
    show ?thesis using e
    proof (cases rule: add_mail_cases)
      case refused
      with owned show ?thesis by simp
    next
      case (known eid status rs)
      from act show ?thesis
      proof
        assume "K user_id \<in> user_keys K (mt_users T)"
        with known(2) entry_users [OF known(1)] own show ?thesis by (auto simp: mails_owned_iff)
      qed (simp add: owned)
    next
      case (sent eid status rs out)
      from sent(2) entry_users [OF sent(1)] own act owned show ?thesis
        by (elim send_activation_Some) (auto simp: mails_owned_iff dest: subsetD [OF address_activations(3)])
    qed
  next
    case (Resend_mail user_id email_id cooldown n)
    then have e: "sp_user_email_resend_and_enqueue K now user_id email_id cooldown n T = (fst (sp_user_email_resend_and_enqueue K now user_id email_id cooldown n T), T')"
      using run by (auto simp: prod_eq_iff)
    show ?thesis using e
    proof (cases rule: resend_mail_cases)
      case (sent x out)
      from sent(2) own show ?thesis by (elim send_activation_Some) (simp add: mails_owned_iff)
    qed (simp add: owned)
  next
    case (Activate_mail q hash)
    then have e: "sp_consume_email_activation_token K now q hash T = (fst (sp_consume_email_activation_token K now q hash T), T')"
      using run by (auto simp: prod_eq_iff)
    show ?thesis using e by (cases rule: activate_cases) (use own in \<open>auto simp: mails_owned_iff Activate_mail activate_row_def\<close>)
  next
    case (Forgot_password who n)
    then have e: "sp_password_reset_link_enqueue K sha2 now who n T = (fst (sp_password_reset_link_enqueue K sha2 now who n T), T')"
      using run by (auto simp: prod_eq_iff)
    show ?thesis using e
    proof (cases rule: forgot_cases)
      case (sent uid u x T1)
      from sent(3,5,6) own show ?thesis by (elim send_reset_Some) (simp add: mails_owned_iff)
    qed (use own in \<open>simp add: mails_owned_iff\<close>)
  next
    case (Admin_reset user_id n)
    then have e: "sp_admin_password_reset_link_enqueue K sha2 now user_id n T = (fst (sp_admin_password_reset_link_enqueue K sha2 now user_id n T), T')"
      using run by (auto simp: prod_eq_iff)
    show ?thesis using e
    proof (cases rule: admin_reset_cases)
      case (sent u x)
      from sent(3) own show ?thesis by (elim send_reset_Some) (simp add: mails_owned_iff)
    qed (simp add: owned)
  next
    case (Reset_password q hash new_hash)
    then have e: "sp_consume_password_reset_token K sha2 now q hash new_hash T = (fst (sp_consume_password_reset_token K sha2 now q hash new_hash T), T')"
      using run by (auto simp: prod_eq_iff split: prod.splits)
    show ?thesis using e by (cases rule: reset_cases) (use own in \<open>simp_all add: mails_owned_iff\<close>)
  next
    case (Delete_user i)
    have "mt_emails (sp_hard_delete_user K i T) = filter (\<lambda>r. K (ml_user_id r) \<noteq> K i) (mt_emails T)" by (simp add: sp_hard_delete_user_def Let_def)
    with run Delete_user deleted_users [OF own, of i] show ?thesis by (auto simp: mails_owned_iff dest: subsetD [OF address_activations(4)])
  qed (use run own in \<open>auto simp: mails_owned_iff removed_rows primary_rows erased_rows created_users sp_anonymize_user_email_data_def
      sp_email_retention_purge_def Let_def dest: subsetD [OF address_activations(2)] subsetD [OF removed_rows(2)] subsetD [OF primary_rows(2)]
        subsetD [OF erased_rows(2)] subsetD [OF created_users(1)] subsetD [OF created_users(2)]\<close>)
  then show "mails_owned K T'" "(\<forall>q hash. op \<noteq> Activate_mail q hash) \<Longrightarrow> activated_ids K (mt_emails T') \<subseteq> activated_ids K (mt_emails T)" by blast+
qed


lemma addresses_ok:
  assumes "mail_start x" "mail_reach K sha2 x y"
  shows "mails_ok K (mt_emails (sys_tables y)) \<and> mails_owned K (sys_tables y)"
  using assms(2) unfolding mail_reach_def
proof induction
  case base
  with assms(1) show ?case by (simp add: mail_start_def mails_ok_def mails_owned_def)
next
  case (step y z)
  from step.hyps(2) show ?case
    by (cases rule: mail_step.cases) (use step.IH mails_ok_run run_rows(1) in auto)
qed




section \<open>Where links are mailed to\<close>

definition message_ids :: "(string \<Rightarrow> string) \<Rightarrow> mail_tables \<Rightarrow> string set" where
  "message_ids K T = (\<lambda>m. K (ms_id m)) ` set (mt_messages T)"

text \<open>A message that carries a link to reset the password of the account that the recipient belongs to.\<close>

definition carries_reset :: "(string \<Rightarrow> string) \<Rightarrow> message_row \<Rightarrow> mail_tables \<Rightarrow> mail_tables \<Rightarrow> bool" where
  "carries_reset K m T T' \<longleftrightarrow>
     (\<exists>l\<in>set (mt_links T'). \<exists>r\<in>set (mt_emails T). ms_token_id m = Some (lk_id l) \<and> reset_link l \<and> open_link l \<and>
        activated_mail r \<and> ms_recipient m = Some (ml_normalized r) \<and> K (ml_user_id r) = K (lk_user_id l) \<and> active_user K (lk_user_id l) T)"

text \<open>A message that carries a link to activate a pending address which is the recipient, as far as the collation can tell.\<close>

definition carries_activation :: "(string \<Rightarrow> string) \<Rightarrow> message_row \<Rightarrow> mail_tables \<Rightarrow> bool" where
  "carries_activation K m T' \<longleftrightarrow>
     (\<exists>l\<in>set (mt_links T'). \<exists>r\<in>set (mt_emails T'). \<exists>t e. ms_token_id m = Some (lk_id l) \<and> lk_purpose l = ''email_activation'' \<and> open_link l \<and>
        lk_email_id l = Some e \<and> K e = K (ml_id r) \<and> ml_status r = ''pending'' \<and> live_mail r \<and> ms_recipient m = Some t \<and>
        K t = K (ml_normalized r) \<and> K (ml_user_id r) = K (lk_user_id l))"

lemma first_row_in: "first_row xs = Some x \<Longrightarrow> x \<in> set xs"
  by (auto simp: first_row_def split: list.splits)

lemma primary_first_set [simp]: "set (primary_first rs) = set rs"
  by (auto simp: primary_first_def oldest_first_def sql_asc_def)

lemma send_reset_mails:
  assumes "send_reset K sha2 now purpose priority u user_id r n T = Some T1" and "purpose \<in> set reset_purposes"
    and "mt_links T' = mt_links T1" "m \<in> set (mt_messages T1)" "K (ms_id m) \<notin> message_ids K T"
    and "r \<in> set (mt_emails T)" "activated_mail r" "K (ml_user_id r) = K user_id" "active_user K user_id T"
  shows "carries_reset K m T T'"
  using assms(1)
proof (rule send_reset_Some)
  fix h
  let ?n = "n\<lparr>nl_hash := bound_hash sha2 (nl_hash n) user_id (u_password_hash u)\<rparr>"
  assume L: "mt_links T1 = map h (mt_links T) @ [link_row_of user_id (ml_id r) purpose ?n]"
    and M: "mt_messages T1 = mt_messages T @ [message_row_of now user_id (ml_id r) (ml_normalized r) purpose priority ?n]"
  have "m = message_row_of now user_id (ml_id r) (ml_normalized r) purpose priority ?n" using M assms(4,5) by (auto simp: message_ids_def)
  then show ?thesis unfolding carries_reset_def
    by (intro bexI [of _ "link_row_of user_id (ml_id r) purpose ?n"] bexI [of _ r]) (use assms L in \<open>simp_all add: reset_link_def\<close>)
qed

lemma send_activation_mails:
  assumes "send_activation K now user_id eid address reason outcome n T = Some (out, T')"
    and "m \<in> set (mt_messages T')" "K (ms_id m) \<notin> message_ids K T"
    and "r \<in> set (mt_emails T)" "ml_status r = ''pending''" "live_mail r" "K (ml_id r) = K eid" "K address = K (ml_normalized r)" "K (ml_user_id r) = K user_id"
  shows "carries_activation K m T'"
  using assms(1)
proof (rule send_activation_Some)
  fix h
  assume L: "mt_links T' = map h (mt_links T) @ [link_row_of user_id eid ''email_activation'' n]"
    and M: "mt_messages T' = mt_messages T @ [message_row_of now user_id eid address ''email_activation'' 5 n]"
    and E: "mt_emails T' = update_where (\<lambda>r. K (ml_id r) = K eid) (\<lambda>r. r\<lparr>ml_last_sent := Some now\<rparr>) (mt_emails T)"
  have m: "m = message_row_of now user_id eid address ''email_activation'' 5 n" using M assms(2,3) by (auto simp: message_ids_def)
  have "r\<lparr>ml_last_sent := Some now\<rparr> \<in> set (mt_emails T')" using E assms(4,7) by (force simp: update_where_map)
  then show ?thesis unfolding carries_activation_def
    by (intro bexI [of _ "link_row_of user_id eid ''email_activation'' n"] bexI [of _ "r\<lparr>ml_last_sent := Some now\<rparr>"])
      (use assms L m in \<open>simp_all add: live_mail_def\<close>)
qed

lemma entry_row:
  assumes "mail_entry K now email_id user_id normalized hash masked rs = Some (eid, status, rs')" "status \<notin> {''activated'', ''suppressed''}"
  obtains r where "r \<in> set rs'" "ml_status r = ''pending''" "live_mail r" "K (ml_id r) = K eid" "K normalized = K (ml_normalized r)" "K (ml_user_id r) = K user_id"
proof (cases "first_row (sort_key ml_added_at (filter (own_mail K user_id normalized) rs))")
  case None
  with assms(1) show thesis
    by (intro that [of "pending_mail now email_id user_id normalized hash masked"])
      (auto simp: mail_entry_def insert_mail_def pending_mail_def live_mail_def split: if_splits option.splits)
next
  case (Some r)
  then have r: "r \<in> set rs" "own_mail K user_id normalized r" using first_row_in [OF Some] by auto
  have s: "eid = ml_id r" "status = ml_status r" "rs' = map (\<lambda>x. if K (ml_id x) = K (ml_id r) then x\<lparr>ml_hash := hash, ml_masked := masked\<rparr> else x) rs"
    using assms(1) Some by (auto simp: mail_entry_def update_where_map)
  show thesis
    by (rule that [of "r\<lparr>ml_hash := hash, ml_masked := masked\<rparr>"]) (use r s assms(2) in \<open>force simp: own_mail_def live_mail_def\<close>)+
qed

lemma message_ids_update: "(\<And>m. ms_id (f m) = ms_id m) \<Longrightarrow> (\<lambda>m. K (ms_id m)) ` set (update_where P f ms) = (\<lambda>m. K (ms_id m)) ` set ms"
  unfolding update_where_map set_map image_image by (rule image_cong) auto

lemma other_messages:
  "message_ids K (sp_hard_delete_user K i T) = message_ids K T" "message_ids K (sp_anonymize_user_email_data K sha2 now i T) = message_ids K T"
  "message_ids K (sp_email_retention_purge K now T) = message_ids K T" "message_ids K (create_account K now u mail T) = message_ids K T"
proof -
  show "message_ids K (sp_hard_delete_user K i T) = message_ids K T"
    by (simp add: message_ids_def sp_hard_delete_user_def Let_def image_image)
  show "message_ids K (sp_anonymize_user_email_data K sha2 now i T) = message_ids K T"
    by (simp add: message_ids_def sp_anonymize_user_email_data_def Let_def message_ids_update image_image)
  show "message_ids K (sp_email_retention_purge K now T) = message_ids K T"
    by (simp add: message_ids_def sp_email_retention_purge_def Let_def image_image)
  show "message_ids K (create_account K now u mail T) = message_ids K T" by (simp add: message_ids_def user_op_links)
qed




section \<open>Two limits\<close>

text \<open>
  The table's collation ignores accents, and an address that equals a pending one only in the collation shares its row:
  the link is mailed to the accented address and activates the plain one, which received nothing that was used.
\<close>

definition demo_collation :: "string \<Rightarrow> string" where
  "demo_collation s = map (\<lambda>c. if c = CHR 0xE1 then CHR ''a'' else c) s"

definition demo_lookalike :: "mail_sys option" where
  "demo_lookalike = mail_run demo_collation (\<lambda>s. s)
     [(10, Add_mail ''e1'' ''u1'' ''ann@x.org'' ''eh'' ''a***'' (demo_new_link ''1'' ''h1'')),
      (20, Add_mail ''e2'' ''u1'' (CHR 0xE1 # ''nn@x.org'') ''eh'' ''a***'' (demo_new_link ''2'' ''h2'')),
      (30, Activate_mail ''l2'' ''h2'')] demo_mail_start"

lemma lookalike_activates:
  "map_option (\<lambda>y. (map (\<lambda>r. (ml_normalized r, ml_status r)) (mt_emails (sys_tables y)),
      map (\<lambda>m. (ms_token_id m, ms_recipient m)) (mt_messages (sys_tables y)),
      map (\<lambda>l. (lk_id l, lk_consumed_at l)) (mt_links (sys_tables y)))) demo_lookalike =
   Some ([(''ann@x.org'', ''activated'')],
     [(Some ''t1'', Some ''ann@x.org''), (Some ''t2'', Some (CHR 0xE1 # ''nn@x.org''))],
     [(''t1'', None), (''t2'', Some 30)])"
  by code_simp

text \<open>An expired ledger entry refuses every new request under its key, and the purge keeps it.\<close>

lemma expired_key_blocks:
  assumes "r \<in> set (mt_ledger T)" "ledger_hit K (id_scope i) (id_key_hash i) r"
    and "\<forall>x\<in>set (mt_ledger T). ledger_hit K (id_scope i) (id_key_hash i) x \<longrightarrow> ik_expires_at x \<le> now"
  shows "sp_email_idempotency_begin K now i user_id (mt_ledger T) = (None, mt_ledger T)"
    and "\<exists>x\<in>set (mt_ledger (sp_email_retention_purge K later T)). ledger_hit K (id_scope i) (id_key_hash i) x \<and> ik_expires_at x \<le> now"
proof -
  have "List.find (\<lambda>x. ledger_hit K (id_scope i) (id_key_hash i) x \<and> now < ik_expires_at x) (mt_ledger T) = None"
    using assms(3) by (auto simp: find_None_iff)
  moreover have "list_ex (same_ledger_key K i) (mt_ledger T)" using assms(1,2) by (auto simp: list_ex_iff same_ledger_key_def ledger_hit_def)
  ultimately show "sp_email_idempotency_begin K now i user_id (mt_ledger T) = (None, mt_ledger T)" by (simp add: sp_email_idempotency_begin_def)
  show "\<exists>x\<in>set (mt_ledger (sp_email_retention_purge K later T)). ledger_hit K (id_scope i) (id_key_hash i) x \<and> ik_expires_at x \<le> now"
    by (rule bexI [of _ "if ik_expires_at r \<le> later then r\<lparr>ik_status := ''expired''\<rparr> else r"])
      (use assms in \<open>auto simp: sp_email_retention_purge_def Let_def update_where_map ledger_hit_def\<close>)
qed

end
