(* ===== verification/Password_Policy.thy ===== *)
theory Password_Policy
  imports Text
begin

text \<open>
  The password policy of \<^verbatim>\<open>src/src/Util/password_security.py\<close>: minimum length, deny list, identifiers of the account and
  repeated or sequential characters. Argon2 is third-party and not part of it. \<^verbatim>\<open>casefold\<close> is exact on the code
  points below 256 but the micro sign, which folds to a Greek letter outside of them.
\<close>

section \<open>Normal forms\<close>

definition fold_char :: "char \<Rightarrow> string" where
  "fold_char c = (if code_point c = 223 then ''ss'' else [lower_char c])"

definition casefold :: "string \<Rightarrow> string" where
  "casefold s = concat (map fold_char s)"

definition as_policy_text :: "string \<Rightarrow> string" where
  "as_policy_text value = casefold (str_strip value)"

definition is_lower_ascii :: "char \<Rightarrow> bool" where
  "is_lower_ascii c \<longleftrightarrow> 97 \<le> code_point c \<and> code_point c \<le> 122"

definition compact_policy_text :: "string \<Rightarrow> string" where
  "compact_policy_text value = filter (\<lambda>c. is_lower_ascii c \<or> is_digit c) (as_policy_text value)"

section \<open>The four rules\<close>

text \<open>The texts whose normal or compact form is refused outright; an empty form is not entered.\<close>

definition denylist_values :: "string list \<Rightarrow> string list" where
  "denylist_values items = concat (map (\<lambda>i. filter (\<lambda>x. x \<noteq> []) [as_policy_text i, compact_policy_text i]) items)"

definition local_part :: "string \<Rightarrow> string" where
  "local_part s = takeWhile (\<lambda>c. c \<noteq> CHR ''@'') s"

definition contextual_values :: "string option list \<Rightarrow> string list" where
  "contextual_values values =
     concat (map (\<lambda>v. case v of
         None \<Rightarrow> []
       | Some t \<Rightarrow> if t = [] then []
                   else filter (\<lambda>x. 3 \<le> length x)
                     [as_policy_text t, compact_policy_text t, compact_policy_text (local_part (as_policy_text t))]) values)"

definition position_in :: "string \<Rightarrow> char \<Rightarrow> int" where
  "position_in alphabet c = (if c \<in> set alphabet then int (length (takeWhile (\<lambda>x. x \<noteq> c) alphabet)) else - 1)"

fun steps_of :: "(int \<Rightarrow> int \<Rightarrow> bool) \<Rightarrow> int list \<Rightarrow> bool" where
  "steps_of P (x # y # zs) = (P x y \<and> steps_of P (y # zs))"
| "steps_of P _ = True"

definition is_monotonic_sequence :: "string \<Rightarrow> string \<Rightarrow> bool" where
  "is_monotonic_sequence value alphabet =
     (let positions = map (position_in alphabet) value; size = int (length alphabet)
      in if list_ex (\<lambda>p. p < 0) positions then False
         else steps_of (\<lambda>a b. (b - a) mod size = 1) positions \<or> steps_of (\<lambda>a b. (a - b) mod size = 1) positions)"

definition ascii_lowercase :: string where "ascii_lowercase = ''abcdefghijklmnopqrstuvwxyz''"
definition ascii_digits :: string where "ascii_digits = ''0123456789''"

definition is_repeated_or_sequence :: "string \<Rightarrow> bool" where
  "is_repeated_or_sequence password =
     (let compact = compact_policy_text password
      in if length compact < 8 then False
         else if length (remdups compact) = 1 then True
         else if list_all is_lower_ascii compact \<and> is_monotonic_sequence compact ascii_lowercase then True
         else if list_all is_digit compact \<and> is_monotonic_sequence compact ascii_digits then True
         else False)"

record policy_result =
  is_valid :: bool
  reason_codes :: "string list"
  policy_min_length :: int

text \<open>The deny list and the minimum length come from the environment.\<close>

record password_policy =
  weak_denylist :: "string list"
  min_password_length :: int

definition DEFAULT_PASSWORD_POLICY :: password_policy where
  "DEFAULT_PASSWORD_POLICY =
     \<lparr>weak_denylist = [''password'', ''12345678'', ''123456789'', ''1234567890'', ''qwerty'', ''letmein'', ''admin'', ''password1'', ''welcome'',
        ''iloveyou'', ''monkey'', ''dragon'', ''football'', ''baseball'', ''abc123''],
      min_password_length = 8\<rparr>"

text \<open>What a caller may say of the account, and its own limits.\<close>

record policy_context =
  pc_username :: "string option"
  pc_email :: "string option"
  pc_identifier :: "string option"
  pc_min_length :: "int option"
  pc_extra_blocklist :: "string list"

definition validate_password_policy :: "password_policy \<Rightarrow> policy_context \<Rightarrow> string \<Rightarrow> policy_result" where
  "validate_password_policy pol ctx password =
     (let least = max 1 (case pc_min_length ctx of Some n \<Rightarrow> n | None \<Rightarrow> min_password_length pol);
          normalized = as_policy_text password; compact = compact_policy_text password;
          denied_words = denylist_values (weak_denylist pol @ pc_extra_blocklist ctx);
          reasons =
            (if int (length password) < least then [''too_short''] else []) @
            (if normalized \<in> set denied_words \<or> compact \<in> set denied_words then [''common_password''] else []) @
            (if compact \<noteq> [] \<and> list_ex (\<lambda>v. occurs_in v compact) (contextual_values [pc_username ctx, pc_email ctx, pc_identifier ctx])
             then [''obvious_identifier_derivation''] else []) @
            (if is_repeated_or_sequence password then [''repeated_or_sequential''] else [])
      in \<lparr>is_valid = (reasons = []), reason_codes = reasons, policy_min_length = least\<rparr>)"

text \<open>The error carries the reasons and the least length.\<close>

definition assert_password_policy :: "password_policy \<Rightarrow> policy_context \<Rightarrow> string \<Rightarrow> string list \<times> int + unit" where
  "assert_password_policy pol ctx password =
     (let result = validate_password_policy pol ctx password
      in if is_valid result then Inr () else Inl (reason_codes result, policy_min_length result))"

section \<open>Runs of an alphabet\<close>

text \<open>The reference: a word that runs through the alphabet from some position, forwards or backwards, around its end.\<close>

definition runs_forward :: "string \<Rightarrow> string \<Rightarrow> bool" where
  "runs_forward alphabet v \<longleftrightarrow> (\<exists>i. v = map (\<lambda>j. alphabet ! ((i + j) mod length alphabet)) [0..<length v])"

lemma position_nth:
  assumes "distinct alphabet" and "i < length alphabet"
  shows "position_in alphabet (alphabet ! i) = int i"
proof -
  have "takeWhile (\<lambda>x. x \<noteq> alphabet ! i) alphabet = take i alphabet"
  proof (rule takeWhile_eq_take_P_nth)
    show "alphabet ! j \<noteq> alphabet ! i" if "j < i" "j < length alphabet" for j
      using assms that by (simp add: nth_eq_iff_index_eq)
  qed simp
  then show ?thesis using assms(2) by (simp add: position_in_def)
qed

lemma position_range:
  assumes "distinct alphabet" and "c \<in> set alphabet"
  obtains i where "i < length alphabet" and "c = alphabet ! i" and "position_in alphabet c = int i"
  using assms position_nth by (metis in_set_conv_nth)

lemma position_neg_iff: "position_in alphabet c < 0 \<longleftrightarrow> c \<notin> set alphabet"
  by (simp add: position_in_def)

lemma mod_step:
  fixes i k n :: int
  assumes "0 \<le> i" "i < n" "0 \<le> k" "k < n" "1 < n"
  shows "(k - i) mod n = 1 \<longleftrightarrow> k = (i + 1) mod n"
proof
  assume "(k - i) mod n = 1"
  then have "(i + 1) mod n = (i + (k - i)) mod n" by (metis mod_add_right_eq)
  with assms show "k = (i + 1) mod n" by simp
next
  assume "k = (i + 1) mod n"
  then have "(k - i) mod n = ((i + 1) - i) mod n" by (metis mod_diff_left_eq)
  with assms show "(k - i) mod n = 1" by simp
qed

lemma steps_of_nth: "steps_of P xs \<longleftrightarrow> (\<forall>j. Suc j < length xs \<longrightarrow> P (xs ! j) (xs ! Suc j))"
proof (induction P xs rule: steps_of.induct)
  case (1 P x y zs)
  have "(\<forall>j. Suc j < length (x # y # zs) \<longrightarrow> P ((x # y # zs) ! j) ((x # y # zs) ! Suc j)) \<longleftrightarrow>
      P x y \<and> (\<forall>j. Suc j < length (y # zs) \<longrightarrow> P ((y # zs) ! j) ((y # zs) ! Suc j))" (is "(\<forall>j. ?Q j) \<longleftrightarrow> _")
    using All_less_Suc2 [of "Suc (length zs)"] by (auto simp: nth_Cons split: nat.splits)
  with 1 show ?case by simp
qed simp_all

lemma steps_of_rev: "steps_of (\<lambda>a b. P b a) xs \<longleftrightarrow> steps_of P (rev xs)"
proof -
  have "P (rev xs ! j) (rev xs ! Suc j)" if all: "\<forall>j. Suc j < length xs \<longrightarrow> P (xs ! Suc j) (xs ! j)" and j: "Suc j < length xs" for j
  proof -
    define k where "k = length xs - Suc (Suc j)"
    have "Suc k < length xs" "length xs - Suc j = Suc k" using j by (simp_all add: k_def)
    with all j show ?thesis by (simp add: rev_nth k_def [symmetric])
  qed
  moreover have "P (xs ! Suc j) (xs ! j)" if all: "\<forall>j. Suc j < length xs \<longrightarrow> P (rev xs ! j) (rev xs ! Suc j)" and j: "Suc j < length xs" for j
  proof -
    define k where "k = length xs - Suc (Suc j)"
    have "Suc k < length xs" "length xs - Suc k = Suc j" "length xs - Suc (Suc k) = j" using j by (simp_all add: k_def)
    with all show ?thesis by (metis Suc_lessD rev_nth)
  qed
  ultimately show ?thesis by (auto simp: steps_of_nth)
qed

lemma steps_runs:
  assumes d: "distinct alphabet" and n: "1 < length alphabet" and v: "set v \<subseteq> set alphabet"
  shows "steps_of (\<lambda>a b. (b - a) mod int (length alphabet) = 1) (map (position_in alphabet) v) \<longleftrightarrow> runs_forward alphabet v"
proof -
  let ?n = "length alphabet" and ?p = "position_in alphabet"
  have range: "0 \<le> ?p (v ! j) \<and> ?p (v ! j) < int ?n \<and> alphabet ! nat (?p (v ! j)) = v ! j" if "j < length v" for j
    using position_range [OF d, of "v ! j"] v that nth_mem by (metis nat_int of_nat_0_le_iff of_nat_less_iff subsetD)
  have step: "(?p (v ! Suc j) - ?p (v ! j)) mod int ?n = 1 \<longleftrightarrow> ?p (v ! Suc j) = (?p (v ! j) + 1) mod int ?n" if "Suc j < length v" for j
    using range [of j] range [of "Suc j"] that n by (intro mod_step) simp_all
  show ?thesis
  proof
    assume "steps_of (\<lambda>a b. (b - a) mod int ?n = 1) (map ?p v)"
    then have next_pos: "?p (v ! Suc j) = (?p (v ! j) + 1) mod int ?n" if "Suc j < length v" for j
      using that step by (simp add: steps_of_nth)
    have pos: "?p (v ! j) = (?p (v ! 0) + int j) mod int ?n" if "j < length v" for j
      using that
    proof (induction j)
      case 0
      then show ?case using range [of 0] by simp
    next
      case (Suc j)
      then show ?case using next_pos [of j] by (simp add: mod_add_right_eq mod_add_left_eq algebra_simps)
    qed
    have "v ! j = alphabet ! ((nat (?p (v ! 0)) + j) mod ?n)" if "j < length v" for j
    proof -
      have "0 \<le> ?p (v ! 0)" using range [of 0] that by (cases v) auto
      then have "int ((nat (?p (v ! 0)) + j) mod ?n) = ?p (v ! j)" using pos [OF that] by (simp add: zmod_int)
      then show ?thesis using range [OF that] by (metis nat_int)
    qed
    then show "runs_forward alphabet v" unfolding runs_forward_def by (intro exI [of _ "nat (?p (v ! 0))"] nth_equalityI) simp_all
  next
    assume "runs_forward alphabet v"
    then obtain i where i: "v = map (\<lambda>j. alphabet ! ((i + j) mod ?n)) [0..<length v]" by (auto simp: runs_forward_def)
    have at: "?p (v ! j) = int ((i + j) mod ?n)" if "j < length v" for j
    proof -
      have "v ! j = alphabet ! ((i + j) mod ?n)" using arg_cong [OF i, of "\<lambda>xs. xs ! j"] that by simp
      moreover have "(i + j) mod ?n < ?n" using n by (intro mod_less_divisor) linarith
      ultimately show ?thesis by (simp add: position_nth [OF d])
    qed
    show "steps_of (\<lambda>a b. (b - a) mod int ?n = 1) (map ?p v)"
      using step at by (auto simp: steps_of_nth zmod_int mod_add_left_eq mod_add_right_eq algebra_simps)
  qed
qed

lemma monotonic_runs:
  assumes "distinct alphabet" and "1 < length alphabet"
  shows "is_monotonic_sequence v alphabet \<longleftrightarrow> set v \<subseteq> set alphabet \<and> (runs_forward alphabet v \<or> runs_forward alphabet (rev v))"
proof (cases "set v \<subseteq> set alphabet")
  case True
  then have "\<not> list_ex (\<lambda>p. p < 0) (map (position_in alphabet) v)" by (auto simp: list_ex_iff position_neg_iff)
  then show ?thesis
    using True steps_runs [OF assms True] steps_runs [OF assms, of "rev v"]
      steps_of_rev [of "\<lambda>a b. (b - a) mod int (length alphabet) = 1" "map (position_in alphabet) v"]
    by (simp add: is_monotonic_sequence_def Let_def rev_map)
next
  case False
  then have "list_ex (\<lambda>p. p < 0) (map (position_in alphabet) v)" by (auto simp: list_ex_iff position_neg_iff)
  with False show ?thesis by (simp add: is_monotonic_sequence_def Let_def)
qed


section \<open>What the policy accepts\<close>

lemma occurs_in_iff: "occurs_in p s \<longleftrightarrow> (\<exists>a b. s = a @ p @ b)"
proof (induction s)
  case Nil
  then show ?case by auto
next
  case (Cons c s)
  have "starts_with (c # s) p \<longleftrightarrow> (\<exists>b. c # s = p @ b)"
    by (auto simp: starts_with_def) (metis append_take_drop_id)
  moreover have "(\<exists>a b. c # s = a @ p @ b) \<longleftrightarrow> (\<exists>b. c # s = p @ b) \<or> (\<exists>a b. s = a @ p @ b)"
    by (metis append_Cons append_Nil list.inject neq_Nil_conv)
  ultimately show ?case using Cons by auto
qed

lemma same_letters: "xs \<noteq> [] \<Longrightarrow> length (remdups xs) = 1 \<longleftrightarrow> (\<exists>c. xs = replicate (length xs) c)"
proof
  assume "xs \<noteq> []" "length (remdups xs) = 1"
  then obtain c where "set xs = {c}" by (metis One_nat_def card_1_singletonE length_remdups_card_conv)
  then show "\<exists>c. xs = replicate (length xs) c" by (metis replicate_eqI singletonD)
next
  assume ne: "xs \<noteq> []" and "\<exists>c. xs = replicate (length xs) c"
  then obtain c where "xs = replicate (length xs) c" by blast
  with ne have "set xs = {c}" by (metis length_0_conv set_replicate)
  then show "length (remdups xs) = 1" by (simp add: length_remdups_card_conv)
qed

definition denied_form :: "string \<Rightarrow> string \<Rightarrow> bool" where
  "denied_form password word \<longleftrightarrow>
     (\<exists>form \<in> {as_policy_text word, compact_policy_text word}. form \<noteq> [] \<and>
        (form = as_policy_text password \<or> form = compact_policy_text password))"

definition names_identifier :: "string \<Rightarrow> string \<Rightarrow> bool" where
  "names_identifier password identifier \<longleftrightarrow> identifier \<noteq> [] \<and>
     (\<exists>form \<in> {as_policy_text identifier, compact_policy_text identifier, compact_policy_text (local_part (as_policy_text identifier))}.
        3 \<le> length form \<and> (\<exists>a b. compact_policy_text password = a @ form @ b))"

definition runs_through :: "string \<Rightarrow> string \<Rightarrow> bool" where
  "runs_through alphabet v \<longleftrightarrow> set v \<subseteq> set alphabet \<and> (runs_forward alphabet v \<or> runs_forward alphabet (rev v))"

lemma alphabets: "distinct ascii_lowercase" "1 < length ascii_lowercase" "distinct ascii_digits" "1 < length ascii_digits"
  by (simp_all add: ascii_lowercase_def ascii_digits_def)

lemma repeated_or_sequence_iff:
  "is_repeated_or_sequence p \<longleftrightarrow> 8 \<le> length (compact_policy_text p) \<and>
     ((\<exists>c. compact_policy_text p = replicate (length (compact_policy_text p)) c) \<or>
      runs_through ascii_lowercase (compact_policy_text p) \<or> runs_through ascii_digits (compact_policy_text p))"
proof -
  let ?v = "compact_policy_text p"
  have letters: "is_lower_ascii c" if "c \<in> set ascii_lowercase" for c
    using that by (auto simp: ascii_lowercase_def is_lower_ascii_def)
  have digits: "is_digit c" if "c \<in> set ascii_digits" for c
    using that by (auto simp: ascii_digits_def is_digit_def)
  have "list_all is_lower_ascii ?v \<and> is_monotonic_sequence ?v ascii_lowercase \<longleftrightarrow> runs_through ascii_lowercase ?v"
    unfolding monotonic_runs [OF alphabets(1,2)] runs_through_def list_all_iff using letters by blast
  moreover have "list_all is_digit ?v \<and> is_monotonic_sequence ?v ascii_digits \<longleftrightarrow> runs_through ascii_digits ?v"
    unfolding monotonic_runs [OF alphabets(3,4)] runs_through_def list_all_iff using digits by blast
  moreover have "8 \<le> length ?v \<Longrightarrow> length (remdups ?v) = 1 \<longleftrightarrow> (\<exists>c. ?v = replicate (length ?v) c)"
    by (intro same_letters) auto
  ultimately show ?thesis unfolding is_repeated_or_sequence_def Let_def by (meson not_le)
qed

lemma denied_words_iff:
  "as_policy_text p \<in> set (denylist_values ws) \<or> compact_policy_text p \<in> set (denylist_values ws) \<longleftrightarrow> (\<exists>w\<in>set ws. denied_form p w)"
proof -
  have mem: "x \<in> set (filter (\<lambda>x. x \<noteq> []) [a, b]) \<longleftrightarrow> x \<noteq> [] \<and> x \<in> {a, b}" for x a b :: string by auto
  have "x \<in> set (denylist_values ws) \<longleftrightarrow> (\<exists>w\<in>set ws. x \<noteq> [] \<and> x \<in> {as_policy_text w, compact_policy_text w})" for x
    unfolding denylist_values_def set_concat set_map image_image UN_iff mem by (rule refl)
  then show ?thesis unfolding denied_form_def by (auto 0 3) metis+
qed

lemma contextual_iff:
  "compact_policy_text p \<noteq> [] \<and> list_ex (\<lambda>v. occurs_in v (compact_policy_text p)) (contextual_values vs) \<longleftrightarrow>
     (\<exists>t. Some t \<in> set vs \<and> names_identifier p t)"
proof (induction vs)
  case (Cons v vs)
  have split: "list_ex Q (contextual_values (v # vs)) \<longleftrightarrow> list_ex Q (contextual_values [v]) \<or> list_ex Q (contextual_values vs)" for Q
    by (simp add: contextual_values_def)
  have one: "list_ex Q (contextual_values [v]) \<longleftrightarrow> (\<exists>t. v = Some t \<and> t \<noteq> [] \<and>
      (\<exists>x\<in>{as_policy_text t, compact_policy_text t, compact_policy_text (local_part (as_policy_text t))}. 3 \<le> length x \<and> Q x))" for Q
    by (cases v) (auto simp: contextual_values_def)
  have "occurs_in x (compact_policy_text p) \<Longrightarrow> 3 \<le> length x \<Longrightarrow> compact_policy_text p \<noteq> []" for x by auto
  then have "compact_policy_text p \<noteq> [] \<and> list_ex (\<lambda>x. occurs_in x (compact_policy_text p)) (contextual_values [v]) \<longleftrightarrow>
      (\<exists>t. v = Some t \<and> names_identifier p t)"
    unfolding one names_identifier_def occurs_in_iff [symmetric] by blast
  with Cons.IH show ?case unfolding split by auto
qed (simp add: contextual_values_def)

definition short_password :: "password_policy \<Rightarrow> policy_context \<Rightarrow> string \<Rightarrow> bool" where
  "short_password pol ctx p \<longleftrightarrow> int (length p) < max 1 (case pc_min_length ctx of Some n \<Rightarrow> n | None \<Rightarrow> min_password_length pol)"

definition predictable_password :: "string \<Rightarrow> bool" where
  "predictable_password p \<longleftrightarrow> 8 \<le> length (compact_policy_text p) \<and>
     ((\<exists>c. compact_policy_text p = replicate (length (compact_policy_text p)) c) \<or>
      runs_through ascii_lowercase (compact_policy_text p) \<or> runs_through ascii_digits (compact_policy_text p))"


definition demo_policy_context :: policy_context where
  "demo_policy_context = \<lparr>pc_username = Some ''ann'', pc_email = None, pc_identifier = None, pc_min_length = None, pc_extra_blocklist = []\<rparr>"


end
