(* ===== verification/Billing_Status.thy ===== *)
theory Billing_Status
  imports Text
begin

text \<open>
  Normalized billing facts: \<^verbatim>\<open>src/src/Util/billing/status.py\<close>. A row is a dictionary, a stored
  timestamp a \<open>JTime\<close>; the clock is the argument \<open>now\<close>.
\<close>

section \<open>Statuses\<close>

definition BILLING_CONTRACT_VERSION :: int where "BILLING_CONTRACT_VERSION = 2"

definition NORMALIZED_SUBSCRIPTION_STATUSES :: "string list" where
  "NORMALIZED_SUBSCRIPTION_STATUSES =
     [''free'', ''pending'', ''incomplete'', ''trialing'', ''active'', ''past_due'', ''unpaid'', ''paused'',
      ''canceled'', ''former'', ''stale'', ''unknown'']"

definition NORMALIZED_PURCHASE_STATUSES :: "string list" where
  "NORMALIZED_PURCHASE_STATUSES =
     [''pending'', ''paid'', ''refunded'', ''partially_refunded'', ''disputed'', ''dispute_won'', ''dispute_lost'',
      ''stale'', ''unknown'']"

definition NORMALIZED_LINK_STATUSES :: "string list" where
  "NORMALIZED_LINK_STATUSES = [''none'', ''pending'', ''linked'', ''revoked'', ''stale'']"

definition CURRENT_PROVIDER_CONFIRMED_SUBSCRIPTION_STATUSES :: "string list" where
  "CURRENT_PROVIDER_CONFIRMED_SUBSCRIPTION_STATUSES = [''trialing'', ''active'']"

definition TERMINAL_SUBSCRIPTION_STATUSES :: "string list" where
  "TERMINAL_SUBSCRIPTION_STATUSES = [''free'', ''canceled'', ''former'']"

definition TERMINAL_PURCHASE_STATUSES :: "string list" where
  "TERMINAL_PURCHASE_STATUSES = [''refunded'', ''dispute_won'', ''dispute_lost'']"

definition SUBSCRIPTION_ALIASES :: "(string \<times> string) list" where
  "SUBSCRIPTION_ALIASES =
     [(''cancelled'', ''canceled''), (''canceled_at_period_end'', ''active''), (''pastdue'', ''past_due''),
      (''not_paid'', ''unpaid''), (''none'', ''free'')]"

definition PURCHASE_ALIASES :: "(string \<times> string) list" where
  "PURCHASE_ALIASES =
     [(''complete'', ''paid''), (''completed'', ''paid''), (''succeeded'', ''paid''),
      (''partial_refund'', ''partially_refunded''), (''partially_refund'', ''partially_refunded''),
      (''chargeback'', ''disputed''), (''won'', ''dispute_won''), (''lost'', ''dispute_lost'')]"

definition LINK_ALIASES :: "(string \<times> string) list" where
  "LINK_ALIASES = [(''unlinked'', ''none''), (''blocked'', ''revoked''), (''proof_required'', ''pending'')]"

text \<open>\<^verbatim>\<open>aliases.get(x, x)\<close> and the membership test that the three normalizers share.\<close>

definition get_alias :: "(string \<times> string) list \<Rightarrow> string \<Rightarrow> string" where
  "get_alias aliases x = (case map_of aliases x of Some y \<Rightarrow> y | None \<Rightarrow> x)"

definition normalize_with :: "(string \<times> string) list \<Rightarrow> string list \<Rightarrow> string \<Rightarrow> string \<Rightarrow> json \<Rightarrow> string" where
  "normalize_with aliases known fallback dflt value =
     (let n = get_alias aliases (replace_char CHR ''-'' CHR ''_'' (normalize_text value))
      in if n \<in> set known then n else if dflt \<in> set known then dflt else fallback)"

definition normalize_subscription_status :: "string \<Rightarrow> json \<Rightarrow> string" where
  "normalize_subscription_status dflt value =
     normalize_with SUBSCRIPTION_ALIASES NORMALIZED_SUBSCRIPTION_STATUSES ''unknown'' dflt value"

definition normalize_purchase_status :: "string \<Rightarrow> json \<Rightarrow> string" where
  "normalize_purchase_status dflt value =
     normalize_with PURCHASE_ALIASES NORMALIZED_PURCHASE_STATUSES ''unknown'' dflt value"

definition normalize_link_status :: "string \<Rightarrow> json \<Rightarrow> string" where
  "normalize_link_status dflt value = normalize_with LINK_ALIASES NORMALIZED_LINK_STATUSES ''none'' dflt value"

definition is_terminal_subscription_status :: "json \<Rightarrow> bool" where
  "is_terminal_subscription_status s \<longleftrightarrow>
     normalize_subscription_status ''unknown'' s \<in> set TERMINAL_SUBSCRIPTION_STATUSES"

definition is_terminal_purchase_status :: "json \<Rightarrow> bool" where
  "is_terminal_purchase_status s \<longleftrightarrow> normalize_purchase_status ''unknown'' s \<in> set TERMINAL_PURCHASE_STATUSES"

definition is_current_provider_confirmed_subscription_status :: "json \<Rightarrow> bool" where
  "is_current_provider_confirmed_subscription_status s \<longleftrightarrow>
     normalize_subscription_status ''unknown'' s \<in> set CURRENT_PROVIDER_CONFIRMED_SUBSCRIPTION_STATUSES"

definition status_allows_current_paid_fact :: "int \<Rightarrow> json \<Rightarrow> bool \<Rightarrow> json \<Rightarrow> bool" where
  "status_allows_current_paid_fact now status cancel_at_period_end current_period_end =
     (if normalize_subscription_status ''unknown'' status \<notin> set CURRENT_PROVIDER_CONFIRMED_SUBSCRIPTION_STATUSES
      then False
      else if \<not> cancel_at_period_end then True
      else (case parse_instant current_period_end of None \<Rightarrow> False | Some e \<Rightarrow> whole_second_of now < e))"

section \<open>Freshness\<close>

definition should_mark_stale :: "int \<Rightarrow> json \<Rightarrow> bool" where
  "should_mark_stale now stale_after =
     (case parse_instant stale_after of None \<Rightarrow> False | Some b \<Rightarrow> b \<le> whole_second_of now)"

definition stale_safe_status :: "json \<Rightarrow> string" where
  "stale_safe_status status =
     (let n = normalize_subscription_status ''unknown'' status
      in if n \<in> {''free'', ''former'', ''canceled''} then n
         else if n = ''unknown'' then ''unknown'' else ''stale'')"

definition apply_subscription_freshness :: "int \<Rightarrow> json \<Rightarrow> json \<Rightarrow> string" where
  "apply_subscription_freshness now status stale_after =
     (let n = normalize_subscription_status ''unknown'' status
      in if should_mark_stale now stale_after then stale_safe_status (JStr n) else n)"

definition apply_purchase_freshness :: "int \<Rightarrow> json \<Rightarrow> json \<Rightarrow> string" where
  "apply_purchase_freshness now status stale_after =
     (let n = normalize_purchase_status ''unknown'' status
      in if should_mark_stale now stale_after \<and> n \<in> {''pending'', ''paid''} then ''stale'' else n)"

definition terminal_no_paid_plan_code :: "json \<Rightarrow> json \<Rightarrow> string" where
  "terminal_no_paid_plan_code status plan_code =
     (if normalize_subscription_status ''unknown'' status \<in>
           {''free'', ''canceled'', ''former'', ''stale'', ''unknown'', ''incomplete''}
      then ''free''
      else (case clean_text plan_code of Some p \<Rightarrow> p | None \<Rightarrow> ''free''))"

section \<open>Snapshots\<close>

record safe_billing_status =
  sb_provider :: string
  sb_status :: string
  sb_plan_code :: string
  sb_tier_code :: "string option"
  sb_tier_name :: "string option"
  sb_link_status :: string
  sb_current_period_end :: "int option"
  sb_cancel_at_period_end :: bool
  sb_trial_end :: "int option"
  sb_grace_period_until :: "int option"
  sb_last_synced_at :: "int option"
  sb_stale_after :: "int option"
  sb_classification_version :: int
  sb_customer_ref :: "string option"
  sb_subscription_ref :: "string option"

definition billing_to_dict :: "safe_billing_status \<Rightarrow> dict" where
  "billing_to_dict b =
     [''provider'' \<mapsto> JStr (sb_provider b), ''status'' \<mapsto> JStr (sb_status b), ''plan_code'' \<mapsto> JStr (sb_plan_code b),
      ''tier_code'' \<mapsto> json_of (sb_tier_code b), ''tier_name'' \<mapsto> json_of (sb_tier_name b),
      ''link_status'' \<mapsto> JStr (sb_link_status b),
      ''current_period_end'' \<mapsto> json_time (sb_current_period_end b),
      ''cancel_at_period_end'' \<mapsto> JBool (sb_cancel_at_period_end b),
      ''trial_end'' \<mapsto> json_time (sb_trial_end b), ''grace_period_until'' \<mapsto> json_time (sb_grace_period_until b),
      ''last_synced_at'' \<mapsto> json_time (sb_last_synced_at b), ''stale_after'' \<mapsto> json_time (sb_stale_after b),
      ''classification_version'' \<mapsto> JInt (sb_classification_version b),
      ''customer_ref'' \<mapsto> json_of (sb_customer_ref b), ''subscription_ref'' \<mapsto> json_of (sb_subscription_ref b)]"

record safe_purchase_status =
  sp_provider :: string
  sp_purchase_ref :: "string option"
  sp_status :: string
  sp_credit_product_code :: "string option"
  sp_quantity :: "int option"
  sp_paid_at :: "int option"
  sp_refunded_at :: "int option"
  sp_disputed_at :: "int option"
  sp_last_synced_at :: "int option"
  sp_stale_after :: "int option"
  sp_classification_version :: int

definition purchase_to_dict :: "safe_purchase_status \<Rightarrow> dict" where
  "purchase_to_dict p =
     [''provider'' \<mapsto> JStr (sp_provider p), ''purchase_ref'' \<mapsto> json_of (sp_purchase_ref p),
      ''status'' \<mapsto> JStr (sp_status p), ''credit_product_code'' \<mapsto> json_of (sp_credit_product_code p),
      ''quantity'' \<mapsto> (case sp_quantity p of None \<Rightarrow> JNull | Some q \<Rightarrow> JInt q),
      ''paid_at'' \<mapsto> json_time (sp_paid_at p), ''refunded_at'' \<mapsto> json_time (sp_refunded_at p),
      ''disputed_at'' \<mapsto> json_time (sp_disputed_at p), ''last_synced_at'' \<mapsto> json_time (sp_last_synced_at p),
      ''stale_after'' \<mapsto> json_time (sp_stale_after p),
      ''classification_version'' \<mapsto> JInt (sp_classification_version p)]"

definition free_default_billing_status :: "json \<Rightarrow> json \<Rightarrow> safe_billing_status" where
  "free_default_billing_status provider classification_version =
     \<lparr>sb_provider = (case clean_text provider of Some p \<Rightarrow> p | None \<Rightarrow> ''stripe''),
      sb_status = ''free'', sb_plan_code = ''free'', sb_tier_code = None, sb_tier_name = None, sb_link_status = ''none'',
      sb_current_period_end = None, sb_cancel_at_period_end = False, sb_trial_end = None, sb_grace_period_until = None,
      sb_last_synced_at = None, sb_stale_after = None,
      sb_classification_version = max 1 (coerce_int classification_version BILLING_CONTRACT_VERSION),
      sb_customer_ref = None, sb_subscription_ref = None\<rparr>"

definition safe_status_from_row :: "int \<Rightarrow> string \<Rightarrow> dict option \<Rightarrow> safe_billing_status" where
  "safe_status_from_row now provider row =
     (case nonempty_doc row of
        None \<Rightarrow> free_default_billing_status (JStr provider) (JInt BILLING_CONTRACT_VERSION)
      | Some r \<Rightarrow>
          let status = apply_subscription_freshness now (dget r ''status'') (dget r ''stale_after'');
              safe_plan_code = terminal_no_paid_plan_code (JStr status) (dget r ''plan_code'');
              exposes = safe_plan_code \<noteq> ''free''
          in \<lparr>sb_provider = (case clean_text (dget r ''provider'') of Some p \<Rightarrow> p | None \<Rightarrow> provider),
              sb_status = status, sb_plan_code = safe_plan_code,
              sb_tier_code = (if exposes then clean_text (dget r ''tier_code'') else None),
              sb_tier_name = (if exposes then clean_text (dget r ''tier_name'') else None),
              sb_link_status = normalize_link_status ''linked'' (dget r ''link_status''),
              sb_current_period_end = parse_instant (dget r ''current_period_end''),
              sb_cancel_at_period_end = truthy (dget r ''cancel_at_period_end''),
              sb_trial_end = parse_instant (dget r ''trial_end''),
              sb_grace_period_until = parse_instant (dget r ''grace_period_until''),
              sb_last_synced_at = parse_instant (dget r ''last_synced_at''),
              sb_stale_after = parse_instant (dget r ''stale_after''),
              sb_classification_version = max 1 (coerce_int (dget r ''classification_version'') BILLING_CONTRACT_VERSION),
              sb_customer_ref = clean_text (dget r ''customer_ref''),
              sb_subscription_ref = clean_text (dget r ''subscription_ref'')\<rparr>)"

definition safe_purchase_from_row :: "int \<Rightarrow> string \<Rightarrow> dict option \<Rightarrow> safe_purchase_status option" where
  "safe_purchase_from_row now provider row =
     (case nonempty_doc row of
        None \<Rightarrow> None
      | Some r \<Rightarrow>
          Some \<lparr>sp_provider = (case clean_text (dget r ''provider'') of Some p \<Rightarrow> p | None \<Rightarrow> provider),
                sp_purchase_ref = clean_text (dget r ''purchase_ref''),
                sp_status = apply_purchase_freshness now (dget r ''status'') (dget r ''stale_after''),
                sp_credit_product_code = clean_text (dget r ''credit_product_code''),
                sp_quantity = (let q = coerce_int (dget r ''quantity'') 0 in if q = 0 then None else Some q),
                sp_paid_at = parse_instant (dget r ''paid_at''),
                sp_refunded_at = parse_instant (dget r ''refunded_at''),
                sp_disputed_at = parse_instant (dget r ''disputed_at''),
                sp_last_synced_at = parse_instant (dget r ''last_synced_at''),
                sp_stale_after = parse_instant (dget r ''stale_after''),
                sp_classification_version =
                  max 1 (coerce_int (dget r ''classification_version'') BILLING_CONTRACT_VERSION)\<rparr>)"

definition safe_status_from_provider_failure :: "int \<Rightarrow> dict option \<Rightarrow> safe_billing_status" where
  "safe_status_from_provider_failure now current_snapshot =
     (case nonempty_doc current_snapshot of
        None \<Rightarrow> (free_default_billing_status (JStr ''stripe'') (JInt BILLING_CONTRACT_VERSION))\<lparr>sb_status := ''unknown''\<rparr>
      | Some d \<Rightarrow>
          let snapshot = safe_status_from_row now ''stripe'' (Some d);
              stale_status = stale_safe_status (JStr (sb_status snapshot))
          in snapshot\<lparr>sb_status := stale_status,
                      sb_plan_code := terminal_no_paid_plan_code (JStr stale_status) (JStr (sb_plan_code snapshot)),
                      sb_tier_code := None, sb_tier_name := None\<rparr>)"

section \<open>Normalization\<close>

lemma normalize_with_known:
  "fallback \<in> set known \<Longrightarrow> normalize_with aliases known fallback dflt v \<in> set known"
  by (simp add: normalize_with_def Let_def)

lemma subscription_status_known [simp]:
  "normalize_subscription_status d v \<in> set NORMALIZED_SUBSCRIPTION_STATUSES"
  unfolding normalize_subscription_status_def by (rule normalize_with_known) (simp add: NORMALIZED_SUBSCRIPTION_STATUSES_def)

lemma purchase_status_known [simp]: "normalize_purchase_status d v \<in> set NORMALIZED_PURCHASE_STATUSES"
  unfolding normalize_purchase_status_def by (rule normalize_with_known) (simp add: NORMALIZED_PURCHASE_STATUSES_def)

lemma link_status_known [simp]: "normalize_link_status d v \<in> set NORMALIZED_LINK_STATUSES"
  unfolding normalize_link_status_def by (rule normalize_with_known) (simp add: NORMALIZED_LINK_STATUSES_def)

text \<open>A known status is a fixed point of its normalizer.\<close>

definition fixed_by :: "(string \<times> string) list \<Rightarrow> string \<Rightarrow> bool" where
  "fixed_by aliases n \<longleftrightarrow> get_alias aliases (replace_char CHR ''-'' CHR ''_'' (str_lower (str_strip n))) = n"

lemma statuses_fixed:
  "list_all (fixed_by SUBSCRIPTION_ALIASES) NORMALIZED_SUBSCRIPTION_STATUSES"
  "list_all (fixed_by PURCHASE_ALIASES) NORMALIZED_PURCHASE_STATUSES"
  "list_all (fixed_by LINK_ALIASES) NORMALIZED_LINK_STATUSES"
  by code_simp+

lemma normalize_with_fixed:
  "list_all (fixed_by aliases) known \<Longrightarrow> n \<in> set known \<Longrightarrow> normalize_with aliases known fallback d (JStr n) = n"
  by (simp add: normalize_with_def normalize_text_JStr list_all_iff fixed_by_def)

lemma normalize_subscription_id [simp]:
  "n \<in> set NORMALIZED_SUBSCRIPTION_STATUSES \<Longrightarrow> normalize_subscription_status d (JStr n) = n"
  unfolding normalize_subscription_status_def by (rule normalize_with_fixed [OF statuses_fixed(1)])

lemma normalize_purchase_id [simp]:
  "n \<in> set NORMALIZED_PURCHASE_STATUSES \<Longrightarrow> normalize_purchase_status d (JStr n) = n"
  unfolding normalize_purchase_status_def by (rule normalize_with_fixed [OF statuses_fixed(2)])

lemma normalize_link_id [simp]:
  "n \<in> set NORMALIZED_LINK_STATUSES \<Longrightarrow> normalize_link_status d (JStr n) = n"
  unfolding normalize_link_status_def by (rule normalize_with_fixed [OF statuses_fixed(3)])

lemma stale_safe_status_cases:
  "stale_safe_status s \<in> {''free'', ''former'', ''canceled'', ''unknown'', ''stale''}"
  by (simp add: stale_safe_status_def Let_def)

lemma stale_safe_status_known [simp]: "stale_safe_status s \<in> set NORMALIZED_SUBSCRIPTION_STATUSES"
  using stale_safe_status_cases [of s] by (auto simp: NORMALIZED_SUBSCRIPTION_STATUSES_def)

lemma stale_safe_status_idem [simp]: "stale_safe_status (JStr (stale_safe_status s)) = stale_safe_status s"
proof -
  have "normalize_subscription_status ''unknown'' (JStr (stale_safe_status s)) = stale_safe_status s" by simp
  then show ?thesis using stale_safe_status_cases [of s] by (auto simp: stale_safe_status_def [of "JStr _"])
qed

lemma freshness_known [simp]: "apply_subscription_freshness now s t \<in> set NORMALIZED_SUBSCRIPTION_STATUSES"
  by (simp add: apply_subscription_freshness_def Let_def)

lemma freshness_idem:
  "apply_subscription_freshness now (JStr (apply_subscription_freshness now s t)) (json_time (parse_instant t)) =
     apply_subscription_freshness now s t"
  by (simp add: apply_subscription_freshness_def should_mark_stale_def Let_def)

lemma plan_code_free:
  "s \<in> {''free'', ''canceled'', ''former'', ''stale'', ''unknown'', ''incomplete''} \<Longrightarrow>
     terminal_no_paid_plan_code (JStr s) p = ''free''"
  by (simp add: terminal_no_paid_plan_code_def) (auto simp: NORMALIZED_SUBSCRIPTION_STATUSES_def)

lemma clean_free: "clean_text (JStr ''free'') = Some ''free''"
  by (simp add: clean_text_def str_strip_def is_space_def)

lemma plan_code_idem:
  "terminal_no_paid_plan_code s (JStr (terminal_no_paid_plan_code s p)) = terminal_no_paid_plan_code s p"
proof (cases "clean_text p")
  case None
  then show ?thesis by (simp add: terminal_no_paid_plan_code_def clean_free)
next
  case (Some t)
  with clean_text_json_of [of p] show ?thesis by (simp add: terminal_no_paid_plan_code_def)
qed

lemma stale_plan_free: "terminal_no_paid_plan_code (JStr (stale_safe_status s)) p = ''free''"
  using stale_safe_status_cases [of s] by (intro plan_code_free) auto

lemma safe_row_fields:
  assumes "nonempty_doc row = Some r"
  shows "sb_status (safe_status_from_row now provider row) =
      apply_subscription_freshness now (dget r ''status'') (dget r ''stale_after'')"
    and "sb_plan_code (safe_status_from_row now provider row) =
      terminal_no_paid_plan_code (JStr (sb_status (safe_status_from_row now provider row))) (dget r ''plan_code'')"
    and "sb_link_status (safe_status_from_row now provider row) = normalize_link_status ''linked'' (dget r ''link_status'')"
    and "sb_plan_code (safe_status_from_row now provider row) = ''free'' \<Longrightarrow>
      sb_tier_code (safe_status_from_row now provider row) = None \<and> sb_tier_name (safe_status_from_row now provider row) = None"
  using assms by (simp_all add: safe_status_from_row_def Let_def del: nonempty_doc_Some)

lemma free_default_fields [simp]:
  "sb_status (free_default_billing_status p v) = ''free''" "sb_plan_code (free_default_billing_status p v) = ''free''"
  "sb_tier_code (free_default_billing_status p v) = None" "sb_tier_name (free_default_billing_status p v) = None"
  "sb_link_status (free_default_billing_status p v) = ''none''"
  by (simp_all add: free_default_billing_status_def)

lemma paid_statuses:
  assumes "s \<in> set NORMALIZED_SUBSCRIPTION_STATUSES" and "terminal_no_paid_plan_code (JStr s) p \<noteq> ''free''"
  shows "s \<in> {''pending'', ''trialing'', ''active'', ''past_due'', ''unpaid'', ''paused''}"
proof -
  have all: "set NORMALIZED_SUBSCRIPTION_STATUSES \<subseteq>
      {''free'', ''canceled'', ''former'', ''stale'', ''unknown'', ''incomplete''} \<union>
      {''pending'', ''trialing'', ''active'', ''past_due'', ''unpaid'', ''paused''}" (is "_ \<subseteq> ?A \<union> ?B")
    by (simp add: NORMALIZED_SUBSCRIPTION_STATUSES_def)
  have "s \<notin> ?A"
  proof
    assume "s \<in> ?A"
    from plan_code_free [OF this] assms(2) show False by simp
  qed
  with all assms(1) show ?thesis by (meson UnE subsetD)
qed

section \<open>Guarantees\<close>

text \<open>C13. Billing facts fail closed: every snapshot carries a normalized status and link status; a
  paid plan code is shown only for a status that is neither terminal, stale, incomplete nor
  unknown and only before the fact goes stale; without a plan no tier is shown; and after a
  provider failure no plan is shown at all.\<close>

theorem billing_status_fails_closed:
  "sb_status (safe_status_from_row now provider row) \<in> set NORMALIZED_SUBSCRIPTION_STATUSES \<and>
   sb_link_status (safe_status_from_row now provider row) \<in> set NORMALIZED_LINK_STATUSES \<and>
   (sb_plan_code (safe_status_from_row now provider row) \<noteq> ''free'' \<longrightarrow>
      sb_status (safe_status_from_row now provider row) \<in>
        {''pending'', ''trialing'', ''active'', ''past_due'', ''unpaid'', ''paused''} \<and>
      (\<exists>r. row = Some r \<and> \<not> should_mark_stale now (dget r ''stale_after''))) \<and>
   (sb_plan_code (safe_status_from_row now provider row) = ''free'' \<longrightarrow>
      sb_tier_code (safe_status_from_row now provider row) = None \<and>
      sb_tier_name (safe_status_from_row now provider row) = None) \<and>
   sb_plan_code (safe_status_from_provider_failure now row) = ''free'' \<and>
   sb_status (safe_status_from_provider_failure now row) \<in> {''free'', ''former'', ''canceled'', ''unknown'', ''stale''}"
proof (cases "nonempty_doc row")
  case None
  then have "safe_status_from_row now provider row = free_default_billing_status (JStr provider) (JInt BILLING_CONTRACT_VERSION)"
    "safe_status_from_provider_failure now row =
       (free_default_billing_status (JStr ''stripe'') (JInt BILLING_CONTRACT_VERSION))\<lparr>sb_status := ''unknown''\<rparr>"
    by (simp_all add: safe_status_from_row_def safe_status_from_provider_failure_def)
  then show ?thesis by (simp add: NORMALIZED_SUBSCRIPTION_STATUSES_def NORMALIZED_LINK_STATUSES_def)
next
  case (Some r)
  note F = safe_row_fields [OF Some, where now = now and provider = provider]
  have row: "row = Some r" using Some by simp
  have fresh: "sb_plan_code (safe_status_from_row now provider row) \<noteq> ''free'' \<Longrightarrow> \<not> should_mark_stale now (dget r ''stale_after'')"
    using F(1,2) stale_plan_free by (auto simp: apply_subscription_freshness_def Let_def)
  have fail: "sb_plan_code (safe_status_from_provider_failure now row) = ''free''"
    "sb_status (safe_status_from_provider_failure now row) \<in> {''free'', ''former'', ''canceled'', ''unknown'', ''stale''}"
    unfolding safe_status_from_provider_failure_def Some
    using stale_plan_free stale_safe_status_cases by (simp_all add: Let_def)
  show ?thesis
    using F paid_statuses [of "sb_status (safe_status_from_row now provider row)" "dget r ''plan_code''"] fresh fail row by simp
qed

definition demo_row :: dict where
  "demo_row = [''status'' \<mapsto> JStr ''Past-Due'', ''plan_code'' \<mapsto> JStr '' gold '', ''tier_name'' \<mapsto> JStr ''Gold'',
     ''stale_after'' \<mapsto> JTime 5500000]"

lemma demo_row_status:
  "normalize_subscription_status ''unknown'' (JStr ''Past-Due'') = ''past_due''" "clean_text (JStr '' gold '') = Some ''gold''"
  by (simp add: normalize_subscription_status_def normalize_with_def normalize_text_JStr, code_simp)
    (simp add: clean_text_def str_strip_def is_space_def)

lemma demo_row_fields [simp]:
  "demo_row \<noteq> Map.empty" "dget demo_row ''status'' = JStr ''Past-Due''" "dget demo_row ''plan_code'' = JStr '' gold ''"
  "dget demo_row ''stale_after'' = JTime 5500000"
  by (simp_all add: demo_row_def)

theorem billing_status_fails_closed_witness:
  "sb_plan_code (safe_status_from_row 4999999 ''stripe'' (Some demo_row)) = ''gold'' \<and>
   sb_status (safe_status_from_row 4999999 ''stripe'' (Some demo_row)) \<in>
     {''pending'', ''trialing'', ''active'', ''past_due'', ''unpaid'', ''paused''}"
proof -
  have "sb_status (safe_status_from_row 4999999 ''stripe'' (Some demo_row)) = ''past_due''"
    by (simp add: safe_row_fields(1) [where r = demo_row] apply_subscription_freshness_def should_mark_stale_def
        parse_instant_def whole_second_of_def demo_row_status)
  moreover have "normalize_subscription_status ''unknown'' (JStr ''past_due'') = ''past_due''"
    by (rule normalize_subscription_id) (simp add: NORMALIZED_SUBSCRIPTION_STATUSES_def)
  ultimately have p: "sb_plan_code (safe_status_from_row 4999999 ''stripe'' (Some demo_row)) = ''gold''"
    by (simp add: safe_row_fields(2) [where r = demo_row] terminal_no_paid_plan_code_def demo_row_status)
  then have "sb_plan_code (safe_status_from_row 4999999 ''stripe'' (Some demo_row)) \<noteq> ''free''" by simp
  with billing_status_fails_closed [of 4999999 "''stripe''" "Some demo_row"] p show ?thesis by blast
qed

text \<open>C14. Reading a serialized snapshot back, at the same instant, gives the same snapshot: dates,
  texts and statuses are already in normal form.\<close>

theorem billing_snapshot_roundtrip:
  assumes "str_strip provider = provider" and "provider \<noteq> []"
  shows "safe_status_from_row now provider (Some (billing_to_dict (safe_status_from_row now provider row))) =
     safe_status_from_row now provider row"
proof -
  have p: "clean_text (JStr provider) = Some provider" using assms by (simp add: clean_text_def)
  have pc: "clean_text (JStr (case clean_text v of Some q \<Rightarrow> q | None \<Rightarrow> provider)) =
      Some (case clean_text v of Some q \<Rightarrow> q | None \<Rightarrow> provider)" for v
    using clean_text_json_of [of v] p by (cases "clean_text v") simp_all
  have cn: "clean_text JNull = None" by (simp add: clean_text_def)
  have ne: "billing_to_dict b \<noteq> Map.empty" for b by (simp add: billing_to_dict_def)
  have link: "normalize_link_status d (JStr ''none'') = ''none''" for d
    by (rule normalize_link_id) (simp add: NORMALIZED_LINK_STATUSES_def)
  have free: "normalize_subscription_status d (JStr ''free'') = ''free''" for d
    by (rule normalize_subscription_id) (simp add: NORMALIZED_SUBSCRIPTION_STATUSES_def)
  show ?thesis
  proof (cases "nonempty_doc row")
    case None
    then have r: "safe_status_from_row now provider row = free_default_billing_status (JStr provider) (JInt BILLING_CONTRACT_VERSION)"
      by (simp add: safe_status_from_row_def)
    show ?thesis
      unfolding r using ne
      by (simp add: safe_status_from_row_def billing_to_dict_def free_default_billing_status_def p link free
          apply_subscription_freshness_def should_mark_stale_def parse_instant_def terminal_no_paid_plan_code_def
          cn Let_def BILLING_CONTRACT_VERSION_def)
  next
    case (Some r)
    show ?thesis
      unfolding safe_status_from_row_def Some
      using ne by (simp add: billing_to_dict_def pc freshness_idem plan_code_idem Let_def)
  qed
qed

theorem billing_snapshot_roundtrip_witness:
  "safe_status_from_row 7 ''stripe'' (Some (billing_to_dict (safe_status_from_row 7 ''stripe'' (Some demo_row)))) =
     safe_status_from_row 7 ''stripe'' (Some demo_row)"
proof -
  have "str_strip ''stripe'' = ''stripe''" "''stripe'' \<noteq> []" by (simp_all add: str_strip_def is_space_def)
  then show ?thesis by (rule billing_snapshot_roundtrip)
qed

end
