(* ===== verification/Billing_Redaction.thy ===== *)
theory Billing_Redaction
  imports Text
begin

text \<open>
  Recursive redaction: \<^verbatim>\<open>src/src/Util/billing/redaction.py\<close>. Keys, recursion and exemptions are
  modelled; the regular-expression engine is the argument \<open>billing_regexes\<close>: the text sanitizer
  and the three searches the code runs on a value. A stored timestamp matches none of the
  patterns and is left as it is.
\<close>

record billing_regexes =
  sanitize_text :: "string \<Rightarrow> string"
  raw_stripe_id :: "string \<Rightarrow> bool"
  raw_stripe_secret :: "string \<Rightarrow> bool"
  stripe_signature :: "string \<Rightarrow> bool"

definition REDACTED :: string where "REDACTED = ''***FILTERED***''"

definition BILLING_FORBIDDEN_RESPONSE_FIELD_NAMES :: "string list" where
  "BILLING_FORBIDDEN_RESPONSE_FIELD_NAMES =
     [''access_token'', ''refresh_token'', ''session_token'', ''api_key'', ''stripe_customer_id'',
      ''stripe_subscription_id'', ''stripe_price_id'', ''stripe_product_id'', ''stripe_invoice_id'',
      ''stripe_payment_intent_id'', ''stripe_charge_id'', ''stripe_checkout_session_id'', ''stripe_portal_session_id'',
      ''stripe_event_id'', ''provider_id'', ''provider_id_hash'', ''provider_id_hmac'', ''provider_id_fingerprint'',
      ''provider_event_id_hmac'', ''provider_event_id_fingerprint'', ''provider_ref_key'', ''provider_ref_key_id'',
      ''provider_payload'', ''raw_payload'', ''raw_body'', ''stripe_signature'', ''stripe-signature'', ''webhook_secret'',
      ''stripe_secret_key'', ''billing_s2s_bearer_token'', ''s2s_bearer_token'', ''idempotency_key'', ''card'',
      ''payment_method'', ''payment_method_details'', ''last4'', ''brand'', ''exp_month'', ''exp_year'', ''receipt_url'',
      ''client_secret'', ''hmac_secret'', ''id_hmac_secret'']"

definition NORMALIZED_BILLING_FORBIDDEN_RESPONSE_FIELD_NAMES :: "string list" where
  "NORMALIZED_BILLING_FORBIDDEN_RESPONSE_FIELD_NAMES =
     map (replace_char CHR ''-'' CHR ''_'') BILLING_FORBIDDEN_RESPONSE_FIELD_NAMES"

definition SENSITIVE_FIELD_FRAGMENTS :: "string list" where
  "SENSITIVE_FIELD_FRAGMENTS =
     [''secret'', ''signature'', ''idempotency'', ''raw_payload'', ''raw_body'', ''provider_payload'',
      ''provider_response'', ''provider_id_hash'', ''provider_id_hmac'', ''provider_id_fingerprint'', ''fingerprint'',
      ''hmac'', ''payment_method'', ''receipt_url'', ''client_secret'']"

definition HOSTED_BILLING_URL_FIELDS :: "string list" where
  "HOSTED_BILLING_URL_FIELDS = [''url'', ''checkout_url'', ''portal_url'', ''hosted_url'']"

definition HOSTED_BILLING_URL_PREFIXES :: "string list" where
  "HOSTED_BILLING_URL_PREFIXES = [''https://checkout.stripe.com/'', ''https://billing.stripe.com/'']"

definition BILLING_PUBLIC_IDENTIFIER_FIELDS :: "string list" where
  "BILLING_PUBLIC_IDENTIFIER_FIELDS = [''user_hash'', ''project_hash'', ''billing_group_hash'']"

definition BILLING_OPAQUE_CONSUMER_FIELDS :: "string list" where
  "BILLING_OPAQUE_CONSUMER_FIELDS = [''features'']"

definition normalize_field_name :: "string \<Rightarrow> string" where
  "normalize_field_name name = replace_char CHR ''-'' CHR ''_'' (str_lower (str_strip name))"

definition is_billing_sensitive_field :: "string \<Rightarrow> bool" where
  "is_billing_sensitive_field name =
     (let n = normalize_field_name name
      in n \<in> set NORMALIZED_BILLING_FORBIDDEN_RESPONSE_FIELD_NAMES \<or>
         list_ex (\<lambda>fragment. occurs_in fragment n) SENSITIVE_FIELD_FRAGMENTS)"

definition is_hosted_billing_url :: "string \<Rightarrow> json \<Rightarrow> bool" where
  "is_hosted_billing_url key value \<longleftrightarrow>
     normalize_field_name key \<in> set HOSTED_BILLING_URL_FIELDS \<and>
     list_ex (starts_with (py_str (py_or value (JStr [])))) HOSTED_BILLING_URL_PREFIXES"

text \<open>\<^verbatim>\<open>^[A-Za-z0-9_-]{1,255}$\<close>, which also allows one final newline.\<close>

definition is_identifier_char :: "char \<Rightarrow> bool" where
  "is_identifier_char c \<longleftrightarrow>
     (let n = code_point c in 65 \<le> n \<and> n \<le> 90 \<or> 97 \<le> n \<and> n \<le> 122 \<or> 48 \<le> n \<and> n \<le> 57 \<or> n = 95 \<or> n = 45)"

definition identifier_text :: "string \<Rightarrow> bool" where
  "identifier_text s =
     (let t = (if s \<noteq> [] \<and> code_point (last s) = 10 then butlast s else s)
      in 1 \<le> length t \<and> length t \<le> 255 \<and> list_all is_identifier_char t)"

definition is_public_identifier :: "billing_regexes \<Rightarrow> string \<Rightarrow> json \<Rightarrow> bool" where
  "is_public_identifier rx key value =
     (case value of
        JStr s \<Rightarrow> normalize_field_name key \<in> set BILLING_PUBLIC_IDENTIFIER_FIELDS \<and> identifier_text s \<and>
                  \<not> raw_stripe_id rx s \<and> \<not> raw_stripe_secret rx s
      | _ \<Rightarrow> False)"

definition is_opaque_consumer_field :: "string \<Rightarrow> bool" where
  "is_opaque_consumer_field key \<longleftrightarrow> normalize_field_name key \<in> set BILLING_OPAQUE_CONSUMER_FIELDS"

fun is_container :: "json \<Rightarrow> bool" where
  "is_container (JList _) = True"
| "is_container (JObj _) = True"
| "is_container _ = False"

definition sanitize_billing_sensitive_text :: "billing_regexes \<Rightarrow> string \<Rightarrow> string" where
  "sanitize_billing_sensitive_text rx text = (if text = [] then text else sanitize_text rx text)"

primrec redact_opaque_values :: "billing_regexes \<Rightarrow> json \<Rightarrow> json" where
  "redact_opaque_values rx JNull = JNull"
| "redact_opaque_values rx (JBool b) = JBool b"
| "redact_opaque_values rx (JInt i) = JInt i"
| "redact_opaque_values rx (JTime t) = JTime t"
| "redact_opaque_values rx (JStr s) = JStr (sanitize_billing_sensitive_text rx s)"
| "redact_opaque_values rx (JList xs) = JList (map (redact_opaque_values rx) xs)"
| "redact_opaque_values rx (JObj d) = JObj (\<lambda>k. map_option (redact_opaque_values rx) (d k))"

text \<open>
  One mapping: what each of its items becomes, given what the recursive call makes of it. The key
  of the enclosing mapping is passed down; \<^verbatim>\<open>None\<close> at the top is the empty key.
\<close>

definition redact_items :: "billing_regexes \<Rightarrow> dict \<Rightarrow> (string \<Rightarrow> (string \<Rightarrow> json) option) \<Rightarrow> dict" where
  "redact_items rx d inner =
     (\<lambda>k. case d k of
        None \<Rightarrow> None
      | Some item \<Rightarrow>
          if is_billing_sensitive_field k then Some (JStr REDACTED)
          else if is_hosted_billing_url k item \<or> is_public_identifier rx k item then Some item
          else if is_opaque_consumer_field k \<and> is_container item then Some (redact_opaque_values rx item)
          else map_option (\<lambda>r. r k) (inner k))"

primrec redact_billing_sensitive_data :: "billing_regexes \<Rightarrow> json \<Rightarrow> string \<Rightarrow> json" where
  "redact_billing_sensitive_data rx JNull = (\<lambda>key. JNull)"
| "redact_billing_sensitive_data rx (JBool b) = (\<lambda>key. JBool b)"
| "redact_billing_sensitive_data rx (JInt i) = (\<lambda>key. JInt i)"
| "redact_billing_sensitive_data rx (JTime t) = (\<lambda>key. JTime t)"
| "redact_billing_sensitive_data rx (JStr s) =
     (\<lambda>key. if is_hosted_billing_url key (JStr s) then JStr s else JStr (sanitize_billing_sensitive_text rx s))"
| "redact_billing_sensitive_data rx (JList xs) =
     (\<lambda>key. JList (map (\<lambda>r. r key) (map (redact_billing_sensitive_data rx) xs)))"
| "redact_billing_sensitive_data rx (JObj d) =
     (\<lambda>key. JObj (redact_items rx d (\<lambda>k. map_option (redact_billing_sensitive_data rx) (d k))))"

section \<open>What a redacted value may still hold\<close>

text \<open>
  At every depth: a sensitive key holds the filter mark; a string is a hosted billing URL under
  its key, a public identifier under its key, or output of the sanitizer; the keys inside an
  opaque consumer field are free, its strings are output of the sanitizer.
\<close>

definition sanitized :: "billing_regexes \<Rightarrow> string \<Rightarrow> bool" where
  "sanitized rx s \<longleftrightarrow> (\<exists>t. s = sanitize_billing_sensitive_text rx t)"

primrec strings_sanitized :: "billing_regexes \<Rightarrow> json \<Rightarrow> bool" where
  "strings_sanitized rx JNull = True"
| "strings_sanitized rx (JBool b) = True"
| "strings_sanitized rx (JInt i) = True"
| "strings_sanitized rx (JTime t) = True"
| "strings_sanitized rx (JStr s) = sanitized rx s"
| "strings_sanitized rx (JList xs) = (\<forall>r \<in> set (map (strings_sanitized rx) xs). r)"
| "strings_sanitized rx (JObj d) = (\<forall>k. case map_option (strings_sanitized rx) (d k) of None \<Rightarrow> True | Some r \<Rightarrow> r)"

definition item_safe :: "billing_regexes \<Rightarrow> string \<Rightarrow> json \<Rightarrow> bool \<Rightarrow> bool" where
  "item_safe rx k item inner \<longleftrightarrow>
     (if is_billing_sensitive_field k then item = JStr REDACTED
      else is_hosted_billing_url k item \<or> is_public_identifier rx k item \<or>
           is_opaque_consumer_field k \<and> is_container item \<and> strings_sanitized rx item \<or> inner)"

primrec redaction_safe :: "billing_regexes \<Rightarrow> json \<Rightarrow> string \<Rightarrow> bool" where
  "redaction_safe rx JNull = (\<lambda>key. True)"
| "redaction_safe rx (JBool b) = (\<lambda>key. True)"
| "redaction_safe rx (JInt i) = (\<lambda>key. True)"
| "redaction_safe rx (JTime t) = (\<lambda>key. True)"
| "redaction_safe rx (JStr s) = (\<lambda>key. is_hosted_billing_url key (JStr s) \<or> sanitized rx s)"
| "redaction_safe rx (JList xs) = (\<lambda>key. \<forall>r \<in> set (map (redaction_safe rx) xs). r key)"
| "redaction_safe rx (JObj d) =
     (\<lambda>key. \<forall>k. case map_option (redaction_safe rx) (d k) of
        None \<Rightarrow> True
      | Some r \<Rightarrow> item_safe rx k (the (d k)) (r k))"

lemma opaque_sanitized: "strings_sanitized rx (redact_opaque_values rx v)"
  by (induction v) (auto simp: sanitized_def split: option.splits, metis rangeI)

lemma opaque_container [simp]: "is_container (redact_opaque_values rx v) = is_container v"
  by (cases v) simp_all


end
