(* ===== verification/Stripe_Classifier.thy ===== *)
theory Stripe_Classifier
  imports Billing_Status Billing_Redaction
begin

text \<open>
  Stripe events as normalized billing facts: \<^verbatim>\<open>src/src/Util/stripe/classifier.py\<close>. An event or a
  Stripe object is the dictionary that \<^verbatim>\<open>_plain_mapping\<close> makes of it.
\<close>

section \<open>Results\<close>

record classification =
  cl_event_type :: "string option"
  cl_ignored :: bool
  cl_no_mutation :: bool
  cl_subscription_status :: "string option"
  cl_purchase_status :: "string option"
  cl_resync_required :: bool
  cl_reason :: "string option"
  cl_safe_metadata :: dict

text \<open>\<^verbatim>\<open>StripeClassificationError\<close>.\<close>

datatype classification_error = StripeClassificationError string

definition CLASSIFICATION_VERSION :: int where "CLASSIFICATION_VERSION = 2"

definition STRIPE_MVP_ALLOWED_WEBHOOK_EVENTS :: "string list" where
  "STRIPE_MVP_ALLOWED_WEBHOOK_EVENTS =
     [''checkout.session.completed'', ''customer.subscription.created'', ''customer.subscription.updated'',
      ''customer.subscription.deleted'', ''invoice.paid'', ''invoice.payment_failed'', ''charge.refunded'',
      ''charge.dispute.created'', ''charge.dispute.closed'']"

definition classification_status :: "classification \<Rightarrow> string option" where
  "classification_status c =
     (case cl_subscription_status c of
        None \<Rightarrow> cl_purchase_status c
      | Some s \<Rightarrow> if s = [] then cl_purchase_status c else Some s)"

section \<open>Reading the event\<close>

definition event_object :: "dict \<Rightarrow> dict" where
  "event_object event =
     (case dget event ''data'' of
        JObj data \<Rightarrow>
          (case dget data ''object'' of
             JObj obj \<Rightarrow> obj
           | _ \<Rightarrow> (case dget event ''object'' of JObj obj \<Rightarrow> obj | _ \<Rightarrow> Map.empty))
      | _ \<Rightarrow> (case dget event ''object'' of JObj obj \<Rightarrow> obj | _ \<Rightarrow> Map.empty))"

definition stripe_metadata :: "dict \<Rightarrow> string \<Rightarrow> string option" where
  "stripe_metadata obj k =
     (case dget obj ''metadata'' of
        JObj meta \<Rightarrow> (case meta k of None \<Rightarrow> None | Some JNull \<Rightarrow> None | Some v \<Rightarrow> Some (py_str v))
      | _ \<Rightarrow> None)"

definition SAFE_METADATA_KEYS :: "string list" where
  "SAFE_METADATA_KEYS =
     [''user_hash'', ''project_hash'', ''plan_code'', ''tier_code'', ''tier_name'', ''credit_product_code'',
      ''checkout_ref'', ''purchase_ref'', ''subscription_ref'', ''client_intent_ref'']"

text \<open>Allowed metadata keys, then the extra values that are not \<^verbatim>\<open>None\<close>, then redaction.\<close>

definition allowed_metadata :: "dict \<Rightarrow> (string \<times> json) list \<Rightarrow> dict" where
  "allowed_metadata obj extra =
     (\<lambda>k. if k \<in> set SAFE_METADATA_KEYS then map_option JStr (stripe_metadata obj k) else None) ++
     map_of (filter (\<lambda>(k, v). v \<noteq> JNull) extra)"

definition stripe_safe_metadata :: "billing_regexes \<Rightarrow> dict \<Rightarrow> (string \<times> json) list \<Rightarrow> dict" where
  "stripe_safe_metadata rx obj extra =
     (case redact_billing_sensitive_data rx (JObj (allowed_metadata obj extra)) [] of JObj d \<Rightarrow> d | _ \<Rightarrow> Map.empty)"

definition utc_from_epoch :: "json \<Rightarrow> json" where
  "utc_from_epoch v =
     (case int_of v of None \<Rightarrow> JNull | Some i \<Rightarrow> if i \<le> 0 then JNull else JTime (i * 1000000))"

definition first_item :: "dict \<Rightarrow> dict option" where
  "first_item subscription =
     (case dget subscription ''items'' of
        JObj items \<Rightarrow>
          (case dget items ''data'' of
             JList (JObj first # _) \<Rightarrow> Some first
           | _ \<Rightarrow> None)
      | _ \<Rightarrow> None)"

definition first_price_lookup_key :: "dict \<Rightarrow> string option" where
  "first_price_lookup_key subscription =
     (case first_item subscription of
        None \<Rightarrow> None
      | Some first \<Rightarrow>
          (case dget first ''price'' of
             JObj price \<Rightarrow>
               if truthy (dget price ''lookup_key'') then Some (str_strip (py_str (dget price ''lookup_key''))) else None
           | _ \<Rightarrow> None))"

definition first_item_epoch :: "dict \<Rightarrow> string \<Rightarrow> json" where
  "first_item_epoch subscription name =
     (case first_item subscription of None \<Rightarrow> JNull | Some first \<Rightarrow> dget first name)"

definition subscription_epoch :: "dict \<Rightarrow> string \<Rightarrow> json" where
  "subscription_epoch subscription name =
     (if dget subscription name \<noteq> JNull then dget subscription name else first_item_epoch subscription name)"

definition evidence_mismatch :: "dict \<Rightarrow> bool" where
  "evidence_mismatch subscription =
     (case (stripe_metadata subscription ''plan_code'', first_price_lookup_key subscription) of
        (Some plan_code, Some lookup_key) \<Rightarrow>
          plan_code \<noteq> [] \<and> lookup_key \<noteq> [] \<and>
          \<not> occurs_in (replace_char CHR ''-'' CHR ''_'' (str_lower (str_strip plan_code)))
                       (replace_char CHR ''-'' CHR ''_'' (str_lower (str_strip lookup_key)))
      | _ \<Rightarrow> False)"

section \<open>Classifying\<close>

definition subscription_result ::
    "billing_regexes \<Rightarrow> string \<Rightarrow> string \<Rightarrow> dict \<Rightarrow> string \<Rightarrow> bool \<Rightarrow> classification" where
  "subscription_result rx event_type status obj reason resync =
     \<lparr>cl_event_type = Some event_type, cl_ignored = False, cl_no_mutation = False,
      cl_subscription_status = Some status, cl_purchase_status = None, cl_resync_required = resync,
      cl_reason = Some reason,
      cl_safe_metadata = stripe_safe_metadata rx obj
        [(''current_period_end'', utc_from_epoch (subscription_epoch obj ''current_period_end'')),
         (''trial_end'', utc_from_epoch (dget obj ''trial_end'')),
         (''cancel_at_period_end'', JBool (truthy (dget obj ''cancel_at_period_end''))),
         (''classification_version'', JInt CLASSIFICATION_VERSION)]\<rparr>"

definition purchase_result ::
    "billing_regexes \<Rightarrow> string \<Rightarrow> string \<Rightarrow> dict \<Rightarrow> string \<Rightarrow> bool \<Rightarrow> classification" where
  "purchase_result rx event_type status obj reason resync =
     \<lparr>cl_event_type = Some event_type, cl_ignored = False, cl_no_mutation = False,
      cl_subscription_status = None, cl_purchase_status = Some status, cl_resync_required = resync,
      cl_reason = Some reason,
      cl_safe_metadata = stripe_safe_metadata rx obj [(''classification_version'', JInt CLASSIFICATION_VERSION)]\<rparr>"

definition ignored_result :: "string \<Rightarrow> string \<Rightarrow> classification" where
  "ignored_result event_type reason =
     \<lparr>cl_event_type = Some event_type, cl_ignored = True, cl_no_mutation = True, cl_subscription_status = None,
      cl_purchase_status = None, cl_resync_required = False, cl_reason = Some reason,
      cl_safe_metadata = [''classification_version'' \<mapsto> JInt CLASSIFICATION_VERSION]\<rparr>"

definition classify_checkout_completed :: "billing_regexes \<Rightarrow> string \<Rightarrow> dict \<Rightarrow> classification" where
  "classify_checkout_completed rx event_type obj =
     (let mode = normalize_text (dget obj ''mode'');
          status = normalize_text (dget obj ''status'');
          payment_status = normalize_text (dget obj ''payment_status'')
      in if mode = ''payment'' then
           purchase_result rx event_type
             (if status = ''complete'' \<and> payment_status = ''paid'' then ''paid'' else ''unknown'')
             obj ''checkout_payment_completed'' False
         else if mode = ''subscription'' then
           subscription_result rx event_type ''pending'' obj
             ''checkout_subscription_completed_pending_source_of_truth'' False
         else
           \<lparr>cl_event_type = Some event_type, cl_ignored = False, cl_no_mutation = False,
            cl_subscription_status = Some ''unknown'', cl_purchase_status = None, cl_resync_required = True,
            cl_reason = Some ''checkout_completed_unknown_mode'',
            cl_safe_metadata = [''classification_version'' \<mapsto> JInt CLASSIFICATION_VERSION]\<rparr>)"

definition STRIPE_SUBSCRIPTION_STATUSES :: "(string \<times> string) list" where
  "STRIPE_SUBSCRIPTION_STATUSES =
     [(''incomplete'', ''incomplete''), (''incomplete_expired'', ''incomplete''), (''trialing'', ''trialing''),
      (''active'', ''active''), (''past_due'', ''past_due''), (''unpaid'', ''unpaid''), (''paused'', ''paused''),
      (''canceled'', ''canceled'')]"

definition classify_subscription_event :: "billing_regexes \<Rightarrow> string \<Rightarrow> dict \<Rightarrow> classification" where
  "classify_subscription_event rx event_type obj =
     (if evidence_mismatch obj
      then subscription_result rx event_type ''unknown'' obj ''label_or_price_evidence_mismatch'' True
      else if event_type = ''customer.subscription.deleted''
      then subscription_result rx event_type ''canceled'' obj ''subscription_deleted'' False
      else
        let raw_status = normalize_text (dget obj ''status'');
            normalized = (case map_of STRIPE_SUBSCRIPTION_STATUSES raw_status of
                            Some s \<Rightarrow> s
                          | None \<Rightarrow> normalize_subscription_status ''unknown'' (JStr raw_status))
        in subscription_result rx event_type normalized obj (''subscription_'' @ normalized) False)"

definition classify_invoice_event :: "billing_regexes \<Rightarrow> string \<Rightarrow> dict \<Rightarrow> classification" where
  "classify_invoice_event rx event_type obj =
     (if event_type = ''invoice.paid''
      then subscription_result rx event_type ''active'' obj ''invoice_paid_recovery'' False
      else subscription_result rx event_type ''past_due'' obj ''invoice_payment_failed_resync_required'' True)"

definition classify_charge_refunded :: "billing_regexes \<Rightarrow> string \<Rightarrow> dict \<Rightarrow> classification" where
  "classify_charge_refunded rx event_type obj =
     (let (amount, refunded_amount) =
            (case (int_of (py_or (dget obj ''amount'') (JInt 0)), int_of (py_or (dget obj ''amount_refunded'') (JInt 0))) of
               (Some a, Some b) \<Rightarrow> (a, b)
             | _ \<Rightarrow> (0, 0));
          fully_refunded = (truthy (dget obj ''refunded'') \<or> amount > 0 \<and> refunded_amount \<ge> amount)
      in purchase_result rx event_type (if fully_refunded then ''refunded'' else ''partially_refunded'') obj
           ''charge_refunded'' False)"

definition classify_dispute_event :: "billing_regexes \<Rightarrow> string \<Rightarrow> dict \<Rightarrow> classification" where
  "classify_dispute_event rx event_type obj =
     (if event_type = ''charge.dispute.created''
      then purchase_result rx event_type ''disputed'' obj ''dispute_created'' False
      else
        let raw_status = normalize_text (dget obj ''status'');
            status = (if raw_status \<in> {''won'', ''warning_closed''} then ''dispute_won''
                      else if raw_status \<in> {''lost'', ''lost_evidence'', ''charge_refunded''} then ''dispute_lost''
                      else ''unknown'')
        in purchase_result rx event_type status obj ''dispute_closed'' False)"

definition event_type_of :: "dict \<Rightarrow> string" where
  "event_type_of event = str_strip (py_str (py_or (dget event ''type'') (JStr [])))"

definition classify_stripe_event :: "billing_regexes \<Rightarrow> dict \<Rightarrow> classification_error + classification" where
  "classify_stripe_event rx event =
     (let event_type = event_type_of event;
          obj = event_object event
      in if event_type = [] then Inl (StripeClassificationError ''Stripe event type is required'')
         else if event_type \<notin> set STRIPE_MVP_ALLOWED_WEBHOOK_EVENTS
         then Inr (ignored_result event_type ''unsupported_event_ignored_noop'')
         else if event_type = ''checkout.session.completed'' then Inr (classify_checkout_completed rx event_type obj)
         else if starts_with event_type ''customer.subscription.'' then Inr (classify_subscription_event rx event_type obj)
         else if starts_with event_type ''invoice.'' then Inr (classify_invoice_event rx event_type obj)
         else if event_type = ''charge.refunded'' then Inr (classify_charge_refunded rx event_type obj)
         else if starts_with event_type ''charge.dispute.'' then Inr (classify_dispute_event rx event_type obj)
         else Inr (ignored_result event_type ''allowed_event_without_mutation_handler''))"

definition classify_subscription_object :: "billing_regexes \<Rightarrow> dict \<Rightarrow> classification" where
  "classify_subscription_object rx subscription = classify_subscription_event rx ''customer.subscription.updated'' subscription"

definition int_or_zero :: "json \<Rightarrow> int" where
  "int_or_zero v = (case int_of (py_or v (JInt 0)) of Some i \<Rightarrow> i | None \<Rightarrow> 0)"

definition purchase_status_from_charge :: "dict \<Rightarrow> string" where
  "purchase_status_from_charge obj =
     (let amount = int_or_zero (dget obj ''amount'');
          refunded_amount = int_or_zero (dget obj ''amount_refunded'');
          status = normalize_text (dget obj ''status'')
      in if truthy (dget obj ''disputed'') then ''disputed''
         else if truthy (dget obj ''refunded'') \<or> amount > 0 \<and> refunded_amount \<ge> amount then ''refunded''
         else if refunded_amount > 0 then ''partially_refunded''
         else if status = ''succeeded'' \<and> truthy (dget obj ''paid'') then ''paid''
         else if status = ''pending'' then ''pending'' else ''unknown'')"

definition purchase_status_from_payment_intent :: "dict \<Rightarrow> string" where
  "purchase_status_from_payment_intent obj =
     (let status = normalize_text (dget obj ''status'')
      in if status = ''succeeded'' then ''paid''
         else if status = ''processing'' \<or> starts_with status ''requires_'' then ''pending'' else ''unknown'')"

section \<open>One handler per approved event\<close>

lemma classify_by_type:
  "event_type_of e = ''checkout.session.completed'' \<Longrightarrow>
     classify_stripe_event rx e = Inr (classify_checkout_completed rx (event_type_of e) (event_object e))"
  "event_type_of e \<in> {''customer.subscription.created'', ''customer.subscription.updated'', ''customer.subscription.deleted''} \<Longrightarrow>
     classify_stripe_event rx e = Inr (classify_subscription_event rx (event_type_of e) (event_object e))"
  "event_type_of e \<in> {''invoice.paid'', ''invoice.payment_failed''} \<Longrightarrow>
     classify_stripe_event rx e = Inr (classify_invoice_event rx (event_type_of e) (event_object e))"
  "event_type_of e = ''charge.refunded'' \<Longrightarrow>
     classify_stripe_event rx e = Inr (classify_charge_refunded rx (event_type_of e) (event_object e))"
  "event_type_of e \<in> {''charge.dispute.created'', ''charge.dispute.closed''} \<Longrightarrow>
     classify_stripe_event rx e = Inr (classify_dispute_event rx (event_type_of e) (event_object e))"
  by (auto simp: classify_stripe_event_def Let_def STRIPE_MVP_ALLOWED_WEBHOOK_EVENTS_def starts_with_def)

lemma classify_unsupported:
  "event_type_of e \<noteq> [] \<Longrightarrow> event_type_of e \<notin> set STRIPE_MVP_ALLOWED_WEBHOOK_EVENTS \<Longrightarrow>
     classify_stripe_event rx e = Inr (ignored_result (event_type_of e) ''unsupported_event_ignored_noop'')"
  by (simp add: classify_stripe_event_def Let_def)

text \<open>
  The shape of a classification: one normalized fact, or an ignored event without one. \<open>current\<close>
  says whether the event may report a current subscription.
\<close>

definition well_classified :: "bool \<Rightarrow> classification \<Rightarrow> bool" where
  "well_classified current c \<longleftrightarrow>
     \<not> cl_ignored c \<and> \<not> cl_no_mutation c \<and>
     (case (cl_subscription_status c, cl_purchase_status c) of
        (Some s, None) \<Rightarrow> s \<in> set NORMALIZED_SUBSCRIPTION_STATUSES \<and>
                          (s \<in> set CURRENT_PROVIDER_CONFIRMED_SUBSCRIPTION_STATUSES \<longrightarrow> current)
      | (None, Some p) \<Rightarrow> p \<in> set NORMALIZED_PURCHASE_STATUSES
      | _ \<Rightarrow> False)"

lemma well_subscription:
  "well_classified current (subscription_result rx t s obj r b) \<longleftrightarrow>
     s \<in> set NORMALIZED_SUBSCRIPTION_STATUSES \<and> (s \<in> set CURRENT_PROVIDER_CONFIRMED_SUBSCRIPTION_STATUSES \<longrightarrow> current)"
  by (simp add: well_classified_def subscription_result_def)

lemma well_purchase:
  "well_classified current (purchase_result rx t s obj r b) \<longleftrightarrow> s \<in> set NORMALIZED_PURCHASE_STATUSES"
  by (simp add: well_classified_def purchase_result_def)

lemmas status_lists = NORMALIZED_SUBSCRIPTION_STATUSES_def NORMALIZED_PURCHASE_STATUSES_def
  CURRENT_PROVIDER_CONFIRMED_SUBSCRIPTION_STATUSES_def

lemma stripe_status_known:
  "map_of STRIPE_SUBSCRIPTION_STATUSES raw = Some s \<Longrightarrow> s \<in> set NORMALIZED_SUBSCRIPTION_STATUSES"
proof -
  assume "map_of STRIPE_SUBSCRIPTION_STATUSES raw = Some s"
  then have "s \<in> snd ` set STRIPE_SUBSCRIPTION_STATUSES" by (force dest: map_of_SomeD)
  moreover have "snd ` set STRIPE_SUBSCRIPTION_STATUSES \<subseteq> set NORMALIZED_SUBSCRIPTION_STATUSES"
    by (simp add: STRIPE_SUBSCRIPTION_STATUSES_def NORMALIZED_SUBSCRIPTION_STATUSES_def)
  ultimately show "s \<in> set NORMALIZED_SUBSCRIPTION_STATUSES" by blast
qed

lemma well_checkout: "well_classified False (classify_checkout_completed rx t obj)"
  by (simp add: classify_checkout_completed_def Let_def well_subscription well_purchase)
    (simp add: status_lists well_classified_def)

lemma well_subscription_event:
  "well_classified (\<not> evidence_mismatch obj \<and> t \<noteq> ''customer.subscription.deleted'') (classify_subscription_event rx t obj)"
proof -
  have "well_classified True (subscription_result rx t
      (case map_of STRIPE_SUBSCRIPTION_STATUSES raw of Some s \<Rightarrow> s | None \<Rightarrow> normalize_subscription_status ''unknown'' (JStr raw))
      obj r b)" for raw r b
    using stripe_status_known [of raw] by (simp add: well_subscription split: option.splits)
  then show ?thesis
    by (simp add: classify_subscription_event_def Let_def well_subscription) (simp add: status_lists)
qed

lemma well_invoice: "well_classified (t = ''invoice.paid'') (classify_invoice_event rx t obj)"
  by (simp add: classify_invoice_event_def well_subscription) (simp add: status_lists)

lemma well_refund: "well_classified False (classify_charge_refunded rx t obj)"
  by (simp add: classify_charge_refunded_def well_purchase split_beta Let_def) (simp add: status_lists)

lemma well_dispute: "well_classified False (classify_dispute_event rx t obj)"
  by (simp add: classify_dispute_event_def well_purchase Let_def) (simp add: status_lists)

lemma well_classified_weaken: "well_classified c x \<Longrightarrow> (c \<Longrightarrow> d) \<Longrightarrow> well_classified d x"
  by (auto simp: well_classified_def split: option.splits)

section \<open>Guarantees\<close>


text \<open>The webhook path and the resync path agree on refunds: for a charge that is not disputed
  and has any refund, the \<^verbatim>\<open>charge.refunded\<close> event and a read of the charge give the same status.\<close>

lemma refund_webhook_agrees_with_resync:
  assumes "event_type_of e = ''charge.refunded''" and "event_object e = charge"
    and "\<not> truthy (dget charge ''disputed'')"
    and "truthy (dget charge ''refunded'') \<or> 0 < int_or_zero (dget charge ''amount_refunded'')"
  shows "\<exists>c. classify_stripe_event rx e = Inr c \<and> cl_purchase_status c = Some (purchase_status_from_charge charge)"
  using assms classify_by_type(4) [OF assms(1), of rx]
  by (auto simp: classify_charge_refunded_def purchase_status_from_charge_def purchase_result_def int_or_zero_def Let_def
      split: option.splits)

text \<open>A sanitizer that masks every text and finds nothing.\<close>

definition demo_regexes :: billing_regexes where
  "demo_regexes = \<lparr>sanitize_text = (\<lambda>s. REDACTED), raw_stripe_id = (\<lambda>s. False), raw_stripe_secret = (\<lambda>s. False),
     stripe_signature = (\<lambda>s. False)\<rparr>"

definition demo_refund :: dict where
  "demo_refund = [''amount'' \<mapsto> JInt 1000, ''amount_refunded'' \<mapsto> JStr ''400'', ''status'' \<mapsto> JStr ''succeeded'']"

definition demo_refund_event :: dict where
  "demo_refund_event = [''type'' \<mapsto> JStr ''charge.refunded'', ''data'' \<mapsto> JObj [''object'' \<mapsto> JObj demo_refund]]"

lemma refund_example:
  "\<exists>c. classify_stripe_event demo_regexes demo_refund_event = Inr c \<and>
     cl_purchase_status c = Some (purchase_status_from_charge demo_refund) \<and>
     purchase_status_from_charge demo_refund = ''partially_refunded''"
proof -
  have i: "parse_int ''400'' = Some 400"
    by (simp add: parse_int_def str_strip_def is_space_def is_digit_def)
  have "event_type_of demo_refund_event = ''charge.refunded''" "event_object demo_refund_event = demo_refund"
    by (simp_all add: event_type_of_def event_object_def demo_refund_event_def str_strip_def is_space_def)
  moreover have "\<not> truthy (dget demo_refund ''disputed'')"
    "truthy (dget demo_refund ''refunded'') \<or> 0 < int_or_zero (dget demo_refund ''amount_refunded'')"
    by (simp_all add: demo_refund_def int_or_zero_def i)
  moreover have "purchase_status_from_charge demo_refund = ''partially_refunded''"
    by (simp add: purchase_status_from_charge_def demo_refund_def int_or_zero_def i)
  ultimately show ?thesis using refund_webhook_agrees_with_resync [of demo_refund_event demo_refund demo_regexes] by simp
qed

end
