(* ===== verification/Patreon_Classifier.thy ===== *)
theory Patreon_Classifier
  imports Text "HOL-Library.AList" "HOL-Library.Product_Lexorder" "HOL-Library.List_Lexorder" "HOL-Library.Char_ord"
begin

text \<open>
  Patreon entitlement classification: \<^verbatim>\<open>src/src/Util/patreon/classifier.py\<close>. A payload is a JSON
  value, a tier-map row and a snapshot are dictionaries, the clock is the argument \<open>now\<close> in
  microseconds. The timestamps of a snapshot are kept as values, so that \<open>stale_after\<close> can be
  parsed; those of a member are texts.
\<close>

section \<open>Data\<close>

record tier_decision =
  td_plan_code :: string
  td_tier_code :: string
  td_tier_name :: "string option"
  td_priority :: int
  td_active :: bool

record member_observation =
  mo_patron_status :: "string option"
  mo_campaign_key :: "string option"
  mo_tier_keys :: "string list"
  mo_next_renewal_at :: "string option"
  mo_grace_period_until :: "string option"
  mo_has_campaign :: bool
  mo_has_tiers :: bool

definition complete_for_classification :: "member_observation \<Rightarrow> bool" where
  "complete_for_classification o1 \<longleftrightarrow> mo_has_campaign o1 \<and> mo_has_tiers o1"

record patreon_result =
  pr_external_source :: "string option"
  pr_status :: string
  pr_plan_code :: string
  pr_tier_code :: "string option"
  pr_tier_name :: "string option"
  pr_link_status :: string
  pr_next_renewal_at :: json
  pr_grace_period_until :: json
  pr_last_synced_at :: json
  pr_stale_after :: json
  pr_classification_version :: int
  pr_source :: string
  pr_is_complete :: bool
  pr_resync_required :: bool
  pr_tier_map_miss :: bool
  pr_unknown_tier :: bool
  pr_downgrade_applied :: bool
  pr_reasons :: "string list"
  pr_observed_members :: nat
  pr_observed_active_members :: nat
  pr_observed_mapped_tiers :: nat
  pr_observed_unmapped_tiers :: nat
  pr_observed_ignored_campaigns :: nat

definition PATREON_DEFAULT_CONTRACT_VERSION :: int where "PATREON_DEFAULT_CONTRACT_VERSION = 1"
definition PATREON_PROVIDER_NAME :: string where "PATREON_PROVIDER_NAME = ''patreon''"

definition PATREON_SAFE_ENTITLEMENT_STATUSES :: "string list" where
  "PATREON_SAFE_ENTITLEMENT_STATUSES = [''active'', ''free'', ''pending'', ''former'', ''revoked'', ''stale'']"

definition PATREON_SAFE_LINK_STATUSES :: "string list" where
  "PATREON_SAFE_LINK_STATUSES = [''none'', ''pending'', ''linked'', ''unlinked'', ''revoked'']"

definition ACTIVE_PATRON_STATUSES :: "string list" where
  "ACTIVE_PATRON_STATUSES = [''active'', ''active_patron'']"

text \<open>\<^verbatim>\<open>to_safe_dict\<close>: the allow-listed fields, and nothing else.\<close>

definition to_safe_dict :: "patreon_result \<Rightarrow> dict" where
  "to_safe_dict r =
     [''external_source'' \<mapsto> json_of (pr_external_source r), ''status'' \<mapsto> JStr (pr_status r),
      ''plan_code'' \<mapsto> JStr (pr_plan_code r), ''tier_code'' \<mapsto> json_of (pr_tier_code r),
      ''tier_name'' \<mapsto> json_of (pr_tier_name r), ''link_status'' \<mapsto> JStr (pr_link_status r),
      ''next_renewal_at'' \<mapsto> pr_next_renewal_at r, ''grace_period_until'' \<mapsto> pr_grace_period_until r,
      ''last_synced_at'' \<mapsto> pr_last_synced_at r, ''stale_after'' \<mapsto> pr_stale_after r,
      ''classification_version'' \<mapsto> JInt (pr_classification_version r)]"

section \<open>Reading the payload\<close>

definition future_stale_after :: "int \<Rightarrow> int \<Rightarrow> json" where
  "future_stale_after now_dt stale_after_seconds = JTime (now_dt + max 0 stale_after_seconds * 1000000)"

definition safe_source_label :: "json \<Rightarrow> string" where
  "safe_source_label source =
     (let n = str_strip (py_str (py_or source (JStr ''api_pull''))) in if n = [] then ''api_pull'' else n)"

text \<open>\<^verbatim>\<open>_first_field\<close>: the first value that is not \<^verbatim>\<open>None\<close>; \<^verbatim>\<open>_first_present\<close>: the first key present.\<close>

fun first_field :: "dict \<Rightarrow> string list \<Rightarrow> json \<Rightarrow> json" where
  "first_field d [] x = x"
| "first_field d (n # ns) x = (if dget d n \<noteq> JNull then dget d n else first_field d ns x)"

fun first_key :: "dict \<Rightarrow> string list \<Rightarrow> json option" where
  "first_key d [] = None"
| "first_key d (n # ns) = (case d n of Some v \<Rightarrow> Some v | None \<Rightarrow> first_key d ns)"

fun first_present :: "dict list \<Rightarrow> string list \<Rightarrow> json" where
  "first_present [] names = JNull"
| "first_present (d # ds) names = (case first_key d names of Some v \<Rightarrow> v | None \<Rightarrow> first_present ds names)"

definition coerce_priority :: "json \<Rightarrow> int" where
  "coerce_priority v = coerce_int v 0"

definition decision_sort_key :: "tier_decision \<Rightarrow> int \<times> string \<times> string \<times> string" where
  "decision_sort_key d =
     (td_priority d, td_plan_code d, td_tier_code d, case td_tier_name d of Some n \<Rightarrow> n | None \<Rightarrow> [])"

definition row_decision :: "dict \<Rightarrow> ((string \<times> string) \<times> tier_decision) option" where
  "row_decision row =
     (case (clean_text (first_field row [''campaign_id'', ''campaign_hash'', ''campaign_id_hash'', ''campaign_key''] JNull),
            clean_text (first_field row [''tier_id'', ''tier_hash'', ''tier_id_hash'', ''tier_key''] JNull),
            clean_text (first_field row [''plan_code''] JNull), clean_text (first_field row [''tier_code''] JNull)) of
        (Some c, Some t, Some p, Some tc) \<Rightarrow>
          Some ((c, t), \<lparr>td_plan_code = p, td_tier_code = tc,
                         td_tier_name = clean_text (first_field row [''tier_name'', ''display_name''] JNull),
                         td_priority = coerce_priority (first_field row [''priority''] (JInt 0)),
                         td_active = truthy (first_field row [''active''] (JBool True))\<rparr>)
      | _ \<Rightarrow> None)"

definition add_row ::
    "((string \<times> string) \<times> tier_decision) list \<Rightarrow> dict \<Rightarrow> ((string \<times> string) \<times> tier_decision) list" where
  "add_row index row =
     (case row_decision row of
        None \<Rightarrow> index
      | Some (key, decision) \<Rightarrow>
          (case map_of index key of
             None \<Rightarrow> AList.update key decision index
           | Some prior \<Rightarrow>
               if decision_sort_key prior < decision_sort_key decision then AList.update key decision index else index))"

definition build_tier_map_index :: "dict list \<Rightarrow> ((string \<times> string) \<times> tier_decision) list" where
  "build_tier_map_index tier_map = foldl add_row [] tier_map"

fun mapping_or_empty :: "json \<Rightarrow> dict" where
  "mapping_or_empty (JObj d) = d"
| "mapping_or_empty _ = Map.empty"

definition id_text :: "dict \<Rightarrow> string list \<Rightarrow> string option" where
  "id_text d names = clean_text (first_present [d] names)"

fun tier_text :: "json \<Rightarrow> string option" where
  "tier_text (JObj d) = id_text d [''id'', ''tier_id'', ''tier_hash'', ''tier_id_hash'']"
| "tier_text v = clean_text v"

definition normalize_tier_collection :: "json \<Rightarrow> string list" where
  "normalize_tier_collection value =
     (case value of
        JObj d \<Rightarrow> (case tier_text value of Some t \<Rightarrow> [t] | None \<Rightarrow> [])
      | JStr s \<Rightarrow> (case clean_text value of Some t \<Rightarrow> [t] | None \<Rightarrow> [])
      | JTime t \<Rightarrow> (case clean_text value of Some t \<Rightarrow> [t] | None \<Rightarrow> [])
      | JList xs \<Rightarrow> rev (remdups (rev (List.map_filter tier_text xs)))
      | _ \<Rightarrow> [])"

definition extract_campaign_key :: "dict \<Rightarrow> dict \<Rightarrow> string option \<times> bool" where
  "extract_campaign_key member relationships =
     (let ids = [''id'', ''campaign_id'', ''campaign_hash''];
          related = (case dget relationships ''campaign'' of
              JObj campaign \<Rightarrow>
                (case dget campaign ''data'' of JObj data \<Rightarrow> (id_text data ids, True) | _ \<Rightarrow> (None, True))
            | _ \<Rightarrow> (None, False))
      in case id_text member [''campaign_id'', ''campaign_hash'', ''campaign_id_hash'', ''campaign_key''] of
           Some direct \<Rightarrow> (Some direct, True)
         | None \<Rightarrow>
             (case dget member ''campaign'' of
                JObj direct_campaign \<Rightarrow>
                  (case dget_default direct_campaign ''data'' (JObj direct_campaign) of
                     JObj data \<Rightarrow> (id_text data ids, True)
                   | _ \<Rightarrow> related)
              | _ \<Rightarrow> related))"

definition extract_tier_keys :: "dict \<Rightarrow> dict \<Rightarrow> string list \<times> bool" where
  "extract_tier_keys member relationships =
     (let direct = first_present [member]
            [''tier_ids'', ''tier_hashes'', ''tier_id_hashes'', ''currently_entitled_tier_ids'', ''currently_entitled_tiers'']
      in case direct of
           JNull \<Rightarrow>
             (case dget relationships ''currently_entitled_tiers'' of
                JObj rel \<Rightarrow> (normalize_tier_collection (dget rel ''data''), True)
              | _ \<Rightarrow> ([], False))
         | JObj d \<Rightarrow> (normalize_tier_collection (case d ''data'' of Some data \<Rightarrow> data | None \<Rightarrow> direct), True)
         | _ \<Rightarrow> (normalize_tier_collection direct, True))"

definition observation_from_member :: "dict \<Rightarrow> member_observation" where
  "observation_from_member member =
     (let attributes = mapping_or_empty (dget member ''attributes'');
          relationships = mapping_or_empty (dget member ''relationships'');
          (campaign_key, has_campaign) = extract_campaign_key member relationships;
          (tier_keys, has_tiers) = extract_tier_keys member relationships
      in \<lparr>mo_patron_status = clean_text (first_present [attributes, member] [''patron_status'', ''status'', ''membership_status'']),
          mo_campaign_key = campaign_key, mo_tier_keys = tier_keys,
          mo_next_renewal_at = clean_text (first_present [attributes, member] [''next_charge_date'', ''next_renewal_at'']),
          mo_grace_period_until = clean_text (first_present [attributes, member] [''grace_period_until'', ''grace_until'']),
          mo_has_campaign = has_campaign, mo_has_tiers = has_tiers\<rparr>)"

definition raw_items :: "json \<Rightarrow> json list" where
  "raw_items payload =
     (case payload of
        JObj p \<Rightarrow>
          (case dget p ''data'' of
             JList data \<Rightarrow> data
           | JObj data \<Rightarrow> [JObj data]
           | _ \<Rightarrow> (case dget p ''members'' of JList ms \<Rightarrow> ms | _ \<Rightarrow> [payload]))
      | JList xs \<Rightarrow> xs
      | _ \<Rightarrow> [])"

definition extract_observations :: "json \<Rightarrow> member_observation list" where
  "extract_observations payload =
     List.map_filter
       (\<lambda>item. case item of
          JObj d \<Rightarrow> if truthy (dget d ''type'') \<and> dget d ''type'' \<noteq> JStr ''member'' then None
                   else Some (observation_from_member d)
        | _ \<Rightarrow> None)
       (raw_items payload)"

section \<open>Snapshots\<close>

text \<open>\<^verbatim>\<open>_snapshot_text\<close> of a timestamp: a stored instant keeps its text.\<close>

definition snapshot_time :: "dict \<Rightarrow> string \<Rightarrow> json" where
  "snapshot_time snapshot name =
     (case dget snapshot name of JTime t \<Rightarrow> JTime t | v \<Rightarrow> json_of (clean_text v))"

definition snapshot_text :: "dict \<Rightarrow> string \<Rightarrow> string option" where
  "snapshot_text snapshot name = clean_text (dget snapshot name)"

definition snapshot_status :: "dict \<Rightarrow> string" where
  "snapshot_status snapshot =
     (let status = (case snapshot_text snapshot ''status'' of
             Some s \<Rightarrow> s
           | None \<Rightarrow> (case snapshot_text snapshot ''entitlement_status'' of Some s \<Rightarrow> s | None \<Rightarrow> ''free''))
      in if status \<notin> set PATREON_SAFE_ENTITLEMENT_STATUSES then ''free'' else status)"

definition snapshot_plan_code :: "dict \<Rightarrow> string" where
  "snapshot_plan_code snapshot = (case snapshot_text snapshot ''plan_code'' of Some p \<Rightarrow> p | None \<Rightarrow> ''free'')"

definition snapshot_link_status :: "dict \<Rightarrow> string" where
  "snapshot_link_status snapshot =
     (let l = (case snapshot_text snapshot ''link_status'' of Some s \<Rightarrow> s | None \<Rightarrow> ''none'')
      in if l \<notin> set PATREON_SAFE_LINK_STATUSES then ''none'' else l)"

definition snapshot_version :: "dict \<Rightarrow> int" where
  "snapshot_version snapshot =
     (case int_of (dget_default snapshot ''classification_version'' (JInt PATREON_DEFAULT_CONTRACT_VERSION)) of
        Some i \<Rightarrow> i
      | None \<Rightarrow> PATREON_DEFAULT_CONTRACT_VERSION)"

definition snapshot_is_stale :: "dict \<Rightarrow> int \<Rightarrow> bool" where
  "snapshot_is_stale snapshot now_dt =
     (case parse_instant (dget snapshot ''stale_after'') of None \<Rightarrow> False | Some e \<Rightarrow> e \<le> now_dt)"

definition snapshot_has_paid_plan :: "dict \<Rightarrow> bool" where
  "snapshot_has_paid_plan snapshot \<longleftrightarrow> snapshot_plan_code snapshot \<notin> {[], ''free''}"

text \<open>\<^verbatim>\<open>str.isalnum\<close> on one character below 256.\<close>

definition is_alnum :: "char \<Rightarrow> bool" where
  "is_alnum c \<longleftrightarrow>
     (let n = code_point c
      in 48 \<le> n \<and> n \<le> 57 \<or> 65 \<le> n \<and> n \<le> 90 \<or> 97 \<le> n \<and> n \<le> 122 \<or>
         n \<in> {170, 178, 179, 181, 185, 186, 188, 189, 190} \<or> 192 \<le> n \<and> n \<noteq> 215 \<and> n \<noteq> 247)"

fun join_parts :: "bool \<Rightarrow> string \<Rightarrow> string" where
  "join_parts gap [] = []"
| "join_parts gap (c # s) =
     (if c = CHR ''_'' then join_parts True s
      else if gap then CHR ''_'' # c # join_parts False s else c # join_parts False s)"

text \<open>
  Every character that is not alphanumeric becomes an underscore; \<^verbatim>\<open>split("_")\<close> without empty parts
  and \<^verbatim>\<open>"_".join\<close> drop leading and trailing underscores and merge runs of them.
\<close>

definition safe_degraded_reason :: "json \<Rightarrow> string option" where
  "safe_degraded_reason reason =
     (let text = str_lower (str_strip (py_str (py_or reason (JStr []))));
          marked = map (\<lambda>c. if is_alnum c then c else CHR ''_'') text;
          normalized = take 64 (join_parts False (dropWhile (\<lambda>c. c = CHR ''_'') marked))
      in if text = [] \<or> normalized = [] then None else Some normalized)"

definition degraded_reason_markers :: "string option \<Rightarrow> string list" where
  "degraded_reason_markers reason =
     (case safe_degraded_reason (json_of reason) of None \<Rightarrow> [] | Some r \<Rightarrow> [''provider_degraded'', r])"

definition should_force_snapshot_stale :: "dict \<Rightarrow> string option \<Rightarrow> bool \<Rightarrow> bool" where
  "should_force_snapshot_stale snapshot degraded_reason force_stale =
     (if \<not> (force_stale \<or> degraded_reason \<notin> {None, Some []}) then False
      else snapshot_has_paid_plan snapshot \<or> snapshot_status snapshot \<in> {''active'', ''pending''})"

definition dedupe_reasons :: "string list \<Rightarrow> string list" where
  "dedupe_reasons reasons = rev (remdups (rev (filter (\<lambda>r. r \<noteq> []) (map str_strip reasons))))"

section \<open>Results that grant nothing new\<close>

definition base_result :: "string \<Rightarrow> patreon_result" where
  "base_result source =
     \<lparr>pr_external_source = None, pr_status = ''free'', pr_plan_code = ''free'', pr_tier_code = None, pr_tier_name = None,
      pr_link_status = ''linked'', pr_next_renewal_at = JNull, pr_grace_period_until = JNull, pr_last_synced_at = JNull,
      pr_stale_after = JNull, pr_classification_version = PATREON_DEFAULT_CONTRACT_VERSION, pr_source = source,
      pr_is_complete = True, pr_resync_required = False, pr_tier_map_miss = False, pr_unknown_tier = False,
      pr_downgrade_applied = False, pr_reasons = [], pr_observed_members = 0, pr_observed_active_members = 0,
      pr_observed_mapped_tiers = 0, pr_observed_unmapped_tiers = 0, pr_observed_ignored_campaigns = 0\<rparr>"

definition classify_without_payload ::
    "dict \<Rightarrow> int \<Rightarrow> string \<Rightarrow> bool \<Rightarrow> string \<Rightarrow> string option \<Rightarrow> bool \<Rightarrow> patreon_result" where
  "classify_without_payload current now_dt source is_complete reason degraded_reason force_stale =
     (let markers = degraded_reason_markers degraded_reason
      in if current \<noteq> Map.empty then
           let stale = (snapshot_is_stale current now_dt \<or> should_force_snapshot_stale current degraded_reason force_stale);
               status = (if stale then ''stale'' else snapshot_status current)
           in (base_result source)\<lparr>
                pr_external_source := snapshot_text current ''external_source'', pr_status := status,
                pr_plan_code := snapshot_plan_code current, pr_tier_code := snapshot_text current ''tier_code'',
                pr_tier_name := snapshot_text current ''tier_name'', pr_link_status := snapshot_link_status current,
                pr_next_renewal_at := snapshot_time current ''next_renewal_at'',
                pr_grace_period_until := snapshot_time current ''grace_period_until'',
                pr_last_synced_at := snapshot_time current ''last_synced_at'',
                pr_stale_after := snapshot_time current ''stale_after'',
                pr_classification_version := snapshot_version current, pr_is_complete := is_complete,
                pr_resync_required := True,
                pr_reasons := dedupe_reasons (reason # markers @
                   [if status = ''stale'' then ''stale_snapshot'' else ''snapshot_preserved''])\<rparr>
         else (base_result source)\<lparr>
                pr_link_status := ''none'', pr_is_complete := is_complete,
                pr_resync_required := (degraded_reason \<notin> {None, Some []} \<or> force_stale),
                pr_reasons := dedupe_reasons (reason # markers @ [''fail_closed_no_paid_grant'', ''no_current_snapshot''])\<rparr>)"

definition preserve_current_or_pending ::
    "dict \<Rightarrow> int \<Rightarrow> string \<Rightarrow> string \<Rightarrow> nat \<Rightarrow> string option \<Rightarrow> bool \<Rightarrow> patreon_result" where
  "preserve_current_or_pending current now_dt source reason observed_members degraded_reason force_stale =
     (if current \<noteq> Map.empty then
        let preserved = classify_without_payload current now_dt source False reason degraded_reason force_stale
        in preserved\<lparr>pr_resync_required := True, pr_downgrade_applied := False,
             pr_reasons := dedupe_reasons (reason # ''non_destructive_preserve_current'' # pr_reasons preserved),
             pr_observed_members := observed_members\<rparr>
      else (base_result source)\<lparr>
             pr_external_source := Some PATREON_PROVIDER_NAME, pr_status := ''pending'', pr_link_status := ''pending'',
             pr_is_complete := False, pr_resync_required := True,
             pr_reasons := dedupe_reasons (reason # degraded_reason_markers degraded_reason @
                [''resync_required'', ''fail_closed_no_paid_grant'', ''no_current_snapshot'']),
             pr_observed_members := observed_members\<rparr>)"

definition unknown_tier_or_unmapped_result ::
    "dict \<Rightarrow> int \<Rightarrow> string \<Rightarrow> int \<Rightarrow> nat \<Rightarrow> nat \<Rightarrow> nat \<Rightarrow> nat \<Rightarrow> patreon_result" where
  "unknown_tier_or_unmapped_result current now_dt source stale_after_seconds members active unmapped ignored =
     (if current \<noteq> Map.empty \<and> snapshot_has_paid_plan current then
        let preserved = classify_without_payload current now_dt source True
              ''tier_map_miss_preserve_current_until_resync'' None False
        in preserved\<lparr>pr_status := (if snapshot_is_stale current now_dt then ''stale'' else ''pending''),
             pr_resync_required := True, pr_tier_map_miss := True, pr_unknown_tier := True, pr_downgrade_applied := False,
             pr_reasons := dedupe_reasons ([''tier_map_miss'', ''unknown_tier'', ''non_destructive_preserve_current''] @
                pr_reasons preserved),
             pr_observed_members := members, pr_observed_active_members := active,
             pr_observed_unmapped_tiers := unmapped, pr_observed_ignored_campaigns := ignored\<rparr>
      else (base_result source)\<lparr>
             pr_external_source := Some PATREON_PROVIDER_NAME, pr_status := ''pending'',
             pr_last_synced_at := JTime now_dt, pr_stale_after := future_stale_after now_dt stale_after_seconds,
             pr_resync_required := True, pr_tier_map_miss := True, pr_unknown_tier := True,
             pr_reasons := [''tier_map_miss'', ''unknown_tier'', ''resync_required'', ''fail_safe_no_paid_grant''],
             pr_observed_members := members, pr_observed_active_members := active,
             pr_observed_unmapped_tiers := unmapped, pr_observed_ignored_campaigns := ignored\<rparr>)"

definition ignored_campaigns_only_result ::
    "dict \<Rightarrow> int \<Rightarrow> string \<Rightarrow> int \<Rightarrow> nat \<Rightarrow> nat \<Rightarrow> nat \<Rightarrow> patreon_result" where
  "ignored_campaigns_only_result current now_dt source stale_after_seconds members active ignored =
     (if current \<noteq> Map.empty \<and> snapshot_has_paid_plan current then
        let preserved = classify_without_payload current now_dt source True
              ''ignored_unconfigured_campaign_preserve_current'' None False
        in preserved\<lparr>pr_resync_required := True, pr_tier_map_miss := False, pr_unknown_tier := False,
             pr_downgrade_applied := False,
             pr_reasons := dedupe_reasons ([''ignored_unconfigured_campaign'', ''non_destructive_preserve_current''] @
                pr_reasons preserved),
             pr_observed_members := members, pr_observed_active_members := active,
             pr_observed_ignored_campaigns := ignored\<rparr>
      else (base_result source)\<lparr>
             pr_external_source := Some PATREON_PROVIDER_NAME, pr_status := ''pending'',
             pr_last_synced_at := JTime now_dt, pr_stale_after := future_stale_after now_dt stale_after_seconds,
             pr_reasons := [''ignored_unconfigured_campaign'', ''fail_safe_no_paid_grant''],
             pr_observed_members := members, pr_observed_active_members := active,
             pr_observed_ignored_campaigns := ignored\<rparr>)"

definition free_result :: "int \<Rightarrow> json \<Rightarrow> string \<Rightarrow> string \<Rightarrow> string \<Rightarrow> string option \<Rightarrow> string list \<Rightarrow> patreon_result" where
  "free_result now_dt stale_after source status link_status external_source reasons =
     (base_result source)\<lparr>pr_external_source := external_source, pr_status := status, pr_link_status := link_status,
        pr_last_synced_at := JTime now_dt, pr_stale_after := stale_after, pr_reasons := reasons\<rparr>"

section \<open>Candidates and classification\<close>

record scan =
  sc_candidates :: "(tier_decision \<times> member_observation) list"
  sc_active :: nat
  sc_unmapped :: nat
  sc_ignored :: nat
  sc_any_tier :: bool

definition scan_tier ::
    "((string \<times> string) \<times> tier_decision) list \<Rightarrow> string \<Rightarrow> member_observation \<Rightarrow> scan \<Rightarrow> string \<Rightarrow> scan" where
  "scan_tier index campaign o1 sc tier =
     (case map_of index (campaign, tier) of
        Some m \<Rightarrow> if td_active m then sc\<lparr>sc_candidates := sc_candidates sc @ [(m, o1)]\<rparr>
                  else sc\<lparr>sc_unmapped := Suc (sc_unmapped sc)\<rparr>
      | None \<Rightarrow> sc\<lparr>sc_unmapped := Suc (sc_unmapped sc)\<rparr>)"

definition scan_observation ::
    "((string \<times> string) \<times> tier_decision) list \<Rightarrow> scan \<Rightarrow> member_observation \<Rightarrow> scan" where
  "scan_observation index sc o1 =
     (if normalize_text (json_of (mo_patron_status o1)) \<notin> set ACTIVE_PATRON_STATUSES then sc
      else
        let sc1 = sc\<lparr>sc_active := Suc (sc_active sc), sc_any_tier := (sc_any_tier sc \<or> mo_tier_keys o1 \<noteq> [])\<rparr>
        in case mo_campaign_key o1 of
             None \<Rightarrow> sc1\<lparr>sc_ignored := Suc (sc_ignored sc1)\<rparr>
           | Some c \<Rightarrow>
               if c = [] \<or> c \<notin> set (map (fst \<circ> fst) index) then sc1\<lparr>sc_ignored := Suc (sc_ignored sc1)\<rparr>
               else foldl (scan_tier index c o1) sc1 (mo_tier_keys o1))"

definition scan_observations ::
    "((string \<times> string) \<times> tier_decision) list \<Rightarrow> member_observation list \<Rightarrow> scan" where
  "scan_observations index os =
     foldl (scan_observation index)
       \<lparr>sc_candidates = [], sc_active = 0, sc_unmapped = 0, sc_ignored = 0, sc_any_tier = False\<rparr> os"

definition candidate_key :: "tier_decision \<times> member_observation \<Rightarrow> int \<times> string \<times> string \<times> string \<times> string" where
  "candidate_key c =
     (td_priority (fst c), td_plan_code (fst c), td_tier_code (fst c),
      (case td_tier_name (fst c) of Some n \<Rightarrow> n | None \<Rightarrow> []),
      (case mo_next_renewal_at (snd c) of Some n \<Rightarrow> n | None \<Rightarrow> []))"

text \<open>\<^verbatim>\<open>max(candidates, key=...)\<close>: the first of the maximal candidates.\<close>

fun select_highest_priority ::
    "tier_decision \<times> member_observation \<Rightarrow> (tier_decision \<times> member_observation) list \<Rightarrow> tier_decision \<times> member_observation" where
  "select_highest_priority best [] = best"
| "select_highest_priority best (c # cs) =
     select_highest_priority (if candidate_key best < candidate_key c then c else best) cs"

definition grant_result ::
    "int \<Rightarrow> string \<Rightarrow> int \<Rightarrow> nat \<Rightarrow> scan \<Rightarrow> tier_decision \<times> member_observation \<Rightarrow> patreon_result" where
  "grant_result now_dt source stale_after_seconds members sc selected =
     (base_result source)\<lparr>
        pr_external_source := Some PATREON_PROVIDER_NAME, pr_status := ''active'',
        pr_plan_code := td_plan_code (fst selected), pr_tier_code := Some (td_tier_code (fst selected)),
        pr_tier_name := td_tier_name (fst selected),
        pr_next_renewal_at := json_of (mo_next_renewal_at (snd selected)),
        pr_grace_period_until := json_of (mo_grace_period_until (snd selected)),
        pr_last_synced_at := JTime now_dt, pr_stale_after := future_stale_after now_dt stale_after_seconds,
        pr_resync_required := sc_unmapped sc \<noteq> 0, pr_tier_map_miss := sc_unmapped sc \<noteq> 0,
        pr_unknown_tier := sc_unmapped sc \<noteq> 0,
        pr_reasons := dedupe_reasons ([''mapped_tier_grant''] @
           (if sc_ignored sc \<noteq> 0 then [''ignored_unconfigured_campaign''] else []) @
           (if sc_unmapped sc \<noteq> 0 then [''tier_map_miss''] else [])),
        pr_observed_members := members, pr_observed_active_members := sc_active sc,
        pr_observed_mapped_tiers := length (sc_candidates sc), pr_observed_unmapped_tiers := sc_unmapped sc,
        pr_observed_ignored_campaigns := sc_ignored sc\<rparr>"

definition former_result :: "dict \<Rightarrow> int \<Rightarrow> string \<Rightarrow> int \<Rightarrow> nat \<Rightarrow> scan \<Rightarrow> patreon_result" where
  "former_result current now_dt source stale_after_seconds members sc =
     (base_result source)\<lparr>
        pr_external_source := Some PATREON_PROVIDER_NAME, pr_status := ''former'',
        pr_last_synced_at := JTime now_dt, pr_stale_after := future_stale_after now_dt stale_after_seconds,
        pr_downgrade_applied := snapshot_has_paid_plan current, pr_reasons := [''complete_non_paid_source_of_truth''],
        pr_observed_members := members, pr_observed_active_members := sc_active sc,
        pr_observed_unmapped_tiers := sc_unmapped sc, pr_observed_ignored_campaigns := sc_ignored sc\<rparr>"

definition classify_observations ::
    "dict \<Rightarrow> int \<Rightarrow> string \<Rightarrow> int \<Rightarrow> ((string \<times> string) \<times> tier_decision) list \<Rightarrow> member_observation list \<Rightarrow> patreon_result" where
  "classify_observations current now_dt source stale_after_seconds index os =
     (let sc = scan_observations index os; members = length os
      in case sc_candidates sc of
           c # cs \<Rightarrow> grant_result now_dt source stale_after_seconds members sc (select_highest_priority c cs)
         | [] \<Rightarrow>
             if sc_active sc \<noteq> 0 \<and> sc_unmapped sc \<noteq> 0 then
               unknown_tier_or_unmapped_result current now_dt source stale_after_seconds members (sc_active sc)
                 (max (sc_unmapped sc) (if sc_any_tier sc then 1 else 0)) (sc_ignored sc)
             else if sc_active sc \<noteq> 0 \<and> sc_any_tier sc \<and> sc_ignored sc \<noteq> 0 then
               ignored_campaigns_only_result current now_dt source stale_after_seconds members (sc_active sc) (sc_ignored sc)
             else former_result current now_dt source stale_after_seconds members sc)"

definition classify_patreon_entitlement ::
    "json \<Rightarrow> dict list \<Rightarrow> int \<Rightarrow> json \<Rightarrow> bool \<Rightarrow> dict \<Rightarrow> int \<Rightarrow> json \<Rightarrow> bool \<Rightarrow> patreon_result" where
  "classify_patreon_entitlement payload tier_map now source is_complete current stale_after_seconds degraded force_stale =
     (let now_dt = whole_second_of now;
          label = safe_source_label source;
          degraded_reason = safe_degraded_reason degraded;
          os = extract_observations payload
      in if payload = JNull then
           classify_without_payload current now_dt label False ''no_payload_snapshot_read'' degraded_reason force_stale
         else if os = [] then
           (if \<not> is_complete then
              preserve_current_or_pending current now_dt label ''partial_payload_without_members_resync_required'' 0
                degraded_reason force_stale
            else free_result now_dt (future_stale_after now_dt stale_after_seconds) label ''free'' ''none'' None
                   [''complete_payload_without_members''])
         else if \<not> is_complete \<or> list_ex (\<lambda>o1. \<not> complete_for_classification o1) os then
           preserve_current_or_pending current now_dt label ''partial_non_destructive_resync_required'' (length os)
             degraded_reason force_stale
         else classify_observations current now_dt label stale_after_seconds (build_tier_map_index tier_map) os)"

section \<open>The tier map and the candidates\<close>

lemma add_row_sound:
  assumes "\<And>k d. map_of index k = Some d \<Longrightarrow> P k d" and "\<And>k d. row_decision row = Some (k, d) \<Longrightarrow> P k d"
  shows "map_of (add_row index row) k = Some d \<Longrightarrow> P k d"
  using assms by (auto simp: add_row_def update_conv split: option.splits if_splits prod.splits)

lemma build_tier_map_index_sound:
  assumes "map_of (build_tier_map_index tier_map) k = Some d"
  shows "\<exists>row \<in> set tier_map. row_decision row = Some (k, d)"
proof -
  have "\<forall>k d. map_of (foldl add_row [] tier_map) k = Some d \<longrightarrow> (\<exists>row \<in> set tier_map. row_decision row = Some (k, d))"
  proof (rule foldl_invariant [where P = "\<lambda>idx. \<forall>k d. map_of idx k = Some d \<longrightarrow>
      (\<exists>row \<in> set tier_map. row_decision row = Some (k, d))"])
    fix idx row
    assume i: "\<forall>k d. map_of idx k = Some d \<longrightarrow> (\<exists>row \<in> set tier_map. row_decision row = Some (k, d))"
      and r: "row \<in> set tier_map"
    show "\<forall>k d. map_of (add_row idx row) k = Some d \<longrightarrow> (\<exists>row \<in> set tier_map. row_decision row = Some (k, d))"
    proof (intro allI impI)
      fix k d
      assume "map_of (add_row idx row) k = Some d"
      then show "\<exists>row \<in> set tier_map. row_decision row = Some (k, d)"
        by (rule add_row_sound [where P = "\<lambda>k d. \<exists>row \<in> set tier_map. row_decision row = Some (k, d)", rotated 2])
          (use i r in blast)+
    qed
  qed simp
  with assms show ?thesis unfolding build_tier_map_index_def by blast
qed

definition active_patron :: "member_observation \<Rightarrow> bool" where
  "active_patron o1 \<longleftrightarrow> normalize_text (json_of (mo_patron_status o1)) \<in> set ACTIVE_PATRON_STATUSES"

text \<open>The tiers an active patron holds in a configured campaign, as the tier map decides them.\<close>

definition mapped ::
    "((string \<times> string) \<times> tier_decision) list \<Rightarrow> member_observation \<Rightarrow> tier_decision \<Rightarrow> bool" where
  "mapped index o1 d \<longleftrightarrow> active_patron o1 \<and> td_active d \<and>
     (\<exists>c t. mo_campaign_key o1 = Some c \<and> c \<noteq> [] \<and> t \<in> set (mo_tier_keys o1) \<and> map_of index (c, t) = Some d)"

lemma scan_tiers_candidates:
  "set (sc_candidates (foldl (scan_tier index c o1) sc tiers)) =
     set (sc_candidates sc) \<union> {(d, o1) |d t. t \<in> set tiers \<and> map_of index (c, t) = Some d \<and> td_active d}"
  by (induction tiers arbitrary: sc) (auto simp: scan_tier_def split: option.splits)

lemma configured_campaign: "map_of index (c, t) = Some d \<Longrightarrow> c \<in> set (map (fst \<circ> fst) index)"
  by (force dest: map_of_SomeD)

lemma scan_observation_candidates:
  "set (sc_candidates (scan_observation index sc o1)) = set (sc_candidates sc) \<union> {(d, o1) |d. mapped index o1 d}"
proof (cases "mo_campaign_key o1")
  case None
  then show ?thesis by (simp add: scan_observation_def mapped_def Let_def)
next
  case (Some c)
  show ?thesis
  proof (cases "active_patron o1 \<and> c \<noteq> [] \<and> c \<in> set (map (fst \<circ> fst) index)")
    case True
    then show ?thesis
      using Some by (auto simp: scan_observation_def active_patron_def mapped_def scan_tiers_candidates Let_def)
  next
    case False
    have "c \<notin> set (map (fst \<circ> fst) index) \<Longrightarrow> map_of index (c, t) = None" for t
      using configured_campaign [of index c t] by (cases "map_of index (c, t)") auto
    with False have "\<not> mapped index o1 d" for d
      using Some by (auto simp: mapped_def)
    moreover have "sc_candidates (scan_observation index sc o1) = sc_candidates sc"
      using False Some by (auto simp: scan_observation_def active_patron_def Let_def)
    ultimately show ?thesis by simp
  qed
qed

lemma scan_observations_candidates:
  "set (sc_candidates (scan_observations index os)) = {(d, o1) |d o1. o1 \<in> set os \<and> mapped index o1 d}"
proof -
  have "set (sc_candidates (foldl (scan_observation index) sc os)) =
      set (sc_candidates sc) \<union> {(d, o1) |d o1. o1 \<in> set os \<and> mapped index o1 d}" for sc
    by (induction os arbitrary: sc) (auto simp: scan_observation_candidates)
  then show ?thesis by (simp add: scan_observations_def)
qed

lemma select_highest_priority_max:
  "select_highest_priority c cs \<in> set (c # cs) \<and>
   (\<forall>x \<in> set (c # cs). candidate_key x \<le> candidate_key (select_highest_priority c cs))"
proof (induction cs arbitrary: c)
  case (Cons a cs)
  show ?case
    using Cons.IH [of a] Cons.IH [of c] by (auto simp: not_less intro: order.trans less_imp_le)
qed simp

lemma candidate_key_priority: "candidate_key x \<le> candidate_key y \<Longrightarrow> td_priority (fst x) \<le> td_priority (fst y)"
  by (auto simp: candidate_key_def less_eq_prod_def)

section \<open>Plans of the results\<close>

lemma base_plan [simp]: "pr_plan_code (base_result src) = ''free''" "\<not> pr_downgrade_applied (base_result src)"
  by (simp_all add: base_result_def)

lemma without_payload_plan:
  "pr_plan_code (classify_without_payload current now src cpl reason deg force) =
     (if current = Map.empty then ''free'' else snapshot_plan_code current)"
  "\<not> pr_downgrade_applied (classify_without_payload current now src cpl reason deg force)"
  by (simp_all add: classify_without_payload_def Let_def)

lemma preserve_plan:
  "pr_plan_code (preserve_current_or_pending current now src reason n deg force) =
     (if current = Map.empty then ''free'' else snapshot_plan_code current)"
  "\<not> pr_downgrade_applied (preserve_current_or_pending current now src reason n deg force)"
  by (simp_all add: preserve_current_or_pending_def without_payload_plan Let_def)

lemma unknown_tier_plan:
  "pr_plan_code (unknown_tier_or_unmapped_result current now src secs m a u i) \<in>
     {''free''} \<union> (if current = Map.empty then {} else {snapshot_plan_code current})"
  "\<not> pr_downgrade_applied (unknown_tier_or_unmapped_result current now src secs m a u i)"
  by (simp_all add: unknown_tier_or_unmapped_result_def without_payload_plan Let_def)

lemma ignored_plan:
  "pr_plan_code (ignored_campaigns_only_result current now src secs m a i) \<in>
     {''free''} \<union> (if current = Map.empty then {} else {snapshot_plan_code current})"
  "\<not> pr_downgrade_applied (ignored_campaigns_only_result current now src secs m a i)"
  by (simp_all add: ignored_campaigns_only_result_def without_payload_plan Let_def)

lemma grant_plan [simp]:
  "pr_plan_code (grant_result now src secs m sc sel) = td_plan_code (fst sel)"
  "pr_status (grant_result now src secs m sc sel) = ''active''" "\<not> pr_downgrade_applied (grant_result now src secs m sc sel)"
  by (simp_all add: grant_result_def)

lemma former_plan [simp]: "pr_plan_code (former_result current now src secs m sc) = ''free''"
  by (simp add: former_result_def)

lemma free_plan [simp]:
  "pr_plan_code (free_result now st src s l e r) = ''free''" "\<not> pr_downgrade_applied (free_result now st src s l e r)"
  by (simp_all add: free_result_def)

lemma classify_observations_grant:
  assumes "o1 \<in> set os" and "mapped index o1 d"
  obtains o2 d2 where "o2 \<in> set os" and "mapped index o2 d2" and "td_priority d \<le> td_priority d2"
    and "pr_plan_code (classify_observations current now src secs index os) = td_plan_code d2"
    and "pr_status (classify_observations current now src secs index os) = ''active''"
proof -
  let ?cs = "sc_candidates (scan_observations index os)"
  have i: "(d, o1) \<in> set ?cs" using assms by (auto simp: scan_observations_candidates)
  then obtain c cs where cs: "?cs = c # cs" by (cases ?cs) auto
  obtain d2 o2 where sel: "select_highest_priority c cs = (d2, o2)" by fastforce
  from select_highest_priority_max [of c cs] i sel cs
  have m: "(d2, o2) \<in> set ?cs" "candidate_key (d, o1) \<le> candidate_key (d2, o2)" by auto
  show thesis
  proof (rule that [of o2 d2])
    show "o2 \<in> set os" "mapped index o2 d2" using m(1) by (auto simp: scan_observations_candidates)
    show "td_priority d \<le> td_priority d2" using candidate_key_priority [OF m(2)] by simp
  qed (simp_all add: classify_observations_def cs sel Let_def)
qed

lemma classify_observations_none:
  assumes "sc_candidates (scan_observations index os) = []"
  obtains (unknown) m a u i where
      "classify_observations current now src secs index os = unknown_tier_or_unmapped_result current now src secs m a u i"
  | (ignored) m a i where
      "classify_observations current now src secs index os = ignored_campaigns_only_result current now src secs m a i"
  | (former) "classify_observations current now src secs index os =
      former_result current now src secs (length os) (scan_observations index os)"
proof -
  let ?sc = "scan_observations index os"
  note D = classify_observations_def [of current now src secs index os, unfolded Let_def assms list.case]
  consider (1) "sc_active ?sc \<noteq> 0 \<and> sc_unmapped ?sc \<noteq> 0"
    | (2) "\<not> (sc_active ?sc \<noteq> 0 \<and> sc_unmapped ?sc \<noteq> 0)" "sc_active ?sc \<noteq> 0 \<and> sc_any_tier ?sc \<and> sc_ignored ?sc \<noteq> 0"
    | (3) "\<not> (sc_active ?sc \<noteq> 0 \<and> sc_unmapped ?sc \<noteq> 0)" "\<not> (sc_active ?sc \<noteq> 0 \<and> sc_any_tier ?sc \<and> sc_ignored ?sc \<noteq> 0)"
    by blast
  then show thesis
  proof cases
    case 1
    show thesis by (rule unknown) (rule D [unfolded if_P [OF 1]])
  next
    case 2
    show thesis by (rule ignored) (rule D [unfolded if_not_P [OF 2(1)] if_P [OF 2(2)]])
  next
    case 3
    show thesis by (rule former) (rule D [unfolded if_not_P [OF 3(1)] if_not_P [OF 3(2)]])
  qed
qed

lemma classify_observations_plan:
  assumes "pr_plan_code (classify_observations current now src secs index os) \<noteq> ''free''"
  shows "current \<noteq> Map.empty \<and> pr_plan_code (classify_observations current now src secs index os) = snapshot_plan_code current \<or>
     (\<exists>o1 \<in> set os. \<exists>d. mapped index o1 d \<and>
        pr_plan_code (classify_observations current now src secs index os) = td_plan_code d)"
proof (cases "sc_candidates (scan_observations index os)")
  case (Cons c cs)
  obtain d o1 where "(d, o1) \<in> set (sc_candidates (scan_observations index os))" using Cons by (cases c) auto
  then have "o1 \<in> set os" "mapped index o1 d" by (auto simp: scan_observations_candidates)
  then obtain o2 d2 where "o2 \<in> set os" "mapped index o2 d2"
    "pr_plan_code (classify_observations current now src secs index os) = td_plan_code d2"
    by (rule classify_observations_grant [where current = current and now = now and src = src and secs = secs])
  then show ?thesis by (intro disjI2 bexI [of _ o2] exI [of _ d2] conjI)
next
  case Nil
  define S where "S = {''free''} \<union> (if current = Map.empty then {} else {snapshot_plan_code current})"
  have "pr_plan_code (classify_observations current now src secs index os) \<in> S"
  proof (cases rule: classify_observations_none [OF Nil, of current now src secs])
    case (1 m a u i)
    show ?thesis unfolding 1 S_def by (rule unknown_tier_plan(1))
  next
    case (2 m a i)
    show ?thesis unfolding 2 S_def by (rule ignored_plan(1))
  next
    case 3
    show ?thesis unfolding 3 by (simp add: S_def)
  qed
  with assms show ?thesis by (cases "current = Map.empty") (simp_all add: S_def)
qed

lemma classify_observations_downgrade:
  assumes "pr_downgrade_applied (classify_observations current now src secs index os)"
  shows "(\<forall>o1 \<in> set os. \<forall>d. \<not> mapped index o1 d) \<and> snapshot_has_paid_plan current \<and>
     classify_observations current now src secs index os = former_result current now src secs (length os) (scan_observations index os)"
proof (cases "sc_candidates (scan_observations index os)")
  case Nil
  then have "\<forall>o1 \<in> set os. \<forall>d. \<not> mapped index o1 d"
    using scan_observations_candidates [of index os] by auto
  moreover have "classify_observations current now src secs index os =
      former_result current now src secs (length os) (scan_observations index os)"
    by (rule classify_observations_none [OF Nil, of current now src secs])
      (use assms unknown_tier_plan(2) ignored_plan(2) in simp_all)
  ultimately show ?thesis using assms by (simp add: former_result_def)
next
  case (Cons c cs)
  with assms show ?thesis by (simp add: classify_observations_def Let_def)
qed

section \<open>Guarantees\<close>

lemma classify_payload_cases:
  obtains (snapshot) reason n cpl where
      "payload = JNull \<or> \<not> cpl0 \<or> list_ex (\<lambda>o1. \<not> complete_for_classification o1) (extract_observations payload)"
    and "classify_patreon_entitlement payload tm now source cpl0 current secs deg force =
           classify_without_payload current (whole_second_of now) (safe_source_label source) cpl reason (safe_degraded_reason deg) force
         \<or> classify_patreon_entitlement payload tm now source cpl0 current secs deg force =
           preserve_current_or_pending current (whole_second_of now) (safe_source_label source) reason n (safe_degraded_reason deg) force"
  | (nobody) st where "cpl0" and "payload \<noteq> JNull" and "extract_observations payload = []"
    and "classify_patreon_entitlement payload tm now source cpl0 current secs deg force =
           free_result (whole_second_of now) st (safe_source_label source) ''free'' ''none'' None [''complete_payload_without_members'']"
  | (full) "cpl0" and "payload \<noteq> JNull" and "extract_observations payload \<noteq> []"
    and "\<forall>o1 \<in> set (extract_observations payload). complete_for_classification o1"
    and "classify_patreon_entitlement payload tm now source cpl0 current secs deg force =
           classify_observations current (whole_second_of now) (safe_source_label source) secs (build_tier_map_index tm)
             (extract_observations payload)"
proof -
  let ?os = "extract_observations payload"
  consider "payload = JNull" | "payload \<noteq> JNull" "?os = []" "cpl0" | "payload \<noteq> JNull" "?os = []" "\<not> cpl0"
    | "payload \<noteq> JNull" "?os \<noteq> []" "\<not> cpl0 \<or> list_ex (\<lambda>o1. \<not> complete_for_classification o1) ?os"
    | "payload \<noteq> JNull" "?os \<noteq> []" "cpl0" "\<not> list_ex (\<lambda>o1. \<not> complete_for_classification o1) ?os"
    by blast
  then show thesis
  proof cases
    case 1
    show thesis by (rule snapshot) (use 1 in \<open>auto simp: classify_patreon_entitlement_def Let_def\<close>)
  next
    case 2
    show thesis by (rule nobody) (use 2 in \<open>auto simp: classify_patreon_entitlement_def Let_def\<close>)
  next
    case 3
    show thesis by (rule snapshot) (use 3 in \<open>auto simp: classify_patreon_entitlement_def Let_def\<close>)
  next
    case 4
    show thesis by (rule snapshot [OF disjI2 [OF 4(3)] disjI2]) (use 4 in \<open>simp add: classify_patreon_entitlement_def Let_def\<close>)
  next
    case 5
    show thesis by (rule full) (use 5 in \<open>auto simp: classify_patreon_entitlement_def Let_def list_ex_iff\<close>)
  qed
qed

lemma preserved_fields:
  assumes "current \<noteq> Map.empty"
    and "r = classify_without_payload current now src cpl reason deg force \<or>
         r = preserve_current_or_pending current now src reason n deg force"
  shows "pr_plan_code r = snapshot_plan_code current \<and> pr_tier_code r = snapshot_text current ''tier_code'' \<and>
     pr_tier_name r = snapshot_text current ''tier_name'' \<and> pr_link_status r = snapshot_link_status current \<and>
     pr_resync_required r \<and> \<not> pr_downgrade_applied r"
  using assms by (auto simp: preserve_current_or_pending_def classify_without_payload_def Let_def base_result_def)

section \<open>A worked example\<close>

text \<open>A patron of one configured tier, its row of the tier map, and a snapshot that holds the plan.\<close>

definition demo_patron :: json where
  "demo_patron = JObj [''campaign_id'' \<mapsto> JStr ''c1'', ''tier_ids'' \<mapsto> JList [JStr ''t1''],
     ''patron_status'' \<mapsto> JStr ''active_patron'']"

definition demo_tier_row :: dict where
  "demo_tier_row = [''campaign_id'' \<mapsto> JStr ''c1'', ''tier_id'' \<mapsto> JStr ''t1'', ''plan_code'' \<mapsto> JStr ''gold'',
     ''tier_code'' \<mapsto> JStr ''gold_tier'']"

definition demo_snapshot :: dict where
  "demo_snapshot = [''plan_code'' \<mapsto> JStr ''gold'', ''status'' \<mapsto> JStr ''active'', ''link_status'' \<mapsto> JStr ''linked'']"

definition demo_observation :: member_observation where
  "demo_observation =
     \<lparr>mo_patron_status = Some ''active_patron'', mo_campaign_key = Some ''c1'', mo_tier_keys = [''t1''],
      mo_next_renewal_at = None, mo_grace_period_until = None, mo_has_campaign = True, mo_has_tiers = True\<rparr>"

definition demo_decision :: tier_decision where
  "demo_decision =
     \<lparr>td_plan_code = ''gold'', td_tier_code = ''gold_tier'', td_tier_name = None, td_priority = 0, td_active = True\<rparr>"

lemma demo_texts:
  "str_strip ''c1'' = ''c1''" "str_strip ''t1'' = ''t1''" "str_strip ''active_patron'' = ''active_patron''"
  "str_strip ''gold'' = ''gold''" "str_strip ''gold_tier'' = ''gold_tier''" "str_strip ''linked'' = ''linked''"
  "normalize_text (JStr ''active_patron'') \<in> set ACTIVE_PATRON_STATUSES"
  by (code_simp, code_simp, code_simp, code_simp, code_simp, code_simp)
     (subst normalize_text_JStr, code_simp)

lemmas demo_eval = extract_observations_def raw_items_def observation_from_member_def extract_campaign_key_def
  extract_tier_keys_def id_text_def clean_text_def dget_def dget_default_def List.map_filter_def
  normalize_tier_collection_def demo_texts

lemma demo_observations: "extract_observations demo_patron = [demo_observation]"
  by (simp add: demo_patron_def demo_observation_def demo_eval)

lemma demo_index: "build_tier_map_index [demo_tier_row] = [((''c1'', ''t1''), demo_decision)]"
  by (simp add: build_tier_map_index_def add_row_def row_decision_def demo_tier_row_def demo_decision_def
      coerce_priority_def demo_eval)

lemma demo_snapshot_fields:
  "demo_snapshot \<noteq> Map.empty" "snapshot_plan_code demo_snapshot = ''gold''" "snapshot_link_status demo_snapshot = ''linked''"
  by (auto simp: snapshot_plan_code_def snapshot_link_status_def snapshot_text_def demo_snapshot_def fun_eq_iff
      PATREON_SAFE_LINK_STATUSES_def demo_eval)

lemma demo_mapped: "mapped (build_tier_map_index [demo_tier_row]) demo_observation demo_decision"
  by (simp add: mapped_def demo_index active_patron_def demo_observation_def demo_decision_def demo_texts)

lemma demo_grant:
  "pr_plan_code (classify_patreon_entitlement demo_patron [demo_tier_row] 0 JNull True Map.empty 60 JNull False) = ''gold''"
proof -
  have "classify_observations Map.empty (whole_second_of 0) (safe_source_label JNull) 60 [((''c1'', ''t1''), demo_decision)]
      [demo_observation] = grant_result (whole_second_of 0) (safe_source_label JNull) 60 1
        \<lparr>sc_candidates = [(demo_decision, demo_observation)], sc_active = 1, sc_unmapped = 0, sc_ignored = 0, sc_any_tier = True\<rparr>
        (demo_decision, demo_observation)"
    by (simp add: classify_observations_def scan_observations_def scan_observation_def scan_tier_def demo_observation_def
        demo_decision_def demo_texts)
  moreover have "complete_for_classification demo_observation" "demo_patron \<noteq> JNull"
    by (simp_all add: complete_for_classification_def demo_observation_def demo_patron_def)
  ultimately show ?thesis
    by (simp add: classify_patreon_entitlement_def demo_observations demo_index grant_result_def)
       (simp add: demo_decision_def)
qed

section \<open>Properties\<close>

text \<open>C17. A paid plan is never invented: whatever plan a classification shows is the plan of the
  stored snapshot, or the plan that an active row of the tier map gives to a tier which a complete
  read shows an active patron to hold in that row's campaign.\<close>

theorem patreon_plan_is_earned:
  assumes "pr_plan_code (classify_patreon_entitlement payload tm now source cpl current secs deg force) \<noteq> ''free''"
  shows "(current \<noteq> Map.empty \<and>
      pr_plan_code (classify_patreon_entitlement payload tm now source cpl current secs deg force) = snapshot_plan_code current) \<or>
     (cpl \<and> (\<exists>o1 \<in> set (extract_observations payload). \<exists>row \<in> set tm. \<exists>c t d.
        complete_for_classification o1 \<and> active_patron o1 \<and> mo_campaign_key o1 = Some c \<and> t \<in> set (mo_tier_keys o1) \<and>
        row_decision row = Some ((c, t), d) \<and> td_active d \<and>
        pr_plan_code (classify_patreon_entitlement payload tm now source cpl current secs deg force) = td_plan_code d))"
proof (cases rule: classify_payload_cases [of payload cpl tm now source current secs deg force])
  case (snapshot reason n cpl')
  with assms show ?thesis
    by (cases "current = Map.empty") (auto simp: without_payload_plan preserve_plan)
next
  case (nobody st)
  with assms show ?thesis by simp
next
  case full
  let ?r = "classify_patreon_entitlement payload tm now source cpl current secs deg force"
  from classify_observations_plan [OF assms [unfolded full(5)]] consider
      "current \<noteq> Map.empty \<and> pr_plan_code ?r = snapshot_plan_code current"
    | o1 d where "o1 \<in> set (extract_observations payload)" "mapped (build_tier_map_index tm) o1 d" "pr_plan_code ?r = td_plan_code d"
    unfolding full(5) by blast
  then show ?thesis
  proof cases
    case (2 o1 d)
    then obtain c t where m: "active_patron o1" "td_active d" "mo_campaign_key o1 = Some c" "t \<in> set (mo_tier_keys o1)"
      "map_of (build_tier_map_index tm) (c, t) = Some d" unfolding mapped_def by blast
    then obtain row where "row \<in> set tm" "row_decision row = Some ((c, t), d)"
      using build_tier_map_index_sound by blast
    with 2 full m show ?thesis by blast
  qed simp
qed

theorem patreon_plan_is_earned_witness:
  "\<exists>o1 \<in> set (extract_observations demo_patron). \<exists>row \<in> set [demo_tier_row]. \<exists>c t d.
      complete_for_classification o1 \<and> active_patron o1 \<and> mo_campaign_key o1 = Some c \<and> t \<in> set (mo_tier_keys o1) \<and>
      row_decision row = Some ((c, t), d) \<and> td_active d \<and> ''gold'' = td_plan_code d"
  using patreon_plan_is_earned [of demo_patron "[demo_tier_row]" 0 JNull True Map.empty 60 JNull False]
  by (simp add: demo_grant)

text \<open>C18. An active patron is served: on a complete read, holding a tier that the tier map covers
  always grants an active plan, namely that of a mapped tier of highest priority.\<close>

theorem patreon_highest_tier_granted:
  assumes "payload \<noteq> JNull" and "\<forall>o2 \<in> set (extract_observations payload). complete_for_classification o2"
    and "o1 \<in> set (extract_observations payload)" and "mapped (build_tier_map_index tm) o1 d"
  shows "pr_status (classify_patreon_entitlement payload tm now source True current secs deg force) = ''active'' \<and>
     (\<exists>o2 \<in> set (extract_observations payload). \<exists>d2. mapped (build_tier_map_index tm) o2 d2 \<and>
        pr_plan_code (classify_patreon_entitlement payload tm now source True current secs deg force) = td_plan_code d2 \<and>
        td_priority d \<le> td_priority d2)"
proof (cases rule: classify_payload_cases [of payload True tm now source current secs deg force])
  case (snapshot reason n cpl')
  with assms(1,2) show ?thesis by (auto simp: list_ex_iff)
next
  case (nobody st)
  with assms(3) show ?thesis by simp
next
  case full
  obtain o2 d2 where "o2 \<in> set (extract_observations payload)" "mapped (build_tier_map_index tm) o2 d2"
    "td_priority d \<le> td_priority d2"
    "pr_plan_code (classify_patreon_entitlement payload tm now source True current secs deg force) = td_plan_code d2"
    "pr_status (classify_patreon_entitlement payload tm now source True current secs deg force) = ''active''"
    unfolding full(5)
    by (rule classify_observations_grant [OF assms(3,4), where current = current and now = "whole_second_of now"
          and src = "safe_source_label source" and secs = secs])
  then show ?thesis by blast
qed

theorem patreon_highest_tier_granted_witness:
  "pr_status (classify_patreon_entitlement demo_patron [demo_tier_row] 0 JNull True Map.empty 60 JNull False) = ''active''"
proof -
  have "demo_patron \<noteq> JNull" by (simp add: demo_patron_def)
  moreover have "\<forall>o2 \<in> set (extract_observations demo_patron). complete_for_classification o2"
    by (simp add: demo_observations complete_for_classification_def) (simp add: demo_observation_def)
  ultimately show ?thesis
    using patreon_highest_tier_granted [of demo_patron demo_observation "[demo_tier_row]" demo_decision 0 JNull Map.empty 60 JNull False]
      demo_mapped by (simp add: demo_observations)
qed

text \<open>Nothing is taken away on partial evidence: without a payload, on a partial read, or when a
  member lacks its campaign or tiers, the plan, tier and link status of the snapshot stay and a
  resync is asked for. Conversely a downgrade is only ever reported on a complete read, all of
  whose members are complete, that shows no mapped tier.\<close>

lemma patreon_partial_read_preserves:
  "(current \<noteq> Map.empty \<and>
    (payload = JNull \<or> \<not> cpl \<or> list_ex (\<lambda>o1. \<not> complete_for_classification o1) (extract_observations payload)) \<longrightarrow>
      pr_plan_code (classify_patreon_entitlement payload tm now source cpl current secs deg force) = snapshot_plan_code current \<and>
      pr_tier_code (classify_patreon_entitlement payload tm now source cpl current secs deg force) = snapshot_text current ''tier_code'' \<and>
      pr_link_status (classify_patreon_entitlement payload tm now source cpl current secs deg force) = snapshot_link_status current \<and>
      pr_resync_required (classify_patreon_entitlement payload tm now source cpl current secs deg force)) \<and>
   (pr_downgrade_applied (classify_patreon_entitlement payload tm now source cpl current secs deg force) \<longrightarrow>
      cpl \<and> snapshot_has_paid_plan current \<and>
      (\<forall>o1 \<in> set (extract_observations payload). complete_for_classification o1 \<and>
         (\<forall>d. \<not> mapped (build_tier_map_index tm) o1 d)))"
proof (cases rule: classify_payload_cases [of payload cpl tm now source current secs deg force])
  case (snapshot reason n cpl')
  from snapshot(2) without_payload_plan(2) preserve_plan(2)
  have "\<not> pr_downgrade_applied (classify_patreon_entitlement payload tm now source cpl current secs deg force)" by auto
  with preserved_fields [OF _ snapshot(2)] show ?thesis by blast
next
  case (nobody st)
  then show ?thesis by simp
next
  case full
  then have "\<not> list_ex (\<lambda>o1. \<not> complete_for_classification o1) (extract_observations payload)" by (simp add: list_ex_iff)
  with full classify_observations_downgrade show ?thesis unfolding full(5) by blast
qed

theorem patreon_partial_read_preserves_witness:
  "pr_plan_code (classify_patreon_entitlement JNull [] 0 JNull False demo_snapshot 60 JNull False) = ''gold'' \<and>
   pr_link_status (classify_patreon_entitlement JNull [] 0 JNull False demo_snapshot 60 JNull False) = ''linked''"
  using patreon_partial_read_preserves [of demo_snapshot JNull False "[]" 0 JNull 60 JNull False]
  by (simp add: demo_snapshot_fields)

end
