(* ===== verification/Stripe_Rate.thy ===== *)
theory Stripe_Rate
  imports OAuth_Rate
begin

text \<open>
  The limiter of the billing routes and the Stripe webhooks: \<^verbatim>\<open>StripeRateLimiter\<close> of
  \<^verbatim>\<open>src/src/Util/stripe/rate_limit.py\<close>. A policy is the limit and window of every bucket; the variables of the
  environment name five of the seven buckets, the other two keep their defaults.
\<close>

section \<open>Policy\<close>

definition STRIPE_RATE_BUCKETS :: "string list" where
  "STRIPE_RATE_BUCKETS =
     [''s2s'', ''checkout'', ''portal'', ''resync'', ''webhook_signature_failure'', ''webhook_replay'', ''sync_retry'']"

definition STRIPE_BUCKET_PREFIXES :: "(string \<times> string) list" where
  "STRIPE_BUCKET_PREFIXES =
     [(''s2s'', ''billing_rate:s2s:''), (''checkout'', ''billing_rate:checkout:''), (''portal'', ''billing_rate:portal:''),
      (''resync'', ''billing_rate:resync:''), (''webhook_signature_failure'', ''stripe_rate:webhook_signature_failure:''),
      (''webhook_replay'', ''stripe_rate:webhook_replay:''), (''sync_retry'', ''stripe_rate:sync:'')]"

record stripe_policy =
  sp_buckets :: "(string \<times> int \<times> int) list"
  sp_fail_closed :: bool

text \<open>The defaults of the class, those of \<^verbatim>\<open>BILLING_RATE_LIMIT_DEFAULTS\<close> included.\<close>

definition StripeRateLimitPolicy :: stripe_policy where
  "StripeRateLimitPolicy =
     \<lparr>sp_buckets = [(''s2s'', 120, 60), (''checkout'', 30, 60), (''portal'', 30, 60), (''resync'', 30, 5 * 60),
        (''webhook_signature_failure'', 30, 60), (''webhook_replay'', 120, 60), (''sync_retry'', 30, 300)],
      sp_fail_closed = True\<rparr>"

definition stripe_bucket_limit :: "stripe_policy \<Rightarrow> string \<Rightarrow> int" where
  "stripe_bucket_limit pol bucket = (case map_of (sp_buckets pol) bucket of Some (l, w) \<Rightarrow> l | None \<Rightarrow> 0)"

definition stripe_bucket_window_seconds :: "stripe_policy \<Rightarrow> string \<Rightarrow> int" where
  "stripe_bucket_window_seconds pol bucket = (case map_of (sp_buckets pol) bucket of Some (l, w) \<Rightarrow> w | None \<Rightarrow> 0)"

definition BUCKET_ENV_NAMES :: "(string \<times> string \<times> string) list" where
  "BUCKET_ENV_NAMES =
     [(''s2s'', ''BILLING_S2S_RATE_LIMIT'', ''BILLING_S2S_RATE_WINDOW_SECONDS''),
      (''checkout'', ''BILLING_CHECKOUT_RATE_LIMIT'', ''BILLING_CHECKOUT_RATE_WINDOW_SECONDS''),
      (''portal'', ''BILLING_PORTAL_RATE_LIMIT'', ''BILLING_PORTAL_RATE_WINDOW_SECONDS''),
      (''resync'', ''BILLING_RESYNC_RATE_LIMIT'', ''BILLING_RESYNC_RATE_WINDOW_SECONDS''),
      (''webhook_signature_failure'', ''STRIPE_WEBHOOK_SIGNATURE_FAILURE_RATE_LIMIT'',
       ''STRIPE_WEBHOOK_SIGNATURE_FAILURE_RATE_WINDOW_SECONDS'')]"

definition stripe_configured_bucket :: "(string \<Rightarrow> string option) \<Rightarrow> string \<times> int \<times> int \<Rightarrow> string \<times> int \<times> int" where
  "stripe_configured_bucket env b =
     (case b of (bucket, default_limit, default_window) \<Rightarrow>
        (case map_of BUCKET_ENV_NAMES bucket of
           Some (limit_env, window_env) \<Rightarrow> (bucket, env_int env limit_env default_limit, env_int env window_env default_window)
         | None \<Rightarrow> b))"

definition load_stripe_rate_limit_policy :: "(string \<Rightarrow> string option) \<Rightarrow> stripe_policy" where
  "load_stripe_rate_limit_policy env =
     StripeRateLimitPolicy\<lparr>sp_buckets := map (stripe_configured_bucket env) (sp_buckets StripeRateLimitPolicy)\<rparr>"

section \<open>Operations\<close>

definition stripe_prefix :: "string \<Rightarrow> string" where
  "stripe_prefix bucket = (case map_of STRIPE_BUCKET_PREFIXES bucket of Some p \<Rightarrow> p | None \<Rightarrow> [])"

datatype stripe_rate_op =
    Check_S2S "string option" "string option" "string option" "string option"
  | Check_Checkout "string option" "string option" "string option" "string option"
  | Check_Portal "string option" "string option" "string option"
  | Check_Resync "string option" "string option" "string option" "string option"
  | Check_Webhook_Signature_Failure "string option" "string option" "string option"
  | Check_Webhook_Replay "string option" "string option"
  | Check_Sync_Retry "string option" "string option" "string option"

text \<open>The bucket and the parts that each method passes to \<^verbatim>\<open>_check\<close>.\<close>

fun stripe_request :: "stripe_rate_op \<Rightarrow> string \<times> string option list" where
  "stripe_request (Check_S2S user project client ip) = (''s2s'', [user, project, client, ip])"
| "stripe_request (Check_Checkout user project intent ip) = (''checkout'', [user, project, intent, ip])"
| "stripe_request (Check_Portal user project ip) = (''portal'', [user, project, ip])"
| "stripe_request (Check_Resync user project reason ip) = (''resync'', [user, project, reason, ip])"
| "stripe_request (Check_Webhook_Signature_Failure ip event_type digest) =
     (''webhook_signature_failure'', [ip, event_type, digest])"
| "stripe_request (Check_Webhook_Replay event ip) = (''webhook_replay'', [event, ip])"
| "stripe_request (Check_Sync_Retry job_type job_ref reason) = (''sync_retry'', [job_type, job_ref, reason])"

definition stripe_bucket :: "stripe_rate_op \<Rightarrow> string" where
  "stripe_bucket a = fst (stripe_request a)"

text \<open>\<^verbatim>\<open>_bucket_key\<close> is the function of the Patreon limiter with this limiter's prefixes.\<close>

definition stripe_key :: "(string \<Rightarrow> string) \<Rightarrow> stripe_rate_op \<Rightarrow> string" where
  "stripe_key H a = patreon_bucket_key H (stripe_prefix (stripe_bucket a)) (stripe_bucket a) (snd (stripe_request a))"

text \<open>\<^verbatim>\<open>_check\<close> and \<^verbatim>\<open>_consume_bucket\<close>. The methods only name buckets of the tuple, so its guard never fires.\<close>

definition stripe_check ::
    "'s counters \<Rightarrow> stripe_policy \<Rightarrow> (string \<Rightarrow> string) \<Rightarrow> stripe_rate_op \<Rightarrow> 's \<Rightarrow> rate_result \<times> 's" where
  "stripe_check C pol H a =
     consume_bucket C (sp_fail_closed pol) (stripe_bucket a) (stripe_key H a)
       (stripe_bucket_limit pol (stripe_bucket a)) (stripe_bucket_window_seconds pol (stripe_bucket a))"

section \<open>The contract holds\<close>

lemma stripe_bucket_known: "stripe_bucket a \<in> set STRIPE_RATE_BUCKETS"
  by (cases a) (simp_all add: stripe_bucket_def STRIPE_RATE_BUCKETS_def)

lemma stripe_prefixes:
  "stripe_prefix ''s2s'' = ''billing_rate:s2s:''" "stripe_prefix ''checkout'' = ''billing_rate:checkout:''"
  "stripe_prefix ''portal'' = ''billing_rate:portal:''" "stripe_prefix ''resync'' = ''billing_rate:resync:''"
  "stripe_prefix ''webhook_signature_failure'' = ''stripe_rate:webhook_signature_failure:''"
  "stripe_prefix ''webhook_replay'' = ''stripe_rate:webhook_replay:''" "stripe_prefix ''sync_retry'' = ''stripe_rate:sync:''"
  by (simp_all add: stripe_prefix_def STRIPE_BUCKET_PREFIXES_def)

lemma stripe_key_bucket: "stripe_key H a = stripe_key H b \<Longrightarrow> stripe_bucket a = stripe_bucket b"
  by (cases a; cases b; simp add: stripe_key_def stripe_bucket_def patreon_bucket_key_def stripe_prefixes)

interpretation stripe_limiter:
  keyed_limiter stripe_bucket "stripe_key H" "\<lambda>a. stripe_bucket_limit pol (stripe_bucket a)"
    "\<lambda>a. stripe_bucket_window_seconds pol (stripe_bucket a)" for H pol
  by unfold_locales (drule stripe_key_bucket, simp only:)

lemma stripe_check_closed:
  assumes "sp_fail_closed pol"
  shows "stripe_check C pol H b =
    consume_bucket C True (stripe_bucket b) (stripe_key H b) (stripe_bucket_limit pol (stripe_bucket b))
      (stripe_bucket_window_seconds pol (stripe_bucket b))"
  using assms by (simp add: stripe_check_def)

text \<open>Whatever the environment says, every bucket of a loaded policy admits requests and ends its windows.\<close>

lemma loaded_stripe_policy_at:
  "1 \<le> stripe_bucket_limit (load_stripe_rate_limit_policy env) (stripe_bucket a)"
  "1 \<le> stripe_bucket_window_seconds (load_stripe_rate_limit_policy env) (stripe_bucket a)"
  by (cases a; simp add: stripe_bucket_def load_stripe_rate_limit_policy_def StripeRateLimitPolicy_def env_int_pos
      stripe_bucket_limit_def stripe_bucket_window_seconds_def stripe_configured_bucket_def BUCKET_ENV_NAMES_def)+

lemma loaded_stripe_policy_closed: "sp_fail_closed (load_stripe_rate_limit_policy env)"
  by (simp add: load_stripe_rate_limit_policy_def StripeRateLimitPolicy_def)

section \<open>Property\<close>

definition demo_stripe_env :: "string \<Rightarrow> string option" where
  "demo_stripe_env = [''BILLING_PORTAL_RATE_LIMIT'' \<mapsto> '' 2 '', ''BILLING_PORTAL_RATE_WINDOW_SECONDS'' \<mapsto> ''ten'']"

definition demo_portals :: "(stripe_rate_op + nat) list" where
  "demo_portals =
     [Inl (Check_Portal (Some ''U1'') (Some ''p1'') None), Inl (Check_Checkout (Some ''u1'') (Some ''p1'') None None),
      Inl (Check_Portal (Some ''u1'') (Some ''P1'') None), Inr 1000, Inl (Check_Portal (Some ''u1'') (Some ''p1'') None)]"

abbreviation demo_stripe_step :: "stripe_rate_op \<Rightarrow> counter_mem \<Rightarrow> rate_result \<times> counter_mem" where
  "demo_stripe_step \<equiv> stripe_check mem_counters (load_stripe_rate_limit_policy demo_stripe_env) id"

abbreviation demo_portal_op :: stripe_rate_op where
  "demo_portal_op \<equiv> Check_Portal (Some ''u1'') (Some ''p1'') None"

lemma demo_portals_admitted:
  "admitted demo_stripe_step cm_wait (\<lambda>b. stripe_key id b = stripe_key id demo_portal_op) demo_portals (no_counters []) = 2"
  by code_simp

lemma demo_stripe_policy:
  "stripe_bucket_limit (load_stripe_rate_limit_policy demo_stripe_env) (stripe_bucket demo_portal_op) = 2"
  "stripe_bucket_window_seconds (load_stripe_rate_limit_policy demo_stripe_env) (stripe_bucket demo_portal_op) = 60"
  by code_simp+

theorem billing_requests_bounded:
  assumes "counter_store C text_at left wait"
    and "pol = load_stripe_rate_limit_policy env" and "lim = stripe_bucket_limit pol (stripe_bucket a)"
    and "0 \<le> value_as_int (text_at s (stripe_key H a))"
    and "duration es < stripe_bucket_window_seconds pol (stripe_bucket a) * 1000"
  shows "int (admitted (stripe_check C pol H) wait (\<lambda>b. stripe_key H b = stripe_key H a) es s) \<le> 2 * lim \<and>
     (text_at s (stripe_key H a) = None \<and> left s (stripe_key H a) = None \<longrightarrow>
        int (admitted (stripe_check C pol H) wait (\<lambda>b. stripe_key H b = stripe_key H a) es s) \<le> lim)"
proof -
  have f: "sp_fail_closed pol" and l: "0 \<le> lim"
    using assms(2,3) loaded_stripe_policy_closed [of env] loaded_stripe_policy_at(1) [of env a] by auto
  show ?thesis
    using stripe_limiter.requests_bounded [where step = "stripe_check C pol H" and a = a and pol = pol and s = s and es = es,
        OF assms(1) stripe_check_closed [OF f] _ assms(4,5)] l assms(3)
    by simp
qed

theorem billing_requests_bounded_witness:
  "int (admitted demo_stripe_step cm_wait (\<lambda>b. stripe_key id b = stripe_key id demo_portal_op) demo_portals (no_counters [])) \<le> 2"
  using billing_requests_bounded [OF mem_counters.counter_store_axioms refl refl, of "no_counters []" id demo_portal_op demo_portals demo_stripe_env]
  by (simp add: empty_counters demo_stripe_policy demo_portals_def)

end
