(* ===== verification/Billing_Sync.thy ===== *)
theory Billing_Sync
  imports Billing_Redaction "HOL-Library.Product_Lexorder"
begin

text \<open>
  The billing resync queue: \<^verbatim>\<open>src/src/Util/billing/sync.py\<close>, the stored procedures that claim and complete a
  job (\<^verbatim>\<open>src/schemas/stored_procedures/17_billing_provider_facts.sql\<close>) and the pass of the worker over the
  claimed jobs (\<^verbatim>\<open>src/src/workers/billing_sync_worker.py\<close>). The table is a list of rows, the server time an
  argument in seconds. What a job does at the provider is an argument of the pass: the outcome of the run.
  The database answers; rows of equal priority and age are claimed in table order.
\<close>

section \<open>Jobs\<close>

record sync_row =
  sr_id :: string
  sr_provider :: string
  sr_job_type :: string
  sr_status :: string
  sr_priority :: int
  sr_not_before :: int
  sr_attempts :: int
  sr_max_attempts :: int
  sr_claimed_by :: "string option"
  sr_claimed_at :: "int option"
  sr_lease_until :: "int option"
  sr_completed_at :: "int option"
  sr_last_error :: "string option"
  sr_created_at :: int

definition SUPPORTED_JOB_TYPES :: "string list" where
  "SUPPORTED_JOB_TYPES = [''customer'', ''subscription'', ''purchase'', ''webhook_resync'', ''retention'']"

definition SYNC_JOB_FINAL_STATUSES :: "string list" where
  "SYNC_JOB_FINAL_STATUSES = [''retry'', ''completed'', ''failed'', ''cancelled'']"

definition DEFAULT_SYNC_MAX_ATTEMPTS :: int where "DEFAULT_SYNC_MAX_ATTEMPTS = 8"

definition DEFAULT_SYNC_BACKOFF_SECONDS :: "int list" where
  "DEFAULT_SYNC_BACKOFF_SECONDS = [60, 300, 900, 3600, 10800, 21600]"

datatype sync_error = BillingSyncError string

text \<open>The fields of \<^verbatim>\<open>ClaimedBillingSyncJob\<close> that the worker's decisions read.\<close>

record claimed_job =
  cj_id :: string
  cj_provider :: string
  cj_job_type :: string
  cj_attempts :: int
  cj_max_attempts :: int

record backoff_decision =
  bd_status :: string
  bd_retry_after_seconds :: "int option"
  bd_retryable :: bool
  bd_reason :: string

definition job_type_alias :: "string \<Rightarrow> string" where
  "job_type_alias t =
     (if t = ''webhook'' \<or> t = ''source_of_truth'' then ''webhook_resync'' else if t = ''payment'' then ''purchase'' else t)"

definition normalize_job_type :: "string option \<Rightarrow> sync_error + string" where
  "normalize_job_type job_type =
     (let raw = (case job_type of None \<Rightarrow> ''webhook_resync'' | Some [] \<Rightarrow> ''webhook_resync'' | Some t \<Rightarrow> t);
          normalized = job_type_alias (str_lower (str_strip raw))
      in if normalized \<in> set SUPPORTED_JOB_TYPES then Inr normalized
         else Inl (BillingSyncError (''unsupported billing sync job_type: '' @ normalized)))"

definition redacted_error_text :: "billing_regexes \<Rightarrow> string \<Rightarrow> string" where
  "redacted_error_text rx value =
     (let text = sanitize_billing_sensitive_text rx (if value = [] then ''billing_sync_failed'' else value)
      in take 512 (if text = [] then ''billing_sync_failed'' else text))"

definition claimed_sync_job_from_row :: "sync_row \<Rightarrow> sync_error + claimed_job" where
  "claimed_sync_job_from_row row =
     (case clean_text (JStr (sr_id row)) of
        None \<Rightarrow> Inl (BillingSyncError ''claimed billing sync job row is missing id/job_id'')
      | Some job_id \<Rightarrow>
          (case normalize_job_type (clean_text (JStr (sr_job_type row))) of
             Inl e \<Rightarrow> Inl e
           | Inr kind \<Rightarrow>
               Inr \<lparr>cj_id = job_id,
                    cj_provider = (case clean_text (JStr (sr_provider row)) of Some p \<Rightarrow> p | None \<Rightarrow> ''stripe''),
                    cj_job_type = kind, cj_attempts = sr_attempts row, cj_max_attempts = sr_max_attempts row\<rparr>))"

section \<open>The stored procedures\<close>

definition claimable :: "int \<Rightarrow> sync_row \<Rightarrow> bool" where
  "claimable now r \<longleftrightarrow>
     (sr_status r = ''pending'' \<or> sr_status r = ''retry'') \<and> sr_not_before r \<le> now \<or>
     sr_status r = ''running'' \<and> (case sr_lease_until r of None \<Rightarrow> False | Some l \<Rightarrow> l < now)"

definition claim_order :: "sync_row list \<Rightarrow> sync_row list" where
  "claim_order rows = sort_key (\<lambda>r. (sr_priority r, sr_created_at r)) rows"

definition claim_row :: "string \<Rightarrow> int \<Rightarrow> int \<Rightarrow> sync_row \<Rightarrow> sync_row" where
  "claim_row worker lease_seconds now r =
     r\<lparr>sr_status := ''running'', sr_claimed_by := Some worker, sr_claimed_at := Some now,
       sr_lease_until := Some (now + lease_seconds), sr_attempts := sr_attempts r + 1\<rparr>"

definition sp_billing_sync_job_claim ::
    "string \<Rightarrow> int \<Rightarrow> int \<Rightarrow> int \<Rightarrow> sync_row list \<Rightarrow> sync_row list \<times> sync_row list" where
  "sp_billing_sync_job_claim worker limit lease_seconds now table =
     (let ids = map sr_id (take (nat limit) (claim_order (filter (claimable now) table)));
          table' = map (\<lambda>r. if sr_id r \<in> set ids then claim_row worker lease_seconds now r else r) table
      in (claim_order (filter (\<lambda>r. sr_id r \<in> set ids) table'), table'))"

definition complete_row :: "string \<Rightarrow> int option \<Rightarrow> string option \<Rightarrow> int \<Rightarrow> sync_row \<Rightarrow> sync_row" where
  "complete_row status retry_after last_error now r =
     (let final = status \<in> {''completed'', ''failed'', ''cancelled''};
          free = final \<or> status \<in> {''pending'', ''retry''}
      in r\<lparr>sr_status := status,
           sr_completed_at := (if final then Some now else sr_completed_at r),
           sr_not_before := (if status = ''retry'' then now + (case retry_after of Some s \<Rightarrow> s | None \<Rightarrow> 60) else sr_not_before r),
           sr_last_error := last_error,
           sr_claimed_by := (if free then None else sr_claimed_by r),
           sr_lease_until := (if free then None else sr_lease_until r)\<rparr>)"

definition sp_billing_sync_job_complete ::
    "string \<Rightarrow> string \<Rightarrow> int option \<Rightarrow> string option \<Rightarrow> int \<Rightarrow> sync_row list \<Rightarrow> sync_row list" where
  "sp_billing_sync_job_complete job_id status retry_after last_error now table =
     map (\<lambda>r. if sr_id r = job_id then complete_row status retry_after last_error now r else r) table"

section \<open>Queue operations\<close>

text \<open>The list comprehension over the claimed rows: the first row that is refused raises.\<close>

fun jobs_from_rows :: "sync_row list \<Rightarrow> sync_error + claimed_job list" where
  "jobs_from_rows [] = Inr []"
| "jobs_from_rows (row # rows) =
     (case claimed_sync_job_from_row row of
        Inl e \<Rightarrow> Inl e
      | Inr job \<Rightarrow> (case jobs_from_rows rows of Inl e \<Rightarrow> Inl e | Inr jobs \<Rightarrow> Inr (job # jobs)))"

definition claim_sync_jobs ::
    "string option \<Rightarrow> int \<Rightarrow> int \<Rightarrow> int \<Rightarrow> sync_row list \<Rightarrow> (sync_error + claimed_job list) \<times> sync_row list" where
  "claim_sync_jobs worker_id limit lease_seconds now table =
     (case clean_text (json_of worker_id) of
        None \<Rightarrow> (Inl (BillingSyncError ''worker_id is required''), table)
      | Some worker \<Rightarrow>
          let (rows, table') = sp_billing_sync_job_claim worker (max 1 limit) (max 1 lease_seconds) now table
          in (jobs_from_rows rows, table'))"

definition complete_sync_job ::
    "billing_regexes \<Rightarrow> string \<Rightarrow> string \<Rightarrow> int option \<Rightarrow> string option \<Rightarrow> int \<Rightarrow> sync_row list \<Rightarrow> (sync_error + unit) \<times> sync_row list" where
  "complete_sync_job rx job_id status retry_after last_error now table =
     (let normalized = str_lower (str_strip status)
      in if normalized \<notin> set SYNC_JOB_FINAL_STATUSES
         then (Inl (BillingSyncError (''unsupported billing sync final status: '' @ normalized)), table)
         else (Inr (), sp_billing_sync_job_complete job_id normalized retry_after
                 (map_option (redacted_error_text rx) last_error) now table))"

text \<open>
  \<open>error_retry_after\<close> is the attribute \<^verbatim>\<open>retry_after_seconds\<close> of the error, 0 when it has none; a delay of 0
  counts as no delay.
\<close>

definition decide_retry_backoff :: "int \<Rightarrow> int \<Rightarrow> int \<Rightarrow> int option \<Rightarrow> int list \<Rightarrow> backoff_decision" where
  "decide_retry_backoff error_retry_after attempts max_attempts retry_after_seconds backoff_seconds =
     (let attempt_count = max 0 attempts;
          max_allowed = max 1 max_attempts;
          retryable = attempt_count < max_allowed;
          status = (if retryable then ''retry'' else ''failed'');
          provider_retry_after = (if retry_after_seconds \<notin> {None, Some 0} then the retry_after_seconds else error_retry_after)
      in if provider_retry_after \<noteq> 0 then
           \<lparr>bd_status = status, bd_retry_after_seconds = (if retryable then Some (max 1 provider_retry_after) else None),
            bd_retryable = retryable, bd_reason = ''provider_rate_limited''\<rparr>
         else
           let steps = map (max 1) backoff_seconds;
               steps' = (if steps = [] then DEFAULT_SYNC_BACKOFF_SECONDS else steps);
               index = min (nat attempt_count) (length steps' - 1)
           in \<lparr>bd_status = status, bd_retry_after_seconds = (if retryable then Some (steps' ! index) else None),
               bd_retryable = retryable, bd_reason = ''provider_or_sync_failure''\<rparr>)"

definition fail_sync_job ::
    "billing_regexes \<Rightarrow> string \<Rightarrow> string option \<Rightarrow> int \<Rightarrow> int \<Rightarrow> int \<Rightarrow> int \<Rightarrow> sync_row list \<Rightarrow> (sync_error + unit) \<times> sync_row list" where
  "fail_sync_job rx job_id error error_retry_after attempts max_attempts now table =
     (let decision = decide_retry_backoff error_retry_after attempts max_attempts None DEFAULT_SYNC_BACKOFF_SECONDS
      in complete_sync_job rx job_id (bd_status decision) (bd_retry_after_seconds decision)
           (Some (case error of Some (c # e) \<Rightarrow> c # e | _ \<Rightarrow> bd_reason decision)) now table)"

section \<open>The worker\<close>

text \<open>
  What a run of a job comes to: the result of the provider read, or an exception of the provider call.
  A retention job gives its own status.
\<close>

datatype run_outcome =
    Sync_Result "string option" bool "int option" "string option"
  | Provider_Failure string int
  | Retention_Result bool string

definition NOOP_COMPLETION_REASONS :: "string list" where
  "NOOP_COMPLETION_REASONS = [''no_provider_refs'', ''no_provider_subscription'']"

text \<open>\<^verbatim>\<open>_complete_job\<close>: an exception of the completion is logged and dropped.\<close>

definition complete_job ::
    "billing_regexes \<Rightarrow> string \<Rightarrow> string \<Rightarrow> int option \<Rightarrow> string option \<Rightarrow> int \<Rightarrow> sync_row list \<Rightarrow> sync_row list" where
  "complete_job rx job_id status retry_after last_error now table =
     (if job_id = [] then table else snd (complete_sync_job rx job_id status retry_after last_error now table))"

definition text_or :: "string option \<Rightarrow> string \<Rightarrow> string" where
  "text_or v d = (case v of Some (c # t) \<Rightarrow> c # t | _ \<Rightarrow> d)"

definition finalize_sync_job ::
    "billing_regexes \<Rightarrow> claimed_job \<Rightarrow> string option \<Rightarrow> bool \<Rightarrow> int option \<Rightarrow> string option \<Rightarrow> int \<Rightarrow> sync_row list \<Rightarrow> sync_row list" where
  "finalize_sync_job rx job status retryable retry_after reason now table =
     (let result_status = str_lower (str_strip (text_or status ''completed''))
      in if result_status = ''completed'' then
           complete_job rx (cj_id job) ''completed'' None
             (case reason of Some r \<Rightarrow> if r \<in> set NOOP_COMPLETION_REASONS then Some r else None | None \<Rightarrow> None) now table
         else if retryable \<or> result_status = ''retry'' then
           let decision = decide_retry_backoff 0 (cj_attempts job) (cj_max_attempts job) retry_after DEFAULT_SYNC_BACKOFF_SECONDS
           in complete_job rx (cj_id job) (bd_status decision) (bd_retry_after_seconds decision)
                (Some (text_or reason (bd_reason decision))) now table
         else complete_job rx (cj_id job) ''failed'' None (Some (text_or reason result_status)) now table)"

definition handle_provider_failure ::
    "billing_regexes \<Rightarrow> claimed_job \<Rightarrow> string \<Rightarrow> int \<Rightarrow> int \<Rightarrow> sync_row list \<Rightarrow> sync_row list" where
  "handle_provider_failure rx job error error_retry_after now table =
     (let decision = decide_retry_backoff error_retry_after (cj_attempts job) (cj_max_attempts job) None DEFAULT_SYNC_BACKOFF_SECONDS
      in complete_job rx (cj_id job) (bd_status decision) (bd_retry_after_seconds decision)
           (Some (text_or (Some error) (bd_reason decision))) now table)"

definition process_claimed_job ::
    "billing_regexes \<Rightarrow> (claimed_job \<Rightarrow> run_outcome) \<Rightarrow> int \<Rightarrow> claimed_job \<Rightarrow> sync_row list \<Rightarrow> sync_row list" where
  "process_claimed_job rx run now job table =
     (case run job of
        Sync_Result status retryable retry_after reason \<Rightarrow>
          finalize_sync_job rx job status retryable retry_after reason now table
      | Provider_Failure error error_retry_after \<Rightarrow> handle_provider_failure rx job error error_retry_after now table
      | Retention_Result ok reason \<Rightarrow>
          complete_job rx (cj_id job) (if ok then ''completed'' else ''failed'') None (Some reason) now table)"

fun process_jobs ::
    "billing_regexes \<Rightarrow> (claimed_job \<Rightarrow> run_outcome) \<Rightarrow> int \<Rightarrow> claimed_job list \<Rightarrow> sync_row list \<Rightarrow> sync_row list" where
  "process_jobs rx run now [] table = table"
| "process_jobs rx run now (job # jobs) table =
     process_jobs rx run now jobs (process_claimed_job rx run now job table)"

text \<open>
  One pass of \<^verbatim>\<open>process_queued_jobs\<close>: the jobs that ran and the table afterwards. \<open>now\<close> is the time of the
  claim, \<open>later\<close> that of the completions.
\<close>

definition process_queued_jobs ::
    "billing_regexes \<Rightarrow> (claimed_job \<Rightarrow> run_outcome) \<Rightarrow> string option \<Rightarrow> int \<Rightarrow> int \<Rightarrow> int \<Rightarrow> int \<Rightarrow> sync_row list \<Rightarrow>
     claimed_job list \<times> sync_row list" where
  "process_queued_jobs rx run worker_id limit lease_seconds now later table =
     (case claim_sync_jobs worker_id limit lease_seconds now table of
        (Inl e, table') \<Rightarrow> ([], table')
      | (Inr jobs, table') \<Rightarrow> (jobs, process_jobs rx run later jobs table'))"

section \<open>Rows of the table\<close>

definition row_of :: "string \<Rightarrow> sync_row list \<Rightarrow> sync_row option" where
  "row_of j table = List.find (\<lambda>r. sr_id r = j) table"

lemma row_of_map:
  assumes "\<And>r. sr_id (g r) = sr_id r"
  shows "row_of j (map g table) = map_option g (row_of j table)"
  by (induction table) (simp_all add: row_of_def assms)

lemma row_of_id: "row_of j table = Some r \<Longrightarrow> sr_id r = j \<and> r \<in> set table"
  by (auto simp: row_of_def find_Some_iff)

lemma row_of_unique:
  "distinct (map sr_id table) \<Longrightarrow> r \<in> set table \<Longrightarrow> row_of (sr_id r) table = Some r"
  by (induction table) (auto simp: row_of_def)

lemma complete_row_id [simp]: "sr_id (complete_row st ra le now r) = sr_id r"
  by (simp add: complete_row_def Let_def)

lemma claim_row_id [simp]: "sr_id (claim_row w l now r) = sr_id r"
  by (simp add: claim_row_def)

lemma complete_row_fields:
  "sr_status (complete_row st ra le now r) = st" "sr_attempts (complete_row st ra le now r) = sr_attempts r"
  "sr_max_attempts (complete_row st ra le now r) = sr_max_attempts r"
  by (simp_all add: complete_row_def Let_def)

lemma status_text [simp]:
  "str_lower (str_strip ''completed'') = ''completed''" "str_lower (str_strip ''failed'') = ''failed''"
  "str_lower (str_strip ''retry'') = ''retry''"
  by code_simp+

lemma decide_retry_status:
  "bd_status (decide_retry_backoff e a m ra bs) = (if max 0 a < max 1 m then ''retry'' else ''failed'')"
  by (simp add: decide_retry_backoff_def Let_def)

text \<open>
  A processed job completes its row with a final status, or with a retry when attempts are left.
\<close>

lemma complete_job_row:
  assumes "st \<in> {''completed'', ''failed'', ''retry''}" and "i \<noteq> []"
  shows "complete_job rx i st ra le now table =
     map (\<lambda>r. if sr_id r = i then complete_row st ra (map_option (redacted_error_text rx) le) now r else r) table"
  using assms by (auto simp: complete_job_def complete_sync_job_def sp_billing_sync_job_complete_def SYNC_JOB_FINAL_STATUSES_def)

lemma finalize_completes:
  assumes "P ''completed''" and "P ''failed''"
    and "\<And>e ra bs. P (bd_status (decide_retry_backoff e (cj_attempts job) (cj_max_attempts job) ra bs))"
  shows "\<exists>st ra le. finalize_sync_job rx job status retryable retry_after reason now table = complete_job rx (cj_id job) st ra le now table \<and> P st"
proof -
  let ?s = "str_lower (str_strip (text_or status ''completed''))"
  show ?thesis
  proof (cases "?s = ''completed''")
    case True
    with assms(1) show ?thesis unfolding finalize_sync_job_def Let_def by (simp only: simp_thms if_True) blast
  next
    case False
    with assms(2,3) show ?thesis
      unfolding finalize_sync_job_def Let_def
      by (cases "retryable \<or> ?s = ''retry''") (simp only: simp_thms if_True if_False, blast)+
  qed
qed

lemma process_completes:
  assumes "P ''completed''" and "P ''failed''"
    and "\<And>e ra bs. P (bd_status (decide_retry_backoff e (cj_attempts job) (cj_max_attempts job) ra bs))"
  shows "\<exists>st ra le. process_claimed_job rx run now job table = complete_job rx (cj_id job) st ra le now table \<and> P st"
proof (cases "run job")
  case (Sync_Result a b c d)
  with finalize_completes [of P, OF assms] show ?thesis by (simp only: process_claimed_job_def run_outcome.case)
next
  case (Provider_Failure a b)
  then show ?thesis
    by (simp only: process_claimed_job_def run_outcome.case handle_provider_failure_def Let_def) (blast intro: assms)
next
  case (Retention_Result ok reason)
  then show ?thesis using assms(1,2) by (cases ok) (simp_all only: process_claimed_job_def run_outcome.case if_True if_False, blast+)
qed

definition settled :: "claimed_job \<Rightarrow> string \<Rightarrow> bool" where
  "settled job st \<longleftrightarrow> st = ''completed'' \<or> st = ''failed'' \<or> st = ''retry'' \<and> max 0 (cj_attempts job) < max 1 (cj_max_attempts job)"

lemma settled_decision: "settled job (bd_status (decide_retry_backoff e (cj_attempts job) (cj_max_attempts job) ra bs))"
  unfolding settled_def decide_retry_status by simp

lemma settled_done: "settled job ''completed''" "settled job ''failed''"
  unfolding settled_def by simp_all

lemma process_claimed_job_row:
  assumes "cj_id job \<noteq> []"
  obtains st ra le where "process_claimed_job rx run now job table =
      map (\<lambda>r. if sr_id r = cj_id job then complete_row st ra le now r else r) table"
    and "settled job st"
proof -
  obtain st ra le where p: "process_claimed_job rx run now job table = complete_job rx (cj_id job) st ra le now table" "settled job st"
    using process_completes [of "settled job" job rx run now table] settled_decision settled_done by blast
  then have st: "st \<in> {''completed'', ''failed'', ''retry''}" unfolding settled_def by blast
  show thesis by (rule that [OF p(1) [unfolded complete_job_row [OF st assms]] p(2)])
qed

section \<open>A pass uses up attempts\<close>

definition sync_active :: "sync_row \<Rightarrow> bool" where
  "sync_active r \<longleftrightarrow> sr_status r = ''pending'' \<or> sr_status r = ''retry'' \<or> sr_status r = ''running''"

definition runs_left :: "sync_row \<Rightarrow> int" where
  "runs_left r = (if sync_active r then max 1 (max 1 (sr_max_attempts r) - sr_attempts r) else 0)"

definition clean_ids :: "sync_row list \<Rightarrow> bool" where
  "clean_ids table \<longleftrightarrow> distinct (map sr_id table) \<and> list_all (\<lambda>i. clean_text (JStr i) = Some i) (map sr_id table)"

lemma claimable_active: "claimable now r \<Longrightarrow> sync_active r"
  unfolding claimable_def sync_active_def by blast

lemma runs_left_claim: "sync_active r \<Longrightarrow> runs_left (claim_row w l now r) \<le> runs_left r"
  by (simp add: runs_left_def sync_active_def claim_row_def)

lemma runs_left_settled:
  assumes "sync_active r" and "settled job st" and "cj_attempts job = sr_attempts r + 1" and "cj_max_attempts job = sr_max_attempts r"
  shows "runs_left (complete_row st ra le t (claim_row w l now r)) + 1 \<le> runs_left r"
proof -
  have f: "sr_status (complete_row st ra le t (claim_row w l now r)) = st"
    "sr_attempts (complete_row st ra le t (claim_row w l now r)) = sr_attempts r + 1"
    "sr_max_attempts (complete_row st ra le t (claim_row w l now r)) = sr_max_attempts r"
    by (simp_all add: complete_row_fields claim_row_def)
  show ?thesis
  proof (cases "st = ''retry''")
    case True
    with assms(2) have "max 0 (sr_attempts r + 1) < max 1 (sr_max_attempts r)" unfolding settled_def assms(3,4) by auto
    with assms(1) True f show ?thesis by (simp add: runs_left_def sync_active_def)
  next
    case False
    with assms(2) f have "\<not> sync_active (complete_row st ra le t (claim_row w l now r))"
      unfolding settled_def sync_active_def by auto
    with assms(1) show ?thesis by (simp add: runs_left_def)
  qed
qed

lemma jobs_from_rows_Inr:
  assumes "jobs_from_rows rows = Inr jobs" and "\<And>r. r \<in> set rows \<Longrightarrow> clean_text (JStr (sr_id r)) = Some (sr_id r)"
  shows "list_all2 (\<lambda>job r. cj_id job = sr_id r \<and> cj_attempts job = sr_attempts r \<and> cj_max_attempts job = sr_max_attempts r) jobs rows"
  using assms
  by (induction rows arbitrary: jobs)
     (auto simp: claimed_sync_job_from_row_def split: sum.splits)

lemma process_jobs_other:
  "j \<notin> cj_id ` set jobs \<Longrightarrow> [] \<notin> cj_id ` set jobs \<Longrightarrow> row_of j (process_jobs rx run now jobs table) = row_of j table"
proof (induction jobs arbitrary: table)
  case (Cons job jobs)
  then have "cj_id job \<noteq> []" by auto
  then obtain st ra le where p: "process_claimed_job rx run now job table =
      map (\<lambda>r. if sr_id r = cj_id job then complete_row st ra le now r else r) table"
    by (rule process_claimed_job_row)
  have "row_of j (process_claimed_job rx run now job table) = row_of j table"
    unfolding p using Cons.prems(1) row_of_id [of j table] by (subst row_of_map) (cases "row_of j table"; auto)+
  with Cons show ?case by simp
qed simp

lemma process_jobs_row:
  assumes "distinct (map cj_id jobs)" and "[] \<notin> cj_id ` set jobs" and "job \<in> set jobs" and "row_of (cj_id job) table = Some r"
  shows "\<exists>st ra le. row_of (cj_id job) (process_jobs rx run now jobs table) = Some (complete_row st ra le now r) \<and> settled job st"
  using assms
proof (induction jobs arbitrary: table)
  case (Cons a jobs)
  then have "cj_id a \<noteq> []" by auto
  then obtain st ra le where p: "process_claimed_job rx run now a table =
      map (\<lambda>r. if sr_id r = cj_id a then complete_row st ra le now r else r) table" and st: "settled a st"
    by (rule process_claimed_job_row)
  have u: "row_of (cj_id job) (process_claimed_job rx run now a table) =
      Some (if sr_id r = cj_id a then complete_row st ra le now r else r)"
    unfolding p using Cons.prems(4) by (subst row_of_map) auto
  show ?case
  proof (cases "job = a")
    case True
    with Cons.prems u row_of_id [OF Cons.prems(4)] process_jobs_other [of "cj_id a" jobs rx run now] st
    show ?thesis by auto
  next
    case False
    with Cons.prems have "job \<in> set jobs" "cj_id a \<notin> cj_id ` set jobs" by auto
    then have "cj_id job \<noteq> cj_id a" by (metis imageI)
    with \<open>job \<in> set jobs\<close> u row_of_id [OF Cons.prems(4)] Cons show ?thesis by auto
  qed
qed simp

text \<open>What a claim returns: the rows it marked, each with one more attempt.\<close>

lemma claim_effect:
  assumes "claim_sync_jobs worker limit lease now table = (res, table')" and "clean_ids table"
  obtains (same) "table' = table" and "\<exists>e. res = Inl e"
  | (claimed) w l ids where "table' = map (\<lambda>r. if sr_id r \<in> ids then claim_row w l now r else r) table"
    and "\<And>r. r \<in> set table \<Longrightarrow> sr_id r \<in> ids \<Longrightarrow> sync_active r"
    and "res = jobs_from_rows (claim_order (filter (\<lambda>r. sr_id r \<in> ids) table'))"
proof (cases "clean_text (json_of worker)")
  case None
  with assms(1) same show thesis by (auto simp: claim_sync_jobs_def)
next
  case (Some w)
  let ?l = "max 1 lease" and ?rows = "take (nat (max 1 limit)) (claim_order (filter (claimable now) table))"
  let ?ids = "sr_id ` set ?rows"
  have "sync_active r" if "r \<in> set table" "sr_id r \<in> ?ids" for r
  proof -
    from that(2) obtain r' where "r' \<in> set ?rows" "sr_id r' = sr_id r" by auto
    then have "r' \<in> set table" "claimable now r'" by (auto simp: claim_order_def dest!: in_set_takeD)
    with \<open>sr_id r' = sr_id r\<close> row_of_unique [of table] that(1) assms(2) have "r' = r" unfolding clean_ids_def by (metis option.inject)
    with \<open>claimable now r'\<close> show ?thesis using claimable_active by blast
  qed
  moreover have "table' = map (\<lambda>r. if sr_id r \<in> ?ids then claim_row w ?l now r else r) table"
    "res = jobs_from_rows (claim_order (filter (\<lambda>r. sr_id r \<in> ?ids) table'))"
    using assms(1) Some by (auto simp: claim_sync_jobs_def sp_billing_sync_job_claim_def Let_def)
  ultimately show thesis using claimed by blast
qed

lemma list_all2_member: "list_all2 Q xs ys \<Longrightarrow> x \<in> set xs \<Longrightarrow> \<exists>y \<in> set ys. Q x y"
  by (induction rule: list_all2_induct) auto

lemma filter_key: "distinct (map f xs) \<Longrightarrow> x \<in> set xs \<Longrightarrow> filter (\<lambda>y. f y = f x) xs = [x]"
  by (induction xs) (auto simp: filter_empty_conv image_iff)

lemma claimed_jobs:
  assumes "jobs_from_rows (claim_order (filter P table)) = Inr jobs" and "clean_ids table"
  shows "distinct (map cj_id jobs)" and "[] \<notin> cj_id ` set jobs"
    and "job \<in> set jobs \<Longrightarrow> \<exists>r. row_of (cj_id job) table = Some r \<and> P r \<and> cj_attempts job = sr_attempts r \<and> cj_max_attempts job = sr_max_attempts r"
proof -
  let ?rows = "claim_order (filter P table)"
  have c: "r \<in> set ?rows \<Longrightarrow> clean_text (JStr (sr_id r)) = Some (sr_id r) \<and> r \<in> set table \<and> P r" for r
    using assms(2) by (auto simp: clean_ids_def claim_order_def list_all_iff)
  note l = jobs_from_rows_Inr [OF assms(1) conjunct1 [OF c]]
  have i: "map cj_id js = map sr_id rs" if "list_all2 (\<lambda>job r. cj_id job = sr_id r \<and> Q job r) js rs" for js rs Q
    using that by (induction rule: list_all2_induct) auto
  have ids: "map cj_id jobs = map sr_id ?rows" by (rule i [OF l])
  have "distinct (map sr_id (filter P table))" using assms(2) by (simp add: clean_ids_def distinct_map_filter)
  moreover have "set ?rows = set (filter P table)" "distinct ?rows = distinct (filter P table)" by (simp_all add: claim_order_def)
  ultimately have "distinct (map sr_id ?rows)" by (simp only: distinct_map)
  with ids show "distinct (map cj_id jobs)" by (simp only:)
  have "cj_id ` set jobs = sr_id ` set ?rows" using arg_cong [OF ids, of set] by simp
  moreover have "clean_text (JStr []) = None" by (simp add: clean_text_def str_strip_def)
  then have "[] \<notin> sr_id ` set ?rows" using conjunct1 [OF c] by (metis imageE option.distinct(1))
  ultimately show "[] \<notin> cj_id ` set jobs" by simp
  assume "job \<in> set jobs"
  then obtain r where "r \<in> set ?rows" "cj_id job = sr_id r" "cj_attempts job = sr_attempts r" "cj_max_attempts job = sr_max_attempts r"
    using list_all2_member [OF l] by blast
  moreover have "row_of (sr_id r) table = Some r" "P r"
    using c [OF \<open>r \<in> set ?rows\<close>] assms(2) by (auto simp: clean_ids_def intro: row_of_unique)
  ultimately show "\<exists>r. row_of (cj_id job) table = Some r \<and> P r \<and> cj_attempts job = sr_attempts r \<and> cj_max_attempts job = sr_max_attempts r"
    by (intro exI [of _ r]) simp
qed

lemma pass_uses_attempts:
  assumes "process_queued_jobs rx run worker limit lease now later table = (jobs, table2)" and "clean_ids table"
    and "row_of j table = Some r"
  shows "\<exists>r'. row_of j table2 = Some r' \<and> runs_left r' + int (length (filter (\<lambda>job. cj_id job = j) jobs)) \<le> runs_left r"
proof -
  obtain res table' where c: "claim_sync_jobs worker limit lease now table = (res, table')"
    by (cases "claim_sync_jobs worker limit lease now table")
  from c assms(2) show ?thesis
  proof (cases rule: claim_effect)
    case same
    with assms(1,3) c show ?thesis by (auto simp: process_queued_jobs_def)
  next
    case (claimed w l ids)
    let ?g = "\<lambda>r. if sr_id r \<in> ids then claim_row w l now r else r"
    have r': "row_of j table' = Some (?g r)" unfolding claimed(1) using assms(3) by (subst row_of_map) auto
    have clean: "clean_ids table'" using assms(2) unfolding clean_ids_def claimed(1) by (simp add: comp_def if_distrib cong: if_cong)
    have active: "sr_id r \<in> ids \<Longrightarrow> sync_active r" using claimed(2) row_of_id [OF assms(3)] by blast
    then have less: "runs_left (?g r) \<le> runs_left r" using runs_left_claim by simp
    show ?thesis
    proof (cases res)
      case (Inl e)
      with assms(1) c r' less show ?thesis by (auto simp: process_queued_jobs_def)
    next
      case (Inr js)
      with assms(1) c have js: "jobs = js" "table2 = process_jobs rx run later jobs table'" by (auto simp: process_queued_jobs_def)
      note cj = claimed_jobs [OF claimed(3) [unfolded Inr, symmetric] clean, folded js(1)]
      show ?thesis
      proof (cases "j \<in> cj_id ` set jobs")
        case False
        then have "filter (\<lambda>job. cj_id job = j) jobs = []" by (auto simp: filter_empty_conv)
        with False process_jobs_other [OF False cj(2)] r' less js(2) show ?thesis by auto
      next
        case True
        then obtain job where job: "job \<in> set jobs" "cj_id job = j" by auto
        from cj(3) [OF job(1)] job(2) r' row_of_id [OF assms(3)] row_of_id [OF r']
        have a: "sr_id r \<in> ids" "cj_attempts job = sr_attempts r + 1" "cj_max_attempts job = sr_max_attempts r"
          by (auto simp: claim_row_def split: if_splits)
        obtain st ra le where "row_of j table2 = Some (complete_row st ra le later (claim_row w l now r))" "settled job st"
          using process_jobs_row [OF cj(1,2) job(1), of table' "?g r" rx run later] job(2) r' a(1) js(2) by auto
        moreover have "length (filter (\<lambda>job. cj_id job = j) jobs) = 1"
          using filter_key [OF cj(1) job(1)] job(2) by simp
        ultimately show ?thesis using runs_left_settled [OF active _ a(2,3)] a(1) by auto
      qed
    qed
  qed
qed

lemma complete_job_ids: "map sr_id (complete_job rx i st ra le now table) = map sr_id table"
  by (simp add: complete_job_def complete_sync_job_def sp_billing_sync_job_complete_def Let_def)

lemma process_jobs_ids: "map sr_id (process_jobs rx run now jobs table) = map sr_id table"
proof (induction jobs arbitrary: table)
  case (Cons job jobs)
  from process_completes [of "\<lambda>_. True" job rx run now table]
  have "map sr_id (process_claimed_job rx run now job table) = map sr_id table" using complete_job_ids by auto
  with Cons show ?case by simp
qed simp

lemma pass_clean:
  assumes "process_queued_jobs rx run worker limit lease now later table = (jobs, table2)" and "clean_ids table"
  shows "clean_ids table2"
proof -
  obtain res table' where c: "claim_sync_jobs worker limit lease now table = (res, table')"
    by (cases "claim_sync_jobs worker limit lease now table")
  from c assms(2) have "map sr_id table' = map sr_id table" by (cases rule: claim_effect) auto
  moreover have "map sr_id table2 = map sr_id table'"
    using assms(1) c process_jobs_ids by (auto simp: process_queued_jobs_def split: sum.splits)
  ultimately show ?thesis using assms(2) unfolding clean_ids_def by (simp only:)
qed

section \<open>Any number of passes\<close>

record sync_pass =
  sp_run :: "claimed_job \<Rightarrow> run_outcome"
  sp_worker :: "string option"
  sp_limit :: int
  sp_lease :: int
  sp_now :: int
  sp_later :: int

fun runs_of :: "string \<Rightarrow> billing_regexes \<Rightarrow> sync_pass list \<Rightarrow> sync_row list \<Rightarrow> nat" where
  "runs_of j rx [] table = 0"
| "runs_of j rx (p # ps) table =
     (case process_queued_jobs rx (sp_run p) (sp_worker p) (sp_limit p) (sp_lease p) (sp_now p) (sp_later p) table of
        (jobs, table') \<Rightarrow> length (filter (\<lambda>job. cj_id job = j) jobs) + runs_of j rx ps table')"

lemma runs_within_budget:
  "clean_ids table \<Longrightarrow> row_of j table = Some r \<Longrightarrow> int (runs_of j rx ps table) \<le> runs_left r"
proof (induction ps arbitrary: table r)
  case Nil
  have "0 \<le> runs_left r" unfolding runs_left_def by (cases "sync_active r") auto
  then show ?case by simp
next
  case (Cons p ps)
  obtain jobs table2 where p: "process_queued_jobs rx (sp_run p) (sp_worker p) (sp_limit p) (sp_lease p) (sp_now p) (sp_later p) table = (jobs, table2)"
    by fastforce
  from pass_uses_attempts [OF p Cons.prems] obtain r' where
    "row_of j table2 = Some r'" "runs_left r' + int (length (filter (\<lambda>job. cj_id job = j) jobs)) \<le> runs_left r" by blast
  with Cons.IH [OF pass_clean [OF p Cons.prems(1)]] p show ?case by fastforce
qed

text \<open>
  The first failure of a claimed job is retried after the second step of the backoff: the claim has
  already counted the attempt, so the delay of 60 seconds is never used.
\<close>

lemma first_retry_skips_first_delay:
  assumes "sr_attempts row = 0" and "1 < sr_max_attempts row"
  shows "bd_retry_after_seconds (decide_retry_backoff 0 (sr_attempts (claim_row w l now row)) (sr_max_attempts row) None
     DEFAULT_SYNC_BACKOFF_SECONDS) = Some 300"
  using assms by (simp add: decide_retry_backoff_def claim_row_def DEFAULT_SYNC_BACKOFF_SECONDS_def Let_def)

text \<open>The table admits the job type \<^verbatim>\<open>manual\<close>; a claimed row of that type is refused.\<close>

lemma manual_job_refused: "isl (normalize_job_type (Some ''manual''))"
  by code_simp

definition demo_job :: sync_row where
  "demo_job = \<lparr>sr_id = ''job1'', sr_provider = ''stripe'', sr_job_type = ''customer'', sr_status = ''pending'', sr_priority = 5,
     sr_not_before = 0, sr_attempts = 0, sr_max_attempts = 2, sr_claimed_by = None, sr_claimed_at = None, sr_lease_until = None,
     sr_completed_at = None, sr_last_error = None, sr_created_at = 0\<rparr>"

definition demo_pass :: "int \<Rightarrow> sync_pass" where
  "demo_pass now = \<lparr>sp_run = (\<lambda>_. Provider_Failure ''boom'' 0), sp_worker = Some ''w1'', sp_limit = 25, sp_lease = 300,
     sp_now = now, sp_later = now + 1\<rparr>"

definition demo_sync_regexes :: billing_regexes where
  "demo_sync_regexes = \<lparr>sanitize_text = (\<lambda>s. s), raw_stripe_id = (\<lambda>s. False), raw_stripe_secret = (\<lambda>s. False),
     stripe_signature = (\<lambda>s. False)\<rparr>"

lemma demo_passes: "runs_of ''job1'' demo_sync_regexes (map demo_pass [0, 400, 800, 1200]) [demo_job] = 2"
  by code_simp



end
