(* ===== verification/Spec2Isabelle.thy ===== *)
theory Spec2Isabelle
  imports Email_Addresses Password_Policy Group_Scope Stripe_Classifier Patreon_Classifier Stripe_Rate Billing_Sync
begin

text \<open>
  Verification of api.auth, a multi-project authentication and authorization service: a FastAPI
  application over MySQL stored procedures and Redis. The application issues token pairs for a user
  and a project, validates them on every request, rotates and revokes them, links accounts of OAuth
  providers, confines administrators to their projects, and projects the billing facts of Stripe and
  Patreon to entitlements. Paths below are relative to \<^verbatim>\<open>src/src/\<close>.

  \<^bold>\<open>Shared vocabulary.\<close> \<open>Prelude\<close> holds Python values as the datatype \<open>json\<close>, dictionaries as partial maps
  and the operators \<^verbatim>\<open>d.get\<close>, \<^verbatim>\<open>or\<close>, \<^verbatim>\<open>bool\<close>, \<^verbatim>\<open>str\<close>, \<^verbatim>\<open>int\<close>; instants are integers in microseconds and a
  stored ISO text is the value \<open>JTime\<close> of its instant. \<open>Text\<close> holds the string methods, exact on code
  points below 256, and the text helpers that the billing modules share. \<open>Redis\<close> and \<open>Rate_Window\<close> hold the
  two views of Redis the code uses: documents and sets (\<open>redis_store\<close>), and counters whose commands may
  raise (\<open>counter_store\<close>). Both are parameters of the model, records of commands, with the documented laws as
  a locale that in-memory servers interpret.

  \<^bold>\<open>Tokens and sessions.\<close> \<open>Jwt\<close> models \<^verbatim>\<open>Util/JWT_Security.py\<close>: payloads, typed decoding and its errors; signing
  is PyJWT, the locale \<open>jwt_codec\<close>. \<open>Lifecycle\<close> models \<^verbatim>\<open>Util/auth_lifecycle.py\<close> function by function: the session,
  family, refresh and anchor documents, \<^verbatim>\<open>_issue_token_pair\<close>, \<^verbatim>\<open>reconstruct_auth_context\<close>,
  \<^verbatim>\<open>validate_access_session\<close>, \<^verbatim>\<open>rotate_refresh_family\<close> split at its Redis transaction, replay classification and
  every revocation. The database is a record of functions. \<open>Lifecycle_Effects\<close>, \<open>Lifecycle_Weaken\<close> and
  \<open>Lifecycle_Steps\<close> say what each operation writes and keeps; \<open>Lifecycle_Machine\<close> has the step relation of
  concurrent requests, in which a rotation is prepared in one step and committed by its transaction in a later
  one; \<open>Lifecycle_Access\<close>, \<open>Lifecycle_Rotation\<close> and \<open>Lifecycle_Revoke\<close> hold the lemmas of the three groups of
  operations and \<open>Lifecycle_Props\<close> the properties: a refresh token is exchanged at most once in every
  interleaving, a revoked family never returns, validation succeeds exactly when token, session, family and
  entitlement are in order, a rotation refines the abstract family view, a remembered login never outlives its
  end, and revocation reaches what it names.

  \<^bold>\<open>OAuth.\<close> \<open>OAuth_State\<close> models \<^verbatim>\<open>Util/oauth_state.py\<close>: states, completion and reauthentication markers and their
  lifetimes; \<open>OAuth_Machine\<close> the interleavings of requests on one state. \<open>OAuth_Authorize\<close> models
  \<^verbatim>\<open>authorize_oauth_session\<close> with the optimistic transaction and its bound of three passes: the requests of
  others are a schedule that may change the store between the reads and the commit. \<open>OAuth_Connections\<close> models
  \<^verbatim>\<open>Util/oauth/db_source.py\<close> and \<^verbatim>\<open>connections.py\<close>, which decide from a database row whether a provider may be used
  for a project; \<open>OAuth_Identity\<close> models \<^verbatim>\<open>Util/oauth/identity.py\<close> and the procedures that look up, link, unlink and
  create external accounts. \<open>OAuth_Pipeline\<close> models \<^verbatim>\<open>Util/oauth/pipeline.py\<close> up to \<^verbatim>\<open>handle_callback\<close>, with the provider
  adapters as an argument; \<open>OAuth_Callback\<close> holds its properties; \<open>OAuth_Start\<close> models the init tokens, the three ways
  to start and the unlinking. The properties are single use, that authorization succeeds only in an undisturbed
  pass whose state still allows it, that an identity stays with its user, and that a callback acts for exactly the
  user, session, project and connection its start was bound to.

  \<^bold>\<open>API keys.\<close> \<open>API_Keys\<close> models \<^verbatim>\<open>Util/api_key_security.py\<close>, the key procedures of \<^verbatim>\<open>src/schemas\<close>, their cache and the
  key validations of \<^verbatim>\<open>middleware/authentication.py\<close> and \<^verbatim>\<open>middleware/auth_context.py\<close>, which share it. \<open>API_Key_Machine\<close> interleaves validations, split between lookup
  and cache write, with changes of keys, cache failures and time (the locale \<open>expiring_store\<close> extends the laws of the
  store by its clock): an admitted request acts as the key whose secret it carries, a created key authenticates,
  and a revoked one is refused. \<open>API_Key_Routes\<close> models the access checks of the middleware and the handlers of
  \<^verbatim>\<open>routes/user_api_keys.py\<close> and \<^verbatim>\<open>routes/api_keys.py\<close>, which change only keys the caller owns or administers.

  \<^bold>\<open>Logging in and out.\<close> \<open>Password_Work\<close> models \<^verbatim>\<open>Util/password_work.py\<close>: the admission script on two counters and the pool
  of workers. \<open>Auth_Routes\<close> models the handlers of \<^verbatim>\<open>routes/auth.py\<close> that log in to a project or the platform, refresh,
  switch the project and log out, with the account lookup of \<^verbatim>\<open>Util/db/db_users.py\<close> and its procedure. It composes the
  admission, the login limiter, the token lifecycle and the recent-authentication check: a login succeeds exactly when
  all of them and the access policy agree, a logout is final, a switch keeps family and sign-in time, and a refused
  refresh carries the code of its cause.

  \<^bold>\<open>Passwords and e-mail links.\<close> \<open>Password_Policy\<close> models the policy of \<^verbatim>\<open>Util/password_security.py\<close> and says in plain terms
  what each rule refuses. \<open>Email_Links\<close> models the link tokens of \<^verbatim>\<open>Util/email/security.py\<close> and the procedures of
  \<^verbatim>\<open>14_email_activation.sql\<close> under \<^verbatim>\<open>src/schemas\<close> that add, activate, remove and erase addresses, issue and consume
  activation and reset links, and keep the idempotency ledger. \<open>Email_Machine\<close> interleaves them with every other
  statement that writes addresses, links or passwords: a reset link sets a password at most once, only while it is
  the open one of its account and only for the password it was issued under. \<open>Email_Addresses\<close> shows that an activated
  address and a primary are unique, which links activate an address, and where links are mailed to.

  \<^bold>\<open>Administration.\<close> \<open>Admin_Scope\<close> models \<^verbatim>\<open>Util/admin_scope.py\<close> and \<open>Group_Scope\<close> models
  \<^verbatim>\<open>Util/admin_group_scope.py\<close> with \<^verbatim>\<open>Util/db_transaction.py\<close>: tables are lists of rows, a handler is a function
  on the tables, and the decorator runs it in a transaction after the preflight. The properties confine a
  request to the assigned projects, make a failed request leave no trace, and equate the SQL page filter with
  the Python check.

  \<^bold>\<open>Billing.\<close> \<open>Billing_Status\<close> models \<^verbatim>\<open>Util/billing/status.py\<close>, \<open>Billing_Redaction\<close> models
  \<^verbatim>\<open>Util/billing/redaction.py\<close> over the compiled regular expressions as an argument, \<open>Stripe_Classifier\<close> and
  \<open>Patreon_Classifier\<close> the two classifiers, \<open>Billing_Sync\<close> the resync queue: \<^verbatim>\<open>Util/billing/sync.py\<close>, the claim and
  completion procedures of \<^verbatim>\<open>src/schemas\<close> and the pass of \<^verbatim>\<open>workers/billing_sync_worker.py\<close>. The properties are that
  statuses fail closed, printing and reading agree, redaction is complete, a paid plan is earned, partial reads
  take nothing away, and the runs of a job are bounded by its attempts.

  \<^bold>\<open>Rate limits.\<close> \<open>Rate_Window\<close> is the fixed window that the limiters share, with its failures: a command that
  raises may have been carried out. A schedule is a list of operations and waits; an operation that keeps the
  pace of a key (\<open>paces\<close>) never lowers its counter, never extends its window, and lets a request through only
  below the limit. \<open>Email_Rate\<close>, \<open>Patreon_Rate\<close>, \<open>OAuth_Rate\<close> and \<open>Stripe_Rate\<close> show this of every operation of the
  four \<^verbatim>\<open>rate_limit.py\<close> modules, the last two through the locale \<open>keyed_limiter\<close>; the bounds hold for every schedule.

  \<^bold>\<open>Atomicity and bounds.\<close> A step of the token and OAuth machines is one request up to its transaction, or the
  transaction; a step of the key machine is a lookup, a cache write or a change; a call of a limiter is one step. The
  three passes of \<^verbatim>\<open>authorize_oauth_session\<close> are kept as they are, the paging loop of \<^verbatim>\<open>routes/api_keys.py\<close> ends by the
  measure of the rows it has not reached, and every other loop is over a finite collection, so no fuel is needed and
  every definition is total.

  \<^bold>\<open>Not modelled.\<close> Other route handlers, the framework and the ORM enter as arguments of the modelled operations.
  Cryptography (JWT signatures, SHA-256, HMAC, password hashing), regular expressions and provider SDKs are
  third-party. Logging, metrics, e-mail rendering, the outbox worker, configuration and response formatting do not take
  part in the decisions. Left out: the billing idempotency ledger, the enqueueing of sync jobs, the sync decisions
  of Patreon, registration, the handlers around the e-mail procedures, and the listing handlers.
\<close>

end
